(* ===== verification/Py_Prelude.thy ===== *)
theory Py_Prelude
  imports Main "HOL-Library.AList" "HOL-Library.Multiset" "HOL-Library.Char_ord" "HOL-Library.List_Lexorder"
begin

section \<open>Prelude: Python strings, dictionaries and JSON values\<close>

text \<open>
  The parts of Python's built-in types that the scripts under \<open>ci/\<close> use: \<open>str\<close> methods
  on ASCII text (\<open>string\<close>, a list of \<open>char\<close>), decimal numerals, \<open>dict\<close> as an association
  list in insertion order (\<open>AList.update\<close> replaces in place or appends, as assignment to a
  key does), and the JSON values that metadata and configuration files hold.
  The collections below are the simplifier's vocabulary for the component theories:
  \<open>py_str\<close> unfolds string predicates, \<open>py_dict\<close> reads dictionaries back.
\<close>

named_theorems py_str
named_theorems py_dict

subsection \<open>Generic list facts\<close>

lemma takeWhile_all_conv: "(\<forall>x \<in> set xs. P x) \<Longrightarrow> takeWhile P xs = xs"
  by (induction xs) auto

lemma dropWhile_append_stop:
  "(\<forall>x \<in> set xs. P x) \<Longrightarrow> \<not> P y \<Longrightarrow> dropWhile P (xs @ y # ys) = y # ys"
  by (induction xs) auto

lemma takeWhile_append_stop:
  "(\<forall>x \<in> set xs. P x) \<Longrightarrow> \<not> P y \<Longrightarrow> takeWhile P (xs @ y # ys) = xs"
  by (induction xs) auto

lemma map_sum_Inr: "map_sum f g s = Inr y \<longleftrightarrow> (\<exists>x. s = Inr x \<and> y = g x)"
  by (cases s) auto

lemma map_sum_Inl: "map_sum f g s = Inl y \<longleftrightarrow> (\<exists>x. s = Inl x \<and> y = f x)"
  by (cases s) auto

text \<open>Loops that stop at the first error: collecting lists, and threading a state.\<close>

fun concat_sum :: "('a \<Rightarrow> 'e + 'b list) \<Rightarrow> 'a list \<Rightarrow> 'e + 'b list" where
  "concat_sum f [] = Inr []"
| "concat_sum f (x # xs) = (case f x of Inl e \<Rightarrow> Inl e | Inr ys \<Rightarrow> map_sum id (\<lambda>zs. ys @ zs) (concat_sum f xs))"

lemma concat_sum_set: "concat_sum f xs = Inr ys \<Longrightarrow> (\<forall>x \<in> set xs. \<exists>zs. f x = Inr zs) \<and> (y \<in> set ys \<longleftrightarrow> (\<exists>x zs. x \<in> set xs \<and> f x = Inr zs \<and> y \<in> set zs))"
proof (induction xs arbitrary: ys)
  case (Cons x xs)
  then obtain zs us where 1: "f x = Inr zs" "concat_sum f xs = Inr us" "ys = zs @ us"
    by (auto simp: map_sum_Inr split: sum.splits)
  from Cons.IH[OF this(2)] 1 show ?case by auto
qed simp

fun fold_sum :: "('s \<Rightarrow> 'a \<Rightarrow> 'e + 's) \<Rightarrow> 's \<Rightarrow> 'a list \<Rightarrow> 'e + 's" where
  "fold_sum f s [] = Inr s"
| "fold_sum f s (x # xs) = (case f s x of Inl e \<Rightarrow> Inl e | Inr t \<Rightarrow> fold_sum f t xs)"

lemma run_unique:
  assumes "u @ y # v = u' @ y' # v'"
    and "\<forall>x \<in> set u. p x" "\<forall>x \<in> set u'. p x" "\<not> p y" "\<not> p y'"
  shows "u = u' \<and> y = y' \<and> v = v'"
  using assms
proof (induction u arbitrary: u')
  case Nil
  then show ?case by (cases u') auto
next
  case (Cons x u)
  then show ?case by (cases u') auto
qed

lemma find_Some_mem: "find P xs = Some x \<Longrightarrow> x \<in> set xs \<and> P x"
  by (metis find_Some_iff nth_mem)

lemma sort_key_Nil [simp]: "sort_key f xs = [] \<longleftrightarrow> xs = []" "[] = sort_key f xs \<longleftrightarrow> xs = []"
  by (metis length_0_conv length_sort)+

lemma distinct_sorted_list_of: "finite A \<Longrightarrow> distinct (sorted_list_of_set A)"
  by simp

subsection \<open>String predicates: startswith, endswith, in\<close>

definition startswith :: "string \<Rightarrow> string \<Rightarrow> bool" where
  "startswith s p = (take (length p) s = p)"

definition endswith :: "string \<Rightarrow> string \<Rightarrow> bool" where
  "endswith s p = startswith (rev s) (rev p)"

fun contains :: "string \<Rightarrow> string \<Rightarrow> bool" where
  \<comment> \<open>\<open>contains s p\<close> is Python's \<open>p in s\<close>.\<close>
  "contains [] p = (p = [])"
| "contains (c # s) p = (startswith (c # s) p \<or> contains s p)"

definition removeprefix :: "string \<Rightarrow> string \<Rightarrow> string" where
  "removeprefix s p = (if startswith s p then drop (length p) s else s)"

definition removesuffix :: "string \<Rightarrow> string \<Rightarrow> string" where
  "removesuffix s p = (if endswith s p \<and> p \<noteq> [] then take (length s - length p) s else s)"

lemma startswith_iff [py_str]: "startswith s p \<longleftrightarrow> (\<exists>t. s = p @ t)"
  by (metis append_eq_conv_conj append_take_drop_id startswith_def)

lemma endswith_iff [py_str]: "endswith s p \<longleftrightarrow> (\<exists>t. s = t @ p)"
proof
  assume "endswith s p"
  then obtain t where "rev s = rev p @ t" by (auto simp: endswith_def startswith_iff)
  then have "s = rev t @ p" by (metis rev_append rev_rev_ident)
  then show "\<exists>t. s = t @ p" ..
qed (auto simp: endswith_def startswith_iff)

lemma contains_iff [py_str]: "contains s p \<longleftrightarrow> (\<exists>a b. s = a @ p @ b)"
proof (induction s)
  case (Cons c s)
  show ?case
  proof
    assume "contains (c # s) p"
    then consider "startswith (c # s) p" | "contains s p" by auto
    then show "\<exists>a b. c # s = a @ p @ b"
    proof cases
      case 1
      then obtain t where "c # s = [] @ p @ t" by (auto simp: startswith_iff)
      then show ?thesis by blast
    next
      case 2
      with Cons.IH obtain a b where "s = a @ p @ b" by blast
      then have "c # s = (c # a) @ p @ b" by simp
      then show ?thesis by blast
    qed
  next
    assume "\<exists>a b. c # s = a @ p @ b"
    then obtain a b where ab: "c # s = a @ p @ b" by blast
    show "contains (c # s) p"
    proof (cases a)
      case Nil
      with ab have "startswith (c # s) p" by (auto simp: startswith_iff)
      then show ?thesis by simp
    next
      case (Cons d a')
      with ab have "s = a' @ p @ b" by simp
      with Cons.IH show ?thesis by auto
    qed
  qed
qed auto

lemma startswith_append [simp]: "startswith (p @ t) p"
  by (simp add: startswith_def)

lemma endswith_append [simp]: "endswith (t @ p) p"
  by (auto simp: endswith_iff)

lemma removeprefix_append [simp]: "removeprefix (p @ t) p = t"
  by (simp add: removeprefix_def)

lemma removesuffix_append [simp]: "removesuffix (t @ p) p = t"
  by (simp add: removesuffix_def)

subsection \<open>White space: strip, split, splitlines\<close>

definition is_ws :: "char \<Rightarrow> bool" where
  \<comment> \<open>The ASCII characters \<open>str.isspace\<close> (and \<open>\s\<close> in a \<open>str\<close> pattern) accepts.\<close>
  "is_ws c = (let n = (of_char c :: nat) in 9 \<le> n \<and> n \<le> 13 \<or> 28 \<le> n \<and> n \<le> 32)"

definition is_linebreak :: "char \<Rightarrow> bool" where
  \<comment> \<open>The ASCII line boundaries of \<open>str.splitlines\<close>.\<close>
  "is_linebreak c = (let n = (of_char c :: nat) in 10 \<le> n \<and> n \<le> 13 \<or> 28 \<le> n \<and> n \<le> 30)"

abbreviation nl :: char where "nl \<equiv> CHR 0x0A"
abbreviation cr :: char where "cr \<equiv> CHR 0x0D"
abbreviation tab :: char where "tab \<equiv> CHR 0x09"

definition lstrip :: "string \<Rightarrow> string" where
  "lstrip s = dropWhile is_ws s"

definition rstrip :: "string \<Rightarrow> string" where
  "rstrip s = rev (dropWhile is_ws (rev s))"

definition strip :: "string \<Rightarrow> string" where
  "strip s = rstrip (lstrip s)"

lemma is_linebreak_ws: "is_linebreak c \<Longrightarrow> is_ws c"
  by (auto simp: is_linebreak_def is_ws_def Let_def)

lemma strip_id:
  assumes "s = [] \<or> \<not> is_ws (hd s) \<and> \<not> is_ws (last s)"
  shows "strip s = s"
proof (cases "s = []")
  case False
  with assms have "\<not> is_ws (hd s)" "\<not> is_ws (hd (rev s))" by (auto simp: hd_rev)
  with False have "dropWhile is_ws s = s" "dropWhile is_ws (rev s) = rev s"
    by (auto simp: dropWhile_eq_self_iff)
  then show ?thesis by (simp add: strip_def rstrip_def lstrip_def)
qed (simp add: strip_def rstrip_def lstrip_def)

lemma strip_Nil [simp]: "strip [] = []"
  by (simp add: strip_id)

fun splitlines :: "string \<Rightarrow> string list" where
  "splitlines [] = []"
| "splitlines (c # s) =
     (if c = cr \<and> startswith s [nl] then [] # splitlines (tl s)
      else if is_linebreak c then [] # splitlines s
      else (case splitlines s of [] \<Rightarrow> [[c]] | l # ls \<Rightarrow> (c # l) # ls))"

text \<open>
  The line structure above is only right when the break ends the first line: a line of the
  result is extended by the characters in front of it, and a break starts a new line.
\<close>

lemma splitlines_no_break: "l \<in> set (splitlines s) \<Longrightarrow> c \<in> set l \<Longrightarrow> \<not> is_linebreak c"
proof (induction s arbitrary: l rule: splitlines.induct)
  case (2 d s)
  show ?case
  proof (cases "d = cr \<and> startswith s [nl] \<or> is_linebreak d")
    case True
    then show ?thesis using 2 by (auto split: if_splits)
  next
    case False
    then have ls: "splitlines (d # s) = (case splitlines s of [] \<Rightarrow> [[d]] | k # ks \<Rightarrow> (d # k) # ks)"
      by (auto simp: is_linebreak_def)
    show ?thesis
    proof (cases "splitlines s")
      case Nil
      then show ?thesis using ls "2.prems" False by auto
    next
      case (Cons k ks)
      have IH: "l' \<in> set (splitlines s) \<Longrightarrow> c \<in> set l' \<Longrightarrow> \<not> is_linebreak c" for l'
        using "2.IH"(3) False by (auto simp: is_linebreak_def)
      from ls Cons "2.prems" have "l = d # k \<or> l \<in> set ks" by auto
      then show ?thesis using IH[of k] IH[of l] Cons "2.prems"(2) False by auto
    qed
  qed
qed simp

lemma splitlines_line:
  assumes "\<forall>c \<in> set l. \<not> is_linebreak c"
  shows "splitlines (l @ nl # s) = l # splitlines s"
proof -
  have b: "is_linebreak nl" "nl \<noteq> cr" by (simp_all add: is_linebreak_def)
  have "splitlines (nl # s) = [] # splitlines s" using b by simp
  then show ?thesis using assms
  proof (induction l)
    case (Cons c l)
    have "\<not> is_linebreak c" "c \<noteq> cr" using Cons.prems(2) by (auto simp: is_linebreak_def)
    with Cons show ?case by simp
  qed simp
qed

lemma splitlines_unlines:
  assumes "\<forall>l \<in> set ls. \<forall>c \<in> set l. \<not> is_linebreak c"
  shows "splitlines (concat (map (\<lambda>l. l @ [nl]) ls)) = ls"
  using assms
proof (induction ls)
  case (Cons l ls)
  have "splitlines (l @ nl # concat (map (\<lambda>l. l @ [nl]) ls))
        = l # splitlines (concat (map (\<lambda>l. l @ [nl]) ls))"
    using Cons.prems by (intro splitlines_line) simp
  with Cons show ?case by simp
qed simp

lemma splitlines_append_nl: "splitlines (t @ nl # s) = splitlines (t @ [nl]) @ splitlines s"
proof (induction t rule: splitlines.induct)
  case 1
  have "is_linebreak nl" "nl \<noteq> cr" by (simp_all add: is_linebreak_def)
  then show ?case by simp
next
  case (2 c t)
  have st: "startswith (t @ nl # s) [nl] = startswith (t @ [nl]) [nl]" by (cases t) (auto simp: startswith_def)
  consider (pair) "c = cr" "startswith (t @ [nl]) [nl]"
    | (brk) "\<not> (c = cr \<and> startswith (t @ [nl]) [nl])" "is_linebreak c"
    | (chr) "\<not> (c = cr \<and> startswith (t @ [nl]) [nl])" "\<not> is_linebreak c" by blast
  then show ?case
  proof cases
    case pair
    show ?thesis
    proof (cases t)
      case Nil
      then show ?thesis using pair by (simp add: startswith_def)
    next
      case (Cons d t')
      then have d: "d = nl" using pair(2) by (simp add: startswith_def)
      have "splitlines (tl t @ nl # s) = splitlines (tl t @ [nl]) @ splitlines s"
        using 2(1) pair d Cons by (simp add: startswith_def)
      then show ?thesis using pair Cons st by simp
    qed
  next
    case brk
    then have "splitlines (t @ nl # s) = splitlines (t @ [nl]) @ splitlines s"
      using 2(2) by (cases t) (auto simp: startswith_def is_linebreak_def)
    then show ?thesis using brk st by auto
  next
    case chr
    then have IH: "splitlines (t @ nl # s) = splitlines (t @ [nl]) @ splitlines s"
      using 2(3) by (cases t) (auto simp: startswith_def is_linebreak_def)
    have ne: "splitlines (t @ [nl]) \<noteq> []" by (cases t) (auto simp: is_linebreak_def split: list.splits)
    then show ?thesis using chr st IH by (auto split: list.splits)
  qed
qed

lemma splitlines_append_terminated:
  "t = [] \<or> last t = nl \<Longrightarrow> splitlines (t @ s) = splitlines t @ splitlines s"
proof (cases "t = []")
  case False
  assume "t = [] \<or> last t = nl"
  with False obtain u where "t = u @ [nl]" by (metis append_butlast_last_id)
  then show ?thesis by (simp add: splitlines_append_nl[of u s])
qed simp

fun split_on :: "char \<Rightarrow> string \<Rightarrow> string list" where
  \<comment> \<open>\<open>s.split(c)\<close> for a one-character separator: never empty.\<close>
  "split_on d [] = [[]]"
| "split_on d (c # s) =
     (if c = d then [] # split_on d s
      else (case split_on d s of [] \<Rightarrow> [[c]] | l # ls \<Rightarrow> (c # l) # ls))"

lemma split_on_nonempty [simp]: "split_on d s \<noteq> []"
  by (cases s) (auto split: list.splits)

lemma split_on_no_sep: "d \<notin> set s \<Longrightarrow> split_on d s = [s]"
  by (induction s) auto

lemma split_on_hd: "split_on d s = takeWhile (\<lambda>c. c \<noteq> d) s # tl (split_on d s)"
  by (induction s) (auto split: list.splits)

lemma split_on_append:
  "d \<notin> set a \<Longrightarrow> split_on d (a @ d # b) = a # split_on d b"
  by (induction a) (auto split: list.splits)

fun join :: "string \<Rightarrow> string list \<Rightarrow> string" where
  "join sep [] = []"
| "join sep [x] = x"
| "join sep (x # y # xs) = x @ sep @ join sep (y # xs)"

lemma join_Cons: "xs \<noteq> [] \<Longrightarrow> join sep (x # xs) = x @ sep @ join sep xs"
  by (cases xs) auto

lemma join_append:
  "xs \<noteq> [] \<Longrightarrow> ys \<noteq> [] \<Longrightarrow> join sep (xs @ ys) = join sep xs @ sep @ join sep ys"
proof (induction xs)
  case (Cons x xs)
  then show ?case by (cases "xs = []") (auto simp: join_Cons)
qed simp

lemma join_split_on: "join [d] (split_on d s) = s"
proof (induction s)
  case (Cons c s)
  obtain l ls where l: "split_on d s = l # ls" by (cases "split_on d s") auto
  show ?case using Cons.IH l by (cases ls) auto
qed simp

lemma join_nl_unlines:
  assumes "ls \<noteq> []"
  shows "join [nl] ls @ [nl] = concat (map (\<lambda>l. l @ [nl]) ls)"
  using assms
proof (induction ls)
  case (Cons l ls)
  then show ?case by (cases ls) auto
qed simp

definition words :: "string \<Rightarrow> string list" where
  \<comment> \<open>\<open>s.split()\<close>: maximal runs of characters that are no white space.\<close>
  "words s = filter (\<lambda>w. w \<noteq> [])
     (foldr (\<lambda>c acc. if is_ws c then [] # acc else
        (case acc of [] \<Rightarrow> [[c]] | w # ws \<Rightarrow> (c # w) # ws)) s [[]])"

subsection \<open>Replace and partition\<close>

function replace_all :: "string \<Rightarrow> string \<Rightarrow> string \<Rightarrow> string" where
  \<comment> \<open>\<open>s.replace(old, new)\<close> for a non-empty \<open>old\<close>: leftmost, non-overlapping.\<close>
  "replace_all old new s =
     (if s = [] \<or> old = [] then s
      else if startswith s old then new @ replace_all old new (drop (length old) s)
      else hd s # replace_all old new (tl s))"
  by pat_completeness auto
termination
  by (relation "measure (\<lambda>(old, new, s). length s)") (auto simp: startswith_def)

declare replace_all.simps [simp del]

fun replace_first :: "string \<Rightarrow> string \<Rightarrow> string \<Rightarrow> string" where
  \<comment> \<open>\<open>s.replace(old, new, 1)\<close>.\<close>
  "replace_first old new [] = []"
| "replace_first old new (c # s) =
     (if startswith (c # s) old then new @ drop (length old) (c # s)
      else c # replace_first old new s)"

fun split_at_str :: "string \<Rightarrow> string \<Rightarrow> (string \<times> string) option" where
  \<comment> \<open>The text before and after the first occurrence of a separator, if there is one.\<close>
  "split_at_str sep [] = None"
| "split_at_str sep (c # s) =
     (if startswith (c # s) sep then Some ([], drop (length sep) (c # s))
      else map_option (\<lambda>(a, b). (c # a, b)) (split_at_str sep s))"

lemma split_at_str_Some: "split_at_str sep s = Some (a, b) \<Longrightarrow> s = a @ sep @ b"
proof (induction s arbitrary: a)
  case (Cons c s)
  show ?case
  proof (cases "startswith (c # s) sep")
    case True
    with Cons.prems show ?thesis by (auto simp: startswith_iff)
  next
    case False
    with Cons show ?thesis by auto
  qed
qed simp

lemma split_at_str_first:
  assumes "c \<notin> set a"
  shows "split_at_str [c] (a @ c # b) = Some (a, b)"
  using assms by (induction a) (auto simp: startswith_def)

function split_str :: "string \<Rightarrow> string \<Rightarrow> string list" where
  \<comment> \<open>\<open>s.split(sep)\<close> for a separator of any length\<close>
  "split_str sep s = (if sep = [] then [s] else
     case split_at_str sep s of None \<Rightarrow> [s] | Some (a, b) \<Rightarrow> a # split_str sep b)"
  by pat_completeness auto
termination
  by (relation "measure (\<lambda>(sep, s). length s)") (auto dest: split_at_str_Some)

declare split_str.simps [simp del]

subsection \<open>Characters and numerals\<close>

definition is_digit :: "char \<Rightarrow> bool" where
  "is_digit c = (let n = (of_char c :: nat) in 48 \<le> n \<and> n \<le> 57)"

definition is_upper :: "char \<Rightarrow> bool" where
  "is_upper c = (let n = (of_char c :: nat) in 65 \<le> n \<and> n \<le> 90)"

definition is_lower :: "char \<Rightarrow> bool" where
  "is_lower c = (let n = (of_char c :: nat) in 97 \<le> n \<and> n \<le> 122)"

definition is_alpha :: "char \<Rightarrow> bool" where
  "is_alpha c = (is_upper c \<or> is_lower c)"

definition is_word :: "char \<Rightarrow> bool" where
  \<comment> \<open>\<open>\w\<close> on ASCII text.\<close>
  "is_word c = (is_alpha c \<or> is_digit c \<or> c = CHR ''_'')"

definition lower_char :: "char \<Rightarrow> char" where
  "lower_char c = (if is_upper c then char_of ((of_char c :: nat) + 32) else c)"

definition lower :: "string \<Rightarrow> string" where
  "lower s = map lower_char s"

definition upper_char :: "char \<Rightarrow> char" where
  "upper_char c = (if is_lower c then char_of ((of_char c :: nat) - 32) else c)"

definition upper :: "string \<Rightarrow> string" where
  "upper s = map upper_char s"

fun digit_char :: "nat \<Rightarrow> char" where
  "digit_char n = char_of (48 + n)"

definition digit_val :: "char \<Rightarrow> nat" where
  "digit_val c = of_char c - 48"

fun show_nat :: "nat \<Rightarrow> string" where
  "show_nat n = (if n < 10 then [digit_char n] else show_nat (n div 10) @ [digit_char (n mod 10)])"

declare show_nat.simps [simp del]

definition parse_nat :: "string \<Rightarrow> nat" where
  \<comment> \<open>\<open>int(s)\<close> for a string of decimal digits.\<close>
  "parse_nat s = foldl (\<lambda>n c. 10 * n + digit_val c) 0 s"

definition show_int :: "int \<Rightarrow> string" where
  "show_int i = (if i < 0 then CHR ''-'' # show_nat (nat (- i)) else show_nat (nat i))"

lemma digit_char_props [simp]:
  "n < 10 \<Longrightarrow> is_digit (char_of (48 + n))" "n < 10 \<Longrightarrow> digit_val (char_of (48 + n)) = n"
  by (auto simp: is_digit_def digit_val_def)

lemma show_nat_nonempty [simp]: "show_nat n \<noteq> []"
  by (subst show_nat.simps) simp

lemma show_nat_digits: "\<forall>c \<in> set (show_nat n). is_digit c"
proof (induction n rule: show_nat.induct)
  case (1 n)
  then show ?case by (subst show_nat.simps) auto
qed

lemma parse_nat_snoc: "parse_nat (s @ [c]) = 10 * parse_nat s + digit_val c"
  by (simp add: parse_nat_def)

lemma parse_show_nat [simp]: "parse_nat (show_nat n) = n"
proof (induction n rule: show_nat.induct)
  case (1 n)
  show ?case
  proof (cases "n < 10")
    case True
    then have "show_nat n = [digit_char n]" by (simp add: show_nat.simps)
    with True show ?thesis by (simp add: parse_nat_def)
  next
    case False
    then have eq: "show_nat n = show_nat (n div 10) @ [digit_char (n mod 10)]"
      by (subst show_nat.simps) simp
    show ?thesis using 1 False unfolding eq parse_nat_snoc by simp
  qed
qed

lemma show_nat_inject [simp]: "show_nat m = show_nat n \<longleftrightarrow> m = n"
  by (metis parse_show_nat)

lemma digit_not_ws: "is_digit c \<Longrightarrow> \<not> is_ws c"
  by (auto simp: is_digit_def is_ws_def Let_def)

lemma word_not_ws: "is_word c \<Longrightarrow> \<not> is_ws c"
  by (auto simp: is_word_def is_alpha_def is_upper_def is_lower_def is_digit_def is_ws_def Let_def)

lemma digit_is_word: "is_digit c \<Longrightarrow> is_word c"
  by (simp add: is_word_def)

definition ljust :: "nat \<Rightarrow> string \<Rightarrow> string" where
  \<comment> \<open>the format \<open>{s:<n}\<close>\<close>
  "ljust n s = s @ replicate (n - length s) CHR '' ''"

fun universal_newlines :: "string \<Rightarrow> string" where
  \<comment> \<open>what text mode makes of the ends of lines: a carriage return, alone or with a line feed after it, is one line feed\<close>
  "universal_newlines [] = []"
| "universal_newlines [c] = [if c = cr then nl else c]"
| "universal_newlines (c # d # s) =
     (if c = cr then (if d = nl then nl # universal_newlines s else nl # universal_newlines (d # s)) else c # universal_newlines (d # s))"

lemma universal_nl [simp]: "universal_newlines (nl # s) = nl # universal_newlines s"
  by (cases s) simp_all

lemma universal_line: "cr \<notin> set l \<Longrightarrow> universal_newlines (l @ nl # s) = l @ nl # universal_newlines s"
proof (induction l)
  case (Cons c l)
  then show ?case by (cases l) auto
qed simp

lemma universal_append: "s = [] \<or> last s = nl \<Longrightarrow> universal_newlines (s @ t) = universal_newlines s @ universal_newlines t"
  by (induction s rule: universal_newlines.induct) (auto split: if_splits)

lemma universal_last: "s \<noteq> [] \<Longrightarrow> last s = nl \<Longrightarrow> universal_newlines s \<noteq> [] \<and> last (universal_newlines s) = nl"
  by (induction s rule: universal_newlines.induct) (auto split: if_splits)

lemma universal_id: "cr \<notin> set s \<Longrightarrow> universal_newlines s = s"
  by (induction s rule: universal_newlines.induct) auto

definition lf_lines :: "string \<Rightarrow> string list" where
  \<comment> \<open>the lines of a text with their ends\<close>
  "lf_lines s = (let ps = split_on nl s in map (\<lambda>l. l @ [nl]) (butlast ps) @ (if last ps = [] then [] else [last ps]))"

definition text_lines :: "string \<Rightarrow> string list" where
  \<comment> \<open>iterating over an open text file\<close>
  "text_lines s = lf_lines (universal_newlines s)"

lemma lf_lines_line: "nl \<notin> set l \<Longrightarrow> lf_lines (l @ nl # s) = (l @ [nl]) # lf_lines s"
  by (simp add: lf_lines_def split_on_append Let_def)

lemma lf_lines_append: "s = [] \<or> last s = nl \<Longrightarrow> lf_lines (s @ t) = lf_lines s @ lf_lines t"
proof (induction "length s" arbitrary: s rule: less_induct)
  case less
  show ?case
  proof (cases "s = []")
    case False
    with less.prems have "nl \<in> set s" by (metis last_in_set)
    then obtain a b where s: "s = a @ nl # b" "nl \<notin> set a" by (meson split_list_first)
    have "b = [] \<or> last b = nl" using less.prems s by (auto split: if_splits)
    then show ?thesis using less.hyps[of b] s by (simp add: lf_lines_line)
  qed (simp add: lf_lines_def)
qed

lemma text_lines_Nil [simp]: "text_lines [] = []"
  by (simp add: text_lines_def lf_lines_def)

lemma text_lines_line: "nl \<notin> set l \<Longrightarrow> cr \<notin> set l \<Longrightarrow> text_lines (l @ nl # s) = (l @ [nl]) # text_lines s"
  by (simp add: text_lines_def universal_line lf_lines_line)

lemma text_lines_append: "s = [] \<or> last s = nl \<Longrightarrow> text_lines (s @ t) = text_lines s @ text_lines t"
  using universal_append[of s t] universal_last[of s] lf_lines_append[of "universal_newlines s" "universal_newlines t"]
  by (cases "s = []") (auto simp: text_lines_def)

definition hex_char :: "nat \<Rightarrow> char" where "hex_char n = ''0123456789abcdef'' ! (n mod 16)"

definition hex_digit :: "nat \<Rightarrow> char" where "hex_digit n = ''0123456789ABCDEF'' ! n"

definition url_quote :: "string \<Rightarrow> string \<Rightarrow> string" where
  \<comment> \<open>\<open>urllib.parse.quote(s, safe=safe)\<close> on ASCII text\<close>
  "url_quote safe s = concat (map (\<lambda>c. if is_alpha c \<or> is_digit c \<or> c \<in> set ''_.-~'' \<or> c \<in> set safe then [c]
     else (let n = (of_char c :: nat) in [CHR ''%'', hex_digit (n div 16), hex_digit (n mod 16)])) s)"

definition hex_digit_val :: "char \<Rightarrow> nat option" where
  "hex_digit_val c = (if is_digit c then Some (digit_val c)
     else let n = (of_char (lower_char c) :: nat) in if 97 \<le> n \<and> n \<le> 102 then Some (n - 87) else None)"

subsection \<open>JSON values and dictionaries\<close>

datatype json =
    JNull
  | JBool bool
  | JInt int
  | JStr string
  | JList "json list"
  | JObj "(string \<times> json) list"

type_synonym dict = "(string \<times> json) list"

abbreviation dget :: "('k \<times> 'v) list \<Rightarrow> 'k \<Rightarrow> 'v option" where
  \<comment> \<open>\<open>d.get(k)\<close>.\<close>
  "dget d k \<equiv> map_of d k"

abbreviation dset :: "'k \<Rightarrow> 'v \<Rightarrow> ('k \<times> 'v) list \<Rightarrow> ('k \<times> 'v) list" where
  \<comment> \<open>\<open>d[k] = v\<close>: in place when the key is there, at the end otherwise.\<close>
  "dset k v d \<equiv> AList.update k v d"

abbreviation dpop :: "'k \<Rightarrow> ('k \<times> 'v) list \<Rightarrow> ('k \<times> 'v) list" where
  \<comment> \<open>\<open>d.pop(k, None)\<close>.\<close>
  "dpop k d \<equiv> AList.delete k d"

abbreviation has_key :: "('k \<times> 'v) list \<Rightarrow> 'k \<Rightarrow> bool" where
  "has_key d k \<equiv> map_of d k \<noteq> None"

lemma dget_dset [simp, py_dict]: "dget (dset k v d) k' = (if k' = k then Some v else dget d k')"
  by (simp add: update_conv)

lemma dget_dpop [simp, py_dict]: "dget (dpop k d) k' = (if k' = k then None else dget d k')"
  by (simp add: delete_conv)

fun truthy :: "json \<Rightarrow> bool" where
  \<comment> \<open>Python's truth value of a JSON value.\<close>
  "truthy JNull = False"
| "truthy (JBool b) = b"
| "truthy (JInt i) = (i \<noteq> 0)"
| "truthy (JStr s) = (s \<noteq> [])"
| "truthy (JList xs) = (xs \<noteq> [])"
| "truthy (JObj d) = (d \<noteq> [])"

definition opt_truthy :: "json option \<Rightarrow> bool" where
  \<comment> \<open>The truth value of \<open>d.get(k)\<close>, where a missing key reads as \<open>None\<close>.\<close>
  "opt_truthy v = (case v of None \<Rightarrow> False | Some j \<Rightarrow> truthy j)"

definition get_str :: "dict \<Rightarrow> string \<Rightarrow> string option" where
  \<comment> \<open>A string-valued field, for the places where the code relies on the field's declared type.\<close>
  "get_str d k = (case dget d k of Some (JStr s) \<Rightarrow> Some s | _ \<Rightarrow> None)"

definition last_component :: "string \<Rightarrow> string" where
  \<comment> \<open>\<open>Path(s).name\<close>\<close>
  "last_component s = (case filter (\<lambda>p. p \<noteq> [] \<and> p \<noteq> ''.'') (split_on CHR ''/'' s) of
     [] \<Rightarrow> [] | p # ps \<Rightarrow> last (p # ps))"

definition stem :: "string \<Rightarrow> string" where
  \<comment> \<open>the \<open>stem\<close> of a path with this name\<close>
  "stem n = (let k = length (takeWhile (\<lambda>c. c \<noteq> CHR ''.'') (rev n)); i = length n - k - 1 in
     if CHR ''.'' \<in> set n \<and> 0 < i \<and> 0 < k then take i n else n)"

definition sort_keys :: "(string \<times> 'v) list \<Rightarrow> (string \<times> 'v) list" where
  \<comment> \<open>The order \<open>json.dump(..., sort_keys=True)\<close> writes an object's keys in.\<close>
  "sort_keys d = sort_key fst d"

fun sort_json :: "json \<Rightarrow> json" where
  \<comment> \<open>what is read back from a document written with \<open>sort_keys=True\<close>\<close>
  "sort_json (JObj d) = JObj (sort_keys (map (\<lambda>(k, v). (k, sort_json v)) d))"
| "sort_json (JList xs) = JList (map sort_json xs)"
| "sort_json j = j"

lemma get_str_dset [simp, py_dict]:
  "get_str (dset k v d) k' =
     (if k' = k then (case v of JStr s \<Rightarrow> Some s | _ \<Rightarrow> None) else get_str d k')"
  by (auto simp: get_str_def split: json.splits)

lemma get_str_dpop [simp, py_dict]:
  "get_str (dpop k d) k' = (if k' = k then None else get_str d k')"
  by (simp add: get_str_def)

lemma set_sort_keys [simp]: "set (sort_keys d) = set d"
  by (simp add: sort_keys_def)

lemma distinct_sort_keys: "distinct (map fst (sort_keys d)) \<longleftrightarrow> distinct (map fst d)"
proof -
  have "mset (sort_keys d) = mset d" by (simp add: sort_keys_def)
  then have "mset (map fst (sort_keys d)) = mset (map fst d)" by simp
  then show ?thesis by (rule mset_eq_imp_distinct_iff)
qed

lemma dget_sort_keys [simp, py_dict]:
  assumes "distinct (map fst d)"
  shows "dget (sort_keys d) k = dget d k"
proof -
  have d: "distinct (map fst (sort_keys d))" using assms by (simp add: distinct_sort_keys)
  show ?thesis
    by (metis (no_types, lifting) assms d map_of_eq_Some_iff not_Some_eq set_sort_keys)
qed

lemma set_dset: "e \<in> set (dset k v d) \<Longrightarrow> e = (k, v) \<or> e \<in> set d"
  by (induction d) (auto split: if_splits)

lemma distinct_dset [simp]: "distinct (map fst d) \<Longrightarrow> distinct (map fst (dset k v d))"
  by (rule distinct_update)

lemma distinct_dpop [simp]: "distinct (map fst d) \<Longrightarrow> distinct (map fst (dpop k d))"
  by (simp add: distinct_delete)

end
