(* ===== verification/Py_Regex.thy ===== *)
theory Py_Regex
  imports Py_Prelude
begin

section \<open>Python regular expressions\<close>

text \<open>
  The fragment of Python's \<open>re\<close> the scripts use, as a backtracking matcher. A match state is
  the text already passed (reversed), the text ahead and the captured groups; \<open>runs r st\<close> is
  the list of all ways to match \<open>r\<close> from \<open>st\<close> in the order a backtracking engine tries them,
  so the head of the list is the match Python reports. \<open>rmatches\<close> is the declarative reading
  (one rule per construct); \<open>runs_iff\<close> shows that the matcher finds exactly those matches,
  and a pattern with only one possible match is then known without replaying the search.
\<close>

datatype rx =
    Eps
  | Cls "char \<Rightarrow> bool"
  | Sq rx rx
  | Alt rx rx
  | Star bool rx \<comment> \<open>\<open>True\<close> for greedy\<close>
  | Grp nat rx
  | Bol bool \<comment> \<open>\<open>^\<close>, with the MULTILINE flag\<close>
  | Eol bool \<comment> \<open>\<open>$\<close>, with the MULTILINE flag\<close>
  | WordB
  | NotBehind "char \<Rightarrow> bool"
  | NotAhead "char \<Rightarrow> bool"

type_synonym caps = "(nat \<times> string) list"
type_synonym mst = "string \<times> string \<times> caps"

definition ahead :: "mst \<Rightarrow> string" where
  "ahead st = fst (snd st)"

definition at_bol :: "bool \<Rightarrow> string \<Rightarrow> bool" where
  "at_bol m b = (b = [] \<or> m \<and> hd b = nl)"

definition at_eol :: "bool \<Rightarrow> string \<Rightarrow> bool" where
  "at_eol m a = (a = [] \<or> a = [nl] \<or> m \<and> hd a = nl)"

definition edge_word :: "string \<Rightarrow> bool" where
  "edge_word s = (case s of [] \<Rightarrow> False | c # _ \<Rightarrow> is_word c)"

definition edge_is :: "(char \<Rightarrow> bool) \<Rightarrow> string \<Rightarrow> bool" where
  "edge_is p s = (case s of [] \<Rightarrow> False | c # _ \<Rightarrow> p c)"

function star_run :: "bool \<Rightarrow> (mst \<Rightarrow> mst list) \<Rightarrow> mst \<Rightarrow> mst list" where
  "star_run g f st =
     (let more = concat (map (\<lambda>st'. if length (ahead st') < length (ahead st)
                                      then star_run g f st' else []) (f st))
      in if g then more @ [st] else st # more)"
  by pat_completeness auto
termination
  by (relation "measure (\<lambda>(g, f, st). length (ahead st))") auto

declare star_run.simps [simp del]

primrec runs :: "rx \<Rightarrow> mst \<Rightarrow> mst list" where
  "runs Eps st = [st]"
| "runs (Cls p) st = (case st of (b, a, c) \<Rightarrow>
     (case a of [] \<Rightarrow> [] | x # xs \<Rightarrow> if p x then [(x # b, xs, c)] else []))"
| "runs (Sq r1 r2) st = concat (map (runs r2) (runs r1 st))"
| "runs (Alt r1 r2) st = runs r1 st @ runs r2 st"
| "runs (Star g r) st = star_run g (runs r) st"
| "runs (Grp n r) st = (case st of (b, a, c) \<Rightarrow>
     map (\<lambda>(b', a', c'). (b', a', dset n (take (length a - length a') a) c')) (runs r st))"
| "runs (Bol m) st = (case st of (b, a, c) \<Rightarrow> if at_bol m b then [st] else [])"
| "runs (Eol m) st = (case st of (b, a, c) \<Rightarrow> if at_eol m a then [st] else [])"
| "runs WordB st = (case st of (b, a, c) \<Rightarrow> if edge_word b \<noteq> edge_word a then [st] else [])"
| "runs (NotBehind p) st = (case st of (b, a, c) \<Rightarrow> if edge_is p b then [] else [st])"
| "runs (NotAhead p) st = (case st of (b, a, c) \<Rightarrow> if edge_is p a then [] else [st])"

subsection \<open>The declarative reading\<close>

inductive rmatches :: "rx \<Rightarrow> mst \<Rightarrow> mst \<Rightarrow> bool" where
  rm_eps: "rmatches Eps st st"
| rm_cls: "p x \<Longrightarrow> rmatches (Cls p) (b, x # a, c) (x # b, a, c)"
| rm_sq: "rmatches r1 st st' \<Longrightarrow> rmatches r2 st' st'' \<Longrightarrow> rmatches (Sq r1 r2) st st''"
| rm_alt1: "rmatches r1 st st' \<Longrightarrow> rmatches (Alt r1 r2) st st'"
| rm_alt2: "rmatches r2 st st' \<Longrightarrow> rmatches (Alt r1 r2) st st'"
| rm_star_stop: "rmatches (Star g r) st st"
| rm_star_more: "rmatches r st st' \<Longrightarrow> length (ahead st') < length (ahead st) \<Longrightarrow>
    rmatches (Star g r) st' st'' \<Longrightarrow> rmatches (Star g r) st st''"
| rm_grp: "rmatches r (b, a, c) (b', a', c') \<Longrightarrow>
    rmatches (Grp n r) (b, a, c) (b', a', dset n (take (length a - length a') a) c')"
| rm_bol: "at_bol m b \<Longrightarrow> rmatches (Bol m) (b, a, c) (b, a, c)"
| rm_eol: "at_eol m a \<Longrightarrow> rmatches (Eol m) (b, a, c) (b, a, c)"
| rm_wordb: "edge_word b \<noteq> edge_word a \<Longrightarrow> rmatches WordB (b, a, c) (b, a, c)"
| rm_notbehind: "\<not> edge_is p b \<Longrightarrow> rmatches (NotBehind p) (b, a, c) (b, a, c)"
| rm_notahead: "\<not> edge_is p a \<Longrightarrow> rmatches (NotAhead p) (b, a, c) (b, a, c)"

inductive_simps rm_simps [simp]:
  "rmatches Eps st st'"
  "rmatches (Sq r1 r2) st st'"
  "rmatches (Alt r1 r2) st st'"
  "rmatches (Cls p) (b, a, c) st'"
  "rmatches (Grp n r) (b, a, c) st'"
  "rmatches (Bol m) (b, a, c) st'"
  "rmatches (Eol m) (b, a, c) st'"
  "rmatches WordB (b, a, c) st'"
  "rmatches (NotBehind p) (b, a, c) st'"
  "rmatches (NotAhead p) (b, a, c) st'"

inductive_cases rm_starE: "rmatches (Star g r) st st'"

lemma rm_star_greedy: "rmatches (Star g r) st st' \<Longrightarrow> rmatches (Star g' r) st st'"
proof (induction "Star g r" st st' rule: rmatches.induct)
  case (rm_star_more st st' st'')
  then show ?case by (metis rmatches.rm_star_more)
qed (auto intro: rmatches.intros)

lemma star_run_iff:
  assumes "\<And>st st'. st' \<in> set (f st) \<longleftrightarrow> rmatches r st st'"
  shows "st' \<in> set (star_run g f st) \<longleftrightarrow> rmatches (Star g r) st st'"
proof (induction "length (ahead st)" arbitrary: st rule: less_induct)
  case less
  have mem: "st' \<in> set (star_run g f st) \<longleftrightarrow> st' = st \<or>
    (\<exists>u \<in> set (f st). length (ahead u) < length (ahead st) \<and> st' \<in> set (star_run g f u))"
    by (subst star_run.simps) (auto simp: Let_def split: if_splits)
  also have "\<dots> \<longleftrightarrow> st' = st \<or>
    (\<exists>u. rmatches r st u \<and> length (ahead u) < length (ahead st) \<and> rmatches (Star g r) u st')"
    using less assms by blast
  also have "\<dots> \<longleftrightarrow> rmatches (Star g r) st st'"
    by (auto intro: rmatches.rm_star_stop rmatches.rm_star_more elim: rm_starE)
  finally show ?case .
qed

theorem runs_iff: "st' \<in> set (runs r st) \<longleftrightarrow> rmatches r st st'"
proof (induction r arbitrary: st st')
  case (Sq r1 r2)
  have "st' \<in> set (runs (Sq r1 r2) st) \<longleftrightarrow> (\<exists>u \<in> set (runs r1 st). st' \<in> set (runs r2 u))" by simp
  also have "\<dots> \<longleftrightarrow> (\<exists>u. rmatches r1 st u \<and> rmatches r2 u st')" by (simp only: Sq Bex_def)
  also have "\<dots> \<longleftrightarrow> rmatches (Sq r1 r2) st st'" by auto
  finally show ?case .
next
  case (Star g r)
  then show ?case by (simp add: star_run_iff)
next
  case (Grp n r)
  show ?case by (cases st) (force simp: Grp)
next
  case (Cls p)
  show ?case by (cases st) (auto split: list.splits)
qed (case_tac [!] st, auto)

subsection \<open>What a match consumes\<close>

lemma rmatches_consumes:
  "rmatches r st st' \<Longrightarrow> \<exists>w. ahead st = w @ ahead st' \<and> fst st' = rev w @ fst st"
proof (induction rule: rmatches.induct)
  case (rm_sq r1 st st' r2 st'')
  then obtain w1 w2 where "ahead st = w1 @ ahead st'" "fst st' = rev w1 @ fst st"
    "ahead st' = w2 @ ahead st''" "fst st'' = rev w2 @ fst st'" by blast
  then have "ahead st = (w1 @ w2) @ ahead st'' \<and> fst st'' = rev (w1 @ w2) @ fst st" by simp
  then show ?case by blast
next
  case (rm_star_more r st st' g st'')
  then obtain w1 w2 where "ahead st = w1 @ ahead st'" "fst st' = rev w1 @ fst st"
    "ahead st' = w2 @ ahead st''" "fst st'' = rev w2 @ fst st'" by blast
  then have "ahead st = (w1 @ w2) @ ahead st'' \<and> fst st'' = rev (w1 @ w2) @ fst st" by simp
  then show ?case by blast
qed (auto simp: ahead_def)

lemma rm_cls_iff: "rmatches (Cls p) st st' \<longleftrightarrow>
    (\<exists>x. p x \<and> ahead st = x # ahead st' \<and> fst st' = x # fst st \<and> snd (snd st') = snd (snd st))"
  by (cases st; cases st') (auto simp: ahead_def)

lemma rm_star_cls: "rmatches (Star g (Cls p)) (b, a, c) st' \<longleftrightarrow>
    (\<exists>w a'. a = w @ a' \<and> (\<forall>x \<in> set w. p x) \<and> st' = (rev w @ b, a', c))"
proof
  show "\<exists>w a'. a = w @ a' \<and> (\<forall>x \<in> set w. p x) \<and> st' = (rev w @ b, a', c)"
    if "rmatches (Star g (Cls p)) (b, a, c) st'"
    using that
  proof (induction "Star g (Cls p)" "(b, a, c)" st' arbitrary: b a c rule: rmatches.induct)
    case (rm_star_more st' st'' b a c)
    note IH = rm_star_more.hyps(4)
    obtain b1 a1 c1 where st': "st' = (b1, a1, c1)" by (cases st')
    with rm_star_more.hyps(1) obtain x where x: "p x" "a = x # a1" "b1 = x # b" "c1 = c" by auto
    from IH[OF st'] obtain w a' where
      "a1 = w @ a'" "\<forall>y \<in> set w. p y" "st'' = (rev w @ b1, a', c1)" by blast
    with x have "a = (x # w) @ a' \<and> (\<forall>y \<in> set (x # w). p y) \<and> st'' = (rev (x # w) @ b, a', c)"
      by simp
    then show ?case by blast
  qed auto
next
  assume "\<exists>w a'. a = w @ a' \<and> (\<forall>x \<in> set w. p x) \<and> st' = (rev w @ b, a', c)"
  then obtain w a' where "a = w @ a'" "\<forall>x \<in> set w. p x" "st' = (rev w @ b, a', c)" by blast
  then show "rmatches (Star g (Cls p)) (b, a, c) st'"
  proof (induction w arbitrary: a b)
    case (Cons x w)
    have "rmatches (Cls p) (b, a, c) (x # b, w @ a', c)" using Cons.prems by simp
    moreover have "rmatches (Star g (Cls p)) (x # b, w @ a', c) st'"
      using Cons.prems by (intro Cons.IH) auto
    moreover have "length (ahead (x # b, w @ a', c)) < length (ahead (b, a, c))"
      using Cons.prems by (simp add: ahead_def)
    ultimately show ?case by (metis rmatches.rm_star_more)
  qed (auto intro: rmatches.intros)
qed

subsection \<open>Characters every match must contain\<close>

primrec needs :: "(char \<Rightarrow> bool) \<Rightarrow> rx \<Rightarrow> bool" where
  "needs q Eps = False"
| "needs q (Cls p) = (\<forall>x. p x \<longrightarrow> q x)"
| "needs q (Sq r1 r2) = (needs q r1 \<or> needs q r2)"
| "needs q (Alt r1 r2) = (needs q r1 \<and> needs q r2)"
| "needs q (Star g r) = False"
| "needs q (Grp n r) = needs q r"
| "needs q (Bol m) = False"
| "needs q (Eol m) = False"
| "needs q WordB = False"
| "needs q (NotBehind p) = False"
| "needs q (NotAhead p) = False"

lemma rmatches_ahead: "rmatches r st st' \<Longrightarrow> set (ahead st') \<subseteq> set (ahead st)"
  by (drule rmatches_consumes) auto

lemma rmatches_needs: "rmatches r st st' \<Longrightarrow> needs q r \<Longrightarrow> \<exists>x \<in> set (ahead st). q x"
proof (induction rule: rmatches.induct)
  case (rm_sq r1 st st' r2 st'')
  have "set (ahead st') \<subseteq> set (ahead st)" by (rule rmatches_ahead) (rule rm_sq.hyps)
  with rm_sq show ?case by auto
qed (auto simp: ahead_def)

subsection \<open>Pattern building blocks\<close>

definition Chr :: "char \<Rightarrow> rx" where "Chr c = Cls (\<lambda>x. x = c)"

definition ChrCI :: "char \<Rightarrow> rx" where
  \<comment> \<open>a character under IGNORECASE\<close>
  "ChrCI c = Cls (\<lambda>x. lower_char x = lower_char c)"

definition Dot :: rx where "Dot = Cls (\<lambda>x. x \<noteq> nl)"
definition Digit :: rx where "Digit = Cls is_digit"
definition Word :: rx where "Word = Cls is_word"
definition Space :: rx where "Space = Cls is_ws"

definition Plus :: "bool \<Rightarrow> rx \<Rightarrow> rx" where "Plus g r = Sq r (Star g r)"
definition Opt :: "rx \<Rightarrow> rx" where "Opt r = Alt r Eps"

fun Lit :: "string \<Rightarrow> rx" where
  "Lit [] = Eps"
| "Lit (c # s) = Sq (Chr c) (Lit s)"

fun LitCI :: "string \<Rightarrow> rx" where
  "LitCI [] = Eps"
| "LitCI (c # s) = Sq (ChrCI c) (LitCI s)"

fun Seq :: "rx list \<Rightarrow> rx" where
  "Seq [] = Eps"
| "Seq (r # rs) = Sq r (Seq rs)"

fun AltL :: "rx list \<Rightarrow> rx" where
  "AltL [] = Cls (\<lambda>_. False)"
| "AltL [r] = r"
| "AltL (r # s # rs) = Alt r (AltL (s # rs))"

fun Rep :: "nat \<Rightarrow> rx \<Rightarrow> rx" where
  "Rep 0 r = Eps"
| "Rep (Suc n) r = Sq r (Rep n r)"

lemma rm_Chr [simp]: "rmatches (Chr x) (b, a, c) st' \<longleftrightarrow> (\<exists>a'. a = x # a' \<and> st' = (x # b, a', c))"
  by (auto simp: Chr_def)

lemma rm_Lit [simp]: "rmatches (Lit s) (b, a, c) st' \<longleftrightarrow> (\<exists>a'. a = s @ a' \<and> st' = (rev s @ b, a', c))"
proof (induction s arbitrary: b a)
  case (Cons x s)
  show ?case by (auto simp: Cons)
qed auto

lemma rm_plus_cls: "rmatches (Plus g (Cls p)) (b, a, c) st' \<longleftrightarrow>
    (\<exists>w a'. w \<noteq> [] \<and> a = w @ a' \<and> (\<forall>x \<in> set w. p x) \<and> st' = (rev w @ b, a', c))"
proof -
  have "rmatches (Plus g (Cls p)) (b, a, c) st' \<longleftrightarrow>
    (\<exists>x w a'. a = (x # w) @ a' \<and> (\<forall>y \<in> set (x # w). p y) \<and> st' = (rev (x # w) @ b, a', c))"
    by (auto simp: Plus_def rm_star_cls)
  also have "\<dots> \<longleftrightarrow> (\<exists>w a'. w \<noteq> [] \<and> a = w @ a' \<and> (\<forall>x \<in> set w. p x) \<and> st' = (rev w @ b, a', c))"
    by (metis neq_Nil_conv)
  finally show ?thesis .
qed

lemmas rm_classes = rm_star_cls rm_plus_cls

text \<open>Stepping through a sequence: the rest of the pattern continues from the new state.\<close>

lemma rm_steps:
  "rmatches (Sq (Bol m) r) (b, a, c) st' \<longleftrightarrow> at_bol m b \<and> rmatches r (b, a, c) st'"
  "rmatches (Sq (Eol m) r) (b, a, c) st' \<longleftrightarrow> at_eol m a \<and> rmatches r (b, a, c) st'"
  "rmatches (Sq Eps r) (b, a, c) st' \<longleftrightarrow> rmatches r (b, a, c) st'"
  "rmatches (Sq (Chr x) r) (b, a, c) st' \<longleftrightarrow> (\<exists>a'. a = x # a' \<and> rmatches r (x # b, a', c) st')"
  "rmatches (Sq (Lit s) r) (b, a, c) st' \<longleftrightarrow> (\<exists>a'. a = s @ a' \<and> rmatches r (rev s @ b, a', c) st')"
  "rmatches (Sq (Star g (Cls p)) r) (b, a, c) st' \<longleftrightarrow>
     (\<exists>w a'. a = w @ a' \<and> (\<forall>x \<in> set w. p x) \<and> rmatches r (rev w @ b, a', c) st')"
  "rmatches (Sq (Plus g (Cls p)) r) (b, a, c) st' \<longleftrightarrow>
     (\<exists>w a'. a = w @ a' \<and> w \<noteq> [] \<and> (\<forall>x \<in> set w. p x) \<and> rmatches r (rev w @ b, a', c) st')"
  "rmatches (Sq (Grp n (Star g (Cls p))) r) (b, a, c) st' \<longleftrightarrow>
     (\<exists>w a'. a = w @ a' \<and> (\<forall>x \<in> set w. p x) \<and> rmatches r (rev w @ b, a', dset n w c) st')"
  "rmatches (Sq (Grp n (Plus g (Cls p))) r) (b, a, c) st' \<longleftrightarrow>
     (\<exists>w a'. a = w @ a' \<and> w \<noteq> [] \<and> (\<forall>x \<in> set w. p x) \<and> rmatches r (rev w @ b, a', dset n w c) st')"
  by (fastforce simp: rm_classes)+

subsection \<open>match, fullmatch, search, finditer and sub\<close>

type_synonym rmatch = caps

definition group :: "rmatch \<Rightarrow> nat \<Rightarrow> string" where
  \<comment> \<open>\<open>m.group(n)\<close> for a group that took part in the match; group 0 is the whole match.\<close>
  "group m n = (case map_of m n of Some s \<Rightarrow> s | None \<Rightarrow> [])"

definition first_match :: "rx \<Rightarrow> string \<Rightarrow> string \<Rightarrow> (rmatch \<times> string \<times> string) option" where
  \<comment> \<open>the preferred match at one position, with the text around its end\<close>
  "first_match r b a = (case runs r (b, a, []) of
       [] \<Rightarrow> None
     | (b', a', c) # _ \<Rightarrow> Some (dset 0 (take (length a - length a') a) c, b', a'))"

definition re_match :: "rx \<Rightarrow> string \<Rightarrow> rmatch option" where
  "re_match r s = map_option fst (first_match r [] s)"

definition re_fullmatch :: "rx \<Rightarrow> string \<Rightarrow> rmatch option" where
  "re_fullmatch r s = map_option (\<lambda>(b, a, c). dset 0 s c)
     (find (\<lambda>st. ahead st = []) (runs r ([], s, [])))"

fun search_from :: "rx \<Rightarrow> string \<Rightarrow> string \<Rightarrow> (rmatch \<times> string \<times> string \<times> string) option" where
  \<comment> \<open>match, text before the match (reversed), text around the end of the match\<close>
  "search_from r b [] = map_option (\<lambda>(m, b', a'). (m, b, b', a')) (first_match r b [])"
| "search_from r b (x # a) = (case first_match r b (x # a) of
       Some (m, b', a') \<Rightarrow> Some (m, b, b', a')
     | None \<Rightarrow> search_from r (x # b) a)"

definition re_search :: "rx \<Rightarrow> string \<Rightarrow> rmatch option" where
  "re_search r s = map_option fst (search_from r [] s)"

definition re_search_pos :: "rx \<Rightarrow> string \<Rightarrow> nat option" where
  \<comment> \<open>\<open>m.start()\<close> of the match \<open>re_search\<close> finds.\<close>
  "re_search_pos r s = map_option (\<lambda>(m, b, _). length b) (search_from r [] s)"

function sub_from :: "rx \<Rightarrow> (rmatch \<Rightarrow> string) \<Rightarrow> nat option \<Rightarrow> string \<Rightarrow> string \<Rightarrow> string" where
  \<comment> \<open>\<open>re.sub\<close> with a replacement function and a bound on the number of replacements\<close>
  "sub_from r f n b a =
     (if n = Some 0 then a else
      case first_match r b a of
        Some (m, b', a') \<Rightarrow>
          if length a' < length a then f m @ sub_from r f (map_option (\<lambda>k. k - 1) n) b' a'
          else (case a of [] \<Rightarrow> f m
                | x # xs \<Rightarrow> f m @ x # sub_from r f (map_option (\<lambda>k. k - 1) n) (x # b) xs)
      | None \<Rightarrow> (case a of [] \<Rightarrow> [] | x # xs \<Rightarrow> x # sub_from r f n (x # b) xs))"
  by pat_completeness auto
termination
  by (relation "measure (\<lambda>(r, f, n, b, a). length a)") auto

declare sub_from.simps [simp del]

definition re_sub :: "rx \<Rightarrow> (rmatch \<Rightarrow> string) \<Rightarrow> string \<Rightarrow> string" where
  "re_sub r f s = sub_from r f None [] s"

function find_from :: "rx \<Rightarrow> string \<Rightarrow> string \<Rightarrow> rmatch list" where
  "find_from r b a =
     (case first_match r b a of
        Some (m, b', a') \<Rightarrow>
          if length a' < length a then m # find_from r b' a'
          else (case a of [] \<Rightarrow> [m] | x # xs \<Rightarrow> m # find_from r (x # b) xs)
      | None \<Rightarrow> (case a of [] \<Rightarrow> [] | x # xs \<Rightarrow> find_from r (x # b) xs))"
  by pat_completeness auto
termination
  by (relation "measure (\<lambda>(r, b, a). length a)") auto

declare find_from.simps [simp del]

definition re_finditer :: "rx \<Rightarrow> string \<Rightarrow> rmatch list" where
  "re_finditer r s = find_from r [] s"

subsection \<open>When a match exists, and when it is the only one\<close>

lemma first_match_None: "first_match r b a = None \<longleftrightarrow> (\<forall>st'. \<not> rmatches r (b, a, []) st')"
proof -
  have "first_match r b a = None \<longleftrightarrow> set (runs r (b, a, [])) = {}"
    by (auto simp: first_match_def split: list.splits)
  then show ?thesis by (auto simp: runs_iff[symmetric])
qed

lemma first_match_rmatches:
  assumes "first_match r b a = Some (m, b', a')"
  obtains c where "rmatches r (b, a, []) (b', a', c)"
    "m = dset 0 (take (length a - length a') a) c"
proof -
  from assms obtain c rest where c: "runs r (b, a, []) = (b', a', c) # rest"
    "m = dset 0 (take (length a - length a') a) c"
    by (auto simp: first_match_def split: list.splits)
  then have "(b', a', c) \<in> set (runs r (b, a, []))" by simp
  then have "rmatches r (b, a, []) (b', a', c)" by (simp only: runs_iff)
  then show ?thesis using c(2) by (rule that)
qed

lemma first_match_unique:
  assumes "rmatches r (b, a, []) (b', a', c)"
    and "\<And>st'. rmatches r (b, a, []) st' \<Longrightarrow> st' = (b', a', c)"
  shows "first_match r b a = Some (dset 0 (take (length a - length a') a) c, b', a')"
proof -
  have ne: "runs r (b, a, []) \<noteq> []"
    using assms(1) by (metis empty_iff list.set(1) runs_iff)
  have "hd (runs r (b, a, [])) = (b', a', c)"
    using ne by (intro assms(2)) (metis hd_in_set runs_iff)
  with ne show ?thesis by (cases "runs r (b, a, [])") (auto simp: first_match_def)
qed

lemma first_match_shorter:
  "first_match r b a = Some (m, b', a') \<Longrightarrow> \<exists>w. a = w @ a' \<and> b' = rev w @ b \<and> group m 0 = w"
  by (erule first_match_rmatches) (auto dest!: rmatches_consumes simp: ahead_def group_def)

lemma re_match_None: "re_match r s = None \<longleftrightarrow> (\<forall>st'. \<not> rmatches r ([], s, []) st')"
  by (simp add: re_match_def first_match_None)

lemma re_match_unique:
  assumes "rmatches r ([], s, []) (b', a', c)"
    and "\<And>st'. rmatches r ([], s, []) st' \<Longrightarrow> st' = (b', a', c)"
  shows "re_match r s = Some (dset 0 (take (length s - length a') s) c)"
  using first_match_unique[OF assms] by (simp add: re_match_def)

lemma re_match_Some:
  assumes "re_match r s = Some m"
  obtains b' a' c where "rmatches r ([], s, []) (b', a', c)"
    "m = dset 0 (take (length s - length a') s) c"
proof -
  from assms obtain b' a' where "first_match r [] s = Some (m, b', a')"
    by (auto simp: re_match_def)
  then show ?thesis by (rule first_match_rmatches) (rule that)
qed

lemma rm_sq_Eps: "rmatches (Sq r Eps) st st' \<longleftrightarrow> rmatches r st st'"
  by (cases st; cases st') auto

lemma rm_alt: "rmatches (Alt r r') st st' \<longleftrightarrow> rmatches r st st' \<or> rmatches r' st st'"
  by (cases st; cases st') auto

lemma rm_sq: "rmatches (Sq r r') st st'' \<longleftrightarrow> (\<exists>st'. rmatches r st st' \<and> rmatches r' st' st'')"
  by (cases st; cases st'') auto

lemma re_fullmatch_None:
  "re_fullmatch r s = None \<longleftrightarrow> (\<forall>b' c. \<not> rmatches r ([], s, []) (b', [], c))"
proof -
  have "re_fullmatch r s = None \<longleftrightarrow> (\<forall>st \<in> set (runs r ([], s, [])). ahead st \<noteq> [])"
    by (auto simp: re_fullmatch_def find_None_iff)
  then show ?thesis by (auto simp: runs_iff ahead_def Ball_def)
qed

lemma re_fullmatch_unique:
  assumes "rmatches r ([], s, []) (b', [], c)"
    and "\<And>b'' c'. rmatches r ([], s, []) (b'', [], c') \<Longrightarrow> c' = c"
  shows "re_fullmatch r s = Some (dset 0 s c)"
proof -
  have "find (\<lambda>st. ahead st = []) (runs r ([], s, [])) \<noteq> None"
    using assms(1) by (auto simp: find_None_iff runs_iff ahead_def)
  then obtain b'' a'' c' where f: "find (\<lambda>st. ahead st = []) (runs r ([], s, [])) = Some (b'', a'', c')" by auto
  then have "(b'', a'', c') \<in> set (runs r ([], s, []))" "a'' = []"
    by (auto dest!: find_Some_mem simp: ahead_def)
  then have "c' = c" using assms(2) by (simp add: runs_iff)
  with f show ?thesis by (simp add: re_fullmatch_def)
qed

lemma search_from_None:
  "search_from r b a = None \<longleftrightarrow> (\<forall>u v st'. a = u @ v \<longrightarrow> \<not> rmatches r (rev u @ b, v, []) st')"
proof (induction a arbitrary: b)
  case Nil
  then show ?case by (simp add: first_match_None)
next
  case (Cons x a)
  have "search_from r b (x # a) = None \<longleftrightarrow>
      first_match r b (x # a) = None \<and> search_from r (x # b) a = None"
    by (auto split: option.splits)
  also have "\<dots> \<longleftrightarrow> (\<forall>st'. \<not> rmatches r (b, x # a, []) st') \<and>
      (\<forall>u v st'. a = u @ v \<longrightarrow> \<not> rmatches r (rev (x # u) @ b, v, []) st')"
    by (simp add: first_match_None Cons)
  also have "\<dots> \<longleftrightarrow> (\<forall>u v st'. x # a = u @ v \<longrightarrow> \<not> rmatches r (rev u @ b, v, []) st')"
    (is "?L \<longleftrightarrow> ?R")
  proof
    assume L: ?L
    show ?R
    proof (intro allI impI)
      fix u v st' assume uv: "x # a = u @ v"
      show "\<not> rmatches r (rev u @ b, v, []) st'"
      proof (cases u)
        case Nil
        then show ?thesis using L uv by (metis append_Nil rev.simps(1))
      next
        case (Cons y u')
        then have "y = x" "a = u' @ v" using uv by auto
        then show ?thesis using L Cons by blast
      qed
    qed
  next
    assume R: ?R
    have "\<not> rmatches r (b, x # a, []) st'" for st' using R[rule_format, of "[]" "x # a"] by simp
    moreover have "\<not> rmatches r (rev (x # u) @ b, v, []) st'" if "a = u @ v" for u v st'
      using R[rule_format, of "x # u" v] that by simp
    ultimately show ?L by blast
  qed
  finally show ?case .
qed

lemma re_search_None:
  "re_search r s = None \<longleftrightarrow> (\<forall>u v st'. s = u @ v \<longrightarrow> \<not> rmatches r (rev u, v, []) st')"
  by (simp add: re_search_def search_from_None)

lemma re_search_needs:
  assumes "needs q r" "\<forall>x \<in> set s. \<not> q x"
  shows "re_search r s = None"
  unfolding re_search_None
proof (intro allI impI notI)
  fix u v st' assume "s = u @ v" "rmatches r (rev u, v, []) st'"
  with rmatches_needs[OF this(2) assms(1)] assms(2) show False by (auto simp: ahead_def)
qed

lemma re_search_found:
  assumes "rmatches r (rev u, v, []) st'"
  shows "\<exists>m. re_search r (u @ v) = Some m"
  using assms re_search_None[of r "u @ v"] by (metis not_None_eq)

text \<open>Text without a match is what \<open>re.sub\<close> leaves alone.\<close>

lemma sub_from_no_match: "search_from r b a = None \<Longrightarrow> sub_from r f n b a = a"
proof (induction a arbitrary: b)
  case Nil
  then show ?case by (subst sub_from.simps) (auto split: option.splits)
next
  case (Cons x a)
  then have "first_match r b (x # a) = None" "search_from r (x # b) a = None"
    by (auto split: option.splits)
  with Cons.IH show ?case by (subst sub_from.simps) auto
qed

lemma re_sub_no_match: "re_search r s = None \<Longrightarrow> re_sub r f s = s"
  by (simp add: re_sub_def re_search_def sub_from_no_match)

end
