(* ===== verification/Py_World.thy ===== *)
theory Py_World
  imports Py_Regex
begin

section \<open>The world the scripts run in\<close>

text \<open>
  The scripts read and write files of the checkout, start programs (git, rpmspec, dnf, gorget,
  \<dots>) and talk to web services. The checkout is a finite list of paths with their nodes, in
  directory order; what programs and services answer is a parameter, the \<^emph>\<open>host\<close>: a function of
  everything that was asked so far, the present question and the files, to the answer and the
  files afterwards. A program is a function of the world that returns a value or raises
  (\<open>Inl\<close>), and always returns the world as it was left. Every question to the host is
  recorded in \<open>trace\<close>, so what a run did to the outside is a value that theorems speak of.
  Log messages are not recorded.

  The second half is the library of proof rules: \<open>keeps I m\<close> (the invariant \<open>I\<close> survives
  \<open>m\<close>, whether it returns or raises), \<open>emits S m\<close> (every event of \<open>m\<close> satisfies \<open>S\<close> and no
  earlier event is lost) and \<open>triple\<close> (pre-, post- and exceptional condition), each with one
  rule per combinator in the collection \<open>prog_rules\<close>.
\<close>

named_theorems prog_rules
named_theorems prog_simps
named_theorems prog_inr

subsection \<open>Files\<close>

type_synonym path = "string list"

datatype node =
    FileN string \<comment> \<open>a text file\<close>
  | BinN string \<comment> \<open>a file that is no UTF-8 text\<close>
  | JsonN json \<comment> \<open>a text file whose content is the JSON document\<close>
  | DirN

type_synonym fs = "(path \<times> node) list"

definition fs_exists :: "fs \<Rightarrow> path \<Rightarrow> bool" where
  "fs_exists f p = (map_of f p \<noteq> None)"

definition fs_is_dir :: "fs \<Rightarrow> path \<Rightarrow> bool" where
  "fs_is_dir f p = (map_of f p = Some DirN)"

definition fs_is_file :: "fs \<Rightarrow> path \<Rightarrow> bool" where
  "fs_is_file f p = (map_of f p \<noteq> None \<and> map_of f p \<noteq> Some DirN)"

definition fs_children :: "fs \<Rightarrow> path \<Rightarrow> string list" where
  \<comment> \<open>\<open>[q.name for q in p.iterdir()]\<close>\<close>
  "fs_children f p = map last (filter (\<lambda>q. q \<noteq> [] \<and> butlast q = p) (map fst f))"

definition fs_glob :: "fs \<Rightarrow> path \<Rightarrow> string \<Rightarrow> string list" where
  \<comment> \<open>\<open>p.glob('*' + suffix)\<close>; in \<open>pathlib\<close> the star matches hidden names and the empty name too\<close>
  "fs_glob f p suffix = filter (\<lambda>n. endswith n suffix) (fs_children f p)"

definition under :: "path \<Rightarrow> path \<Rightarrow> bool" where
  "under d q = (take (length d) q = d)"

definition fs_write :: "path \<Rightarrow> node \<Rightarrow> fs \<Rightarrow> fs" where
  "fs_write p n f = AList.update p n f"

definition fs_unlink :: "path \<Rightarrow> fs \<Rightarrow> fs" where
  "fs_unlink p f = AList.delete p f"

definition fs_rmtree :: "path \<Rightarrow> fs \<Rightarrow> fs" where
  "fs_rmtree d f = filter (\<lambda>(q, _). \<not> under d q) f"

definition fs_copytree :: "path \<Rightarrow> path \<Rightarrow> fs \<Rightarrow> fs" where
  "fs_copytree src dst f =
     fold (\<lambda>(q, n) g. fs_write (dst @ drop (length src) q) n g) (filter (\<lambda>(q, _). under src q) f) f"

lemma fs_write_lookup [simp]: "map_of (fs_write p n f) q = (if q = p then Some n else map_of f q)"
  by (simp add: fs_write_def update_conv)

lemma fs_unlink_lookup [simp]: "map_of (fs_unlink p f) q = (if q = p then None else map_of f q)"
  by (simp add: fs_unlink_def delete_conv)

lemma fs_rmtree_lookup [simp]: "map_of (fs_rmtree d f) q = (if under d q then None else map_of f q)"
proof (induction f)
  case Nil
  then show ?case by (simp add: fs_rmtree_def)
next
  case (Cons e f)
  obtain p n where e: "e = (p, n)" by (cases e)
  show ?case
  proof (cases "under d p")
    case True
    then have "fs_rmtree d (e # f) = fs_rmtree d f" by (simp add: fs_rmtree_def e)
    with Cons True e show ?thesis by auto
  next
    case False
    then have "fs_rmtree d (e # f) = (p, n) # fs_rmtree d f" by (simp add: fs_rmtree_def e)
    with Cons False e show ?thesis by auto
  qed
qed

subsection \<open>Exceptions, events and replies\<close>

datatype exn =
    SysExit int string \<comment> \<open>\<open>sys.exit(msg)\<close> has code 1 and prints \<open>msg\<close>\<close>
  | ValueError string
  | JSONDecodeError
  | UnicodeDecodeError
  | InvalidVersion string
  | RuntimeError string
  | AssertionError string
  | KeyError string
  | IndexError
  | TypeError string
  | OverflowError string
  | FileNotFoundError string
  | OSError string
  | ConnectionError string
  | HTTPError int string
  | URLError string
  | HTTPException string
  | ProtocolError int string \<comment> \<open>\<open>xmlrpc.client\<close>: an HTTP status other than 200; no \<open>OSError\<close>\<close>
  | SocketTimeout
  | RpcFault string
  | CalledProcessError int string
  | TimeoutExpired
  | NevrCheckError string
  | EOFError
  | DatabaseError string \<comment> \<open>\<open>sqlite3\<close>: no \<open>OSError\<close> and no \<open>RuntimeError\<close>\<close>
  | NotImplementedError string
  | LookupError string
  | EndPass \<comment> \<open>of \<open>pyproject_buildrequires.py\<close>\<close>
  | OutOfFuel \<comment> \<open>no Python exception: the model's bound on a loop was too small\<close>

definition is_OSError :: "exn \<Rightarrow> bool" where
  \<comment> \<open>\<open>except OSError\<close>: the class and its subclasses\<close>
  "is_OSError e = (case e of OSError _ \<Rightarrow> True | FileNotFoundError _ \<Rightarrow> True
     | ConnectionError _ \<Rightarrow> True | HTTPError _ _ \<Rightarrow> True | URLError _ \<Rightarrow> True
     | SocketTimeout \<Rightarrow> True | _ \<Rightarrow> False)"

definition is_URLError :: "exn \<Rightarrow> bool" where
  "is_URLError e = (case e of HTTPError _ _ \<Rightarrow> True | URLError _ \<Rightarrow> True | _ \<Rightarrow> False)"

definition is_ValueError :: "exn \<Rightarrow> bool" where
  "is_ValueError e = (case e of ValueError _ \<Rightarrow> True | JSONDecodeError \<Rightarrow> True
     | UnicodeDecodeError \<Rightarrow> True | InvalidVersion _ \<Rightarrow> True | _ \<Rightarrow> False)"

fun exn_str :: "exn \<Rightarrow> string" where
  \<comment> \<open>\<open>str(e)\<close>, as far as messages carry it on\<close>
  "exn_str (SysExit _ m) = m"
| "exn_str (ValueError m) = m"
| "exn_str (InvalidVersion m) = m"
| "exn_str (RuntimeError m) = m"
| "exn_str (AssertionError m) = m"
| "exn_str (KeyError m) = m"
| "exn_str (TypeError m) = m"
| "exn_str (OverflowError m) = m"
| "exn_str (FileNotFoundError m) = m"
| "exn_str (OSError m) = m"
| "exn_str (ConnectionError m) = m"
| "exn_str (HTTPError n m) = ''HTTP Error '' @ show_int n @ '': '' @ m"
| "exn_str (URLError m) = ''<urlopen error '' @ m @ ''>''"
| "exn_str (HTTPException m) = m"
| "exn_str SocketTimeout = ''timed out''"
| "exn_str (RpcFault m) = m"
| "exn_str (NevrCheckError m) = m"
| "exn_str (DatabaseError m) = m"
| "exn_str (NotImplementedError m) = m"
| "exn_str (LookupError m) = m"
| "exn_str (CalledProcessError n m) = ''Command returned non-zero exit status '' @ show_int n @ ''.''"
| "exn_str _ = []"

datatype event =
    Proc "string list" path \<comment> \<open>a program with its arguments and working directory\<close>
  | ProcEnv "(string \<times> string) list" "string list" path \<comment> \<open>a program with an environment of its own\<close>
  | Http string string "(string \<times> string) list" \<comment> \<open>method, URL, headers\<close>
  | Rpc string string \<comment> \<open>a Koji method and its argument\<close>
  | Lib string "string list" \<comment> \<open>a function of a package that is no part of the checkout, and its arguments\<close>
  | Sleep nat
  | SleepMs nat
  | Clock
  | Ask string \<comment> \<open>a question on the terminal\<close>
  | Print string
  | PrintJson json \<comment> \<open>a JSON document on standard output\<close>

datatype reply =
    Exit int string string \<comment> \<open>exit status, standard output, standard error\<close>
  | ExitJ int json string \<comment> \<open>exit status, a JSON document on standard output, standard error\<close>
  | NoProgram
  | TimedOut
  | Body string "(string \<times> string) list" \<comment> \<open>HTTP body and headers\<close>
  | JBody json "(string \<times> string) list" \<comment> \<open>an HTTP body that is a JSON document, and headers\<close>
  | Blob string \<comment> \<open>an HTTP body that is no text\<close>
  | HttpErr int string
  | NetErr string
  | Answer json
  | Fault string
  | HttpExc string
  | Time int
  | Eof

type_synonym host = "event list \<Rightarrow> event \<Rightarrow> fs \<Rightarrow> reply \<times> fs"

record world =
  files :: fs
  trace :: "event list"
  environ :: "(string \<times> string) list"
  imported :: "(string \<times> dict) list" \<comment> \<open>the global \<open>imports\<close> of \<open>dist_git.py\<close>\<close>
  releases :: "(string \<times> (string \<times> string) list) list" \<comment> \<open>its global \<open>releases\<close>\<close>
  sign_off :: bool \<comment> \<open>the global \<open>sign_off\<close> of the running script\<close>

definition blank :: world where
  \<comment> \<open>an empty checkout, at the start of a run\<close>
  "blank = \<lparr>files = [], trace = [], environ = [], imported = [], releases = [], sign_off = False\<rparr>"

lemma blank_simps [simp]:
  "files blank = []" "trace blank = []" "environ blank = []" "imported blank = []"
  "releases blank = []" "sign_off blank = False"
  by (simp_all add: blank_def)

type_synonym 'a prog = "world \<Rightarrow> (exn + 'a) \<times> world"

subsection \<open>Programs\<close>

definition ret :: "'a \<Rightarrow> 'a prog" where
  "ret x = (\<lambda>w. (Inr x, w))"

definition raise :: "exn \<Rightarrow> 'a prog" where
  "raise e = (\<lambda>w. (Inl e, w))"

definition bind :: "'a prog \<Rightarrow> ('a \<Rightarrow> 'b prog) \<Rightarrow> 'b prog" where
  "bind m k = (\<lambda>w. case m w of (Inl e, w') \<Rightarrow> (Inl e, w') | (Inr x, w') \<Rightarrow> k x w')"

definition seq :: "'a prog \<Rightarrow> 'b prog \<Rightarrow> 'b prog" where
  "seq m k = bind m (\<lambda>_. k)"

definition catch :: "'a prog \<Rightarrow> (exn \<Rightarrow> bool) \<Rightarrow> (exn \<Rightarrow> 'a prog) \<Rightarrow> 'a prog" where
  \<comment> \<open>\<open>try: m except sel as e: h(e)\<close>\<close>
  "catch m sel h = (\<lambda>w. case m w of
       (Inl e, w') \<Rightarrow> if sel e then h e w' else (Inl e, w')
     | (Inr x, w') \<Rightarrow> (Inr x, w'))"

definition finally_do :: "'a prog \<Rightarrow> unit prog \<Rightarrow> 'a prog" where
  \<comment> \<open>\<open>try: m finally: c\<close>, for a \<open>c\<close> that does not raise\<close>
  "finally_do m c = (\<lambda>w. case m w of (r, w') \<Rightarrow> (r, snd (c w')))"

definition gets :: "(world \<Rightarrow> 'a) \<Rightarrow> 'a prog" where
  "gets f = (\<lambda>w. (Inr (f w), w))"

definition modify :: "(world \<Rightarrow> world) \<Rightarrow> unit prog" where
  "modify f = (\<lambda>w. (Inr (), f w))"

definition whenM :: "bool \<Rightarrow> unit prog \<Rightarrow> unit prog" where
  "whenM b m = (if b then m else ret ())"

definition from_sum :: "exn + 'a \<Rightarrow> 'a prog" where
  "from_sum r = (case r of Inl e \<Rightarrow> raise e | Inr x \<Rightarrow> ret x)"

definition assertM :: "bool \<Rightarrow> string \<Rightarrow> unit prog" where
  "assertM b msg = (if b then ret () else raise (AssertionError msg))"

definition sys_exit :: "string \<Rightarrow> 'a prog" where
  "sys_exit msg = raise (SysExit 1 msg)"

definition ask_host :: "host \<Rightarrow> event \<Rightarrow> reply prog" where
  "ask_host h ev = (\<lambda>w. case h (trace w) ev (files w) of
      (r, f) \<Rightarrow> (Inr r, w\<lparr>files := f, trace := trace w @ [ev]\<rparr>))"

definition emit :: "event \<Rightarrow> unit prog" where
  "emit ev = modify (\<lambda>w. w\<lparr>trace := trace w @ [ev]\<rparr>)"

fun mapM :: "('a \<Rightarrow> 'b prog) \<Rightarrow> 'a list \<Rightarrow> 'b list prog" where
  "mapM f [] = ret []"
| "mapM f (x # xs) = bind (f x) (\<lambda>y. bind (mapM f xs) (\<lambda>ys. ret (y # ys)))"

fun forM :: "('a \<Rightarrow> unit prog) \<Rightarrow> 'a list \<Rightarrow> unit prog" where
  "forM f [] = ret ()"
| "forM f (x # xs) = seq (f x) (forM f xs)"

fun foldM :: "('s \<Rightarrow> 'a \<Rightarrow> 's prog) \<Rightarrow> 's \<Rightarrow> 'a list \<Rightarrow> 's prog" where
  "foldM f s [] = ret s"
| "foldM f s (x # xs) = bind (f s x) (\<lambda>s'. foldM f s' xs)"

subsection \<open>File operations\<close>

definition exists :: "path \<Rightarrow> bool prog" where "exists p = gets (\<lambda>w. fs_exists (files w) p)"
definition is_file :: "path \<Rightarrow> bool prog" where "is_file p = gets (\<lambda>w. fs_is_file (files w) p)"
definition is_dir :: "path \<Rightarrow> bool prog" where "is_dir p = gets (\<lambda>w. fs_is_dir (files w) p)"

definition glob :: "path \<Rightarrow> string \<Rightarrow> string list prog" where
  "glob p suffix = gets (\<lambda>w. fs_glob (files w) p suffix)"

definition iterdir :: "path \<Rightarrow> string list prog" where
  "iterdir p = gets (\<lambda>w. fs_children (files w) p)"

definition read_text :: "path \<Rightarrow> string prog" where
  "read_text p = (\<lambda>w. case map_of (files w) p of
      None \<Rightarrow> (Inl (FileNotFoundError (join ''/'' p)), w)
    | Some (FileN s) \<Rightarrow> (Inr s, w)
    | Some (BinN _) \<Rightarrow> (Inl UnicodeDecodeError, w)
    | Some _ \<Rightarrow> (Inl (OSError (join ''/'' p)), w))"

definition json_load :: "path \<Rightarrow> json prog" where
  "json_load p = (\<lambda>w. case map_of (files w) p of
      None \<Rightarrow> (Inl (FileNotFoundError (join ''/'' p)), w)
    | Some (JsonN j) \<Rightarrow> (Inr j, w)
    | Some (FileN _) \<Rightarrow> (Inl JSONDecodeError, w)
    | Some (BinN _) \<Rightarrow> (Inl UnicodeDecodeError, w)
    | Some DirN \<Rightarrow> (Inl (OSError (join ''/'' p)), w))"

definition write_node :: "path \<Rightarrow> node \<Rightarrow> unit prog" where
  "write_node p n = modify (\<lambda>w. w\<lparr>files := fs_write p n (files w)\<rparr>)"

definition write_text :: "path \<Rightarrow> string \<Rightarrow> unit prog" where
  "write_text p s = write_node p (FileN s)"

definition unlink :: "path \<Rightarrow> unit prog" where
  "unlink p = (\<lambda>w. if fs_exists (files w) p then (Inr (), w\<lparr>files := fs_unlink p (files w)\<rparr>)
     else (Inl (FileNotFoundError (join ''/'' p)), w))"

definition copy_file :: "path \<Rightarrow> path \<Rightarrow> unit prog" where
  "copy_file src dst = (\<lambda>w. case map_of (files w) src of
      None \<Rightarrow> (Inl (FileNotFoundError (join ''/'' src)), w)
    | Some DirN \<Rightarrow> (Inl (OSError (join ''/'' src)), w)
    | Some n \<Rightarrow> (Inr (), w\<lparr>files := fs_write dst n (files w)\<rparr>))"

definition rmtree :: "path \<Rightarrow> unit prog" where
  "rmtree p = (\<lambda>w. if fs_exists (files w) p then (Inr (), w\<lparr>files := fs_rmtree p (files w)\<rparr>)
     else (Inl (FileNotFoundError (join ''/'' p)), w))"

definition mkdir :: "path \<Rightarrow> unit prog" where
  \<comment> \<open>\<open>p.mkdir(exist_ok=True)\<close>\<close>
  "mkdir p = (\<lambda>w. case map_of (files w) p of
      None \<Rightarrow> (Inr (), w\<lparr>files := fs_write p DirN (files w)\<rparr>)
    | Some DirN \<Rightarrow> (Inr (), w)
    | Some _ \<Rightarrow> (Inl (OSError (join ''/'' p)), w))"

definition copytree :: "path \<Rightarrow> path \<Rightarrow> unit prog" where
  "copytree src dst = modify (\<lambda>w. w\<lparr>files := fs_copytree src dst (files w)\<rparr>)"

subsection \<open>Running programs\<close>

lemma ret_run [prog_simps]: "ret x w = (Inr x, w)"
  by (simp add: ret_def)

lemma raise_run [prog_simps]: "raise e w = (Inl e, w)"
  by (simp add: raise_def)

lemma gets_run [prog_simps]: "gets f w = (Inr (f w), w)"
  by (simp add: gets_def)

lemma modify_run [prog_simps]: "modify f w = (Inr (), f w)"
  by (simp add: modify_def)

lemma bind_run [prog_simps]:
  "bind m k w = (case m w of (Inl e, w') \<Rightarrow> (Inl e, w') | (Inr x, w') \<Rightarrow> k x w')"
  by (simp add: bind_def)

lemma seq_run [prog_simps]:
  "seq m k w = (case m w of (Inl e, w') \<Rightarrow> (Inl e, w') | (Inr x, w') \<Rightarrow> k w')"
  by (simp add: seq_def bind_def)

lemma catch_run [prog_simps]:
  "catch m sel h w = (case m w of
       (Inl e, w') \<Rightarrow> if sel e then h e w' else (Inl e, w')
     | (Inr x, w') \<Rightarrow> (Inr x, w'))"
  by (simp add: catch_def)

lemma ask_host_run [prog_simps]:
  "ask_host h ev w = (Inr (fst (h (trace w) ev (files w))),
     w\<lparr>files := snd (h (trace w) ev (files w)), trace := trace w @ [ev]\<rparr>)"
  by (simp add: ask_host_def split: prod.splits)

lemma bind_Inr: "bind m k w = (Inr y, w'') \<longleftrightarrow>
    (\<exists>x w'. m w = (Inr x, w') \<and> k x w' = (Inr y, w''))"
  by (auto simp: bind_def split: prod.splits sum.splits)

lemma seq_Inr: "seq m k w = (Inr y, w'') \<longleftrightarrow>
    (\<exists>x w'. m w = (Inr x, w') \<and> k w' = (Inr y, w''))"
  by (auto simp: seq_def bind_Inr)

text \<open>Backwards through a run that returned: each step's result and world.\<close>

lemma catch_Inr: "catch m sel k w = (Inr y, w'') \<longleftrightarrow>
    m w = (Inr y, w'') \<or> (\<exists>e w'. m w = (Inl e, w') \<and> sel e \<and> k e w' = (Inr y, w''))"
  by (auto simp: catch_def split: prod.splits sum.splits if_splits)

lemma step_Inr:
  "ret x w = (Inr y, w') \<longleftrightarrow> y = x \<and> w' = w"
  "raise e w = (Inr y', w') \<longleftrightarrow> False"
  "sys_exit msg w = (Inr y', w') \<longleftrightarrow> False"
  "gets f w = (Inr y, w') \<longleftrightarrow> y = f w \<and> w' = w"
  "modify g w = (Inr u, w') \<longleftrightarrow> w' = g w"
  "from_sum r w = (Inr y, w') \<longleftrightarrow> r = Inr y \<and> w' = w"
  "whenM b m w = (Inr u, w') \<longleftrightarrow> (if b then m w = (Inr u, w') else w' = w)"
  "exists p w = (Inr b, w') \<longleftrightarrow> b = fs_exists (files w) p \<and> w' = w"
  "is_file p w = (Inr b, w') \<longleftrightarrow> b = fs_is_file (files w) p \<and> w' = w"
  "is_dir p w = (Inr b, w') \<longleftrightarrow> b = fs_is_dir (files w) p \<and> w' = w"
  "glob p s w = (Inr ns, w') \<longleftrightarrow> ns = fs_glob (files w) p s \<and> w' = w"
  "iterdir p w = (Inr ns, w') \<longleftrightarrow> ns = fs_children (files w) p \<and> w' = w"
  by (auto simp: ret_def raise_def sys_exit_def gets_def modify_def from_sum_def whenM_def exists_def
      is_file_def is_dir_def glob_def iterdir_def split: sum.splits)

lemma option_Inr: "(case x of None \<Rightarrow> m | Some y \<Rightarrow> k y) w = (Inr r, w') \<longleftrightarrow>
    x = None \<and> m w = (Inr r, w') \<or> (\<exists>y. x = Some y \<and> k y w = (Inr r, w'))"
  by (cases x) auto

lemma sum_Inr: "(case x of Inl a \<Rightarrow> m a | Inr b \<Rightarrow> k b) w = (Inr r, w') \<longleftrightarrow>
    (\<exists>a. x = Inl a \<and> m a w = (Inr r, w')) \<or> (\<exists>b. x = Inr b \<and> k b w = (Inr r, w'))"
  by (cases x) auto

lemma if_Inr: "(if b then m else k) w = (Inr r, w') \<longleftrightarrow> b \<and> m w = (Inr r, w') \<or> \<not> b \<and> k w = (Inr r, w')"
  by simp

declare bind_Inr [prog_inr] seq_Inr [prog_inr] catch_Inr [prog_inr] step_Inr [prog_inr]

lemma bind_assoc: "bind (bind m k) l = bind m (\<lambda>x. bind (k x) l)"
  by (auto simp: bind_def fun_eq_iff split: prod.splits sum.splits)

lemma bind_ret [simp]: "bind m ret = m"
  by (auto simp: bind_def ret_def fun_eq_iff split: prod.splits sum.splits)

lemma ret_bind [simp]: "bind (ret x) k = k x"
  by (simp add: bind_def ret_def)

lemma raise_bind [simp]: "bind (raise e) k = raise e"
  by (simp add: bind_def raise_def)

subsection \<open>Invariants and events\<close>

definition keeps :: "(world \<Rightarrow> bool) \<Rightarrow> 'a prog \<Rightarrow> bool" where
  "keeps I m \<longleftrightarrow> (\<forall>w. I w \<longrightarrow> I (snd (m w)))"

definition emits :: "(event \<Rightarrow> bool) \<Rightarrow> 'a prog \<Rightarrow> bool" where
  "emits S m \<longleftrightarrow> (\<forall>w. \<exists>es. trace (snd (m w)) = trace w @ es \<and> (\<forall>e \<in> set es. S e))"

definition triple :: "(world \<Rightarrow> bool) \<Rightarrow> 'a prog \<Rightarrow> ('a \<Rightarrow> world \<Rightarrow> bool) \<Rightarrow> (exn \<Rightarrow> world \<Rightarrow> bool) \<Rightarrow> bool" where
  "triple P m Q E \<longleftrightarrow>
     (\<forall>w. P w \<longrightarrow> (case m w of (Inr x, w') \<Rightarrow> Q x w' | (Inl e, w') \<Rightarrow> E e w'))"

lemma keepsD: "keeps I m \<Longrightarrow> m w = (r, w') \<Longrightarrow> I w \<Longrightarrow> I w'"
  by (auto simp: keeps_def dest: spec[of _ w])

lemma emitsD: "emits S m \<Longrightarrow> m w = (r, w') \<Longrightarrow> \<exists>es. trace w' = trace w @ es \<and> (\<forall>e \<in> set es. S e)"
  by (auto simp: emits_def dest: spec[of _ w])

lemma emits_weaken: "emits S m \<Longrightarrow> (\<And>e. S e \<Longrightarrow> T e) \<Longrightarrow> emits T m"
  by (fastforce simp: emits_def)

lemma keeps_ret [prog_rules]: "keeps I (ret x)"
  by (simp add: keeps_def ret_def)

lemma keeps_raise [prog_rules]: "keeps I (raise e)"
  by (simp add: keeps_def raise_def)

lemma keeps_gets [prog_rules]: "keeps I (gets f)"
  by (simp add: keeps_def gets_def)

lemma keeps_modify: "(\<And>w. I w \<Longrightarrow> I (f w)) \<Longrightarrow> keeps I (modify f)"
  by (simp add: keeps_def modify_def)

lemma keeps_bind [prog_rules]: "keeps I m \<Longrightarrow> (\<And>x. keeps I (k x)) \<Longrightarrow> keeps I (bind m k)"
  by (fastforce simp: keeps_def bind_def split: prod.splits sum.splits)

lemma keeps_seq [prog_rules]: "keeps I m \<Longrightarrow> keeps I k \<Longrightarrow> keeps I (seq m k)"
  by (simp add: seq_def keeps_bind)

lemma keeps_catch [prog_rules]: "keeps I m \<Longrightarrow> (\<And>e. keeps I (h e)) \<Longrightarrow> keeps I (catch m sel h)"
  by (fastforce simp: keeps_def catch_def split: prod.splits sum.splits)

lemma keeps_finally [prog_rules]: "keeps I m \<Longrightarrow> keeps I c \<Longrightarrow> keeps I (finally_do m c)"
  by (fastforce simp: keeps_def finally_do_def split: prod.splits)

lemma keeps_when [prog_rules]: "(b \<Longrightarrow> keeps I m) \<Longrightarrow> keeps I (whenM b m)"
  by (simp add: whenM_def keeps_ret)

lemma keeps_mapM [prog_rules]: "(\<And>x. x \<in> set xs \<Longrightarrow> keeps I (f x)) \<Longrightarrow> keeps I (mapM f xs)"
  by (induction xs) (auto intro!: prog_rules)

lemma keeps_forM [prog_rules]: "(\<And>x. x \<in> set xs \<Longrightarrow> keeps I (f x)) \<Longrightarrow> keeps I (forM f xs)"
  by (induction xs) (auto intro!: prog_rules)

lemma keeps_foldM [prog_rules]:
  "(\<And>s x. x \<in> set xs \<Longrightarrow> keeps I (f s x)) \<Longrightarrow> keeps I (foldM f s xs)"
  by (induction xs arbitrary: s) (auto intro!: prog_rules)

lemma keeps_from_sum [prog_rules]: "keeps I (from_sum r)"
  by (simp add: from_sum_def prog_rules split: sum.splits)

lemma keeps_assertM [prog_rules]: "keeps I (assertM b msg)"
  by (simp add: assertM_def prog_rules)

lemma keeps_sys_exit [prog_rules]: "keeps I (sys_exit msg)"
  by (simp add: sys_exit_def prog_rules)

lemma keeps_if [prog_rules]: "(b \<Longrightarrow> keeps I m) \<Longrightarrow> (\<not> b \<Longrightarrow> keeps I n) \<Longrightarrow> keeps I (if b then m else n)"
  by simp

lemma keeps_option [prog_rules]:
  "(x = None \<Longrightarrow> keeps I m) \<Longrightarrow> (\<And>y. x = Some y \<Longrightarrow> keeps I (k y)) \<Longrightarrow>
   keeps I (case x of None \<Rightarrow> m | Some y \<Rightarrow> k y)"
  by (cases x) auto

lemma keeps_list [prog_rules]:
  "(x = [] \<Longrightarrow> keeps I m) \<Longrightarrow> (\<And>y ys. x = y # ys \<Longrightarrow> keeps I (k y ys)) \<Longrightarrow>
   keeps I (case x of [] \<Rightarrow> m | y # ys \<Rightarrow> k y ys)"
  by (cases x) auto

lemma keeps_prod [prog_rules]: "(\<And>a b. x = (a, b) \<Longrightarrow> keeps I (k a b)) \<Longrightarrow> keeps I (case x of (a, b) \<Rightarrow> k a b)"
  by (cases x) auto

lemma keeps_Let [prog_rules]: "keeps I (k x) \<Longrightarrow> keeps I (Let x k)"
  by simp

lemma keeps_read [prog_rules]: "keeps I (read_text p)" "keeps I (json_load p)"
  by (auto simp: keeps_def read_text_def json_load_def split: option.splits node.splits)

lemma keeps_look [prog_rules]:
  "keeps I (exists p)" "keeps I (is_file p)" "keeps I (is_dir p)" "keeps I (glob p s)" "keeps I (iterdir p)"
  by (simp_all add: exists_def is_file_def is_dir_def glob_def iterdir_def prog_rules)

text \<open>\<open>emits\<close> is a family of \<open>keeps\<close> facts, one per starting trace.\<close>

definition grown_by :: "event list \<Rightarrow> (event \<Rightarrow> bool) \<Rightarrow> world \<Rightarrow> bool" where
  "grown_by t S w \<longleftrightarrow> (\<exists>es. trace w = t @ es \<and> (\<forall>e \<in> set es. S e))"

lemma emits_iff: "emits S m \<longleftrightarrow> (\<forall>t. keeps (grown_by t S) m)"
proof
  assume e: "emits S m"
  show "\<forall>t. keeps (grown_by t S) m"
    unfolding keeps_def grown_by_def
  proof (intro allI impI)
    fix t and w :: world assume "\<exists>es. trace w = t @ es \<and> (\<forall>e \<in> set es. S e)"
    then obtain es where es: "trace w = t @ es" "\<forall>e \<in> set es. S e" by blast
    from e obtain fs where "trace (snd (m w)) = trace w @ fs" "\<forall>e \<in> set fs. S e"
      unfolding emits_def by blast
    with es have "trace (snd (m w)) = t @ (es @ fs) \<and> (\<forall>e \<in> set (es @ fs). S e)" by auto
    then show "\<exists>es. trace (snd (m w)) = t @ es \<and> (\<forall>e \<in> set es. S e)" by blast
  qed
next
  assume k: "\<forall>t. keeps (grown_by t S) m"
  show "emits S m"
    unfolding emits_def
  proof
    fix w :: world
    have "grown_by (trace w) S w" by (auto simp: grown_by_def)
    with k show "\<exists>es. trace (snd (m w)) = trace w @ es \<and> (\<forall>e \<in> set es. S e)"
      by (auto simp: keeps_def grown_by_def)
  qed
qed

lemma emits_keeps: "(\<And>t. keeps (grown_by t S) m) \<Longrightarrow> emits S m"
  by (simp add: emits_iff)

lemma emits_grown: "emits S m \<Longrightarrow> keeps (grown_by t S) m"
  by (simp add: emits_iff)

lemma keeps_ask_host:
  "(\<And>w. I w \<Longrightarrow> I (w\<lparr>files := snd (h (trace w) ev (files w)), trace := trace w @ [ev]\<rparr>)) \<Longrightarrow>
   keeps I (ask_host h ev)"
  by (simp add: keeps_def ask_host_run)

lemma grown_ask_host [prog_rules]: "S ev \<Longrightarrow> keeps (grown_by t S) (ask_host h ev)"
  by (rule keeps_ask_host) (auto simp: grown_by_def)

lemma grown_emit [prog_rules]: "S ev \<Longrightarrow> keeps (grown_by t S) (emit ev)"
  unfolding emit_def by (rule keeps_modify) (auto simp: grown_by_def)

lemma grown_files [prog_rules]:
  "keeps (grown_by t S) (write_node p n)" "keeps (grown_by t S) (write_text p s)"
  "keeps (grown_by t S) (unlink p)" "keeps (grown_by t S) (rmtree p)"
  "keeps (grown_by t S) (copytree p q)" "keeps (grown_by t S) (copy_file p q)"
  "keeps (grown_by t S) (mkdir p)"
  by (auto simp: keeps_def grown_by_def write_node_def write_text_def unlink_def rmtree_def mkdir_def
      copytree_def copy_file_def modify_def split: if_splits option.splits node.splits)

lemma grown_imports [prog_rules]:
  "keeps (grown_by t S) (modify (\<lambda>w. w\<lparr>imported := g w\<rparr>))"
  by (rule keeps_modify) (simp add: grown_by_def)

subsection \<open>Triples\<close>

lemma tripleI:
  "(\<And>w x w'. P w \<Longrightarrow> m w = (Inr x, w') \<Longrightarrow> Q x w') \<Longrightarrow>
   (\<And>w e w'. P w \<Longrightarrow> m w = (Inl e, w') \<Longrightarrow> E e w') \<Longrightarrow> triple P m Q E"
  by (auto simp: triple_def split: prod.splits sum.splits)

lemma tripleD: "triple P m Q E \<Longrightarrow> P w \<Longrightarrow> m w = (Inr x, w') \<Longrightarrow> Q x w'"
  by (fastforce simp: triple_def)

lemma tripleE: "triple P m Q E \<Longrightarrow> P w \<Longrightarrow> m w = (Inl e, w') \<Longrightarrow> E e w'"
  by (fastforce simp: triple_def)

lemma triple_bind:
  assumes "triple P m R E" "\<And>x. triple (R x) (k x) Q E"
  shows "triple P (bind m k) Q E"
  unfolding triple_def
proof (intro allI impI)
  fix w assume P: "P w"
  obtain r w1 where m: "m w = (r, w1)" by (cases "m w")
  show "case bind m k w of (Inr x, w') \<Rightarrow> Q x w' | (Inl e, w') \<Rightarrow> E e w'"
  proof (cases r)
    case (Inl e)
    with m assms(1) P have "E e w1" by (auto intro: tripleE)
    with m Inl show ?thesis by (simp add: bind_def)
  next
    case (Inr x)
    with m assms(1) P have "R x w1" by (auto intro: tripleD)
    with assms(2) have "case k x w1 of (Inr x, w') \<Rightarrow> Q x w' | (Inl e, w') \<Rightarrow> E e w'"
      by (simp add: triple_def)
    with m Inr show ?thesis by (simp add: bind_def)
  qed
qed

lemma triple_seq: "triple P m (\<lambda>_. R) E \<Longrightarrow> triple R k Q E \<Longrightarrow> triple P (seq m k) Q E"
  unfolding seq_def by (rule triple_bind)

lemma triple_pre: "triple P m Q E \<Longrightarrow> (\<And>w. P' w \<Longrightarrow> P w) \<Longrightarrow> triple P' m Q E"
  by (simp add: triple_def)

lemma triple_post:
  "triple P m Q E \<Longrightarrow> (\<And>x w. Q x w \<Longrightarrow> Q' x w) \<Longrightarrow> (\<And>e w. E e w \<Longrightarrow> E' e w) \<Longrightarrow> triple P m Q' E'"
  by (fastforce simp: triple_def split: prod.splits sum.splits)

lemma keeps_triple: "keeps I m \<longleftrightarrow> triple I m (\<lambda>_. I) (\<lambda>_. I)"
proof -
  have "I (snd (m w)) \<longleftrightarrow> (case m w of (Inr x, w') \<Rightarrow> I w' | (Inl e, w') \<Rightarrow> I w')" for w
    by (cases "m w"; cases "fst (m w)") auto
  then show ?thesis by (simp add: keeps_def triple_def)
qed

end
