(* ===== verification/Host_Calls.thy ===== *)
theory Host_Calls
  imports Py_World
begin

section \<open>Programs, web requests and retries\<close>

text \<open>
  The wrappers \<open>ci/dist_git.py\<close> puts around the outside: \<open>subprocess.run\<close>, \<open>run_git\<close>
  (network operations are tried three times), \<open>run_git_commit\<close>, \<open>urlopen\<close> with a JSON body,
  and \<open>call_koji_with_retry\<close>. The locale \<open>bounded_retry\<close> is the contract of a retry loop; its
  client lemma gives the exact trace of a run, and both loops of the code interpret it.
\<close>

subsection \<open>Places and paths\<close>

definition ROOT_DIR :: path where "ROOT_DIR = []" \<comment> \<open>paths are relative to the checkout\<close>
definition RPMS_DIR :: path where "RPMS_DIR = ROOT_DIR @ [''rpms'']"
definition METADATA_DIR :: path where "METADATA_DIR = ROOT_DIR @ [''metadata'']"
definition RELEASES_JSON :: path where "RELEASES_JSON = ROOT_DIR @ [''upstream-releases.json'']"
definition PACKAGE_OVERRIDES_YAML :: path where
  "PACKAGE_OVERRIDES_YAML = ROOT_DIR @ [''ci'', ''package-overrides.yaml'']"
definition RENAMED_PACKAGES_JSON :: path where
  "RENAMED_PACKAGES_JSON = ROOT_DIR @ [''ci'', ''renamed_packages.json'']"
definition UPDATE_STATE_FILE :: path where
  "UPDATE_STATE_FILE = ROOT_DIR @ [''.dist_git_update_state.json'']"

definition path_str :: "path \<Rightarrow> string" where "path_str p = join ''/'' p"

definition with_tmpdir :: "string \<Rightarrow> (path \<Rightarrow> 'a prog) \<Rightarrow> 'a prog" where
  \<comment> \<open>\<open>with tempfile.TemporaryDirectory() as d\<close>; the name keeps nested directories apart\<close>
  "with_tmpdir name body = (let d = [''<tmp>'', name] in
     finally_do (seq (write_node d DirN) (body d)) (rmtree d))"

lemma with_tmpdir_run:
  "with_tmpdir n body w = (case body [''<tmp>'', n] (w\<lparr>files := fs_write [''<tmp>'', n] DirN (files w)\<rparr>) of
     (r, w') \<Rightarrow> (r, snd (rmtree [''<tmp>'', n] w')))"
  by (simp add: with_tmpdir_def Let_def finally_do_def seq_run write_node_def modify_run)

lemma rmtree_trace [simp]: "trace (snd (rmtree d w)) = trace w"
  by (simp add: rmtree_def)

lemma keeps_with_tmpdir:
  "(\<And>d f. keeps I (write_node d f)) \<Longrightarrow> (\<And>d. keeps I (rmtree d)) \<Longrightarrow> (\<And>d. keeps I (body d)) \<Longrightarrow>
   keeps I (with_tmpdir n body)"
  unfolding with_tmpdir_def Let_def by (intro prog_rules)

lemma grown_with_tmpdir [prog_rules]:
  "(\<And>d. keeps (grown_by t S) (body d)) \<Longrightarrow> keeps (grown_by t S) (with_tmpdir n body)"
  by (rule keeps_with_tmpdir) (rule prog_rules)+

subsection \<open>Reading JSON values\<close>

definition as_dict :: "json \<Rightarrow> exn + dict" where
  "as_dict j = (case j of JObj d \<Rightarrow> Inr d | _ \<Rightarrow> Inl (TypeError ''not a dict''))"

definition as_list :: "json \<Rightarrow> exn + json list" where
  "as_list j = (case j of JList xs \<Rightarrow> Inr xs | _ \<Rightarrow> Inl (TypeError ''not a list''))"

definition as_str :: "json \<Rightarrow> exn + string" where
  "as_str j = (case j of JStr s \<Rightarrow> Inr s | _ \<Rightarrow> Inl (TypeError ''expected string''))"

definition item :: "json \<Rightarrow> string \<Rightarrow> exn + json" where
  \<comment> \<open>\<open>data['k']\<close>\<close>
  "item j k = (case j of
       JObj d \<Rightarrow> (case dget d k of Some v \<Rightarrow> Inr v | None \<Rightarrow> Inl (KeyError k))
     | _ \<Rightarrow> Inl (TypeError ''not subscriptable by str''))"

definition py_int :: "string \<Rightarrow> int option" where
  \<comment> \<open>\<open>int(s)\<close> on ASCII text: white space around, a sign, digits with single underscores between\<close>
  "py_int s = (let t = strip s;
       neg = startswith t ''-'';
       u = (if neg \<or> startswith t ''+'' then drop 1 t else t);
       ps = split_on CHR ''_'' u in
     if list_all (\<lambda>p. p \<noteq> [] \<and> list_all is_digit p) ps
     then Some (if neg then - int (parse_nat (concat ps)) else int (parse_nat (concat ps))) else None)"

definition json_int :: "json \<Rightarrow> exn + int" where
  \<comment> \<open>\<open>int(v)\<close>\<close>
  "json_int j = (case j of JInt i \<Rightarrow> Inr i | JBool b \<Rightarrow> Inr (if b then 1 else 0)
     | JStr s \<Rightarrow> (case py_int s of Some i \<Rightarrow> Inr i | None \<Rightarrow> Inl (ValueError ''invalid literal for int()''))
     | _ \<Rightarrow> Inl (TypeError ''int() argument''))"

subsection \<open>Libraries\<close>

definition py_text :: "json \<Rightarrow> string" where
  \<comment> \<open>\<open>str(v)\<close> of the scalars\<close>
  "py_text j = (case j of JStr s \<Rightarrow> s | JNull \<Rightarrow> ''None'' | JBool b \<Rightarrow> (if b then ''True'' else ''False'')
     | JInt i \<Rightarrow> show_int i | JList _ \<Rightarrow> ''[...]'' | JObj _ \<Rightarrow> ''{...}'')"

record 'v pylib =
  yaml_load :: "string \<Rightarrow> exn + json" \<comment> \<open>\<open>yaml.safe_load\<close>\<close>
  specfile_name :: "fs \<Rightarrow> path \<Rightarrow> path \<Rightarrow> exn + string" \<comment> \<open>\<open>Specfile(spec, sourcedir=dir).name\<close>\<close>
  spec_version :: "fs \<Rightarrow> path \<Rightarrow> path \<Rightarrow> exn + string" \<comment> \<open>its \<open>expanded_version\<close>\<close>
  spec_version_tag :: "string \<Rightarrow> string" \<comment> \<open>the raw \<open>Version\<close> tag of a spec text\<close>
  spec_update_tag :: "string \<Rightarrow> string \<Rightarrow> string \<Rightarrow> string" \<comment> \<open>\<open>update_tag\<close> with all entities protected\<close>
  spec_update_version :: "string \<Rightarrow> string \<Rightarrow> string" \<comment> \<open>\<open>update_version\<close>\<close>
  spec_has_autorelease :: "string \<Rightarrow> bool"
  spec_sources :: "fs \<Rightarrow> path \<Rightarrow> path \<Rightarrow> exn + (nat \<times> string) list" \<comment> \<open>numbers and locations of the parsed sources\<close>
  digest :: "string \<Rightarrow> node \<Rightarrow> exn + string" \<comment> \<open>\<open>hashlib\<close>: algorithm, content; an unknown algorithm is a \<open>ValueError\<close>\<close>
  parse_version :: "string \<Rightarrow> 'v option" \<comment> \<open>\<open>packaging.Version\<close>; \<open>None\<close> for \<open>InvalidVersion\<close>\<close>
  label_compare :: "(string \<Rightarrow> string \<Rightarrow> int) option" \<comment> \<open>\<open>rpm.labelCompare\<close>, when \<open>rpm\<close> can be imported\<close>

subsection \<open>Programs\<close>

record completed =
  returncode :: int
  stdout :: string
  stderr :: string

definition is_CalledProcessError :: "exn \<Rightarrow> bool" where
  "is_CalledProcessError e = (case e of CalledProcessError _ _ \<Rightarrow> True | _ \<Rightarrow> False)"

definition is_FileNotFoundError :: "exn \<Rightarrow> bool" where
  "is_FileNotFoundError e = (case e of FileNotFoundError _ \<Rightarrow> True | _ \<Rightarrow> False)"

definition completed_of :: "string list \<Rightarrow> bool \<Rightarrow> reply \<Rightarrow> exn + completed" where
  "completed_of argv check r = (case r of
       Exit rc out err \<Rightarrow>
         if check \<and> rc \<noteq> 0 then Inl (CalledProcessError rc err)
         else Inr \<lparr>returncode = rc, stdout = out, stderr = err\<rparr>
     | ExitJ rc _ err \<Rightarrow>
         if check \<and> rc \<noteq> 0 then Inl (CalledProcessError rc err)
         else Inr \<lparr>returncode = rc, stdout = [], stderr = err\<rparr>
     | TimedOut \<Rightarrow> Inl TimeoutExpired
     | _ \<Rightarrow> Inl (FileNotFoundError (hd argv)))"

definition run_proc :: "host \<Rightarrow> string list \<Rightarrow> path \<Rightarrow> bool \<Rightarrow> completed prog" where
  \<comment> \<open>\<open>subprocess.run(argv, cwd=cwd, check=check)\<close> with captured text output\<close>
  "run_proc h argv cwd check = bind (ask_host h (Proc argv cwd)) (\<lambda>r. from_sum (completed_of argv check r))"

definition run_proc_env :: "host \<Rightarrow> (string \<times> string) list \<Rightarrow> string list \<Rightarrow> path \<Rightarrow> completed prog" where
  \<comment> \<open>\<open>subprocess.run(argv, cwd=cwd, env=env)\<close>\<close>
  "run_proc_env h env argv cwd = bind (ask_host h (ProcEnv env argv cwd)) (\<lambda>r. from_sum (completed_of argv False r))"

definition run_json :: "host \<Rightarrow> string list \<Rightarrow> json prog" where
  \<comment> \<open>\<open>json.loads(subprocess.check_output(argv, text=True))\<close>\<close>
  "run_json h argv = bind (ask_host h (Proc argv ROOT_DIR)) (\<lambda>r.
     bind (from_sum (completed_of argv True r)) (\<lambda>_.
       case r of ExitJ _ j _ \<Rightarrow> ret j | _ \<Rightarrow> raise JSONDecodeError))"

definition sleep :: "nat \<Rightarrow> unit prog" where "sleep n = emit (Sleep n)"

definition network_ops :: "string list" where "network_ops = [''clone'', ''fetch'', ''pull'']"

fun git_attempts :: "host \<Rightarrow> string list \<Rightarrow> path \<Rightarrow> bool \<Rightarrow> nat \<Rightarrow> nat \<Rightarrow> completed prog" where
  \<comment> \<open>the loop of \<open>run_git\<close>, with the attempts left and the delay before the next one\<close>
  "git_attempts h args cwd check 0 delay =
     raise (RuntimeError ''Unexpected: git command loop completed without return or exception'')"
| "git_attempts h args cwd check (Suc n) delay =
     catch (run_proc h (''git'' # args) cwd check) is_CalledProcessError
       (\<lambda>e. if n > 0 then seq (sleep delay) (git_attempts h args cwd check n (delay * 2))
            else raise e)"

definition run_git_in :: "host \<Rightarrow> string list \<Rightarrow> path \<Rightarrow> bool \<Rightarrow> completed prog" where
  "run_git_in h args cwd check =
     (let should_retry = (case args of a # _ \<Rightarrow> a \<in> set network_ops | [] \<Rightarrow> False);
          max_retries = (if should_retry then 3 else 1)
      in git_attempts h args cwd check max_retries 2)"

abbreviation run_git :: "host \<Rightarrow> string list \<Rightarrow> path \<Rightarrow> completed prog" where
  "run_git h args cwd \<equiv> run_git_in h args cwd True"

definition run_git_commit :: "host \<Rightarrow> string list \<Rightarrow> path \<Rightarrow> completed prog" where
  "run_git_commit h args cwd = bind (gets sign_off) (\<lambda>s.
     run_git h (''commit'' # (if s then [''--signoff''] else []) @ args) cwd)"

definition check_jinja2_available :: "host \<Rightarrow> unit prog" where
  "check_jinja2_available h =
     catch (seq (run_proc h [''jinja2'', ''--version''] ROOT_DIR True) (ret ()))
       (\<lambda>e. is_CalledProcessError e \<or> is_FileNotFoundError e)
       (\<lambda>_. sys_exit ''ERROR: jinja2 command-line tool is not available.'')"

subsection \<open>Web requests\<close>

definition http_exn :: "reply \<Rightarrow> exn" where
  "http_exn r = (case r of HttpErr c m \<Rightarrow> HTTPError c m | NetErr m \<Rightarrow> URLError m
     | TimedOut \<Rightarrow> SocketTimeout | HttpExc m \<Rightarrow> HTTPException m | Blob _ \<Rightarrow> UnicodeDecodeError
     | _ \<Rightarrow> OSError ''no response'')"

definition urlopen_json :: "host \<Rightarrow> string \<Rightarrow> string \<Rightarrow> (string \<times> string) list \<Rightarrow> (json \<times> (string \<times> string) list) prog" where
  \<comment> \<open>a request whose body goes through \<open>json.loads\<close>, with the response's headers\<close>
  "urlopen_json h meth url headers = bind (ask_host h (Http meth url headers)) (\<lambda>r. case r of
       JBody j hs \<Rightarrow> ret (j, hs)
     | Body _ _ \<Rightarrow> raise JSONDecodeError
     | _ \<Rightarrow> raise (http_exn r))"

definition ANITYA_API_BASE :: string where "ANITYA_API_BASE = ''https://release-monitoring.org/api''"

definition lookup_anitya_project_id :: "host \<Rightarrow> string \<Rightarrow> int option prog" where
  "lookup_anitya_project_id h package_name =
     (let url = ANITYA_API_BASE @ ''/project/Fedora/'' @ package_name in
      catch (catch
        (bind (urlopen_json h ''GET'' url [(''User-Agent'', ''hummingbird-rpms/1.0'')]) (\<lambda>(data, _).
         bind (from_sum (item data ''id'')) (\<lambda>v.
         bind (from_sum (json_int v)) (\<lambda>i. ret (Some i)))))
        (\<lambda>e. case e of HTTPError _ _ \<Rightarrow> True | _ \<Rightarrow> False) (\<lambda>_. ret None))
        (\<lambda>e. is_URLError e \<or> is_OSError e \<or> is_ValueError e \<or> (case e of KeyError _ \<Rightarrow> True | _ \<Rightarrow> False))
        (\<lambda>_. ret None))"

definition get_mdapi_latest_build :: "host \<Rightarrow> string \<Rightarrow> string \<Rightarrow> dict option prog" where
  "get_mdapi_latest_build h package_name branch =
     (let url = ''https://mdapi.fedoraproject.org/'' @ branch @ ''/srcpkg/'' @ package_name in
      catch
        (bind (run_json h [''curl'', ''--silent'', ''--show-error'', ''--fail'', ''--retry'', ''3'',
                 ''--max-time'', ''30'', url]) (\<lambda>data.
         bind (from_sum (item data ''version'')) (\<lambda>v.
         bind (from_sum (item data ''release'')) (\<lambda>r.
         ret (Some [(''version'', v), (''release'', r)])))))
        is_CalledProcessError (\<lambda>_. ret None))"

definition dist_suffix_re :: rx where
  \<comment> \<open>\<open>\.(fc|el)\d+$\<close>\<close>
  "dist_suffix_re = Seq [Chr CHR ''.'', Grp 1 (AltL [Lit ''fc'', Lit ''el'']), Plus True Digit, Eol False]"

definition query_autorelease_from_mdapi :: "host \<Rightarrow> string \<Rightarrow> string \<Rightarrow> string \<Rightarrow> string option prog" where
  "query_autorelease_from_mdapi h package_name branch fallback_release =
     bind (get_mdapi_latest_build h package_name branch) (\<lambda>b. case b of
       Some d \<Rightarrow> bind (from_sum (item (JObj d) ''release'')) (\<lambda>r. bind (from_sum (as_str r)) (\<lambda>s.
         ret (Some (re_sub dist_suffix_re (\<lambda>_. []) s))))
     | None \<Rightarrow> ret None)"

subsection \<open>Koji calls\<close>

definition koji_exn :: "reply \<Rightarrow> exn" where
  "koji_exn r = (case r of Fault m \<Rightarrow> RpcFault m | HttpErr c m \<Rightarrow> ProtocolError c m
     | HttpExc m \<Rightarrow> HTTPException m | TimedOut \<Rightarrow> SocketTimeout | NetErr m \<Rightarrow> ConnectionError m
     | _ \<Rightarrow> OSError ''no response'')"

definition koji_method :: "host \<Rightarrow> string \<Rightarrow> string \<Rightarrow> json prog" where
  "koji_method h meth arg = bind (ask_host h (Rpc meth arg)) (\<lambda>r. case r of
       Answer j \<Rightarrow> ret j | _ \<Rightarrow> raise (koji_exn r))"

definition koji_should_retry :: "exn \<Rightarrow> bool" where
  "koji_should_retry e =
     (let error_msg = exn_str e;
          hit = (case e of
             HTTPException _ \<Rightarrow>
               list_ex (contains error_msg) [''502'', ''503'', ''504'', ''408''] \<or>
               contains error_msg ''5'' \<and>
               list_ex (contains (lower error_msg)) [''server'', ''gateway'', ''timeout'']
           | _ \<Rightarrow> is_OSError e)
      in hit \<and> \<not> list_ex (contains error_msg) [''401'', ''403'', ''404''])"

definition koji_caught :: "exn \<Rightarrow> bool" where
  \<comment> \<open>\<open>except (OSError, http.client.HTTPException)\<close>, after \<open>Fault\<close> was re-raised\<close>
  "koji_caught e = (is_OSError e \<or> (case e of HTTPException _ \<Rightarrow> True | _ \<Rightarrow> False))"

fun koji_attempts :: "host \<Rightarrow> string \<Rightarrow> string \<Rightarrow> nat \<Rightarrow> nat \<Rightarrow> json prog" where
  "koji_attempts h meth arg 0 delay = ret JNull"
| "koji_attempts h meth arg (Suc n) delay =
     catch (koji_method h meth arg) koji_caught
       (\<lambda>e. if \<not> koji_should_retry e \<or> n = 0 then raise e
            else seq (sleep delay) (koji_attempts h meth arg n (delay * 2)))"

definition call_koji_with_retry :: "host \<Rightarrow> string \<Rightarrow> string \<Rightarrow> json prog" where
  "call_koji_with_retry h meth arg = koji_attempts h meth arg 3 2"

subsection \<open>The contract of a retry loop\<close>

fun retry_log :: "event \<Rightarrow> nat \<Rightarrow> nat \<Rightarrow> event list" where
  \<comment> \<open>a call that was repeated \<open>k\<close> times, with doubling pauses\<close>
  "retry_log ev d 0 = [ev]"
| "retry_log ev d (Suc k) = ev # Sleep d # retry_log ev (2 * d) k"

locale bounded_retry =
  fixes call :: event
    and op :: "'a prog"
    and retryable :: "exn \<Rightarrow> bool"
    and attempts :: "nat \<Rightarrow> nat \<Rightarrow> 'a prog"
  assumes one_call: "trace (snd (op w)) = trace w @ [call]"
    and last_try: "attempts (Suc 0) d = op"
    and more_tries: "attempts (Suc (Suc n)) d =
      catch op retryable (\<lambda>_. seq (sleep d) (attempts (Suc n) (d * 2)))"
begin

definition settled :: "(exn + 'a) \<Rightarrow> bool" where
  "settled r \<longleftrightarrow> (case r of Inl e \<Rightarrow> \<not> retryable e | Inr _ \<Rightarrow> True)"

lemma sleep_run: "sleep d w = (Inr (), w\<lparr>trace := trace w @ [Sleep d]\<rparr>)"
  by (simp add: sleep_def emit_def modify_def)

lemma attempts_trace:
  "\<exists>k. k \<le> n \<and> trace (snd (attempts (Suc n) d w)) = trace w @ retry_log call d k \<and>
       (k < n \<longrightarrow> settled (fst (attempts (Suc n) d w)))"
proof (induction n arbitrary: d w)
  case 0
  show ?case by (simp add: last_try one_call)
next
  case (Suc n)
  obtain r w1 where op: "op w = (r, w1)" by (cases "op w")
  have tr: "trace w1 = trace w @ [call]" using one_call[of w] op by simp
  show ?case
  proof (cases "settled r")
    case True
    then have "attempts (Suc (Suc n)) d w = (r, w1)"
      unfolding more_tries by (auto simp: catch_run op settled_def split: sum.splits)
    with True tr show ?thesis by (intro exI[of _ 0]) simp
  next
    case False
    then obtain e where e: "r = Inl e" "retryable e" by (auto simp: settled_def split: sum.splits)
    let ?w2 = "w1\<lparr>trace := trace w1 @ [Sleep d]\<rparr>"
    from Suc.IH[of "d * 2" ?w2] obtain k where k: "k \<le> n"
      "trace (snd (attempts (Suc n) (d * 2) ?w2)) = trace ?w2 @ retry_log call (d * 2) k"
      "k < n \<longrightarrow> settled (fst (attempts (Suc n) (d * 2) ?w2))" by blast
    have "attempts (Suc (Suc n)) d w = attempts (Suc n) (d * 2) ?w2"
      unfolding more_tries by (simp add: catch_run op e seq_run sleep_run)
    with k tr show ?thesis by (intro exI[of _ "Suc k"]) (simp add: mult.commute)
  qed
qed

lemma attempts_first_settled:
  assumes "op w = (r, w1)" "settled r"
  shows "attempts (Suc n) d w = (r, w1)"
  using assms by (cases n) (auto simp: last_try more_tries catch_run settled_def split: sum.splits)

end

lemma run_proc_trace: "trace (snd (run_proc h argv cwd check w)) = trace w @ [Proc argv cwd]"
  by (auto simp: run_proc_def prog_simps from_sum_def split: sum.splits)

lemma koji_method_trace: "trace (snd (koji_method h meth arg w)) = trace w @ [Rpc meth arg]"
  by (auto simp: koji_method_def prog_simps split: reply.splits)

lemma catch_raise: "catch m sel raise = m"
  by (auto simp: catch_def raise_def fun_eq_iff split: prod.splits sum.splits)

interpretation git: bounded_retry "Proc (''git'' # args) cwd" "run_proc h (''git'' # args) cwd check"
    is_CalledProcessError "git_attempts h args cwd check"
  for h :: host and args :: "string list" and cwd :: path and check :: bool
  by unfold_locales (simp_all add: run_proc_trace catch_raise)

interpretation koji: bounded_retry "Rpc meth arg" "koji_method h meth arg"
    "\<lambda>e. koji_caught e \<and> koji_should_retry e" "koji_attempts h meth arg"
  for h :: host and meth :: string and arg :: string
proof unfold_locales
  show "koji_attempts h meth arg (Suc 0) d = koji_method h meth arg" for d
    by (simp add: catch_raise)
  show "koji_attempts h meth arg (Suc (Suc n)) d = catch (koji_method h meth arg)
      (\<lambda>e. koji_caught e \<and> koji_should_retry e)
      (\<lambda>_. seq (sleep d) (koji_attempts h meth arg (Suc n) (d * 2)))" for n d
    by (auto simp: catch_def raise_def fun_eq_iff split: prod.splits sum.splits)
qed (simp add: koji_method_trace)

text \<open>a Koji call is sent at most three times, with pauses of 2 and 4 seconds, and it is sent
  again only after a transient error: when fewer than three calls were sent the outcome is
  an answer or an error outside the retried class.\<close>

lemma koji_retry_bound:
  "\<exists>k. k \<le> 2 \<and>
     trace (snd (call_koji_with_retry h meth arg w)) = trace w @ retry_log (Rpc meth arg) 2 k \<and>
     (k = 2 \<or> (case fst (call_koji_with_retry h meth arg w) of
        Inr _ \<Rightarrow> True | Inl e \<Rightarrow> \<not> (koji_caught e \<and> koji_should_retry e)))"
  using koji.attempts_trace[of 2 h meth arg 2 w]
  by (auto simp: call_koji_with_retry_def koji.settled_def numeral_3_eq_3 numeral_2_eq_2 le_Suc_eq less_Suc_eq
      simp del: koji_attempts.simps)

lemma unchecked_settled: "git.settled (fst (run_proc h argv cwd False w))"
  by (auto simp: git.settled_def run_proc_def prog_simps completed_of_def from_sum_def is_CalledProcessError_def
      split: sum.splits reply.splits)

text \<open>\<open>run_git\<close> sends a network operation at most three times with pauses of 2 and 4 seconds
  and everything else once; without \<open>check\<close> nothing is ever repeated.\<close>

lemma git_retry_bound:
  "\<exists>k. trace (snd (run_git_in h args cwd check w)) = trace w @ retry_log (Proc (''git'' # args) cwd) 2 k \<and>
     k \<le> (if args \<noteq> [] \<and> hd args \<in> set network_ops \<and> check then 2 else 0)"
proof -
  let ?net = "args \<noteq> [] \<and> hd args \<in> set network_ops"
  have run: "run_git_in h args cwd check = git_attempts h args cwd check (if ?net then 3 else 1) 2"
    by (cases args) (auto simp: run_git_in_def)
  consider "?net" "check" | "?net" "\<not> check" | "\<not> ?net" by blast
  then show ?thesis
  proof cases
    case 1
    then show ?thesis
      using git.attempts_trace[of 2 h args cwd check 2 w] run by (auto simp: numeral_3_eq_3 numeral_2_eq_2)
  next
    case 2
    obtain r w1 where op: "run_proc h (''git'' # args) cwd False w = (r, w1)" by fastforce
    then have "git_attempts h args cwd False 3 2 w = (r, w1)"
      using git.attempts_first_settled[of h args cwd False w r w1 2 2]
        unchecked_settled[of h "''git'' # args" cwd w] by (simp add: numeral_3_eq_3 numeral_2_eq_2)
    with 2 op run_proc_trace[of h "''git'' # args" cwd False w] show ?thesis
      unfolding run by (intro exI[of _ 0]) simp
  next
    case 3
    then have "run_git_in h args cwd check = run_proc h (''git'' # args) cwd check"
      unfolding run using git.last_try[of h args cwd check] by (simp only: if_False One_nat_def)
    with 3 show ?thesis
      using run_proc_trace[of h "''git'' # args" cwd check w] by (intro exI[of _ 0]) simp
  qed
qed

text \<open>an HTTP error status of the Koji hub reaches the code as \<open>xmlrpc.client.ProtocolError\<close>,
  which is neither an \<open>OSError\<close> nor an \<open>HTTPException\<close>: a 503 answer is final, after one call.\<close>

lemma koji_http_status_not_retried:
  assumes "fst (h (trace w) (Rpc meth arg) (files w)) = HttpErr code msg"
  shows "fst (call_koji_with_retry h meth arg w) = Inl (ProtocolError code msg) \<and>
    trace (snd (call_koji_with_retry h meth arg w)) = trace w @ [Rpc meth arg]"
proof -
  have m: "fst (koji_method h meth arg w) = Inl (ProtocolError code msg)"
    using assms by (simp add: koji_method_def prog_simps koji_exn_def)
  then obtain w1 where op: "koji_method h meth arg w = (Inl (ProtocolError code msg), w1)"
    by (metis prod.collapse)
  have "koji.settled (Inl (ProtocolError code msg) :: exn + json)"
    unfolding koji.settled_def by (simp add: koji_caught_def is_OSError_def)
  then have "koji_attempts h meth arg (Suc 2) 2 w = (Inl (ProtocolError code msg), w1)"
    by (rule koji.attempts_first_settled[OF op])
  then have "koji_attempts h meth arg 3 2 w = (Inl (ProtocolError code msg), w1)"
    by (simp only: eval_nat_numeral)
  then show ?thesis using op koji_method_trace[of h meth arg w] by (simp add: call_koji_with_retry_def)
qed

definition busy_hub :: host where "busy_hub t ev f = (HttpErr 503 ''Service Unavailable'', f)"

end
