(* ===== verification/Release_Bump.thy ===== *)
theory Release_Bump
  imports Host_Calls
begin

section \<open>Release fields of spec files\<close>

text \<open>
  The functions of \<open>ci/dist_git.py\<close> that read and rewrite a package's spec file:
  \<open>uses_autorelease\<close>, \<open>replace_autorelease_in_spec\<close>, \<open>parse_spec_version\<close>,
  \<open>normalize_release_in_specs\<close>, \<open>bump_release\<close> and \<open>update_release_in_spec\<close>. Replacement
  texts are literal; the code's replacement templates contain no escapes but \<open>\1\<close>.
\<close>

subsection \<open>%autorelease\<close>

definition AUTORELEASE_PATTERN :: rx where
  \<comment> \<open>\<open>%\{?\??autorelease.*\<close>\<close>
  "AUTORELEASE_PATTERN = Seq [Chr CHR ''%'', Opt (Chr CHR ''{''), Opt (Chr CHR ''?''),
     Lit ''autorelease'', Star True Dot]"

definition uses_autorelease :: "path \<Rightarrow> bool prog" where
  "uses_autorelease package_dir = bind (glob package_dir ''.spec'') (\<lambda>spec_files.
     case spec_files of
       [s] \<Rightarrow> bind (read_text (package_dir @ [s])) (\<lambda>spec_content.
                ret (re_search AUTORELEASE_PATTERN spec_content \<noteq> None))
     | _ \<Rightarrow> ret False)"

definition replace_autorelease_in_spec :: "path \<Rightarrow> string \<Rightarrow> bool \<Rightarrow> unit prog" where
  "replace_autorelease_in_spec package_dir release required =
     bind (glob package_dir ''.spec'') (\<lambda>spec_files. case spec_files of
       [] \<Rightarrow> ret ()
     | s # _ \<Rightarrow>
         (let spec_file = package_dir @ [s] in
          bind (read_text spec_file) (\<lambda>spec_content.
          let new_content = re_sub AUTORELEASE_PATTERN (\<lambda>_. release @ ''%{?dist}'') spec_content in
          if new_content = spec_content then
            (if required then raise (ValueError (''Failed to replace %autorelease in '' @ s)) else ret ())
          else write_text spec_file new_content)))"

subsection \<open>Version and release as rpmspec sees them\<close>

definition parse_spec_version :: "host \<Rightarrow> path \<Rightarrow> (string \<times> string) prog" where
  "parse_spec_version h package_dir = bind (glob package_dir ''.spec'') (\<lambda>spec_files. case spec_files of
       [s] \<Rightarrow>
         (let spec_file = package_dir @ [s] in
          bind (run_proc h [''rpmspec'', ''-q'', ''--qf'', ''%{VERSION}'' @ [nl] @ ''%{RELEASE}'' @ [nl],
                  ''--define=dist %{nil}'', ''--define=_sourcedir '' @ path_str package_dir,
                  ''--srpm'', path_str spec_file] ROOT_DIR True) (\<lambda>rpmspec.
          case splitlines (strip (stdout rpmspec)) of
            v # r # _ \<Rightarrow> ret (v, r)
          | _ \<Rightarrow> raise (ValueError (''Unexpected rpmspec output for '' @ path_str spec_file @ '': ''
                   @ stdout rpmspec))))
     | _ \<Rightarrow> sys_exit (''ERROR: Expected exactly one .spec file in '' @ path_str package_dir))"

subsection \<open>Normalising releases before a merge\<close>

definition release_line_re :: rx where
  \<comment> \<open>\<open>^Release:.*$\<close>, MULTILINE\<close>
  "release_line_re = Seq [Bol True, Lit ''Release:'', Star True Dot, Eol True]"

definition release_macro_re :: rx where
  \<comment> \<open>\<open>^(%(?:global|define)\s+(?:portablerelease|...))\s+\S+\<close>, MULTILINE\<close>
  "release_macro_re = Seq [Bol True,
     Grp 1 (Seq [Chr CHR ''%'', AltL [Lit ''global'', Lit ''define''], Plus True Space,
       AltL (map Lit [''portablerelease'', ''rpmrelease'', ''baserelease'', ''gcc_release'',
         ''specrelease'', ''krb5_release''])]),
     Plus True Space, Plus True (Cls (\<lambda>c. \<not> is_ws c))]"

definition normalize_release :: "string \<Rightarrow> string" where
  "normalize_release content =
     (let normalized = re_sub release_line_re (\<lambda>_. ''Release: 0%{?dist}'') content
      in re_sub release_macro_re (\<lambda>m. group m 1 @ '' 0'') normalized)"

definition normalize_release_in_specs :: "path \<Rightarrow> unit prog" where
  "normalize_release_in_specs directory = bind (glob directory ''.spec'') (\<lambda>specs.
     forM (\<lambda>s. bind (read_text (directory @ [s])) (\<lambda>content.
       write_text (directory @ [s]) (normalize_release content))) specs)"

subsection \<open>Bumping a release\<close>

definition dot_number_re :: rx where
  \<comment> \<open>\<open>^(.+)\.(\d+)$\<close>\<close>
  "dot_number_re = Seq [Bol False, Grp 1 (Plus True Dot), Chr CHR ''.'', Grp 2 (Plus True Digit), Eol False]"

definition bump_release :: "string \<Rightarrow> string option \<Rightarrow> string" where
  "bump_release current_release upstream_release =
     (if upstream_release \<noteq> Some [] \<and> upstream_release = Some current_release
      then current_release @ ''.1''
      else (case re_match dot_number_re current_release of
          Some m \<Rightarrow> group m 1 @ ''.'' @ show_nat (parse_nat (group m 2) + 1)
        | None \<Rightarrow> current_release @ ''.1''))"

definition dist_macro_re :: rx where
  \<comment> \<open>\<open>%\{\??dist\}\<close>\<close>
  "dist_macro_re = Seq [Lit ''%{'', Opt (Chr CHR ''?''), Lit ''dist}'']"

definition release_with_dist_re :: rx where
  \<comment> \<open>\<open>^Release:\s+(.*)%\{\??dist\}(.*)$\<close>, MULTILINE\<close>
  "release_with_dist_re = Seq [Bol True, Lit ''Release:'', Plus True Space, Grp 1 (Star True Dot),
     dist_macro_re, Grp 2 (Star True Dot), Eol True]"

definition suffix_number_re :: rx where
  \<comment> \<open>\<open>^(.*)\.(\d+)$\<close>\<close>
  "suffix_number_re = Seq [Bol False, Grp 1 (Star True Dot), Chr CHR ''.'', Grp 2 (Plus True Digit), Eol False]"

definition macro_release_re :: rx where
  \<comment> \<open>\<open>^Release:(\s+).*%\{\??dist\}.*$\<close>, MULTILINE\<close>
  "macro_release_re = Seq [Bol True, Lit ''Release:'', Grp 1 (Plus True Space), Star True Dot,
     dist_macro_re, Star True Dot, Eol True]"

definition release_without_dist_re :: rx where
  \<comment> \<open>\<open>^Release:\s+.*%\{[^}]+\}\<close>, MULTILINE\<close>
  "release_without_dist_re = Seq [Bol True, Lit ''Release:'', Plus True Space, Star True Dot,
     Lit ''%{'', Plus True (Cls (\<lambda>c. c \<noteq> CHR ''}'')), Chr CHR ''}'']"

definition plain_release_re :: rx where
  \<comment> \<open>\<open>^Release:(\s+).*?(%\{\??dist\})(.*)$\<close>, MULTILINE\<close>
  "plain_release_re = Seq [Bol True, Lit ''Release:'', Grp 1 (Plus True Space), Star False Dot,
     Grp 2 dist_macro_re, Grp 3 (Star True Dot), Eol True]"

definition bump_macro_release :: "string \<Rightarrow> string" where
  \<comment> \<open>the text before the dist macro, with its \<open>.N\<close> suffix added or incremented\<close>
  "bump_macro_release release_before_dist =
     (case re_match suffix_number_re release_before_dist of
        Some m \<Rightarrow> group m 1 @ ''.'' @ show_nat (parse_nat (group m 2) + 1)
      | None \<Rightarrow> release_before_dist @ ''.1'')"

definition updated_release :: "string \<Rightarrow> string \<Rightarrow> exn + string" where
  \<comment> \<open>the new text of a spec file, or the exit\<close>
  "updated_release new_release content =
     (let release_match = re_search release_with_dist_re content in
      case release_match of
        Some m \<Rightarrow>
          (if contains (group m 1) ''%{'' then
             (let new_release_line = bump_macro_release (group m 1)
              in Inr (re_sub macro_release_re
                   (\<lambda>k. ''Release:'' @ group k 1 @ new_release_line @ ''%{?dist}'' @ group m 2) content))
           else
             (let new_content = re_sub plain_release_re
                   (\<lambda>k. ''Release:'' @ group k 1 @ new_release @ group k 2 @ group k 3) content
              in if new_content = content
                 then Inl (SysExit 1 ''ERROR: Failed to update Release:'')
                 else Inr new_content))
      | None \<Rightarrow>
          (if re_search release_without_dist_re content \<noteq> None
           then Inl (SysExit 1 ''ERROR: uses macros in Release field without %{?dist}'')
           else
             (let new_content = re_sub plain_release_re
                   (\<lambda>k. ''Release:'' @ group k 1 @ new_release @ group k 2 @ group k 3) content
              in if new_content = content
                 then Inl (SysExit 1 ''ERROR: Failed to update Release:'')
                 else Inr new_content)))"

definition update_release_in_spec :: "path \<Rightarrow> string \<Rightarrow> unit prog" where
  "update_release_in_spec package_dir new_release = bind (glob package_dir ''.spec'') (\<lambda>spec_files.
     case spec_files of
       [s] \<Rightarrow>
         (let spec_file = package_dir @ [s] in
          bind (read_text spec_file) (\<lambda>content.
          bind (from_sum (updated_release new_release content)) (\<lambda>new_content.
          write_text spec_file new_content)))
     | _ \<Rightarrow> sys_exit (''ERROR: Expected exactly one .spec file in '' @ path_str package_dir))"

subsection \<open>What bumping does\<close>

lemma number_suffix_matches:
  "rmatches (Seq [Bol False, Grp 1 (Plus True Dot), Chr CHR ''.'', Grp 2 (Plus True Digit), Eol False]) ([], s, []) st' \<longleftrightarrow>
     (\<exists>b n t. s = b @ CHR ''.'' # n @ t \<and> b \<noteq> [] \<and> nl \<notin> set b \<and> n \<noteq> [] \<and> (\<forall>c \<in> set n. is_digit c) \<and>
        (t = [] \<or> t = [nl]) \<and> st' = (rev (b @ CHR ''.'' # n), t, [(1, b), (2, n)]))"
  unfolding Dot_def Digit_def Seq.simps
  apply (simp only: rm_steps at_bol_def at_eol_def)
  apply simp
  apply (rule iffI; elim exE conjE; hypsubst)
   apply (intro exI conjI; (rule refl | assumption | force))
  apply (intro exI conjI; (rule refl | assumption | force))
  done

lemma dot_number_matches:
  assumes "b \<noteq> []" "nl \<notin> set b" "n \<noteq> []" "\<forall>c \<in> set n. is_digit c"
  shows "\<exists>g0. re_match dot_number_re (b @ CHR ''.'' # n) = Some (dset 0 g0 [(1, b), (2, n)])"
proof -
  let ?s = "b @ CHR ''.'' # n" and ?st = "(rev (b @ CHR ''.'' # n), [], [(1, b), (2, n)])"
  have nd: "\<not> is_digit nl" "\<not> is_digit CHR ''.''" by (simp_all add: is_digit_def)
  have "rmatches dot_number_re ([], ?s, []) ?st"
    unfolding dot_number_re_def number_suffix_matches using assms by blast
  moreover have "st' = ?st" if r: "rmatches dot_number_re ([], ?s, []) st'" for st'
  proof -
    from r obtain b' n' t where st: "st' = (rev (b' @ CHR ''.'' # n'), t, [(1, b'), (2, n')])"
      and s: "?s = b' @ CHR ''.'' # n' @ t" and n': "n' \<noteq> []" "\<forall>c \<in> set n'. is_digit c" "t = [] \<or> t = [nl]"
      unfolding dot_number_re_def number_suffix_matches by blast
    have "last ?s = last n" using assms(3) by simp
    moreover have "t = [nl] \<Longrightarrow> last ?s = nl" unfolding s by simp
    ultimately have t: "t = []" using n'(3) assms(3,4) nd(1) by (metis last_in_set)
    have "rev n @ CHR ''.'' # rev b = rev n' @ CHR ''.'' # rev b'"
      using arg_cong[OF s, of rev] t by simp
    then have "rev n = rev n' \<and> CHR ''.'' = CHR ''.'' \<and> rev b = rev b'"
      by (rule run_unique[where p = is_digit]) (use assms n' nd in auto)
    then show ?thesis using st t by simp
  qed
  ultimately show ?thesis by (meson re_match_unique)
qed

lemma bump_number:
  assumes "b \<noteq> []" "nl \<notin> set b" "u \<noteq> Some (b @ ''.'' @ show_nat k)"
  shows "bump_release (b @ ''.'' @ show_nat k) u = b @ ''.'' @ show_nat (k + 1)"
  using dot_number_matches[OF assms(1,2) show_nat_nonempty show_nat_digits, of k] assms(3)
  by (auto simp: bump_release_def group_def)

lemma bump_upstream: "r \<noteq> [] \<Longrightarrow> bump_release r (Some r) = r @ ''.1''"
  by (simp add: bump_release_def)

text \<open>rebuilding a package that ships the upstream release \<open>r\<close> numbers the rebuilds
  \<open>r.1\<close>, \<open>r.2\<close>, \dots, even when \<open>r\<close> itself ends in a number, and a release without
  upstream base has its last number incremented.\<close>

lemma rebuild_numbering:
  assumes "r \<noteq> []" "nl \<notin> set r"
  shows "((\<lambda>x. bump_release x (Some r)) ^^ Suc k) r = r @ ''.'' @ show_nat (Suc k) \<and>
    bump_release (r @ ''.'' @ show_nat k) None = r @ ''.'' @ show_nat (k + 1)"
proof (intro conjI)
  show "((\<lambda>x. bump_release x (Some r)) ^^ Suc k) r = r @ ''.'' @ show_nat (Suc k)"
  proof (induction k)
    case 0
    have "show_nat (Suc 0) = ''1''" by code_simp
    then show ?case using bump_upstream[OF assms(1)] by simp
  next
    case (Suc k)
    then show ?case using bump_number[OF assms, of "Some r" "Suc k"] by simp
  qed
qed (use bump_number[OF assms] in simp)

subsection \<open>What the rewrites touch\<close>

text \<open>updating the release of a package fails without touching any file, or rewrites its one
  spec file with the updated text and leaves every other file and the outside alone.\<close>

lemma update_release_effect:
  "case update_release_in_spec d r w of
     (Inl e, w') \<Rightarrow> w' = w
   | (Inr _, w') \<Rightarrow> \<exists>s old new. fs_glob (files w) d ''.spec'' = [s] \<and>
        map_of (files w) (d @ [s]) = Some (FileN old) \<and> updated_release r old = Inr new \<and>
        w' = w\<lparr>files := fs_write (d @ [s]) (FileN new) (files w)\<rparr>"
  by (auto simp: update_release_in_spec_def glob_def prog_simps read_text_def sys_exit_def write_text_def
      write_node_def Let_def from_sum_def split: list.splits option.splits node.splits sum.splits)

end
