(* ===== verification/Dist_Tags.thy ===== *)
theory Dist_Tags
  imports Host_Calls
begin

section \<open>Branches, dist tags and Koji builds\<close>

text \<open>
  How \<open>ci/dist_git.py\<close> maps dist-git branches to dist tags (\<open>get_dist_tag\<close>,
  \<open>get_highest_fedora_release\<close>, \<open>_is_forward_branch_move\<close>, \<open>_get_fallback_dist_tags\<close>,
  \<open>expand_url_shortcut\<close>, \<open>update_releases\<close>) and how it asks Koji for a finished build of a
  package (\<open>check_koji_build\<close>). The global \<open>releases\<close> is the world's field of that name.
\<close>

subsection \<open>URL shortcuts\<close>

definition expand_url_shortcut :: "string \<Rightarrow> string" where
  "expand_url_shortcut url =
     (if startswith url ''fedora/'' then
        ''https://src.fedoraproject.org/rpms/'' @ removeprefix url ''fedora/'' @ ''.git''
      else if startswith url ''centos/'' then
        ''https://gitlab.com/redhat/centos-stream/rpms/'' @ removeprefix url ''centos/'' @ ''.git''
      else url)"

subsection \<open>Numbered Fedora releases\<close>

definition fedora_tag_re :: rx where
  \<comment> \<open>\<open>^f(\d+)$\<close>\<close>
  "fedora_tag_re = Seq [Bol False, Chr CHR ''f'', Grp 1 (Plus True Digit), Eol False]"

definition fedora_number :: "string \<Rightarrow> nat option" where
  "fedora_number dist_tag = map_option (\<lambda>m. parse_nat (group m 1)) (re_match fedora_tag_re dist_tag)"

definition fedora_releases :: "(string \<times> (string \<times> string) list) list \<Rightarrow> (string \<times> string) list" where
  "fedora_releases rel = (case dget rel ''fedora'' of Some d \<Rightarrow> d | None \<Rightarrow> [])"

definition numbered_releases :: "(string \<times> (string \<times> string) list) list \<Rightarrow> nat list" where
  "numbered_releases rel = List.map_filter (\<lambda>(_, tag). fedora_number tag) (fedora_releases rel)"

definition highest_fedora_release :: "(string \<times> (string \<times> string) list) list \<Rightarrow> string option" where
  "highest_fedora_release rel = (let ns = numbered_releases rel in
     if ns = [] then None else Some (''f'' @ show_nat (Max (set ns))))"

definition get_highest_fedora_release :: "string option prog" where
  "get_highest_fedora_release = gets (\<lambda>w. highest_fedora_release (releases w))"

definition centos_branch_re :: rx where
  \<comment> \<open>\<open>^c(\d+)s$\<close>\<close>
  "centos_branch_re = Seq [Bol False, Chr CHR ''c'', Grp 1 (Plus True Digit), Chr CHR ''s'', Eol False]"

definition dist_tag_of :: "(string \<times> (string \<times> string) list) list \<Rightarrow> string \<Rightarrow> exn + string" where
  "dist_tag_of rel branch =
     (let lookup =
        (case dget (fedora_releases rel) branch of
           Some tag \<Rightarrow> Inr tag
         | None \<Rightarrow> (case re_match centos_branch_re branch of
              Some m \<Rightarrow> Inr (''el'' @ group m 1)
            | None \<Rightarrow> Inl (SysExit 1 (''ERROR: Unknown branch '' @ branch))))
      in if branch = ''rawhide'' then
           (case highest_fedora_release rel of Some highest \<Rightarrow> Inr highest | None \<Rightarrow> lookup)
         else lookup)"

definition get_dist_tag :: "string \<Rightarrow> string prog" where
  "get_dist_tag branch = bind (gets releases) (\<lambda>rel. from_sum (dist_tag_of rel branch))"

definition is_forward_branch_move :: "bool \<Rightarrow> string \<Rightarrow> string \<Rightarrow> bool prog" where
  "is_forward_branch_move branch_changed old_branch new_branch =
     (if \<not> branch_changed then ret False
      else if old_branch = ''rawhide'' then ret True
      else bind (get_dist_tag old_branch) (\<lambda>old_tag. bind (get_dist_tag new_branch) (\<lambda>new_tag.
        ret (case (fedora_number old_tag, fedora_number new_tag) of
               (Some old, Some new) \<Rightarrow> old < new
             | _ \<Rightarrow> False))))"

definition fallback_dist_tags :: "(string \<times> (string \<times> string) list) list \<Rightarrow> string \<Rightarrow> string list" where
  "fallback_dist_tags rel dist_tag = (case fedora_number dist_tag of
       None \<Rightarrow> []
     | Some current_num \<Rightarrow>
         map (\<lambda>n. ''f'' @ show_nat n) (rev (sort (filter (\<lambda>n. n \<noteq> current_num) (numbered_releases rel)))))"

subsection \<open>Refreshing upstream-releases.json\<close>

definition bodhi_step :: "(string \<times> json) list \<Rightarrow> json \<Rightarrow> exn + (string \<times> json) list" where
  "bodhi_step rel r =
     (case (item r ''branch'', item r ''dist_tag'') of
        (Inl e, _) \<Rightarrow> Inl e
      | (_, Inl e) \<Rightarrow> Inl e
      | (Inr (JStr branch), Inr (JStr tag)) \<Rightarrow>
          Inr (if branch = ''rawhide'' then dset tag (JStr tag) rel else dset branch (JStr tag) rel)
      | _ \<Rightarrow> Inl (TypeError ''release''))"

definition update_releases :: "host \<Rightarrow> unit prog" where
  "update_releases h =
     bind (run_json h [''curl'', ''--silent'', ''--show-error'', ''--fail'', ''--retry'', ''5'',
       ''--max-time'', ''10'', ''https://bodhi.fedoraproject.org/releases/?exclude_archived=true'']) (\<lambda>data.
     bind (from_sum (item data ''releases'')) (\<lambda>v.
     bind (from_sum (as_list v)) (\<lambda>all.
     bind (mapM (\<lambda>r. bind (from_sum (item r ''id_prefix'')) (\<lambda>p. ret (p = JStr ''FEDORA'', r))) all) (\<lambda>marked.
     bind (foldM (\<lambda>rel r. from_sum (bodhi_step rel r)) [] (map snd (filter fst marked))) (\<lambda>fedora.
     write_node RELEASES_JSON (JsonN (JObj
       [(''centos'', JObj (sort_keys [(''c9s'', JStr ''el9''), (''c10s'', JStr ''el10'')])),
        (''fedora'', JObj (sort_keys fedora))])))))))"

subsection \<open>Builds in Koji\<close>

definition koji_tag :: "string \<Rightarrow> string" where
  \<comment> \<open>Bodhi writes \<open>f42\<close> where Koji writes \<open>fc42\<close>\<close>
  "koji_tag dist_tag = (case re_match fedora_tag_re dist_tag of
       Some m \<Rightarrow> ''fc'' @ group m 1 | None \<Rightarrow> dist_tag)"

definition nvr_of :: "string \<Rightarrow> string \<Rightarrow> string \<Rightarrow> string \<Rightarrow> string" where
  "nvr_of name version release dist_tag =
     name @ ''-'' @ version @ ''-'' @ release @ ''.'' @ koji_tag dist_tag"

fun first_build :: "host \<Rightarrow> string \<Rightarrow> string \<Rightarrow> string \<Rightarrow> string list \<Rightarrow> json prog" where
  \<comment> \<open>the fallback loop: the first truthy build among the tags, the last answer otherwise\<close>
  "first_build h name version release [] = ret JNull"
| "first_build h name version release (t # ts) =
     bind (call_koji_with_retry h ''getBuild'' (nvr_of name version release t)) (\<lambda>b.
       if truthy b then ret b else first_build h name version release ts)"

definition build_matches :: "dict \<Rightarrow> string \<Rightarrow> exn + bool" where
  \<comment> \<open>the checks on a build that was found: commit and state\<close>
  "build_matches build expected_commit =
     (case (case dget build ''source'' of None \<Rightarrow> JStr [] | Some s \<Rightarrow> s) of
        JStr source \<Rightarrow>
          (if CHR ''#'' \<notin> set source then Inr False
           else if split_on CHR ''#'' source ! 1 \<noteq> expected_commit then Inr False
           else Inr (dget build ''state'' \<in> {Some (JInt 1), Some (JBool True)}))
      | _ \<Rightarrow> Inl (TypeError ''source''))"

definition check_koji_build :: "host \<Rightarrow> string \<Rightarrow> string \<Rightarrow> string \<Rightarrow> string \<Rightarrow> string \<Rightarrow> bool prog" where
  "check_koji_build h package_name version release expected_commit dist_tag =
     bind (call_koji_with_retry h ''getBuild'' (nvr_of package_name version release dist_tag)) (\<lambda>b.
     bind (if truthy b then ret b
           else bind (gets releases) (\<lambda>rel.
             first_build h package_name version release (fallback_dist_tags rel dist_tag))) (\<lambda>build_result.
     if \<not> truthy build_result then ret False
     else bind (from_sum (as_dict build_result)) (\<lambda>build. from_sum (build_matches build expected_commit))))"

subsection \<open>What the tags satisfy\<close>

lemma fedora_tag_matches:
  "rmatches fedora_tag_re ([], s, []) st' \<longleftrightarrow>
     (\<exists>n t. s = CHR ''f'' # n @ t \<and> n \<noteq> [] \<and> (\<forall>c \<in> set n. is_digit c) \<and> (t = [] \<or> t = [nl]) \<and>
        st' = (rev n @ ''f'', t, [(1, n)]))"
  unfolding fedora_tag_re_def Digit_def Seq.simps
  apply (simp only: rm_steps at_bol_def at_eol_def)
  apply simp
  apply (rule iffI; elim exE conjE; hypsubst)
   apply (intro exI conjI; (rule refl | assumption | simp))
  apply (intro exI conjI; (rule refl | assumption | simp))
  done

lemma fedora_tag_match:
  assumes "n \<noteq> []" "\<forall>c \<in> set n. is_digit c"
  shows "\<exists>g0. re_match fedora_tag_re (CHR ''f'' # n) = Some (dset 0 g0 [(1, n)])"
proof -
  have nd: "\<not> is_digit nl" by (simp add: is_digit_def)
  have "rmatches fedora_tag_re ([], CHR ''f'' # n, []) (rev n @ ''f'', [], [(1, n)])"
    unfolding fedora_tag_matches using assms by blast
  moreover have "st' = (rev n @ ''f'', [], [(1, n)])"
    if r: "rmatches fedora_tag_re ([], CHR ''f'' # n, []) st'" for st'
  proof -
    from r obtain m t where st: "st' = (rev m @ ''f'', t, [(1, m)])" and n: "n = m @ t" and t: "t = [] \<or> t = [nl]"
      unfolding fedora_tag_matches by blast
    have "t = []" using t n assms(2) nd by auto
    with st n show ?thesis by simp
  qed
  ultimately show ?thesis by (meson re_match_unique)
qed

lemma fedora_number_tag [simp]: "fedora_number (CHR ''f'' # show_nat n) = Some n"
  using fedora_tag_match[of "show_nat n"] show_nat_digits[of n] by (auto simp: fedora_number_def group_def)

lemma numbered_iff: "n \<in> set (numbered_releases rel) \<longleftrightarrow>
    (\<exists>b tag. (b, tag) \<in> set (fedora_releases rel) \<and> fedora_number tag = Some n)"
  by (force simp: numbered_releases_def List.map_filter_def)

text \<open>rawhide stands for the newest numbered Fedora release: its dist tag is the tag of a
  known release, and no known release has a higher number.\<close>

lemma rawhide_is_newest:
  assumes "(b, tag) \<in> set (fedora_releases rel)" "fedora_number tag = Some n"
  shows "\<exists>m. dist_tag_of rel ''rawhide'' = Inr (''f'' @ show_nat m) \<and> n \<le> m \<and>
    (\<exists>b' tag'. (b', tag') \<in> set (fedora_releases rel) \<and> fedora_number tag' = Some m) \<and>
    (\<forall>b' tag' k. (b', tag') \<in> set (fedora_releases rel) \<and> fedora_number tag' = Some k \<longrightarrow> k \<le> m)"
proof -
  let ?ns = "numbered_releases rel"
  have n: "n \<in> set ?ns" using assms numbered_iff by blast
  then have "Max (set ?ns) \<in> set ?ns" by (intro Max_in) auto
  moreover have "dist_tag_of rel ''rawhide'' = Inr (''f'' @ show_nat (Max (set ?ns)))"
    using n by (auto simp: dist_tag_of_def highest_fedora_release_def Let_def)
  moreover have "k \<le> Max (set ?ns)" if "k \<in> set ?ns" for k using that by simp
  ultimately show ?thesis using n numbered_iff by (intro exI[of _ "Max (set ?ns)"]) blast
qed

text \<open>A build missing for one Fedora release is looked for under every other numbered release,
  newest first, and never again under its own tag.\<close>

lemma fallback_tags_order:
  "fallback_dist_tags rel (CHR ''f'' # show_nat k) =
     map (\<lambda>n. CHR ''f'' # show_nat n) (rev (sort (filter (\<lambda>n. n \<noteq> k) (numbered_releases rel)))) \<and>
   sorted_wrt (\<lambda>a b. the (fedora_number b) \<le> the (fedora_number a)) (fallback_dist_tags rel (CHR ''f'' # show_nat k)) \<and>
   CHR ''f'' # show_nat k \<notin> set (fallback_dist_tags rel (CHR ''f'' # show_nat k))"
  by (auto simp: fallback_dist_tags_def sorted_wrt_map sorted_wrt_rev)

subsection \<open>What an accepted build is\<close>

definition hub_answers :: "host \<Rightarrow> string \<Rightarrow> json \<Rightarrow> bool" where
  \<comment> \<open>the hub gave this answer to this query at some point\<close>
  "hub_answers h nvr j \<longleftrightarrow> (\<exists>t f. fst (h t (Rpc ''getBuild'' nvr) f) = Answer j)"

lemma koji_answer:
  assumes "call_koji_with_retry h ''getBuild'' nvr w = (Inr j, w')"
  shows "hub_answers h nvr j"
proof -
  have "koji_attempts h ''getBuild'' nvr (Suc n) d w = (Inr j, w') \<Longrightarrow> hub_answers h nvr j" for n d w
  proof (induction n arbitrary: d w)
    case 0
    then show ?case
      by (auto simp: koji.last_try koji_method_def prog_simps hub_answers_def simp del: koji_attempts.simps
          split: reply.splits)
  next
    case (Suc n)
    show ?case
    proof (cases "fst (koji_method h ''getBuild'' nvr w)")
      case (Inl e)
      with Suc show ?thesis
        by (auto simp: koji.more_tries catch_run seq_run sleep_def emit_def modify_run
            simp del: koji_attempts.simps split: prod.splits if_splits)
    next
      case (Inr i)
      with Suc.prems have "fst (koji_method h ''getBuild'' nvr w) = Inr j"
        by (auto simp: koji.more_tries catch_run simp del: koji_attempts.simps split: prod.splits)
      then show ?thesis by (auto simp: koji_method_def prog_simps hub_answers_def split: reply.splits)
    qed
  qed
  from this[of 2 2 w] show ?thesis
    using assms unfolding call_koji_with_retry_def by (simp only: eval_nat_numeral)
qed

lemma first_build_answer:
  "first_build h n v r ts w = (Inr b, w') \<Longrightarrow> truthy b \<Longrightarrow> \<exists>t \<in> set ts. hub_answers h (nvr_of n v r t) b"
proof (induction ts arbitrary: w)
  case (Cons t ts)
  then show ?case
    by (auto simp: bind_run dest!: koji_answer split: prod.splits sum.splits if_splits)
      (auto simp: ret_def dest!: koji_answer)
qed (simp add: ret_def)

lemma build_matches_True:
  assumes "build_matches build commit = Inr True"
  shows "\<exists>source. dget build ''source'' = Some (JStr source) \<and> CHR ''#'' \<in> set source \<and>
    split_on CHR ''#'' source ! 1 = commit \<and> dget build ''state'' \<in> {Some (JInt 1), Some (JBool True)}"
proof (cases "dget build ''source''")
  case None
  with assms show ?thesis by (simp add: build_matches_def)
next
  case (Some v)
  with assms show ?thesis by (cases v) (simp_all add: build_matches_def split: if_splits)
qed

lemma koji_releases: "call_koji_with_retry h meth arg w = (r, w') \<Longrightarrow> releases w' = releases w"
proof -
  have once: "keeps (\<lambda>w. releases w = R) (koji_method h meth arg)" for R
    unfolding koji_method_def by (intro prog_rules) (auto simp: keeps_def ask_host_def ret_def raise_def split: reply.splits prod.splits)
  have "keeps (\<lambda>w. releases w = R) (koji_attempts h meth arg n d)" for R n d
    by (induction n arbitrary: d) (auto intro!: prog_rules once keeps_modify simp: sleep_def emit_def)
  then show "call_koji_with_retry h meth arg w = (r, w') \<Longrightarrow> releases w' = releases w"
    unfolding call_koji_with_retry_def by (blast dest: keepsD)
qed

definition admissible_build :: "host \<Rightarrow> (string \<times> (string \<times> string) list) list \<Rightarrow> (string \<Rightarrow> string) \<Rightarrow> string \<Rightarrow> string \<Rightarrow> bool" where
  \<comment> \<open>the hub has a complete build of the commit under the tag or one of its fall-backs\<close>
  "admissible_build h rel nvr tag commit \<longleftrightarrow> (\<exists>t build source. (t = tag \<or> t \<in> set (fallback_dist_tags rel tag)) \<and>
    hub_answers h (nvr t) (JObj build) \<and> dget build ''source'' = Some (JStr source) \<and> CHR ''#'' \<in> set source \<and>
    split_on CHR ''#'' source ! 1 = commit \<and> dget build ''state'' \<in> {Some (JInt 1), Some (JBool True)})"

lemma koji_accepts:
  assumes "fst (check_koji_build h n v r commit tag w) = Inr True"
  shows "admissible_build h (releases w) (nvr_of n v r) tag commit"
proof -
  obtain b w1 where b: "call_koji_with_retry h ''getBuild'' (nvr_of n v r tag) w = (Inr b, w1)"
    using assms by (auto simp: check_koji_build_def bind_run split: prod.splits sum.splits)
  obtain j w2 where j: "(if truthy b then ret b else bind (gets releases) (\<lambda>rel.
             first_build h n v r (fallback_dist_tags rel tag))) w1 = (Inr j, w2)"
    using assms b by (auto simp: check_koji_build_def bind_run split: prod.splits sum.splits)
  have tj: "truthy j" and fin: "fst (bind (from_sum (as_dict j)) (\<lambda>build. from_sum (build_matches build commit)) w2) = Inr True"
    using assms b j by (auto simp: check_koji_build_def bind_run ret_def split: if_splits)
  have "\<exists>t. (t = tag \<or> t \<in> set (fallback_dist_tags (releases w) tag)) \<and> hub_answers h (nvr_of n v r t) j"
  proof (cases "truthy b")
    case True
    then have "j = b" using j by (simp add: ret_def)
    then show ?thesis using koji_answer[OF b] by blast
  next
    case False
    then have "first_build h n v r (fallback_dist_tags (releases w) tag) w1 = (Inr j, w2)"
      using j by (simp add: bind_run gets_run koji_releases[OF b])
    from first_build_answer[OF this tj] show ?thesis by blast
  qed
  moreover from fin obtain build where build: "j = JObj build" "build_matches build commit = Inr True"
    by (auto simp: bind_run from_sum_def as_dict_def ret_def raise_def split: json.splits sum.splits)
  ultimately show ?thesis
    using build_matches_True unfolding admissible_build_def by blast
qed

text \<open>C17: an update is only let through on a build that Koji reported under the package's own tag or
  a fallback tag of the releases known to the run, made from exactly the commit to be imported, and complete.\<close>

theorem koji_build_accepted:
  assumes "fst (check_koji_build h n v r commit tag w) = Inr True"
  shows "\<exists>t build source. (t = tag \<or> t \<in> set (fallback_dist_tags (releases w) tag)) \<and>
    hub_answers h (nvr_of n v r t) (JObj build) \<and>
    dget build ''source'' = Some (JStr source) \<and> CHR ''#'' \<in> set source \<and>
    split_on CHR ''#'' source ! 1 = commit \<and>
    dget build ''state'' \<in> {Some (JInt 1), Some (JBool True)}"
  using koji_accepts[OF assms] unfolding admissible_build_def .

definition one_build :: host where
  \<comment> \<open>a hub that knows one complete build\<close>
  "one_build t ev f = (case ev of
     Rpc m a \<Rightarrow> (Answer (JObj [(''source'', JStr ''git+https://x#abc''), (''state'', JInt 1)]), f)
   | _ \<Rightarrow> (NoProgram, f))"

theorem koji_build_accepted_witness:
  "\<exists>t build source. hub_answers one_build (nvr_of ''bash'' ''5.2'' ''1'' t) (JObj build) \<and>
    dget build ''source'' = Some (JStr source) \<and> split_on CHR ''#'' source ! 1 = ''abc''"
proof -
  let ?w = "\<lparr>files = [], trace = [], environ = [], imported = [], releases = [], sign_off = False\<rparr>"
  let ?b = "[(''source'', JStr ''git+https://x#abc''), (''state'', JInt 1)]"
  have k: "koji_method one_build ''getBuild'' a w = (Inr (JObj ?b), w\<lparr>trace := trace w @ [Rpc ''getBuild'' a]\<rparr>)" for a w
    by (simp add: koji_method_def prog_simps one_build_def)
  have "call_koji_with_retry one_build ''getBuild'' a w = (Inr (JObj ?b), w\<lparr>trace := trace w @ [Rpc ''getBuild'' a]\<rparr>)" for a w
    unfolding call_koji_with_retry_def numeral_3_eq_3 by (simp add: catch_run k)
  moreover have "build_matches ?b ''abc'' = Inr True" by code_simp
  ultimately have "fst (check_koji_build one_build ''bash'' ''5.2'' ''1'' ''abc'' ''f42'' ?w) = Inr True"
    by (simp add: check_koji_build_def bind_run ret_def as_dict_def from_sum_def)
  from koji_build_accepted[OF this] show ?thesis by blast
qed

end
