(* ===== verification/Sources_File.thy ===== *)
theory Sources_File
  imports Py_World
begin

section \<open>The dist-git \<open>sources\<close> file\<close>

text \<open>
  \<open>ci/check_upstream_versions.py\<close> parses, edits and rewrites a package's \<open>sources\<close> file,
  \<open>ci/dist_git.py\<close> reads the file names out of it. Each line is \<open>ALGO (filename) = hash\<close>.
  The locale \<open>line_codec\<close> is the contract between a line printer and a line parser; its client
  lemma lifts a line round trip to files, and the interpretations discharge it for both readers.
\<close>

subsection \<open>Files made of parsed lines\<close>

locale line_codec =
  fixes show_line :: "'a \<Rightarrow> string"
    and parse_line :: "string \<Rightarrow> 'b option"
    and wf :: "'a \<Rightarrow> bool"
    and out :: "'a \<Rightarrow> 'b"
  assumes parse_show: "wf e \<Longrightarrow> parse_line (show_line e) = Some (out e)"
    and show_no_break: "wf e \<Longrightarrow> c \<in> set (show_line e) \<Longrightarrow> \<not> is_linebreak c"
    and parse_empty: "parse_line [] = None"
begin

definition parse_all :: "string list \<Rightarrow> 'b list" where
  "parse_all ls = List.map_filter parse_line ls"

lemma parse_all_show: "(\<forall>e \<in> set es. wf e) \<Longrightarrow> parse_all (map show_line es) = map out es"
  by (induction es) (auto simp: parse_all_def List.map_filter_simps parse_show)

lemma parse_file_show:
  assumes "\<forall>e \<in> set es. wf e"
  shows "parse_all (splitlines (join [nl] (map show_line es) @ [nl])) = map out es"
proof (cases "es = []")
  case True
  have "splitlines (join [nl] [] @ [nl]) = [[]]" by (simp add: is_linebreak_def)
  then show ?thesis using True by (simp add: parse_all_def List.map_filter_simps parse_empty)
next
  case False
  then have "splitlines (join [nl] (map show_line es) @ [nl]) = map show_line es"
    using assms
    by (subst join_nl_unlines) (auto simp del: map_map dest!: show_no_break intro!: splitlines_unlines)
  then show ?thesis using parse_all_show[OF assms] by simp
qed

end

subsection \<open>Entries and lines\<close>

record source_entry =
  algo :: string
  filename :: string
  hash :: string

definition sources_line_re :: rx where
  \<comment> \<open>\<open>^(\w+)\s+\((.+?)\)\s+=\s+(\w+)$\<close>\<close>
  "sources_line_re = Seq [Bol False, Grp 1 (Plus True Word), Plus True Space, Chr (CHR ''(''),
     Grp 2 (Plus False Dot), Chr (CHR '')''), Plus True Space, Chr (CHR ''=''), Plus True Space,
     Grp 3 (Plus True Word), Eol False]"

definition parse_entry :: "string \<Rightarrow> source_entry option" where
  "parse_entry line = (let l = strip line in
     if l = [] then None
     else map_option (\<lambda>m. \<lparr>algo = group m 1, filename = group m 2, hash = group m 3\<rparr>)
            (re_match sources_line_re l))"

definition parse_filename :: "string \<Rightarrow> string option" where
  \<comment> \<open>the line step of \<open>dist_git.py\<close>'s reader\<close>
  "parse_filename line = map_option (\<lambda>m. group m 2) (re_match sources_line_re (strip line))"

definition show_entry :: "source_entry \<Rightarrow> string" where
  "show_entry e = algo e @ '' ('' @ filename e @ '') = '' @ hash e"

definition parse_sources_text :: "string \<Rightarrow> source_entry list" where
  "parse_sources_text t = List.map_filter parse_entry (splitlines t)"

definition parse_sources_file :: "path \<Rightarrow> source_entry list prog" where
  "parse_sources_file p = bind (exists p) (\<lambda>b.
     if \<not> b then ret [] else bind (read_text p) (\<lambda>t. ret (parse_sources_text t)))"

definition sources_text :: "source_entry list \<Rightarrow> string" where
  "sources_text es = join [nl] (map show_entry es) @ [nl]"

definition write_sources_file :: "path \<Rightarrow> source_entry list \<Rightarrow> unit prog" where
  "write_sources_file p es = write_text p (sources_text es)"

definition source_filenames :: "string \<Rightarrow> string list" where
  "source_filenames t = List.map_filter parse_filename (splitlines t)"

definition iter_source_filenames :: "path \<Rightarrow> string list prog" where
  "iter_source_filenames p = bind (read_text p) (\<lambda>t. ret (source_filenames t))"

subsection \<open>What the line pattern accepts\<close>

definition line_parts :: "string \<Rightarrow> string \<Rightarrow> string \<Rightarrow> string \<Rightarrow> string \<Rightarrow> string \<Rightarrow> string \<Rightarrow> string \<Rightarrow> bool" where
  "line_parts s A W1 F W2 W3 H T \<longleftrightarrow>
     s = A @ W1 @ CHR ''('' # F @ CHR '')'' # W2 @ CHR ''='' # W3 @ H @ T \<and>
     A \<noteq> [] \<and> (\<forall>c \<in> set A. is_word c) \<and> W1 \<noteq> [] \<and> (\<forall>c \<in> set W1. is_ws c) \<and>
     F \<noteq> [] \<and> (\<forall>c \<in> set F. c \<noteq> nl) \<and> W2 \<noteq> [] \<and> (\<forall>c \<in> set W2. is_ws c) \<and>
     W3 \<noteq> [] \<and> (\<forall>c \<in> set W3. is_ws c) \<and> H \<noteq> [] \<and> (\<forall>c \<in> set H. is_word c) \<and>
     (T = [] \<or> T = [nl])"

lemma sources_line_matches:
  "rmatches sources_line_re ([], s, []) st' \<longleftrightarrow>
    (\<exists>A W1 F W2 W3 H T. line_parts s A W1 F W2 W3 H T \<and>
       st' = (rev (A @ W1 @ CHR ''('' # F @ CHR '')'' # W2 @ CHR ''='' # W3 @ H), T,
              [(1, A), (2, F), (3, H)]))"
  unfolding sources_line_re_def Word_def Space_def Dot_def Seq.simps
  apply (simp only: rm_steps at_bol_def at_eol_def line_parts_def)
  apply simp
  apply (rule iffI; elim exE conjE; hypsubst)
   apply (intro exI conjI; (rule refl | assumption | simp))
  apply (intro exI conjI; (rule refl | assumption | simp))
  done

text \<open>The parts are determined by the line: words and white space share no character.\<close>

lemma line_parts_unique:
  assumes "line_parts s A W1 F W2 W3 H T" "line_parts s A' W1' F' W2' W3' H' T'"
  shows "A' = A \<and> W1' = W1 \<and> F' = F \<and> W2' = W2 \<and> W3' = W3 \<and> H' = H \<and> T' = T"
proof -
  note l = assms[unfolded line_parts_def]
  obtain w1 V1 w1' V1' where W1: "W1 = w1 # V1" "W1' = w1' # V1'"
    using l by (metis neq_Nil_conv)
  have nw: "\<not> is_word w1" "\<not> is_word w1'" using l W1 word_not_ws by auto
  have 1: "A = A' \<and> w1 = w1' \<and> V1 @ CHR ''('' # F @ CHR '')'' # W2 @ CHR ''='' # W3 @ H @ T
      = V1' @ CHR ''('' # F' @ CHR '')'' # W2' @ CHR ''='' # W3' @ H' @ T'"
    by (rule run_unique[where p = is_word]) (use l W1 nw in simp_all)
  have par: "\<not> is_ws CHR ''(''" "\<not> is_ws CHR '')''" "\<not> is_ws CHR ''=''" "\<not> is_word CHR ''=''" 
    "\<not> is_word nl" "is_ws nl"
    by (simp_all add: is_ws_def is_word_def is_alpha_def is_upper_def is_lower_def is_digit_def)
  have 2: "V1 = V1' \<and> CHR ''('' = CHR ''('' \<and> F @ CHR '')'' # W2 @ CHR ''='' # W3 @ H @ T
      = F' @ CHR '')'' # W2' @ CHR ''='' # W3' @ H' @ T'"
    by (rule run_unique[where p = is_ws]) (use l W1 1 par in simp_all)
  have T: "T = T'"
  proof -
    have "last (F @ CHR '')'' # W2 @ CHR ''='' # W3 @ H @ T) = last (H @ T)"
      "last (F' @ CHR '')'' # W2' @ CHR ''='' # W3' @ H' @ T') = last (H' @ T')"
      using l by simp_all
    with 2 have last: "last (H @ T) = last (H' @ T')" by simp
    have word: "is_word (last H)" "is_word (last H')" using l by simp_all
    have "T = [] \<or> T = [nl]" "T' = [] \<or> T' = [nl]" using l by blast+
    then show ?thesis using last word par(5) by (elim disjE) auto
  qed
  have "F @ CHR '')'' # W2 @ CHR ''='' # W3 @ H = F' @ CHR '')'' # W2' @ CHR ''='' # W3' @ H'"
    (is "?L = ?R")
  proof -
    have "?L @ T = ?R @ T" using 2 T by simp
    then show ?thesis by (simp only: append_same_eq)
  qed
  then have r: "rev H @ rev W3 @ CHR ''='' # rev W2 @ CHR '')'' # rev F
      = rev H' @ rev W3' @ CHR ''='' # rev W2' @ CHR '')'' # rev F'"
    by (drule_tac f = rev in arg_cong) simp
  obtain w3 V3 w3' V3' where W3: "rev W3 = w3 # V3" "rev W3' = w3' # V3'"
    using l by (metis neq_Nil_conv rev_is_Nil_conv)
  have ws3: "\<forall>c \<in> set (rev W3). is_ws c" "\<forall>c \<in> set (rev W3'). is_ws c" using l by auto
  have nw3: "\<not> is_word w3" "\<not> is_word w3'" using ws3 W3 word_not_ws by auto
  have 3: "rev H = rev H' \<and> w3 = w3' \<and> V3 @ CHR ''='' # rev W2 @ CHR '')'' # rev F
      = V3' @ CHR ''='' # rev W2' @ CHR '')'' # rev F'"
    by (rule run_unique[where p = is_word]) (use l r W3 nw3 in simp_all)
  have 4: "V3 = V3' \<and> CHR ''='' = CHR ''='' \<and> rev W2 @ CHR '')'' # rev F = rev W2' @ CHR '')'' # rev F'"
    by (rule run_unique[where p = is_ws]) (use 3 ws3 W3 par in simp_all)
  have 5: "rev W2 = rev W2' \<and> CHR '')'' = CHR '')'' \<and> rev F = rev F'"
    by (rule run_unique[where p = is_ws]) (use 4 l par in simp_all)
  show ?thesis using 1 2 3 4 5 W1 W3 T by (metis rev_rev_ident)
qed

lemma sources_line_match:
  assumes "line_parts s A W1 F W2 W3 H T"
  shows "\<exists>g0. re_match sources_line_re s = Some (dset 0 g0 [(1, A), (2, F), (3, H)])"
proof -
  let ?st = "(rev (A @ W1 @ CHR ''('' # F @ CHR '')'' # W2 @ CHR ''='' # W3 @ H), T,
              [(1, A), (2, F), (3, H)])"
  have "rmatches sources_line_re ([], s, []) ?st"
    unfolding sources_line_matches using assms by blast
  moreover have "st' = ?st" if "rmatches sources_line_re ([], s, []) st'" for st'
    using that line_parts_unique[OF assms] by (fastforce simp only: sources_line_matches)
  ultimately show ?thesis by (meson re_match_unique)
qed

subsection \<open>Printing and parsing back\<close>

definition wf_entry :: "source_entry \<Rightarrow> bool" where
  "wf_entry e \<longleftrightarrow>
     algo e \<noteq> [] \<and> (\<forall>c \<in> set (algo e). is_word c) \<and>
     filename e \<noteq> [] \<and> (\<forall>c \<in> set (filename e). \<not> is_linebreak c) \<and>
     hash e \<noteq> [] \<and> (\<forall>c \<in> set (hash e). is_word c)"

lemma not_linebreak_nl: "\<not> is_linebreak c \<Longrightarrow> c \<noteq> nl"
  by (auto simp: is_linebreak_def)

lemma show_entry_parts:
  "wf_entry e \<Longrightarrow> line_parts (show_entry e) (algo e) '' '' (filename e) '' '' '' '' (hash e) []"
  by (auto simp: line_parts_def wf_entry_def show_entry_def is_ws_def dest: not_linebreak_nl)

lemma strip_show_entry: "wf_entry e \<Longrightarrow> strip (show_entry e) = show_entry e"
  by (rule strip_id) (auto simp: show_entry_def wf_entry_def hd_append last_append dest: word_not_ws)

lemma match_show_entry:
  "wf_entry e \<Longrightarrow> \<exists>g0. re_match sources_line_re (show_entry e)
      = Some (dset 0 g0 [(1, algo e), (2, filename e), (3, hash e)])"
  by (rule sources_line_match) (rule show_entry_parts)

lemma parse_show_entry: "wf_entry e \<Longrightarrow> parse_entry (show_entry e) = Some e"
  using match_show_entry[of e] strip_show_entry[of e]
  by (auto simp: parse_entry_def group_def show_entry_def wf_entry_def)

lemma parse_show_filename: "wf_entry e \<Longrightarrow> parse_filename (show_entry e) = Some (filename e)"
  using match_show_entry[of e] strip_show_entry[of e] by (auto simp: parse_filename_def group_def)

lemma word_no_break: "is_word c \<Longrightarrow> \<not> is_linebreak c"
  by (metis is_linebreak_ws word_not_ws)

lemma show_entry_no_break:
  assumes "wf_entry e" "c \<in> set (show_entry e)"
  shows "\<not> is_linebreak c"
proof -
  have "\<forall>x \<in> set '' () = ''. \<not> is_linebreak x" by (simp add: is_linebreak_def)
  then show ?thesis using assms by (auto simp: show_entry_def wf_entry_def word_no_break)
qed

lemma sources_line_needs: "\<not> rmatches sources_line_re ([], [], []) st'"
  by (simp add: sources_line_matches line_parts_def)

interpretation entry_codec: line_codec show_entry parse_entry wf_entry "\<lambda>e. e"
  by (unfold_locales, rule parse_show_entry, assumption, rule show_entry_no_break, assumption+)
    (simp add: parse_entry_def)

interpretation filename_codec: line_codec show_entry parse_filename wf_entry filename
  by (unfold_locales, rule parse_show_filename, assumption, rule show_entry_no_break, assumption+)
    (simp add: parse_filename_def re_match_None sources_line_needs)

lemma parse_entry_wf:
  assumes "parse_entry line = Some e" "\<forall>c \<in> set line. \<not> is_linebreak c"
  shows "wf_entry e"
proof -
  from assms(1) obtain m where m: "re_match sources_line_re (strip line) = Some m"
    and e: "e = \<lparr>algo = group m 1, filename = group m 2, hash = group m 3\<rparr>"
    by (auto simp: parse_entry_def Let_def split: if_splits)
  from m obtain b' a' c where r: "rmatches sources_line_re ([], strip line, []) (b', a', c)"
    and mc: "m = dset 0 (take (length (strip line) - length a') (strip line)) c"
    by (rule re_match_Some)
  from r obtain A W1 F W2 W3 H T where lp: "line_parts (strip line) A W1 F W2 W3 H T"
    and c: "c = [(1, A), (2, F), (3, H)]"
    unfolding sources_line_matches by blast
  have "set (strip line) \<subseteq> set line"
    by (auto simp: strip_def rstrip_def lstrip_def dest!: set_dropWhileD)
  then have "\<forall>x \<in> set F. \<not> is_linebreak x" using lp assms(2) by (auto simp: line_parts_def)
  then show ?thesis using lp by (auto simp: e mc c wf_entry_def group_def line_parts_def)
qed

lemma parse_sources_text_wf: "e \<in> set (parse_sources_text t) \<Longrightarrow> wf_entry e"
  using parse_entry_wf splitlines_no_break
  by (auto simp: parse_sources_text_def List.map_filter_def)

lemma parse_sources_text_eq: "parse_sources_text t = entry_codec.parse_all (splitlines t)"
  by (simp add: parse_sources_text_def entry_codec.parse_all_def)

lemma source_filenames_eq: "source_filenames t = filename_codec.parse_all (splitlines t)"
  by (simp add: source_filenames_def filename_codec.parse_all_def)

text \<open>C37: a \<open>sources\<close> file written from well-formed entries reads back as those entries, in
  order, and \<open>dist_git.py\<close>'s reader finds exactly their file names.\<close>

theorem sources_roundtrip:
  assumes "\<forall>e \<in> set es. wf_entry e"
  shows "parse_sources_text (sources_text es) = es \<and> source_filenames (sources_text es) = map filename es"
  using entry_codec.parse_file_show[OF assms] filename_codec.parse_file_show[OF assms]
  by (simp add: parse_sources_text_eq source_filenames_eq sources_text_def)

theorem sources_roundtrip_witness:
  "parse_sources_text (sources_text
      [\<lparr>algo = ''SHA512'', filename = ''a (1).tar'', hash = ''0f''\<rparr>])
    = [\<lparr>algo = ''SHA512'', filename = ''a (1).tar'', hash = ''0f''\<rparr>]"
  using sources_roundtrip[of "[\<lparr>algo = ''SHA512'', filename = ''a (1).tar'', hash = ''0f''\<rparr>]"]
  by (simp add: wf_entry_def is_word_def is_alpha_def is_upper_def is_lower_def is_digit_def is_linebreak_def)

text \<open>Rewriting a file keeps what it says: whatever text was there, its parsed entries are well
  formed, so they survive the rewrite.\<close>

lemma sources_rewrite: "parse_sources_text (sources_text (parse_sources_text t)) = parse_sources_text t"
proof -
  have "\<forall>e \<in> set (parse_sources_text t). wf_entry e" by (simp add: parse_sources_text_wf)
  then show ?thesis
    using entry_codec.parse_file_show by (simp add: parse_sources_text_eq sources_text_def)
qed

end
