(* ===== verification/Versions.thy ===== *)
theory Versions
  imports Py_World
begin

section \<open>Version strings: pre-releases, tracking prefixes, transforms, comparison\<close>

text \<open>
  The version tests of \<open>ci/dist_git.py\<close> (\<open>is_prerelease\<close>) and of
  \<open>ci/check_upstream_versions.py\<close> (\<open>compare_versions\<close>, \<open>_matches_track_version\<close>,
  \<open>_openjdk_to_rpm\<close> and the transform table). RPM's \<open>labelCompare\<close> and the \<open>Version\<close>
  class of \<open>packaging\<close> are parameters.
\<close>

subsection \<open>Pre-release detection\<close>

definition markers :: "string list \<Rightarrow> rx" where
  \<comment> \<open>an alternation of words under IGNORECASE\<close>
  "markers ws = AltL (map LitCI ws)"

definition PRERELEASE_PATTERNS :: "(rx \<times> string) list" where
  "PRERELEASE_PATTERNS =
    [(Seq [Chr (CHR ''~''),
           Grp 1 (markers [''rc'', ''alpha'', ''beta'', ''pre'', ''dev'', ''snapshot'', ''git'']),
           Star True Digit],
      ''tilde pre-release marker''),
     (Seq [Cls (\<lambda>c. c = CHR ''-'' \<or> c = CHR ''.''),
           markers [''rc'', ''alpha'', ''beta'', ''pre'', ''dev'', ''snapshot''],
           Star True Digit, WordB],
      ''pre-release suffix''),
     (Seq [WordB, Grp 1 (markers [''git'', ''snapshot'']), Rep 6 Digit, Star True Digit],
      ''development snapshot''),
     (Seq [Grp 1 (markers [''dev'', ''pre'']), WordB],
      ''development marker'')]"

fun first_pattern :: "(rx \<times> string) list \<Rightarrow> string \<Rightarrow> string option" where
  \<comment> \<open>the loop over the patterns: description and matched text of the first that matches\<close>
  "first_pattern [] s = None"
| "first_pattern ((r, d) # ps) s = (case re_search r s of
       Some m \<Rightarrow> Some (d @ '' ('' @ group m 0 @ '')'')
     | None \<Rightarrow> first_pattern ps s)"

definition is_prerelease :: "string \<Rightarrow> string option \<Rightarrow> bool \<times> string option" where
  "is_prerelease version release =
     (case first_pattern PRERELEASE_PATTERNS version of
        Some d \<Rightarrow> (True, Some d)
      | None \<Rightarrow>
          (case release of
             None \<Rightarrow> (False, None)
           | Some r \<Rightarrow>
               if r = [] then (False, None)
               else (case first_pattern PRERELEASE_PATTERNS r of
                  Some d \<Rightarrow> (True, Some (d @ '' in release''))
                | None \<Rightarrow> (False, None))))"

lemma first_pattern_None: "first_pattern ps s = None \<longleftrightarrow> (\<forall>(r, d) \<in> set ps. re_search r s = None)"
  by (induction ps s rule: first_pattern.induct) (auto split: option.splits)

lemma alpha_lower_char: "is_alpha (lower_char c) \<longleftrightarrow> is_alpha c"
proof (cases "is_upper c")
  case True
  then have "(of_char c :: nat) + 32 < 256" "65 \<le> (of_char c :: nat)" "(of_char c :: nat) \<le> 90"
    by (auto simp: is_upper_def Let_def)
  then have "is_lower (lower_char c)" using True by (simp add: lower_char_def is_lower_def)
  then show ?thesis using True by (simp add: is_alpha_def)
qed (simp add: lower_char_def)

lemma needs_alpha_CI: "is_alpha c \<Longrightarrow> needs is_alpha (ChrCI c)"
  unfolding ChrCI_def needs.simps by (metis alpha_lower_char)

lemma needs_LitCI: "is_alpha c \<Longrightarrow> needs is_alpha (LitCI (c # s))"
  by (simp add: needs_alpha_CI)

lemma needs_AltL: "(\<forall>r \<in> set rs. needs q r) \<Longrightarrow> rs \<noteq> [] \<Longrightarrow> needs q (AltL rs)"
  by (induction rs rule: AltL.induct) auto

lemma needs_markers: "(\<forall>w \<in> set ws. w \<noteq> [] \<and> is_alpha (hd w)) \<Longrightarrow> ws \<noteq> [] \<Longrightarrow> needs is_alpha (markers ws)"
  unfolding markers_def by (rule needs_AltL) (auto simp: neq_Nil_conv needs_alpha_CI)

lemma patterns_need_letters: "(r, d) \<in> set PRERELEASE_PATTERNS \<Longrightarrow> needs is_alpha r"
proof -
  have "needs is_alpha (markers [''rc'', ''alpha'', ''beta'', ''pre'', ''dev'', ''snapshot'', ''git''])"
    "needs is_alpha (markers [''rc'', ''alpha'', ''beta'', ''pre'', ''dev'', ''snapshot''])"
    "needs is_alpha (markers [''git'', ''snapshot''])" "needs is_alpha (markers [''dev'', ''pre''])"
    by (rule needs_markers; simp add: is_alpha_def is_lower_def)+
  moreover assume "(r, d) \<in> set PRERELEASE_PATTERNS"
  ultimately show ?thesis by (auto simp: PRERELEASE_PATTERNS_def)
qed

lemma no_letters_no_pattern: "\<forall>c \<in> set s. \<not> is_alpha c \<Longrightarrow> first_pattern PRERELEASE_PATTERNS s = None"
  unfolding first_pattern_None using patterns_need_letters re_search_needs by fast

lemma rm_LitCI: "lower k = lower s \<Longrightarrow> rmatches (LitCI s) (b, k @ a, c) (rev k @ b, a, c)"
proof (induction s arbitrary: k b)
  case Nil
  then show ?case by (simp add: lower_def)
next
  case (Cons x s)
  then obtain y k' where k: "k = y # k'" "lower_char y = lower_char x" "lower k' = lower s"
    by (cases k) (auto simp: lower_def)
  have "rmatches (LitCI s) (y # b, k' @ a, c) (rev k' @ y # b, a, c)" using Cons.IH[OF k(3)] .
  then show ?case using k by (auto simp: ChrCI_def)
qed

lemma rm_AltL: "r \<in> set rs \<Longrightarrow> rmatches r st st' \<Longrightarrow> rmatches (AltL rs) st st'"
  by (induction rs rule: AltL.induct) auto

lemma tilde_marker_found:
  assumes "lower k = lower m" "m \<in> {''rc'', ''alpha'', ''beta'', ''pre'', ''dev'', ''snapshot'', ''git''}"
  shows "first_pattern PRERELEASE_PATTERNS (u @ CHR ''~'' # k @ w) \<noteq> None"
proof -
  let ?ms = "[''rc'', ''alpha'', ''beta'', ''pre'', ''dev'', ''snapshot'', ''git'']"
  have "rmatches (markers ?ms) (CHR ''~'' # rev u, k @ w, []) (rev k @ CHR ''~'' # rev u, w, [])"
    unfolding markers_def using assms by (intro rm_AltL[of "LitCI m"] rm_LitCI) auto
  then have "rmatches (Seq [Chr (CHR ''~''), Grp 1 (markers ?ms), Star True Digit])
      (rev u, CHR ''~'' # k @ w, []) (rev k @ CHR ''~'' # rev u, w, dset 1 (take (length (k @ w) - length w) (k @ w)) [])"
    by (fastforce intro: rmatches.rm_star_stop simp del: AltL.simps)
  then have "re_search (Seq [Chr (CHR ''~''), Grp 1 (markers ?ms), Star True Digit]) (u @ CHR ''~'' # k @ w) \<noteq> None"
    using re_search_found by fastforce
  then show ?thesis unfolding first_pattern_None by (auto simp: PRERELEASE_PATTERNS_def)
qed

lemma no_letters_not_prerelease:
  "\<forall>c \<in> set (v @ r). \<not> is_alpha c \<Longrightarrow> is_prerelease v (Some r) = (False, None)"
  by (simp add: is_prerelease_def no_letters_no_pattern)

lemma tilde_marker_prerelease:
  assumes "m \<in> {''rc'', ''alpha'', ''beta'', ''pre'', ''dev'', ''snapshot'', ''git''}" "lower k = m"
  shows "fst (is_prerelease (u @ CHR ''~'' # k @ w) rel)"
proof -
  have "lower m = m" using assms(1) by (auto simp: lower_def lower_char_def is_upper_def)
  with assms tilde_marker_found[of k m u w] show ?thesis by (auto simp: is_prerelease_def)
qed

text \<open>a version and release without letters are never reported as a pre-release, and RPM's
  tilde notation (a tilde followed by a marker word in any case) always is, whatever surrounds it.\<close>

lemma prerelease_decision:
  "((\<forall>c \<in> set (v @ r). \<not> is_alpha c) \<longrightarrow> is_prerelease v (Some r) = (False, None)) \<and>
   (lower k \<in> {''rc'', ''alpha'', ''beta'', ''pre'', ''dev'', ''snapshot'', ''git''} \<longrightarrow>
     fst (is_prerelease (u @ CHR ''~'' # k @ w) rel))"
  using no_letters_not_prerelease tilde_marker_prerelease by blast

subsection \<open>Tracking a version prefix\<close>

definition matches_track_version :: "string \<Rightarrow> string \<Rightarrow> bool" where
  "matches_track_version version track_version =
     (version = track_version \<or> startswith version (track_version @ ''.''))"

lemma split_on_dot_append: "split_on d (a @ d # b) = split_on d a @ split_on d b"
  by (induction a) (auto split: list.splits)

text \<open>tracking \<open>1.26\<close> is a matter of whole dotted components: the components of the tracked
  prefix must be the first components of the version (so \<open>1.26\<close> does not track \<open>1.260\<close>).\<close>

lemma track_version_components:
  "matches_track_version v t \<longleftrightarrow>
     take (length (split_on CHR ''.'' t)) (split_on CHR ''.'' v) = split_on CHR ''.'' t"
proof
  assume "matches_track_version v t"
  then consider "v = t" | r where "v = t @ CHR ''.'' # r"
    by (auto simp: matches_track_version_def startswith_iff)
  then show "take (length (split_on CHR ''.'' t)) (split_on CHR ''.'' v) = split_on CHR ''.'' t"
    by cases (simp_all add: split_on_dot_append)
next
  let ?s = "split_on CHR ''.''"
  assume "take (length (?s t)) (?s v) = ?s t"
  then obtain ys where ys: "?s v = ?s t @ ys" by (metis append_take_drop_id)
  have v: "v = join ''.'' (?s t @ ys)" using ys join_split_on by metis
  show "matches_track_version v t"
  proof (cases "ys = []")
    case True
    then show ?thesis using v join_split_on[of "CHR ''.''" t] by (simp add: matches_track_version_def)
  next
    case False
    then have "v = t @ CHR ''.'' # join ''.'' ys"
      using v join_split_on[of "CHR ''.''" t] by (simp add: join_append)
    then show ?thesis by (simp add: matches_track_version_def startswith_iff)
  qed
qed

subsection \<open>Upstream-to-RPM transforms\<close>

definition openjdk_re :: rx where
  \<comment> \<open>\<open>(\d+\.\d+\.\d+)(?:\.(\d+))?\+(\d+)\<close>\<close>
  "openjdk_re = Seq [
     Grp 1 (Seq [Plus True Digit, Chr CHR ''.'', Plus True Digit, Chr CHR ''.'', Plus True Digit]),
     Opt (Sq (Chr CHR ''.'') (Grp 2 (Plus True Digit))), Chr CHR ''+'', Grp 3 (Plus True Digit)]"

definition openjdk_to_rpm :: "string \<Rightarrow> exn + string" where
  "openjdk_to_rpm version = (case re_fullmatch openjdk_re version of
       None \<Rightarrow> Inl (ValueError (''version '' @ version @ '' is not a supported OpenJDK version''))
     | Some m \<Rightarrow>
         (let patch = (if group m 2 = [] then ''0'' else group m 2)
          in Inr (group m 1 @ ''.'' @ patch @ ''.'' @ show_nat (parse_nat (group m 3)))))"

definition digits :: "string \<Rightarrow> bool" where
  "digits s \<longleftrightarrow> s \<noteq> [] \<and> (\<forall>c \<in> set s. is_digit c)"

definition openjdk_parts :: "string \<Rightarrow> string \<Rightarrow> string \<Rightarrow> string \<Rightarrow> string option \<Rightarrow> string \<Rightarrow> bool" where
  "openjdk_parts s a b c p n \<longleftrightarrow> digits a \<and> digits b \<and> digits c \<and> digits n \<and>
     (case p of None \<Rightarrow> s = a @ ''.'' @ b @ ''.'' @ c @ ''+'' @ n
      | Some q \<Rightarrow> digits q \<and> s = a @ ''.'' @ b @ ''.'' @ c @ ''.'' @ q @ ''+'' @ n)"

lemma rm_triple:
  "rmatches (Seq [Plus True Digit, Chr x, Plus True Digit, Chr y, Plus True Digit]) (b, a, c) st' \<longleftrightarrow>
     (\<exists>u v w a'. a = u @ x # v @ y # w @ a' \<and> digits u \<and> digits v \<and> digits w \<and>
        st' = (rev (u @ x # v @ y # w) @ b, a', c))"
  unfolding Digit_def Seq.simps digits_def
  apply (simp only: rm_steps)
  apply simp
  apply (rule iffI; elim exE conjE; hypsubst)
   apply (intro exI conjI; (rule refl | assumption | simp))
  apply (intro exI conjI; (rule refl | assumption | simp))
  done

lemma rm_tail:
  "rmatches (Seq [Chr x, Grp n (Plus True Digit)]) (b, a, c) st' \<longleftrightarrow>
     (\<exists>u a'. a = x # u @ a' \<and> digits u \<and> st' = (rev u @ x # b, a', dset n u c))"
  unfolding Digit_def Seq.simps digits_def
  apply (simp only: rm_steps)
  apply simp
  apply (rule iffI; elim exE conjE; hypsubst)
   apply (intro exI conjI; (rule refl | assumption | simp))
  apply (intro exI conjI; (rule refl | assumption | simp))
  done

lemma rm_opt_patch:
  "rmatches (Opt (Sq (Chr x) (Grp n (Plus True Digit)))) (b, a, c) st' \<longleftrightarrow>
     st' = (b, a, c) \<or> (\<exists>u a'. a = x # u @ a' \<and> digits u \<and> st' = (rev u @ x # b, a', dset n u c))"
proof -
  have "rmatches (Sq (Chr x) (Grp n (Plus True Digit))) (b, a, c) st' \<longleftrightarrow>
      rmatches (Seq [Chr x, Grp n (Plus True Digit)]) (b, a, c) st'"
    unfolding Seq.simps rm_sq[of "Chr x"] rm_sq_Eps ..
  then show ?thesis unfolding rm_tail Opt_def rm_alt by auto
qed

lemma openjdk_head:
  "rmatches (Grp 1 (Seq [Plus True Digit, Chr CHR ''.'', Plus True Digit, Chr CHR ''.'', Plus True Digit]))
     ([], s, []) st' \<longleftrightarrow>
   (\<exists>a b c a'. s = (a @ ''.'' @ b @ ''.'' @ c) @ a' \<and> digits a \<and> digits b \<and> digits c \<and>
      st' = (rev (a @ ''.'' @ b @ ''.'' @ c), a', [(1, a @ ''.'' @ b @ ''.'' @ c)]))" (is "?L \<longleftrightarrow> ?R")
proof
  assume ?L
  then obtain b' a' c' where 1: "st' = (b', a', dset 1 (take (length s - length a') s) c')"
    "rmatches (Seq [Plus True Digit, Chr CHR ''.'', Plus True Digit, Chr CHR ''.'', Plus True Digit])
     ([], s, []) (b', a', c')"
    by (auto simp del: Seq.simps)
  then obtain u v w where "s = u @ CHR ''.'' # v @ CHR ''.'' # w @ a'" "digits u" "digits v" "digits w"
    "b' = rev (u @ CHR ''.'' # v @ CHR ''.'' # w)" "c' = []"
    unfolding rm_triple by blast
  with 1 show ?R by (intro exI[of _ u] exI[of _ v] exI[of _ w] exI[of _ a']) simp
next
  assume ?R
  then obtain a b c a' where 1: "s = (a @ ''.'' @ b @ ''.'' @ c) @ a'" "digits a" "digits b" "digits c"
      "st' = (rev (a @ ''.'' @ b @ ''.'' @ c), a', [(1, a @ ''.'' @ b @ ''.'' @ c)])" by blast
  have "rmatches (Seq [Plus True Digit, Chr CHR ''.'', Plus True Digit, Chr CHR ''.'', Plus True Digit])
     ([], s, []) (rev (a @ ''.'' @ b @ ''.'' @ c), a', [])"
    unfolding rm_triple using 1 by (intro exI[of _ a] exI[of _ b] exI[of _ c] exI[of _ a']) simp
  then show ?L using 1 by (auto simp del: Seq.simps intro!: exI[of _ "[]"])
qed

lemma openjdk_tail:
  "rmatches (Sq (Opt (Sq (Chr CHR ''.'') (Grp 2 (Plus True Digit))))
       (Seq [Chr CHR ''+'', Grp 3 (Plus True Digit)])) (b, a, c) (b', [], cs) \<longleftrightarrow>
     (\<exists>n. digits n \<and> (a = CHR ''+'' # n \<and> b' = rev n @ CHR ''+'' # b \<and> cs = dset 3 n c \<or>
       (\<exists>q. digits q \<and> a = CHR ''.'' # q @ CHR ''+'' # n \<and>
            b' = rev n @ CHR ''+'' # rev q @ CHR ''.'' # b \<and> cs = dset 3 n (dset 2 q c))))"
  (is "?L \<longleftrightarrow> ?R")
proof -
  have "?L \<longleftrightarrow> rmatches (Seq [Chr CHR ''+'', Grp 3 (Plus True Digit)]) (b, a, c) (b', [], cs) \<or>
     (\<exists>u a'. a = CHR ''.'' # u @ a' \<and> digits u \<and>
        rmatches (Seq [Chr CHR ''+'', Grp 3 (Plus True Digit)]) (rev u @ CHR ''.'' # b, a', dset 2 u c) (b', [], cs))"
    unfolding rm_sq[of "Opt _"] rm_opt_patch by blast
  also have "\<dots> \<longleftrightarrow> ?R" unfolding rm_tail by auto
  finally show ?thesis .
qed

lemma openjdk_matches:
  "rmatches openjdk_re ([], s, []) (b', [], cs) \<longleftrightarrow>
     (\<exists>a b c p n. openjdk_parts s a b c p n \<and> b' = rev s \<and>
        cs = (case p of None \<Rightarrow> [(1, a @ ''.'' @ b @ ''.'' @ c), (3, n)]
              | Some q \<Rightarrow> [(1, a @ ''.'' @ b @ ''.'' @ c), (2, q), (3, n)]))" (is "?L \<longleftrightarrow> ?R")
proof -
  let ?g = "\<lambda>a b c. a @ ''.'' @ b @ ''.'' @ c"
  let ?r = "Sq (Opt (Sq (Chr CHR ''.'') (Grp 2 (Plus True Digit))))
       (Seq [Chr CHR ''+'', Grp 3 (Plus True Digit)])"
  have "?L \<longleftrightarrow> (\<exists>a b c a'. s = ?g a b c @ a' \<and> digits a \<and> digits b \<and> digits c \<and>
      rmatches ?r (rev (?g a b c), a', [(1, ?g a b c)]) (b', [], cs))"
    unfolding openjdk_re_def Seq.simps(2)[of "Grp 1 _"] Seq.simps(2)[of "Opt _"] rm_sq[of "Grp 1 _"]
      openjdk_head by blast
  also have "\<dots> \<longleftrightarrow> (\<exists>a b c n. digits a \<and> digits b \<and> digits c \<and> digits n \<and> (
      s = ?g a b c @ CHR ''+'' # n \<and> b' = rev n @ CHR ''+'' # rev (?g a b c) \<and>
        cs = dset 3 n [(1, ?g a b c)] \<or>
      (\<exists>q. digits q \<and> s = ?g a b c @ CHR ''.'' # q @ CHR ''+'' # n \<and>
        b' = rev n @ CHR ''+'' # rev q @ CHR ''.'' # rev (?g a b c) \<and>
        cs = dset 3 n (dset 2 q [(1, ?g a b c)]))))"
    unfolding openjdk_tail by blast
  also have "\<dots> \<longleftrightarrow> (\<exists>a b c n. digits a \<and> digits b \<and> digits c \<and> digits n \<and> (
      s = ?g a b c @ CHR ''+'' # n \<and> b' = rev s \<and> cs = [(1, ?g a b c), (3, n)] \<or>
      (\<exists>q. digits q \<and> s = ?g a b c @ CHR ''.'' # q @ CHR ''+'' # n \<and> b' = rev s \<and>
        cs = [(1, ?g a b c), (2, q), (3, n)])))"
    by (intro ex_cong1 conj_cong refl arg_cong2[where f = "(\<or>)"]) auto
  also have "\<dots> \<longleftrightarrow> ?R"
    unfolding openjdk_parts_def split_option_ex option.case append_assoc append.simps by blast
  finally show ?thesis .
qed

definition UPSTREAM_VERSION_TRANSFORMS :: "(string \<times> (string \<Rightarrow> exn + string)) list" where
  "UPSTREAM_VERSION_TRANSFORMS = [(''openjdk_to_rpm'', openjdk_to_rpm)]"

definition transform_upstream_version :: "string \<Rightarrow> string \<Rightarrow> exn + string" where
  "transform_upstream_version version transform =
     (case dget UPSTREAM_VERSION_TRANSFORMS transform of
        None \<Rightarrow> Inl (ValueError (''unknown upstream_version_transform '' @ transform))
      | Some fn \<Rightarrow> fn version)"

lemma digits_run:
  assumes "digits a" "digits a'" "a @ x # u = a' @ x' # u'" "\<not> is_digit x" "\<not> is_digit x'"
  shows "a = a' \<and> x = x' \<and> u = u'"
  using assms run_unique[of a x u a' x' u' is_digit] by (auto simp: digits_def)

lemma openjdk_unique:
  assumes "openjdk_parts s a b c p n" "openjdk_parts s a' b' c' p' n'"
  shows "a' = a \<and> b' = b \<and> c' = c \<and> p' = p \<and> n' = n"
proof -
  have nd: "\<not> is_digit CHR ''.''" "\<not> is_digit CHR ''+''" by (simp_all add: is_digit_def)
  define t where "t p n = (case p of None \<Rightarrow> ''+'' @ n | Some q \<Rightarrow> ''.'' @ q @ ''+'' @ n)" for p and n :: string
  have s: "s = a @ CHR ''.'' # b @ CHR ''.'' # c @ t p n" "s = a' @ CHR ''.'' # b' @ CHR ''.'' # c' @ t p' n'"
    and d: "digits a" "digits b" "digits c" "digits n" "digits a'" "digits b'" "digits c'" "digits n'"
      "\<And>q. p = Some q \<Longrightarrow> digits q" "\<And>q. p' = Some q \<Longrightarrow> digits q"
    using assms by (auto simp: openjdk_parts_def t_def split: option.splits)
  have 1: "a = a' \<and> b @ CHR ''.'' # c @ t p n = b' @ CHR ''.'' # c' @ t p' n'"
    using digits_run[OF d(1,5)] s nd by metis
  then have 2: "b = b' \<and> c @ t p n = c' @ t p' n'"
    using digits_run[OF d(2,6)] nd by metis
  have t: "t p n = (if p = None then CHR ''+'' else CHR ''.'') # tl (t p n)" for p n
    by (auto simp: t_def split: option.splits)
  have 3: "c = c' \<and> (if p = None then CHR ''+'' else CHR ''.'') = (if p' = None then CHR ''+'' else CHR ''.'') \<and>
     tl (t p n) = tl (t p' n')"
  proof (rule digits_run[OF d(3,7)])
    show "c @ (if p = None then CHR ''+'' else CHR ''.'') # tl (t p n) =
        c' @ (if p' = None then CHR ''+'' else CHR ''.'') # tl (t p' n')"
      using 2 t[of p n, symmetric] t[of p' n', symmetric] by simp
  qed (use nd in auto)
  show ?thesis
  proof (cases p)
    case None
    with 3 have "p' = None" by (auto split: if_splits)
    with None 1 2 3 show ?thesis by (simp add: t_def)
  next
    case (Some q)
    with 3 obtain q' where q': "p' = Some q'" by (auto split: if_splits)
    have "q @ CHR ''+'' # n = q' @ CHR ''+'' # n'" using 3 Some q' by (simp add: t_def)
    with digits_run[OF d(9)[OF Some] d(10)[OF q']] nd have "q = q' \<and> n = n'" by metis
    with Some q' 1 2 3 show ?thesis by simp
  qed
qed

lemma openjdk_accepts:
  assumes "openjdk_parts s a b c p n"
  shows "openjdk_to_rpm s = Inr (a @ ''.'' @ b @ ''.'' @ c @ ''.'' @
    (case p of None \<Rightarrow> ''0'' | Some q \<Rightarrow> q) @ ''.'' @ show_nat (parse_nat n))"
proof -
  let ?cs = "case p of None \<Rightarrow> [(1, a @ ''.'' @ b @ ''.'' @ c), (3, n)]
              | Some q \<Rightarrow> [(1, a @ ''.'' @ b @ ''.'' @ c), (2, q), (3, n)]"
  have "re_fullmatch openjdk_re s = Some (dset 0 s ?cs)"
  proof (rule re_fullmatch_unique)
    show "rmatches openjdk_re ([], s, []) (rev s, [], ?cs)"
      unfolding openjdk_matches using assms by blast
    show "cs = ?cs" if "rmatches openjdk_re ([], s, []) (b', [], cs)" for b' cs
      using that openjdk_unique[OF assms] unfolding openjdk_matches by blast
  qed
  moreover have "\<And>q. p = Some q \<Longrightarrow> q \<noteq> []"
    using assms by (auto simp: openjdk_parts_def digits_def)
  ultimately show ?thesis
    by (cases p) (auto simp: openjdk_to_rpm_def group_def)
qed

lemma openjdk_rejects:
  "\<nexists>a b c p n. openjdk_parts s a b c p n \<Longrightarrow>
   openjdk_to_rpm s = Inl (ValueError (''version '' @ s @ '' is not a supported OpenJDK version''))"
  unfolding openjdk_to_rpm_def by (subst re_fullmatch_None[THEN iffD2]) (simp_all add: openjdk_matches)

text \<open>an OpenJDK tag \<open>a.b.c+n\<close> or \<open>a.b.c.p+n\<close> becomes the five-part RPM version with the
  missing patch as 0 and the build number without leading zeros, and nothing else is accepted.\<close>

lemma openjdk_transform:
  "(openjdk_parts s a b c p n \<longrightarrow>
     transform_upstream_version s ''openjdk_to_rpm'' =
       Inr (join ''.'' [a, b, c, case p of None \<Rightarrow> ''0'' | Some q \<Rightarrow> q, show_nat (parse_nat n)])) \<and>
   (transform_upstream_version s ''openjdk_to_rpm'' = Inr v \<longrightarrow> (\<exists>a b c p n. openjdk_parts s a b c p n))"
proof (intro conjI impI)
  assume "transform_upstream_version s ''openjdk_to_rpm'' = Inr v"
  then show "\<exists>a b c p n. openjdk_parts s a b c p n"
    using openjdk_rejects[of s]
    by (intro ccontr[of "Ex _"]) (auto simp: transform_upstream_version_def UPSTREAM_VERSION_TRANSFORMS_def)
qed (use openjdk_accepts in \<open>simp add: transform_upstream_version_def UPSTREAM_VERSION_TRANSFORMS_def\<close>)

subsection \<open>Comparing versions\<close>

definition compare_versions ::
  "(string \<Rightarrow> string \<Rightarrow> int) option \<Rightarrow> (string \<Rightarrow> 'v::linorder option) \<Rightarrow> string \<Rightarrow> string \<Rightarrow> int" where
  \<comment> \<open>\<open>label\<close> is RPM's \<open>labelCompare\<close> on versions with equal epoch and release, when the \<open>rpm\<close>
     module is there; \<open>parse\<close> is \<open>packaging.Version\<close>, \<open>None\<close> for \<open>InvalidVersion\<close>.\<close>
  "compare_versions label parse current upstream =
     (case label of
        Some label_compare \<Rightarrow> - label_compare current upstream
      | None \<Rightarrow>
         (case (parse current, parse upstream) of
            (Some c, Some u) \<Rightarrow> if u > c then 1 else if u = c then 0 else -1
          | _ \<Rightarrow> if upstream > current then 1 else if upstream = current then 0 else -1))"

text \<open>What the update logic needs of a comparison: three results, and swapping the arguments
  flips the sign. \<open>newer\<close> is then asymmetric, so two versions never update into each other.\<close>

locale three_way =
  fixes cmp :: "string \<Rightarrow> string \<Rightarrow> int"
  assumes flip: "cmp b a = - cmp a b"
    and range: "cmp a b \<in> {-1, 0, 1}"
begin

definition newer :: "string \<Rightarrow> string \<Rightarrow> bool" where
  "newer current upstream \<longleftrightarrow> 0 < cmp current upstream"

lemma newer_asym: "newer a b \<Longrightarrow> \<not> newer b a"
  using flip[of a b] by (simp add: newer_def)

lemma newer_irrefl: "\<not> newer a a"
  using newer_asym by blast

lemma newer_cases: "newer a b \<or> newer b a \<or> cmp a b = 0"
  using flip[of a b] by (auto simp: newer_def)

end

interpretation fallback: three_way "compare_versions None parse"
  for parse :: "string \<Rightarrow> 'v::linorder option"
  by unfold_locales (auto simp: compare_versions_def split: option.splits)

end
