(* ===== verification/Package_Metadata.thy ===== *)
theory Package_Metadata
  imports Release_Bump Dist_Tags Sources_File Versions
begin

section \<open>Package metadata and the commands around it\<close>

text \<open>
  \<open>metadata/<package>.json\<close> records where a package comes from and whether it was changed
  locally. Modelled here, from \<open>ci/dist_git.py\<close>: loading and saving, the global table
  \<open>imports\<close> (the world's field \<open>imported\<close>), the comparison with upstream
  (\<open>is_package_unmodified\<close>, \<open>diff_package\<close>), \<open>import_\<close>, \<open>mark_modified\<close>, \<open>set_upstream\<close>,
  \<open>ls_sources\<close>, \<open>list_packages\<close> and \<open>check_git_config\<close>. Text is UTF-8: a character outside
  ASCII is its byte sequence.
\<close>

subsection \<open>Loading and saving\<close>

definition metadata_file :: "string \<Rightarrow> path" where
  "metadata_file package_name = METADATA_DIR @ [package_name @ ''.json'']"

definition load_package_metadata :: "string \<Rightarrow> dict option prog" where
  \<comment> \<open>a document that is no object is reported where it is read\<close>
  "load_package_metadata package_name = (let import_file = metadata_file package_name in
    bind (exists import_file) (\<lambda>b.
    if \<not> b then (ret None) else
    bind (json_load import_file) (\<lambda>data.
    if \<not> truthy data then (ret None) else
    bind (from_sum (as_dict data)) (\<lambda>d.
    ret (Some d)))))"

definition save_package_metadata :: "string \<Rightarrow> dict \<Rightarrow> unit prog" where
  "save_package_metadata package_name metadata = (let import_file = metadata_file package_name in
    seq (mkdir METADATA_DIR) (
    write_node import_file (JsonN (sort_json (JObj metadata)))))"

definition get_all_imported_packages :: "(string \<times> dict) list prog" where
  "get_all_imported_packages = (bind (exists METADATA_DIR) (\<lambda>b.
    if \<not> b then (ret []) else
    bind (glob METADATA_DIR ''.json'') (\<lambda>names.
    foldM (\<lambda>all_imports n. (let package_name = stem n in
      bind (load_package_metadata package_name) (\<lambda>metadata.
      ret (case metadata of Some m \<Rightarrow> dset package_name m all_imports | None \<Rightarrow> all_imports)))) [] names)))"

definition str_item :: "dict \<Rightarrow> string \<Rightarrow> exn + string" where
  \<comment> \<open>\<open>metadata['k']\<close> where the code needs a string\<close>
  "str_item d k = (case dget d k of None \<Rightarrow> Inl (KeyError k) | Some v \<Rightarrow> as_str v)"

definition str_get :: "dict \<Rightarrow> string \<Rightarrow> string \<Rightarrow> exn + string" where
  \<comment> \<open>\<open>metadata.get('k', default)\<close> where the code needs a string\<close>
  "str_get d k dflt = (case dget d k of None \<Rightarrow> Inr dflt | Some v \<Rightarrow> as_str v)"

definition status_is :: "dict \<Rightarrow> string \<Rightarrow> bool" where
  \<comment> \<open>\<open>metadata.get('modification_status') == s\<close>\<close>
  "status_is d s \<longleftrightarrow> dget d ''modification_status'' = Some (JStr s)"

definition set_imported :: "string \<Rightarrow> dict \<Rightarrow> unit prog" where
  "set_imported package_name metadata =
     modify (\<lambda>w. w\<lparr>imported := dset package_name metadata (imported w)\<rparr>)"

definition imported_metadata :: "string \<Rightarrow> dict prog" where
  \<comment> \<open>\<open>imports[package_name]\<close>\<close>
  "imported_metadata package_name = bind (gets imported) (\<lambda>imps. case dget imps package_name of
      None \<Rightarrow> raise (KeyError package_name) | Some m \<Rightarrow> ret m)"

definition require_imported :: "string \<Rightarrow> dict prog" where
  \<comment> \<open>the guard that opens \<open>update\<close>, \<open>mark_modified\<close> and \<open>set_upstream\<close>\<close>
  "require_imported package_name = bind (gets imported) (\<lambda>imps. case dget imps package_name of
      None \<Rightarrow> sys_exit (''ERROR: Package '' @ package_name @ '' not found (missing metadata/''
        @ package_name @ ''.json)'')
    | Some m \<Rightarrow> ret m)"

subsection \<open>Source archives\<close>

definition list_archive_contents :: "host \<Rightarrow> path \<Rightarrow> unit prog" where
  "list_archive_contents h filepath = (let name_lower = lower (last filepath) in
    if list_ex (endswith name_lower) [''.sig'', ''.asc'', ''.sign''] then (ret ()) else
    bind (if list_ex (endswith name_lower)
                 [''.tar.gz'', ''.tar.bz2'', ''.tar.xz'', ''.tar.zst'', ''.tgz'', ''.tar'']
            then ret [''tar'', ''tf'', path_str filepath]
            else if endswith name_lower ''.zip'' then ret [''unzip'', ''-l'', path_str filepath]
            else raise (RuntimeError (''Unknown archive type: '' @ last filepath))) (\<lambda>cmd.
    seq (run_proc h cmd ROOT_DIR True) (
    ret ())))"

definition ls_sources :: "host \<Rightarrow> string \<Rightarrow> unit prog" where
  "ls_sources h package = (bind (imported_metadata package) (\<lambda>metadata.
    let package_dir = RPMS_DIR @ [package] in
    let sources_path = package_dir @ [''sources''] in
    bind (exists sources_path) (\<lambda>b.
    if \<not> b then (raise (SysExit 0 [])) else
    bind (case dget metadata ''source'' of
        Some v \<Rightarrow> from_sum (as_str v)
      | None \<Rightarrow> if \<not> status_is metadata ''independent'' then raise (SysExit 1 [])
          else ret (''https://gitlab.com/redhat/hummingbird/rpms/'' @ package @ ''.git'')) (\<lambda>source_url.
    seq (run_proc h [''dist-git-client'', ''--configdir'', ''mock'', ''--loglevel'', ''warning'',
      ''--forked-from'', source_url, ''sources''] package_dir True) (
    bind (iter_source_filenames sources_path) (\<lambda>names.
    forM (\<lambda>filename. (seq (emit (Print (''==== '' @ filename @ '' ====''))) (
      list_archive_contents h (package_dir @ [filename])))) names))))))"

subsection \<open>Comparing with upstream\<close>

definition is_package_unmodified :: "host \<Rightarrow> string \<Rightarrow> dict \<Rightarrow> path \<Rightarrow> bool prog" where
  "is_package_unmodified h package_name metadata upstream_dir = (let package_dir = ROOT_DIR @ [''rpms'', package_name] in
    with_tmpdir ''unmodified'' (\<lambda>tmpdir. (let temp_dir = tmpdir @ [package_name] in
      bind (from_sum (str_item metadata ''branch'')) (\<lambda>branch.
      seq (run_git h [''clone'', ''--quiet'', ''--branch'', branch, ''--single-branch'',
        path_str upstream_dir, path_str temp_dir] ROOT_DIR) (
      bind (from_sum (str_item metadata ''sha'')) (\<lambda>sha.
      seq (run_git h [''checkout'', ''--quiet'', sha] temp_dir) (
      seq (rmtree (temp_dir @ [''.git''])) (
      bind (run_proc h [''diff'', ''--recursive'', ''--ignore-trailing-space'', ''--ignore-blank-lines'',
        ''--exclude=*.spec'', path_str package_dir, path_str temp_dir] ROOT_DIR False) (\<lambda>r.
      if returncode r \<noteq> 0 then (ret False) else
      bind (run_proc h [''diff'', ''--recursive'', ''--ignore-trailing-space'', ''--ignore-blank-lines'',
        ''--ignore-matching-lines=^Release:'', path_str package_dir, path_str temp_dir] ROOT_DIR False) (\<lambda>r.
      ret (returncode r = 0)))))))))))"

datatype diff_result = DiffNone | DiffBool bool | DiffText string

definition brief_line :: "string \<Rightarrow> string option" where
  \<comment> \<open>what one line of \<open>diff --brief\<close> makes the command print\<close>
  "brief_line line =
     (if startswith line ''Files '' then
        (case split_str '' and '' line of
           [_, p] \<Rightarrow> Some (last_component (hd (split_str '' differ'' p)))
         | _ \<Rightarrow> None)
      else if startswith line ''Only in '' then Some line
      else None)"

definition changed_files :: "string \<Rightarrow> string list" where
  \<comment> \<open>the set of file names in a unified diff, when \<open>diffstat\<close> is missing\<close>
  "changed_files out = remdups (map (\<lambda>line. drop 4 (hd (split_on tab line)))
     (filter (\<lambda>line. (startswith line ''---'' \<or> startswith line ''+++'') \<and> \<not> contains line ''/dev/null'')
       (splitlines out)))"

definition print_stat :: "host \<Rightarrow> string \<Rightarrow> unit prog" where
  \<comment> \<open>standard input is written behind the arguments of \<open>diffstat\<close>\<close>
  "print_stat h out = catch
     ((bind (run_proc h [''diffstat'', ''<'', out] ROOT_DIR True) (\<lambda>s.
       emit (Print (stdout s)))))
     (\<lambda>e. is_CalledProcessError e \<or> is_FileNotFoundError e)
     (\<lambda>_. emit (Print (show_nat (length (changed_files out)) @ '' file(s) changed'')))"

definition diff_cmd :: "string \<Rightarrow> bool \<Rightarrow> path \<Rightarrow> path \<Rightarrow> string list" where
  "diff_cmd output_mode raw upstream_dir package_dir =
     [''diff'', ''--recursive'', ''--unified'', ''--exclude=.git''] @
     (if raw then [] else [''--ignore-trailing-space'', ''--ignore-blank-lines'',
        ''--ignore-matching-lines=^Release:'']) @
     (if output_mode = ''name-only'' then [''--brief''] else []) @
     [path_str upstream_dir, path_str package_dir]"

definition diff_package :: "host \<Rightarrow> string \<Rightarrow> string \<Rightarrow> bool \<Rightarrow> bool \<Rightarrow> diff_result prog" where
  "diff_package h package_name output_mode raw capture = (if capture \<and> output_mode \<noteq> ''full'' then (raise (ValueError ''capture=True is only supported with output_mode=full'')) else
    bind (load_package_metadata package_name) (\<lambda>m.
    bind (case m of None \<Rightarrow> sys_exit (''ERROR: Package '' @ package_name @ '' not found'')
       | Some d \<Rightarrow> ret d) (\<lambda>metadata.
    if status_is metadata ''independent'' then (seq
      (emit (Print (package_name @ '': Independent package (no upstream to diff against)''))) (ret DiffNone)) else
    with_tmpdir ''diff'' (\<lambda>tmpdir. (let upstream_dir = tmpdir @ [''upstream''] in
      bind (from_sum (str_item metadata ''source'')) (\<lambda>source.
      bind (from_sum (str_item metadata ''branch'')) (\<lambda>branch.
      bind (from_sum (str_item metadata ''sha'')) (\<lambda>sha.
      seq (run_git h [''clone'', ''--quiet'', ''--branch'', branch, ''--single-branch'', source,
        path_str upstream_dir] ROOT_DIR) (
      seq (run_git h [''checkout'', ''--quiet'', sha] upstream_dir) (
      seq (rmtree (upstream_dir @ [''.git''])) (
      bind (run_proc h (diff_cmd output_mode raw upstream_dir (RPMS_DIR @ [package_name])) ROOT_DIR False) (\<lambda>result.
      if returncode result = 0 then (ret (if capture then DiffText [] else DiffBool False)) else
      if returncode result \<noteq> 1 then (sys_exit (''Error running diff: '' @ stderr result)) else
      if capture \<and> output_mode = ''full'' then (ret (DiffText (stdout result))) else
      seq (if output_mode = ''name-only'' then
         forM (\<lambda>l. case brief_line l of Some p \<Rightarrow> emit (Print p) | None \<Rightarrow> ret ()) (splitlines (stdout result))
       else if output_mode = ''stat'' then print_stat h (stdout result)
       else emit (Print (stdout result))) (
      ret (DiffBool True))))))))))))))"

subsection \<open>Importing a package\<close>

definition new_metadata :: "string \<Rightarrow> string \<Rightarrow> string \<Rightarrow> string \<Rightarrow> string \<Rightarrow> dict" where
  \<comment> \<open>the record of a fresh import; independent packages carry no release\<close>
  "new_metadata url branch sha version release =
     [(''source'', JStr url), (''branch'', JStr branch), (''sha'', JStr sha), (''version'', JStr version)] @
     (if contains url ''gitlab.com/redhat/hummingbird''
      then [(''modification_status'', JStr ''independent'')]
      else [(''modification_status'', JStr ''clean''), (''release'', JStr release)])"

definition import_package :: "host \<Rightarrow> string \<Rightarrow> string \<Rightarrow> string option \<Rightarrow> string option \<Rightarrow> bool \<Rightarrow> unit prog" where
  "import_package h url0 branch ref directory dry_run = (let url = expand_url_shortcut url0 in
    let package_name = stem (last_component url) in
    let dir_name = (case directory of Some d \<Rightarrow> if d = [] then package_name else d | None \<Rightarrow> package_name) in
    let package_dir = ROOT_DIR @ [''rpms'', dir_name] in
    bind (exists package_dir) (\<lambda>b.
    if b then (sys_exit (''ERROR: Package directory rpms/'' @ dir_name @ ''/ already exists'')) else
    seq (case ref of
       Some r \<Rightarrow> if r = [] then
           (seq (run_git h [''clone'', ''--quiet'', ''--branch'', branch, ''--depth=1'', ''--single-branch'', url,
                  path_str package_dir] ROOT_DIR) (
             ret ()))
         else
           (seq (run_git h [''clone'', ''--quiet'', ''--branch'', branch, ''--single-branch'', url,
                  path_str package_dir] ROOT_DIR) (
             seq (run_git h [''checkout'', ''--quiet'', r] package_dir) (
             ret ())))
     | None \<Rightarrow>
         (seq (run_git h [''clone'', ''--quiet'', ''--branch'', branch, ''--depth=1'', ''--single-branch'', url,
                path_str package_dir] ROOT_DIR) (
           ret ()))) (
    bind (run_git h [''rev-parse'', ''HEAD''] package_dir) (\<lambda>head.
    let sha = strip (stdout head) in
    bind (parse_spec_version h package_dir) (\<lambda>(version, spec_release).
    bind (uses_autorelease package_dir) (\<lambda>auto.
    bind (if auto then (bind (query_autorelease_from_mdapi h package_name branch spec_release) (\<lambda>resolved.
      (case resolved of
           Some r \<Rightarrow> if r = [] then ret spec_release
             else seq (replace_autorelease_in_spec package_dir r True) (ret r)
         | None \<Rightarrow> ret spec_release)))
      else ret spec_release) (\<lambda>release.
    seq (rmtree (package_dir @ [''.git''])) (
    bind (lookup_anitya_project_id h package_name) (\<lambda>anitya_id.
    let metadata = new_metadata url branch sha version release @
      (case anitya_id of Some i \<Rightarrow> [(''release_monitoring_project_id'', JInt i)] | None \<Rightarrow> []) in
    seq (save_package_metadata dir_name metadata) (
    seq (set_imported dir_name metadata) (
    seq (check_jinja2_available h) (
    seq (run_proc h [''python3'', ''ci/generate_resources.py'', ''all''] ROOT_DIR True) (
    whenM (\<not> dry_run) ((seq (run_git h [''add'', ''-f'', ''rpms/'' @ dir_name, ''metadata/'' @ dir_name @ ''.json'',
        ''konflux-templates'', ''.tekton'', ''releng''] ROOT_DIR) (
      seq (run_git_commit h [''-m'', ''Import '' @ package_name @ ''-'' @ version @ ''-'' @ release @ [nl, nl] @
        ''Branch: '' @ branch @ [nl] @ ''Upstream: '' @ sha] ROOT_DIR) (
      ret ())))))))))))))))))"

subsection \<open>Marking packages\<close>

definition check_git_config :: "host \<Rightarrow> unit prog" where
  "check_git_config h = (bind (run_git_in h [''config'', ''user.name''] ROOT_DIR False) (\<lambda>name_result.
    bind (run_git_in h [''config'', ''user.email''] ROOT_DIR False) (\<lambda>email_result.
    whenM (returncode name_result \<noteq> 0 \<or> strip (stdout name_result) = [] \<or>
           returncode email_result \<noteq> 0 \<or> strip (stdout email_result) = [])
      (sys_exit ''ERROR: Please configure git''))))"

definition ask_reason :: "host \<Rightarrow> string prog" where
  "ask_reason h = bind (ask_host h (Ask ''Reason for modification: '')) (\<lambda>r. case r of
      Body s _ \<Rightarrow> if strip s = [] then sys_exit ''ERROR: Reason is required when marking as modified''
        else ret (strip s)
    | _ \<Rightarrow> sys_exit ''Aborted'')"

definition mark_modified :: "host \<Rightarrow> string \<Rightarrow> bool \<Rightarrow> string option \<Rightarrow> unit prog" where
  "mark_modified h package_name modified reason = (bind (require_imported package_name) (\<lambda>metadata.
    bind (if modified then (let metadata = dset ''modification_status'' (JStr ''modified'') metadata in
      seq (set_imported package_name metadata) (
      bind (case reason of None \<Rightarrow> ask_reason h
          | Some r \<Rightarrow> if r = [] then ask_reason h else ret r) (\<lambda>reason.
      ret (dset ''modification_reason'' (JStr reason) metadata))))
      else ret (dpop ''modification_reason'' (dset ''modification_status'' (JStr ''clean'') metadata))) (\<lambda>metadata.
    seq (set_imported package_name metadata) (
    save_package_metadata package_name metadata))))"

definition set_field :: "string \<Rightarrow> json option option \<Rightarrow> dict \<Rightarrow> dict" where
  \<comment> \<open>unset: unchanged; \<open>None\<close>: removed; a value: stored\<close>
  "set_field k v d = (case v of None \<Rightarrow> d | Some None \<Rightarrow> dpop k d | Some (Some j) \<Rightarrow> dset k j d)"

definition set_upstream :: "string \<Rightarrow> json option option \<Rightarrow> json option option \<Rightarrow> unit prog" where
  "set_upstream package_name track_version project_id = (bind (require_imported package_name) (\<lambda>metadata.
    let metadata = set_field ''release_monitoring_project_id'' project_id
      (set_field ''track_upstream'' track_version metadata) in
    seq (set_imported package_name metadata) (
    save_package_metadata package_name metadata)))"

subsection \<open>Listing packages\<close>

definition listed_package ::
  "string option \<Rightarrow> bool \<Rightarrow> string \<Rightarrow> json \<Rightarrow> exn + (string \<times> string \<times> json option \<times> string) option" where
  \<comment> \<open>name, status, reason and version of a package that passes the filters\<close>
  "listed_package status_filter prerelease_filter package_name j =
     (case as_dict j of Inl e \<Rightarrow> Inl e | Inr metadata \<Rightarrow>
     (case str_get metadata ''modification_status'' ''unknown'' of Inl e \<Rightarrow> Inl e | Inr status \<Rightarrow>
     (case str_get metadata ''version'' [] of Inl e \<Rightarrow> Inl e | Inr version \<Rightarrow>
     (case str_get metadata ''release'' [] of Inl e \<Rightarrow> Inl e | Inr release \<Rightarrow>
       (if status_filter \<noteq> None \<and> status_filter \<noteq> Some [] \<and> status_filter \<noteq> Some status then Inr None
        else if prerelease_filter \<and> \<not> fst (is_prerelease version (Some release)) then Inr None
        else Inr (Some (package_name, status, dget metadata ''modification_reason'', version)))))))"

definition status_indicator :: "string \<Rightarrow> string" where
  "status_indicator status =
     (if status = ''clean'' then [CHR 0xE2, CHR 0x9C, CHR 0x93]
      else if status = ''modified'' then [CHR 0xE2, CHR 0x9A, CHR 0xA0]
      else if status = ''independent'' then [CHR 0xE2, CHR 0x97, CHR 0x8F]
      else ''?'')"

definition pad_right :: "nat \<Rightarrow> string \<Rightarrow> string" where
  "pad_right n s = s @ replicate (n - length s) CHR '' ''"

definition package_lines :: "bool \<Rightarrow> string \<times> string \<times> json option \<times> string \<Rightarrow> string list" where
  "package_lines prerelease_filter p = (case p of (name, status, reason, version) \<Rightarrow>
     [''  '' @ status_indicator status @ '' '' @ pad_right 40 name @ '' ['' @ status @ '']'' @
        (if prerelease_filter then '' v'' @ version else [])] @
     (case reason of
        Some (JStr r) \<Rightarrow> if r \<noteq> [] \<and> status = ''modified''
          then [''    '' @ [CHR 0xE2, CHR 0x86, CHR 0x92] @ '' '' @ r] else []
      | _ \<Rightarrow> []))"

definition list_output ::
  "string option \<Rightarrow> bool \<Rightarrow> bool \<Rightarrow> (string \<times> string \<times> json option \<times> string) list \<Rightarrow> string list" where
  "list_output status_filter prerelease_filter name_only packages =
     (let named = (case status_filter of Some f \<Rightarrow> f \<noteq> [] | None \<Rightarrow> False);
          n = '' PACKAGES ('' @ show_nat (length packages) @ ''):'' in
      if name_only then map fst packages
      else if packages = [] then
        [if prerelease_filter then ''No pre-release packages found''
         else if named then ''No '' @ the status_filter @ '' packages found''
         else ''No packages found'']
      else
        [if prerelease_filter then ''PRE-RELEASE'' @ n
         else if named then upper (the status_filter) @ n
         else ''ALL'' @ n, []] @
        concat (map (package_lines prerelease_filter) packages))"

definition list_packages :: "string option \<Rightarrow> bool \<Rightarrow> bool \<Rightarrow> unit prog" where
  "list_packages status_filter prerelease_filter name_only = (bind (glob METADATA_DIR ''.json'') (\<lambda>names.
    if names = [] then (emit (Print ''No packages found'')) else
    bind (foldM (\<lambda>acc n. (bind (json_load (METADATA_DIR @ [n])) (\<lambda>j.
      bind (from_sum (listed_package status_filter prerelease_filter (stem n) j)) (\<lambda>p.
      ret (case p of Some q \<Rightarrow> acc @ [q] | None \<Rightarrow> acc))))) [] (sort names)) (\<lambda>packages.
    forM (\<lambda>l. emit (Print l)) (list_output status_filter prerelease_filter name_only packages))))"

subsection \<open>What saving and marking keep\<close>

lemma fs_write_run: "write_node p n w = (Inr (), w\<lparr>files := fs_write p n (files w)\<rparr>)"
  by (simp add: write_node_def prog_simps)

lemma dget_sort_json:
  assumes "distinct (map fst d)"
  shows "dget (sort_keys (map (\<lambda>(k, v). (k, sort_json v)) d)) k = map_option sort_json (dget d k)"
proof -
  have "distinct (map fst (map (\<lambda>(k, v). (k, sort_json v)) d))"
    using assms by (simp add: comp_def case_prod_unfold)
  then have "dget (sort_keys (map (\<lambda>(k, v). (k, sort_json v)) d)) k = dget (map (\<lambda>(k, v). (k, sort_json v)) d) k"
    by (rule dget_sort_keys)
  also have "\<dots> = map_option sort_json (dget d k)" by (simp add: map_of_map)
  finally show ?thesis .
qed

text \<open>What is saved as a package's metadata is what the next load returns, key by key (with the
  keys of nested objects sorted), as long as \<open>metadata/\<close> is a directory or absent and the
  record is not empty.\<close>

lemma metadata_roundtrip:
  assumes "distinct (map fst m)" "m \<noteq> []" "map_of (files w) METADATA_DIR \<in> {None, Some DirN}"
  shows "\<exists>m' w'. save_package_metadata p m w = (Inr (), w') \<and>
    load_package_metadata p w' = (Inr (Some m'), w') \<and> (\<forall>k. dget m' k = map_option sort_json (dget m k))"
proof -
  let ?m' = "sort_keys (map (\<lambda>(k, v). (k, sort_json v)) m)"
  have ne: "?m' \<noteq> []" using assms(2)
    by (metis list.map_disc_iff set_empty set_sort_keys)
  obtain w1 where w1: "mkdir METADATA_DIR w = (Inr (), w1)"
    using assms(3) by (auto simp: mkdir_def)
  let ?w' = "w1\<lparr>files := fs_write (metadata_file p) (JsonN (JObj ?m')) (files w1)\<rparr>"
  have "save_package_metadata p m w = (Inr (), ?w')"
    by (simp add: Let_def save_package_metadata_def prog_simps w1 fs_write_run)
  moreover have "load_package_metadata p ?w' = (Inr (Some ?m'), ?w')"
    using ne by (simp add: Let_def load_package_metadata_def exists_def fs_exists_def prog_simps json_load_def
        as_dict_def from_sum_def)
  ultimately show ?thesis using dget_sort_json[OF assms(1)] by blast
qed

text \<open>\<open>set-upstream\<close> changes nothing of a package but the two tracking fields it is given: a
  field left unset keeps its value, and every other field, package and file stays.\<close>

lemma set_upstream_effect:
  assumes "dget (imported w) p = Some m" "map_of (files w) METADATA_DIR = Some DirN"
  shows "\<exists>m'. set_upstream p tv pid w =
      (Inr (), w\<lparr>imported := dset p m' (imported w),
         files := fs_write (metadata_file p) (JsonN (sort_json (JObj m'))) (files w)\<rparr>) \<and>
    dget m' ''track_upstream'' = (case tv of None \<Rightarrow> dget m ''track_upstream'' | Some v \<Rightarrow> v) \<and>
    dget m' ''release_monitoring_project_id'' =
      (case pid of None \<Rightarrow> dget m ''release_monitoring_project_id'' | Some v \<Rightarrow> v) \<and>
    (\<forall>k. k \<notin> {''track_upstream'', ''release_monitoring_project_id''} \<longrightarrow> dget m' k = dget m k)"
proof -
  let ?m' = "set_field ''release_monitoring_project_id'' pid (set_field ''track_upstream'' tv m)"
  have "set_upstream p tv pid w =
      (Inr (), w\<lparr>imported := dset p ?m' (imported w),
         files := fs_write (metadata_file p) (JsonN (sort_json (JObj ?m'))) (files w)\<rparr>)"
    using assms by (simp add: Let_def set_upstream_def require_imported_def prog_simps set_imported_def
        save_package_metadata_def mkdir_def fs_write_run)
  then show ?thesis
    by (intro exI[of _ ?m']) (auto simp: set_field_def split: option.splits)
qed

end
