(* ===== verification/Source_Update.thy ===== *)
theory Source_Update
  imports Sources_File Versions Host_Calls
begin

section \<open>Fetching sources for a new version\<close>

text \<open>
  The update side of \<open>ci/check_upstream_versions.py\<close>: the choice of lookaside bucket, uploads,
  vendor archives, the gorget pipeline, \<open>download_new_sources\<close>, \<open>.gitignore\<close>, hooks, metadata
  marking and \<open>update_spec_version\<close>. The \<open>specfile\<close> and \<open>yaml\<close> libraries and file digests are
  fields of \<open>pylib\<close>; the global \<open>skip_pipeline\<close> is an argument.
\<close>

subsection \<open>Plain helpers\<close>

definition UPLOAD_SCRIPT :: path where
  "UPLOAD_SCRIPT = ROOT_DIR @ [''ci'', ''upload-to-lookaside-cache.sh'']"

definition LOOKASIDE_BUCKET_BY_CACHE_URL :: "(string \<times> string) list" where
  "LOOKASIDE_BUCKET_BY_CACHE_URL =
     [(''https://dp9y1t38f72i0.cloudfront.net/'', ''arr-hummingbird-prod-private-dist-git-cache'')]"

definition DEFAULT_LOOKASIDE_BUCKET :: string where
  "DEFAULT_LOOKASIDE_BUCKET = ''arr-hummingbird-prod-dist-git-cache''"

definition spec_version_release :: "host \<Rightarrow> path \<Rightarrow> (string \<times> string) option prog" where
  \<comment> \<open>\<open>parse_spec_version_release\<close>\<close>
  "spec_version_release h package_dir = (bind (glob package_dir ''.spec'') (\<lambda>spec_files.
    (case spec_files of
       [s] \<Rightarrow> catch ((bind (run_proc h [''rpmspec'', ''-q'', ''--qf'', ''%{VERSION}'' @ [nl] @ ''%{RELEASE}'' @ [nl],
             ''--define=dist %{nil}'', ''--define=_sourcedir '' @ path_str package_dir,
             ''--srpm'', path_str (package_dir @ [s])] ROOT_DIR True) (\<lambda>result.
         ret (case split_on nl (strip (stdout result)) of
               version # release # _ \<Rightarrow> if version \<noteq> [] then Some (version, release) else None
             | _ \<Rightarrow> None)))) is_CalledProcessError (\<lambda>_. ret None)
     | _ \<Rightarrow> ret None)))"

definition get_package_metadata :: "string \<Rightarrow> json option prog" where
  "get_package_metadata package = (let metadata_file = METADATA_DIR @ [package @ ''.json''] in
    bind (exists metadata_file) (\<lambda>b.
    if \<not> b then (ret None) else
    catch (bind (json_load metadata_file) (\<lambda>j. ret (Some j)))
      (\<lambda>e. e = JSONDecodeError \<or> is_OSError e) (\<lambda>_. ret None)))"

definition or_empty :: "json option \<Rightarrow> exn + dict" where
  \<comment> \<open>\<open>(x or {})\<close>, used as a dictionary\<close>
  "or_empty v = (case v of None \<Rightarrow> Inr [] | Some j \<Rightarrow> if truthy j then as_dict j else Inr [])"

definition spec_source_urls :: "(nat \<times> string) list \<Rightarrow> (nat \<times> string) list" where
  \<comment> \<open>\<open>_get_spec_source_urls\<close>\<close>
  "spec_source_urls sources = filter (\<lambda>(number, location).
     list_ex (startswith location) [''http://'', ''https://'', ''ftp://'']) sources"

definition basename :: "string \<Rightarrow> string" where
  \<comment> \<open>\<open>os.path.basename\<close>\<close>
  "basename p = last (split_on CHR ''/'' p)"

definition compute_file_hash :: "'v pylib \<Rightarrow> path \<Rightarrow> string \<Rightarrow> string prog" where
  "compute_file_hash L filepath alg = (\<lambda>w. case map_of (files w) filepath of
      None \<Rightarrow> (Inl (FileNotFoundError (path_str filepath)), w)
    | Some DirN \<Rightarrow> (Inl (OSError (path_str filepath)), w)
    | Some n \<Rightarrow> (digest L (lower alg) n, w))"

definition USER_AGENT :: string where
  "USER_AGENT = ''Mozilla/5.0 (compatible; hummingbird-rpms-version-checker/1.0)''"

definition check_source_exists :: "host \<Rightarrow> string \<Rightarrow> bool prog" where
  "check_source_exists h url = (bind (ask_host h (Http ''HEAD'' url [(''User-Agent'', USER_AGENT)])) (\<lambda>r.
    (case r of
       Body _ _ \<Rightarrow> ret True
     | JBody _ _ \<Rightarrow> ret True
     | Blob _ \<Rightarrow> ret True
     | HttpErr c m \<Rightarrow> if c = 404 then ret False else raise (HTTPError c m)
     | _ \<Rightarrow> raise (http_exn r))))"

definition download_file :: "host \<Rightarrow> string \<Rightarrow> path \<Rightarrow> unit prog" where
  "download_file h url dest = (bind (ask_host h (Http ''GET'' url [(''User-Agent'', USER_AGENT)])) (\<lambda>r.
    (case r of
       Body s _ \<Rightarrow> write_node dest (FileN s)
     | JBody j _ \<Rightarrow> write_node dest (JsonN j)
     | Blob s \<Rightarrow> write_node dest (BinN s)
     | _ \<Rightarrow> raise (http_exn r))))"

subsection \<open>The lookaside cache\<close>

definition bucket_of :: "json option \<Rightarrow> string \<Rightarrow> exn + string" where
  \<comment> \<open>the bucket for a package's \<open>lookaside_cache_url\<close> override\<close>
  "bucket_of cache_url package = (case cache_url of
       None \<Rightarrow> Inr DEFAULT_LOOKASIDE_BUCKET
     | Some v \<Rightarrow>
         (if \<not> truthy v then Inr DEFAULT_LOOKASIDE_BUCKET
          else (case v of
              JStr url \<Rightarrow> (case dget LOOKASIDE_BUCKET_BY_CACHE_URL url of
                 None \<Rightarrow> Inl (ValueError (package @ '': lookaside_cache_url has no entry in LOOKASIDE_BUCKET_BY_CACHE_URL''))
               | Some bucket \<Rightarrow> Inr bucket)
            | JList _ \<Rightarrow> Inl (TypeError ''unhashable type'')
            | JObj _ \<Rightarrow> Inl (TypeError ''unhashable type'')
            | _ \<Rightarrow> Inl (ValueError (package @ '': lookaside_cache_url has no entry in LOOKASIDE_BUCKET_BY_CACHE_URL'')))))"

definition package_override :: "'v pylib \<Rightarrow> string \<Rightarrow> dict prog" where
  \<comment> \<open>the package's entry of \<open>ci/package-overrides.yaml\<close>, empty when there is none\<close>
  "package_override L package = (bind (exists PACKAGE_OVERRIDES_YAML) (\<lambda>b.
    bind (if b then (bind (read_text PACKAGE_OVERRIDES_YAML) (\<lambda>text.
      bind (from_sum (yaml_load L text)) (\<lambda>j.
      from_sum (or_empty (Some j)))))
      else ret []) (\<lambda>overrides.
    from_sum (or_empty (dget overrides package)))))"

definition get_package_lookaside_bucket :: "'v pylib \<Rightarrow> string \<Rightarrow> string prog" where
  "get_package_lookaside_bucket L package = (bind (package_override L package) (\<lambda>d.
    from_sum (bucket_of (dget d ''lookaside_cache_url'') package)))"

definition upload_argv :: "path \<Rightarrow> string \<Rightarrow> string \<Rightarrow> string \<Rightarrow> string list" where
  "upload_argv filepath package hashtype bucket =
     [path_str UPLOAD_SCRIPT, ''-f'', path_str filepath, ''-p'', package, ''-t'', lower hashtype, ''-b'', bucket]"

definition error_text :: "completed \<Rightarrow> string" where
  \<comment> \<open>\<open>result.stderr.strip() or result.stdout.strip()\<close>\<close>
  "error_text r = (if strip (stderr r) \<noteq> [] then strip (stderr r) else strip (stdout r))"

definition upload_to_lookaside :: "host \<Rightarrow> 'v pylib \<Rightarrow> path \<Rightarrow> string \<Rightarrow> string \<Rightarrow> unit prog" where
  "upload_to_lookaside h L filepath package hashtype = (bind (exists UPLOAD_SCRIPT) (\<lambda>b.
    if \<not> b then (raise (FileNotFoundError (''Upload script not found: '' @ path_str UPLOAD_SCRIPT))) else
    bind (get_package_lookaside_bucket L package) (\<lambda>bucket.
    bind (run_proc h (upload_argv filepath package hashtype bucket) ROOT_DIR False) (\<lambda>result.
    whenM (returncode result \<noteq> 0) (raise (RuntimeError
      (''Lookaside upload failed (exit '' @ show_int (returncode result) @ ''): '' @ error_text result)))))))"

subsection \<open>Vendor archives\<close>

fun update_first :: "('a \<Rightarrow> bool) \<Rightarrow> ('a \<Rightarrow> 'a) \<Rightarrow> 'a list \<Rightarrow> 'a list" where
  \<comment> \<open>an in-place change of the first entry that satisfies a test\<close>
  "update_first P f [] = []"
| "update_first P f (x # xs) = (if P x then f x # xs else x # update_first P f xs)"

definition is_vendor :: "source_entry \<Rightarrow> bool" where
  "is_vendor e = contains (filename e) ''-vendor.tar.''"

definition replace_text :: "string \<Rightarrow> string \<Rightarrow> string \<Rightarrow> string" where
  \<comment> \<open>\<open>s.replace(old, new)\<close>; an empty \<open>old\<close> matches between all characters\<close>
  "replace_text old new s = (if old = [] then new @ concat (map (\<lambda>c. c # new) s) else replace_all old new s)"

definition regenerate_vendor_archive ::
  "host \<Rightarrow> 'v pylib \<Rightarrow> string \<Rightarrow> string \<Rightarrow> string \<Rightarrow> source_entry list \<Rightarrow> (string option \<times> source_entry list) prog" where
  \<comment> \<open>the new file name, if any, and the entries after the in-place change\<close>
  "regenerate_vendor_archive h L package old_version new_version sources_entries = (let package_dir = RPMS_DIR @ [package] in
    let config_path = package_dir @ [''go-vendor-tools.toml''] in
    bind (exists config_path) (\<lambda>b.
    if \<not> b then (ret (None, sources_entries)) else
    (case find is_vendor sources_entries of
       None \<Rightarrow> ret (None, sources_entries)
     | Some vendor_entry \<Rightarrow> (let old_vendor_filename = filename vendor_entry in
       let new_vendor_filename = replace_text old_version new_version old_vendor_filename in
       bind (glob package_dir ''.spec'') (\<lambda>spec_files.
       (case spec_files of
            [s] \<Rightarrow> (bind (run_proc h [''go_vendor_archive'', ''create'', ''-c'', path_str config_path,
                path_str (package_dir @ [s])] package_dir False) (\<lambda>result.
              if returncode result \<noteq> 0 then (raise (RuntimeError
                (''go_vendor_archive create failed (exit '' @ show_int (returncode result) @ ''): '' @ error_text result))) else
              let vendor_path = package_dir @ [new_vendor_filename] in
              bind (exists vendor_path) (\<lambda>b.
              if \<not> b then (raise (FileNotFoundError (''go_vendor_archive did not produce '' @ new_vendor_filename))) else
              seq (upload_to_lookaside h L vendor_path package (algo vendor_entry)) (
              bind (compute_file_hash L vendor_path (algo vendor_entry)) (\<lambda>new_hash.
              let entries = update_first is_vendor
                (\<lambda>e. e\<lparr>filename := new_vendor_filename, hash := new_hash\<rparr>) sources_entries in
              seq (whenM (old_vendor_filename \<noteq> new_vendor_filename) ((let old_vendor_path = package_dir @ [old_vendor_filename] in
                bind (exists old_vendor_path) (\<lambda>b.
                whenM b (unlink old_vendor_path))))) (
              ret (Some new_vendor_filename, entries)))))))
          | _ \<Rightarrow> ret (None, sources_entries)))))))"

subsection \<open>Credentials for private upstreams\<close>

definition GITLAB_TOKEN_ENV_BY_REPO_PREFIX :: "(string \<times> string) list" where
  "GITLAB_TOKEN_ENV_BY_REPO_PREFIX =
     [(''https://gitlab.com/redhat/hummingbird/src/'', ''HUMMINGBIRD_SRC_GITLAB_TOKEN'')]"

definition DEFAULT_GITLAB_TOKEN_ENV :: string where
  "DEFAULT_GITLAB_TOKEN_ENV = ''CHORE_MR_GITLAB_TOKEN''"

definition match_private_repo_prefix :: "string \<Rightarrow> (string \<times> string) option" where
  "match_private_repo_prefix upstream_repo =
     find (\<lambda>(prefix, env_var). startswith upstream_repo prefix) GITLAB_TOKEN_ENV_BY_REPO_PREFIX"

definition gitlab_token_env_var :: "string \<Rightarrow> string" where
  "gitlab_token_env_var upstream_repo = (case match_private_repo_prefix upstream_repo of
     Some (_, env_var) \<Rightarrow> env_var | None \<Rightarrow> DEFAULT_GITLAB_TOKEN_ENV)"

definition authenticated_env :: "(string \<times> string) list \<Rightarrow> string \<Rightarrow> string \<Rightarrow> (string \<times> string) list" where
  "authenticated_env env prefix token =
     (let (scheme, rest) = (case split_at_str ''://'' prefix of Some p \<Rightarrow> p | None \<Rightarrow> (prefix, []));
          authenticated_prefix = scheme @ ''://oauth2:'' @ token @ ''@'' @ rest
      in dset ''GIT_CONFIG_VALUE_0'' prefix
           (dset ''GIT_CONFIG_KEY_0'' (''url.'' @ authenticated_prefix @ ''.insteadOf'')
             (dset ''GIT_CONFIG_COUNT'' ''1'' env)))"

definition clone_env :: "(string \<times> string) list \<Rightarrow> string option \<Rightarrow> exn + (string \<times> string) list" where
  \<comment> \<open>\<open>_git_clone_env_for_upstream_repo\<close> in a given environment\<close>
  "clone_env env upstream_repo = (case upstream_repo of
       None \<Rightarrow> Inr env
     | Some repo \<Rightarrow>
         (if repo = [] then Inr env
          else (case match_private_repo_prefix repo of
              None \<Rightarrow> Inr env
            | Some (prefix, token_env) \<Rightarrow>
                (case dget env token_env of
                   Some token \<Rightarrow>
                     (if token = [] then Inl (ValueError (repo @ '' requires git credentials, but '' @ token_env @ '' is not set''))
                      else Inr (authenticated_env env prefix token))
                 | None \<Rightarrow> Inl (ValueError (repo @ '' requires git credentials, but '' @ token_env @ '' is not set''))))))"

subsection \<open>The gorget pipeline\<close>

definition load_source_pipeline :: "string \<Rightarrow> path option prog" where
  "load_source_pipeline package = (let pipeline_file = METADATA_DIR @ [package @ ''.source-pipeline.yaml''] in
    bind (is_file pipeline_file) (\<lambda>b.
    ret (if b then Some pipeline_file else None)))"

definition opt_str :: "json option \<Rightarrow> exn + string option" where
  \<comment> \<open>an optional string field; a falsy value counts as missing\<close>
  "opt_str v = (case v of None \<Rightarrow> Inr None
     | Some j \<Rightarrow> if \<not> truthy j then Inr None else map_sum id Some (as_str j))"

definition gorget_argv :: "string \<Rightarrow> string \<Rightarrow> string \<Rightarrow> path \<Rightarrow> path \<Rightarrow> string option \<Rightarrow> string list" where
  "gorget_argv package old_version new_version pipeline_file output_dir upstream_repo =
     [''gorget'', ''--version'', new_version, ''--old-version'', old_version,
      ''--package-dir'', path_str (RPMS_DIR @ [package]), ''--pipeline-file'', path_str pipeline_file,
      ''--gpg-keys-dir'', path_str (METADATA_DIR @ [''gpg-keys'']), ''--output-dir'', path_str output_dir,
      ''--debug''] @ (case upstream_repo of Some r \<Rightarrow> [''--upstream-repo'', r] | None \<Rightarrow> [])"

definition take_artifact :: "host \<Rightarrow> 'v pylib \<Rightarrow> string \<Rightarrow> path \<Rightarrow> source_entry \<Rightarrow> string prog" where
  \<comment> \<open>one artifact gorget lists: copied into the package and uploaded\<close>
  "take_artifact h L package output_dir entry = (let src = output_dir @ [filename entry] in
    bind (is_file src) (\<lambda>b.
    if \<not> b then (raise (RuntimeError (package @ '': gorget's sources file references '' @ filename entry
      @ '' but it was not emitted to /output''))) else
    let dest = RPMS_DIR @ [package, filename entry] in
    seq (copy_file src dest) (
    seq (upload_to_lookaside h L dest package (algo entry)) (
    ret (filename entry)))))"

definition run_gorget :: "host \<Rightarrow> 'v pylib \<Rightarrow> string \<Rightarrow> string \<Rightarrow> string \<Rightarrow> path \<Rightarrow> path \<Rightarrow>
    (source_entry list \<times> string list) prog" where
  \<comment> \<open>the part inside the output directory: new entries and uploaded names\<close>
  "run_gorget h L package old_version new_version pipeline_file output_dir = (bind (get_package_metadata package) (\<lambda>m.
    bind (from_sum (or_empty m)) (\<lambda>md.
    bind (from_sum (opt_str (dget md ''upstream_repo''))) (\<lambda>upstream_repo.
    bind (gets environ) (\<lambda>env0.
    bind (from_sum (clone_env env0 upstream_repo)) (\<lambda>env.
    bind (run_proc_env h env
      (gorget_argv package old_version new_version pipeline_file output_dir upstream_repo) ROOT_DIR) (\<lambda>result.
    if returncode result \<noteq> 0 then ((let report_path = output_dir @ [''report.json''] in
      bind (is_file report_path) (\<lambda>b.
      bind (if b then read_text report_path else ret []) (\<lambda>report.
      raise (RuntimeError (package @ '': gorget pipeline failed (exit '' @ show_int (returncode result)
        @ '')'' @ strip (stdout result) @ report)))))) else
    let new_sources_path = output_dir @ [''sources''] in
    bind (is_file new_sources_path) (\<lambda>b.
    if \<not> b then (raise (RuntimeError (package @ '': gorget pipeline exited 0 but emitted no 'sources' file''))) else
    bind (parse_sources_file new_sources_path) (\<lambda>new_entries.
    if new_entries = [] then (raise (RuntimeError (package @ '': gorget pipeline emitted an empty 'sources' file''))) else
    bind (mapM (take_artifact h L package output_dir) new_entries) (\<lambda>uploaded.
    ret (new_entries, uploaded)))))))))))"

definition remove_stale :: "path \<Rightarrow> string list \<Rightarrow> unit prog" where
  "remove_stale package_dir names = forM (\<lambda>n. (bind (exists (package_dir @ [n])) (\<lambda>b.
    whenM b (unlink (package_dir @ [n]))))) names"

definition run_gorget_pipeline :: "host \<Rightarrow> 'v pylib \<Rightarrow> string \<Rightarrow> string \<Rightarrow> string \<Rightarrow> path \<Rightarrow> string list prog" where
  "run_gorget_pipeline h L package old_version new_version pipeline_file = (let package_dir = RPMS_DIR @ [package] in
    seq (mkdir (METADATA_DIR @ [''gpg-keys''])) (
    bind (with_tmpdir (''gorget-'' @ package)
      (run_gorget h L package old_version new_version pipeline_file)) (\<lambda>(new_entries, uploaded).
    bind (parse_sources_file (package_dir @ [''sources''])) (\<lambda>old_entries.
    let stale = sort (remdups (filter (\<lambda>n. n \<notin> set (map filename new_entries)) (map filename old_entries))) in
    seq (remove_stale package_dir stale) (
    seq (write_sources_file (package_dir @ [''sources'']) new_entries) (
    ret uploaded))))))"

subsection \<open>Downloading new sources\<close>

definition fetch_step :: "host \<Rightarrow> 'v pylib \<Rightarrow> string \<Rightarrow> string list \<Rightarrow> source_entry list \<times> string list \<Rightarrow>
    nat \<times> string \<Rightarrow> (source_entry list \<times> string list) prog" where
  \<comment> \<open>one round of the loop over the spec's URLs; the names already in \<open>sources\<close> are skipped\<close>
  "fetch_step h L package sources_filenames st src = (case (st, src) of
     ((entries, downloaded), (src_num, new_url)) \<Rightarrow> (let new_filename = basename new_url in
       if new_filename \<in> set sources_filenames then (ret (entries, downloaded)) else
       let dest = RPMS_DIR @ [package, new_filename] in
       seq (download_file h new_url dest) (
       seq (upload_to_lookaside h L dest package ''SHA512'') (
       bind (compute_file_hash L dest ''SHA512'') (\<lambda>new_hash.
       ret (entries @ [\<lparr>algo = ''SHA512'', filename = new_filename, hash = new_hash\<rparr>],
            downloaded @ [new_filename]))))))"

definition stale_names :: "string list \<Rightarrow> string list \<Rightarrow> source_entry list \<Rightarrow> string list" where
  \<comment> \<open>\<open>sorted(sources_filenames - current_filenames)\<close>\<close>
  "stale_names sources_filenames spec_filenames entries =
     sort (remdups (filter (\<lambda>n. n \<notin> set spec_filenames \<and> n \<notin> set (map filename (filter is_vendor entries)))
       sources_filenames))"

definition download_new_sources :: "host \<Rightarrow> 'v pylib \<Rightarrow> string \<Rightarrow> string \<Rightarrow> string \<Rightarrow> string list prog" where
  "download_new_sources h L package old_version new_version = (let package_dir = RPMS_DIR @ [package] in
    bind (glob package_dir ''.spec'') (\<lambda>spec_files.
    (case spec_files of
       [s] \<Rightarrow> (let sources_path = package_dir @ [''sources''] in
         bind (parse_sources_file sources_path) (\<lambda>sources_entries.
         let sources_filenames = map filename sources_entries in
         bind (gets files) (\<lambda>f.
         bind (from_sum (spec_sources L f (package_dir @ [s]) package_dir)) (\<lambda>all_sources.
         let new_source_urls = spec_source_urls all_sources in
         let spec_filenames = map (basename \<circ> snd) new_source_urls in
         if sources_entries \<noteq> [] \<and> new_source_urls = [] then (if \<not> set sources_filenames \<subseteq> set (map (basename \<circ> snd) all_sources)
            then raise (RuntimeError (package @ '': source discovery returned no remote URLs; refusing to remove ''
              @ ''existing source entries not declared in the spec''))
            else ret []) else
         bind (foldM (fetch_step h L package sources_filenames) (sources_entries, []) new_source_urls) (\<lambda>(entries, downloaded).
         bind (regenerate_vendor_archive h L package old_version new_version entries) (\<lambda>(vendor_file, entries).
         let downloaded = downloaded @
           (case vendor_file of Some v \<Rightarrow> if v = [] then [] else [v] | None \<Rightarrow> []) in
         let stale = stale_names sources_filenames spec_filenames entries in
         seq (remove_stale package_dir stale) (
         let entries = filter (\<lambda>e. filename e \<notin> set stale) entries in
         seq (whenM (downloaded \<noteq> [] \<or> stale \<noteq> []) (write_sources_file sources_path entries)) (
         ret downloaded))))))))
     | _ \<Rightarrow> ret [])))"

subsection \<open>.gitignore and metadata\<close>

definition update_gitignore :: "path \<Rightarrow> string list \<Rightarrow> unit prog" where
  "update_gitignore package_dir filenames = (let gitignore_path = package_dir @ [''.gitignore''] in
    bind (exists gitignore_path) (\<lambda>b.
    bind (if b then read_text gitignore_path else ret []) (\<lambda>text.
    let new_entries = filter (\<lambda>n. n \<notin> set (splitlines text)) filenames in
    whenM (new_entries \<noteq> [])
      (write_text gitignore_path (text @ concat (map (\<lambda>n. n @ [nl]) new_entries))))))"

definition marked_metadata :: "string \<Rightarrow> string option \<Rightarrow> dict \<Rightarrow> dict" where
  \<comment> \<open>the changes \<open>mark_package_modified\<close> makes to a record\<close>
  "marked_metadata reason version data =
     (let d = (if dget data ''modification_status'' = Some (JStr ''independent'') then data
          else dset ''modification_reason'' (JStr reason) (dset ''modification_status'' (JStr ''modified'') data));
          d = (case version of Some v \<Rightarrow> dset ''version'' (JStr v) d | None \<Rightarrow> d)
      in dpop ''release'' d)"

definition mark_package_modified :: "string \<Rightarrow> string \<Rightarrow> string option \<Rightarrow> unit prog" where
  "mark_package_modified package reason version = (let metadata_file = METADATA_DIR @ [package @ ''.json''] in
    bind (exists metadata_file) (\<lambda>b.
    if \<not> b then (ret ()) else
    bind (catch (bind (json_load metadata_file) (\<lambda>j. ret (Some j)))
      (\<lambda>e. e = JSONDecodeError \<or> is_OSError e) (\<lambda>_. ret None)) (\<lambda>j.
    (case j of
       None \<Rightarrow> ret ()
     | Some v \<Rightarrow> (bind (from_sum (as_dict v)) (\<lambda>data.
       write_node metadata_file (JsonN (sort_json (JObj (marked_metadata reason version data))))))))))"

subsection \<open>Update hooks\<close>

definition VALID_HOOK_PHASES :: "string list" where
  "VALID_HOOK_PHASES = [''update_spec'', ''download_sources'', ''post_update'']"

record update_hooks =
  update_spec :: "json option"
  download_sources :: "json option"
  post_update :: "json option"

definition load_update_hooks :: "'v pylib \<Rightarrow> string \<Rightarrow> update_hooks option prog" where
  "load_update_hooks L package = (let hooks_file = METADATA_DIR @ [package @ ''.update-hooks.yaml''] in
    bind (exists hooks_file) (\<lambda>b.
    if \<not> b then (ret None) else
    bind (read_text hooks_file) (\<lambda>text.
    bind (from_sum (yaml_load L text)) (\<lambda>data.
    (case data of
       JObj d \<Rightarrow> (let unknown = filter (\<lambda>k. k \<notin> set VALID_HOOK_PHASES) (map fst d) in
         if unknown \<noteq> [] then (raise (ValueError (path_str hooks_file @ '': unknown hook phase(s): ''
           @ join '', '' (sort (remdups unknown))))) else
         ret (Some \<lparr>update_spec = dget d ''update_spec'', download_sources = dget d ''download_sources'',
           post_update = dget d ''post_update''\<rparr>))
     | _ \<Rightarrow> raise (ValueError (path_str hooks_file @ '': expected a YAML mapping'')))))))"

definition hook_command :: "update_hooks option \<Rightarrow> (update_hooks \<Rightarrow> json option) \<Rightarrow> exn + string option" where
  \<comment> \<open>\<open>hooks and hooks.<phase>\<close>\<close>
  "hook_command hooks phase = (case hooks of None \<Rightarrow> Inr None | Some hk \<Rightarrow> opt_str (phase hk))"

definition build_hook_env :: "string \<Rightarrow> string \<Rightarrow> string \<Rightarrow> (string \<times> string) list prog" where
  "build_hook_env package old_version new_version = (let package_dir = RPMS_DIR @ [package] in
    bind (glob package_dir ''.spec'') (\<lambda>spec_files.
    bind (gets environ) (\<lambda>env.
    ret (fold (\<lambda>(k, v). dset k v)
      [(''UPDATE_PACKAGE'', package), (''UPDATE_OLD_VERSION'', old_version), (''UPDATE_NEW_VERSION'', new_version),
       (''UPDATE_SPEC_FILE'', case spec_files of s # _ \<Rightarrow> path_str (package_dir @ [s]) | [] \<Rightarrow> []),
       (''UPDATE_PACKAGE_DIR'', path_str package_dir),
       (''UPDATE_SOURCES_FILE'', path_str (package_dir @ [''sources''])),
       (''UPDATE_ROOT_DIR'', path_str ROOT_DIR)] env))))"

definition run_hook :: "host \<Rightarrow> string \<Rightarrow> string \<Rightarrow> string \<Rightarrow> (string \<times> string) list \<Rightarrow> completed prog" where
  "run_hook h hook_name command package env = (bind (run_proc_env h env [''bash'', ''-eo'', ''pipefail'', ''-c'', command] (RPMS_DIR @ [package])) (\<lambda>result.
    if returncode result \<noteq> 0 then (raise (RuntimeError (package @ '': '' @ hook_name @ '' hook failed (exit ''
      @ show_int (returncode result) @ '')'' @
      (if strip (stdout result) \<noteq> [] then '': '' @ strip (stdout result) else [])))) else
    ret result))"

subsection \<open>Updating a spec file to a new version\<close>

definition update_spec_phase :: "host \<Rightarrow> 'v pylib \<Rightarrow> string \<Rightarrow> string \<Rightarrow> path \<Rightarrow> update_hooks option \<Rightarrow> string prog" where
  \<comment> \<open>phase 1; returns the version before\<close>
  "update_spec_phase h L package new_version spec_file hooks = (let package_dir = RPMS_DIR @ [package] in
    bind (from_sum (hook_command hooks update_spec)) (\<lambda>command.
    (case command of
       Some cmd \<Rightarrow> (bind (get_package_metadata package) (\<lambda>meta.
         bind (from_sum (or_empty meta)) (\<lambda>md.
         bind (from_sum (opt_str (dget md ''version''))) (\<lambda>recorded.
         bind (case recorded of Some v \<Rightarrow> ret v | None \<Rightarrow> (bind (spec_version_release h package_dir) (\<lambda>vr.
           ret (case vr of Some (v, _) \<Rightarrow> v | None \<Rightarrow> new_version)))) (\<lambda>old_version.
         bind (build_hook_env package old_version new_version) (\<lambda>env.
         seq (run_hook h ''update_spec'' cmd package env) (
         ret old_version)))))))
     | None \<Rightarrow> (bind (gets files) (\<lambda>f.
       bind (read_text spec_file) (\<lambda>text.
       bind (from_sum (spec_version L f spec_file package_dir)) (\<lambda>old_version.
       let text1 = (if spec_version_tag L text = old_version
           then spec_update_tag L ''Version'' new_version text else spec_update_version L new_version text) in
       let text2 = (if \<not> spec_has_autorelease L text1
           then spec_update_tag L ''Release'' ''0.1%{?dist}'' text1 else text1) in
       seq (write_text spec_file text2) (
       ret old_version))))))))"

definition hook_source_step :: "host \<Rightarrow> 'v pylib \<Rightarrow> string \<Rightarrow> string \<Rightarrow> string \<Rightarrow> source_entry list \<times> string list \<Rightarrow>
    string \<Rightarrow> (source_entry list \<times> string list) prog" where
  \<comment> \<open>one line of a \<open>download_sources\<close> hook's output\<close>
  "hook_source_step h L package old_version new_version st line = (case st of (entries, downloaded) \<Rightarrow> (let fname = strip line in
    if fname = [] then (ret (entries, downloaded)) else
    let filepath = RPMS_DIR @ [package, fname] in
    bind (exists filepath) (\<lambda>b.
    if \<not> b then (raise (FileNotFoundError (package @ '': download_sources hook listed '' @ fname
       @ '' but the file does not exist''))) else
    seq (upload_to_lookaside h L filepath package ''sha512'') (
    bind (compute_file_hash L filepath ''SHA512'') (\<lambda>new_hash.
    let old_filename = replace_text new_version old_version fname in
    let hit = (\<lambda>e. filename e \<in> {fname, old_filename}) in
    ret (if list_ex hit entries
          then update_first hit (\<lambda>e. e\<lparr>filename := fname, hash := new_hash\<rparr>) entries
          else entries @ [\<lparr>algo = ''SHA512'', filename = fname, hash = new_hash\<rparr>],
          downloaded @ [fname]))))))"

definition source_phase :: "host \<Rightarrow> 'v pylib \<Rightarrow> bool \<Rightarrow> string \<Rightarrow> string \<Rightarrow> string \<Rightarrow> update_hooks option \<Rightarrow> string list prog" where
  \<comment> \<open>phase 2: the gorget pipeline, else the hook, else the default download\<close>
  "source_phase h L skip_pipeline package old_version new_version hooks = (bind (if skip_pipeline then ret None else load_source_pipeline package) (\<lambda>pipeline_file.
    (case pipeline_file of
       Some p \<Rightarrow> run_gorget_pipeline h L package old_version new_version p
     | None \<Rightarrow> (bind (from_sum (hook_command hooks download_sources)) (\<lambda>command.
       (case command of
            Some cmd \<Rightarrow> (bind (build_hook_env package old_version new_version) (\<lambda>env.
              bind (run_hook h ''download_sources'' cmd package env) (\<lambda>result.
              let sources_path = RPMS_DIR @ [package, ''sources''] in
              bind (parse_sources_file sources_path) (\<lambda>sources_entries.
              bind (foldM (hook_source_step h L package old_version new_version)
                (sources_entries, []) (splitlines (stdout result))) (\<lambda>(entries, downloaded).
              seq (whenM (downloaded \<noteq> []) (write_sources_file sources_path entries)) (
              ret downloaded))))))
          | None \<Rightarrow> download_new_sources h L package old_version new_version))))))"

definition update_spec_version :: "host \<Rightarrow> 'v pylib \<Rightarrow> bool \<Rightarrow> string \<Rightarrow> string \<Rightarrow> string list prog" where
  "update_spec_version h L skip_pipeline package new_version = (let package_dir = RPMS_DIR @ [package] in
    bind (glob package_dir ''.spec'') (\<lambda>spec_files.
    (case spec_files of
       [s] \<Rightarrow> (bind (load_update_hooks L package) (\<lambda>hooks.
         bind (update_spec_phase h L package new_version (package_dir @ [s]) hooks) (\<lambda>old_version.
         bind (source_phase h L skip_pipeline package old_version new_version hooks) (\<lambda>downloaded.
         bind (from_sum (hook_command hooks post_update)) (\<lambda>command.
         seq (case command of
            Some cmd \<Rightarrow> (bind (build_hook_env package old_version new_version) (\<lambda>env.
              seq (run_hook h ''post_update'' cmd package env) (
              ret ())))
          | None \<Rightarrow> ret ()) (
         bind (spec_version_release h package_dir) (\<lambda>vr.
         let resolved_version = (case vr of Some (v, _) \<Rightarrow> v | None \<Rightarrow> new_version) in
         seq (mark_package_modified package (''Update to upstream version '' @ new_version) (Some resolved_version)) (
         ret downloaded))))))))
     | _ \<Rightarrow> raise (FileNotFoundError (''Expected exactly one .spec file in '' @ path_str package_dir)))))"

definition discard_package_changes :: "host \<Rightarrow> string \<Rightarrow> unit prog" where
  \<comment> \<open>\<open>run_git\<close> of \<open>check_upstream_versions.py\<close>, which never retries\<close>
  "discard_package_changes h package = (seq (run_proc h [''git'', ''restore'', ''--staged'', ''--worktree'', ''--'', ''rpms/'' @ package,
      ''metadata/'' @ package @ ''.json''] ROOT_DIR True) (
    seq (run_proc h [''git'', ''clean'', ''-fd'', ''--'', ''rpms/'' @ package] ROOT_DIR True) (
    ret ())))"

subsection \<open>Private sources stay private\<close>

lemma package_override_run:
  assumes "map_of (files w) PACKAGE_OVERRIDES_YAML = Some (FileN text)"
    and "yaml_load L text = Inr (JObj ov)" "dget ov package = Some (JObj d)"
  shows "package_override L package w = (Inr d, w)"
  using assms by (auto simp: package_override_def exists_def fs_exists_def read_text_def prog_simps
      from_sum_def or_empty_def as_dict_def ret_def)

text \<open>C4: sources of a package routed to a private lookaside cache are never uploaded to the
  public bucket. Either the call raises and has started no program, so it does for a cache URL that
  has no bucket, or it starts exactly one, the upload script with the bucket the cache URL stands
  for, which is not the public one.\<close>

theorem private_never_public:
  assumes "map_of (files w) PACKAGE_OVERRIDES_YAML = Some (FileN text)"
    and "yaml_load L text = Inr (JObj ov)" "dget ov package = Some (JObj d)"
    and "dget d ''lookaside_cache_url'' = Some v" "truthy v"
    and "upload_to_lookaside h L filepath package hashtype w = (r, w')"
  shows "isl r \<and> w' = w \<or> (\<exists>url b. v = JStr url \<and> dget LOOKASIDE_BUCKET_BY_CACHE_URL url = Some b \<and>
     b \<noteq> DEFAULT_LOOKASIDE_BUCKET \<and> trace w' = trace w @ [Proc (upload_argv filepath package hashtype b) ROOT_DIR])"
proof (cases "fs_exists (files w) UPLOAD_SCRIPT")
  case False
  then show ?thesis using assms(6) by (auto simp: upload_to_lookaside_def exists_def prog_simps)
next
  case script: True
  have b: "get_package_lookaside_bucket L package w = (bucket_of (Some v) package, w)"
    using assms package_override_run[OF assms(1-3)]
    by (auto simp: get_package_lookaside_bucket_def prog_simps from_sum_def ret_def raise_def split: sum.splits)
  show ?thesis
  proof (cases "bucket_of (Some v) package")
    case (Inl e)
    then show ?thesis using script b assms(6) by (auto simp: upload_to_lookaside_def exists_def prog_simps)
  next
    case (Inr bucket)
    then obtain url where url: "v = JStr url" "dget LOOKASIDE_BUCKET_BY_CACHE_URL url = Some bucket"
      using assms(5) by (cases v) (auto simp: bucket_of_def split: option.splits)
    then have pub: "bucket \<noteq> DEFAULT_LOOKASIDE_BUCKET"
      by (auto simp: LOOKASIDE_BUCKET_BY_CACHE_URL_def DEFAULT_LOOKASIDE_BUCKET_def split: if_splits)
    obtain q w1 where run: "run_proc h (upload_argv filepath package hashtype bucket) ROOT_DIR False w = (q, w1)"
      by fastforce
    have tr: "trace w1 = trace w @ [Proc (upload_argv filepath package hashtype bucket) ROOT_DIR]"
      using run_proc_trace[of h "upload_argv filepath package hashtype bucket" ROOT_DIR False w] run by simp
    have "trace w' = trace w1"
      using script b Inr run assms(6)
      by (cases q) (auto simp: upload_to_lookaside_def exists_def prog_simps whenM_def split: if_splits)
    then show ?thesis unfolding tr using url pub by blast
  qed
qed

definition yaml_of :: "json \<Rightarrow> nat pylib" where
  \<comment> \<open>a library whose YAML reader always finds the same document\<close>
  "yaml_of j = \<lparr>yaml_load = (\<lambda>_. Inr j), specfile_name = (\<lambda>_ _ _. Inr []), spec_version = (\<lambda>_ _ _. Inr []),
    spec_version_tag = id, spec_update_tag = (\<lambda>_ _ t. t), spec_update_version = (\<lambda>_ t. t),
    spec_has_autorelease = (\<lambda>_. False), spec_sources = (\<lambda>_ _ _. Inr []), digest = (\<lambda>_ _. Inr ''0''),
    parse_version = (\<lambda>_. None), label_compare = None\<rparr>"

theorem private_never_public_witness:
  "\<exists>r w'. upload_to_lookaside (\<lambda>_ _ f. (Exit 0 [] [], f))
      (yaml_of (JObj [(''lts'', JObj [(''lookaside_cache_url'', JStr ''https://unknown.example/'')])]))
      [''x''] ''lts'' ''SHA512'' (blank\<lparr>files := [(PACKAGE_OVERRIDES_YAML, FileN []), (UPLOAD_SCRIPT, FileN [])]\<rparr>) = (r, w') \<and>
    isl r \<and> trace w' = []"
proof -
  let ?w = "blank\<lparr>files := [(PACKAGE_OVERRIDES_YAML, FileN []), (UPLOAD_SCRIPT, FileN [])]\<rparr>"
  let ?url = "''https://unknown.example/''"
  let ?d = "[(''lookaside_cache_url'', JStr ?url)]"
  let ?ov = "[(''lts'', JObj ?d)]"
  have a: "map_of (files ?w) PACKAGE_OVERRIDES_YAML = Some (FileN [])"
    "yaml_load (yaml_of (JObj ?ov)) [] = Inr (JObj ?ov)" "dget ?ov ''lts'' = Some (JObj ?d)"
    "dget ?d ''lookaside_cache_url'' = Some (JStr ?url)" "truthy (JStr ?url)"
    by (simp_all add: yaml_of_def)
  obtain r w' where run: "upload_to_lookaside (\<lambda>_ _ f. (Exit 0 [] [], f)) (yaml_of (JObj ?ov)) [''x''] ''lts'' ''SHA512'' ?w = (r, w')"
    by fastforce
  have "dget LOOKASIDE_BUCKET_BY_CACHE_URL ?url = None" by code_simp
  with private_never_public[OF a run] have "isl r \<and> trace w' = []" by auto
  with run show ?thesis by blast
qed

subsection \<open>What a gorget run leaves behind\<close>

lemma emits_upload [prog_rules]: "emits (\<lambda>_. True) (upload_to_lookaside h L p pkg ht)"
  by (rule emits_keeps) (auto simp: upload_to_lookaside_def get_package_lookaside_bucket_def package_override_def
      run_proc_def Let_def intro!: prog_rules)

lemma take_artifact_result:
  assumes "take_artifact h L package output_dir e w = (Inr y, w')"
  shows "y = filename e \<and>
    (\<exists>b. trace w' = trace w @ [Proc (upload_argv (RPMS_DIR @ [package, filename e]) package (algo e) b) ROOT_DIR])"
proof -
  from assms obtain w1 where y: "y = filename e" and copy: "copy_file (output_dir @ [filename e]) (RPMS_DIR @ [package, filename e]) w = (Inr (), w1)"
    and up: "upload_to_lookaside h L (RPMS_DIR @ [package, filename e]) package (algo e) w1 = (Inr (), w')"
    by (auto simp: take_artifact_def Let_def prog_inr split: if_splits)
  have "trace w1 = trace w" using copy by (auto simp: copy_file_def split: option.splits node.splits)
  moreover from up obtain b r w3 where "run_proc h (upload_argv (RPMS_DIR @ [package, filename e]) package (algo e) b) ROOT_DIR False w1 = (r, w3)"
    and "trace w' = trace w3"
    by (auto simp: upload_to_lookaside_def prog_inr get_package_lookaside_bucket_def package_override_def read_text_def
        split: if_splits option.splits node.splits)
  ultimately show ?thesis using y run_proc_trace[of h "upload_argv (RPMS_DIR @ [package, filename e]) package (algo e) b" ROOT_DIR False w1] by auto
qed

lemma emits_take_artifact [prog_rules]: "emits (\<lambda>_. True) (take_artifact h L package output_dir e)"
  by (rule emits_keeps)
    (auto simp: take_artifact_def Let_def intro!: prog_rules emits_grown[OF emits_upload])

definition uploads :: "string \<Rightarrow> source_entry list \<Rightarrow> event list \<Rightarrow> bool" where
  \<comment> \<open>the runs of the upload script, one for each entry in order\<close>
  "uploads package = list_all2 (\<lambda>e ev. \<exists>b. ev = Proc (upload_argv (RPMS_DIR @ [package, filename e]) package (algo e) b) ROOT_DIR)"

lemma artifacts_result:
  "mapM (take_artifact h L package out) es w = (Inr ys, w') \<Longrightarrow>
   ys = map filename es \<and> (\<exists>evs. trace w' = trace w @ evs \<and> uploads package es evs)"
proof (induction es arbitrary: w ys)
  case (Cons e es)
  from Cons.prems obtain y w1 zs where s: "take_artifact h L package out e w = (Inr y, w1)"
    "mapM (take_artifact h L package out) es w1 = (Inr zs, w')" "ys = y # zs"
    by (auto simp: prog_inr)
  from take_artifact_result[OF s(1)] Cons.IH[OF s(2)] s(3) obtain b evs where "ys = map filename (e # es)"
    "trace w' = trace w @ Proc (upload_argv (RPMS_DIR @ [package, filename e]) package (algo e) b) ROOT_DIR # evs" "uploads package es evs"
    by auto
  then show ?case by (fastforce simp: uploads_def)
qed (simp add: ret_def uploads_def)

lemma run_gorget_result:
  assumes "run_gorget h L package ov nv pf out w = (Inr (es, uploaded), w')"
  shows "\<exists>env repo reply f c t evs. let ev = ProcEnv env (gorget_argv package ov nv pf out repo) ROOT_DIR in
    h (trace w) ev (files w) = (reply, f) \<and> completed_of (gorget_argv package ov nv pf out repo) False reply = Inr c \<and> returncode c = 0 \<and>
    map_of f (out @ [''sources'']) = Some (FileN t) \<and> es = parse_sources_text t \<and> es \<noteq> [] \<and>
    uploaded = map filename es \<and> trace w' = trace w @ ev # evs \<and> uploads package es evs"
proof -
  have meta: "w1 = w" if "get_package_metadata p w = (r, w1)" for p r w1
    using that by (auto simp: get_package_metadata_def Let_def exists_def prog_simps json_load_def catch_def bind_def ret_def raise_def
        split: if_splits option.splits node.splits)
  from assms obtain md repo env c w1 w2 where
      run: "run_proc_env h env (gorget_argv package ov nv pf out repo) ROOT_DIR w = (Inr c, w1)" "returncode c = 0"
    and ne: "es \<noteq> []" and p: "parse_sources_file (out @ [''sources'']) w1 = (Inr es, w2)"
    and m: "mapM (take_artifact h L package out) es w2 = (Inr uploaded, w')"
    by (auto simp: run_gorget_def Let_def prog_inr dest!: meta split: if_splits)
  from run obtain reply f where "h (trace w) (ProcEnv env (gorget_argv package ov nv pf out repo) ROOT_DIR) (files w) = (reply, f)"
    "completed_of (gorget_argv package ov nv pf out repo) False reply = Inr c"
    and w1: "files w1 = f" "trace w1 = trace w @ [ProcEnv env (gorget_argv package ov nv pf out repo) ROOT_DIR]"
    by (auto simp: run_proc_env_def prog_inr ask_host_def split: prod.splits)
  moreover from p ne obtain t where t: "map_of (files w1) (out @ [''sources'']) = Some (FileN t)" "es = parse_sources_text t" "w2 = w1"
    by (auto simp: parse_sources_file_def prog_inr read_text_def split: if_splits option.splits node.splits)
  moreover from artifacts_result[OF m] obtain evs where "uploaded = map filename es" "trace w' = trace w2 @ evs" "uploads package es evs"
    by blast
  ultimately show ?thesis using run(2) ne unfolding Let_def
    by (intro exI[of _ env] exI[of _ repo] exI[of _ reply] exI[of _ f] exI[of _ c] exI[of _ t] exI[of _ evs]) simp
qed

text \<open>C35: a gorget pipeline that succeeds ran gorget, which ended with status 0 and left a \<open>sources\<close> file in its output directory
  that lists at least one file. After it the package's own \<open>sources\<close> file holds exactly the entries of that file, nothing of the old one
  survives, the names returned are those it lists, and what ran after gorget is the upload script for this package, once for each
  listed file in order, and nothing else.\<close>

theorem gorget_sources_authoritative:
  assumes "run_gorget_pipeline h L package ov nv pf w = (Inr uploaded, w')"
  shows "\<exists>env repo reply f c t es evs.
    let out = [''<tmp>'', ''gorget-'' @ package]; fs0 = fs_write out DirN (files (snd (mkdir (METADATA_DIR @ [''gpg-keys'']) w)));
      argv = gorget_argv package ov nv pf out repo; ev = ProcEnv env argv ROOT_DIR in
    h (trace w) ev fs0 = (reply, f) \<and> completed_of argv False reply = Inr c \<and> returncode c = 0 \<and>
    map_of f (out @ [''sources'']) = Some (FileN t) \<and> es = parse_sources_text t \<and> es \<noteq> [] \<and>
    map_of (files w') (RPMS_DIR @ [package, ''sources'']) = Some (FileN (sources_text es)) \<and>
    parse_sources_text (sources_text es) = es \<and> uploaded = map filename es \<and> trace w' = trace w @ ev # evs \<and> uploads package es evs"
proof -
  from assms obtain es w1 w2 old w3 w4 xs where mk: "mkdir (METADATA_DIR @ [''gpg-keys'']) w = (Inr (), w1)"
    and g: "with_tmpdir (''gorget-'' @ package) (run_gorget h L package ov nv pf) w1 = (Inr (es, uploaded), w2)"
    and p: "parse_sources_file (RPMS_DIR @ [package, ''sources'']) w2 = (Inr old, w3)"
    and st: "remove_stale (RPMS_DIR @ [package]) xs w3 = (Inr (), w4)"
    and wr: "write_sources_file (RPMS_DIR @ [package, ''sources'']) es w4 = (Inr (), w')"
    by (auto simp: run_gorget_pipeline_def Let_def prog_inr)
  have t1: "trace w1 = trace w" using mk by (auto simp: mkdir_def split: option.splits node.splits)
  from g obtain w1' w2' where rg: "run_gorget h L package ov nv pf [''<tmp>'', ''gorget-'' @ package] w1' = (Inr (es, uploaded), w2')"
    and t2: "trace w2 = trace w2'" "trace w1' = trace w1" and f1: "files w1' = fs_write [''<tmp>'', ''gorget-'' @ package] DirN (files w1)"
    by (auto simp: with_tmpdir_run split: prod.splits)
  have t3: "trace w3 = trace w2"
    using p by (auto simp: parse_sources_file_def prog_inr read_text_def
        split: if_splits option.splits node.splits)
  have "keeps (\<lambda>w. trace w = t) (unlink q)" for t q by (simp add: keeps_def unlink_def)
  then have "keeps (\<lambda>w. trace w = t) (remove_stale (RPMS_DIR @ [package]) xs)" for t
    unfolding remove_stale_def whenM_def by (auto intro!: prog_rules)
  then have t4: "trace w4 = trace w3" using keepsD st by blast
  have w': "w' = w4\<lparr>files := fs_write (RPMS_DIR @ [package, ''sources'']) (FileN (sources_text es)) (files w4)\<rparr>"
    using wr by (simp add: write_sources_file_def write_text_def write_node_def prog_simps)
  have tr: "trace w' = trace w2'" "trace w1' = trace w" using w' t1 t2 t3 t4 by simp_all
  have again: "\<And>t. es = parse_sources_text t \<Longrightarrow> parse_sources_text (sources_text es) = es" by (simp add: sources_rewrite)
  from run_gorget_result[OF rg] obtain env repo reply f c t evs where
    "h (trace w) (ProcEnv env (gorget_argv package ov nv pf [''<tmp>'', ''gorget-'' @ package] repo) ROOT_DIR) (files w1') = (reply, f)"
    "completed_of (gorget_argv package ov nv pf [''<tmp>'', ''gorget-'' @ package] repo) False reply = Inr c" "returncode c = 0"
    and t: "map_of f [''<tmp>'', ''gorget-'' @ package, ''sources''] = Some (FileN t)" "es = parse_sources_text t"
    and "es \<noteq> []" "uploaded = map filename es" "uploads package es evs"
      "trace w' = trace w @ ProcEnv env (gorget_argv package ov nv pf [''<tmp>'', ''gorget-'' @ package] repo) ROOT_DIR # evs"
    unfolding Let_def tr append_Cons append_Nil by blast
  with again[OF t(2)] show ?thesis unfolding Let_def
    by (intro exI[of _ env] exI[of _ repo] exI[of _ reply] exI[of _ f] exI[of _ c] exI[of _ t] exI[of _ es] exI[of _ evs])
      (simp add: w' f1 mk)
qed

definition tidy_gorget :: host where
  \<comment> \<open>a host whose gorget emits one artifact and a \<open>sources\<close> file naming it\<close>
  "tidy_gorget t ev f = (case ev of
     ProcEnv env argv cwd \<Rightarrow> (Exit 0 [] [],
       fs_write [''<tmp>'', ''gorget-a'', ''x''] (FileN ''data'')
         (fs_write [''<tmp>'', ''gorget-a'', ''sources'']
           (FileN (sources_text [\<lparr>algo = ''SHA512'', filename = ''x'', hash = ''0''\<rparr>])) f))
   | _ \<Rightarrow> (Exit 0 [] [], f))"

theorem gorget_sources_authoritative_witness:
  "\<exists>w' es. run_gorget_pipeline tidy_gorget (yaml_of JNull) ''a'' ''1'' ''2'' [''p'']
      (blank\<lparr>files := [(UPLOAD_SCRIPT, FileN [])]\<rparr>) = (Inr [''x''], w') \<and>
    map_of (files w') (RPMS_DIR @ [''a'', ''sources'']) = Some (FileN (sources_text es)) \<and> [''x''] = map filename es"
proof -
  let ?w = "blank\<lparr>files := [(UPLOAD_SCRIPT, FileN [])]\<rparr>" and ?e = "\<lparr>algo = ''SHA512'', filename = ''x'', hash = ''0''\<rparr>"
  have pe: "parse_sources_text (sources_text [?e]) = [?e]"
    using sources_roundtrip[of "[?e]"]
    by (simp add: wf_entry_def is_word_def is_alpha_def is_upper_def is_lower_def is_digit_def is_linebreak_def)
  have "fst (run_gorget_pipeline tidy_gorget (yaml_of JNull) ''a'' ''1'' ''2'' [''p''] ?w) = Inr [''x'']"
    by (simp add: run_gorget_pipeline_def run_gorget_def Let_def prog_simps with_tmpdir_run mkdir_def
        get_package_metadata_def exists_def is_file_def fs_exists_def fs_is_file_def or_empty_def opt_str_def
        clone_env_def run_proc_env_def tidy_gorget_def completed_of_def from_sum_def parse_sources_file_def
        read_text_def pe take_artifact_def copy_file_def upload_to_lookaside_def get_package_lookaside_bucket_def
        package_override_def bucket_of_def run_proc_def whenM_def remove_stale_def write_sources_file_def
        write_text_def write_node_def rmtree_def under_def METADATA_DIR_def RPMS_DIR_def ROOT_DIR_def
        UPLOAD_SCRIPT_def PACKAGE_OVERRIDES_YAML_def yaml_of_def)
  then obtain w' where run: "run_gorget_pipeline tidy_gorget (yaml_of JNull) ''a'' ''1'' ''2'' [''p''] ?w = (Inr [''x''], w')"
    by (metis prod.collapse)
  from gorget_sources_authoritative[OF run] obtain es where
    "map_of (files w') (RPMS_DIR @ [''a'', ''sources'']) = Some (FileN (sources_text es))" "[''x''] = map filename es"
    unfolding Let_def by (elim exE conjE) (rule that)
  with run show ?thesis by (intro exI conjI)
qed

subsection \<open>Source discovery that finds nothing\<close>

text \<open>when the spec has \<open>sources\<close> entries but source discovery finds no remote URL, nothing is
  deleted, downloaded or written: the run ends in \<open>RuntimeError\<close> when an entry is not declared in the
  spec, and otherwise reports that there was nothing to download.\<close>

lemma no_urls_no_removal:
  assumes "fs_glob (files w) (RPMS_DIR @ [p]) ''.spec'' = [s]"
    and "parse_sources_file (RPMS_DIR @ [p, ''sources'']) w = (Inr es, w)" "es \<noteq> []"
    and "spec_sources L (files w) (RPMS_DIR @ [p, s]) (RPMS_DIR @ [p]) = Inr srcs" "spec_source_urls srcs = []"
  shows "\<exists>r. download_new_sources h L p ov nv w = (r, w) \<and>
    (case r of
       Inr names \<Rightarrow> names = [] \<and> (\<forall>e \<in> set es. \<exists>(n, location) \<in> set srcs. basename location = filename e)
     | Inl e \<Rightarrow> (\<exists>msg. e = RuntimeError msg) \<and> (\<exists>e \<in> set es. \<forall>(n, location) \<in> set srcs. basename location \<noteq> filename e))"
proof -
  have mem: "set (map filename es) \<subseteq> set (map (basename \<circ> snd) srcs) \<longleftrightarrow>
      (\<forall>e \<in> set es. \<exists>(n, location) \<in> set srcs. basename location = filename e)"
    unfolding subset_eq by (simp add: image_iff case_prod_unfold) (metis)
  have run: "download_new_sources h L p ov nv w =
    (if \<not> set (map filename es) \<subseteq> set (map (basename \<circ> snd) srcs)
     then raise (RuntimeError (p @ '': source discovery returned no remote URLs; refusing to remove ''
              @ ''existing source entries not declared in the spec'')) else ret []) w"
    using assms by (simp add: download_new_sources_def Let_def bind_run gets_run ret_run glob_def from_sum_def
        split del: if_split)
  show ?thesis
  proof (cases "\<forall>e \<in> set es. \<exists>(n, location) \<in> set srcs. basename location = filename e")
    case True
    then show ?thesis unfolding run mem by (simp only: not_True_eq_False if_False ret_def) simp
  next
    case False
    then have "\<exists>e \<in> set es. \<forall>(n, location) \<in> set srcs. basename location \<noteq> filename e"
      by (simp add: case_prod_unfold)
    with False show ?thesis unfolding run mem by (simp only: not_False_eq_True if_True raise_def) simp
  qed
qed

subsection \<open>Marking and ignoring\<close>

text \<open>an upstream update marks a package as modified, with its reason and version, and drops the
  Fedora release; an independent package keeps its status, and no other field changes.\<close>

lemma marked_metadata_fields:
  "dget (marked_metadata reason version d) k =
    (if k = ''release'' then None
     else if k = ''version'' \<and> version \<noteq> None then map_option JStr version
     else if dget d ''modification_status'' \<noteq> Some (JStr ''independent'') \<and> k = ''modification_status'' then Some (JStr ''modified'')
     else if dget d ''modification_status'' \<noteq> Some (JStr ''independent'') \<and> k = ''modification_reason'' then Some (JStr reason)
     else dget d k)"
  by (auto simp: marked_metadata_def Let_def split: option.splits)

lemma mark_package_modified_run:
  assumes "map_of (files w) (METADATA_DIR @ [p @ ''.json'']) = Some (JsonN (JObj d))"
  shows "mark_package_modified p reason version w = (Inr (), w\<lparr>files := fs_write (METADATA_DIR @ [p @ ''.json''])
     (JsonN (sort_json (JObj (marked_metadata reason version d)))) (files w)\<rparr>)"
  using assms by (simp add: mark_package_modified_def Let_def exists_def fs_exists_def prog_simps json_load_def
      as_dict_def from_sum_def write_node_def del: sort_json.simps)

text \<open>after \<open>.gitignore\<close> was updated every uploaded file name is a line of it, and every line it
  had is still there, provided the file was missing, empty or ended with a newline.\<close>

lemma gitignore_lists_sources:
  assumes "text = [] \<or> last text = nl" "\<forall>n \<in> set names. \<forall>c \<in> set n. \<not> is_linebreak c"
    and "map_of (files w) (d @ [''.gitignore'']) = Some (FileN text)"
  shows "\<exists>text' w'. update_gitignore d names w = (Inr (), w') \<and>
    map_of (files w') (d @ [''.gitignore'']) = Some (FileN text') \<and>
    set (splitlines text') = set (splitlines text) \<union> set names"
proof -
  let ?new = "filter (\<lambda>n. n \<notin> set (splitlines text)) names"
  have "splitlines (concat (map (\<lambda>l. l @ [nl]) ?new)) = ?new"
    by (rule splitlines_unlines) (use assms(2) in auto)
  then have sp: "splitlines (text @ concat (map (\<lambda>l. l @ [nl]) ?new)) = splitlines text @ ?new"
    using splitlines_append_terminated[OF assms(1)] by simp
  show ?thesis
  proof (cases "?new = []")
    case True
    then have "update_gitignore d names w = (Inr (), w)"
      using assms(3) by (simp add: update_gitignore_def Let_def exists_def fs_exists_def prog_simps read_text_def whenM_def)
    then show ?thesis using assms(3) True by (auto simp: filter_empty_conv)
  next
    case False
    let ?t = "text @ concat (map (\<lambda>l. l @ [nl]) ?new)"
    have "update_gitignore d names w = (Inr (), w\<lparr>files := fs_write (d @ [''.gitignore'']) (FileN ?t) (files w)\<rparr>)"
      using assms(3) False
      by (simp add: update_gitignore_def Let_def exists_def fs_exists_def prog_simps read_text_def whenM_def
          write_text_def write_node_def del: filter_False)
    then show ?thesis using sp by (intro exI[of _ ?t] exI conjI) auto
  qed
qed

text \<open>Without the newline at the end the first new name is glued to the last line: neither is
  ignored any more.\<close>

lemma gitignore_unterminated:
  "\<exists>w'. update_gitignore [''a''] [''y''] (blank\<lparr>files := [([''a'', ''.gitignore''], FileN ''x'')]\<rparr>) = (Inr (), w') \<and>
    map_of (files w') [''a'', ''.gitignore''] = Some (FileN (''xy'' @ [nl]))"
proof -
  have "splitlines ''x'' = [''x'']" by code_simp
  then show ?thesis
    by (simp add: update_gitignore_def Let_def exists_def fs_exists_def prog_simps read_text_def whenM_def
        write_text_def write_node_def)
qed

end
