(* ===== verification/Run_Rules.thy ===== *)
theory Run_Rules
  imports Host_Calls
begin

section \<open>What a run may do and how it may fail\<close>

text \<open>
  \<open>runs_in S X m\<close>: every run of \<open>m\<close> only adds events that satisfy \<open>S\<close> to the trace, and when it
  raises, the exception satisfies \<open>X\<close>. The rules, one per combinator and per wrapper of
  \<open>Host_Calls\<close>, are the collection \<open>run_rules\<close>; the safety properties of the commands are proved
  with them.
\<close>

named_theorems run_rules

definition runs_in :: "(event \<Rightarrow> bool) \<Rightarrow> (exn \<Rightarrow> bool) \<Rightarrow> 'a prog \<Rightarrow> bool" where
  "runs_in S X m \<longleftrightarrow> (\<forall>w. \<exists>es. trace (snd (m w)) = trace w @ es \<and> (\<forall>e \<in> set es. S e) \<and>
     (case fst (m w) of Inl x \<Rightarrow> X x | Inr _ \<Rightarrow> True))"

lemma runs_inD:
  "runs_in S X m \<Longrightarrow> m w = (r, w') \<Longrightarrow>
     \<exists>es. trace w' = trace w @ es \<and> (\<forall>e \<in> set es. S e) \<and> (case r of Inl x \<Rightarrow> X x | Inr _ \<Rightarrow> True)"
  by (auto simp: runs_in_def dest: spec[of _ w])

lemma runs_inI:
  "(\<And>w r w'. m w = (r, w') \<Longrightarrow> \<exists>es. trace w' = trace w @ es \<and> (\<forall>e \<in> set es. S e) \<and>
     (case r of Inl x \<Rightarrow> X x | Inr _ \<Rightarrow> True)) \<Longrightarrow> runs_in S X m"
  unfolding runs_in_def by (metis prod.collapse)

lemma runs_in_quiet:
  "(\<And>w. trace (snd (m w)) = trace w \<and> (case fst (m w) of Inl x \<Rightarrow> X x | Inr _ \<Rightarrow> True)) \<Longrightarrow> runs_in S X m"
  by (simp add: runs_in_def)

lemma run_ret [run_rules]: "runs_in S X (ret x)"
  by (simp add: runs_in_def ret_def)

lemma run_raise [run_rules]: "X e \<Longrightarrow> runs_in S X (raise e)"
  by (simp add: runs_in_def raise_def)

lemma run_gets [run_rules]: "runs_in S X (gets f)"
  by (simp add: runs_in_def gets_def)

lemma run_bind [run_rules]:
  assumes "runs_in S X m" "\<And>x. runs_in S X (k x)"
  shows "runs_in S X (bind m k)"
proof (rule runs_inI)
  fix w r w' assume run: "bind m k w = (r, w')"
  obtain r1 w1 where m: "m w = (r1, w1)" by fastforce
  from runs_inD[OF assms(1) m] obtain es where es: "trace w1 = trace w @ es" "\<forall>e \<in> set es. S e"
    "case r1 of Inl x \<Rightarrow> X x | Inr _ \<Rightarrow> True" by blast
  show "\<exists>es. trace w' = trace w @ es \<and> (\<forall>e \<in> set es. S e) \<and> (case r of Inl x \<Rightarrow> X x | Inr _ \<Rightarrow> True)"
  proof (cases r1)
    case (Inl e)
    with run m es show ?thesis by (auto simp: bind_run)
  next
    case (Inr x)
    with run m have "k x w1 = (r, w')" by (simp add: bind_run)
    from runs_inD[OF assms(2) this] obtain fs where "trace w' = trace w1 @ fs" "\<forall>e \<in> set fs. S e"
      "case r of Inl x \<Rightarrow> X x | Inr _ \<Rightarrow> True" by blast
    with es show ?thesis by (intro exI[of _ "es @ fs"]) auto
  qed
qed

lemma run_seq [run_rules]: "runs_in S X m \<Longrightarrow> runs_in S X k \<Longrightarrow> runs_in S X (seq m k)"
  by (simp add: seq_def run_bind)

lemma run_catch:
  assumes "runs_in S Y m" "\<And>e. Y e \<Longrightarrow> sel e \<Longrightarrow> runs_in S X (h e)" "\<And>e. Y e \<Longrightarrow> \<not> sel e \<Longrightarrow> X e"
  shows "runs_in S X (catch m sel h)"
proof (rule runs_inI)
  fix w r w' assume run: "catch m sel h w = (r, w')"
  obtain r1 w1 where m: "m w = (r1, w1)" by fastforce
  from runs_inD[OF assms(1) m] obtain es where es: "trace w1 = trace w @ es" "\<forall>e \<in> set es. S e"
    "case r1 of Inl x \<Rightarrow> Y x | Inr _ \<Rightarrow> True" by blast
  show "\<exists>es. trace w' = trace w @ es \<and> (\<forall>e \<in> set es. S e) \<and> (case r of Inl x \<Rightarrow> X x | Inr _ \<Rightarrow> True)"
  proof (cases r1)
    case (Inr x)
    with run m es show ?thesis by (auto simp: catch_run)
  next
    case e: (Inl e)
    show ?thesis
    proof (cases "sel e")
      case True
      with run m e have "h e w1 = (r, w')" by (simp add: catch_run)
      moreover have "runs_in S X (h e)" using assms(2) e es(3) True by simp
      ultimately obtain fs where "trace w' = trace w1 @ fs" "\<forall>e \<in> set fs. S e"
        "case r of Inl x \<Rightarrow> X x | Inr _ \<Rightarrow> True" using runs_inD by blast
      with es show ?thesis by (intro exI[of _ "es @ fs"]) auto
    next
      case False
      with run m e es assms(3) show ?thesis by (auto simp: catch_run)
    qed
  qed
qed

lemma run_catch_same [run_rules]:
  "runs_in S X m \<Longrightarrow> (\<And>e. X e \<Longrightarrow> runs_in S X (h e)) \<Longrightarrow> runs_in S X (catch m sel h)"
  by (rule run_catch)

lemma run_finally [run_rules]:
  assumes "runs_in S X m" "runs_in S (\<lambda>_. True) c"
  shows "runs_in S X (finally_do m c)"
proof (rule runs_inI)
  fix w r w' assume run: "finally_do m c w = (r, w')"
  obtain w1 where m: "m w = (r, w1)" and w': "w' = snd (c w1)"
    using run by (auto simp: finally_do_def split: prod.splits)
  from runs_inD[OF assms(1) m] obtain es where es: "trace w1 = trace w @ es" "\<forall>e \<in> set es. S e"
    "case r of Inl x \<Rightarrow> X x | Inr _ \<Rightarrow> True" by blast
  from runs_inD[OF assms(2), of w1 "fst (c w1)" "snd (c w1)"] obtain fs where
    "trace w' = trace w1 @ fs" "\<forall>e \<in> set fs. S e" using w' by auto
  with es show "\<exists>es. trace w' = trace w @ es \<and> (\<forall>e \<in> set es. S e) \<and> (case r of Inl x \<Rightarrow> X x | Inr _ \<Rightarrow> True)"
    by (intro exI[of _ "es @ fs"]) auto
qed

lemma run_when [run_rules]: "(b \<Longrightarrow> runs_in S X m) \<Longrightarrow> runs_in S X (whenM b m)"
  by (simp add: whenM_def run_ret)

lemma run_mapM [run_rules]: "(\<And>x. x \<in> set xs \<Longrightarrow> runs_in S X (f x)) \<Longrightarrow> runs_in S X (mapM f xs)"
  by (induction xs) (auto intro!: run_rules)

lemma run_forM [run_rules]: "(\<And>x. x \<in> set xs \<Longrightarrow> runs_in S X (f x)) \<Longrightarrow> runs_in S X (forM f xs)"
  by (induction xs) (auto intro!: run_rules)

lemma run_foldM [run_rules]:
  "(\<And>s x. x \<in> set xs \<Longrightarrow> runs_in S X (f s x)) \<Longrightarrow> runs_in S X (foldM f s xs)"
  by (induction xs arbitrary: s) (auto intro!: run_rules)

lemma run_from_sum [run_rules]: "(\<And>e. r = Inl e \<Longrightarrow> X e) \<Longrightarrow> runs_in S X (from_sum r)"
  by (cases r) (auto simp: from_sum_def intro: run_rules)

lemma run_assertM [run_rules]: "X (AssertionError msg) \<Longrightarrow> runs_in S X (assertM b msg)"
  by (simp add: assertM_def run_rules)

lemma run_sys_exit [run_rules]: "X (SysExit 1 msg) \<Longrightarrow> runs_in S X (sys_exit msg)"
  by (simp add: sys_exit_def run_rules)

lemma run_if [run_rules]:
  "(b \<Longrightarrow> runs_in S X m) \<Longrightarrow> (\<not> b \<Longrightarrow> runs_in S X n) \<Longrightarrow> runs_in S X (if b then m else n)"
  by simp

lemma run_option [run_rules]:
  "(x = None \<Longrightarrow> runs_in S X m) \<Longrightarrow> (\<And>y. x = Some y \<Longrightarrow> runs_in S X (k y)) \<Longrightarrow>
   runs_in S X (case x of None \<Rightarrow> m | Some y \<Rightarrow> k y)"
  by (cases x) auto

lemma run_list [run_rules]:
  "(x = [] \<Longrightarrow> runs_in S X m) \<Longrightarrow> (\<And>y ys. x = y # ys \<Longrightarrow> runs_in S X (k y ys)) \<Longrightarrow>
   runs_in S X (case x of [] \<Rightarrow> m | y # ys \<Rightarrow> k y ys)"
  by (cases x) auto

lemma run_prod [run_rules]: "(\<And>a b. x = (a, b) \<Longrightarrow> runs_in S X (k a b)) \<Longrightarrow> runs_in S X (case x of (a, b) \<Rightarrow> k a b)"
  by (cases x) auto

lemma run_sum [run_rules]:
  "(\<And>a. x = Inl a \<Longrightarrow> runs_in S X (k a)) \<Longrightarrow> (\<And>b. x = Inr b \<Longrightarrow> runs_in S X (l b)) \<Longrightarrow>
   runs_in S X (case x of Inl a \<Rightarrow> k a | Inr b \<Rightarrow> l b)"
  by (cases x) auto

lemma run_json [run_rules]:
  "runs_in S X a \<Longrightarrow> (\<And>x. runs_in S X (b x)) \<Longrightarrow> (\<And>x. runs_in S X (c x)) \<Longrightarrow> (\<And>x. runs_in S X (d x)) \<Longrightarrow>
   (\<And>x. runs_in S X (e x)) \<Longrightarrow> (\<And>x. runs_in S X (f x)) \<Longrightarrow>
   runs_in S X (case j of JNull \<Rightarrow> a | JBool x \<Rightarrow> b x | JInt x \<Rightarrow> c x | JStr x \<Rightarrow> d x | JList x \<Rightarrow> e x | JObj x \<Rightarrow> f x)"
  by (cases j) auto

lemma run_Let [run_rules]: "runs_in S X (k x) \<Longrightarrow> runs_in S X (Let x k)"
  by simp

lemma run_ask [run_rules]: "S ev \<Longrightarrow> runs_in S X (ask_host h ev)"
  by (simp add: runs_in_def ask_host_run)

lemma run_emit [run_rules]: "S ev \<Longrightarrow> runs_in S X (emit ev)"
  by (simp add: runs_in_def emit_def modify_def)

lemma run_sleep [run_rules]: "S (Sleep n) \<Longrightarrow> runs_in S X (sleep n)"
  by (simp add: sleep_def run_rules)

lemma run_imported [run_rules]: "runs_in S X (modify (\<lambda>w. w\<lparr>imported := g w\<rparr>))"
  by (simp add: runs_in_def modify_def)

lemma run_files [run_rules]: "runs_in S X (modify (\<lambda>w. w\<lparr>files := g w\<rparr>))"
  by (simp add: runs_in_def modify_def)

lemma run_look [run_rules]:
  "runs_in S X (exists p)" "runs_in S X (is_file p)" "runs_in S X (is_dir p)" "runs_in S X (glob p s)"
  "runs_in S X (iterdir p)" "runs_in S X (write_node p n)" "runs_in S X (write_text p t)"
  "runs_in S X (copytree p q)"
  by (simp_all add: exists_def is_file_def is_dir_def glob_def iterdir_def write_node_def write_text_def
      copytree_def run_rules)

definition file_errors :: "(exn \<Rightarrow> bool) \<Rightarrow> bool" where
  \<comment> \<open>a class of exceptions that contains every failure of a file operation\<close>
  "file_errors X \<longleftrightarrow> (\<forall>m. X (FileNotFoundError m) \<and> X (OSError m)) \<and> X UnicodeDecodeError \<and> X JSONDecodeError"

lemma run_reads [run_rules]:
  "file_errors X \<Longrightarrow> runs_in S X (read_text p)" "file_errors X \<Longrightarrow> runs_in S X (json_load p)"
  "file_errors X \<Longrightarrow> runs_in S X (unlink p)" "file_errors X \<Longrightarrow> runs_in S X (rmtree p)"
  "file_errors X \<Longrightarrow> runs_in S X (mkdir p)" "file_errors X \<Longrightarrow> runs_in S X (copy_file p q)"
  by (rule runs_in_quiet; auto simp: file_errors_def read_text_def json_load_def unlink_def rmtree_def mkdir_def
      copy_file_def split: option.splits node.splits)+

lemma run_tmpdir [run_rules]:
  "(\<And>d. d = [''<tmp>'', n] \<Longrightarrow> runs_in S X (body d)) \<Longrightarrow> runs_in S X (with_tmpdir n body)"
proof (rule runs_inI)
  fix w r w' assume b: "\<And>d. d = [''<tmp>'', n] \<Longrightarrow> runs_in S X (body d)" and run: "with_tmpdir n body w = (r, w')"
  obtain w1 where w1: "body [''<tmp>'', n] (w\<lparr>files := fs_write [''<tmp>'', n] DirN (files w)\<rparr>) = (r, w1)"
    "trace w' = trace w1"
    using run by (auto simp: with_tmpdir_run split: prod.splits)
  from runs_inD[OF b[OF refl] w1(1)] w1(2)
  show "\<exists>es. trace w' = trace w @ es \<and> (\<forall>e \<in> set es. S e) \<and> (case r of Inl x \<Rightarrow> X x | Inr _ \<Rightarrow> True)"
    by auto
qed

subsection \<open>Programs and services\<close>

definition proc_errors :: "(exn \<Rightarrow> bool) \<Rightarrow> bool" where
  "proc_errors X \<longleftrightarrow> file_errors X \<and> (\<forall>c m. X (CalledProcessError c m)) \<and> X TimeoutExpired \<and>
     (\<forall>m. X (RuntimeError m)) \<and> (\<forall>m. X (TypeError m)) \<and> (\<forall>m. X (KeyError m)) \<and> (\<forall>m. X (ValueError m)) \<and>
     (\<forall>m. X (AssertionError m)) \<and> (\<forall>m. X (SysExit 1 m)) \<and> (\<forall>m. X (RpcFault m)) \<and>
     (\<forall>c m. X (ProtocolError c m)) \<and> (\<forall>m. X (HTTPException m)) \<and> X SocketTimeout \<and>
     (\<forall>m. X (ConnectionError m)) \<and> (\<forall>c m. X (HTTPError c m)) \<and> (\<forall>m. X (URLError m))"

lemma proc_file [simp]: "proc_errors X \<Longrightarrow> file_errors X"
  by (simp add: proc_errors_def)

lemma completed_errors: "completed_of argv check r = Inl e \<Longrightarrow> proc_errors X \<Longrightarrow> X e"
  by (auto simp: completed_of_def proc_errors_def file_errors_def split: reply.splits if_splits)

lemma run_run_proc [run_rules]: "S (Proc argv cwd) \<Longrightarrow> proc_errors X \<Longrightarrow> runs_in S X (run_proc h argv cwd check)"
  unfolding run_proc_def by (intro run_rules) (auto dest: completed_errors)

lemma run_run_proc_env [run_rules]:
  "S (ProcEnv env argv cwd) \<Longrightarrow> proc_errors X \<Longrightarrow> runs_in S X (run_proc_env h env argv cwd)"
  unfolding run_proc_env_def by (intro run_rules) (auto dest: completed_errors)

lemma run_git_attempts:
  "S (Proc (''git'' # args) cwd) \<Longrightarrow> (\<forall>n. S (Sleep n)) \<Longrightarrow> proc_errors X \<Longrightarrow>
   runs_in S X (git_attempts h args cwd check n d)"
proof (induction n arbitrary: d)
  case 0
  then show ?case by (auto simp: proc_errors_def intro!: run_rules)
next
  case (Suc n)
  then show ?case by (auto intro!: run_rules)
qed

lemma run_run_git [run_rules]:
  "S (Proc (''git'' # args) cwd) \<Longrightarrow> (\<forall>n. S (Sleep n)) \<Longrightarrow> proc_errors X \<Longrightarrow>
   runs_in S X (run_git_in h args cwd check)"
  unfolding run_git_in_def Let_def by (rule run_git_attempts)

lemma run_koji_method: "S (Rpc meth arg) \<Longrightarrow> proc_errors X \<Longrightarrow> runs_in S X (koji_method h meth arg)"
  unfolding koji_method_def
  by (intro run_rules, assumption)
    (auto split: reply.splits intro!: run_rules simp: koji_exn_def proc_errors_def file_errors_def)

lemma run_koji [run_rules]:
  assumes "\<forall>m a. S (Rpc m a)" "\<forall>n. S (Sleep n)" "proc_errors X"
  shows "runs_in S X (call_koji_with_retry h meth arg)"
proof -
  have "runs_in S X (koji_attempts h meth arg n d)" for n d
    by (induction n arbitrary: d) (use assms in \<open>auto intro!: run_rules run_koji_method\<close>)
  then show ?thesis by (simp add: call_koji_with_retry_def)
qed

lemma item_errors: "item j k = Inl e \<Longrightarrow> proc_errors X \<Longrightarrow> X e"
  by (auto simp: item_def proc_errors_def split: json.splits option.splits)

lemma as_errors:
  "as_dict j = Inl e \<Longrightarrow> proc_errors X \<Longrightarrow> X e" "as_list j = Inl e \<Longrightarrow> proc_errors X \<Longrightarrow> X e"
  "as_str j = Inl e \<Longrightarrow> proc_errors X \<Longrightarrow> X e" "json_int j = Inl e \<Longrightarrow> proc_errors X \<Longrightarrow> X e"
  by (auto simp: as_dict_def as_list_def as_str_def json_int_def proc_errors_def split: json.splits option.splits)

lemma run_run_json [run_rules]:
  "S (Proc argv ROOT_DIR) \<Longrightarrow> proc_errors X \<Longrightarrow> runs_in S X (run_json h argv)"
  unfolding run_json_def
  by (intro run_rules, assumption)
    (auto dest: completed_errors split: reply.splits intro!: run_rules simp: proc_errors_def file_errors_def)

lemma run_mdapi [run_rules]:
  "(\<And>args. S (Proc (''curl'' # args) ROOT_DIR)) \<Longrightarrow> proc_errors X \<Longrightarrow>
   runs_in S X (query_autorelease_from_mdapi h p b f)"
  unfolding query_autorelease_from_mdapi_def get_mdapi_latest_build_def Let_def
  by (intro run_rules; (assumption | erule item_errors | erule as_errors))

end
