(* ===== verification/Dist_Git_Update.thy ===== *)
theory Dist_Git_Update
  imports Package_Metadata Source_Update Run_Rules
begin

section \<open>Updating a package from its dist-git\<close>

text \<open>
  The update pipeline of \<open>ci/dist_git.py\<close>: \<open>merge_local_modifications\<close>, the re-run of gorget after
  a merge (\<open>_fixed_pipeline_git_refs\<close> to \<open>_run_gorget_for_updated_package\<close>),
  \<open>_stage_package_for_commit\<close>, \<open>update\<close> in its phases and \<open>continue_update\<close>. A conflict, of the
  merge or of gorget, is never committed: it is saved in a state file and ends with exit status 2.
\<close>

subsection \<open>Merging local modifications\<close>

definition clear_checkout :: "path \<Rightarrow> unit prog" where
  \<comment> \<open>remove everything but \<open>.git\<close>\<close>
  "clear_checkout upstream_dir = (bind (iterdir upstream_dir) (\<lambda>names.
    forM (\<lambda>n. if n \<noteq> ''.git'' then (bind (is_dir (upstream_dir @ [n])) (\<lambda>b.
      (if b then rmtree (upstream_dir @ [n]) else unlink (upstream_dir @ [n]))))
      else ret ()) names))"

definition commit_local :: "host \<Rightarrow> path \<Rightarrow> path \<Rightarrow> string \<Rightarrow> unit prog" where
  \<comment> \<open>the branch \<open>hummingbird-local\<close>: local files on the normalised old upstream\<close>
  "commit_local h package_dir upstream_dir old_sha = (seq (run_git h [''config'', ''user.name'', ''Hummingbird Bot''] upstream_dir) (
    seq (run_git h [''config'', ''user.email'', ''bot@example.com''] upstream_dir) (
    seq (run_git h [''checkout'', ''--quiet'', old_sha] upstream_dir) (
    seq (run_git h [''checkout'', ''--quiet'', ''-b'', ''hummingbird-local''] upstream_dir) (
    seq (normalize_release_in_specs upstream_dir) (
    seq (run_git h [''commit'', ''--allow-empty'', ''-a'', ''-m'', ''Normalize Release (temporary)''] upstream_dir) (
    seq (clear_checkout upstream_dir) (
    seq (copytree package_dir upstream_dir) (
    seq (normalize_release_in_specs upstream_dir) (
    seq (run_git h [''add'', ''-A''] upstream_dir) (
    bind (run_git h [''status'', ''--porcelain''] upstream_dir) (\<lambda>status_result.
    seq (assertM (strip (stdout status_result) \<noteq> []) ''Expected local modifications but git status is clean'') (
    seq (run_git h [''commit'', ''-m'', ''Local Hummingbird modifications''] upstream_dir) (
    ret ()))))))))))))))"

definition rebase_local :: "host \<Rightarrow> path \<Rightarrow> path \<Rightarrow> string \<Rightarrow> unit prog" where
  \<comment> \<open>drop the temporary commit, or start over without normalisation\<close>
  "rebase_local h package_dir upstream_dir old_sha = (bind (run_git_in h [''rebase'', ''--onto'', old_sha, ''HEAD~1''] upstream_dir False) (\<lambda>rebase_result.
    whenM (returncode rebase_result \<noteq> 0) ((seq (run_git_in h [''rebase'', ''--abort''] upstream_dir False) (
      seq (run_git h [''checkout'', ''--quiet'', ''-B'', ''hummingbird-local'', old_sha] upstream_dir) (
      seq (clear_checkout upstream_dir) (
      seq (copytree package_dir upstream_dir) (
      seq (run_git h [''add'', ''-A''] upstream_dir) (
      seq (run_git h [''commit'', ''--allow-empty'', ''-m'', ''Local Hummingbird modifications''] upstream_dir) (
      ret ()))))))))))"

definition merge_local_modifications :: "host \<Rightarrow> path \<Rightarrow> dict \<Rightarrow> path \<Rightarrow> string \<Rightarrow> bool prog" where
  "merge_local_modifications h package_dir metadata upstream_dir new_sha = (seq (assertM (status_is metadata ''modified'') ''modification_status'') (
    seq (assertM (has_key metadata ''branch'') ''branch'') (
    seq (assertM (has_key metadata ''sha'') ''sha'') (
    seq (assertM (has_key metadata ''source'') ''source'') (
    bind (from_sum (str_item metadata ''sha'')) (\<lambda>old_sha.
    seq (commit_local h package_dir upstream_dir old_sha) (
    seq (rebase_local h package_dir upstream_dir old_sha) (
    seq (run_git h [''checkout'', ''--quiet'', ''-b'', ''new-upstream'', new_sha] upstream_dir) (
    bind (run_git_in h [''merge'', ''hummingbird-local''] upstream_dir False) (\<lambda>merge_result.
    let has_conflicts = (returncode merge_result \<noteq> 0) in
    seq (rmtree package_dir) (
    seq (rmtree (upstream_dir @ [''.git''])) (
    seq (copytree upstream_dir package_dir) (
    ret has_conflicts)))))))))))))"

subsection \<open>Fixed-ref pipelines\<close>

definition spec_changelog_re :: rx where
  \<comment> \<open>\<open>^%changelog\b\<close>, MULTILINE\<close>
  "spec_changelog_re = Seq [Bol True, Lit ''%changelog'', WordB]"

definition is_az :: "char \<Rightarrow> bool" where "is_az c = is_lower c"

definition spec_setup_n_re :: rx where
  \<comment> \<open>\<open>%(?:auto)?setup\b[^%\n]*?(?<![a-zA-Z])-[a-z]*n\s+(\S+)\<close>\<close>
  "spec_setup_n_re = Seq [Chr CHR ''%'', Opt (Lit ''auto''), Lit ''setup'', WordB,
     Star False (Cls (\<lambda>c. c \<noteq> CHR ''%'' \<and> c \<noteq> nl)), NotBehind is_alpha, Chr CHR ''-'',
     Star True (Cls is_az), Chr CHR ''n'', Plus True Space, Grp 1 (Plus True (Cls (\<lambda>c. \<not> is_ws c)))]"

definition spec_default_n_values :: "string list" where
  "spec_default_n_values = [''%{name}-%{version}'', ''%{name}%{version}'']"

definition fetch_steps :: "json \<Rightarrow> exn + dict list" where
  \<comment> \<open>the mappings of \<open>pipeline.get('fetch') or []\<close>\<close>
  "fetch_steps pipeline = (case as_dict pipeline of
       Inl e \<Rightarrow> Inl e
     | Inr d \<Rightarrow> (case dget d ''fetch'' of
          None \<Rightarrow> Inr []
        | Some v \<Rightarrow> if \<not> truthy v then Inr [] else (case v of
            JList xs \<Rightarrow> Inr (List.map_filter (\<lambda>s. case s of JObj d \<Rightarrow> Some d | _ \<Rightarrow> None) xs)
          | _ \<Rightarrow> Inl (TypeError ''fetch''))))"

definition is_git_step :: "dict \<Rightarrow> bool" where
  "is_git_step step \<longleftrightarrow> dget step ''type'' = Some (JStr ''git'')"

definition fixed_pipeline_git_refs :: "json \<Rightarrow> exn + string list" where
  \<comment> \<open>a \<open>ref\<close> is a string or missing\<close>
  "fixed_pipeline_git_refs pipeline = (case fetch_steps pipeline of
       Inl e \<Rightarrow> Inl e
     | Inr steps \<Rightarrow> Inr (filter (\<lambda>r. \<not> contains r ''${VERSION}'')
         (List.map_filter (\<lambda>step. if is_git_step step then
             (case dget step ''ref'' of Some (JStr r) \<Rightarrow> if r \<noteq> [] then Some r else None | _ \<Rightarrow> None)
           else None) steps)))"

definition spec_has_custom_setup_override :: "string \<Rightarrow> bool" where
  "spec_has_custom_setup_override spec_text =
     list_ex (\<lambda>m. group m 1 \<notin> set spec_default_n_values) (re_finditer spec_setup_n_re spec_text)"

definition spec_text_before_changelog :: "string \<Rightarrow> string" where
  "spec_text_before_changelog spec_text = (case re_search_pos spec_changelog_re spec_text of
     Some n \<Rightarrow> take n spec_text | None \<Rightarrow> spec_text)"

definition FIXED_REF_SHORT_SHA_LEN :: nat where "FIXED_REF_SHORT_SHA_LEN = 7"

definition fixed_ref_pipeline_drift :: "path \<Rightarrow> json \<Rightarrow> string list prog" where
  "fixed_ref_pipeline_drift package_dir pipeline = (bind (from_sum (fixed_pipeline_git_refs pipeline)) (\<lambda>fixed_refs.
    if fixed_refs = [] then (ret []) else
    bind (glob package_dir ''.spec'') (\<lambda>spec_files.
    (case spec_files of
       [s] \<Rightarrow> (bind (read_text (package_dir @ [s])) (\<lambda>text.
         let spec_text = spec_text_before_changelog text in
         if \<not> spec_has_custom_setup_override spec_text then (ret []) else
         ret (filter (\<lambda>ref. \<not> contains spec_text (take FIXED_REF_SHORT_SHA_LEN ref)) fixed_refs)))
     | _ \<Rightarrow> ret []))))"

definition is_hex :: "char \<Rightarrow> bool" where
  "is_hex c \<longleftrightarrow> is_digit c \<or> c \<in> set ''abcdefABCDEF''"

definition gitrev_re :: rx where
  \<comment> \<open>\<open>^%global\s+gitrev\s+([0-9a-fA-F]{40})\s*$\<close>, MULTILINE\<close>
  "gitrev_re = Seq [Bol True, Lit ''%global'', Plus True Space, Lit ''gitrev'', Plus True Space,
     Grp 1 (Rep 40 (Cls is_hex)), Star True Space, Eol True]"

definition date_re :: rx where "date_re = Rep 8 Digit" \<comment> \<open>\<open>\d{8}\<close>\<close>

definition ref_pattern :: "string \<Rightarrow> rx" where
  \<comment> \<open>\<open>(ref:\s*)(["']?)\<close>, the old ref, and the same quote again\<close>
  "ref_pattern old = Seq [Grp 1 (Seq [Lit ''ref:'', Star True Space]),
     AltL [Seq [Chr CHR 0x22, Lit old, Chr CHR 0x22], Seq [Chr CHR 0x27, Lit old, Chr CHR 0x27], Lit old]]"

definition own_fetch_ref :: "dict list \<Rightarrow> json option" where
  \<comment> \<open>the ref of the package's own git step\<close>
  "own_fetch_ref steps =
     (case find (\<lambda>step. is_git_step step \<and> dget step ''repo'' = Some (JStr ''${UPSTREAM_REPO}'')) steps of
        Some step \<Rightarrow> (case dget step ''ref'' of Some JNull \<Rightarrow> None | r \<Rightarrow> r)
      | None \<Rightarrow> None)"

definition commit_date_of :: "host \<Rightarrow> string \<Rightarrow> string \<Rightarrow> string option prog" where
  \<comment> \<open>the commit's date as git prints it, \<open>None\<close> when git or the network fails\<close>
  "commit_date_of h upstream_repo gitrev = catch (with_tmpdir ''pin-refresh'' (\<lambda>tmp. (seq (run_proc h [''git'', ''init'', ''--quiet''] tmp True) (
    seq (run_proc h [''git'', ''fetch'', ''--quiet'', ''--depth'', ''1'', upstream_repo, gitrev] tmp True) (
    bind (run_proc h [''git'', ''log'', ''-1'', ''--format=%cd'', ''--date=format:%Y%m%d'', ''FETCH_HEAD''] tmp True) (\<lambda>r.
    ret (Some (stdout r))))))))
    (\<lambda>e. is_CalledProcessError e \<or> e = TimeoutExpired \<or> is_OSError e) (\<lambda>_. ret None)"

definition refresh_fixed_ref_pin ::
  "host \<Rightarrow> string \<Rightarrow> path \<Rightarrow> path \<Rightarrow> json \<Rightarrow> string option \<Rightarrow> dict \<Rightarrow> string \<Rightarrow> (string \<times> path) option prog" where
  "refresh_fixed_ref_pin h package_name package_dir pipeline_file pipeline upstream_repo version_from_ref old_version = (if dget version_from_ref ''type'' \<noteq> Some (JStr ''commit-date'') then (ret None) else
    if upstream_repo = None then (ret None) else
    bind (glob package_dir ''.spec'') (\<lambda>spec_files.
    if length spec_files \<noteq> 1 then (ret None) else
    bind (read_text (package_dir @ [hd spec_files])) (\<lambda>spec_text.
    (case re_search gitrev_re spec_text of
       None \<Rightarrow> ret None
     | Some m \<Rightarrow> (let new_gitrev = group m 1 in
       bind (from_sum (fetch_steps pipeline)) (\<lambda>steps.
       (case own_fetch_ref steps of
            None \<Rightarrow> ret None
          | Some old \<Rightarrow> (if old = JStr new_gitrev then (ret None) else
            bind (commit_date_of h (the upstream_repo) new_gitrev) (\<lambda>date.
            (case date of
                 None \<Rightarrow> ret None
               | Some out \<Rightarrow> (let commit_date = strip out in
                 if re_fullmatch date_re commit_date = None then (ret None) else
                 bind (read_text pipeline_file) (\<lambda>pipeline_text.
                 bind (from_sum (as_str old)) (\<lambda>old_gitrev.
                 if re_search (ref_pattern old_gitrev) pipeline_text = None then (ret None) else
                 let tmp_pipeline_file = [''<tmp>'', package_name @ ''-pipeline.yaml''] in
                 seq (write_text tmp_pipeline_file (sub_from (ref_pattern old_gitrev)
                     (\<lambda>m. group m 1 @ [CHR 0x22] @ new_gitrev @ [CHR 0x22]) (Some 1) [] pipeline_text)) (
                 ret (Some (old_version @ ''-'' @ commit_date, tmp_pipeline_file))))))))))))))))"

subsection \<open>Gorget after a merge\<close>

definition is_gorget_failure :: "exn \<Rightarrow> bool" where
  \<comment> \<open>\<open>except (RuntimeError, OSError)\<close>\<close>
  "is_gorget_failure e \<longleftrightarrow> (case e of RuntimeError _ \<Rightarrow> True | _ \<Rightarrow> is_OSError e)"

definition try_gorget :: "host \<Rightarrow> 'v pylib \<Rightarrow> string \<Rightarrow> string \<Rightarrow> string \<Rightarrow> path \<Rightarrow> string \<Rightarrow> (string + string list) prog" where
  \<comment> \<open>the uploaded names, or the reason as a message\<close>
  "try_gorget h L package_name old_version new_version pipeline_file what =
     catch (bind (run_gorget_pipeline h L package_name old_version new_version pipeline_file) (\<lambda>u. ret (Inr u)))
       is_gorget_failure (\<lambda>exc. ret (Inl (package_name @ what @ exn_str exc)))"

definition unlink_missing_ok :: "path \<Rightarrow> unit prog" where
  "unlink_missing_ok p = modify (\<lambda>w. w\<lparr>files := fs_unlink p (files w)\<rparr>)"

definition gorget_after_refresh ::
  "host \<Rightarrow> 'v pylib \<Rightarrow> string \<Rightarrow> string \<Rightarrow> string \<Rightarrow> path \<Rightarrow> path \<Rightarrow> (string option \<times> string list) prog" where
  \<comment> \<open>run gorget on the staged pipeline; the real file is rewritten only when that worked\<close>
  "gorget_after_refresh h L package_name old_version gorget_version pipeline_file tmp_pipeline_file =
     finally_do ((bind (try_gorget h L package_name old_version gorget_version tmp_pipeline_file
         '': gorget pipeline failed after pin refresh: '') (\<lambda>r.
       (case r of
          Inl reason \<Rightarrow> ret (Some reason, [])
        | Inr uploaded \<Rightarrow> (bind (read_text tmp_pipeline_file) (\<lambda>text.
          seq (write_text pipeline_file text) (
          ret (None, uploaded))))))))
       (unlink_missing_ok tmp_pipeline_file)"

definition run_gorget_for_updated_package ::
  "host \<Rightarrow> 'v pylib \<Rightarrow> string \<Rightarrow> path \<Rightarrow> string \<Rightarrow> string \<Rightarrow> dict \<Rightarrow> (string option \<times> string list) prog" where
  "run_gorget_for_updated_package h L package_name package_dir old_version new_version metadata = (bind (load_source_pipeline package_name) (\<lambda>p.
    (case p of
       None \<Rightarrow> ret (None, [])
     | Some pipeline_file \<Rightarrow> (bind (read_text pipeline_file) (\<lambda>text.
       bind (from_sum (yaml_load L text)) (\<lambda>pipeline.
       bind (fixed_ref_pipeline_drift package_dir pipeline) (\<lambda>drifted.
       (if drifted \<noteq> [] then
            (if opt_truthy (dget metadata ''version_from_ref'') then (bind (from_sum (as_dict (the (dget metadata ''version_from_ref'')))) (\<lambda>version_from_ref.
              bind (from_sum (opt_str (dget metadata ''upstream_repo''))) (\<lambda>upstream_repo.
              bind (refresh_fixed_ref_pin h package_name package_dir pipeline_file pipeline
                 upstream_repo version_from_ref old_version) (\<lambda>refresh_result.
              (case refresh_result of
                  None \<Rightarrow> ret (Some (package_name @ '': pipeline ref(s) '' @ join '', '' drifted
                    @ '' no longer match the merged spec, and automatic pin refresh failed (see log for details)''
                    @ '' -- gorget must be re-run manually''), [])
                | Some (gorget_version, tmp_pipeline_file) \<Rightarrow>
                    gorget_after_refresh h L package_name old_version gorget_version pipeline_file tmp_pipeline_file)))))
             else ret (Some (package_name @ '': pipeline ref(s) '' @ join '', '' drifted
               @ '' no longer match the merged spec -- gorget must be re-run manually (see metadata/'' @ package_name
               @ ''.source-pipeline.yaml). No version_from_ref configured for automatic pin refresh ''
               @ ''(see documentation/operating/package-modification-tracking.md).''), []))
          else if old_version = new_version then ret (None, [])
          else (bind (try_gorget h L package_name old_version new_version pipeline_file '': gorget pipeline failed: '') (\<lambda>r.
            (case r of Inl reason \<Rightarrow> ret (Some reason, []) | Inr uploaded \<Rightarrow> ret (None, uploaded))))))))))))"

definition stage_package_for_commit :: "host \<Rightarrow> string \<Rightarrow> path \<Rightarrow> string list \<Rightarrow> string list \<Rightarrow> unit prog" where
  "stage_package_for_commit h package_name package_dir extra_paths new_source_filenames = (seq (whenM (new_source_filenames \<noteq> []) (update_gitignore package_dir new_source_filenames)) (
    seq (run_git h ([''add'', ''-f'', ''rpms/'' @ package_name] @ extra_paths) ROOT_DIR) (
    whenM (new_source_filenames \<noteq> []) ((seq (run_git h ([''reset'', ''--''] @ map (\<lambda>fn. ''rpms/'' @ package_name @ ''/'' @ fn) new_source_filenames) ROOT_DIR) (
      ret ()))))))"

subsection \<open>Update: the package as it is\<close>

record update_opts =
  o_skip_build_check :: bool
  o_sync :: bool
  o_dry_run :: bool
  o_allow_prerelease :: bool
  o_mark :: bool
  o_ref :: "string option"
  o_branch :: "string option"

record update_ctx = \<comment> \<open>what the phases of one update share\<close>
  upkg :: string
  old_branch :: string
  effective_branch :: string
  branch_changed :: bool
  source_url :: string

definition nonempty :: "string option \<Rightarrow> string option" where
  "nonempty v = (case v of Some s \<Rightarrow> if s = [] then None else Some s | None \<Rightarrow> None)"

definition sha_is :: "dict \<Rightarrow> string \<Rightarrow> bool" where
  "sha_is metadata s \<longleftrightarrow> dget metadata ''sha'' = Some (JStr s)"

definition clone_upstream :: "host \<Rightarrow> update_ctx \<Rightarrow> path \<Rightarrow> unit prog" where
  "clone_upstream h c upstream_dir = (seq (run_git h ([''clone'', ''--quiet'', ''--branch'', effective_branch c] @
      (if branch_changed c then [] else [''--single-branch'']) @ [source_url c, path_str upstream_dir]) ROOT_DIR) (
    ret ()))"

definition clean_metadata :: "dict \<Rightarrow> dict" where
  "clean_metadata m = dpop ''modification_reason'' (dset ''modification_status'' (JStr ''clean'') m)"

definition mark_synced :: "host \<Rightarrow> update_opts \<Rightarrow> update_ctx \<Rightarrow> dict \<Rightarrow> string \<Rightarrow> unit prog" where
  \<comment> \<open>\<open>--mark\<close> on a package that is at upstream: verify it, then record an empty commit\<close>
  "mark_synced h opts c metadata latest_sha = (let p = upkg c in
    bind (with_tmpdir ''mark'' (\<lambda>tmpdir. (let upstream_dir = tmpdir @ [p] in
      seq (clone_upstream h c upstream_dir) (
      bind (is_package_unmodified h p metadata upstream_dir) (\<lambda>ok.
      if \<not> ok then (sys_exit (''ERROR: Cannot mark '' @ p @ '' as synced - package has modifications'')) else
      bind (parse_spec_version h upstream_dir) (\<lambda>vr.
      seq (from_sum (str_item metadata ''version'')) (
      ret vr))))))) (\<lambda>(version, release).
    let metadata = (if branch_changed c then dset ''branch'' (JStr (effective_branch c)) (clean_metadata metadata)
      else clean_metadata metadata) in
    seq (set_imported p metadata) (
    whenM (\<not> o_dry_run opts) ((seq (save_package_metadata p metadata) (
      seq (run_git h [''add'', path_str (metadata_file p)] ROOT_DIR) (
      seq (run_git_commit h [''--allow-empty'', ''-m'', ''Sync '' @ p @ '' to '' @ version @ ''-'' @ release @ '' (mark'' @
        (if branch_changed c then '', '' @ old_branch c @ '' -> '' @ effective_branch c else []) @ '')'' @ [nl, nl] @
        ''Upstream: '' @ latest_sha] ROOT_DIR) (
      ret ()))))))))"

definition latest_upstream_sha :: "host \<Rightarrow> update_opts \<Rightarrow> update_ctx \<Rightarrow> string prog" where
  "latest_upstream_sha h opts c = (case nonempty (o_ref opts) of
     Some r \<Rightarrow> ret r
   | None \<Rightarrow> (bind (run_git h [''ls-remote'', source_url c, effective_branch c] ROOT_DIR) (\<lambda>result.
     if strip (stdout result) = [] then (sys_exit (''ERROR: Unable to query remote for '' @ upkg c)) else
     ret (hd (words (stdout result))))))"

subsection \<open>Update: is the upstream version wanted?\<close>

record candidate =
  cand_sha :: string
  cand_version :: string
  cand_release :: string
  has_autorelease :: bool

definition resolve_candidate :: "host \<Rightarrow> update_opts \<Rightarrow> update_ctx \<Rightarrow> path \<Rightarrow> string \<Rightarrow> candidate option prog" where
  \<comment> \<open>clone, check out, read version and release; \<open>None\<close> for a branch without spec file\<close>
  "resolve_candidate h opts c upstream_dir latest_sha = (seq (clone_upstream h c upstream_dir) (
    seq (whenM (branch_changed c) ((seq (run_git h [''branch'', old_branch c, ''origin/'' @ old_branch c] upstream_dir) (
      ret ())))) (
    bind (case nonempty (o_ref opts) of
       None \<Rightarrow> ret latest_sha
     | Some r \<Rightarrow> (seq (run_git h [''checkout'', ''--quiet'', r] upstream_dir) (
       bind (run_git h [''rev-parse'', ''HEAD''] upstream_dir) (\<lambda>head.
       ret (strip (stdout head)))))) (\<lambda>sha.
    bind (glob upstream_dir ''.spec'') (\<lambda>spec_files.
    if spec_files = [] then (ret None) else
    bind (parse_spec_version h upstream_dir) (\<lambda>(version, spec_release).
    bind (uses_autorelease upstream_dir) (\<lambda>auto.
    bind (if auto then query_autorelease_from_mdapi h (stem (last_component (source_url c)))
        (effective_branch c) spec_release else ret None) (\<lambda>resolved.
    ret (Some \<lparr>cand_sha = sha, cand_version = version,
      cand_release = (case nonempty resolved of Some r \<Rightarrow> r | None \<Rightarrow> spec_release), has_autorelease = auto\<rparr>)))))))))"

definition wants_candidate :: "host \<Rightarrow> ('v::linorder) pylib \<Rightarrow> update_opts \<Rightarrow> update_ctx \<Rightarrow> dict \<Rightarrow> candidate \<Rightarrow> bool prog" where
  \<comment> \<open>the checks that skip an update: downgrade, tracked version, pre-release, missing build\<close>
  "wants_candidate h L opts c metadata cand = (bind (if o_sync opts then ret True
      else is_forward_branch_move (branch_changed c) (old_branch c) (effective_branch c)) (\<lambda>forward.
    bind (if forward then ret False else case parse_version L (cand_version cand) of
        None \<Rightarrow> ret False
      | Some v \<Rightarrow> (bind (from_sum (str_item metadata ''version'')) (\<lambda>current.
        ret (case parse_version L current of Some u \<Rightarrow> v < u | None \<Rightarrow> False)))) (\<lambda>older.
    if older then (ret False) else
    bind (from_sum (opt_str (dget metadata ''track_upstream''))) (\<lambda>tv.
    if \<not> o_sync opts \<and> \<not> branch_changed c \<and> tv \<noteq> None \<and> tv \<noteq> Some ''latest'' \<and>
       \<not> matches_track_version (cand_version cand) (the tv) then (ret False) else
    if \<not> o_sync opts \<and> \<not> o_allow_prerelease opts \<and> \<not> branch_changed c \<and>
       fst (is_prerelease (cand_version cand) (Some (cand_release cand))) then (ret False) else
    bind (get_dist_tag (effective_branch c)) (\<lambda>dist_tag.
    (if \<not> o_skip_build_check opts \<and> \<not> o_sync opts then
       check_koji_build h (stem (last_component (source_url c))) (cand_version cand) (cand_release cand)
         (cand_sha cand) dist_tag
     else ret True))))))"

subsection \<open>Update: applying it\<close>

definition updated_metadata :: "update_opts \<Rightarrow> update_ctx \<Rightarrow> candidate \<Rightarrow> bool \<Rightarrow> dict \<Rightarrow> dict" where
  "updated_metadata opts c cand has_modifications m =
     (let m = dset ''release'' (JStr (cand_release cand)) (dset ''version'' (JStr (cand_version cand))
            (dset ''sha'' (JStr (cand_sha cand)) m));
          m = (if branch_changed c then dset ''branch'' (JStr (effective_branch c)) m else m)
      in if o_sync opts \<or> \<not> has_modifications then clean_metadata m else m)"

definition update_message :: "update_opts \<Rightarrow> update_ctx \<Rightarrow> candidate \<Rightarrow> string \<Rightarrow> string \<Rightarrow> string" where
  "update_message opts c cand old_version old_release =
     (if o_sync opts then ''Sync'' else ''Update'') @ '' '' @ upkg c @ '' from '' @ old_version @ ''-'' @ old_release @
     '' to '' @ cand_version cand @ ''-'' @ cand_release cand @
     (if branch_changed c then '' ('' @ old_branch c @ '' -> '' @ effective_branch c @ '')'' else []) @ [nl, nl] @
     ''Upstream: '' @ cand_sha cand"

definition conflict_message :: "string option \<Rightarrow> string \<Rightarrow> string" where
  \<comment> \<open>a gorget failure leaves no conflict markers, so the message says it\<close>
  "conflict_message gorget_failure_reason commit_msg = (case gorget_failure_reason of
     Some reason \<Rightarrow> ''NEEDS MANUAL GORGET RUN: '' @ commit_msg @ [nl, nl] @ reason
   | None \<Rightarrow> commit_msg)"

definition take_upstream :: "host \<Rightarrow> update_opts \<Rightarrow> update_ctx \<Rightarrow> dict \<Rightarrow> candidate \<Rightarrow> path \<Rightarrow> (bool \<times> bool) prog" where
  \<comment> \<open>merge into or replace the package directory: local modifications, conflicts\<close>
  "take_upstream h opts c metadata cand upstream_dir = (let package_dir = ROOT_DIR @ [''rpms'', upkg c] in
    bind (is_package_unmodified h (upkg c) metadata upstream_dir) (\<lambda>unmodified.
    bind (if \<not> o_sync opts \<and> status_is metadata ''modified'' \<and> \<not> unmodified
      then merge_local_modifications h package_dir metadata upstream_dir (cand_sha cand)
      else (seq (rmtree package_dir) (
        seq (rmtree (upstream_dir @ [''.git''])) (
        seq (copytree upstream_dir package_dir) (
        ret False))))) (\<lambda>has_conflicts.
    seq (whenM (has_autorelease cand) (replace_autorelease_in_spec package_dir (cand_release cand) False)) (
    ret (\<not> unmodified, has_conflicts)))))"

definition finish_update ::
  "host \<Rightarrow> update_opts \<Rightarrow> update_ctx \<Rightarrow> candidate \<Rightarrow> string \<Rightarrow> string \<Rightarrow> bool \<Rightarrow> string option \<Rightarrow> string list \<Rightarrow> dict \<Rightarrow> unit prog" where
  \<comment> \<open>commit, or save the state for \<open>--continue\<close> and exit with status 2\<close>
  "finish_update h opts c cand old_version old_release has_conflicts gorget_failure_reason new_source_filenames new_meta = (let p = upkg c in
    let commit_msg = update_message opts c cand old_version old_release in
    if o_dry_run opts then (ret ()) else
    if has_conflicts then ((seq (write_node UPDATE_STATE_FILE (JsonN (JObj [(''package'', JStr p),
        (''commit_msg'', JStr (conflict_message gorget_failure_reason commit_msg)),
        (''metadata'', JObj new_meta), (''old_version'', JStr old_version)]))) (
      raise (SysExit 2 [])))) else
    seq (save_package_metadata p new_meta) (
    bind (load_source_pipeline p) (\<lambda>pipeline_file.
    seq (stage_package_for_commit h p (ROOT_DIR @ [''rpms'', p])
      ([''metadata/'' @ p @ ''.json''] @ (case pipeline_file of Some f \<Rightarrow> [path_str f] | None \<Rightarrow> []))
      new_source_filenames) (
    seq (run_git_commit h [''-m'', commit_msg] ROOT_DIR) (
    ret ())))))"

definition apply_update :: "host \<Rightarrow> 'v pylib \<Rightarrow> update_opts \<Rightarrow> update_ctx \<Rightarrow> dict \<Rightarrow> candidate \<Rightarrow> path \<Rightarrow> unit prog" where
  "apply_update h L opts c metadata cand upstream_dir = (let p = upkg c in
    bind (take_upstream h opts c metadata cand upstream_dir) (\<lambda>(has_modifications, merge_conflicts).
    bind (from_sum (str_item metadata ''version'')) (\<lambda>old_version.
    bind (from_sum (str_get metadata ''release'' ''(none)'')) (\<lambda>old_release.
    bind (if \<not> merge_conflicts \<and> \<not> o_dry_run opts
      then run_gorget_for_updated_package h L p (ROOT_DIR @ [''rpms'', p]) old_version (cand_version cand) metadata
      else ret (None, [])) (\<lambda>(gorget_failure_reason, new_source_filenames).
    let gorget_failure_reason = nonempty gorget_failure_reason in
    let has_conflicts = (merge_conflicts \<or> gorget_failure_reason \<noteq> None) in
    let new_meta = updated_metadata opts c cand has_modifications metadata in
    seq (set_imported p new_meta) (
    finish_update h opts c cand old_version old_release has_conflicts gorget_failure_reason
      new_source_filenames new_meta))))))"

definition update_changed :: "host \<Rightarrow> ('v::linorder) pylib \<Rightarrow> update_opts \<Rightarrow> update_ctx \<Rightarrow> dict \<Rightarrow> string \<Rightarrow> unit prog" where
  \<comment> \<open>there is an update available: clone, decide, apply\<close>
  "update_changed h L opts c metadata latest_sha = with_tmpdir ''update'' (\<lambda>tmpdir. (let upstream_dir = tmpdir @ [upkg c] in
    bind (resolve_candidate h opts c upstream_dir latest_sha) (\<lambda>cand.
    (case cand of
        None \<Rightarrow> ret ()
      | Some k \<Rightarrow> (bind (wants_candidate h L opts c metadata k) (\<lambda>wanted.
        (if wanted then apply_update h L opts c metadata k upstream_dir else ret ())))))))"

definition update :: "host \<Rightarrow> ('v::linorder) pylib \<Rightarrow> update_opts \<Rightarrow> string \<Rightarrow> unit prog" where
  "update h L opts package_name = (bind (require_imported package_name) (\<lambda>metadata.
    bind (exists (ROOT_DIR @ [''rpms'', package_name])) (\<lambda>b.
    seq (assertM b ''package_dir.exists()'') (
    if status_is metadata ''independent'' then (sys_exit (''ERROR: Cannot update independent package '' @ package_name)) else
    if \<not> (has_key metadata ''source'' \<and> has_key metadata ''branch'' \<and> has_key metadata ''sha'') then (ret ()) else
    bind (from_sum (str_item metadata ''branch'')) (\<lambda>old.
    bind (from_sum (str_item metadata ''source'')) (\<lambda>source.
    let changed = (nonempty (o_branch opts) \<noteq> None \<and> nonempty (o_branch opts) \<noteq> Some old) in
    let effective = (if changed then the (o_branch opts) else old) in
    seq (whenM changed ((seq (get_dist_tag effective) (
      ret ())))) (
    let c = \<lparr>upkg = package_name, old_branch = old, effective_branch = effective, branch_changed = changed,
      source_url = source\<rparr> in
    bind (latest_upstream_sha h opts c) (\<lambda>latest_sha.
    (if sha_is metadata latest_sha \<and> \<not> changed then
       (if o_sync opts \<and> \<not> o_mark opts then
          sys_exit (''ERROR: Package '' @ package_name @ '' is already at upstream '' @ take 8 latest_sha)
        else if \<not> o_mark opts then ret ()
        else mark_synced h opts c metadata latest_sha)
     else update_changed h L opts c metadata latest_sha)))))))))"

subsection \<open>Continuing after a conflict\<close>

definition has_conflict_marker :: "node \<Rightarrow> bool" where
  \<comment> \<open>text with an unresolved conflict; a file that is no UTF-8 text is skipped, and text with
     conflict markers is no JSON document\<close>
  "has_conflict_marker n = (case n of FileN s \<Rightarrow> contains s ''<<<<<<<'' | _ \<Rightarrow> False)"

definition conflicted_files :: "fs \<Rightarrow> path \<Rightarrow> path list" where
  "conflicted_files f package_dir = map fst (filter (\<lambda>(q, _). under package_dir q \<and> q \<noteq> package_dir \<and>
     (case map_of f q of Some n \<Rightarrow> has_conflict_marker n | None \<Rightarrow> False)) f)"

definition continue_update :: "host \<Rightarrow> 'v pylib \<Rightarrow> bool \<Rightarrow> unit prog" where
  "continue_update h L dry_run = (bind (exists UPDATE_STATE_FILE) (\<lambda>b.
    if \<not> b then (sys_exit ''ERROR: No update in progress. Nothing to continue.'') else
    bind (json_load UPDATE_STATE_FILE) (\<lambda>j.
    bind (from_sum (as_dict j)) (\<lambda>state.
    bind (from_sum (str_item state ''package'')) (\<lambda>p.
    bind (from_sum (str_item state ''commit_msg'')) (\<lambda>commit_msg.
    let package_dir = RPMS_DIR @ [p] in
    bind (exists package_dir) (\<lambda>b.
    if \<not> b then ((seq (unlink UPDATE_STATE_FILE) (
      sys_exit (''ERROR: Package directory rpms/'' @ p @ ''/ not found'')))) else
    bind (gets (\<lambda>w. conflicted_files (files w) package_dir)) (\<lambda>conflicted.
    if conflicted \<noteq> [] then (sys_exit (''ERROR: Unresolved conflicts in '' @ path_str (hd conflicted)
      @ [nl] @ ''       Resolve all conflicts, then run: ./ci/dist_git.py update --continue'')) else
    bind (if \<not> dry_run \<and> has_key state ''metadata'' \<and> has_key state ''old_version'' then (bind (from_sum (as_dict (the (dget state ''metadata'')))) (\<lambda>metadata.
      bind (from_sum (str_item state ''old_version'')) (\<lambda>old_version.
      bind (from_sum (str_item metadata ''version'')) (\<lambda>new_version.
      run_gorget_for_updated_package h L p package_dir old_version new_version metadata))))
       else ret (None, [])) (\<lambda>(gorget_failure_reason, new_source_filenames).
    (case nonempty gorget_failure_reason of
       Some reason \<Rightarrow> sys_exit (''ERROR: '' @ reason @ [nl] @ ''       State preserved -- fix the issue above, then re-run: ./ci/dist_git.py update --continue'')
     | None \<Rightarrow> whenM (\<not> dry_run) ((seq (case dget state ''metadata'' of
            Some v \<Rightarrow> (bind (from_sum (as_dict v)) (\<lambda>metadata.
              save_package_metadata p metadata))
          | None \<Rightarrow> ret ()) (
       bind (load_source_pipeline p) (\<lambda>pipeline_file.
       seq (stage_package_for_commit h p package_dir
           ([''metadata/'' @ p @ ''.json''] @ (case pipeline_file of Some f \<Rightarrow> [path_str f] | None \<Rightarrow> []))
           new_source_filenames) (
       seq (run_git_commit h [''-m'', commit_msg] ROOT_DIR) (
       unlink UPDATE_STATE_FILE))))))))))))))))"

subsection \<open>Runs without a commit\<close>

definition is_commit :: "event \<Rightarrow> bool" where
  \<comment> \<open>a commit to the repository itself, not to a scratch clone\<close>
  "is_commit ev \<longleftrightarrow> (\<exists>args. ev = Proc (''git'' # ''commit'' # args) ROOT_DIR)"

abbreviation "no_commit ev \<equiv> \<not> is_commit ev"

lemma commit_simps [simp]:
  "is_commit (Proc (a # argv) cwd) \<longleftrightarrow> a = ''git'' \<and> argv \<noteq> [] \<and> hd argv = ''commit'' \<and> cwd = []"
  "\<not> is_commit (ProcEnv env argv cwd)" "\<not> is_commit (Sleep n)" "\<not> is_commit (Rpc m a)" "\<not> is_commit (Http m u k)"
  by (auto simp: is_commit_def ROOT_DIR_def neq_Nil_conv)

lemma errors_in:
  assumes "proc_errors X"
  shows "X (FileNotFoundError m)" "X (OSError m)" "X UnicodeDecodeError" "X JSONDecodeError" "X (RuntimeError m)"
    "X (TypeError m)" "X (KeyError m)" "X (ValueError m)" "X (AssertionError m)" "X (SysExit 1 m)"
    "X (CalledProcessError c m)" "X TimeoutExpired" "X (HTTPError c m)" "X (URLError m)" "X SocketTimeout"
    "X (HTTPException m)"
  using assms by (auto simp: proc_errors_def file_errors_def)

lemma field_errors:
  "str_item d k = Inl e \<Longrightarrow> proc_errors X \<Longrightarrow> X e" "str_get d k x = Inl e \<Longrightarrow> proc_errors X \<Longrightarrow> X e"
  "opt_str v = Inl e \<Longrightarrow> proc_errors X \<Longrightarrow> X e" "or_empty v = Inl e \<Longrightarrow> proc_errors X \<Longrightarrow> X e"
  "dist_tag_of rel b = Inl e \<Longrightarrow> proc_errors X \<Longrightarrow> X e" "build_matches bd c = Inl e \<Longrightarrow> proc_errors X \<Longrightarrow> X e"
  "bucket_of v p = Inl e \<Longrightarrow> proc_errors X \<Longrightarrow> X e" "clone_env env r = Inl e \<Longrightarrow> proc_errors X \<Longrightarrow> X e"
  "fetch_steps j = Inl e \<Longrightarrow> proc_errors X \<Longrightarrow> X e" "fixed_pipeline_git_refs j = Inl e \<Longrightarrow> proc_errors X \<Longrightarrow> X e"
  by (auto simp: str_item_def str_get_def opt_str_def or_empty_def dist_tag_of_def build_matches_def bucket_of_def
      clone_env_def fetch_steps_def fixed_pipeline_git_refs_def Let_def errors_in as_errors
      split: option.splits json.splits if_splits sum.splits prod.splits)
    (auto simp: errors_in as_errors map_sum_def split: sum.splits)

lemmas error_rules = field_errors as_errors item_errors

lemma quiet_specs [run_rules]:
  assumes "proc_errors X"
  shows "runs_in no_commit X (uses_autorelease d)" "runs_in no_commit X (replace_autorelease_in_spec d r b)"
    "runs_in no_commit X (parse_spec_version h d)" "runs_in no_commit X (normalize_release_in_specs d)"
    "runs_in no_commit X (get_dist_tag b')" "runs_in no_commit X (is_forward_branch_move c o' n)"
    "runs_in no_commit X (require_imported p)" "runs_in no_commit X (set_imported p m)"
    "runs_in no_commit X (save_package_metadata p m)" "runs_in no_commit X (load_source_pipeline p)"
    "runs_in no_commit X (get_package_metadata p)" "runs_in no_commit X (clear_checkout d)"
    "runs_in no_commit X (update_gitignore d ns)" "runs_in no_commit X (parse_sources_file q)"
    "runs_in no_commit X (remove_stale d ns)" "runs_in no_commit X (write_sources_file q es)"
  using assms
  by (auto simp: uses_autorelease_def replace_autorelease_in_spec_def parse_spec_version_def
      normalize_release_in_specs_def get_dist_tag_def is_forward_branch_move_def require_imported_def
      set_imported_def save_package_metadata_def load_source_pipeline_def get_package_metadata_def clear_checkout_def
      update_gitignore_def parse_sources_file_def remove_stale_def write_sources_file_def Let_def errors_in
      intro!: run_rules dest: error_rules)

lemma quiet_koji [run_rules]: "proc_errors X \<Longrightarrow> runs_in no_commit X (check_koji_build h n v r c t)"
proof -
  assume X: "proc_errors X"
  have "runs_in no_commit X (first_build h n v r ts)" for ts
    by (induction ts) (use X in \<open>auto intro!: run_rules\<close>)
  with X show ?thesis
    by (auto simp: check_koji_build_def intro!: run_rules dest: error_rules)
qed

lemma quiet_unmodified [run_rules]: "proc_errors X \<Longrightarrow> runs_in no_commit X (is_package_unmodified h p m d)"
  by (auto simp: is_package_unmodified_def Let_def intro!: run_rules dest: error_rules)

definition yaml_errors :: "'v pylib \<Rightarrow> (exn \<Rightarrow> bool) \<Rightarrow> bool" where
  "yaml_errors L X \<longleftrightarrow> (\<forall>t e. yaml_load L t = Inl e \<longrightarrow> X e)"

lemma quiet_upload [run_rules]:
  "proc_errors X \<Longrightarrow> yaml_errors L X \<Longrightarrow> runs_in no_commit X (upload_to_lookaside h L f p ht)"
  by (auto simp: upload_to_lookaside_def get_package_lookaside_bucket_def package_override_def upload_argv_def
      UPLOAD_SCRIPT_def path_str_def ROOT_DIR_def errors_in yaml_errors_def intro!: run_rules dest: error_rules)

lemma quiet_gorget [run_rules]:
  "proc_errors X \<Longrightarrow> yaml_errors L X \<Longrightarrow> runs_in no_commit X (run_gorget_pipeline h L p ov nv f)"
  by (auto simp: run_gorget_pipeline_def run_gorget_def take_artifact_def Let_def errors_in
      intro!: run_rules) (erule error_rules; assumption)+

lemma quiet_refresh [run_rules]:
  "proc_errors X \<Longrightarrow> yaml_errors L X \<Longrightarrow> runs_in no_commit X (run_gorget_for_updated_package h L p d ov nv m)"
  by (auto simp: run_gorget_for_updated_package_def fixed_ref_pipeline_drift_def refresh_fixed_ref_pin_def
      commit_date_of_def gorget_after_refresh_def try_gorget_def unlink_missing_ok_def Let_def errors_in yaml_errors_def
      intro!: run_rules) (erule error_rules; assumption)+

lemma quiet_merge [run_rules]:
  "proc_errors X \<Longrightarrow> d \<noteq> [] \<Longrightarrow> runs_in no_commit X (merge_local_modifications h pd m d sha)"
  by (auto simp: merge_local_modifications_def commit_local_def rebase_local_def Let_def errors_in
      intro!: run_rules dest: error_rules)

lemma quiet_candidate [run_rules]:
  "proc_errors X \<Longrightarrow> runs_in no_commit X (resolve_candidate h opts c d sha)"
  "proc_errors X \<Longrightarrow> runs_in no_commit X (wants_candidate h L opts c m k)"
  "proc_errors X \<Longrightarrow> runs_in no_commit X (latest_upstream_sha h opts c)"
  by (auto simp: resolve_candidate_def clone_upstream_def wants_candidate_def latest_upstream_sha_def Let_def errors_in
      intro!: run_rules dest: error_rules)

lemma quiet_take [run_rules]:
  "proc_errors X \<Longrightarrow> d \<noteq> [] \<Longrightarrow> runs_in no_commit X (take_upstream h opts c m k d)"
  by (auto simp: take_upstream_def Let_def intro!: run_rules)

lemma quiet_apply:
  assumes "proc_errors X" "yaml_errors L X" "d \<noteq> []" "o_dry_run opts"
  shows "runs_in no_commit X (apply_update h L opts c m k d)"
  using assms
  by (auto simp: apply_update_def finish_update_def Let_def intro!: run_rules dest: error_rules)

lemma quiet_mark:
  assumes "proc_errors X" "o_dry_run opts"
  shows "runs_in no_commit X (mark_synced h opts c m sha)"
  using assms
  by (auto simp: mark_synced_def clone_upstream_def Let_def errors_in intro!: run_rules dest: error_rules)

definition any_error :: "exn \<Rightarrow> bool" where "any_error e = True"

lemma any_errors [simp]: "proc_errors any_error" "yaml_errors L any_error" "file_errors any_error" "any_error e"
  by (auto simp: proc_errors_def file_errors_def yaml_errors_def any_error_def)

lemma update_dry_quiet:
  assumes "o_dry_run opts"
  shows "runs_in no_commit any_error (update h L opts p)"
  using assms
  by (auto simp: update_def update_changed_def Let_def intro!: run_rules quiet_apply quiet_mark)

lemma update_dry_run_commits_nothing:
  assumes "o_dry_run opts" "update h L opts p w = (r, w')"
  shows "\<exists>es. trace w' = trace w @ es \<and> (\<forall>e \<in> set es. \<not> is_commit e)"
  using runs_inD[OF update_dry_quiet[OF assms(1)] assms(2)] by blast

definition broken_gorget :: host where
  \<comment> \<open>a host with a new upstream commit of version 2 and a gorget that fails\<close>
  "broken_gorget t ev f = (case ev of
     ProcEnv env argv cwd \<Rightarrow> (Exit 1 [] ''boom'', f)
   | Proc (x # y # args) cwd \<Rightarrow>
       (if y = ''ls-remote'' then (Exit 0 ''b2 refs/heads/f42'' [], f)
        else if y = ''clone'' then (Exit 0 [] [], f @ [([''<tmp>'', ''update'', ''a'', ''.git''], DirN),
          ([''<tmp>'', ''update'', ''a'', ''a.spec''], FileN []), ([''<tmp>'', ''unmodified'', ''a'', ''.git''], DirN)])
        else if x = ''rpmspec'' then (Exit 0 (''2'' @ [nl] @ ''1'') [], f)
        else (Exit 0 [] [], f))
   | _ \<Rightarrow> (NoProgram, f))"

definition one_package :: world where
  \<comment> \<open>a checkout with one package that has a source pipeline\<close>
  "one_package = blank\<lparr>
     files := [([''rpms'', ''a''], DirN), ([''metadata''], DirN), ([''metadata'', ''a.source-pipeline.yaml''], FileN [])],
     imported := [(''a'', [(''source'', JStr ''https://x/a.git''), (''branch'', JStr ''f42''), (''sha'', JStr ''b1''),
       (''version'', JStr ''1'')])],
     releases := [(''fedora'', [(''f42'', ''f42'')])]\<rparr>"

definition sync_opts :: "bool \<Rightarrow> update_opts" where
  "sync_opts dry = \<lparr>o_skip_build_check = False, o_sync = True, o_dry_run = dry, o_allow_prerelease = False,
     o_mark = False, o_ref = None, o_branch = None\<rparr>"

subsection \<open>Conflicts end with status 2, a state file and no commit\<close>

definition not2 :: "exn \<Rightarrow> bool" where
  "not2 e \<longleftrightarrow> (\<forall>m. e \<noteq> SysExit 2 m)"

lemma not2_errors [simp]: "proc_errors not2" "file_errors not2"
  by (auto simp: proc_errors_def file_errors_def not2_def)

lemmas not2_rules = error_rules[where X = not2, OF _ not2_errors(1)]

definition ends2 :: "(world \<Rightarrow> bool) \<Rightarrow> 'a prog \<Rightarrow> bool" where
  \<comment> \<open>a run that exits with status 2 has not committed and leaves a world in \<open>Q\<close>\<close>
  "ends2 Q m \<longleftrightarrow> (\<forall>w e w'. m w = (Inl (SysExit 2 e), w') \<longrightarrow>
     (\<exists>es. trace w' = trace w @ es \<and> (\<forall>e \<in> set es. \<not> is_commit e)) \<and> Q w')"

lemma run_weaken: "runs_in S X m \<Longrightarrow> runs_in (\<lambda>_. True) X m"
  unfolding runs_in_def by metis

lemma ends2_never: "runs_in S not2 m \<Longrightarrow> ends2 Q m"
  unfolding ends2_def by (auto dest!: runs_inD simp: not2_def)

lemma ends2_bind:
  assumes "runs_in no_commit not2 m" "\<And>x. ends2 Q (k x)"
  shows "ends2 Q (bind m k)"
  unfolding ends2_def
proof (intro allI impI)
  fix w e w' assume run: "bind m k w = (Inl (SysExit 2 e), w')"
  obtain r w1 where m: "m w = (r, w1)" by fastforce
  from runs_inD[OF assms(1) m] obtain es where es: "trace w1 = trace w @ es" "\<forall>e \<in> set es. \<not> is_commit e"
    "case r of Inl x \<Rightarrow> not2 x | Inr _ \<Rightarrow> True" by blast
  from run m es(3) obtain x where "r = Inr x" "k x w1 = (Inl (SysExit 2 e), w')"
    by (auto simp: bind_run not2_def split: sum.splits)
  with assms(2)[of x] obtain fs where "trace w' = trace w1 @ fs" "\<forall>e \<in> set fs. \<not> is_commit e" "Q w'"
    unfolding ends2_def by blast
  with es show "(\<exists>es. trace w' = trace w @ es \<and> (\<forall>e \<in> set es. \<not> is_commit e)) \<and> Q w'"
    by (intro conjI exI[of _ "es @ fs"]) auto
qed

lemma ends2_seq: "runs_in no_commit not2 m \<Longrightarrow> ends2 Q k \<Longrightarrow> ends2 Q (seq m k)"
  unfolding seq_def by (rule ends2_bind)

lemma ends2_tmpdir:
  assumes "\<And>w. Q w \<Longrightarrow> Q (snd (rmtree [''<tmp>'', n] w))" "ends2 Q (body [''<tmp>'', n])"
  shows "ends2 Q (with_tmpdir n body)"
  unfolding ends2_def
proof (intro allI impI)
  fix w e w' assume run: "with_tmpdir n body w = (Inl (SysExit 2 e), w')"
  let ?w0 = "w\<lparr>files := fs_write [''<tmp>'', n] DirN (files w)\<rparr>"
  from run obtain w1 where "body [''<tmp>'', n] ?w0 = (Inl (SysExit 2 e), w1)" "w' = snd (rmtree [''<tmp>'', n] w1)"
    by (auto simp: with_tmpdir_run split: prod.splits)
  with assms show "(\<exists>es. trace w' = trace w @ es \<and> (\<forall>e \<in> set es. \<not> is_commit e)) \<and> Q w'"
    unfolding ends2_def by (fastforce simp: rmtree_trace)
qed

definition state_saved :: "string \<Rightarrow> world \<Rightarrow> bool" where
  \<comment> \<open>the state file that \<open>update --continue\<close> needs for this package\<close>
  "state_saved p w \<longleftrightarrow> (\<exists>state msg md ov. map_of (files w) UPDATE_STATE_FILE = Some (JsonN (JObj state)) \<and>
     dget state ''package'' = Some (JStr p) \<and> dget state ''commit_msg'' = Some (JStr msg) \<and>
     dget state ''metadata'' = Some (JObj md) \<and> dget state ''old_version'' = Some (JStr ov))"

lemma state_saved_rmtree: "state_saved p w \<Longrightarrow> state_saved p (snd (rmtree [''<tmp>'', n] w))"
  by (auto simp: state_saved_def rmtree_def under_def UPDATE_STATE_FILE_def ROOT_DIR_def)

lemma ends2_finish: "ends2 (state_saved (upkg c)) (finish_update h opts c k ov orl conf reason names md)"
proof (cases "conf \<and> \<not> o_dry_run opts")
  case True
  then show ?thesis
    by (auto simp: ends2_def finish_update_def Let_def seq_run fs_write_run raise_run state_saved_def)
next
  case False
  have "runs_in (\<lambda>_. True) not2 (save_package_metadata p m)" "runs_in (\<lambda>_. True) not2 (load_source_pipeline p)"
    "runs_in (\<lambda>_. True) not2 (update_gitignore d ns)" for p m d ns
    by (rule run_weaken, rule quiet_specs, simp)+
  then have "runs_in (\<lambda>_. True) not2 (finish_update h opts c k ov orl conf reason names md)"
    using False by (auto simp: finish_update_def stage_package_for_commit_def run_git_commit_def Let_def intro!: run_rules)
  then show ?thesis by (rule ends2_never)
qed

lemma ends2_apply:
  assumes "yaml_errors L not2" "d \<noteq> []"
  shows "ends2 (state_saved (upkg c)) (apply_update h L opts c m k d)"
  unfolding apply_update_def Let_def
  by (intro ends2_bind ends2_seq run_rules ends2_finish)
    (use assms in \<open>auto split: prod.splits intro!: ends2_bind ends2_seq run_rules ends2_finish dest: not2_rules\<close>)

lemma ends2_update:
  assumes "yaml_errors L not2"
  shows "ends2 (state_saved p) (update h L opts p)"
proof -
  have mark: "runs_in (\<lambda>_. True) not2 (mark_synced h opts c m sha)" for c m sha
    by (auto simp: mark_synced_def clone_upstream_def run_git_commit_def Let_def
        intro!: run_rules run_weaken[OF quiet_unmodified] run_weaken[OF quiet_specs(3)]
          run_weaken[OF quiet_specs(8)] run_weaken[OF quiet_specs(9)] simp: errors_in dest: not2_rules)
  have body: "ends2 (state_saved (upkg c)) (update_changed h L opts c m sha)" for c m sha
    unfolding update_changed_def Let_def
    by (intro ends2_tmpdir state_saved_rmtree)
      (auto intro!: ends2_bind run_rules ends2_apply[OF assms, of "[''<tmp>'', ''update'', upkg c]"] ends2_never[OF run_ret]
        split: option.splits)
  have body': "upkg c = p \<Longrightarrow> ends2 (state_saved p) (update_changed h L opts c m sha)" for c m sha
    using body by blast
  show ?thesis
    unfolding update_def Let_def
    by (intro ends2_bind ends2_seq run_rules)
      (auto intro!: ends2_bind ends2_seq run_rules body' ends2_never[OF mark] ends2_never[OF run_ret]
        ends2_never[OF run_sys_exit] simp: errors_in dest: not2_rules)
qed

text \<open>C1: an update that ends with status 2 (a merge conflict, or a gorget run that needs a human) has
  committed nothing to the repository and left the state file that \<open>update --continue\<close> reads. The
  hypothesis says that the YAML library reports bad documents by its own exceptions.\<close>

theorem update_conflict_not_committed:
  assumes "yaml_errors L not2" "update h L opts p w = (Inl (SysExit 2 m), w')"
  shows "(\<exists>es. trace w' = trace w @ es \<and> (\<forall>e \<in> set es. \<not> is_commit e)) \<and> state_saved p w'"
  using ends2_update[OF assms(1)] assms(2) unfolding ends2_def by blast

theorem update_conflict_not_committed_witness:
  "fst (update broken_gorget (yaml_of (JObj [])) (sync_opts False) ''a'' one_package) = Inl (SysExit 2 []) \<and>
   state_saved ''a'' (snd (update broken_gorget (yaml_of (JObj [])) (sync_opts False) ''a'' one_package))"
proof -
  let ?r = "update broken_gorget (yaml_of (JObj [])) (sync_opts False) ''a'' one_package"
  have "fst ?r = Inl (SysExit 2 [])" by code_simp
  moreover have "yaml_errors (yaml_of (JObj [])) not2" by (simp add: yaml_errors_def yaml_of_def)
  ultimately show ?thesis
    using update_conflict_not_committed[of "yaml_of (JObj [])" broken_gorget "sync_opts False" "''a''" one_package "[]" "snd ?r"]
    by (metis prod.collapse)
qed

subsection \<open>Continuing\<close>

text \<open>\<open>update --continue\<close> refuses while any file of the package still holds a conflict marker: it
  exits with status 1 and changes nothing, so the saved state and the files stay for the next try.\<close>

lemma continue_refuses_conflicts:
  assumes "map_of (files w) UPDATE_STATE_FILE = Some (JsonN (JObj state))"
    and "dget state ''package'' = Some (JStr p)" "dget state ''commit_msg'' = Some (JStr msg)"
    and "fs_exists (files w) (RPMS_DIR @ [p])"
    and "under (RPMS_DIR @ [p]) q" "q \<noteq> RPMS_DIR @ [p]" "map_of (files w) q = Some (FileN t)" "contains t ''<<<<<<<''"
  shows "\<exists>m. continue_update h L dry w = (Inl (SysExit 1 m), w)"
proof -
  have "(q, FileN t) \<in> set (files w)" using assms(7) by (rule map_of_SomeD)
  then have "q \<in> set (conflicted_files (files w) (RPMS_DIR @ [p]))"
    using assms(5-8) by (force simp: conflicted_files_def has_conflict_marker_def)
  then have "conflicted_files (files w) (RPMS_DIR @ [p]) \<noteq> []" by auto
  moreover obtain n where "map_of (files w) (RPMS_DIR @ [p]) = Some n" using assms(4) by (auto simp: fs_exists_def)
  ultimately show ?thesis
    using assms(1-3) by (simp add: continue_update_def Let_def prog_simps exists_def fs_exists_def json_load_def
        as_dict_def str_item_def as_str_def from_sum_def sys_exit_def)
qed

subsection \<open>Missing credentials\<close>

text \<open>for a package whose upstream is private, a gorget run without the token is not reported as
  a reason for manual resolution: the \<open>ValueError\<close> of the credential set-up passes through the
  handler, before gorget was started.\<close>

lemma missing_token_escapes:
  assumes "map_of (files w) (METADATA_DIR @ [p @ ''.json'']) = Some (JsonN (JObj md))"
    and "dget md ''upstream_repo'' = Some (JStr repo)" "match_private_repo_prefix repo = Some (prefix, token_env)"
    and "dget (environ w) token_env = None" "map_of (files w) (METADATA_DIR @ [''gpg-keys'']) = Some DirN"
  shows "\<exists>m. fst (try_gorget h L p ov nv f what w) = Inl (ValueError m) \<and>
    trace (snd (try_gorget h L p ov nv f what w)) = trace w"
proof -
  have ne: "repo \<noteq> []" using assms(3)
    by (auto simp: match_private_repo_prefix_def GITLAB_TOKEN_ENV_BY_REPO_PREFIX_def startswith_def)
  have cl: "\<exists>m. clone_env (environ w) (Some repo) = Inl (ValueError m)"
    using assms(3,4) ne by (simp add: clone_env_def)
  then obtain m where m: "clone_env (environ w) (Some repo) = Inl (ValueError m)" by blast
  let ?w = "w\<lparr>files := fs_write [''<tmp>'', ''gorget-'' @ p] DirN (files w)\<rparr>"
  have md: "md \<noteq> []" using assms(2) by auto
  have nt: "METADATA_DIR @ [p @ ''.json''] \<noteq> [''<tmp>'', ''gorget-'' @ p]" by (simp add: METADATA_DIR_def ROOT_DIR_def)
  have "run_gorget h L p ov nv f [''<tmp>'', ''gorget-'' @ p] ?w = (Inl (ValueError m), ?w)"
    using assms m md ne nt by (simp add: run_gorget_def prog_simps get_package_metadata_def Let_def exists_def
        fs_exists_def json_load_def or_empty_def as_dict_def from_sum_def opt_str_def as_str_def)
  then show ?thesis
    using assms(5) by (simp add: try_gorget_def catch_run bind_run run_gorget_pipeline_def Let_def seq_run mkdir_def
        with_tmpdir_run is_gorget_failure_def is_OSError_def)
qed

subsection \<open>What an update may install\<close>

text \<open>C16: an ordinary update (no sync, no branch change, no override) only goes ahead with a version that
  is not older than the current one, matches the tracked prefix, is no pre-release, and of which Koji has a
  complete build of that name, version and release under the dist tag of the branch or one of its fall-backs, made from exactly the commit
  to be imported.\<close>

theorem wanted_candidates:
  assumes "wants_candidate h L opts c m k w = (Inr True, w')"
    and "\<not> o_sync opts" "\<not> branch_changed c" "\<not> o_allow_prerelease opts" "\<not> o_skip_build_check opts"
  shows "(\<forall>v u cur. parse_version L (cand_version k) = Some v \<and> dget m ''version'' = Some (JStr cur) \<and>
        parse_version L cur = Some u \<longrightarrow> u \<le> v) \<and>
    (\<forall>t. dget m ''track_upstream'' = Some (JStr t) \<and> t \<noteq> [] \<and> t \<noteq> ''latest'' \<longrightarrow> matches_track_version (cand_version k) t) \<and>
    \<not> fst (is_prerelease (cand_version k) (Some (cand_release k))) \<and>
    (\<exists>tag. dist_tag_of (releases w) (effective_branch c) = Inr tag \<and>
       admissible_build h (releases w) (nvr_of (stem (last_component (source_url c))) (cand_version k) (cand_release k)) tag (cand_sha k))"
proof -
  let ?n = "stem (last_component (source_url c))"
  have decided: "w2 = w1" if "(case x of None \<Rightarrow> ret False | Some v \<Rightarrow> bind (from_sum s) (\<lambda>current. ret (q v current))) w1 = (Inr y, w2)"
    for x :: "'v option" and s :: "exn + string" and q y w1 w2
    using that by (auto simp: prog_inr split: option.splits)
  from assms obtain older w1 tag tv where
      old: "(case parse_version L (cand_version k) of None \<Rightarrow> ret False
       | Some v \<Rightarrow> bind (from_sum (str_item m ''version'')) (\<lambda>current.
           ret (case parse_version L current of Some u \<Rightarrow> v < u | None \<Rightarrow> False))) w = (Inr older, w1)" "\<not> older"
    and tv: "opt_str (dget m ''track_upstream'') = Inr tv"
      "tv \<noteq> None \<longrightarrow> tv \<noteq> Some ''latest'' \<longrightarrow> matches_track_version (cand_version k) (the tv)"
    and pre: "\<not> fst (is_prerelease (cand_version k) (Some (cand_release k)))"
    and tag: "dist_tag_of (releases w1) (effective_branch c) = Inr tag"
    and koji: "check_koji_build h ?n (cand_version k) (cand_release k) (cand_sha k) tag w1 = (Inr True, w')"
    by (auto simp: wants_candidate_def is_forward_branch_move_def get_dist_tag_def prog_inr split: if_splits)
  have w1: "w1 = w" using decided[OF old(1)] .
  have "u \<le> v" if "parse_version L (cand_version k) = Some v" "dget m ''version'' = Some (JStr cur)"
    "parse_version L cur = Some u" for v u cur
    using old that by (auto simp: prog_inr str_item_def as_str_def)
  moreover have "matches_track_version (cand_version k) t"
    if "dget m ''track_upstream'' = Some (JStr t)" "t \<noteq> []" "t \<noteq> ''latest''" for t
    using tv that by (auto simp: opt_str_def as_str_def)
  moreover have "admissible_build h (releases w) (nvr_of ?n (cand_version k) (cand_release k)) tag (cand_sha k)"
    using koji_accepts[of h ?n "cand_version k" "cand_release k" "cand_sha k" tag w] koji unfolding w1 by simp
  ultimately show ?thesis using pre tag unfolding w1 by blast
qed

definition plain_ctx :: update_ctx where
  "plain_ctx = \<lparr>upkg = ''a'', old_branch = ''f42'', effective_branch = ''f42'', branch_changed = False,
     source_url = ''https://x/a.git''\<rparr>"

definition plain_candidate :: candidate where
  "plain_candidate = \<lparr>cand_sha = ''abc'', cand_version = ''2'', cand_release = ''1'', has_autorelease = False\<rparr>"

definition number_lib :: "nat pylib" where
  \<comment> \<open>a library that reads versions as numbers\<close>
  "number_lib = (yaml_of JNull)\<lparr>parse_version := \<lambda>s. Some (parse_nat s)\<rparr>"

theorem wanted_candidates_witness:
  "let md = [(''version'', JStr ''1''), (''track_upstream'', JStr ''2'')] in
   fst (wants_candidate one_build number_lib (sync_opts False\<lparr>o_sync := False\<rparr>) plain_ctx md plain_candidate one_package) = Inr True \<and>
   matches_track_version ''2'' ''2'' \<and>
   (\<exists>tag. admissible_build one_build (releases one_package) (nvr_of (stem (last_component ''https://x/a.git'')) ''2'' ''1'') tag ''abc'')"
proof -
  let ?md = "[(''version'', JStr ''1''), (''track_upstream'', JStr ''2'')]" and ?o = "sync_opts False\<lparr>o_sync := False\<rparr>"
  let ?r = "wants_candidate one_build number_lib ?o plain_ctx ?md plain_candidate one_package"
  have ok: "fst ?r = Inr True" by code_simp
  then have run: "?r = (Inr True, snd ?r)" by (metis prod.collapse)
  have opts: "\<not> o_sync ?o" "\<not> branch_changed plain_ctx" "\<not> o_allow_prerelease ?o" "\<not> o_skip_build_check ?o"
    by (simp_all add: sync_opts_def plain_ctx_def)
  have cand: "cand_version plain_candidate = ''2''" "cand_sha plain_candidate = ''abc''" "cand_release plain_candidate = ''1''"
    "source_url plain_ctx = ''https://x/a.git''"
    by (simp_all add: plain_candidate_def plain_ctx_def)
  note t = wanted_candidates[OF run opts, unfolded cand]
  have "matches_track_version ''2'' ''2''" using t by simp
  then show ?thesis using ok t unfolding Let_def by blast
qed

end
