(* ===== verification/Rebuild.thy ===== *)
theory Rebuild
  imports Release_Bump Package_Metadata Source_Update
begin

section \<open>Rebuilding packages\<close>

text \<open>
  The \<open>rebuild\<close> and \<open>rebuild-rev-deps\<close> commands of \<open>ci/dist_git.py\<close>: one package's release bump and
  commit (\<open>rebuild_package\<close>), the loop that goes on after a package that exits, the translation of
  virtual build requirements, and the scan for reverse dependencies. The relation \<open>rebuilds\<close> is the
  loop's specification: every package is taken in order, and fails exactly when its rebuild exits.
\<close>

definition is_SysExit :: "exn \<Rightarrow> bool" where
  "is_SysExit e = (case e of SysExit _ _ \<Rightarrow> True | _ \<Rightarrow> False)"

subsection \<open>One package\<close>

definition resolve_autorelease :: "host \<Rightarrow> string \<Rightarrow> path \<Rightarrow> unit prog" where
  \<comment> \<open>\<open>%autorelease\<close> becomes the release of the newest Fedora build; independent packages have none\<close>
  "resolve_autorelease h package_name package_dir = (bind (load_package_metadata package_name) (\<lambda>m.
    (case m of
       None \<Rightarrow> sys_exit (''ERROR: Could not load metadata for '' @ package_name)
     | Some metadata \<Rightarrow>
        (if \<not> has_key metadata ''source''
         then sys_exit (''ERROR: Package '' @ package_name @ '' is independent and uses %autorelease - cannot resolve via MDAPI. Please handle this rebuild manually.'')
         else (bind (from_sum (str_get metadata ''branch'' ''rawhide'')) (\<lambda>branch.
           bind (query_autorelease_from_mdapi h package_name branch ''1'') (\<lambda>found.
           (case found of
              Some (c # release) \<Rightarrow> replace_autorelease_in_spec package_dir (c # release) True
            | _ \<Rightarrow> sys_exit (''ERROR: Could not resolve %autorelease for '' @ package_name)))))))))"

definition rebuild_package :: "host \<Rightarrow> string \<Rightarrow> bool \<Rightarrow> string \<Rightarrow> unit prog" where
  "rebuild_package h reason dry_run package_name = (let package_dir = RPMS_DIR @ [package_name] in
    bind (exists (metadata_file package_name)) (\<lambda>known.
    if \<not> known then (sys_exit (''ERROR: Package '' @ package_name @ '' not found (missing '' @ path_str (metadata_file package_name) @ '')'')) else
    bind (exists package_dir) (\<lambda>present.
    if \<not> present then (sys_exit (''ERROR: Package directory '' @ path_str package_dir @ '' not found'')) else
    bind (uses_autorelease package_dir) (\<lambda>auto.
    seq (whenM auto (resolve_autorelease h package_name package_dir)) (
    bind (parse_spec_version h package_dir) (\<lambda>vr.
    bind (load_package_metadata package_name) (\<lambda>m.
    (case m of
       None \<Rightarrow> sys_exit (''ERROR: Could not load metadata for '' @ package_name)
     | Some metadata \<Rightarrow> (bind (from_sum (if has_key metadata ''source'' then opt_str (dget metadata ''release'') else Inr None)) (\<lambda>upstream_release.
       seq (update_release_in_spec package_dir (bump_release (snd vr) upstream_release)) (
       whenM (\<not> dry_run) ((seq (run_git h [''add'', ''-f'', ''rpms/'' @ package_name] ROOT_DIR) (
         seq (run_git_commit h [''-m'', ''Rebuild '' @ package_name @ '': '' @ reason] ROOT_DIR) (
         ret ())))))))))))))))"

subsection \<open>Many packages\<close>

definition rebuild_step :: "host \<Rightarrow> string \<Rightarrow> bool \<Rightarrow> string list \<Rightarrow> string \<Rightarrow> string list prog" where
  \<comment> \<open>\<open>except SystemExit\<close>: the package is noted as failed\<close>
  "rebuild_step h reason dry_run failed pkg =
     catch ((seq (rebuild_package h reason dry_run pkg) (
       ret failed))) is_SysExit (\<lambda>e. ret (failed @ [pkg]))"

definition summary_lines :: "nat \<Rightarrow> string list \<Rightarrow> string \<Rightarrow> string list" where
  "summary_lines n_all failed title =
     [nl # title @ '':'', ''  Total packages: '' @ show_nat n_all,
      ''  Successful rebuilds: '' @ show_int (int n_all - int (length failed)),
      ''  Failed rebuilds: '' @ show_nat (length failed)] @
     (if failed = [] then [] else (nl # ''Failed packages:'') # map (\<lambda>p. ''  - '' @ p) failed)"

definition print_rebuild_summary :: "nat \<Rightarrow> string list \<Rightarrow> string \<Rightarrow> unit prog" where
  "print_rebuild_summary n_all failed title = (seq (forM (\<lambda>l. emit (Print l)) (summary_lines n_all failed title)) (
    whenM (failed \<noteq> []) (raise (SysExit 1 []))))"

definition rebuild_all :: "host \<Rightarrow> string \<Rightarrow> bool \<Rightarrow> string list \<Rightarrow> string \<Rightarrow> unit prog" where
  \<comment> \<open>the loop in multi-package mode, and its report\<close>
  "rebuild_all h reason dry_run pkgs title = (bind (foldM (rebuild_step h reason dry_run) [] pkgs) (\<lambda>failed.
    print_rebuild_summary (length pkgs) failed title))"

subsection \<open>The \<open>rebuild\<close> command\<close>

definition exclude_names :: "string \<Rightarrow> string list" where
  \<comment> \<open>\<open>{p.strip() for p in exclude.split(',') if p.strip()}\<close>\<close>
  "exclude_names exclude = remdups (filter (\<lambda>p. p \<noteq> []) (map strip (split_on CHR '','' exclude)))"

definition excluded_packages :: "string list \<Rightarrow> string option \<Rightarrow> string list \<Rightarrow> exn + string list" where
  "excluded_packages known exclude packages = (case exclude of
     Some (c # s) \<Rightarrow>
       (let names = exclude_names (c # s); unknown = filter (\<lambda>n. n \<notin> set known) names;
            kept = filter (\<lambda>p. p \<notin> set names) packages in
        if names = [] then Inl (SysExit 1 ''ERROR: --exclude value is empty or contains only whitespace/commas'')
        else if unknown \<noteq> [] then Inl (SysExit 1 (''ERROR: --exclude package(s) not found: '' @ join '', '' (sort unknown)))
        else if kept = [] then Inl (SysExit 1 ''ERROR: --exclude excluded all packages; nothing to rebuild'')
        else Inr kept)
   | _ \<Rightarrow> Inr packages)"

definition rebuild_command :: "host \<Rightarrow> string list \<Rightarrow> bool \<Rightarrow> string option \<Rightarrow> string \<Rightarrow> bool \<Rightarrow> unit prog" where
  "rebuild_command h packages all exclude reason dry_run =
    (if all \<and> packages \<noteq> [] then sys_exit ''ERROR: Cannot specify both package names and --all''
     else if exclude \<noteq> None \<and> exclude \<noteq> Some [] \<and> \<not> all then sys_exit ''ERROR: --exclude can only be used with --all''
     else if \<not> all \<and> packages = [] then sys_exit ''ERROR: Must specify either package name(s) or --all''
     else (bind (gets (\<lambda>w. map fst (imported w))) (\<lambda>known.
       bind (from_sum (excluded_packages known exclude (if all then known else packages))) (\<lambda>chosen.
       (if all \<or> length packages > 1 then rebuild_all h reason dry_run chosen ''Rebuild Summary''
        else forM (rebuild_package h reason dry_run) chosen)))))"

subsection \<open>Reverse dependencies\<close>

definition VIRTUAL_BUILDREQUIRES_PATTERNS :: "(rx \<times> string) list" where
  \<comment> \<open>\<open>^golang1\.(.+)$\<close>, \<open>^golang-fips1\.(.+)$\<close>, \<open>^python3\.(.+)$\<close>\<close>
  "VIRTUAL_BUILDREQUIRES_PATTERNS = map (\<lambda>(start, target). (Seq [Bol False, Lit start, Grp 1 (Plus True Dot), Eol False], target))
     [(''golang1.'', ''go-rpm-macros''), (''golang-fips1.'', ''go-rpm-macros''), (''python3.'', ''python3-devel'')]"

definition version_key :: "('v::linorder) pylib \<Rightarrow> string \<Rightarrow> exn + 'v" where
  "version_key L s = (case parse_version L s of Some v \<Rightarrow> Inr v | None \<Rightarrow> Inl (InvalidVersion s))"

fun first_max :: "('a \<times> 'v::linorder) \<Rightarrow> ('a \<times> 'v) list \<Rightarrow> 'a \<times> 'v" where
  \<comment> \<open>\<open>max(\<dots>, key=\<dots>)\<close>: the first of the greatest\<close>
  "first_max best [] = best"
| "first_max best (x # xs) = first_max (if snd best < snd x then x else best) xs"

definition matching_dirs :: "rx \<Rightarrow> fs \<Rightarrow> (string \<times> string) list" where
  "matching_dirs pattern f = List.map_filter (\<lambda>d. if fs_is_dir f (RPMS_DIR @ [d])
     then map_option (\<lambda>m. (d, group m 1)) (re_match pattern d) else None) (fs_glob f RPMS_DIR [])"

definition translate :: "('v::linorder) pylib \<Rightarrow> string \<Rightarrow> rx \<Rightarrow> string \<Rightarrow> string \<Rightarrow> string prog" where
  "translate L package_name pattern target suffix = (bind (gets (\<lambda>w. matching_dirs pattern (files w))) (\<lambda>found.
    seq (assertM (found \<noteq> []) (''No packages found matching pattern despite matching '' @ package_name)) (
    bind (mapM (\<lambda>x. (bind (from_sum (version_key L (snd x))) (\<lambda>v.
      ret (fst x, v)))) found) (\<lambda>keyed.
    bind (from_sum (version_key L suffix)) (\<lambda>own.
    let latest = first_max (hd keyed) (tl keyed) in
    if own < snd latest then (sys_exit (''ERROR: '' @ package_name @ '' is not the latest version.'' @ [nl] @
      ''       Latest version is '' @ fst latest @ ''.'' @ [nl] @
      ''       Only the latest version triggers rebuilds of reverse dependencies.'')) else
    ret target)))))"

fun first_virtual :: "string \<Rightarrow> (rx \<times> string) list \<Rightarrow> (rx \<times> string \<times> string) option" where
  \<comment> \<open>the first pattern that matches, its target, and the version suffix of the name\<close>
  "first_virtual p [] = None"
| "first_virtual p ((pattern, target) # rest) = (case re_match pattern p of
     Some m \<Rightarrow> Some (pattern, target, group m 1) | None \<Rightarrow> first_virtual p rest)"

definition get_virtual_buildrequires_translation :: "('v::linorder) pylib \<Rightarrow> string \<Rightarrow> string prog" where
  "get_virtual_buildrequires_translation L package_name =
     (case first_virtual package_name VIRTUAL_BUILDREQUIRES_PATTERNS of
        Some (pattern, target, suffix) \<Rightarrow> translate L package_name pattern target suffix
      | None \<Rightarrow> ret package_name)"

definition requirement_names :: "string \<Rightarrow> string list" where
  "requirement_names out = map (\<lambda>l. hd (words l)) (filter (\<lambda>l. strip l \<noteq> []) (splitlines (strip out)))"

definition expand_spec_buildrequires :: "host \<Rightarrow> path \<Rightarrow> string list prog" where
  "expand_spec_buildrequires h package_dir = (bind (glob package_dir ''.spec'') (\<lambda>spec_files.
    seq (assertM (length spec_files = 1) (''Expected exactly one .spec file in '' @ path_str package_dir)) (
    bind (run_proc h [''rpmspec'', ''-q'', ''--buildrequires'', ''--define=_sourcedir '' @ path_str package_dir,
      path_str (package_dir @ [hd spec_files])] ROOT_DIR True) (\<lambda>result.
    ret (requirement_names (stdout result))))))"

definition requires_target :: "host \<Rightarrow> string \<Rightarrow> string \<Rightarrow> bool prog" where
  "requires_target h target d = (bind (is_dir (RPMS_DIR @ [d])) (\<lambda>b.
    if \<not> b then (ret False) else
    bind (expand_spec_buildrequires h (RPMS_DIR @ [d])) (\<lambda>names.
    ret (target \<in> set names))))"

definition reverse_dependencies :: "host \<Rightarrow> string \<Rightarrow> string list prog" where
  "reverse_dependencies h target = (bind (glob RPMS_DIR []) (\<lambda>dirs.
    bind (mapM (\<lambda>d. (bind (requires_target h target d) (\<lambda>b.
      ret (b, d)))) (sort dirs)) (\<lambda>marked.
    ret (map snd (filter fst marked)))))"

definition rebuild_reverse_dependencies :: "host \<Rightarrow> ('v::linorder) pylib \<Rightarrow> string \<Rightarrow> string \<Rightarrow> bool \<Rightarrow> unit prog" where
  "rebuild_reverse_dependencies h L package_name reason dry_run = (bind (get_virtual_buildrequires_translation L package_name) (\<lambda>target.
    bind (reverse_dependencies h target) (\<lambda>deps.
    if deps = [] then (ret ()) else
    rebuild_all h reason dry_run deps (''Rebuild Summary for '' @ package_name @ '' reverse dependencies''))))"

subsection \<open>The loop against its specification\<close>

inductive rebuilds :: "host \<Rightarrow> string \<Rightarrow> bool \<Rightarrow> string list \<Rightarrow> world \<Rightarrow> string list \<Rightarrow> world \<Rightarrow> bool"
  for h :: host and reason :: string and dry_run :: bool where
  Done: "rebuilds h reason dry_run [] w [] w"
| Rebuilt: "rebuild_package h reason dry_run p w = (Inr (), w1) \<Longrightarrow> rebuilds h reason dry_run ps w1 failed w2 \<Longrightarrow>
    rebuilds h reason dry_run (p # ps) w failed w2"
| Failed: "rebuild_package h reason dry_run p w = (Inl (SysExit c msg), w1) \<Longrightarrow>
    rebuilds h reason dry_run ps w1 failed w2 \<Longrightarrow> rebuilds h reason dry_run (p # ps) w (p # failed) w2"

inductive_simps rebuilds_Nil: "rebuilds h reason dry_run [] w failed w'"
inductive_simps rebuilds_Cons: "rebuilds h reason dry_run (p # ps) w failed w'"

inductive broken_by :: "host \<Rightarrow> string \<Rightarrow> bool \<Rightarrow> string list \<Rightarrow> world \<Rightarrow> exn \<Rightarrow> world \<Rightarrow> bool"
  \<comment> \<open>some package of the list, reached in order, raised \<open>e\<close>, which is no \<open>SystemExit\<close>\<close>
  for h :: host and reason :: string and dry_run :: bool where
  Here: "rebuild_package h reason dry_run p w = (Inl e, w') \<Longrightarrow> \<not> is_SysExit e \<Longrightarrow> broken_by h reason dry_run (p # ps) w e w'"
| After_rebuilt: "rebuild_package h reason dry_run p w = (Inr (), w1) \<Longrightarrow> broken_by h reason dry_run ps w1 e w' \<Longrightarrow>
    broken_by h reason dry_run (p # ps) w e w'"
| After_failed: "rebuild_package h reason dry_run p w = (Inl (SysExit c msg), w1) \<Longrightarrow>
    broken_by h reason dry_run ps w1 e w' \<Longrightarrow> broken_by h reason dry_run (p # ps) w e w'"

inductive_simps broken_Nil: "broken_by h reason dry_run [] w e w'"
inductive_simps broken_Cons: "broken_by h reason dry_run (p # ps) w e w'"

lemma rebuilds_failed_subset: "rebuilds h reason dry_run ps w failed w' \<Longrightarrow> set failed \<subseteq> set ps"
  by (induction rule: rebuilds.induct) auto

lemma rebuild_step_run:
  "rebuild_step h reason dry_run failed p w = (case rebuild_package h reason dry_run p w of
     (Inr _, w') \<Rightarrow> (Inr failed, w') | (Inl e, w') \<Rightarrow> if is_SysExit e then (Inr (failed @ [p]), w') else (Inl e, w'))"
  by (auto simp: rebuild_step_def prog_simps split: prod.splits sum.splits)

lemma rebuild_loop_Inr:
  "foldM (rebuild_step h reason dry_run) acc ps w = (Inr res, w') \<longleftrightarrow>
     (\<exists>failed. res = acc @ failed \<and> rebuilds h reason dry_run ps w failed w')"
proof (induction ps arbitrary: acc w)
  case Nil
  then show ?case by (auto simp: ret_def rebuilds_Nil)
next
  case (Cons p ps)
  obtain r w1 where r: "rebuild_package h reason dry_run p w = (r, w1)" by fastforce
  show ?case
  proof (cases r)
    case (Inr u)
    with r Cons.IH show ?thesis by (auto simp: bind_run rebuild_step_run rebuilds_Cons)
  next
    case (Inl e)
    then show ?thesis
      using r Cons.IH[of "acc @ [p]" w1]
      by (cases e) (auto simp: bind_run rebuild_step_run rebuilds_Cons is_SysExit_def)
  qed
qed

lemma rebuild_loop_Inl:
  "foldM (rebuild_step h reason dry_run) acc ps w = (Inl e, w') \<longleftrightarrow> broken_by h reason dry_run ps w e w'"
proof (induction ps arbitrary: acc w)
  case Nil
  then show ?case by (simp add: ret_def broken_Nil)
next
  case (Cons p ps)
  obtain r w1 where r: "rebuild_package h reason dry_run p w = (r, w1)" by fastforce
  show ?case
  proof (cases r)
    case (Inr u)
    have "foldM (rebuild_step h reason dry_run) acc (p # ps) w = foldM (rebuild_step h reason dry_run) acc ps w1"
      using r Inr by (simp add: bind_run rebuild_step_run)
    with Cons.IH[of acc w1] r Inr show ?thesis by (simp add: broken_Cons)
  next
    case (Inl f)
    show ?thesis
    proof (cases "is_SysExit f")
      case True
      then obtain c m where f: "f = SysExit c m" by (auto simp: is_SysExit_def split: exn.splits)
      have "foldM (rebuild_step h reason dry_run) acc (p # ps) w = foldM (rebuild_step h reason dry_run) (acc @ [p]) ps w1"
        using r Inl True by (simp add: bind_run rebuild_step_run)
      with Cons.IH[of "acc @ [p]" w1] r Inl True f show ?thesis by (auto simp: broken_Cons)
    next
      case False
      have "foldM (rebuild_step h reason dry_run) acc (p # ps) w = (Inl f, w1)"
        using r Inl False by (simp add: bind_run rebuild_step_run)
      moreover have "f \<noteq> SysExit c m" for c m using False by (auto simp: is_SysExit_def)
      ultimately show ?thesis using r Inl False by (auto simp: broken_Cons)
    qed
  qed
qed

lemma forM_print: "forM (\<lambda>l. emit (Print l)) ls w = (Inr (), w\<lparr>trace := trace w @ map Print ls\<rparr>)"
  by (induction ls arbitrary: w) (simp_all add: prog_simps emit_def)

definition printed :: "string list \<Rightarrow> world \<Rightarrow> world" where
  "printed ls w = w\<lparr>trace := trace w @ map Print ls\<rparr>"

lemma summary_run: "print_rebuild_summary n failed title w =
    (if failed = [] then Inr () else Inl (SysExit 1 []), printed (summary_lines n failed title) w)"
  by (simp add: print_rebuild_summary_def seq_run forM_print printed_def whenM_def prog_simps)

text \<open>C2: a multi-package rebuild is its specification: every package is taken in order whatever
  became of those before it, the report names exactly the packages whose rebuild exited, and the
  status is 0 if there is none and 1 otherwise; only an exception that is no \<open>SystemExit\<close> (a failing
  git or rpmspec) breaks the loop, and then no report is printed.\<close>

theorem rebuild_all_outcome:
  "rebuild_all h reason dry_run pkgs title w = (r, w') \<longleftrightarrow>
     (\<exists>failed w1. rebuilds h reason dry_run pkgs w failed w1 \<and> w' = printed (summary_lines (length pkgs) failed title) w1 \<and>
        r = (if failed = [] then Inr () else Inl (SysExit 1 []))) \<or>
     (\<exists>e. broken_by h reason dry_run pkgs w e w' \<and> r = Inl e)"
proof -
  obtain r1 w1 where run: "foldM (rebuild_step h reason dry_run) [] pkgs w = (r1, w1)" by fastforce
  have finished: "rebuilds h reason dry_run pkgs w failed x \<longleftrightarrow> r1 = Inr failed \<and> x = w1" for failed x
    using rebuild_loop_Inr[of h reason dry_run "[]" pkgs w failed x] run by auto
  have broken: "broken_by h reason dry_run pkgs w e w' \<longleftrightarrow> r1 = Inl e \<and> w1 = w'" for e
    using rebuild_loop_Inl[of h reason dry_run "[]" pkgs w e w'] run by simp
  have "rebuild_all h reason dry_run pkgs title w = (case r1 of Inl e \<Rightarrow> (Inl e, w1) | Inr failed \<Rightarrow>
      (if failed = [] then Inr () else Inl (SysExit 1 []), printed (summary_lines (length pkgs) failed title) w1))"
    by (simp add: rebuild_all_def bind_run run summary_run split: sum.splits)
  then show ?thesis unfolding finished broken by (cases r1) auto
qed

subsection \<open>Virtual build requirements\<close>

lemma first_max_greatest:
  "snd best \<le> snd (first_max best xs)" "x \<in> set xs \<Longrightarrow> snd x \<le> snd (first_max best xs)"
proof (induction xs arbitrary: best)
  case (Cons y ys)
  {
    case 1
    show ?case using Cons.IH(1)[of best] Cons.IH(1)[of y] by auto
  next
    case 2
    then show ?case using Cons.IH(1)[of best] Cons.IH(1)[of y] Cons.IH(2)[of best] Cons.IH(2)[of y] by auto
  }
qed simp_all

lemma version_key_Inr: "version_key L s = Inr v \<longleftrightarrow> parse_version L s = Some v"
  by (auto simp: version_key_def split: option.splits)

lemma keyed_Inr:
  "mapM (\<lambda>x. bind (from_sum (version_key L (snd x))) (\<lambda>v. ret (fst x, v))) xs w = (Inr ys, w') \<longleftrightarrow>
     w' = w \<and> list_all2 (\<lambda>x y. fst y = fst x \<and> parse_version L (snd x) = Some (snd y)) xs ys"
proof (induction xs arbitrary: ys w)
  case (Cons x xs)
  show ?case
    by (cases ys) (auto simp: bind_Inr step_Inr Cons.IH version_key_Inr)
qed (auto simp: ret_def)

lemma list_all2_partner: "list_all2 P xs ys \<Longrightarrow> x \<in> set xs \<Longrightarrow> \<exists>y \<in> set ys. P x y"
  by (induction rule: list_all2_induct) auto

lemma greatest_keyed:
  assumes "list_all2 (\<lambda>x y. fst y = fst x \<and> parse_version L (snd x) = Some (snd y)) found keyed" "keyed \<noteq> []"
    and "x \<in> set found"
  shows "\<exists>u. parse_version L (snd x) = Some u \<and> u \<le> snd (first_max (hd keyed) (tl keyed))"
proof -
  from assms(1,3) obtain y where y: "y \<in> set keyed" "parse_version L (snd x) = Some (snd y)"
    using list_all2_partner[OF assms(1,3)] by blast
  with assms(2) have "y = hd keyed \<or> y \<in> set (tl keyed)" by (cases keyed) auto
  then have "snd y \<le> snd (first_max (hd keyed) (tl keyed))" using first_max_greatest by blast
  with y show ?thesis by blast
qed

text \<open>only the newest of a family of virtual packages (\<open>golang1.X\<close>, \<open>golang-fips1.X\<close>, \<open>python3.X\<close>)
  is translated to the target whose dependents are rebuilt: a translated name's version is at least
  that of every directory of the family; all other names are left alone.\<close>

lemma virtual_target_newest:
  assumes "get_virtual_buildrequires_translation L p w = (Inr t, w')"
  shows "w' = w \<and> (case first_virtual p VIRTUAL_BUILDREQUIRES_PATTERNS of
     None \<Rightarrow> t = p
   | Some (pattern, target, suffix) \<Rightarrow> t = target \<and> matching_dirs pattern (files w) \<noteq> [] \<and>
       (\<exists>v. parse_version L suffix = Some v \<and>
          list_all (\<lambda>d. \<exists>u. parse_version L (snd d) = Some u \<and> u \<le> v) (matching_dirs pattern (files w))))"
proof (cases "first_virtual p VIRTUAL_BUILDREQUIRES_PATTERNS")
  case None
  with assms show ?thesis by (simp add: get_virtual_buildrequires_translation_def step_Inr)
next
  case (Some a)
  obtain pattern target suffix where a: "a = (pattern, target, suffix)" by (cases a)
  let ?found = "matching_dirs pattern (files w)"
  from assms Some a have tr: "translate L p pattern target suffix w = (Inr t, w')"
    by (simp add: get_virtual_buildrequires_translation_def)
  have as: "assertM b m w1 = (Inr x, w2) \<longleftrightarrow> b \<and> w2 = w1" for b m w1 x w2
    by (auto simp: assertM_def ret_def raise_def)
  from tr obtain keyed own where k: "?found \<noteq> []" "w' = w" "t = target" "parse_version L suffix = Some own"
    "list_all2 (\<lambda>x y. fst y = fst x \<and> parse_version L (snd x) = Some (snd y)) ?found keyed"
    "\<not> own < snd (first_max (hd keyed) (tl keyed))"
    by (auto simp: translate_def Let_def prog_inr as keyed_Inr version_key_Inr if_Inr split: if_splits)
  from k(1,5) have "keyed \<noteq> []" by auto
  have "\<exists>u. parse_version L (snd d) = Some u \<and> u \<le> own" if "d \<in> set ?found" for d
    using greatest_keyed[OF k(5) \<open>keyed \<noteq> []\<close> that] k(6) by (meson linorder_not_less order_trans)
  with k Some a show ?thesis by (auto simp: list_all_iff)
qed


definition two_golangs :: world where
  "two_golangs = blank\<lparr>files := [([''rpms'', ''golang1.25''], DirN), ([''rpms'', ''golang1.26''], DirN), ([''rpms'', ''bash''], DirN)]\<rparr>"

definition minor_lib :: "nat pylib" where
  \<comment> \<open>versions that are plain numbers\<close>
  "minor_lib = (yaml_of JNull)\<lparr>parse_version := \<lambda>s. if s \<noteq> [] \<and> list_all is_digit s then Some (parse_nat s) else None\<rparr>"

end
