(* ===== verification/Yaml_Blocks.thy ===== *)
theory Yaml_Blocks
  imports Host_Calls
begin

section \<open>Line-wise edits of YAML files and package renames\<close>

text \<open>
  \<open>ci/dist_git.py\<close> edits \<open>package-overrides.yaml\<close> as a list of lines, so that comments and
  layout survive: \<open>_find_top_level_yaml_block\<close>, \<open>_insert_top_level_yaml_block\<close>,
  \<open>_append_key_to_yaml_block\<close>; and \<open>rename\<close> with its helpers. The contract is that an edit
  keeps every other line, in order, and the alphabetical order of the top-level keys.
\<close>

subsection \<open>Lines with their ends\<close>

fun splitlines_keep :: "string \<Rightarrow> string list" where
  \<comment> \<open>\<open>s.splitlines(keepends=True)\<close>\<close>
  "splitlines_keep [] = []"
| "splitlines_keep (c # s) =
     (if c = cr \<and> startswith s [nl] then [c, nl] # splitlines_keep (tl s)
      else if is_linebreak c then [c] # splitlines_keep s
      else (case splitlines_keep s of [] \<Rightarrow> [[c]] | l # ls \<Rightarrow> (c # l) # ls))"

lemma concat_splitlines_keep [simp]: "concat (splitlines_keep s) = s"
proof (induction s rule: splitlines_keep.induct)
  case (2 c s)
  then show ?case by (auto simp: startswith_iff split: list.splits)
qed simp

subsection \<open>Blocks\<close>

definition top_level_yaml_key_re :: rx where
  \<comment> \<open>\<open>^([A-Za-z0-9_.+-]+):\<close>\<close>
  "top_level_yaml_key_re = Seq [Bol False,
     Grp 1 (Plus True (Cls (\<lambda>c. is_word c \<or> c \<in> {CHR ''.'', CHR ''+'', CHR ''-''}))), Chr CHR '':'']"

definition top_key :: "string \<Rightarrow> string option" where
  "top_key line = map_option (\<lambda>m. group m 1) (re_match top_level_yaml_key_re line)"

definition is_continuation :: "string \<Rightarrow> bool" where
  \<comment> \<open>a blank or indented line\<close>
  "is_continuation line \<longleftrightarrow> strip line = [] \<or> hd line \<in> {CHR '' '', tab}"

definition next_top :: "string list \<Rightarrow> nat \<Rightarrow> nat" where
  \<comment> \<open>\<open>while i < n and (blank or indented): i += 1\<close>\<close>
  "next_top ls i = i + length (takeWhile is_continuation (drop i ls))"

definition find_top_level_yaml_block :: "string list \<Rightarrow> string \<Rightarrow> (nat \<times> nat) option" where
  "find_top_level_yaml_block ls key =
     (case find (\<lambda>i. top_key (ls ! i) = Some key) [0..<length ls] of
        None \<Rightarrow> None
      | Some start \<Rightarrow> Some (start, next_top ls (start + 1)))"

function insert_position :: "string list \<Rightarrow> string \<Rightarrow> nat \<Rightarrow> nat" where
  "insert_position ls key i =
     (if i \<ge> length ls then length ls
      else case top_key (ls ! i) of
        None \<Rightarrow> insert_position ls key (i + 1)
      | Some k \<Rightarrow> if key < k then i else insert_position ls key (next_top ls (i + 1)))"
  by pat_completeness auto
termination
  by (relation "measure (\<lambda>(ls, key, i). length ls - i)") (auto simp: next_top_def)

declare insert_position.simps [simp del]

definition block_lines :: "string \<Rightarrow> string list" where
  "block_lines block_text =
     (let ls = splitlines_keep block_text in
      if ls \<noteq> [] \<and> \<not> endswith (last ls) [nl] then butlast ls @ [last ls @ [nl]] else ls)"

definition insert_top_level_yaml_block :: "string list \<Rightarrow> string \<Rightarrow> string \<Rightarrow> string list" where
  "insert_top_level_yaml_block ls key block_text =
     (let insert_at = insert_position ls key 0; bl = block_lines block_text in
      if insert_at = length ls then
        (if ls \<noteq> [] \<and> strip (last ls) \<noteq> [] then ls @ [[nl]] @ bl else ls @ bl)
      else take insert_at ls @ bl @ [[nl]] @ drop insert_at ls)"

function trim_blank :: "string list \<Rightarrow> nat \<Rightarrow> nat \<Rightarrow> nat" where
  \<comment> \<open>\<open>while insert_at > start + 1 and lines[insert_at - 1].strip() == '': insert_at -= 1\<close>\<close>
  "trim_blank ls start insert_at =
     (if insert_at > start + 1 \<and> strip (ls ! (insert_at - 1)) = [] then trim_blank ls start (insert_at - 1)
      else insert_at)"
  by pat_completeness auto
termination
  by (relation "measure (\<lambda>(ls, start, i). i)") auto

declare trim_blank.simps [simp del]

definition append_key_to_yaml_block :: "string list \<Rightarrow> nat \<Rightarrow> nat \<Rightarrow> string \<Rightarrow> string list" where
  "append_key_to_yaml_block ls start stop line_text =
     (let insert_at = trim_blank ls start stop;
          line = (if endswith line_text [nl] then line_text else line_text @ [nl])
      in take insert_at ls @ [line] @ drop insert_at ls)"

subsection \<open>Renaming a package\<close>

definition rename_key_line :: "string list \<Rightarrow> string \<Rightarrow> string \<Rightarrow> string list option" where
  \<comment> \<open>the lines of \<open>package-overrides.yaml\<close> after the rename, when the package has a block\<close>
  "rename_key_line ls original_name new_name =
     (case find_top_level_yaml_block ls original_name of
        None \<Rightarrow> None
      | Some (start, _) \<Rightarrow>
          (let rest = drop (length original_name + 1) (ls ! start)
           in Some (ls[start := new_name @ '':'' @ rest])))"

definition update_package_overrides :: "string \<Rightarrow> string \<Rightarrow> unit prog" where
  "update_package_overrides original_name new_name =
     bind (read_text PACKAGE_OVERRIDES_YAML) (\<lambda>text.
       case rename_key_line (splitlines_keep text) original_name new_name of
         None \<Rightarrow> ret ()
       | Some ls \<Rightarrow> write_text PACKAGE_OVERRIDES_YAML (concat ls))"

definition update_rename_record :: "string \<Rightarrow> string \<Rightarrow> unit prog" where
  "update_rename_record old new = bind (exists RENAMED_PACKAGES_JSON) (\<lambda>b.
     bind (if b then bind (json_load RENAMED_PACKAGES_JSON) (\<lambda>j. from_sum (as_dict j)) else ret []) (\<lambda>renames.
     if b \<and> has_key renames new then ret ()
     else write_node RENAMED_PACKAGES_JSON (JsonN (JObj (sort_keys (dset new (JStr old) renames))))))"

definition is_spec_name :: "string \<Rightarrow> bool" where
  \<comment> \<open>\<open>p.suffix == '.spec'\<close>\<close>
  "is_spec_name n \<longleftrightarrow> endswith n ''.spec'' \<and> n \<noteq> ''.spec''"

definition rename_spec_validate :: "host \<Rightarrow> 'v pylib \<Rightarrow> string \<Rightarrow> path \<Rightarrow> string prog" where
  "rename_spec_validate h L original_name original_dir = (let spec_file = original_dir @ [original_name @ ''.spec''] in
    let spec_file_git_path = ''rpms/'' @ original_name @ ''/'' @ original_name @ ''.spec'' in
    bind (gets files) (\<lambda>f.
    bind (from_sum (specfile_name L f spec_file original_dir)) (\<lambda>new_name.
    bind (run_git_in h [''show'', ''HEAD:'' @ spec_file_git_path] ROOT_DIR False) (\<lambda>git_result.
    if returncode git_result \<noteq> 0 then (sys_exit (''ERROR: Could not retrieve original spec file from git: '' @ spec_file_git_path)) else
    bind (with_tmpdir ''rename'' (\<lambda>tmpdir. (let tmp_spec = tmpdir @ [original_name @ ''.spec''] in
      seq (write_text tmp_spec (stdout git_result)) (
      bind (iterdir original_dir) (\<lambda>names.
      seq (forM (\<lambda>n. (bind (is_file (original_dir @ [n])) (\<lambda>b.
        whenM (b \<and> \<not> is_spec_name n) (copy_file (original_dir @ [n]) (tmpdir @ [n]))))) names) (
      bind (gets files) (\<lambda>f'.
      from_sum (specfile_name L f' tmp_spec tmpdir)))))))) (\<lambda>original_spec_name.
    if original_spec_name = new_name then (sys_exit (''ERROR: Name field has not been changed (still '' @ new_name @ '')'')) else
    ret new_name)))))"

definition rename_package :: "host \<Rightarrow> 'v pylib \<Rightarrow> string \<Rightarrow> unit prog" where
  "rename_package h L original_name = (let original_dir = RPMS_DIR @ [original_name] in
    bind (exists original_dir) (\<lambda>b.
    if \<not> b then (sys_exit (''ERROR: Package directory '' @ path_str original_dir @ '' does not exist'')) else
    bind (rename_spec_validate h L original_name original_dir) (\<lambda>new_name.
    let new_dir = RPMS_DIR @ [new_name] in
    let original_metadata_file = METADATA_DIR @ [original_name @ ''.json''] in
    let new_metadata_file = METADATA_DIR @ [new_name @ ''.json''] in
    bind (exists new_dir) (\<lambda>b.
    if b then (sys_exit (''ERROR: Package directory '' @ path_str new_dir @ '' already exists'')) else
    bind (exists original_metadata_file) (\<lambda>b.
    if \<not> b then (sys_exit (''ERROR: Package metadata file '' @ path_str original_metadata_file @ '' does not exist'')) else
    bind (exists new_metadata_file) (\<lambda>b.
    if b then (sys_exit (''ERROR: Package metadata file '' @ path_str new_metadata_file @ '' already exists'')) else
    seq (run_git h [''mv'', ''rpms/'' @ original_name, ''rpms/'' @ new_name] ROOT_DIR) (
    seq (run_git h [''mv'', ''metadata/'' @ original_name @ ''.json'', ''metadata/'' @ new_name @ ''.json''] ROOT_DIR) (
    seq (update_package_overrides original_name new_name) (
    seq (update_rename_record original_name new_name) (
    seq (run_proc h [''make'', ''generate''] ROOT_DIR True) (
    seq (run_git h [''add'', ''-f'', path_str PACKAGE_OVERRIDES_YAML, path_str RENAMED_PACKAGES_JSON,
      ''konflux-templates'', ''.tekton''] ROOT_DIR) (
    seq (run_git_commit h [''-m'', ''Rename '' @ original_name @ '' to '' @ new_name] ROOT_DIR) (
    ret ())))))))))))))"

subsection \<open>Keys\<close>

definition key_char :: "char \<Rightarrow> bool" where
  "key_char c \<longleftrightarrow> is_word c \<or> c \<in> {CHR ''.'', CHR ''+'', CHR ''-''}"

lemma key_char_facts: "\<not> key_char CHR '':''" "key_char c \<Longrightarrow> \<not> is_ws c"
  by (auto simp: key_char_def is_word_def is_alpha_def is_upper_def is_lower_def is_digit_def is_ws_def Let_def)

lemma top_key_matches:
  "rmatches top_level_yaml_key_re ([], s, []) st' \<longleftrightarrow>
     (\<exists>k r. s = k @ CHR '':'' # r \<and> k \<noteq> [] \<and> (\<forall>c \<in> set k. key_char c) \<and>
        st' = (CHR '':'' # rev k, r, [(1, k)]))"
  unfolding top_level_yaml_key_re_def Seq.simps key_char_def[symmetric]
  apply (simp only: rm_steps at_bol_def)
  apply simp
  apply (rule iffI; elim exE conjE; hypsubst)
   apply (intro exI conjI; (rule refl | assumption | simp))
  apply (intro exI conjI; (rule refl | assumption | simp))
  done

lemma top_key_iff: "top_key s = Some k \<longleftrightarrow>
    (\<exists>r. s = k @ CHR '':'' # r \<and> k \<noteq> [] \<and> (\<forall>c \<in> set k. key_char c))"
proof
  assume "top_key s = Some k"
  then obtain m where m: "re_match top_level_yaml_key_re s = Some m" "k = group m 1"
    by (auto simp: top_key_def)
  from m(1) obtain b' a' c where "rmatches top_level_yaml_key_re ([], s, []) (b', a', c)"
    "m = dset 0 (take (length s - length a') s) c" by (rule re_match_Some)
  then show "\<exists>r. s = k @ CHR '':'' # r \<and> k \<noteq> [] \<and> (\<forall>c \<in> set k. key_char c)"
    unfolding top_key_matches m(2) by (auto simp: group_def)
next
  assume "\<exists>r. s = k @ CHR '':'' # r \<and> k \<noteq> [] \<and> (\<forall>c \<in> set k. key_char c)"
  then obtain r where r: "s = k @ CHR '':'' # r" "k \<noteq> []" "\<forall>c \<in> set k. key_char c" by blast
  have "rmatches top_level_yaml_key_re ([], s, []) (CHR '':'' # rev k, r, [(1, k)])"
    unfolding top_key_matches using r by blast
  moreover have "st' = (CHR '':'' # rev k, r, [(1, k)])"
    if "rmatches top_level_yaml_key_re ([], s, []) st'" for st'
  proof -
    from that obtain k' r' where k': "s = k' @ CHR '':'' # r'" "\<forall>c \<in> set k'. key_char c"
      "st' = (CHR '':'' # rev k', r', [(1, k')])" unfolding top_key_matches by blast
    have "k' = k \<and> CHR '':'' = CHR '':'' \<and> r' = r"
      by (rule run_unique[where p = key_char]) (use k' r key_char_facts in simp_all)
    with k' show ?thesis by simp
  qed
  ultimately have "\<exists>g0. re_match top_level_yaml_key_re s = Some (dset 0 g0 [(1, k)])"
    by (meson re_match_unique)
  then show "top_key s = Some k" by (auto simp: top_key_def group_def)
qed

lemma top_key_continuation: "is_continuation l \<Longrightarrow> top_key l = None"
proof (rule ccontr)
  assume l: "is_continuation l" "top_key l \<noteq> None"
  then obtain k r where k: "l = k @ CHR '':'' # r" "k \<noteq> []" "\<forall>c \<in> set k. key_char c"
    by (auto simp: top_key_iff)
  then obtain c cs where c: "l = c # cs" "key_char c" by (cases k) auto
  then have ws: "\<not> is_ws c" using key_char_facts by blast
  have "strip l \<noteq> []"
  proof
    assume "strip l = []"
    then have "rstrip l = []" using c ws by (simp add: strip_def lstrip_def)
    then have "\<forall>x \<in> set (rev l). is_ws x" by (simp add: rstrip_def)
    with c ws show False by simp
  qed
  moreover have "hd l \<noteq> CHR '' ''" "hd l \<noteq> tab" using c ws by (auto simp: is_ws_def)
  ultimately show False using l(1) by (simp add: is_continuation_def)
qed

definition top_keys :: "string list \<Rightarrow> string list" where
  "top_keys ls = List.map_filter top_key ls"

lemma top_keys_append [simp]: "top_keys (a @ b) = top_keys a @ top_keys b"
  by (simp add: top_keys_def List.map_filter_def)

lemma top_keys_set: "k \<in> set (top_keys ls) \<longleftrightarrow> (\<exists>l \<in> set ls. top_key l = Some k)"
  by (force simp: top_keys_def List.map_filter_def)

lemma top_keys_blank [simp]: "top_keys [[nl]] = []"
proof -
  have "is_continuation [nl]" by code_simp
  then show ?thesis by (simp add: top_keys_def List.map_filter_def top_key_continuation)
qed

subsection \<open>Where a block goes\<close>

lemma next_top_skips: "i \<le> j \<Longrightarrow> j < next_top ls i \<Longrightarrow> i \<le> length ls \<Longrightarrow> is_continuation (ls ! j)"
proof -
  assume ij: "i \<le> j" "j < next_top ls i" "i \<le> length ls"
  then have "j - i < length (takeWhile is_continuation (drop i ls))" by (simp add: next_top_def)
  then have "is_continuation (takeWhile is_continuation (drop i ls) ! (j - i))"
    by (meson nth_mem set_takeWhileD)
  then show ?thesis using ij
    by (simp add: next_top_def takeWhile_nth)
qed

lemma next_top_le: "i \<le> length ls \<Longrightarrow> next_top ls i \<le> length ls"
  using length_takeWhile_le[of is_continuation "drop i ls"] by (simp add: next_top_def)

lemma insert_position_spec:
  assumes "i \<le> length ls"
  shows "i \<le> insert_position ls key i \<and> insert_position ls key i \<le> length ls \<and>
    (\<forall>j k. i \<le> j \<and> j < insert_position ls key i \<and> top_key (ls ! j) = Some k \<longrightarrow> k \<le> key) \<and>
    (insert_position ls key i < length ls \<longrightarrow>
       (\<exists>k. top_key (ls ! insert_position ls key i) = Some k \<and> key < k))"
  using assms
proof (induction ls key i rule: insert_position.induct)
  case (1 ls key i)
  show ?case
  proof (cases "i \<ge> length ls")
    case True
    with 1 show ?thesis by (subst (1 2 3 4 5) insert_position.simps) auto
  next
    case i: False
    show ?thesis
    proof (cases "top_key (ls ! i)")
      case None
      then have eq: "insert_position ls key i = insert_position ls key (i + 1)"
        using i by (subst insert_position.simps) simp
      have "i + 1 \<le> length ls" using i by simp
      note IH = "1.IH"(1)[OF i None this]
      have "k \<le> key" if "i \<le> j" "j < insert_position ls key (i + 1)" "top_key (ls ! j) = Some k" for j k
      proof (cases "j = i")
        case False
        then have "i + 1 \<le> j" using that by simp
        with that IH show ?thesis by blast
      qed (use that None in simp)
      then show ?thesis unfolding eq using IH by auto
    next
      case (Some k)
      show ?thesis
      proof (cases "key < k")
        case True
        then have "insert_position ls key i = i"
          using i Some by (subst insert_position.simps) simp
        with i Some True show ?thesis by auto
      next
        case False
        let ?n = "next_top ls (i + 1)"
        have eq: "insert_position ls key i = insert_position ls key ?n"
          using i Some False by (subst insert_position.simps) simp
        have n: "?n \<le> length ls" "i + 1 \<le> ?n" using i next_top_le[of "i + 1" ls] by (auto simp: next_top_def)
        have IH: "?n \<le> insert_position ls key ?n \<and> insert_position ls key ?n \<le> length ls \<and>
          (\<forall>j k. ?n \<le> j \<and> j < insert_position ls key ?n \<and> top_key (ls ! j) = Some k \<longrightarrow> k \<le> key) \<and>
          (insert_position ls key ?n < length ls \<longrightarrow>
            (\<exists>k. top_key (ls ! insert_position ls key ?n) = Some k \<and> key < k))"
          using "1.IH"(2)[OF i Some False] n by blast
        have "k' \<le> key" if j: "i \<le> j" "j < insert_position ls key ?n" "top_key (ls ! j) = Some k'" for j k'
        proof -
          consider "j = i" | "i + 1 \<le> j" "j < ?n" | "?n \<le> j" using j by linarith
          then show ?thesis
          proof cases
            case 1 with j Some False show ?thesis by simp
          next
            case 2
            with next_top_skips[of "i + 1" j ls] i j(3) top_key_continuation show ?thesis by force
          next
            case 3 with IH j show ?thesis by blast
          qed
        qed
        with IH n show ?thesis unfolding eq by auto
      qed
    qed
  qed
qed

lemma insort_between:
  "(\<forall>x \<in> set a. x < y) \<Longrightarrow> (\<forall>x \<in> set b. y < x) \<Longrightarrow> insort y (a @ b) = a @ y # b" for y :: "'a::linorder"
proof (induction a)
  case Nil
  then show ?case by (cases b) auto
qed auto

lemma insert_position_split:
  assumes "sorted (top_keys ls)" "key \<notin> set (top_keys ls)"
  defines "p \<equiv> insert_position ls key 0"
  shows "insort key (top_keys ls) = top_keys (take p ls) @ key # top_keys (drop p ls)"
proof -
  note spec = insert_position_spec[of 0 ls key, folded p_def, simplified]
  have ls: "top_keys ls = top_keys (take p ls) @ top_keys (drop p ls)"
    by (metis append_take_drop_id top_keys_append)
  have lo: "k < key" if "k \<in> set (top_keys (take p ls))" for k
  proof -
    from that obtain l where "l \<in> set (take p ls)" "top_key l = Some k" by (auto simp: top_keys_set)
    then obtain j where "j < p" "j < length ls" "top_key (ls ! j) = Some k" by (auto simp: in_set_conv_nth)
    then have "k \<le> key" using spec by blast
    moreover have "k \<noteq> key" using that assms(2) ls by auto
    ultimately show ?thesis by simp
  qed
  have hi: "key < k" if k: "k \<in> set (top_keys (drop p ls))" for k
  proof -
    from k have "p < length ls" by (cases "p < length ls") (auto simp: top_keys_def List.map_filter_def)
    then obtain k0 where k0: "top_key (ls ! p) = Some k0" "key < k0" using spec by blast
    have "drop p ls = ls ! p # drop (Suc p) ls" using \<open>p < length ls\<close> by (simp add: Cons_nth_drop_Suc)
    then have "top_keys (drop p ls) = k0 # top_keys (drop (Suc p) ls)"
      using k0 by (simp add: top_keys_def List.map_filter_def)
    then have "k0 \<le> k" using assms(1) k unfolding ls by (auto simp: sorted_append)
    with k0 show ?thesis by simp
  qed
  show ?thesis unfolding ls by (rule insort_between) (use lo hi in blast)+
qed

text \<open>inserting a block into a file whose top-level keys are sorted keeps every line of the
  file, in order, adds only the block and at most one blank line, and leaves the keys sorted
  with the new one among them.\<close>

lemma yaml_insert_sorted:
  assumes "sorted (top_keys ls)" "key \<notin> set (top_keys ls)" "top_keys (block_lines block) = [key]"
  shows "\<exists>a b new. ls = a @ b \<and> insert_top_level_yaml_block ls key block = a @ new @ b \<and>
    new \<in> {block_lines block, [nl] # block_lines block, block_lines block @ [[nl]]} \<and>
    top_keys (insert_top_level_yaml_block ls key block) = insort key (top_keys ls)"
proof -
  let ?p = "insert_position ls key 0" and ?bl = "block_lines block"
  let ?new = "if ?p = length ls then if ls \<noteq> [] \<and> strip (last ls) \<noteq> [] then [nl] # ?bl else ?bl else ?bl @ [[nl]]"
  have "insert_top_level_yaml_block ls key block = take ?p ls @ ?new @ drop ?p ls"
    by (simp add: insert_top_level_yaml_block_def Let_def)
  moreover have "top_keys ([nl] # ?bl) = [key]"
    using top_keys_append[of "[[nl]]" ?bl] assms(3) by simp
  then have "top_keys ?new = [key]" using assms(3) by simp
  moreover note insert_position_split[OF assms(1,2)]
  ultimately show ?thesis by (intro exI[of _ "take ?p ls"] exI[of _ "drop ?p ls"] exI[of _ ?new]) auto
qed

lemma top_keys_nth: "k \<in> set (top_keys ls) \<longleftrightarrow> (\<exists>i < length ls. top_key (ls ! i) = Some k)"
  unfolding top_keys_set by (metis in_set_conv_nth)

lemma find_block_Some:
  assumes "find_top_level_yaml_block ls key = Some (start, stop)"
  shows "start < length ls \<and> top_key (ls ! start) = Some key \<and> key \<notin> set (top_keys (take start ls))"
proof -
  from assms have f: "find (\<lambda>i. top_key (ls ! i) = Some key) [0..<length ls] = Some start"
    by (auto simp: find_top_level_yaml_block_def split: option.splits)
  then have "start < length ls" "top_key (ls ! start) = Some key"
    "\<forall>j < start. top_key (ls ! j) \<noteq> Some key"
    by (auto simp: find_Some_iff)
  then show ?thesis unfolding top_keys_nth by auto
qed

lemma find_block_None: "find_top_level_yaml_block ls key = None \<longleftrightarrow> key \<notin> set (top_keys ls)"
  unfolding top_keys_nth by (auto simp: find_top_level_yaml_block_def find_None_iff find_Some_iff split: option.splits)

lemma rename_key_text:
  assumes "rename_key_line ls old new = Some ls'"
  shows "\<exists>pre post. concat ls = concat pre @ old @ '':'' @ post \<and> old \<notin> set (top_keys pre) \<and>
    concat ls' = concat pre @ new @ '':'' @ post"
proof -
  obtain start stop where fb: "find_top_level_yaml_block ls old = Some (start, stop)"
    and ls': "ls' = ls[start := new @ '':'' @ drop (length old + 1) (ls ! start)]"
    using assms by (auto simp: rename_key_line_def Let_def split: option.splits)
  note b = find_block_Some[OF fb]
  then obtain r where r: "ls ! start = old @ CHR '':'' # r" by (auto simp: top_key_iff)
  let ?post = "r @ concat (drop (Suc start) ls)"
  have "concat ls = concat (take start ls) @ ls ! start @ concat (drop (Suc start) ls)"
    using b id_take_nth_drop[of start ls] by (metis concat.simps(2) concat_append)
  moreover have "concat ls' = concat (take start ls) @ (new @ '':'' @ r) @ concat (drop (Suc start) ls)"
    unfolding ls' using b r by (simp add: upd_conv_take_nth_drop)
  ultimately show ?thesis using b r by (intro exI[of _ "take start ls"] exI[of _ ?post]) simp
qed

text \<open>renaming a package in \<open>package-overrides.yaml\<close> changes the key of its first block and
  not one other character of the file, and does nothing when there is no such block.\<close>

lemma rename_override_text:
  assumes "map_of (files w) PACKAGE_OVERRIDES_YAML = Some (FileN text)"
  shows "(old \<notin> set (top_keys (splitlines_keep text)) \<and> update_package_overrides old new w = (Inr (), w)) \<or>
    (\<exists>pre post. text = concat pre @ old @ '':'' @ post \<and> old \<notin> set (top_keys pre) \<and>
        update_package_overrides old new w =
          (Inr (), w\<lparr>files := fs_write PACKAGE_OVERRIDES_YAML (FileN (concat pre @ new @ '':'' @ post)) (files w)\<rparr>))"
proof (cases "rename_key_line (splitlines_keep text) old new")
  case None
  then have "find_top_level_yaml_block (splitlines_keep text) old = None"
    by (auto simp: rename_key_line_def Let_def split: option.splits)
  with None assms find_block_None show ?thesis
    by (simp add: update_package_overrides_def prog_simps read_text_def)
next
  case (Some ls)
  from rename_key_text[OF this] obtain pre post where "text = concat pre @ old @ '':'' @ post"
    "old \<notin> set (top_keys pre)" "concat ls = concat pre @ new @ '':'' @ post"
    unfolding concat_splitlines_keep by blast
  with Some assms show ?thesis
    by (auto simp: update_package_overrides_def prog_simps read_text_def write_text_def write_node_def)
qed

end
