(* ===== verification/Private_Product.thy ===== *)
theory Private_Product
  imports Yaml_Blocks Source_Update
begin

section \<open>Private products\<close>

text \<open>
  \<open>add_private_product\<close> and \<open>_setup_infra_repo\<close> of \<open>ci/dist_git.py\<close>: the checks, the Pulp
  repositories, the ReleasePlanAdmission entry appended as text to \<open>konflux_rpa_config.yml\<close>, the
  package assignments in \<open>package-overrides.yaml\<close>, the templates of the infrastructure checkout and
  the commit. \<open>yaml.dump\<close> is the parameter \<open>dump\<close>; a path given on the command line is split into
  its components, an absolute one keeping an empty first component.
\<close>

definition path_of :: "string \<Rightarrow> path" where
  \<comment> \<open>\<open>Path(s)\<close>\<close>
  "path_of s = (if startswith s ''/'' then [[]] else []) @ filter (\<lambda>p. p \<noteq> [] \<and> p \<noteq> ''.'') (split_on CHR ''/'' s)"

definition log_exit :: "'a prog" where
  \<comment> \<open>\<open>logging.error(\<dots>); sys.exit(1)\<close>\<close>
  "log_exit = raise (SysExit 1 [])"

definition RPA_CONFIG :: path where "RPA_CONFIG = ROOT_DIR @ [''ci'', ''konflux_rpa_config.yml'']"

subsection \<open>The infrastructure checkout\<close>

definition replace_required :: "string \<Rightarrow> string \<Rightarrow> string \<Rightarrow> string prog" where
  \<comment> \<open>one replacement of a text that must occur\<close>
  "replace_required old new content = (if contains content old then ret (replace_first old new content) else log_exit)"

definition release_plan_text :: "string \<Rightarrow> string \<Rightarrow> string prog" where
  "release_plan_text product content = (bind (replace_required (''hummingbird-rpm-release'' @ [nl]) (''hummingbird-rpm-release-private-'' @ product @ [nl]) content) (\<lambda>content.
    replace_required ''releasePlanAdmission: hummingbird-rpms-tech-preview-staging''
      (''releasePlanAdmission: hummingbird-rpms-private-'' @ product) content))"

definition ci_matrix_text :: "string \<Rightarrow> string \<Rightarrow> string prog" where
  "ci_matrix_text project_name content = (let marker = ''          - rpms-main'' @ [nl] in
     replace_required marker (marker @ ''          - '' @ project_name @ [nl]) content)"

definition setup_infra_repo :: "string \<Rightarrow> path \<Rightarrow> bool \<Rightarrow> unit prog" where
  "setup_infra_repo product infra_path dry_run = (let project_name = ''private-'' @ product @ ''-rpms-main'' in
    let target_dir = infra_path @ [''kubernetes'', project_name] in
    let rpms_main_dir = infra_path @ [''kubernetes'', ''rpms-main''] in
    bind (is_dir infra_path) (\<lambda>b.
    if \<not> b then log_exit else
    bind (is_dir rpms_main_dir) (\<lambda>b.
    if \<not> b then log_exit else
    bind (exists target_dir) (\<lambda>b.
    if b then log_exit else
    if dry_run then (ret ()) else
    seq (mkdir target_dir) (
    seq (copy_file (rpms_main_dir @ [''00-application.yml.j2'']) (target_dir @ [''00-application.yml.j2''])) (
    bind (read_text (rpms_main_dir @ [''01-release-plans.yml.j2''])) (\<lambda>plan.
    bind (release_plan_text product plan) (\<lambda>plan.
    seq (write_text (target_dir @ [''01-release-plans.yml.j2'']) plan) (
    bind (exists (rpms_main_dir @ [''10-integration-test-scenarios-testing-farm.yml.j2''])) (\<lambda>b.
    seq (whenM b (copy_file (rpms_main_dir @ [''10-integration-test-scenarios-testing-farm.yml.j2''])
      (target_dir @ [''10-integration-test-scenarios-testing-farm.yml.j2'']))) (
    bind (read_text (infra_path @ [''.gitlab-ci.yml''])) (\<lambda>ci.
    bind (ci_matrix_text project_name ci) (\<lambda>ci.
    write_text (infra_path @ [''.gitlab-ci.yml'']) ci)))))))))))))"

subsection \<open>The product\<close>

definition rpa_of_product :: "string \<Rightarrow> json \<Rightarrow> exn + bool" where
  \<comment> \<open>\<open>rpa.get('private_product') == product\<close>\<close>
  "rpa_of_product product rpa = map_sum id (\<lambda>d. dget d ''private_product'' = Some (JStr product)) (as_dict rpa)"

definition load_rpa_config :: "'v pylib \<Rightarrow> dict prog" where
  "load_rpa_config L = (bind (read_text RPA_CONFIG) (\<lambda>text.
    bind (from_sum (yaml_load L text)) (\<lambda>j.
    from_sum (as_dict j))))"

definition product_exists :: "string \<Rightarrow> dict \<Rightarrow> bool prog" where
  "product_exists product rpa_config = (bind (from_sum (case dget rpa_config ''rpas'' of None \<Rightarrow> Inr [] | Some v \<Rightarrow> as_list v)) (\<lambda>rpas.
    bind (mapM (\<lambda>r. from_sum (rpa_of_product product r)) rpas) (\<lambda>found.
    ret (True \<in> set found))))"

definition load_overrides :: "'v pylib \<Rightarrow> dict prog" where
  "load_overrides L = (bind (read_text PACKAGE_OVERRIDES_YAML) (\<lambda>text.
    bind (from_sum (yaml_load L text)) (\<lambda>j.
    from_sum (or_empty (Some j)))))"

definition already_private :: "dict \<Rightarrow> string \<Rightarrow> exn + bool" where
  "already_private overrides pkg = map_sum id (\<lambda>d. opt_truthy (dget d ''private_product'')) (or_empty (dget overrides pkg))"

definition check_product :: "'v pylib \<Rightarrow> string \<Rightarrow> string list \<Rightarrow> dict prog" where
  \<comment> \<open>the checks before anything is changed; the parsed ReleasePlanAdmission file\<close>
  "check_product L product packages = (seq (forM (\<lambda>pkg. (bind (is_dir (RPMS_DIR @ [pkg])) (\<lambda>b.
      whenM (\<not> b) log_exit))) packages) (
    bind (load_rpa_config L) (\<lambda>rpa_config.
    bind (product_exists product rpa_config) (\<lambda>used.
    seq (whenM used log_exit) (
    bind (load_overrides L) (\<lambda>overrides.
    seq (forM (\<lambda>pkg. (bind (from_sum (already_private overrides pkg)) (\<lambda>b.
      whenM b log_exit))) packages) (
    ret rpa_config)))))))"

definition repo_specs :: "string \<Rightarrow> (string \<times> string option) list" where
  "repo_specs product = [(''private-hummingbird-'' @ product @ ''-unsigned'', None),
     (''private-hummingbird-'' @ product @ ''-unsigned'', Some ''file''),
     (''private-hummingbird-'' @ product, None), (''private-hummingbird-'' @ product, Some ''file'')]"

definition pulp_argv :: "string option \<Rightarrow> string \<times> string option \<Rightarrow> string list" where
  "pulp_argv config spec = [path_str (ROOT_DIR @ [''ci'', ''pulp-setup'', ''create-pulp-resources.sh'']), ''--domain'', fst spec] @
     (case snd spec of Some t \<Rightarrow> [''--type'', t] | None \<Rightarrow> []) @
     (case config of Some (c # s) \<Rightarrow> [''--config'', c # s] | _ \<Rightarrow> [])"

definition public_rpa :: "dict \<Rightarrow> exn + dict" where
  \<comment> \<open>the first entry without \<open>private_product\<close>\<close>
  "public_rpa rpa_config = (case item (JObj rpa_config) ''rpas'' of
     Inl e \<Rightarrow> Inl e
   | Inr v \<Rightarrow> (case as_list v of
       Inl e \<Rightarrow> Inl e
     | Inr rpas \<Rightarrow> (case find (\<lambda>r. case r of JObj d \<Rightarrow> \<not> has_key d ''private_product'' | _ \<Rightarrow> True) rpas of
         Some (JObj (x # d)) \<Rightarrow> Inr (x # d)
       | Some (JObj []) \<Rightarrow> Inl (SysExit 1 [])
       | None \<Rightarrow> Inl (SysExit 1 [])
       | Some _ \<Rightarrow> Inl (TypeError ''expected mapping''))))"

definition new_rpa :: "string \<Rightarrow> string \<Rightarrow> json \<Rightarrow> json \<Rightarrow> dict" where
  "new_rpa product pulp_secret_name pipeline_url pipeline_revision =
     [(''name'', JStr (''hummingbird-rpms-private-'' @ product)),
      (''target_file'', JStr (''config/kflux-prd-rh03.nnv1.p1/product/ReleasePlanAdmission/hummingbird/hummingbird-rpms-private-'' @
         product @ ''.yaml'')),
      (''template'', JStr ''macros/releng/release-plan-admission.yml.j2''),
      (''application_prefix'', JStr (''private-'' @ product @ ''-rpms'')),
      (''release_org'', JStr ''registry.stage.redhat.io/hummingbird-tech-preview''),
      (''single_component_mode'', JBool True),
      (''service_account_name'', JStr ''hummingbird-rpm-release-staging''),
      (''pulp_unsigned_domain'', JStr (''private-hummingbird-'' @ product @ ''-unsigned'')),
      (''pulp_signed_domain'', JStr (''private-hummingbird-'' @ product)),
      (''pulp_secret_name'', JStr pulp_secret_name),
      (''pipeline_url'', pipeline_url), (''pipeline_revision'', pipeline_revision),
      (''private_product'', JStr product),
      (''component_filter'', JObj [(''path_prefix'', JStr ''rpms/'')])]"

definition pipeline_url_re :: rx where
  \<comment> \<open>\<open>^(\s*pipeline_url: )(\S+)$\<close>, with the MULTILINE flag\<close>
  "pipeline_url_re = Seq [Bol True, Grp 1 (Sq (Star True Space) (Lit ''pipeline_url: '')),
     Grp 2 (Plus True (Cls (\<lambda>c. \<not> is_ws c))), Eol True]"

definition rpa_block :: "(json \<Rightarrow> string) \<Rightarrow> dict \<Rightarrow> string" where
  "rpa_block dump rpa = re_sub pipeline_url_re (\<lambda>m. group m 1 @ [CHR 0x22] @ group m 2 @ [CHR 0x22])
     (concat (map (\<lambda>l. if l = [] then [nl] else ''  '' @ l @ [nl]) (splitlines (dump (JList [JObj rpa])))))"

definition append_rpa :: "string \<Rightarrow> string \<Rightarrow> string" where
  \<comment> \<open>a line end is added unless the file ends with a blank line\<close>
  "append_rpa block text = (let ls = splitlines_keep text in
     concat (ls @ (if ls \<noteq> [] \<and> strip (last ls) \<noteq> [] then [[nl]] else []) @ splitlines_keep block))"

definition assign_package :: "(json \<Rightarrow> string) \<Rightarrow> string \<Rightarrow> string list \<Rightarrow> string \<Rightarrow> string list" where
  "assign_package dump product ls pkg = (case find_top_level_yaml_block ls pkg of
     None \<Rightarrow> insert_top_level_yaml_block ls pkg (dump (JObj [(pkg, JObj [(''private_product'', JStr product)])]))
   | Some (start, stop) \<Rightarrow> append_key_to_yaml_block ls start stop (''  private_product: '' @ product @ [nl]))"

definition add_private_product :: "host \<Rightarrow> 'v pylib \<Rightarrow> (json \<Rightarrow> string) \<Rightarrow> string \<Rightarrow> string list \<Rightarrow> string option \<Rightarrow>
    string \<Rightarrow> string \<Rightarrow> bool \<Rightarrow> unit prog" where
  "add_private_product h L dump product packages pulp_config pulp_secret_name infra_repo dry_run = (bind (check_product L product packages) (\<lambda>rpa_config.
    seq (whenM (\<not> dry_run) (forM (\<lambda>s. (seq (run_proc h (pulp_argv pulp_config s) ROOT_DIR True) (
      ret ()))) (repo_specs product))) (
    bind (from_sum (public_rpa rpa_config)) (\<lambda>public.
    bind (from_sum (item (JObj public) ''pipeline_url'')) (\<lambda>url.
    bind (from_sum (item (JObj public) ''pipeline_revision'')) (\<lambda>revision.
    seq (whenM (\<not> dry_run) ((bind (read_text RPA_CONFIG) (\<lambda>text.
      write_text RPA_CONFIG (append_rpa (rpa_block dump (new_rpa product pulp_secret_name url revision)) text))))) (
    seq (whenM (\<not> dry_run) ((bind (read_text PACKAGE_OVERRIDES_YAML) (\<lambda>text.
      write_text PACKAGE_OVERRIDES_YAML (concat (foldl (assign_package dump product) (splitlines_keep text) packages)))))) (
    seq (setup_infra_repo product (path_of infra_repo) dry_run) (
    whenM (\<not> dry_run) ((seq (run_proc h [''python3'', path_str (ROOT_DIR @ [''ci'', ''generate_resources.py'']), ''all''] ROOT_DIR True) (
      seq (run_git h [''add'', path_str RPA_CONFIG, path_str PACKAGE_OVERRIDES_YAML, ''konflux-templates'', ''.tekton'', ''releng''] ROOT_DIR) (
      seq (run_git_commit h [''-m'', ''Add private product '' @ [CHR 0x27] @ product @ [CHR 0x27] @ '' with packages: '' @ join '', '' packages] ROOT_DIR) (
      ret ()))))))))))))))"

end
