(* ===== verification/Dist_Git_Main.thy ===== *)
theory Dist_Git_Main
  imports Dist_Git_Update Rebuild Private_Product
begin

section \<open>The command line of dist_git.py\<close>

text \<open>
  \<open>main\<close> of \<open>ci/dist_git.py\<close>: the globals are loaded, the git configuration is checked for the commands
  that may commit, and the parsed command is dispatched. The parsed arguments are the datatype
  \<open>dist_git_command\<close>; \<open>argparse\<close> itself is not modelled.
\<close>

datatype dist_git_command =
    Import string string "string option" "string option" \<comment> \<open>URL, branch, ref, directory\<close>
  | Update "string option" bool bool "string option" "string option" bool
      \<comment> \<open>package, skip build check, allow pre-releases, ref, branch, continue\<close>
  | Sync string bool "string option" "string option" \<comment> \<open>package, mark, ref, branch\<close>
  | Rebuild "string list" bool "string option" string \<comment> \<open>packages, all, exclude, reason\<close>
  | Rebuild_rev_deps string string
  | Update_releases
  | Rename string
  | Mark_modified string bool "string option"
  | Set_upstream string "string option" bool "string option" bool
      \<comment> \<open>package, tracked version, no tracking, project, no project\<close>
  | List_packages bool bool bool bool bool \<comment> \<open>clean, modified, independent, pre-release, name only\<close>
  | Diff "string list" bool bool bool bool \<comment> \<open>packages, all, stat, name only, raw\<close>
  | Ls_sources string
  | Add_private_product string string "string option" string string
      \<comment> \<open>product, packages, Pulp configuration, Pulp secret, infrastructure checkout\<close>

subsection \<open>The globals\<close>

definition releases_of :: "json \<Rightarrow> exn + (string \<times> (string \<times> string) list) list" where
  \<comment> \<open>\<open>cast(dict[str, dict[str, str]], \<dots>)\<close>; a document of another shape is reported where it is read\<close>
  "releases_of j = (case as_dict j of
     Inl e \<Rightarrow> Inl e
   | Inr d \<Rightarrow> (if list_all (\<lambda>(k, v). case v of JObj b \<Rightarrow> list_all (\<lambda>(n, t). case t of JStr _ \<Rightarrow> True | _ \<Rightarrow> False) b | _ \<Rightarrow> False) d
       then Inr (map (\<lambda>(k, v). (k, case v of JObj b \<Rightarrow> map (\<lambda>(n, t). (n, case t of JStr s \<Rightarrow> s | _ \<Rightarrow> [])) b | _ \<Rightarrow> [])) d)
       else Inl (TypeError ''expected mapping'')))"

definition load_globals :: "bool \<Rightarrow> unit prog" where
  "load_globals sign = (bind get_all_imported_packages (\<lambda>all.
    seq (modify (\<lambda>w. w\<lparr>imported := all\<rparr>)) (
    bind (json_load RELEASES_JSON) (\<lambda>j.
    bind (from_sum (releases_of j)) (\<lambda>rel.
    modify (\<lambda>w. w\<lparr>releases := rel, sign_off := sign\<rparr>))))))"

subsection \<open>The commands\<close>

definition update_args :: "bool \<Rightarrow> bool \<Rightarrow> bool \<Rightarrow> string option \<Rightarrow> string option \<Rightarrow> update_opts" where
  "update_args skip_build_check dry_run allow_prerelease ref branch =
     \<lparr>o_skip_build_check = skip_build_check, o_sync = False, o_dry_run = dry_run, o_allow_prerelease = allow_prerelease,
      o_mark = False, o_ref = ref, o_branch = branch\<rparr>"

definition update_command :: "host \<Rightarrow> ('v::linorder) pylib \<Rightarrow> string option \<Rightarrow> update_opts \<Rightarrow> bool \<Rightarrow> unit prog" where
  "update_command h L package opts resume = (if resume then (continue_update h L (o_dry_run opts)) else
    bind (exists UPDATE_STATE_FILE) (\<lambda>stale.
    seq (whenM stale (unlink UPDATE_STATE_FILE)) (
    if nonempty (o_branch opts) \<noteq> None \<and> nonempty package = None then (sys_exit ''ERROR: --branch requires a package name (cannot change branch for all packages)'') else
    bind (gets (\<lambda>w. map fst (imported w))) (\<lambda>known.
    forM (update h L opts) (case nonempty package of Some p \<Rightarrow> [p] | None \<Rightarrow> known)))))"

definition sync_args :: "bool \<Rightarrow> bool \<Rightarrow> string option \<Rightarrow> string option \<Rightarrow> update_opts" where
  "sync_args dry_run mark ref branch = \<lparr>o_skip_build_check = False, o_sync = True, o_dry_run = dry_run,
     o_allow_prerelease = False, o_mark = mark, o_ref = ref, o_branch = branch\<rparr>"

definition set_upstream_command :: "string \<Rightarrow> string option \<Rightarrow> bool \<Rightarrow> string option \<Rightarrow> bool \<Rightarrow> unit prog" where
  \<comment> \<open>\<open>None\<close> leaves a setting alone, \<open>Some None\<close> removes it; a project that is no number is a name\<close>
  "set_upstream_command package track no_track project no_project =
    (let track_version = (case track of Some t \<Rightarrow> Some (Some (JStr t)) | None \<Rightarrow> if no_track then Some None else None);
         project_id = (case project of
            Some p \<Rightarrow> Some (Some (case py_int p of Some i \<Rightarrow> JInt i | None \<Rightarrow> JStr p))
          | None \<Rightarrow> if no_project then Some None else None)
     in if track_version = None \<and> project_id = None
        then sys_exit ''ERROR: set-upstream requires at least one flag (e.g. --track-version, --project-id)''
        else set_upstream package track_version project_id)"

definition list_command :: "bool \<Rightarrow> bool \<Rightarrow> bool \<Rightarrow> bool \<Rightarrow> bool \<Rightarrow> unit prog" where
  "list_command clean modified independent prerelease name_only =
     list_packages (if clean then Some ''clean'' else if modified then Some ''modified''
       else if independent then Some ''independent'' else None) prerelease name_only"

definition diff_found :: "diff_result \<Rightarrow> bool" where
  "diff_found r = (case r of DiffNone \<Rightarrow> False | DiffBool b \<Rightarrow> b | DiffText t \<Rightarrow> t \<noteq> [])"

definition diff_command :: "host \<Rightarrow> string list \<Rightarrow> bool \<Rightarrow> bool \<Rightarrow> bool \<Rightarrow> bool \<Rightarrow> unit prog" where
  "diff_command h chosen all stat name_only raw = (let output_mode = (if stat then ''stat'' else if name_only then ''name-only'' else ''full'') in
    bind (gets (\<lambda>w. map fst (filter (\<lambda>(p, m). dget m ''modification_status'' = Some (JStr ''modified'')) (imported w)))) (\<lambda>modified.
    if all \<and> modified = [] then ((seq (emit (Print ''No modified packages found'')) (
      raise (SysExit 0 [])))) else
    if \<not> all \<and> chosen = [] then (sys_exit ''ERROR: Specify package names or use --all'') else
    let packages = (if all then modified else chosen) in
    bind (mapM (\<lambda>pkg. (seq (whenM (length packages > 1) (emit (Print (nl # ''=== '' @ pkg @ '' ==='')))) (
      bind (diff_package h pkg output_mode raw False) (\<lambda>r.
      ret (diff_found r))))) packages) (\<lambda>found.
    raise (SysExit (if True \<in> set found then 1 else 0) []))))"

definition run_command :: "host \<Rightarrow> ('v::linorder) pylib \<Rightarrow> (json \<Rightarrow> string) \<Rightarrow> bool \<Rightarrow> dist_git_command \<Rightarrow> unit prog" where
  "run_command h L dump dry_run cmd = (case cmd of
     Import url branch ref directory \<Rightarrow> import_package h url branch ref directory dry_run
   | Update package skip pre ref branch cont \<Rightarrow> update_command h L package (update_args skip dry_run pre ref branch) cont
   | Sync package mark ref branch \<Rightarrow> update h L (sync_args dry_run mark ref branch) package
   | Rebuild packages all exclude reason \<Rightarrow> rebuild_command h packages all exclude reason dry_run
   | Rebuild_rev_deps package reason \<Rightarrow> rebuild_reverse_dependencies h L package reason dry_run
   | Update_releases \<Rightarrow> update_releases h
   | Rename package \<Rightarrow> rename_package h L package
   | Mark_modified package modified reason \<Rightarrow> mark_modified h package modified reason
   | Set_upstream package track no_track project no_project \<Rightarrow> set_upstream_command package track no_track project no_project
   | List_packages clean modified independent prerelease name_only \<Rightarrow> list_command clean modified independent prerelease name_only
   | Diff packages all stat name_only raw \<Rightarrow> diff_command h packages all stat name_only raw
   | Ls_sources package \<Rightarrow> ls_sources h package
   | Add_private_product product packages config secret infra \<Rightarrow>
       add_private_product h L dump product (map strip (split_on CHR '','' packages)) config secret infra dry_run)"

definition is_rename :: "dist_git_command \<Rightarrow> bool" where
  "is_rename cmd = (case cmd of Rename _ \<Rightarrow> True | _ \<Rightarrow> False)"

definition reads_only :: "dist_git_command \<Rightarrow> bool" where
  \<comment> \<open>\<open>args.command in ['list', 'diff', 'set-upstream', 'ls-sources']\<close>\<close>
  "reads_only cmd = (case cmd of List_packages _ _ _ _ _ \<Rightarrow> True | Diff _ _ _ _ _ \<Rightarrow> True | Set_upstream _ _ _ _ _ \<Rightarrow> True
     | Ls_sources _ \<Rightarrow> True | _ \<Rightarrow> False)"

definition dist_git_main :: "host \<Rightarrow> ('v::linorder) pylib \<Rightarrow> (json \<Rightarrow> string) \<Rightarrow> bool \<Rightarrow> bool \<Rightarrow> dist_git_command \<Rightarrow> unit prog" where
  "dist_git_main h L dump dry_run sign cmd = (seq (load_globals sign) (
    if is_rename cmd \<and> dry_run then (sys_exit ''ERROR: --dry-run is not supported with the rename command'') else
    seq (whenM (\<not> reads_only cmd \<and> (\<not> dry_run \<or> is_rename cmd)) (check_git_config h)) (
    run_command h L dump dry_run cmd)))"

subsection \<open>Dry runs\<close>

lemma output_no_commit [simp]: "\<not> is_commit (Print l)" "\<not> is_commit (PrintJson j)" "\<not> is_commit (Ask q)"
  by (simp_all add: is_commit_def)

lemma quiet_json [run_rules]: "runs_in no_commit any_error (urlopen_json h m u hs)"
  by (auto simp: urlopen_json_def Let_def is_commit_def intro!: run_rules split: reply.splits)

lemma quiet_private: "runs_in no_commit any_error (add_private_product h L dump product packages config secret infra True)"
  by (auto simp: add_private_product_def check_product_def load_rpa_config_def product_exists_def load_overrides_def
      setup_infra_repo_def log_exit_def Let_def intro!: run_rules)

lemma quiet_rebuild: "runs_in no_commit any_error (rebuild_package h reason True p)"
  by (auto simp: rebuild_package_def resolve_autorelease_def update_release_in_spec_def load_package_metadata_def Let_def intro!: run_rules)

lemma quiet_rebuild_all: "runs_in no_commit any_error (rebuild_all h reason True ps title)"
  by (auto simp: rebuild_all_def rebuild_step_def print_rebuild_summary_def intro!: run_rules quiet_rebuild)

lemma quiet_rebuild_commands:
  "runs_in no_commit any_error (rebuild_command h ps all excl reason True)"
  "runs_in no_commit any_error (rebuild_reverse_dependencies h L p reason True)"
  by (auto simp: rebuild_command_def rebuild_reverse_dependencies_def get_virtual_buildrequires_translation_def
      translate_def reverse_dependencies_def requires_target_def expand_spec_buildrequires_def Let_def
      intro!: run_rules quiet_rebuild_all quiet_rebuild)

lemma quiet_import: "runs_in no_commit any_error (import_package h url branch r d True)"
  by (auto simp: import_package_def lookup_anitya_project_id_def check_jinja2_available_def Let_def intro!: run_rules)

lemma quiet_continue: "runs_in no_commit any_error (continue_update h L True)"
  by (auto simp: continue_update_def Let_def intro!: run_rules)

lemma run_modify: "(\<And>w. trace (f w) = trace w) \<Longrightarrow> runs_in S X (modify f)"
  by (simp add: runs_in_def modify_def)

lemma quiet_mark_modified: "runs_in no_commit any_error (mark_modified h p b reason)"
  by (auto simp: mark_modified_def ask_reason_def Let_def intro!: run_rules split: reply.splits)

lemma quiet_set_upstream: "runs_in no_commit any_error (set_upstream_command p t nt pr np)"
  by (auto simp: set_upstream_command_def set_upstream_def Let_def intro!: run_rules)

lemma quiet_list: "runs_in no_commit any_error (list_command b1 b2 b3 b4 b5)"
  unfolding list_command_def list_packages_def by (auto intro!: run_rules)

lemma quiet_globals: "runs_in no_commit any_error (load_globals s)"
  by (auto simp: load_globals_def get_all_imported_packages_def load_package_metadata_def Let_def intro!: run_rules run_modify)

lemma quiet_releases: "runs_in no_commit any_error (update_releases h)"
  by (auto simp: update_releases_def intro!: run_rules)

lemma quiet_print_stat [run_rules]: "runs_in no_commit any_error (print_stat h out)"
  unfolding print_stat_def by (auto intro!: run_rules)

lemma quiet_diff_package: "runs_in no_commit any_error (diff_package h p m raw False)"
  unfolding diff_package_def Let_def load_package_metadata_def
  by (intro run_rules) (simp_all add: quiet_print_stat diff_cmd_def)

lemma quiet_diff: "runs_in no_commit any_error (diff_command h ps b1 b2 b3 b4)"
  unfolding diff_command_def Let_def by (auto intro!: run_rules quiet_diff_package)

lemma quiet_ls_sources: "runs_in no_commit any_error (ls_sources h p)"
  by (auto simp: ls_sources_def imported_metadata_def list_archive_contents_def iter_source_filenames_def Let_def intro!: run_rules)

lemma quiet_update_command: "o_dry_run opts \<Longrightarrow> runs_in no_commit any_error (update_command h L p opts c)"
  by (auto simp: update_command_def intro!: run_rules quiet_continue update_dry_quiet)

lemma quiet_command: "\<not> is_rename cmd \<Longrightarrow> runs_in no_commit any_error (run_command h L dump True cmd)"
  by (cases cmd) (auto simp: run_command_def is_rename_def update_args_def sync_args_def intro!: quiet_import quiet_update_command
      update_dry_quiet quiet_rebuild_commands quiet_releases quiet_mark_modified quiet_set_upstream quiet_list quiet_diff
      quiet_ls_sources quiet_private)

text \<open>C7: a dry run never commits, whatever the command and whatever git, Koji, MDAPI, rpmspec and
  gorget answer: no event of a run of \<open>dist_git.py --dry-run\<close> is a \<open>git commit\<close> in the checkout
  (\<open>rename\<close>, which cannot be tried, is refused).\<close>

theorem dry_run_commits_nothing:
  "filter is_commit (trace (snd (dist_git_main h L dump True sign cmd w))) = filter is_commit (trace w)"
proof -
  have "runs_in no_commit any_error (dist_git_main h L dump True sign cmd)"
    unfolding dist_git_main_def by (cases "is_rename cmd") (auto intro!: run_rules quiet_globals quiet_command)
  from runs_inD[OF this prod.collapse[symmetric], of w] show ?thesis
    by (auto simp: filter_empty_conv)
qed

end
