(* ===== verification/Nevr_Check.thy ===== *)
theory Nevr_Check
  imports Run_Rules Source_Update "HOL-Library.Product_Lexorder"
begin

section \<open>Predicted and published package versions\<close>

text \<open>
  \<open>ci/check_nevr_conflicts.py\<close>: the packages a build would produce (\<open>get_spec_candidates\<close> asks
  \<open>rpmspec\<close>, \<open>get_built_rpm_candidates\<close> reads built RPMs), what Pulp has published
  (\<open>query_pulp_evrs\<close> asks \<open>dnf\<close>), and the verdicts (\<open>check_candidates\<close>, \<open>main\<close>). The
  subject of the lemmas is that the check fails closed: \<open>OK\<close> and exit status 0 are only reached
  when every repository answered and does not list the version. Standard error is not recorded.
\<close>

definition HUMMINGBIRD_RELEASE_SPEC :: path where
  "HUMMINGBIRD_RELEASE_SPEC = RPMS_DIR @ [''hummingbird-release'', ''hummingbird-release.spec'']"

definition BINARY_ARCHES :: "string list" where "BINARY_ARCHES = [''x86_64'', ''aarch64'']"

definition DEBUGINFO_SUFFIXES :: "string list" where "DEBUGINFO_SUFFIXES = [''-debuginfo'', ''-debugsource'']"

definition EVR_QUERYFORMAT :: string where "EVR_QUERYFORMAT = ''%{EVR}''"
definition DNF_EVR_QUERYFORMAT :: string where "DNF_EVR_QUERYFORMAT = ''%{evr}''"

definition macros_dist_re :: rx where
  \<comment> \<open>\<open>^cat > \S*/macros\.dist << EOF\n(.*?)^EOF\s*$\<close>, MULTILINE and DOTALL\<close>
  "macros_dist_re = Seq [Bol True, Lit ''cat > '', Star True (Cls (\<lambda>c. \<not> is_ws c)), Lit ''/macros.dist << EOF'', Chr nl,
     Grp 1 (Star False (Cls (\<lambda>_. True))), Bol True, Lit ''EOF'', Star True Space, Eol True]"

record rpm_candidate =
  c_package :: string
  c_name :: string
  c_evr :: string
  c_arch :: string

datatype verdict = Ok | Conflict | Cannot_determine

record check_result =
  r_candidate :: rpm_candidate
  r_status :: verdict
  r_note :: string

definition is_NevrCheckError :: "exn \<Rightarrow> bool" where
  "is_NevrCheckError e \<longleftrightarrow> (case e of NevrCheckError _ \<Rightarrow> True | _ \<Rightarrow> False)"

definition proc_missing :: "exn \<Rightarrow> bool" where
  "proc_missing e \<longleftrightarrow> e = TimeoutExpired \<or> is_FileNotFoundError e"

definition nevr_proc_exn :: "string \<Rightarrow> string \<Rightarrow> exn \<Rightarrow> 'a prog" where
  \<comment> \<open>the two \<open>except\<close> clauses around a program: time-out and missing program\<close>
  "nevr_proc_exn timeout_msg missing_msg e = raise (NevrCheckError (if e = TimeoutExpired then timeout_msg else missing_msg))"

subsection \<open>Dist-tag macros\<close>

definition get_distro_macros :: "host \<Rightarrow> string prog" where
  "get_distro_macros h = (bind (exists HUMMINGBIRD_RELEASE_SPEC) (\<lambda>b.
    if \<not> b then (raise (NevrCheckError (''Cannot find '' @ path_str HUMMINGBIRD_RELEASE_SPEC @ '' to determine dist macros''))) else
    bind (catch (run_proc h [''rpmspec'', ''-P'', ''--define=_sourcedir '' @ path_str (butlast HUMMINGBIRD_RELEASE_SPEC),
          path_str HUMMINGBIRD_RELEASE_SPEC] ROOT_DIR False) proc_missing
        (nevr_proc_exn ''Timed out parsing hummingbird-release.spec'' ''rpmspec is required but not found in PATH'')) (\<lambda>result.
    if returncode result \<noteq> 0 then (raise (NevrCheckError (''Failed to parse hummingbird-release.spec: '' @ strip (stderr result)))) else
    (case re_search macros_dist_re (stdout result) of
       None \<Rightarrow> raise (NevrCheckError ''Could not locate the macros.dist heredoc in hummingbird-release.spec output; has its %install section changed shape?'')
     | Some m \<Rightarrow> ret (group m 1)))))"

definition make_rpmmacros_home :: "string \<Rightarrow> path prog" where
  "make_rpmmacros_home macros_text = (let tmp_home = [''<tmp>'', ''check-nevr-conflicts-home''] in
    seq (write_node tmp_home DirN) (
    seq (write_text (tmp_home @ [''.rpmmacros'']) macros_text) (
    ret tmp_home)))"

subsection \<open>Prediction from spec files\<close>

definition run_rpmspec :: "host \<Rightarrow> string list \<Rightarrow> (string \<times> string) list \<Rightarrow> string prog" where
  "run_rpmspec h args env = (bind (catch (run_proc_env h env (''rpmspec'' # args) ROOT_DIR) proc_missing
      (nevr_proc_exn (''rpmspec timed out: '' @ join '' '' args) ''rpmspec is required but not found in PATH'')) (\<lambda>result.
    if returncode result \<noteq> 0 then (raise (NevrCheckError (''rpmspec failed for '' @ last args @ '': '' @ strip (stderr result)))) else
    ret (stdout result)))"

definition srpm_of :: "string \<Rightarrow> string \<Rightarrow> rpm_candidate option" where
  \<comment> \<open>the first line with text, as name and EVR\<close>
  "srpm_of package out = (case find (\<lambda>l. strip l \<noteq> []) (splitlines (strip out)) of
       None \<Rightarrow> None
     | Some line \<Rightarrow> (case split_at_str [tab] line of
          None \<Rightarrow> None
        | Some (name, evr) \<Rightarrow> Some \<lparr>c_package = package, c_name = name, c_evr = evr, c_arch = ''src''\<rparr>))"

definition spec_srpm :: "host \<Rightarrow> path \<Rightarrow> path \<Rightarrow> string \<Rightarrow> (string \<times> string) list \<Rightarrow> rpm_candidate option prog" where
  "spec_srpm h spec_file package_dir package env = (bind (run_rpmspec h [''-q'', ''--qf'', ''%{NAME}'' @ [tab] @ EVR_QUERYFORMAT @ [nl],
      ''--define=_sourcedir '' @ path_str package_dir, ''--srpm'', path_str spec_file] env) (\<lambda>out.
    ret (srpm_of package out)))"

definition is_debuginfo :: "string \<Rightarrow> bool" where
  "is_debuginfo name \<longleftrightarrow> list_ex (endswith (lower name)) DEBUGINFO_SUFFIXES"

definition binary_of :: "string \<Rightarrow> string \<Rightarrow> rpm_candidate option" where
  \<comment> \<open>one line of the answer: three fields, no source and no debug package\<close>
  "binary_of package line = (case split_on tab line of
       [name, evr, arch] \<Rightarrow>
         (if strip line = [] \<or> lower arch = ''src'' \<or> is_debuginfo name then None
          else Some \<lparr>c_package = package, c_name = name, c_evr = evr, c_arch = arch\<rparr>)
     | _ \<Rightarrow> None)"

definition spec_binaries :: "host \<Rightarrow> path \<Rightarrow> path \<Rightarrow> string \<Rightarrow> (string \<times> string) list \<Rightarrow> string \<Rightarrow> rpm_candidate list prog" where
  "spec_binaries h spec_file package_dir package env target_arch = (bind (run_rpmspec h [''-q'', ''--qf'', ''%{NAME}'' @ [tab] @ EVR_QUERYFORMAT @ [tab] @ ''%{ARCH}'' @ [nl],
      ''--define=_sourcedir '' @ path_str package_dir, ''--target'', target_arch, path_str spec_file] env) (\<lambda>out.
    ret (List.map_filter (binary_of package) (splitlines (strip out)))))"

definition ckey :: "rpm_candidate \<Rightarrow> string \<times> string" where
  "ckey c = (c_name c, c_arch c)"

definition put_candidate :: "rpm_candidate \<Rightarrow> ((string \<times> string) \<times> rpm_candidate) list \<Rightarrow> ((string \<times> string) \<times> rpm_candidate) list" where
  \<comment> \<open>\<open>candidates[(c.name, c.arch)] = c\<close>\<close>
  "put_candidate c d = dset (ckey c) c d"

definition get_spec_candidates :: "host \<Rightarrow> string \<Rightarrow> path \<Rightarrow> rpm_candidate list prog" where
  "get_spec_candidates h package rpmmacros_home = (let package_dir = RPMS_DIR @ [package] in
    bind (glob package_dir ''.spec'') (\<lambda>names.
    let specs = sort names in
    if length specs \<noteq> 1 then (raise (NevrCheckError (package @ '': expected exactly one .spec file in ''
      @ path_str package_dir @ '', found '' @ show_nat (length specs)))) else
    let spec_file = package_dir @ [hd specs] in
    bind (gets environ) (\<lambda>os_env.
    let env = dset ''HOME'' (path_str rpmmacros_home) os_env in
    bind (spec_srpm h spec_file package_dir package env) (\<lambda>srpm.
    bind (mapM (spec_binaries h spec_file package_dir package env) BINARY_ARCHES) (\<lambda>binaries.
    let candidates = fold put_candidate (concat binaries) (case srpm of None \<Rightarrow> [] | Some c \<Rightarrow> put_candidate c []) in
    if candidates = [] then (raise (NevrCheckError (package @ '': rpmspec produced no binary or source packages''))) else
    ret (sort_key ckey (map snd candidates)))))))"

subsection \<open>Built packages\<close>

fun infer_from :: "string list \<Rightarrow> string option" where
  \<comment> \<open>the directory above the nearest \<open>RPMS\<close> or \<open>SRPMS\<close>, on the parents from the inside out\<close>
  "infer_from [] = None"
| "infer_from (d # ds) = (if d \<in> {''RPMS'', ''SRPMS''} then Some (case ds of [] \<Rightarrow> [] | e # _ \<Rightarrow> e) else infer_from ds)"

definition infer_package_name :: "path \<Rightarrow> string" where
  "infer_package_name rpm_path = (case infer_from (tl (rev rpm_path)) of
     Some n \<Rightarrow> n | None \<Rightarrow> stem (last rpm_path))"

definition rglob :: "path \<Rightarrow> string \<Rightarrow> path list prog" where
  \<comment> \<open>\<open>d.rglob('*' + suffix)\<close>\<close>
  "rglob d suffix = gets (\<lambda>w. filter (\<lambda>q. q \<noteq> d \<and> under d q \<and> endswith (last q) suffix) (map fst (files w)))"

definition built_candidate :: "path \<Rightarrow> string \<Rightarrow> rpm_candidate option" where
  "built_candidate rpm_path out = (case split_on tab (strip out) of
       [name, evr, arch] \<Rightarrow> (if is_debuginfo name then None
         else Some \<lparr>c_package = infer_package_name rpm_path, c_name = name, c_evr = evr, c_arch = arch\<rparr>)
     | _ \<Rightarrow> None)"

definition read_rpm_header :: "host \<Rightarrow> path \<Rightarrow> rpm_candidate option prog" where
  \<comment> \<open>one RPM file; an unreadable header is skipped with a warning\<close>
  "read_rpm_header h rpm_path = catch ((bind (run_proc h [''rpm'', ''-qp'', ''--qf'', ''%{NAME}'' @ [tab] @ EVR_QUERYFORMAT @ [tab] @ ''%{ARCH}'' @ [nl],
        path_str rpm_path] ROOT_DIR True) (\<lambda>result.
    ret (built_candidate rpm_path (stdout result)))))
    (\<lambda>e. proc_missing e \<or> is_CalledProcessError e)
    (\<lambda>e. if is_CalledProcessError e then ret None
      else nevr_proc_exn (''rpm timed out reading '' @ path_str rpm_path) ''rpm is required but not found in PATH'' e)"

definition get_built_rpm_candidates :: "host \<Rightarrow> path \<Rightarrow> rpm_candidate list prog" where
  "get_built_rpm_candidates h rpms_dir = (bind (exists rpms_dir) (\<lambda>b.
    if \<not> b then (raise (NevrCheckError (''--rpms-dir path does not exist: '' @ path_str rpms_dir))) else
    bind (rglob rpms_dir ''.rpm'') (\<lambda>found.
    let rpm_files = sort found in
    if rpm_files = [] then (raise (NevrCheckError (''No .rpm files found under '' @ path_str rpms_dir))) else
    bind (mapM (read_rpm_header h) rpm_files) (\<lambda>cs.
    ret (List.map_filter (\<lambda>c. c) cs)))))"

subsection \<open>What Pulp has published\<close>

definition repo_keys_for_candidate :: "rpm_candidate \<Rightarrow> string list" where
  "repo_keys_for_candidate c =
     (if c_arch c = ''noarch'' then [''x86_64'', ''aarch64'']
      else if c_arch c \<in> set BINARY_ARCHES then [c_arch c]
      else if c_arch c = ''src'' then [''source'']
      else [])"

type_synonym evrs = "(string \<times> string list) list" \<comment> \<open>published EVRs by package name\<close>

definition add_evr :: "string \<Rightarrow> evrs \<Rightarrow> evrs" where
  \<comment> \<open>one line of the answer, name and EVR\<close>
  "add_evr line d = (if strip line = [] then d else case split_at_str [tab] line of
       None \<Rightarrow> d
     | Some (name, evr) \<Rightarrow> dset name (List.insert evr (case dget d name of Some s \<Rightarrow> s | None \<Rightarrow> [])) d)"

definition parse_evrs :: "string \<Rightarrow> evrs" where
  "parse_evrs out = fold add_evr (splitlines (strip out)) []"

definition dnf_argv :: "string \<Rightarrow> string list \<Rightarrow> string list" where
  "dnf_argv base_url names = [''dnf'', ''-q'', ''--repofrompath'', ''nevrcheck,'' @ base_url, ''--repo'', ''nevrcheck'',
     ''repoquery'', ''--qf'', ''%{name}'' @ [tab] @ DNF_EVR_QUERYFORMAT @ [nl]] @ sort names"

definition query_pulp_evrs :: "host \<Rightarrow> string \<Rightarrow> string list \<Rightarrow> evrs option prog" where
  \<comment> \<open>\<open>None\<close> when the query failed; \<open>names\<close> is a set\<close>
  "query_pulp_evrs h base_url names = (if names = [] then (ret (Some [])) else
    bind (catch ((bind (run_proc h (dnf_argv base_url names) ROOT_DIR False) (\<lambda>r.
      ret (Some r)))) proc_missing
      (\<lambda>e. if e = TimeoutExpired then ret None else raise (NevrCheckError ''dnf is required but not found in PATH''))) (\<lambda>r.
    ret (case r of None \<Rightarrow> None
      | Some result \<Rightarrow> if returncode result \<noteq> 0 then None else Some (parse_evrs (stdout result)))))"

definition REPO_KEYS :: "string list" where "REPO_KEYS = [''x86_64'', ''aarch64'', ''source'']"

definition names_for_repo :: "rpm_candidate list \<Rightarrow> string \<Rightarrow> string list" where
  "names_for_repo candidates repo_key =
     remdups (map c_name (filter (\<lambda>c. repo_key \<in> set (repo_keys_for_candidate c)) candidates))"

definition published_in :: "(string \<times> evrs option) list \<Rightarrow> rpm_candidate \<Rightarrow> string \<Rightarrow> bool" where
  "published_in evrs_by_repo c repo_key = (case dget evrs_by_repo repo_key of
       Some (Some evrs) \<Rightarrow> (case dget evrs (c_name c) of Some s \<Rightarrow> c_evr c \<in> set s | None \<Rightarrow> False)
     | _ \<Rightarrow> False)"

definition unknown_repo :: "(string \<times> evrs option) list \<Rightarrow> string \<Rightarrow> bool" where
  "unknown_repo evrs_by_repo repo_key = (case dget evrs_by_repo repo_key of Some (Some _) \<Rightarrow> False | _ \<Rightarrow> True)"

definition judge :: "(string \<times> evrs option) list \<Rightarrow> rpm_candidate \<Rightarrow> check_result" where
  "judge evrs_by_repo c = (let repo_keys = repo_keys_for_candidate c in
     if repo_keys = [] then \<lparr>r_candidate = c, r_status = Cannot_determine, r_note = ''unrecognized arch '' @ c_arch c\<rparr>
     else (case find (published_in evrs_by_repo c) repo_keys of
         Some repo_key \<Rightarrow> \<lparr>r_candidate = c, r_status = Conflict, r_note = ''already published in '' @ repo_key\<rparr>
       | None \<Rightarrow> if list_ex (unknown_repo evrs_by_repo) repo_keys
           then \<lparr>r_candidate = c, r_status = Cannot_determine, r_note = ''Pulp query failed''\<rparr>
           else \<lparr>r_candidate = c, r_status = Ok, r_note = []\<rparr>))"

definition check_candidates :: "host \<Rightarrow> (string \<Rightarrow> string) \<Rightarrow> rpm_candidate list \<Rightarrow> check_result list prog" where
  "check_candidates h base_urls candidates = (bind (mapM (\<lambda>repo_key. (bind (query_pulp_evrs h (base_urls repo_key) (names_for_repo candidates repo_key)) (\<lambda>e.
      ret (repo_key, e)))) REPO_KEYS) (\<lambda>evrs_by_repo.
    ret (map (judge evrs_by_repo) candidates)))"

subsection \<open>Package selection\<close>

definition load_private_products :: "'v pylib \<Rightarrow> (string \<times> json) list prog" where
  "load_private_products L = (bind (exists PACKAGE_OVERRIDES_YAML) (\<lambda>b.
    if \<not> b then (ret []) else
    bind (read_text PACKAGE_OVERRIDES_YAML) (\<lambda>text.
    bind (from_sum (yaml_load L text)) (\<lambda>doc.
    bind (from_sum (as_dict (if truthy doc then doc else JObj []))) (\<lambda>overrides.
    ret (List.map_filter (\<lambda>(pkg, cfg). case cfg of
        JObj d \<Rightarrow> (case dget d ''private_product'' of Some v \<Rightarrow> if truthy v then Some (pkg, v) else None | None \<Rightarrow> None)
      | _ \<Rightarrow> None) overrides))))))"

definition has_spec :: "string \<Rightarrow> bool prog" where
  "has_spec package = (bind (is_dir (RPMS_DIR @ [package])) (\<lambda>b.
    bind (glob (RPMS_DIR @ [package]) ''.spec'') (\<lambda>specs.
    ret (b \<and> specs \<noteq> []))))"

definition filter_specs :: "string list \<Rightarrow> string list prog" where
  "filter_specs ps = (bind (mapM (\<lambda>p. (bind (has_spec p) (\<lambda>b.
      ret (b, p)))) ps) (\<lambda>marked.
    ret (map snd (filter fst marked))))"

definition get_all_packages :: "string list prog" where
  "get_all_packages = (bind (iterdir RPMS_DIR) (\<lambda>names.
    bind (filter_specs names) (\<lambda>ps.
    ret (sort ps))))"

definition changed_dir :: "string \<Rightarrow> string option" where
  \<comment> \<open>the second component of a changed path under \<open>rpms/\<close>\<close>
  "changed_dir line = (if startswith line ''rpms/'' then
     (case split_on CHR ''/'' line of a # b # _ \<Rightarrow> Some b | _ \<Rightarrow> None) else None)"

definition changed_dirs :: "string \<Rightarrow> string list" where
  "changed_dirs out = sort (remdups (List.map_filter changed_dir (splitlines (strip out))))"

definition git_nevr :: "host \<Rightarrow> string list \<Rightarrow> string \<Rightarrow> completed prog" where
  \<comment> \<open>\<open>subprocess.run(['git', ...], check=True)\<close> with its failures as \<open>NevrCheckError\<close>\<close>
  "git_nevr h args what = catch (run_proc h (''git'' # args) ROOT_DIR True)
     (\<lambda>e. is_CalledProcessError e \<or> is_FileNotFoundError e)
     (\<lambda>e. raise (NevrCheckError (case e of CalledProcessError _ err \<Rightarrow> what @ '' failed: '' @ strip err
        | _ \<Rightarrow> ''git is required but not found in PATH'')))"

definition get_changed_rpm_packages :: "host \<Rightarrow> string list prog" where
  "get_changed_rpm_packages h = (bind (gets environ) (\<lambda>env.
    let diff_base_sha = (case dget env ''CI_MERGE_REQUEST_DIFF_BASE_SHA'' of Some s \<Rightarrow> s | None \<Rightarrow> []) in
    let target_branch = (case dget env ''CI_MERGE_REQUEST_TARGET_BRANCH_NAME'' of Some s \<Rightarrow> s | None \<Rightarrow> ''main'') in
    seq (whenM (diff_base_sha \<noteq> []) ((seq (git_nevr h [''fetch'', ''--quiet'', ''origin'', diff_base_sha] (''git fetch of MR diff base '' @ diff_base_sha)) (
      ret ())))) (
    let base_desc = (if diff_base_sha \<noteq> [] then diff_base_sha else ''origin/'' @ target_branch) in
    let diff_args = (if diff_base_sha \<noteq> [] then [diff_base_sha, ''HEAD''] else [base_desc @ ''...HEAD'']) in
    bind (git_nevr h ([''diff'', ''--name-only''] @ diff_args) (''git diff against '' @ base_desc)) (\<lambda>result.
    ret (changed_dirs (stdout result))))))"

subsection \<open>The command\<close>

record nevr_args =
  a_packages :: "string list"
  a_mr :: bool
  a_all :: bool
  a_rpms_dirs :: "path list"
  a_base_urls :: "string \<Rightarrow> string"
  a_json :: bool

definition gather_step :: "('a \<Rightarrow> rpm_candidate list prog) \<Rightarrow> rpm_candidate list \<times> string list \<Rightarrow> 'a \<Rightarrow>
    (rpm_candidate list \<times> string list) prog" where
  \<comment> \<open>\<open>try: candidates.extend(f(x)) except NevrCheckError as e: errors.append(str(e))\<close>\<close>
  "gather_step f acc x = catch ((bind (f x) (\<lambda>cs.
    ret (fst acc @ cs, snd acc))))
     is_NevrCheckError (\<lambda>e. ret (fst acc, snd acc @ [exn_str e]))"

definition gather :: "('a \<Rightarrow> rpm_candidate list prog) \<Rightarrow> 'a list \<Rightarrow> (rpm_candidate list \<times> string list) prog" where
  "gather f xs = foldM (gather_step f) ([], []) xs"

definition show_verdict :: "verdict \<Rightarrow> string" where
  "show_verdict s = (case s of Ok \<Rightarrow> ''OK'' | Conflict \<Rightarrow> ''CONFLICT'' | Cannot_determine \<Rightarrow> ''CANNOT_DETERMINE'')"

definition result_json :: "(string \<times> json) list \<Rightarrow> check_result \<Rightarrow> json" where
  "result_json private_products r = (let c = r_candidate r in JObj [(''package'', JStr (c_package c)), (''name'', JStr (c_name c)),
     (''evr'', JStr (c_evr c)), (''arch'', JStr (c_arch c)), (''status'', JStr (show_verdict (r_status r))),
     (''note'', JStr (r_note r)),
     (''private_product'', case dget private_products (c_package c) of Some v \<Rightarrow> v | None \<Rightarrow> JNull)])"

definition result_line :: "check_result \<Rightarrow> string" where
  "result_line r = (let c = r_candidate r in ljust 16 (show_verdict (r_status r)) @ '' '' @ c_package c @ '': '' @
     c_name c @ ''-'' @ c_evr c @ ''.'' @ c_arch c @ (if r_note r \<noteq> [] then '' ('' @ r_note r @ '')'' else []))"

definition count_status :: "verdict \<Rightarrow> check_result list \<Rightarrow> nat" where
  "count_status s rs = length (filter (\<lambda>r. r_status r = s) rs)"

definition summary_line :: "check_result list \<Rightarrow> string list \<Rightarrow> string" where
  "summary_line results errors = ''Checked: '' @ show_nat (length results) @ ''  OK: '' @
     show_nat (length results - count_status Conflict results - count_status Cannot_determine results) @
     ''  Conflicts: '' @ show_nat (count_status Conflict results) @
     ''  Undetermined: '' @ show_nat (count_status Cannot_determine results) @ ''  Errors: '' @ show_nat (length errors)"

definition private_note :: "(string \<times> json) list \<Rightarrow> string \<Rightarrow> string" where
  \<comment> \<open>the \<open>repr\<close> of a product name without quotes\<close>
  "private_note private_products pkg = ''NOTE: '' @ pkg @ '' is routed to private_product='' @
     (case dget private_products pkg of Some (JStr s) \<Rightarrow> [CHR 0x27] @ s @ [CHR 0x27] | _ \<Rightarrow> []) @
     ''; its private Pulp domain was not checked (requires Pulp API credentials)''"

definition spec_mode_note :: string where
  "spec_mode_note = ''Note: in spec mode, some OK results above may be for a package name a real build never actually produces (e.g. a base package with no top-level %files section -- expected and harmless). This never overrides or reduces the significance of any CONFLICT above, which always reflects a real, already-published NEVR and should be investigated regardless.''"

definition print_report :: "nevr_args \<Rightarrow> bool \<Rightarrow> (string \<times> json) list \<Rightarrow> check_result list \<Rightarrow> string list \<Rightarrow> unit prog" where
  "print_report args spec_mode private_products results errors =
     (if a_json args then emit (PrintJson (JObj [(''results'', JList (map (result_json private_products) results)),
        (''errors'', JList (map JStr errors))]))
      else (seq (forM (\<lambda>r. emit (Print (result_line r))) results) (
        seq (forM (\<lambda>pkg. emit (Print (private_note private_products pkg)))
          (sort (remdups (filter (has_key private_products) (map (\<lambda>r. c_package (r_candidate r)) results))))) (
        seq (emit (Print [])) (
        seq (emit (Print (summary_line results errors))) (
        whenM (spec_mode \<and> 0 < length results - count_status Conflict results - count_status Cannot_determine results)
          ((seq (emit (Print [])) (
            emit (Print spec_mode_note))))))))))"

definition exit_code :: "check_result list \<Rightarrow> string list \<Rightarrow> int" where
  "exit_code results errors = (if count_status Conflict results > 0 then 1
     else if count_status Cannot_determine results > 0 \<or> errors \<noteq> [] then 2 else 0)"

definition check_and_report ::
  "host \<Rightarrow> 'v pylib \<Rightarrow> nevr_args \<Rightarrow> bool \<Rightarrow> rpm_candidate list \<Rightarrow> string list \<Rightarrow> int prog" where
  \<comment> \<open>\<open>main\<close>, once the candidates are known\<close>
  "check_and_report h L args spec_mode candidates errors = (if candidates = [] \<and> errors = [] then ((seq (emit (Print ''No binary or source packages found to check'')) (
      ret 0))) else
    bind (catch ((bind (if candidates \<noteq> [] then check_candidates h (a_base_urls args) candidates else ret []) (\<lambda>rs.
      ret (Some rs)))) is_NevrCheckError (\<lambda>_. ret None)) (\<lambda>checked.
    (case checked of
       None \<Rightarrow> ret 2
     | Some results \<Rightarrow> (bind (load_private_products L) (\<lambda>private_products.
       seq (print_report args spec_mode private_products results errors) (
       ret (exit_code results errors)))))))"

definition select_packages :: "host \<Rightarrow> nevr_args \<Rightarrow> string list option prog" where
  \<comment> \<open>\<open>None\<close> when the changed packages cannot be found out\<close>
  "select_packages h args =
     (if a_mr args then catch ((bind (get_changed_rpm_packages h) (\<lambda>ps.
       bind (filter_specs ps) (\<lambda>qs.
       ret (Some qs)))))
        is_NevrCheckError (\<lambda>_. ret None)
      else if a_all args then (bind get_all_packages (\<lambda>ps.
        ret (Some ps)))
      else if a_packages args \<noteq> [] then ret (Some (a_packages args))
      else raise (SysExit 2 ''Must specify --mr, --all, --rpms-dir, or package names''))"

definition check_specs :: "host \<Rightarrow> 'v pylib \<Rightarrow> nevr_args \<Rightarrow> string list \<Rightarrow> int prog" where
  \<comment> \<open>\<open>main\<close> in spec mode, once the packages are known\<close>
  "check_specs h L args packages = (if packages = [] then ((seq (emit (Print ''No packages to check'')) (
      ret 0))) else
    bind (catch ((bind (get_distro_macros h) (\<lambda>m.
      bind (make_rpmmacros_home m) (\<lambda>p.
      ret (Some p)))))
      is_NevrCheckError (\<lambda>_. ret None)) (\<lambda>home.
    (case home of
       None \<Rightarrow> ret 2
     | Some rpmmacros_home \<Rightarrow> (bind (finally_do (gather (\<lambda>p. get_spec_candidates h p rpmmacros_home) packages)
           (rmtree rpmmacros_home)) (\<lambda>(candidates, errors).
       check_and_report h L args True candidates errors)))))"

definition nevr_main :: "host \<Rightarrow> 'v pylib \<Rightarrow> nevr_args \<Rightarrow> int prog" where
  "nevr_main h L args = (if a_rpms_dirs args \<noteq> [] then (bind (gather (get_built_rpm_candidates h) (a_rpms_dirs args)) (\<lambda>(candidates, errors).
    check_and_report h L args False candidates errors))
     else (bind (select_packages h args) (\<lambda>selected.
       (case selected of None \<Rightarrow> ret 2 | Some packages \<Rightarrow> check_specs h L args packages))))"

subsection \<open>The contract of a query\<close>

definition listed :: "string \<Rightarrow> string \<Rightarrow> string \<Rightarrow> bool" where
  \<comment> \<open>a line of the answer has this name and EVR\<close>
  "listed out name evr \<longleftrightarrow>
     (\<exists>line \<in> set (splitlines (strip out)). strip line \<noteq> [] \<and> split_at_str [tab] line = Some (name, evr))"

definition lookup_evr :: "evrs \<Rightarrow> string \<Rightarrow> string \<Rightarrow> bool" where
  "lookup_evr d name evr \<longleftrightarrow> (case dget d name of Some s \<Rightarrow> evr \<in> set s | None \<Rightarrow> False)"

lemma lookup_add_evr:
  "lookup_evr (add_evr line d) n e \<longleftrightarrow> lookup_evr d n e \<or> strip line \<noteq> [] \<and> split_at_str [tab] line = Some (n, e)"
  by (auto simp: lookup_evr_def add_evr_def split: option.splits)

lemma parse_evrs_iff: "lookup_evr (parse_evrs out) n e \<longleftrightarrow> listed out n e"
proof -
  have "lookup_evr (fold add_evr ls d) n e \<longleftrightarrow> lookup_evr d n e \<or>
      (\<exists>line \<in> set ls. strip line \<noteq> [] \<and> split_at_str [tab] line = Some (n, e))" for ls d
    by (induction ls arbitrary: d) (auto simp: lookup_add_evr)
  from this[of "splitlines (strip out)" "[]"] show ?thesis
    by (simp add: parse_evrs_def listed_def lookup_evr_def)
qed

locale evr_source =
  fixes query :: "string \<Rightarrow> string list \<Rightarrow> evrs option prog"
    and answers :: "string \<Rightarrow> string list \<Rightarrow> string \<Rightarrow> bool"
  assumes sound: "query url names w = (Inr (Some d), w') \<Longrightarrow> names \<noteq> [] \<Longrightarrow>
    \<exists>out. answers url names out \<and> (\<forall>n e. lookup_evr d n e \<longleftrightarrow> listed out n e)"
begin

lemma ask_all:
  assumes "mapM (\<lambda>k. bind (query (url k) (names k)) (\<lambda>e. ret (k, e))) ks w = (Inr m, w')"
    and "dget m k = Some (Some d)" "names k \<noteq> []"
  shows "\<exists>out. answers (url k) (names k) out \<and> (\<forall>n e. lookup_evr d n e \<longleftrightarrow> listed out n e)"
  using assms(1,2)
proof (induction ks arbitrary: w m)
  case (Cons x ks)
  then show ?case using sound assms(3) by (auto simp: prog_inr split: if_splits)
qed (simp add: ret_def)

lemma ask_all_keys:
  "mapM (\<lambda>k. bind (query (url k) (names k)) (\<lambda>e. ret (k, e))) ks w = (Inr m, w') \<Longrightarrow> map fst m = ks"
  by (induction ks arbitrary: w m) (auto simp: prog_inr)

end

definition dnf_answers :: "host \<Rightarrow> string \<Rightarrow> string list \<Rightarrow> string \<Rightarrow> bool" where
  \<comment> \<open>dnf ended with status 0 and this output, asked for these names\<close>
  "dnf_answers h url names out \<longleftrightarrow> (\<exists>t f r. completed_of (dnf_argv url names) False
     (fst (h t (Proc (dnf_argv url names) ROOT_DIR) f)) = Inr r \<and> returncode r = 0 \<and> stdout r = out)"

interpretation pulp: evr_source "query_pulp_evrs h" "dnf_answers h" for h :: host
proof unfold_locales
  fix url names w d w' assume q: "query_pulp_evrs h url names w = (Inr (Some d), w')" and n: "names \<noteq> []"
  from q n obtain r where r: "completed_of (dnf_argv url names) False
      (fst (h (trace w) (Proc (dnf_argv url names) ROOT_DIR) (files w))) = Inr r" "returncode r = 0" "d = parse_evrs (stdout r)"
    by (auto simp: query_pulp_evrs_def run_proc_def prog_inr ask_host_run split: option.splits if_splits)
  then show "\<exists>out. dnf_answers h url names out \<and> (\<forall>n e. lookup_evr d n e \<longleftrightarrow> listed out n e)"
    unfolding dnf_answers_def parse_evrs_iff[symmetric] by blast
qed

subsection \<open>Verdicts\<close>

definition not_published :: "host \<Rightarrow> (string \<Rightarrow> string) \<Rightarrow> rpm_candidate list \<Rightarrow> rpm_candidate \<Rightarrow> bool" where
  \<comment> \<open>every repository the package goes to answered and does not list it\<close>
  "not_published h urls cs c \<longleftrightarrow> repo_keys_for_candidate c \<noteq> [] \<and> (\<forall>k \<in> set (repo_keys_for_candidate c).
     \<exists>out. dnf_answers h (urls k) (names_for_repo cs k) out \<and> \<not> listed out (c_name c) (c_evr c))"

definition published :: "host \<Rightarrow> (string \<Rightarrow> string) \<Rightarrow> rpm_candidate list \<Rightarrow> rpm_candidate \<Rightarrow> bool" where
  \<comment> \<open>a repository the package goes to listed it\<close>
  "published h urls cs c \<longleftrightarrow> (\<exists>k \<in> set (repo_keys_for_candidate c).
     \<exists>out. dnf_answers h (urls k) (names_for_repo cs k) out \<and> listed out (c_name c) (c_evr c))"

lemma published_in_iff: "published_in m c k \<longleftrightarrow> (\<exists>d. dget m k = Some (Some d) \<and> lookup_evr d (c_name c) (c_evr c))"
  by (auto simp: published_in_def lookup_evr_def split: option.splits)

lemma unknown_repo_iff: "\<not> unknown_repo m k \<longleftrightarrow> (\<exists>d. dget m k = Some (Some d))"
  by (auto simp: unknown_repo_def split: option.splits)

lemma judge_candidate [simp]: "r_candidate (judge m c) = c"
  by (simp add: judge_def Let_def split: option.splits)

lemma judge_Ok: "r_status (judge m c) = Ok \<Longrightarrow> repo_keys_for_candidate c \<noteq> [] \<and>
    (\<forall>k \<in> set (repo_keys_for_candidate c). \<not> unknown_repo m k \<and> \<not> published_in m c k)"
  by (auto simp: judge_def Let_def find_None_iff list_ex_iff split: option.splits if_splits)

lemma judge_Conflict: "r_status (judge m c) = Conflict \<Longrightarrow> \<exists>k \<in> set (repo_keys_for_candidate c). published_in m c k"
  by (auto simp: judge_def Let_def dest: find_Some_mem split: option.splits if_splits)

lemma verdicts:
  assumes "check_candidates h urls cs w = (Inr rs, w')" "r \<in> set rs"
  shows "r_candidate r \<in> set cs \<and> (r_status r = Ok \<longrightarrow> not_published h urls cs (r_candidate r)) \<and>
    (r_status r = Conflict \<longrightarrow> published h urls cs (r_candidate r))"
proof -
  from assms(1) obtain m w1 where m: "mapM (\<lambda>k. bind (query_pulp_evrs h (urls k) (names_for_repo cs k))
      (\<lambda>e. ret (k, e))) REPO_KEYS w = (Inr m, w1)" "rs = map (judge m) cs"
    by (auto simp: check_candidates_def prog_inr)
  with assms(2) obtain c where c: "c \<in> set cs" "r = judge m c" by auto
  have ne: "names_for_repo cs k \<noteq> []" if "k \<in> set (repo_keys_for_candidate c)" for k
    using that c(1) by (auto simp: names_for_repo_def filter_empty_conv)
  have ask: "\<exists>out. dnf_answers h (urls k) (names_for_repo cs k) out \<and> (\<forall>n e. lookup_evr d n e \<longleftrightarrow> listed out n e)"
    if "k \<in> set (repo_keys_for_candidate c)" "dget m k = Some (Some d)" for k d
    using pulp.ask_all[OF m(1) that(2) ne[OF that(1)]] .
  have "not_published h urls cs c" if "r_status r = Ok"
    using judge_Ok[of m c] that c(2) ask unfolding not_published_def published_in_iff unknown_repo_iff by metis
  moreover have "published h urls cs c" if "r_status r = Conflict"
    using judge_Conflict[of m c] that c(2) ask unfolding published_def published_in_iff by metis
  ultimately show ?thesis using c by simp
qed

lemma verdicts_order: "check_candidates h urls cs w = (Inr rs, w') \<Longrightarrow> map r_candidate rs = cs"
  by (auto simp: check_candidates_def prog_inr comp_def)

text \<open>C3: \<open>check_candidates\<close> gives one verdict per candidate, in order, and fails closed: \<open>OK\<close> only when
  dnf answered with status 0 for every repository the package would go to and no answer lists the
  package's EVR; \<open>CONFLICT\<close> only when such an answer lists it.\<close>

theorem nevr_verdicts:
  assumes "check_candidates h urls cs w = (Inr rs, w')"
  shows "map r_candidate rs = cs \<and> (\<forall>r \<in> set rs.
    (r_status r = Ok \<longrightarrow> not_published h urls cs (r_candidate r)) \<and>
    (r_status r = Conflict \<longrightarrow> published h urls cs (r_candidate r)))"
  using verdicts_order[OF assms] verdicts[OF assms] by blast

subsection \<open>Exit status\<close>

lemma count_pos: "0 < count_status s rs \<longleftrightarrow> (\<exists>r \<in> set rs. r_status r = s)"
  by (auto simp: count_status_def filter_empty_conv)

lemma exit_zero: "exit_code rs es = 0 \<longleftrightarrow> es = [] \<and> (\<forall>r \<in> set rs. r_status r = Ok)"
proof -
  have "s = Ok \<longleftrightarrow> s \<noteq> Conflict \<and> s \<noteq> Cannot_determine" for s by (cases s) auto
  then show ?thesis by (auto simp: exit_code_def count_pos)
qed

lemma report_zero:
  assumes "check_and_report h L args m cs es w = (Inr 0, w')" "c \<in> set cs"
  shows "es = [] \<and> not_published h (a_base_urls args) cs c"
proof -
  from assms obtain rs w1 w2 where rs: "check_candidates h (a_base_urls args) cs w1 = (Inr rs, w2)" "exit_code rs es = 0"
    by (auto simp: check_and_report_def prog_inr split: option.splits if_splits)
  from verdicts_order[OF rs(1)] assms(2) obtain r where "r \<in> set rs" "r_candidate r = c" by auto
  with verdicts[OF rs(1)] rs(2) show ?thesis by (auto simp: exit_zero)
qed

lemma gather_step_ok: "gather_step f acc x w = (Inr acc', w') \<Longrightarrow>
    (\<exists>c. f x w = (Inr c, w') \<and> acc' = (fst acc @ c, snd acc)) \<or> (fst acc' = fst acc \<and> snd acc' \<noteq> [])"
  by (auto simp: gather_step_def prog_inr)

lemma gather_all:
  assumes "gather f xs w = (Inr (cs, []), w')" "x \<in> set xs"
  shows "\<exists>w1 c w2. f x w1 = (Inr c, w2) \<and> set c \<subseteq> set cs"
proof -
  have grow: "foldM (gather_step f) acc xs w = (Inr (cs, []), w') \<Longrightarrow> snd acc = [] \<and> set (fst acc) \<subseteq> set cs \<and>
      (\<forall>x \<in> set xs. \<exists>w1 c w2. f x w1 = (Inr c, w2) \<and> set c \<subseteq> set cs)" for acc w
  proof (induction xs arbitrary: acc w)
    case (Cons x xs)
    from Cons.prems obtain s1 w1 where 1: "gather_step f acc x w = (Inr s1, w1)"
      "foldM (gather_step f) s1 xs w1 = (Inr (cs, []), w')" by (auto simp: prog_inr)
    from Cons.IH[OF 1(2)] have IH: "snd s1 = []" "set (fst s1) \<subseteq> set cs"
      "\<forall>x \<in> set xs. \<exists>w1 c w2. f x w1 = (Inr c, w2) \<and> set c \<subseteq> set cs" by auto
    with gather_step_ok[OF 1(1)] obtain c where "f x w = (Inr c, w1)" "s1 = (fst acc @ c, snd acc)" by auto
    with IH show ?case by auto
  qed (simp add: ret_def)
  from grow[of "([], [])" w] assms show ?thesis by (auto simp: gather_def)
qed

lemma spec_candidates_nonempty: "get_spec_candidates h p home w = (Inr cs, w') \<Longrightarrow> cs \<noteq> []"
  by (auto simp: get_spec_candidates_def Let_def prog_inr split: if_splits)

text \<open>C15: when the check of named packages ends with status 0, the prediction of every package
  succeeded, and of every package it would build, every repository it would be published to has
  answered and does not list its EVR.\<close>

theorem nevr_exit_zero:
  assumes "nevr_main h L args w = (Inr 0, w')" "a_rpms_dirs args = []" "\<not> a_mr args" "\<not> a_all args"
    and "p \<in> set (a_packages args)"
  shows "\<exists>home w1 cs w2 all. get_spec_candidates h p home w1 = (Inr cs, w2) \<and> cs \<noteq> [] \<and> set cs \<subseteq> set all \<and>
    (\<forall>c \<in> set cs. not_published h (a_base_urls args) all c)"
proof -
  have ne: "a_packages args \<noteq> []" using assms(5) by auto
  with assms have "check_specs h L args (a_packages args) w = (Inr 0, w')"
    by (simp add: nevr_main_def select_packages_def prog_inr)
  then obtain home w1 cs es w2 where
    run: "finally_do (gather (\<lambda>p. get_spec_candidates h p home) (a_packages args)) (rmtree home) w1 = (Inr (cs, es), w2)"
      "check_and_report h L args True cs es w2 = (Inr 0, w')"
    using ne by (auto simp: check_specs_def prog_inr option_Inr)
  then obtain w3 where g: "gather (\<lambda>p. get_spec_candidates h p home) (a_packages args) w1 = (Inr (cs, es), w3)"
    by (auto simp: finally_do_def split: prod.splits)
  have es: "es = []"
  proof (cases cs)
    case Nil
    then show ?thesis using run(2)
      by (auto simp: check_and_report_def exit_zero prog_inr split: if_splits)
  next
    case (Cons c cs')
    then show ?thesis using report_zero[OF run(2), of c] by simp
  qed
  from gather_all[OF g[unfolded es] assms(5)] obtain w4 c w5 where c: "get_spec_candidates h p home w4 = (Inr c, w5)"
    "set c \<subseteq> set cs" by blast
  moreover have "c \<noteq> []" using spec_candidates_nonempty[OF c(1)] .
  moreover have "\<forall>x \<in> set c. not_published h (a_base_urls args) cs x"
    using report_zero[OF run(2)] c(2) by blast
  ultimately show ?thesis by blast
qed

subsection \<open>Changed packages\<close>

definition proc_answers :: "host \<Rightarrow> string list \<Rightarrow> string \<Rightarrow> bool" where
  \<comment> \<open>the program ended with status 0 and this output\<close>
  "proc_answers h argv out \<longleftrightarrow> (\<exists>t f r. completed_of argv True (fst (h t (Proc argv ROOT_DIR) f)) = Inr r \<and> stdout r = out)"

lemma changed_dir_line:
  "changed_dir line = Some p \<longleftrightarrow> (\<exists>rest. line = ''rpms/'' @ p @ rest \<and> CHR ''/'' \<notin> set p \<and> (rest = [] \<or> hd rest = CHR ''/''))"
proof (cases "startswith line ''rpms/''")
  case True
  then obtain t where t: "line = ''rpms'' @ CHR ''/'' # t" by (auto simp: startswith_iff)
  have sp: "split_on CHR ''/'' line = ''rpms'' # takeWhile (\<lambda>c. c \<noteq> CHR ''/'') t # tl (split_on CHR ''/'' t)"
    unfolding t using split_on_append[of "CHR ''/''" "''rpms''" t] split_on_hd[of "CHR ''/''" t] by simp
  have "takeWhile (\<lambda>c. c \<noteq> CHR ''/'') t = p \<longleftrightarrow>
      (\<exists>rest. t = p @ rest \<and> CHR ''/'' \<notin> set p \<and> (rest = [] \<or> hd rest = CHR ''/''))"
    (is "?l \<longleftrightarrow> ?r")
  proof
    assume l: ?l
    then have "t = p @ dropWhile (\<lambda>c. c \<noteq> CHR ''/'') t" using takeWhile_dropWhile_id by metis
    moreover have "CHR ''/'' \<notin> set p" using l set_takeWhileD by metis
    moreover have "dropWhile (\<lambda>c. c \<noteq> CHR ''/'') t = [] \<or> hd (dropWhile (\<lambda>c. c \<noteq> CHR ''/'') t) = CHR ''/''"
      using hd_dropWhile[of "\<lambda>c. c \<noteq> CHR ''/''" t] by blast
    ultimately show ?r by blast
  next
    assume ?r
    then obtain rest where r: "t = p @ rest" "\<forall>x \<in> set p. x \<noteq> CHR ''/''" "rest = [] \<or> hd rest = CHR ''/''" by metis
    then show ?l by (cases rest) (auto simp: takeWhile_append_stop takeWhile_all_conv)
  qed
  moreover have "line = ''rpms/'' @ x \<longleftrightarrow> t = x" for x using t by auto
  ultimately show ?thesis using True sp by (simp add: changed_dir_def)
next
  case False
  then show ?thesis by (auto simp: startswith_def changed_dir_def)
qed

text \<open>the packages of a merge request are exactly the directories directly under \<open>rpms/\<close> of the
  changed paths \<open>git diff\<close> lists, sorted and without duplicates; a change under \<open>metadata/\<close>
  alone selects nothing.\<close>

lemma changed_packages_exact:
  assumes "get_changed_rpm_packages h w = (Inr ps, w')"
  shows "\<exists>args out. proc_answers h (''git'' # ''diff'' # ''--name-only'' # args) out \<and> sorted ps \<and> distinct ps \<and>
    (\<forall>p. p \<in> set ps \<longleftrightarrow> (\<exists>rest. ''rpms/'' @ p @ rest \<in> set (splitlines (strip out)) \<and> CHR ''/'' \<notin> set p \<and>
       (rest = [] \<or> hd rest = CHR ''/'')))"
proof -
  from assms obtain args r w1 what where r: "git_nevr h (''diff'' # ''--name-only'' # args) what w1 = (Inr r, w')"
    "ps = changed_dirs (stdout r)"
    by (auto simp: get_changed_rpm_packages_def Let_def prog_inr)
  then have "proc_answers h (''git'' # ''diff'' # ''--name-only'' # args) (stdout r)"
    unfolding proc_answers_def by (auto simp: git_nevr_def run_proc_def ask_host_run prog_inr)
  moreover have "p \<in> set ps \<longleftrightarrow> (\<exists>rest. ''rpms/'' @ p @ rest \<in> set (splitlines (strip (stdout r))) \<and> CHR ''/'' \<notin> set p \<and>
       (rest = [] \<or> hd rest = CHR ''/''))" for p
  proof -
    have "p \<in> set ps \<longleftrightarrow> (\<exists>line \<in> set (splitlines (strip (stdout r))). changed_dir line = Some p)"
      unfolding r(2) changed_dirs_def set_sort set_remdups map_filter_def by (auto simp: image_iff)
    then show ?thesis unfolding changed_dir_line by blast
  qed
  ultimately show ?thesis unfolding r(2) changed_dirs_def by (metis distinct_remdups distinct_sort sorted_sort)
qed

subsection \<open>Predicted packages\<close>

definition predicted :: "string \<Rightarrow> rpm_candidate \<Rightarrow> bool" where
  \<comment> \<open>the source package, or a binary package that is no debug package\<close>
  "predicted p c \<longleftrightarrow> c_package c = p \<and> (c_arch c = ''src'' \<or> lower (c_arch c) \<noteq> ''src'' \<and> \<not> is_debuginfo (c_name c))"

definition candidate_dict :: "string \<Rightarrow> ((string \<times> string) \<times> rpm_candidate) list \<Rightarrow> bool" where
  "candidate_dict p d \<longleftrightarrow> distinct (map fst d) \<and> (\<forall>(k, c) \<in> set d. k = ckey c \<and> predicted p c)"

lemma put_candidate_dict: "candidate_dict p d \<Longrightarrow> predicted p c \<Longrightarrow> candidate_dict p (put_candidate c d)"
  unfolding candidate_dict_def put_candidate_def
  by (auto dest!: set_dset)

lemma fold_candidate_dict:
  "candidate_dict p d \<Longrightarrow> \<forall>c \<in> set cs. predicted p c \<Longrightarrow> candidate_dict p (fold put_candidate cs d)"
  by (induction cs arbitrary: d) (simp_all add: put_candidate_dict)

lemma srpm_predicted: "srpm_of p out = Some c \<Longrightarrow> predicted p c"
  by (auto simp: srpm_of_def predicted_def split: option.splits)

lemma binary_predicted: "binary_of p line = Some c \<Longrightarrow> predicted p c"
  by (auto simp: binary_of_def predicted_def split: list.splits if_splits)

lemma binaries_predicted:
  assumes "mapM (spec_binaries h f d p env) archs w = (Inr bs, w')" "c \<in> set (concat bs)"
  shows "predicted p c"
proof -
  have one: "predicted p c" if "spec_binaries h f d p env a w = (Inr b, w')" "c \<in> set b" for a b w w'
    using that by (auto simp: prog_inr spec_binaries_def map_filter_def) (erule binary_predicted)
  from assms show ?thesis
  proof (induction archs arbitrary: w bs)
    case (Cons a archs)
    then obtain b w1 cs where "spec_binaries h f d p env a w = (Inr b, w1)"
      "mapM (spec_binaries h f d p env) archs w1 = (Inr cs, w')" "bs = b # cs" by (auto simp: prog_inr)
    with Cons one show ?case by auto
  qed (simp add: ret_def)
qed

lemma candidate_dict_sorted:
  assumes "candidate_dict p d"
  shows "sorted (map ckey (sort_key ckey (map snd d))) \<and> distinct (map ckey (sort_key ckey (map snd d)))"
proof -
  have "map ckey (map snd d) = map fst d" using assms by (auto simp: candidate_dict_def)
  then have "distinct (map ckey (map snd d))" using assms by (simp add: candidate_dict_def del: map_map)
  moreover have "mset (map ckey (sort_key ckey (map snd d))) = mset (map ckey (map snd d))" by (simp add: multiset.map_comp)
  ultimately have "distinct (map ckey (sort_key ckey (map snd d)))" using mset_eq_imp_distinct_iff by blast
  then show ?thesis by simp
qed

text \<open>the prediction for a package is a non-empty list ordered by name and architecture with at most
  one entry for each, and every entry is the package's source RPM or one of its binary RPMs that
  is no debuginfo or debugsource package.\<close>

lemma spec_candidates_sorted:
  assumes "get_spec_candidates h p home w = (Inr cs, w')"
  shows "cs \<noteq> [] \<and> sorted (map ckey cs) \<and> distinct (map ckey cs) \<and> (\<forall>c \<in> set cs. predicted p c)"
proof -
  from assms obtain f d env srpm bs w1 w2 w3 where r: "spec_srpm h f d p env w1 = (Inr srpm, w2)"
    "mapM (spec_binaries h f d p env) BINARY_ARCHES w2 = (Inr bs, w3)"
    "cs = sort_key ckey (map snd (fold put_candidate (concat bs) (case srpm of None \<Rightarrow> [] | Some c \<Rightarrow> put_candidate c [])))"
    by (auto simp: get_spec_candidates_def Let_def prog_inr split: if_splits)
  have "candidate_dict p (case srpm of None \<Rightarrow> [] | Some c \<Rightarrow> put_candidate c [])"
    using r(1) put_candidate_dict[of p "[]"] srpm_predicted
    by (auto simp: spec_srpm_def prog_inr candidate_dict_def split: option.splits)
  then have d: "candidate_dict p (fold put_candidate (concat bs) (case srpm of None \<Rightarrow> [] | Some c \<Rightarrow> put_candidate c []))"
    by (rule fold_candidate_dict) (use binaries_predicted[OF r(2)] in blast)
  then have "\<forall>c \<in> set cs. predicted p c" unfolding r(3) by (auto simp: candidate_dict_def)
  then show ?thesis
    using candidate_dict_sorted[OF d, folded r(3)] spec_candidates_nonempty[OF assms] by blast
qed

subsection \<open>Witnesses\<close>

definition nevr_host :: host where
  \<comment> \<open>a host whose Pulp knows bash 5.2-1 and whose git lists two changed paths\<close>
  "nevr_host t ev f = (case ev of
     Proc (x # y # args) cwd \<Rightarrow>
       (if x = ''dnf'' then (Exit 0 (''bash'' @ [tab] @ ''5.2-1'' @ [nl]) [], f)
        else if x = ''git'' then (Exit 0 (''rpms/bash/bash.spec'' @ [nl] @ ''metadata/curl.json'') [], f)
        else (Exit 0 (''cat > /m/macros.dist << EOF'' @ [nl] @ ''%dist .hum1'' @ [nl] @ ''EOF'') [], f))
   | ProcEnv env argv cwd \<Rightarrow>
       (if ''--srpm'' \<in> set argv then (Exit 0 (''zsh'' @ [tab] @ ''1-1'' @ [nl]) [], f)
        else (Exit 0 (''zsh'' @ [tab] @ ''1-1'' @ [tab] @ ''x86_64'' @ [nl]) [], f))
   | _ \<Rightarrow> (NoProgram, f))"

definition nevr_world :: world where
  "nevr_world = blank\<lparr>files := [(HUMMINGBIRD_RELEASE_SPEC, FileN []), ([''rpms'', ''zsh''], DirN),
     ([''rpms'', ''zsh'', ''zsh.spec''], FileN [])]\<rparr>"

definition nevr_names :: "string list \<Rightarrow> nevr_args" where
  "nevr_names ps = \<lparr>a_packages = ps, a_mr = False, a_all = False, a_rpms_dirs = [], a_base_urls = (\<lambda>k. ''https://p/'' @ k),
     a_json = False\<rparr>"

definition bash_rpm :: "string \<Rightarrow> rpm_candidate" where
  "bash_rpm evr = \<lparr>c_package = ''bash'', c_name = ''bash'', c_evr = evr, c_arch = ''x86_64''\<rparr>"

theorem nevr_verdicts_witness:
  "published nevr_host id [bash_rpm ''5.2-1'', bash_rpm ''5.2-2''] (bash_rpm ''5.2-1'') \<and>
   not_published nevr_host id [bash_rpm ''5.2-1'', bash_rpm ''5.2-2''] (bash_rpm ''5.2-2'')"
proof -
  let ?cs = "[bash_rpm ''5.2-1'', bash_rpm ''5.2-2'']"
  let ?r = "check_candidates nevr_host id ?cs blank"
  have "fst ?r = Inr [\<lparr>r_candidate = bash_rpm ''5.2-1'', r_status = Conflict, r_note = ''already published in x86_64''\<rparr>,
    \<lparr>r_candidate = bash_rpm ''5.2-2'', r_status = Ok, r_note = []\<rparr>]" by code_simp
  then have "?r = (Inr [\<lparr>r_candidate = bash_rpm ''5.2-1'', r_status = Conflict, r_note = ''already published in x86_64''\<rparr>,
    \<lparr>r_candidate = bash_rpm ''5.2-2'', r_status = Ok, r_note = []\<rparr>], snd ?r)" by (metis prod.collapse)
  from nevr_verdicts[OF this] show ?thesis by simp
qed

theorem nevr_exit_zero_witness:
  "fst (nevr_main nevr_host (yaml_of JNull) (nevr_names [''zsh'']) nevr_world) = Inr 0 \<and>
   (\<exists>home w1 cs w2 all. get_spec_candidates nevr_host ''zsh'' home w1 = (Inr cs, w2) \<and> cs \<noteq> [] \<and>
     not_published nevr_host (\<lambda>k. ''https://p/'' @ k) all (hd cs))"
proof -
  let ?a = "nevr_names [''zsh'']" and ?r = "nevr_main nevr_host (yaml_of JNull) (nevr_names [''zsh'']) nevr_world"
  have ok: "fst ?r = Inr 0" by code_simp
  then have run: "?r = (Inr 0, snd ?r)" by (metis prod.collapse)
  have "a_rpms_dirs ?a = []" "\<not> a_mr ?a" "\<not> a_all ?a" "''zsh'' \<in> set (a_packages ?a)"
    and urls: "a_base_urls ?a = (\<lambda>k. ''https://p/'' @ k)" by (simp_all add: nevr_names_def)
  from nevr_exit_zero[OF run this(1-4)] show ?thesis
    using ok unfolding urls by (metis list.set_sel(1))
qed

end
