(* ===== verification/Upstream_Query.thy ===== *)
theory Upstream_Query
  imports Run_Rules Source_Update Package_Metadata
begin

section \<open>Asking upstream for versions\<close>

text \<open>
  The version sources of \<open>ci/check_upstream_versions.py\<close>: \<open>query_anitya\<close>,
  \<open>query_anitya_by_project_id\<close>, \<open>query_gitlab_tags\<close> with its URL building, token, pagination
  and tag filter, and the source availability checkers. The pagination loop follows page numbers
  the server sends, so it carries fuel; \<open>gitlab_pages_bounded\<close> says when five requests are enough.
\<close>

subsection \<open>Answers\<close>

record upstream_info = \<comment> \<open>the fields of an answer that the check uses\<close>
  u_stable :: "string list"
  u_version :: "string option"
  u_id :: "json option"

fun strings_of :: "json list \<Rightarrow> exn + string list" where
  "strings_of [] = Inr []"
| "strings_of (j # js) = (case as_str j of Inl e \<Rightarrow> Inl e | Inr s \<Rightarrow>
     (case strings_of js of Inl e \<Rightarrow> Inl e | Inr ss \<Rightarrow> Inr (s # ss)))"

definition info_of :: "string \<Rightarrow> json \<Rightarrow> exn + upstream_info" where
  \<comment> \<open>the answer as a dictionary; \<open>key\<close> holds the newest version\<close>
  "info_of key j = (case as_dict j of Inl e \<Rightarrow> Inl e | Inr d \<Rightarrow>
     (case (case dget d ''stable_versions'' of None \<Rightarrow> Inr [] | Some JNull \<Rightarrow> Inr []
          | Some v \<Rightarrow> (case as_list v of Inl e \<Rightarrow> Inl e | Inr xs \<Rightarrow> strings_of xs)) of
        Inl e \<Rightarrow> Inl e
      | Inr vs \<Rightarrow> (case opt_str (dget d key) of
          Inl e \<Rightarrow> Inl e
        | Inr v \<Rightarrow> Inr \<lparr>u_stable = vs, u_version = v, u_id = dget d ''id''\<rparr>)))"

subsection \<open>release-monitoring.org\<close>

definition CHECKER_AGENT :: "(string \<times> string) list" where
  "CHECKER_AGENT = [(''User-Agent'', ''hummingbird-rpms-version-checker/1.0'')]"

definition query_anitya :: "host \<Rightarrow> string \<Rightarrow> string \<Rightarrow> upstream_info prog" where
  "query_anitya h package distro = (let url = ANITYA_API_BASE @ ''/project/'' @ distro @ ''/'' @ package in
    bind (catch (urlopen_json h ''GET'' url CHECKER_AGENT) is_URLError
      (\<lambda>e. case e of
         HTTPError c m \<Rightarrow> if c = 404 then raise (ValueError (''Package not found in '' @ distro)) else raise e
       | _ \<Rightarrow> raise (ConnectionError (''Failed to connect to release-monitoring.org: '' @ exn_str e)))) (\<lambda>(data, _).
    from_sum (info_of ''version'' data)))"

definition query_anitya_by_project_id :: "host \<Rightarrow> string \<Rightarrow> upstream_info prog" where
  \<comment> \<open>the answer has no \<open>id\<close> of its own\<close>
  "query_anitya_by_project_id h project_id = (bind (urlopen_json h ''GET'' (ANITYA_API_BASE @ ''/v2/versions/?project_id='' @ project_id) CHECKER_AGENT) (\<lambda>(data, _).
    bind (from_sum (info_of ''latest_version'' data)) (\<lambda>info.
    ret (info\<lparr>u_id := None\<rparr>))))"

subsection \<open>URLs\<close>

definition rstrip_char :: "char \<Rightarrow> string \<Rightarrow> string" where
  "rstrip_char d s = rev (dropWhile (\<lambda>c. c = d) (rev s))"

definition lstrip_char :: "char \<Rightarrow> string \<Rightarrow> string" where
  "lstrip_char d s = dropWhile (\<lambda>c. c = d) s"

definition split_url :: "string \<Rightarrow> string \<times> string \<times> string" where
  \<comment> \<open>scheme, host and path of \<open>urlparse\<close>, without parameters, query and fragment\<close>
  "split_url url = (let no_query = takeWhile (\<lambda>c. c \<notin> set ''?#;'') in
     case split_at_str ''://'' url of
       Some (scheme, rest) \<Rightarrow> (lower scheme, takeWhile (\<lambda>c. c \<notin> set ''/?#'') rest,
         no_query (dropWhile (\<lambda>c. c \<notin> set ''/?#'') rest))
     | None \<Rightarrow> ([], [], no_query url))"

definition parse_gitlab_upstream_url :: "string \<Rightarrow> string \<times> string" where
  "parse_gitlab_upstream_url upstream_repo = (case split_url (rstrip_char CHR ''/'' upstream_repo) of
     (scheme, netloc, path) \<Rightarrow>
       (scheme @ ''://'' @ netloc @ ''/api/v4'', url_quote [] (lstrip_char CHR ''/'' path)))"

subsection \<open>GitLab tags\<close>

definition PRERELEASE_RE :: rx where
  \<comment> \<open>\<open>(?<![a-zA-Z])(alpha|beta|rc\d*|nightly|dev|pre)(?![a-zA-Z])\<close>, IGNORECASE\<close>
  "PRERELEASE_RE = Seq [NotBehind is_alpha, Grp 1 (AltL [LitCI ''alpha'', LitCI ''beta'',
     Seq [LitCI ''rc'', Star True Digit], LitCI ''nightly'', LitCI ''dev'', LitCI ''pre'']), NotAhead is_alpha]"

definition tag_version :: "string \<Rightarrow> string \<Rightarrow> string" where
  "tag_version tag_strip_prefix name =
     (if tag_strip_prefix \<noteq> [] \<and> startswith name tag_strip_prefix then drop (length tag_strip_prefix) name else name)"

definition is_release_version :: "string \<Rightarrow> bool" where
  "is_release_version version \<longleftrightarrow> version \<noteq> [] \<and> is_digit (hd version) \<and> re_search PRERELEASE_RE version = None"

definition gitlab_versions :: "string \<Rightarrow> string list \<Rightarrow> string list" where
  "gitlab_versions tag_strip_prefix names = filter is_release_version (map (tag_version tag_strip_prefix) names)"

definition header :: "(string \<times> string) list \<Rightarrow> string \<Rightarrow> string option" where
  \<comment> \<open>\<open>response.headers.get(name)\<close>, for a name in lower case\<close>
  "header hs name = map_of (map (\<lambda>(k, v). (lower k, v)) hs) name"

definition next_page :: "(string \<times> string) list \<Rightarrow> int option" where
  \<comment> \<open>the page to go on with; a missing or non-numeric header ends the loop\<close>
  "next_page hs = (case header hs ''x-next-page'' of None \<Rightarrow> None | Some s \<Rightarrow> if s = [] then None else py_int s)"

definition gitlab_failure :: "string \<Rightarrow> string \<Rightarrow> string option \<Rightarrow> exn \<Rightarrow> 'a prog" where
  "gitlab_failure upstream_repo token_env token e = (case e of
     HTTPError c m \<Rightarrow>
       if c = 404 then raise (ValueError (''GitLab returned 404 for '' @ upstream_repo @ ''. '' @
         (if token = None then ''If this is a private repo, set '' @ token_env @ '' with read_api scope.''
          else ''Verify the URL is correct and that '' @ token_env @ '' has read_api scope.'')))
       else if c \<in> {401, 403} then raise (ValueError (''GitLab authentication failed for '' @ upstream_repo @
         '' (HTTP '' @ show_int c @ ''). Set '' @ token_env @ ''.''))
       else raise e
   | _ \<Rightarrow> raise (ConnectionError (''Failed to connect to GitLab: '' @ exn_str e)))"

definition gitlab_page :: "host \<Rightarrow> string \<Rightarrow> (string \<times> string) list \<Rightarrow> (exn \<Rightarrow> (json list \<times> int option) prog) \<Rightarrow>
    json list \<Rightarrow> (json list \<times> int option) prog" where
  \<comment> \<open>one request: all tags so far, and the next page if the loop goes on\<close>
  "gitlab_page h url headers failure all_tags = catch ((bind (urlopen_json h ''GET'' url headers) (\<lambda>(tags, hs).
    if \<not> truthy tags then (ret (all_tags, None)) else
    bind (from_sum (as_list tags)) (\<lambda>ts.
    ret (all_tags @ ts, next_page hs)))))
    is_URLError failure"

definition max_pages :: int where "max_pages = 5"

fun gitlab_pages :: "nat \<Rightarrow> (int \<Rightarrow> json list \<Rightarrow> (json list \<times> int option) prog) \<Rightarrow> int \<Rightarrow> json list \<Rightarrow> json list prog" where
  \<comment> \<open>\<open>while page <= max_pages\<close>\<close>
  "gitlab_pages 0 ask page all_tags = raise OutOfFuel"
| "gitlab_pages (Suc n) ask page all_tags = (if page > max_pages then ret all_tags
     else bind (ask page all_tags) (\<lambda>(tags, nxt). case nxt of
         None \<Rightarrow> ret tags
       | Some p \<Rightarrow> seq (emit (SleepMs 200)) (gitlab_pages n ask p tags)))"

definition tags_url :: "string \<Rightarrow> string \<Rightarrow> string option \<Rightarrow> int \<Rightarrow> string" where
  "tags_url upstream_repo tag_strip_prefix track_version page = (case parse_gitlab_upstream_url upstream_repo of
     (api_base, project_path) \<Rightarrow> api_base @ ''/projects/'' @ project_path @ ''/repository/tags?per_page=100&page='' @
       show_int page @ ''&order_by=version&sort=desc'' @
       (case track_version of Some v \<Rightarrow> ''&search='' @ url_quote ''/'' (tag_strip_prefix @ v) | None \<Rightarrow> []))"

definition tag_name :: "json \<Rightarrow> string prog" where
  \<comment> \<open>\<open>tag["name"]\<close>\<close>
  "tag_name tag = (bind (from_sum (item tag ''name'')) (\<lambda>n.
    from_sum (as_str n)))"

definition query_gitlab_tags :: "nat \<Rightarrow> host \<Rightarrow> string \<Rightarrow> string \<Rightarrow> string option \<Rightarrow> upstream_info prog" where
  "query_gitlab_tags fuel h upstream_repo tag_strip_prefix track_version = (bind (gets environ) (\<lambda>env.
    let token_env = gitlab_token_env_var upstream_repo in
    let token = (case dget env token_env of Some t \<Rightarrow> if t = [] then None else Some t | None \<Rightarrow> None) in
    let headers = CHECKER_AGENT @ (case token of Some t \<Rightarrow> [(''PRIVATE-TOKEN'', t)] | None \<Rightarrow> []) in
    bind (gitlab_pages fuel (\<lambda>page. gitlab_page h (tags_url upstream_repo tag_strip_prefix track_version page)
      headers (gitlab_failure upstream_repo token_env token)) 1 []) (\<lambda>all_tags.
    bind (mapM tag_name all_tags) (\<lambda>names.
    let versions = gitlab_versions tag_strip_prefix names in
    ret \<lparr>u_stable = versions, u_version = (case versions of v # _ \<Rightarrow> Some v | [] \<Rightarrow> None), u_id = None\<rparr>))))"

subsection \<open>Source availability\<close>

definition openjdk_source_check :: "host \<Rightarrow> string \<Rightarrow> dict \<Rightarrow> bool prog" where
  "openjdk_source_check h version metadata = (bind (from_sum (str_get metadata ''track_upstream'' [])) (\<lambda>f.
    let feature = (if f = ''latest'' then [] else f) in
    check_source_exists h (''https://openjdk-sources.osci.io/openjdk'' @ feature @ ''/openjdk-'' @ version @ ''.tar.xz'')))"

definition SOURCE_AVAILABILITY_CHECKERS :: "(string \<times> (host \<Rightarrow> string \<Rightarrow> dict \<Rightarrow> bool prog)) list" where
  "SOURCE_AVAILABILITY_CHECKERS = [(''openjdk_osci'', openjdk_source_check)]"

definition check_source_available :: "host \<Rightarrow> string \<Rightarrow> string \<Rightarrow> dict \<Rightarrow> bool prog" where
  "check_source_available h version checker_name metadata =
     (case dget SOURCE_AVAILABILITY_CHECKERS checker_name of
        None \<Rightarrow> raise (ValueError (''unknown source_availability_check '' @ [CHR 0x27] @ checker_name @ [CHR 0x27]))
      | Some fn \<Rightarrow> fn h version metadata)"

fun unpublished :: "host \<Rightarrow> string \<Rightarrow> dict \<Rightarrow> string list \<Rightarrow> nat prog" where
  \<comment> \<open>the number of leading versions whose source is not there; a failing probe ends the search\<close>
  "unpublished h checker metadata [] = ret 0"
| "unpublished h checker metadata (v # vs) =
     bind (catch (bind (check_source_available h v checker metadata) (\<lambda>b. ret (Some b))) is_URLError (\<lambda>_. ret None)) (\<lambda>r.
       if r = Some False then bind (unpublished h checker metadata vs) (\<lambda>n. ret (Suc n)) else ret 0)"

subsection \<open>Pagination\<close>

definition is_http :: "event \<Rightarrow> bool" where
  "is_http e \<longleftrightarrow> (case e of Http _ _ _ \<Rightarrow> True | _ \<Rightarrow> False)"

definition requests :: "event list \<Rightarrow> nat" where
  \<comment> \<open>the number of web requests among the events\<close>
  "requests es = length (filter is_http es)"

lemma requests_simps [simp]:
  "requests [] = 0" "requests (es @ fs) = requests es + requests fs"
  "requests (Http m u hs # es) = Suc (requests es)" "requests (SleepMs n # es) = requests es"
  by (simp_all add: requests_def is_http_def)

definition ends_within :: "nat \<Rightarrow> world \<Rightarrow> (exn + 'a) \<times> world \<Rightarrow> bool" where
  \<comment> \<open>the run needed no more than the fuel, and sent at most \<open>k\<close> requests\<close>
  "ends_within k w run \<longleftrightarrow> fst run \<noteq> Inl OutOfFuel \<and> requests (trace (snd run)) \<le> requests (trace w) + k"

definition forward_pages :: "host \<Rightarrow> (int \<Rightarrow> string) \<Rightarrow> (string \<times> string) list \<Rightarrow> bool" where
  \<comment> \<open>what GitLab documents: the next page has a higher number than the page asked for\<close>
  "forward_pages h url headers \<longleftrightarrow> (\<forall>t f page j hs p. 1 \<le> page \<and> page \<le> max_pages \<and>
     fst (h t (Http ''GET'' (url page) headers) f) = JBody j hs \<and> next_page hs = Some p \<longrightarrow> page < p)"

lemma gitlab_failure_fuel: "e \<noteq> OutOfFuel \<Longrightarrow> gitlab_failure repo tok token e w = (r, w') \<Longrightarrow>
    r \<noteq> Inl OutOfFuel \<and> w' = w"
  by (auto simp: gitlab_failure_def raise_def split: exn.splits if_splits)

lemma urlopen_json_run:
  assumes "urlopen_json h m url hs w = (r, w')"
  shows "trace w' = trace w @ [Http m url hs] \<and> r \<noteq> Inl OutOfFuel \<and>
    (\<forall>j hd. r = Inr (j, hd) \<longrightarrow> fst (h (trace w) (Http m url hs) (files w)) = JBody j hd)"
  using assms by (auto simp: urlopen_json_def http_exn_def prog_simps split: reply.splits)

lemma gitlab_page_run:
  assumes "gitlab_page h url headers (gitlab_failure repo tok token) all_tags w = (r, w')"
  shows "trace w' = trace w @ [Http ''GET'' url headers] \<and> r \<noteq> Inl OutOfFuel \<and>
    (\<forall>ts p. r = Inr (ts, Some p) \<longrightarrow> (\<exists>j hs. fst (h (trace w) (Http ''GET'' url headers) (files w)) = JBody j hs \<and> next_page hs = Some p))"
proof -
  obtain r1 w1 where u: "urlopen_json h ''GET'' url headers w = (r1, w1)" by fastforce
  note facts = urlopen_json_run[OF u]
  show ?thesis
  proof (cases r1)
    case (Inl e)
    then show ?thesis using assms facts u gitlab_failure_fuel[of e repo tok token w1 r w']
      by (auto simp: gitlab_page_def catch_run bind_run split: if_splits)
        (auto simp: gitlab_failure_def raise_def split: exn.splits if_splits)
  next
    case (Inr x)
    obtain j hs where x: "x = (j, hs)" by (cases x)
    show ?thesis using assms facts u Inr x
      by (auto simp: gitlab_page_def catch_run bind_run ret_def from_sum_def raise_def as_list_def is_URLError_def
          split: if_splits json.splits)
  qed
qed

lemma gitlab_pages_ends:
  assumes "forward_pages h url headers" "0 < n" "max_pages + 1 < page + int n" "1 \<le> page"
  shows "ends_within (nat (max_pages + 1 - page)) w
    (gitlab_pages n (\<lambda>page. gitlab_page h (url page) headers (gitlab_failure repo tok token)) page tags w)"
  using assms(2,3,4)
proof (induction n arbitrary: page tags w)
  case 0
  then show ?case by simp
next
  case (Suc n)
  let ?ask = "\<lambda>page. gitlab_page h (url page) headers (gitlab_failure repo tok token)"
  show ?case
  proof (cases "page > max_pages")
    case True
    then show ?thesis by (simp add: ends_within_def ret_def)
  next
    case False
    obtain r w1 where a: "?ask page tags w = (r, w1)" by fastforce
    note facts = gitlab_page_run[OF a]
    show ?thesis
    proof (cases "\<exists>ts p. r = Inr (ts, Some p)")
      case True
      then obtain ts p where r: "r = Inr (ts, Some p)" by blast
      with facts obtain j hs where "fst (h (trace w) (Http ''GET'' (url page) headers) (files w)) = JBody j hs" "next_page hs = Some p"
        by blast
      with assms(1) Suc.prems(3) False have p: "page < p" unfolding forward_pages_def by (metis not_le)
      with Suc.prems False have "0 < n" "max_pages + 1 < p + int n" "1 \<le> p" by linarith+
      moreover have "Suc (nat (max_pages + 1 - p)) \<le> nat (max_pages + 1 - page)" using p False by linarith
      moreover note Suc.IH[OF calculation(1-3), of "w1\<lparr>trace := trace w1 @ [SleepMs 200]\<rparr>" ts]
      ultimately show ?thesis using p False facts a r
        by (auto simp: ends_within_def bind_run seq_run emit_def modify_run)
    next
      case none: False
      then show ?thesis using a facts False
        by (cases r) (auto simp: ends_within_def bind_run ret_def split: option.splits)
    qed
  qed
qed

lemma tag_name_run: "tag_name tag w = (r, w') \<Longrightarrow> w' = w \<and> r \<noteq> Inl OutOfFuel"
  by (auto simp: tag_name_def bind_run from_sum_def item_def as_str_def ret_def raise_def
      split: sum.splits json.splits option.splits)

lemma mapM_names_run: "mapM tag_name tags w = (r, w') \<Longrightarrow> w' = w \<and> r \<noteq> Inl OutOfFuel"
proof (induction tags arbitrary: r w')
  case (Cons tag tags)
  obtain r1 w1 where 1: "tag_name tag w = (r1, w1)" by fastforce
  obtain r2 w2 where 2: "mapM tag_name tags w = (r2, w2)" by fastforce
  from tag_name_run[OF 1] Cons.IH[OF 2] Cons.prems 1 2 show ?case
    by (auto simp: bind_run ret_def split: sum.splits)
qed (simp add: ret_def)

definition tag_headers :: "(string \<times> string) list \<Rightarrow> string \<Rightarrow> (string \<times> string) list" where
  \<comment> \<open>the request headers with the token of this environment\<close>
  "tag_headers env repo = CHECKER_AGENT @ (case dget env (gitlab_token_env_var repo) of
     Some t \<Rightarrow> if t = [] then [] else [(''PRIVATE-TOKEN'', t)] | None \<Rightarrow> [])"

text \<open>C36: when every page GitLab names as the next one has a higher number than the page asked for,
  the tag query ends: fuel 6 is never used up and at most five requests are sent.\<close>

theorem gitlab_query_bounded:
  assumes "forward_pages h (tags_url repo prefix track) (tag_headers (environ w) repo)" "6 \<le> fuel"
  shows "fst (query_gitlab_tags fuel h repo prefix track w) \<noteq> Inl OutOfFuel \<and>
    requests (trace (snd (query_gitlab_tags fuel h repo prefix track w))) \<le> requests (trace w) + 5"
proof -
  let ?env = "gitlab_token_env_var repo"
  let ?token = "case dget (environ w) ?env of Some t \<Rightarrow> if t = [] then None else Some t | None \<Rightarrow> None"
  let ?pages = "gitlab_pages fuel (\<lambda>page. gitlab_page h (tags_url repo prefix track page) (tag_headers (environ w) repo)
      (gitlab_failure repo ?env ?token)) 1 []"
  have heads: "CHECKER_AGENT @ (case ?token of Some t \<Rightarrow> [(''PRIVATE-TOKEN'', t)] | None \<Rightarrow> []) = tag_headers (environ w) repo"
    by (auto simp: tag_headers_def split: option.splits)
  obtain r w1 where p: "?pages w = (r, w1)" by fastforce
  have "ends_within (nat (max_pages + 1 - 1)) w (?pages w)"
    using assms by (intro gitlab_pages_ends) (auto simp: max_pages_def)
  then have e: "r \<noteq> Inl OutOfFuel" "requests (trace w1) \<le> requests (trace w) + 5"
    using p by (auto simp: ends_within_def max_pages_def)
  show ?thesis
  proof (cases r)
    case (Inl x)
    then show ?thesis using p e by (simp add: query_gitlab_tags_def Let_def bind_run gets_run heads)
  next
    case (Inr tags)
    obtain r2 w2 where n: "mapM tag_name tags w1 = (r2, w2)"
      by fastforce
    from mapM_names_run[OF n] show ?thesis using p e n Inr
      by (auto simp: query_gitlab_tags_def Let_def bind_run gets_run heads ret_def split: sum.splits)
  qed
qed

definition two_pages :: host where
  \<comment> \<open>a GitLab with two pages of tags\<close>
  "two_pages t ev f = (case ev of
     Http m url hs \<Rightarrow> (if contains url ''page=1&'' then (JBody (JList [JObj [(''name'', JStr ''v2.0'')], JObj [(''name'', JStr ''v2.0-rc1'')]])
         [(''X-Next-Page'', ''2'')], f)
       else (JBody (JList [JObj [(''name'', JStr ''v1.9'')]]) [(''X-Next-Page'', [])], f))
   | _ \<Rightarrow> (NoProgram, f))"

lemma two_pages_forward: "forward_pages two_pages (tags_url ''https://gitlab.com/a/b'' ''v'' None) hs"
proof -
  let ?url = "tags_url ''https://gitlab.com/a/b'' ''v'' None"
  have later: "\<not> contains (?url page) ''page=1&''" if "page \<in> {2, 3, 4, 5}" for page
  proof -
    have "\<not> contains (?url 2) ''page=1&''" "\<not> contains (?url 3) ''page=1&''" "\<not> contains (?url 4) ''page=1&''"
      "\<not> contains (?url 5) ''page=1&''" by code_simp+
    with that show ?thesis by blast
  qed
  have "page < p" if a: "fst (two_pages t (Http ''GET'' (?url page) hs) f) = JBody j hd"
    and b: "next_page hd = Some p" and r: "1 \<le> page" "page \<le> max_pages" for t f page j hd p
  proof (cases "contains (?url page) ''page=1&''")
    case True
    then have "hd = [(''X-Next-Page'', ''2'')]" using a by (simp add: two_pages_def)
    moreover have "next_page [(''X-Next-Page'', ''2'')] = Some 2" by code_simp
    ultimately have "p = 2" using b by simp
    moreover have "page = 1"
    proof (rule ccontr)
      assume "page \<noteq> 1"
      with r have "page \<in> {2, 3, 4, 5}" by (simp add: max_pages_def) linarith
      with later True show False by blast
    qed
    ultimately show ?thesis by simp
  next
    case False
    then have "hd = [(''X-Next-Page'', [])]" using a by (simp add: two_pages_def)
    moreover have "next_page [(''X-Next-Page'', [])] = None" by code_simp
    ultimately show ?thesis using b by simp
  qed
  then show ?thesis unfolding forward_pages_def by blast
qed

theorem gitlab_query_bounded_witness:
  "let r = query_gitlab_tags 6 two_pages ''https://gitlab.com/a/b'' ''v'' None blank in
   fst r = Inr \<lparr>u_stable = [''2.0'', ''1.9''], u_version = Some ''2.0'', u_id = None\<rparr> \<and> requests (trace (snd r)) \<le> 5"
proof -
  have "fst (query_gitlab_tags 6 two_pages ''https://gitlab.com/a/b'' ''v'' None blank) =
    Inr \<lparr>u_stable = [''2.0'', ''1.9''], u_version = Some ''2.0'', u_id = None\<rparr>" by code_simp
  then show ?thesis
    using gitlab_query_bounded[OF two_pages_forward, of 6 blank] by (simp add: Let_def)
qed

subsection \<open>A server that repeats a page\<close>

definition same_page :: host where
  \<comment> \<open>a server whose next page is always page 1\<close>
  "same_page t ev f = (JBody (JList [JObj [(''name'', JStr ''v1'')]]) [(''x-next-page'', ''1'')], f)"

lemma same_page_step:
  "gitlab_page same_page url hs failure tags w = (Inr (tags @ [JObj [(''name'', JStr ''v1'')]], Some 1),
     w\<lparr>trace := trace w @ [Http ''GET'' url hs]\<rparr>)"
proof -
  have n: "next_page [(''x-next-page'', ''1'')] = Some 1" by code_simp
  show ?thesis
    by (simp add: gitlab_page_def catch_run bind_run urlopen_json_def ask_host_run same_page_def ret_def n
        as_list_def from_sum_def)
qed

lemma same_page_loop:
  "gitlab_pages n (\<lambda>page. gitlab_page same_page (url page) hs failure) 1 tags w =
     (Inl OutOfFuel, w\<lparr>trace := trace w @ concat (replicate n [Http ''GET'' (url 1) hs, SleepMs 200])\<rparr>)"
proof (induction n arbitrary: tags w)
  case 0
  show ?case by (simp add: raise_def)
next
  case (Suc n)
  show ?case
    using Suc.IH[of "tags @ [JObj [(''name'', JStr ''v1'')]]" "w\<lparr>trace := trace w @ [Http ''GET'' (url 1) hs, SleepMs 200]\<rparr>"]
    by (simp add: bind_run same_page_step seq_run emit_def modify_run max_pages_def)
qed

lemma requests_loop: "requests (concat (replicate n [Http m u hs, SleepMs k])) = n"
  by (induction n) simp_all

text \<open>the page cap bounds the page number, not the number of requests: against a server that keeps
  naming page 1 as the next page the loop does not end, whatever the fuel.\<close>

lemma gitlab_pages_unbounded:
  "fst (query_gitlab_tags fuel same_page repo prefix track w) = Inl OutOfFuel \<and>
   requests (trace (snd (query_gitlab_tags fuel same_page repo prefix track w))) = requests (trace w) + fuel"
  by (simp add: query_gitlab_tags_def Let_def bind_run gets_run same_page_loop requests_loop)

end
