(* ===== verification/Version_Check.thy ===== *)
theory Version_Check
  imports Upstream_Query Versions Package_Metadata
begin

section \<open>Checking packages against upstream\<close>

text \<open>
  \<open>check_package_version\<close>, \<open>list_all\<close> and \<open>run_check\<close> of \<open>ci/check_upstream_versions.py\<close>: the
  current version, the upstream answer through suffix, availability and transform filters, the
  choice under \<open>track_upstream\<close>, the comparison, and the loop that applies updates one package at
  a time, each failure undone and recorded.
\<close>

record version_result =
  v_package :: string
  current_version :: string
  upstream_version :: "string option"
  has_update :: bool
  v_error :: "string option"
  anitya_project_id :: "json option"
  updated :: bool
  update_error :: "string option"
  downloaded_sources :: "string list option"
  version_source :: "string option"

definition result_of :: "string \<Rightarrow> string \<Rightarrow> string option \<Rightarrow> bool \<Rightarrow> string option \<Rightarrow> version_result" where
  \<comment> \<open>a result with the other fields at their defaults\<close>
  "result_of package current upstream update err = \<lparr>v_package = package, current_version = current,
     upstream_version = upstream, has_update = update, v_error = err, anitya_project_id = None, updated = False,
     update_error = None, downloaded_sources = None, version_source = None\<rparr>"

subsection \<open>One package\<close>

definition find_current_version :: "host \<Rightarrow> string \<Rightarrow> string option prog" where
  \<comment> \<open>from the spec file, else from the metadata; an empty version counts as none\<close>
  "find_current_version h package = (bind (exists (RPMS_DIR @ [package])) (\<lambda>b.
    bind (if b then spec_version_release h (RPMS_DIR @ [package]) else ret None) (\<lambda>vr.
    (case vr of
       Some (v, r) \<Rightarrow> ret (Some v)
     | None \<Rightarrow> (bind (get_package_metadata package) (\<lambda>data.
       (case data of
            None \<Rightarrow> ret None
          | Some j \<Rightarrow> (bind (from_sum (as_dict j)) (\<lambda>d.
            from_sum (opt_str (dget d ''version'')))))))))))"

record tracking = \<comment> \<open>what the metadata says about upstream\<close>
  t_track :: "string option"
  t_project :: "json option"
  t_suffix :: "string option"
  t_transform :: "string option"
  t_checker :: "string option"
  t_source :: "string option"
  t_prefix :: string
  t_repo :: "string option"

definition tracking_of :: "dict \<Rightarrow> exn + tracking" where
  "tracking_of d = (case (opt_str (dget d ''track_upstream''), opt_str (dget d ''version_suffix_strip''),
       opt_str (dget d ''upstream_version_transform''), opt_str (dget d ''source_availability_check''),
       opt_str (dget d ''version_source''), str_get d ''tag_strip_prefix'' ''v'', opt_str (dget d ''upstream_repo'')) of
     (Inr track, Inr suffix, Inr transform, Inr checker, Inr source, Inr prefix, Inr repo) \<Rightarrow>
       Inr \<lparr>t_track = (if track = Some ''latest'' then None else track), t_project = dget d ''release_monitoring_project_id'',
         t_suffix = suffix, t_transform = transform, t_checker = checker, t_source = source, t_prefix = prefix,
         t_repo = repo\<rparr>
   | _ \<Rightarrow> Inl (TypeError ''expected string''))"

definition query_upstream :: "nat \<Rightarrow> host \<Rightarrow> string \<Rightarrow> string \<Rightarrow> tracking \<Rightarrow> upstream_info prog" where
  "query_upstream fuel h package distro t =
     (if t_source t = Some ''gitlab_tags'' then (case t_repo t of
          None \<Rightarrow> raise (ValueError (package @ '': version_source is 'gitlab_tags' but upstream_repo is not set in metadata''))
        | Some repo \<Rightarrow> query_gitlab_tags fuel h repo (t_prefix t) (t_track t))
      else (case t_project t of
          Some (JInt i) \<Rightarrow> query_anitya_by_project_id h (show_int i)
        | Some (JBool b) \<Rightarrow> query_anitya_by_project_id h (if b then ''True'' else ''False'')
        | Some (JStr name) \<Rightarrow> query_anitya h name distro
        | _ \<Rightarrow> query_anitya h package distro))"

definition query_failure :: "exn \<Rightarrow> bool" where
  \<comment> \<open>\<open>except (ValueError, ConnectionError, urllib.error.URLError)\<close>\<close>
  "query_failure e \<longleftrightarrow> is_ValueError e \<or> (case e of ConnectionError _ \<Rightarrow> True | _ \<Rightarrow> is_URLError e)"

definition strip_suffix :: "string option \<Rightarrow> upstream_info \<Rightarrow> upstream_info" where
  "strip_suffix suffix info = (case suffix of
     None \<Rightarrow> info
   | Some s \<Rightarrow> info\<lparr>u_stable := map (\<lambda>v. removesuffix v s) (u_stable info),
       u_version := map_option (\<lambda>v. removesuffix v s) (u_version info)\<rparr>)"

definition drop_unpublished :: "host \<Rightarrow> string option \<Rightarrow> dict \<Rightarrow> upstream_info \<Rightarrow> upstream_info prog" where
  "drop_unpublished h checker metadata info = (case checker of
     None \<Rightarrow> ret info
   | Some c \<Rightarrow> (bind (unpublished h c metadata (u_stable info)) (\<lambda>skip.
     let rest = drop skip (u_stable info) in
     ret (info\<lparr>u_stable := rest, u_version := if skip > 0 \<and> rest = [] then None else u_version info\<rparr>))))"

definition apply_transform :: "string option \<Rightarrow> upstream_info \<Rightarrow> upstream_info" where
  \<comment> \<open>untransformable versions are dropped\<close>
  "apply_transform transform info = (case transform of
     None \<Rightarrow> info
   | Some t \<Rightarrow> (let tr = (\<lambda>v. case transform_upstream_version v t of Inr tv \<Rightarrow> Some tv | Inl _ \<Rightarrow> None) in
       info\<lparr>u_stable := List.map_filter tr (u_stable info),
         u_version := (case u_version info of Some v \<Rightarrow> if v = [] then Some v else tr v | None \<Rightarrow> None)\<rparr>))"

definition choose_version :: "string option \<Rightarrow> upstream_info \<Rightarrow> string option" where
  \<comment> \<open>the first stable version that matches, else the version field if it matches\<close>
  "choose_version track info =
     (let stables = (case track of Some t \<Rightarrow> filter (\<lambda>v. matches_track_version v t) (u_stable info) | None \<Rightarrow> u_stable info)
      in case stables of
           v # _ \<Rightarrow> Some v
         | [] \<Rightarrow> (case u_version info of
             Some v \<Rightarrow> (case track of Some t \<Rightarrow> if v \<noteq> [] \<and> \<not> matches_track_version v t then None else Some v
               | None \<Rightarrow> Some v)
           | None \<Rightarrow> None))"

definition judge_version :: "('v::linorder) pylib \<Rightarrow> string \<Rightarrow> string \<Rightarrow> tracking \<Rightarrow> upstream_info \<Rightarrow> version_result" where
  "judge_version L package current t info =
     (case choose_version (t_track t) info of
        Some (c # u) \<Rightarrow> (result_of package current (Some (c # u))
            (compare_versions (label_compare L) (parse_version L) current (c # u) > 0) None)
          \<lparr>anitya_project_id := u_id info, version_source := t_source t\<rparr>
      | _ \<Rightarrow> (result_of package current None False
            (Some (''No upstream version reported by '' @ (if t_source t = Some ''gitlab_tags'' then ''GitLab tags'' else ''Anitya''))))
          \<lparr>anitya_project_id := u_id info, version_source := t_source t\<rparr>)"

definition check_package_version :: "nat \<Rightarrow> host \<Rightarrow> ('v::linorder) pylib \<Rightarrow> string \<Rightarrow> string \<Rightarrow> version_result prog" where
  "check_package_version fuel h L package distro = (bind (find_current_version h package) (\<lambda>current.
    (case current of
       None \<Rightarrow> ret (result_of package ''unknown'' None False (Some ''Could not determine current version''))
     | Some cur \<Rightarrow> (bind (get_package_metadata package) (\<lambda>meta.
       bind (from_sum (or_empty meta)) (\<lambda>d.
       bind (from_sum (tracking_of d)) (\<lambda>t.
       bind (catch ((bind (query_upstream fuel h package distro t) (\<lambda>i.
         ret (Inr i)))) query_failure (\<lambda>e. ret (Inl (exn_str e)))) (\<lambda>answer.
       (case answer of
            Inl msg \<Rightarrow> ret (result_of package cur None False (Some msg))
          | Inr info \<Rightarrow> (bind (drop_unpublished h (t_checker t) d (strip_suffix (t_suffix t) info)) (\<lambda>info.
            ret (judge_version L package cur t (apply_transform (t_transform t) info)))))))))))))"

subsection \<open>All packages\<close>

definition get_all_spec_packages :: "string list prog" where
  "get_all_spec_packages = (bind (iterdir RPMS_DIR) (\<lambda>names.
    bind (mapM (\<lambda>n. (bind (is_dir (RPMS_DIR @ [n])) (\<lambda>d.
      bind (glob (RPMS_DIR @ [n]) ''.spec'') (\<lambda>specs.
      ret (d \<and> \<not> startswith n ''.'' \<and> specs \<noteq> [], n))))) names) (\<lambda>marked.
    ret (sort (map snd (filter fst marked))))))"

definition is_tracked :: "string \<Rightarrow> bool prog" where
  \<comment> \<open>\<open>meta and meta.get("track_upstream")\<close>\<close>
  "is_tracked package = (bind (get_package_metadata package) (\<lambda>meta.
    bind (from_sum (or_empty meta)) (\<lambda>d.
    ret (opt_truthy (dget d ''track_upstream'')))))"

record check_args =
  k_packages :: "string list"
  k_all :: bool
  k_json :: bool
  k_update :: bool
  k_distro :: string
  k_quiet :: bool
  k_delay :: nat \<comment> \<open>in milliseconds\<close>
  k_sign_off :: bool
  k_skip_pipeline :: bool

definition progress :: "check_args \<Rightarrow> nat \<Rightarrow> nat \<Rightarrow> string \<Rightarrow> unit prog" where
  "progress args i n package = whenM (\<not> k_quiet args \<and> \<not> k_json args)
     (emit (Print ([cr] @ ''Checking '' @ show_nat i @ ''/'' @ show_nat n @ '': '' @ ljust 40 package)))"

fun check_each :: "(string \<Rightarrow> 'r prog) \<Rightarrow> check_args \<Rightarrow> nat \<Rightarrow> nat \<Rightarrow> string list \<Rightarrow> 'r list prog" where
  \<comment> \<open>the loop over the packages, with a pause between them\<close>
  "check_each f args i n [] = ret []"
| "check_each f args i n (p # ps) = seq (progress args (Suc i) n p) (bind (f p) (\<lambda>r.
     seq (whenM (ps \<noteq> []) (emit (SleepMs (k_delay args)))) (bind (check_each f args (Suc i) n ps) (\<lambda>rs. ret (r # rs)))))"

definition clear_progress :: "check_args \<Rightarrow> unit prog" where
  "clear_progress args = whenM (\<not> k_quiet args \<and> \<not> k_json args)
     (emit (Print ([cr] @ replicate 60 CHR '' '' @ [cr])))"

record list_entry =
  e_package :: string
  e_current :: string
  e_upstream :: string
  e_tracking :: string
  e_status :: string

definition dash_or :: "string option \<Rightarrow> string" where
  "dash_or v = (case v of Some (c # s) \<Rightarrow> c # s | _ \<Rightarrow> ''-'')"

definition entry_of :: "version_result \<Rightarrow> bool \<Rightarrow> list_entry" where
  "entry_of r tracked = (case v_error r of
     Some (c # err) \<Rightarrow> \<lparr>e_package = v_package r, e_current = current_version r, e_upstream = ''-'',
       e_tracking = (if tracked then ''yes'' else ''no''),
       e_status = (if contains (lower (c # err)) ''not found'' then ''not found in release-monitoring.org'' else c # err)\<rparr>
   | _ \<Rightarrow> \<lparr>e_package = v_package r, e_current = current_version r, e_upstream = dash_or (upstream_version r),
       e_tracking = (if tracked then ''yes'' else ''no''),
       e_status = (if has_update r then ''update available'' else ''up-to-date'')\<rparr>)"

definition list_one :: "nat \<Rightarrow> host \<Rightarrow> ('v::linorder) pylib \<Rightarrow> check_args \<Rightarrow> string \<Rightarrow> list_entry prog" where
  "list_one fuel h L args package = (bind (check_package_version fuel h L package (k_distro args)) (\<lambda>result.
    bind (is_tracked package) (\<lambda>tracked.
    ret (entry_of result tracked\<lparr>e_package := package\<rparr>))))"

definition entry_json :: "list_entry \<Rightarrow> json" where
  "entry_json e = JObj [(''package'', JStr (e_package e)), (''current_version'', JStr (e_current e)),
     (''upstream_version'', JStr (e_upstream e)), (''tracking'', JStr (e_tracking e)), (''status'', JStr (e_status e))]"

definition entry_line :: "list_entry \<Rightarrow> string" where
  "entry_line e = ljust 30 (e_package e) @ '' '' @ ljust 15 (e_current e) @ '' '' @ ljust 15 (e_upstream e) @ '' '' @
     ljust 10 (e_tracking e) @ '' '' @ e_status e"

definition table_header :: string where
  "table_header = ljust 30 ''Package'' @ '' '' @ ljust 15 ''Current'' @ '' '' @ ljust 15 ''Upstream'' @ '' '' @
     ljust 10 ''Tracking'' @ '' '' @ ''Status''"

definition list_all :: "nat \<Rightarrow> host \<Rightarrow> ('v::linorder) pylib \<Rightarrow> check_args \<Rightarrow> unit prog" where
  "list_all fuel h L args = (bind get_all_spec_packages (\<lambda>packages.
    bind (check_each (list_one fuel h L args) args 0 (length packages) packages) (\<lambda>found.
    seq (clear_progress args) (
    let entries = sort_key e_package found in
    seq (if k_json args then emit (PrintJson (JList (map entry_json entries)))
     else forM (\<lambda>l. emit (Print l)) ([[], table_header, replicate (length table_header) CHR ''-''] @ map entry_line entries
       @ [[], ''Total: '' @ show_nat (length entries) @ '' packages''])) (
    raise (SysExit 0 []))))))"

subsection \<open>Applying updates\<close>

definition apply_failure :: "exn \<Rightarrow> bool" where
  \<comment> \<open>the exceptions that are recorded as the package's \<open>update_error\<close>\<close>
  "apply_failure e \<longleftrightarrow> is_OSError e \<or> is_ValueError e \<or> is_CalledProcessError e \<or>
     (case e of RuntimeError _ \<Rightarrow> True | _ \<Rightarrow> is_URLError e)"

definition update_commit_message :: "version_result \<Rightarrow> string \<Rightarrow> string" where
  "update_commit_message r version = ''Update '' @ v_package r @ '' to '' @ version @ [nl, nl] @
     ''Upstream version detected via '' @
     (if version_source r = Some ''gitlab_tags'' then ''GitLab tags API'' else ''release-monitoring.org'')"

definition commit_update :: "host \<Rightarrow> version_result \<Rightarrow> string \<Rightarrow> string list \<Rightarrow> unit prog" where
  "commit_update h r version downloaded = (seq (whenM (downloaded \<noteq> []) (update_gitignore (RPMS_DIR @ [v_package r]) downloaded)) (
    seq (run_proc h [''git'', ''add'', ''rpms/'' @ v_package r, ''metadata/'' @ v_package r @ ''.json''] ROOT_DIR True) (
    bind (gets sign_off) (\<lambda>s.
    seq (run_proc h ([''git'', ''commit''] @ (if s then [''--signoff''] else []) @ [''-m'', update_commit_message r version]) ROOT_DIR True) (
    ret ())))))"

definition attempt :: "'a prog \<Rightarrow> (exn + 'a) prog" where
  \<comment> \<open>a recorded failure as a value\<close>
  "attempt m = catch ((bind m (\<lambda>x.
    ret (Inr x)))) apply_failure (\<lambda>e. ret (Inl e))"

definition record_failure :: "host \<Rightarrow> version_result \<Rightarrow> exn \<Rightarrow> version_result prog" where
  \<comment> \<open>undo the package's changes; a failing clean-up is raised\<close>
  "record_failure h r e = (seq (discard_package_changes h (v_package r)) (
    ret (r\<lparr>update_error := Some (exn_str e)\<rparr>)))"

definition apply_result :: "host \<Rightarrow> 'v pylib \<Rightarrow> bool \<Rightarrow> version_result \<Rightarrow> version_result prog" where
  "apply_result h L skip_pipeline r = (case (has_update r, upstream_version r) of
     (True, Some (c # u)) \<Rightarrow> (bind (attempt (update_spec_version h L skip_pipeline (v_package r) (c # u))) (\<lambda>first.
       (case first of
          Inl e \<Rightarrow> record_failure h r e
        | Inr downloaded \<Rightarrow> (let r = r\<lparr>downloaded_sources := Some downloaded\<rparr> in
          bind (attempt (commit_update h r (c # u) downloaded)) (\<lambda>second.
          (case second of
               Inl e \<Rightarrow> record_failure h r e
             | Inr _ \<Rightarrow> ret (r\<lparr>updated := True\<rparr>)))))))
   | _ \<Rightarrow> ret r)"

subsection \<open>The check command\<close>

definition json_opt :: "string option \<Rightarrow> json" where
  "json_opt v = (case v of Some s \<Rightarrow> JStr s | None \<Rightarrow> JNull)"

definition has_error :: "version_result \<Rightarrow> bool" where
  "has_error r \<longleftrightarrow> v_error r \<noteq> None \<and> v_error r \<noteq> Some []"

definition version_result_json :: "version_result \<Rightarrow> json" where
  "version_result_json r = JObj [(''package'', JStr (v_package r)), (''current_version'', JStr (current_version r)),
     (''upstream_version'', json_opt (upstream_version r)), (''has_update'', JBool (has_update r)),
     (''updated'', JBool (updated r)),
     (''downloaded_sources'', case downloaded_sources r of Some ds \<Rightarrow> JList (map JStr ds) | None \<Rightarrow> JNull),
     (''error'', json_opt (v_error r)), (''update_error'', json_opt (update_error r)),
     (''anitya_project_id'', case anitya_project_id r of Some j \<Rightarrow> j | None \<Rightarrow> JNull)]"

definition count :: "('a \<Rightarrow> bool) \<Rightarrow> 'a list \<Rightarrow> nat" where
  "count p xs = length (filter p xs)"

definition check_json :: "check_args \<Rightarrow> version_result list \<Rightarrow> json" where
  "check_json args results = JObj [(''total_packages'', JInt (int (length results))),
     (''updates_available'', JInt (int (count has_update results))), (''updates_applied'', JInt (int (count updated results))),
     (''errors'', JInt (int (count has_error results))),
     (''results'', JList (map version_result_json (filter (\<lambda>r. k_all args \<or> has_update r \<or> has_error r) results)))]"

definition rule_line :: "nat \<Rightarrow> string" where "rule_line n = replicate n CHR ''-''"

definition update_line :: "check_args \<Rightarrow> version_result \<Rightarrow> string list" where
  "update_line args r = (let base = ljust 30 (v_package r) @ '' '' @ ljust 15 (current_version r) @ '' '' @
       ljust 15 (case upstream_version r of Some v \<Rightarrow> v | None \<Rightarrow> ''None'') in
     if k_update args then
       [base @ '' '' @ (if updated r then ''UPDATED'' else ''FAILED'')] @
       (case downloaded_sources r of Some ds \<Rightarrow> map (\<lambda>d. ''  -> '' @ d) ds | None \<Rightarrow> []) @
       (case update_error r of Some (c # e) \<Rightarrow> [''  Error: '' @ c # e] | _ \<Rightarrow> [])
     else [base])"

definition check_report :: "check_args \<Rightarrow> version_result list \<Rightarrow> string list" where
  \<comment> \<open>the lines of the text output\<close>
  "check_report args results =
     (let updates_found = count has_update results; updates_applied = count updated results;
          errors_found = count has_error results;
          ok = show_int (int (length results) - int updates_found - int errors_found) in
      (if updates_found > 0 then
         (if k_update args then [nl # ''Packages updated:'', rule_line 80,
            ljust 30 ''Package'' @ '' '' @ ljust 15 ''Current'' @ '' '' @ ljust 15 ''Upstream'' @ '' '' @ ljust 10 ''Status'', rule_line 80]
          else [nl # ''Packages with available updates:'', rule_line 70,
            ljust 30 ''Package'' @ '' '' @ ljust 15 ''Current'' @ '' '' @ ljust 15 ''Upstream'', rule_line 70]) @
         concat (map (update_line args) (filter has_update results))
       else []) @
      (let up_to_date = filter (\<lambda>r. \<not> has_update r \<and> \<not> has_error r) results in
       if k_all args \<and> up_to_date \<noteq> [] then [nl # ''Up-to-date packages:'', rule_line 70] @
         map (\<lambda>r. ljust 30 (v_package r) @ '' '' @ ljust 15 (current_version r)) up_to_date else []) @
      (if errors_found > 0 then [nl # ''Packages with errors:'', rule_line 70] @
         map (\<lambda>r. ljust 30 (v_package r) @ '' '' @ (case v_error r of Some e \<Rightarrow> e | None \<Rightarrow> [])) (filter has_error results)
       else []) @
      [[], if k_update args then ''Summary: '' @ show_nat updates_applied @ '' specs updated, '' @
             show_int (int updates_found - int updates_applied) @ '' update failures, '' @ ok @ '' up-to-date, '' @
             show_nat errors_found @ '' errors''
           else ''Summary: '' @ show_nat updates_found @ '' updates available, '' @ ok @ '' up-to-date, '' @
             show_nat errors_found @ '' errors''])"

definition check_exit :: "version_result list \<Rightarrow> int" where
  "check_exit results = (if count has_error results > 0 \<and> count has_update results = 0 then 2
     else if count has_update results > 0 then 1 else 0)"

definition run_check :: "nat \<Rightarrow> host \<Rightarrow> ('v::linorder) pylib \<Rightarrow> check_args \<Rightarrow> unit prog" where
  "run_check fuel h L args = (seq (modify (\<lambda>w. w\<lparr>sign_off := k_sign_off args\<rparr>)) (
    bind (if k_packages args \<noteq> [] then ret (k_packages args) else (bind get_all_spec_packages (\<lambda>all.
      bind (mapM (\<lambda>p. (bind (is_tracked p) (\<lambda>b.
        ret (b, p)))) all) (\<lambda>marked.
      ret (map snd (filter fst marked)))))) (\<lambda>packages.
    bind (check_each (\<lambda>p. check_package_version fuel h L p (k_distro args)) args 0 (length packages) packages) (\<lambda>checked.
    seq (clear_progress args) (
    bind (if k_update args then mapM (apply_result h L (k_skip_pipeline args)) checked else ret checked) (\<lambda>results.
    seq (if k_json args then emit (PrintJson (check_json args results))
     else forM (\<lambda>l. emit (Print l)) (check_report args results)) (
    raise (SysExit (check_exit results) []))))))))"

subsection \<open>An offered update is newer and tracked\<close>

lemma choose_tracks:
  "choose_version (Some t) info = Some v \<Longrightarrow> v \<noteq> [] \<Longrightarrow> matches_track_version v t"
proof -
  assume c: "choose_version (Some t) info = Some v" "v \<noteq> []"
  show ?thesis
  proof (cases "filter (\<lambda>v. matches_track_version v t) (u_stable info)")
    case Nil
    with c show ?thesis by (auto simp: choose_version_def split: option.splits if_splits)
  next
    case (Cons x xs)
    then have "x \<in> set (filter (\<lambda>v. matches_track_version v t) (u_stable info))" by simp
    then have "matches_track_version x t" by (simp only: set_filter mem_Collect_eq)
    with c Cons show ?thesis by (auto simp: choose_version_def)
  qed
qed

lemma judge_update:
  assumes "has_update (judge_version L p cur t info)"
  shows "\<exists>u. upstream_version (judge_version L p cur t info) = Some u \<and> u \<noteq> [] \<and> v_error (judge_version L p cur t info) = None \<and>
    current_version (judge_version L p cur t info) = cur \<and>
    compare_versions (label_compare L) (parse_version L) cur u > 0 \<and> choose_version (t_track t) info = Some u"
  using assms by (auto simp: judge_version_def result_of_def split: option.splits list.splits)

lemma metadata_pure: "get_package_metadata p w = (r, w') \<Longrightarrow> w' = w"
  by (auto simp: get_package_metadata_def Let_def exists_def prog_simps json_load_def
      split: if_splits option.splits node.splits)

lemma tracking_track:
  "tracking_of d = Inr t \<Longrightarrow> dget d ''track_upstream'' = Some (JStr v) \<Longrightarrow> v \<noteq> [] \<Longrightarrow> v \<noteq> ''latest'' \<Longrightarrow> t_track t = Some v"
  by (auto simp: tracking_of_def opt_str_def as_str_def split: sum.splits)

text \<open>C8: an update is offered only for a non-empty upstream version that compares as newer than the
  current one, which is the version found for the package, and when the package's metadata, as the check reads it, tracks a version
  prefix, the offered version matches that prefix.\<close>

theorem offered_update:
  assumes "check_package_version fuel h L p distro w = (Inr r, w')" "has_update r"
  shows "\<exists>u cur w1 md d. find_current_version h p w = (Inr (Some cur), w1) \<and> current_version r = cur \<and>
    upstream_version r = Some u \<and> u \<noteq> [] \<and> v_error r = None \<and>
    compare_versions (label_compare L) (parse_version L) cur u > 0 \<and>
    get_package_metadata p w1 = (Inr md, w1) \<and> or_empty md = Inr d \<and>
    (\<forall>v. dget d ''track_upstream'' = Some (JStr v) \<and> v \<noteq> [] \<and> v \<noteq> ''latest'' \<longrightarrow> matches_track_version u v)"
proof -
  from assms obtain cur w1 md w2 d t info where
    cur: "find_current_version h p w = (Inr (Some cur), w1)" and md: "get_package_metadata p w1 = (Inr md, w2)" and d: "or_empty md = Inr d" and t: "tracking_of d = Inr t"
    and r: "r = judge_version L p cur t info"
    by (auto simp: check_package_version_def prog_inr option_Inr sum_Inr result_of_def)
  from judge_update[OF assms(2)[unfolded r], folded r] obtain u where u: "upstream_version r = Some u" "u \<noteq> []"
    "v_error r = None" "current_version r = cur" "compare_versions (label_compare L) (parse_version L) cur u > 0"
    "choose_version (t_track t) info = Some u" by blast
  have "matches_track_version u v"
    if "dget d ''track_upstream'' = Some (JStr v)" "v \<noteq> []" "v \<noteq> ''latest''" for v
    using choose_tracks[of v info u] tracking_track[OF t that] u by simp
  with u cur md metadata_pure[OF md] d show ?thesis
    by (intro exI[of _ u] exI[of _ cur] exI[of _ w1] exI[of _ md] exI[of _ d]) auto
qed

definition anitya_host :: host where
  \<comment> \<open>rpmspec reports version 1.2, upstream 2.0 and 1.3\<close>
  "anitya_host t ev f = (case ev of
     Proc argv cwd \<Rightarrow> (Exit 0 (''1.2'' @ [nl] @ ''1'' @ [nl]) [], f)
   | Http m url hs \<Rightarrow> (JBody (JObj [(''stable_versions'', JList [JStr ''2.0'', JStr ''1.3'']), (''version'', JStr ''2.0'')]) [], f)
   | _ \<Rightarrow> (NoProgram, f))"

definition tracked_package :: world where
  \<comment> \<open>a package that tracks version 1\<close>
  "tracked_package = blank\<lparr>files := [([''rpms'', ''a''], DirN), ([''rpms'', ''a'', ''a.spec''], FileN []),
     ([''metadata'', ''a.json''], JsonN (JObj [(''track_upstream'', JStr ''1'')]))]\<rparr>"

theorem offered_update_witness:
  "let r = fst (check_package_version 6 anitya_host (yaml_of JNull) ''a'' ''Fedora'' tracked_package) in
   r = Inr ((result_of ''a'' ''1.2'' (Some ''1.3'') True None)) \<and>
   compare_versions None (parse_version (yaml_of JNull)) ''1.2'' ''1.3'' > 0"
proof -
  let ?r = "check_package_version 6 anitya_host (yaml_of JNull) ''a'' ''Fedora'' tracked_package"
  let ?v = "result_of ''a'' ''1.2'' (Some ''1.3'') True None"
  have ok: "fst ?r = Inr ?v" by code_simp
  then have run: "?r = (Inr ?v, snd ?r)" by (metis prod.collapse)
  have v: "has_update ?v" "upstream_version ?v = Some ''1.3''" "current_version ?v = ''1.2''" by (simp_all add: result_of_def)
  have l: "label_compare (yaml_of JNull) = None" by (simp add: yaml_of_def)
  from offered_update[OF run v(1)] show ?thesis using ok unfolding v l Let_def by auto
qed

subsection \<open>A read that times out\<close>

text \<open>a request to release-monitoring.org that times out while the answer is read is no \<open>URLError\<close> and
  no \<open>ConnectionError\<close>: it is not recorded as the package's error but ends the whole check, before any
  other package is looked at.\<close>

lemma timeout_ends_check:
  assumes "k_packages args = p # ps" "k_quiet args"
    and "find_current_version h p (w\<lparr>sign_off := k_sign_off args\<rparr>) = (Inr (Some v), w1)"
    and "get_package_metadata p w1 = (Inr None, w1)"
    and "fst (h (trace w1) (Http ''GET'' (ANITYA_API_BASE @ ''/project/'' @ k_distro args @ ''/'' @ p) CHECKER_AGENT) (files w1)) = TimedOut"
  shows "fst (run_check fuel h L args w) = Inl SocketTimeout \<and>
    trace (snd (run_check fuel h L args w)) =
      trace w1 @ [Http ''GET'' (ANITYA_API_BASE @ ''/project/'' @ k_distro args @ ''/'' @ p) CHECKER_AGENT]"
proof -
  let ?url = "ANITYA_API_BASE @ ''/project/'' @ k_distro args @ ''/'' @ p"
  obtain w2 where q: "query_anitya h p (k_distro args) w1 = (Inl SocketTimeout, w2)"
    "trace w2 = trace w1 @ [Http ''GET'' ?url CHECKER_AGENT]"
    using assms(5) by (auto simp: query_anitya_def Let_def prog_simps urlopen_json_def http_exn_def is_URLError_def)
  have "check_package_version fuel h L p (k_distro args) (w\<lparr>sign_off := k_sign_off args\<rparr>) = (Inl SocketTimeout, w2)"
    using assms(3,4) q(1)
    by (simp add: check_package_version_def bind_run or_empty_def from_sum_def ret_def tracking_of_def opt_str_def
        str_get_def query_upstream_def catch_run query_failure_def is_ValueError_def is_URLError_def)
  then show ?thesis
    using assms(1,2) q(2)
    by (simp add: run_check_def seq_run modify_run bind_run ret_def progress_def whenM_def)
qed

definition timeout_host :: host where
  "timeout_host t ev f = (case ev of Proc argv cwd \<Rightarrow> (Exit 0 (''1.2'' @ [nl] @ ''1'' @ [nl]) [], f) | _ \<Rightarrow> (TimedOut, f))"

definition quiet_check :: "string list \<Rightarrow> check_args" where
  "quiet_check ps = \<lparr>k_packages = ps, k_all = False, k_json = True, k_update = False, k_distro = ''Fedora'', k_quiet = True,
     k_delay = 200, k_sign_off = False, k_skip_pipeline = False\<rparr>"

subsection \<open>Applying updates\<close>

definition grows :: "'a prog \<Rightarrow> bool" where
  \<comment> \<open>no event of the past is lost\<close>
  "grows m \<longleftrightarrow> runs_in (\<lambda>_. True) (\<lambda>_. True) m"

lemma all_errors [simp]: "proc_errors (\<lambda>_. True)" "file_errors (\<lambda>_. True)"
  by (simp_all add: proc_errors_def file_errors_def)

lemma grows_commit: "grows (commit_update h r v ds)"
  unfolding grows_def commit_update_def update_gitignore_def Let_def by (auto intro!: run_rules)

lemma grows_hash: "runs_in (\<lambda>_. True) (\<lambda>_. True) (compute_file_hash L f a)"
  by (rule runs_in_quiet) (auto simp: compute_file_hash_def split: option.splits node.splits sum.splits)

lemma grows_sources:
  "runs_in (\<lambda>_. True) (\<lambda>_. True) (upload_to_lookaside h L f p ht)"
  "runs_in (\<lambda>_. True) (\<lambda>_. True) (parse_sources_file q)"
  "runs_in (\<lambda>_. True) (\<lambda>_. True) (write_sources_file q es)"
  "runs_in (\<lambda>_. True) (\<lambda>_. True) (remove_stale d ns)"
  "runs_in (\<lambda>_. True) (\<lambda>_. True) (download_file h u q)"
  "runs_in (\<lambda>_. True) (\<lambda>_. True) (load_source_pipeline p)"
  "runs_in (\<lambda>_. True) (\<lambda>_. True) (get_package_metadata p)"
  "runs_in (\<lambda>_. True) (\<lambda>_. True) (load_update_hooks L p)"
  "runs_in (\<lambda>_. True) (\<lambda>_. True) (build_hook_env p a v)"
  "runs_in (\<lambda>_. True) (\<lambda>_. True) (run_hook h n c p env)"
  "runs_in (\<lambda>_. True) (\<lambda>_. True) (spec_version_release h d)"
  "runs_in (\<lambda>_. True) (\<lambda>_. True) (mark_package_modified p m ov)"
  by (auto simp: upload_to_lookaside_def get_package_lookaside_bucket_def package_override_def
      parse_sources_file_def write_sources_file_def remove_stale_def download_file_def load_source_pipeline_def
      get_package_metadata_def load_update_hooks_def build_hook_env_def run_hook_def spec_version_release_def
      mark_package_modified_def Let_def intro!: run_rules split: reply.splits option.splits)

lemmas grow_rules = run_rules grows_hash grows_sources

lemma grows_gorget: "runs_in (\<lambda>_. True) (\<lambda>_. True) (run_gorget_pipeline h L p ov nv f)"
  by (auto simp: run_gorget_pipeline_def run_gorget_def take_artifact_def Let_def intro!: grow_rules)

lemma grows_vendor: "runs_in (\<lambda>_. True) (\<lambda>_. True) (regenerate_vendor_archive h L p ov nv es)"
  by (auto simp: regenerate_vendor_archive_def Let_def intro!: grow_rules split: option.splits)

lemma grows_steps:
  "runs_in (\<lambda>_. True) (\<lambda>_. True) (fetch_step h L p ns st u)"
  "runs_in (\<lambda>_. True) (\<lambda>_. True) (hook_source_step h L p ov nv st l)"
  by (auto simp: fetch_step_def hook_source_step_def Let_def intro!: grow_rules)

lemma grows_download: "runs_in (\<lambda>_. True) (\<lambda>_. True) (download_new_sources h L p ov nv)"
  by (auto simp: download_new_sources_def Let_def intro!: grow_rules grows_steps grows_vendor)

lemma grows_spec_phase: "runs_in (\<lambda>_. True) (\<lambda>_. True) (update_spec_phase h L p nv s hooks)"
  by (auto simp: update_spec_phase_def Let_def intro!: grow_rules)

lemma grows_source_phase: "runs_in (\<lambda>_. True) (\<lambda>_. True) (source_phase h L b p ov nv hooks)"
  by (auto simp: source_phase_def Let_def intro!: grow_rules grows_gorget grows_download grows_steps)

lemma grows_update: "grows (update_spec_version h L b p v)"
  unfolding grows_def
  by (auto simp: update_spec_version_def Let_def intro!: grow_rules grows_spec_phase grows_source_phase)

definition commit_event :: "version_result \<Rightarrow> string \<Rightarrow> event \<Rightarrow> bool" where
  "commit_event r v e \<longleftrightarrow> (\<exists>sig. e = Proc ([''git'', ''commit''] @ sig @ [''-m'', update_commit_message r v]) ROOT_DIR)"

definition cleaned_up :: "version_result \<Rightarrow> event set \<Rightarrow> bool" where
  "cleaned_up r es \<longleftrightarrow> {Proc [''git'', ''restore'', ''--staged'', ''--worktree'', ''--'', ''rpms/'' @ v_package r,
     ''metadata/'' @ v_package r @ ''.json''] ROOT_DIR, Proc [''git'', ''clean'', ''-fd'', ''--'', ''rpms/'' @ v_package r] ROOT_DIR} \<subseteq> es"

definition settled_update :: "event set \<Rightarrow> version_result \<Rightarrow> version_result \<Rightarrow> bool" where
  \<comment> \<open>what became of one result: untouched, committed, or undone with its error recorded\<close>
  "settled_update es r r' \<longleftrightarrow> v_package r' = v_package r \<and> has_update r' = has_update r \<and>
     (case (has_update r, upstream_version r) of
        (True, Some (c # u)) \<Rightarrow>
          (updated r' \<and> update_error r' = update_error r \<and> (\<exists>e \<in> es. commit_event r (c # u) e)) \<or>
          (updated r' = updated r \<and> update_error r' \<noteq> None \<and> cleaned_up r es)
      | _ \<Rightarrow> r' = r)"

definition ends_loop :: "host \<Rightarrow> 'v pylib \<Rightarrow> bool \<Rightarrow> version_result \<Rightarrow> exn \<Rightarrow> world \<Rightarrow> world \<Rightarrow> bool" where
  \<comment> \<open>an exception of none of the expected classes from the update or its commit, or a clean-up that fails\<close>
  "ends_loop h L b r e w w' \<longleftrightarrow> (\<exists>v. has_update r \<and> upstream_version r = Some v \<and>
     (\<not> is_OSError e \<and> \<not> is_ValueError e \<and> \<not> is_CalledProcessError e \<and> \<not> is_URLError e \<and> (\<forall>m. e \<noteq> RuntimeError m) \<and>
        (update_spec_version h L b (v_package r) v w = (Inl e, w') \<or>
         (\<exists>ds w1. update_spec_version h L b (v_package r) v w = (Inr ds, w1) \<and> commit_update h r v ds w1 = (Inl e, w'))) \<or>
      (\<exists>w1. discard_package_changes h (v_package r) w1 = (Inl e, w'))))"

lemma settled_mono: "settled_update es r r' \<Longrightarrow> es \<subseteq> fs \<Longrightarrow> settled_update fs r r'"
  unfolding settled_update_def cleaned_up_def by (auto split: option.splits list.splits bool.splits)

lemma settled_all_mono: "list_all2 (settled_update es) rs rs' \<Longrightarrow> es \<subseteq> fs \<Longrightarrow> list_all2 (settled_update fs) rs rs'"
  by (erule list_all2_mono) (rule settled_mono)

lemma grows_run: "grows m \<Longrightarrow> m w = (r, w') \<Longrightarrow> \<exists>es. trace w' = trace w @ es"
  unfolding grows_def by (drule (1) runs_inD) auto

lemma run_proc_event: "run_proc h argv cwd check w = (r, w') \<Longrightarrow> trace w' = trace w @ [Proc argv cwd]"
  using run_proc_trace[of h argv cwd check w] by simp

lemma commit_settles:
  assumes "commit_update h r v ds w = (Inr u, w')"
  shows "\<exists>es. trace w' = trace w @ es \<and> (\<exists>e \<in> set es. commit_event r v e)"
proof -
  from assms obtain sig w1 w2 x y s where add: "whenM (ds \<noteq> []) (update_gitignore (RPMS_DIR @ [v_package r]) ds) w = (Inr x, w1)"
    "run_proc h [''git'', ''add'', ''rpms/'' @ v_package r, ''metadata/'' @ v_package r @ ''.json''] ROOT_DIR True w1 = (Inr y, w2)"
    and commit: "run_proc h ([''git'', ''commit''] @ sig @ [''-m'', update_commit_message r v]) ROOT_DIR True w2 = (Inr s, w')"
    by (auto simp: commit_update_def prog_inr)
  have "grows (whenM (ds \<noteq> []) (update_gitignore (RPMS_DIR @ [v_package r]) ds))"
    unfolding grows_def update_gitignore_def Let_def by (auto intro!: run_rules)
  from grows_run[OF this add(1)] obtain es where "trace w1 = trace w @ es" by blast
  with run_proc_event[OF add(2)] run_proc_event[OF commit] show ?thesis by (auto simp: commit_event_def)
qed

lemma failure_settles:
  assumes "record_failure h r e w = (Inr r', w')"
  shows "r' = r\<lparr>update_error := Some (exn_str e)\<rparr> \<and> (\<exists>es. trace w' = trace w @ es \<and> cleaned_up r (set es))"
proof -
  from assms obtain w1 x y where r: "r' = r\<lparr>update_error := Some (exn_str e)\<rparr>"
    and 1: "run_proc h [''git'', ''restore'', ''--staged'', ''--worktree'', ''--'', ''rpms/'' @ v_package r,
      ''metadata/'' @ v_package r @ ''.json''] ROOT_DIR True w = (Inr x, w1)"
    and 2: "run_proc h [''git'', ''clean'', ''-fd'', ''--'', ''rpms/'' @ v_package r] ROOT_DIR True w1 = (Inr y, w')"
    by (auto simp: record_failure_def discard_package_changes_def prog_inr)
  from run_proc_event[OF 1] run_proc_event[OF 2] r show ?thesis unfolding cleaned_up_def by auto
qed

lemma attempt_Inr: "attempt m w = (Inr y, w') \<Longrightarrow>
    (\<exists>x. y = Inr x \<and> m w = (Inr x, w')) \<or> (\<exists>e. y = Inl e \<and> m w = (Inl e, w'))"
  by (auto simp: attempt_def catch_run bind_run ret_def split: prod.splits sum.splits if_splits)

lemma attempt_Inl: "attempt m w = (Inl e, w') \<Longrightarrow> \<not> apply_failure e \<and> m w = (Inl e, w')"
  by (auto simp: attempt_def catch_run bind_run ret_def split: prod.splits sum.splits if_splits)

lemma commit_update_cong [simp]: "commit_update h (r\<lparr>downloaded_sources := d\<rparr>) = commit_update h r"
  by (simp add: commit_update_def update_commit_message_def fun_eq_iff)

lemma apply_cases:
  assumes "apply_result h L b r w = (out, w')" "has_update r" "upstream_version r = Some (c # u)"
  obtains (escaped) e where "update_spec_version h L b (v_package r) (c # u) w = (Inl e, w')" "out = Inl e" "\<not> apply_failure e"
  | (failed) e w1 where "update_spec_version h L b (v_package r) (c # u) w = (Inl e, w1)" "record_failure h r e w1 = (out, w')"
  | (commit_escaped) e ds w1 where "update_spec_version h L b (v_package r) (c # u) w = (Inr ds, w1)"
      "commit_update h r (c # u) ds w1 = (Inl e, w')" "out = Inl e" "\<not> apply_failure e"
  | (commit_failed) e ds w1 w2 where "update_spec_version h L b (v_package r) (c # u) w = (Inr ds, w1)"
      "commit_update h r (c # u) ds w1 = (Inl e, w2)" "record_failure h (r\<lparr>downloaded_sources := Some ds\<rparr>) e w2 = (out, w')"
  | (committed) ds x w1 where "update_spec_version h L b (v_package r) (c # u) w = (Inr ds, w1)"
      "commit_update h r (c # u) ds w1 = (Inr x, w')" "out = Inr (r\<lparr>downloaded_sources := Some ds, updated := True\<rparr>)"
proof -
  obtain a w1 where u: "update_spec_version h L b (v_package r) (c # u) w = (a, w1)" by fastforce
  show thesis
  proof (cases a)
    case (Inl e)
    with u assms that(1,2) show thesis
      by (cases "apply_failure e") (auto simp: apply_result_def attempt_def catch_run bind_run ret_def)
  next
    case (Inr ds)
    obtain q w2 where c: "commit_update h r (c # u) ds w1 = (q, w2)" by fastforce
    show thesis
    proof (cases q)
      case (Inl e)
      with u c Inr assms that(3,4) show thesis
        by (cases "apply_failure e") (auto simp: apply_result_def attempt_def catch_run bind_run ret_def Let_def)
    next
      case (Inr x)
      with u c \<open>a = Inr ds\<close> assms that(5) show thesis
        by (auto simp: apply_result_def attempt_def catch_run bind_run ret_def Let_def)
    qed
  qed
qed

lemma apply_settles:
  assumes "apply_result h L b r w = (Inr r', w')"
  shows "\<exists>es. trace w' = trace w @ es \<and> settled_update (set es) r r'"
proof (cases "\<exists>c u. has_update r \<and> upstream_version r = Some (c # u)")
  case False
  then have "r' = r \<and> w' = w" using assms
    by (auto simp: apply_result_def ret_def split: option.splits list.splits bool.splits)
  with False show ?thesis by (auto simp: settled_update_def split: option.splits list.splits bool.splits)
next
  case True
  then obtain c u where cu: "has_update r" "upstream_version r = Some (c # u)" by blast
  have cleaned [simp]: "cleaned_up (r\<lparr>downloaded_sources := d\<rparr>) = cleaned_up r" for d by (simp add: cleaned_up_def fun_eq_iff)
  from assms cu show ?thesis
  proof (cases rule: apply_cases)
    case (failed e w1)
    from grows_run[OF grows_update failed(1)] failure_settles[OF failed(2)] cu show ?thesis
      by (fastforce simp: settled_update_def cleaned_up_def)
  next
    case (commit_failed e ds w1 w2)
    from grows_run[OF grows_update commit_failed(1)] grows_run[OF grows_commit commit_failed(2)] failure_settles[OF commit_failed(3)] cu
    show ?thesis by (fastforce simp: settled_update_def cleaned_up_def)
  next
    case (committed ds x w1)
    from grows_run[OF grows_update committed(1)] commit_settles[OF committed(2)] committed(3) cu show ?thesis
      by (fastforce simp: settled_update_def)
  qed simp_all
qed

lemma apply_escapes:
  assumes "apply_result h L b r w = (Inl e, w')"
  shows "ends_loop h L b r e w w'"
proof -
  from assms obtain c u where cu: "has_update r" "upstream_version r = Some (c # u)"
    by (auto simp: apply_result_def ret_def split: option.splits list.splits bool.splits)
  have discard: "\<exists>w1. discard_package_changes h (v_package r) w1 = (Inl e, w')" if "record_failure h q x w1 = (Inl e, w')" "v_package q = v_package r" for q x w1
    using that by (auto simp: record_failure_def seq_run bind_run ret_def split: prod.splits sum.splits)
  have fail: "\<not> is_OSError e \<and> \<not> is_ValueError e \<and> \<not> is_CalledProcessError e \<and> \<not> is_URLError e \<and> (\<forall>m. e \<noteq> RuntimeError m)" if "\<not> apply_failure e"
    using that by (auto simp: apply_failure_def is_URLError_def split: exn.splits)
  from assms cu show ?thesis
  proof (cases rule: apply_cases)
    case (failed x w1)
    with discard[OF failed(2)] cu show ?thesis unfolding ends_loop_def by blast
  next
    case (commit_failed x ds w1 w2)
    with discard[OF commit_failed(3)] cu show ?thesis unfolding ends_loop_def by auto
  qed (use fail cu in \<open>auto simp: ends_loop_def\<close>)
qed

text \<open>C10: the loop over the updates. When it ends, every offered update has either been committed or been
  undone with its error recorded, and results without an update are untouched. It stops early only at a package
  whose update or commit raises an exception of none of the classes that are recorded (\<open>OSError\<close>, \<open>RuntimeError\<close>, \<open>ValueError\<close>,
  \<open>CalledProcessError\<close>, \<open>URLError\<close>) or whose clean-up fails; then the packages before it are settled. So no failure that is
  recorded skips another package.\<close>

theorem updates_settled:
  "case mapM (apply_result h L skip_pipeline) results w of
     (Inr results', w') \<Rightarrow> \<exists>es. trace w' = trace w @ es \<and> list_all2 (settled_update (set es)) results results'
   | (Inl e, w') \<Rightarrow> \<exists>before r after before' w1 es. results = before @ r # after \<and>
       mapM (apply_result h L skip_pipeline) before w = (Inr before', w1) \<and> trace w1 = trace w @ es \<and>
       list_all2 (settled_update (set es)) before before' \<and> ends_loop h L skip_pipeline r e w1 w'"
proof (induction results arbitrary: w)
  case (Cons r rs)
  obtain out w1 where r: "apply_result h L skip_pipeline r w = (out, w1)" by fastforce
  show ?case
  proof (cases out)
    case (Inl e)
    with r apply_escapes show ?thesis by (fastforce simp: bind_run ret_def)
  next
    case (Inr r')
    from apply_settles[OF r[unfolded Inr]] obtain es where es: "trace w1 = trace w @ es" "settled_update (set es) r r'" by blast
    obtain out2 w2 where rest: "mapM (apply_result h L skip_pipeline) rs w1 = (out2, w2)" by fastforce
    note mono = settled_mono[OF es(2)]
    show ?thesis
    proof (cases out2)
      case (Inr rs')
      with Cons.IH[of w1] rest obtain fs where fs: "trace w2 = trace w1 @ fs" "list_all2 (settled_update (set fs)) rs rs'" by auto
      have "list_all2 (settled_update (set (es @ fs))) (r # rs) (r' # rs')"
        using mono[of "set (es @ fs)"] settled_all_mono[OF fs(2), of "set (es @ fs)"] by simp
      with r \<open>out = Inr r'\<close> rest Inr es(1) fs(1) show ?thesis by (fastforce simp: bind_run ret_def)
    next
      case (Inl e)
      with Cons.IH[of w1] rest obtain before q after before' w3 fs where f: "rs = before @ q # after"
        "mapM (apply_result h L skip_pipeline) before w1 = (Inr before', w3)" "trace w3 = trace w1 @ fs"
        "list_all2 (settled_update (set fs)) before before'" "ends_loop h L skip_pipeline q e w3 w2" by auto
      have "list_all2 (settled_update (set (es @ fs))) (r # before) (r' # before')"
        using mono[of "set (es @ fs)"] settled_all_mono[OF f(4), of "set (es @ fs)"] by simp
      moreover have run: "mapM (apply_result h L skip_pipeline) (r # rs) w = (Inl e, w2)"
        and "mapM (apply_result h L skip_pipeline) (r # before) w = (Inr (r' # before'), w3)" "trace w3 = trace w @ (es @ fs)"
        using r \<open>out = Inr r'\<close> rest Inl es(1) f(2,3) by (simp_all add: bind_run ret_def)
      moreover have "r # rs = (r # before) @ q # after" using f(1) by simp
      ultimately show ?thesis using f(5) unfolding run prod.case sum.case by blast
    qed
  qed
qed (simp add: ret_def)

end
