(* ===== verification/Modification_Check.thy ===== *)
theory Modification_Check
  imports Package_Metadata Source_Update
begin

section \<open>Validation of the modification status\<close>

text \<open>
  \<open>ci/validate_package_modifications.py\<close>: the packages a merge request changes, the last sync of a
  package, the commits since then (with the accepted exceptions and the release-only ones), the
  policy checks on local commits, the rules on the metadata, and the run over all packages. A
  validation answers \<open>None\<close> where the code returns \<open>(True, None)\<close> and \<open>Some error\<close> where it returns
  \<open>(False, error)\<close>. The thread pool runs the validations one after the other; the order in which
  they complete is a parameter. Lines printed to standard error are recorded like the others.
\<close>

subsection \<open>The packages of a merge request\<close>

definition git_lines :: "string \<Rightarrow> string list" where
  \<comment> \<open>\<open>[l for l in out.strip().split('\n') if l]\<close>\<close>
  "git_lines out = filter (\<lambda>l. l \<noteq> []) (split_on nl (strip out))"

definition changed_package :: "string \<Rightarrow> string option" where
  "changed_package line =
     (if startswith line ''rpms/'' then (case split_on CHR ''/'' line of a # b # _ \<Rightarrow> Some b | _ \<Rightarrow> None)
      else if startswith line ''metadata/'' \<and> endswith line ''.json'' then Some (stem (last_component line))
      else None)"

definition get_changed_packages_in_mr :: "host \<Rightarrow> string list prog" where
  "get_changed_packages_in_mr h = (bind (gets environ) (\<lambda>env.
    let diff_base_sha = (case dget env ''CI_MERGE_REQUEST_DIFF_BASE_SHA'' of Some s \<Rightarrow> s | None \<Rightarrow> []) in
    let target_branch = (case dget env ''CI_MERGE_REQUEST_TARGET_BRANCH_NAME'' of Some s \<Rightarrow> s | None \<Rightarrow> ''main'') in
    seq (whenM (diff_base_sha \<noteq> []) ((seq (run_git h [''fetch'', ''--quiet'', ''origin'', diff_base_sha] ROOT_DIR) (
      ret ())))) (
    let diff_args = (if diff_base_sha \<noteq> [] then [diff_base_sha, ''HEAD''] else [''origin/'' @ target_branch @ ''...HEAD'']) in
    bind (run_git h ([''diff'', ''--name-only''] @ diff_args) ROOT_DIR) (\<lambda>result.
    ret (sort (remdups (List.map_filter changed_package (git_lines (stdout result)))))))))"

subsection \<open>The history of a package\<close>

definition find_last_sync_commit :: "host \<Rightarrow> string \<Rightarrow> string option prog" where
  "find_last_sync_commit h package_name = (bind (run_git_in h [''log'', ''--format=%H'', ''--grep'', ''^Sync '' @ package_name @ '' '',
      ''--grep'', ''^Import '' @ package_name @ ''-[0-9]''] ROOT_DIR False) (\<lambda>result.
    ret (if strip (stdout result) \<noteq> [] then Some (hd (split_on nl (strip (stdout result)))) else None)))"

definition is_release_only_commit :: "host \<Rightarrow> string \<Rightarrow> string \<Rightarrow> bool prog" where
  "is_release_only_commit h commit_sha package_name = (bind (run_git_in h [''show'', ''--format='', ''-b'', ''--ignore-blank-lines'', ''-I'', ''^Release:'',
      ''-I'', ''^%.*[rR]elease'', commit_sha, ''--'', ''rpms/'' @ package_name] ROOT_DIR False) (\<lambda>result.
    ret (strip (stdout result) = [])))"

definition ACCEPTED_COMMITS :: "string list" where
  \<comment> \<open>commits without the trailer that are accepted by hand\<close>
  "ACCEPTED_COMMITS =
     [''e5066a9dca178d5eeba0b1bfdacec5269314e99e'',
      ''fbd9bdab64f786daada3e54ae795936e8d822075'',
      ''1edd3cab10e1047d6374e2233ede46443776f3c9'',
      ''57730ec76cb2fb006c2d4f93550895e242309c38'',
      ''134c5f3502ca505092f7d000388821ea375a491d'',
      ''f0c23ce5ebcfd6a2b9bb0c4ff359e34059a7a724'',
      ''5c111d84c07cc9ca1e8ae714f19687f47a5d4051'',
      ''620ed1b9214113cb470f768fbb8f8e3e14a5db84'',
      ''9cdb789007c07689b1b5c74f27266819f1fa7d41'',
      ''2cf72f98ca36af5376b55db3f543fa3d434b98bd'',
      ''e2fb14572622cca265c32ec43ac40886fc0fd562'',
      ''f1c05ee76df178ca4df227e372670ee21e2828ec'',
      ''b5fb4f662c6474e14d6c6bec1c4239ab65cd572f'',
      ''4f575724f889c3e78cc12560d8991fa896f1b756'',
      ''9a82048c8aaf1f83607a5d74b3609bbbbfba21d3'',
      ''609bdcca277e9d2c0830ea8b6be39368ce78b810'',
      ''2bad62ba0ea82514ec430c7a0e4e141ca90589b8'',
      ''671a6d654e605e81b9d18e43295b925a392a8ff9'',
      ''15a348055110d0f7f136ab8959c70244d0500a7e'',
      ''93a1e70095f9a162ff8e4f08e8a6965f9c88bad5'',
      ''3ee7e596db5e6e0e85ba4132489838b736bb9683'',
      ''9f21e3a1599c908cb522361938f64440b6d59631'',
      ''ee7e5850c2e61218d5eb08c1c325dd3b342b6e5b'',
      ''ad6a072a59433f0b55c4a099529da9b3522b92df'']"

definition is_accepted :: "string \<Rightarrow> bool" where
  "is_accepted line \<longleftrightarrow> list_ex (\<lambda>s. startswith line (s @ '' '')) ACCEPTED_COMMITS"

definition git_range :: "string option \<Rightarrow> string" where
  "git_range last_sync = (case last_sync of Some (c # s) \<Rightarrow> (c # s) @ ''..HEAD'' | _ \<Rightarrow> ''HEAD'')"

definition commit_sha_of :: "string \<Rightarrow> string" where
  \<comment> \<open>\<open>line.split(' ', 1)[0]\<close>\<close>
  "commit_sha_of line = hd (split_on CHR '' '' line)"

definition commit_subject :: "string \<Rightarrow> string" where
  "commit_subject line = (case split_at_str '' '' line of Some (_, s) \<Rightarrow> s | None \<Rightarrow> ''(no subject)'')"

definition first_unexplained :: "string \<Rightarrow> (bool \<times> string) list \<Rightarrow> string option" where
  \<comment> \<open>the error for the first commit that is not release-only\<close>
  "first_unexplained package_name marked = (case filter (\<lambda>m. \<not> fst m) marked of
        [] \<Rightarrow> None
      | m # _ \<Rightarrow> Some (package_name @ '': Commit '' @ take 8 (commit_sha_of (snd m)) @ '' ('' @ [CHR 0x27] @ commit_subject (snd m) @
          [CHR 0x27] @ '') is missing '' @ [CHR 0x27] @ ''Upstream:'' @ [CHR 0x27] @
          '' trailer. Package appears to be locally modified.''))"

definition check_git_history_state :: "host \<Rightarrow> string \<Rightarrow> string option \<Rightarrow> string option prog" where
  "check_git_history_state h package_name last_sync = (bind (run_git_in h [''log'', ''--format=%H %s'', ''--invert-grep'', ''--grep=^Upstream:'', git_range last_sync,
      ''--'', ''rpms/'' @ package_name] ROOT_DIR False) (\<lambda>result.
    let bad = filter (\<lambda>l. \<not> is_accepted l) (git_lines (stdout result)) in
    bind (mapM (\<lambda>l. (bind (is_release_only_commit h (commit_sha_of l) package_name) (\<lambda>b.
      ret (b, l)))) bad) (\<lambda>marked.
    ret (first_unexplained package_name marked))))"

subsection \<open>Policy on local commits\<close>

definition added_or_renamed :: "string \<Rightarrow> bool" where
  "added_or_renamed status_out = (strip status_out \<noteq> [] \<and>
     (let status_line = hd (words (strip status_out)) in startswith status_line ''A'' \<or> startswith status_line ''R''))"

fun changelog_addition :: "bool \<Rightarrow> string list \<Rightarrow> bool" where
  \<comment> \<open>an added line behind the \<open>%changelog\<close> marker of a hunk\<close>
  "changelog_addition in_changelog [] = False"
| "changelog_addition in_changelog (line # rest) =
     (if contains line ''%changelog'' \<and> \<not> startswith line ''-'' then changelog_addition True rest
      else if in_changelog \<and> startswith line ''+'' \<and> \<not> startswith line ''+++'' then True
      else changelog_addition in_changelog rest)"

datatype float_value = NoFloat | Infinite | Fraction | Whole int \<comment> \<open>what \<open>float(s)\<close> is, as far as the check asks\<close>

definition digit_run :: "string \<Rightarrow> bool" where
  \<comment> \<open>digits with single underscores between\<close>
  "digit_run s \<longleftrightarrow> list_all (\<lambda>p. p \<noteq> [] \<and> list_all is_digit p) (split_on CHR ''_'' s)"

definition split_once :: "(char \<Rightarrow> bool) \<Rightarrow> string \<Rightarrow> string \<times> string option" where
  "split_once p s = (let a = takeWhile (\<lambda>c. \<not> p c) s; r = drop (length a) s in (a, if r = [] then None else Some (tl r)))"

definition float_of :: "string \<Rightarrow> float_value" where
  \<comment> \<open>\<open>float(s)\<close> on ASCII text, without the rounding of more digits than a double holds\<close>
  "float_of s =
     (let t = strip s; neg = startswith t ''-'';
          u = (if neg \<or> startswith t ''+'' then drop 1 t else t);
          (mantissa, ex) = split_once (\<lambda>c. c = CHR ''e'' \<or> c = CHR ''E'') u;
          (whole, frac) = split_once (\<lambda>c. c = CHR ''.'') mantissa;
          fd = (case frac of None \<Rightarrow> [] | Some f \<Rightarrow> f) in
      if lower u \<in> {''inf'', ''infinity''} then Infinite
      else if (whole = [] \<or> digit_run whole) \<and> (fd = [] \<or> digit_run fd) \<and> (whole \<noteq> [] \<or> fd \<noteq> []) \<and>
        (case ex of None \<Rightarrow> True | Some e \<Rightarrow> digit_run (if startswith e ''-'' \<or> startswith e ''+'' then drop 1 e else e)) then
        (let ds = filter is_digit (whole @ fd); n = parse_nat ds;
             e = (case ex of None \<Rightarrow> 0 | Some x \<Rightarrow> (case py_int x of Some i \<Rightarrow> i | None \<Rightarrow> 0)) - int (length (filter is_digit fd));
             v = (if 0 \<le> e then Some (n * 10 ^ nat e) else if n mod 10 ^ nat (- e) = 0 then Some (n div 10 ^ nat (- e)) else None)
         in case v of Some k \<Rightarrow> Whole (if neg then - int k else int k) | None \<Rightarrow> Fraction)
      else NoFloat)"

definition release_value :: "string \<Rightarrow> string" where
  "release_value line = strip (replace_all ''%{?dist}'' [] (strip (split_on CHR '':'' line ! 1)))"

fun whole_release :: "string list \<Rightarrow> exn + int option" where
  \<comment> \<open>the first \<open>+Release:\<close> line of a hunk with a whole number; \<open>int(inf)\<close> raises \<open>OverflowError\<close>\<close>
  "whole_release [] = Inr None"
| "whole_release (line # rest) = (if startswith line ''+Release:'' then (case float_of (release_value line) of
       Whole n \<Rightarrow> Inr (Some n)
     | Infinite \<Rightarrow> Inl (OverflowError ''cannot convert float infinity to integer'')
     | _ \<Rightarrow> whole_release rest)
   else whole_release rest)"

definition subject_of :: "host \<Rightarrow> string \<Rightarrow> string prog" where
  "subject_of h sha = (bind (run_git h [''log'', ''--format=%s'', ''-n1'', sha] ROOT_DIR) (\<lambda>r.
    ret (strip (stdout r))))"

definition check_hunk :: "host \<Rightarrow> string \<Rightarrow> string \<Rightarrow> string \<Rightarrow> string \<Rightarrow> string option prog" where
  "check_hunk h package_name spec_name sha hunk = (let ls = split_on nl hunk in
    let commit = package_name @ '': Commit '' @ take 8 sha @ '' ('' @ [CHR 0x27] in
    if contains hunk ''%changelog'' \<and> changelog_addition False ls then ((bind (subject_of h sha) (\<lambda>subject.
      ret (Some (commit @ subject @ [CHR 0x27] @ '') added to %changelog section in '' @ spec_name @
        ''. Do not add %changelog entries to avoid merge conflicts with Fedora updates.''))))) else
    bind (from_sum (if contains hunk ''Release:'' then whole_release ls else Inr None)) (\<lambda>whole.
    (case whole of
       None \<Rightarrow> ret None
     | Some n \<Rightarrow> (bind (subject_of h sha) (\<lambda>subject.
       ret (Some (commit @ subject @ [CHR 0x27] @ '') sets Release to '' @ show_int n @ '' in '' @ spec_name @
           ''. Local modifications must bump Release by 0.1 (e.g., '' @ show_int (n - 1) @
           ''.1) to avoid collisions with Fedora'' @ [CHR 0x27] @ ''s namespace.'')))))))"

fun first_some :: "('a \<Rightarrow> 'b option prog) \<Rightarrow> 'a list \<Rightarrow> 'b option prog" where
  \<comment> \<open>a loop that returns at the first finding\<close>
  "first_some f [] = ret None"
| "first_some f (x # xs) = bind (f x) (\<lambda>r. case r of Some y \<Rightarrow> ret (Some y) | None \<Rightarrow> first_some f xs)"

definition check_commit :: "host \<Rightarrow> string \<Rightarrow> string \<times> string \<Rightarrow> string option prog" where
  "check_commit h package_name x = (let spec_name = fst x in
    let sha = snd x in
    let spec_path = ''rpms/'' @ package_name @ ''/'' @ spec_name in
    bind (run_git_in h [''show'', ''--name-status'', ''--format='', sha, ''--'', spec_path] ROOT_DIR False) (\<lambda>status_result.
    if added_or_renamed (stdout status_result) then (ret None) else
    bind (run_git_in h [''show'', sha, ''--'', spec_path] ROOT_DIR False) (\<lambda>result.
    if strip (stdout result) = [] then (ret None) else
    first_some (check_hunk h package_name spec_name sha) (split_str (nl # ''@@'') (stdout result)))))"

definition check_local_modifications :: "host \<Rightarrow> string \<Rightarrow> string option \<Rightarrow> string option prog" where
  "check_local_modifications h package_name last_sync = (bind (glob (RPMS_DIR @ [package_name]) ''.spec'') (\<lambda>spec_files.
    if spec_files = [] then (ret None) else
    bind (run_git_in h [''log'', ''--format=%H'', ''--since=2026-03-05'', ''--invert-grep'', ''--grep=^Upstream:'',
      git_range last_sync, ''--'', ''rpms/'' @ package_name] ROOT_DIR False) (\<lambda>result.
    first_some (check_commit h package_name) (List.product spec_files (git_lines (stdout result))))))"

subsection \<open>One package\<close>

definition type_name :: "json \<Rightarrow> string" where
  "type_name j = (case j of JNull \<Rightarrow> ''NoneType'' | JBool _ \<Rightarrow> ''bool'' | JInt _ \<Rightarrow> ''int'' | JStr _ \<Rightarrow> ''str''
     | JList _ \<Rightarrow> ''list'' | JObj _ \<Rightarrow> ''dict'')"

definition STATUSES :: "string list" where "STATUSES = [''clean'', ''modified'', ''independent'']"

definition status_of :: "dict \<Rightarrow> string option" where
  \<comment> \<open>a valid status\<close>
  "status_of d = (case dget d ''modification_status'' of
     Some (JStr s) \<Rightarrow> if s \<in> set STATUSES then Some s else None | _ \<Rightarrow> None)"

definition show_status :: "json option \<Rightarrow> string" where
  \<comment> \<open>the value in the message, for values other than strings only their type\<close>
  "show_status v = (case v of Some (JStr s) \<Rightarrow> s | Some j \<Rightarrow> type_name j | None \<Rightarrow> [])"

definition lookaside_missing :: "'v pylib \<Rightarrow> string \<Rightarrow> bool prog" where
  \<comment> \<open>remote sources without an override that says where to fetch them\<close>
  "lookaside_missing L package_name = (let sources_file = RPMS_DIR @ [package_name, ''sources''] in
    bind (exists sources_file) (\<lambda>b.
    bind (if b then read_text sources_file else ret []) (\<lambda>text.
    if strip text = [] then (ret False) else
    bind (package_override L package_name) (\<lambda>pkg_override.
    ret (\<not> opt_truthy (dget pkg_override ''forked_from'') \<and> \<not> opt_truthy (dget pkg_override ''lookaside_cache_url''))))))"

definition check_independent :: "'v pylib \<Rightarrow> string \<Rightarrow> dict \<Rightarrow> string option prog" where
  "check_independent L package_name d =
    (if has_key d ''source'' \<or> has_key d ''branch'' \<or> has_key d ''sha''
     then ret (Some (package_name @ '': Independent package should not have source/branch/sha fields''))
     else if has_key d ''release'' then ret (Some (package_name @ '': Independent package should not have release field''))
     else (bind (lookaside_missing L package_name) (\<lambda>missing.
       ret (if missing then Some (package_name @ '': Independent package is missing forked_from (or lookaside_cache_url) in ci/package-overrides.yaml -- without one of these, the build will try to fetch sources from Fedora'' @ [CHR 0x27] @ ''s lookaside cache, where they don'' @ [CHR 0x27] @ ''t exist.'')
         else None))))"

definition check_project :: "string \<Rightarrow> string \<Rightarrow> dict \<Rightarrow> string option" where
  "check_project package_name status d =
    (if (case dget d ''release_monitoring_project_id'' of Some v \<Rightarrow> type_name v \<notin> {''int'', ''bool''} | None \<Rightarrow> False)
     then Some (package_name @ '': release_monitoring_project_id must be an integer'')
     else if status = ''modified'' \<and> \<not> opt_truthy (dget d ''modification_reason'')
     then Some (package_name @ '': Marked as modified but missing modification_reason'')
     else None)"

definition check_fields :: "string \<Rightarrow> string \<Rightarrow> dict \<Rightarrow> string option" where
  \<comment> \<open>the checks 4 to 5 on the metadata; a Boolean is an \<open>int\<close> in Python\<close>
  "check_fields package_name status d =
    (case dget d ''track_upstream'' of
       Some v \<Rightarrow> if type_name v \<noteq> ''str'' then Some (package_name @ '': track_upstream must be a string, got '' @ type_name v)
         else check_project package_name status d
     | None \<Rightarrow> check_project package_name status d)"

definition compare_history :: "string \<Rightarrow> string \<Rightarrow> string option \<Rightarrow> string option" where
  \<comment> \<open>the status against the error of the history\<close>
  "compare_history package_name status history_error =
    (if status = ''clean'' \<and> history_error \<noteq> None then history_error
     else if status = ''modified'' \<and> history_error = None then Some (package_name @
       '': Marked as modified but git history shows only standard Import/Update/Sync commits. Consider marking as clean.'')
     else None)"

definition check_actual :: "host \<Rightarrow> string \<Rightarrow> string \<Rightarrow> dict \<Rightarrow> string option prog" where
  "check_actual h package_name status d = with_tmpdir ''validate'' (\<lambda>tmpdir. (let upstream_dir = tmpdir @ [''upstream''] in
    bind (from_sum (str_item d ''source'')) (\<lambda>source.
    bind (from_sum (str_item d ''branch'')) (\<lambda>branch.
    seq (run_git h [''clone'', ''--quiet'', ''--branch'', branch, ''--single-branch'', source, path_str upstream_dir] ROOT_DIR) (
    bind (is_package_unmodified h package_name d upstream_dir) (\<lambda>unmodified.
    ret (if status = ''clean'' \<and> \<not> unmodified then Some (package_name @ '': Marked as clean but package has modifications'')
      else if status = ''modified'' \<and> unmodified then Some (package_name @ '': Marked as modified but package is actually clean'')
      else None)))))))"

definition check_tracked :: "host \<Rightarrow> bool \<Rightarrow> string \<Rightarrow> string \<Rightarrow> dict \<Rightarrow> string option prog" where
  \<comment> \<open>the checks 3.5 to 7, for packages that are not independent\<close>
  "check_tracked h check_actual_state package_name status d = (if \<not> has_key d ''source'' \<and> has_key d ''release'' then (ret (Some (package_name @ '': Package without Fedora source should not have release field''))) else
    bind (find_last_sync_commit h package_name) (\<lambda>last_sync.
    bind (check_local_modifications h package_name last_sync) (\<lambda>policy.
    if policy \<noteq> None then (ret policy) else
    if check_fields package_name status d \<noteq> None then (ret (check_fields package_name status d)) else
    (if check_actual_state then check_actual h package_name status d
     else (bind (check_git_history_state h package_name last_sync) (\<lambda>history_error.
       ret (compare_history package_name status history_error)))))))"

definition validate_package :: "host \<Rightarrow> 'v pylib \<Rightarrow> bool \<Rightarrow> string \<Rightarrow> string option prog" where
  "validate_package h L check_actual_state package_name = (bind (exists (metadata_file package_name)) (\<lambda>b.
    if \<not> b then (ret (Some (package_name @ '': Missing metadata file''))) else
    bind (exists (RPMS_DIR @ [package_name])) (\<lambda>b.
    if \<not> b then (ret (Some (package_name @ '': Missing package directory''))) else
    bind (json_load (metadata_file package_name)) (\<lambda>j.
    bind (from_sum (as_dict j)) (\<lambda>d.
    if \<not> has_key d ''modification_status'' then (ret (Some (package_name @ '': Missing modification_status field''))) else
    (case status_of d of
       None \<Rightarrow> ret (Some (package_name @ '': Invalid modification_status '' @ [CHR 0x27] @ show_status (dget d ''modification_status'') @ [CHR 0x27]))
     | Some status \<Rightarrow> (if status = ''independent'' then check_independent L package_name d
         else check_tracked h check_actual_state package_name status d)))))))"

subsection \<open>Many packages\<close>

definition find_packages_without_metadata :: "string list prog" where
  "find_packages_without_metadata = (bind (iterdir RPMS_DIR) (\<lambda>names.
    bind (mapM (\<lambda>n. (bind (is_dir (RPMS_DIR @ [n])) (\<lambda>b.
      ret (b, n)))) names) (\<lambda>dirs.
    bind (glob METADATA_DIR ''.json'') (\<lambda>files.
    ret (sort (remdups (filter (\<lambda>p. p \<notin> set (map stem files)) (map snd (filter fst dirs)))))))))"

definition outcome :: "'a prog \<Rightarrow> (exn + 'a) prog" where
  \<comment> \<open>what a future holds: the result or the exception\<close>
  "outcome m = (\<lambda>w. case m w of (r, w') \<Rightarrow> (Inr r, w'))"

fun collect_errors :: "(exn + string option) list \<Rightarrow> exn + string list" where
  \<comment> \<open>\<open>future.result()\<close> of each completed validation: the first exception is raised\<close>
  "collect_errors [] = Inr []"
| "collect_errors (Inl e # rs) = Inl e"
| "collect_errors (Inr None # rs) = collect_errors rs"
| "collect_errors (Inr (Some err) # rs) = map_sum id (Cons err) (collect_errors rs)"

definition bar :: string where "bar = replicate 60 CHR ''=''"

definition failure_report :: "string list \<Rightarrow> nat \<Rightarrow> string list" where
  "failure_report errors n = [nl # bar, ''VALIDATION FAILED'', bar] @ map (\<lambda>e. ''ERROR: '' @ e) errors @
     [nl # bar, ''Total errors: '' @ show_nat (length errors) @ ''/'' @ show_nat n, bar]"

definition validate_packages :: "host \<Rightarrow> 'v pylib \<Rightarrow> ((exn + string option) list \<Rightarrow> (exn + string option) list) \<Rightarrow>
    bool \<Rightarrow> string list \<Rightarrow> int prog" where
  "validate_packages h L completed check_actual_state packages = (seq (whenM (\<not> check_actual_state) ((bind (run_git_in h [''rev-parse'', ''--is-shallow-repository''] ROOT_DIR False) (\<lambda>result.
      whenM (strip (stdout result) = ''true'') (raise (SysExit 1 [])))))) (
    bind (mapM (\<lambda>p. outcome (validate_package h L check_actual_state p)) packages) (\<lambda>rs.
    bind (from_sum (collect_errors (completed rs))) (\<lambda>errors.
    (if errors \<noteq> [] then (seq (forM (\<lambda>l. emit (Print l)) (failure_report errors (length packages))) (
      ret 1))
     else (seq (emit (Print (nl # ''Validation passed for all '' @ show_nat (length packages) @ '' package(s)''))) (
       ret 0)))))))"

record validate_args =
  va_packages :: "string list"
  va_mr :: bool
  va_all :: bool
  va_thorough :: bool

definition validation_targets :: "host \<Rightarrow> validate_args \<Rightarrow> (int + string list) prog" where
  \<comment> \<open>the packages to validate, or the exit status\<close>
  "validation_targets h args =
    (if va_mr args then (bind (get_changed_packages_in_mr h) (\<lambda>packages.
      (if packages = [] then (seq (emit (Print ''No packages changed in MR'')) (
        ret (Inl 0)))
        else (seq (emit (Print (''Validating '' @ show_nat (length packages) @ '' package(s) changed in MR:''))) (
          seq (forM (\<lambda>p. emit (Print (''  - '' @ p))) packages) (
          ret (Inr packages)))))))
     else if va_all args then (bind find_packages_without_metadata (\<lambda>missing.
       (if missing \<noteq> [] then (seq (emit (Print (nl # ''ERROR: Found '' @ show_nat (length missing) @ '' package(s) without metadata files:''))) (
         seq (forM (\<lambda>p. emit (Print (''  - '' @ p))) missing) (
         ret (Inl 1))))
        else (bind (glob METADATA_DIR ''.json'') (\<lambda>files.
          seq (emit (Print (''Validating all '' @ show_nat (length files) @ '' packages...''))) (
          ret (Inr (sort (map stem files)))))))))
     else if va_packages args \<noteq> [] then (seq (emit (Print (''Validating '' @ show_nat (length (va_packages args)) @ '' specified package(s)...''))) (
       ret (Inr (va_packages args))))
     else raise (SysExit 2 ''Must specify --mr, --all, or package names''))"

definition validate_main :: "host \<Rightarrow> 'v pylib \<Rightarrow> ((exn + string option) list \<Rightarrow> (exn + string option) list) \<Rightarrow>
    validate_args \<Rightarrow> int prog" where
  "validate_main h L completed args = (bind (validation_targets h args) (\<lambda>targets.
    (case targets of
       Inl status \<Rightarrow> ret status
     | Inr packages \<Rightarrow> (seq (emit (Print (if va_thorough args then ''Note: Checking actual package state (this may take a while)...''
           else ''Note: Skipping actual state verification (fast mode)''))) (
       validate_packages h L completed (va_thorough args) packages)))))"

subsection \<open>What a passed validation means\<close>

definition field_types :: "string \<Rightarrow> dict \<Rightarrow> bool" where
  \<comment> \<open>the shape of a valid metadata document of the given status\<close>
  "field_types s d \<longleftrightarrow> s \<in> set STATUSES \<and>
     (if s = ''independent'' then dget d ''source'' = None \<and> dget d ''branch'' = None \<and> dget d ''sha'' = None \<and> dget d ''release'' = None
      else (has_key d ''release'' \<longrightarrow> has_key d ''source'') \<and>
        (case dget d ''track_upstream'' of None \<Rightarrow> True | Some v \<Rightarrow> \<exists>t. v = JStr t) \<and>
        (case dget d ''release_monitoring_project_id'' of None \<Rightarrow> True | Some v \<Rightarrow> (\<exists>i. v = JInt i) \<or> (\<exists>b. v = JBool b)) \<and>
        (s = ''modified'' \<longrightarrow> opt_truthy (dget d ''modification_reason'')))"

text \<open>
  The fast validation only reads: git answers from the history as it is, whatever was asked before, and leaves the checkout alone. Such a
  host is a function \<open>g\<close> from questions to answers; what a package's history is then is a value.
\<close>

definition reader :: "(event \<Rightarrow> reply) \<Rightarrow> host" where
  "reader g = (\<lambda>_ ev f. (g ev, f))"

definition git_answer :: "(event \<Rightarrow> reply) \<Rightarrow> string list \<Rightarrow> string option" where
  \<comment> \<open>the standard output of a git command\<close>
  "git_answer g args = (case completed_of (''git'' # args) False (g (Proc (''git'' # args) ROOT_DIR)) of Inr r \<Rightarrow> Some (stdout r) | Inl _ \<Rightarrow> None)"

definition last_sync_of :: "(event \<Rightarrow> reply) \<Rightarrow> string \<Rightarrow> string option option" where
  "last_sync_of g p = map_option (\<lambda>out. if strip out \<noteq> [] then Some (hd (split_on nl (strip out))) else None)
     (git_answer g [''log'', ''--format=%H'', ''--grep'', ''^Sync '' @ p @ '' '', ''--grep'', ''^Import '' @ p @ ''-[0-9]''])"

definition local_commits :: "(event \<Rightarrow> reply) \<Rightarrow> string \<Rightarrow> string list option" where
  \<comment> \<open>the commits without the trailer since the last sync\<close>
  "local_commits g p = Option.bind (last_sync_of g p) (\<lambda>sync. map_option git_lines
     (git_answer g [''log'', ''--format=%H %s'', ''--invert-grep'', ''--grep=^Upstream:'', git_range sync, ''--'', ''rpms/'' @ p]))"

definition unexplained :: "(event \<Rightarrow> reply) \<Rightarrow> string \<Rightarrow> string \<Rightarrow> bool" where
  \<comment> \<open>the commit is not accepted by hand and changes more than a release\<close>
  "unexplained g p l \<longleftrightarrow> \<not> is_accepted l \<and> (case git_answer g [''show'', ''--format='', ''-b'', ''--ignore-blank-lines'', ''-I'', ''^Release:'',
     ''-I'', ''^%.*[rR]elease'', commit_sha_of l, ''--'', ''rpms/'' @ p] of Some out \<Rightarrow> strip out \<noteq> [] | None \<Rightarrow> True)"

definition history_agrees :: "(event \<Rightarrow> reply) \<Rightarrow> string \<Rightarrow> string \<Rightarrow> bool" where
  \<comment> \<open>clean: no local commit is unexplained; modified: some is\<close>
  "history_agrees g p s \<longleftrightarrow> s = ''independent'' \<or> (\<exists>ls. local_commits g p = Some ls \<and>
     (s = ''clean'' \<longrightarrow> (\<forall>l \<in> set ls. \<not> unexplained g p l)) \<and> (s = ''modified'' \<longrightarrow> (\<exists>l \<in> set ls. unexplained g p l)))"

definition well_marked :: "(event \<Rightarrow> reply) \<Rightarrow> fs \<Rightarrow> string \<Rightarrow> bool" where
  "well_marked g f p \<longleftrightarrow> (\<exists>d s. map_of f (metadata_file p) = Some (JsonN (JObj d)) \<and> fs_exists f (RPMS_DIR @ [p]) \<and>
     dget d ''modification_status'' = Some (JStr s) \<and> field_types s d \<and> history_agrees g p s)"

lemma run_git_reader:
  assumes "run_git_in (reader g) (a # args) ROOT_DIR False w = (Inr r, w')" "a \<notin> set network_ops"
  shows "git_answer g (a # args) = Some (stdout r) \<and> files w' = files w"
  using assms by (auto simp: run_git_in_def run_proc_def reader_def git_answer_def prog_inr ask_host_run eval_nat_numeral split: if_splits)

lemma reader_keeps [prog_rules]: "keeps (\<lambda>w. files w = f) (run_git_in (reader g) args ROOT_DIR b)"
proof -
  have run: "keeps (\<lambda>w. files w = f) (run_proc (reader g) argv ROOT_DIR b)" for argv
    unfolding run_proc_def by (intro prog_rules) (simp add: keeps_def ask_host_def reader_def)
  have "keeps (\<lambda>w. files w = f) (git_attempts (reader g) args ROOT_DIR b n d)" for n d
    by (induction n arbitrary: d) (auto intro!: prog_rules run keeps_modify simp: sleep_def emit_def)
  then show ?thesis by (simp add: run_git_in_def Let_def)
qed

lemma status_of_Some: "status_of d = Some s \<Longrightarrow> dget d ''modification_status'' = Some (JStr s) \<and> s \<in> set STATUSES"
  by (auto simp: status_of_def split: option.splits json.splits if_splits)

lemma type_name_str: "type_name v = ''str'' \<longleftrightarrow> (\<exists>t. v = JStr t)" and
  type_name_int: "type_name v = ''int'' \<longleftrightarrow> (\<exists>i. v = JInt i)" and type_name_bool: "type_name v = ''bool'' \<longleftrightarrow> (\<exists>b. v = JBool b)"
  by (cases v; simp add: type_name_def)+

lemma check_fields_None:
  assumes "check_fields p s d = None" "s \<in> set STATUSES" "s \<noteq> ''independent''" "has_key d ''source'' \<or> \<not> has_key d ''release''"
  shows "field_types s d"
proof -
  have "check_project p s d = None" using assms(1) by (auto simp: check_fields_def split: option.splits if_splits)
  with assms show ?thesis
    by (auto simp: check_fields_def check_project_def field_types_def type_name_str type_name_int type_name_bool
        split: option.splits if_splits)
qed

lemma marked_Inr:
  "mapM (\<lambda>l. bind (is_release_only_commit (reader g) (commit_sha_of l) p) (\<lambda>b. ret (b, l))) ls w = (Inr marked, w') \<Longrightarrow>
     map snd marked = ls \<and> (\<forall>(b, l) \<in> set marked. \<not> is_accepted l \<longrightarrow> unexplained g p l = (\<not> b))"
proof (induction ls arbitrary: w marked)
  case (Cons l ls)
  from Cons.prems obtain b w1 marked1 where m: "is_release_only_commit (reader g) (commit_sha_of l) p w = (Inr b, w1)"
    "mapM (\<lambda>l. bind (is_release_only_commit (reader g) (commit_sha_of l) p) (\<lambda>b. ret (b, l))) ls w1 = (Inr marked1, w')" "marked = (b, l) # marked1"
    by (auto simp: prog_inr)
  have "\<not> is_accepted l \<Longrightarrow> unexplained g p l = (\<not> b)"
    using m(1) by (auto simp: is_release_only_commit_def prog_inr unexplained_def network_ops_def dest!: run_git_reader)
  with Cons.IH[OF m(2)] m(3) show ?case by auto
qed (simp add: ret_def)

lemma first_unexplained_None: "first_unexplained p marked = None \<longleftrightarrow> filter (\<lambda>m. \<not> fst m) marked = []"
  by (simp add: first_unexplained_def split: list.splits)

lemma history_state:
  assumes "check_git_history_state (reader g) p sync w = (Inr r, w')" "last_sync_of g p = Some sync"
  shows "\<exists>ls. local_commits g p = Some ls \<and> (r = None \<longleftrightarrow> (\<forall>l \<in> set ls. \<not> unexplained g p l))"
proof -
  from assms(1) obtain res w1 marked where
    log: "run_git_in (reader g) [''log'', ''--format=%H %s'', ''--invert-grep'', ''--grep=^Upstream:'', git_range sync,
      ''--'', ''rpms/'' @ p] ROOT_DIR False w = (Inr res, w1)"
    and m: "mapM (\<lambda>l. bind (is_release_only_commit (reader g) (commit_sha_of l) p) (\<lambda>b. ret (b, l)))
      (filter (\<lambda>l. \<not> is_accepted l) (git_lines (stdout res))) w1 = (Inr marked, w')"
    and first: "r = first_unexplained p marked"
    unfolding check_git_history_state_def Let_def prog_inr by blast
  have sel: "map snd marked = filter (\<lambda>l. \<not> is_accepted l) (git_lines (stdout res))"
    and ans: "\<And>b l. (b, l) \<in> set marked \<Longrightarrow> \<not> is_accepted l \<Longrightarrow> unexplained g p l = (\<not> b)"
    using marked_Inr[OF m] by blast+
  have mem: "(\<exists>b. (b, l) \<in> set marked) \<longleftrightarrow> l \<in> set (git_lines (stdout res)) \<and> \<not> is_accepted l" for l
  proof -
    have "l \<in> set (map snd marked) \<longleftrightarrow> (\<exists>b. (b, l) \<in> set marked)" by force
    then show ?thesis unfolding sel by auto
  qed
  have "r = None \<longleftrightarrow> (\<forall>(b, l) \<in> set marked. b)" using first_unexplained_None[of p marked, folded first] by (auto simp: filter_empty_conv)
  also have "\<dots> \<longleftrightarrow> (\<forall>l \<in> set (git_lines (stdout res)). \<not> unexplained g p l)"
  proof
    assume all: "\<forall>(b, l) \<in> set marked. b"
    show "\<forall>l \<in> set (git_lines (stdout res)). \<not> unexplained g p l"
    proof
      fix l assume l: "l \<in> set (git_lines (stdout res))"
      show "\<not> unexplained g p l"
      proof (cases "is_accepted l")
        case False
        with mem l obtain b where "(b, l) \<in> set marked" by blast
        with ans False all show ?thesis by blast
      qed (simp add: unexplained_def)
    qed
  next
    assume all: "\<forall>l \<in> set (git_lines (stdout res)). \<not> unexplained g p l"
    show "\<forall>(b, l) \<in> set marked. b" using mem ans all by blast
  qed
  finally show ?thesis using run_git_reader[OF log] assms(2) by (auto simp: local_commits_def network_ops_def)
qed

lemma json_load_Inr: "json_load q w = (Inr j, w') \<longleftrightarrow> w' = w \<and> map_of (files w) q = Some (JsonN j)"
  by (auto simp: json_load_def split: option.splits node.splits)

lemma as_dict_Inr: "as_dict j = Inr d \<longleftrightarrow> j = JObj d"
  by (cases j) (auto simp: as_dict_def)

lemma last_sync_Inr: "find_last_sync_commit (reader g) p w = (Inr sync, w') \<Longrightarrow> last_sync_of g p = Some sync"
  by (auto simp: find_last_sync_commit_def prog_inr last_sync_of_def network_ops_def dest!: run_git_reader)

lemma validated:
  assumes "validate_package (reader g) L False p w = (Inr None, w')"
  shows "well_marked g (files w) p"
proof -
  from assms obtain d s where d: "fs_exists (files w) (RPMS_DIR @ [p])" "map_of (files w) (metadata_file p) = Some (JsonN (JObj d))"
    "status_of d = Some s" "(if s = ''independent'' then check_independent L p d else check_tracked (reader g) False p s d) w = (Inr None, w')"
    by (auto simp: validate_package_def prog_inr json_load_Inr as_dict_Inr option_Inr split: if_splits)
  note st = status_of_Some[OF d(3)]
  have "field_types s d \<and> history_agrees g p s"
  proof (cases "s = ''independent''")
    case True
    with d(4) st show ?thesis
      by (auto simp: check_independent_def field_types_def history_agrees_def prog_inr split: if_splits option.splits)
  next
    case False
    with d(4) obtain sync w0 w1 w2 r where f: "has_key d ''source'' \<or> \<not> has_key d ''release''" "check_fields p s d = None"
      and sync: "find_last_sync_commit (reader g) p w = (Inr sync, w0)"
      and hist: "check_git_history_state (reader g) p sync w1 = (Inr r, w2)" and cmp: "compare_history p s r = None"
      by (auto simp: check_tracked_def prog_inr split: if_splits)
    have "history_agrees g p s"
      using history_state[OF hist last_sync_Inr[OF sync]] cmp unfolding history_agrees_def compare_history_def by (cases "r = None") auto
    with check_fields_None[OF f(2) _ False f(1)] st show ?thesis by blast
  qed
  with d st show ?thesis unfolding well_marked_def by blast
qed

lemma local_modifications_keep: "keeps (\<lambda>w. files w = f) (check_local_modifications (reader g) p sync)"
proof -
  have first: "keeps I (first_some m xs)" if "\<And>x. keeps I (m x)" for I and m :: "'b \<Rightarrow> 'c option prog" and xs
    using that by (induction xs) (auto intro!: prog_rules split: option.splits)
  show ?thesis unfolding check_local_modifications_def check_commit_def check_hunk_def subject_of_def Let_def
    by (intro prog_rules first | simp split: option.split)+
qed

lemma validate_keeps: "keeps (\<lambda>w. files w = f) (validate_package (reader g) L False p)"
  unfolding validate_package_def check_tracked_def check_independent_def lookaside_missing_def package_override_def find_last_sync_commit_def
    check_git_history_state_def is_release_only_commit_def Let_def
  by (intro prog_rules local_modifications_keep | simp split: option.split)+

lemma collect_errors_Nil: "collect_errors rs = Inr [] \<longleftrightarrow> set rs \<subseteq> {Inr None}"
proof (induction rs)
  case (Cons r rs)
  then show ?case by (cases r; cases "projr r"; cases "collect_errors rs") auto
qed simp

lemma outcomes:
  "mapM (\<lambda>p. outcome (f p)) ps w = (Inr rs, w') \<Longrightarrow> set rs \<subseteq> {Inr None} \<Longrightarrow> (\<And>p. keeps (\<lambda>w. files w = fl) (f p)) \<Longrightarrow> files w = fl \<Longrightarrow>
    \<forall>p \<in> set ps. \<exists>w1 w2. f p w1 = (Inr None, w2) \<and> files w1 = fl"
proof (induction ps arbitrary: w rs)
  case (Cons p ps)
  obtain r w1 where f: "f p w = (r, w1)" by fastforce
  with Cons.prems(1) obtain rs1 where rs: "rs = r # rs1" "mapM (\<lambda>p. outcome (f p)) ps w1 = (Inr rs1, w')"
    by (auto simp: prog_inr outcome_def)
  with Cons.prems(2) have "r = Inr None" "set rs1 \<subseteq> {Inr None}" by auto
  moreover have "files w1 = fl" using keepsD[OF Cons.prems(3) f Cons.prems(4)] .
  ultimately show ?case using f Cons.prems(4) Cons.IH[OF rs(2) _ Cons.prems(3)] by auto
qed simp

text \<open>C6: When the fast validation of packages ends with status 0 on a checkout whose git only reads, each of the packages is well marked
  in that checkout: its metadata is a document with a valid status whose fields have the types and presence the status asks for, a clean
  package has no unexplained commit since its last sync, and a modified one has some; in whatever order the validations complete.\<close>

theorem validation_passed:
  assumes "\<And>rs. mset (completed rs) = mset rs"
    and "validate_packages (reader g) L completed False packages w = (Inr 0, w')"
  shows "list_all (well_marked g (files w)) packages"
proof -
  from assms(2) obtain rs w0 w1 w2 where shallow: "run_git_in (reader g) [''rev-parse'', ''--is-shallow-repository''] ROOT_DIR False w = (Inr w0, w1)"
    and rs: "mapM (\<lambda>p. outcome (validate_package (reader g) L False p)) packages w1 = (Inr rs, w2)" "collect_errors (completed rs) = Inr []"
    by (auto simp: validate_packages_def prog_inr split: if_splits)
  have files: "files w1 = files w" using run_git_reader[OF shallow] by (simp add: network_ops_def)
  from rs(2) have "set (completed rs) \<subseteq> {Inr None}" by (simp only: collect_errors_Nil)
  moreover have "set (completed rs) = set rs" using assms(1) by (metis set_mset_mset)
  ultimately have "set rs \<subseteq> {Inr None}" by simp
  from outcomes[OF rs(1) this validate_keeps files] validated show ?thesis by (fastforce simp: list_all_iff)
qed

definition two_histories :: "event \<Rightarrow> reply" where
  \<comment> \<open>package \<open>a\<close> has only a release bump since its sync, package \<open>b\<close> a commit of its own\<close>
  "two_histories ev = (case ev of
     Proc argv cwd \<Rightarrow>
       (if ''--format=%H %s'' \<in> set argv then Exit 0 (if last argv = ''rpms/a'' then ''c1 Bump'' else ''c2 Patch it'') []
        else if ''-I'' \<in> set argv then Exit 0 (if ''c1'' \<in> set argv then [] else ''+Patch1: x.patch'') []
        else Exit 0 [] [])
   | _ \<Rightarrow> NoProgram)"

definition two_marked :: world where
  "two_marked = blank\<lparr>files := [([''rpms'', ''a''], DirN), ([''rpms'', ''b''], DirN),
     ([''metadata'', ''a.json''], JsonN (JObj [(''source'', JStr ''u''), (''modification_status'', JStr ''clean''), (''track_upstream'', JStr ''1'')])),
     ([''metadata'', ''b.json''], JsonN (JObj [(''source'', JStr ''u''), (''modification_status'', JStr ''modified''),
        (''modification_reason'', JStr ''backport'')]))]\<rparr>"

theorem validation_passed_witness:
  "fst (validate_packages (reader two_histories) (yaml_of JNull) rev False [''a'', ''b''] two_marked) = Inr 0 \<and>
   list_all (well_marked two_histories (files two_marked)) [''a'', ''b'']"
proof -
  let ?r = "validate_packages (reader two_histories) (yaml_of JNull) rev False [''a'', ''b''] two_marked"
  have ok: "fst ?r = Inr 0" by code_simp
  then have run: "?r = (Inr 0, snd ?r)" by (metis prod.collapse)
  have "mset (rev rs) = mset rs" for rs :: "(exn + string option) list" by simp
  from validation_passed[OF this run] ok show ?thesis by blast
qed

end
