(* ===== verification/Resources.thy ===== *)
theory Resources
  imports Private_Product Package_Metadata
begin

section \<open>Generated pipeline and release resources\<close>

text \<open>
  \<open>ci/generate_resources.py\<close>: the package list, the variables of the Pipeline-as-Code, Konflux and
  ReleasePlanAdmission templates, and the files written from them. Jinja2 is the parameter
  \<open>render\<close>, a function of the files, the template directory, the template text and the variables;
  progress messages on standard error are not recorded.
\<close>

type_synonym renderer = "fs \<Rightarrow> path \<Rightarrow> string \<Rightarrow> dict \<Rightarrow> exn + string"

definition BUILD_TRIGGER_RPM_NAME :: string where "BUILD_TRIGGER_RPM_NAME = ''setup''"

definition RPMBUILD_PIPELINE_TASK_NAMES :: "string list" where
  "RPMBUILD_PIPELINE_TASK_NAMES = [''rpmbuild-x86-64'', ''rpmbuild-aarch64'']"

definition PIPELINE_BUNDLE :: string where
  "PIPELINE_BUNDLE = ''quay.io/hummingbird-ci/rpmbuild-pipeline:latest@sha256:356d14ae179590728498782dd0e829b5e746afc28690ef95ee6993b320fe3a9c''"

fun mapS :: "('a \<Rightarrow> exn + 'b) \<Rightarrow> 'a list \<Rightarrow> exn + 'b list" where
  "mapS f [] = Inr []"
| "mapS f (x # xs) = (case f x of Inl e \<Rightarrow> Inl e | Inr y \<Rightarrow> map_sum id (Cons y) (mapS f xs))"

definition expand_spec :: "json \<Rightarrow> exn + json list" where
  \<comment> \<open>\<open>rpmbuild\<close> stands for the task of every architecture\<close>
  "expand_spec spec = map_sum id (\<lambda>d. if dget d ''pipelineTaskName'' = Some (JStr ''rpmbuild'')
     then map (\<lambda>t. JObj (dset ''pipelineTaskName'' (JStr t) d)) RPMBUILD_PIPELINE_TASK_NAMES else [JObj d]) (as_dict spec)"

definition expand_task_run_specs :: "json \<Rightarrow> exn + json" where
  "expand_task_run_specs specs = (case as_list specs of
     Inl e \<Rightarrow> Inl e | Inr xs \<Rightarrow> map_sum id (\<lambda>ys. JList (concat ys)) (mapS expand_spec xs))"

definition load_yaml_file :: "'v pylib \<Rightarrow> path \<Rightarrow> json prog" where
  \<comment> \<open>\<open>None\<close> when the file is missing; a JSON document is a YAML document\<close>
  "load_yaml_file L p = (\<lambda>w. case map_of (files w) p of
      None \<Rightarrow> (Inr JNull, w)
    | Some (FileN s) \<Rightarrow> (yaml_load L s, w)
    | Some (JsonN j) \<Rightarrow> (Inr j, w)
    | Some (BinN _) \<Rightarrow> (Inl UnicodeDecodeError, w)
    | Some DirN \<Rightarrow> (Inl (OSError (path_str p)), w))"

definition load_yaml_dict :: "'v pylib \<Rightarrow> path \<Rightarrow> dict prog" where
  \<comment> \<open>\<open>load_yaml_file(p) or {}\<close>\<close>
  "load_yaml_dict L p = (bind (load_yaml_file L p) (\<lambda>j.
    from_sum (or_empty (Some j))))"

definition listed_packages :: "'v pylib \<Rightarrow> string list prog" where
  \<comment> \<open>\<open>get_all_packages\<close>: the manifest and the directories under \<open>rpms/\<close>\<close>
  "listed_packages L = (bind (load_yaml_dict L (ROOT_DIR @ [''target-packages.yml''])) (\<lambda>manifest.
    bind (from_sum (case dget manifest ''packages'' of None \<Rightarrow> Inr []
      | Some v \<Rightarrow> (case as_list v of Inl e \<Rightarrow> Inl e | Inr xs \<Rightarrow> mapS as_str xs))) (\<lambda>named.
    bind (iterdir RPMS_DIR) (\<lambda>names.
    bind (gets (\<lambda>w. filter (\<lambda>n. fs_is_dir (files w) (RPMS_DIR @ [n])) names)) (\<lambda>dirs.
    ret (sort (remdups (named @ dirs))))))))"

definition sanitize_component_name :: "string \<Rightarrow> string" where
  "sanitize_component_name name = lower (replace_all ''.'' ''-'' (replace_all ''+'' ''-'' (replace_all ''_'' ''-'' name)))"

definition override_of :: "dict \<Rightarrow> string \<Rightarrow> exn + dict" where
  \<comment> \<open>\<open>package_overrides.get(pkg, {})\<close>, used as a dictionary\<close>
  "override_of overrides pkg = (case dget overrides pkg of None \<Rightarrow> Inr [] | Some j \<Rightarrow> as_dict j)"

definition copy_key :: "dict \<Rightarrow> string \<Rightarrow> dict \<Rightarrow> dict" where
  "copy_key source key into = (case dget source key of Some v \<Rightarrow> dset key v into | None \<Rightarrow> into)"

definition private_application :: "string \<Rightarrow> dict \<Rightarrow> dict \<Rightarrow> exn + dict" where
  \<comment> \<open>the application of a package with a (non-empty) private product\<close>
  "private_application branch config data = (case opt_str (dget config ''private_product'') of
     Inl e \<Rightarrow> Inl e
   | Inr None \<Rightarrow> Inr data
   | Inr (Some product) \<Rightarrow> Inr (dset ''application_name'' (JStr (''private-'' @ product @ ''-rpms-'' @ branch)) data))"

subsection \<open>Pipelines as Code\<close>

definition upstream_package_name :: "string \<Rightarrow> dict \<Rightarrow> json \<Rightarrow> exn + string" where
  \<comment> \<open>the name of the source package: the directory for independent and Hummingbird packages, else from the URL\<close>
  "upstream_package_name dname config metadata = (case str_get config ''forked_from'' [] of
     Inl e \<Rightarrow> Inl e
   | Inr forked_from \<Rightarrow> (case or_empty (Some metadata) of
       Inl e \<Rightarrow> Inl e
     | Inr m \<Rightarrow> (if dget m ''modification_status'' = Some (JStr ''independent'') then Inr dname
         else if contains forked_from ''hummingbird'' then Inr dname
         else (case dget m ''source'' of None \<Rightarrow> Inr dname | Some s \<Rightarrow> map_sum id (stem \<circ> last_component) (as_str s)))))"

definition extra_params :: "string \<Rightarrow> dict \<Rightarrow> exn + dict" where
  "extra_params resource_type config =
     (case (case dget config ''extra_params'' of None \<Rightarrow> Inr [] | Some j \<Rightarrow> as_dict j) of
        Inl e \<Rightarrow> Inl e
      | Inr extra \<Rightarrow> (let params = foldl (\<lambda>d (k, v). dset k v d) [(''purl-rpm-namespace'', JStr ''redhat'')] extra in
          Inr (if resource_type = ''pull-request'' then dset ''image-expires-after'' (JStr ''5d'') params else params)))"

definition extra_path_changes :: "string \<Rightarrow> string \<Rightarrow> bool \<Rightarrow> string list" where
  "extra_path_changes resource_type dname has_test =
     (if has_test then [''test/rpms/'' @ dname @ ''.yml''] else []) @
     (if dname = BUILD_TRIGGER_RPM_NAME \<and> resource_type = ''pull-request'' then [''ci/***'', ''mock/***''] else [])"

definition imported_data :: "string \<Rightarrow> string \<Rightarrow> string \<Rightarrow> dict \<Rightarrow> json \<Rightarrow> bool \<Rightarrow> dict \<Rightarrow> exn + dict" where
  \<comment> \<open>the entries of an imported package, from its override, its metadata and its test file\<close>
  "imported_data branch resource_type dname config metadata has_test data =
    (case (upstream_package_name dname config metadata, extra_params resource_type config) of
       (Inl e, _) \<Rightarrow> Inl e
     | (_, Inl e) \<Rightarrow> Inl e
     | (Inr name, Inr params) \<Rightarrow>
        (let data = copy_key config ''timeout_hours'' (dset ''package_name'' (JStr name) data);
             data = dset ''build_platforms'' (case dget config ''build_platforms'' of Some v \<Rightarrow> v
               | None \<Rightarrow> JList [JStr ''linux/x86_64'', JStr ''linux/arm64'']) data in
         case (case dget config ''task_run_specs'' of None \<Rightarrow> Inr data
               | Some specs \<Rightarrow> map_sum id (\<lambda>v. dset ''task_run_specs'' v data) (expand_task_run_specs specs)) of
           Inl e \<Rightarrow> Inl e
         | Inr data \<Rightarrow> (case private_application branch config (copy_key config ''forked_from'' data) of
             Inl e \<Rightarrow> Inl e
           | Inr data \<Rightarrow>
              (let data = copy_key config ''lookaside_cache_url'' (dset ''extra_params'' (JObj params) data);
                   paths = extra_path_changes resource_type dname has_test in
               Inr (if paths \<noteq> [] then dset ''extra_path_changes'' (JList (map JStr paths)) data else data)))))"

definition pac_rpm :: "'v pylib \<Rightarrow> string \<Rightarrow> string \<Rightarrow> dict \<Rightarrow> string \<Rightarrow> json prog" where
  "pac_rpm L branch resource_type overrides dname = (bind (is_dir (RPMS_DIR @ [dname])) (\<lambda>is_imported.
    let data = [(''name'', JStr (sanitize_component_name dname @ ''-'' @ branch)), (''dname'', JStr dname),
      (''imported'', JBool is_imported), (''timeout_hours'', JInt 4)] in
    if \<not> is_imported then (ret (JObj data)) else
    bind (glob (RPMS_DIR @ [dname]) ''.spec'') (\<lambda>spec_files.
    let data = dset ''specfile'' (JStr (case spec_files of s # _ \<Rightarrow> s | [] \<Rightarrow> dname @ ''.spec'')) data in
    bind (from_sum (override_of overrides dname)) (\<lambda>config.
    bind (load_yaml_file L (ROOT_DIR @ [''metadata'', dname @ ''.json''])) (\<lambda>metadata.
    bind (exists (ROOT_DIR @ [''test'', ''rpms'', dname @ ''.yml''])) (\<lambda>has_test.
    bind (from_sum (imported_data branch resource_type dname config metadata has_test data)) (\<lambda>data.
    ret (JObj data))))))))"

definition build_pac_variables :: "'v pylib \<Rightarrow> string \<Rightarrow> string \<Rightarrow> string \<Rightarrow> dict prog" where
  "build_pac_variables L branch tenant resource_type = (bind (listed_packages L) (\<lambda>packages.
    bind (load_yaml_dict L PACKAGE_OVERRIDES_YAML) (\<lambda>overrides.
    bind (mapM (pac_rpm L branch resource_type overrides) packages) (\<lambda>rpms.
    ret [(''branch'', JStr branch), (''application_name'', JStr (''rpms-'' @ branch)),
      (''pipeline_bundle'', JStr PIPELINE_BUNDLE), (''tenant'', JStr tenant), (''rpms'', JList rpms)]))))"

subsection \<open>Konflux\<close>

definition konflux_rpm :: "'v pylib \<Rightarrow> string \<Rightarrow> dict \<Rightarrow> string \<Rightarrow> json prog" where
  "konflux_rpm L branch overrides name = (bind (is_dir (RPMS_DIR @ [name])) (\<lambda>is_imported.
    let data = [(''name'', JStr name), (''imported'', JBool is_imported),
      (''component_name'', JStr (sanitize_component_name name @ ''-'' @ branch)), (''repository'', JStr name),
      (''tags'', JList [JStr ''latest''])] in
    if \<not> is_imported then (ret (JObj data)) else
    bind (from_sum (override_of overrides name)) (\<lambda>config.
    bind (from_sum (private_application branch config data)) (\<lambda>data.
    bind (load_yaml_dict L (RPMS_DIR @ [name, ''properties.yml''])) (\<lambda>properties.
    ret (JObj (foldl (\<lambda>d (k, v). dset k v d) data properties)))))))"

definition build_konflux_variables :: "'v pylib \<Rightarrow> string \<Rightarrow> string \<Rightarrow> string \<Rightarrow> dict prog" where
  "build_konflux_variables L branch tenant git_repo = (bind (listed_packages L) (\<lambda>packages.
    bind (load_yaml_dict L PACKAGE_OVERRIDES_YAML) (\<lambda>overrides.
    bind (mapM (konflux_rpm L branch overrides) packages) (\<lambda>rpms.
    ret [(''application_name'', JStr (''rpms-'' @ branch)), (''branch'', JStr branch), (''tenant'', JStr tenant),
      (''git_repo'', JStr git_repo), (''rpms'', JList rpms)]))))"

subsection \<open>ReleasePlanAdmissions\<close>

definition REQUIRED_RPA_FIELDS :: "string list" where
  "REQUIRED_RPA_FIELDS = [''name'', ''application_prefix'', ''release_org'', ''single_component_mode'',
     ''service_account_name'', ''pulp_unsigned_domain'', ''pulp_signed_domain'', ''pulp_secret_name'',
     ''pipeline_revision'', ''pipeline_url'']"

definition missing_field :: "dict \<Rightarrow> string option" where
  "missing_field rpa = find (\<lambda>f. \<not> has_key rpa f) REQUIRED_RPA_FIELDS"

definition path_prefix_of :: "dict \<Rightarrow> exn + string" where
  "path_prefix_of rpa = (case (case dget rpa ''component_filter'' of None \<Rightarrow> Inr [] | Some j \<Rightarrow> as_dict j) of
     Inl e \<Rightarrow> Inl e | Inr d \<Rightarrow> str_get d ''path_prefix'' [])"

definition selects :: "dict \<Rightarrow> dict \<Rightarrow> string \<Rightarrow> exn + bool" where
  \<comment> \<open>a private ReleasePlanAdmission takes the packages of its product, a public one those without the key\<close>
  "selects rpa overrides pkg = map_sum id (\<lambda>d. case dget rpa ''private_product'' of
       Some v \<Rightarrow> if truthy v then dget d ''private_product'' = Some v else \<not> has_key d ''private_product''
     | None \<Rightarrow> \<not> has_key d ''private_product'') (override_of overrides pkg)"

definition filter_dir :: "string \<Rightarrow> path" where
  \<comment> \<open>\<open>ROOT_DIR / path_prefix.rstrip("/")\<close>\<close>
  "filter_dir prefix = ROOT_DIR @ path_of (rev (dropWhile (\<lambda>c. c = CHR ''/'') (rev prefix)))"

definition releng_packages :: "'v pylib \<Rightarrow> dict \<Rightarrow> string list prog" where
  \<comment> \<open>the packages a ReleasePlanAdmission lists\<close>
  "releng_packages L rpa = (bind (load_yaml_dict L PACKAGE_OVERRIDES_YAML) (\<lambda>overrides.
    bind (listed_packages L) (\<lambda>packages.
    bind (from_sum (path_prefix_of rpa)) (\<lambda>prefix.
    bind (if prefix = [] then ret packages else
      gets (\<lambda>w. filter (\<lambda>p. fs_is_dir (files w) (filter_dir prefix @ [p])) packages)) (\<lambda>packages.
    bind (from_sum (mapS (\<lambda>p. map_sum id (\<lambda>b. (b, p)) (selects rpa overrides p)) packages)) (\<lambda>marked.
    ret (map snd (filter fst marked))))))))"

definition build_releng_variables :: "'v pylib \<Rightarrow> dict \<Rightarrow> dict \<Rightarrow> dict prog" where
  "build_releng_variables L rpa global = (seq (from_sum (case missing_field rpa of None \<Rightarrow> Inr ()
      | Some f \<Rightarrow> Inl (ValueError (''RPA is missing required field '' @ f @ '' in ci/konflux_rpa_config.yml'')))) (
    bind (releng_packages L rpa) (\<lambda>packages.
    bind (from_sum (if packages = [] then Inr [] else str_item global ''branch'')) (\<lambda>branch.
    bind (from_sum (item (JObj global) ''release_tenant'')) (\<lambda>release_tenant.
    bind (from_sum (item (JObj global) ''branch'')) (\<lambda>g_branch.
    bind (from_sum (item (JObj global) ''tenant'')) (\<lambda>tenant.
    let field = (\<lambda>k. (k, case dget rpa k of Some v \<Rightarrow> v | None \<Rightarrow> JNull)) in
    ret ([field ''name'', field ''application_prefix'', field ''release_org'', field ''single_component_mode'',
      field ''service_account_name'',
      (''component_list'', JList (map (\<lambda>p. JObj [(''component_name'', JStr (sanitize_component_name p @ ''-'' @ branch))]) packages)),
      (''release_tenant'', release_tenant), (''branch'', g_branch), (''tenant'', tenant),
      field ''pulp_unsigned_domain'', field ''pulp_signed_domain'', field ''pulp_secret_name'',
      field ''pipeline_revision'', field ''pipeline_url'']))))))))"

definition unknown_product :: "json list \<Rightarrow> json \<Rightarrow> bool" where
  \<comment> \<open>an override that names a product no ReleasePlanAdmission has\<close>
  "unknown_product known config = (case config of
     JObj d \<Rightarrow> opt_truthy (dget d ''private_product'') \<and> the (dget d ''private_product'') \<notin> set known | _ \<Rightarrow> False)"

definition macros_text :: "fs \<Rightarrow> path \<Rightarrow> string list prog" where
  \<comment> \<open>the macro files in order of their names\<close>
  "macros_text f macros_dir = (if fs_exists f macros_dir then
     mapM (\<lambda>n. read_text (macros_dir @ [n])) (sort (fs_glob f macros_dir (if last macros_dir = ''macros'' then ''.j2'' else ''.yml.j2'')))
   else ret [])"

definition render_template :: "renderer \<Rightarrow> path \<Rightarrow> path \<Rightarrow> dict \<Rightarrow> string prog" where
  "render_template render template_path macros_dir variables = (bind (gets files) (\<lambda>f.
    bind (macros_text f macros_dir) (\<lambda>macros.
    bind (read_text template_path) (\<lambda>template.
    from_sum (render f (butlast template_path) (join [nl] macros @ [nl] @ template) variables)))))"

definition TEMPLATES :: path where "TEMPLATES = ROOT_DIR @ [''konflux-templates'']"

definition generate_rpa :: "'v pylib \<Rightarrow> renderer \<Rightarrow> dict \<Rightarrow> (string \<times> string) list \<Rightarrow> json \<Rightarrow> (string \<times> string) list prog" where
  "generate_rpa L render global results j = (bind (from_sum (as_dict j)) (\<lambda>rpa.
    bind (from_sum (str_item rpa ''name'')) (\<lambda>name.
    bind (build_releng_variables L rpa global) (\<lambda>variables.
    bind (render_template render (TEMPLATES @ [''releng-staging.yml.j2'']) (TEMPLATES @ [''macros'', ''releng'']) variables) (\<lambda>result.
    ret (dset name (if endswith result [nl] then result else result @ [nl]) results))))))"

definition generate_releng :: "'v pylib \<Rightarrow> renderer \<Rightarrow> (string \<times> string) list prog" where
  "generate_releng L render = (bind (load_rpa_config L) (\<lambda>config.
    bind (from_sum (item (JObj config) ''global'')) (\<lambda>g.
    bind (from_sum (as_dict g)) (\<lambda>global.
    bind (load_yaml_dict L PACKAGE_OVERRIDES_YAML) (\<lambda>overrides.
    bind (from_sum (item (JObj config) ''rpas'')) (\<lambda>v.
    bind (from_sum (as_list v)) (\<lambda>rpas.
    bind (from_sum (mapS (\<lambda>j. map_sum id (\<lambda>d. dget d ''private_product'') (as_dict j)) rpas)) (\<lambda>products.
    let known = List.map_filter id products in
    seq (from_sum (case find (\<lambda>(p, c). unknown_product known c) overrides of None \<Rightarrow> Inr ()
      | Some (p, c) \<Rightarrow> Inl (ValueError (''Package '' @ p @ '' has a private_product but no RPA entry has it'')))) (
    foldM (generate_rpa L render global) [] rpas)))))))))"

subsection \<open>Commands\<close>

definition generate_pac :: "'v pylib \<Rightarrow> renderer \<Rightarrow> string \<Rightarrow> string \<Rightarrow> string \<Rightarrow> string prog" where
  "generate_pac L render resource_type branch tenant = (if resource_type \<noteq> ''push'' \<and> resource_type \<noteq> ''pull-request'' then (sys_exit (''ERROR: Invalid resource type: '' @ resource_type)) else
    bind (build_pac_variables L branch tenant resource_type) (\<lambda>variables.
    render_template render (ROOT_DIR @ [''.tekton'', ''rpms-on-'' @ resource_type @ ''.yaml.j2'']) (ROOT_DIR @ [''.tekton'', ''macros'']) variables))"

definition generate_konflux :: "'v pylib \<Rightarrow> renderer \<Rightarrow> string \<Rightarrow> string \<Rightarrow> string \<Rightarrow> string prog" where
  "generate_konflux L render branch tenant git_repo = (bind (build_konflux_variables L branch tenant git_repo) (\<lambda>variables.
    render_template render (TEMPLATES @ [''konflux-resources.yml.j2'']) (TEMPLATES @ [''macros'']) variables))"

datatype resource_command = Pac string | Konflux | Releng | All

definition generate_main :: "'v pylib \<Rightarrow> renderer \<Rightarrow> string \<Rightarrow> string \<Rightarrow> string \<Rightarrow> resource_command \<Rightarrow> unit prog" where
  "generate_main L render branch tenant git_repo cmd = (case cmd of
     Pac t \<Rightarrow> (bind (generate_pac L render t branch tenant) (\<lambda>out.
       emit (Print out)))
   | Konflux \<Rightarrow> (bind (generate_konflux L render branch tenant git_repo) (\<lambda>out.
     emit (Print out)))
   | Releng \<Rightarrow> (bind (generate_releng L render) (\<lambda>results.
     forM (\<lambda>r. emit (Print (snd r))) results))
   | All \<Rightarrow> (bind (generate_pac L render ''push'' branch tenant) (\<lambda>push.
     seq (write_text (ROOT_DIR @ [''.tekton'', ''rpms-on-push.yaml'']) push) (
     bind (generate_pac L render ''pull-request'' branch tenant) (\<lambda>pr.
     seq (write_text (ROOT_DIR @ [''.tekton'', ''rpms-on-pull-request.yaml'']) pr) (
     bind (generate_konflux L render branch tenant git_repo) (\<lambda>konflux.
     seq (write_text (TEMPLATES @ [''rendered.yml'']) konflux) (
     bind (generate_releng L render) (\<lambda>results.
     seq (mkdir (ROOT_DIR @ [''releng''])) (
     forM (\<lambda>r. write_text (ROOT_DIR @ [''releng'', fst r @ ''.yaml'']) (snd r)) results))))))))))"

subsection \<open>Who releases a package\<close>

definition product_of :: "dict \<Rightarrow> json option" where
  \<comment> \<open>the (non-empty) product of a ReleasePlanAdmission\<close>
  "product_of rpa = (case dget rpa ''private_product'' of Some v \<Rightarrow> if truthy v then Some v else None | None \<Rightarrow> None)"

definition lists_package :: "'v pylib \<Rightarrow> world \<Rightarrow> dict \<Rightarrow> string \<Rightarrow> bool" where
  "lists_package L w rpa p \<longleftrightarrow> (\<exists>ps w'. releng_packages L rpa w = (Inr ps, w') \<and> p \<in> set ps)"

lemma selects_iff: "selects rpa overrides p = Inr b \<longleftrightarrow>
    (\<exists>d. override_of overrides p = Inr d \<and> b = (product_of rpa = dget d ''private_product''))"
  by (cases "override_of overrides p") (auto simp: selects_def product_of_def split: option.splits)

lemma mapS_Inr: "mapS f xs = Inr ys \<longleftrightarrow> list_all2 (\<lambda>x y. f x = Inr y) xs ys"
proof (induction xs arbitrary: ys)
  case (Cons x xs)
  show ?case
  proof (cases "f x")
    case (Inr y)
    then show ?thesis using Cons.IH by (cases ys; cases "mapS f xs") auto
  qed (cases ys; simp)
qed auto

lemma mapS_source: "mapS f xs = Inr ys \<Longrightarrow> y \<in> set ys \<Longrightarrow> \<exists>x \<in> set xs. f x = Inr y"
  unfolding mapS_Inr by (induction rule: list_all2_induct) auto

lemma marked_select:
  assumes "mapS (\<lambda>p. map_sum id (\<lambda>b. (b, p)) (f p)) ps = Inr marked"
  shows "p \<in> set (map snd (filter fst marked)) \<longleftrightarrow> p \<in> set ps \<and> f p = Inr True"
proof -
  from assms have l: "list_all2 (\<lambda>p m. map_sum id (\<lambda>b. (b, p)) (f p) = Inr m) ps marked" by (simp add: mapS_Inr)
  then show ?thesis
  proof (induction rule: list_all2_induct)
    case (Cons x xs m ms)
    then show ?case by (cases "f x") auto
  qed simp
qed

lemma yaml_file_pure: "load_yaml_file L p w = (r, w') \<Longrightarrow> w' = w"
  by (auto simp: load_yaml_file_def split: option.splits node.splits)

lemma yaml_dict_pure: "load_yaml_dict L p w = (r, w') \<Longrightarrow> w' = w"
  by (auto simp: load_yaml_dict_def bind_run from_sum_def ret_def raise_def dest: yaml_file_pure split: prod.splits sum.splits)

lemma listed_pure: "listed_packages L w = (r, w') \<Longrightarrow> w' = w"
  by (auto simp: listed_packages_def bind_run from_sum_def iterdir_def prog_simps dest: yaml_dict_pure split: prod.splits sum.splits)

lemma releng_pure: "releng_packages L rpa w = (r, w') \<Longrightarrow> w' = w"
  by (auto simp: releng_packages_def bind_run from_sum_def prog_simps dest: yaml_dict_pure listed_pure split: prod.splits sum.splits if_splits)

lemma keeps_reads:
  "keeps (\<lambda>v. v = w) (load_yaml_dict L p)" "keeps (\<lambda>v. v = w) (releng_packages L rpa)"
  unfolding keeps_def by (metis prod.collapse yaml_dict_pure) (metis prod.collapse releng_pure)

lemma keeps_render: "keeps (\<lambda>v. v = w) (render_template render t m vs)"
  unfolding render_template_def macros_text_def by (intro prog_rules)

lemma keeps_generate_rpa: "keeps (\<lambda>v. v = w) (generate_rpa L render g rs j)"
  unfolding generate_rpa_def build_releng_variables_def Let_def by (intro prog_rules keeps_reads keeps_render)

lemma generate_rpa_lists:
  assumes "generate_rpa L render g rs j w = (Inr rs', w')"
  shows "w' = w \<and> (\<exists>rpa ps. j = JObj rpa \<and> releng_packages L rpa w = (Inr ps, w))"
proof -
  have "w' = w" using keepsD[OF keeps_generate_rpa assms] by simp
  from assms obtain rpa ps w1 where "as_dict j = Inr rpa" "releng_packages L rpa w = (Inr ps, w1)"
    by (auto simp: generate_rpa_def build_releng_variables_def Let_def prog_inr)
  with releng_pure[OF this(2)] \<open>w' = w\<close> show ?thesis by (cases j) (auto simp: as_dict_def)
qed

lemma all_rpas_list:
  "foldM (generate_rpa L render g) rs js w = (Inr rs', w') \<Longrightarrow>
     list_all (\<lambda>j. \<exists>rpa ps. j = JObj rpa \<and> releng_packages L rpa w = (Inr ps, w)) js"
proof (induction js arbitrary: rs)
  case (Cons j js)
  then obtain rs1 w1 where 1: "generate_rpa L render g rs j w = (Inr rs1, w1)" "foldM (generate_rpa L render g) rs1 js w1 = (Inr rs', w')"
    by (auto simp: bind_Inr)
  from generate_rpa_lists[OF 1(1)] have w: "w1 = w" and
    l: "\<exists>rpa ps. j = JObj rpa \<and> releng_packages L rpa w = (Inr ps, w)" by blast+
  from 1(2)[unfolded w] Cons.IH l show ?case by simp
qed simp

lemma releng_lists_iff:
  assumes "releng_packages L rpa w = (Inr ps, w)" "listed_packages L w = (Inr everything, w)"
    and "load_yaml_dict L PACKAGE_OVERRIDES_YAML w = (Inr overrides, w)"
    and "p \<in> set everything" "fs_is_dir (files w) (RPMS_DIR @ [p])" "override_of overrides p = Inr d"
    and "path_prefix_of rpa \<in> {Inr [], Inr ''rpms/''}"
  shows "p \<in> set ps \<longleftrightarrow> product_of rpa = dget d ''private_product''"
proof -
  have dir: "filter_dir ''rpms/'' = RPMS_DIR" by code_simp
  from assms(1,2,3) obtain prefix qs marked where
    q: "path_prefix_of rpa = Inr prefix"
    "qs = (if prefix = [] then everything else filter (\<lambda>p. fs_is_dir (files w) (filter_dir prefix @ [p])) everything)"
    and m: "mapS (\<lambda>p. map_sum id (\<lambda>b. (b, p)) (selects rpa overrides p)) qs = Inr marked" "ps = map snd (filter fst marked)"
    by (auto simp: releng_packages_def prog_inr split: if_splits)
  have "p \<in> set qs" using q assms(4,5,7) dir by auto
  with marked_select[OF m(1), of p] m(2) show ?thesis by (auto simp: selects_iff assms(6))
qed

lemma no_pair: "(\<forall>a b. x \<noteq> Some (a, b)) \<longleftrightarrow> x = None"
  by (cases x) auto

text \<open>C5: when the release resources have been generated, every imported package is listed by exactly the
  ReleasePlanAdmissions whose product is the package's \<open>private_product\<close>: the public ones list the
  packages without that key and nothing private, each private product has at least one, and a
  package whose key is present but empty is listed by none.\<close>

theorem released_by_product:
  assumes "generate_releng L render w = (Inr results, w')"
    and "load_rpa_config L w = (Inr config, w)" "dget config ''rpas'' = Some (JList rpas)"
    and "list_all (\<lambda>j. \<exists>r. j = JObj r \<and> path_prefix_of r \<in> {Inr [], Inr ''rpms/''}) rpas"
    and "listed_packages L w = (Inr everything, w)" "load_yaml_dict L PACKAGE_OVERRIDES_YAML w = (Inr overrides, w)"
    and "p \<in> set everything" "fs_is_dir (files w) (RPMS_DIR @ [p])" "override_of overrides p = Inr d"
  shows "list_all (\<lambda>j. \<exists>r. j = JObj r \<and> (lists_package L w r p \<longleftrightarrow> product_of r = dget d ''private_product'')) rpas \<and>
    (case dget d ''private_product'' of None \<Rightarrow> True
     | Some v \<Rightarrow> \<not> truthy v \<or> list_ex (\<lambda>j. \<exists>r. j = JObj r \<and> product_of r = Some v \<and> lists_package L w r p) rpas)"
proof -
  from assms(1,2,3,6) obtain g w1 products where
    run: "foldM (generate_rpa L render g) [] rpas w = (Inr results, w1)"
    and known: "mapS (\<lambda>j. map_sum id (\<lambda>d. dget d ''private_product'') (as_dict j)) rpas = Inr products"
    "find (\<lambda>(p, c). unknown_product (List.map_filter id products) c) overrides = None"
    by (auto simp: generate_releng_def Let_def prog_inr item_def as_list_def no_pair split: option.splits prod.splits)
  have each: "list_all (\<lambda>j. \<exists>r. j = JObj r \<and> (lists_package L w r p \<longleftrightarrow> product_of r = dget d ''private_product'')) rpas"
    unfolding list_all_iff
  proof
    fix j assume j: "j \<in> set rpas"
    with all_rpas_list[OF run] obtain r ps where r: "j = JObj r" "releng_packages L r w = (Inr ps, w)" by (auto simp: list_all_iff)
    from j r(1) assms(4) have "path_prefix_of r \<in> {Inr [], Inr ''rpms/''}" by (auto simp: list_all_iff)
    from releng_lists_iff[OF r(2) assms(5,6,7,8,9) this] r
    show "\<exists>r. j = JObj r \<and> (lists_package L w r p \<longleftrightarrow> product_of r = dget d ''private_product'')"
      by (auto simp: lists_package_def)
  qed
  have "list_ex (\<lambda>j. \<exists>r. j = JObj r \<and> product_of r = Some v \<and> lists_package L w r p) rpas"
    if v: "dget d ''private_product'' = Some v" "truthy v" for v
  proof -
    from assms(9) v have "dget overrides p = Some (JObj d)"
      by (auto simp: override_of_def as_dict_def split: option.splits json.splits)
    then have "(p, JObj d) \<in> set overrides" by (rule map_of_SomeD)
    with known(2) have "\<not> unknown_product (List.map_filter id products) (JObj d)" by (auto simp: find_None_iff)
    with v have "v \<in> set (List.map_filter id products)" by (simp add: unknown_product_def opt_truthy_def)
    then have "Some v \<in> set products" by (auto simp: map_filter_def)
    from mapS_source[OF known(1) this] obtain j where "j \<in> set rpas"
      "map_sum id (\<lambda>d. dget d ''private_product'') (as_dict j) = Inr (Some v)" by blast
    then obtain r where "j \<in> set rpas" "j = JObj r" "dget r ''private_product'' = Some v" by (cases j rule: json.exhaust) (auto simp: as_dict_def)
    moreover from this v have "product_of r = Some v" by (simp add: product_of_def)
    ultimately have "j \<in> set rpas" "\<exists>r. j = JObj r \<and> product_of r = Some v \<and> lists_package L w r p"
      using each v by (auto simp: list_all_iff)
    then show ?thesis unfolding list_ex_iff by blast
  qed
  with each show ?thesis by (auto split: option.splits)
qed

definition two_rpas :: "nat pylib" where
  \<comment> \<open>a public and a private ReleasePlanAdmission; package \<open>b\<close> belongs to the private product\<close>
  "two_rpas = (yaml_of JNull)\<lparr>yaml_load := (\<lambda>s. Inr (if s = ''overrides'' then
       JObj [(''b'', JObj [(''private_product'', JStr ''lts'')])]
     else JObj [(''global'', JObj [(''branch'', JStr ''main''), (''tenant'', JStr ''t''), (''release_tenant'', JStr ''r'')]),
       (''rpas'', JList [JObj ((''component_filter'', JObj [(''path_prefix'', JStr ''rpms/'')]) # map (\<lambda>f. (f, JStr ''public'')) REQUIRED_RPA_FIELDS),
          JObj ((''private_product'', JStr ''lts'') # map (\<lambda>f. (f, JStr ''private'')) REQUIRED_RPA_FIELDS)])]))\<rparr>"

definition released_world :: world where
  "released_world = blank\<lparr>files := [([''rpms'', ''a''], DirN), ([''rpms'', ''b''], DirN), (RPA_CONFIG, FileN ''rpas''),
     (PACKAGE_OVERRIDES_YAML, FileN ''overrides''), ([''konflux-templates'', ''releng-staging.yml.j2''], FileN ''template'')]\<rparr>"

theorem released_by_product_witness:
  "map fst (projr (fst (generate_releng two_rpas (\<lambda>_ _ _ _. Inr ''text'') released_world))) = [''public'', ''private''] \<and>
   (\<exists>config rpas r1 r2. load_rpa_config two_rpas released_world = (Inr config, released_world) \<and>
      dget config ''rpas'' = Some (JList rpas) \<and> rpas = [JObj r1, JObj r2] \<and>
      \<not> lists_package two_rpas released_world r1 ''b'' \<and> lists_package two_rpas released_world r2 ''b'')"
proof -
  let ?run = "generate_releng two_rpas (\<lambda>_ _ _ _. Inr ''text'') released_world"
  let ?config = "projr (fst (load_rpa_config two_rpas released_world))"
  let ?rpas = "case dget ?config ''rpas'' of Some (JList rs) \<Rightarrow> rs | _ \<Rightarrow> []"
  let ?r = "\<lambda>j. case j of JObj r \<Rightarrow> r | _ \<Rightarrow> []"
  have names: "isl (fst ?run) = False \<and> map fst (projr (fst ?run)) = [''public'', ''private'']" by code_simp
  then have run: "?run = (Inr (projr (fst ?run)), snd ?run)" by (metis prod.collapse sum.collapse(2))
  have "isl (fst (load_rpa_config two_rpas released_world)) = False" by code_simp
  moreover have "snd (load_rpa_config two_rpas released_world) = released_world"
    by (simp add: load_rpa_config_def prog_simps read_text_def from_sum_def two_rpas_def as_dict_def split: option.splits node.splits)
  ultimately have config: "load_rpa_config two_rpas released_world = (Inr ?config, released_world)"
    by (metis prod.collapse sum.collapse(2))
  have shape: "dget ?config ''rpas'' = Some (JList ?rpas)" "?rpas = [JObj (?r (?rpas ! 0)), JObj (?r (?rpas ! 1))]"
    "path_prefix_of (?r (?rpas ! 0)) = Inr ''rpms/''" "path_prefix_of (?r (?rpas ! 1)) = Inr []"
    "product_of (?r (?rpas ! 0)) = None" "product_of (?r (?rpas ! 1)) = Some (JStr ''lts'')" by code_simp+
  then obtain r1 r2 where rpas: "dget ?config ''rpas'' = Some (JList [JObj r1, JObj r2])" "path_prefix_of r1 = Inr ''rpms/''"
    "path_prefix_of r2 = Inr []" "product_of r1 = None" "product_of r2 = Some (JStr ''lts'')" by metis
  from rpas have prefix: "list_all (\<lambda>j. \<exists>r. j = JObj r \<and> path_prefix_of r \<in> {Inr [], Inr ''rpms/''}) [JObj r1, JObj r2]" by simp
  have "fst (listed_packages two_rpas released_world) = Inr [''a'', ''b'']" by code_simp
  then have everything: "listed_packages two_rpas released_world = (Inr [''a'', ''b''], released_world)"
    by (metis prod.collapse listed_pure)
  have "fst (load_yaml_dict two_rpas PACKAGE_OVERRIDES_YAML released_world) = Inr [(''b'', JObj [(''private_product'', JStr ''lts'')])]"
    by code_simp
  then have overrides: "load_yaml_dict two_rpas PACKAGE_OVERRIDES_YAML released_world =
      (Inr [(''b'', JObj [(''private_product'', JStr ''lts'')])], released_world)" by (metis prod.collapse yaml_dict_pure)
  have b: "''b'' \<in> set [''a'', ''b'']" "fs_is_dir (files released_world) (RPMS_DIR @ [''b''])"
    "override_of [(''b'', JObj [(''private_product'', JStr ''lts'')])] ''b'' = Inr [(''private_product'', JStr ''lts'')]" by code_simp+
  from released_by_product[OF run config rpas(1) prefix everything overrides b] rpas(4,5)
  have "\<not> lists_package two_rpas released_world r1 ''b''" "lists_package two_rpas released_world r2 ''b''" by auto
  with names config rpas(1) show ?thesis by blast
qed

end
