(* ===== verification/Konflux_Gate.thy ===== *)
theory Konflux_Gate
  imports Upstream_Query Run_Rules
begin

section \<open>Konflux statuses and comments of a merge request\<close>

text \<open>
  \<open>ci/check_konflux_statuses.py\<close>, which polls GitLab until Konflux has posted a status for the commit,
  and \<open>ci/delete_konflux_comments.py\<close>, which deletes the comments of Pipelines as Code by type. The
  clock is a question to the host, in whole seconds; the poll loop runs on fuel, and \<open>konflux_gate\<close>
  says how much is enough. The GitLab client library is the host too.
\<close>

subsection \<open>The approval gate\<close>

definition KONFLUX_NAME_PREFIX :: string where "KONFLUX_NAME_PREFIX = ''Konflux kflux-prd-rh03 /''"

definition get_commit_statuses :: "host \<Rightarrow> string \<Rightarrow> string \<Rightarrow> string \<Rightarrow> string \<Rightarrow> dict list prog" where
  "get_commit_statuses h gitlab_url project_id commit_sha token = (bind (urlopen_json h ''GET'' (gitlab_url @ ''/api/v4/projects/'' @ project_id @ ''/repository/commits/'' @ commit_sha @
      ''/statuses?per_page=100'') [(''PRIVATE-TOKEN'', token)]) (\<lambda>(j, hs).
    bind (from_sum (as_list j)) (\<lambda>xs.
    mapM (\<lambda>x. from_sum (as_dict x)) xs)))"

definition filter_konflux_statuses :: "dict list \<Rightarrow> dict list" where
  "filter_konflux_statuses statuses = filter (\<lambda>s. case dget s ''name'' of
     Some v \<Rightarrow> startswith (py_text v) KONFLUX_NAME_PREFIX | None \<Rightarrow> False) statuses"

definition has_failed :: "dict \<Rightarrow> bool" where
  "has_failed s \<longleftrightarrow> dget s ''status'' = Some (JStr ''failed'')"

datatype gate_result = Invoked | Missing | Failed

definition check_statuses :: "dict list \<Rightarrow> gate_result" where
  "check_statuses konflux_statuses = (if konflux_statuses = [] then Missing
     else if filter has_failed konflux_statuses \<noteq> [] then Failed else Invoked)"

definition status_line :: "string \<Rightarrow> dict \<Rightarrow> exn + string" where
  "status_line indent s = (case (item (JObj s) ''name'', item (JObj s) ''status'') of
     (Inl e, _) \<Rightarrow> Inl e | (_, Inl e) \<Rightarrow> Inl e | (Inr n, Inr st) \<Rightarrow> Inr (indent @ py_text n @ '': '' @ py_text st))"

definition print_lines :: "string list \<Rightarrow> unit prog" where
  "print_lines ls = forM (\<lambda>l. emit (Print l)) ls"

definition print_statuses :: "dict list \<Rightarrow> unit prog" where
  "print_statuses konflux_statuses = (seq (print_lines [''  Found '' @ show_nat (length konflux_statuses) @ '' Konflux pipeline status(es):'']) (
    forM (\<lambda>s. (bind (from_sum (status_line ''    '' s)) (\<lambda>l.
      print_lines [l]))) konflux_statuses))"

definition monotonic :: "host \<Rightarrow> int prog" where
  "monotonic h = (bind (ask_host h Clock) (\<lambda>r.
    (case r of Time t \<Rightarrow> ret t | _ \<Rightarrow> raise (OSError ''clock''))))"

definition py_names :: "json list \<Rightarrow> string" where
  \<comment> \<open>the list as Python prints it, for names without quotes\<close>
  "py_names js = ''['' @ join '', '' (map (\<lambda>j. case j of JStr s \<Rightarrow> [CHR 0x27] @ s @ [CHR 0x27] | _ \<Rightarrow> py_text j) js) @ '']''"

definition report_invoked :: "dict list \<Rightarrow> int prog" where
  "report_invoked konflux_statuses = (seq (print_statuses konflux_statuses) (
    seq (print_lines [nl # ''Konflux pipelines have been invoked. Proceeding with approval.'']) (
    ret 0)))"

definition report_failed :: "dict list \<Rightarrow> int prog" where
  "report_failed konflux_statuses = (seq (print_statuses konflux_statuses) (
    let failed = filter has_failed konflux_statuses in
    seq (print_lines [nl # ''ERROR: '' @ show_nat (length failed) @ '' Konflux pipeline(s) failed:'']) (
    seq (forM (\<lambda>s. (bind (from_sum (status_line ''  '' s)) (\<lambda>l.
      print_lines [l]))) failed) (
    seq (print_lines [''Skipping approval due to Konflux build failure(s).'']) (
    ret 1)))))"

definition report_timeout :: "dict list \<Rightarrow> int prog" where
  "report_timeout statuses = (seq (print_lines [''ERROR: Timed out waiting for Konflux pipeline statuses.'', ''No Konflux statuses were ever posted for this commit.'']) (
    let names = map (\<lambda>s. case dget s ''name'' of Some v \<Rightarrow> v | None \<Rightarrow> JNull) statuses in
    seq (whenM (names \<noteq> []) (print_lines [''Commit statuses found: '' @ py_names names])) (
    ret 1)))"

fun poll_statuses :: "nat \<Rightarrow> host \<Rightarrow> dict list prog \<Rightarrow> nat \<Rightarrow> int \<Rightarrow> int prog" where
  "poll_statuses 0 h get_statuses interval deadline = raise OutOfFuel"
| "poll_statuses (Suc n) h get_statuses interval deadline = (bind get_statuses (\<lambda>statuses.
  let konflux_statuses = filter_konflux_statuses statuses in
  (case check_statuses konflux_statuses of
       Invoked \<Rightarrow> report_invoked konflux_statuses
     | Failed \<Rightarrow> report_failed konflux_statuses
     | Missing \<Rightarrow> (bind (monotonic h) (\<lambda>now.
       if deadline - now \<le> 0 then (report_timeout statuses) else
       seq (print_lines [''  No Konflux statuses yet, retrying in '' @ show_nat interval @ ''s ('' @ show_int (deadline - now) @ ''s remaining)...'']) (
       seq (emit (Sleep interval)) (
       poll_statuses n h get_statuses interval deadline)))))))"

definition environ_item :: "(string \<times> string) list \<Rightarrow> string \<Rightarrow> exn + string" where
  \<comment> \<open>\<open>os.environ[name]\<close>\<close>
  "environ_item env name = (case dget env name of Some v \<Rightarrow> Inr v | None \<Rightarrow> Inl (KeyError name))"

record gate_env =
  g_url :: string
  g_project :: string
  g_token :: string
  g_sha :: string

definition gate_env_of :: "(string \<times> string) list \<Rightarrow> exn + gate_env" where
  \<comment> \<open>the source branch head is preferred to the merge commit\<close>
  "gate_env_of env = (case (environ_item env ''CI_PROJECT_ID'', environ_item env ''CHORE_MR_APPROVAL_GITLAB_TOKEN'',
       case dget env ''CI_MERGE_REQUEST_SOURCE_BRANCH_SHA'' of Some (c # s) \<Rightarrow> Inr (c # s) | _ \<Rightarrow> environ_item env ''CI_COMMIT_SHA'') of
     (Inl e, _) \<Rightarrow> Inl e | (_, Inl e, _) \<Rightarrow> Inl e | (_, _, Inl e) \<Rightarrow> Inl e
   | (Inr project, Inr token, Inr sha) \<Rightarrow> Inr \<lparr>g_url = (case dget env ''CI_SERVER_URL'' of Some u \<Rightarrow> u | None \<Rightarrow> ''https://gitlab.com''),
       g_project = project, g_token = token, g_sha = sha\<rparr>)"

definition gate_main :: "nat \<Rightarrow> host \<Rightarrow> nat \<Rightarrow> nat \<Rightarrow> int prog" where
  "gate_main fuel h poll_interval poll_timeout = (bind (gets environ) (\<lambda>env.
    bind (from_sum (gate_env_of env)) (\<lambda>g.
    seq (print_lines [''Checking Konflux pipeline statuses for commit '' @ take 12 (g_sha g) @ ''...'']) (
    bind (monotonic h) (\<lambda>start.
    poll_statuses fuel h (get_commit_statuses h (g_url g) (g_project g) (g_sha g) (g_token g)) poll_interval (start + int poll_timeout))))))"

subsection \<open>Deleting comments\<close>

definition strip_tags_re :: rx where \<comment> \<open>\<open><[^>]+>\<close>\<close>
  "strip_tags_re = Seq [Chr CHR ''<'', Plus True (Cls (\<lambda>c. c \<noteq> CHR ''>'')), Chr CHR ''>'']"

definition between_re :: "string \<Rightarrow> rx" where \<comment> \<open>\<open>\*\*(.*?)\*\*\<close>, \<open>\*(.*?)\*\<close>, \<open>`(.*?)`\<close>\<close>
  "between_re mark = Seq [Lit mark, Grp 1 (Star False Dot), Lit mark]"

definition header_re :: rx where \<comment> \<open>\<open>#+\s*\<close>\<close>
  "header_re = Sq (Plus True (Chr CHR ''#'')) (Star True Space)"

definition link_re :: rx where \<comment> \<open>\<open>\[([^\]]+)\]\([^)]+\)\<close>\<close>
  "link_re = Seq [Chr CHR ''['', Grp 1 (Plus True (Cls (\<lambda>c. c \<noteq> CHR '']''))), Chr CHR '']'', Chr CHR ''('',
     Plus True (Cls (\<lambda>c. c \<noteq> CHR '')'')), Chr CHR '')'']"

definition clean_comment_text :: "string \<Rightarrow> string" where
  "clean_comment_text text =
     (let t = re_sub strip_tags_re (\<lambda>_. []) text;
          t = re_sub (between_re ''**'') (\<lambda>m. group m 1) t;
          t = re_sub (between_re ''*'') (\<lambda>m. group m 1) t;
          t = re_sub (between_re ''`'') (\<lambda>m. group m 1) t;
          t = re_sub header_re (\<lambda>_. []) t;
          t = re_sub link_re (\<lambda>m. group m 1) t
      in strip (re_sub (Plus True Space) (\<lambda>_. '' '') t))"

fun gaps :: "string list \<Rightarrow> rx" where
  \<comment> \<open>texts with \<open>.*\<close> between, whatever their case\<close>
  "gaps [] = Eps"
| "gaps [s] = LitCI s"
| "gaps (s # t # ts) = Sq (LitCI s) (Sq (Star True Dot) (gaps (t # ts)))"

definition COMMENT_TYPES :: "(string \<times> string \<times> rx) list" where
  \<comment> \<open>name, category and pattern of each \<open>CommentType\<close>, in the order of the class\<close>
  "COMMENT_TYPES = [
     (''build-failed'', ''failed'', gaps [''Konflux '', ''-pull-request has failed'']),
     (''test-failed'', ''failed'', gaps [''Integration test for snapshot '', '' and scenario '', '' has failed'']),
     (''build-success'', ''success'', gaps [''Konflux '', ''-pull-request has successfully validated your commit'']),
     (''test-success'', ''success'', gaps [''Integration test for snapshot '', '' and scenario '', '' has passed'']),
     (''build-queued'', ''pending'', gaps [''PipelineRun'', ''has been queued'']),
     (''build-running'', ''pending'', gaps [''Starting Pipelinerun '', ''-pull-request-'', '' in namespace'']),
     (''build-cancelled'', ''pending'', gaps [''task '', '' has the status '' @ [CHR 0x22] @ ''TaskRunCancelled'' @ [CHR 0x22]]),
     (''test-pending'', ''pending'', gaps [''Integration test for scenario '', '' is pending because build pipelinerun is still running'']),
     (''test-skipped'', ''pending'', gaps [''Integration test for scenario '', '' has not run and is considered as failed because the build pipelinerun failed''])]"

definition enum_name :: "string \<Rightarrow> string" where
  \<comment> \<open>a type as given on the command line; unknown names are skipped\<close>
  "enum_name t = replace_all ''_'' ''-'' (lower t)"

definition should_delete_comment :: "string \<Rightarrow> string list \<Rightarrow> bool" where
  "should_delete_comment body comment_types =
     (let cleaned = clean_comment_text body in
      list_ex (\<lambda>t. case map_of COMMENT_TYPES (enum_name t) of Some (_, pattern) \<Rightarrow> re_search pattern cleaned \<noteq> None | None \<Rightarrow> False)
        comment_types)"

record comment_args =
  a_types :: "string list"
  a_categories :: "string list"
  a_all :: bool
  a_dry_run :: bool

definition types_of_category :: "string list \<Rightarrow> string list" where
  "types_of_category cs = map fst (filter (\<lambda>(n, c, _). c \<in> set cs) COMMENT_TYPES)"

definition get_comment_types :: "comment_args \<Rightarrow> string list" where
  "get_comment_types args =
    (if a_all args then map fst COMMENT_TYPES
     else rev (remdups (rev (if a_types args \<noteq> [] then a_types args
       else if a_categories args \<noteq> [] then types_of_category (a_categories args)
       else types_of_category [''pending'']))))"

record comment_note = \<comment> \<open>a note of a merge request, as the client library delivers it\<close>
  note_id :: string
  note_author :: string
  note_body :: string

definition display_line :: "string \<Rightarrow> string" where
  "display_line body = (let first_line = hd (split_on nl body) in
     take 100 first_line @ (if length first_line > 100 then ''...'' else []))"

definition delete_note :: "host \<Rightarrow> string \<Rightarrow> unit prog" where
  \<comment> \<open>\<open>note.delete()\<close> of the client library\<close>
  "delete_note h i = (bind (ask_host h (Rpc ''note.delete'' i)) (\<lambda>r.
    (case r of Answer _ \<Rightarrow> ret () | _ \<Rightarrow> raise (http_exn r))))"

definition process_merge_request :: "host \<Rightarrow> string \<Rightarrow> comment_note list \<Rightarrow> string list \<Rightarrow> bool \<Rightarrow> unit prog" where
  "process_merge_request h iid notes comment_types dry_run = (seq (print_lines [''MR !'' @ iid @ '': Comment types: '' @ join '', '' comment_types]) (
    let doomed = filter (\<lambda>n. note_author n = ''pipelines-as-code'' \<and> should_delete_comment (note_body n) comment_types) notes in
    seq (forM (\<lambda>n. if dry_run then print_lines [''MR !'' @ iid @ '': Would delete comment: '' @ display_line (note_body n)]
      else (seq (print_lines [''MR !'' @ iid @ '': Deleting comment: '' @ display_line (note_body n)]) (
        delete_note h (note_id n)))) doomed) (
    (if doomed = [] then ret ()
     else if dry_run then print_lines [''MR !'' @ iid @ '': Would delete '' @ show_nat (length doomed) @ '' comments (dry-run mode)'']
     else print_lines [''MR !'' @ iid @ '': Total deleted '' @ show_nat (length doomed) @ '' comments'']))))"

definition delete_comments_main :: "host \<Rightarrow> (string \<times> comment_note list) list \<Rightarrow> comment_args \<Rightarrow> unit prog" where
  \<comment> \<open>the merge requests of the URL, with their notes, are what the client library finds\<close>
  "delete_comments_main h merge_requests args =
     forM (\<lambda>(iid, notes). process_merge_request h iid notes (get_comment_types args) (a_dry_run args)) merge_requests"

subsection \<open>The gate ends, and opens only for invoked pipelines\<close>

definition slept :: "event list \<Rightarrow> nat" where
  \<comment> \<open>the seconds slept\<close>
  "slept es = sum_list (map (\<lambda>e. case e of Sleep n \<Rightarrow> n | _ \<Rightarrow> 0) es)"

definition ticking :: "host \<Rightarrow> bool" where
  \<comment> \<open>the monotonic clock: it never goes back, and runs at least as long as was slept\<close>
  "ticking h \<longleftrightarrow> (\<exists>c. (\<forall>t f. fst (h t Clock f) = Time (c t)) \<and> (\<forall>t es. c t + int (slept es) \<le> c (t @ es)))"

definition gate_verdict :: "(exn + int) \<Rightarrow> dict list prog \<Rightarrow> bool" where
  \<comment> \<open>0 only for an answer with a Konflux status and no failed one, 1 otherwise, never out of fuel\<close>
  "gate_verdict r get_statuses \<longleftrightarrow> (case r of
     Inr code \<Rightarrow> (code = 0 \<and> (\<exists>w1 w2 ks. get_statuses w1 = (Inr ks, w2) \<and> filter_konflux_statuses ks \<noteq> [] \<and>
         filter has_failed (filter_konflux_statuses ks) = [])) \<or> code = 1
   | Inl e \<Rightarrow> e \<noteq> OutOfFuel)"

definition no_fuel :: "exn \<Rightarrow> bool" where "no_fuel e \<longleftrightarrow> e \<noteq> OutOfFuel"

lemma no_fuel_errors [simp]: "file_errors no_fuel" "proc_errors no_fuel" "no_fuel (OSError m)" "no_fuel (SysExit c m)"
  by (auto simp: file_errors_def proc_errors_def no_fuel_def)

lemma item_fuel: "from_sum (status_line i s) w \<noteq> (Inl OutOfFuel, w')"
  by (auto simp: status_line_def item_def as_dict_def from_sum_def ret_def raise_def split: sum.splits option.splits)

lemma run_status_line [run_rules]: "runs_in S no_fuel (from_sum (status_line i s))"
  by (auto simp: runs_in_def status_line_def item_def as_dict_def from_sum_def ret_def raise_def no_fuel_def
      split: sum.splits option.splits)

lemma run_prints [run_rules]: "runs_in (\<lambda>_. True) no_fuel (print_lines ls)"
  unfolding print_lines_def by (auto intro!: run_rules)

lemma run_reports:
  "runs_in (\<lambda>_. True) no_fuel (report_invoked ks)" "runs_in (\<lambda>_. True) no_fuel (report_failed ks)"
  "runs_in (\<lambda>_. True) no_fuel (report_timeout ks)"
  unfolding report_invoked_def report_failed_def report_timeout_def print_statuses_def Let_def by (auto intro!: run_rules)

lemma report_codes:
  "report_invoked ks w = (Inr c, w') \<Longrightarrow> c = 0" "report_failed ks w = (Inr c, w') \<Longrightarrow> c = 1"
  "report_timeout ks w = (Inr c, w') \<Longrightarrow> c = 1"
  by (auto simp: report_invoked_def report_failed_def report_timeout_def Let_def prog_inr)

lemma report_runs:
  assumes "report w = (r, w')" "runs_in (\<lambda>_. True) no_fuel report" "\<And>c. report w = (Inr c, w') \<Longrightarrow> c = code"
  shows "case r of Inr c \<Rightarrow> c = code | Inl e \<Rightarrow> e \<noteq> OutOfFuel"
  using runs_inD[OF assms(2,1)] assms(1,3) by (auto simp: no_fuel_def split: sum.splits)

lemma report_results:
  "report_invoked ks w = (r, w') \<Longrightarrow> (case r of Inr c \<Rightarrow> c = 0 | Inl e \<Rightarrow> e \<noteq> OutOfFuel)"
  "report_failed ks w = (r, w') \<Longrightarrow> (case r of Inr c \<Rightarrow> c = 1 | Inl e \<Rightarrow> e \<noteq> OutOfFuel)"
  "report_timeout ks w = (r, w') \<Longrightarrow> (case r of Inr c \<Rightarrow> c = 1 | Inl e \<Rightarrow> e \<noteq> OutOfFuel)"
  by (erule report_runs, rule run_reports, erule report_codes)+

lemma statuses_run: "runs_in (\<lambda>_. True) no_fuel (get_commit_statuses h u p s t)"
proof -
  have "runs_in (\<lambda>_. True) no_fuel (urlopen_json h m url hs)" for m url hs
    by (rule runs_inI, drule urlopen_json_run) (auto simp: no_fuel_def split: sum.splits)
  moreover have "as_list a = Inl e \<Longrightarrow> no_fuel e" "as_dict a = Inl e \<Longrightarrow> no_fuel e" for a e
    by (cases a; auto simp: as_dict_def as_list_def no_fuel_def)+
  ultimately show ?thesis unfolding get_commit_statuses_def by (auto intro!: run_rules)
qed

lemma slept_append: "slept (es @ fs) = slept es + slept fs"
  by (simp add: slept_def)

lemma poll_ends:
  assumes clock: "\<And>t f. fst (h t Clock f) = Time (c t)" "\<And>t es. c t + int (slept es) \<le> c (t @ es)"
    and get: "runs_in (\<lambda>_. True) no_fuel get_statuses"
  shows "0 < n \<Longrightarrow> deadline - c (trace w) \<le> int (n - 1) * int interval \<Longrightarrow>
    poll_statuses n h get_statuses interval deadline w = (r, w') \<Longrightarrow> gate_verdict r get_statuses"
proof (induction n arbitrary: w)
  case (Suc n)
  obtain r1 w1 where g: "get_statuses w = (r1, w1)" by fastforce
  from runs_inD[OF get g] obtain es where es: "trace w1 = trace w @ es" by blast
  show ?case
  proof (cases r1)
    case (Inl e)
    with Suc.prems(3) g runs_inD[OF get g] show ?thesis by (auto simp: bind_run gate_verdict_def no_fuel_def)
  next
    case (Inr ks)
    let ?k = "filter_konflux_statuses ks"
    have run: "(case check_statuses ?k of Invoked \<Rightarrow> report_invoked ?k | Failed \<Rightarrow> report_failed ?k | Missing \<Rightarrow>
        bind (monotonic h) (\<lambda>now. if deadline - now \<le> 0 then report_timeout ks else
          seq (print_lines [''  No Konflux statuses yet, retrying in '' @ show_nat interval @ ''s ('' @ show_int (deadline - now) @ ''s remaining)...''])
            (seq (emit (Sleep interval)) (poll_statuses n h get_statuses interval deadline)))) w1 = (r, w')"
      using Suc.prems(3) g Inr by (simp add: bind_run Let_def)
    show ?thesis
    proof (cases "check_statuses ?k")
      case Invoked
      with run have "report_invoked ?k w1 = (r, w')" by simp
      note v = report_results(1)[OF this]
      have "?k \<noteq> [] \<and> filter has_failed ?k = []" using Invoked by (simp add: check_statuses_def split: if_splits)
      with g Inr have "\<exists>w1 w2 ks. get_statuses w1 = (Inr ks, w2) \<and> filter_konflux_statuses ks \<noteq> [] \<and>
         filter has_failed (filter_konflux_statuses ks) = []" by blast
      with v show ?thesis unfolding gate_verdict_def by (cases r) simp_all
    next
      case Failed
      with run have "report_failed ?k w1 = (r, w')" by simp
      from report_results(2)[OF this] show ?thesis by (auto simp: gate_verdict_def split: sum.splits)
    next
      case Missing
      let ?w2 = "snd (ask_host h Clock w1)"
      have m: "monotonic h w1 = (Inr (c (trace w1)), ?w2)" "trace ?w2 = trace w1 @ [Clock]"
        by (simp_all add: monotonic_def bind_run ask_host_run clock(1) ret_def)
      show ?thesis
      proof (cases "deadline - c (trace w1) \<le> 0")
        case True
        with run Missing m have "report_timeout ks ?w2 = (r, w')" by (simp add: bind_run)
        from report_results(3)[OF this] show ?thesis by (auto simp: gate_verdict_def split: sum.splits)
      next
        case False
        define w3 where "w3 = snd (seq (print_lines [''  No Konflux statuses yet, retrying in '' @ show_nat interval @ ''s ('' @
            show_int (deadline - c (trace w1)) @ ''s remaining)...'']) (emit (Sleep interval)) ?w2)"
        have more: "poll_statuses n h get_statuses interval deadline w3 = (r, w')"
          using run Missing m False by (simp add: bind_run seq_run print_lines_def prog_simps emit_def w3_def)
        have "\<exists>l. trace w3 = trace ?w2 @ [Print l, Sleep interval]"
          by (simp add: w3_def seq_run print_lines_def prog_simps emit_def)
        then obtain l where t3: "trace w3 = trace w @ (es @ [Clock, Print l, Sleep interval])" using m(2) es by auto
        have "c (trace w) + int interval \<le> c (trace w3)"
          using clock(2)[of "trace w" "es @ [Clock, Print l, Sleep interval]"] t3 by (simp add: slept_append) (simp add: slept_def)
        moreover have "c (trace w) \<le> c (trace w1)" using clock(2)[of "trace w" es] es by simp
        ultimately have b: "deadline - c (trace w3) \<le> int n * int interval - int interval" "0 < int n * int interval"
          using Suc.prems(2) False by simp_all
        then have "0 < n" by (cases n) auto
        moreover from this b(1) have "deadline - c (trace w3) \<le> int (n - 1) * int interval"
          by (simp add: of_nat_diff left_diff_distrib)
        ultimately show ?thesis using Suc.IH more by blast
      qed
    qed
  qed
qed simp

text \<open>C9: with a clock that runs at least while the script sleeps, the approval gate ends within the
  timeout (\<open>timeout / interval + 2\<close> polls are enough fuel) with status 0, status 1 or an exception of a
  request; and status 0 means that GitLab answered with a Konflux status of the commit and with no
  failed one.\<close>

theorem konflux_gate_ends:
  assumes "ticking h" "0 < interval" "timeout div interval + 2 \<le> fuel"
    and "gate_main fuel h interval timeout w = (r, w')"
  shows "case gate_env_of (environ w) of Inl e \<Rightarrow> r = Inl e
    | Inr g \<Rightarrow> gate_verdict r (get_commit_statuses h (g_url g) (g_project g) (g_sha g) (g_token g))"
proof (cases "gate_env_of (environ w)")
  case (Inl e)
  with assms(4) show ?thesis by (simp add: gate_main_def bind_run gets_run from_sum_def raise_def)
next
  case (Inr g)
  from assms(1) obtain c where c: "\<And>t f. fst (h t Clock f) = Time (c t)" "\<And>t es. c t + int (slept es) \<le> c (t @ es)"
    unfolding ticking_def by blast
  define w1 where "w1 = snd (print_lines [''Checking Konflux pipeline statuses for commit '' @ take 12 (g_sha g) @ ''...''] w)"
  define w2 where "w2 = snd (ask_host h Clock w1)"
  let ?get = "get_commit_statuses h (g_url g) (g_project g) (g_sha g) (g_token g)"
  have run: "poll_statuses fuel h ?get interval (c (trace w1) + int timeout) w2 = (r, w')"
    using assms(4) Inr by (simp add: gate_main_def bind_run seq_run gets_run from_sum_def ret_def print_lines_def prog_simps
        emit_def monotonic_def c(1) w1_def w2_def)
  have "timeout \<le> (timeout div interval + 1) * interval"
    using assms(2) by (metis add.commute dividend_less_times_div less_imp_le mult.commute mult_Suc_right plus_1_eq_Suc)
  also have "\<dots> \<le> (fuel - 1) * interval" using assms(3) by (intro mult_right_mono) auto
  finally have "int timeout \<le> int (fuel - 1) * int interval" by (metis of_nat_le_iff of_nat_mult)
  moreover have "c (trace w1) \<le> c (trace w2)"
    using c(2)[of "trace w1" "[Clock]"] by (simp add: w2_def ask_host_run slept_def)
  ultimately have "c (trace w1) + int timeout - c (trace w2) \<le> int (fuel - 1) * int interval" by simp
  with poll_ends[OF c statuses_run _ this run] assms(3) Inr show ?thesis by simp
qed

definition slow_konflux :: host where
  \<comment> \<open>Konflux posts its status after the first pause\<close>
  "slow_konflux t ev f = (case ev of
     Clock \<Rightarrow> (Time (int (slept t)), f)
   | Http m u hs \<Rightarrow> (JBody (JList (if slept t = 0 then [JObj [(''name'', JStr ''ci'')]]
       else [JObj [(''name'', JStr (KONFLUX_NAME_PREFIX @ '' bash'')), (''status'', JStr ''running'')]])) [], f)
   | _ \<Rightarrow> (NoProgram, f))"

definition gate_world :: world where
  "gate_world = blank\<lparr>environ := [(''CI_PROJECT_ID'', ''1''), (''CHORE_MR_APPROVAL_GITLAB_TOKEN'', ''t''), (''CI_COMMIT_SHA'', ''c0ffee'')]\<rparr>"

theorem konflux_gate_ends_witness:
  "fst (gate_main 4 slow_konflux 60 120 gate_world) = Inr 0 \<and>
   (\<exists>g. gate_env_of (environ gate_world) = Inr g \<and>
      gate_verdict (Inr 0) (get_commit_statuses slow_konflux (g_url g) (g_project g) (g_sha g) (g_token g)))"
proof -
  have "ticking slow_konflux" unfolding ticking_def
    by (intro exI[of _ "\<lambda>t. int (slept t)"]) (simp add: slow_konflux_def slept_append)
  let ?r = "gate_main 4 slow_konflux 60 120 gate_world"
  have ok: "fst ?r = Inr 0" by code_simp
  then have run: "?r = (Inr 0, snd ?r)" by (metis prod.collapse)
  have "\<exists>g. gate_env_of (environ gate_world) = Inr g"
    by (simp add: gate_env_of_def gate_world_def environ_item_def)
  with konflux_gate_ends[OF \<open>ticking slow_konflux\<close> _ _ run] ok show ?thesis by fastforce
qed

end
