(* ===== verification/Upstream_Diff.thy ===== *)
theory Upstream_Diff
  imports Package_Metadata
begin

section \<open>The upstream diff cache\<close>

text \<open>
  \<open>ci/upstream_diff.py\<close>: the cache of classified package diffs and its commands \<open>prepare\<close>, \<open>save\<close>, \<open>view\<close>,
  \<open>jira-template\<close> and \<open>check-prs\<close>. The clock is a question to the host, in whole seconds since the epoch.
  Numbers in Pagure's \<open>closed_at\<close> are whole; a decimal one is reported as no number. \<open>save_cache\<close> writes
  a temporary file and renames it; the model has the file after the rename.
\<close>

definition CACHE_DIR :: path where "CACHE_DIR = ROOT_DIR @ [''.cache'']"
definition CACHE_FILE :: path where "CACHE_FILE = CACHE_DIR @ [''upstream-diff-analysis.json'']"

definition em_dash :: string where "em_dash = [CHR 0xE2, CHR 0x80, CHR 0x94]"

definition VALID_CATEGORIES :: "string list" where
  "VALID_CATEGORIES = [''upstreamable'', ''hummingbird-specific'', ''complex'', ''mixed'', ''no-diff'']"

definition JIRA_BASE_URL :: string where "JIRA_BASE_URL = ''https://redhat.atlassian.net/browse/''"

definition HUMMINGBIRD_RECOMMENDATION_SUFFIX :: string where
  "HUMMINGBIRD_RECOMMENDATION_SUFFIX =
     '' Revisit if Fedora packaging guidelines for derivative macros change, or refactor to avoid the hummingbird macro.''"

definition dquote :: string where "dquote = [CHR 0x22]"

definition CATEGORY_DEFINITIONS :: string where
  "CATEGORY_DEFINITIONS = join [nl] [
     ''### Category 1: Hummingbird-specific '' @ em_dash @ '' do NOT upstream'',
     [],
     ''Changes gated on hummingbird macros. Look for: `%{defined hummingbird}`,'',
     ''`%{?hummingbird}`, `0%{?hummingbird:1}`, `0%{?hummingbird}`. Even if the'',
     ''underlying change is valuable, the macro form cannot currently go upstream'',
     ''as-is. Set hummingbird_macros: true.'',
     [],
     ''Examples: `automake` (gcc-objc gated on `%{?hummingbird}`), `openssl`'',
     ''(FIPS patches gated on `%{defined hummingbird}`).'',
     [],
     ''### Category 2: Clean & upstreamable '' @ em_dash @ '' recommend'',
     [],
     ''Self-contained, portable improvements following Fedora guidelines.'',
     ''Indicators: weakening systemd `Requires:` to `Recommends:`, path'',
     ''portability fixes, `%bcond` toggles for optional features, spec bug'',
     ''fixes. Good for a Fedora dist-git PR.'',
     [],
     ''Examples: `caddy` (removes systemd runtime dep for containers).'',
     [],
     ''### Category 3: Complex / arbitrary '' @ em_dash @ '' do NOT recommend'',
     [],
     ''Environment-specific, will converge naturally, or too complex.'',
     ''Indicators: test tuning, version bumps ahead of Fedora, disabling'',
     ''features for broken buildroot deps, large-scale removal, circular'',
     ''dependency workarounds, pre-existing changes with no clear reason.'',
     [],
     ''Examples: `curl` (test parallelism tuning), `gcc` (disable language'',
     ''frontends), `buildah` (circular dep workaround).'',
     [],
     ''### Mixed-category packages'',
     [],
     ''If changes span categories, list each separately. Use category: '' @ dquote @ ''mixed'' @ dquote @ ''.'',
     ''Note which parts could be upstreamed independently.'',
     [],
     ''### No-diff packages'',
     [],
     ''Package marked modified but diff is empty. Use category: '' @ dquote @ ''no-diff'' @ dquote @ ''.'',
     ''This is distinct from '' @ dquote @ ''clean'' @ dquote @ '' (a metadata state meaning the package'',
     ''was never modified). A no-diff package should be unmarked as modified.'']"

subsection \<open>Time\<close>

definition civil_of_days :: "int \<Rightarrow> int \<times> int \<times> int" where
  \<comment> \<open>year, month and day of a day counted from 1970-01-01, in the Gregorian calendar\<close>
  "civil_of_days days =
     (let z = days + 719468; era = z div 146097; doe = z mod 146097;
          yoe = (doe - doe div 1460 + doe div 36524 - doe div 146096) div 365;
          doy = doe - (365 * yoe + yoe div 4 - yoe div 100); mp = (5 * doy + 2) div 153;
          m = (if mp < 10 then mp + 3 else mp - 9)
      in (yoe + era * 400 + (if m \<le> 2 then 1 else 0), m, doy - (153 * mp + 2) div 5 + 1))"

definition pad2 :: "int \<Rightarrow> string" where
  "pad2 n = (if n < 10 then ''0'' @ show_int n else show_int n)"

definition iso_utc :: "int \<Rightarrow> string" where
  \<comment> \<open>\<open>strftime('%Y-%m-%dT%H:%M:%SZ')\<close>\<close>
  "iso_utc t = (let (y, m, d) = civil_of_days (t div 86400); s = t mod 86400 in
     show_int y @ ''-'' @ pad2 m @ ''-'' @ pad2 d @ ''T'' @ pad2 (s div 3600) @ '':'' @ pad2 (s mod 3600 div 60) @ '':'' @ pad2 (s mod 60) @ ''Z'')"

definition utc_now :: "host \<Rightarrow> int prog" where
  "utc_now h = (bind (ask_host h Clock) (\<lambda>r.
    (case r of Time t \<Rightarrow> ret t | _ \<Rightarrow> raise (OSError ''clock''))))"

subsection \<open>The cache\<close>

definition not_loaded :: "exn \<Rightarrow> bool" where
  \<comment> \<open>\<open>except (FileNotFoundError, json.JSONDecodeError)\<close>\<close>
  "not_loaded e \<longleftrightarrow> is_FileNotFoundError e \<or> e = JSONDecodeError"

definition load_cache :: "dict prog" where
  "load_cache = catch ((bind (json_load CACHE_FILE) (\<lambda>j.
    bind (from_sum (as_dict j)) (\<lambda>d.
    ret (if has_key d ''packages'' then d else dset ''packages'' (JObj []) d)))))
     not_loaded (\<lambda>_. ret [(''packages'', JObj [])])"

definition save_cache :: "host \<Rightarrow> dict \<Rightarrow> unit prog" where
  "save_cache h cache = (seq (mkdir CACHE_DIR) (
    bind (utc_now h) (\<lambda>now.
    write_node CACHE_FILE (JsonN (JObj (dset ''last_updated'' (JStr (iso_utc now)) cache))))))"

definition cached_packages :: "dict \<Rightarrow> exn + dict" where
  "cached_packages cache = (case dget cache ''packages'' of Some j \<Rightarrow> as_dict j | None \<Rightarrow> Inr [])"

definition put_entry :: "string \<Rightarrow> dict \<Rightarrow> dict \<Rightarrow> exn + dict" where
  "put_entry pkg entry cache = map_sum id (\<lambda>ps. dset ''packages'' (JObj (dset pkg (JObj entry) ps)) cache) (cached_packages cache)"

definition cached_entry :: "dict \<Rightarrow> string \<Rightarrow> exn + dict option" where
  "cached_entry cache pkg = (case cached_packages cache of
     Inl e \<Rightarrow> Inl e
   | Inr ps \<Rightarrow> (case dget ps pkg of None \<Rightarrow> Inr None | Some j \<Rightarrow> map_sum id Some (as_dict j)))"

definition get_all_modified_metadata :: "(string \<times> dict) list prog" where
  "get_all_modified_metadata = (bind (glob METADATA_DIR ''.json'') (\<lambda>names.
    foldM (\<lambda>result n. (bind (json_load (METADATA_DIR @ [n])) (\<lambda>j.
      bind (from_sum (as_dict j)) (\<lambda>d.
      ret (if status_is d ''modified'' then dset (stem n) d result else result))))) [] (sort names)))"

subsection \<open>Batches\<close>

definition sha_or_empty :: "dict \<Rightarrow> json" where
  \<comment> \<open>\<open>data.get('sha', '')\<close>\<close>
  "sha_or_empty d = (case dget d ''sha'' of Some v \<Rightarrow> v | None \<Rightarrow> JStr [])"

datatype cache_state = Current | Stale | New

definition state_in_cache :: "dict \<Rightarrow> string \<Rightarrow> dict \<Rightarrow> exn + cache_state" where
  \<comment> \<open>a missing \<open>metadata_sha\<close> is \<open>None\<close>\<close>
  "state_in_cache cache pkg data = map_sum id (\<lambda>e. case e of
       None \<Rightarrow> New
     | Some entry \<Rightarrow> if (case dget entry ''metadata_sha'' of Some v \<Rightarrow> v | None \<Rightarrow> JNull) = sha_or_empty data then Current else Stale)
     (cached_entry cache pkg)"

fun states_of :: "dict \<Rightarrow> (string \<times> dict) list \<Rightarrow> exn + (string \<times> cache_state) list" where
  "states_of cache [] = Inr []"
| "states_of cache ((p, d) # rest) = (case state_in_cache cache p d of
     Inl e \<Rightarrow> Inl e | Inr s \<Rightarrow> map_sum id (Cons (p, s)) (states_of cache rest))"

definition in_state :: "cache_state \<Rightarrow> (string \<times> cache_state) list \<Rightarrow> string list" where
  "in_state s xs = map fst (filter (\<lambda>x. snd x = s) xs)"

record batch_report =
  b_info :: "(string \<times> string) list"
  b_cached :: nat
  b_modified :: nat

definition get_batch :: "(string \<times> dict) list \<Rightarrow> dict \<Rightarrow> int \<Rightarrow> exn + string list \<times> batch_report" where
  \<comment> \<open>stale packages first, then new ones, up to the size; a negative size drops from the end\<close>
  "get_batch metadata cache batch_size = map_sum id (\<lambda>xs.
     (let all = in_state Stale xs @ in_state New xs;
          batch = (if 0 \<le> batch_size then take (nat batch_size) all else take (length all - nat (- batch_size)) all)
      in (batch, \<lparr>b_info = map (\<lambda>p. (p, if p \<in> set (in_state Stale xs) then ''stale'' else ''new'')) batch,
                  b_cached = length (in_state Current xs), b_modified = length xs\<rparr>))) (states_of cache metadata)"

subsection \<open>Upstream pull requests\<close>

definition PAGURE_API_BASE :: string where "PAGURE_API_BASE = ''https://src.fedoraproject.org/api/0/rpms''"
definition PAGURE_WEB_BASE :: string where "PAGURE_WEB_BASE = ''https://src.fedoraproject.org/rpms''"
definition MERGED_PR_MAX_AGE_DAYS :: int where "MERGED_PR_MAX_AGE_DAYS = 90"

definition fetch_pagure_prs :: "host \<Rightarrow> string \<Rightarrow> string \<Rightarrow> json list option prog" where
  \<comment> \<open>\<open>None\<close> when curl fails or prints no JSON\<close>
  "fetch_pagure_prs h package_name status = (let url = PAGURE_API_BASE @ ''/'' @ package_name @ ''/pull-requests?status='' @ status @
      (if status = ''Merged'' then ''&per_page=10'' else []) in
    bind (catch ((bind (run_json h [''curl'', ''--silent'', ''--show-error'', ''--fail'', ''--retry'', ''3'', ''--max-time'', ''10'', url]) (\<lambda>j.
      ret (Some j)))) (\<lambda>e. is_CalledProcessError e \<or> e = JSONDecodeError) (\<lambda>_. ret None)) (\<lambda>answer.
    (case answer of
       None \<Rightarrow> ret None
     | Some j \<Rightarrow> (bind (from_sum (as_dict j)) (\<lambda>d.
       bind (from_sum (case dget d ''requests'' of None \<Rightarrow> Inr [] | Some v \<Rightarrow> as_list v)) (\<lambda>xs.
       ret (Some xs)))))))"

definition closed_before :: "int \<Rightarrow> dict \<Rightarrow> exn + bool" where
  \<comment> \<open>no closing time, or one before the cutoff\<close>
  "closed_before cutoff pr = (case dget pr ''closed_at'' of
     None \<Rightarrow> Inr True | Some JNull \<Rightarrow> Inr True | Some v \<Rightarrow> map_sum id (\<lambda>t. t < cutoff) (json_int v))"

definition get_or :: "dict \<Rightarrow> string \<Rightarrow> json \<Rightarrow> json" where
  "get_or d k dflt = (case dget d k of Some v \<Rightarrow> v | None \<Rightarrow> dflt)"

definition pr_entry :: "string \<Rightarrow> string \<Rightarrow> dict \<Rightarrow> exn + dict" where
  "pr_entry package_name status pr = (case (item (JObj pr) ''id'', item (JObj pr) ''title'', as_dict (get_or pr ''user'' (JObj []))) of
     (Inl e, _) \<Rightarrow> Inl e | (_, Inl e, _) \<Rightarrow> Inl e | (_, _, Inl e) \<Rightarrow> Inl e
   | (Inr i, Inr title, Inr user) \<Rightarrow> Inr [(''id'', i), (''title'', title), (''status'', get_or pr ''status'' (JStr status)),
       (''user'', get_or user ''name'' (JStr ''?'')), (''branch'', get_or pr ''branch'' (JStr ''?'')),
       (''url'', JStr (PAGURE_WEB_BASE @ ''/'' @ package_name @ ''/pull-request/'' @ py_text i))])"

definition prs_of_status :: "host \<Rightarrow> string \<Rightarrow> int \<Rightarrow> string \<Rightarrow> dict list prog" where
  "prs_of_status h package_name cutoff status = (bind (fetch_pagure_prs h package_name status) (\<lambda>raw.
    (case raw of
       None \<Rightarrow> ret []
     | Some xs \<Rightarrow> foldM (\<lambda>prs x. (bind (from_sum (as_dict x)) (\<lambda>pr.
       bind (from_sum (if status = ''Merged'' then closed_before cutoff pr else Inr False)) (\<lambda>old.
       if old then (ret prs) else
       bind (from_sum (pr_entry package_name status pr)) (\<lambda>e.
       ret (prs @ [e])))))) [] xs)))"

definition get_upstream_prs :: "host \<Rightarrow> string \<Rightarrow> string \<Rightarrow> dict list prog" where
  "get_upstream_prs h package_name source_url = (if \<not> contains source_url ''src.fedoraproject.org'' then (ret []) else
    bind (utc_now h) (\<lambda>now.
    let cutoff = now - MERGED_PR_MAX_AGE_DAYS * 86400 in
    bind (prs_of_status h package_name cutoff ''Open'') (\<lambda>open_prs.
    bind (prs_of_status h package_name cutoff ''Merged'') (\<lambda>merged.
    ret (open_prs @ merged)))))"

fun texts :: "dict \<Rightarrow> string list \<Rightarrow> exn + string list" where
  \<comment> \<open>the texts of required keys, in the order they are read\<close>
  "texts d [] = Inr []"
| "texts d (k # ks) = (case item (JObj d) k of Inl e \<Rightarrow> Inl e | Inr v \<Rightarrow> map_sum id (Cons (py_text v)) (texts d ks))"

definition pr_lines :: "bool \<Rightarrow> dict \<Rightarrow> exn + string list" where
  "pr_lines markdown pr = (if markdown
    then map_sum id (\<lambda>ts. [''- [PR #'' @ ts ! 0 @ '': '' @ ts ! 1 @ ''](''@ ts ! 2 @ '') (by '' @ ts ! 3 @ '', -> '' @ ts ! 4 @ '')''])
      (texts pr [''id'', ''title'', ''url'', ''user'', ''branch''])
    else map_sum id (\<lambda>ts. [''  PR #'' @ ts ! 0 @ '': '' @ ts ! 1 @ '' (by '' @ ts ! 2 @ '', -> '' @ ts ! 3 @ '')'', ''    '' @ ts ! 4])
      (texts pr [''id'', ''title'', ''user'', ''branch'', ''url'']))"

definition with_status :: "string \<Rightarrow> dict list \<Rightarrow> dict list" where
  "with_status status prs = filter (\<lambda>p. dget p ''status'' = Some (JStr status)) prs"

fun lines_of :: "bool \<Rightarrow> dict list \<Rightarrow> exn + string list" where
  "lines_of markdown [] = Inr []"
| "lines_of markdown (p # ps) = (case pr_lines markdown p of Inl e \<Rightarrow> Inl e | Inr ls \<Rightarrow> map_sum id ((@) ls) (lines_of markdown ps))"

definition group_lines :: "bool \<Rightarrow> string \<Rightarrow> dict list \<Rightarrow> exn + string list" where
  "group_lines markdown label prs = (if prs = [] then Inr [] else map_sum id (Cons label) (lines_of markdown prs))"

definition format_upstream_prs :: "bool \<Rightarrow> dict list \<Rightarrow> exn + string" where
  "format_upstream_prs markdown prs = (if prs = [] then Inr ''(no open or recently merged PRs)''
     else case group_lines markdown ''Open:'' (with_status ''Open'' prs) of
       Inl e \<Rightarrow> Inl e
     | Inr xs \<Rightarrow> map_sum id (\<lambda>ys. join [nl] (xs @ ys))
         (group_lines markdown ''Recently merged:'' (with_status ''Merged'' prs)))"

definition source_of :: "dict \<Rightarrow> exn + string" where "source_of d = str_get d ''source'' []"

definition resolve_upstream_prs :: "host \<Rightarrow> string \<Rightarrow> int list \<Rightarrow> dict list prog" where
  "resolve_upstream_prs h package pr_ids = (bind (load_package_metadata package) (\<lambda>md.
    bind (from_sum (case md of Some d \<Rightarrow> source_of d | None \<Rightarrow> Inr [])) (\<lambda>source.
    if source = [] then (ret []) else
    bind (get_upstream_prs h package source) (\<lambda>all_prs.
    ret (filter (\<lambda>p. dget p ''id'' \<in> set (map (\<lambda>i. Some (JInt i)) pr_ids)) all_prs)))))"

subsection \<open>Saving\<close>

record save_args =
  sv_package :: string
  sv_category :: string
  sv_summary :: string
  sv_reasoning :: string
  sv_recommendation :: string
  sv_macros :: bool
  sv_jira :: "string option"
  sv_bug :: "string option"
  sv_prs :: "string list"

definition error_exit :: "'a prog" where
  \<comment> \<open>a message on standard error and \<open>sys.exit(1)\<close>\<close>
  "error_exit = raise (SysExit 1 [])"

definition set_in_cache :: "host \<Rightarrow> string \<Rightarrow> (string \<Rightarrow> json prog) \<Rightarrow> string \<Rightarrow> unit prog" where
  \<comment> \<open>one field of an existing entry\<close>
  "set_in_cache h pkg value_of key = (bind load_cache (\<lambda>cache.
    bind (from_sum (cached_packages cache)) (\<lambda>ps.
    if \<not> has_key ps pkg then error_exit else
    bind (value_of pkg) (\<lambda>v.
    bind (from_sum (cached_entry cache pkg)) (\<lambda>e.
    bind (from_sum (put_entry pkg (dset key v (case e of Some d \<Rightarrow> d | None \<Rightarrow> [])) cache)) (\<lambda>cache.
    save_cache h cache))))))"

definition set_jira :: "host \<Rightarrow> string \<Rightarrow> string \<Rightarrow> unit prog" where
  "set_jira h pkg key = set_in_cache h pkg (\<lambda>_. ret (JStr key)) ''jira_issue''"

definition ids_of :: "string list \<Rightarrow> exn + int list" where
  "ids_of xs = foldr (\<lambda>x r. case json_int (JStr x) of Inl e \<Rightarrow> Inl e | Inr i \<Rightarrow> map_sum id (Cons i) r) xs (Inr [])"

definition related_prs :: "host \<Rightarrow> string \<Rightarrow> string list \<Rightarrow> json prog" where
  "related_prs h pkg ids = (bind (from_sum (ids_of ids)) (\<lambda>pr_ids.
    bind (if pr_ids = [] then ret [] else resolve_upstream_prs h pkg pr_ids) (\<lambda>related.
    ret (JList (map JObj related)))))"

definition set_upstream_prs :: "host \<Rightarrow> string \<Rightarrow> string list \<Rightarrow> unit prog" where
  "set_upstream_prs h pkg ids = set_in_cache h pkg (\<lambda>p. related_prs h p ids) ''upstream_prs''"

definition final_recommendation :: "save_args \<Rightarrow> string" where
  "final_recommendation a =
    (let r = sv_recommendation a;
         r = (if sv_category a = ''hummingbird-specific'' \<and> sv_macros a \<and> \<not> contains r (strip HUMMINGBIRD_RECOMMENDATION_SUFFIX)
              then rev (dropWhile (\<lambda>c. c = CHR ''.'') (rev r)) @ ''.'' @ HUMMINGBIRD_RECOMMENDATION_SUFFIX else r)
     in if sv_category a = ''no-diff'' \<and> r = [] then ''Consider unmarking as modified'' else r)"

definition opt_json :: "string option \<Rightarrow> json" where "opt_json v = (case v of Some s \<Rightarrow> JStr s | None \<Rightarrow> JNull)"

definition keep_old :: "string \<Rightarrow> dict \<Rightarrow> dict \<Rightarrow> dict" where
  \<comment> \<open>a field that was not given is taken from the existing entry\<close>
  "keep_old key existing entry = (if dget entry key = Some JNull then dset key (get_or existing key JNull) entry else entry)"

definition save_entry :: "host \<Rightarrow> save_args \<Rightarrow> unit prog" where
  "save_entry h a = (bind (load_package_metadata (sv_package a)) (\<lambda>md.
    (case md of
       None \<Rightarrow> error_exit
     | Some d \<Rightarrow> (bind (related_prs h (sv_package a) (filter (\<lambda>v. v \<noteq> []) (map strip (sv_prs a)))) (\<lambda>prs.
       bind (utc_now h) (\<lambda>now.
       let entry = [(''analyzed_at'', JStr (iso_utc now)), (''metadata_sha'', sha_or_empty d), (''category'', JStr (sv_category a)),
           (''changes_summary'', JStr (sv_summary a)), (''reasoning'', JStr (sv_reasoning a)),
           (''recommendation'', JStr (final_recommendation a)), (''hummingbird_macros'', JBool (sv_macros a)),
           (''jira_issue'', opt_json (sv_jira a)), (''fedora_bug'', opt_json (sv_bug a)), (''upstream_prs'', prs)] in
       bind load_cache (\<lambda>cache.
       bind (from_sum (cached_entry cache (sv_package a))) (\<lambda>old.
       let existing = (case old of Some e \<Rightarrow> e | None \<Rightarrow> []) in
       bind (from_sum (put_entry (sv_package a) (keep_old ''fedora_bug'' existing (keep_old ''jira_issue'' existing entry)) cache)) (\<lambda>cache.
       save_cache h cache)))))))))"

subsection \<open>Preparing\<close>

definition say :: "string list \<Rightarrow> unit prog" where
  "say ls = forM (\<lambda>l. emit (Print l)) ls"

definition get_diff_output :: "host \<Rightarrow> string \<Rightarrow> string option prog" where
  "get_diff_output h package_name = (bind (diff_package h package_name ''full'' False True) (\<lambda>r.
    (case r of DiffNone \<Rightarrow> ret None | DiffText t \<Rightarrow> ret (Some t) | DiffBool _ \<Rightarrow> raise (AssertionError ''Unexpected non-string from diff_package''))))"

definition known_metadata :: "(string \<times> dict) list \<Rightarrow> string \<Rightarrow> (string \<times> dict) list prog" where
  \<comment> \<open>a package that was named must be modified\<close>
  "known_metadata metadata pkg = (if has_key metadata pkg then ret metadata else (bind (load_package_metadata pkg) (\<lambda>md.
    (case md of
        None \<Rightarrow> error_exit
      | Some d \<Rightarrow> if status_is d ''modified'' then ret (dset pkg d metadata) else error_exit))))"

definition forced_state :: "dict \<Rightarrow> (string \<times> dict) list \<Rightarrow> string \<Rightarrow> exn + string" where
  "forced_state cache metadata pkg = map_sum id (\<lambda>s. case s of Current \<Rightarrow> ''cached (forced re-analysis)'' | Stale \<Rightarrow> ''stale'' | New \<Rightarrow> ''new'')
     (state_in_cache cache pkg (case dget metadata pkg of Some d \<Rightarrow> d | None \<Rightarrow> []))"

definition forced_batch :: "dict \<Rightarrow> (string \<times> dict) list \<Rightarrow> string list \<Rightarrow> ((string \<times> dict) list \<times> batch_report) prog" where
  "forced_batch cache metadata packages = (bind (foldM (\<lambda>(m, info) pkg. (bind (known_metadata m pkg) (\<lambda>m.
      bind (from_sum (forced_state cache m pkg)) (\<lambda>s.
      ret (m, dset pkg s info))))) (metadata, []) packages) (\<lambda>(metadata, info).
    bind (from_sum (states_of cache metadata)) (\<lambda>states.
    ret (metadata, \<lparr>b_info = info, b_cached = length (in_state Current states), b_modified = length metadata\<rparr>))))"

definition schema_lines :: "string list" where
  "schema_lines = [[], ''--- CLASSIFICATION SCHEMA ---'', ''For each package, provide ALL of the following fields:'',
     ''  category: upstreamable|hummingbird-specific|complex|mixed|no-diff'', ''  hummingbird_macros: true|false'',
     ''  changes_summary: <one-line summary of what changed>'', ''  reasoning: <why this category>'',
     ''  recommendation: <what to do next>'', [], ''--- CATEGORY DEFINITIONS ---'', CATEGORY_DEFINITIONS, []]"

definition progress_line :: "batch_report \<Rightarrow> string" where
  "progress_line b = ''Progress: '' @ show_nat (b_cached b) @ ''/'' @ show_nat (b_modified b) @ '' cached''"

definition batch_header :: "string list \<Rightarrow> batch_report \<Rightarrow> string list" where
  "batch_header batch b =
     (let n = (\<lambda>s. length (filter (\<lambda>x. snd x = s) (b_info b)));
          forced = length (filter (\<lambda>x. contains (snd x) ''forced'') (b_info b));
          parts = [show_nat (n ''stale'') @ '' stale'', show_nat (n ''new'') @ '' new''] @
            (if forced > 0 then [show_nat forced @ '' forced re-analysis''] else [])
      in [''=== UPSTREAM DIFF ANALYSIS: PREPARE ==='', ''Batch: '' @ show_nat (length batch) @ '' packages ('' @ join '', '' parts @ '')'',
          progress_line b])"

definition field_or_na :: "dict \<Rightarrow> string \<Rightarrow> string" where
  "field_or_na d k = py_text (get_or d k (JStr ''N/A''))"

definition package_header :: "batch_report \<Rightarrow> string \<Rightarrow> dict \<Rightarrow> string list" where
  "package_header b pkg d = [''--- PACKAGE: '' @ pkg @ '' ---'', ''Source: '' @ field_or_na d ''source'', ''Branch: '' @ field_or_na d ''branch'',
     ''SHA: '' @ field_or_na d ''sha'', ''Modification reason: '' @ field_or_na d ''modification_reason'',
     ''Cache status: '' @ (case dget (b_info b) pkg of Some s \<Rightarrow> s | None \<Rightarrow> ''unknown''), []]"

definition diff_lines :: "string option \<Rightarrow> string list" where
  "diff_lines diff = (case diff of
     None \<Rightarrow> [''DIFF: (independent package '' @ em_dash @ '' no upstream)'']
   | Some [] \<Rightarrow> [''DIFF: (empty '' @ em_dash @ '' no differences found)'',
        ''NOTE: This package has no diff. Classify as '' @ dquote @ ''no-diff'' @ dquote @ ''.'']
   | Some t \<Rightarrow> [''DIFF:'', t])"

definition prepare_package :: "host \<Rightarrow> (string \<times> dict) list \<Rightarrow> batch_report \<Rightarrow> string \<Rightarrow> unit prog" where
  "prepare_package h metadata b pkg = (let d = (case dget metadata pkg of Some d \<Rightarrow> d | None \<Rightarrow> []) in
    seq (say (package_header b pkg d)) (
    bind (get_diff_output h pkg) (\<lambda>diff.
    seq (say (diff_lines diff @ [[]])) (
    bind (from_sum (source_of d)) (\<lambda>source.
    whenM (source \<noteq> []) ((bind (get_upstream_prs h pkg source) (\<lambda>prs.
      seq (say [''UPSTREAM PRs:'']) (
      bind (from_sum (format_upstream_prs False prs)) (\<lambda>text.
      say [text, []]))))))))))"

definition cmd_prepare :: "host \<Rightarrow> string list \<Rightarrow> int \<Rightarrow> unit prog" where
  "cmd_prepare h packages batch_size = (bind load_cache (\<lambda>cache.
    bind get_all_modified_metadata (\<lambda>metadata.
    bind (if packages \<noteq> [] then (bind (forced_batch cache metadata packages) (\<lambda>(m, b).
      ret (m, packages, b)))
      else (bind (from_sum (get_batch metadata cache batch_size)) (\<lambda>(batch, b).
        ret (metadata, batch, b)))) (\<lambda>(metadata, batch, b).
    if packages = [] \<and> batch = [] then (say [''All modified packages are already cached and up to date.'', progress_line b]) else
    seq (say (batch_header batch b @ schema_lines)) (
    seq (forM (prepare_package h metadata b) batch) (
    say [''=== END PREPARE ==='' ]))))))"

subsection \<open>Viewing\<close>

definition format_jira_link :: "json \<Rightarrow> bool \<Rightarrow> string" where
  "format_jira_link jira markdown = (if \<not> truthy jira then em_dash
     else if markdown then ''['' @ py_text jira @ ''](''@ JIRA_BASE_URL @ py_text jira @ '')'' else py_text jira)"

definition cached_prs_of :: "dict \<Rightarrow> exn + dict list" where
  "cached_prs_of entry = (case as_list (get_or entry ''upstream_prs'' (JList [])) of
     Inl e \<Rightarrow> Inl e
   | Inr xs \<Rightarrow> foldr (\<lambda>x r. case as_dict x of Inl e \<Rightarrow> Inl e | Inr d \<Rightarrow> map_sum id (Cons d) r) xs (Inr []))"

definition related_line :: "bool \<Rightarrow> dict \<Rightarrow> exn + string" where
  "related_line md pr = (let status = py_text (get_or pr ''status'' (JStr ''?'')) in
     map_sum id (\<lambda>ts. if md then ''  - [PR #'' @ ts ! 0 @ '': '' @ ts ! 1 @ ''](''@ ts ! 2 @ '') ('' @ status @ '')''
       else ''  - PR #'' @ ts ! 0 @ '': '' @ ts ! 1 @ '' ('' @ status @ '') '' @ em_dash @ '' '' @ ts ! 2)
     (texts pr [''id'', ''title'', ''url'']))"

definition entry_head :: "string \<Rightarrow> dict \<Rightarrow> bool \<Rightarrow> string list" where
  "entry_head pkg entry md =
     [''**'' @ pkg @ ''**'', ''- Category: '' @ field_or_na entry ''category'', ''- Summary: '' @ field_or_na entry ''changes_summary'',
      ''- Reasoning: '' @ field_or_na entry ''reasoning'', ''- Recommendation: '' @ field_or_na entry ''recommendation'',
      ''- Hummingbird macros: '' @ py_text (get_or entry ''hummingbird_macros'' (JBool False)),
      ''- JIRA: '' @ format_jira_link (get_or entry ''jira_issue'' JNull) md,
      ''- Fedora bug: '' @ (let v = get_or entry ''fedora_bug'' JNull in if truthy v then py_text v else em_dash)]"

definition entry_tail :: "dict \<Rightarrow> string list" where
  "entry_tail entry = [''- Analyzed: '' @ field_or_na entry ''analyzed_at'', ''- Metadata SHA: '' @ field_or_na entry ''metadata_sha'']"

definition row_cells :: "bool \<Rightarrow> dict \<Rightarrow> exn + string" where
  \<comment> \<open>JIRA issue, number of pull requests and summary of a table row\<close>
  "row_cells md entry = map_sum id (\<lambda>prs. format_jira_link (get_or entry ''jira_issue'' JNull) md @ '' | '' @
     (if prs = [] then em_dash else show_nat (length prs)) @ '' | '' @ py_text (get_or entry ''changes_summary'' (JStr [])) @ '' |'')
     (as_list (get_or entry ''upstream_prs'' (JList [])))"

definition view_one :: "dict \<Rightarrow> string \<Rightarrow> bool \<Rightarrow> bool \<Rightarrow> unit prog" where
  "view_one packages pkg as_json md = (let j = get_or packages pkg JNull in
    if \<not> truthy j then error_exit else
    if as_json then (emit (PrintJson (JObj [(pkg, j)]))) else
    bind (from_sum (as_dict j)) (\<lambda>entry.
    seq (say (entry_head pkg entry md)) (
    bind (from_sum (cached_prs_of entry)) (\<lambda>prs.
    seq (if prs = [] then say [''- Related upstream PRs: '' @ em_dash] else (seq (say [''- Related upstream PRs:'']) (
      forM (\<lambda>pr. (bind (from_sum (related_line md pr)) (\<lambda>l.
        say [l]))) prs))) (
    say (entry_tail entry))))))"

definition view_table :: "dict \<Rightarrow> string list \<Rightarrow> bool \<Rightarrow> bool \<Rightarrow> unit prog" where
  "view_table packages chosen as_json md = (if filter (\<lambda>p. \<not> has_key packages p) chosen \<noteq> [] then error_exit else
    let entry = (\<lambda>p. case dget packages p of Some j \<Rightarrow> j | None \<Rightarrow> JNull) in
    if as_json then (emit (PrintJson (JObj (foldl (\<lambda>d p. dset p (entry p) d) [] chosen)))) else
    seq (say [''**Showing '' @ show_nat (length chosen) @ '' packages**'', ''| Package | Category | JIRA | PRs | Summary |'',
      ''|---------|----------|------|-----|---------|'']) (
    forM (\<lambda>p. (bind (from_sum (as_dict (entry p))) (\<lambda>e.
      bind (from_sum (row_cells md e)) (\<lambda>cells.
      say [''| '' @ p @ '' | '' @ py_text (get_or e ''category'' (JStr ''?'')) @ '' | '' @ cells])))) (sort chosen)))"

definition CATEGORY_GROUPS :: "(string \<times> string) list" where
  \<comment> \<open>the categories in the order of the tables, with their labels\<close>
  "CATEGORY_GROUPS = [(''upstreamable'', ''Upstreamable''), (''mixed'', ''Mixed''), (''hummingbird-specific'', ''Hummingbird-specific''),
     (''complex'', ''Complex''), (''no-diff'', ''No-diff'')]"

definition group_of :: "dict \<Rightarrow> string" where
  \<comment> \<open>an unknown category counts as complex\<close>
  "group_of entry = (case get_or entry ''category'' (JStr ''complex'') of
     JStr c \<Rightarrow> if has_key CATEGORY_GROUPS c then c else ''complex'' | _ \<Rightarrow> ''complex'')"

definition view_group :: "bool \<Rightarrow> string \<Rightarrow> (string \<times> dict) list \<Rightarrow> unit prog" where
  "view_group md label members = (seq (say [nl # ''### '' @ label @ '' ('' @ show_nat (length members) @ '')'']) (
    if members = [] then (say [''(none)'']) else
    seq (say [''| Package | JIRA | PRs | Summary |'', ''|---------|------|-----|---------|'']) (
    forM (\<lambda>(p, e). (bind (from_sum (row_cells md e)) (\<lambda>cells.
      say [''| '' @ p @ '' | '' @ cells]))) members)))"

definition view_unanalyzed :: "dict \<Rightarrow> unit prog" where
  "view_unanalyzed packages = (bind get_all_modified_metadata (\<lambda>all_modified.
    let unanalyzed = sort_key fst (filter (\<lambda>(p, d). \<not> has_key packages p) all_modified) in
    seq (say [nl # ''### Unanalyzed ('' @ show_nat (length unanalyzed) @ '')'']) (
    say (if unanalyzed = [] then [''(none)''] else map (\<lambda>(p, d). let reason = get_or d ''modification_reason'' (JStr []) in
      ''- '' @ p @ (if truthy reason then '': '' @ py_text reason else [])) unanalyzed))))"

definition view_groups :: "dict \<Rightarrow> string option \<Rightarrow> bool \<Rightarrow> bool \<Rightarrow> unit prog" where
  "view_groups packages category show_all md = (bind (mapM (\<lambda>(p, j). (bind (from_sum (as_dict j)) (\<lambda>e.
      ret (p, e)))) (sort_key fst packages)) (\<lambda>entries.
    let groups = map (\<lambda>(c, label). (c, label, filter (\<lambda>(p, e). group_of e = c) entries))
      (case category of None \<Rightarrow> CATEGORY_GROUPS | Some c \<Rightarrow> [(c, case dget CATEGORY_GROUPS c of Some l \<Rightarrow> l | None \<Rightarrow> c)]) in
    seq (say [''**Total cached: '' @ show_nat (length packages) @ '' packages**'',
      join '' | '' (map (\<lambda>(c, label, ms). c @ '': '' @ show_nat (length ms)) groups)]) (
    seq (forM (\<lambda>(c, label, ms). view_group md label ms) groups) (
    whenM show_all (view_unanalyzed packages)))))"

record view_args =
  vw_packages :: "string list"
  vw_json :: bool
  vw_category :: "string option"
  vw_all :: bool
  vw_markdown :: bool

definition cmd_view :: "view_args \<Rightarrow> unit prog" where
  "cmd_view a = (bind load_cache (\<lambda>cache.
    bind (from_sum (cached_packages cache)) (\<lambda>packages.
    (case vw_packages a of
       [p] \<Rightarrow> view_one packages p (vw_json a) (vw_markdown a)
     | p # q # ps \<Rightarrow> view_table packages (p # q # ps) (vw_json a) (vw_markdown a)
     | [] \<Rightarrow> if vw_json a then emit (PrintJson (JObj cache))
         else if packages = [] \<and> \<not> vw_all a then say [''No packages analyzed yet.'']
         else view_groups packages (vw_category a) (vw_all a) (vw_markdown a)))))"

subsection \<open>Templates and pull requests\<close>

definition jira_lines :: "string \<Rightarrow> string \<Rightarrow> string \<Rightarrow> string \<Rightarrow> dict \<Rightarrow> string list" where
  "jira_lines package epic reason diff_text entry =
     [''=== JIRA DESCRIPTION ==='', ''Summary: Consider upstream spec changes for '' @ package, ''Type: Story'', ''Parent: '' @ epic, [],
      ''Body:'', ''## Modification Reason'', [], reason, [], ''## Spec Diff'', [], ''```'', diff_text, ''```'', ''=== END DESCRIPTION ==='', [],
      ''=== JIRA COMMENT ==='', ''## Analysis'', [], ''**Category:** '' @ field_or_na entry ''category'',
      ''**Reasoning:** '' @ field_or_na entry ''reasoning'', ''**Recommendation:** '' @ field_or_na entry ''recommendation'', ''=== END COMMENT ==='']"

definition cmd_jira_template :: "host \<Rightarrow> string \<Rightarrow> string \<Rightarrow> unit prog" where
  "cmd_jira_template h package epic = (bind load_cache (\<lambda>cache.
    bind (from_sum (cached_packages cache)) (\<lambda>packages.
    (case dget packages package of
       None \<Rightarrow> error_exit
     | Some j \<Rightarrow> (bind (load_package_metadata package) (\<lambda>md.
       let reason = (case md of Some d \<Rightarrow> field_or_na d ''modification_reason'' | None \<Rightarrow> ''N/A'') in
       bind (get_diff_output h package) (\<lambda>diff.
       let diff_text = (case diff of None \<Rightarrow> ''(independent package '' @ em_dash @ '' no upstream)''
           | Some [] \<Rightarrow> ''(no differences found)'' | Some t \<Rightarrow> t) in
       bind (from_sum (as_dict j)) (\<lambda>entry.
       seq (say (jira_lines package epic reason diff_text entry)) (
       bind (from_sum (cached_prs_of entry)) (\<lambda>prs.
       whenM (prs \<noteq> []) ((seq (say [[], ''=== JIRA PR COMMENT ==='', ''## Related Upstream PRs'', []]) (
         bind (from_sum (format_upstream_prs True prs)) (\<lambda>text.
         say [text, ''=== END PR COMMENT ==='' ]))))))))))))))"

definition cmd_check_prs :: "host \<Rightarrow> string list \<Rightarrow> unit prog" where
  "cmd_check_prs h packages = forM (\<lambda>pkg. (bind (load_package_metadata pkg) (\<lambda>md.
    (case md of
       None \<Rightarrow> error_exit
     | Some d \<Rightarrow> (bind (from_sum (source_of d)) (\<lambda>source.
       bind (get_upstream_prs h pkg source) (\<lambda>prs.
       seq (say [''=== UPSTREAM PRs: '' @ pkg @ '' ==='']) (
       bind (from_sum (format_upstream_prs False prs)) (\<lambda>text.
       say [text, []]))))))))) packages"

datatype diff_tool_command =
    Prepare "string list" int
  | Save save_args
  | Set_jira string string
  | Set_upstream_prs string "string list"
  | View view_args
  | Jira_template string string
  | Check_prs "string list"

definition valid_save :: "save_args \<Rightarrow> bool" where
  \<comment> \<open>what the argument checks of \<open>save\<close> let through\<close>
  "valid_save a \<longleftrightarrow> sv_package a \<noteq> [] \<and> sv_category a \<in> set VALID_CATEGORIES \<and> sv_summary a \<noteq> [] \<and> sv_reasoning a \<noteq> []"

definition upstream_diff_main :: "host \<Rightarrow> diff_tool_command \<Rightarrow> unit prog" where
  "upstream_diff_main h cmd = (case cmd of
     Prepare packages n \<Rightarrow> cmd_prepare h packages n
   | Save a \<Rightarrow> if valid_save a then save_entry h a else raise (SysExit 2 ''save requires all its arguments'')
   | Set_jira pkg key \<Rightarrow> set_jira h pkg key
   | Set_upstream_prs pkg ids \<Rightarrow> set_upstream_prs h pkg ids
   | View a \<Rightarrow> cmd_view a
   | Jira_template package epic \<Rightarrow> cmd_jira_template h package epic
   | Check_prs packages \<Rightarrow> cmd_check_prs h packages)"

subsection \<open>What saving promises\<close>

definition leaves_files :: "host \<Rightarrow> bool" where
  \<comment> \<open>neither curl nor the clock writes into the checkout\<close>
  "leaves_files h \<longleftrightarrow> (\<forall>t e f. snd (h t e f) = f)"

abbreviation same_files :: "fs \<Rightarrow> world \<Rightarrow> bool" where
  "same_files f \<equiv> (\<lambda>v. files v = f)"

lemma ask_same_files [prog_rules]: "leaves_files h \<Longrightarrow> keeps (same_files f) (ask_host h ev)"
  by (rule keeps_ask_host) (simp add: leaves_files_def)

lemma json_same_files [prog_rules]: "leaves_files h \<Longrightarrow> keeps (same_files f) (run_json h argv)"
  unfolding run_json_def by (intro prog_rules) (auto split: reply.splits intro!: prog_rules)

lemma now_same_files [prog_rules]: "leaves_files h \<Longrightarrow> keeps (same_files f) (utc_now h)"
  unfolding utc_now_def by (intro prog_rules) (auto split: reply.splits intro!: prog_rules)

lemma metadata_same [prog_rules]: "keeps I (load_package_metadata p)"
  unfolding load_package_metadata_def by (intro prog_rules)

lemma prs_same_files [prog_rules]: "leaves_files h \<Longrightarrow> keeps (same_files f) (get_upstream_prs h p s)"
  unfolding get_upstream_prs_def prs_of_status_def fetch_pagure_prs_def by (intro prog_rules)

lemma related_same_files [prog_rules]: "leaves_files h \<Longrightarrow> keeps (same_files f) (related_prs h p ids)"
  unfolding related_prs_def resolve_upstream_prs_def by (intro prog_rules)

lemma load_cache_keeps [prog_rules]: "keeps I load_cache"
  unfolding load_cache_def by (intro prog_rules)

lemma load_cache_world: "load_cache w = (r, w') \<Longrightarrow> w' = w"
  by (rule keepsD[OF load_cache_keeps, of _ _ _ "\<lambda>v. v = w"]) simp_all

lemma metadata_world: "load_package_metadata p w = (r, w') \<Longrightarrow> w' = w"
  by (rule keepsD[OF metadata_same, of _ _ _ _ "\<lambda>v. v = w"]) simp_all

lemma load_cache_files: "files v = files w \<Longrightarrow> load_cache v = (r, v) \<Longrightarrow> load_cache w = (r, w)"
  by (auto simp: load_cache_def json_load_def prog_simps from_sum_def ret_def raise_def
      split: option.splits node.splits sum.splits if_splits)

lemma load_saved:
  "map_of (files w) CACHE_FILE = Some (JsonN (JObj d)) \<Longrightarrow> has_key d ''packages'' \<Longrightarrow> load_cache w = (Inr d, w)"
  by (simp add: load_cache_def json_load_def prog_simps from_sum_def as_dict_def ret_def)

lemma load_cache_packages:
  assumes "load_cache w = (Inr c, w')"
  shows "has_key c ''packages''"
proof -
  have "\<exists>d. c = (if has_key d ''packages'' then d else dset ''packages'' (JObj []) d) \<or> c = [(''packages'', JObj [])]"
    using assms unfolding load_cache_def prog_inr by blast
  then show ?thesis by (elim exE disjE; hypsubst; simp)
qed

lemma put_entry_Inr:
  assumes "put_entry p e c = Inr c'"
  obtains ps where "cached_packages c = Inr ps" "cached_packages c' = Inr (dset p (JObj e) ps)" "has_key c' ''packages''"
proof -
  from assms obtain ps where "cached_packages c = Inr ps" "c' = dset ''packages'' (JObj (dset p (JObj e) ps)) c"
    unfolding put_entry_def map_sum_Inr by blast
  then show thesis by (intro that[of ps]) (simp_all add: cached_packages_def as_dict_def)
qed

lemma put_entry_lookup:
  assumes "put_entry p e c = Inr c'"
  shows "cached_entry c' q = (if q = p then Inr (Some e) else cached_entry c q)"
  using assms by (rule put_entry_Inr) (simp add: cached_entry_def as_dict_def)

lemma save_cache_load:
  assumes h: "leaves_files h" and run: "save_cache h c w = (Inr (), w')" and ps: "has_key c ''packages''"
  shows "\<exists>c'. load_cache w' = (Inr c', w') \<and> cached_entry c' = cached_entry c"
proof -
  obtain n where f: "map_of (files w') CACHE_FILE = Some (JsonN (JObj (dset ''last_updated'' (JStr n) c)))"
    using run by (auto simp: save_cache_def prog_inr write_node_def)
  have "load_cache w' = (Inr (dset ''last_updated'' (JStr n) c), w')"
    by (rule load_saved[OF f]) (use ps in simp)
  moreover have "cached_entry (dset ''last_updated'' (JStr n) c) = cached_entry c"
    by (simp add: cached_entry_def cached_packages_def fun_eq_iff)
  ultimately show ?thesis by blast
qed

definition old_value :: "dict \<Rightarrow> string \<Rightarrow> string \<Rightarrow> json" where
  \<comment> \<open>a field of a package in the cache, \<open>null\<close> when it or the entry is missing\<close>
  "old_value c p k = (case cached_entry c p of Inr (Some e) \<Rightarrow> get_or e k JNull | _ \<Rightarrow> JNull)"

definition given_or :: "string option \<Rightarrow> json \<Rightarrow> json" where
  "given_or v old = (case v of Some s \<Rightarrow> JStr s | None \<Rightarrow> old)"

lemma keep_old_get: "dget (keep_old k old e) k' =
   (if k' = k \<and> dget e k = Some JNull then Some (get_or old k JNull) else dget e k')"
  by (simp add: keep_old_def)

lemma save_entry_effect:
  assumes h: "leaves_files h" and run: "save_entry h a w = (Inr (), w')"
  obtains c d e c' where "load_cache w = (Inr c, w)" "load_package_metadata (sv_package a) w = (Inr (Some d), w)"
    "load_cache w' = (Inr c', w')" "\<And>q. cached_entry c' q = (if q = sv_package a then Inr (Some e) else cached_entry c q)"
    "dget e ''category'' = Some (JStr (sv_category a))" "dget e ''metadata_sha'' = Some (sha_or_empty d)"
    "dget e ''jira_issue'' = Some (given_or (sv_jira a) (old_value c (sv_package a) ''jira_issue''))"
    "dget e ''fedora_bug'' = Some (given_or (sv_bug a) (old_value c (sv_package a) ''fedora_bug''))"
proof -
  let ?p = "sv_package a"
  let ?ids = "filter (\<lambda>v. v \<noteq> []) (map strip (sv_prs a))"
  let ?entry = "\<lambda>d prs now. [(''analyzed_at'', JStr (iso_utc now)), (''metadata_sha'', sha_or_empty d), (''category'', JStr (sv_category a)),
           (''changes_summary'', JStr (sv_summary a)), (''reasoning'', JStr (sv_reasoning a)),
           (''recommendation'', JStr (final_recommendation a)), (''hummingbird_macros'', JBool (sv_macros a)),
           (''jira_issue'', opt_json (sv_jira a)), (''fedora_bug'', opt_json (sv_bug a)), (''upstream_prs'', prs)]"
  obtain md w1 where md: "load_package_metadata ?p w = (Inr md, w1)"
    using run unfolding save_entry_def prog_inr by blast
  have w1: "w1 = w" using md by (rule metadata_world)
  obtain d where d: "md = Some d"
    using run unfolding save_entry_def bind_Inr by (cases md) (use md in \<open>auto simp: error_exit_def step_Inr\<close>)
  obtain prs w2 now w3 c w4 old c1 where
    prs: "related_prs h ?p ?ids w = (Inr prs, w2)" and now: "utc_now h w2 = (Inr now, w3)"
    and c: "load_cache w3 = (Inr c, w4)" and old: "cached_entry c ?p = Inr old"
    and c1: "put_entry ?p (keep_old ''fedora_bug'' (case old of Some e \<Rightarrow> e | None \<Rightarrow> [])
               (keep_old ''jira_issue'' (case old of Some e \<Rightarrow> e | None \<Rightarrow> []) (?entry d prs now))) c = Inr c1"
    and save: "save_cache h c1 w4 = (Inr (), w')"
    using run md w1 d by (auto simp: save_entry_def prog_inr Let_def)
  have f: "files w3 = files w"
    by (rule keepsD[OF now_same_files[OF h] now]) (rule keepsD[OF related_same_files[OF h] prs], simp)
  have w4: "w4 = w3" using c by (rule load_cache_world)
  have load: "load_cache w = (Inr c, w)" by (rule load_cache_files[OF f]) (use c w4 in simp)
  have ps: "has_key c1 ''packages''" using c1 by (rule put_entry_Inr)
  obtain c' where c': "load_cache w' = (Inr c', w')" "cached_entry c' = cached_entry c1"
    using save_cache_load[OF h save ps] by blast
  show thesis
    by (rule that[of c d c' "keep_old ''fedora_bug'' (case old of Some e \<Rightarrow> e | None \<Rightarrow> [])
               (keep_old ''jira_issue'' (case old of Some e \<Rightarrow> e | None \<Rightarrow> []) (?entry d prs now))", OF load _ c'(1)])
      (use md w1 d old in \<open>simp_all add: c'(2) put_entry_lookup[OF c1] keep_old_get opt_json_def given_or_def old_value_def
         get_or_def split: option.splits\<close>)
qed

lemma states_of_Inr:
  "states_of c md = Inr xs \<Longrightarrow> (p, s) \<in> set xs \<Longrightarrow> \<exists>d. (p, d) \<in> set md \<and> state_in_cache c p d = Inr s"
proof (induction md arbitrary: xs)
  case (Cons e rest)
  obtain q d where e: "e = (q, d)" by (cases e)
  from Cons.prems(1) e obtain s' ys where s': "state_in_cache c q d = Inr s'" "states_of c rest = Inr ys" "xs = (q, s') # ys"
    by (auto simp: map_sum_Inr split: sum.splits)
  show ?case
  proof (cases "(p, s) \<in> set ys")
    case True
    with Cons.IH[OF s'(2)] e show ?thesis by auto
  next
    case False
    with Cons.prems(2) s' e show ?thesis by auto
  qed
qed simp

lemma get_batch_pending:
  assumes "get_batch md c n = Inr (batch, b)" "p \<in> set batch"
  obtains d s where "(p, d) \<in> set md" "state_in_cache c p d = Inr s" "s \<noteq> Current"
proof -
  obtain xs where xs: "states_of c md = Inr xs" "set batch \<subseteq> set (in_state Stale xs @ in_state New xs)"
    using assms(1) by (auto simp: get_batch_def map_sum_Inr Let_def simp del: take_append set_append
      intro: subsetD[OF set_take_subset] split: if_splits)
  then obtain s where "(p, s) \<in> set xs" "s \<noteq> Current"
    using assms(2) by (fastforce simp: in_state_def)
  then show thesis using states_of_Inr[OF xs(1)] that by blast
qed

lemma current_not_in_batch:
  assumes "state_in_cache c p d = Inr Current" "dget md p = Some d" "distinct (map fst md)"
    "get_batch md c n = Inr (batch, b)"
  shows "p \<notin> set batch"
proof
  assume "p \<in> set batch"
  with assms(4) obtain d' s where d': "(p, d') \<in> set md" "state_in_cache c p d' = Inr s" "s \<noteq> Current"
    by (rule get_batch_pending)
  then have "d' = d" using assms(2,3) by (metis map_of_eq_Some_iff option.inject)
  with d' assms(1) show False by simp
qed

text \<open>C18: Saving a classification is remembered. After \<open>save\<close> returned, the cache on disk holds an entry for the package
  with the category that was given; the JIRA issue and the Fedora bug are those that were given or, when they were not,
  those of the entry before; the entries of all other packages are unchanged; and no later \<open>prepare\<close> puts the package
  into a batch of any size for as long as the metadata it was saved for is its metadata.\<close>

theorem saved_entry_remembered:
  assumes "leaves_files h" "save_entry h a w = (Inr (), w')"
  shows "\<exists>c d e c'. load_cache w = (Inr c, w) \<and> load_package_metadata (sv_package a) w = (Inr (Some d), w) \<and>
    load_cache w' = (Inr c', w') \<and>
    (\<forall>q. cached_entry c' q = (if q = sv_package a then Inr (Some e) else cached_entry c q)) \<and>
    dget e ''category'' = Some (JStr (sv_category a)) \<and>
    dget e ''jira_issue'' = Some (given_or (sv_jira a) (old_value c (sv_package a) ''jira_issue'')) \<and>
    dget e ''fedora_bug'' = Some (given_or (sv_bug a) (old_value c (sv_package a) ''fedora_bug'')) \<and>
    (\<forall>md n batch b. dget md (sv_package a) = Some d \<longrightarrow> distinct (map fst md) \<longrightarrow>
       get_batch md c' n = Inr (batch, b) \<longrightarrow> sv_package a \<notin> set batch)"
proof -
  from assms obtain c d c' e where eff: "load_cache w = (Inr c, w)" "load_package_metadata (sv_package a) w = (Inr (Some d), w)"
    "load_cache w' = (Inr c', w')" "\<And>q. cached_entry c' q = (if q = sv_package a then Inr (Some e) else cached_entry c q)"
    "dget e ''category'' = Some (JStr (sv_category a))" "dget e ''metadata_sha'' = Some (sha_or_empty d)"
    "dget e ''jira_issue'' = Some (given_or (sv_jira a) (old_value c (sv_package a) ''jira_issue''))"
    "dget e ''fedora_bug'' = Some (given_or (sv_bug a) (old_value c (sv_package a) ''fedora_bug''))"
    by (rule save_entry_effect) (rule that)
  have "state_in_cache c' (sv_package a) d = Inr Current" using eff(4,6) by (simp add: state_in_cache_def)
  then have "\<forall>md n batch b. dget md (sv_package a) = Some d \<longrightarrow> distinct (map fst md) \<longrightarrow>
       get_batch md c' n = Inr (batch, b) \<longrightarrow> sv_package a \<notin> set batch"
    using current_not_in_batch by blast
  with eff show ?thesis by (intro exI[of _ c] exI[of _ d] exI[of _ e] exI[of _ c']) simp
qed

definition demo_host :: host where
  \<comment> \<open>a clock, and a server that cannot be reached\<close>
  "demo_host t ev f = (case ev of Clock \<Rightarrow> Time 1700000000 | _ \<Rightarrow> Exit 6 [] [], f)"

definition demo_world :: world where
  "demo_world = blank\<lparr>files := [(METADATA_DIR @ [''jq.json''], JsonN (JObj [(''sha'', JStr ''abc''),
       (''source'', JStr ''https://src.fedoraproject.org/rpms/jq.git''), (''modification_status'', JStr ''modified'')])),
     (CACHE_FILE, JsonN (JObj [(''packages'', JObj [(''jq'', JObj [(''metadata_sha'', JStr ''old''), (''jira_issue'', JStr ''HUM-1''),
        (''upstream_prs'', JList [JObj [(''id'', JInt 4)]])])])]))]\<rparr>"

definition demo_save :: save_args where
  "demo_save = \<lparr>sv_package = ''jq'', sv_category = ''complex'', sv_summary = ''tests'', sv_reasoning = ''tuning'',
     sv_recommendation = [], sv_macros = False, sv_jira = None, sv_bug = None, sv_prs = []\<rparr>"

lemma demo_leaves_files: "leaves_files demo_host"
  by (simp add: leaves_files_def demo_host_def)

theorem saved_entry_remembered_witness:
  "\<exists>w' c d e c'. save_entry demo_host demo_save demo_world = (Inr (), w') \<and> load_cache w' = (Inr c', w') \<and>
     load_cache demo_world = (Inr c, demo_world) \<and> cached_entry c' ''jq'' = Inr (Some e) \<and>
     dget e ''jira_issue'' = Some (old_value c ''jq'' ''jira_issue'')"
proof -
  let ?r = "save_entry demo_host demo_save demo_world"
  have "fst ?r = Inr ()" by code_simp
  then have run: "?r = (Inr (), snd ?r)" by (metis prod.collapse)
  from saved_entry_remembered[OF demo_leaves_files run] run show ?thesis
    by (auto simp: demo_save_def given_or_def)
qed

subsection \<open>When the server cannot be reached\<close>

definition unreachable :: "host \<Rightarrow> bool" where
  \<comment> \<open>every program fails, as curl does without a connection\<close>
  "unreachable h \<longleftrightarrow> (\<forall>t argv cwd f. \<exists>n out err. n \<noteq> 0 \<and> fst (h t (Proc argv cwd) f) = Exit n out err)"

lemma unreachable_run_json:
  "unreachable h \<Longrightarrow> \<exists>n err w'. run_json h argv w = (Inl (CalledProcessError n err), w')"
  unfolding unreachable_def
  by (drule spec[of _ "trace w"], drule spec[of _ argv], drule spec[of _ ROOT_DIR], drule spec[of _ "files w"])
    (auto simp: run_json_def bind_run ask_host_run completed_of_def from_sum_def raise_def)

lemma unreachable_fetch:
  assumes "unreachable h" shows "\<exists>w'. fetch_pagure_prs h p st w = (Inr None, w')"
proof -
  have "\<exists>n err w'. run_json h argv w = (Inl (CalledProcessError n err), w')" for argv
    by (rule unreachable_run_json[OF assms])
  then obtain n err w' where "run_json h [''curl'', ''--silent'', ''--show-error'', ''--fail'', ''--retry'', ''3'', ''--max-time'', ''10'',
      PAGURE_API_BASE @ ''/'' @ p @ ''/pull-requests?status='' @ st @ (if st = ''Merged'' then ''&per_page=10'' else [])] w
    = (Inl (CalledProcessError n err), w')" by blast
  then show ?thesis
    by (auto simp: fetch_pagure_prs_def Let_def bind_run catch_run ret_def is_CalledProcessError_def)
qed

lemma unreachable_status:
  assumes "unreachable h" "prs_of_status h p c st w = (Inr prs, w')" shows "prs = []"
  using unreachable_fetch[OF assms(1), of p st w] assms(2)
  by (auto simp: prs_of_status_def bind_run ret_def)

lemma unreachable_prs:
  assumes u: "unreachable h" and run: "get_upstream_prs h p src w = (Inr prs, w')" shows "prs = []"
  using run by (auto simp: get_upstream_prs_def prog_inr if_Inr Let_def dest: unreachable_status[OF u] split: if_splits)

lemma unreachable_related:
  assumes u: "unreachable h" and run: "related_prs h p ids w = (Inr v, w')" shows "v = JList []"
proof -
  obtain pr_ids related where v: "v = JList (map JObj related)" and
    "(if pr_ids = [] then ret [] else resolve_upstream_prs h p pr_ids) w = (Inr related, w')"
    using run by (auto simp: related_prs_def prog_inr)
  then have "related = []"
    by (auto simp: resolve_upstream_prs_def prog_inr if_Inr dest: unreachable_prs[OF u] split: if_splits)
  with v show ?thesis by simp
qed

text \<open>A failed request erases the links. When the server cannot be reached, \<open>save --set-upstream-prs\<close> returns as if it had
  succeeded and the pull requests that the entry held are replaced by the empty list, whatever ids were given.\<close>

lemma unreachable_erases_links:
  assumes "leaves_files h" "unreachable h" "set_upstream_prs h pkg ids w = (Inr (), w')"
  shows "\<exists>c' e. load_cache w' = (Inr c', w') \<and> cached_entry c' pkg = Inr (Some e) \<and> dget e ''upstream_prs'' = Some (JList [])"
proof -
  obtain c v w1 old c1 w2 where v: "related_prs h pkg ids w1 = (Inr v, w2)"
    and c1: "put_entry pkg (dset ''upstream_prs'' v (case old of Some d \<Rightarrow> d | None \<Rightarrow> [])) c = Inr c1"
    and save: "save_cache h c1 w2 = (Inr (), w')"
    using assms(3) by (auto simp: set_upstream_prs_def set_in_cache_def error_exit_def prog_inr if_Inr split: if_splits)
  have "v = JList []" by (rule unreachable_related[OF assms(2) v])
  moreover have "has_key c1 ''packages''" using c1 by (rule put_entry_Inr)
  then obtain c' where "load_cache w' = (Inr c', w')" "cached_entry c' = cached_entry c1"
    using save_cache_load[OF assms(1) save] by blast
  ultimately show ?thesis using put_entry_lookup[OF c1, of pkg] by auto
qed

end
