(* ===== verification/Cve_Spec.thy ===== *)
theory Cve_Spec
  imports Release_Bump
begin

section \<open>CVE triage: versions and spec files\<close>

text \<open>
  \<open>.cursor/skills/cve/lib/spec.py\<close> and the normalizers of \<open>utils.py\<close>: reading the version of a package
  from its spec file, comparing versions, affected ranges and fixed versions, the verdict of
  \<open>version_check_payload\<close>, and the release bump the assistant proposes or writes. Letters and digits are
  ASCII; a byte that is no UTF-8 is kept where the code puts a replacement character.
\<close>

subsection \<open>Reading\<close>

definition pkg_dir :: "string \<Rightarrow> path" where "pkg_dir package = ROOT_DIR @ [''rpms'', package]"

definition spec_of :: "string \<Rightarrow> path" where "spec_of package = pkg_dir package @ [package @ ''.spec'']"

definition read_replace :: "path \<Rightarrow> string prog" where
  \<comment> \<open>\<open>read_text(encoding='utf-8', errors='replace')\<close>\<close>
  "read_replace p = (\<lambda>w. case map_of (files w) p of
      Some (BinN s) \<Rightarrow> (Inr s, w)
    | _ \<Rightarrow> read_text p w)"

definition normalize_nvr :: "string \<Rightarrow> string" where
  "normalize_nvr nvr = removesuffix (last_component (strip nvr)) ''.src.rpm''"

definition extract_vendor_field :: "string \<Rightarrow> string \<Rightarrow> string" where
  \<comment> \<open>\<open>^\s{2}FIELD:\s*(.+)$\<close>, MULTILINE\<close>
  "extract_vendor_field block fld =
     (case re_search (Seq [Bol True, Rep 2 Space, Lit fld, Chr CHR '':'', Star True Space, Grp 1 (Plus True Dot), Eol True]) block of
        Some m \<Rightarrow> strip (group m 1) | None \<Rightarrow> [])"

definition uses_vendored_deps :: "string \<Rightarrow> bool prog" where
  "uses_vendored_deps package = exists (pkg_dir package @ [''go-vendor-tools.toml''])"

subsection \<open>Spec macros\<close>

definition no_brace :: rx where "no_brace = Cls (\<lambda>c. c \<noteq> CHR ''{'' \<and> c \<noteq> CHR ''}'')"

definition macro_body :: rx where
  \<comment> \<open>text with at most one level of braces, as group 2\<close>
  "macro_body = Grp 2 (Seq [Star True no_brace,
     Star True (Seq [Chr CHR ''{'', Star True no_brace, Chr CHR ''}'', Star True no_brace])])"

definition unless_macro_re :: rx where
  "unless_macro_re = Seq [Lit ''%{!?'', Grp 1 (Plus True Word), Chr CHR '':'', macro_body, Chr CHR ''}'']"

definition if_macro_re :: rx where
  "if_macro_re = Seq [Lit ''%{?'', Grp 1 (Plus True Word), Chr CHR '':'', macro_body, Chr CHR ''}'']"

definition opt_macro_re :: rx where
  "opt_macro_re = Seq [Lit ''%{?'', Grp 1 (Plus True Word), Chr CHR ''}'']"

definition plain_macro_re :: rx where
  "plain_macro_re = Seq [Lit ''%{'', Grp 1 (Plus True Word), Chr CHR ''}'']"

definition expand_once :: "(string \<times> string) list \<Rightarrow> string \<Rightarrow> string" where
  "expand_once macros value =
     (let value = re_sub unless_macro_re (\<lambda>m. if has_key macros (group m 1) then [] else group m 2) value;
          value = re_sub if_macro_re (\<lambda>m. if has_key macros (group m 1) then group m 2 else []) value;
          value = re_sub opt_macro_re (\<lambda>m. case dget macros (group m 1) of Some v \<Rightarrow> v | None \<Rightarrow> []) value
      in re_sub plain_macro_re (\<lambda>m. case dget macros (group m 1) of Some v \<Rightarrow> v | None \<Rightarrow> group m 0) value)"

fun expand_rounds :: "nat \<Rightarrow> (string \<times> string) list \<Rightarrow> string \<Rightarrow> string" where
  "expand_rounds 0 macros value = value"
| "expand_rounds (Suc n) macros value =
     (let value' = expand_once macros value in if value' = value then value' else expand_rounds n macros value')"

definition MAX_MACRO_EXPANSIONS :: nat where "MAX_MACRO_EXPANSIONS = 10"

definition expand_macros :: "string \<Rightarrow> (string \<times> string) list \<Rightarrow> string" where
  "expand_macros value macros = expand_rounds MAX_MACRO_EXPANSIONS macros value"

definition section_re :: rx where
  \<comment> \<open>the first section header ends the preamble\<close>
  "section_re = Seq [Bol True, Chr CHR ''%'',
     AltL (map Lit [''description'', ''package'', ''prep'', ''build'', ''install'', ''files'', ''changelog'']), WordB]"

definition preamble_of :: "string \<Rightarrow> string" where
  "preamble_of text = (case search_from section_re [] text of Some (m, pre, _) \<Rightarrow> rev pre | None \<Rightarrow> text)"

definition macro_line_re :: rx where
  "macro_line_re = Seq [Bol True, Chr CHR ''%'', AltL [Lit ''global'', Lit ''define''], Plus True Space,
     Grp 1 (Plus True Word), Plus True Space, Grp 2 (Plus True Dot), Eol True]"

definition spec_macros :: "string \<Rightarrow> (string \<times> string) list" where
  "spec_macros preamble = foldl (\<lambda>ms m. dset (group m 1) (strip (group m 2)) ms) [] (re_finditer macro_line_re preamble)"

definition field_re :: "string \<Rightarrow> rx" where
  \<comment> \<open>\<open>^FIELD:\s*(.+)$\<close>, MULTILINE and IGNORECASE\<close>
  "field_re fld = Seq [Bol True, LitCI fld, Chr CHR '':'', Star True Space, Grp 1 (Plus True Dot), Eol True]"

definition get_field :: "string \<Rightarrow> string \<Rightarrow> string" where
  "get_field preamble fld = (case re_search (field_re fld) preamble of Some m \<Rightarrow> strip (group m 1) | None \<Rightarrow> [])"

definition nvr_of_text :: "string \<Rightarrow> string" where
  "nvr_of_text text =
     (let preamble = preamble_of text; macros = spec_macros preamble;
          name = expand_macros (get_field preamble ''Name'') macros;
          version = expand_macros (get_field preamble ''Version'') macros
      in if name = [] \<or> version = [] then []
         else (let release = expand_macros (get_field preamble ''Release'') (dset ''version'' version macros) in
               if release \<noteq> [] then name @ ''-'' @ version @ ''-'' @ release else name @ ''-'' @ version))"

definition read_local_spec_nvr :: "string \<Rightarrow> string prog" where
  "read_local_spec_nvr package = (bind (is_file (spec_of package)) (\<lambda>b.
    if \<not> b then (ret []) else
    bind (read_replace (spec_of package)) (\<lambda>text.
    ret (nvr_of_text text))))"

definition dist_field_re :: rx where
  \<comment> \<open>\<open>^(.*)%\{\??dist\}(.*)$\<close>\<close>
  "dist_field_re = Seq [Bol False, Grp 1 (Star True Dot), dist_macro_re, Grp 2 (Star True Dot), Eol False]"

definition release_before_dist :: "string \<Rightarrow> string" where
  "release_before_dist raw = (case re_search dist_field_re raw of Some m \<Rightarrow> strip (group m 1) | None \<Rightarrow> raw)"

definition release_of_text :: "string \<Rightarrow> (string \<times> bool) option" where
  "release_of_text text = (case re_search (field_re ''Release'') (preamble_of text) of
       None \<Rightarrow> None
     | Some m \<Rightarrow> (let raw = strip (group m 1) in
         Some (release_before_dist raw, contains (lower raw) ''%autorelease'' \<or> contains (lower raw) ''%{autorelease}'')))"

definition read_spec_release_before_dist :: "string \<Rightarrow> (string \<times> bool) prog" where
  "read_spec_release_before_dist package = (bind (is_file (spec_of package)) (\<lambda>b.
    if \<not> b then (raise (RuntimeError (''Spec not found: '' @ join ''/'' (spec_of package)))) else
    bind (read_replace (spec_of package)) (\<lambda>text.
    (case release_of_text text of
       None \<Rightarrow> raise (RuntimeError (''No Release: line in '' @ join ''/'' (spec_of package)))
     | Some r \<Rightarrow> ret r))))"

subsection \<open>References in specs and patches\<close>

definition mentions_any :: "string list \<Rightarrow> string \<Rightarrow> bool" where
  \<comment> \<open>\<open>re.compile('|'.join(...), re.IGNORECASE).search\<close>\<close>
  "mentions_any cve_ids text = (re_search (AltL (map LitCI cve_ids)) text \<noteq> None)"

fun any_mentions :: "string list \<Rightarrow> path list \<Rightarrow> bool prog" where
  "any_mentions cve_ids [] = ret False"
| "any_mentions cve_ids (p # ps) = (bind (is_file p) (\<lambda>b.
  if \<not> b then (any_mentions cve_ids ps) else
  bind (read_replace p) (\<lambda>text.
  if mentions_any cve_ids text then (ret True) else
  any_mentions cve_ids ps)))"

definition search_cve_in_spec_and_patches :: "string \<Rightarrow> string list \<Rightarrow> bool prog" where
  "search_cve_in_spec_and_patches package cve_ids = (bind (is_dir (pkg_dir package)) (\<lambda>b.
    if \<not> b \<or> cve_ids = [] then (ret False) else
    bind (glob (pkg_dir package) ''.patch'') (\<lambda>patches.
    any_mentions cve_ids (spec_of package # map (\<lambda>n. pkg_dir package @ [n]) (sort patches)))))"

datatype dep_kind = Bundled_provides | Component_mention

record dep_hit =
  kind :: dep_kind
  line_no :: nat
  dep_text :: string
  bundled_name :: string
  bundled_version :: string

definition BUNDLED_PROVIDES_RE :: rx where
  \<comment> \<open>\<open>^\s*Provides:\s*bundled\(([^)]+)\)(?:\s*=\s*(\S+))?\<close>, IGNORECASE\<close>
  "BUNDLED_PROVIDES_RE = Seq [Bol False, Star True Space, LitCI ''Provides:'', Star True Space, LitCI ''bundled'', Chr CHR ''('',
     Grp 1 (Plus True (Cls (\<lambda>c. c \<noteq> CHR '')''))), Chr CHR '')'',
     Opt (Seq [Star True Space, Chr CHR ''='', Star True Space, Grp 2 (Plus True (Cls (\<lambda>c. \<not> is_ws c)))])]"

definition mentions :: "string \<Rightarrow> string \<Rightarrow> bool" where
  "mentions component s = (re_search (LitCI component) s \<noteq> None)"

definition probe_line :: "string \<Rightarrow> nat \<times> string \<Rightarrow> dep_hit list" where
  "probe_line component nl_line = (let (i, line) = nl_line in
     case re_search BUNDLED_PROVIDES_RE line of
       Some m \<Rightarrow>
         (if component = [] \<or> mentions component (group m 1) \<or> mentions component line
          then [\<lparr>kind = Bundled_provides, line_no = i, dep_text = strip line, bundled_name = group m 1, bundled_version = group m 2\<rparr>]
          else [])
     | None \<Rightarrow>
         (if component \<noteq> [] \<and> mentions component line
          then [\<lparr>kind = Component_mention, line_no = i, dep_text = strip line, bundled_name = [], bundled_version = []\<rparr>] else []))"

definition probe_spec_deps :: "string \<Rightarrow> string \<Rightarrow> dep_hit list prog" where
  "probe_spec_deps package component = (bind (is_file (spec_of package)) (\<lambda>b.
    if \<not> b then (raise (RuntimeError (''Spec not found: '' @ join ''/'' (spec_of package)))) else
    bind (read_replace (spec_of package)) (\<lambda>t.
    let lines = splitlines t in
    ret (concat (map (probe_line component) (zip [1..<length lines + 1] lines))))))"

definition dep_hit_line :: "dep_hit \<Rightarrow> string" where
  "dep_hit_line hit = (let b = kind hit = Bundled_provides;
      extra = (if b then '' bundled='' @ bundled_name hit @ (if bundled_version hit \<noteq> [] then ''='' @ bundled_version hit else []) else [])
    in show_nat (line_no hit) @ '':'' @ (if b then ''bundled_provides'' else ''component_mention'') @ extra @ '': '' @ dep_text hit)"

definition print_spec_deps :: "string \<Rightarrow> string \<Rightarrow> dep_hit list \<Rightarrow> unit prog" where
  "print_spec_deps package component hits = forM (\<lambda>l. emit (Print l))
    ([''Spec: '' @ join ''/'' (spec_of package)] @ (if component \<noteq> [] then [''Component: '' @ component] else []) @
     [''Hits: '' @ show_nat (length hits)] @ (if hits = [] then [''(no matches)''] else map dep_hit_line hits))"

subsection \<open>Versions\<close>

definition rsplit2 :: "string \<Rightarrow> string list" where
  \<comment> \<open>\<open>s.rsplit('-', 2)\<close>\<close>
  "rsplit2 s = (let parts = split_on CHR ''-'' s; n = length parts in
     if n > 2 then [join ''-'' (take (n - 2) parts), parts ! (n - 2), parts ! (n - 1)] else parts)"

definition split_nvr :: "string \<Rightarrow> string \<times> string \<times> string" where
  "split_nvr nvr = (let cleaned = normalize_nvr nvr in if cleaned = [] then ([], [], []) else
     (case rsplit2 cleaned of [n, v, r] \<Rightarrow> (n, v, r) | [n, v] \<Rightarrow> (n, v, []) | _ \<Rightarrow> (cleaned, [], [])))"

definition CVE_PRERELEASE_RE :: rx where
  \<comment> \<open>\<open>(\d)[-._~]?(dev|alpha|beta|preview|pre|rc)(?![a-zA-Z_])\.?(\d*)\<close>, IGNORECASE\<close>
  "CVE_PRERELEASE_RE = Seq [Grp 1 Digit, Opt (Cls (\<lambda>c. c \<in> set ''-._~'')),
     Grp 2 (AltL (map LitCI [''dev'', ''alpha'', ''beta'', ''preview'', ''pre'', ''rc''])),
     NotAhead (\<lambda>c. is_alpha c \<or> c = CHR ''_''), Opt (Chr CHR ''.''), Grp 3 (Star True Digit)]"

definition PRERELEASE_RANK :: "(string \<times> nat) list" where
  "PRERELEASE_RANK = [(''dev'', 0), (''alpha'', 1), (''beta'', 2), (''pre'', 3), (''preview'', 3), (''rc'', 4)]"

definition numbers_of :: "string \<Rightarrow> nat list" where
  \<comment> \<open>\<open>re.findall(r'\d+', s)\<close> as numbers\<close>
  "numbers_of s = map (\<lambda>m. parse_nat (group m 0)) (re_finditer (Plus True Digit) s)"

definition version_suffix :: "rmatch \<Rightarrow> nat list" where
  "version_suffix m = [0, case dget PRERELEASE_RANK (lower (group m 2)) of Some r \<Rightarrow> r | None \<Rightarrow> 0,
     if group m 3 \<noteq> [] then parse_nat (group m 3) else 0]"

definition parse_version_key :: "string \<Rightarrow> (nat list \<times> nat list) option" where
  "parse_version_key value = (let text = dropWhile (\<lambda>c. c \<in> set ''vV'') (strip value) in
     if list_all (\<lambda>c. \<not> is_digit c) text then None
     else (let (release_text, suffix) = (case search_from CVE_PRERELEASE_RE [] text of
              Some (m, pre, _) \<Rightarrow> (take (length pre + 1) text, version_suffix m) | None \<Rightarrow> (text, [1]));
            nums = numbers_of release_text
           in if nums = [] then None else Some (nums, suffix)))"

definition version_major :: "string \<Rightarrow> nat option" where
  "version_major value = (case parse_version_key value of Some (n # _, _) \<Rightarrow> Some n | _ \<Rightarrow> None)"

definition key_less :: "nat list \<times> nat list \<Rightarrow> nat list \<times> nat list \<Rightarrow> bool" where
  \<comment> \<open>\<open><\<close> on pairs of tuples\<close>
  "key_less a b \<longleftrightarrow> fst a < fst b \<or> fst a = fst b \<and> snd a < snd b"

definition version_cmp :: "string \<Rightarrow> string \<Rightarrow> int option" where
  "version_cmp l r = (case (parse_version_key l, parse_version_key r) of
     (Some a, Some b) \<Rightarrow> Some (if key_less a b then -1 else if key_less b a then 1 else 0) | _ \<Rightarrow> None)"

subsection \<open>Affected ranges\<close>

definition version_token :: "nat \<Rightarrow> rx" where
  \<comment> \<open>\<open>(v?\d[\w.*+-]*)\<close>, IGNORECASE, as a group\<close>
  "version_token n = Grp n (Seq [Opt (ChrCI CHR ''v''), Digit, Star True (Cls (\<lambda>c. is_word c \<or> c \<in> set ''.*+-''))])"

definition span_re :: rx where
  \<comment> \<open>\<open>V\s+through\s+V\<close>\<close>
  "span_re = Seq [version_token 1, Plus True Space, LitCI ''through'', Plus True Space, version_token 2]"

definition op_re :: rx where
  \<comment> \<open>\<open>(?:^|[\s,])(<=|>=|<|>|=|before|prior\s+to|through)\s+V\<close>\<close>
  "op_re = Seq [Alt (Bol False) (Cls (\<lambda>c. is_ws c \<or> c = CHR '','')),
     Grp 1 (AltL [Lit ''<='', Lit ''>='', Lit ''<'', Lit ''>'', Lit ''='', LitCI ''before'',
       Seq [LitCI ''prior'', Plus True Space, LitCI ''to''], LitCI ''through'']),
     Plus True Space, version_token 2]"

definition op_of :: "string \<Rightarrow> string" where
  "op_of raw = (let r = re_sub (Plus True Space) (\<lambda>_. '' '') (lower raw) in
     case dget [(''before'', ''<''), (''prior to'', ''<''), (''through'', ''<='')] r of Some o' \<Rightarrow> o' | None \<Rightarrow> r)"

type_synonym version_bound = "string \<times> string"

definition parse_affected_constraints :: "string \<Rightarrow> version_bound list" where
  "parse_affected_constraints affected = (let text = strip affected in if text = [] then [] else
     concat (map (\<lambda>m. [(''>='', group m 1), (''<='', group m 2)]) (re_finditer span_re text)) @
     map (\<lambda>m. (op_of (group m 1), group m 2)) (re_finditer op_re (re_sub span_re (\<lambda>_. '' '') text)))"

definition op_holds :: "string \<Rightarrow> (int \<Rightarrow> bool) option" where
  "op_holds op = dget [(''<'', (\<lambda>c. c < 0)), (''<='', (\<lambda>c. c \<le> 0)), (''>'', (\<lambda>c. c > 0)), (''>='', (\<lambda>c. c \<ge> 0)), (''='', (\<lambda>c. c = 0))] op"

fun satisfies_all :: "string \<Rightarrow> version_bound list \<Rightarrow> bool option" where
  "satisfies_all version [] = Some True"
| "satisfies_all version ((op, b) # cs) = (case op_holds op of
     None \<Rightarrow> None
   | Some pred \<Rightarrow> (case version_cmp version b of
       None \<Rightarrow> None
     | Some c \<Rightarrow> if \<not> pred c then Some False else satisfies_all version cs))"

definition version_satisfies :: "string \<Rightarrow> version_bound list \<Rightarrow> bool option" where
  "version_satisfies version constraints = (if constraints = [] then None else satisfies_all version constraints)"

function split_from :: "rx \<Rightarrow> string \<Rightarrow> string \<Rightarrow> string \<Rightarrow> string list" where
  \<comment> \<open>the pieces between matches, with the present piece (reversed)\<close>
  "split_from r acc b a = (case first_match r b a of
      Some (m, b', a') \<Rightarrow>
        if length a' < length a then rev acc # split_from r [] b' a'
        else (case a of [] \<Rightarrow> [rev acc, []] | x # xs \<Rightarrow> rev acc # split_from r [x] (x # b) xs)
    | None \<Rightarrow> (case a of [] \<Rightarrow> [rev acc] | x # xs \<Rightarrow> split_from r (x # acc) (x # b) xs))"
  by pat_completeness auto
termination
  by (relation "measure (\<lambda>(r, acc, b, a). length a)") auto

declare split_from.simps [simp del]

definition re_split :: "rx \<Rightarrow> string \<Rightarrow> string list" where
  "re_split r s = split_from r [] [] s"

definition or_re :: rx where
  "or_re = Seq [Plus True Space, LitCI ''or'', Plus True Space]"

definition split_or_branches :: "string \<Rightarrow> string list" where
  "split_or_branches text = (if text = [] then [] else
     filter (\<lambda>p. p \<noteq> []) (map strip (re_split (Alt or_re (Chr CHR '';'')) text)))"

definition split_fixed_versions :: "string \<Rightarrow> string list" where
  "split_fixed_versions text = (if text = [] then [] else
     map strip (filter (\<lambda>t. strip t \<noteq> [] \<and> list_ex is_digit t)
       (re_split (Alt or_re (Plus True (Cls (\<lambda>c. c \<in> set '',;'' \<or> is_ws c)))) text)))"

fun satisfies_any :: "string \<Rightarrow> bool \<Rightarrow> version_bound list list \<Rightarrow> bool option" where
  "satisfies_any version any_unknown [] = (if any_unknown then None else Some False)"
| "satisfies_any version any_unknown (cs # rest) = (case version_satisfies version cs of
     Some True \<Rightarrow> Some True
   | None \<Rightarrow> satisfies_any version True rest
   | Some False \<Rightarrow> satisfies_any version any_unknown rest)"

definition version_satisfies_any :: "string \<Rightarrow> version_bound list list \<Rightarrow> bool option" where
  "version_satisfies_any version branches = (if branches = [] then None else satisfies_any version False branches)"

definition select_fixed_for_version :: "string \<Rightarrow> string \<Rightarrow> string" where
  "select_fixed_for_version fixed version = (case split_fixed_versions fixed of
       [] \<Rightarrow> []
     | [v] \<Rightarrow> v
     | vs \<Rightarrow> (let target = version_major version in
         case find (\<lambda>c. target \<noteq> None \<and> version_major c = target) vs of Some c \<Rightarrow> c | None \<Rightarrow> []))"

definition cve_id_re :: rx where
  "cve_id_re = Seq [Bol False, LitCI ''CVE-'', Rep 4 Digit, Chr CHR ''-'', Rep 4 Digit,
     Opt (Sq Digit (Opt (Sq Digit (Opt (Sq Digit (Opt Digit)))))), Eol False]"

definition nvr_re :: rx where
  \<comment> \<open>\<open>\b([A-Za-z0-9+_.-]+-\d[\w.+]*-\d[\w.+]*)(?:\.src\.rpm)?\b\<close>\<close>
  "nvr_re = (let tail = Sq Digit (Star True (Cls (\<lambda>c. is_word c \<or> c = CHR ''.'' \<or> c = CHR ''+''))) in
     Seq [WordB, Grp 1 (Seq [Plus True (Cls (\<lambda>c. is_alpha c \<or> is_digit c \<or> c \<in> set ''+_.-'')), Chr CHR ''-'', tail, Chr CHR ''-'', tail]),
       Opt (Lit ''.src.rpm''), WordB])"

definition extract_analysis_nvr :: "string \<Rightarrow> string" where
  "extract_analysis_nvr block =
     (case filter (\<lambda>v. v \<noteq> []) (map (extract_vendor_field block) [''Hummingbird SRPM version'', ''Hummingbird NVR'', ''NVR'']) of
        v # _ \<Rightarrow> normalize_nvr v
      | [] \<Rightarrow> (case filter (\<lambda>c. re_match cve_id_re c = None) (map (\<lambda>m. group m 1) (re_finditer nvr_re block)) of
          c # _ \<Rightarrow> normalize_nvr c | [] \<Rightarrow> []))"

subsection \<open>The version check\<close>

definition component_version_re :: rx where
  \<comment> \<open>\<open>(?<!\w)v?(\d[\w.+~-]*)(?=\s|$)\<close>; what follows the match is no other character than white space\<close>
  "component_version_re = Seq [NotBehind is_word, Opt (Chr CHR ''v''),
     Grp 1 (Sq Digit (Star True (Cls (\<lambda>c. is_word c \<or> c \<in> set ''.+~-'')))), NotAhead (\<lambda>c. \<not> is_ws c)]"

definition provided_version :: "string \<Rightarrow> dep_hit list \<Rightarrow> string option" where
  "provided_version wanted hits = map_option bundled_version
     (find (\<lambda>h. kind h = Bundled_provides \<and> bundled_version h \<noteq> [] \<and> contains (lower (bundled_name h)) wanted) hits)"

definition analysed_version :: "string \<Rightarrow> string option" where
  "analysed_version block = (case concat (map (\<lambda>f. case re_search component_version_re (extract_vendor_field block f) of
       Some m \<Rightarrow> [group m 1] | None \<Rightarrow> []) [''Component version'', ''Bundled version'']) of v # _ \<Rightarrow> Some v | [] \<Rightarrow> None)"

definition is_RuntimeError :: "exn \<Rightarrow> bool" where
  "is_RuntimeError e = (case e of RuntimeError _ \<Rightarrow> True | NotImplementedError _ \<Rightarrow> True | _ \<Rightarrow> False)"

definition resolve_component_version :: "string \<Rightarrow> string \<Rightarrow> string \<Rightarrow> (string \<times> string) prog" where
  "resolve_component_version package component analysis_block = (let wanted = lower (strip component) in
    if wanted = [] then (ret ([], [])) else
    bind (catch (probe_spec_deps package wanted) is_RuntimeError (\<lambda>_. ret [])) (\<lambda>hits.
    ret (case provided_version wanted hits of
       Some v \<Rightarrow> (v, ''spec_provides'')
     | None \<Rightarrow> (case analysed_version analysis_block of Some v \<Rightarrow> (v, ''analysis'') | None \<Rightarrow> ([], [])))))"

record version_query =
  q_package :: string
  q_local_nvr :: string
  q_fib :: string
  q_affected :: string
  q_fixed :: string
  q_analysis_nvr :: string
  q_component :: string
  q_block :: string

record version_check =
  p_local_nvr :: string
  p_local_version :: string
  p_component :: string
  p_compare :: string
  p_source :: string
  p_comparable :: bool
  p_fib :: string
  p_fib_version :: string
  p_analysis_nvr :: string
  p_selected :: string
  vs_fixed :: string
  vs_affected :: string
  p_hint :: string
  p_note :: string

definition against_fixed :: "bool \<Rightarrow> string \<Rightarrow> string \<Rightarrow> string" where
  "against_fixed comparable compare selected = (if comparable \<and> compare \<noteq> [] \<and> selected \<noteq> [] then
     (case version_cmp compare selected of None \<Rightarrow> ''unknown'' | Some c \<Rightarrow> if c < 0 then ''below'' else ''at_or_above'') else [])"

definition branches_of :: "string \<Rightarrow> version_bound list list" where
  "branches_of affected = filter (\<lambda>c. c \<noteq> []) (map parse_affected_constraints (split_or_branches affected))"

definition against_affected :: "bool \<Rightarrow> string \<Rightarrow> version_bound list list \<Rightarrow> string" where
  "against_affected comparable compare branches = (if comparable \<and> compare \<noteq> [] \<and> branches \<noteq> [] then
     (case version_satisfies_any compare branches of None \<Rightarrow> ''unknown'' | Some True \<Rightarrow> ''in_range'' | Some False \<Rightarrow> ''not_in_range'') else [])"

definition hint_of :: "bool \<Rightarrow> string \<Rightarrow> string \<Rightarrow> string \<Rightarrow> string" where
  "hint_of comparable fixed_v affected_v selected =
     (if \<not> comparable then ''non_comparable''
      else if fixed_v = ''at_or_above'' \<and> affected_v = ''in_range'' then ''conflicting_signals''
      else if fixed_v = ''at_or_above'' then ''possibly_at_or_above_fix''
      else if affected_v = ''in_range'' \<and> selected = [] then ''in_range_no_fix_for_branch''
      else if fixed_v = ''below'' \<or> affected_v = ''in_range'' then ''possibly_below_fix''
      else if affected_v = ''not_in_range'' then ''possibly_not_in_affected_range''
      else ''unknown'')"

definition note_of :: "bool \<Rightarrow> string \<Rightarrow> string \<Rightarrow> string" where
  "note_of comparable component hint =
     (if \<not> comparable then ''No version resolved for component '' @ [CHR 0x27] @ component @ [CHR 0x27] @
        ''; not comparable. Refusing to compare the parent RPM version against a component-specific CVE range. Add a bundled Provides or confirm the component is not present.''
      else if hint = ''conflicting_signals'' then
        ''vs_fixed is at_or_above but vs_affected is still in_range (broad CVE range that includes the fix version). Do not treat this as below-fix; use upstream-fix-age before Done-Errata.''
      else ''Do not conclude Done-Errata from versions alone; use upstream-fix-age for the fix commit vs tag date.'')"

definition nvr_version :: "string \<Rightarrow> string" where
  "nvr_version nvr = (if nvr = [] then [] else fst (snd (split_nvr nvr)))"

definition compared_version :: "version_query \<Rightarrow> string \<Rightarrow> string \<Rightarrow> (string \<times> string \<times> bool) prog" where
  \<comment> \<open>the version to compare, its source, and whether there is one for the component\<close>
  "compared_version q component local_version = (if component = [] then
       ret (local_version, (if local_version \<noteq> [] then ''parent_rpm'' else []), True)
     else (bind (resolve_component_version (q_package q) component (q_block q)) (\<lambda>(resolved, evidence).
       ret (if resolved \<noteq> [] then (resolved, evidence, True) else ([], [], False)))))"

definition version_check_payload :: "version_query \<Rightarrow> version_check prog" where
  "version_check_payload q = (bind (if q_local_nvr q = [] then read_local_spec_nvr (q_package q) else ret (q_local_nvr q)) (\<lambda>local_nvr.
    let local_version = nvr_version local_nvr in
    let fib_nvr = (if q_fib q \<noteq> [] then normalize_nvr (q_fib q) else []) in
    let component = strip (q_component q) in
    bind (compared_version q component local_version) (\<lambda>(compare, source, comparable).
    let selected = (if q_fixed q \<noteq> [] then select_fixed_for_version (q_fixed q) compare else []) in
    let fixed_v = against_fixed comparable compare selected in
    let affected_v = against_affected comparable compare (branches_of (q_affected q)) in
    let hint = hint_of comparable fixed_v affected_v selected in
    ret \<lparr>p_local_nvr = local_nvr, p_local_version = local_version, p_component = component, p_compare = compare, p_source = source,
      p_comparable = comparable, p_fib = fib_nvr, p_fib_version = nvr_version fib_nvr,
      p_analysis_nvr = (if q_analysis_nvr q \<noteq> [] then normalize_nvr (q_analysis_nvr q) else []),
      p_selected = selected, vs_fixed = fixed_v, vs_affected = affected_v, p_hint = hint, p_note = note_of comparable component hint\<rparr>)))"

subsection \<open>Release bumps\<close>

definition cve_bump_release :: "string \<Rightarrow> string option \<Rightarrow> string" where
  "cve_bump_release current_release upstream_release =
     (if upstream_release \<noteq> None \<and> upstream_release \<noteq> Some [] \<and> the upstream_release = current_release then current_release @ ''.1''
      else (case re_match dot_number_re current_release of
          Some m \<Rightarrow> group m 1 @ ''.'' @ show_nat (parse_nat (group m 2) + 1)
        | None \<Rightarrow> current_release @ ''.1''))"

definition metadata_path :: "string \<Rightarrow> path" where
  "metadata_path package = METADATA_DIR @ [package @ ''.json'']"

definition read_package_metadata :: "string \<Rightarrow> dict prog" where
  "read_package_metadata package = (bind (is_file (metadata_path package)) (\<lambda>b.
    if \<not> b then (raise (RuntimeError (''Metadata not found: '' @ join ''/'' (metadata_path package)))) else
    bind (catch (json_load (metadata_path package)) (\<lambda>e. e = JSONDecodeError)
      (\<lambda>_. raise (RuntimeError (''Invalid JSON in '' @ join ''/'' (metadata_path package))))) (\<lambda>j.
    (case j of JObj d \<Rightarrow> ret d
     | _ \<Rightarrow> raise (RuntimeError (''Metadata '' @ join ''/'' (metadata_path package) @ '' is not an object''))))))"

record release_bump =
  rb_package :: string
  rb_status :: json
  rb_metadata_release :: string
  rb_spec_release :: string
  rb_autorelease :: bool
  rb_proposed :: string
  rb_writes :: bool
  rb_hint :: string

definition text_or_empty :: "dict \<Rightarrow> string \<Rightarrow> string" where
  \<comment> \<open>\<open>str(d.get(k) or '')\<close>\<close>
  "text_or_empty d k = (case dget d k of Some v \<Rightarrow> if truthy v then py_text v else [] | None \<Rightarrow> [])"

definition release_bump_payload :: "string \<Rightarrow> release_bump prog" where
  "release_bump_payload package = (bind (read_package_metadata package) (\<lambda>metadata.
    let metadata_release = text_or_empty metadata ''release'' in
    bind (read_spec_release_before_dist package) (\<lambda>(spec_release, auto_release).
    let proposed = (if auto_release \<or> spec_release = [] then []
      else cve_bump_release spec_release (if metadata_release \<noteq> [] then Some metadata_release else None)) in
    let hint = (if auto_release then ''spec uses %autorelease; resolve it before a .N bump (see documentation/operating/rebuilding-packages.md)''
      else if spec_release = [] then ''could not parse spec Release:'' else ''print only; do not write the spec or metadata release'') in
    ret \<lparr>rb_package = package,
      rb_status = (case dget metadata ''modification_status'' of Some v \<Rightarrow> if truthy v then v else JStr [] | None \<Rightarrow> JStr []),
      rb_metadata_release = metadata_release, rb_spec_release = spec_release, rb_autorelease = auto_release,
      rb_proposed = proposed, rb_writes = False, rb_hint = hint\<rparr>)))"

definition whole_release_re :: rx where
  \<comment> \<open>\<open>^Release:\s*.+$\<close>, MULTILINE and IGNORECASE\<close>
  "whole_release_re = Seq [Bol True, LitCI ''Release:'', Star True Space, Plus True Dot, Eol True]"

definition release_line :: "string \<Rightarrow> rmatch \<Rightarrow> string" where
  \<comment> \<open>the new line: everything from the first percent sign of the old one is kept\<close>
  "release_line proposed m = ''Release:        '' @ proposed @ dropWhile (\<lambda>c. c \<noteq> CHR ''%'') (group m 0)"

definition with_release :: "string \<Rightarrow> string \<Rightarrow> string" where
  \<comment> \<open>\<open>re.subn(..., count=1)\<close>\<close>
  "with_release proposed text = sub_from whole_release_re (release_line proposed) (Some 1) [] text"

definition apply_release_bump :: "string \<Rightarrow> release_bump prog" where
  "apply_release_bump package = (bind (release_bump_payload package) (\<lambda>payload.
    if rb_proposed payload = [] \<or> rb_autorelease payload then (ret payload) else
    bind (is_file (spec_of package)) (\<lambda>b.
    if \<not> b then (ret payload) else
    bind (read_text (spec_of package)) (\<lambda>text.
    if re_search whole_release_re text = None then (ret payload) else
    seq (write_text (spec_of package) (with_release (rb_proposed payload) text)) (
    ret (payload\<lparr>rb_writes := True, rb_hint := ''updated '' @ package @ ''.spec Release to '' @ rb_proposed payload\<rparr>))))))"

subsection \<open>What the patterns find\<close>

lemma star_run_cls:
  "\<exists>rest. star_run True (runs (Cls p)) (b, a, c) = (rev (takeWhile p a) @ b, dropWhile p a, c) # rest"
proof (induction a arbitrary: b)
  case Nil
  show ?case by (subst star_run.simps) simp
next
  case (Cons x xs)
  show ?case
  proof (cases "p x")
    case True
    from Cons.IH[of "x # b"] obtain rest where
      "star_run True (runs (Cls p)) (x # b, xs, c) = (rev (takeWhile p xs) @ x # b, dropWhile p xs, c) # rest" by blast
    with True show ?thesis by (subst star_run.simps) (simp add: ahead_def)
  next
    case False
    then show ?thesis by (subst star_run.simps) simp
  qed
qed

lemma first_match_plus:
  "first_match (Plus True (Cls p)) b a = (if a \<noteq> [] \<and> p (hd a)
     then Some ([(0, takeWhile p a)], rev (takeWhile p a) @ b, dropWhile p a) else None)"
proof (cases a)
  case (Cons x xs)
  obtain rest where r: "star_run True (runs (Cls p)) (x # b, xs, []) = (rev (takeWhile p xs) @ x # b, dropWhile p xs, []) # rest"
    using star_run_cls[of p "x # b" xs "[]"] by blast
  have t: "take (length (x # xs) - length (dropWhile p xs)) (x # xs) = x # takeWhile p xs" if "p x"
  proof -
    have "x # xs = (x # takeWhile p xs) @ dropWhile p xs" by simp
    moreover have "length (x # xs) - length (dropWhile p xs) = length (x # takeWhile p xs)"
      by (metis add_diff_cancel_right' calculation length_append)
    ultimately show ?thesis by (metis append_eq_conv_conj)
  qed
  show ?thesis using Cons r t by (simp add: first_match_def Plus_def)
qed (simp add: first_match_def Plus_def)

function digit_runs :: "string \<Rightarrow> string list" where
  \<comment> \<open>the maximal runs of digits of a text\<close>
  "digit_runs a = (if a = [] then [] else if is_digit (hd a) then takeWhile is_digit a # digit_runs (dropWhile is_digit a)
     else digit_runs (tl a))"
  by pat_completeness auto
termination
proof (relation "measure length")
  fix a :: string assume "a \<noteq> []" "is_digit (hd a)"
  then show "(dropWhile is_digit a, a) \<in> measure length"
    by (cases a) (auto simp: le_imp_less_Suc length_dropWhile_le)
qed auto
declare digit_runs.simps [simp del]

lemma find_digits: "find_from (Plus True Digit) b a = map (\<lambda>s. [(0, s)]) (digit_runs a)"
proof (induction a arbitrary: b rule: digit_runs.induct)
  case (1 a)
  show ?case
  proof (cases "a \<noteq> [] \<and> is_digit (hd a)")
    case True
    then have "length (dropWhile is_digit a) < length a" by (cases a) (auto simp: le_imp_less_Suc length_dropWhile_le)
    with True 1 show ?thesis
      by (subst find_from.simps, subst digit_runs.simps) (simp add: Digit_def first_match_plus)
  next
    case False
    with 1 show ?thesis
      by (subst find_from.simps, subst digit_runs.simps) (auto simp: Digit_def first_match_plus split: list.splits)
  qed
qed

lemma numbers_of_runs: "numbers_of s = map parse_nat (digit_runs s)"
  by (simp add: numbers_of_def re_finditer_def find_digits group_def)

lemma search_from_skip:
  assumes "\<And>u v st'. u @ v = p \<Longrightarrow> v \<noteq> [] \<Longrightarrow> \<not> rmatches r (rev u @ b, v @ a, []) st'"
  shows "search_from r b (p @ a) = search_from r (rev p @ b) a"
  using assms
proof (induction p arbitrary: b)
  case (Cons x p)
  have "first_match r b (x # p @ a) = None"
    unfolding first_match_None using Cons.prems[of "[]" "x # p"] by simp
  moreover have "search_from r (x # b) (p @ a) = search_from r (rev p @ x # b) a"
    by (rule Cons.IH) (use Cons.prems[of "x # u" for u] in simp)
  ultimately show ?case by simp
qed simp

subsection \<open>Dotted versions and their pre-releases\<close>

definition dotted :: "nat list \<Rightarrow> string" where "dotted ns = join ''.'' (map show_nat ns)"

lemma digit_runs_number:
  assumes "s = [] \<or> \<not> is_digit (hd s)"
  shows "digit_runs (show_nat n @ s) = show_nat n # digit_runs s"
proof -
  have d: "\<And>c. c \<in> set (show_nat n) \<Longrightarrow> is_digit c" using show_nat_digits by blast
  have "takeWhile is_digit (show_nat n @ s) = show_nat n" "dropWhile is_digit (show_nat n @ s) = s"
    using d assms by (cases s; simp add: takeWhile_append dropWhile_append)+
  moreover have "is_digit (hd (show_nat n @ s))" "show_nat n @ s \<noteq> []"
    using d[of "hd (show_nat n)"] by simp_all
  ultimately show ?thesis by (subst digit_runs.simps) simp
qed

lemma digit_runs_skip: "\<not> is_digit x \<Longrightarrow> digit_runs (x # s) = digit_runs s"
  by (subst digit_runs.simps) simp

lemma numbers_dotted: "numbers_of (dotted ns) = ns"
proof (induction ns)
  case Nil
  then show ?case by (simp add: numbers_of_runs dotted_def digit_runs.simps)
next
  case (Cons n ns)
  show ?case
  proof (cases ns)
    case Nil
    then show ?thesis using digit_runs_number[of "[]" n] by (simp add: numbers_of_runs dotted_def digit_runs.simps)
  next
    case (Cons m ms)
    have "dotted (n # ns) = show_nat n @ CHR ''.'' # dotted ns" using Cons by (simp add: dotted_def)
    then show ?thesis using Cons.IH digit_runs_number[of "CHR ''.'' # dotted ns" n]
      by (simp add: numbers_of_runs digit_runs_skip is_digit_def)
  qed
qed

lemma dotted_chars: "c \<in> set (dotted ns) \<Longrightarrow> is_digit c \<or> c = CHR ''.''"
proof (induction ns)
  case (Cons n ns)
  then show ?case using show_nat_digits[of n] by (cases ns) (auto simp: dotted_def)
qed (simp add: dotted_def)

lemma dotted_last: "ns \<noteq> [] \<Longrightarrow> dotted ns \<noteq> [] \<and> is_digit (last (dotted ns))"
proof (induction ns)
  case (Cons n ns)
  then show ?case using show_nat_digits[of n] by (cases ns) (auto simp: dotted_def)
qed simp

lemma lower_char_alpha: "lower_char x = c \<Longrightarrow> is_lower c \<Longrightarrow> is_alpha x"
  by (auto simp: lower_char_def is_alpha_def split: if_splits)

lemma rm_ChrCI: "rmatches (ChrCI c) (b, a, cs) st' \<longleftrightarrow> (\<exists>x a'. a = x # a' \<and> lower_char x = lower_char c \<and> st' = (x # b, a', cs))"
  by (auto simp: ChrCI_def)

definition tag_rx :: rx where "tag_rx = AltL (map LitCI [''dev'', ''alpha'', ''beta'', ''preview'', ''pre'', ''rc''])"

lemma letters: "is_lower (lower_char CHR ''d'')" "is_lower (lower_char CHR ''a'')" "is_lower (lower_char CHR ''b'')"
  "is_lower (lower_char CHR ''p'')" "is_lower (lower_char CHR ''r'')"
  by code_simp+

lemma tag_first: "rmatches tag_rx (b, a, c) st' \<Longrightarrow> \<exists>z t. a = z # t \<and> is_alpha z"
  by (auto simp: tag_rx_def rm_ChrCI intro: lower_char_alpha letters)

lemma pre_needs:
  assumes "rmatches CVE_PRERELEASE_RE (b, a, c) st'"
  shows "\<exists>x y t. a = x # y # t \<and> (is_alpha y \<or> y \<in> set ''-._~'' \<and> (\<exists>z t'. t = z # t' \<and> is_alpha z))"
  using assms unfolding CVE_PRERELEASE_RE_def tag_rx_def[symmetric]
  by (auto simp: Opt_def Digit_def dest!: tag_first)

lemma digit_not_alpha: "is_digit c \<or> c = CHR ''.'' \<Longrightarrow> \<not> is_alpha c"
  by (auto simp: is_digit_def is_alpha_def is_upper_def is_lower_def Let_def)

lemma no_tag:
  assumes chars: "\<forall>c \<in> set v. is_digit c \<or> c = CHR ''.''" and len: "length v \<ge> 2" and last: "is_digit (last v)"
  shows "\<not> rmatches CVE_PRERELEASE_RE (b, v @ s, c) st'"
proof
  assume "rmatches CVE_PRERELEASE_RE (b, v @ s, c) st'"
  from pre_needs[OF this] obtain x y t where a: "v @ s = x # y # t" "is_alpha y \<or> y \<in> set ''-._~'' \<and> (\<exists>z t'. t = z # t' \<and> is_alpha z)"
    by (elim exE conjE)
  moreover obtain x' y' ws where "v = x' # y' # ws"
    using len by (metis One_nat_def Suc_1 Suc_le_length_iff)
  ultimately have v: "v = x # y # ws" "t = ws @ s" by simp_all
  have y: "\<not> is_alpha y" using chars v(1) by (intro digit_not_alpha) simp
  with a(2) obtain z t' where z: "y \<in> set ''-._~''" "t = z # t'" "is_alpha z" by blast
  show False
  proof (cases ws)
    case Nil
    with v(1) last z(1) show False by (auto simp: is_digit_def)
  next
    case (Cons q qs)
    with v z(2) have "z \<in> set v" by simp
    then have "\<not> is_alpha z" using chars by (intro digit_not_alpha) blast
    with z(3) show False by simp
  qed
qed

lemma digit_lower: "is_digit e \<Longrightarrow> lower_char e = e"
  by (auto simp: lower_char_def is_upper_def is_digit_def Let_def)

lemma digit_not: "is_digit e \<Longrightarrow> \<not> is_alpha e \<and> e \<noteq> CHR ''_'' \<and> e \<noteq> CHR ''.'' \<and> e \<noteq> CHR ''v''"
  by (auto simp: is_digit_def is_alpha_def is_upper_def is_lower_def Let_def)

lemma lowers: "lower_char CHR ''d'' = CHR ''d''" "lower_char CHR ''e'' = CHR ''e''" "lower_char CHR ''v'' = CHR ''v''"
  "lower_char CHR ''a'' = CHR ''a''" "lower_char CHR ''l'' = CHR ''l''" "lower_char CHR ''p'' = CHR ''p''" "lower_char CHR ''h'' = CHR ''h''"
  "lower_char CHR ''b'' = CHR ''b''" "lower_char CHR ''t'' = CHR ''t''" "lower_char CHR ''r'' = CHR ''r''" "lower_char CHR ''i'' = CHR ''i''"
  "lower_char CHR ''w'' = CHR ''w''" "lower_char CHR ''c'' = CHR ''c''"
  "lower_char CHR ''-'' = CHR ''-''" "lower_char CHR ''.'' = CHR ''.''" "lower_char CHR ''_'' = CHR ''_''" "lower_char CHR ''~'' = CHR ''~''"
  "is_alpha CHR ''v''" "is_alpha CHR ''p''"
  by code_simp+

definition PRE_SEPS :: "string list" where "PRE_SEPS = [[], ''-'', ''.'', ''_'', ''~'']"

definition after_sep :: rx where
  \<comment> \<open>the pattern after digit and separator\<close>
  "after_sep = Sq (Grp 2 tag_rx) (Seq [NotAhead (\<lambda>c. is_alpha c \<or> c = CHR ''_''), Opt (Chr CHR ''.''), Grp 3 (Star True Digit)])"

lemma after_sep_run:
  assumes e: "is_digit e" "\<forall>c \<in> set es. is_digit c" and tag: "tag \<in> set (map fst PRERELEASE_RANK)"
  shows "\<exists>b' rest. runs after_sep (b, tag @ e # es, [(1, d)]) = (b', [], [(1, d), (2, tag), (3, e # es)]) # rest"
proof -
  obtain R where R: "\<And>b c. star_run True (runs (Cls is_digit)) (b, e # es, c) =
      (rev (takeWhile is_digit (e # es)) @ b, dropWhile is_digit (e # es), c) # R b c"
    using star_run_cls[of is_digit _ "e # es"] by metis
  have tw: "takeWhile is_digit (e # es) = e # es" "dropWhile is_digit (e # es) = []"
    using e by (simp_all add: takeWhile_eq_all_conv dropWhile_eq_Nil_conv)
  have run: "star_run True (runs (Cls is_digit)) (b, e # es, c) = (rev (e # es) @ b, [], c) # R b c" for b c
    unfolding R tw ..
  have "list_all (\<lambda>tag. \<exists>b' rest. runs after_sep (b, tag @ e # es, [(1, d)]) = (b', [], [(1, d), (2, tag), (3, e # es)]) # rest)
    (map fst PRERELEASE_RANK)"
    using e by (simp add: PRERELEASE_RANK_def after_sep_def tag_rx_def Opt_def Digit_def ChrCI_def Chr_def lowers digit_lower digit_not edge_is_def run
        del: takeWhile.simps dropWhile.simps)
  with tag show ?thesis by (auto simp: list_all_iff)
qed

lemma tag_match:
  assumes d: "is_digit d" and e: "is_digit e" "\<forall>c \<in> set es. is_digit c" and sep: "sep \<in> set PRE_SEPS"
    and tag: "tag \<in> set (map fst PRERELEASE_RANK)"
  shows "\<exists>m st. first_match CVE_PRERELEASE_RE b (d # sep @ tag @ e # es) = Some (m, st) \<and> group m 2 = tag \<and> group m 3 = e # es"
proof -
  have re: "CVE_PRERELEASE_RE = Sq (Grp 1 Digit) (Sq (Opt (Cls (\<lambda>c. c \<in> set ''-._~''))) after_sep)"
    by (simp add: CVE_PRERELEASE_RE_def after_sep_def tag_rx_def)
  have "\<exists>b' rest. runs CVE_PRERELEASE_RE (b, d # sep @ tag @ e # es, []) = (b', [], [(1, [d]), (2, tag), (3, e # es)]) # rest"
  proof (cases sep)
    case Nil
    have "list_all (\<lambda>tag. tag \<noteq> [] \<and> hd tag \<notin> set ''-._~'') (map fst PRERELEASE_RANK)" by code_simp
    then obtain x t where x: "tag = x # t" "x \<notin> set ''-._~''" using tag by (cases tag) (fastforce simp: list_all_iff)+
    obtain b' rest where "runs after_sep (d # b, tag @ e # es, [(1, [d])]) = (b', [], [(1, [d]), (2, tag), (3, e # es)]) # rest"
      using after_sep_run[OF e tag] by blast
    then show ?thesis using Nil x d unfolding re by (simp add: Digit_def Opt_def)
  next
    case (Cons y ys)
    then have y: "ys = []" "y \<in> set ''-._~''" using sep by (auto simp: PRE_SEPS_def)
    obtain b' rest where "runs after_sep (y # d # b, tag @ e # es, [(1, [d])]) = (b', [], [(1, [d]), (2, tag), (3, e # es)]) # rest"
      using after_sep_run[OF e tag] by blast
    then show ?thesis using Cons y d unfolding re by (auto simp: Digit_def Opt_def)
  qed
  then show ?thesis by (auto simp: first_match_def group_def)
qed

type_synonym prerelease = "string \<times> string \<times> nat"

definition version_text :: "nat list \<Rightarrow> prerelease option \<Rightarrow> string" where
  "version_text ns pre = dotted ns @ (case pre of None \<Rightarrow> [] | Some (sep, tag, k) \<Rightarrow> sep @ tag @ show_nat k)"

definition valid_pre :: "prerelease option \<Rightarrow> bool" where
  "valid_pre pre \<longleftrightarrow> (case pre of None \<Rightarrow> True | Some (sep, tag, k) \<Rightarrow> sep \<in> set PRE_SEPS \<and> tag \<in> set (map fst PRERELEASE_RANK))"

definition suffix_of :: "prerelease option \<Rightarrow> nat list" where
  "suffix_of pre = (case pre of None \<Rightarrow> [1] | Some (sep, tag, k) \<Rightarrow> [0, the (dget PRERELEASE_RANK tag), k])"

lemma dotted_split:
  assumes "ns \<noteq> []"
  obtains p d where "dotted ns = p @ [d]" "is_digit d" "\<forall>c \<in> set p. is_digit c \<or> c = CHR ''.''"
proof -
  have "dotted ns = butlast (dotted ns) @ [last (dotted ns)]" using dotted_last[OF assms] by simp
  moreover have "\<forall>c \<in> set (butlast (dotted ns)). is_digit c \<or> c = CHR ''.''"
    using dotted_chars in_set_butlastD by fast
  ultimately show thesis using that dotted_last[OF assms] by blast
qed

lemma search_plain: "search_from CVE_PRERELEASE_RE [] (dotted ns) = None"
proof -
  have "needs is_alpha CVE_PRERELEASE_RE"
    by (auto simp: CVE_PRERELEASE_RE_def ChrCI_def intro: lower_char_alpha letters)
  moreover have "\<forall>x \<in> set (dotted ns). \<not> is_alpha x" using dotted_chars digit_not_alpha by blast
  ultimately have "re_search CVE_PRERELEASE_RE (dotted ns) = None" by (rule re_search_needs)
  then show ?thesis by (simp add: re_search_def)
qed

lemma search_tagged:
  assumes ns: "ns \<noteq> []" and sep: "sep \<in> set PRE_SEPS" and tag: "tag \<in> set (map fst PRERELEASE_RANK)"
  shows "\<exists>m pre st. search_from CVE_PRERELEASE_RE [] (dotted ns @ sep @ tag @ show_nat k) = Some (m, pre, st) \<and>
    length pre + 1 = length (dotted ns) \<and> group m 2 = tag \<and> group m 3 = show_nat k"
proof -
  obtain p d where p: "dotted ns = p @ [d]" "is_digit d" "\<forall>c \<in> set p. is_digit c \<or> c = CHR ''.''"
    using dotted_split[OF ns] by blast
  obtain e es where e: "show_nat k = e # es" by (cases "show_nat k") simp_all
  have ed: "is_digit e" "\<forall>c \<in> set es. is_digit c" using show_nat_digits[of k] e by simp_all
  have "\<not> rmatches CVE_PRERELEASE_RE (rev u @ [], v @ d # sep @ tag @ e # es, []) st'" if "u @ v = p" "v \<noteq> []" for u v st'
  proof -
    have c: "\<forall>c \<in> set (v @ [d]). is_digit c \<or> c = CHR ''.''" using p(2,3) that(1) by auto
    from c have "\<not> rmatches CVE_PRERELEASE_RE (rev u @ [], (v @ [d]) @ sep @ tag @ e # es, []) st'"
      by (rule no_tag) (use that(2) p(2) in \<open>auto simp: Suc_le_eq\<close>)
    then show ?thesis by simp
  qed
  from search_from_skip[OF this] have skip: "search_from CVE_PRERELEASE_RE [] (p @ d # sep @ tag @ e # es) =
    search_from CVE_PRERELEASE_RE (rev p @ []) (d # sep @ tag @ e # es)" by blast
  obtain m st where m: "first_match CVE_PRERELEASE_RE (rev p) (d # sep @ tag @ e # es) = Some (m, st)" "group m 2 = tag" "group m 3 = e # es"
    using tag_match[OF p(2) ed sep tag] by blast
  then have "search_from CVE_PRERELEASE_RE (rev p @ []) (d # sep @ tag @ e # es) = Some (m, rev p, st)"
    by (cases st) simp
  with skip m p(1) e show ?thesis by simp
qed

lemma version_key_of:
  assumes ns: "ns \<noteq> []" and pre: "valid_pre pre"
  shows "parse_version_key (version_text ns pre) = Some (ns, suffix_of pre)"
proof -
  obtain p d where p: "dotted ns = p @ [d]" "is_digit d" "\<forall>c \<in> set p. is_digit c \<or> c = CHR ''.''"
    using dotted_split[OF ns] by blast
  let ?t = "version_text ns pre"
  have first: "?t \<noteq> []" "is_digit (hd ?t)"
  proof -
    obtain n ms where "ns = n # ms" using ns by (cases ns) auto
    then have "hd (dotted ns) \<in> set (show_nat n)" by (cases ms) (simp_all add: dotted_def)
    then show "?t \<noteq> []" "is_digit (hd ?t)"
      using dotted_last[OF ns] show_nat_digits[of n] by (auto simp: version_text_def)
  qed
  have last: "is_digit (last ?t)"
  proof -
    have "is_digit (last (show_nat k))" for k using show_nat_digits[of k] by simp
    then show ?thesis using dotted_last[OF ns] by (auto simp: version_text_def split: option.splits)
  qed
  have strip: "strip ?t = ?t" using first last digit_not_ws by (intro strip_id) blast
  have drop: "dropWhile (\<lambda>c. c \<in> set ''vV'') ?t = ?t"
    using first by (cases ?t) (auto simp: is_digit_def)
  have dig: "\<not> list_all (\<lambda>c. \<not> is_digit c) ?t"
    using first by (auto simp: list_all_iff intro!: bexI[of _ "hd ?t"])
  show ?thesis
  proof (cases pre)
    case None
    then show ?thesis
      using strip drop dig ns by (simp add: parse_version_key_def version_text_def search_plain numbers_dotted suffix_of_def)
  next
    case (Some q)
    obtain sep tag k where q: "q = (sep, tag, k)" by (cases q)
    then have v: "sep \<in> set PRE_SEPS" "tag \<in> set (map fst PRERELEASE_RANK)" using pre Some by (auto simp: valid_pre_def)
    have rank: "lower tag = tag \<and> (\<exists>r. dget PRERELEASE_RANK tag = Some r)"
    proof -
      have "list_all (\<lambda>t. lower t = t \<and> dget PRERELEASE_RANK t \<noteq> None) (map fst PRERELEASE_RANK)" by code_simp
      with v(2) show ?thesis by (auto simp: list_all_iff)
    qed
    obtain m pr st where m: "search_from CVE_PRERELEASE_RE [] (dotted ns @ sep @ tag @ show_nat k) = Some (m, pr, st)"
      "length pr + 1 = length (dotted ns)" "group m 2 = tag" "group m 3 = show_nat k"
      using search_tagged[OF ns v, of k] by blast
    have t: "?t = dotted ns @ sep @ tag @ show_nat k" using Some q by (simp add: version_text_def)
    have "take (length pr + 1) ?t = dotted ns" unfolding t m(2) by simp
    then show ?thesis
      using strip drop dig ns m(1,3,4) rank Some q
      by (auto simp: parse_version_key_def t[symmetric] numbers_dotted suffix_of_def version_suffix_def)
  qed
qed

text \<open>Version comparison of the CVE tools. For dotted versions, with or without a pre-release tag (\<open>dev\<close>, \<open>alpha\<close>,
  \<open>beta\<close>, \<open>pre\<close>, \<open>preview\<close>, \<open>rc\<close>, with any of the separators), the comparison is the lexicographic order of the numbers and,
  between equal numbers, of kind and number of the pre-release, below the release itself.\<close>

lemma version_order:
  assumes "ns \<noteq> []" "ms \<noteq> []" "valid_pre p" "valid_pre q"
  shows "version_cmp (version_text ns p) (version_text ms q) =
    Some (if ns < ms \<or> ns = ms \<and> suffix_of p < suffix_of q then -1
          else if ns = ms \<and> suffix_of p = suffix_of q then 0 else 1)"
  using version_key_of[OF assms(1,3)] version_key_of[OF assms(2,4)]
  by (auto simp: version_cmp_def key_less_def)

subsection \<open>What the version check promises\<close>

definition meets :: "string \<Rightarrow> version_bound \<Rightarrow> bool" where
  \<comment> \<open>comparable, and on the right side of the bound\<close>
  "meets version bound \<longleftrightarrow> (\<exists>pred c. op_holds (fst bound) = Some pred \<and> version_cmp version (snd bound) = Some c \<and> pred c)"

definition within :: "string \<Rightarrow> version_bound list \<Rightarrow> bool" where
  "within version bounds \<longleftrightarrow> bounds \<noteq> [] \<and> list_all (meets version) bounds"

lemma satisfies_all_True: "satisfies_all v cs = Some True \<longleftrightarrow> list_all (meets v) cs"
  by (induction v cs rule: satisfies_all.induct) (auto simp: meets_def split: option.splits)

lemma version_satisfies_True: "version_satisfies v cs = Some True \<longleftrightarrow> within v cs"
  by (simp add: version_satisfies_def within_def satisfies_all_True)

lemma satisfies_any_True: "satisfies_any v u bs = Some True \<longleftrightarrow> list_ex (within v) bs"
proof (induction bs arbitrary: u)
  case (Cons cs rest)
  then show ?case using version_satisfies_True[of v cs] by (auto split: option.splits bool.splits)
qed simp

lemma any_in_range: "version_satisfies_any v bs = Some True \<longleftrightarrow> list_ex (within v) bs"
  by (simp add: version_satisfies_any_def satisfies_any_True)

lemma select_fixed_listed: "select_fixed_for_version fixed v = f \<Longrightarrow> f \<noteq> [] \<Longrightarrow> f \<in> set (split_fixed_versions fixed)"
  by (auto simp: select_fixed_for_version_def Let_def find_Some_iff split: list.splits option.splits if_splits dest: nth_mem)

lemma against_fixed_cases:
  "against_fixed ok v f = ''at_or_above'' \<longleftrightarrow> ok \<and> v \<noteq> [] \<and> f \<noteq> [] \<and> (\<exists>c. version_cmp v f = Some c \<and> 0 \<le> c)"
  "against_fixed ok v f = ''below'' \<longleftrightarrow> ok \<and> v \<noteq> [] \<and> f \<noteq> [] \<and> (\<exists>c. version_cmp v f = Some c \<and> c < 0)"
  by (auto simp: against_fixed_def split: option.splits)

lemma against_affected_cases:
  "against_affected ok v bs = ''in_range'' \<longleftrightarrow> ok \<and> v \<noteq> [] \<and> list_ex (within v) bs"
  by (auto simp: against_affected_def any_in_range[symmetric] version_satisfies_any_def split: option.splits bool.splits)

lemma hint_cases:
  "hint_of ok f a s = ''non_comparable'' \<longleftrightarrow> \<not> ok"
  "hint_of ok f a s = ''possibly_at_or_above_fix'' \<longleftrightarrow> ok \<and> f = ''at_or_above'' \<and> a \<noteq> ''in_range''"
  "hint_of ok f a s = ''conflicting_signals'' \<longleftrightarrow> ok \<and> f = ''at_or_above'' \<and> a = ''in_range''"
  "hint_of ok f a s = ''possibly_not_in_affected_range'' \<Longrightarrow> a = ''not_in_range''"
  by (auto simp: hint_of_def split: if_splits)

lemma resolve_source:
  "resolve_component_version package component block w = (Inr (v, e), w') \<Longrightarrow> v \<noteq> [] \<Longrightarrow> e \<in> {''spec_provides'', ''analysis''}"
  by (auto simp: resolve_component_version_def Let_def prog_inr if_Inr split: option.splits if_splits)

lemma compared_version_cases:
  assumes "compared_version q component local w = (Inr (v, e, ok), w')"
  shows "(ok \<or> v = []) \<and> (component \<noteq> [] \<longrightarrow> ok \<longrightarrow> v \<noteq> [] \<and> e \<in> {''spec_provides'', ''analysis''}) \<and> (component = [] \<longrightarrow> ok \<and> v = local)"
proof (cases "component = []")
  case False
  with assms obtain v' e' where r: "resolve_component_version (q_package q) component (q_block q) w = (Inr (v', e'), w')"
    "(v, e, ok) = (if v' \<noteq> [] then (v', e', True) else ([], [], False))"
    by (auto simp: compared_version_def prog_inr)
  with resolve_source[OF r(1)] False show ?thesis by (auto split: if_splits)
qed (use assms in \<open>simp add: compared_version_def prog_inr\<close>)

lemma payload_parts:
  assumes "version_check_payload q w = (Inr r, w')"
  obtains w1 local src where "compared_version q (p_component r) local w1 = (Inr (p_compare r, src, p_comparable r), w')" "p_source r = src"
    "p_selected r = (if q_fixed q \<noteq> [] then select_fixed_for_version (q_fixed q) (p_compare r) else [])"
    "vs_fixed r = against_fixed (p_comparable r) (p_compare r) (p_selected r)"
    "vs_affected r = against_affected (p_comparable r) (p_compare r) (branches_of (q_affected q))"
    "p_hint r = hint_of (p_comparable r) (vs_fixed r) (vs_affected r) (p_selected r)"
  using assms by (auto simp: version_check_payload_def Let_def prog_inr)

text \<open>The verdict of \<open>version-check\<close> never says more than the comparison. It is "non comparable" exactly when a component was
  named and no version of it was found, and then nothing was compared, in particular not the version of the parent package;
  a version compared for a component comes from the spec or the analysis. "At or above the fix" is only said of a version
  that is not below one of the fixed versions given and lies in no affected branch, "not in the affected range" only of a
  version that lies in none.\<close>

lemma version_check_verdict:
  assumes "version_check_payload q w = (Inr r, w')"
  shows "(p_hint r = ''non_comparable'' \<longleftrightarrow> \<not> p_comparable r) \<and>
    (p_comparable r \<or> p_component r \<noteq> [] \<and> p_compare r = [] \<and> vs_fixed r = [] \<and> vs_affected r = []) \<and>
    (p_component r \<noteq> [] \<longrightarrow> p_comparable r \<longrightarrow> p_source r \<in> {''spec_provides'', ''analysis''}) \<and>
    (p_hint r = ''possibly_at_or_above_fix'' \<longrightarrow> p_selected r \<in> set (split_fixed_versions (q_fixed q)) \<and>
       (\<exists>c. version_cmp (p_compare r) (p_selected r) = Some c \<and> 0 \<le> c) \<and>
       \<not> list_ex (within (p_compare r)) (branches_of (q_affected q))) \<and>
    (p_hint r = ''possibly_not_in_affected_range'' \<longrightarrow> \<not> list_ex (within (p_compare r)) (branches_of (q_affected q)))"
proof -
  from payload_parts[OF assms] obtain w1 local src where
    cmp: "compared_version q (p_component r) local w1 = (Inr (p_compare r, src, p_comparable r), w')" "p_source r = src"
    and sel: "p_selected r = (if q_fixed q \<noteq> [] then select_fixed_for_version (q_fixed q) (p_compare r) else [])"
    and f: "vs_fixed r = against_fixed (p_comparable r) (p_compare r) (p_selected r)"
    and a: "vs_affected r = against_affected (p_comparable r) (p_compare r) (branches_of (q_affected q))"
    and hint: "p_hint r = hint_of (p_comparable r) (vs_fixed r) (vs_affected r) (p_selected r)"
    by blast
  note c = compared_version_cases[OF cmp(1)]
  show ?thesis
  proof (intro conjI impI)
    show "p_hint r = ''non_comparable'' \<longleftrightarrow> \<not> p_comparable r" by (simp add: hint hint_cases)
    show "p_comparable r \<or> p_component r \<noteq> [] \<and> p_compare r = [] \<and> vs_fixed r = [] \<and> vs_affected r = []"
      using c by (auto simp: f a against_fixed_def against_affected_def)
    show "p_source r \<in> {''spec_provides'', ''analysis''}" if "p_component r \<noteq> []" "p_comparable r" using c cmp(2) that by simp
  next
    assume h: "p_hint r = ''possibly_at_or_above_fix''"
    then have above: "p_comparable r" "vs_fixed r = ''at_or_above''" "vs_affected r \<noteq> ''in_range''" by (simp_all add: hint hint_cases)
    then obtain k where k: "p_compare r \<noteq> []" "p_selected r \<noteq> []" "version_cmp (p_compare r) (p_selected r) = Some k" "0 \<le> k"
      by (auto simp: f against_fixed_cases)
    show "p_selected r \<in> set (split_fixed_versions (q_fixed q))"
      using sel k(2) by (auto intro: select_fixed_listed[OF refl] split: if_splits)
    show "\<exists>c. version_cmp (p_compare r) (p_selected r) = Some c \<and> 0 \<le> c" using k by blast
    show "\<not> list_ex (within (p_compare r)) (branches_of (q_affected q))"
      using above k(1) by (simp add: a against_affected_cases)
  next
    assume "p_hint r = ''possibly_not_in_affected_range''"
    then have n: "vs_affected r = ''not_in_range''" using hint hint_cases(4) by metis
    then show "\<not> list_ex (within (p_compare r)) (branches_of (q_affected q))"
      by (auto simp: a against_affected_def any_in_range[symmetric] split: if_splits option.splits bool.splits)
  qed
qed

definition demo_query :: version_query where
  "demo_query = \<lparr>q_package = ''foo'', q_local_nvr = ''foo-3-1'', q_fib = [], q_affected = ''< 2'', q_fixed = ''2'',
     q_analysis_nvr = [], q_component = [], q_block = []\<rparr>"

lemma demo_parts:
  "split_fixed_versions ''2'' = [''2'']" "version_cmp ''3'' ''2'' = Some 1" "nvr_version ''foo-3-1'' = ''3''"
  "branches_of ''< 2'' = [[(''<'', ''2'')]]"
  by code_simp+

subsection \<open>Two ways to bump a release\<close>

lemma bump_release_same: "cve_bump_release cur up = bump_release cur up"
  by (auto simp: cve_bump_release_def bump_release_def)

definition macro_spec :: string where
  \<comment> \<open>a release with a macro before the dist tag\<close>
  "macro_spec = join [nl] [''Name: foo'', ''Version: 1'', ''Release: 8.%{revision}%{?dist}'', []]"

lemma macro_spec_parts:
  "release_of_text macro_spec = Some (''8.%{revision}'', False)"
  "with_release ''8.%{revision}.1'' macro_spec = join [nl] [''Name: foo'', ''Version: 1'', ''Release:        8.%{revision}.1%{revision}%{?dist}'', []]"
  "updated_release ''8.%{revision}.1'' macro_spec = Inr (join [nl] [''Name: foo'', ''Version: 1'', ''Release: 8.%{revision}.1%{?dist}'', []])"
  "bump_release ''8.%{revision}'' None = ''8.%{revision}.1''"
  "re_search whole_release_re macro_spec \<noteq> None"
  by code_simp+

text \<open>\<open>release-bump --apply\<close> and \<open>dist_git.py\<close> do not write the same release. Both propose \<open>8.%{revision}.1\<close> for the release
  \<open>8.%{revision}%{?dist}\<close>; \<open>dist_git.py\<close> then writes \<open>8.%{revision}.1%{?dist}\<close>, while the assistant keeps the old line from its
  first percent sign on and so writes the macro twice.\<close>

lemma applied_bump_repeats_macro:
  assumes "map_of (files w) (spec_of p) = Some (FileN macro_spec)" "map_of (files w) (metadata_path p) = Some (JsonN (JObj d))"
    and "dget d ''release'' = None"
  shows "\<exists>r w'. apply_release_bump p w = (Inr r, w') \<and> rb_writes r \<and> rb_proposed r = ''8.%{revision}.1'' \<and>
    map_of (files w') (spec_of p) =
      Some (FileN (join [nl] [''Name: foo'', ''Version: 1'', ''Release:        8.%{revision}.1%{revision}%{?dist}'', []])) \<and>
    updated_release (rb_proposed r) macro_spec =
      Inr (join [nl] [''Name: foo'', ''Version: 1'', ''Release: 8.%{revision}.1%{?dist}'', []])"
proof -
  have meta: "read_package_metadata p w = (Inr d, w)"
    using assms(2) by (simp add: read_package_metadata_def is_file_def fs_is_file_def prog_simps json_load_def catch_def ret_def)
  have spec: "read_spec_release_before_dist p w = (Inr (''8.%{revision}'', False), w)"
    using assms(1) by (simp add: read_spec_release_before_dist_def is_file_def fs_is_file_def prog_simps read_replace_def read_text_def
        macro_spec_parts ret_def)
  obtain r where r: "release_bump_payload p w = (Inr r, w)" "rb_proposed r = ''8.%{revision}.1''" "\<not> rb_autorelease r"
    using assms(3) by (simp add: release_bump_payload_def meta spec prog_simps Let_def ret_def text_or_empty_def
        bump_release_same macro_spec_parts)
  then show ?thesis
    using assms(1) macro_spec_parts
    by (auto simp: apply_release_bump_def is_file_def fs_is_file_def prog_simps read_text_def write_text_def write_node_def modify_def ret_def)
qed

definition macro_world :: world where
  "macro_world = blank\<lparr>files := [(spec_of ''foo'', FileN macro_spec), (metadata_path ''foo'', JsonN (JObj []))]\<rparr>"

end
