(* ===== verification/Cve_Tickets.thy ===== *)
theory Cve_Tickets
  imports Cve_Spec
begin

section \<open>CVE triage: tickets\<close>

text \<open>
  \<open>.cursor/skills/cve/lib/models.py\<close>, the parsing half of \<open>jira.py\<close> and the ticket keys of \<open>utils.py\<close>: what
  is read out of a Jira issue. A report's fields are those of \<open>TicketReport\<close>. A value of a type that the
  code's string methods would reject is a \<open>TypeError\<close>.
\<close>

subsection \<open>Keys\<close>

definition normalize_hum_key :: "string \<Rightarrow> exn + string" where
  "normalize_hum_key value = (let trimmed = upper (strip value) in
     if startswith trimmed ''HUM-'' then Inr trimmed
     else if re_fullmatch (Plus True Digit) trimmed \<noteq> None then Inr (''HUM-'' @ trimmed)
     else Inl (ValueError (''Invalid ticket key: '' @ value)))"

fun json_str_path :: "json \<Rightarrow> string list \<Rightarrow> string" where
  \<comment> \<open>\<open>json_str(data, *path)\<close> with the default empty text\<close>
  "json_str_path j [] = py_text j"
| "json_str_path j (k # ks) = (case j of
     JObj d \<Rightarrow> (case dget d k of None \<Rightarrow> [] | Some JNull \<Rightarrow> [] | Some v \<Rightarrow> json_str_path v ks)
   | _ \<Rightarrow> [])"

definition rep_between :: "nat \<Rightarrow> nat \<Rightarrow> rx \<Rightarrow> rx" where
  \<comment> \<open>\<open>r{lo,hi}\<close>\<close>
  "rep_between lo hi r = Sq (Rep lo r) (foldr (\<lambda>_ rest. Opt (Sq r rest)) [lo..<hi] Eps)"

definition CVE_RE :: rx where
  "CVE_RE = Seq [Lit ''CVE-'', Rep 4 Digit, Chr CHR ''-'', rep_between 4 8 Digit]"

definition HUM_RE :: rx where "HUM_RE = Seq [Lit ''HUM-'', rep_between 3 6 Digit]"

definition MR_URL_RE :: rx where
  "MR_URL_RE = Seq [Lit ''https://gitlab.com/redhat/hummingbird/rpms/-/merge_requests/'', Plus True Digit]"

definition GITLAB_RPMS_REPO :: string where "GITLAB_RPMS_REPO = ''redhat/hummingbird/rpms''"

definition findall :: "rx \<Rightarrow> string \<Rightarrow> string list" where
  "findall r s = map (\<lambda>m. group m 0) (re_finditer r s)"

definition sorted_found :: "rx \<Rightarrow> string \<Rightarrow> string list" where
  \<comment> \<open>\<open>sorted(set(r.findall(s)))\<close>\<close>
  "sorted_found r s = sort (remdups (findall r s))"

definition package_char :: "char \<Rightarrow> bool" where
  "package_char c \<longleftrightarrow> is_alpha c \<or> is_digit c \<or> c \<in> set ''+_.-''"

definition fib_re :: rx where
  \<comment> \<open>\<open>([A-Za-z0-9+_.-]+)-\d\<close>\<close>
  "fib_re = Seq [Grp 1 (Plus True (Cls package_char)), Chr CHR ''-'', Digit]"

definition guess_from_text :: "string \<Rightarrow> string \<Rightarrow> string option" where
  \<comment> \<open>the guess from summary or labels\<close>
  "guess_from_text summary labels =
     (case re_search (Seq [CVE_RE, Plus True Space, Grp 1 (Plus True (Cls package_char)), Star True Space, Chr CHR '':'']) summary of
        Some m \<Rightarrow> Some (group m 1)
      | None \<Rightarrow> map_option (\<lambda>m. group m 1) (re_search (Seq [Lit ''pscomponent:'', Grp 1 (Plus True (Cls package_char))]) labels))"

definition extract_package_guess :: "string \<Rightarrow> string \<Rightarrow> string \<Rightarrow> string" where
  "extract_package_guess summary labels fixed_in_build = (case guess_from_text summary labels of
     Some g \<Rightarrow> g
   | None \<Rightarrow> (if fixed_in_build = [] then [] else
       (case re_match fib_re fixed_in_build of Some m \<Rightarrow> group m 1 | None \<Rightarrow> [])))"

subsection \<open>Reports\<close>

record linked_ticket =
  l_ticket :: string
  l_summary :: string
  l_status :: string
  l_type :: string
  l_error :: string

record ticket_report =
  ticket :: string
  summary :: string
  t_status :: string
  severity :: string
  assignee :: string
  ticket_type :: string
  labels :: string
  fixed_in_build :: string
  cve_ids :: "string list"
  package_guess :: string
  linked_keys :: "string list"
  mr_links :: "string list"
  linked_details :: "linked_ticket list"
  embargoed :: bool
  assessment :: string
  affected_range :: string
  fixed_version :: string
  analysis_block :: string
  description :: string
  upstream_component :: json

definition extract_assignee :: "dict \<Rightarrow> string" where
  "extract_assignee flds = (let a = json_str_path (JObj flds) [''assignee'', ''displayName''] in
     if a = [] then json_str_path (JObj flds) [''assignee'', ''emailAddress''] else a)"

fun joined_items :: "json list \<Rightarrow> exn + string list" where
  \<comment> \<open>what \<open>join\<close> accepts\<close>
  "joined_items [] = Inr []"
| "joined_items (x # xs) = (case as_str x of Inl e \<Rightarrow> Inl e | Inr s \<Rightarrow> map_sum id (Cons s) (joined_items xs))"

definition extract_labels :: "dict \<Rightarrow> exn + string" where
  "extract_labels flds = (case dget flds ''labels'' of
     Some (JList xs) \<Rightarrow> map_sum id (join '','') (joined_items xs) | _ \<Rightarrow> Inr [])"

definition Any :: rx where "Any = Cls (\<lambda>_. True)" \<comment> \<open>\<open>.\<close> under DOTALL\<close>

definition extract_assessment :: "string \<Rightarrow> string" where
  "extract_assessment block =
     (case re_search (Seq [Bol True, Lit ''ASSESSMENT:'', Star True Space, Grp 1 (Plus True Dot), Eol True]) block of
        Some m \<Rightarrow> strip (group m 1) | None \<Rightarrow> [])"

definition extract_flaw_summary :: "string \<Rightarrow> string" where
  \<comment> \<open>\<open>Flaw:\s*\n-+\s*\n(.*?)(?:\n~~~|\Z)\<close>, DOTALL\<close>
  "extract_flaw_summary descr =
     (case re_search (Seq [Lit ''Flaw:'', Star True Space, Chr nl, Plus True (Chr CHR ''-''), Star True Space, Chr nl,
         Grp 1 (Star False Any), Alt (Seq [Chr nl, Lit ''~~~'']) (NotAhead (\<lambda>_. True))]) descr of
        Some m \<Rightarrow> strip (group m 1) | None \<Rightarrow> [])"

definition noformat_re :: rx where
  "noformat_re = Seq [Lit ''{noformat}'', Grp 1 (Star False Any), Lit ''{noformat}'']"

definition is_analysis_block :: "string \<Rightarrow> bool" where
  "is_analysis_block block = (let lowered = lower block in
     contains lowered ''hummingbird srpm version'' \<or> contains lowered ''affected version range'' \<or>
     contains lowered ''assessment:'' \<and> contains lowered ''next steps:'' \<and> contains lowered ''cve-'')"

definition extract_cve_analysis_block :: "string \<Rightarrow> string" where
  \<comment> \<open>the last block that looks like an analysis\<close>
  "extract_cve_analysis_block t =
     (case find is_analysis_block (rev (map (\<lambda>m. group m 1) (re_finditer noformat_re t))) of
        Some b \<Rightarrow> strip b | None \<Rightarrow> [])"

definition keys_of_link :: "json \<Rightarrow> exn + string list" where
  "keys_of_link link = (case as_dict link of
     Inl e \<Rightarrow> Inl e
   | Inr d \<Rightarrow> foldr (\<lambda>direction r. case dget d direction of
       None \<Rightarrow> r
     | Some issue \<Rightarrow> (if \<not> truthy issue then r else (case as_dict issue of
         Inl e \<Rightarrow> Inl e
       | Inr i \<Rightarrow> (case dget i ''key'' of
           Some key \<Rightarrow> (if truthy key then (case as_str key of Inl e \<Rightarrow> Inl e | Inr s \<Rightarrow> map_sum id (Cons s) r) else r)
         | None \<Rightarrow> r)))) [''inwardIssue'', ''outwardIssue''] (Inr []))"

fun keys_of_links :: "json list \<Rightarrow> exn + string list" where
  "keys_of_links [] = Inr []"
| "keys_of_links (l # ls) = (case keys_of_link l of Inl e \<Rightarrow> Inl e | Inr ks \<Rightarrow> map_sum id ((@) ks) (keys_of_links ls))"

definition dedup :: "'a list \<Rightarrow> 'a list" where
  \<comment> \<open>\<open>list(dict.fromkeys(xs))\<close>: the first occurrence of each\<close>
  "dedup xs = rev (remdups (rev xs))"

definition extract_linked_keys :: "dict \<Rightarrow> exn + string list" where
  "extract_linked_keys flds = (case dget flds ''issuelinks'' of
     None \<Rightarrow> Inr []
   | Some v \<Rightarrow> (if \<not> truthy v then Inr [] else
       (case as_list v of Inl e \<Rightarrow> Inl e | Inr ls \<Rightarrow> map_sum id dedup (keys_of_links ls))))"

definition comment_body :: "json \<Rightarrow> json list" where
  "comment_body c = (case c of JObj d \<Rightarrow> (case dget d ''body'' of Some b \<Rightarrow> if truthy b then [b] else [] | None \<Rightarrow> []) | _ \<Rightarrow> [])"

definition comment_bodies :: "dict \<Rightarrow> exn + json list" where
  "comment_bodies flds = (case dget flds ''comment'' of
     Some (JObj (e # d)) \<Rightarrow> (case dget (e # d) ''comments'' of
         None \<Rightarrow> Inr []
       | Some v \<Rightarrow> map_sum id (\<lambda>xs. concat (map comment_body xs)) (as_list v))
   | _ \<Rightarrow> Inr [])"

definition or_empty_str :: "dict \<Rightarrow> string \<Rightarrow> exn + string" where
  \<comment> \<open>\<open>flds.get(k) or ''\<close> where a string is needed\<close>
  "or_empty_str flds k = (case dget flds k of None \<Rightarrow> Inr [] | Some v \<Rightarrow> if truthy v then as_str v else Inr [])"

definition field_or_empty :: "dict \<Rightarrow> string \<Rightarrow> json" where
  "field_or_empty flds k = (case dget flds k of None \<Rightarrow> JStr [] | Some v \<Rightarrow> if truthy v then v else JStr [])"

definition summary_of :: "dict \<Rightarrow> exn + string" where
  "summary_of flds = (case dget flds ''summary'' of None \<Rightarrow> Inr [] | Some v \<Rightarrow> as_str v)"

definition fixed_in_build_of :: "dict \<Rightarrow> string" where
  "fixed_in_build_of flds = (case dget flds ''customfield_10578'' of
     None \<Rightarrow> []
   | Some v \<Rightarrow> (if \<not> truthy v then [] else (case v of
       JObj d \<Rightarrow> (case dget d ''value'' of Some x \<Rightarrow> py_text x | None \<Rightarrow> [])
     | _ \<Rightarrow> py_text v)))"

definition is_embargoed :: "string \<Rightarrow> bool" where
  "is_embargoed s = startswith (upper s) ''EMBARGOED''"

definition report_of :: "string \<Rightarrow> dict \<Rightarrow> string \<Rightarrow> string \<Rightarrow> string list \<Rightarrow> string \<Rightarrow> json \<Rightarrow> string \<Rightarrow> ticket_report" where
  "report_of key flds s ls linked descr ucomp searchable = (let block = extract_cve_analysis_block searchable in
     \<lparr>ticket = key, summary = s, t_status = json_str_path (JObj flds) [''status'', ''name''],
      severity = json_str_path (JObj flds) [''customfield_10840'', ''value''], assignee = extract_assignee flds,
      ticket_type = json_str_path (JObj flds) [''issuetype'', ''name''], labels = ls, fixed_in_build = fixed_in_build_of flds,
      cve_ids = sorted_found CVE_RE searchable, package_guess = extract_package_guess s ls (fixed_in_build_of flds),
      linked_keys = linked, mr_links = sorted_found MR_URL_RE searchable, linked_details = [], embargoed = is_embargoed s,
      assessment = (if block \<noteq> [] then extract_assessment block else []),
      affected_range = (if block \<noteq> [] then extract_vendor_field block ''Affected'' else []),
      fixed_version = (if block \<noteq> [] then extract_vendor_field block ''Fixed in'' else []),
      analysis_block = block, description = descr, upstream_component = ucomp\<rparr>)"

definition parse_ticket_json :: "string \<Rightarrow> dict \<Rightarrow> ticket_report prog" where
  "parse_ticket_json ticket_key flds = (bind (from_sum (summary_of flds)) (\<lambda>s.
    bind (from_sum (extract_labels flds)) (\<lambda>ls.
    bind (from_sum (or_empty_str flds ''description'')) (\<lambda>descr.
    let ucomp = field_or_empty flds ''customfield_10632'' in
    bind (from_sum (comment_bodies flds)) (\<lambda>bodies.
    bind (from_sum (joined_items bodies)) (\<lambda>texts.
    bind (from_sum (extract_linked_keys flds)) (\<lambda>linked.
    ret (report_of ticket_key flds s ls linked descr ucomp (join [nl] ([s, descr] @ texts))))))))))"

definition batch_report_of :: "string \<Rightarrow> dict \<Rightarrow> string \<Rightarrow> string \<Rightarrow> ticket_report" where
  \<comment> \<open>the reduced report of \<open>batch_fetch_tickets\<close>\<close>
  "batch_report_of key flds s ls =
     \<lparr>ticket = key, summary = s, t_status = json_str_path (JObj flds) [''status'', ''name''], severity = [],
      assignee = extract_assignee flds, ticket_type = json_str_path (JObj flds) [''issuetype'', ''name''], labels = ls,
      fixed_in_build = [], cve_ids = sorted_found CVE_RE s, package_guess = extract_package_guess s ls [], linked_keys = [],
      mr_links = [], linked_details = [], embargoed = is_embargoed s, assessment = [], affected_range = [], fixed_version = [],
      analysis_block = [], description = [], upstream_component = JStr []\<rparr>"

subsection \<open>The package a fixed build names\<close>

text \<open>A greedy class repetition tries the longest prefix first and gives back one character at a time.\<close>

lemma star_states:
  assumes "st' \<in> set (star_run True (runs (Cls p)) (b, a, c))"
  shows "\<exists>u v. a = u @ v \<and> (\<forall>x \<in> set u. p x) \<and> st' = (rev u @ b, v, c)"
proof -
  have "st' \<in> set (runs (Star True (Cls p)) (b, a, c))" using assms by simp
  then show ?thesis unfolding runs_iff rm_star_cls by blast
qed

lemma star_backtracks:
  assumes "\<forall>x \<in> set w. p x" "f (rev w @ b, t, c) = m # ms"
    and "\<And>u v. t = u @ v \<Longrightarrow> u \<noteq> [] \<Longrightarrow> (\<forall>x \<in> set u. p x) \<Longrightarrow> f (rev u @ rev w @ b, v, c) = []"
  shows "\<exists>rest. concat (map (f) (star_run True (runs (Cls p)) (b, w @ t, c))) = m # rest"
  using assms
proof (induction w arbitrary: b)
  case Nil
  show ?case
  proof (cases t)
    case Nil
    with Nil.prems show ?thesis by (subst star_run.simps) simp
  next
    case (Cons x xs)
    have none: "concat (map (f) (star_run True (runs (Cls p)) (x # b, xs, c))) = []" if "p x"
    proof -
      have "f st' = []" if st': "st' \<in> set (star_run True (runs (Cls p)) (x # b, xs, c))" for st'
      proof -
        obtain u v where "xs = u @ v" "\<forall>y \<in> set u. p y" "st' = (rev u @ x # b, v, c)" using star_states[OF st'] by blast
        with Nil.prems(3)[of "x # u" v] Cons \<open>p x\<close> show ?thesis by simp
      qed
      then show ?thesis by simp
    qed
    show ?thesis
    proof (cases "p x")
      case True
      show ?thesis using Cons Nil.prems(2) none[OF True] True
        by (subst star_run.simps) (simp add: ahead_def del: concat_eq_Nil_conv)
    next
      case False
      then show ?thesis using Cons Nil.prems(2) by (subst star_run.simps) (simp add: ahead_def)
    qed
  qed
next
  case (Cons x w)
  have "\<exists>rest. concat (map (f) (star_run True (runs (Cls p)) (x # b, w @ t, c))) = m # rest"
    by (rule Cons.IH) (use Cons.prems in simp_all)
  then obtain rest where "concat (map f (star_run True (runs (Cls p)) (x # b, w @ t, c))) = m # rest" by blast
  then show ?case using Cons.prems(1) by (subst star_run.simps) (simp add: ahead_def)
qed

lemma fib_match:
  assumes w: "w \<noteq> []" "\<forall>x \<in> set w. package_char x" and d: "is_digit d" and s: "CHR ''-'' \<notin> set s"
  shows "\<exists>m. re_match fib_re (w @ CHR ''-'' # d # s) = Some m \<and> group m 1 = w"
proof -
  obtain x w' where x: "w = x # w'" using w(1) by (cases w) auto
  let ?t = "CHR ''-'' # d # s"
  let ?a = "w @ ?t"
  let ?f = "\<lambda>(b', a', c'). runs (Seq [Chr CHR ''-'', Digit]) (b', a', dset 1 (take (length ?a - length a') ?a) c')"
  have len: "length ?a - length ?t = length w" by simp
  have "\<exists>rest. concat (map ?f (star_run True (runs (Cls package_char)) ([x], w' @ ?t, []))) = (d # CHR ''-'' # rev w, s, [(1, w)]) # rest"
  proof (rule star_backtracks)
    show "\<forall>x \<in> set w'. package_char x" using w(2) x by simp
    show "?f (rev w' @ [x], ?t, []) = [(d # CHR ''-'' # rev w, s, [(1, w)])]"
      using d x by (simp add: Chr_def Digit_def)
    fix u v assume "?t = u @ v" "u \<noteq> []"
    then have "CHR ''-'' \<notin> set v" using s d by (cases u) (auto simp: is_digit_def Cons_eq_append_conv)
    then show "?f (rev u @ rev w' @ [x], v, []) = []" by (cases v) (auto simp: Chr_def)
  qed
  then obtain rest where r: "concat (map ?f (star_run True (runs (Cls package_char)) ([x], w' @ ?t, []))) = (d # CHR ''-'' # rev w, s, [(1, w)]) # rest"
    by blast
  have eq: "runs fib_re ([], ?a, []) = concat (map ?f (star_run True (runs (Cls package_char)) ([x], w' @ ?t, [])))"
    using w x by (simp add: fib_re_def Plus_def comp_def split_def)
  from eq r have "runs fib_re ([], ?a, []) = (d # CHR ''-'' # rev w, s, [(1, w)]) # rest" by (rule trans)
  then show ?thesis by (auto simp: re_match_def first_match_def group_def)
qed

text \<open>The package guessed from "Fixed in Build" is not the package. When summary and labels name no package, the guess for
  the build \<open>name-version-release\<close> is \<open>name-version\<close>: the repetition is greedy and stops at the last hyphen before a digit, the
  one of the release. (The comment in the code says the pattern keeps names like \<open>python3.13\<close>.)\<close>

lemma guess_from_build_keeps_version:
  assumes "guess_from_text sm lb = None" "name \<noteq> []" "list_all package_char (name @ version)"
    and "is_digit d" "CHR ''-'' \<notin> set rel"
  shows "extract_package_guess sm lb (name @ ''-'' @ version @ ''-'' @ d # rel) = name @ ''-'' @ version"
proof -
  have "\<forall>x \<in> set (name @ ''-'' @ version). package_char x"
    using assms(3) by (auto simp: list_all_iff package_char_def)
  from fib_match[OF _ this assms(4,5)] assms(2) obtain m where
    "re_match fib_re ((name @ ''-'' @ version) @ CHR ''-'' # d # rel) = Some m" "group m 1 = name @ ''-'' @ version" by auto
  then show ?thesis using assms(1) by (simp add: extract_package_guess_def)
qed

end
