(* ===== verification/Cve_Jira.thy ===== *)
theory Cve_Jira
  imports Cve_Tickets Run_Rules
begin

section \<open>CVE triage: Jira\<close>

text \<open>
  \<open>.cursor/skills/cve/cve_analysis_bridge.py\<close> and the part of \<open>lib/jira.py\<close> that asks and writes. \<open>rhjira\<close> is a
  program of the host. The functions of the package \<open>hummingbird_cve_analysis\<close> are questions \<open>Lib f args\<close> to
  it, with the credentials as the first two arguments and the last one; \<open>None\<close> is the empty text. The module's
  globals are passed along: the cache of dumped issues, and the credentials once they are loaded.
\<close>

subsection \<open>Credentials\<close>

definition DEFAULT_JIRA_URL :: string where "DEFAULT_JIRA_URL = ''https://redhat.atlassian.net''"

definition DEFAULT_AGENT_ENV :: path where "DEFAULT_AGENT_ENV = [''~'', ''.config'', ''rhjira'', ''agent.env'']"

definition ENV_ASSIGNMENT_RE :: rx where
  \<comment> \<open>\<open>^(?:export\s+)?([A-Za-z_][A-Za-z0-9_]*)=(.*)$\<close>\<close>
  "ENV_ASSIGNMENT_RE = Seq [Bol False, Opt (Seq [Lit ''export'', Plus True Space]),
     Grp 1 (Sq (Cls (\<lambda>c. is_alpha c \<or> c = CHR ''_'')) (Star True (Cls (\<lambda>c. is_alpha c \<or> is_digit c \<or> c = CHR ''_'')))),
     Chr CHR ''='', Grp 2 (Star True Dot), Eol False]"

record jira_auth =
  auth_token :: string
  base_url :: string
  basic_auth_user :: string
  auth_source :: string

definition unquote :: "string \<Rightarrow> string" where
  "unquote v = (if length v \<ge> 2 \<and> hd v = last v \<and> hd v \<in> {CHR 0x22, CHR 0x27} then butlast (tl v) else v)"

definition env_assignment :: "string \<Rightarrow> (string \<times> string) option" where
  "env_assignment raw_line = (let line = strip raw_line in
     if line = [] \<or> startswith line ''#'' then None
     else map_option (\<lambda>m. (group m 1, unquote (strip (group m 2)))) (re_match ENV_ASSIGNMENT_RE line))"

definition parse_agent_env :: "string \<Rightarrow> (string \<times> string) list" where
  "parse_agent_env t = foldl (\<lambda>d line. case env_assignment line of Some (k, v) \<Rightarrow> dset k v d | None \<Rightarrow> d) [] (splitlines t)"

definition read_agent_env :: "(string \<times> string) list prog" where
  "read_agent_env = catch ((bind (read_text DEFAULT_AGENT_ENV) (\<lambda>t.
    ret (parse_agent_env t)))) is_OSError (\<lambda>_. ret [])"

definition get_text :: "(string \<times> string) list \<Rightarrow> string \<Rightarrow> string" where
  \<comment> \<open>\<open>d.get(k)\<close> of a dict of texts, the empty text for none\<close>
  "get_text env k = (case dget env k of Some v \<Rightarrow> v | None \<Rightarrow> [])"

definition first_of :: "string list \<Rightarrow> string" where
  \<comment> \<open>\<open>a or b or \<dots>\<close>\<close>
  "first_of vs = (case filter (\<lambda>v. v \<noteq> []) vs of v # _ \<Rightarrow> v | [] \<Rightarrow> [])"

definition with_defaults :: "(string \<times> string) list \<Rightarrow> (string \<times> string) list \<Rightarrow> (string \<times> string) list" where
  \<comment> \<open>\<open>env.setdefault(k, v)\<close> for every item of the file\<close>
  "with_defaults env vals = foldl (\<lambda>d (k, v). if has_key d k then d else dset k v d) env vals"

definition auth_of :: "(string \<times> string) list \<Rightarrow> string \<Rightarrow> exn + jira_auth" where
  "auth_of env src = (let token = strip (get_text env ''JIRA_TOKEN'') in
     if token = [] then Inl (RuntimeError (''JIRA_TOKEN is not set. Install rhjira and configure '' @ path_str DEFAULT_AGENT_ENV @
       '', or export JIRA_TOKEN.''))
     else Inr \<lparr>auth_token = token,
       base_url = rev (dropWhile (\<lambda>c. c = CHR ''/'')
         (rev (first_of [get_text env ''JIRA_URL'', get_text env ''JIRA_SERVER'', DEFAULT_JIRA_URL]))),
       basic_auth_user = strip (first_of [get_text env ''JIRA_USER'', get_text env ''JIRA_EMAIL'']), auth_source = src\<rparr>)"

definition load_jira_auth :: "jira_auth prog" where
  "load_jira_auth = (bind (gets environ) (\<lambda>env.
    if get_text env ''JIRA_TOKEN'' \<noteq> [] then (from_sum (auth_of env ''env'')) else
    bind read_agent_env (\<lambda>vals.
    from_sum (if get_text vals ''JIRA_TOKEN'' \<noteq> [] then auth_of (with_defaults env vals) (path_str DEFAULT_AGENT_ENV)
      else auth_of env ''env''))))"

subsection \<open>The analysis package\<close>

definition lib_exn :: "reply \<Rightarrow> exn" where
  "lib_exn r = (case r of HttpErr c m \<Rightarrow> HTTPError c m | NetErr m \<Rightarrow> URLError m | TimedOut \<Rightarrow> SocketTimeout
     | Body _ _ \<Rightarrow> JSONDecodeError | HttpExc m \<Rightarrow> HTTPException m | Fault m \<Rightarrow> TypeError m
     | Blob _ \<Rightarrow> KeyError ''response'' | _ \<Rightarrow> OSError ''no response'')"

definition lib_call :: "host \<Rightarrow> string \<Rightarrow> string list \<Rightarrow> json prog" where
  "lib_call h f args = (bind (ask_host h (Lib f args)) (\<lambda>r.
    (case r of Answer j \<Rightarrow> ret j | _ \<Rightarrow> raise (lib_exn r))))"

definition import_analysis_lib :: "host \<Rightarrow> string \<Rightarrow> unit prog" where
  \<comment> \<open>whether the package can be imported is the host's\<close>
  "import_analysis_lib h name = (bind (ask_host h (Lib ''__import__'' [''hummingbird_cve_analysis.lib.'' @ name])) (\<lambda>r.
    (case r of Answer _ \<Rightarrow> ret () | _ \<Rightarrow> raise (RuntimeError ''hummingbird_cve_analysis is not installed.''))))"

definition jira_caught :: "exn \<Rightarrow> bool" where
  "jira_caught e = (is_OSError e \<or> e = JSONDecodeError)"

definition jira_auth_call :: "host \<Rightarrow> jira_auth option \<Rightarrow> string \<Rightarrow> string \<Rightarrow> string list \<Rightarrow> (json \<times> jira_auth) prog" where
  "jira_auth_call h auth meth key args = (seq (import_analysis_lib h ''jira_client'') (
    bind (case auth of Some a \<Rightarrow> ret a | None \<Rightarrow> load_jira_auth) (\<lambda>a.
    bind (catch (lib_call h meth (base_url a # auth_token a # key # args @ [basic_auth_user a])) jira_caught
      (\<lambda>e. raise (RuntimeError (''Jira '' @ meth @ '' failed for '' @ key @ '': '' @ exn_str e)))) (\<lambda>j.
    ret (j, a)))))"

subsection \<open>rhjira\<close>

definition run_command_json :: "host \<Rightarrow> string list \<Rightarrow> path \<Rightarrow> (completed \<times> json option) prog" where
  \<comment> \<open>\<open>run_command\<close>, with the JSON document on standard output when it is one\<close>
  "run_command_json h argv cwd = (bind (ask_host h (Proc argv cwd)) (\<lambda>r.
    bind (catch (from_sum (completed_of argv False r)) is_OSError
      (\<lambda>e. raise (RuntimeError (''Failed to execute '' @ join '' '' argv @ '': '' @ exn_str e)))) (\<lambda>c.
    ret (c, (case r of ExitJ _ j _ \<Rightarrow> Some j | _ \<Rightarrow> None)))))"

definition run_skill_command :: "host \<Rightarrow> string list \<Rightarrow> path \<Rightarrow> completed prog" where
  "run_skill_command h argv cwd = (bind (run_command_json h argv cwd) (\<lambda>(c, j).
    ret c))"

definition TRANSIENT_RHJIRA_RE :: rx where
  "TRANSIENT_RHJIRA_RE = AltL (map LitCI [''proxy'', ''tunnel'', ''timed out'', ''timeout'', ''temporar'', ''502'', ''503'', ''504'',
     ''connection reset''] @ [Seq [WordB, LitCI ''eof'', WordB]])"

definition transient :: "completed \<Rightarrow> bool" where
  "transient c = (re_search TRANSIENT_RHJIRA_RE (stderr c @ [nl] @ stdout c) \<noteq> None)"

fun rhjira_attempts :: "host \<Rightarrow> string list \<Rightarrow> path \<Rightarrow> nat \<Rightarrow> nat \<Rightarrow> (completed \<times> json option) prog" where
  \<comment> \<open>the loop of \<open>run_rhjira\<close>, with the attempts left and the next pause\<close>
  "rhjira_attempts h args cwd 0 backoff = raise (AssertionError ''last is not None'')"
| "rhjira_attempts h args cwd (Suc n) backoff = (bind (run_command_json h (''rhjira'' # args) cwd) (\<lambda>r.
  if returncode (fst r) = 0 \<or> n = 0 \<or> \<not> transient (fst r) then (ret r) else
  seq (sleep backoff) (
  rhjira_attempts h args cwd n (backoff + 2))))"

definition run_rhjira_json :: "host \<Rightarrow> string list \<Rightarrow> (completed \<times> json option) prog" where
  "run_rhjira_json h args = rhjira_attempts h args ROOT_DIR 3 2"

definition run_rhjira :: "host \<Rightarrow> string list \<Rightarrow> completed prog" where
  "run_rhjira h args = (bind (run_rhjira_json h args) (\<lambda>(c, j).
    ret c))"

definition which :: "host \<Rightarrow> string \<Rightarrow> bool prog" where
  "which h name = (bind (ask_host h (Lib ''shutil.which'' [name])) (\<lambda>r.
    ret (case r of Answer j \<Rightarrow> truthy j | _ \<Rightarrow> False)))"

definition ensure_rhjira_available :: "host \<Rightarrow> unit prog" where
  "ensure_rhjira_available h = (bind (which h ''rhjira'') (\<lambda>b.
    whenM (\<not> b) (raise (RuntimeError ''`rhjira` is not installed or not found in PATH.''))))"

subsection \<open>Fetching issues\<close>

definition JIRA_FIELDS_FULL :: string where
  "JIRA_FIELDS_FULL = join '','' [''summary'', ''status'', ''issuetype'', ''assignee'', ''labels'', ''description'', ''comment'',
     ''issuelinks'', ''customfield_10578'', ''customfield_10632'', ''customfield_10840'']"

definition JIRA_FIELDS_LINKED :: string where "JIRA_FIELDS_LINKED = ''summary,status,issuetype''"

definition JIRA_FIELDS_BATCH :: string where "JIRA_FIELDS_BATCH = ''summary,status,issuetype,assignee,labels''"

type_synonym jira_cache = "(string \<times> dict) list"

definition fields_of :: "string \<Rightarrow> completed \<times> json option \<Rightarrow> exn + dict" where
  \<comment> \<open>the fields of a dump; \<open>RuntimeError\<close> where the code returns \<open>None\<close> or raises, as it was asked to\<close>
  "fields_of key r = (if returncode (fst r) \<noteq> 0
     then Inl (RuntimeError (''rhjira dump '' @ key @ '' failed: '' @ first_of [strip (stderr (fst r)), strip (stdout (fst r))]))
     else (case snd r of
       None \<Rightarrow> Inl (RuntimeError (''Invalid JSON from rhjira dump '' @ key))
     | Some data \<Rightarrow> (case as_dict data of
         Inl e \<Rightarrow> Inl e
       | Inr d \<Rightarrow> (case dget d ''fields'' of
           Some v \<Rightarrow> if truthy v then as_dict v else Inl (RuntimeError (''rhjira dump '' @ key @ '' returned no fields data''))
         | None \<Rightarrow> Inl (RuntimeError (''rhjira dump '' @ key @ '' returned no fields data''))))))"

definition fetch_json :: "host \<Rightarrow> jira_cache \<Rightarrow> string \<Rightarrow> string \<Rightarrow> bool \<Rightarrow> (dict option \<times> jira_cache) prog" where
  "fetch_json h cache key flds raise_on_error = (let cache_key = key @ '':'' @ flds in
     case dget cache cache_key of
       Some parsed \<Rightarrow> ret (Some parsed, cache)
     | None \<Rightarrow> (bind (run_rhjira_json h [''dump'', key, ''--fields'', flds, ''--json'']) (\<lambda>r.
       (case fields_of key r of
            Inr parsed \<Rightarrow> ret (Some parsed, dset cache_key parsed cache)
          | Inl e \<Rightarrow> (if is_RuntimeError e \<and> \<not> raise_on_error then ret (None, cache) else raise e)))))"

definition linked_of :: "string \<Rightarrow> dict \<Rightarrow> linked_ticket" where
  "linked_of key flds = \<lparr>l_ticket = key, l_summary = (case dget flds ''summary'' of Some v \<Rightarrow> py_text v | None \<Rightarrow> []),
     l_status = json_str_path (JObj flds) [''status'', ''name''], l_type = json_str_path (JObj flds) [''issuetype'', ''name''], l_error = []\<rparr>"

definition batch_fetch_linked :: "host \<Rightarrow> jira_cache \<Rightarrow> string list \<Rightarrow> ((string \<times> linked_ticket) list \<times> jira_cache) prog" where
  "batch_fetch_linked h cache keys = foldM (\<lambda>(res, cache) key. (bind (fetch_json h cache key JIRA_FIELDS_LINKED False) (\<lambda>(flds, cache).
    ret (case flds of None \<Rightarrow> (res, cache) | Some d \<Rightarrow> (dset key (linked_of key d) res, cache))))) ([], cache) keys"

definition batch_fetch_tickets :: "host \<Rightarrow> jira_cache \<Rightarrow> string list \<Rightarrow> ((string \<times> ticket_report) list \<times> jira_cache) prog" where
  "batch_fetch_tickets h cache keys = foldM (\<lambda>(res, cache) key. (bind (fetch_json h cache key JIRA_FIELDS_BATCH False) (\<lambda>(flds, cache).
    (case flds of
         None \<Rightarrow> ret (res, cache)
       | Some d \<Rightarrow> (bind (from_sum (summary_of d)) (\<lambda>s.
         bind (from_sum (extract_labels d)) (\<lambda>ls.
         ret (dset key (batch_report_of key d s ls) res, cache)))))))) ([], cache) keys"

definition inspect_linked_tickets :: "host \<Rightarrow> jira_cache \<Rightarrow> string \<Rightarrow> string list \<Rightarrow> nat \<Rightarrow> (linked_ticket list \<times> jira_cache) prog" where
  "inspect_linked_tickets h cache current linked max_linked = (let keys = take max_linked (filter (\<lambda>k. k \<noteq> current) linked) in (bind (batch_fetch_linked h cache keys) (\<lambda>(fetched, cache).
    ret (map (\<lambda>k. case dget fetched k of Some l \<Rightarrow> l
       | None \<Rightarrow> \<lparr>l_ticket = k, l_summary = [], l_status = [], l_type = [], l_error = ''not found in batch fetch''\<rparr>) keys, cache))))"

definition related_jql :: "string list \<Rightarrow> string" where
  "related_jql ids = ''project = HUM AND status not in (Closed, '' @ [CHR 0x22] @ ''CLOSED (invalid)'' @ [CHR 0x22] @
     '', Done, Resolved, '' @ [CHR 0x22] @ ''Won'' @ [CHR 0x27] @ ''t Fix'' @ [CHR 0x22] @ '') AND ('' @
     join '' OR '' (map (\<lambda>c. ''text ~ '' @ [CHR 0x22] @ c @ [CHR 0x22]) ids) @ '')''"

definition listed_key :: "string \<Rightarrow> string list" where
  "listed_key line = (case split_on CHR ''|'' line of
     _ # p # _ \<Rightarrow> if re_fullmatch HUM_RE (strip p) \<noteq> None then [strip p] else []
   | _ \<Rightarrow> [])"

definition find_related_tickets :: "host \<Rightarrow> string list \<Rightarrow> string list prog" where
  "find_related_tickets h ids = (if ids = [] then ret [] else (bind (run_rhjira h [''list'', related_jql ids, ''--fields'', ''key'', ''--rawoutput'', ''--noheader'']) (\<lambda>c.
    ret (if returncode c \<noteq> 0 then [] else sort (remdups (concat (map listed_key (splitlines (strip (stdout c))))))))))"

subsection \<open>Pulp\<close>

definition index_list :: "json \<Rightarrow> string \<Rightarrow> json list" where
  \<comment> \<open>\<open>getattr(index, name, []) or []\<close>\<close>
  "index_list j name = (case j of JObj d \<Rightarrow> (case dget d name of Some (JList xs) \<Rightarrow> xs | _ \<Rightarrow> []) | _ \<Rightarrow> [])"

definition srpm_file :: "string \<Rightarrow> string" where "srpm_file nvr = normalize_nvr nvr @ ''.src.rpm''"

definition listed_in :: "string \<Rightarrow> json \<Rightarrow> bool" where
  "listed_in nvr index = (JStr (normalize_nvr nvr) \<in> set (index_list index ''nvrs'') \<or>
     JStr (srpm_file nvr) \<in> set (index_list index ''srpm_filenames''))"

definition pulp_has_nvr :: "host \<Rightarrow> string \<Rightarrow> string \<Rightarrow> (bool \<times> string) prog" where
  "pulp_has_nvr h package nvr = (seq (import_analysis_lib h ''pulp'') (
    bind (lib_call h ''fetch_srpm_listing_index'' [package]) (\<lambda>index.
    if index \<noteq> JNull \<and> listed_in nvr index then (ret (True, srpm_file nvr @ '' is in the Pulp listing for '' @ package)) else
    bind (lib_call h ''fetch_hummingbird_latest_srpm'' [package]) (\<lambda>latest.
    if latest = JStr (srpm_file nvr) then (ret (True, ''Pulp latest SRPM for '' @ package @ '' is '' @ py_text latest)) else
    ret (False, srpm_file nvr @ '' not published in Pulp for '' @ package @
      (if truthy latest then '' (latest '' @ py_text latest @ '')'' else []))))))"

subsection \<open>Jira writes\<close>

definition post_comment :: "host \<Rightarrow> jira_auth option \<Rightarrow> string \<Rightarrow> string \<Rightarrow> (bool \<times> jira_auth) prog" where
  "post_comment h auth key body = (bind (jira_auth_call h auth ''jira_add_comment'' key [body]) (\<lambda>(j, a).
    ret (truthy j, a)))"

definition apply_next_release :: "host \<Rightarrow> jira_auth option \<Rightarrow> string \<Rightarrow> string \<Rightarrow> jira_auth prog" where
  "apply_next_release h auth key body = (bind (post_comment h auth key body) (\<lambda>(_, a).
    bind (jira_auth_call h (Some a) ''add_jira_label'' key [''cve-next-release'']) (\<lambda>(_, a).
    bind (jira_auth_call h (Some a) ''remove_jira_label'' key [''cve-needs-attention'']) (\<lambda>(_, a).
    ret a))))"

definition set_fixed_in_build :: "host \<Rightarrow> jira_auth option \<Rightarrow> string \<Rightarrow> string \<Rightarrow> string \<Rightarrow> bool \<Rightarrow> string prog" where
  "set_fixed_in_build h auth key nvr package force = (bind (pulp_has_nvr h package nvr) (\<lambda>(published, detail).
    if \<not> published \<and> \<not> force then (raise (RuntimeError (''Refusing to set Fixed in Build: '' @ detail @
      ''. Pass --force only if the user confirmed a Pulp override.''))) else
    seq (jira_auth_call h auth ''set_fixed_in_build'' key [srpm_file nvr]) (
    ret (if published then detail else ''forced; '' @ detail))))"

definition close_not_a_bug :: "host \<Rightarrow> jira_auth option \<Rightarrow> string \<Rightarrow> string \<Rightarrow> string \<Rightarrow> jira_auth prog" where
  "close_not_a_bug h auth key body vex = (bind (post_comment h auth key body) (\<lambda>(_, a).
    bind (jira_auth_call h (Some a) ''set_vex_justification'' key [vex]) (\<lambda>(vex_ok, a).
    if vex_ok = JBool False then (raise (RuntimeError (''Failed to set VEX justification on '' @ key))) else
    bind (jira_auth_call h (Some a) ''jira_resolve_issue'' key [''Closed'', ''Not a Bug'']) (\<lambda>(resolved, a).
    if resolved = JBool False then (raise (RuntimeError (''Failed to close '' @ key @ '' as Not a Bug''))) else
    ret a))))"

subsection \<open>Creating a task\<close>

definition CREATED_TICKET_RE :: rx where
  \<comment> \<open>\<open>https://redhat\.atlassian\.net/browse/(HUM-\d{3,6})|(?:^|\b)(HUM-\d{3,6})\b\<close>\<close>
  "CREATED_TICKET_RE = Alt (Seq [Lit ''https://redhat.atlassian.net/browse/'', Grp 1 HUM_RE])
     (Seq [Alt (Bol False) WordB, Grp 2 HUM_RE, WordB])"

definition parse_created_issue_key :: "string \<Rightarrow> exn + string" where
  "parse_created_issue_key t = (let keys = map (\<lambda>m. first_of [group m 1, group m 2]) (re_finditer CREATED_TICKET_RE t) in
     if keys = [] then Inl (RuntimeError (''Could not parse created HUM ticket from:'' @ [nl] @ t)) else Inr (last keys))"

definition create_argv :: "string \<Rightarrow> string \<Rightarrow> string \<Rightarrow> string list" where
  "create_argv sm asg components = [''create'', ''--noeditor'', ''--project'', ''HUM'', ''--tickettype'', ''Task'', ''--summary'', sm,
     ''--assignee'', asg, ''--components'', components]"

definition checked_rhjira :: "host \<Rightarrow> string list \<Rightarrow> string \<Rightarrow> completed prog" where
  \<comment> \<open>a call whose failure is a \<open>RuntimeError\<close> with what it printed\<close>
  "checked_rhjira h args fallback = (bind (run_rhjira h args) (\<lambda>c.
    if returncode c \<noteq> 0 then (raise (RuntimeError (strip (first_of [stderr c, stdout c, fallback])))) else
    ret c))"

definition create_hum_task :: "host \<Rightarrow> string \<Rightarrow> string list \<Rightarrow> string \<Rightarrow> string \<Rightarrow> string prog" where
  "create_hum_task h sm blocks asg components = (seq (ensure_rhjira_available h) (
    bind (if asg \<noteq> [] then ret asg else (bind load_jira_auth (\<lambda>a.
      ret (basic_auth_user a)))) (\<lambda>who.
    if who = [] then (raise (ValueError ''Pass --assignee; JIRA_EMAIL is not set'')) else
    bind (checked_rhjira h (create_argv sm who components) ''rhjira create failed'') (\<lambda>c.
    bind (from_sum (parse_created_issue_key (stdout c @ [nl] @ stderr c))) (\<lambda>key.
    seq (forM (\<lambda>tracker. (bind (from_sum (normalize_hum_key tracker)) (\<lambda>t.
      seq (checked_rhjira h [''edit'', key, ''--noeditor'', ''--blocks'', t] (''failed to link '' @ tracker)) (
      ret ())))) blocks) (
    seq (checked_rhjira h [''edit'', key, ''--noeditor'', ''--status'', ''In Progress''] ''failed to set In Progress'') (
    ret key)))))))"

end
