(* ===== verification/Cve_Comments.thy ===== *)
theory Cve_Comments
  imports Cve_Jira
begin

section \<open>CVE triage: comments\<close>

text \<open>
  \<open>.cursor/skills/cve/lib/comments.py\<close>: the fields of a resolution comment, from command line flags and from the
  JSON of an earlier probe, the checks before a comment is written, and its text in Jira's markup.
\<close>

type_synonym comment_fields = "(string \<times> string) list"

definition COMMENT_KINDS :: "string list" where
  "COMMENT_KINDS = [''nab'', ''fib'', ''analysis'', ''next-release'']"

definition COMMENT_FIELD_NAMES :: "string list" where
  "COMMENT_FIELD_NAMES = [''package'', ''component'', ''vex'', ''nvr'', ''affected'', ''fixed'', ''cve'', ''assessment'', ''sbom_source'',
     ''sbom_match'', ''runtime_installed'', ''spec_deps'', ''commit'', ''commit_date'', ''tag'', ''tag_date'', ''notes'']"

definition NAB_VEX_BLURB :: "(string \<times> string) list" where
  "NAB_VEX_BLURB = [(''Component not Present'', ''The CVE product/component is not present in this Hummingbird package.''),
     (''Vulnerable Code not Present'', ''The package is a different product, or the vulnerable code path is not used.'')]"

definition JSON_FIELD_ALIASES :: "(string \<times> string list) list" where
  "JSON_FIELD_ALIASES = [(''nvr'', [''nvr'', ''local_nvr'', ''fib'']), (''package'', [''package'', ''package_guess'']),
     (''affected'', [''affected'', ''affected_range'']), (''fixed'', [''fixed'', ''fixed_version'']),
     (''component'', [''component'', ''upstream_component'']), (''cve'', [''cve'', ''cve_id'']),
     (''assessment'', [''assessment'', ''hint'', ''verdict'']), (''commit'', [''commit'']), (''commit_date'', [''commit_date'']),
     (''tag'', [''tag'']), (''tag_date'', [''tag_date'']), (''sbom_source'', [''sbom_source'', ''source'']),
     (''sbom_match'', [''sbom_match'']), (''runtime_installed'', [''runtime_installed'']), (''spec_deps'', [''spec_deps'']),
     (''vex'', [''vex'']), (''notes'', [''notes''])]"

definition empty_comment_fields :: comment_fields where
  "empty_comment_fields = map (\<lambda>n. (n, [])) COMMENT_FIELD_NAMES"

subsection \<open>Fields\<close>

definition first_str_of :: "json \<Rightarrow> string" where
  \<comment> \<open>the text \<open>_first_str\<close> takes from one value; empty when it passes it over\<close>
  "first_str_of v = (case v of JStr s \<Rightarrow> strip s | JInt i \<Rightarrow> show_int i
     | JList xs \<Rightarrow> join '', '' (filter (\<lambda>s. s \<noteq> []) (map (\<lambda>x. strip (py_text x)) xs)) | _ \<Rightarrow> [])"

definition first_str :: "dict \<Rightarrow> string list \<Rightarrow> string" where
  \<comment> \<open>\<open>_first_str(*(source.get(name) for name in names))\<close>\<close>
  "first_str source names = first_of (map (\<lambda>n. case dget source n of Some v \<Rightarrow> first_str_of v | None \<Rightarrow> []) names)"

definition overlay_comment_fields :: "comment_fields \<Rightarrow> comment_fields \<Rightarrow> comment_fields" where
  "overlay_comment_fields base overlay =
     (let merged = foldl (\<lambda>m (k, v). if has_key m k then dset k v m else m) empty_comment_fields base in
      foldl (\<lambda>m (k, v). if has_key m k \<and> strip v \<noteq> [] then dset k (strip v) m else m) merged overlay)"

definition fill_from :: "dict \<Rightarrow> comment_fields \<Rightarrow> comment_fields" where
  "fill_from source flds = foldl (\<lambda>m (dest, names). if get_text m dest \<noteq> [] then m else dset dest (first_str source names) m)
     flds JSON_FIELD_ALIASES"

lemma dget_size: "dget d k = Some v \<Longrightarrow> size v < size_list (size_prod (\<lambda>_. 0) size) d"
  by (induction d) (auto split: if_splits)

function fields_from_mapping :: "dict \<Rightarrow> comment_fields" where
  "fields_from_mapping source = fill_from source (case dget source ''fields'' of
     Some (JObj nested) \<Rightarrow> overlay_comment_fields empty_comment_fields (fields_from_mapping nested)
   | _ \<Rightarrow> empty_comment_fields)"
  by pat_completeness auto

termination
  by (relation "measure (size_list (size_prod (\<lambda>_. 0) size))") (auto dest: dget_size)

declare fields_from_mapping.simps [simp del]

definition fields_from_ticket_dict :: "dict \<Rightarrow> comment_fields" where
  "fields_from_ticket_dict t = foldl (\<lambda>m (dest, name). if get_text m dest \<noteq> [] then m else dset dest (first_str t [name]) m)
     (fields_from_mapping t) [(''package'', ''package_guess''), (''nvr'', ''fixed_in_build''), (''cve'', ''cve_ids'')]"

definition field_or_obj :: "dict \<Rightarrow> string \<Rightarrow> exn + dict" where
  \<comment> \<open>\<open>d.get(k) or {}\<close>, as a dict\<close>
  "field_or_obj d k = (case dget d k of Some v \<Rightarrow> if truthy v then as_dict v else Inr [] | None \<Rightarrow> Inr [])"

definition hit_scopes :: "json list \<Rightarrow> string list" where
  "hit_scopes hits = sort (remdups (concat (map (\<lambda>hit. case hit of
     JObj d \<Rightarrow> (let s = strip (text_or_empty d ''scope'') in if s \<noteq> [] then [s] else []) | _ \<Rightarrow> []) hits)))"

definition sbom_fields :: "dict \<Rightarrow> comment_fields \<Rightarrow> comment_fields" where
  \<comment> \<open>what a stored SBOM probe of the package says\<close>
  "sbom_fields sbom flds = (if has_key sbom ''error'' then flds else
     (let source = first_str sbom [''source'', ''url'', ''path''];
          flds = (if source \<noteq> [] then dset ''sbom_source'' source flds else flds)
      in case dget sbom ''hits'' of
           Some (JList []) \<Rightarrow> dset ''sbom_match'' ''no hits'' flds
         | Some (JList hits) \<Rightarrow> (let flds = dset ''sbom_match'' (show_nat (length hits) @ '' hit(s)'') flds; scopes = hit_scopes hits in
             if scopes \<noteq> [] then dset ''runtime_installed'' (join '', '' scopes) flds else flds)
         | _ \<Rightarrow> flds))"

definition spec_fields :: "json \<Rightarrow> comment_fields \<Rightarrow> comment_fields" where
  "spec_fields hits flds = (if \<not> truthy hits then dset ''spec_deps'' ''no spec-deps hits'' flds else
     (case hits of JList hs \<Rightarrow> dset ''spec_deps'' (show_nat (length hs) @ '' spec-deps hit(s)'') flds | _ \<Rightarrow> flds))"

definition fields_from_probes :: "dict \<Rightarrow> string \<Rightarrow> exn + comment_fields" where
  "fields_from_probes probes package = (if package = [] then Inr empty_comment_fields else
     (case field_or_obj probes ''sbom'' of
        Inl e \<Rightarrow> Inl e
      | Inr sbom_map \<Rightarrow> (let flds = (case dget sbom_map package of
            None \<Rightarrow> empty_comment_fields
          | Some v \<Rightarrow> (if \<not> truthy v then sbom_fields [] empty_comment_fields else
              (case v of JObj sbom \<Rightarrow> sbom_fields sbom empty_comment_fields | _ \<Rightarrow> empty_comment_fields))) in
          (case field_or_obj probes ''spec_deps'' of
             Inl e \<Rightarrow> Inl e
           | Inr spec_map \<Rightarrow> Inr (case dget spec_map package of None \<Rightarrow> flds | Some v \<Rightarrow> spec_fields v flds)))))"

subsection \<open>The ticket of a payload\<close>

fun first_entry :: "(string \<Rightarrow> bool) \<Rightarrow> json list \<Rightarrow> exn + dict option" where
  \<comment> \<open>the first ticket whose normalized key satisfies the test; a malformed key on the way raises\<close>
  "first_entry p [] = Inr None"
| "first_entry p (entry # rest) = (case entry of
     JObj d \<Rightarrow> (let key = text_or_empty d ''ticket'' in
       if key = [] then first_entry p rest
       else (case normalize_hum_key key of Inl e \<Rightarrow> Inl e | Inr k \<Rightarrow> if p k then Inr (Some d) else first_entry p rest))
   | _ \<Rightarrow> first_entry p rest)"

fun normalized_keys :: "json list \<Rightarrow> exn + string list" where
  "normalized_keys [] = Inr []"
| "normalized_keys (x # xs) = (if strip (py_text x) = [] then normalized_keys xs else
     (case normalize_hum_key (py_text x) of Inl e \<Rightarrow> Inl e | Inr k \<Rightarrow> map_sum id (Cons k) (normalized_keys xs)))"

definition user_entry :: "dict \<Rightarrow> json list \<Rightarrow> exn + dict option" where
  \<comment> \<open>the first ticket the user named\<close>
  "user_entry data tickets = (case dget data ''user_provided'' of
     None \<Rightarrow> Inr None
   | Some v \<Rightarrow> (if \<not> truthy v then Inr None else (case as_list v of
       Inl e \<Rightarrow> Inl e
     | Inr ks \<Rightarrow> (case normalized_keys ks of Inl e \<Rightarrow> Inl e | Inr wanted \<Rightarrow> first_entry (\<lambda>k. k \<in> set wanted) tickets))))"

definition or_else :: "exn + 'a option \<Rightarrow> exn + 'a option \<Rightarrow> exn + 'a option" where
  "or_else a b = (case a of Inl e \<Rightarrow> Inl e | Inr (Some x) \<Rightarrow> Inr (Some x) | Inr None \<Rightarrow> b)"

definition wanted_entry :: "string \<Rightarrow> json list \<Rightarrow> exn + dict option" where
  "wanted_entry key tickets = (if key = [] then Inr None else
     (case normalize_hum_key key of Inl e \<Rightarrow> Inl e | Inr wanted \<Rightarrow> first_entry (\<lambda>k. k = wanted) tickets))"

definition chosen_ticket :: "dict \<Rightarrow> string \<Rightarrow> exn + dict option" where
  "chosen_ticket data key = (case dget data ''tickets'' of
     Some (JList (t # ts)) \<Rightarrow> or_else (wanted_entry key (t # ts)) (or_else (user_entry data (t # ts))
       (Inr (case t of JObj d \<Rightarrow> Some d | _ \<Rightarrow> None)))
   | _ \<Rightarrow> Inr None)"

definition comment_fields_from_payload :: "dict \<Rightarrow> string \<Rightarrow> exn + comment_fields" where
  "comment_fields_from_payload data key = (case chosen_ticket data key of
     Inl e \<Rightarrow> Inl e
   | Inr chosen \<Rightarrow> (let flds = (case chosen of None \<Rightarrow> fields_from_mapping data
         | Some t \<Rightarrow> overlay_comment_fields (fields_from_mapping data) (fields_from_ticket_dict t)) in
       (case dget data ''probes'' of
          Some (JObj probes) \<Rightarrow> map_sum id (overlay_comment_fields flds) (fields_from_probes probes (get_text flds ''package''))
        | _ \<Rightarrow> Inr flds)))"

definition load_comment_json :: "path \<Rightarrow> dict prog" where
  "load_comment_json p = (bind (catch (json_load p) (\<lambda>e. is_OSError e \<or> e = JSONDecodeError)
      (\<lambda>e. raise (RuntimeError (''Failed to read --from-json '' @ path_str p @ '': '' @ exn_str e)))) (\<lambda>data.
    (case data of JObj d \<Rightarrow> ret d | _ \<Rightarrow> raise (RuntimeError (''--from-json '' @ path_str p @ '' must be a JSON object'')))))"

subsection \<open>Markup\<close>

definition wiki_mono :: "string \<Rightarrow> string" where
  "wiki_mono value = ''{{'' @ replace_all ''}}'' [] (replace_all ''{{'' [] value) @ ''}}''"

definition wiki_field :: "string \<Rightarrow> string \<Rightarrow> bool \<Rightarrow> string option" where
  "wiki_field label value as_code = (if strip value = [] then None
     else Some (''*'' @ label @ '':* '' @ (if as_code then wiki_mono (strip value) else strip value)))"

definition join_wiki_lines :: "string option list \<Rightarrow> string" where
  "join_wiki_lines lines = rstrip (join [nl] (concat (map (\<lambda>l. case l of Some s \<Rightarrow> [s] | None \<Rightarrow> []) lines))) @ [nl]"

definition with_date :: "string \<Rightarrow> string \<Rightarrow> string" where
  "with_date what date = (if what \<noteq> [] \<and> date \<noteq> [] then what @ '' ('' @ date @ '')'' else if date \<noteq> [] then date else what)"

definition upstream_wiki_lines :: "comment_fields \<Rightarrow> string option list" where
  "upstream_wiki_lines flds =
     [wiki_field ''Upstream commit'' (with_date (get_text flds ''commit'') (get_text flds ''commit_date'')) True,
      wiki_field ''Upstream tag'' (with_date (get_text flds ''tag'') (get_text flds ''tag_date'')) True]"

definition validate_comment_fields :: "string \<Rightarrow> comment_fields \<Rightarrow> exn + unit" where
  "validate_comment_fields k flds = (let has = (\<lambda>f. get_text flds f \<noteq> []); fails = (\<lambda>msg. Inl (RuntimeError msg)) in
     if k \<notin> set COMMENT_KINDS then fails (''Unknown comment kind '' @ [CHR 0x27] @ k @ [CHR 0x27] @ ''; expected one of '' @ join '', '' COMMENT_KINDS)
     else if k = ''nab'' then
       (if \<not> has ''vex'' then fails ''comment --kind nab needs --vex''
        else if \<not> has_key NAB_VEX_BLURB (get_text flds ''vex'') then
          fails (''comment --kind nab --vex must be one of: '' @ [CHR 0x27] @ join '', '' (sort (map fst NAB_VEX_BLURB)) @ [CHR 0x27])
        else if \<not> has ''package'' \<and> \<not> has ''component'' then fails ''comment --kind nab needs --package or --component''
        else Inr ())
     else if k = ''fib'' then (if \<not> has ''package'' \<or> \<not> has ''nvr'' then fails ''comment --kind fib needs --package and --nvr'' else Inr ())
     else if k = ''analysis'' then (if \<not> has ''package'' then fails ''comment --kind analysis needs --package'' else Inr ())
     else if \<not> has ''package'' \<and> \<not> has ''cve'' \<and> \<not> has ''notes'' then fails ''comment --kind next-release needs --package, --cve, or -m''
     else Inr ())"

definition evidence_lines :: "comment_fields \<Rightarrow> string list" where
  "evidence_lines flds = (let lines = concat (map (\<lambda>l. case l of Some s \<Rightarrow> [s] | None \<Rightarrow> [])
       [wiki_field ''Spec-deps'' (get_text flds ''spec_deps'') False, wiki_field ''SBOM source'' (get_text flds ''sbom_source'') True,
        wiki_field ''SBOM match'' (get_text flds ''sbom_match'') False,
        wiki_field ''Runtime-installed'' (get_text flds ''runtime_installed'') False]) in
     if lines = [] then [''No SBOM/spec-deps fields passed; do not close without evidence unless the user overrides.''] else lines)"

definition nab_lines :: "comment_fields \<Rightarrow> string option list" where
  "nab_lines flds = [Some ''h3. Not a Bug'', Some [],
     Some (case dget NAB_VEX_BLURB (get_text flds ''vex'') of Some b \<Rightarrow> b | None \<Rightarrow> ''Hummingbird is not affected.''), Some [],
     wiki_field ''Package'' (get_text flds ''package'') True, wiki_field ''Component'' (get_text flds ''component'') True,
     wiki_field ''VEX'' (get_text flds ''vex'') False, wiki_field ''CVE'' (get_text flds ''cve'') True, Some [], Some ''h4. Evidence'', Some []]
     @ map Some (evidence_lines flds)"

definition fib_lines :: "comment_fields \<Rightarrow> string option list" where
  "fib_lines flds = [Some ''h3. Already fixed'', Some [],
     Some (''The local SRPM is at or above the fix. Setting Fixed in Build to '' @ wiki_mono (get_text flds ''nvr'') @
       ''. Leaving the tracker open for advisory automation.''), Some [],
     wiki_field ''Package'' (get_text flds ''package'') True, wiki_field ''Local NVR'' (get_text flds ''nvr'') True,
     wiki_field ''CVE affected'' (get_text flds ''affected'') False, wiki_field ''Fixed in'' (get_text flds ''fixed'') True,
     wiki_field ''CVE'' (get_text flds ''cve'') True, wiki_field ''Assessment'' (get_text flds ''assessment'') False]
     @ upstream_wiki_lines flds"

definition analysis_lines :: "comment_fields \<Rightarrow> string option list" where
  "analysis_lines flds = [Some ''h3. Analysis'', Some [],
     wiki_field ''Package'' (get_text flds ''package'') True, wiki_field ''Local NVR'' (get_text flds ''nvr'') True,
     wiki_field ''Assessment'' (get_text flds ''assessment'') False, wiki_field ''Affected range'' (get_text flds ''affected'') False,
     wiki_field ''Fixed in'' (get_text flds ''fixed'') True, wiki_field ''CVE'' (get_text flds ''cve'') True] @ upstream_wiki_lines flds"

definition next_release_lines :: "comment_fields \<Rightarrow> string option list" where
  "next_release_lines flds = [Some ''h3. Waiting on upstream'', Some [],
     Some (''Hummingbird is affected. No consumable upstream fix is available yet. Labeling '' @ wiki_mono ''cve-next-release'' @
       '' and leaving In Progress.''), Some [],
     wiki_field ''Package'' (get_text flds ''package'') True, wiki_field ''CVE'' (get_text flds ''cve'') True,
     wiki_field ''Affected range'' (get_text flds ''affected'') False, wiki_field ''Assessment'' (get_text flds ''assessment'') False]"

definition render_comment :: "string \<Rightarrow> comment_fields \<Rightarrow> exn + string" where
  "render_comment k flds = (case validate_comment_fields k flds of
     Inl e \<Rightarrow> Inl e
   | Inr u \<Rightarrow> (let notes = strip (get_text flds ''notes'');
         lines = (if k = ''nab'' then nab_lines flds else if k = ''fib'' then fib_lines flds
           else if k = ''analysis'' then analysis_lines flds else next_release_lines flds)
       in Inr (join_wiki_lines (lines @ (if notes \<noteq> [] then [Some [], Some notes] else [])))))"

subsection \<open>The body of a comment\<close>

record wiki_args =
  a_tickets :: "string list"
  a_file :: "path option"
  a_message :: string
  a_kind :: string
  a_from_json :: "path option"
  a_from_ticket :: string
  a_fields :: "(string \<times> string) list" \<comment> \<open>the flags named after comment fields\<close>
  a_print_only :: bool
  a_json :: bool

definition comment_fields_from_args :: "wiki_args \<Rightarrow> comment_fields" where
  "comment_fields_from_args a = map (\<lambda>n. (n, if n = ''notes'' then [] else strip (get_text (a_fields a) n))) COMMENT_FIELD_NAMES"

definition payload_fields :: "wiki_args \<Rightarrow> comment_fields prog" where
  "payload_fields a = (case a_from_json a of
     None \<Rightarrow> ret empty_comment_fields
   | Some p \<Rightarrow> (bind (load_comment_json p) (\<lambda>data.
     from_sum (comment_fields_from_payload data
         (if a_from_ticket a \<noteq> [] then a_from_ticket a else case a_tickets a of t # _ \<Rightarrow> t | [] \<Rightarrow> [])))))"

definition add_note :: "string \<Rightarrow> comment_fields \<Rightarrow> comment_fields" where
  "add_note message flds = (let extra = strip message in if extra = [] then flds else
     dset ''notes'' (if get_text flds ''notes'' \<noteq> [] then strip (get_text flds ''notes'' @ [nl, nl] @ extra) else extra) flds)"

definition resolve_comment_body :: "wiki_args \<Rightarrow> string \<Rightarrow> string prog" where
  "resolve_comment_body a default_kind = (case a_file a of
     Some p \<Rightarrow> (bind (read_text p) (\<lambda>t.
       ret (rstrip t @ [nl])))
   | None \<Rightarrow> (let k = (if a_kind a = [] \<and> a_message a = [] then default_kind else a_kind a) in
       if k = [] then (if a_message a \<noteq> [] then ret (rstrip (a_message a) @ [nl])
         else raise (ValueError ''Provide --message or --file''))
       else (bind (payload_fields a) (\<lambda>flds.
         from_sum (render_comment k (add_note (a_message a) (overlay_comment_fields flds (comment_fields_from_args a))))))))"

definition emit_comment_body :: "wiki_args \<Rightarrow> string \<Rightarrow> string \<Rightarrow> unit prog" where
  "emit_comment_body a body k = (if a_json a then emit (PrintJson (JObj [(''body'', JStr body), (''kind'', JStr k)]))
     else whenM (a_print_only a) (emit (Print (removesuffix body [nl]))))"

definition skip_jira_write :: "wiki_args \<Rightarrow> bool" where
  "skip_jira_write a = (a_print_only a \<or> a_json a)"

end
