(* ===== verification/Cve_Vcs.thy ===== *)
theory Cve_Vcs
  imports Cve_Jira
begin

section \<open>CVE triage: merge requests, remotes and worktrees\<close>

text \<open>
  \<open>.cursor/skills/cve/lib/vcs.py\<close> without the dates of upstream fixes: the bot's merge requests, the remotes of
  the checkout, worktrees, and opening a merge request from the fork. \<open>git\<close> and \<open>glab\<close> are programs of the host.
\<close>

subsection \<open>Merge requests of the bot\<close>

definition BOT_USER :: string where "BOT_USER = ''project_73447720_bot_6f7c574289c710ebc9ab9ee76059d959''"

definition ensure_glab_available :: "host \<Rightarrow> unit prog" where
  "ensure_glab_available h = (bind (which h ''glab'') (\<lambda>b.
    whenM (\<not> b) (raise (RuntimeError ''`glab` is not installed or not found in PATH.''))))"

record bot_mr =
  mr_iid :: string
  mr_title :: string
  mr_state :: string
  mr_web_url :: string

definition mr_line_re :: rx where
  \<comment> \<open>\<open>!(\d+)\s+(.*)$\<close>\<close>
  "mr_line_re = Seq [Chr CHR ''!'', Grp 1 (Plus True Digit), Plus True Space, Grp 2 (Star True Dot), Eol False]"

definition mr_suffix_re :: rx where
  \<comment> \<open>\<open>\s+\([^)]*\)\s*$\<close>\<close>
  "mr_suffix_re = Seq [Plus True Space, Chr CHR ''('', Star True (Cls (\<lambda>c. c \<noteq> CHR '')'')), Chr CHR '')'', Star True Space, Eol False]"

definition parse_mr_line :: "string \<Rightarrow> string \<Rightarrow> bot_mr list" where
  "parse_mr_line state raw = (let line = strip raw in
     if line = [] \<or> startswith (lower line) ''no merge'' then []
     else (case re_match mr_line_re line of
         None \<Rightarrow> []
       | Some m \<Rightarrow> (let rest = strip (group m 2) in
           [\<lparr>mr_iid = group m 1, mr_title = first_of [strip (re_sub mr_suffix_re (\<lambda>_. []) rest), rest], mr_state = state,
             mr_web_url = ''https://gitlab.com/'' @ GITLAB_RPMS_REPO @ ''/-/merge_requests/'' @ group m 1\<rparr>])))"

definition parse_glab_mr_list :: "string \<Rightarrow> string \<Rightarrow> bot_mr list" where
  "parse_glab_mr_list output state = concat (map (parse_mr_line state) (splitlines output))"

definition list_state :: "host \<Rightarrow> string \<Rightarrow> int \<Rightarrow> string \<Rightarrow> string list \<Rightarrow> bot_mr list prog" where
  "list_state h package per_page state flag = (bind (run_skill_command h ([''glab'', ''mr'', ''list'', ''--repo'', GITLAB_RPMS_REPO, ''--author'', BOT_USER, ''--search'', package,
      ''--per-page'', show_int per_page] @ flag) ROOT_DIR) (\<lambda>c.
    if returncode c \<noteq> 0 then (raise (RuntimeError (''glab mr list ('' @ state @ '') failed: '' @ strip (first_of [stderr c, stdout c])))) else
    ret (parse_glab_mr_list (stdout c) state)))"

definition list_bot_mrs :: "host \<Rightarrow> string \<Rightarrow> int \<Rightarrow> (bot_mr list \<times> bot_mr list) prog" where
  "list_bot_mrs h package per_page = (seq (ensure_glab_available h) (
    bind (list_state h package per_page ''open'' []) (\<lambda>open_mrs.
    bind (list_state h package per_page ''merged'' [''--merged'']) (\<lambda>merged.
    ret (open_mrs, merged)))))"

definition mrs_lines :: "string \<Rightarrow> bot_mr list \<Rightarrow> string list" where
  "mrs_lines state entries = [[], ''=== '' @ state @ '' ('' @ show_nat (length entries) @ '') ===''] @
     (if entries = [] then [''(none)''] else concat (map (\<lambda>e. [''!'' @ mr_iid e @ ''  '' @ mr_title e, ''  '' @ mr_web_url e]) entries))"

definition print_bot_mrs :: "string \<Rightarrow> bot_mr list \<times> bot_mr list \<Rightarrow> unit prog" where
  "print_bot_mrs package mrs = forM (\<lambda>l. emit (Print l)) ([''Bot MRs for package: '' @ package, ''Bot user: '' @ BOT_USER] @
     mrs_lines ''OPEN'' (fst mrs) @ mrs_lines ''MERGED'' (snd mrs))"

subsection \<open>Remotes\<close>

definition rstrip_slashes :: "string \<Rightarrow> string" where
  "rstrip_slashes s = rev (dropWhile (\<lambda>c. c = CHR ''/'') (rev s))"

definition gitlab_project_from_url :: "string \<Rightarrow> exn + string" where
  "gitlab_project_from_url url = (let cleaned = strip url;
       cleaned = (if startswith cleaned ''git@gitlab.com:'' then ''https://gitlab.com/'' @ removeprefix cleaned ''git@gitlab.com:'' else cleaned);
       cleaned = rstrip_slashes (removesuffix cleaned ''.git'')
     in case split_at_str ''gitlab.com/'' cleaned of
          None \<Rightarrow> Inl (RuntimeError (''Not a gitlab.com remote URL: '' @ url))
        | Some (_, project) \<Rightarrow> Inr project)"

definition push_remote :: "string \<Rightarrow> (string \<times> string) list" where
  \<comment> \<open>name and project of a push line of \<open>git remote -v\<close>\<close>
  "push_remote line = (let parts = words line in
     if length parts < 3 \<or> last parts \<noteq> ''(push)'' then []
     else (case gitlab_project_from_url (parts ! 1) of Inl _ \<Rightarrow> [] | Inr project \<Rightarrow> [(parts ! 0, project)]))"

definition push_remotes :: "host \<Rightarrow> path \<Rightarrow> (string \<times> string) list prog" where
  "push_remotes h cwd = (bind (run_skill_command h [''git'', ''remote'', ''-v''] cwd) (\<lambda>c.
    if returncode c \<noteq> 0 then (raise (RuntimeError (first_of [stderr c, ''git remote -v failed'']))) else
    ret (concat (map push_remote (splitlines (stdout c))))))"

definition detect_fork_remote :: "host \<Rightarrow> path \<Rightarrow> (string \<times> string) prog" where
  "detect_fork_remote h cwd = (bind (push_remotes h cwd) (\<lambda>rs.
    (case find (\<lambda>(name, project). rstrip_slashes project \<noteq> GITLAB_RPMS_REPO) rs of
       Some r \<Rightarrow> ret r
     | None \<Rightarrow> raise (RuntimeError (''Could not detect a fork remote. Check `git remote -v` (need a push remote other than '' @ GITLAB_RPMS_REPO @ '').'')))))"

definition detect_target_remote :: "host \<Rightarrow> path \<Rightarrow> string prog" where
  "detect_target_remote h cwd = (bind (push_remotes h cwd) (\<lambda>rs.
    (case find (\<lambda>(name, project). rstrip_slashes project = rstrip_slashes GITLAB_RPMS_REPO) rs of
       Some (name, _) \<Rightarrow> ret name
     | None \<Rightarrow> raise (RuntimeError (''Could not detect a remote pointing at '' @ GITLAB_RPMS_REPO @ ''. Check `git remote -v`.'')))))"

subsection \<open>Worktrees and uploads\<close>

definition WORKTREES :: path where "WORKTREES = [''..'', ''worktrees'']" \<comment> \<open>beside the checkout\<close>

definition create_task_worktree :: "host \<Rightarrow> string \<Rightarrow> string \<Rightarrow> path prog" where
  "create_task_worktree h key base = (bind (from_sum (normalize_hum_key key)) (\<lambda>ticket_key.
    seq (mkdir WORKTREES) (
    let dest = WORKTREES @ [ticket_key] in
    bind (exists dest) (\<lambda>b.
    if b then (raise (RuntimeError (''Worktree path already exists: '' @ path_str dest))) else
    bind (run_skill_command h [''git'', ''rev-parse'', ''--verify'', ''origin/'' @ base] ROOT_DIR) (\<lambda>check.
    let start = (if returncode check = 0 then ''origin/'' @ base else base) in
    bind (run_skill_command h [''git'', ''worktree'', ''add'', path_str dest, ''-b'', ticket_key, start] ROOT_DIR) (\<lambda>c.
    if returncode c \<noteq> 0 then (raise (RuntimeError (''git worktree add failed: '' @ strip (first_of [stderr c, stdout c])))) else
    ret dest))))))"

definition lookaside_upload_commands :: "path list \<Rightarrow> string \<Rightarrow> string list" where
  "lookaside_upload_commands ps package = concat (map (\<lambda>src. let staged = ''/tmp/'' @ last src in
     [''cp '' @ path_str src @ '' '' @ staged, ''./ci/upload-to-lookaside-cache.sh -f '' @ staged @ '' -p '' @ package]) ps)"

subsection \<open>Opening a merge request\<close>

fun map_keys :: "string list \<Rightarrow> exn + string list" where
  "map_keys [] = Inr []"
| "map_keys (t # ts) = (case normalize_hum_key t of Inl e \<Rightarrow> Inl e | Inr k \<Rightarrow> map_sum id (Cons k) (map_keys ts))"

definition build_mr_description :: "string \<Rightarrow> string \<Rightarrow> string list \<Rightarrow> string list \<Rightarrow> exn + string" where
  "build_mr_description sm task trackers cves = (case map_keys trackers of
     Inl e \<Rightarrow> Inl e
   | Inr ts \<Rightarrow> map_sum id (\<lambda>t. rstrip sm @ [nl, nl] @ ''Closes: '' @ t @ [nl] @ ''Ref: '' @ join '', '' ts @ [nl] @
       ''CVE: '' @ join '', '' cves @ [nl]) (normalize_hum_key task))"

definition created_mr_url :: "completed \<Rightarrow> exn + string" where
  "created_mr_url c = (let urls = findall MR_URL_RE (stdout c @ [nl] @ stderr c) in
     if urls \<noteq> [] then Inr (last urls)
     else (let tail = splitlines (strip (first_of [stdout c, stderr c])); l = (if tail = [] then [] else last tail) in
       if startswith l ''http'' then Inr (strip l)
       else Inl (RuntimeError (''Could not parse MR URL from glab output:'' @ [nl] @ stdout c))))"

record mr_request =
  rq_title :: string
  rq_description :: string
  rq_task :: string
  rq_branch :: string
  rq_push :: bool
  rq_review :: bool

definition create_mr_argv :: "mr_request \<Rightarrow> string \<Rightarrow> string list" where
  "create_mr_argv rq fork_project = [''glab'', ''mr'', ''create'', ''--repo'', GITLAB_RPMS_REPO, ''--head'', fork_project,
     ''--source-branch'', rq_branch rq, ''--target-branch'', ''main'', ''-t'', rq_title rq, ''-d'', rq_description rq, ''--yes'']"

definition push_argv :: "string \<Rightarrow> string \<Rightarrow> string list" where
  "push_argv remote branch = [''git'', ''push'', ''-u'', remote, branch]"

definition open_package_mr :: "host \<Rightarrow> mr_request \<Rightarrow> (string \<Rightarrow> string \<Rightarrow> unit prog) \<Rightarrow> string prog" where
  "open_package_mr h rq comment_on = (seq (ensure_glab_available h) (
    bind (detect_fork_remote h ROOT_DIR) (\<lambda>(fork_remote, fork_project).
    seq (detect_target_remote h ROOT_DIR) (
    seq (whenM (rq_push rq) ((bind (run_skill_command h (push_argv fork_remote (rq_branch rq)) ROOT_DIR) (\<lambda>pushed.
      whenM (returncode pushed \<noteq> 0) (raise (RuntimeError (strip (first_of [stderr pushed, stdout pushed, ''git push failed''])))))))) (
    bind (run_skill_command h (create_mr_argv rq fork_project) ROOT_DIR) (\<lambda>created.
    if returncode created \<noteq> 0 then (raise (RuntimeError (strip (first_of [stderr created, stdout created, ''glab mr create failed''])))) else
    bind (from_sum (created_mr_url created)) (\<lambda>mr_url.
    bind (from_sum (normalize_hum_key (rq_task rq))) (\<lambda>task.
    seq (comment_on task (''MR: '' @ mr_url @ [nl])) (
    seq (whenM (rq_review rq) ((seq (run_skill_command h [''glab'', ''mr'', ''note'', ''create'', last (split_on CHR ''/'' (rstrip_slashes mr_url)), ''--repo'', GITLAB_RPMS_REPO,
        ''-m'', ''/hummingbird code-review''] ROOT_DIR) (
      ret ())))) (
    ret mr_url))))))))))"

end
