(* ===== verification/Cve_Sbom.thy ===== *)
theory Cve_Sbom
  imports Cve_Jira
begin

section \<open>CVE triage: SBOM files\<close>

text \<open>
  \<open>.cursor/skills/cve/lib/sbom.py\<close> and the downloads of \<open>utils.py\<close>: finding the SBOM of a package (attached to
  the ticket, else in Pulp) and searching it. \<open>text_of\<close> is the text a JSON document has on disk, which the model
  of files leaves open. In what \<open>json.dumps\<close> prints, characters outside ASCII are escaped byte by byte.
\<close>

subsection \<open>Downloads\<close>

definition http_read :: "host \<Rightarrow> string \<Rightarrow> (string \<times> string) list \<Rightarrow> reply prog" where
  "http_read h url extra = (bind (ask_host h (Http ''GET'' url ((''User-Agent'', ''hummingbird-cve-helper'') # extra))) (\<lambda>r.
    (case r of Body _ _ \<Rightarrow> ret r | JBody _ _ \<Rightarrow> ret r | Blob _ \<Rightarrow> ret r
     | HttpErr c m \<Rightarrow> raise (RuntimeError (''HTTP '' @ show_int c @ '' fetching '' @ url))
     | NetErr m \<Rightarrow> raise (RuntimeError (''Failed fetching '' @ url @ '': '' @ exn_str (URLError m)))
     | _ \<Rightarrow> raise (http_exn r))))"

definition reply_text :: "(json \<Rightarrow> string) \<Rightarrow> reply \<Rightarrow> string" where
  "reply_text text_of r = (case r of Body t _ \<Rightarrow> t | JBody j _ \<Rightarrow> text_of j | Blob t \<Rightarrow> t | _ \<Rightarrow> [])"

definition http_get_text :: "(json \<Rightarrow> string) \<Rightarrow> host \<Rightarrow> string \<Rightarrow> string prog" where
  "http_get_text text_of h url = (bind (http_read h url []) (\<lambda>r.
    ret (reply_text text_of r)))"

definition http_get_json :: "host \<Rightarrow> string \<Rightarrow> (string \<times> string) list \<Rightarrow> json prog" where
  "http_get_json h url extra = (bind (http_read h url extra) (\<lambda>r.
    (case r of JBody j _ \<Rightarrow> ret j | _ \<Rightarrow> raise (RuntimeError (''Invalid JSON from '' @ url)))))"

definition http_download :: "host \<Rightarrow> string \<Rightarrow> path \<Rightarrow> unit prog" where
  "http_download h url dest = (bind (http_read h url []) (\<lambda>r.
    write_node dest (case r of Body t _ \<Rightarrow> FileN t | JBody j _ \<Rightarrow> JsonN j | Blob t \<Rightarrow> BinN t | _ \<Rightarrow> FileN [])))"

subsection \<open>Finding the SBOM\<close>

definition PULP_SBOM_BASE :: string where
  "PULP_SBOM_BASE = ''https://packages.redhat.com/api/pulp-content/public-hummingbird/metadata/sboms''"

definition SBOM_FILE_RE :: rx where
  \<comment> \<open>\<open>sha256-[a-fA-F0-9]+\.sbom\<close>\<close>
  "SBOM_FILE_RE = Seq [Lit ''sha256-'', Plus True (Cls (\<lambda>c. is_digit c \<or> c \<in> set ''abcdefABCDEF'')), Lit ''.sbom'']"

definition pulp_sbom_package_dir :: "string \<Rightarrow> string" where
  "pulp_sbom_package_dir package = replace_all ''.'' ''-'' package @ ''-main''"

definition latest_pulp_sbom_filename :: "(json \<Rightarrow> string) \<Rightarrow> host \<Rightarrow> string \<Rightarrow> (string \<times> string) prog" where
  "latest_pulp_sbom_filename text_of h package = (let directory = PULP_SBOM_BASE @ ''/'' @ pulp_sbom_package_dir package @ ''/'' in (bind (http_get_text text_of h directory) (\<lambda>listing.
    let found = sorted_found SBOM_FILE_RE listing in
    if found = [] then (raise (RuntimeError (''No SBOM files found under '' @ directory))) else
    ret (directory, last found))))"

definition drop_if_exists :: "path \<Rightarrow> unit prog" where
  "drop_if_exists p = (bind (exists p) (\<lambda>b.
    whenM b (unlink p)))"

definition try_download_jira_sbom :: "host \<Rightarrow> string \<Rightarrow> string \<Rightarrow> path \<Rightarrow> bool prog" where
  "try_download_jira_sbom h key nvr dest = (let attachment = nvr @ ''.sbom.json''; workdir = butlast dest; staged = workdir @ [attachment] in (seq (mkdir workdir) (
    seq (drop_if_exists staged) (
    bind (rhjira_attempts h [''attach'', ''-d'', key, attachment] workdir 3 2) (\<lambda>(c, j).
    bind (exists staged) (\<lambda>b.
    if returncode c \<noteq> 0 \<or> \<not> b then (ret False) else
    seq (whenM (staged \<noteq> dest) ((seq (copy_file staged dest) (
      unlink staged)))) (
    exists dest)))))))"

record sbom_meta =
  s_package :: string
  s_nvr :: string
  s_ticket :: string
  s_source :: string
  s_url :: string
  s_path :: path
  s_bytes :: nat

definition file_size :: "(json \<Rightarrow> string) \<Rightarrow> path \<Rightarrow> world \<Rightarrow> nat" where
  "file_size text_of p w = (case map_of (files w) p of Some (FileN s) \<Rightarrow> length s | Some (BinN s) \<Rightarrow> length s
     | Some (JsonN j) \<Rightarrow> length (text_of j) | _ \<Rightarrow> 0)"

definition jira_sbom :: "host \<Rightarrow> string \<Rightarrow> string \<Rightarrow> path \<Rightarrow> string option prog" where
  \<comment> \<open>the URL noted for a matching attachment\<close>
  "jira_sbom h key nvr out = (if key = [] \<or> nvr = [] then ret None else (bind (from_sum (normalize_hum_key key)) (\<lambda>ticket_key.
    bind (try_download_jira_sbom h ticket_key nvr out) (\<lambda>b.
    ret (if b then Some (''jira:'' @ ticket_key @ ''/'' @ nvr @ ''.sbom.json'') else None)))))"

definition fetch_sbom :: "(json \<Rightarrow> string) \<Rightarrow> host \<Rightarrow> string \<Rightarrow> string \<Rightarrow> string \<Rightarrow> path option \<Rightarrow> sbom_meta prog" where
  "fetch_sbom text_of h package nvr key dest =
     (let out = (case dest of Some p \<Rightarrow> p | None \<Rightarrow> [''/tmp'', package @ ''.sbom.json'']) in (bind (jira_sbom h key nvr out) (\<lambda>attached.
       bind (case attached of
        Some u \<Rightarrow> ret (''jira'', u)
      | None \<Rightarrow> (bind (latest_pulp_sbom_filename text_of h package) (\<lambda>(directory, name).
        seq (http_download h (directory @ name) out) (
        ret (''pulp'', directory @ name))))) (\<lambda>(source, url).
       bind (gets (file_size text_of out)) (\<lambda>n.
       ret \<lparr>s_package = package, s_nvr = nvr, s_ticket = key, s_source = source, s_url = url, s_path = out, s_bytes = n\<rparr>)))))"

subsection \<open>Searching it\<close>

record sbom_hit =
  h_term :: string
  h_path :: string
  h_name :: string
  h_version :: string
  h_purl :: string
  h_scope :: string
  h_type :: string
  h_snippet :: string

definition escape_char :: "char \<Rightarrow> string" where
  "escape_char c = (let bs = CHR 0x5C in if c = CHR 0x22 then [bs, c] else if c = bs then [bs, bs]
     else if c = nl then [bs, CHR ''n''] else if c = cr then [bs, CHR ''r''] else if c = tab then [bs, CHR ''t'']
     else if c = CHR 0x08 then [bs, CHR ''b''] else if c = CHR 0x0C then [bs, CHR ''f'']
     else if 32 \<le> (of_char c :: nat) \<and> (of_char c :: nat) \<le> 126 then [c]
     else bs # ''u00'' @ [hex_char (of_char c div 16), hex_char (of_char c)])"

definition quote :: "string \<Rightarrow> string" where
  "quote s = CHR 0x22 # concat (map escape_char s) @ [CHR 0x22]"

fun json_dumps :: "json \<Rightarrow> string" where
  "json_dumps JNull = ''null''"
| "json_dumps (JBool b) = (if b then ''true'' else ''false'')"
| "json_dumps (JInt i) = show_int i"
| "json_dumps (JStr s) = quote s"
| "json_dumps (JList xs) = ''['' @ join '', '' (map json_dumps xs) @ '']''"
| "json_dumps (JObj d) = ''{'' @ join '', '' (map (\<lambda>(k, v). quote k @ '': '' @ json_dumps v) d) @ ''}''"

definition scope_of_props :: "json list \<Rightarrow> string" where
  \<comment> \<open>the first property that names a scope\<close>
  "scope_of_props props = (case concat (map (\<lambda>p. case p of
       JObj d \<Rightarrow> (let key = lower (first_of [text_or_empty d ''name'', text_or_empty d ''key'']) in
         if contains key ''scope'' \<or> endswith key ''lifecycle'' then [text_or_empty d ''value''] else [])
     | _ \<Rightarrow> []) props) of v # _ \<Rightarrow> v | [] \<Rightarrow> [])"

definition component_hit :: "string \<Rightarrow> string \<Rightarrow> dict \<Rightarrow> sbom_hit" where
  "component_hit t p node = \<lparr>h_term = t, h_path = p, h_name = text_or_empty node ''name'', h_version = text_or_empty node ''version'',
     h_purl = text_or_empty node ''purl'',
     h_scope = (if text_or_empty node ''scope'' \<noteq> [] then text_or_empty node ''scope''
       else (case dget node ''properties'' of Some (JList ps) \<Rightarrow> scope_of_props ps | _ \<Rightarrow> [])),
     h_type = text_or_empty node ''type'', h_snippet = []\<rparr>"

definition hit_key :: "sbom_hit \<Rightarrow> string \<times> string \<times> string \<times> string" where
  "hit_key x = (h_term x, h_name x, h_version x, h_purl x)"

definition hit_matches :: "dict \<Rightarrow> sbom_hit \<Rightarrow> bool" where
  "hit_matches node x = (contains (lower (join '' '' [h_name x, h_version x, h_purl x, h_scope x, h_type x])) (lower (h_term x)) \<or>
     contains (lower (json_dumps (JObj node))) (lower (h_term x)))"

definition consider_node :: "string \<Rightarrow> dict \<Rightarrow> sbom_hit list \<Rightarrow> string \<Rightarrow> sbom_hit list" where
  \<comment> \<open>one hit per term, name, version and purl\<close>
  "consider_node p node hits t = (let x = component_hit t p node in
     if \<not> hit_matches node x \<or> hit_key x \<in> set (map hit_key hits) then hits else hits @ [x])"

fun walk :: "string list \<Rightarrow> json \<Rightarrow> string \<Rightarrow> sbom_hit list \<Rightarrow> sbom_hit list"
  and walk_obj :: "string list \<Rightarrow> dict \<Rightarrow> string \<Rightarrow> sbom_hit list \<Rightarrow> sbom_hit list"
  and walk_arr :: "string list \<Rightarrow> json list \<Rightarrow> nat \<Rightarrow> string \<Rightarrow> sbom_hit list \<Rightarrow> sbom_hit list" where
  "walk terms (JObj d) p hits = walk_obj terms d p (if has_key d ''name'' \<or> has_key d ''purl'' then foldl (consider_node p d) hits terms else hits)"
| "walk terms (JList xs) p hits = walk_arr terms xs 0 p hits"
| "walk terms _ p hits = hits"
| "walk_obj terms [] p hits = hits"
| "walk_obj terms ((k, v) # d) p hits = walk_obj terms d p (walk terms v (p @ ''.'' @ k) hits)"
| "walk_arr terms [] i p hits = hits"
| "walk_arr terms (x # xs) i p hits = walk_arr terms xs (i + 1) p (walk terms x (p @ ''['' @ show_nat i @ '']'') hits)"

fun occurrences :: "string \<Rightarrow> nat \<Rightarrow> nat \<Rightarrow> string \<Rightarrow> nat list" where
  \<comment> \<open>where the term begins, ignoring case and without overlaps; the second number counts what is still covered\<close>
  "occurrences t i k [] = (if t = [] then [i] else [])"
| "occurrences t i (Suc k) (c # s) = occurrences t (i + 1) k s"
| "occurrences t i 0 (c # s) = (if startswith (lower (c # s)) (lower t) then i # occurrences t (i + 1) (length t - 1) s
     else occurrences t (i + 1) 0 s)"

definition text_hit :: "string \<Rightarrow> string \<Rightarrow> nat \<Rightarrow> sbom_hit" where
  "text_hit text t i = \<lparr>h_term = t, h_path = ''text'', h_name = [], h_version = [], h_purl = [], h_scope = [], h_type = [],
     h_snippet = map (\<lambda>c. if c = nl then CHR '' '' else c) (take (i + length t + 80 - (i - 80)) (drop (i - 80) text))\<rparr>"

definition text_hits :: "string \<Rightarrow> string list \<Rightarrow> sbom_hit list" where
  "text_hits text terms = concat (map (\<lambda>t. map (text_hit text t) (take 10 (occurrences t 0 0 text))) terms)"

definition sbom_hits :: "(json \<Rightarrow> string) \<Rightarrow> string list \<Rightarrow> node \<Rightarrow> sbom_hit list" where
  "sbom_hits text_of terms n = (case n of
     JsonN j \<Rightarrow> (let hits = walk terms j ''$'' [] in if hits \<noteq> [] then hits else text_hits (text_of j) terms)
   | FileN s \<Rightarrow> text_hits s terms | BinN s \<Rightarrow> text_hits s terms | DirN \<Rightarrow> [])"

definition search_sbom_file :: "(json \<Rightarrow> string) \<Rightarrow> path \<Rightarrow> string list \<Rightarrow> sbom_hit list prog" where
  "search_sbom_file text_of p terms = (if terms = [] then ret [] else (\<lambda>w. case map_of (files w) p of
      None \<Rightarrow> (Inl (FileNotFoundError (path_str p)), w)
    | Some DirN \<Rightarrow> (Inl (OSError (path_str p)), w)
    | Some n \<Rightarrow> (Inr (sbom_hits text_of terms n), w)))"

end
