(* ===== verification/Py_Calendar.thy ===== *)
theory Py_Calendar
  imports Py_Prelude
begin

section \<open>Moments of the calendar\<close>

text \<open>
  \<open>datetime\<close> values: a moment is the record of its fields, with the offset from UTC in seconds, \<open>None\<close> for a naive one.
\<close>

record moment =
  m_year :: nat
  m_month :: nat
  m_day :: nat
  m_hour :: nat
  m_minute :: nat
  m_second :: nat
  m_micro :: nat
  m_offset :: "int option"

definition leap :: "nat \<Rightarrow> bool" where
  "leap y \<longleftrightarrow> y mod 4 = 0 \<and> (y mod 100 \<noteq> 0 \<or> y mod 400 = 0)"

definition days_in_month :: "nat \<Rightarrow> nat \<Rightarrow> nat" where
  "days_in_month y m = (if m = 2 then (if leap y then 29 else 28) else if m \<in> {4, 6, 9, 11} then 30 else 31)"

definition days_before_month :: "nat \<Rightarrow> nat \<Rightarrow> nat" where
  "days_before_month y m = sum_list (map (days_in_month y) [1..<m])"

definition ordinal :: "nat \<Rightarrow> nat \<Rightarrow> nat \<Rightarrow> nat" where
  \<comment> \<open>\<open>date.toordinal()\<close>\<close>
  "ordinal y m d = (let p = y - 1 in p * 365 + p div 4 - p div 100 + p div 400 + days_before_month y m + d)"

definition valid_moment :: "moment \<Rightarrow> bool" where
  "valid_moment t \<longleftrightarrow> 1 \<le> m_year t \<and> m_year t \<le> 9999 \<and> 1 \<le> m_month t \<and> m_month t \<le> 12 \<and> 1 \<le> m_day t \<and>
     m_day t \<le> days_in_month (m_year t) (m_month t) \<and> m_hour t < 24 \<and> m_minute t < 60 \<and> m_second t < 60 \<and> m_micro t < 1000000 \<and>
     (case m_offset t of Some z \<Rightarrow> \<bar>z\<bar> < 86400 | None \<Rightarrow> True)"

definition seconds_of_day :: "moment \<Rightarrow> nat" where
  "seconds_of_day t = m_hour t * 3600 + m_minute t * 60 + m_second t"

definition instant :: "moment \<Rightarrow> int" where
  \<comment> \<open>microseconds of an aware moment on the scale of UTC; aware moments compare by it\<close>
  "instant t = (int (ordinal (m_year t) (m_month t) (m_day t)) * 86400 + int (seconds_of_day t) -
     (case m_offset t of Some z \<Rightarrow> z | None \<Rightarrow> 0)) * 1000000 + int (m_micro t)"

fun padded :: "nat \<Rightarrow> nat \<Rightarrow> string" where
  \<comment> \<open>the last digits of a number, with leading zeros\<close>
  "padded 0 v = []"
| "padded (Suc n) v = padded n (v div 10) @ [digit_char (v mod 10)]"

end
