(* ===== verification/Cve_Dates.thy ===== *)
theory Cve_Dates
  imports Py_Calendar Cve_Comments Cve_Sbom "HOL-Library.Product_Lexorder"
begin

section \<open>CVE triage: the age of an upstream fix\<close>

text \<open>
  The dates of \<open>.cursor/skills/cve/lib/vcs.py\<close> and the command \<open>upstream-fix-age\<close>. Moments are those of
  \<open>Py_Calendar\<close>. \<open>datetime.fromisoformat\<close> is modelled for the extended form
  \<open>YYYY-MM-DD\<close>, optionally with \<open>T\<close> or a space, \<open>hh:mm[:ss[.ffffff]]\<close> and \<open>+hh:mm\<close>; on every other text it is the
  parameter \<open>iso_other\<close>, because what it accepts there depends on the Python version.
\<close>

subsection \<open>Texts of moments\<close>

definition zone_text :: "int \<Rightarrow> string" where
  "zone_text z = (let s = nat \<bar>z\<bar> in (if z < 0 then ''-'' else ''+'') @ padded 2 (s div 3600) @ '':'' @ padded 2 (s div 60 mod 60) @
     (if s mod 60 = 0 then [] else '':'' @ padded 2 (s mod 60)))"

definition isoformat :: "moment \<Rightarrow> string" where
  "isoformat t = padded 4 (m_year t) @ ''-'' @ padded 2 (m_month t) @ ''-'' @ padded 2 (m_day t) @ ''T'' @ padded 2 (m_hour t) @ '':'' @
     padded 2 (m_minute t) @ '':'' @ padded 2 (m_second t) @ (if m_micro t = 0 then [] else ''.'' @ padded 6 (m_micro t)) @
     (case m_offset t of None \<Rightarrow> [] | Some z \<Rightarrow> zone_text z)"

definition lead_digits :: "nat \<Rightarrow> string \<Rightarrow> (nat \<times> string) option" where
  "lead_digits n s = (if length s \<ge> n \<and> list_all is_digit (take n s) then Some (parse_nat (take n s), drop n s) else None)"

definition sep_num :: "char \<Rightarrow> nat \<Rightarrow> string \<Rightarrow> (nat \<times> string) option" where
  "sep_num c n s = (case s of d # rest \<Rightarrow> if d = c then lead_digits n rest else None | [] \<Rightarrow> None)"

definition iso_date :: "string \<Rightarrow> ((nat \<times> nat \<times> nat) \<times> string) option" where
  "iso_date s = Option.bind (lead_digits 4 s) (\<lambda>(y, s). Option.bind (sep_num CHR ''-'' 2 s) (\<lambda>(m, s).
     map_option (\<lambda>(d, s). ((y, m, d), s)) (sep_num CHR ''-'' 2 s)))"

definition iso_zone :: "string \<Rightarrow> int option option" where
  "iso_zone s = (if s = [] then Some None else if hd s \<notin> {CHR ''+'', CHR ''-''} then None
     else Option.bind (lead_digits 2 (tl s)) (\<lambda>(hh, s'). Option.bind (sep_num CHR '':'' 2 s') (\<lambda>(mm, s'').
       if s'' \<noteq> [] \<or> mm \<ge> 60 then None
       else Some (Some ((if hd s = CHR ''-'' then -1 else 1) * int (hh * 3600 + mm * 60))))))"

definition iso_seconds :: "string \<Rightarrow> (nat \<times> nat) \<times> string" where
  \<comment> \<open>seconds and microseconds, each optional\<close>
  "iso_seconds s = (case sep_num CHR '':'' 2 s of None \<Rightarrow> ((0, 0), s)
     | Some (ss, s') \<Rightarrow> (case sep_num CHR ''.'' 6 s' of None \<Rightarrow> ((ss, 0), s') | Some (us, s'') \<Rightarrow> ((ss, us), s'')))"

definition iso_time :: "string \<Rightarrow> ((nat \<times> nat \<times> nat \<times> nat) \<times> int option) option" where
  "iso_time s = Option.bind (lead_digits 2 s) (\<lambda>(hh, s). Option.bind (sep_num CHR '':'' 2 s) (\<lambda>(mi, s).
     if hh \<ge> 24 then None else (case iso_seconds s of ((ss, us), s) \<Rightarrow> map_option (\<lambda>z. ((hh, mi, ss, us), z)) (iso_zone s))))"

definition moment_of :: "nat \<times> nat \<times> nat \<Rightarrow> nat \<times> nat \<times> nat \<times> nat \<Rightarrow> int option \<Rightarrow> moment" where
  "moment_of dat tim z = (case (dat, tim) of ((y, m, d), (hh, mi, ss, us)) \<Rightarrow>
     \<lparr>m_year = y, m_month = m, m_day = d, m_hour = hh, m_minute = mi, m_second = ss, m_micro = us, m_offset = z\<rparr>)"

definition iso_extended :: "string \<Rightarrow> moment option" where
  "iso_extended s = Option.bind (iso_date s) (\<lambda>(dat, rest).
     if rest = [] then Some (moment_of dat (0, 0, 0, 0) None)
     else if hd rest \<notin> {CHR ''T'', CHR '' ''} then None
     else map_option (\<lambda>(tim, z). moment_of dat tim z) (iso_time (tl rest)))"

type_synonym iso_reader = "string \<Rightarrow> exn + moment"

definition fromisoformat :: "iso_reader \<Rightarrow> iso_reader" where
  "fromisoformat iso_other s = (case iso_extended s of
     Some t \<Rightarrow> if valid_moment t then Inr t else Inl (ValueError (''Invalid isoformat string: '' @ s))
   | None \<Rightarrow> iso_other s)"

definition parse_iso_datetime :: "iso_reader \<Rightarrow> iso_reader" where
  "parse_iso_datetime iso_other v = (let t = strip v in
     if t = [] then Inl (ValueError ''empty datetime'')
     else map_sum id (\<lambda>p. if m_offset p = None then p\<lparr>m_offset := Some 0\<rparr> else p)
       (fromisoformat iso_other (if endswith t ''Z'' then butlast t @ ''+00:00'' else t)))"

definition compare_fix_age :: "moment \<Rightarrow> moment \<Rightarrow> string \<times> string" where
  \<comment> \<open>verdict and hint\<close>
  "compare_fix_age commit_dt tag_dt = (if instant commit_dt \<le> instant tag_dt
     then (''commit_at_or_before_tag'', ''shipped tag may include the fix; agent decides Done-Errata'')
     else (''commit_after_tag'', ''shipped tag likely missing the fix; do not set FIB from the tag alone''))"

subsection \<open>GitHub\<close>

definition GITHUB_COMMIT_RE :: rx where
  \<comment> \<open>\<open>https?://github\.com/([^/]+)/([^/]+)/commit/([0-9a-fA-F]{7,40})\<close>\<close>
  "GITHUB_COMMIT_RE = Seq [Lit ''http'', Opt (Chr CHR ''s''), Lit ''://github.com/'', Grp 1 (Plus True (Cls (\<lambda>c. c \<noteq> CHR ''/''))), Chr CHR ''/'',
     Grp 2 (Plus True (Cls (\<lambda>c. c \<noteq> CHR ''/''))), Lit ''/commit/'',
     Grp 3 (rep_between 7 40 (Cls (\<lambda>c. is_digit c \<or> c \<in> set ''abcdefABCDEF'')))]"

definition github_headers :: "(string \<times> string) list \<Rightarrow> (string \<times> string) list" where
  "github_headers env = (let token = first_of [get_text env ''GITHUB_TOKEN'', get_text env ''GH_TOKEN''] in
     [(''Accept'', ''application/vnd.github+json'')] @ (if token \<noteq> [] then [(''Authorization'', ''Bearer '' @ token)] else []))"

definition parse_github_commit_ref :: "string \<Rightarrow> (string \<times> string \<times> string) option" where
  "parse_github_commit_ref s = map_option (\<lambda>m. (group m 1, group m 2, group m 3)) (re_search GITHUB_COMMIT_RE s)"

definition github_json :: "host \<Rightarrow> string \<Rightarrow> dict prog" where
  "github_json h path_text = (bind (gets environ) (\<lambda>env.
    bind (http_get_json h (''https://api.github.com/repos/'' @ path_text) (github_headers env)) (\<lambda>j.
    from_sum (as_dict j))))"

definition person_date :: "dict \<Rightarrow> string \<Rightarrow> exn + string" where
  \<comment> \<open>\<open>((data.get('commit') or {}).get(who) or {}).get('date')\<close>, the empty text when it is false\<close>
  "person_date data who = (case field_or_obj data ''commit'' of Inl e \<Rightarrow> Inl e
     | Inr c \<Rightarrow> map_sum id (\<lambda>p. text_or_empty p ''date'') (field_or_obj c who))"

definition fetch_github_commit_date :: "host \<Rightarrow> iso_reader \<Rightarrow> string \<Rightarrow> string \<Rightarrow> string \<Rightarrow> moment prog" where
  "fetch_github_commit_date h iso_other owner repo sha = (bind (github_json h (owner @ ''/'' @ repo @ ''/commits/'' @ sha)) (\<lambda>data.
    bind (from_sum (person_date data ''committer'')) (\<lambda>committed.
    bind (if committed \<noteq> [] then ret committed else from_sum (person_date data ''author'')) (\<lambda>date.
    if date = [] then (raise (RuntimeError (''GitHub commit '' @ owner @ ''/'' @ repo @ ''@'' @ sha @ '' has no date''))) else
    from_sum (parse_iso_datetime iso_other date)))))"

definition not_found :: "string \<Rightarrow> bool" where
  "not_found msg = (contains msg ''404'' \<or> contains msg ''Not Found'')"

definition release_date :: "host \<Rightarrow> iso_reader \<Rightarrow> string \<Rightarrow> string \<Rightarrow> string \<Rightarrow> moment option prog" where
  \<comment> \<open>the date of the release of a tag; a missing release is no error\<close>
  "release_date h iso_other owner repo tag_name = catch ((bind (github_json h (owner @ ''/'' @ repo @ ''/releases/tags/'' @ tag_name)) (\<lambda>release.
    let published = first_of [text_or_empty release ''published_at'', text_or_empty release ''created_at''] in
    if published = [] then (ret None) else
    bind (from_sum (parse_iso_datetime iso_other published)) (\<lambda>t.
    ret (Some t)))))
    is_RuntimeError (\<lambda>e. if \<not> not_found (exn_str e) then raise e else ret None)"

definition tagger_date :: "host \<Rightarrow> iso_reader \<Rightarrow> string \<Rightarrow> string \<Rightarrow> dict \<Rightarrow> moment option prog" where
  \<comment> \<open>the date of an annotated tag\<close>
  "tagger_date h iso_other owner repo obj = (if dget obj ''type'' \<noteq> Some (JStr ''tag'') then ret None else (bind (github_json h (owner @ ''/'' @ repo @ ''/git/tags/'' @ text_or_empty obj ''sha'')) (\<lambda>tag_obj.
    bind (from_sum (field_or_obj tag_obj ''tagger'')) (\<lambda>tagger.
    let date = text_or_empty tagger ''date'' in
    if date = [] then (ret None) else
    bind (from_sum (parse_iso_datetime iso_other date)) (\<lambda>t.
    ret (Some t))))))"

definition fetch_github_tag_date :: "host \<Rightarrow> iso_reader \<Rightarrow> string \<Rightarrow> string \<Rightarrow> string \<Rightarrow> moment prog" where
  "fetch_github_tag_date h iso_other owner repo tag = (let tag_name = removeprefix tag ''refs/tags/'' in (bind (release_date h iso_other owner repo tag_name) (\<lambda>r.
    (case r of Some t \<Rightarrow> ret t | None \<Rightarrow> (bind (github_json h (owner @ ''/'' @ repo @ ''/git/ref/tags/'' @ tag_name)) (\<lambda>ref.
      bind (from_sum (field_or_obj ref ''object'')) (\<lambda>obj.
      bind (tagger_date h iso_other owner repo obj) (\<lambda>a.
      (case a of Some t \<Rightarrow> ret t
       | None \<Rightarrow> (if text_or_empty obj ''sha'' \<noteq> [] then fetch_github_commit_date h iso_other owner repo (text_or_empty obj ''sha'')
           else raise (RuntimeError (''GitHub tag '' @ owner @ ''/'' @ repo @ '' '' @ tag_name @ '' has no date''))))))))))))"

subsection \<open>The command\<close>

record age_args =
  age_commit :: string
  age_tag :: string
  age_repo :: string
  age_commit_date :: string
  age_tag_date :: string
  age_json :: bool

record age_meta =
  am_commit :: string
  am_repo :: string
  am_commit_source :: string
  am_tag_source :: string

definition repo_parts :: "string \<Rightarrow> string \<times> string" where
  \<comment> \<open>owner and name in \<open>--repo\<close>\<close>
  "repo_parts repo = (let parts = removesuffix (rev (dropWhile (\<lambda>c. c = CHR ''/'') (rev repo))) ''.git'' in
     (case split_at_str ''github.com/'' parts of
        Some (_, tail) \<Rightarrow> (case filter (\<lambda>p. p \<noteq> []) (split_on CHR ''/'' tail) of a # b # _ \<Rightarrow> (a, b) | _ \<Rightarrow> ([], []))
      | None \<Rightarrow> (case split_at_str ''/'' parts of Some (a, b) \<Rightarrow> (a, b) | None \<Rightarrow> ([], []))))"

definition fix_location :: "age_args \<Rightarrow> string \<times> string \<times> string \<times> string \<times> string" where
  \<comment> \<open>owner, repository and hash, and the commit and repository shown\<close>
  "fix_location a = (case parse_github_commit_ref (age_commit a) of
     Some (owner, name, sha) \<Rightarrow> (owner, name, sha, sha, owner @ ''/'' @ name)
   | None \<Rightarrow> (if age_repo a = [] then ([], [], [], age_commit a, [])
       else (case repo_parts (age_repo a) of (owner, name) \<Rightarrow> (owner, name, strip (age_commit a), age_commit a, age_repo a))))"

definition flag_date :: "iso_reader \<Rightarrow> string \<Rightarrow> moment option prog" where
  "flag_date iso_other s = (if s = [] then ret None else (bind (from_sum (parse_iso_datetime iso_other s)) (\<lambda>t.
    ret (Some t))))"

definition resolve_fix_age_dates :: "host \<Rightarrow> iso_reader \<Rightarrow> age_args \<Rightarrow> (moment \<times> moment \<times> age_meta) prog" where
  "resolve_fix_age_dates h iso_other a = (bind (flag_date iso_other (age_commit_date a)) (\<lambda>commit_flag.
    bind (flag_date iso_other (age_tag_date a)) (\<lambda>tag_flag.
    let (owner, name, sha, shown, repo) = fix_location a in
    bind (case commit_flag of Some t \<Rightarrow> ret t
      | None \<Rightarrow> (if owner = [] \<or> name = [] \<or> sha = []
          then raise (ValueError ''Need --commit-date, or a GitHub commit URL / --commit SHA with --repo'')
          else fetch_github_commit_date h iso_other owner name sha)) (\<lambda>commit_dt.
    bind (case tag_flag of Some t \<Rightarrow> ret t
      | None \<Rightarrow> (if age_tag a = [] then raise (ValueError ''Need --tag-date or --tag'')
          else if owner = [] \<or> name = [] then raise (ValueError ''Need --tag-date, or --tag with a GitHub --repo / commit URL'')
          else fetch_github_tag_date h iso_other owner name (age_tag a))) (\<lambda>tag_dt.
    ret (commit_dt, tag_dt, \<lparr>am_commit = shown, am_repo = repo,
      am_commit_source = (if commit_flag \<noteq> None then ''flag'' else ''github''),
      am_tag_source = (if tag_flag \<noteq> None then ''flag'' else ''github'')\<rparr>))))))"

definition age_payload :: "age_args \<Rightarrow> moment \<Rightarrow> moment \<Rightarrow> age_meta \<Rightarrow> json" where
  "age_payload a commit_dt tag_dt m = JObj [(''commit'', JStr (am_commit m)), (''tag'', JStr (age_tag a)), (''repo'', JStr (am_repo m)),
     (''commit_date_source'', JStr (am_commit_source m)), (''tag_date_source'', JStr (am_tag_source m)),
     (''commit_date'', JStr (isoformat commit_dt)), (''tag_date'', JStr (isoformat tag_dt)),
     (''verdict'', JStr (fst (compare_fix_age commit_dt tag_dt))), (''hint'', JStr (snd (compare_fix_age commit_dt tag_dt)))]"

definition age_lines :: "age_args \<Rightarrow> moment \<Rightarrow> moment \<Rightarrow> age_meta \<Rightarrow> string list" where
  "age_lines a commit_dt tag_dt m = [''commit: '' @ first_of [am_commit m, age_commit a, ''(flag)''],
     ''tag: '' @ first_of [age_tag a, ''(flag)''],
     ''commit_date: '' @ isoformat commit_dt @ '' ('' @ am_commit_source m @ '')'',
     ''tag_date: '' @ isoformat tag_dt @ '' ('' @ am_tag_source m @ '')'',
     ''verdict: '' @ fst (compare_fix_age commit_dt tag_dt), ''hint: '' @ snd (compare_fix_age commit_dt tag_dt)]"

definition cmd_upstream_fix_age :: "host \<Rightarrow> iso_reader \<Rightarrow> age_args \<Rightarrow> int prog" where
  "cmd_upstream_fix_age h iso_other a = (if age_commit_date a = [] \<and> age_commit a = [] then (raise (RuntimeError ''Need --commit-date or --commit'')) else
    if age_tag_date a = [] \<and> age_tag a = [] then (raise (RuntimeError ''Need --tag-date or --tag'')) else
    bind (resolve_fix_age_dates h iso_other a) (\<lambda>(commit_dt, tag_dt, m).
    seq (if age_json a then emit (PrintJson (sort_json (age_payload a commit_dt tag_dt m)))
     else forM (\<lambda>l. emit (Print l)) (age_lines a commit_dt tag_dt m)) (
    ret 0)))"

subsection \<open>Reading what was written\<close>

lemma padded_digits: "length (padded n v) = n" "list_all is_digit (padded n v)" "parse_nat (padded n v) = v mod 10 ^ n"
proof (induction n arbitrary: v)
  case (Suc n)
  { case 1 show ?case by (simp add: Suc) }
  { case 2 show ?case by (simp add: Suc) }
  { case 3 show ?case by (simp add: Suc parse_nat_snoc mod_mult2_eq mult.commute add.commute) }
qed (simp_all add: parse_nat_def)

lemma lead_padded [simp]: "v < 10 ^ n \<Longrightarrow> lead_digits n (padded n v @ s) = Some (v, s)"
  by (simp add: lead_digits_def padded_digits)

lemma sep_padded [simp]: "v < 10 ^ n \<Longrightarrow> sep_num c n (c # padded n v @ s) = Some (v, s)"
  by (simp add: sep_num_def)

lemma zone_read: "\<bar>z\<bar> < 86400 \<Longrightarrow> z mod 60 = 0 \<Longrightarrow> iso_zone (zone_text z) = Some (Some z)"
proof -
  assume z: "\<bar>z\<bar> < 86400" "z mod 60 = 0"
  define s where "s = nat \<bar>z\<bar>"
  have s: "s < 86400" "s mod 60 = 0" "z = (if z < 0 then -1 else 1) * int s"
  proof -
    from z(2) obtain k where "z = 60 * k" by (metis mod_0_imp_dvd dvdE)
    then show "s mod 60 = 0" by (simp add: s_def abs_mult nat_mult_distrib)
  qed (use z in \<open>simp_all add: s_def\<close>)
  from s(2) obtain k where k: "s = 60 * k" by (metis mod_0_imp_dvd dvdE)
  then have "k < 1440" using s(1) by simp
  have "s div 3600 = k div 60" unfolding k by (simp add: div_mult2_eq[of _ 60 60, simplified])
  moreover have "s div 60 mod 60 = k mod 60" unfolding k by simp
  moreover have "k div 60 * 3600 + k mod 60 * 60 = 60 * k"
  proof -
    have "q * 3600 + r * 60 = 60 * (q * 60 + r)" for q r :: nat by simp
    from this[of "k div 60" "k mod 60"] show ?thesis by (simp only: div_mult_mod_eq)
  qed
  ultimately have parts: "s div 3600 < 100" "s div 60 mod 60 < 60" "s div 3600 * 3600 + s div 60 mod 60 * 60 = s"
    using \<open>k < 1440\<close> k by simp_all
  have "zone_text z = (if z < 0 then CHR ''-'' else CHR ''+'') # padded 2 (s div 3600) @ CHR '':'' # padded 2 (s div 60 mod 60) @ []"
    using s(2) by (simp add: zone_text_def Let_def flip: s_def)
  then show ?thesis
    using parts s(3) lead_padded[of "s div 3600" 2] sep_padded[of "s div 60 mod 60" 2 "CHR '':''" "[]"]
    by (auto simp: iso_zone_def simp del: lead_padded sep_padded)
qed

lemma zone_start: "\<exists>c r. zone_text z = c # r \<and> (c = CHR ''+'' \<or> c = CHR ''-'')"
  by (simp add: zone_text_def Let_def)

definition zone_part :: "int option \<Rightarrow> string" where
  "zone_part z = (case z of None \<Rightarrow> [] | Some z \<Rightarrow> zone_text z)"

lemma time_read:
  assumes "hh < 24" "mi < 60" "ss < 60" "us < 1000000" "\<forall>v. z = Some v \<longrightarrow> \<bar>v\<bar> < 86400 \<and> v mod 60 = 0"
  shows "iso_time (padded 2 hh @ '':'' @ padded 2 mi @ '':'' @ padded 2 ss @ (if us = 0 then [] else ''.'' @ padded 6 us) @ zone_part z) =
    Some ((hh, mi, ss, us), z)"
proof -
  let ?z = "(if us = 0 then [] else ''.'' @ padded 6 us) @ zone_part z"
  have zone: "iso_zone (zone_part z) = Some z"
    using assms(5) zone_read by (cases z) (auto simp: zone_part_def iso_zone_def[of "[]"])
  have "zone_part z = [] \<or> (\<exists>c r. zone_part z = c # r \<and> c \<noteq> CHR ''.'')"
    using zone_start by (cases z) (fastforce simp: zone_part_def)+
  then have "iso_seconds (CHR '':'' # padded 2 ss @ ?z) = ((ss, us), zone_part z)"
    using assms by (auto simp: iso_seconds_def sep_num_def[of "CHR ''.''" 6 "zone_part z"] split: list.splits)
  then show ?thesis using assms zone by (auto simp: iso_time_def)
qed

lemma iso_ends: "isoformat t \<noteq> [] \<and> is_digit (hd (isoformat t)) \<and> is_digit (last (isoformat t))"
proof -
  have d: "padded n v \<noteq> []" "is_digit (hd (padded n v))" "is_digit (last (padded n v))" if "n > 0" for n v
  proof -
    show "padded n v \<noteq> []" using padded_digits(1)[of n v] that by auto
    then show "is_digit (hd (padded n v))" "is_digit (last (padded n v))"
      using padded_digits(2)[of n v] by (simp_all add: list_all_iff)
  qed
  then show ?thesis by (cases "m_offset t") (simp_all add: isoformat_def zone_text_def Let_def)
qed

lemma isoformat_read:
  assumes "valid_moment t" "\<forall>z. m_offset t = Some z \<longrightarrow> z mod 60 = 0"
  shows "fromisoformat iso_other (isoformat t) = Inr t"
proof -
  have v: "m_year t < 10 ^ 4" "m_month t < 10 ^ 2" "m_day t < 10 ^ 2"
    using assms(1) by (auto simp: valid_moment_def days_in_month_def split: if_splits)
  let ?time = "padded 2 (m_hour t) @ '':'' @ padded 2 (m_minute t) @ '':'' @ padded 2 (m_second t) @
    (if m_micro t = 0 then [] else ''.'' @ padded 6 (m_micro t)) @ zone_part (m_offset t)"
  have "isoformat t = padded 4 (m_year t) @ CHR ''-'' # padded 2 (m_month t) @ CHR ''-'' # padded 2 (m_day t) @ CHR ''T'' # ?time"
    by (simp add: isoformat_def zone_part_def)
  moreover have "iso_time ?time = Some ((m_hour t, m_minute t, m_second t, m_micro t), m_offset t)"
    using assms by (intro time_read) (auto simp: valid_moment_def)
  ultimately have "iso_extended (isoformat t) = Some (moment_of (m_year t, m_month t, m_day t) (m_hour t, m_minute t, m_second t, m_micro t) (m_offset t))"
    using v by (simp add: iso_extended_def iso_date_def del: power_numeral)
  also have "moment_of (m_year t, m_month t, m_day t) (m_hour t, m_minute t, m_second t, m_micro t) (m_offset t) = t"
    by (simp add: moment_of_def)
  finally show ?thesis using assms(1) by (simp add: fromisoformat_def)
qed

lemma strip_spaces:
  assumes "list_all is_ws pre" "list_all is_ws post" "s \<noteq> []" "\<not> is_ws (hd s)" "\<not> is_ws (last s)"
  shows "strip (pre @ s @ post) = s"
proof -
  have drop: "dropWhile is_ws (xs @ ys) = ys" if "list_all is_ws xs" "ys \<noteq> []" "\<not> is_ws (hd ys)" for xs ys
    using that by (cases ys) (simp_all add: dropWhile_append2 list_all_iff)
  have "lstrip (pre @ s @ post) = s @ post" using drop[of pre "s @ post"] assms by (simp add: lstrip_def)
  moreover have "rstrip (s @ post) = s"
    using drop[of "rev post" "rev s"] assms by (simp add: rstrip_def hd_rev)
  ultimately show ?thesis by (simp add: strip_def)
qed

lemma strip_blank: "list_all is_ws s \<Longrightarrow> strip s = []"
proof -
  assume "list_all is_ws s"
  then have blank: "lstrip s = []" by (simp add: lstrip_def list_all_iff)
  show "strip s = []" unfolding strip_def blank by (simp add: rstrip_def)
qed

text \<open>C38: Dates survive being written and read. For a valid moment whose offset, if it has one, is whole minutes, reading \<open>isoformat\<close> of it
  gives the same moment back, with its fraction and its offset; one without an offset is taken for UTC, and so it is when \<open>Z\<close> is
  put after it. White space around the text does not matter, and a text that has nothing else is refused.\<close>

theorem isoformat_roundtrip:
  assumes "valid_moment t" "\<forall>z. m_offset t = Some z \<longrightarrow> z mod 60 = 0" "list_all is_ws pre" "list_all is_ws post"
  shows "parse_iso_datetime iso_other (pre @ isoformat t @ post) = Inr (if m_offset t = None then t\<lparr>m_offset := Some 0\<rparr> else t) \<and>
    (m_offset t = None \<longrightarrow> parse_iso_datetime iso_other (pre @ isoformat t @ ''Z'' @ post) = Inr (t\<lparr>m_offset := Some 0\<rparr>)) \<and>
    parse_iso_datetime iso_other (pre @ post) = Inl (ValueError ''empty datetime'')"
proof (intro conjI impI)
  note ends = iso_ends[of t]
  have utc: "zone_text 0 = ''+00:00''" by code_simp
  have Z: "\<not> is_digit CHR ''Z''" "\<not> is_ws CHR ''Z''" by (simp_all add: is_digit_def is_ws_def)
  have "strip (pre @ isoformat t @ post) = isoformat t"
    using ends assms(3,4) digit_not_ws by (intro strip_spaces) auto
  moreover have "\<not> endswith (isoformat t) ''Z''"
    using ends Z(1) by (cases "isoformat t" rule: rev_cases) (auto simp: endswith_def startswith_def)
  ultimately show "parse_iso_datetime iso_other (pre @ isoformat t @ post) = Inr (if m_offset t = None then t\<lparr>m_offset := Some 0\<rparr> else t)"
    using ends isoformat_read[OF assms(1,2)] by (simp add: parse_iso_datetime_def Let_def)
  show "parse_iso_datetime iso_other (pre @ post) = Inl (ValueError ''empty datetime'')"
    using assms(3,4) by (simp add: parse_iso_datetime_def strip_blank)
  assume naive: "m_offset t = None"
  have "strip (pre @ (isoformat t @ ''Z'') @ post) = isoformat t @ ''Z''"
    using ends Z(2) assms(3,4) digit_not_ws by (intro strip_spaces) auto
  moreover have "isoformat t @ ''+00:00'' = isoformat (t\<lparr>m_offset := Some 0\<rparr>)"
    by (simp add: isoformat_def naive utc)
  moreover have "fromisoformat iso_other (isoformat (t\<lparr>m_offset := Some 0\<rparr>)) = Inr (t\<lparr>m_offset := Some 0\<rparr>)"
    using assms(1) by (intro isoformat_read) (simp_all add: valid_moment_def)
  ultimately show "parse_iso_datetime iso_other (pre @ isoformat t @ ''Z'' @ post) = Inr (t\<lparr>m_offset := Some 0\<rparr>)"
    by (simp add: parse_iso_datetime_def Let_def endswith_def startswith_def)
qed

definition leap_evening :: moment where
  "leap_evening = \<lparr>m_year = 2024, m_month = 2, m_day = 29, m_hour = 23, m_minute = 59, m_second = 58, m_micro = 70, m_offset = Some (- 19800)\<rparr>"

definition march_first :: moment where
  "march_first = leap_evening\<lparr>m_month := 3, m_day := 1, m_hour := 0, m_minute := 0\<rparr>"

theorem isoformat_roundtrip_witness:
  "parse_iso_datetime (\<lambda>_. Inl IndexError) (tab # isoformat leap_evening @ [nl]) = Inr leap_evening \<and>
   parse_iso_datetime (\<lambda>_. Inl IndexError) (tab # isoformat (leap_evening\<lparr>m_offset := None\<rparr>) @ ''Z'' @ [nl]) = Inr (leap_evening\<lparr>m_offset := Some 0\<rparr>)"
proof -
  have v: "valid_moment leap_evening" "valid_moment (leap_evening\<lparr>m_offset := None\<rparr>)"
    by (simp_all add: valid_moment_def leap_evening_def days_in_month_def leap_def)
  have ws: "list_all is_ws [tab]" "list_all is_ws [nl]" by (simp_all add: is_ws_def)
  from isoformat_roundtrip[OF v(1) _ ws, of "\<lambda>_. Inl IndexError"] isoformat_roundtrip[OF v(2) _ ws, of "\<lambda>_. Inl IndexError"]
  show ?thesis by (simp add: leap_evening_def)
qed

subsection \<open>Comparing\<close>

lemma month_step: "m \<ge> 1 \<Longrightarrow> days_before_month y (Suc m) = days_before_month y m + days_in_month y m"
  by (simp add: days_before_month_def)

lemma month_mono: "m \<le> m' \<Longrightarrow> 1 \<le> m \<Longrightarrow> days_before_month y m \<le> days_before_month y m'"
  by (induction rule: dec_induct) (auto simp: month_step)

lemma year_length: "days_before_month y 13 = 365 + (if leap y then 1 else 0)"
  by (simp add: days_before_month_def upt_rec days_in_month_def)

definition days_before_year :: "nat \<Rightarrow> nat" where
  "days_before_year y = (let p = y - 1 in p * 365 + p div 4 - p div 100 + p div 400)"

lemma div_Suc_cases: "0 < n \<Longrightarrow> Suc p div n = p div n + (if Suc p mod n = 0 then 1 else 0)"
  by (simp add: div_Suc)

lemma year_step: "y \<ge> 1 \<Longrightarrow> days_before_year (Suc y) = days_before_year y + 365 + (if leap y then 1 else 0)"
proof -
  assume "y \<ge> 1"
  then obtain p where y: "y = Suc p" by (cases y) auto
  have le: "p div 100 \<le> p div 4" by (simp add: div_le_mono2)
  have c: "Suc p mod 100 = 0 \<Longrightarrow> Suc p mod 4 = 0" "Suc p mod 400 = 0 \<Longrightarrow> Suc p mod 100 = 0" by presburger+
  show ?thesis
    using le c unfolding y days_before_year_def Let_def leap_def
    by (auto simp: div_Suc_cases algebra_simps)
qed

lemma year_mono: "y \<le> y' \<Longrightarrow> 1 \<le> y \<Longrightarrow> days_before_year y \<le> days_before_year y'"
  by (induction rule: dec_induct) (auto simp: year_step)


lemma ordinal_year: "ordinal y m d = days_before_year y + days_before_month y m + d"
  by (simp add: ordinal_def days_before_year_def Let_def)

lemma month_below: "1 \<le> m \<Longrightarrow> m < m' \<Longrightarrow> d \<le> days_in_month y m \<Longrightarrow> days_before_month y m + d \<le> days_before_month y m'"
  using month_mono[of "Suc m" m' y] by (simp add: month_step)

lemma year_below:
  assumes "1 \<le> y" "y < y'" "1 \<le> m" "m \<le> 12" "d \<le> days_in_month y m"
  shows "days_before_year y + days_before_month y m + d \<le> days_before_year y'"
proof -
  have "days_before_month y m + d \<le> days_before_month y 13" using assms by (intro month_below) auto
  with year_mono[of "Suc y" y'] assms year_length[of y] show ?thesis by (simp add: year_step split: if_splits)
qed

lemma ordinal_less:
  assumes "1 \<le> y" "1 \<le> m" "m \<le> 12" "d \<le> days_in_month y m" "1 \<le> m'" "1 \<le> d'"
    and "(y, m, d) < (y', m', d')"
  shows "ordinal y m d < ordinal y' m' d'"
proof -
  consider "y < y'" | "y = y'" "m < m'" | "y = y'" "m = m'" "d < d'" using assms(7) by (auto simp: le_less)
  then show ?thesis
  proof cases
    case 1 with year_below[of y y' m d] assms show ?thesis by (simp add: ordinal_year)
  next
    case 2 with month_below[of m m' d y] assms show ?thesis by (simp add: ordinal_year)
  qed (simp add: ordinal_year)
qed


definition calendar :: "moment \<Rightarrow> (nat \<times> nat \<times> nat) \<times> nat \<times> nat \<times> nat \<times> nat" where
  \<comment> \<open>the fields, the most significant first\<close>
  "calendar t = ((m_year t, m_month t, m_day t), m_hour t, m_minute t, m_second t, m_micro t)"

lemma seconds_less:
  assumes "mi < 60" "ss < 60" "(hh, mi, ss) < (hh', mi', ss')"
  shows "hh * 3600 + mi * 60 + ss < hh' * 3600 + mi' * 60 + (ss'::nat)"
proof -
  consider "hh < hh'" | "hh = hh'" "mi < mi'" | "hh = hh'" "mi = mi'" "ss < ss'" using assms(3) by (auto simp: le_less)
  then show ?thesis
  proof cases
    case 1
    then have "Suc hh * 3600 \<le> hh' * 3600" by (intro mult_le_mono1) simp
    with assms show ?thesis by simp
  next
    case 2
    then have "Suc mi * 60 \<le> mi' * 60" by (intro mult_le_mono1) simp
    with assms 2 show ?thesis by simp
  qed simp
qed

lemma instant_less:
  assumes t: "valid_moment t" and u: "valid_moment u" and z: "m_offset t = m_offset u" and less: "calendar t < calendar u"
  shows "instant t < instant u"
proof -
  let ?o = "\<lambda>t. int (ordinal (m_year t) (m_month t) (m_day t))" and ?s = "\<lambda>t. int (seconds_of_day t)"
  have sec: "seconds_of_day t < 86400" if "valid_moment t" for t
    using that by (simp add: valid_moment_def seconds_of_day_def)
  have us: "m_micro t < 1000000" "m_micro u < 1000000" using t u by (simp_all add: valid_moment_def)
  consider "(m_year t, m_month t, m_day t) < (m_year u, m_month u, m_day u)"
    | "(m_year t, m_month t, m_day t) = (m_year u, m_month u, m_day u)" "(m_hour t, m_minute t, m_second t) < (m_hour u, m_minute u, m_second u)"
    | "(m_year t, m_month t, m_day t) = (m_year u, m_month u, m_day u)" "(m_hour t, m_minute t, m_second t) = (m_hour u, m_minute u, m_second u)"
      "m_micro t < m_micro u"
    using less by (auto simp: calendar_def le_less)
  then have "?o t * 86400 + ?s t < ?o u * 86400 + ?s u \<or> ?o t * 86400 + ?s t = ?o u * 86400 + ?s u \<and> m_micro t < m_micro u"
  proof cases
    case 1
    then have "?o t < ?o u" using t u by (simp add: ordinal_less valid_moment_def del: less_prod_simp)
    with sec[OF t] show ?thesis by simp
  next
    case 2
    then have "?s t < ?s u" using t seconds_less by (simp add: seconds_of_day_def valid_moment_def del: less_prod_simp of_nat_add of_nat_mult)
    with 2 show ?thesis by simp
  next
    case 3
    then show ?thesis by (simp add: seconds_of_day_def)
  qed
  with us z show ?thesis by (auto simp: instant_def split: option.splits)
qed

text \<open>The verdict is the order of the calendar. For two valid moments with the same offset, the fix is said to be "at or before"
  the tag exactly when year, month, day, hour, minute, second and microsecond of the commit are, compared in this order, not
  greater than those of the tag.\<close>

lemma verdict_by_calendar:
  assumes "valid_moment commit_dt" "valid_moment tag_dt" "m_offset commit_dt = m_offset tag_dt"
  shows "fst (compare_fix_age commit_dt tag_dt) = ''commit_at_or_before_tag'' \<longleftrightarrow> calendar commit_dt \<le> calendar tag_dt"
proof -
  have "instant commit_dt \<le> instant tag_dt \<longleftrightarrow> calendar commit_dt \<le> calendar tag_dt"
  proof
    assume "calendar commit_dt \<le> calendar tag_dt"
    then consider "calendar commit_dt = calendar tag_dt" | "calendar commit_dt < calendar tag_dt" by fastforce
    then show "instant commit_dt \<le> instant tag_dt"
    proof cases
      case 1 then show ?thesis using assms(3) by (simp add: calendar_def instant_def seconds_of_day_def)
    next
      case 2 then show ?thesis using instant_less[OF assms] by simp
    qed
  next
    assume "instant commit_dt \<le> instant tag_dt"
    then show "calendar commit_dt \<le> calendar tag_dt"
      using instant_less[OF assms(2,1) assms(3)[symmetric]] by (meson linorder_not_le)
  qed
  then show ?thesis by (simp add: compare_fix_age_def)
qed

subsection \<open>A missing release\<close>

text \<open>An error of the server is taken for a missing release when the name contains 404. Whether a release exists is decided by
  looking for \<open>404\<close> in the message, and the message holds the URL: for the tag \<open>v1.404\<close> every HTTP error of the release
  query, also a refusal for too many requests, counts as "no such release", and the date of the tag is used instead.\<close>

lemma server_error_taken_for_missing:
  assumes "\<And>hs. fst (h (trace w) (Http ''GET'' (''https://api.github.com/repos/'' @ owner @ ''/'' @ repo @ ''/releases/tags/'' @ tag) hs) (files w)) =
      HttpErr code msg"
    and "contains tag ''404''"
  shows "fst (release_date h iso_other owner repo tag w) = Inr None"
proof -
  have sub: "contains s t \<Longrightarrow> contains (p @ s) t" for p s t by (induction p) auto
  let ?e = "RuntimeError (''HTTP '' @ show_int code @ '' fetching https://api.github.com/repos/'' @ owner @ ''/'' @ repo @ ''/releases/tags/'' @ tag)"
  have "not_found (exn_str ?e)" unfolding not_found_def exn_str.simps by (intro disjI1 sub assms(2))
  then show ?thesis
    using assms(1) by (simp add: release_date_def github_json_def http_get_json_def http_read_def prog_simps is_RuntimeError_def)
qed

end
