(* ===== verification/Cve_Log.thy ===== *)
theory Cve_Log
  imports Cve_Sbom
begin

section \<open>CVE triage: transcripts of agent sessions\<close>

text \<open>
  \<open>.cursor/skills/cve/lib/log.py\<close>: the transcript of a session of OpenCode, Claude Code or Cursor as a text file.
  SQLite is a question \<open>Lib ''sqlite3''\<close> with the file, the query and its parameters, answered by a list of rows; times of
  files and the name of a temporary file are questions too. \<open>json_of\<close> is \<open>json.loads\<close>; the working directory is the
  list of its components. Times are compared exactly, in nanoseconds, where the code compares floating point
  numbers, and \<open>str\<close> of a JSON list or object is abbreviated.
\<close>

record log_env =
  json_of :: "string \<Rightarrow> json option"
  work_dir :: path

definition HOME :: path where "HOME = [''~'']"

definition loads :: "log_env \<Rightarrow> string \<Rightarrow> json prog" where
  "loads le s = (case json_of le s of Some j \<Rightarrow> ret j | None \<Rightarrow> raise JSONDecodeError)"

definition abs_str :: "path \<Rightarrow> string" where
  \<comment> \<open>\<open>str\<close> of an absolute path given by its components\<close>
  "abs_str p = ''/'' @ join ''/'' p"

subsection \<open>Shared helpers\<close>

definition dumps_char :: "char \<Rightarrow> string" where
  "dumps_char c = (let bs = CHR 0x5C in if c = CHR 0x22 then [bs, c] else if c = bs then [bs, bs]
     else if c = nl then [bs, CHR ''n''] else if c = cr then [bs, CHR ''r''] else if c = tab then [bs, CHR ''t'']
     else if c = CHR 0x08 then [bs, CHR ''b''] else if c = CHR 0x0C then [bs, CHR ''f'']
     else if (of_char c :: nat) < 32 then bs # ''u00'' @ [hex_char (of_char c div 16), hex_char (of_char c)] else [c])"

definition dumps_str :: "string \<Rightarrow> string" where
  "dumps_str s = CHR 0x22 # concat (map dumps_char s) @ [CHR 0x22]"

fun dumps :: "json \<Rightarrow> string" where
  \<comment> \<open>\<open>json.dumps(j, ensure_ascii=False)\<close>\<close>
  "dumps JNull = ''null''"
| "dumps (JBool b) = (if b then ''true'' else ''false'')"
| "dumps (JInt i) = show_int i"
| "dumps (JStr s) = dumps_str s"
| "dumps (JList xs) = ''['' @ join '', '' (map dumps xs) @ '']''"
| "dumps (JObj d) = ''{'' @ join '', '' (map (\<lambda>(k, v). dumps_str k @ '': '' @ dumps v) d) @ ''}''"

definition clip :: "nat \<Rightarrow> string \<Rightarrow> string" where
  "clip n s = (if length s > n then take n s @ ''...(truncated)'' else s)"

definition get_json :: "dict \<Rightarrow> string \<Rightarrow> json \<Rightarrow> json" where
  \<comment> \<open>\<open>d.get(k, default)\<close>\<close>
  "get_json d k v = (case dget d k of Some x \<Rightarrow> x | None \<Rightarrow> v)"

definition text_field :: "dict \<Rightarrow> string \<Rightarrow> string" where
  \<comment> \<open>\<open>f'{row[k]}'\<close>\<close>
  "text_field d k = py_text (get_json d k JNull)"

definition stripped :: "dict \<Rightarrow> string \<Rightarrow> exn + string" where
  \<comment> \<open>\<open>d.get(k, '').strip()\<close>\<close>
  "stripped d k = map_sum id strip (as_str (get_json d k (JStr [])))"

definition some_text :: "string \<Rightarrow> string \<Rightarrow> string option" where
  "some_text prefix s = (if s \<noteq> [] then Some (prefix @ s) else None)"

definition keep_some :: "'a option list \<Rightarrow> 'a list" where
  "keep_some xs = concat (map (\<lambda>x. case x of Some y \<Rightarrow> [y] | None \<Rightarrow> []) xs)"

fun collect :: "('a \<Rightarrow> exn + 'b list) \<Rightarrow> 'a list \<Rightarrow> exn + 'b list" where
  "collect f [] = Inr []"
| "collect f (x # xs) = (case f x of Inl e \<Rightarrow> Inl e | Inr ys \<Rightarrow> map_sum id (\<lambda>zs. ys @ zs) (collect f xs))"

definition file_lines :: "string \<Rightarrow> string list" where
  \<comment> \<open>the stripped lines of an open text file that are not blank\<close>
  "file_lines t = filter (\<lambda>l. l \<noteq> []) (map strip (split_on nl (map (\<lambda>c. if c = cr then nl else c) t)))"

definition sql :: "host \<Rightarrow> path \<Rightarrow> string \<Rightarrow> string list \<Rightarrow> dict list prog" where
  "sql h db query params = (bind (ask_host h (Lib ''sqlite3'' (path_str db # query # params))) (\<lambda>r.
    (case r of Answer (JList rows) \<Rightarrow> mapM (\<lambda>row. from_sum (as_dict row)) rows
     | Fault m \<Rightarrow> raise (DatabaseError m)
     | _ \<Rightarrow> raise (DatabaseError ''unable to open database file''))))"

definition mtime :: "host \<Rightarrow> path \<Rightarrow> int prog" where
  "mtime h p = (bind (ask_host h (Lib ''os.stat'' [path_str p])) (\<lambda>r.
    (case r of Answer (JInt t) \<Rightarrow> ret t | _ \<Rightarrow> raise (FileNotFoundError (path_str p)))))"

definition greatest_by :: "('a \<Rightarrow> int) \<Rightarrow> 'a list \<Rightarrow> 'a" where
  \<comment> \<open>\<open>max(xs, key=f)\<close> of a list that is not empty: the first of the greatest\<close>
  "greatest_by f xs = foldl (\<lambda>m x. if f m < f x then x else m) (hd xs) (tl xs)"

definition newest :: "(path \<Rightarrow> int prog) \<Rightarrow> path list \<Rightarrow> path prog" where
  "newest time ps = (bind (mapM time ps) (\<lambda>ts.
    ret (snd (greatest_by fst (zip ts ps)))))"

definition write_output :: "host \<Rightarrow> string \<Rightarrow> path option \<Rightarrow> string \<Rightarrow> path prog" where
  "write_output h t out_path prefix = (case out_path of
     Some p \<Rightarrow> (seq (write_text p t) (
       ret p))
   | None \<Rightarrow> (bind (ask_host h (Lib ''tempfile.mkstemp'' [prefix, ''.txt''])) (\<lambda>r.
     (case r of Answer (JStr name) \<Rightarrow> (let p = split_on CHR ''/'' name in
       seq (write_text p t) (
       ret p))
        | _ \<Rightarrow> raise (OSError ''mkstemp'')))))"

definition jsonl_in :: "path \<Rightarrow> path list prog" where
  \<comment> \<open>\<open>d.glob('*.jsonl')\<close>\<close>
  "jsonl_in d = (bind (glob d ''.jsonl'') (\<lambda>ns.
    ret (map (\<lambda>n. d @ [n]) ns)))"

subsection \<open>OpenCode\<close>

definition OPENCODE_DB :: path where "OPENCODE_DB = HOME @ [''.local'', ''share'', ''opencode'', ''opencode.db'']"

definition tool_part :: "dict \<Rightarrow> exn + string" where
  "tool_part part = map_sum id (\<lambda>state. ''[tool:'' @ py_text (get_json part ''tool'' (JStr ''?'')) @ '' status='' @
       py_text (get_json state ''status'' (JStr [])) @ '']'' @ [nl] @ ''input: '' @ clip 500 (dumps (get_json state ''input'' (JObj []))) @
       [nl] @ ''output: '' @ clip 2000 (py_text (get_json state ''output'' (JStr []))))
     (as_dict (get_json part ''state'' (JObj [])))"

definition opencode_format_part :: "dict \<Rightarrow> exn + string option" where
  "opencode_format_part part = (let part_type = get_json part ''type'' JNull in
     if part_type = JStr ''text'' then map_sum id (some_text []) (stripped part ''text'')
     else if part_type = JStr ''reasoning'' then map_sum id (some_text ''[reasoning] '') (stripped part ''text'')
     else if part_type = JStr ''tool'' then map_sum id Some (tool_part part)
     else if part_type \<in> {JStr ''step-start'', JStr ''step-finish''} then Inr None
     else Inr (Some (''['' @ py_text part_type @ ''] '' @ take 300 (dumps (JObj part)))))"

definition opencode_latest_session_id :: "host \<Rightarrow> path \<Rightarrow> string prog" where
  "opencode_latest_session_id h db = (bind (sql h db ''SELECT id FROM session ORDER BY time_updated DESC LIMIT 1'' []) (\<lambda>rows.
    (case rows of [] \<Rightarrow> raise (RuntimeError (''No OpenCode sessions found in '' @ path_str db))
     | row # _ \<Rightarrow> ret (text_field row ''id''))))"

definition loads_dict :: "log_env \<Rightarrow> json \<Rightarrow> dict prog" where
  \<comment> \<open>\<open>json.loads(v)\<close> of a stored text that is used as a dictionary\<close>
  "loads_dict le v = (bind (from_sum (as_str v)) (\<lambda>s.
    bind (loads le s) (\<lambda>j.
    from_sum (as_dict j))))"

definition opencode_message :: "host \<Rightarrow> log_env \<Rightarrow> path \<Rightarrow> dict \<Rightarrow> string list prog" where
  "opencode_message h le db msg = (bind (loads_dict le (get_json msg ''data'' JNull)) (\<lambda>data.
    bind (from_sum (as_str (get_json data ''role'' (JStr ''?'')))) (\<lambda>role.
    bind (sql h db ''SELECT data FROM part WHERE message_id = ? ORDER BY time_created, id'' [text_field msg ''id'']) (\<lambda>parts.
    bind (mapM (\<lambda>row. (bind (loads_dict le (get_json row ''data'' JNull)) (\<lambda>d.
      from_sum (opencode_format_part d)))) parts) (\<lambda>rendered.
    ret ((''## '' @ upper role) # concat (map (\<lambda>r. [r, []]) (keep_some rendered)) @ [[]]))))))"

definition render_opencode_transcript :: "host \<Rightarrow> log_env \<Rightarrow> string \<Rightarrow> path \<Rightarrow> string prog" where
  "render_opencode_transcript h le session_id db = (bind (sql h db ''SELECT title FROM session WHERE id = ?'' [session_id]) (\<lambda>rows.
    (case rows of [] \<Rightarrow> raise (RuntimeError (''Session '' @ session_id @ '' not found in '' @ path_str db))
     | row # _ \<Rightarrow> (bind (sql h db ''SELECT id, data FROM message WHERE session_id = ? ORDER BY time_created, id'' [session_id]) (\<lambda>messages.
       bind (mapM (opencode_message h le db) messages) (\<lambda>blocks.
       ret (join [nl] ([''# OpenCode session '' @ session_id @ '': '' @ text_field row ''title'', []] @ concat blocks))))))))"

definition export_opencode_session :: "host \<Rightarrow> log_env \<Rightarrow> string option \<Rightarrow> path option \<Rightarrow> path prog" where
  "export_opencode_session h le session_id out_path = (bind (is_file OPENCODE_DB) (\<lambda>b.
    if \<not> b then (raise (RuntimeError (''OpenCode database not found: '' @ path_str OPENCODE_DB))) else
    bind (case session_id of Some s \<Rightarrow> ret s | None \<Rightarrow> opencode_latest_session_id h OPENCODE_DB) (\<lambda>resolved.
    bind (render_opencode_transcript h le resolved OPENCODE_DB) (\<lambda>t.
    write_output h t out_path (''opencode-'' @ resolved @ ''-'')))))"

subsection \<open>Claude Code\<close>

definition CLAUDE_PROJECTS_DIR :: path where "CLAUDE_PROJECTS_DIR = HOME @ [''.claude'', ''projects'']"

definition claude_project_dir_name :: "path \<Rightarrow> string" where
  "claude_project_dir_name p = replace_all ''/'' ''-'' (abs_str p)"

definition claude_find_latest_jsonl :: "host \<Rightarrow> path \<Rightarrow> path \<Rightarrow> path prog" where
  \<comment> \<open>for a directory that is not the root and whose name has no glob character\<close>
  "claude_find_latest_jsonl h cwd projects_dir = (let exact = projects_dir @ [claude_project_dir_name cwd];
       needle = (if cwd = [] then [] else last cwd) in (bind (is_dir exact) (\<lambda>b.
         bind (if b then jsonl_in exact else ret []) (\<lambda>own.
         bind (if own \<noteq> [] then ret own else (bind (iterdir projects_dir) (\<lambda>names.
           bind (mapM (\<lambda>n. (bind (is_dir (projects_dir @ [n])) (\<lambda>d.
             (if d then jsonl_in (projects_dir @ [n]) else ret []))))
        (filter (\<lambda>n. contains n needle) names)) (\<lambda>found.
           ret (concat found))))) (\<lambda>candidates.
         if candidates = [] then (raise (RuntimeError (''No Claude Code session files found for '' @ abs_str cwd @ '' under '' @ path_str projects_dir))) else
         newest (mtime h) candidates)))))"

definition result_text :: "json \<Rightarrow> exn + string" where
  \<comment> \<open>the text of the content of a tool result\<close>
  "result_text content = (case content of
     JList cs \<Rightarrow> map_sum id (join [nl]) (collect (\<lambda>c. case c of JObj d \<Rightarrow> map_sum id (\<lambda>s. [s]) (as_str (get_json d ''text'' (JStr []))) | _ \<Rightarrow> Inr []) cs)
   | _ \<Rightarrow> Inr (py_text content))"

definition claude_format_content_block :: "dict \<Rightarrow> exn + string option" where
  "claude_format_content_block block = (let block_type = get_json block ''type'' JNull in
     if block_type = JStr ''text'' then map_sum id (some_text []) (stripped block ''text'')
     else if block_type = JStr ''thinking'' then map_sum id (some_text ''[reasoning] '') (stripped block ''thinking'')
     else if block_type = JStr ''tool_use'' then Inr (Some (''[tool_use:'' @ py_text (get_json block ''name'' (JStr ''?'')) @ '']'' @ [nl] @
       ''input: '' @ clip 500 (dumps (get_json block ''input'' (JObj [])))))
     else if block_type = JStr ''tool_result'' then map_sum id (\<lambda>s. Some (''[tool_result]'' @ [nl] @ clip 2000 s))
       (result_text (get_json block ''content'' (JStr [])))
     else Inr None)"

definition claude_blocks :: "json \<Rightarrow> exn + string list" where
  "claude_blocks content = (case content of
     JStr s \<Rightarrow> Inr (if strip s \<noteq> [] then [strip s] else [])
   | JList bs \<Rightarrow> collect (\<lambda>b. case b of JObj d \<Rightarrow> map_sum id (\<lambda>r. keep_some [r]) (claude_format_content_block d) | _ \<Rightarrow> Inr []) bs
   | _ \<Rightarrow> Inr [])"

definition claude_entry :: "log_env \<Rightarrow> string \<Rightarrow> string list prog" where
  \<comment> \<open>the lines for one line of the session file\<close>
  "claude_entry le raw_line = (bind (loads le raw_line) (\<lambda>j.
    bind (from_sum (as_dict j)) (\<lambda>entry.
    let entry_type = get_json entry ''type'' JNull in
    if entry_type \<notin> {JStr ''user'', JStr ''assistant''} then (ret []) else
    (case get_json entry ''message'' JNull of
       JObj message \<Rightarrow> (bind (from_sum (claude_blocks (get_json message ''content'' JNull))) (\<lambda>blocks.
         if blocks = [] then (ret []) else
         bind (from_sum (as_str (get_json message ''role'' entry_type))) (\<lambda>role.
         ret ((''## '' @ upper role) # blocks @ [[]]))))
     | _ \<Rightarrow> ret []))))"

definition render_claude_transcript :: "log_env \<Rightarrow> path \<Rightarrow> string prog" where
  "render_claude_transcript le p = (bind (read_text p) (\<lambda>t.
    bind (mapM (claude_entry le) (file_lines t)) (\<lambda>entries.
    ret (join [nl] ([''# Claude Code session '' @ stem (last p), []] @ concat entries)))))"

definition export_claude_session :: "host \<Rightarrow> log_env \<Rightarrow> string option \<Rightarrow> path option \<Rightarrow> path prog" where
  "export_claude_session h le session_path out_path = (bind (case session_path of None \<Rightarrow> claude_find_latest_jsonl h (work_dir le) CLAUDE_PROJECTS_DIR | Some s \<Rightarrow> ret (split_on CHR ''/'' s)) (\<lambda>p.
    bind (is_file p) (\<lambda>b.
    if \<not> b then (raise (RuntimeError (''Claude Code session file not found: '' @ path_str p))) else
    bind (render_claude_transcript le p) (\<lambda>t.
    write_output h t out_path (''claude-'' @ stem (last p) @ ''-'')))))"

subsection \<open>Cursor: where sessions are kept\<close>

definition CURSOR_PROJECTS_DIR :: path where "CURSOR_PROJECTS_DIR = HOME @ [''.cursor'', ''projects'']"

definition cursor_user_dirs :: "host \<Rightarrow> path list prog" where
  "cursor_user_dirs h = (bind (ask_host h (Lib ''os.uname'' [])) (\<lambda>r.
    let desktop = (if r = Answer (JStr ''Darwin'') then HOME @ [''Library'', ''Application Support'', ''Cursor'', ''User'']
      else HOME @ [''.config'', ''Cursor'', ''User'']) in
    bind (mapM is_dir [desktop, HOME @ [''.cursor-server'', ''data'', ''User'']]) (\<lambda>present.
    ret (map snd (filter fst (zip present [desktop, HOME @ [''.cursor-server'', ''data'', ''User'']]))))))"

definition kept :: "(path \<Rightarrow> bool prog) \<Rightarrow> path list \<Rightarrow> path list prog" where
  "kept test ps = (bind (mapM test ps) (\<lambda>bs.
    ret (map snd (filter fst (zip bs ps)))))"

definition cursor_global_dbs :: "host \<Rightarrow> path list prog" where
  "cursor_global_dbs h = (bind (cursor_user_dirs h) (\<lambda>ds.
    kept is_file (map (\<lambda>d. d @ [''globalStorage'', ''state.vscdb'']) ds)))"

definition cursor_workspace_storage_roots :: "host \<Rightarrow> path list prog" where
  "cursor_workspace_storage_roots h = (bind (cursor_user_dirs h) (\<lambda>ds.
    kept is_dir (map (\<lambda>d. d @ [''workspaceStorage'']) ds)))"

definition sqlite_get :: "host \<Rightarrow> path \<Rightarrow> string \<Rightarrow> string \<Rightarrow> json prog" where
  "sqlite_get h db table key = (if table \<notin> {''ItemTable'', ''cursorDiskKV''}
     then raise (ValueError (''Unexpected table name: '' @ table)) else (bind (sql h db (''SELECT value FROM '' @ table @ '' WHERE key = ?'') [key]) (\<lambda>rows.
       ret (case rows of [] \<Rightarrow> JNull | row # _ \<Rightarrow> get_json row ''value'' JNull))))"

definition hex_val :: "char \<Rightarrow> nat option" where
  "hex_val c = (if is_digit c then Some (digit_val c)
     else if lower_char c \<in> set ''abcdef'' then Some (of_char (lower_char c) - 87) else None)"

fun url_unquote :: "string \<Rightarrow> string" where
  \<comment> \<open>\<open>urllib.parse.unquote\<close>, byte by byte\<close>
  "url_unquote [] = []"
| "url_unquote (c # s) = (if c \<noteq> CHR ''%'' then c # url_unquote s
     else (case s of a # b # rest \<Rightarrow> (case (hex_val a, hex_val b) of
         (Some x, Some y) \<Rightarrow> char_of (16 * x + y) # url_unquote rest | _ \<Rightarrow> c # url_unquote s)
       | _ \<Rightarrow> c # url_unquote s))"

definition url_path :: "string \<Rightarrow> string" where
  \<comment> \<open>the path of a URL, after its scheme\<close>
  "url_path rest = takeWhile (\<lambda>c. c \<notin> {CHR ''?'', CHR ''#''})
     (if startswith rest ''//'' then dropWhile (\<lambda>c. c \<notin> {CHR ''/'', CHR ''?'', CHR ''#''}) (drop 2 rest) else rest)"

definition resolve :: "path \<Rightarrow> string \<Rightarrow> path" where
  \<comment> \<open>\<open>Path(s).resolve()\<close> without symbolic links\<close>
  "resolve cwd s = foldl (\<lambda>acc c. if c = ''..'' then butlast acc else if c = [] \<or> c = ''.'' then acc else acc @ [c])
     (if startswith s ''/'' then [] else cwd) (split_on CHR ''/'' s)"

definition cursor_folder_to_path :: "string \<Rightarrow> string option" where
  "cursor_folder_to_path folder = (if folder = [] then None
     else if startswith folder ''file://'' then Some (url_unquote (removeprefix folder ''file://''))
     else (case split_at_str '':'' folder of
         Some (scheme, rest) \<Rightarrow> (if lower scheme \<in> {''vscode-remote'', ''vscode-vfs''}
           then (let p = url_unquote (url_path rest) in if p \<noteq> [] then Some p else None)
           else if startswith folder ''/'' then Some folder else None)
       | None \<Rightarrow> if startswith folder ''/'' then Some folder else None))"

definition workspace_folder :: "log_env \<Rightarrow> path \<Rightarrow> path option prog" where
  \<comment> \<open>the folder of a workspace storage entry, \<open>None\<close> where the loop goes on\<close>
  "workspace_folder le entry = (bind (is_file (entry @ [''workspace.json''])) (\<lambda>b.
    if \<not> b then (ret None) else
    bind (catch ((bind (json_load (entry @ [''workspace.json''])) (\<lambda>j.
      ret (Some j)))) (\<lambda>e. e = JSONDecodeError) (\<lambda>_. ret None)) (\<lambda>data.
    (case data of None \<Rightarrow> ret None
     | Some j \<Rightarrow> (bind (from_sum (as_dict j)) (\<lambda>d.
       bind (let v = get_json d ''folder'' (JStr []) in if truthy v then from_sum (as_str v) else ret []) (\<lambda>folder.
       ret (map_option (resolve (work_dir le)) (cursor_folder_to_path folder)))))))))"

definition cursor_workspace_candidates :: "host \<Rightarrow> log_env \<Rightarrow> path list prog" where
  "cursor_workspace_candidates h le = (bind (cursor_workspace_storage_roots h) (\<lambda>roots.
    if roots = [] then (raise (RuntimeError ''Cursor workspaceStorage not found under ~/.config/Cursor/User or ~/.cursor-server/data/User'')) else
    bind (mapM (\<lambda>root. (bind (iterdir root) (\<lambda>ns.
      ret (map (\<lambda>n. root @ [n]) ns)))) roots) (\<lambda>entries.
    bind (mapM (workspace_folder le) (concat entries)) (\<lambda>folders.
    let found = keep_some (map (\<lambda>(e, f). map_option (\<lambda>p. (e, p)) f) (zip (concat entries) folders)) in
    let exact = map fst (filter (\<lambda>(e, p). p = work_dir le) found) in
    let parents = filter (\<lambda>(e, p). p \<noteq> work_dir le \<and> under p (work_dir le)) found in
    ret (exact @ map fst (sort_key (\<lambda>(e, p). - int (length p)) parents))))))"

subsection \<open>Cursor: composer sessions\<close>

definition as_number :: "json \<Rightarrow> exn + int" where
  "as_number j = (case j of JInt i \<Rightarrow> Inr i | JBool b \<Rightarrow> Inr (if b then 1 else 0) | _ \<Rightarrow> Inl (TypeError ''not a number''))"

definition composer_time :: "int \<Rightarrow> int" where
  \<comment> \<open>nanoseconds of \<open>lastUpdatedAt\<close>, which counts milliseconds or, when it is small, seconds\<close>
  "composer_time updated = (if updated > 10000000000 then updated * 1000000 else updated * 1000000000)"

definition latest_composer :: "dict list \<Rightarrow> exn + dict" where
  \<comment> \<open>\<open>max(composers, key=\<dots>)\<close>; one composer is not compared\<close>
  "latest_composer cs = (case cs of [c] \<Rightarrow> Inr c
     | _ \<Rightarrow> map_sum id (\<lambda>ts. snd (greatest_by fst (zip ts cs)))
         (collect (\<lambda>c. map_sum id (\<lambda>t. [t]) (as_number (get_json c ''lastUpdatedAt'' (JInt 0)))) cs))"

definition cursor_latest_composer :: "host \<Rightarrow> log_env \<Rightarrow> path \<Rightarrow> (string \<times> string \<times> int) prog" where
  "cursor_latest_composer h le workspace_dir = (let state_db = workspace_dir @ [''state.vscdb''] in (bind (is_file state_db) (\<lambda>b.
    if \<not> b then (raise (RuntimeError (''Cursor workspace state.vscdb not found under '' @ path_str workspace_dir))) else
    bind (sqlite_get h state_db ''ItemTable'' ''composer.composerData'') (\<lambda>raw.
    if \<not> truthy raw then (raise (RuntimeError (''No composer.composerData in '' @ path_str state_db @ ''; Cursor storage schema may have changed.''))) else
    bind (loads_dict le raw) (\<lambda>data.
    let composers = get_json data ''allComposers'' JNull in
    if \<not> truthy composers then (raise (RuntimeError (''No composer sessions recorded in '' @ path_str state_db))) else
    bind (from_sum (as_list composers)) (\<lambda>cs.
    bind (mapM (\<lambda>c. from_sum (as_dict c)) cs) (\<lambda>ds.
    bind (from_sum (latest_composer ds)) (\<lambda>latest.
    bind (let v = get_json latest ''lastUpdatedAt'' (JInt 0) in if truthy v then from_sum (as_number v) else ret 0) (\<lambda>updated.
    bind (from_sum (item (JObj latest) ''composerId'')) (\<lambda>cid.
    ret (py_text cid, py_text (get_json latest ''name'' cid), composer_time updated)))))))))))"

definition cursor_bubble_text :: "dict \<Rightarrow> exn + string" where
  "cursor_bubble_text b = (let t = get_json b ''text'' JNull; r = get_json b ''richText'' JNull in
     map_sum id strip (as_str (if truthy t then t else if truthy r then r else JStr [])))"

definition no_messages :: "string \<Rightarrow> string \<Rightarrow> string" where
  "no_messages composer_id name = ''No messages found for Cursor composer '' @ composer_id @ '' ('' @ name @ '')''"

definition header_bubbles :: "host \<Rightarrow> log_env \<Rightarrow> path \<Rightarrow> string \<Rightarrow> json \<Rightarrow> json list prog" where
  \<comment> \<open>the message a header points to, when it is stored\<close>
  "header_bubbles h le db composer_id header = (bind (from_sum (as_dict header)) (\<lambda>d.
    let bubble_id = get_json d ''bubbleId'' JNull in
    if \<not> truthy bubble_id then (ret []) else
    bind (sql h db ''SELECT value FROM cursorDiskKV WHERE key = ?'' [''bubbleId:'' @ composer_id @ '':'' @ py_text bubble_id]) (\<lambda>rows.
    (case rows of [] \<Rightarrow> ret []
     | row # _ \<Rightarrow> (bind (from_sum (as_str (get_json row ''value'' JNull))) (\<lambda>s.
       bind (loads le s) (\<lambda>j.
       ret [j])))))))"

definition db_bubbles :: "host \<Rightarrow> log_env \<Rightarrow> string \<Rightarrow> string \<Rightarrow> path \<Rightarrow> (string + json list) prog" where
  \<comment> \<open>the messages in one database, or the text of \<open>last_error\<close>\<close>
  "db_bubbles h le composer_id name db = (bind (sql h db ''SELECT value FROM cursorDiskKV WHERE key = ?'' [''composerData:'' @ composer_id]) (\<lambda>rows.
    (case rows of [] \<Rightarrow> ret (Inl (''No composerData:'' @ composer_id @ '' in '' @ path_str db))
     | row # _ \<Rightarrow> (bind (loads_dict le (get_json row ''value'' JNull)) (\<lambda>data.
       bind (case dget data ''conversation'' of
             Some v \<Rightarrow> (if truthy v then from_sum (as_list v) else ret [])
           | None \<Rightarrow> (bind (from_sum (as_list (get_json data ''fullConversationHeadersOnly'' (JList [])))) (\<lambda>headers.
             bind (mapM (header_bubbles h le db composer_id) headers) (\<lambda>found.
             ret (concat found))))) (\<lambda>bubbles.
       ret (if bubbles \<noteq> [] then Inr bubbles else Inl (no_messages composer_id name @ '' in '' @ path_str db))))))))"

fun search_dbs :: "host \<Rightarrow> log_env \<Rightarrow> string \<Rightarrow> string \<Rightarrow> string option \<Rightarrow> path list \<Rightarrow> (string option + json list) prog" where
  "search_dbs h le composer_id name last_error [] = ret (Inl last_error)"
| "search_dbs h le composer_id name last_error (db # dbs) = (bind (db_bubbles h le composer_id name db) (\<lambda>r.
  (case r of Inl e \<Rightarrow> search_dbs h le composer_id name (Some e) dbs | Inr bubbles \<Rightarrow> ret (Inr bubbles))))"

definition bubble_lines :: "json \<Rightarrow> exn + string list" where
  "bubble_lines j = (case as_dict j of Inl e \<Rightarrow> Inl e
     | Inr b \<Rightarrow> map_sum id (\<lambda>t. if t = [] then []
         else [''## '' @ (if get_json b ''type'' JNull \<in> {JInt 1, JBool True, JStr ''user''} then ''USER'' else ''ASSISTANT''), t, []])
         (cursor_bubble_text b))"

definition render_cursor_transcript :: "host \<Rightarrow> log_env \<Rightarrow> string \<Rightarrow> string \<Rightarrow> string prog" where
  "render_cursor_transcript h le composer_id name = (bind (cursor_global_dbs h) (\<lambda>dbs.
    if dbs = [] then (raise (RuntimeError ''Cursor global state.vscdb not found under ~/.config/Cursor/User or ~/.cursor-server/data/User'')) else
    bind (search_dbs h le composer_id name None dbs) (\<lambda>r.
    (case r of
       Inl e \<Rightarrow> raise (RuntimeError (case e of Some m \<Rightarrow> m | None \<Rightarrow> no_messages composer_id name @ ''.''))
     | Inr bubbles \<Rightarrow> (bind (from_sum (collect bubble_lines bubbles)) (\<lambda>lines.
       ret (join [nl] ([''# Cursor session '' @ composer_id @ '': '' @ name, []] @ lines))))))))"

definition export_cursor_composer_session :: "host \<Rightarrow> log_env \<Rightarrow> string \<Rightarrow> path option \<Rightarrow> path prog" where
  \<comment> \<open>with a composer id; the program never calls it without\<close>
  "export_cursor_composer_session h le composer_id out_path = (bind (render_cursor_transcript h le composer_id composer_id) (\<lambda>t.
    write_output h t out_path (''cursor-'' @ composer_id @ ''-'')))"

subsection \<open>Cursor: agent transcripts\<close>

definition cursor_project_slug :: "path \<Rightarrow> string" where
  "cursor_project_slug p = replace_all ''/'' ''-'' (join ''/'' p)"

definition transcripts_of :: "path \<Rightarrow> path" where
  "transcripts_of p = CURSOR_PROJECTS_DIR @ (if p = [] then [] else [cursor_project_slug p]) @ [''agent-transcripts'']"

definition cursor_agent_transcript_dirs :: "path \<Rightarrow> path list prog" where
  \<comment> \<open>of the directory and of its parents, the nearest first\<close>
  "cursor_agent_transcript_dirs target = (bind (is_dir CURSOR_PROJECTS_DIR) (\<lambda>b.
    if \<not> b then (ret []) else
    bind (kept is_dir (map (\<lambda>n. transcripts_of (take n target)) (rev [0..<length target + 1]))) (\<lambda>ds.
    ret (rev (remdups (rev ds))))))"

definition safe_mtime :: "host \<Rightarrow> path \<Rightarrow> int prog" where
  "safe_mtime h p = catch (mtime h p) is_OSError (\<lambda>_. ret 0)"

fun first_file :: "path list \<Rightarrow> path option prog" where
  "first_file [] = ret None"
| "first_file (p # ps) = (bind (is_file p) (\<lambda>b.
  if b then (ret (Some p)) else
  first_file ps))"

definition cursor_find_agent_transcript :: "host \<Rightarrow> log_env \<Rightarrow> string option \<Rightarrow> path prog" where
  "cursor_find_agent_transcript h le transcript_id = (bind (cursor_agent_transcript_dirs (work_dir le)) (\<lambda>dirs.
    if dirs = [] then (raise (RuntimeError (''No Cursor agent-transcripts directory found for '' @ abs_str (work_dir le) @ '' under '' @
      path_str CURSOR_PROJECTS_DIR))) else
    (case transcript_id of
       Some tid \<Rightarrow> (bind (first_file (concat (map (\<lambda>d. [d @ [tid, tid @ ''.jsonl''], d @ [tid @ ''.jsonl'']]) dirs))) (\<lambda>r.
         (case r of Some p \<Rightarrow> ret p
          | None \<Rightarrow> raise (RuntimeError (''No Cursor agent transcript '' @ [CHR 0x27] @ tid @ [CHR 0x27] @ '' under '' @ path_str (hd dirs))))))
     | None \<Rightarrow> (bind (mapM (\<lambda>d. (bind (iterdir d) (\<lambda>ns.
         bind (mapM (\<lambda>n. jsonl_in (d @ [n])) ns) (\<lambda>nested.
         bind (jsonl_in d) (\<lambda>flat.
         ret (concat nested @ flat)))))) dirs) (\<lambda>found.
       if concat found = [] then (raise (RuntimeError (''No Cursor agent transcript JSONL files under '' @ path_str (hd dirs)))) else
       newest (safe_mtime h) (concat found))))))"

definition agent_texts :: "json \<Rightarrow> string list" where
  "agent_texts content = (case content of
     JStr s \<Rightarrow> (if strip s \<noteq> [] then [strip s] else [])
   | JList bs \<Rightarrow> filter (\<lambda>t. t \<noteq> []) (map strip (concat (map (\<lambda>b. case b of
       JObj d \<Rightarrow> (if get_json d ''type'' JNull = JStr ''text'' then [text_or_empty d ''text''] else []) | _ \<Rightarrow> []) bs)))
   | _ \<Rightarrow> [])"

definition agent_entry :: "log_env \<Rightarrow> string \<Rightarrow> exn + string list" where
  "agent_entry le raw_line = (case json_of le raw_line of None \<Rightarrow> Inr []
     | Some j \<Rightarrow> map_sum id (\<lambda>entry.
         let texts = (case get_json entry ''message'' JNull of JObj m \<Rightarrow> agent_texts (get_json m ''content'' JNull) | _ \<Rightarrow> []) in
         if texts = [] then [] else (''## '' @ upper (first_of [text_or_empty entry ''role'', ''unknown''])) # texts @ [[]]) (as_dict j))"

definition render_agent_transcript :: "log_env \<Rightarrow> path \<Rightarrow> string prog" where
  "render_agent_transcript le p = (bind (read_text p) (\<lambda>t.
    bind (from_sum (collect (agent_entry le) (file_lines t))) (\<lambda>lines.
    if lines = [] then (raise (RuntimeError (''No text messages found in Cursor agent transcript '' @ path_str p))) else
    ret (join [nl] ([''# Cursor agent transcript '' @ stem (last p), []] @ lines)))))"

subsection \<open>Cursor: the export\<close>

definition composer_error :: "exn \<Rightarrow> string" where "composer_error e = ''composer-db: '' @ exn_str e"
definition agent_error :: "exn \<Rightarrow> string" where "agent_error e = ''agent-transcripts: '' @ exn_str e"

definition cursor_failed :: "string list \<Rightarrow> exn" where
  "cursor_failed errors = RuntimeError (''Failed to export Cursor session via composer DB or agent-transcripts: '' @ join '' | '' errors)"

definition tried :: "(exn \<Rightarrow> string) \<Rightarrow> 'a prog \<Rightarrow> (string + 'a) prog" where
  \<comment> \<open>\<open>except RuntimeError as err: errors.append(\<dots>)\<close>\<close>
  "tried msg m = catch ((bind m (\<lambda>x.
    ret (Inr x)))) is_RuntimeError (\<lambda>e. ret (Inl (msg e)))"

fun first_composer :: "host \<Rightarrow> log_env \<Rightarrow> string option \<Rightarrow> path list \<Rightarrow> (string \<times> string \<times> int) prog" where
  "first_composer h le last_err [] = raise (RuntimeError (case last_err of Some m \<Rightarrow> m | None \<Rightarrow> ''no composer workspace matched''))"
| "first_composer h le last_err (d # ds) = (bind (tried (\<lambda>e. last d @ '': '' @ exn_str e) (cursor_latest_composer h le d)) (\<lambda>r.
  (case r of Inr c \<Rightarrow> ret c | Inl m \<Rightarrow> first_composer h le (Some m) ds)))"

type_synonym candidate_text = "int \<times> string \<times> string" \<comment> \<open>time, text and prefix of the file name\<close>

definition composer_candidate :: "host \<Rightarrow> log_env \<Rightarrow> candidate_text prog" where
  "composer_candidate h le = (bind (cursor_workspace_candidates h le) (\<lambda>ds.
    bind (first_composer h le None ds) (\<lambda>(found_id, name, time).
    bind (render_cursor_transcript h le found_id name) (\<lambda>t.
    ret (time, t, ''cursor-'' @ found_id @ ''-'')))))"

definition agent_candidate :: "host \<Rightarrow> log_env \<Rightarrow> candidate_text prog" where
  "agent_candidate h le = (bind (cursor_find_agent_transcript h le None) (\<lambda>p.
    bind (render_agent_transcript le p) (\<lambda>t.
    bind (mtime h p) (\<lambda>time.
    ret (time, t, ''cursor-agent-'' @ stem (last p) @ ''-'')))))"

definition export_named_cursor_session :: "host \<Rightarrow> log_env \<Rightarrow> string \<Rightarrow> path option \<Rightarrow> path prog" where
  "export_named_cursor_session h le composer_id out_path = (bind (tried composer_error (export_cursor_composer_session h le composer_id out_path)) (\<lambda>c.
    (case c of Inr p \<Rightarrow> ret p
     | Inl e1 \<Rightarrow> (bind (tried agent_error ((bind (cursor_find_agent_transcript h le (Some composer_id)) (\<lambda>p.
         bind (render_agent_transcript le p) (\<lambda>t.
         write_output h t out_path (''cursor-agent-'' @ stem (last p) @ ''-'')))))) (\<lambda>a.
       (case a of Inr p \<Rightarrow> ret p | Inl e2 \<Rightarrow> raise (cursor_failed [e1, e2])))))))"

definition export_cursor_session :: "host \<Rightarrow> log_env \<Rightarrow> string option \<Rightarrow> path option \<Rightarrow> path prog" where
  "export_cursor_session h le composer_id out_path = (case composer_id of
     Some cid \<Rightarrow> export_named_cursor_session h le cid out_path
   | None \<Rightarrow> (bind (tried composer_error (composer_candidate h le)) (\<lambda>c.
     bind (tried agent_error (agent_candidate h le)) (\<lambda>a.
     (case (c, a) of
          (Inl e1, Inl e2) \<Rightarrow> raise (cursor_failed [e1, e2])
        | (Inr (tm, t, prefix), Inl _) \<Rightarrow> write_output h t out_path prefix
        | (Inl _, Inr (tm, t, prefix)) \<Rightarrow> write_output h t out_path prefix
        | (Inr x, Inr y) \<Rightarrow> (case greatest_by fst [x, y] of (tm, t, prefix) \<Rightarrow> write_output h t out_path prefix))))))"

definition export_agent_log :: "host \<Rightarrow> log_env \<Rightarrow> string \<Rightarrow> string option \<Rightarrow> path prog" where
  "export_agent_log h le agent session_id = (let session = (case session_id of Some s \<Rightarrow> if s = [] then None else Some s | None \<Rightarrow> None) in
     if agent = ''opencode'' then export_opencode_session h le session None
     else if agent = ''claude'' then export_claude_session h le session None
     else if agent = ''cursor'' then export_cursor_session h le session None
     else raise (ValueError (''Unknown agent '' @ [CHR 0x27] @ agent @ [CHR 0x27])))"

subsection \<open>A database that cannot be read\<close>


definition locked_home :: world where
  "locked_home = blank\<lparr>files := [([''~'', ''.config'', ''Cursor'', ''User''], DirN),
     ([''~'', ''.config'', ''Cursor'', ''User'', ''workspaceStorage''], DirN),
     ([''~'', ''.config'', ''Cursor'', ''User'', ''workspaceStorage'', ''w''], DirN),
     ([''~'', ''.config'', ''Cursor'', ''User'', ''workspaceStorage'', ''w'', ''workspace.json''], JsonN (JObj [(''folder'', JStr ''file:///src'')])),
     ([''~'', ''.config'', ''Cursor'', ''User'', ''workspaceStorage'', ''w'', ''state.vscdb''], FileN [])]\<rparr>"

definition locked :: host where
  "locked = (\<lambda>_ ev f. (case ev of Lib g _ \<Rightarrow> if g = ''sqlite3'' then Fault ''database is locked'' else Answer (JStr ''Linux'') | _ \<Rightarrow> Exit 0 [] [], f))"

definition src_env :: log_env where
  "src_env = \<lparr>json_of = (\<lambda>_. None), work_dir = [''src'']\<rparr>"

lemma locked_candidates:
  "fst (cursor_workspace_candidates locked src_env locked_home) = Inr [[''~'', ''.config'', ''Cursor'', ''User'', ''workspaceStorage'', ''w'']]"
  "fs_is_file (files (snd (cursor_workspace_candidates locked src_env locked_home)))
     ([''~'', ''.config'', ''Cursor'', ''User'', ''workspaceStorage'', ''w''] @ [''state.vscdb''])"
  by code_simp+


end
