(* ===== verification/Cve_Helper.thy ===== *)
theory Cve_Helper
  imports Cve_Comments Cve_Vcs Cve_Sbom Cve_Dates Cve_Log
begin

section \<open>CVE triage: the commands\<close>

text \<open>
  \<open>.cursor/skills/cve/lib/investigate.py\<close>, \<open>lib/output.py\<close> and the commands of \<open>cve_helper.py\<close>. The parsed
  arguments of a command are a record. Texts on standard error are not recorded. The order in which Python lists
  the members of a set is the parameter \<open>set_order\<close>.
\<close>

subsection \<open>Gathering tickets\<close>

record gathered_tickets =
  g_reports :: "ticket_report list"
  g_user_provided :: "string list"
  g_discovered :: "string list"

definition strip_only_keyword :: "string list \<Rightarrow> exn + string list \<times> bool" where
  "strip_only_keyword tickets = (if tickets \<noteq> [] \<and> lower (last tickets) = ''only'' then
     (if butlast tickets = [] then Inl (ValueError ''`only` must follow at least one ticket key'') else Inr (butlast tickets, True))
   else Inr (tickets, False))"

definition fetch_initial :: "host \<Rightarrow> (string \<times> ticket_report) list \<times> jira_cache \<Rightarrow> string \<Rightarrow> ((string \<times> ticket_report) list \<times> jira_cache) prog" where
  "fetch_initial h st key = (bind (catch ((bind (fetch_json h (snd st) key JIRA_FIELDS_FULL True) (\<lambda>r.
      ret (Some r)))) is_RuntimeError (\<lambda>_. ret None)) (\<lambda>r.
    (case r of
       Some (Some flds, cache) \<Rightarrow> (bind (parse_ticket_json key flds) (\<lambda>p.
         ret (dset key p (fst st), cache)))
     | _ \<Rightarrow> ret st)))"

definition report_cves :: "(string \<times> ticket_report) list \<Rightarrow> string list" where
  "report_cves reports = remdups (concat (map (\<lambda>(k, r). cve_ids r) reports))"

definition add_linked :: "host \<Rightarrow> nat \<Rightarrow> ticket_report list \<times> jira_cache \<Rightarrow> string \<times> ticket_report \<Rightarrow> (ticket_report list \<times> jira_cache) prog" where
  "add_linked h max_linked st entry = (bind (inspect_linked_tickets h (snd st) (fst entry) (linked_keys (snd entry)) max_linked) (\<lambda>(details, cache).
    ret (fst st @ [(snd entry)\<lparr>linked_details := details\<rparr>], cache)))"

definition gather_ticket_reports :: "(string list \<Rightarrow> string list) \<Rightarrow> host \<Rightarrow> string list \<Rightarrow> bool \<Rightarrow> nat \<Rightarrow> gathered_tickets prog" where
  "gather_ticket_reports set_order h tickets find_related max_linked = (seq (ensure_rhjira_available h) (
    bind (from_sum (map_keys tickets)) (\<lambda>initial_keys.
    bind (foldM (fetch_initial h) ([], []) initial_keys) (\<lambda>(initial_reports, cache).
    bind (if find_related \<and> report_cves initial_reports \<noteq> [] then find_related_tickets h (set_order (report_cves initial_reports)) else ret []) (\<lambda>related.
    let discovered = filter (\<lambda>k. k \<notin> set initial_keys) (dedup (initial_keys @ related)) in
    bind (batch_fetch_tickets h cache discovered) (\<lambda>(discovered_reports, cache).
    bind (foldM (add_linked h max_linked) ([], cache) (foldl (\<lambda>d (k, r). dset k r d) initial_reports discovered_reports)) (\<lambda>(reports, cache).
    ret \<lparr>g_reports = reports, g_user_provided = filter (has_key initial_reports) initial_keys, g_discovered = discovered\<rparr>)))))))"

fun dicts_of :: "json list \<Rightarrow> exn + dict list" where
  "dicts_of [] = Inr []"
| "dicts_of (x # xs) = (case as_dict x of Inl e \<Rightarrow> Inl e | Inr d \<Rightarrow> map_sum id (Cons d) (dicts_of xs))"

definition new_hits :: "dict list \<Rightarrow> dict list \<Rightarrow> dict list" where
  \<comment> \<open>with the merge requests whose URL was not seen before\<close>
  "new_hits hits found = foldl (\<lambda>acc d. let url = text_or_empty d ''html_url'' in
     if url \<noteq> [] \<and> url \<notin> set (map (\<lambda>e. text_or_empty e ''html_url'') acc) then acc @ [d] else acc) hits found"

definition is_TypeError :: "exn \<Rightarrow> bool" where
  "is_TypeError e = (case e of TypeError _ \<Rightarrow> True | _ \<Rightarrow> False)"

definition search_one :: "host \<Rightarrow> string \<Rightarrow> dict list \<Rightarrow> string \<Rightarrow> dict list prog" where
  "search_one h token hits cve_id = (bind (catch (lib_call h ''search_gitlab_mrs'' [''gitlab.com'', GITLAB_RPMS_REPO, cve_id, token])
      (\<lambda>e. is_OSError e \<or> is_TypeError e) (\<lambda>_. ret JNull)) (\<lambda>found.
    if \<not> truthy found then (ret hits) else
    bind (from_sum (as_list found)) (\<lambda>xs.
    bind (from_sum (dicts_of xs)) (\<lambda>ds.
    ret (new_hits hits ds)))))"

definition search_repo_fix_mrs :: "host \<Rightarrow> string list \<Rightarrow> dict list prog" where
  "search_repo_fix_mrs h ids = (bind (catch ((seq (import_analysis_lib h ''gitlab_client'') (
      ret True))) is_RuntimeError (\<lambda>_. ret False)) (\<lambda>b.
    if \<not> b then (ret []) else
    bind (gets (\<lambda>w. get_text (environ w) ''GITLAB_TOKEN'')) (\<lambda>token.
    foldM (search_one h token) [] ids)))"

subsection \<open>Hints and the recap\<close>

datatype resolution_hint = Embargoed_stop | Fib_leave_for_advisory | Fib_ask_create_task | Needs_version_check | Needs_package_guess

definition hint_name :: "resolution_hint \<Rightarrow> string" where
  "hint_name r = (case r of Embargoed_stop \<Rightarrow> ''embargoed_stop'' | Fib_leave_for_advisory \<Rightarrow> ''fib_leave_for_advisory''
     | Fib_ask_create_task \<Rightarrow> ''fib_ask_create_task'' | Needs_version_check \<Rightarrow> ''needs_version_check''
     | Needs_package_guess \<Rightarrow> ''needs_package_guess'')"

definition ticket_has_task_or_mr :: "ticket_report \<Rightarrow> bool" where
  "ticket_has_task_or_mr r = (linked_details r \<noteq> [] \<or> mr_links r \<noteq> [])"

definition resolution_hint_for_report :: "ticket_report \<Rightarrow> bool \<Rightarrow> resolution_hint \<times> string" where
  "resolution_hint_for_report r has_task_or_mr =
     (if embargoed r then (Embargoed_stop, ''Stop; embargoed ticket. Do not analyze or write.'')
      else if fixed_in_build r \<noteq> [] \<and> has_task_or_mr then
        (Fib_leave_for_advisory, ''FIB is set and a task/MR exists; leave for advisory automation unless the user asks.'')
      else if fixed_in_build r \<noteq> [] then (Fib_ask_create_task, ''FIB is set but no task/MR is linked; ask whether to create the task.'')
      else if package_guess r \<noteq> [] then (Needs_version_check, ''version-check '' @ package_guess r @ '' --ticket '' @ ticket r @
        '' to compare the local NVR against the CVE range before deciding.'')
      else (Needs_package_guess, ''No package guess; run spec-deps/sbom to identify the affected package before version-check.''))"

definition or_text :: "string \<Rightarrow> string \<Rightarrow> string" where "or_text a b = (if a \<noteq> [] then a else b)"

definition origin_of :: "gathered_tickets \<Rightarrow> ticket_report \<Rightarrow> string" where
  "origin_of g r = (if ticket r \<in> set (g_user_provided g) then ''user_provided'' else ''discovered'')"

definition report_recap :: "gathered_tickets \<Rightarrow> ticket_report \<Rightarrow> string list" where
  "report_recap g r = (let (hint, recommended_next) = resolution_hint_for_report r (ticket_has_task_or_mr r) in
     [ticket r @ '' ['' @ origin_of g r @ ''] '' @ ticket_type r @ '' '' @ t_status r @ '' | assignee='' @ or_text (assignee r) ''(unassigned)'' @
        '' | labels='' @ or_text (labels r) ''(none)'' @ '' | fib='' @ or_text (fixed_in_build r) ''(unset)'' @ '' | pkg='' @ or_text (package_guess r) ''?'',
      ''  resolution_hint='' @ hint_name hint, ''  recommended_next: '' @ recommended_next])"

definition guess_of_ticket :: "ticket_report list \<Rightarrow> string \<Rightarrow> string" where
  "guess_of_ticket reports key = (case find (\<lambda>r. ticket r = key) (rev reports) of Some r \<Rightarrow> package_guess r | None \<Rightarrow> [])"

definition recap_lines :: "gathered_tickets \<Rightarrow> string list" where
  "recap_lines g = [''Recap:''] @ concat (map (report_recap g) (g_reports g)) @
     (if g_discovered g = [] then [] else
       [''Related: '' @ join '', '' (map (\<lambda>k. k @ '' ('' @ or_text (guess_of_ticket (g_reports g) k) ''?'' @ '')'') (g_discovered g)) @
          ''. Apply this to all, or only the tickets you named?'',
        ''A '' @ [CHR 0x22] @ ''Yes please'' @ [CHR 0x22] @ '' on the named set is not approval for discovered siblings.''])"

subsection \<open>Logs\<close>

definition attach_file :: "host \<Rightarrow> string \<Rightarrow> path \<Rightarrow> string prog" where
  "attach_file h key p = (bind (from_sum (normalize_hum_key key)) (\<lambda>k.
    bind (is_file p) (\<lambda>b.
    if \<not> b then (raise (ValueError (''File not found: '' @ path_str p))) else
    bind (run_rhjira h [''attach'', k, path_str p]) (\<lambda>c.
    if returncode c \<noteq> 0 then (raise (RuntimeError (''Failed to attach '' @ path_str p @ '' to '' @ k @ '': '' @
      first_of [stderr c, stdout c, ''unknown error'']))) else
    ret (''Attached '' @ last p @ '' to '' @ k)))))"

definition log_message :: "host \<Rightarrow> string \<Rightarrow> path \<Rightarrow> bool \<Rightarrow> string prog" where
  "log_message h key p print_only = (bind (from_sum (normalize_hum_key key)) (\<lambda>k.
    bind (is_file p) (\<lambda>b.
    if \<not> b then (raise (ValueError (''Log file not found: '' @ path_str p))) else
    if print_only then (ret (''Found '' @ path_str p @ '' (print-only, not uploaded)'')) else
    attach_file h k p)))"

subsection \<open>Printing a ticket\<close>

definition say_line :: "string \<Rightarrow> unit prog" where "say_line l = emit (Print l)"

definition say_lines :: "string list \<Rightarrow> unit prog" where "say_lines ls = forM say_line ls"

definition header_line :: "ticket_report \<Rightarrow> string" where
  "header_line r = ticket r @ (if package_guess r \<noteq> [] then '' ['' @ package_guess r @ '']'' else []) @ '' '' @ or_text (ticket_type r) ''?'' @
     '' '' @ t_status r @ '' | Sev:'' @ or_text (severity r) ''-'' @ '' | FIB:'' @ or_text (fixed_in_build r) ''-'' @ '' | '' @
     or_text (assignee r) ''Unassigned'' @ (if cve_ids r \<noteq> [] then '' | '' @ join '','' (cve_ids r) else [])"

definition range_line :: "ticket_report \<Rightarrow> string list" where
  "range_line r = (let parts = (if affected_range r \<noteq> [] then [''  Affected: '' @ affected_range r] else []) @
       (if fixed_version r \<noteq> [] then [''  Fixed: '' @ fixed_version r] else []) in
     if parts = [] then [] else [join ''  '' parts])"

definition link_line :: "linked_ticket \<Rightarrow> string" where
  "link_line l = (if l_error l \<noteq> [] then ''  Link: '' @ l_ticket l @ '' ERROR '' @ l_error l
     else ''  Link: '' @ l_ticket l @ '' ['' @ l_type l @ ''] '' @ l_status l @ '' - '' @ l_summary l)"

definition detail_lines :: "ticket_report \<Rightarrow> string list" where
  "detail_lines r = [header_line r] @ (if assessment r \<noteq> [] then [''  Assessment: '' @ assessment r] else []) @ range_line r @
     map (\<lambda>mr. ''  MR: '' @ mr) (mr_links r) @ map link_line (linked_details r) @
     (if truthy (upstream_component r) then [''  Upstream component: '' @ py_text (upstream_component r)] else [])"

definition ticket_block_lines :: "ticket_report \<Rightarrow> string list" where
  "ticket_block_lines r = (let part = extract_vendor_field (analysis_block r) ''Component''; flaw = extract_flaw_summary (description r) in
     (if analysis_block r \<noteq> [] \<and> part \<noteq> [] then [''  Component: '' @ part] else []) @
     (if description r \<noteq> [] \<and> flaw \<noteq> [] then [[], flaw] else []) @
     (if analysis_block r \<noteq> [] then [[], analysis_block r] else []))"

definition print_package_lines :: "ticket_report \<Rightarrow> unit prog" where
  "print_package_lines r = (bind (uses_vendored_deps (package_guess r)) (\<lambda>vendored.
    seq (whenM vendored (say_line ''  Vendored deps: yes (go-vendor-tools)'')) (
    bind (read_local_spec_nvr (package_guess r)) (\<lambda>nvr.
    seq (whenM (nvr \<noteq> []) (say_line (''  Local: '' @ nvr))) (
    whenM (cve_ids r \<noteq> []) ((bind (search_cve_in_spec_and_patches (package_guess r) (cve_ids r)) (\<lambda>b.
      say_line (''  CVE ref in spec/patches: '' @ (if b then ''yes'' else ''no''))))))))))"

definition EM_DASH :: string where "EM_DASH = [CHR 0xE2, CHR 0x80, CHR 0x94]"

definition print_ticket :: "ticket_report \<Rightarrow> unit prog" where
  "print_ticket r = (if embargoed r then say_line (''*** EMBARGOED: '' @ ticket r @ '' '' @ EM_DASH @ '' do not analyze or act. ***'') else (seq (say_lines (detail_lines r)) (
    seq (whenM (package_guess r \<noteq> []) (print_package_lines r)) (
    say_lines (ticket_block_lines r)))))"

definition build_suggested_chat_title :: "ticket_report list \<Rightarrow> string" where
  "build_suggested_chat_title reports = (let packages = map package_guess reports in
     (case reports of
        [] \<Rightarrow> []
      | [r] \<Rightarrow> (if package_guess r \<noteq> [] then ticket r @ '' '' @ package_guess r else ticket r)
      | r # rs \<Rightarrow> (if list_all (\<lambda>p. p \<noteq> [] \<and> p = package_guess r) packages
          then join '' '' (map ticket reports) @ '' '' @ package_guess r
          else join '', '' (map (\<lambda>r. if package_guess r \<noteq> [] then ticket r @ '' '' @ package_guess r else ticket r) reports))))"

definition apply_title_prefix :: "string \<Rightarrow> string \<Rightarrow> string" where
  "apply_title_prefix title prefix = join '' '' (filter (\<lambda>s. s \<noteq> []) [strip prefix, strip title])"

definition sbom_hit_lines :: "sbom_hit \<Rightarrow> string list" where
  "sbom_hit_lines x = [''- '' @ join '' | '' ([''term='' @ h_term x, ''match='' @ first_of [h_name x, h_purl x, h_path x]] @
     (if h_version x \<noteq> [] then [''version='' @ h_version x] else []) @ (if h_scope x \<noteq> [] then [''scope='' @ h_scope x] else []) @
     (if h_type x \<noteq> [] then [''type='' @ h_type x] else []) @
     (if h_purl x \<noteq> [] \<and> h_name x \<noteq> [] then [''purl='' @ h_purl x] else []))] @
     (if h_snippet x \<noteq> [] then [''  snippet: '' @ h_snippet x] else [])"

definition sbom_lines :: "sbom_meta \<Rightarrow> sbom_hit list \<Rightarrow> string list \<Rightarrow> string list" where
  "sbom_lines m hits terms = [''SBOM package: '' @ s_package m, ''Source: '' @ s_source m, ''URL: '' @ s_url m,
     ''Path: '' @ path_str (s_path m) @ '' ('' @ show_nat (s_bytes m) @ '' bytes)''] @
     (if s_nvr m \<noteq> [] then [''NVR: '' @ s_nvr m] else []) @
     (if terms = [] then [] else [[], ''Search terms: '' @ join '', '' terms, ''Hits: '' @ show_nat (length hits)] @
       (if hits = [] then [''(no matches)''] else concat (map sbom_hit_lines hits)))"

subsection \<open>Payloads\<close>

definition strs_json :: "string list \<Rightarrow> json" where "strs_json xs = JList (map JStr xs)"

definition linked_json :: "linked_ticket \<Rightarrow> json" where
  "linked_json l = JObj [(''ticket'', JStr (l_ticket l)), (''summary'', JStr (l_summary l)), (''status'', JStr (l_status l)),
     (''ticket_type'', JStr (l_type l)), (''error'', JStr (l_error l))]"

definition report_json :: "ticket_report \<Rightarrow> json" where
  "report_json r = JObj [(''ticket'', JStr (ticket r)), (''summary'', JStr (summary r)), (''status'', JStr (t_status r)),
     (''severity'', JStr (severity r)), (''assignee'', JStr (assignee r)), (''ticket_type'', JStr (ticket_type r)), (''labels'', JStr (labels r)),
     (''fixed_in_build'', JStr (fixed_in_build r)), (''cve_ids'', strs_json (cve_ids r)), (''package_guess'', JStr (package_guess r)),
     (''linked_keys'', strs_json (linked_keys r)), (''mr_links_in_ticket'', strs_json (mr_links r)),
     (''linked_ticket_details'', JList (map linked_json (linked_details r))), (''embargoed'', JBool (embargoed r)),
     (''assessment'', JStr (assessment r)), (''affected_range'', JStr (affected_range r)), (''fixed_version'', JStr (fixed_version r)),
     (''cve_analysis_block'', JStr (analysis_block r)), (''description'', JStr (description r)), (''upstream_component'', upstream_component r)]"

definition bot_mr_json :: "bot_mr \<Rightarrow> json" where
  "bot_mr_json e = JObj [(''iid'', JStr (mr_iid e)), (''title'', JStr (mr_title e)), (''state'', JStr (mr_state e)), (''web_url'', JStr (mr_web_url e))]"

definition dep_hit_json :: "dep_hit \<Rightarrow> json" where
  "dep_hit_json x = JObj [(''kind'', JStr (if kind x = Bundled_provides then ''bundled_provides'' else ''component_mention'')),
     (''line_no'', JInt (int (line_no x))), (''text'', JStr (dep_text x)), (''bundled_name'', JStr (bundled_name x)),
     (''bundled_version'', JStr (bundled_version x))]"

definition sbom_hit_json :: "sbom_hit \<Rightarrow> json" where
  "sbom_hit_json x = JObj [(''term'', JStr (h_term x)), (''path'', JStr (h_path x)), (''name'', JStr (h_name x)), (''version'', JStr (h_version x)),
     (''purl'', JStr (h_purl x)), (''scope'', JStr (h_scope x)), (''component_type'', JStr (h_type x)), (''snippet'', JStr (h_snippet x))]"

definition sbom_meta_items :: "sbom_meta \<Rightarrow> dict" where
  "sbom_meta_items m = [(''package'', JStr (s_package m)), (''nvr'', JStr (s_nvr m)), (''ticket'', JStr (s_ticket m)), (''source'', JStr (s_source m)),
     (''url'', JStr (s_url m)), (''path'', JStr (path_str (s_path m))), (''bytes'', JInt (int (s_bytes m)))]"

definition print_json :: "json \<Rightarrow> unit prog" where
  \<comment> \<open>\<open>print(json.dumps(j, indent=2, sort_keys=True))\<close>\<close>
  "print_json j = emit (PrintJson (sort_json j))"

definition write_payload :: "path option \<Rightarrow> json \<Rightarrow> unit prog" where
  "write_payload out j = (case out of Some p \<Rightarrow> write_node p (JsonN (sort_json j)) | None \<Rightarrow> ret ())"

subsection \<open>Reading commands\<close>

record show_args =
  sh_tickets :: "string list"
  sh_json :: bool
  sh_json_out :: "path option"
  sh_max_linked :: int
  sh_title_only :: bool
  sh_title_prefix :: string
  sh_find_related :: bool

definition show_payload :: "string \<Rightarrow> gathered_tickets \<Rightarrow> json" where
  "show_payload title g = JObj [(''suggested_chat_title'', JStr title), (''tickets'', JList (map report_json (g_reports g))),
     (''user_provided'', strs_json (g_user_provided g)), (''discovered'', strs_json (g_discovered g))]"

fun print_tickets :: "ticket_report list \<Rightarrow> unit prog" where
  "print_tickets [] = ret ()"
| "print_tickets [r] = print_ticket r"
| "print_tickets (r # rs) = seq (print_ticket r) (seq (say_line []) (print_tickets rs))"

definition cmd_show :: "(string list \<Rightarrow> string list) \<Rightarrow> host \<Rightarrow> show_args \<Rightarrow> int prog" where
  "cmd_show set_order h a = (if sh_max_linked a < 0 then ret 2 else (bind (from_sum (strip_only_keyword (sh_tickets a))) (\<lambda>(tickets, only).
    bind (gather_ticket_reports set_order h tickets (sh_find_related a \<and> \<not> only) (nat (sh_max_linked a))) (\<lambda>g.
    let title = apply_title_prefix (build_suggested_chat_title (g_reports g)) (sh_title_prefix a) in
    seq (write_payload (sh_json_out a) (show_payload title g)) (
    seq (if sh_title_only a then say_line title
     else if sh_json a then print_json (show_payload title g)
     else (seq (print_tickets (g_reports g)) (
       say_lines [[], ''Suggested chat title: '' @ title]))) (
    ret 0))))))"

definition mrs_items :: "bot_mr list \<times> bot_mr list \<Rightarrow> dict" where
  "mrs_items mrs = [(''open'', JList (map bot_mr_json (fst mrs))), (''merged'', JList (map bot_mr_json (snd mrs)))]"

definition cmd_bot_mrs :: "host \<Rightarrow> string \<Rightarrow> int \<Rightarrow> bool \<Rightarrow> int prog" where
  "cmd_bot_mrs h package per_page as_json = (bind (list_bot_mrs h package per_page) (\<lambda>mrs.
    seq (if as_json then print_json (JObj ([(''package'', JStr package), (''bot_user'', JStr BOT_USER)] @ mrs_items mrs)) else print_bot_mrs package mrs) (
    ret 0)))"

record sbom_args =
  sb_package :: string
  sb_nvr :: string
  sb_ticket :: string
  sb_search :: "string list"
  sb_out :: "path option"
  sb_json :: bool

definition cmd_sbom :: "(json \<Rightarrow> string) \<Rightarrow> host \<Rightarrow> sbom_args \<Rightarrow> int prog" where
  "cmd_sbom text_of h a = (bind (fetch_sbom text_of h (sb_package a) (sb_nvr a) (sb_ticket a) (sb_out a)) (\<lambda>m.
    bind (search_sbom_file text_of (s_path m) (sb_search a)) (\<lambda>hits.
    seq (if sb_json a then print_json (JObj (sbom_meta_items m @ [(''search'', strs_json (sb_search a)), (''hits'', JList (map sbom_hit_json hits))]))
     else say_lines (sbom_lines m hits (sb_search a))) (
    ret 0))))"

definition cmd_spec_deps :: "string \<Rightarrow> string \<Rightarrow> bool \<Rightarrow> int prog" where
  "cmd_spec_deps package part as_json = (bind (probe_spec_deps package part) (\<lambda>hits.
    seq (if as_json then print_json (JObj [(''package'', JStr package), (''component'', JStr part), (''spec'', JStr (path_str (spec_of package))),
       (''hits'', JList (map dep_hit_json hits))]) else print_spec_deps package part hits) (
    ret 0)))"

definition worktree_lines :: "path \<Rightarrow> string list" where
  "worktree_lines dest = [''WORKTREE='' @ path_str dest]"

definition MOVE_LINE :: string where "MOVE_LINE = ''Move the agent workspace into this worktree before editing files.''"

definition cmd_worktree :: "host \<Rightarrow> string \<Rightarrow> string \<Rightarrow> bool \<Rightarrow> int prog" where
  "cmd_worktree h key base as_json = (bind (create_task_worktree h key base) (\<lambda>dest.
    bind (from_sum (normalize_hum_key key)) (\<lambda>k.
    seq (if as_json then print_json (JObj [(''ticket'', JStr k), (''path'', JStr (path_str dest)), (''branch'', JStr k)])
     else say_lines (worktree_lines dest @ [''BRANCH='' @ k, MOVE_LINE])) (
    ret 0))))"

definition or_error :: "'a prog \<Rightarrow> (string + 'a) prog" where
  \<comment> \<open>\<open>except RuntimeError as err: \<dots> str(err)\<close>\<close>
  "or_error m = catch ((bind m (\<lambda>x.
    ret (Inr x)))) is_RuntimeError (\<lambda>e. ret (Inl (exn_str e)))"

definition error_or_empty :: "string + 'a \<Rightarrow> string" where
  "error_or_empty r = (case r of Inl e \<Rightarrow> e | Inr _ \<Rightarrow> [])"

definition deps_json :: "string + jira_auth \<Rightarrow> string + unit \<Rightarrow> json" where
  "deps_json auth lib = JObj [(''jira_auth_ok'', JBool (\<not> isl auth)),
     (''jira_auth_source'', JStr (case auth of Inr a \<Rightarrow> auth_source a | Inl _ \<Rightarrow> [])),
     (''jira_url'', JStr (case auth of Inr a \<Rightarrow> base_url a | Inl _ \<Rightarrow> [])), (''jira_user'', JStr (case auth of Inr a \<Rightarrow> basic_auth_user a | Inl _ \<Rightarrow> [])),
     (''jira_auth_error'', JStr (error_or_empty auth)), (''hummingbird_cve_analysis_ok'', JBool (\<not> isl lib)),
     (''hummingbird_cve_analysis_error'', JStr (error_or_empty lib))]"

definition deps_lines :: "string + jira_auth \<Rightarrow> string + unit \<Rightarrow> string list" where
  "deps_lines auth lib = [''jira_auth: '' @ (case auth of Inl e \<Rightarrow> ''missing ('' @ e @ '')''
       | Inr a \<Rightarrow> ''ok url='' @ base_url a @ (if basic_auth_user a \<noteq> [] then '' user='' @ basic_auth_user a else []) @ '' source='' @ auth_source a),
     ''hummingbird_cve_analysis: '' @ (case lib of Inr _ \<Rightarrow> ''ok'' | Inl e \<Rightarrow> ''missing ('' @ e @ '')'')]"

definition cmd_deps :: "host \<Rightarrow> bool \<Rightarrow> int prog" where
  "cmd_deps h as_json = (bind (or_error load_jira_auth) (\<lambda>auth.
    bind (or_error (import_analysis_lib h ''jira_client'')) (\<lambda>lib.
    seq (if as_json then print_json (deps_json auth lib) else say_lines (deps_lines auth lib)) (
    ret (if isl auth \<or> isl lib then 1 else 0)))))"

subsection \<open>Writing commands\<close>

definition no_tickets :: exn where
  "no_tickets = RuntimeError ''Pass HUM ticket key(s), or --print-only / --json''"

definition write_each :: "(jira_auth option \<Rightarrow> string \<Rightarrow> jira_auth prog) \<Rightarrow> string list \<Rightarrow> jira_auth option prog" where
  \<comment> \<open>the loop over the named tickets, with the cached credentials\<close>
  "write_each act keys = foldM (\<lambda>auth raw. (bind (from_sum (normalize_hum_key raw)) (\<lambda>k.
    bind (act auth k) (\<lambda>a.
    ret (Some a))))) None keys"

definition cmd_comment :: "host \<Rightarrow> wiki_args \<Rightarrow> int prog" where
  "cmd_comment h a = (bind (resolve_comment_body a []) (\<lambda>body.
    if skip_jira_write a then ((seq (emit_comment_body a body (a_kind a)) (
      ret 0))) else
    if a_tickets a = [] then (raise no_tickets) else
    seq (write_each (\<lambda>auth k. (bind (post_comment h auth k body) (\<lambda>(posted, au).
      seq (say_line (k @ '': '' @ (if posted then ''comment posted'' else ''duplicate comment skipped''))) (
      ret au)))) (a_tickets a)) (
    ret 0)))"

definition cmd_next_release :: "host \<Rightarrow> wiki_args \<Rightarrow> int prog" where
  "cmd_next_release h a = (bind (resolve_comment_body a ''next-release'') (\<lambda>body.
    if skip_jira_write a then ((seq (emit_comment_body a body (or_text (a_kind a) ''next-release'')) (
      ret 0))) else
    if a_tickets a = [] then (raise no_tickets) else
    seq (write_each (\<lambda>auth k. (bind (apply_next_release h auth k body) (\<lambda>au.
      seq (say_line (k @ '': cve-next-release; left In Progress'')) (
      ret au)))) (a_tickets a)) (
    ret 0)))"

definition cmd_set_fib :: "host \<Rightarrow> string \<Rightarrow> string \<Rightarrow> string \<Rightarrow> bool \<Rightarrow> int prog" where
  "cmd_set_fib h key nvr package force = (bind (from_sum (normalize_hum_key key)) (\<lambda>k.
    bind (set_fixed_in_build h None k nvr package force) (\<lambda>detail.
    seq (say_line (k @ '': Fixed in Build set ('' @ detail @ '')'')) (
    ret 0))))"

definition has_nab_evidence :: "wiki_args \<Rightarrow> bool" where
  "has_nab_evidence a = (let sbom = lower (strip (get_text (a_fields a) ''sbom_match'')); spec = lower (strip (get_text (a_fields a) ''spec_deps'')) in
     sbom \<noteq> [] \<and> sbom \<noteq> ''no hits'' \<or> spec \<noteq> [] \<and> spec \<noteq> ''no spec-deps hits'')"

definition no_evidence :: exn where
  "no_evidence = RuntimeError ''Refusing close-nab: no SBOM or spec-deps evidence. Search the SBOM for the ticket's Upstream Affected Component (customfield_10632) and pass --sbom-match / --spec-deps.''"

definition cmd_close_nab :: "host \<Rightarrow> wiki_args \<Rightarrow> int prog" where
  "cmd_close_nab h a = (bind (resolve_comment_body a ''nab'') (\<lambda>body.
    if skip_jira_write a then ((seq (emit_comment_body a body (or_text (a_kind a) ''nab'')) (
      ret 0))) else
    if a_tickets a = [] then (raise no_tickets) else
    if \<not> has_nab_evidence a then (raise no_evidence) else
    let vex = get_text (a_fields a) ''vex'' in
    seq (write_each (\<lambda>auth k. (bind (close_not_a_bug h auth k body vex) (\<lambda>au.
      seq (say_line (k @ '': closed Not a Bug ('' @ vex @ '')'')) (
      ret au)))) (a_tickets a)) (
    ret 0)))"

record task_args =
  ta_summary :: string
  ta_blocks :: "string list"
  ta_assignee :: string
  ta_components :: string
  ta_worktree :: bool
  ta_base :: string

definition cmd_create_task :: "host \<Rightarrow> task_args \<Rightarrow> int prog" where
  "cmd_create_task h a = (if ta_blocks a = [] then (raise (ValueError ''Pass at least one --blocks HUM-XXXX CVE tracker'')) else
    bind (create_hum_task h (ta_summary a) (ta_blocks a) (ta_assignee a) (ta_components a)) (\<lambda>key.
    seq (say_line (''TASK='' @ key)) (
    seq (whenM (ta_worktree a) ((bind (create_task_worktree h key (ta_base a)) (\<lambda>dest.
      say_lines (worktree_lines dest @ [MOVE_LINE]))))) (
    ret 0))))"

record open_mr_args =
  om_task :: string
  om_trackers :: "string list"
  om_cves :: "string list"
  om_title :: string
  om_message :: string
  om_file :: "path option"
  om_branch :: string
  om_no_push :: bool
  om_no_review :: bool

definition mr_summary :: "open_mr_args \<Rightarrow> string prog" where
  "mr_summary a = (case om_file a of Some p \<Rightarrow> read_text p | None \<Rightarrow> ret (om_message a))"

definition cmd_open_mr :: "host \<Rightarrow> open_mr_args \<Rightarrow> int prog" where
  "cmd_open_mr h a = (if om_trackers a = [] then (raise (ValueError ''Pass at least one --tracker HUM-XXXX'')) else
    if om_cves a = [] then (raise (ValueError ''Pass at least one --cve CVE-YYYY-NNNNN'')) else
    bind (mr_summary a) (\<lambda>sm.
    if strip sm = [] then (raise (ValueError ''Provide --message or --file with the MR summary'')) else
    bind (from_sum (normalize_hum_key (om_task a))) (\<lambda>task.
    bind (from_sum (build_mr_description sm task (om_trackers a) (om_cves a))) (\<lambda>descr.
    bind (open_package_mr h \<lparr>rq_title = om_title a, rq_description = descr, rq_task = task, rq_branch = or_text (om_branch a) task,
        rq_push = \<not> om_no_push a, rq_review = \<not> om_no_review a\<rparr>
      (\<lambda>k body. (seq (post_comment h None k body) (
        ret ())))) (\<lambda>url.
    seq (say_line (''MR='' @ url)) (
    ret 0))))))"

definition cmd_lookaside :: "path list \<Rightarrow> string \<Rightarrow> int prog" where
  "cmd_lookaside ps package = (bind (mapM is_file ps) (\<lambda>present.
    let missing = map fst (filter (\<lambda>(p, b). \<not> b) (zip ps present)) in
    if missing \<noteq> [] then (raise (RuntimeError (''File not found: '' @ join '', '' (map path_str missing)))) else
    seq (say_lines (''Do not upload unless the user asks. Copy to /tmp then run:'' # lookaside_upload_commands ps package)) (
    ret 0)))"

subsection \<open>Investigating\<close>

record package_probe =
  pp_bot :: "string + bot_mr list \<times> bot_mr list"
  pp_spec :: "dep_hit list"
  pp_sbom :: "(string + sbom_meta \<times> sbom_hit list) option"

definition component_of :: "ticket_report list \<Rightarrow> string \<Rightarrow> json" where
  \<comment> \<open>the component of the first report about the package that names one\<close>
  "component_of reports package = (case find (\<lambda>r. package_guess r = package \<and> truthy (upstream_component r)) reports of
     Some r \<Rightarrow> upstream_component r | None \<Rightarrow> JStr [])"

definition build_and_ticket :: "ticket_report list \<Rightarrow> string \<Rightarrow> string \<times> string" where
  "build_and_ticket reports package = (case find (\<lambda>r. package_guess r = package) reports of
     Some r \<Rightarrow> (fixed_in_build r, ticket r) | None \<Rightarrow> ([], []))"

definition sbom_caught :: "exn \<Rightarrow> bool" where
  "sbom_caught e = (is_OSError e \<or> is_RuntimeError e)"

definition probe_sbom :: "(json \<Rightarrow> string) \<Rightarrow> host \<Rightarrow> ticket_report list \<Rightarrow> string \<Rightarrow> string \<Rightarrow> (string + sbom_meta \<times> sbom_hit list) prog" where
  "probe_sbom text_of h reports package part = (let (nvr, key) = build_and_ticket reports package in
     catch ((bind (fetch_sbom text_of h package nvr key None) (\<lambda>m.
       bind (if part \<noteq> [] then search_sbom_file text_of (s_path m) [part] else ret []) (\<lambda>hits.
       ret (Inr (m, hits)))))) sbom_caught (\<lambda>e. ret (Inl (exn_str e))))"

definition probe_package :: "(json \<Rightarrow> string) \<Rightarrow> host \<Rightarrow> bool \<Rightarrow> ticket_report list \<Rightarrow> string \<Rightarrow> (string \<times> package_probe) prog" where
  "probe_package text_of h with_sbom reports package = (bind (or_error (list_bot_mrs h package 5)) (\<lambda>bot.
    bind (from_sum (as_str (component_of reports package))) (\<lambda>part.
    bind (probe_spec_deps package part) (\<lambda>spec.
    bind (if with_sbom then (bind (probe_sbom text_of h reports package part) (\<lambda>s.
      ret (Some s))) else ret None) (\<lambda>sbom.
    ret (package, \<lparr>pp_bot = bot, pp_spec = spec, pp_sbom = sbom\<rparr>))))))"

definition gathered_cves :: "gathered_tickets \<Rightarrow> string list" where
  "gathered_cves g = dedup (concat (map cve_ids (g_reports g)))"

definition probed_packages :: "gathered_tickets \<Rightarrow> string list" where
  "probed_packages g = dedup (map package_guess (filter (\<lambda>r. ticket r \<in> set (g_user_provided g) \<and> package_guess r \<noteq> []) (g_reports g)))"

definition error_json :: "string \<Rightarrow> json" where "error_json e = JObj [(''error'', JStr e)]"

definition bot_json :: "string + bot_mr list \<times> bot_mr list \<Rightarrow> json" where
  "bot_json r = (case r of Inl e \<Rightarrow> error_json e | Inr mrs \<Rightarrow> JObj (mrs_items mrs))"

definition sbom_probe_json :: "string + sbom_meta \<times> sbom_hit list \<Rightarrow> json" where
  "sbom_probe_json r = (case r of Inl e \<Rightarrow> error_json e | Inr (m, hits) \<Rightarrow> JObj (sbom_meta_items m @ [(''hits'', JList (map sbom_hit_json hits))]))"

definition probes_json :: "(string \<times> package_probe) list \<Rightarrow> dict list \<Rightarrow> json" where
  "probes_json ps mrs = JObj [(''bot_mrs'', JObj (map (\<lambda>(p, x). (p, bot_json (pp_bot x))) ps)),
     (''spec_deps'', JObj (map (\<lambda>(p, x). (p, JList (map dep_hit_json (pp_spec x)))) ps)),
     (''sbom'', JObj (concat (map (\<lambda>(p, x). case pp_sbom x of Some r \<Rightarrow> [(p, sbom_probe_json r)] | None \<Rightarrow> []) ps))),
     (''gitlab_mrs'', JList (map JObj mrs))]"

definition recommendation_json :: "ticket_report \<Rightarrow> json" where
  "recommendation_json r = (let (hint, recommended_next) = resolution_hint_for_report r (ticket_has_task_or_mr r) in
     JObj [(''ticket'', JStr (ticket r)), (''resolution_hint'', JStr (hint_name hint)), (''recommended_next'', JStr recommended_next)])"

definition investigate_payload :: "gathered_tickets \<Rightarrow> (string \<times> package_probe) list \<Rightarrow> dict list \<Rightarrow> json" where
  "investigate_payload g ps mrs = JObj [(''user_provided'', strs_json (g_user_provided g)), (''discovered'', strs_json (g_discovered g)),
     (''tickets'', JList (map report_json (g_reports g))), (''probes'', probes_json ps mrs), (''recap'', strs_json (recap_lines g)),
     (''recommendations'', JList (map recommendation_json (g_reports g))),
     (''suggested_chat_title'', JStr (build_suggested_chat_title (g_reports g)))]"

definition print_gathered :: "gathered_tickets \<Rightarrow> ticket_report \<Rightarrow> unit prog" where
  "print_gathered g r = (seq (say_line (''### '' @ ticket r @ '' ['' @ origin_of g r @ '']'')) (
    seq (print_ticket r) (
    say_line [])))"

definition probe_lines :: "string \<times> package_probe \<Rightarrow> string list" where
  "probe_lines px = [''bot-mrs '' @ fst px @ '':'',
     (case pp_bot (snd px) of Inl e \<Rightarrow> ''  bot-mrs error: '' @ e
      | Inr (o', m) \<Rightarrow> ''  bot-mrs open='' @ show_nat (length o') @ '' merged='' @ show_nat (length m)),
     ''  spec-deps hits='' @ show_nat (length (pp_spec (snd px)))] @
     (case pp_sbom (snd px) of None \<Rightarrow> [] | Some (Inl e) \<Rightarrow> [''  sbom error: '' @ e]
      | Some (Inr (m, hits)) \<Rightarrow> [''  sbom hits='' @ show_nat (length hits)])"

definition get_text_of :: "dict \<Rightarrow> string \<Rightarrow> string" where
  \<comment> \<open>\<open>d.get(k)\<close> as it is printed\<close>
  "get_text_of d k = py_text (case dget d k of Some v \<Rightarrow> v | None \<Rightarrow> JNull)"

definition probes_lines :: "(string \<times> package_probe) list \<Rightarrow> dict list \<Rightarrow> string list" where
  "probes_lines ps mrs = (if ps = [] then [] else [''### Probes''] @ concat (map probe_lines ps) @
     [''  gitlab fix MRs: '' @ show_nat (length mrs)] @ map (\<lambda>d. ''    '' @ get_text_of d ''state'' @ '': '' @ get_text_of d ''html_url'') mrs @ [[]])"

definition print_investigation :: "gathered_tickets \<Rightarrow> (string \<times> package_probe) list \<Rightarrow> dict list \<Rightarrow> unit prog" where
  "print_investigation g ps mrs = (seq (forM (print_gathered g) (g_reports g)) (
    seq (say_lines (probes_lines ps mrs)) (
    say_lines (recap_lines g @ [[], ''Suggested chat title: '' @ build_suggested_chat_title (g_reports g),
      ''Wait for the user after this recap before Step 3 writes.'']))))"

record investigate_args =
  in_show :: show_args
  in_only :: bool
  in_sbom :: bool

definition cmd_investigate :: "(string list \<Rightarrow> string list) \<Rightarrow> (json \<Rightarrow> string) \<Rightarrow> host \<Rightarrow> investigate_args \<Rightarrow> int prog" where
  "cmd_investigate set_order text_of h a = (let sh = in_show a in if sh_max_linked sh < 0 then ret 2 else (bind (from_sum (strip_only_keyword (sh_tickets sh))) (\<lambda>(tickets, only_token).
    bind (gather_ticket_reports set_order h tickets (sh_find_related sh \<and> \<not> only_token \<and> \<not> in_only a) (nat (sh_max_linked sh))) (\<lambda>g.
    bind (mapM (probe_package text_of h (in_sbom a) (g_reports g)) (probed_packages g)) (\<lambda>ps.
    bind (if gathered_cves g \<noteq> [] then search_repo_fix_mrs h (gathered_cves g) else ret []) (\<lambda>mrs.
    seq (write_payload (sh_json_out sh) (investigate_payload g ps mrs)) (
    seq (if sh_json sh then print_json (investigate_payload g ps mrs) else print_investigation g ps mrs) (
    ret 0))))))))"

subsection \<open>Version checks and release bumps\<close>

record vcheck_args =
  c_package :: string
  c_ticket :: string
  c_nvr :: string
  c_fib :: string
  c_affected :: string
  c_fixed :: string
  c_analysis_nvr :: string
  c_component :: string
  c_json :: bool

definition check_query :: "vcheck_args \<Rightarrow> ticket_report option \<Rightarrow> exn + version_query" where
  "check_query a r = (case r of
     None \<Rightarrow> Inr \<lparr>q_package = c_package a, q_local_nvr = c_nvr a, q_fib = c_fib a, q_affected = c_affected a, q_fixed = c_fixed a,
       q_analysis_nvr = c_analysis_nvr a, q_component = c_component a, q_block = []\<rparr>
   | Some r \<Rightarrow> map_sum id (\<lambda>part. \<lparr>q_package = c_package a, q_local_nvr = c_nvr a, q_fib = or_text (c_fib a) (fixed_in_build r),
       q_affected = or_text (c_affected a) (affected_range r), q_fixed = or_text (c_fixed a) (fixed_version r),
       q_analysis_nvr = or_text (c_analysis_nvr a) (extract_analysis_nvr (analysis_block r)), q_component = part, q_block = analysis_block r\<rparr>)
       (if c_component a \<noteq> [] then Inr (c_component a) else as_str (upstream_component r)))"

definition ticket_of_check :: "(string list \<Rightarrow> string list) \<Rightarrow> host \<Rightarrow> string \<Rightarrow> ticket_report option prog" where
  "ticket_of_check set_order h key = (if key = [] then ret None else (bind (gather_ticket_reports set_order h [key] False 0) (\<lambda>g.
    (case g_reports g of [] \<Rightarrow> raise (RuntimeError (''Could not load '' @ key)) | r # _ \<Rightarrow> ret (Some r)))))"

definition version_check_json :: "vcheck_args \<Rightarrow> version_query \<Rightarrow> version_check \<Rightarrow> json" where
  "version_check_json a q v = JObj [(''package'', JStr (c_package a)), (''local_nvr'', JStr (p_local_nvr v)), (''local_version'', JStr (p_local_version v)),
     (''component'', JStr (p_component v)), (''compare_version'', JStr (p_compare v)), (''version_source'', JStr (p_source v)),
     (''comparable'', JBool (p_comparable v)), (''fib'', JStr (p_fib v)), (''fib_version'', JStr (p_fib_version v)),
     (''analysis_nvr'', JStr (p_analysis_nvr v)), (''affected'', JStr (q_affected q)), (''fixed'', JStr (q_fixed q)),
     (''selected_fixed'', JStr (p_selected v)), (''vs_fixed'', JStr (vs_fixed v)), (''vs_affected'', JStr (vs_affected v)),
     (''hint'', JStr (p_hint v)), (''note'', JStr (p_note v))]"

definition check_lines :: "vcheck_args \<Rightarrow> version_query \<Rightarrow> version_check \<Rightarrow> string list" where
  "check_lines a q v = [''package: '' @ c_package a, ''local_nvr: '' @ or_text (p_local_nvr v) ''(none)'',
     ''local_version: '' @ or_text (p_local_version v) ''(none)'', ''component: '' @ or_text (p_component v) ''(none)'',
     ''compare_version: '' @ or_text (p_compare v) ''(none)'', ''version_source: '' @ or_text (p_source v) ''(none)'',
     ''comparable: '' @ (if p_comparable v then ''yes'' else ''no''), ''fib: '' @ or_text (p_fib v) ''(unset)'',
     ''analysis_nvr: '' @ or_text (p_analysis_nvr v) ''(none)'', ''affected: '' @ or_text (q_affected q) ''(none)'',
     ''fixed: '' @ or_text (q_fixed q) ''(none)'', ''selected_fixed: '' @ or_text (p_selected v) ''(n/a)'',
     ''vs_fixed: '' @ or_text (vs_fixed v) ''(n/a)'', ''vs_affected: '' @ or_text (vs_affected v) ''(n/a)'', ''hint: '' @ p_hint v, p_note v]"

definition cmd_version_check :: "(string list \<Rightarrow> string list) \<Rightarrow> host \<Rightarrow> vcheck_args \<Rightarrow> int prog" where
  "cmd_version_check set_order h a = (bind (ticket_of_check set_order h (c_ticket a)) (\<lambda>r.
    bind (from_sum (check_query a r)) (\<lambda>q.
    bind (version_check_payload q) (\<lambda>v.
    seq (if c_json a then print_json (version_check_json a q v) else say_lines (check_lines a q v)) (
    ret 0)))))"

definition BUMP_NOTE :: string where
  "BUMP_NOTE = ''Do not change metadata release for backports or rebuilds; only the spec Release: line gets the .N suffix.''"

definition bump_json :: "release_bump \<Rightarrow> json" where
  "bump_json b = JObj [(''package'', JStr (rb_package b)), (''modification_status'', rb_status b), (''metadata_release'', JStr (rb_metadata_release b)),
     (''spec_release'', JStr (rb_spec_release b)), (''uses_autorelease'', JBool (rb_autorelease b)),
     (''proposed_spec_release'', JStr (rb_proposed b)), (''writes'', JBool (rb_writes b)), (''hint'', JStr (rb_hint b)), (''note'', JStr BUMP_NOTE)]"

definition bump_lines :: "release_bump \<Rightarrow> string list" where
  "bump_lines b = [''package: '' @ rb_package b, ''modification_status: '' @ (if truthy (rb_status b) then py_text (rb_status b) else ''(unset)''),
     ''metadata_release: '' @ or_text (rb_metadata_release b) ''(unset)'', ''spec_release: '' @ or_text (rb_spec_release b) ''(none)'',
     ''proposed_spec_release: '' @ or_text (rb_proposed b) ''(n/a)'', ''writes: '' @ (if rb_writes b then ''yes'' else ''no''),
     ''hint: '' @ rb_hint b, BUMP_NOTE]"

definition cmd_release_bump :: "string \<Rightarrow> bool \<Rightarrow> bool \<Rightarrow> int prog" where
  "cmd_release_bump package apply_it as_json = (bind (if apply_it then apply_release_bump package else release_bump_payload package) (\<lambda>b.
    seq (if as_json then print_json (bump_json b) else say_lines (bump_lines b)) (
    ret 0)))"

subsection \<open>The command line\<close>

record log_args =
  lg_ticket :: string
  lg_file :: "path option"
  lg_agent :: "(string \<times> string) option" \<comment> \<open>the agent whose session is exported, with its session id\<close>
  lg_print_only :: bool

definition cmd_log_message :: "host \<Rightarrow> log_env \<Rightarrow> log_args \<Rightarrow> int prog" where
  "cmd_log_message h le a = (if lg_agent a \<noteq> None \<and> lg_file a \<noteq> None \<or> lg_agent a = None \<and> lg_file a = None then ret 2 else (bind (case (lg_agent a, lg_file a) of
        (Some (agent, session), _) \<Rightarrow> (bind (export_agent_log h le agent (if session \<noteq> [] then Some session else None)) (\<lambda>p.
          seq (say_line (''Exported '' @ agent @ '' session -> '' @ path_str p)) (
          ret p)))
      | (None, Some p) \<Rightarrow> ret p
      | (None, None) \<Rightarrow> raise (AssertionError ''no file'')) (\<lambda>p.
    bind (log_message h (lg_ticket a) p (lg_print_only a)) (\<lambda>msg.
    seq (say_line (''Log: '' @ path_str p)) (
    seq (whenM (\<not> lg_print_only a) (say_line msg)) (
    ret 0))))))"

datatype cve_command =
    Show show_args
  | Bot_mrs string int bool
  | Sbom sbom_args
  | Spec_deps string string bool
  | Worktree string string bool
  | Deps bool
  | Comment wiki_args
  | Next_release wiki_args
  | Set_fib string string string bool
  | Close_nab wiki_args
  | Create_task task_args
  | Open_mr open_mr_args
  | Lookaside "path list" string
  | Investigate investigate_args
  | Version_check vcheck_args
  | Upstream_fix_age age_args
  | Release_bump string bool bool
  | Log_message log_args

record cve_env =
  set_order :: "string list \<Rightarrow> string list"
  text_of :: "json \<Rightarrow> string"
  iso_other :: iso_reader
  log_of :: log_env

definition cve_handler :: "cve_env \<Rightarrow> host \<Rightarrow> cve_command \<Rightarrow> int prog" where
  "cve_handler env h c = (case c of
     Show a \<Rightarrow> cmd_show (set_order env) h a
   | Bot_mrs p n j \<Rightarrow> cmd_bot_mrs h p n j
   | Sbom a \<Rightarrow> cmd_sbom (text_of env) h a
   | Spec_deps p d j \<Rightarrow> cmd_spec_deps p d j
   | Worktree t b j \<Rightarrow> cmd_worktree h t b j
   | Deps j \<Rightarrow> cmd_deps h j
   | Comment a \<Rightarrow> cmd_comment h a
   | Next_release a \<Rightarrow> cmd_next_release h a
   | Set_fib t n p f \<Rightarrow> cmd_set_fib h t n p f
   | Close_nab a \<Rightarrow> cmd_close_nab h a
   | Create_task a \<Rightarrow> cmd_create_task h a
   | Open_mr a \<Rightarrow> cmd_open_mr h a
   | Lookaside ps p \<Rightarrow> cmd_lookaside ps p
   | Investigate a \<Rightarrow> cmd_investigate (set_order env) (text_of env) h a
   | Version_check a \<Rightarrow> cmd_version_check (set_order env) h a
   | Upstream_fix_age a \<Rightarrow> cmd_upstream_fix_age h (iso_other env) a
   | Release_bump p ap j \<Rightarrow> cmd_release_bump p ap j
   | Log_message a \<Rightarrow> cmd_log_message h (log_of env) a)"

definition cve_main :: "cve_env \<Rightarrow> host \<Rightarrow> cve_command \<Rightarrow> unit prog" where
  \<comment> \<open>the exit status of the script\<close>
  "cve_main env h c = (bind (catch (catch (cve_handler env h c) is_ValueError (\<lambda>_. ret 2)) is_RuntimeError (\<lambda>_. ret 1)) (\<lambda>code.
    raise (SysExit code [])))"

definition COMMANDS :: "string list" where
  "COMMANDS = [''show'', ''bot-mrs'', ''sbom'', ''spec-deps'', ''worktree'', ''deps'', ''comment'', ''next-release'', ''set-fib'', ''close-nab'',
     ''create-task'', ''open-mr'', ''lookaside-cmd'', ''investigate'', ''version-check'', ''upstream-fix-age'', ''release-bump'', ''log-message'']"

definition normalize_argv :: "string list \<Rightarrow> string list" where
  "normalize_argv argv = (case argv of
     [] \<Rightarrow> [''show'', ''--help'']
   | a # _ \<Rightarrow> (if a \<in> {''-h'', ''--help''} \<or> a \<in> set COMMANDS then argv else ''show'' # argv))"

end
