(* ===== verification/Cve_Safety.thy ===== *)
theory Cve_Safety
  imports Cve_Helper
begin

section \<open>CVE triage: what the commands may do\<close>

text \<open>
  The rules of \<open>.cursor/skills/cve/SKILL.md\<close> as properties of traces. \<open>trace_discipline\<close> is the contract of a
  rule on lists of events that two runs in a row keep when each keeps it; \<open>commented_before\<close> (comment first, then
  change state) is one. Reading commands are shown to write nothing with the rules of \<open>Run_Rules\<close>.
\<close>

subsection \<open>Rules on traces\<close>

definition obeys :: "(event list \<Rightarrow> bool) \<Rightarrow> 'a prog \<Rightarrow> bool" where
  "obeys ok m \<longleftrightarrow> (\<forall>w. \<exists>es. trace (snd (m w)) = trace w @ es \<and> ok es)"

lemma obeysE:
  assumes "obeys ok m" "m w = (r, w')"
  obtains es where "trace w' = trace w @ es" "ok es"
  using assms by (auto simp: obeys_def dest: spec[of _ w])

lemma obeysI: "(\<And>w r w'. m w = (r, w') \<Longrightarrow> \<exists>es. trace w' = trace w @ es \<and> ok es) \<Longrightarrow> obeys ok m"
  unfolding obeys_def by (metis prod.collapse)

locale trace_discipline =
  fixes ok :: "event list \<Rightarrow> bool"
  assumes ok_Nil: "ok []"
    and ok_append: "ok xs \<Longrightarrow> ok ys \<Longrightarrow> ok (xs @ ys)"
begin

lemma obeys_runs_in: "runs_in S X m \<Longrightarrow> (\<And>es. \<forall>e \<in> set es. S e \<Longrightarrow> ok es) \<Longrightarrow> obeys ok m"
  by (rule obeysI) (blast dest: runs_inD)

lemma obeys_ret: "obeys ok (ret x)" and obeys_raise: "obeys ok (raise e)"
  using ok_Nil by (auto simp: obeys_def ret_def raise_def)

lemma obeys_bind:
  assumes "obeys ok m" "\<And>x. obeys ok (k x)"
  shows "obeys ok (bind m k)"
proof (rule obeysI)
  fix w r w' assume run: "bind m k w = (r, w')"
  obtain r1 w1 where m: "m w = (r1, w1)" by fastforce
  from assms(1) m obtain es where es: "trace w1 = trace w @ es" "ok es" by (rule obeysE)
  show "\<exists>es. trace w' = trace w @ es \<and> ok es"
  proof (cases r1)
    case (Inl e)
    with run m es show ?thesis by (auto simp: bind_run)
  next
    case (Inr x)
    with run m have "k x w1 = (r, w')" by (simp add: bind_run)
    with assms(2) obtain fs where "trace w' = trace w1 @ fs" "ok fs" by (rule obeysE)
    with es show ?thesis by (intro exI[of _ "es @ fs"]) (simp add: ok_append)
  qed
qed

lemma obeys_seq: "obeys ok m \<Longrightarrow> obeys ok k \<Longrightarrow> obeys ok (seq m k)"
  by (simp add: seq_def obeys_bind)

lemma obeys_if: "(b \<Longrightarrow> obeys ok m) \<Longrightarrow> (\<not> b \<Longrightarrow> obeys ok k) \<Longrightarrow> obeys ok (if b then m else k)"
  by simp

lemma obeys_prod: "(\<And>a b. obeys ok (k a b)) \<Longrightarrow> obeys ok (case x of (a, b) \<Rightarrow> k a b)"
  by (cases x) simp

lemma obeys_foldM: "(\<And>s x. obeys ok (f s x)) \<Longrightarrow> obeys ok (foldM f s xs)"
  by (induction xs arbitrary: s) (simp_all add: obeys_ret obeys_bind)

end

interpretation every: trace_discipline "list_all S" for S
  by unfold_locales simp_all

subsection \<open>Writes to Jira\<close>

definition STATE_CHANGES :: "string list" where
  "STATE_CHANGES = [''add_jira_label'', ''remove_jira_label'', ''set_vex_justification'', ''jira_resolve_issue'', ''set_fixed_in_build'']"

fun call_on :: "event \<Rightarrow> (string \<times> string) option" where
  \<comment> \<open>function and ticket of a call of the Jira client\<close>
  "call_on (Lib f (b # t # key # args)) = Some (f, key)"
| "call_on ev = None"

definition change_of :: "event \<Rightarrow> string option" where
  "change_of ev = (case call_on ev of Some (f, key) \<Rightarrow> if f \<in> set STATE_CHANGES then Some key else None | None \<Rightarrow> None)"

definition comment_of :: "event \<Rightarrow> string option" where
  "comment_of ev = (case call_on ev of Some (f, key) \<Rightarrow> if f = ''jira_add_comment'' then Some key else None | None \<Rightarrow> None)"

fun commented :: "event list \<Rightarrow> string list" where
  \<comment> \<open>the tickets a comment was sent to\<close>
  "commented [] = []"
| "commented (e # es) = (case comment_of e of Some k \<Rightarrow> k # commented es | None \<Rightarrow> commented es)"

fun commented_before :: "string list \<Rightarrow> event list \<Rightarrow> bool" where
  \<comment> \<open>a ticket whose state is changed was commented on before; the first argument were already\<close>
  "commented_before seen [] = True"
| "commented_before seen (e # es) = ((case change_of e of Some k \<Rightarrow> k \<in> set seen | None \<Rightarrow> True) \<and>
     commented_before ((case comment_of e of Some k \<Rightarrow> [k] | None \<Rightarrow> []) @ seen) es)"

lemma commented_before_mono: "commented_before seen es \<Longrightarrow> set seen \<subseteq> set seen' \<Longrightarrow> commented_before seen' es"
proof (induction es arbitrary: seen seen')
  case (Cons e es)
  let ?new = "case comment_of e of Some k \<Rightarrow> [k] | None \<Rightarrow> []"
  from Cons.prems have "commented_before (?new @ seen) es" "set (?new @ seen) \<subseteq> set (?new @ seen')" by auto
  then have "commented_before (?new @ seen') es" by (rule Cons.IH)
  with Cons.prems show ?case by (auto split: option.splits)
qed simp

lemma commented_before_append:
  "commented_before seen (xs @ ys) \<longleftrightarrow> commented_before seen xs \<and> commented_before (rev (commented xs) @ seen) ys"
proof (induction xs arbitrary: seen)
  case (Cons x xs)
  show ?case by (cases "comment_of x") (simp_all add: Cons.IH)
qed simp

interpretation comments: trace_discipline "commented_before seen" for seen
proof unfold_locales
  fix xs ys assume "commented_before seen xs" "commented_before seen ys"
  then show "commented_before seen (xs @ ys)"
    unfolding commented_before_append by (auto elim: commented_before_mono)
qed simp

lemma unchanged_commented: "\<forall>e \<in> set es. change_of e = None \<Longrightarrow> commented_before seen es"
proof (induction es arbitrary: seen)
  case (Cons e es)
  then show ?case by (cases "comment_of e") simp_all
qed simp

definition opens_with_comment :: "string \<Rightarrow> 'a prog \<Rightarrow> bool" where
  \<comment> \<open>a run that changes nothing, and when it returns has commented on the ticket\<close>
  "opens_with_comment key m \<longleftrightarrow> (\<forall>w. \<exists>es. trace (snd (m w)) = trace w @ es \<and> (\<forall>e \<in> set es. change_of e = None) \<and>
     (\<not> isl (fst (m w)) \<longrightarrow> key \<in> set (commented es)))"

lemma after_comment:
  assumes "opens_with_comment key m" "\<And>x. obeys (commented_before [key]) (k x)"
  shows "obeys (commented_before []) (bind m k)"
proof (rule obeysI)
  fix w r w' assume run: "bind m k w = (r, w')"
  obtain r1 w1 where m: "m w = (r1, w1)" by fastforce
  obtain es where es: "trace w1 = trace w @ es" "\<forall>e \<in> set es. change_of e = None" "\<not> isl r1 \<longrightarrow> key \<in> set (commented es)"
    using assms(1) m by (auto simp: opens_with_comment_def dest: spec[of _ w])
  then have quiet: "commented_before [] es" by (intro unchanged_commented)
  show "\<exists>es. trace w' = trace w @ es \<and> commented_before [] es"
  proof (cases r1)
    case (Inl e)
    with run m es quiet show ?thesis by (auto simp: bind_run)
  next
    case (Inr x)
    with run m have "k x w1 = (r, w')" by (simp add: bind_run)
    with assms(2) obtain fs where fs: "trace w' = trace w1 @ fs" "commented_before [key] fs" by (rule obeysE)
    have "commented_before (rev (commented es) @ []) fs" using fs(2) es(3) Inr by (auto elim: commented_before_mono)
    with es fs quiet show ?thesis by (intro exI[of _ "es @ fs"]) (simp add: commented_before_append)
  qed
qed

subsection \<open>One call\<close>

definition client_import :: event where
  "client_import = Lib ''__import__'' [''hummingbird_cve_analysis.lib.jira_client'']"

lemma load_auth_quiet: "trace (snd (load_jira_auth w)) = trace w"
  by (auto simp: load_jira_auth_def read_agent_env_def read_text_def auth_of_def prog_simps from_sum_def Let_def
      split: option.splits node.splits sum.splits)

lemma import_run: "import_analysis_lib h n w = (r, w') \<Longrightarrow>
    trace w' = trace w @ [Lib ''__import__'' [''hummingbird_cve_analysis.lib.'' @ n]]"
  by (auto simp: import_analysis_lib_def prog_simps split: reply.splits)

lemma lib_call_run: "trace (snd (lib_call h f args w)) = trace w @ [Lib f args]"
  by (auto simp: lib_call_def prog_simps split: reply.splits)

lemma catch_raise_trace: "trace (snd (catch m sel (\<lambda>e. raise (g e)) w)) = trace (snd (m w))"
  by (auto simp: catch_def raise_def split: prod.splits sum.splits)

lemma catch_raise_isl: "isl (fst (catch m sel (\<lambda>e. raise (g e)) w)) = isl (fst (m w))"
  by (auto simp: catch_def raise_def split: prod.splits sum.splits)

lemma auth_call_trace:
  assumes run: "jira_auth_call h auth f key args w = (r, w')"
  shows "\<exists>es. trace w' = trace w @ es \<and> (\<forall>e \<in> set es. call_on e \<in> {None, Some (f, key)}) \<and>
    (\<not> isl r \<longrightarrow> (\<exists>e \<in> set es. call_on e = Some (f, key)))"
proof -
  obtain r1 w1 where imp: "import_analysis_lib h ''jira_client'' w = (r1, w1)" by fastforce
  have t1: "trace w1 = trace w @ [client_import]" using import_run[OF imp] by (simp add: client_import_def)
  have c: "call_on client_import = None" by (simp add: client_import_def)
  show ?thesis
  proof (cases r1)
    case (Inl e)
    with run imp t1 c show ?thesis by (auto simp: jira_auth_call_def prog_simps)
  next
    case (Inr u)
    let ?load = "case auth of Some a \<Rightarrow> ret a | None \<Rightarrow> load_jira_auth"
    obtain r2 w2 where load: "?load w1 = (r2, w2)" by fastforce
    have t2: "trace w2 = trace w1" using load load_auth_quiet[of w1] by (auto simp: ret_def split: option.splits)
    show ?thesis
    proof (cases r2)
      case (Inl e)
      with run imp Inr load t1 t2 c show ?thesis by (auto simp: jira_auth_call_def prog_simps)
    next
      case a: (Inr a)
      let ?call = "catch (lib_call h f (base_url a # auth_token a # key # args @ [basic_auth_user a])) jira_caught
        (\<lambda>e. raise (RuntimeError (''Jira '' @ f @ '' failed for '' @ key @ '': '' @ exn_str e)))"
      have "bind ?call (\<lambda>j. ret (j, a)) w2 = (r, w')"
        using run imp Inr load a by (simp add: jira_auth_call_def bind_run seq_run)
      then have "trace w' = trace (snd (?call w2))" by (auto simp: bind_run ret_def split: prod.splits sum.splits)
      then have "trace w' = trace w @ [client_import, Lib f (base_url a # auth_token a # key # args @ [basic_auth_user a])]"
        using t1 t2 by (simp add: catch_raise_trace lib_call_run)
      then show ?thesis using c by (intro exI[of _ "[client_import, Lib f (base_url a # auth_token a # key # args @ [basic_auth_user a])]"]) simp
    qed
  qed
qed

lemma auth_call_after: "obeys (commented_before [key]) (jira_auth_call h auth f key args)"
proof (rule obeysI)
  fix w r w' assume "jira_auth_call h auth f key args w = (r, w')"
  from auth_call_trace[OF this] obtain es where es: "trace w' = trace w @ es" "\<forall>e \<in> set es. call_on e \<in> {None, Some (f, key)}" by blast
  from es(2) have "key \<in> set seen \<Longrightarrow> commented_before seen es" for seen
    by (induction es arbitrary: seen) (auto simp: change_of_def split: option.splits)
  with es(1) show "\<exists>es. trace w' = trace w @ es \<and> commented_before [key] es" by auto
qed

lemma comment_opens: "opens_with_comment key (post_comment h auth key body)"
  unfolding opens_with_comment_def
proof
  fix w
  let ?c = "jira_auth_call h auth ''jira_add_comment'' key [body]"
  obtain r w' where run: "?c w = (r, w')" by fastforce
  from auth_call_trace[OF this] obtain es where es: "trace w' = trace w @ es"
    "\<forall>e \<in> set es. call_on e \<in> {None, Some (''jira_add_comment'', key)}" "\<not> isl r \<longrightarrow> (\<exists>e \<in> set es. call_on e = Some (''jira_add_comment'', key))"
    by blast
  have "\<exists>e \<in> set es. call_on e = Some (''jira_add_comment'', key) \<Longrightarrow> key \<in> set (commented es)"
    by (induction es) (auto simp: comment_of_def split: option.splits)
  with es run show "\<exists>es. trace (snd (post_comment h auth key body w)) = trace w @ es \<and> (\<forall>e \<in> set es. change_of e = None) \<and>
     (\<not> isl (fst (post_comment h auth key body w)) \<longrightarrow> key \<in> set (commented es))"
    by (intro exI[of _ es]) (auto simp: post_comment_def prog_simps change_of_def STATE_CHANGES_def split: sum.splits)
qed

lemma close_obeys: "obeys (commented_before []) (close_not_a_bug h auth key body vex)"
  unfolding close_not_a_bug_def
  by (rule after_comment[OF comment_opens])
    (intro comments.obeys_bind comments.obeys_prod comments.obeys_if comments.obeys_ret comments.obeys_raise auth_call_after)

lemma next_release_obeys: "obeys (commented_before []) (apply_next_release h auth key body)"
  unfolding apply_next_release_def
  by (rule after_comment[OF comment_opens])
    (intro comments.obeys_bind comments.obeys_prod comments.obeys_if comments.obeys_ret comments.obeys_raise auth_call_after)

subsection \<open>Reading commands\<close>

fun reads :: "bool \<Rightarrow> event \<Rightarrow> bool" where
  \<comment> \<open>what only reads: dumps of issues, downloads of attachments, lists of merge requests, web pages, and functions of the
    analysis package that do not write; searching for related tickets where the first argument allows it\<close>
  "reads related (Proc (p # q # r # args) cwd) = (p = ''rhjira'' \<and> (q = ''dump'' \<or> related \<and> q = ''list'' \<or> q = ''attach'' \<and> r = ''-d'') \<or>
     p = ''glab'' \<and> q = ''mr'' \<and> r = ''list'')"
| "reads related (Proc argv cwd) = False"
| "reads related (ProcEnv env argv cwd) = False"
| "reads related (Rpc f a) = False"
| "reads related (Http meth url headers) = (meth = ''GET'')"
| "reads related (Lib f args) = (f \<notin> set (''jira_add_comment'' # STATE_CHANGES))"
| "reads related ev = True"

abbreviation reading :: "bool \<Rightarrow> 'a prog \<Rightarrow> bool" where
  "reading related m \<equiv> runs_in (reads related) (\<lambda>_. True) m"

lemma all_exceptions [simp]: "proc_errors (\<lambda>_. True)" "file_errors (\<lambda>_. True)"
  by (simp_all add: proc_errors_def file_errors_def)

lemma reading_command [run_rules]:
  assumes "reads b (Proc argv cwd)"
  shows "reading b (run_command_json h argv cwd)" and "reading b (run_skill_command h argv cwd)"
proof -
  show c: "reading b (run_command_json h argv cwd)"
    unfolding run_command_json_def by (intro run_rules) (simp_all add: assms)
  show "reading b (run_skill_command h argv cwd)"
    unfolding run_skill_command_def by (intro run_rules c)
qed

lemma reading_attempts [run_rules]: "reads b (Proc (''rhjira'' # args) cwd) \<Longrightarrow> reading b (rhjira_attempts h args cwd n d)"
  by (induction n arbitrary: d) (auto intro!: run_rules)

lemma reading_rhjira [run_rules]:
  "reads b (Proc (''rhjira'' # args) ROOT_DIR) \<Longrightarrow> reading b (run_rhjira_json h args)"
  "reads b (Proc (''rhjira'' # args) ROOT_DIR) \<Longrightarrow> reading b (run_rhjira h args)"
  unfolding run_rhjira_def run_rhjira_json_def by (auto intro!: run_rules)

lemma reading_lib [run_rules]: "reads b (Lib f args) \<Longrightarrow> reading b (lib_call h f args)"
  unfolding lib_call_def by (intro run_rules, assumption) (auto split: reply.splits intro: run_rules)

lemma reading_import [run_rules]: "reading b (import_analysis_lib h n)"
  unfolding import_analysis_lib_def by (intro run_rules) (auto simp: STATE_CHANGES_def split: reply.splits intro: run_rules)

lemma reading_which [run_rules]: "reading b (which h n)"
  unfolding which_def by (intro run_rules) (simp add: STATE_CHANGES_def)

lemma reading_ensure [run_rules]: "reading b (ensure_rhjira_available h)" "reading b (ensure_glab_available h)"
  unfolding ensure_rhjira_available_def ensure_glab_available_def by (auto intro!: run_rules)

lemma reading_fetch [run_rules]: "reading b (fetch_json h cache key flds strict)"
  unfolding fetch_json_def Let_def by (auto split: option.splits sum.splits intro!: run_rules)

lemma run_prod_app [run_rules]:
  "(\<And>a b. x = (a, b) \<Longrightarrow> runs_in S X (k a b y)) \<Longrightarrow> runs_in S X ((case x of (a, b) \<Rightarrow> k a b) y)"
  by (cases x) simp

lemma reading_batch [run_rules]:
  "reading b (batch_fetch_linked h cache keys)" "reading b (batch_fetch_tickets h cache keys)"
  "reading b (inspect_linked_tickets h cache current linked m)"
proof -
  show linked: "reading b (batch_fetch_linked h cache keys)" for cache keys
    unfolding batch_fetch_linked_def by (intro run_rules)
  show "reading b (batch_fetch_tickets h cache keys)"
    unfolding batch_fetch_tickets_def by (intro run_rules) simp_all
  show "reading b (inspect_linked_tickets h cache current linked m)"
    unfolding inspect_linked_tickets_def Let_def by (intro run_rules linked)
qed

lemma reading_related: "reading True (find_related_tickets h ids)"
  unfolding find_related_tickets_def by (auto intro!: run_rules)

lemma reading_parse [run_rules]: "reading b (parse_ticket_json key flds)"
  unfolding parse_ticket_json_def Let_def by (intro run_rules) simp_all

lemma reading_gather [run_rules]:
  assumes "related \<Longrightarrow> b"
  shows "reading b (gather_ticket_reports so h tickets related m)"
proof -
  have found: "related \<Longrightarrow> reading b (find_related_tickets h ids)" for ids
    using assms reading_related[of h ids] by simp
  have first: "reading b (fetch_initial h st key)" for st key
    unfolding fetch_initial_def by (intro run_rules)
  have linked: "reading b (add_linked h m st e)" for st e
    unfolding add_linked_def by (intro run_rules)
  show ?thesis
    unfolding gather_ticket_reports_def Let_def by (intro run_rules first linked) (auto intro: found)
qed

lemma reading_spec [run_rules]:
  "reading b (read_replace p)" "reading b (probe_spec_deps package part)" "reading b (read_local_spec_nvr package)"
  "reading b (uses_vendored_deps package)" "reading b (search_cve_in_spec_and_patches package ids)"
proof -
  show replace: "reading b (read_replace p)" for p
    by (rule runs_in_quiet) (auto simp: read_replace_def read_text_def split: option.splits node.splits)
  show "reading b (probe_spec_deps package part)"
    unfolding probe_spec_deps_def Let_def by (intro run_rules replace) simp_all
  show "reading b (read_local_spec_nvr package)"
    unfolding read_local_spec_nvr_def by (intro run_rules replace)
  show "reading b (uses_vendored_deps package)"
    unfolding uses_vendored_deps_def by (intro run_rules)
  have "reading b (any_mentions ids ps)" for ps
    by (induction ps) (auto intro!: run_rules replace)
  then show "reading b (search_cve_in_spec_and_patches package ids)"
    unfolding search_cve_in_spec_and_patches_def by (intro run_rules)
qed

lemma reading_print [run_rules]:
  "reading b (say_line l)" "reading b (say_lines ls)" "reading b (print_json j)" "reading b (write_payload out j)"
  "reading b (print_ticket r)" "reading b (print_tickets rs)" "reading b (print_bot_mrs package mrs)" "reading b (print_spec_deps package part hits)"
proof -
  show line: "reading b (say_line l)" for l
    unfolding say_line_def by (intro run_rules) simp
  show lines: "reading b (say_lines ls)" for ls
    unfolding say_lines_def by (intro run_rules line)
  show "reading b (print_json j)"
    unfolding print_json_def by (intro run_rules) simp
  show "reading b (write_payload out j)"
    unfolding write_payload_def by (intro run_rules)
  have package: "reading b (print_package_lines r)" for r
    unfolding print_package_lines_def by (intro run_rules line)
  show t: "reading b (print_ticket r)" for r
    unfolding print_ticket_def by (intro run_rules line lines package)
  show "reading b (print_tickets rs)"
    by (induction rs rule: print_tickets.induct) (auto intro!: run_rules line t)
  show "reading b (print_bot_mrs package mrs)" "reading b (print_spec_deps package part hits)"
    unfolding print_bot_mrs_def print_spec_deps_def by (intro run_rules; simp)+
qed

lemma reading_mrs [run_rules]: "reading b (list_bot_mrs h package n)"
  unfolding list_bot_mrs_def list_state_def by (intro run_rules) simp_all

lemma reading_http [run_rules]:
  "reading b (http_read h url extra)" "reading b (http_get_text text h url)" "reading b (http_download h url p)"
proof -
  show r: "reading b (http_read h url extra)" for url extra
    unfolding http_read_def by (intro run_rules) (auto split: reply.splits intro: run_rules)
  show "reading b (http_get_text text h url)" "reading b (http_download h url p)"
    unfolding http_get_text_def http_download_def by (intro run_rules r)+
qed

lemma reading_sbom [run_rules]: "reading b (fetch_sbom text h package nvr key dest)" "reading b (search_sbom_file text p terms)"
proof -
  have "reading b (try_download_jira_sbom h key nvr out)" for key out
    unfolding try_download_jira_sbom_def drop_if_exists_def Let_def by (intro run_rules) simp_all
  then have "reading b (jira_sbom h key nvr out)" for out
    unfolding jira_sbom_def by (intro run_rules) simp_all
  moreover have "reading b (latest_pulp_sbom_filename text h package)"
    unfolding latest_pulp_sbom_filename_def Let_def by (intro run_rules) simp_all
  ultimately show "reading b (fetch_sbom text h package nvr key dest)"
    unfolding fetch_sbom_def Let_def by (intro run_rules)
  show "reading b (search_sbom_file text p terms)"
    by (rule runs_in_quiet) (auto simp: search_sbom_file_def ret_def split: option.splits node.splits)
qed

lemma reading_attempt [run_rules]: "reading b m \<Longrightarrow> reading b (or_error m)"
  unfolding or_error_def by (intro run_rules)

lemma reading_probe [run_rules]: "reading b (probe_package text h sbom reports package)"
proof -
  have "reading b (probe_sbom text h reports package part)" for part
    unfolding probe_sbom_def by (intro run_rules)
  then show ?thesis
    unfolding probe_package_def by (intro run_rules) simp_all
qed

lemma reading_search [run_rules]: "reading b (search_repo_fix_mrs h ids)"
  unfolding search_repo_fix_mrs_def search_one_def by (intro run_rules) (simp_all add: STATE_CHANGES_def)

lemma reading_investigation [run_rules]: "reading b (print_investigation g ps mrs)"
  unfolding print_investigation_def print_gathered_def by (intro run_rules)

definition asks_related :: "show_args \<Rightarrow> bool" where
  \<comment> \<open>the user wants related tickets and did not end the list with \<open>only\<close>\<close>
  "asks_related a \<longleftrightarrow> sh_find_related a \<and> \<not> (sh_tickets a \<noteq> [] \<and> lower (last (sh_tickets a)) = ''only'')"

definition asks_more :: "investigate_args \<Rightarrow> bool" where
  "asks_more a \<longleftrightarrow> asks_related (in_show a) \<and> \<not> in_only a"

lemma only_keyword: "strip_only_keyword ts = Inr (named, only) \<Longrightarrow> only \<longleftrightarrow> ts \<noteq> [] \<and> lower (last ts) = ''only''"
  by (auto simp: strip_only_keyword_def split: if_splits)

lemma runs_in_sum:
  assumes "\<And>e. s = Inl e \<Longrightarrow> X e" "\<And>x. s = Inr x \<Longrightarrow> runs_in S X (k x)"
  shows "runs_in S X (bind (from_sum s) k)"
  using assms by (cases s) (auto simp: from_sum_def intro: run_rules)

lemma show_reads: "reading (asks_related a) (cmd_show so h a)"
  unfolding cmd_show_def Let_def
  by (intro run_rules runs_in_sum) (auto simp: asks_related_def dest: only_keyword intro!: run_rules)

lemma investigate_reads: "reading (asks_more a) (cmd_investigate so text h a)"
  unfolding cmd_investigate_def Let_def
  by (intro run_rules runs_in_sum) (auto simp: asks_more_def asks_related_def dest: only_keyword intro!: run_rules)

lemma check_reads: "reading b (cmd_version_check so h a)"
proof -
  have "reading b (resolve_component_version package part block)" for package part block
    unfolding resolve_component_version_def Let_def by (intro run_rules)
  then have "reading b (version_check_payload q)" for q
    unfolding version_check_payload_def compared_version_def Let_def by (intro run_rules)
  moreover have "reading b (ticket_of_check so h key)" for key
    unfolding ticket_of_check_def by (intro run_rules) simp_all
  ultimately show ?thesis
    unfolding cmd_version_check_def by (intro run_rules) simp_all
qed

lemma reading_github [run_rules]: "reading b (github_json h p)" "reading b (flag_date r s)"
  "reading b (fetch_github_commit_date h r owner repo sha)" "reading b (fetch_github_tag_date h r owner repo tag)"
proof -
  show json: "reading b (github_json h p)" for p
    unfolding github_json_def http_get_json_def by (intro run_rules) (auto split: reply.splits intro: run_rules)
  show "reading b (flag_date r s)" unfolding flag_date_def by (intro run_rules) simp_all
  show commit: "reading b (fetch_github_commit_date h r owner repo sha)" for sha
    unfolding fetch_github_commit_date_def by (intro run_rules json) simp_all
  have "reading b (release_date h r owner repo t)" for t
    unfolding release_date_def Let_def by (intro run_rules json) simp_all
  moreover have "reading b (tagger_date h r owner repo d)" for d
    unfolding tagger_date_def Let_def by (intro run_rules json) simp_all
  ultimately show "reading b (fetch_github_tag_date h r owner repo tag)"
    unfolding fetch_github_tag_date_def Let_def by (intro run_rules json commit) simp_all
qed

lemma reading_questions [run_rules]:
  "reading b (sql h db query params)" "reading b (mtime h p)" "reading b (safe_mtime h p)" "reading b (write_output h t out prefix)"
  "reading b (cursor_user_dirs h)" "reading b (loads le s)"
proof -
  show "reading b (sql h db query params)"
    unfolding sql_def by (intro run_rules) (auto simp: STATE_CHANGES_def split: reply.splits json.splits intro!: run_rules)
  show m: "reading b (mtime h p)"
    unfolding mtime_def by (intro run_rules) (auto simp: STATE_CHANGES_def split: reply.splits json.splits intro!: run_rules)
  show "reading b (safe_mtime h p)" unfolding safe_mtime_def by (intro run_rules m)
  show "reading b (write_output h t out prefix)"
    unfolding write_output_def Let_def by (auto simp: STATE_CHANGES_def split: option.splits reply.splits json.splits intro!: run_rules)
  show "reading b (cursor_user_dirs h)"
    unfolding cursor_user_dirs_def Let_def by (intro run_rules) (simp add: STATE_CHANGES_def)
  show "reading b (loads le s)" unfolding loads_def by (intro run_rules) simp_all
qed

lemma reading_small [run_rules]:
  "reading b (jsonl_in d)" "reading b (loads_dict le v)" "(\<And>p. reading b (test p)) \<Longrightarrow> reading b (kept test ps)"
  "(\<And>p. reading b (time p)) \<Longrightarrow> reading b (newest time ps)" "reading b m \<Longrightarrow> reading b (tried msg m)" "reading b (first_file ps)"
  unfolding jsonl_in_def loads_dict_def kept_def newest_def tried_def
  by ((intro run_rules; simp)+, induction ps) (auto intro!: run_rules)

lemma reading_opencode: "reading b (export_opencode_session h le session out)"
proof -
  have "reading b (opencode_message h le db msg)" for db msg
    unfolding opencode_message_def by (intro run_rules) simp_all
  then have "reading b (render_opencode_transcript h le sid db)" for sid db
    unfolding render_opencode_transcript_def by (intro run_rules) simp_all
  moreover have "reading b (opencode_latest_session_id h db)" for db
    unfolding opencode_latest_session_id_def by (intro run_rules) simp_all
  ultimately show ?thesis unfolding export_opencode_session_def by (intro run_rules) simp_all
qed

lemma reading_claude: "reading b (export_claude_session h le session out)"
proof -
  have "reading b (claude_entry le l)" for l
    unfolding claude_entry_def Let_def by (intro run_rules) (auto split: json.splits intro!: run_rules)
  then have "reading b (render_claude_transcript le p)" for p
    unfolding render_claude_transcript_def by (intro run_rules) simp_all
  moreover have "reading b (claude_find_latest_jsonl h d ps)" for d ps
    unfolding claude_find_latest_jsonl_def Let_def by (intro run_rules) simp_all
  ultimately show ?thesis unfolding export_claude_session_def by (intro run_rules) simp_all
qed

lemma reading_composer [run_rules]: "reading b (render_cursor_transcript h le cid name)" "reading b (composer_candidate h le)"
proof -
  have dbs: "reading b (cursor_global_dbs h)" "reading b (cursor_workspace_storage_roots h)"
    unfolding cursor_global_dbs_def cursor_workspace_storage_roots_def by (intro run_rules)+
  have "reading b (header_bubbles h le db cid header)" for db cid header
    unfolding header_bubbles_def Let_def by (intro run_rules) simp_all
  then have one: "reading b (db_bubbles h le cid name db)" for cid name db
    unfolding db_bubbles_def by (intro run_rules) simp_all
  have search: "reading b (search_dbs h le cid name e ds)" for cid name e ds
    by (induction ds arbitrary: e) (auto intro!: run_rules one split: sum.splits)
  show render: "reading b (render_cursor_transcript h le cid name)" for cid name
    unfolding render_cursor_transcript_def by (intro run_rules dbs search) (auto intro!: run_rules split: sum.splits)
  have "reading b (cursor_latest_composer h le d)" for d
    unfolding cursor_latest_composer_def sqlite_get_def Let_def by (intro run_rules) simp_all
  then have first: "reading b (first_composer h le e ds)" for e ds
    by (induction ds arbitrary: e) (auto intro!: run_rules split: sum.splits)
  have "reading b (workspace_folder le entry)" for entry
    unfolding workspace_folder_def Let_def by (intro run_rules) simp_all
  then have "reading b (cursor_workspace_candidates h le)"
    unfolding cursor_workspace_candidates_def Let_def by (intro run_rules dbs) simp_all
  then show "reading b (composer_candidate h le)"
    unfolding composer_candidate_def by (intro run_rules first render)
qed

lemma reading_transcripts [run_rules]: "reading b (cursor_find_agent_transcript h le t)" "reading b (render_agent_transcript le p)"
proof -
  have "reading b (cursor_agent_transcript_dirs d)" for d
    unfolding cursor_agent_transcript_dirs_def by (intro run_rules)
  then show "reading b (cursor_find_agent_transcript h le t)"
    unfolding cursor_find_agent_transcript_def by (intro run_rules) simp_all
  show "reading b (render_agent_transcript le p)"
    unfolding render_agent_transcript_def by (intro run_rules) simp_all
qed

lemma export_reads: "reading b (export_agent_log h le agent session)"
proof -
  have "reading b (export_named_cursor_session h le cid out)" for cid out
    unfolding export_named_cursor_session_def export_cursor_composer_session_def
    by (intro run_rules) (auto intro!: run_rules split: sum.splits)
  moreover have "reading b (agent_candidate h le)"
    unfolding agent_candidate_def by (intro run_rules)
  ultimately have "reading b (export_cursor_session h le cid out)" for cid out
    unfolding export_cursor_session_def by (intro run_rules) (auto intro!: run_rules split: sum.splits)
  then show ?thesis
    unfolding export_agent_log_def Let_def by (intro run_rules reading_opencode reading_claude) simp_all
qed

lemma age_reads: "reading b (cmd_upstream_fix_age h r a)"
proof -
  have "reading b (resolve_fix_age_dates h r a)"
    unfolding resolve_fix_age_dates_def Let_def by (intro run_rules) simp_all
  then show ?thesis unfolding cmd_upstream_fix_age_def by (intro run_rules) simp_all
qed

lemma load_auth_reads [run_rules]: "reading b load_jira_auth"
  by (rule runs_in_quiet) (simp add: load_auth_quiet split: sum.splits)

lemma other_reads: "reading b (cmd_bot_mrs h p n j)" "reading b (cmd_sbom text h sb)" "reading b (cmd_spec_deps p part j)"
  "reading b (cmd_deps h j)" "reading b (cmd_lookaside ps p)"
  unfolding cmd_bot_mrs_def cmd_sbom_def cmd_spec_deps_def cmd_deps_def cmd_lookaside_def Let_def by (intro run_rules; simp)+

definition asks :: "cve_command \<Rightarrow> bool option" where
  \<comment> \<open>the reading commands, and whether they look for related tickets\<close>
  "asks c = (case c of Show a \<Rightarrow> Some (asks_related a) | Investigate a \<Rightarrow> Some (asks_more a)
     | Version_check a \<Rightarrow> Some False | Bot_mrs p n j \<Rightarrow> Some False | Sbom a \<Rightarrow> Some False | Spec_deps p d j \<Rightarrow> Some False
     | Deps j \<Rightarrow> Some False | Upstream_fix_age a \<Rightarrow> Some False | Lookaside ps p \<Rightarrow> Some False | _ \<Rightarrow> None)"

lemma reading_handler: "case asks c of Some related \<Rightarrow> reading related (cve_handler env h c) | None \<Rightarrow> True"
  by (cases c) (simp_all add: asks_def cve_handler_def show_reads investigate_reads check_reads other_reads age_reads)

lemma reading_main:
  assumes "asks c = Some related"
  shows "reading related (cve_main env h c)"
  using reading_handler[where c = c and env = env and h = h] assms unfolding cve_main_def by (auto intro!: run_rules)

definition plain_env :: cve_env where
  \<comment> \<open>an environment for examples\<close>
  "plain_env = \<lparr>set_order = id, text_of = (\<lambda>_. []), iso_other = (\<lambda>s. Inl (ValueError s)),
     log_of = \<lparr>json_of = (\<lambda>_. None), work_dir = []\<rparr>\<rparr>"

definition agreeing :: host where
  \<comment> \<open>a host whose programs and services are there and answer yes\<close>
  "agreeing = (\<lambda>_ ev f. (case ev of Lib _ _ \<Rightarrow> Answer (JBool True) | _ \<Rightarrow> Exit 0 [] [], f))"

text \<open>C13: Reading commands write nothing. \<open>show\<close>, \<open>investigate\<close>, \<open>version-check\<close>, \<open>bot-mrs\<close>, \<open>sbom\<close>, \<open>spec-deps\<close>, \<open>deps\<close> \<open>upstream-fix-age\<close> and
  \<open>lookaside-cmd\<close> start no program but \<open>rhjira dump\<close>, the download of an attachment and \<open>glab mr list\<close>, and never call a
  writing function of the Jira client. With \<open>only\<close> at the end of the tickets, \<open>--only\<close> or \<open>--no-find-related\<close> they do not
  ask Jira for related tickets either.\<close>

theorem reading_commands:
  assumes "asks c = Some related" "cve_main env h c w = (r, w')"
  shows "\<exists>es. trace w' = trace w @ es \<and> list_all (reads related) es"
  using runs_inD[OF reading_main[OF assms(1)] assms(2)] by (auto simp: list_all_iff)

definition show_only :: cve_command where
  "show_only = Show \<lparr>sh_tickets = [''HUM-1234'', ''only''], sh_json = False, sh_json_out = None, sh_max_linked = 3,
     sh_title_only = False, sh_title_prefix = [], sh_find_related = True\<rparr>"

theorem reading_commands_witness:
  "\<exists>es. trace (snd (cve_main plain_env agreeing show_only blank)) = trace blank @ es \<and> list_all (reads False) es"
proof (rule reading_commands[OF _ prod.collapse[symmetric]])
  show "asks show_only = Some False" by code_simp
qed

subsection \<open>Comment first, then change state\<close>

abbreviation idle :: "'a prog \<Rightarrow> bool" where
  "idle m \<equiv> runs_in (\<lambda>e. change_of e = None) (\<lambda>_. True) m"

lemma reads_unchanged: "reads b e \<Longrightarrow> change_of e = None"
  by (induction b e rule: reads.induct) (auto simp: change_of_def split: option.splits elim!: call_on.elims)

lemma reading_idle: "reading b m \<Longrightarrow> idle m"
  by (rule runs_inI) (blast dest: runs_inD reads_unchanged)

lemma idle_obeys: "idle m \<Longrightarrow> obeys (commented_before []) m"
  by (rule comments.obeys_runs_in) (auto intro: unchanged_commented)

lemma reading_obeys: "reading b m \<Longrightarrow> obeys (commented_before []) m"
  by (rule idle_obeys) (rule reading_idle)

lemma proc_unchanged [simp]: "change_of (Proc argv cwd) = None" "change_of (Sleep n) = None" "change_of (Print l) = None" "change_of (PrintJson j) = None"
  by (simp_all add: change_of_def)

lemma idle_command [run_rules]: "idle (run_skill_command h argv cwd)"
  unfolding run_skill_command_def run_command_json_def by (intro run_rules) simp_all

lemma idle_rhjira [run_rules]: "idle (run_rhjira h args)"
proof -
  have "idle (rhjira_attempts h args cwd n d)" for cwd n d
    by (induction n arbitrary: d) (auto simp: run_command_json_def intro!: run_rules)
  then show ?thesis unfolding run_rhjira_def run_rhjira_json_def by (intro run_rules)
qed

lemma idle_reading [run_rules]:
  "idle (ensure_rhjira_available h)" "idle (ensure_glab_available h)" "idle load_jira_auth" "idle (import_analysis_lib h n)"
  "idle (say_line l)" "idle (say_lines ls)" "idle (print_json j)" "idle (read_replace p)"
  by (rule reading_idle, rule run_rules)+

lemma idle_worktree [run_rules]: "idle (create_task_worktree h key base)"
  unfolding create_task_worktree_def Let_def by (intro run_rules) simp_all

lemma idle_checked [run_rules]: "idle (checked_rhjira h args msg)"
  unfolding checked_rhjira_def by (intro run_rules) simp_all

lemma idle_task [run_rules]: "idle (create_hum_task h sm blocks asg parts)"
  unfolding create_hum_task_def by (intro run_rules) simp_all

lemma idle_body [run_rules]: "idle (resolve_comment_body a k)"
proof -
  have "idle (load_comment_json p)" for p
    unfolding load_comment_json_def by (intro run_rules) simp_all
  then have "idle (payload_fields a)"
    unfolding payload_fields_def by (intro run_rules) simp_all
  then show ?thesis
    unfolding resolve_comment_body_def Let_def by (intro run_rules) simp_all
qed

lemma idle_emit [run_rules]: "idle (emit_comment_body a body k)"
  unfolding emit_comment_body_def by (intro run_rules) simp_all

lemma idle_comment [run_rules]: "idle (post_comment h auth key body)"
proof (rule runs_inI)
  fix w r w' assume "post_comment h auth key body w = (r, w')"
  moreover obtain es where "trace (snd (post_comment h auth key body w)) = trace w @ es" "\<forall>e \<in> set es. change_of e = None"
    using comment_opens[of key h auth body] by (auto simp: opens_with_comment_def dest: spec[of _ w])
  ultimately show "\<exists>es. trace w' = trace w @ es \<and> (\<forall>e \<in> set es. change_of e = None) \<and> (case r of Inl x \<Rightarrow> True | Inr _ \<Rightarrow> True)"
    by (auto split: sum.splits)
qed

lemma idle_open_mr: "idle (cmd_open_mr h a)"
proof -
  have remotes: "idle (push_remotes h cwd)" for cwd
    unfolding push_remotes_def by (intro run_rules) simp_all
  have "idle (open_package_mr h rq (\<lambda>k body. (seq (post_comment h None k body) (
    ret ()))))" for rq
    unfolding open_package_mr_def detect_fork_remote_def detect_target_remote_def by (intro run_rules remotes) simp_all
  then show ?thesis
    unfolding cmd_open_mr_def mr_summary_def by (intro run_rules) simp_all
qed

lemma idle_bump: "idle (cmd_release_bump package apply_it as_json)"
proof -
  have "idle (read_package_metadata package)"
    unfolding read_package_metadata_def by (intro run_rules) simp_all
  moreover have "idle (read_spec_release_before_dist package)"
    unfolding read_spec_release_before_dist_def by (intro run_rules) simp_all
  ultimately have "idle (release_bump_payload package)"
    unfolding release_bump_payload_def Let_def by (intro run_rules)
  moreover from this have "idle (apply_release_bump package)"
    unfolding apply_release_bump_def by (intro run_rules) simp_all
  ultimately show ?thesis unfolding cmd_release_bump_def by (intro run_rules)
qed

lemma idle_tasks: "idle (cmd_create_task h t)" "idle (cmd_worktree h key base j)"
  unfolding cmd_create_task_def cmd_worktree_def by (intro run_rules; simp)+

lemma idle_log: "idle (cmd_log_message h le a)"
proof -
  have "idle (log_message h key p print_only)" for key p print_only
    unfolding log_message_def attach_file_def by (intro run_rules) simp_all
  moreover have "idle (export_agent_log h le agent session)" for agent session
    by (rule reading_idle, rule export_reads)
  ultimately show ?thesis
    unfolding cmd_log_message_def by (intro run_rules) simp_all
qed

lemma write_each_obeys:
  assumes "\<And>auth k. obeys (commented_before []) (act auth k)"
  shows "obeys (commented_before []) (write_each act keys)"
proof -
  have "obeys (commented_before []) (from_sum s)" for s :: "exn + string"
    by (rule idle_obeys) (intro run_rules, simp)
  then show ?thesis
    unfolding write_each_def by (intro comments.obeys_foldM comments.obeys_bind comments.obeys_ret assms)
qed

lemma body_obeys: "obeys (commented_before []) (resolve_comment_body a k)" "obeys (commented_before []) (say_line l)"
  "obeys (commented_before []) (emit_comment_body a b k)"
  by (rule idle_obeys, rule run_rules)+

lemmas obeys_rules = comments.obeys_bind comments.obeys_seq comments.obeys_if comments.obeys_ret comments.obeys_raise
  comments.obeys_prod write_each_obeys body_obeys

lemma writes_obey: "obeys (commented_before []) (cmd_close_nab h a)" "obeys (commented_before []) (cmd_next_release h a)"
  "obeys (commented_before []) (cmd_comment h a)"
  unfolding cmd_close_nab_def cmd_next_release_def cmd_comment_def Let_def
  by (intro obeys_rules close_obeys next_release_obeys idle_obeys[OF idle_comment])+

lemma obeys_catch: "obeys (commented_before []) m \<Longrightarrow> (\<And>e. obeys (commented_before []) (k e)) \<Longrightarrow> obeys (commented_before []) (catch m sel k)"
proof (rule obeysI)
  fix w r w' assume m: "obeys (commented_before []) m" and k: "\<And>e. obeys (commented_before []) (k e)" and run: "catch m sel k w = (r, w')"
  obtain r1 w1 where m1: "m w = (r1, w1)" by fastforce
  from m m1 obtain es where es: "trace w1 = trace w @ es" "commented_before [] es" by (rule obeysE)
  show "\<exists>es. trace w' = trace w @ es \<and> commented_before [] es"
  proof (cases "\<exists>e. r1 = Inl e \<and> sel e")
    case True
    then obtain e where "k e w1 = (r, w')" using run m1 by (auto simp: catch_run)
    with k obtain fs where "trace w' = trace w1 @ fs" "commented_before [] fs" by (rule obeysE)
    with es show ?thesis by (intro exI[of _ "es @ fs"]) (simp add: comments.ok_append)
  next
    case False
    then have "w' = w1" using run m1 by (auto simp: catch_run split: sum.splits)
    with es show ?thesis by blast
  qed
qed

text \<open>
  \<open>set-fib\<close> writes no comment: the skill has it run after \<open>comment --kind fib\<close>, in a run of its own, and nothing checks that this was done.
  What the command itself changes is one field of the ticket it was given.
\<close>

definition fib_only :: "string \<Rightarrow> event \<Rightarrow> bool" where
  "fib_only key e \<longleftrightarrow> comment_of e = None \<and>
     (case change_of e of None \<Rightarrow> True | Some k \<Rightarrow> normalize_hum_key key = Inr k \<and> call_on e = Some (''set_fixed_in_build'', k))"

lemma fib_only_silent: "call_on e = None \<Longrightarrow> fib_only key e"
  by (simp add: fib_only_def comment_of_def change_of_def)

lemma fib_only_import [run_rules]: "runs_in (fib_only key) (\<lambda>_. True) (import_analysis_lib h n)"
  unfolding import_analysis_lib_def by (intro run_rules) (auto simp: fib_only_silent split: reply.splits intro: run_rules)

lemma fib_only_auth [run_rules]: "runs_in (fib_only key) (\<lambda>_. True) load_jira_auth"
  by (rule runs_in_quiet) (simp add: load_auth_quiet split: sum.splits)

lemma fib_only_lib [run_rules]: "fib_only key (Lib f args) \<Longrightarrow> runs_in (fib_only key) (\<lambda>_. True) (lib_call h f args)"
  unfolding lib_call_def by (intro run_rules, assumption) (auto split: reply.splits intro: run_rules)

lemma fib_only_call [run_rules]:
  "normalize_hum_key key = Inr k \<Longrightarrow> runs_in (fib_only key) (\<lambda>_. True) (jira_auth_call h auth ''set_fixed_in_build'' k args)"
  unfolding jira_auth_call_def by (intro run_rules) (simp_all add: fib_only_def comment_of_def change_of_def STATE_CHANGES_def)

lemma fib_only_say [run_rules]: "runs_in (fib_only key) (\<lambda>_. True) (say_line l)"
  unfolding say_line_def by (intro run_rules) (simp add: fib_only_silent)

lemma fib_only_pulp [run_rules]: "runs_in (fib_only key) (\<lambda>_. True) (pulp_has_nvr h package nvr)"
  unfolding pulp_has_nvr_def by (intro run_rules) (simp_all add: fib_only_silent)

lemma set_fib_only: "runs_in (fib_only key) (\<lambda>_. True) (cmd_set_fib h key nvr package force)"
proof (cases "normalize_hum_key key")
  case (Inr k)
  have step: "runs_in (fib_only key) (\<lambda>_. True) (bind (set_fixed_in_build h None k nvr package force) (\<lambda>d. seq (say_line (l d)) (ret 0)))" for l
    unfolding set_fixed_in_build_def by (intro run_rules Inr) simp_all
  have "bind (from_sum (Inr k)) m = m k" for m :: "string \<Rightarrow> int prog" by (simp add: bind_def from_sum_def ret_def fun_eq_iff)
  then show ?thesis unfolding cmd_set_fib_def Inr using step by simp
qed (auto simp: cmd_set_fib_def from_sum_def intro!: run_rules)


definition closing :: cve_command where
  "closing = Close_nab \<lparr>a_tickets = [''HUM-1234''], a_file = Some [''body.md''], a_message = [], a_kind = [], a_from_json = None,
     a_from_ticket = [], a_fields = [(''sbom_match'', ''1 hit(s)''), (''vex'', ''Component not Present'')], a_print_only = False, a_json = False\<rparr>"

definition closing_world :: world where
  "closing_world = blank\<lparr>files := [([''body.md''], FileN ''not affected'')], environ := [(''JIRA_TOKEN'', ''t'')]\<rparr>"

lemma closing_run: "List.map_filter call_on (trace (snd (cve_main plain_env agreeing closing closing_world))) =
    map (\<lambda>f. (f, ''HUM-1234'')) [''jira_add_comment'', ''set_vex_justification'', ''jira_resolve_issue'']"
  by code_simp


end
