(* ===== verification/Cve_Writes.thy ===== *)
theory Cve_Writes
  imports Cve_Safety
begin

section \<open>CVE triage: when a ticket may be written\<close>

text \<open>
  The guards of the commands: what \<open>close-nab\<close> takes for evidence, when \<open>set-fib\<close> may name a build, how often
  \<open>rhjira\<close> is started, and how \<open>investigate\<close> ends and whom it asks.
\<close>

subsection \<open>Attempts\<close>

lemma one_start: "trace (snd (run_command_json h argv cwd w)) = trace w @ [Proc argv cwd]"
  by (auto simp: run_command_json_def prog_simps from_sum_def split: sum.splits)

lemma rhjira_step:
  "rhjira_attempts h args cwd (Suc n) d w = (r, w') \<Longrightarrow> trace w' = trace w @ [Proc (''rhjira'' # args) cwd] \<or>
     n > 0 \<and> (\<exists>v. trace v = trace w @ [Proc (''rhjira'' # args) cwd, Sleep d] \<and> rhjira_attempts h args cwd n (d + 2) v = (r, w'))"
  using one_start[of h "''rhjira'' # args" cwd w]
  by (auto simp: prog_simps sleep_def emit_def split: prod.splits sum.splits if_splits)

text \<open>C39: \<open>rhjira\<close> is started at most three times for one call, with pauses of two and four seconds between.\<close>

theorem rhjira_starts:
  "trace (snd (run_rhjira_json h args w)) \<in> (\<lambda>es. trace w @ es) `
     (let p = Proc (''rhjira'' # args) ROOT_DIR in {[p], [p, Sleep 2, p], [p, Sleep 2, p, Sleep 4, p]})"
proof -
  let ?p = "Proc (''rhjira'' # args) ROOT_DIR"
  have one: "trace w' = trace w @ [?p]" if "rhjira_attempts h args ROOT_DIR 1 d w = (r, w')" for d w r w'
    using rhjira_step[of h args ROOT_DIR 0] that by simp
  have two: "trace w' \<in> {trace w @ [?p], trace w @ [?p, Sleep d, ?p]}" if "rhjira_attempts h args ROOT_DIR 2 d w = (r, w')" for d w r w'
    using rhjira_step[of h args ROOT_DIR 1 d w r w'] that one by (auto simp: numeral_2_eq_2)
  obtain r w' where run: "run_rhjira_json h args w = (r, w')" by fastforce
  then have "trace w' \<in> {trace w @ [?p], trace w @ [?p, Sleep 2, ?p], trace w @ [?p, Sleep 2, ?p, Sleep 4, ?p]}"
    using rhjira_step[of h args ROOT_DIR 2 2 w r w'] two[of "2 + 2"]
    by (fastforce simp: run_rhjira_json_def numeral_3_eq_3 numeral_2_eq_2)
  with run show ?thesis by (auto simp: Let_def)
qed

lemma rhjira_first:
  "\<exists>es. trace (snd (rhjira_attempts h args cwd (Suc n) d w)) = trace w @ Proc (''rhjira'' # args) cwd # es"
proof (induction n arbitrary: d w)
  case 0
  obtain r w' where "rhjira_attempts h args cwd (Suc 0) d w = (r, w')" by fastforce
  from this rhjira_step[OF this] show ?case by auto
next
  case (Suc n)
  obtain r w' where run: "rhjira_attempts h args cwd (Suc (Suc n)) d w = (r, w')" by fastforce
  from rhjira_step[OF run] show ?case
  proof (elim disjE conjE exE)
    fix v assume v: "trace v = trace w @ [Proc (''rhjira'' # args) cwd, Sleep d]" "rhjira_attempts h args cwd (Suc n) (d + 2) v = (r, w')"
    from Suc.IH[of "d + 2" v] v run show ?thesis by (auto simp del: rhjira_attempts.simps)
  qed (use run in auto)
qed

lemma rhjira_again:
  assumes "h (trace w) (Proc (''rhjira'' # args) cwd) (files w) = (Exit c out err, f)" "c \<noteq> 0"
    and "transient \<lparr>returncode = c, stdout = out, stderr = err\<rparr>"
  shows "\<exists>es. trace (snd (rhjira_attempts h args cwd (Suc (Suc n)) d w)) =
    trace w @ [Proc (''rhjira'' # args) cwd, Sleep d] @ Proc (''rhjira'' # args) cwd # es"
proof -
  let ?v = "w\<lparr>files := f, trace := trace w @ [Proc (''rhjira'' # args) cwd, Sleep d]\<rparr>"
  have "rhjira_attempts h args cwd (Suc (Suc n)) d w = rhjira_attempts h args cwd (Suc n) (d + 2) ?v"
    using assms
    by (subst rhjira_attempts.simps)
      (simp add: run_command_json_def completed_of_def prog_simps sleep_def emit_def from_sum_def del: rhjira_attempts.simps)
  then show ?thesis using rhjira_first[of h args cwd n "d + 2" ?v] by (simp del: rhjira_attempts.simps)
qed

text \<open>A creation that timed out is sent again. When the first \<open>rhjira create\<close> fails with a message like "timed out" (the task
  may exist by then), the same command runs a second time, so one \<open>create-task\<close> can leave two tasks. Nothing in between asks
  Jira whether the first one was made.\<close>

lemma creation_sent_again:
  assumes "h (trace w) (Proc (''rhjira'' # create_argv sm asg parts) ROOT_DIR) (files w) = (Exit c out err, f)" "c \<noteq> 0"
    and "re_search TRANSIENT_RHJIRA_RE (err @ [nl] @ out) \<noteq> None"
  shows "\<exists>es. trace (snd (checked_rhjira h (create_argv sm asg parts) msg w)) = trace w @
    [Proc (''rhjira'' # create_argv sm asg parts) ROOT_DIR, Sleep 2] @ Proc (''rhjira'' # create_argv sm asg parts) ROOT_DIR # es"
proof -
  have "\<exists>es. trace (snd (run_rhjira_json h (create_argv sm asg parts) w)) = trace w @
      [Proc (''rhjira'' # create_argv sm asg parts) ROOT_DIR, Sleep 2] @ Proc (''rhjira'' # create_argv sm asg parts) ROOT_DIR # es"
    using rhjira_again[of h w "create_argv sm asg parts" ROOT_DIR c out err f 1 2] assms
    by (simp add: run_rhjira_json_def transient_def numeral_3_eq_3 del: rhjira_attempts.simps)
  moreover have "trace (snd (checked_rhjira h args msg w)) = trace (snd (run_rhjira_json h args w))" for args
    by (auto simp: checked_rhjira_def run_rhjira_def prog_simps split: prod.splits sum.splits)
  ultimately show ?thesis by simp
qed

subsection \<open>Fixed in Build\<close>

lemma pulp_yes:
  assumes "pulp_has_nvr h package nvr w = (Inr (True, d), w')"
  shows "(\<exists>ts f j. fst (h ts (Lib ''fetch_srpm_listing_index'' [package]) f) = Answer j \<and> listed_in nvr j) \<or>
    (\<exists>ts f. fst (h ts (Lib ''fetch_hummingbird_latest_srpm'' [package]) f) = Answer (JStr (srpm_file nvr)))"
  using assms by (auto simp: pulp_has_nvr_def import_analysis_lib_def lib_call_def prog_simps split: prod.splits sum.splits if_splits reply.splits)

lemma idle_pulp [run_rules]: "idle (pulp_has_nvr h package nvr)"
proof -
  have lib: "f \<notin> set STATE_CHANGES \<Longrightarrow> idle (lib_call h f args)" for f args
    unfolding lib_call_def by (intro run_rules) (auto simp: change_of_def split: option.splits reply.splits elim!: call_on.elims intro: run_rules)
  show ?thesis unfolding pulp_has_nvr_def by (intro run_rules lib) (simp_all add: STATE_CHANGES_def)
qed

text \<open>C12: \<open>set-fib\<close> without \<open>--force\<close> names only builds that are published. A run that changes the state of a ticket was told by
  Pulp that its listing has the build, or that the build is its latest source package.\<close>

theorem fib_only_if_published:
  assumes "cmd_set_fib h key nvr package False w = (r, w')" "trace w' = trace w @ es" "e \<in> set es" "change_of e \<noteq> None"
  shows "(\<exists>ts f j. fst (h ts (Lib ''fetch_srpm_listing_index'' [package]) f) = Answer j \<and> listed_in nvr j) \<or>
    (\<exists>ts f. fst (h ts (Lib ''fetch_hummingbird_latest_srpm'' [package]) f) = Answer (JStr (srpm_file nvr)))"
proof (rule ccontr)
  assume none: "\<not> ?thesis"
  have "trace w' = trace (snd (pulp_has_nvr h package nvr w)) \<or> w' = w"
    using assms(1) pulp_yes[of h package nvr w] none
    by (auto simp: cmd_set_fib_def set_fixed_in_build_def from_sum_def prog_simps split: sum.splits prod.splits bool.splits if_splits)
  moreover obtain fs where "trace (snd (pulp_has_nvr h package nvr w)) = trace w @ fs" "\<forall>e \<in> set fs. change_of e = None"
    using runs_inD[OF idle_pulp, of h package nvr w] by (metis prod.collapse)
  ultimately show False using assms(2-4) by auto
qed

definition pulp_host :: host where
  \<comment> \<open>Pulp lists one build; everything else answers yes\<close>
  "pulp_host = (\<lambda>_ ev f. (case ev of
     Lib g _ \<Rightarrow> Answer (if g = ''fetch_srpm_listing_index'' then JObj [(''nvrs'', JList [JStr ''bash-5.2-1''])] else JBool True)
   | _ \<Rightarrow> Exit 0 [] [], f))"

definition token_world :: world where
  "token_world = blank\<lparr>environ := [(''JIRA_TOKEN'', ''t'')]\<rparr>"

definition fib_call :: event where
  "fib_call = Lib ''set_fixed_in_build'' [DEFAULT_JIRA_URL, ''t'', ''HUM-1234'', ''bash-5.2-1.src.rpm'', []]"

lemma fib_run: "trace (snd (cmd_set_fib pulp_host ''HUM-1234'' ''bash-5.2-1.src.rpm'' ''bash'' False token_world)) = trace token_world @
    [Lib ''__import__'' [''hummingbird_cve_analysis.lib.pulp''], Lib ''fetch_srpm_listing_index'' [''bash''],
     client_import, fib_call, Print ''HUM-1234: Fixed in Build set (bash-5.2-1.src.rpm is in the Pulp listing for bash)'']"
  by code_simp

theorem fib_only_if_published_witness:
  "(\<exists>ts f j. fst (pulp_host ts (Lib ''fetch_srpm_listing_index'' [''bash'']) f) = Answer j \<and> listed_in ''bash-5.2-1.src.rpm'' j) \<or>
    (\<exists>ts f. fst (pulp_host ts (Lib ''fetch_hummingbird_latest_srpm'' [''bash'']) f) = Answer (JStr (srpm_file ''bash-5.2-1.src.rpm'')))"
  by (rule fib_only_if_published[OF prod.collapse[symmetric] fib_run, where e = fib_call])
    (simp_all add: fib_call_def change_of_def STATE_CHANGES_def)

subsection \<open>Not a Bug\<close>

abbreviation silent :: "'a prog \<Rightarrow> bool" where
  "silent m \<equiv> runs_in (\<lambda>e. call_on e = None) (\<lambda>_. True) m"

lemma silent_body [run_rules]: "silent (resolve_comment_body a k)"
proof -
  have "silent (load_comment_json p)" for p
    unfolding load_comment_json_def by (intro run_rules) simp_all
  then have "silent (payload_fields a)"
    unfolding payload_fields_def by (intro run_rules) simp_all
  then show ?thesis
    unfolding resolve_comment_body_def Let_def by (intro run_rules) simp_all
qed

lemma silent_emit [run_rules]: "silent (emit_comment_body a body k)"
  unfolding emit_comment_body_def by (intro run_rules) simp_all

definition calls_nothing :: "'a prog \<Rightarrow> bool" where
  "calls_nothing m \<longleftrightarrow> (\<forall>w. \<exists>es. trace (snd (m w)) = trace w @ es \<and> list_all (\<lambda>e. call_on e = None) es)"

lemma silent_calls: "silent m \<Longrightarrow> calls_nothing m"
  by (auto simp: runs_in_def calls_nothing_def list_all_iff)

text \<open>C14: A preview writes nothing. With \<open>--print-only\<close> or \<open>--json\<close> the commands \<open>comment\<close>, \<open>next-release\<close> and \<open>close-nab\<close>
  make no call on a ticket, not even a comment; nor does \<open>close-nab\<close> when neither \<open>--sbom-match\<close> nor \<open>--spec-deps\<close> carries a hit.\<close>

theorem previews_call_nothing:
  "(skip_jira_write a \<longrightarrow> calls_nothing (cmd_comment h a) \<and> calls_nothing (cmd_next_release h a)) \<and>
   (skip_jira_write a \<or> \<not> has_nab_evidence a \<longrightarrow> calls_nothing (cmd_close_nab h a))"
proof -
  have "silent (cmd_comment h a)" "silent (cmd_next_release h a)" if "skip_jira_write a"
    using that by (auto simp: cmd_comment_def cmd_next_release_def intro!: run_rules)
  moreover have "silent (cmd_close_nab h a)" if "skip_jira_write a \<or> \<not> has_nab_evidence a"
    using that by (auto simp: cmd_close_nab_def Let_def intro!: run_rules)
  ultimately show ?thesis by (simp add: silent_calls)
qed

definition preview_args :: wiki_args where
  "preview_args = \<lparr>a_tickets = [''HUM-1234''], a_file = Some [''body.md''], a_message = [], a_kind = [], a_from_json = None,
     a_from_ticket = [], a_fields = [(''sbom_match'', ''No hits''), (''vex'', ''Component not Present'')], a_print_only = False, a_json = False\<rparr>"

lemma preview_no_evidence: "\<not> has_nab_evidence preview_args"
  by code_simp

theorem previews_call_nothing_witness: "calls_nothing (cmd_close_nab agreeing preview_args)"
  using previews_call_nothing[of preview_args agreeing] preview_no_evidence by simp

text \<open>"No reference in the spec" is refused as evidence. When the spec-deps probe found nothing, the text of the field is
  \<open>no spec-deps hits\<close>, and \<open>close-nab\<close> with that flag (and no SBOM match) ends with \<open>Refusing close-nab\<close>, also when
  \<open>--from-json\<close> names the probe. (The skill's rule 6 says no bundled reference in the spec is the evidence.)\<close>

lemma missing_reference_refused:
  assumes "resolve_comment_body a ''nab'' w = (Inr body, w')" "\<not> skip_jira_write a" "a_tickets a \<noteq> []"
    and "get_text (a_fields a) ''sbom_match'' \<in> {[], ''no hits''}"
    and "get_text (a_fields a) ''spec_deps'' \<in> {[], get_text (spec_fields (JList []) flds) ''spec_deps''}"
  shows "cmd_close_nab h a w = (Inl no_evidence, w')"
proof -
  have clean: "lower (strip []) = []" "lower (strip ''no hits'') = ''no hits''" "lower (strip ''no spec-deps hits'') = ''no spec-deps hits''"
    "get_text (spec_fields (JList []) flds) ''spec_deps'' = ''no spec-deps hits''"
    by code_simp+ (simp add: spec_fields_def get_text_def)
  have "lower (strip (get_text (a_fields a) ''sbom_match'')) \<in> {[], ''no hits''}"
    using assms(4) by (elim insertE emptyE) (simp_all only: clean insert_iff simp_thms)
  moreover have "lower (strip (get_text (a_fields a) ''spec_deps'')) \<in> {[], ''no spec-deps hits''}"
    using assms(5) by (elim insertE emptyE) (simp_all only: clean insert_iff simp_thms)
  ultimately have "\<not> has_nab_evidence a"
    unfolding has_nab_evidence_def Let_def by blast
  with assms(1-3) show ?thesis by (simp add: cmd_close_nab_def prog_simps)
qed

definition no_reference_args :: wiki_args where
  "no_reference_args = preview_args\<lparr>a_fields := [(''spec_deps'', ''no spec-deps hits''), (''vex'', ''Component not Present'')]\<rparr>"

subsection \<open>Investigating\<close>

lemma grows: "reading b m \<Longrightarrow> m w = (r, w') \<Longrightarrow> set (trace w) \<subseteq> set (trace w')"
  by (auto dest: runs_inD)

lemma set_dedup: "set (dedup xs) = set xs"
  unfolding dedup_def by (induction xs rule: rev_induct) auto

lemma search_one_asks: "search_one h token hits cve_id w = (r, w') \<Longrightarrow>
    Lib ''search_gitlab_mrs'' [''gitlab.com'', GITLAB_RPMS_REPO, cve_id, token] \<in> set (trace w')"
proof -
  let ?ask = "lib_call h ''search_gitlab_mrs'' [''gitlab.com'', GITLAB_RPMS_REPO, cve_id, token]"
  assume run: "search_one h token hits cve_id w = (r, w')"
  obtain a w1 where ask: "catch ?ask (\<lambda>e. is_OSError e \<or> is_TypeError e) (\<lambda>_. ret JNull) w = (a, w1)" by fastforce
  then have "trace w1 = trace (snd (?ask w))" by (auto simp: catch_run ret_def split: prod.splits sum.splits if_splits)
  then have t1: "Lib ''search_gitlab_mrs'' [''gitlab.com'', GITLAB_RPMS_REPO, cve_id, token] \<in> set (trace w1)" by (simp add: lib_call_run)
  have "w' = w1" using run ask by (auto simp: search_one_def bind_run from_sum_def prog_simps split: sum.splits if_splits)
  with t1 show ?thesis by simp
qed

lemma search_each_asks:
  "foldM (search_one h token) hits ids w = (Inr res, w') \<Longrightarrow> cve_id \<in> set ids \<Longrightarrow>
    Lib ''search_gitlab_mrs'' [''gitlab.com'', GITLAB_RPMS_REPO, cve_id, token] \<in> set (trace w')"
proof (induction ids arbitrary: hits w)
  case (Cons i ids)
  from Cons.prems(1) obtain s w1 where one: "search_one h token hits i w = (Inr s, w1)" and rest: "foldM (search_one h token) s ids w1 = (Inr res, w')"
    by (auto simp: bind_Inr)
  show ?case
  proof (cases "cve_id = i")
    case True
    have "reading False (foldM (search_one h token) s ids)"
      unfolding search_one_def by (intro run_rules) (simp_all add: STATE_CHANGES_def)
    from grows[OF this rest] search_one_asks[OF one] True show ?thesis by auto
  next
    case False
    with Cons.IH[OF rest] Cons.prems(2) show ?thesis by simp
  qed
qed simp

definition gathered_for :: "(string list \<Rightarrow> string list) \<Rightarrow> host \<Rightarrow> investigate_args \<Rightarrow> gathered_tickets prog" where
  \<comment> \<open>the tickets \<open>investigate\<close> looks at\<close>
  "gathered_for so h a = bind (from_sum (strip_only_keyword (sh_tickets (in_show a)))) (\<lambda>(tickets, only).
     gather_ticket_reports so h tickets (sh_find_related (in_show a) \<and> \<not> only \<and> \<not> in_only a) (nat (sh_max_linked (in_show a))))"

definition probed_for :: "(json \<Rightarrow> string) \<Rightarrow> host \<Rightarrow> investigate_args \<Rightarrow> gathered_tickets \<Rightarrow> (string \<times> package_probe) list prog" where
  "probed_for text h a g = mapM (probe_package text h (in_sbom a) (g_reports g)) (probed_packages g)"

lemma investigate_parts:
  assumes "sh_max_linked (in_show a) \<ge> 0"
  shows "cmd_investigate so text h a = bind (gathered_for so h a) (\<lambda>g. bind (probed_for text h a g) (\<lambda>ps.
    bind (if gathered_cves g \<noteq> [] then search_repo_fix_mrs h (gathered_cves g) else ret []) (\<lambda>mrs.
    seq (write_payload (sh_json_out (in_show a)) (investigate_payload g ps mrs))
      (seq (if sh_json (in_show a) then print_json (investigate_payload g ps mrs) else print_investigation g ps mrs) (ret 0)))))"
  using assms
  by (cases "strip_only_keyword (sh_tickets (in_show a))")
    (auto simp: cmd_investigate_def gathered_for_def probed_for_def Let_def fun_eq_iff prog_simps from_sum_def)

lemma search_after_import:
  assumes "search_repo_fix_mrs h ids w = (Inr mrs, w')"
    and "\<forall>ts f. \<exists>j. fst (h ts (Lib ''__import__'' [''hummingbird_cve_analysis.lib.gitlab_client'']) f) = Answer j"
  shows "\<exists>token v. foldM (search_one h token) [] ids v = (Inr mrs, w')"
proof -
  obtain j where "fst (h (trace w) (Lib ''__import__'' [''hummingbird_cve_analysis.lib.gitlab_client'']) (files w)) = Answer j"
    using assms(2) by blast
  with assms(1) show ?thesis
    by (auto simp: search_repo_fix_mrs_def import_analysis_lib_def lib_call_run prog_simps)
qed

text \<open>\<open>investigate\<close> asks GitLab about embargoed tickets. When it returns and the GitLab client could be imported, the CVE ids of
  every gathered ticket, also of an embargoed one, were sent to the search on gitlab.com. (The skill says to stop at an
  embargoed ticket; only the printed report is cut off.)\<close>

lemma embargoed_ids_searched:
  assumes "cmd_investigate so text h a w = (Inr code, w')" "sh_max_linked (in_show a) \<ge> 0"
    and "gathered_for so h a w = (Inr g, w1)" "r \<in> set (g_reports g)" "embargoed r" "cve_id \<in> set (cve_ids r)"
    and "\<forall>ts f. \<exists>j. fst (h ts (Lib ''__import__'' [''hummingbird_cve_analysis.lib.gitlab_client'']) f) = Answer j"
  shows "\<exists>token. Lib ''search_gitlab_mrs'' [''gitlab.com'', GITLAB_RPMS_REPO, cve_id, token] \<in> set (trace w')"
proof -
  have id: "cve_id \<in> set (gathered_cves g)" using assms(4,6) by (auto simp: gathered_cves_def set_dedup)
  then have some: "gathered_cves g \<noteq> []" by auto
  let ?out = "\<lambda>ps mrs. seq (write_payload (sh_json_out (in_show a)) (investigate_payload g ps mrs))
    (seq (if sh_json (in_show a) then print_json (investigate_payload g ps mrs) else print_investigation g ps mrs) (ret 0))"
  have "bind (probed_for text h a g) (\<lambda>ps. bind (search_repo_fix_mrs h (gathered_cves g)) (?out ps)) w1 = (Inr code, w')"
    using assms(1) by (simp add: investigate_parts[OF assms(2)] bind_run assms(3) some)
  then obtain ps w2 where "bind (search_repo_fix_mrs h (gathered_cves g)) (?out ps) w2 = (Inr code, w')"
    by (simp only: bind_Inr) blast
  then obtain mrs w3 where search: "search_repo_fix_mrs h (gathered_cves g) w2 = (Inr mrs, w3)" and out: "?out ps mrs w3 = (Inr code, w')"
    by (simp only: bind_Inr) blast
  from search_after_import[OF search assms(7)] obtain token w4 where "foldM (search_one h token) [] (gathered_cves g) w4 = (Inr mrs, w3)"
    by blast
  from search_each_asks[OF this id]
  have "Lib ''search_gitlab_mrs'' [''gitlab.com'', GITLAB_RPMS_REPO, cve_id, token] \<in> set (trace w3)" .
  moreover have "set (trace w3) \<subseteq> set (trace w')" by (rule grows[where b = False and m = "?out ps mrs" and r = "Inr code", OF _ out]) (intro run_rules)
  ultimately show ?thesis by blast
qed

definition tracker :: "string \<Rightarrow> host" where
  \<comment> \<open>every ticket has this summary and nothing else; GitLab finds no merge request\<close>
  "tracker title = (\<lambda>_ ev f. (case ev of
     Proc _ _ \<Rightarrow> ExitJ 0 (JObj [(''fields'', JObj [(''summary'', JStr title)])]) []
   | Lib g _ \<Rightarrow> Answer (if g = ''search_gitlab_mrs'' then JList [] else JBool True)
   | _ \<Rightarrow> Exit 0 [] [], f))"

definition one_ticket :: investigate_args where
  "one_ticket = \<lparr>in_show = \<lparr>sh_tickets = [''HUM-1234''], sh_json = True, sh_json_out = None, sh_max_linked = 3,
     sh_title_only = False, sh_title_prefix = [], sh_find_related = False\<rparr>, in_only = True, in_sbom = False\<rparr>"

definition bare_report :: "string \<Rightarrow> bool \<Rightarrow> string \<Rightarrow> ticket_report" where
  "bare_report s emb pkg = \<lparr>ticket = ''HUM-1234'', summary = s, t_status = [], severity = [], assignee = [], ticket_type = [],
     labels = [], fixed_in_build = [], cve_ids = [''CVE-2025-1234''], package_guess = pkg, linked_keys = [], mr_links = [], linked_details = [],
     embargoed = emb, assessment = [], affected_range = [], fixed_version = [], analysis_block = [], description = [], upstream_component = JStr []\<rparr>"

definition only_report :: "ticket_report \<Rightarrow> gathered_tickets" where
  "only_report r = \<lparr>g_reports = [r], g_user_provided = [''HUM-1234''], g_discovered = []\<rparr>"

lemma tracker_dump: "\<exists>w'. fetch_json (tracker t) [] k flds True w =
    (Inr (Some [(''summary'', JStr t)], [(k @ '':'' @ flds, [(''summary'', JStr t)])]), w') \<and> files w' = files w"
  by (simp add: fetch_json_def run_rhjira_json_def run_command_json_def completed_of_def fields_of_def as_dict_def
     numeral_3_eq_3 tracker_def from_sum_def prog_simps)

lemma tracker_gathered:
  assumes "\<And>w. parse_ticket_json ''HUM-1234'' [(''summary'', JStr t)] w = (Inr (bare_report s emb pkg), w)"
  shows "\<exists>w'. gathered_for id (tracker t) one_ticket w = (Inr (only_report (bare_report s emb pkg)), w') \<and> files w' = files w"
proof -
  obtain w1 where "ensure_rhjira_available (tracker t) w = (Inr (), w1)" "files w1 = files w"
    by (simp add: ensure_rhjira_available_def which_def tracker_def whenM_def prog_simps)
  moreover obtain w2 where "fetch_json (tracker t) [] ''HUM-1234'' JIRA_FIELDS_FULL True w1 =
      (Inr (Some [(''summary'', JStr t)], [(''HUM-1234'' @ '':'' @ JIRA_FIELDS_FULL, [(''summary'', JStr t)])]), w2)" "files w2 = files w1"
    using tracker_dump by blast
  moreover have "map_keys [''HUM-1234''] = Inr [''HUM-1234'']" "strip_only_keyword [''HUM-1234''] = Inr ([''HUM-1234''], False)"
    by code_simp+
  ultimately show ?thesis
    by (simp add: gathered_for_def gather_ticket_reports_def one_ticket_def dedup_def batch_fetch_tickets_def only_report_def
      from_sum_def prog_simps fetch_initial_def assms add_linked_def inspect_linked_tickets_def batch_fetch_linked_def bare_report_def)
qed

abbreviation secret :: string where "secret \<equiv> ''EMBARGOED CVE-2025-1234''"

lemma secret_parsed: "parse_ticket_json ''HUM-1234'' [(''summary'', JStr secret)] w = (Inr (bare_report secret True []), w)"
  by code_simp

lemma secret_run: "fst (cmd_investigate id (\<lambda>_. []) (tracker secret) one_ticket blank) = Inr 0"
proof -
  obtain w1 where "gathered_for id (tracker secret) one_ticket blank = (Inr (only_report (bare_report secret True [])), w1)"
    using tracker_gathered[OF secret_parsed] by blast
  moreover obtain w2 where "search_repo_fix_mrs (tracker secret) [''CVE-2025-1234''] w1 = (Inr [], w2)"
    by (simp add: search_repo_fix_mrs_def import_analysis_lib_def search_one_def lib_call_def tracker_def as_list_def prog_simps from_sum_def)
  ultimately show ?thesis
    by (simp add: investigate_parts one_ticket_def probed_for_def probed_packages_def gathered_cves_def dedup_def only_report_def bare_report_def
       prog_simps write_payload_def print_json_def emit_def)
qed

lemma bot_mrs_keep:
  assumes "\<forall>ts ev f. fs_is_file (snd (h ts ev f)) p = fs_is_file f p"
  shows "keeps (\<lambda>w. \<not> fs_is_file (files w) p) (or_error (list_bot_mrs h package n))"
proof -
  let ?I = "\<lambda>w. \<not> fs_is_file (files w) p"
  have ask: "keeps ?I (ask_host h ev)" for ev by (rule keeps_ask_host) (simp add: assms)
  have "keeps ?I (run_skill_command h argv cwd)" for argv cwd
    unfolding run_skill_command_def run_command_json_def by (intro ask prog_rules)
  moreover have "keeps ?I (ensure_glab_available h)"
    unfolding ensure_glab_available_def which_def by (intro ask prog_rules)
  ultimately show ?thesis
    unfolding or_error_def list_bot_mrs_def list_state_def by (intro prog_rules)
qed

lemma probe_without_spec:
  assumes "\<not> fs_is_file (files w) (spec_of p)"
  shows "\<exists>e. fst (bind (from_sum r) (\<lambda>c. bind (probe_spec_deps p c) (k c)) w) = Inl e"
proof (cases r)
  case (Inr c)
  have "\<exists>e. probe_spec_deps p c w = (Inl e, w)"
    using assms by (simp add: probe_spec_deps_def is_file_def prog_simps)
  with Inr show ?thesis by (auto simp: from_sum_def prog_simps)
qed (simp add: from_sum_def prog_simps)

text \<open>A wrong package guess ends \<open>investigate\<close>. When the first package to probe has no spec file, the command returns nothing: no
  recap, no recommendations and no JSON, although a merge request or SBOM probe that fails is only noted in the result.\<close>

lemma missing_spec_ends_investigation:
  assumes "sh_max_linked (in_show a) \<ge> 0" "gathered_for so h a w = (Inr g, w1)" "probed_packages g = package # rest"
    and "\<not> fs_is_file (files w1) (spec_of package)"
    and "\<forall>ts ev f. fs_is_file (snd (h ts ev f)) (spec_of package) = fs_is_file f (spec_of package)"
  shows "\<exists>e. fst (cmd_investigate so text h a w) = Inl e"
proof -
  obtain bot w2 where bot: "or_error (list_bot_mrs h package 5) w1 = (bot, w2)" by fastforce
  have gone: "\<not> fs_is_file (files w2) (spec_of package)"
    using bot_mrs_keep[OF assms(5), of package 5] bot assms(4) unfolding keeps_def by (metis snd_conv)
  have "\<exists>e. fst (probe_package text h (in_sbom a) (g_reports g) package w1) = Inl e"
  proof (cases bot)
    case (Inr b)
    with bot have run: "probe_package text h (in_sbom a) (g_reports g) package w1 = (\<lambda>b. bind (from_sum (as_str (component_of (g_reports g) package)))
      (\<lambda>c. bind (probe_spec_deps package c) (\<lambda>s. bind (if in_sbom a then bind (probe_sbom text h (g_reports g) package c) (\<lambda>x. ret (Some x)) else ret None)
        (\<lambda>m. ret (package, \<lparr>pp_bot = b, pp_spec = s, pp_sbom = m\<rparr>))))) b w2"
      unfolding probe_package_def by (subst bind_run) (simp only: bot prod.case sum.case)
    show ?thesis unfolding run by (rule probe_without_spec[OF gone])
  qed (use bot in \<open>simp add: probe_package_def bind_run\<close>)
  then have "\<exists>e. fst (probed_for text h a g w1) = Inl e"
    by (auto simp: probed_for_def assms(3) bind_run split: prod.splits)
  then show ?thesis
    unfolding investigate_parts[OF assms(1)] by (auto simp: bind_run assms(2) split: prod.splits)
qed

abbreviation guessed :: string where "guessed \<equiv> ''CVE-2025-1234 bash: overflow''"

lemma guessed_parsed: "parse_ticket_json ''HUM-1234'' [(''summary'', JStr guessed)] w = (Inr (bare_report guessed False ''bash''), w)"
  by code_simp

end
