(* ===== verification/Bundled_Block.thy ===== *)
theory Bundled_Block
  imports Host_Calls "HOL-Library.Product_Lexorder"
begin

section \<open>Bundled Provides: versions, archives and the generated block\<close>

text \<open>
  What the generators \<open>rpms/*/generate-bundled-npm-provides.py\<close> and \<open>rpms/maven3.9/generate-bundled-maven-provides.py\<close>
  share: npm versions in RPM syntax, the members of a source archive, and the block of a spec file between two marker
  lines. Reading a tar archive is a question \<open>Lib ''tarfile.open''\<close>, answered by the members in order, a name with its
  text (no text for a member that is no file). The record \<open>gen_env\<close> holds \<open>yaml.safe_load\<close>, \<open>json.loads\<close>,
  \<open>ast.literal_eval\<close>, the reading of a \<open>re\<close> replacement that contains a backslash, and SHA-256.
\<close>

record gen_env =
  yaml_text :: "string \<Rightarrow> exn + json"
  json_text :: "string \<Rightarrow> exn + json"
  literal_text :: "string \<Rightarrow> exn + json"
  escaped_text :: "string \<Rightarrow> exn + string"
  sha256 :: "string \<Rightarrow> string"

subsection \<open>Versions\<close>

definition VERSION_SEPARATORS :: string where "VERSION_SEPARATORS = ''._+~''"

fun collapse :: "string \<Rightarrow> string" where
  \<comment> \<open>\<open>re.sub(r"([._+~])\1+", r"\1", s)\<close>\<close>
  "collapse (c # d # s) = (if c = d \<and> c \<in> set VERSION_SEPARATORS then collapse (d # s) else c # collapse (d # s))"
| "collapse s = s"

definition rpm_version :: "string \<Rightarrow> string" where
  "rpm_version version = collapse (case split_at_str ''-'' version of
     None \<Rightarrow> version
   | Some (base, prerelease) \<Rightarrow> base @ ''~'' @
       replace_all ''-'' ''.'' (dropWhile (\<lambda>c. c \<in> set (CHR ''-'' # VERSION_SEPARATORS)) prerelease))"

definition npm_line :: "string \<times> string \<Rightarrow> string" where
  "npm_line p = ''Provides:       bundled(npm('' @ fst p @ '')) = '' @ rpm_version (snd p)"

definition is_version_arg :: "string \<Rightarrow> bool" where
  \<comment> \<open>\<open>re.fullmatch(r"[0-9][0-9A-Za-z.+-]*", s)\<close>\<close>
  "is_version_arg s = (case s of [] \<Rightarrow> False
     | c # cs \<Rightarrow> is_digit c \<and> list_all (\<lambda>c. is_digit c \<or> is_alpha c \<or> c \<in> set ''.+-'') cs)"

definition version_arg :: "string \<Rightarrow> string list \<Rightarrow> string prog" where
  "version_arg script argv = (case argv of
     [v] \<Rightarrow> if is_version_arg v then ret v else sys_exit (''usage: '' @ script @ '' VERSION'')
   | _ \<Rightarrow> sys_exit (''usage: '' @ script @ '' VERSION''))"

subsection \<open>Archives and lock files\<close>

definition open_archive :: "host \<Rightarrow> path \<Rightarrow> dict prog" where
  "open_archive h p = (bind (ask_host h (Lib ''tarfile.open'' [path_str p])) (\<lambda>r.
    (case r of Answer (JObj members) \<Rightarrow> ret members | _ \<Rightarrow> raise (FileNotFoundError (path_str p)))))"

definition read_member :: "string \<times> json \<Rightarrow> exn + string" where
  "read_member m = (case snd m of JStr s \<Rightarrow> Inr s | _ \<Rightarrow> Inl (ValueError (''could not read '' @ fst m)))"

definition get_member :: "dict \<Rightarrow> string \<Rightarrow> exn + string \<times> json" where
  \<comment> \<open>\<open>source.getmember(name)\<close>: the last of that name\<close>
  "get_member members name = (case List.find (\<lambda>m. fst m = name) (rev members) of
     Some m \<Rightarrow> Inr m | None \<Rightarrow> Inl (KeyError (''filename '' @ name @ '' not found'')))"

definition get_default :: "dict \<Rightarrow> string \<Rightarrow> json \<Rightarrow> json" where
  \<comment> \<open>\<open>d.get(k, default)\<close>\<close>
  "get_default d k v = (case dget d k of Some x \<Rightarrow> x | None \<Rightarrow> v)"

definition DEPENDENCY_SECTIONS :: "string list" where
  "DEPENDENCY_SECTIONS = [''dependencies'', ''optionalDependencies'']"

definition dependencies :: "json \<Rightarrow> exn + (string \<times> json) list" where
  "dependencies package = (case as_dict package of Inl e \<Rightarrow> Inl e
     | Inr d \<Rightarrow> concat_sum (\<lambda>section. as_dict (get_default d section (JObj []))) DEPENDENCY_SECTIONS)"

definition spec_between :: "path \<Rightarrow> string \<Rightarrow> string list prog" where
  \<comment> \<open>\<open>package_dir.glob(prefix + '*.spec')\<close>\<close>
  "spec_between package_dir prefix = (bind (iterdir package_dir) (\<lambda>ns.
    ret (filter (\<lambda>n. startswith n prefix \<and> endswith (removeprefix n prefix) ''.spec'') ns)))"

subsection \<open>The generated block\<close>

definition body_end :: "string \<Rightarrow> nat \<Rightarrow> string \<Rightarrow> nat option" where
  \<comment> \<open>the length, at least \<open>k\<close>, of the shortest text before \<open>stop\<close>\<close>
  "body_end stop k a = List.find (\<lambda>i. startswith (drop i a) stop) [k..<Suc (length a)]"

lemma body_end_Some:
  "body_end stop k a = Some i \<Longrightarrow> k \<le> i \<and> i \<le> length a \<and> startswith (drop i a) stop \<and> (\<forall>j. k \<le> j \<longrightarrow> j < i \<longrightarrow> \<not> startswith (drop j a) stop)"
proof -
  assume "body_end stop k a = Some i"
  then obtain d where d: "d < Suc (length a) - k" "startswith (drop (k + d) a) stop" "\<forall>e < d. \<not> startswith (drop (k + e) a) stop" "i = k + d"
    by (auto simp: body_end_def find_Some_iff simp del: upt_Suc)
  have "\<not> startswith (drop j a) stop" if "k \<le> j" "j < i" for j
    using d(3,4) that by (auto dest: spec[of _ "j - k"])
  with d show ?thesis by auto
qed

lemma body_end_least:
  assumes "k \<le> i" "i \<le> length a" "startswith (drop i a) stop" "\<And>j. k \<le> j \<Longrightarrow> j < i \<Longrightarrow> \<not> startswith (drop j a) stop"
  shows "body_end stop k a = Some i"
  unfolding body_end_def find_Some_iff using assms by (intro exI[of _ "i - k"]) (auto simp: nth_append simp del: upt_Suc)

lemma body_end_ex: "k \<le> i \<Longrightarrow> i \<le> length a \<Longrightarrow> startswith (drop i a) stop \<Longrightarrow> body_end stop k a \<noteq> None"
  by (auto simp: body_end_def find_None_iff intro: exI[of _ i] simp del: upt_Suc)

function block_subn :: "string \<Rightarrow> string \<Rightarrow> string \<Rightarrow> bool \<Rightarrow> string \<Rightarrow> string \<Rightarrow> string \<times> nat" where
  \<comment> \<open>\<open>re.compile(rf"(?<={start}).*?(?={stop})", re.DOTALL).subn(new, text)\<close>: the text ahead with the replacements, and
     their number. \<open>b\<close> is the text passed, reversed. After an empty match the next one at the same place must not be empty.\<close>
  "block_subn start stop new advance b a =
     (case (if endswith (rev b) start then body_end stop (if advance then 1 else 0) a else None) of
        Some i \<Rightarrow> (case block_subn start stop new (i = 0) (rev (take i a) @ b) (drop i a) of (t, n) \<Rightarrow> (new @ t, Suc n))
      | None \<Rightarrow> (case a of [] \<Rightarrow> ([], 0)
          | c # a' \<Rightarrow> (case block_subn start stop new False (c # b) a' of (t, n) \<Rightarrow> (c # t, n))))"
  by pat_completeness auto
termination
  by (relation "measure (\<lambda>(_, _, _, advance, _, a). 2 * length a + (if advance then 0 else 1))")
    (auto dest!: body_end_Some split: if_splits)

declare block_subn.simps [simp del]

definition sub_text :: "gen_env \<Rightarrow> string \<Rightarrow> exn + string" where
  \<comment> \<open>what a replacement stands for\<close>
  "sub_text ge s = (if CHR 0x5C \<in> set s then escaped_text ge s else Inr s)"

definition refresh_block :: "gen_env \<Rightarrow> path \<Rightarrow> string \<Rightarrow> string \<Rightarrow> string list \<Rightarrow> nat \<Rightarrow> string \<Rightarrow> unit prog" where
  "refresh_block ge spec begin_mark end_mark generated number kind = (bind (read_text spec) (\<lambda>t.
    bind (from_sum (sub_text ge (join [nl] generated @ [nl]))) (\<lambda>new.
    let (updated, n) = block_subn (begin_mark @ [nl]) end_mark new False [] t in
    if n \<noteq> 1 then (sys_exit (path_str spec @ '': expected exactly one generated block'')) else
    seq (write_text spec updated) (
    emit (Print (''wrote '' @ show_nat number @ '' bundled '' @ kind @ '' Provides to '' @ last spec))))))"

definition BEGIN_NPM :: string where "BEGIN_NPM = ''# BEGIN generated bundled npm Provides''"
definition END_NPM :: string where "END_NPM = ''# END generated bundled npm Provides''"

subsection \<open>What a refresh changes\<close>

lemma subn_skip:
  assumes "\<And>p1 p2. p = p1 @ p2 \<Longrightarrow> p2 \<noteq> [] \<Longrightarrow> \<not> endswith (rev b @ p1) start"
  shows "block_subn start stop new advance b (p @ q) =
    (case block_subn start stop new (p = [] \<and> advance) (rev p @ b) q of (t, n) \<Rightarrow> (p @ t, n))"
  using assms
proof (induction p arbitrary: b advance)
  case (Cons c p)
  have "\<not> endswith (rev b) start" using Cons.prems[of "[]" "c # p"] by simp
  moreover have "block_subn start stop new False (c # b) (p @ q) =
      (case block_subn start stop new False (rev p @ c # b) q of (t, n) \<Rightarrow> (p @ t, n))"
    using Cons.IH[of "c # b" False] Cons.prems by simp
  ultimately show ?case by (subst block_subn.simps) (simp split: prod.splits)
qed simp

lemma subn_none:
  "block_subn start stop new advance b a = (t, 0) \<Longrightarrow> t = a \<and>
     (\<forall>p q. a = p @ q \<longrightarrow> endswith (rev b @ p) start \<longrightarrow> body_end stop (if p = [] \<and> advance then 1 else 0) q = None)"
proof (induction a arbitrary: t b advance)
  case Nil
  then show ?case by (subst (asm) block_subn.simps) (auto split: option.splits prod.splits if_splits)
next
  case (Cons c a)
  let ?here = "if endswith (rev b) start then body_end stop (if advance then 1 else 0) (c # a) else None"
  have here: "?here = None" and rest: "\<exists>u. block_subn start stop new False (c # b) a = (u, 0) \<and> t = c # u"
    using Cons.prems by (subst (asm) block_subn.simps; auto split: option.splits prod.splits)+
  then obtain u where u: "block_subn start stop new False (c # b) a = (u, 0)" "t = c # u" by blast
  from Cons.IH[OF u(1)] have "u = a" and later: "\<And>p q. a = p @ q \<Longrightarrow> endswith (rev (c # b) @ p) start \<Longrightarrow> body_end stop 0 q = None"
    by simp_all
  have "body_end stop (if p = [] \<and> advance then 1 else 0) q = None" if "c # a = p @ q" "endswith (rev b @ p) start" for p q
  proof (cases p)
    case Nil
    with that here show ?thesis by (simp split: if_splits)
  next
    case (Cons d p')
    with that later[of p' q] show ?thesis by simp
  qed
  with u \<open>u = a\<close> show ?case by blast
qed

lemma subn_once:
  "block_subn start stop new False b a = (t, Suc 0) \<Longrightarrow> \<exists>p body q. a = p @ body @ q \<and> t = p @ new @ q \<and>
     endswith (rev b @ p) start \<and> startswith q stop \<and> (\<forall>p1 p2. p = p1 @ p2 \<longrightarrow> p2 \<noteq> [] \<longrightarrow> \<not> endswith (rev b @ p1) start) \<and>
     block_subn start stop new (body = []) (rev (p @ body) @ b) q = (q, 0)"
proof (induction a arbitrary: t b)
  case Nil
  then obtain i where i: "endswith (rev b) start" "body_end stop 0 [] = Some i" "block_subn start stop new (i = 0) (rev (take i []) @ b) [] = ([], 0)" "t = new"
    by (subst (asm) block_subn.simps) (auto split: option.splits prod.splits if_splits dest: subn_none)
  with body_end_Some[OF i(2)] show ?case by (intro exI[of _ "[]"]) simp
next
  case (Cons c a)
  show ?case
  proof (cases "if endswith (rev b) start then body_end stop 0 (c # a) else None")
    case (Some i)
    then have s: "endswith (rev b) start" and i: "body_end stop 0 (c # a) = Some i" by (simp_all split: if_splits)
    obtain u where "block_subn start stop new (i = 0) (rev (take i (c # a)) @ b) (drop i (c # a)) = (u, 0)" "t = new @ u"
      using Cons.prems s i by (auto simp: block_subn.simps[of start stop new False b "c # a"] split: prod.splits)
    with subn_none[OF this(1)] s body_end_Some[OF i] show ?thesis
      by (intro exI[of _ "[]"] exI[of _ "take i (c # a)"] exI[of _ "drop i (c # a)"]) (auto simp: take_eq_Nil)
  next
    case None
    then obtain u where u: "block_subn start stop new False (c # b) a = (u, Suc 0)" "t = c # u"
      using Cons.prems None by (auto simp: block_subn.simps[of start stop new False b "c # a"] split: prod.splits if_splits)
    from Cons.IH[OF u(1)] obtain p body q where IH: "a = p @ body @ q" "u = p @ new @ q" "endswith (rev (c # b) @ p) start" "startswith q stop"
      "\<forall>p1 p2. p = p1 @ p2 \<longrightarrow> p2 \<noteq> [] \<longrightarrow> \<not> endswith (rev (c # b) @ p1) start"
      "block_subn start stop new (body = []) (rev (p @ body) @ c # b) q = (q, 0)" by blast
    have "body_end stop 0 (c # a) \<noteq> None"
      using body_end_ex[of 0 "length (c # p @ body)" "c # a" stop] IH(1,4) by simp
    with None have "\<not> endswith (rev b) start" by (auto split: if_splits)
    with IH u show ?thesis
      by (intro exI[of _ "c # p"] exI[of _ body] exI[of _ q]) (auto simp: Cons_eq_append_conv)
  qed
qed

lemma subn_no_hit:
  assumes "\<And>p q. a = p @ q \<Longrightarrow> endswith (rev b @ p) start \<Longrightarrow> body_end stop 0 q = None"
  shows "block_subn start stop new False b a = (a, 0)"
  using assms
proof (induction a arbitrary: b)
  case Nil
  then show ?case by (simp add: block_subn.simps[of start stop new False b "[]"])
next
  case (Cons c a)
  have "block_subn start stop new False (c # b) a = (a, 0)"
    using Cons.prems[of "c # p" q for p q] by (intro Cons.IH) simp
  with Cons.prems[of "[]" "c # a"] show ?case by (simp add: block_subn.simps[of start stop new False b "c # a"])
qed

text \<open>A refresh that finds one block replaces what is between the markers and nothing else; and when the generated text holds no
  character that starts a marker, refreshing again changes nothing.\<close>

lemma endswith_longer: "length p \<le> length q \<Longrightarrow> endswith (x @ q) p \<Longrightarrow> endswith q p"
  unfolding endswith_iff append_eq_append_conv2 by fastforce

lemma subn_stable:
  assumes "block_subn start stop new False [] a = (t, 1)" "start = c # s" "stop = c # e" "c \<notin> set s" "c \<notin> set new" "new \<noteq> []"
  shows "block_subn start stop new False [] t = (t, 1)"
proof -
  from subn_once[OF assms(1)[unfolded One_nat_def]] obtain p body q where a: "a = p @ body @ q" and t: "t = p @ new @ q"
    and p: "endswith p start" and q: "startswith q stop" and before: "\<And>p1 p2. p = p1 @ p2 \<Longrightarrow> p2 \<noteq> [] \<Longrightarrow> \<not> endswith p1 start"
    and tail: "block_subn start stop new (body = []) (rev (p @ body)) q = (q, 0)"
    by auto
  have none: "body_end stop 0 q2 = None" if "q = q1 @ q2" "q1 \<noteq> []" "endswith ((p @ body) @ q1) start" for q1 q2
    using subn_none[OF tail, THEN conjunct2, rule_format, of q1 q2] that by simp
  have behind: "length q1 \<ge> length start" if "endswith ((p @ new) @ q1) start" for q1
  proof (rule ccontr)
    assume "\<not> ?thesis"
    then have short: "length q1 < length start" by simp
    from that obtain x where "(p @ new) @ q1 = x @ start" unfolding endswith_iff by blast
    with short obtain u where u: "p @ new = x @ u" "start = u @ q1" unfolding append_eq_append_conv2 by auto
    with short have "u \<noteq> []" by auto
    with u have hd_u: "hd u = c" using assms(2) by (cases u) auto
    from u(1) consider v where "new = v @ u" | v where "p = x @ v" "u = v @ new" "v \<noteq> []"
      by (metis append_Nil append_eq_append_conv2)
    then show False
    proof cases
      case 1
      then have "hd u \<in> set new" using \<open>u \<noteq> []\<close> by auto
      with hd_u assms(5) show False by simp
    next
      case 2
      from p obtain y where "p = y @ start" by (auto simp: endswith_iff)
      with 2 have "y @ start = x @ v" by simp
      moreover have "length v < length start" using u(2) 2(2) assms(6) by simp
      ultimately obtain z where "start = z @ v" "z \<noteq> []"
        by (metis append_Nil append_eq_append_conv2 length_append not_add_less2)
      with assms(2) 2(3) have "hd v \<in> set s" by (cases z) auto
      moreover have "hd v = c" using hd_u 2 by simp
      ultimately show False using assms(4) by simp
    qed
  qed
  have rest: "block_subn start stop new False (rev (p @ new)) q = (q, 0)"
  proof (rule subn_no_hit)
    fix q1 q2 assume q': "q = q1 @ q2" "endswith (rev (rev (p @ new)) @ q1) start"
    then have hit: "endswith ((p @ new) @ q1) start" by simp
    from endswith_longer[OF behind[OF this] hit] have "endswith q1 start" "q1 \<noteq> []"
      using assms(2) by (auto simp: endswith_iff)
    with none[OF q'(1)] show "body_end stop 0 q2 = None" by (auto simp: endswith_iff)
  qed
  have "body_end stop 0 (new @ q) = Some (length new)"
  proof (rule body_end_least)
    fix j assume j: "j < length new"
    show "\<not> startswith (drop j (new @ q)) stop"
    proof
      assume "startswith (drop j (new @ q)) stop"
      with assms(3) obtain r where "drop j (new @ q) = c # r" by (auto simp: startswith_iff)
      then have "(new @ q) ! j = c" using j by (metis hd_drop_conv_nth length_append list.sel(1) trans_less_add1)
      with j assms(5) show False by (metis nth_append nth_mem)
    qed
  qed (use q in simp_all)
  with p rest have "block_subn start stop new False (rev p) (new @ q) = (new @ q, 1)"
    using assms(6) by (simp add: block_subn.simps[of start stop new False "rev p" "new @ q"])
  with subn_skip[of p "[]" start stop new False "new @ q"] before show ?thesis by (simp add: t)
qed

subsection \<open>Versions without dashes\<close>

lemma collapse_set: "set (collapse s) \<subseteq> set s"
  by (induction s rule: collapse.induct) auto

lemma collapse_hd: "s \<noteq> [] \<Longrightarrow> collapse s \<noteq> [] \<and> hd (collapse s) = hd s"
  by (induction s rule: collapse.induct) auto

lemma collapse_again: "collapse (collapse s) = collapse s"
proof (induction s rule: collapse.induct)
  case (1 c d s)
  show ?case
  proof (cases "c = d \<and> c \<in> set VERSION_SEPARATORS")
    case False
    from collapse_hd[of "d # s"] obtain r where r: "collapse (d # s) = d # r" by (cases "collapse (d # s)") auto
    with False 1 show ?thesis by auto
  qed (use 1 in auto)
qed simp_all

lemma dash_replaced: "CHR ''-'' \<notin> set (replace_all ''-'' ''.'' s)"
proof (induction s rule: length_induct)
  case (1 s)
  then have "CHR ''-'' \<notin> set (replace_all ''-'' ''.'' (tl s))" if "s \<noteq> []" using that by simp
  then show ?case by (subst replace_all.simps) (auto simp: startswith_def drop_Suc neq_Nil_conv)
qed

text \<open>An npm version becomes an RPM version. The result holds no dash, which RPM does not allow in a version, and translating
  it again changes nothing.\<close>

lemma rpm_version_translated: "CHR ''-'' \<notin> set (rpm_version v) \<and> rpm_version (rpm_version v) = rpm_version v"
proof -
  have none: "CHR ''-'' \<notin> set s \<Longrightarrow> split_at_str ''-'' s = None" for s
    by (induction s) (auto simp: startswith_def)
  have first: "split_at_str ''-'' s = Some (a, b) \<Longrightarrow> CHR ''-'' \<notin> set a" for s a b
    by (induction s arbitrary: a) (auto simp: startswith_def split: if_splits)
  have missing: "split_at_str ''-'' s = None \<Longrightarrow> CHR ''-'' \<notin> set s" for s
    by (induction s) (auto simp: startswith_def split: if_splits)
  have "CHR ''-'' \<notin> set (rpm_version v)"
  proof (cases "split_at_str ''-'' v")
    case None
    with missing collapse_set[of v] show ?thesis by (auto simp: rpm_version_def)
  next
    case (Some p)
    obtain a b where p: "p = (a, b)" by (cases p)
    let ?pre = "replace_all ''-'' ''.'' (dropWhile (\<lambda>c. c \<in> set (CHR ''-'' # VERSION_SEPARATORS)) b)"
    have "CHR ''-'' \<notin> set (a @ ''~'' @ ?pre)" using first Some p dash_replaced by simp
    then have "CHR ''-'' \<notin> set (collapse (a @ ''~'' @ ?pre))" using collapse_set by blast
    with Some p show ?thesis by (simp add: rpm_version_def)
  qed
  moreover have "rpm_version (rpm_version v) = rpm_version v" if "CHR ''-'' \<notin> set (rpm_version v)"
    using none[OF that] by (simp add: rpm_version_def collapse_again)
  ultimately show ?thesis by blast
qed

subsection \<open>Refreshing a spec file\<close>

lemma join_chars: "c \<in> set (join s xs) \<Longrightarrow> c \<in> set s \<or> (\<exists>x \<in> set xs. c \<in> set x)"
  by (induction s xs rule: join.induct) auto

lemma refresh_run:
  assumes "refresh_block ge spec b e generated n kind w = (Inr (), w')" "\<forall>l \<in> set generated. CHR 0x5C \<notin> set l"
  obtains t u where "map_of (files w) spec = Some (FileN t)" "block_subn (b @ [nl]) e (join [nl] generated @ [nl]) False [] t = (u, 1)"
    "map_of (files w') = (map_of (files w))(spec \<mapsto> FileN u)"
proof -
  have "sub_text ge (join [nl] generated @ [nl]) = Inr (join [nl] generated @ [nl])"
    using assms(2) join_chars[of "CHR 0x5C" "[nl]" generated] by (auto simp: sub_text_def)
  with assms(1) obtain t u where "read_text spec w = (Inr t, w)" "block_subn (b @ [nl]) e (join [nl] generated @ [nl]) False [] t = (u, 1)"
    "files w' = fs_write spec (FileN u) (files w)"
    by (auto simp: refresh_block_def bind_run from_sum_def read_text_def write_text_def write_node_def emit_def sys_exit_def prog_simps
      split: prod.splits option.splits node.splits if_splits)
  moreover from this(1) have "map_of (files w) spec = Some (FileN t)"
    by (auto simp: read_text_def split: option.splits node.splits)
  ultimately show ?thesis by (intro that) (auto simp: fun_eq_iff)
qed

lemma refresh_again:
  assumes "map_of (files w) spec = Some (FileN u)" "block_subn (b @ [nl]) e (join [nl] generated @ [nl]) False [] u = (u, 1)"
    and "\<forall>l \<in> set generated. CHR 0x5C \<notin> set l"
  shows "\<exists>w'. refresh_block ge spec b e generated n kind w = (Inr (), w') \<and> map_of (files w') = map_of (files w)"
proof -
  have "sub_text ge (join [nl] generated @ [nl]) = Inr (join [nl] generated @ [nl])"
    using assms(3) join_chars[of "CHR 0x5C" "[nl]" generated] by (auto simp: sub_text_def)
  with assms(1,2) show ?thesis
    by (auto simp: refresh_block_def bind_run from_sum_def read_text_def write_text_def write_node_def emit_def prog_simps fun_eq_iff)
qed

text \<open>C22: Refreshing touches only the generated block, and is stable. When a refresh succeeds, the spec file had the markers, the
  text before, between and after them; only the text between was replaced, no other file changed, and a second refresh with the
  same lines succeeds and changes nothing. (The lines hold no hash sign and no backslash.)\<close>

theorem refresh_stable:
  assumes "refresh_block ge spec b e generated n kind w = (Inr (), w')" "b = CHR 0x23 # b'" "e = CHR 0x23 # e'" "CHR 0x23 \<notin> set b'"
    and "\<forall>l \<in> set generated. CHR 0x23 \<notin> set l \<and> CHR 0x5C \<notin> set l"
  shows "(\<exists>pre body post. map_of (files w) spec = Some (FileN (pre @ b @ [nl] @ body @ e @ post)) \<and>
      map_of (files w') = (map_of (files w))(spec \<mapsto> FileN (pre @ b @ [nl] @ join [nl] generated @ [nl] @ e @ post))) \<and>
    (\<exists>w''. refresh_block ge spec b e generated n kind w' = (Inr (), w'') \<and> map_of (files w'') = map_of (files w'))"
proof -
  let ?new = "join [nl] generated @ [nl]"
  from assms(1,5) obtain t u where t: "map_of (files w) spec = Some (FileN t)" and u: "block_subn (b @ [nl]) e ?new False [] t = (u, 1)"
    and w': "map_of (files w') = (map_of (files w))(spec \<mapsto> FileN u)"
    by (elim refresh_run) auto
  from subn_once[OF u[unfolded One_nat_def]] obtain p body q where "t = p @ body @ q" "u = p @ ?new @ q" "endswith p (b @ [nl])" "startswith q e"
    by auto
  then obtain pre post where tu: "t = pre @ b @ [nl] @ body @ e @ post" "u = pre @ b @ [nl] @ ?new @ e @ post"
    by (auto simp: endswith_iff startswith_iff)
  have "CHR 0x23 \<notin> set ?new" using assms(5) join_chars[of "CHR 0x23" "[nl]" generated] by auto
  then have "block_subn (b @ [nl]) e ?new False [] u = (u, 1)"
    using assms(2-4) by (intro subn_stable[OF u, where c = "CHR 0x23" and s = "b' @ [nl]" and e = e']) simp_all
  with refresh_again[of w' spec u b e generated ge n kind] w' assms(5) t tu show ?thesis by simp blast
qed

definition npm_env :: gen_env where
  "npm_env = \<lparr>yaml_text = (\<lambda>_. Inr JNull), json_text = (\<lambda>_. Inr JNull), literal_text = (\<lambda>_. Inr JNull), escaped_text = Inr, sha256 = id\<rparr>"

definition spec_world :: world where
  "spec_world = blank\<lparr>files := [([''x.spec''], FileN (''Name: x'' @ [nl] @ BEGIN_NPM @ [nl] @ ''old'' @ [nl] @ END_NPM @ [nl]))]\<rparr>"

theorem refresh_stable_witness:
  "\<exists>w''. refresh_block npm_env [''x.spec''] BEGIN_NPM END_NPM [''Provides: y = 1''] 1 ''npm''
      (snd (refresh_block npm_env [''x.spec''] BEGIN_NPM END_NPM [''Provides: y = 1''] 1 ''npm'' spec_world)) = (Inr (), w'') \<and>
    map_of (files w'') = map_of (files (snd (refresh_block npm_env [''x.spec''] BEGIN_NPM END_NPM [''Provides: y = 1''] 1 ''npm'' spec_world)))"
proof -
  let ?r = "refresh_block npm_env [''x.spec''] BEGIN_NPM END_NPM [''Provides: y = 1''] 1 ''npm''"
  have "?r spec_world = (Inr (), snd (?r spec_world))" by (rule prod_eqI, code_simp, simp)
  from refresh_stable[OF this, THEN conjunct2] show ?thesis by (simp add: BEGIN_NPM_def END_NPM_def)
qed

end
