(* ===== verification/Worklist.thy ===== *)
theory Worklist
  imports Main
begin

section \<open>Closure with a stack\<close>

text \<open>
  The loop \<open>while queue: q = queue.pop(); if key in visited: continue; visited.add(key); \<dots>; queue.extend(\<dots>)\<close>, which the
  generators of bundled Provides share. \<open>key q\<close> is what is remembered of an entry, \<open>expand q\<close> gives the entries it adds
  and its output; both may fail, which ends the loop. The stack is a list with its top first. \<open>None\<close> is a loop that does
  not end; \<open>drain_ends\<close> excludes it under the assumptions of \<open>worklist\<close>, and \<open>drain_exact\<close> says that the loop computes the
  entries that can be reached.
\<close>

partial_function (option) drain ::
  "('q \<Rightarrow> 'e + 'k) \<Rightarrow> ('q \<Rightarrow> 'e + 'q list \<times> 'o list) \<Rightarrow> 'q list \<Rightarrow> 'k list \<Rightarrow> 'o list \<Rightarrow> ('e + 'o list) option" where
  "drain key expand queue visited out = (case queue of
     [] \<Rightarrow> Some (Inr out)
   | q # rest \<Rightarrow> (case key q of
       Inl e \<Rightarrow> Some (Inl e)
     | Inr k \<Rightarrow> (if k \<in> set visited then drain key expand rest visited out
         else (case expand q of
           Inl e \<Rightarrow> Some (Inl e)
         | Inr (next, new) \<Rightarrow> drain key expand (rev next @ rest) (k # visited) (out @ new)))))"

lemma drain_simps [simp, code]:
  "drain key expand [] visited out = Some (Inr out)"
  "drain key expand (q # rest) visited out = (case key q of
     Inl e \<Rightarrow> Some (Inl e)
   | Inr k \<Rightarrow> (if k \<in> set visited then drain key expand rest visited out
       else (case expand q of
         Inl e \<Rightarrow> Some (Inl e)
       | Inr (next, new) \<Rightarrow> drain key expand (rev next @ rest) (k # visited) (out @ new))))"
  by (simp_all add: drain.simps)

inductive reached :: "('q \<Rightarrow> 'e + 'q list \<times> 'o list) \<Rightarrow> 'q set \<Rightarrow> 'q \<Rightarrow> bool" for expand roots where
  root: "q \<in> roots \<Longrightarrow> reached expand roots q"
| succ: "reached expand roots q \<Longrightarrow> expand q = Inr (next, new) \<Longrightarrow> q' \<in> set next \<Longrightarrow> reached expand roots q'"

locale worklist =
  fixes key :: "'q \<Rightarrow> 'e + 'k" and expand :: "'q \<Rightarrow> 'e + 'q list \<times> 'o list" and entries :: "'q set" and universe :: "'k set"
  assumes finite_universe: "finite universe"
    and key_in: "q \<in> entries \<Longrightarrow> key q = Inr k \<Longrightarrow> expand q = Inr x \<Longrightarrow> k \<in> universe"
    and next_in: "q \<in> entries \<Longrightarrow> expand q = Inr (next, new) \<Longrightarrow> set next \<subseteq> entries"
begin

lemma drain_ends: "set queue \<subseteq> entries \<Longrightarrow> \<exists>r. drain key expand queue visited out = Some r"
proof (induction "(universe - set visited, queue)" arbitrary: queue visited out
    rule: wf_induct_rule[OF wf_lex_prod[OF wf_finite_psubset wf_measure[of length]]])
  case 1
  show ?case
  proof (cases queue)
    case (Cons q rest)
    show ?thesis
    proof (cases "key q")
      case (Inr k)
      show ?thesis
      proof (cases "k \<in> set visited")
        case True
        with 1 Cons Inr show ?thesis by auto
      next
        case new: False
        show ?thesis
        proof (cases "expand q")
          case x: (Inr p)
          obtain nxt new where p: "p = (nxt, new)" by (cases p)
          have q: "q \<in> entries" using 1(2) Cons by simp
          then have "k \<in> universe" by (rule key_in) (use Inr x in auto)
          then have "universe - set (k # visited) \<subset> universe - set visited" using new by auto
          then have "\<exists>r. drain key expand (rev nxt @ rest) (k # visited) (out @ new) = Some r"
            using 1(2) Cons next_in[OF q] x p finite_universe by (intro 1(1)) auto
          with Cons Inr new x p show ?thesis by simp
        qed (use Cons Inr new in simp)
      qed
    qed (use Cons in simp)
  qed simp
qed

end

definition covered :: "('q \<Rightarrow> 'e + 'k) \<Rightarrow> 'q list \<Rightarrow> 'k list \<Rightarrow> 'q \<Rightarrow> bool" where
  "covered key queue visited q \<longleftrightarrow> q \<in> set queue \<or> (\<exists>k \<in> set visited. key q = Inr k)"

text \<open>What holds between the rounds: the queue is reached, the roots and the successors of what was expanded are covered, and
  the output is that of the entries expanded.\<close>

definition drain_inv :: "('q \<Rightarrow> 'e + 'k) \<Rightarrow> ('q \<Rightarrow> 'e + 'q list \<times> 'o list) \<Rightarrow> 'q set \<Rightarrow> 'q list \<Rightarrow> 'k list \<Rightarrow> 'o list \<Rightarrow> bool" where
  "drain_inv key expand roots queue visited out \<longleftrightarrow>
     (\<forall>q \<in> set queue. reached expand roots q) \<and> (\<forall>q \<in> roots. covered key queue visited q) \<and>
     (\<forall>k \<in> set visited. \<exists>q next new. reached expand roots q \<and> key q = Inr k \<and> expand q = Inr (next, new) \<and>
        (\<forall>q' \<in> set next. covered key queue visited q') \<and> set new \<subseteq> set out) \<and>
     (\<forall>x \<in> set out. \<exists>q next new. reached expand roots q \<and> expand q = Inr (next, new) \<and> x \<in> set new)"

lemma drain_inv_start: "drain_inv key expand (set queue) queue [] []"
  by (simp add: drain_inv_def covered_def root)

lemma drain_inv_skip:
  assumes "drain_inv key expand roots (q # rest) visited out" "key q = Inr k" "k \<in> set visited"
  shows "drain_inv key expand roots rest visited out"
proof -
  have "covered key rest visited x" if "covered key (q # rest) visited x" for x
    using that assms(2,3) by (auto simp: covered_def)
  with assms(1) show ?thesis unfolding drain_inv_def by (meson list.set_intros(2))
qed

lemma drain_inv_expand:
  assumes inv: "drain_inv key expand roots (q # rest) visited out" and q: "key q = Inr k" "expand q = Inr (next, new)"
  shows "drain_inv key expand roots (rev next @ rest) (k # visited) (out @ new)"
proof -
  let ?c = "covered key (rev next @ rest) (k # visited)"
  have more: "?c x" if "covered key (q # rest) visited x" for x
    using that q(1) by (auto simp: covered_def)
  have r: "reached expand roots q" using inv by (simp add: drain_inv_def)
  have "\<forall>x \<in> set (rev next @ rest). reached expand roots x"
    using inv succ[OF r q(2)] by (auto simp: drain_inv_def)
  moreover have "\<forall>x \<in> roots. ?c x" using inv more by (auto simp: drain_inv_def)
  moreover have "\<exists>q next new. reached expand roots q \<and> key q = Inr j \<and> expand q = Inr (next, new) \<and> (\<forall>q' \<in> set next. ?c q') \<and> set new \<subseteq> set (out @ fresh)"
    if "j \<in> set (k # visited)" "fresh = new" for j fresh
  proof (cases "j = k")
    case True
    with r q that(2) show ?thesis by (intro exI[of _ q] exI[of _ "next"] exI[of _ new]) (auto simp: covered_def)
  next
    case False
    with that inv obtain q' n m where "reached expand roots q'" "key q' = Inr j" "expand q' = Inr (n, m)"
      "\<forall>x \<in> set n. covered key (q # rest) visited x" "set m \<subseteq> set out"
      unfolding drain_inv_def by auto
    with more show ?thesis by (intro exI[of _ q'] exI[of _ n] exI[of _ m]) auto
  qed
  moreover have "\<exists>q next new. reached expand roots q \<and> expand q = Inr (next, new) \<and> x \<in> set new" if "x \<in> set (out @ new)" for x
    using that inv r q unfolding drain_inv_def by auto
  ultimately show ?thesis by (simp only: drain_inv_def ball_simps) blast
qed

lemma drain_inv_drain:
  fixes key :: "'q \<Rightarrow> 'e + 'k" and expand :: "'q \<Rightarrow> 'e + 'q list \<times> 'o list"
  assumes "drain key expand queue visited out = Some (Inr res)" "drain_inv key expand roots queue visited out"
  shows "\<exists>v. drain_inv key expand roots [] v res"
proof -
  let ?P = "\<lambda>(key :: 'q \<Rightarrow> 'e + 'k) expand queue visited out (r :: 'e + 'o list). \<forall>res. r = Inr res \<longrightarrow> drain_inv key expand roots queue visited out \<longrightarrow>
    (\<exists>v. drain_inv key expand roots [] v res)"
  have "?P key expand queue visited out (Inr res)"
  proof (rule drain.raw_induct[where P = ?P, OF _ assms(1)])
    fix w key expand queue visited out r
    assume IH: "\<And>key expand queue visited out r. w key expand queue visited out = Some r \<Longrightarrow> ?P key expand queue visited out r"
      and run: "(case queue of [] \<Rightarrow> Some (Inr out)
        | q # rest \<Rightarrow> (case key q of Inl e \<Rightarrow> Some (Inl e)
          | Inr k \<Rightarrow> if k \<in> set visited then w key expand rest visited out
              else (case expand q of Inl e \<Rightarrow> Some (Inl e)
                | Inr (next, new) \<Rightarrow> w key expand (rev next @ rest) (k # visited) (out @ new)))) = Some r"
    show "?P key expand queue visited out r"
    proof (intro allI impI)
      fix res assume r: "r = Inr res" and inv: "drain_inv key expand roots queue visited out"
      show "\<exists>v. drain_inv key expand roots [] v res"
      proof (cases queue)
        case Nil
        with run r inv show ?thesis by auto
      next
        case (Cons q rest)
        then obtain k where k: "key q = Inr k" using run r by (cases "key q") auto
        show ?thesis
        proof (cases "k \<in> set visited")
          case True
          with run Cons k have "w key expand rest visited out = Some r" by simp
          from IH[OF this] drain_inv_skip[OF inv[unfolded Cons] k True] r show ?thesis by blast
        next
          case False
          then obtain n m where x: "expand q = Inr (n, m)" using run r Cons k by (cases "expand q") auto
          with run Cons k False have "w key expand (rev n @ rest) (k # visited) (out @ m) = Some r" by simp
          from IH[OF this] drain_inv_expand[OF inv[unfolded Cons] k x] r show ?thesis by blast
        qed
      qed
    qed
  qed
  with assms(2) show ?thesis by blast
qed

text \<open>When entries with one key add the same, the output of the loop is that of all entries that can be reached.\<close>

theorem drain_exact:
  assumes "drain key expand queue [] [] = Some (Inr out)"
    and det: "\<And>q q' k. reached expand (set queue) q \<Longrightarrow> reached expand (set queue) q' \<Longrightarrow> key q = Inr k \<Longrightarrow> key q' = Inr k \<Longrightarrow> expand q = expand q'"
  shows "reached expand (set queue) q \<Longrightarrow> \<exists>k next new. key q = Inr k \<and> expand q = Inr (next, new) \<and> set new \<subseteq> set out"
    and "set out = {x. \<exists>q next new. reached expand (set queue) q \<and> expand q = Inr (next, new) \<and> x \<in> set new}"
proof -
  from drain_inv_drain[OF assms(1) drain_inv_start] obtain v where inv: "drain_inv key expand (set queue) [] v out" by blast
  have fin: "\<exists>k next new. key q = Inr k \<and> k \<in> set v \<and> expand q = Inr (next, new) \<and> (\<forall>q' \<in> set next. covered key [] v q') \<and> set new \<subseteq> set out"
    if "covered key [] v q" "reached expand (set queue) q" for q
  proof -
    from that(1) obtain k where k: "key q = Inr k" "k \<in> set v" by (auto simp: covered_def)
    with inv obtain q' n m where "reached expand (set queue) q'" "key q' = Inr k" "expand q' = Inr (n, m)"
      "\<forall>x \<in> set n. covered key [] v x" "set m \<subseteq> set out" unfolding drain_inv_def by blast
    moreover from this det[OF that(2)] k have "expand q = expand q'" by blast
    ultimately show ?thesis using k by auto
  qed
  have cov: "covered key [] v q" if "reached expand (set queue) q" for q
    using that
  proof (induction rule: reached.induct)
    case (root q)
    with inv show ?case by (simp add: drain_inv_def)
  next
    case (succ q "next" new q')
    from fin[OF succ.IH succ.hyps(1)] succ.hyps(2,3) show ?case by auto
  qed
  show "\<exists>k next new. key q = Inr k \<and> expand q = Inr (next, new) \<and> set new \<subseteq> set out" if "reached expand (set queue) q" for q
    using fin[OF cov[OF that] that] by blast
  show "set out = {x. \<exists>q next new. reached expand (set queue) q \<and> expand q = Inr (next, new) \<and> x \<in> set new}"
  proof (intro set_eqI iffI CollectI)
    fix x assume "x \<in> {x. \<exists>q next new. reached expand (set queue) q \<and> expand q = Inr (next, new) \<and> x \<in> set new}"
    then obtain q n m where q: "reached expand (set queue) q" "expand q = Inr (n, m)" "x \<in> set m" by blast
    with fin[OF cov[OF q(1)] q(1)] show "x \<in> set out" by auto
  qed (use inv in \<open>auto simp: drain_inv_def\<close>)
qed

lemma drain_error:
  fixes key :: "'q \<Rightarrow> 'e + 'k" and expand :: "'q \<Rightarrow> 'e + 'q list \<times> 'o list"
  assumes "drain key expand queue visited out = Some (Inl e)" "\<forall>q \<in> set queue. reached expand roots q"
  shows "\<exists>q. reached expand roots q \<and> (key q = Inl e \<or> expand q = Inl e)"
proof -
  let ?P = "\<lambda>(key :: 'q \<Rightarrow> 'e + 'k) expand queue (visited :: 'k list) (out :: 'o list) (r :: 'e + 'o list). r = Inl e \<longrightarrow> (\<forall>q \<in> set queue. reached expand roots q) \<longrightarrow>
    (\<exists>q. reached expand roots q \<and> (key q = Inl e \<or> expand q = Inl e))"
  have "?P key expand queue visited out (Inl e)"
  proof (rule drain.raw_induct[where P = ?P, OF _ assms(1)])
    fix w and key :: "'q \<Rightarrow> 'e + 'k" and expand :: "'q \<Rightarrow> 'e + 'q list \<times> 'o list" and queue and visited :: "'k list" and out :: "'o list" and r
    assume IH: "\<And>key expand queue visited out r. w key expand queue visited out = Some r \<Longrightarrow> ?P key expand queue visited out r"
      and run: "(case queue of [] \<Rightarrow> Some (Inr out)
        | q # rest \<Rightarrow> (case key q of Inl e \<Rightarrow> Some (Inl e)
          | Inr k \<Rightarrow> if k \<in> set visited then w key expand rest visited out
              else (case expand q of Inl e \<Rightarrow> Some (Inl e)
                | Inr (next, new) \<Rightarrow> w key expand (rev next @ rest) (k # visited) (out @ new)))) = Some r"
    show "?P key expand queue visited out r"
    proof (intro impI)
      assume r: "r = Inl e" and all: "\<forall>q \<in> set queue. reached expand roots q"
      then obtain q rest where queue: "queue = q # rest" using run by (cases queue) auto
      show "\<exists>q. reached expand roots q \<and> (key q = Inl e \<or> expand q = Inl e)"
      proof (cases "key q")
        case (Inr k)
        show ?thesis
        proof (cases "k \<in> set visited")
          case True
          with run queue Inr have "w key expand rest visited out = Some r" by simp
          from IH[OF this] r all queue show ?thesis by simp
        next
          case fresh: False
          show ?thesis
          proof (cases "expand q")
            case x: (Inr p)
            obtain n m where p: "p = (n, m)" by (cases p)
            with run queue Inr fresh x have "w key expand (rev n @ rest) (k # visited) (out @ m) = Some r" by simp
            moreover have "\<forall>q \<in> set (rev n @ rest). reached expand roots q"
              using all queue succ[of expand roots q n m] x p by auto
            ultimately show ?thesis using IH r by blast
          qed (use run queue Inr fresh r all in auto)
        qed
      qed (use run queue r all in auto)
    qed
  qed
  with assms(2) show ?thesis by blast
qed

end
