(* ===== verification/Bundled_Npm.thy ===== *)
theory Bundled_Npm
  imports Bundled_Block Worklist
begin

section \<open>Bundled npm Provides\<close>

text \<open>
  \<open>generate-bundled-npm-provides.py\<close> of Prometheus (pnpm and npm lock files), of Jaeger (pnpm) and of Grafana (Yarn). Each
  follows the production dependencies of a lock file with a stack and a set of what was visited: \<open>drain\<close> of \<open>Worklist\<close>. The
  two visited sets of the Yarn closure are one set of tagged names. Lists stand for sets; they are sorted without
  duplicates before they are written. A name or version that is no text is refused where it is collected (the code
  fails later, when it is formatted).
\<close>

subsection \<open>pnpm\<close>

definition rpartition :: "char \<Rightarrow> string \<Rightarrow> (string \<times> string) option" where
  \<comment> \<open>\<open>s.rpartition(c)\<close>, when there is a separator\<close>
  "rpartition c s = (if c \<notin> set s then None
     else Some (rev (tl (dropWhile (\<lambda>x. x \<noteq> c) (rev s))), rev (takeWhile (\<lambda>x. x \<noteq> c) (rev s))))"

definition PACKAGE_NAME_RE :: rx where
  \<comment> \<open>\<open>^(?:@[^/@]+/)?[^/@]+$\<close>\<close>
  "PACKAGE_NAME_RE = (let part = Plus True (Cls (\<lambda>c. c \<noteq> CHR ''/'' \<and> c \<noteq> CHR ''@'')) in
     Seq [Opt (Seq [Chr CHR ''@'', part, Chr CHR ''/'']), part])"

definition pnpm_reference :: "string \<Rightarrow> json \<Rightarrow> exn + string option" where
  "pnpm_reference name dependency =
     (case (case dependency of JObj d \<Rightarrow> get_default d ''version'' JNull | _ \<Rightarrow> dependency) of
        JStr reference \<Rightarrow>
          (if list_ex (startswith reference) [''link:'', ''workspace:'', ''file:''] then Inr None
           else if startswith reference ''npm:'' then (case rpartition CHR ''@'' (drop 4 reference) of
               None \<Rightarrow> Inl (ValueError (''unsupported pnpm alias: '' @ reference))
             | Some (alias, version) \<Rightarrow> Inr (Some (alias @ ''@'' @ version)))
           else Inr (Some (name @ ''@'' @ reference)))
      | _ \<Rightarrow> Inr None)"

definition pnpm_references :: "json \<Rightarrow> exn + string list" where
  \<comment> \<open>the references of the production dependencies of an importer or a snapshot\<close>
  "pnpm_references j = (case as_dict j of Inl e \<Rightarrow> Inl e
     | Inr package \<Rightarrow> concat_sum (\<lambda>section. case as_dict (get_default package section (JObj [])) of
           Inl e \<Rightarrow> Inl e
         | Inr items \<Rightarrow> concat_sum (\<lambda>(name, dependency). map_sum id (case_option [] (\<lambda>r. [r])) (pnpm_reference name dependency)) items)
       DEPENDENCY_SECTIONS)"

definition pnpm_package :: "string \<Rightarrow> exn + string \<times> string" where
  "pnpm_package key = (case rpartition CHR ''@'' (takeWhile (\<lambda>c. c \<noteq> CHR ''('') key) of
     None \<Rightarrow> Inl (ValueError (''unsupported pnpm package key: '' @ key))
   | Some (name, version) \<Rightarrow> (if re_fullmatch PACKAGE_NAME_RE name = None \<or> version = []
       then Inl (ValueError (''unsupported pnpm package key: '' @ key)) else Inr (name, version)))"

definition pnpm_expand :: "json \<Rightarrow> string \<Rightarrow> exn + string list \<times> (string \<times> string) list" where
  "pnpm_expand snapshots key = (case pnpm_package key of Inl e \<Rightarrow> Inl e
     | Inr p \<Rightarrow> (case as_dict snapshots of Inl e \<Rightarrow> Inl e
         | Inr d \<Rightarrow> (let snapshot = get_default d key JNull in
             if snapshot = JNull then Inl (ValueError (''pnpm snapshot not found: '' @ key))
             else map_sum id (\<lambda>refs. (refs, [p])) (pnpm_references snapshot))))"

definition pnpm_load :: "gen_env \<Rightarrow> string \<Rightarrow> exn + json \<times> string list" where
  \<comment> \<open>the snapshots and the first queue\<close>
  "pnpm_load ge lock = (case yaml_text ge lock of Inl e \<Rightarrow> Inl e
     | Inr j \<Rightarrow> (case as_dict j of Inl e \<Rightarrow> Inl e
         | Inr data \<Rightarrow> (case as_dict (get_default data ''importers'' (JObj [])) of Inl e \<Rightarrow> Inl e
             | Inr importers \<Rightarrow> map_sum id (\<lambda>queue. (get_default data ''snapshots'' (JObj []), queue))
                 (concat_sum (\<lambda>(k, importer). pnpm_references importer) importers))))"

definition pnpm_packages :: "gen_env \<Rightarrow> string \<Rightarrow> (exn + (string \<times> string) list) option" where
  "pnpm_packages ge lock = (case pnpm_load ge lock of Inl e \<Rightarrow> Some (Inl e)
     | Inr (snapshots, queue) \<Rightarrow> drain Inr (pnpm_expand snapshots) (rev queue) [] [])"

definition ended :: "(exn + 'a) option \<Rightarrow> 'a prog" where
  \<comment> \<open>a loop that does not end is the exception no handler catches\<close>
  "ended r = (case r of None \<Rightarrow> raise OutOfFuel | Some s \<Rightarrow> from_sum s)"

subsection \<open>npm\<close>

definition npm_package :: "string \<times> json \<Rightarrow> exn + (string \<times> string) list" where
  "npm_package entry = (case as_dict (snd entry) of Inl e \<Rightarrow> Inl e
     | Inr package \<Rightarrow> (let path = fst entry; version = get_default package ''version'' JNull in
         if path = [] \<or> \<not> truthy version \<or> truthy (get_default package ''dev'' JNull) \<or> \<not> contains path ''node_modules/'' then Inr []
         else (let name = get_default package ''name'' JNull in
           case as_str (if truthy name then name else JStr (last (split_str ''node_modules/'' path))) of
             Inl e \<Rightarrow> Inl e
           | Inr name \<Rightarrow> (if re_fullmatch PACKAGE_NAME_RE name = None then Inr [] else map_sum id (\<lambda>v. [(name, v)]) (as_str version)))))"

definition npm_packages :: "gen_env \<Rightarrow> string \<Rightarrow> exn + (string \<times> string) list" where
  "npm_packages ge lock = (case json_text ge lock of Inl e \<Rightarrow> Inl e
     | Inr j \<Rightarrow> (case as_dict j of Inl e \<Rightarrow> Inl e
         | Inr d \<Rightarrow> (case as_dict (get_default d ''packages'' (JObj [])) of Inl e \<Rightarrow> Inl e
             | Inr packages \<Rightarrow> concat_sum npm_package packages)))"

subsection \<open>Yarn\<close>

definition PROTOCOLS :: "string list" where "PROTOCOLS = [''@npm:'', ''@patch:'', ''@portal:'', ''@file:'']"

definition descriptor_name :: "string \<Rightarrow> string" where
  "descriptor_name descriptor = (case List.find (contains descriptor) PROTOCOLS of
     Some protocol \<Rightarrow> (case split_at_str protocol descriptor of Some (a, _) \<Rightarrow> a | None \<Rightarrow> []) | None \<Rightarrow> [])"

type_synonym by_name = "(string \<times> json list) list"

definition add_descriptor :: "json \<Rightarrow> dict \<times> by_name \<Rightarrow> string \<Rightarrow> dict \<times> by_name" where
  "add_descriptor package st descriptor = (let name = descriptor_name descriptor; known = snd st in
     (dset descriptor package (fst st),
      if name = [] then known else dset name ((case dget known name of Some ps \<Rightarrow> ps | None \<Rightarrow> []) @ [package]) known))"

definition yarn_index :: "dict \<Rightarrow> dict \<times> by_name" where
  \<comment> \<open>\<open>descriptors\<close> and \<open>packages_by_name\<close>\<close>
  "yarn_index data = foldl (\<lambda>st (key, package). if key = ''__metadata'' then st
     else foldl (add_descriptor package) st (split_str '', '' key)) ([], []) data"

record yarn_lock =
  y_descriptors :: dict
  y_by_name :: by_name
  y_resolutions :: json
  y_workspaces :: dict
  y_patterns :: "string \<Rightarrow> string \<Rightarrow> string list" \<comment> \<open>the keys of \<open>resolutions\<close> that stand for a name and a reference\<close>

definition override_patterns :: "string \<Rightarrow> string \<Rightarrow> string list" where
  \<comment> \<open>of grafana13.2\<close>
  "override_patterns name reference = [name, name @ ''@'' @ reference, name @ ''@'' @ removeprefix reference ''npm:'',
     name @ ''@npm:'' @ reference]"

definition override_patterns_12_4 :: "string \<Rightarrow> string \<Rightarrow> string list" where
  \<comment> \<open>of grafana12.4 and grafana13.1\<close>
  "override_patterns_12_4 name reference = [name, name @ ''@'' @ reference, name @ ''@npm:'' @ reference]"

definition hashable :: "json \<Rightarrow> bool" where
  "hashable j = (case j of JObj _ \<Rightarrow> False | JList _ \<Rightarrow> False | _ \<Rightarrow> True)"

definition single :: "json list \<Rightarrow> exn + json option" where
  \<comment> \<open>the only member of \<open>set(xs)\<close>\<close>
  "single xs = (if \<not> list_all hashable xs then Inl (TypeError ''unhashable type'')
     else Inr (case remdups xs of [x] \<Rightarrow> Some x | _ \<Rightarrow> None))"

definition yarn_reference :: "yarn_lock \<Rightarrow> string \<Rightarrow> string \<Rightarrow> string \<Rightarrow> exn + json" where
  \<comment> \<open>the reference after the overrides of \<open>resolutions\<close>\<close>
  "yarn_reference yl parent name reference = (case as_dict (y_resolutions yl) of Inl e \<Rightarrow> Inl e
     | Inr resolutions \<Rightarrow> map_sum id (case_option (JStr reference) id)
         (single (map snd (filter (\<lambda>(pattern, v). pattern \<in> set (y_patterns yl name reference) \<or> pattern = parent @ ''/'' @ name) resolutions))))"

definition present :: "json option \<Rightarrow> json option" where
  \<comment> \<open>\<open>d.get(k)\<close> is not \<open>None\<close>\<close>
  "present x = (if x = Some JNull then None else x)"

definition by_locator :: "yarn_lock \<Rightarrow> string \<Rightarrow> json option" where
  "by_locator yl descriptor = (case filter (\<lambda>(k, p). startswith k (descriptor @ ''::'')) (y_descriptors yl) of
     [(k, p)] \<Rightarrow> present (Some p) | _ \<Rightarrow> None)"

definition by_only_name :: "yarn_lock \<Rightarrow> string \<Rightarrow> exn + json option" where
  "by_only_name yl name = (let candidates = (case dget (y_by_name yl) name of Some ps \<Rightarrow> ps | None \<Rightarrow> []) in
     case concat_sum (\<lambda>c. map_sum id (\<lambda>d. [get_default d ''resolution'' JNull]) (as_dict c)) candidates of
       Inl e \<Rightarrow> Inl e
     | Inr rs \<Rightarrow> map_sum id (case_option None (\<lambda>_. present (Some (hd candidates)))) (single rs))"

definition yarn_fallback :: "yarn_lock \<Rightarrow> string \<Rightarrow> string \<Rightarrow> exn + string \<times> json" where
  \<comment> \<open>for a descriptor that is no key of the lock file\<close>
  "yarn_fallback yl name descriptor = (case by_locator yl descriptor of Some p \<Rightarrow> Inr (descriptor, p)
     | None \<Rightarrow> (case by_only_name yl name of Inl e \<Rightarrow> Inl e
         | Inr (Some p) \<Rightarrow> Inr (descriptor, p)
         | Inr None \<Rightarrow> Inl (ValueError (''Yarn descriptor not found: '' @ descriptor))))"

definition yarn_find :: "yarn_lock \<Rightarrow> string \<Rightarrow> json \<Rightarrow> exn + string \<times> json" where
  \<comment> \<open>the descriptor and the package of a reference\<close>
  "yarn_find yl name reference = (let descriptor = name @ ''@'' @ py_text reference in
     case present (dget (y_descriptors yl) descriptor) of
       Some p \<Rightarrow> Inr (descriptor, p)
     | None \<Rightarrow> (case as_str reference of Inl e \<Rightarrow> Inl e
         | Inr r \<Rightarrow> (if list_ex (startswith r) [''npm:'', ''patch:'', ''portal:'', ''file:''] then yarn_fallback yl name descriptor
             else (let descriptor = name @ ''@npm:'' @ r in case present (dget (y_descriptors yl) descriptor) of
                 Some p \<Rightarrow> Inr (descriptor, p) | None \<Rightarrow> yarn_fallback yl name descriptor))))"

datatype yarn_tag = Workspace string | Descriptor string

type_synonym yarn_entry = "string \<times> string \<times> json" \<comment> \<open>parent, name and reference\<close>

definition yarn_key :: "yarn_lock \<Rightarrow> yarn_entry \<Rightarrow> exn + yarn_tag" where
  "yarn_key yl = (\<lambda>(parent, name, ref). case as_str ref of Inl e \<Rightarrow> Inl e
     | Inr reference \<Rightarrow> (if startswith reference ''workspace:'' then Inr (Workspace name)
         else (case yarn_reference yl parent name reference of Inl e \<Rightarrow> Inl e
           | Inr chosen \<Rightarrow> map_sum id (\<lambda>(descriptor, p). Descriptor descriptor) (yarn_find yl name chosen))))"

definition children :: "string \<Rightarrow> json \<Rightarrow> exn + yarn_entry list" where
  "children parent package = map_sum id (map (\<lambda>(child, ref). (parent, child, ref))) (dependencies package)"

definition expand_workspace :: "yarn_lock \<Rightarrow> string \<Rightarrow> exn + yarn_entry list \<times> (string \<times> string) list" where
  "expand_workspace yl name = (case present (dget (y_workspaces yl) name) of
     None \<Rightarrow> Inl (ValueError (''Yarn workspace not found: '' @ name))
   | Some workspace \<Rightarrow> map_sum id (\<lambda>next. (next, [])) (children name workspace))"

definition expand_package :: "string \<Rightarrow> json \<Rightarrow> exn + yarn_entry list \<times> (string \<times> string) list" where
  "expand_package name package = (case as_dict package of Inl e \<Rightarrow> Inl e
     | Inr d \<Rightarrow> (case as_str (get_default d ''resolution'' (JStr [])) of Inl e \<Rightarrow> Inl e
         | Inr resolution \<Rightarrow> (let found = descriptor_name resolution; resolved_name = (if found \<noteq> [] then found else name);
               version = get_default d ''version'' JNull in
             map_sum id (\<lambda>next. (next, if truthy version then [(resolved_name, py_text version)] else [])) (children resolved_name package))))"

definition yarn_expand :: "yarn_lock \<Rightarrow> yarn_entry \<Rightarrow> exn + yarn_entry list \<times> (string \<times> string) list" where
  "yarn_expand yl = (\<lambda>(parent, name, ref). case as_str ref of Inl e \<Rightarrow> Inl e
     | Inr reference \<Rightarrow> (if startswith reference ''workspace:'' then expand_workspace yl name
         else (case yarn_reference yl parent name reference of Inl e \<Rightarrow> Inl e
           | Inr chosen \<Rightarrow> (case yarn_find yl name chosen of Inl e \<Rightarrow> Inl e
               | Inr (descriptor, package) \<Rightarrow> expand_package name package))))"

definition yarn_load :: "gen_env \<Rightarrow> (string \<Rightarrow> string \<Rightarrow> string list) \<Rightarrow> string \<Rightarrow> json \<Rightarrow> dict \<Rightarrow> exn + yarn_lock \<times> yarn_entry list" where
  "yarn_load ge patterns lock root_package workspaces = (case yaml_text ge lock of Inl e \<Rightarrow> Inl e
     | Inr j \<Rightarrow> (case as_dict j of Inl e \<Rightarrow> Inl e
     | Inr data \<Rightarrow> (case as_dict root_package of Inl e \<Rightarrow> Inl e
     | Inr rp \<Rightarrow> map_sum id (\<lambda>queue. (\<lparr>y_descriptors = fst (yarn_index data), y_by_name = snd (yarn_index data),
           y_resolutions = get_default rp ''resolutions'' (JObj []), y_workspaces = workspaces, y_patterns = patterns\<rparr>, queue))
         (children (py_text (get_default rp ''name'' (JStr []))) root_package))))"

definition yarn_packages :: "gen_env \<Rightarrow> (string \<Rightarrow> string \<Rightarrow> string list) \<Rightarrow> string \<Rightarrow> json \<Rightarrow> dict \<Rightarrow> (exn + (string \<times> string) list) option" where
  "yarn_packages ge patterns lock root_package workspaces = (case yarn_load ge patterns lock root_package workspaces of Inl e \<Rightarrow> Some (Inl e)
     | Inr (yl, queue) \<Rightarrow> drain (yarn_key yl) (yarn_expand yl) (rev queue) [] [])"

subsection \<open>The closure of a pnpm lock file\<close>

lemma pnpm_expand_Inr:
  "pnpm_expand snapshots key = Inr (refs, out) \<longleftrightarrow> (\<exists>p d. pnpm_package key = Inr p \<and> out = [p] \<and> snapshots = JObj d \<and>
     get_default d key JNull \<noteq> JNull \<and> pnpm_references (get_default d key JNull) = Inr refs)"
  by (cases "pnpm_package key"; cases snapshots; cases "pnpm_references (case snapshots of JObj d \<Rightarrow> get_default d key JNull | _ \<Rightarrow> JNull)")
    (auto simp: pnpm_expand_def as_dict_def Let_def)

definition snapshot_keys :: "json \<Rightarrow> string set" where
  "snapshot_keys snapshots = (case snapshots of JObj d \<Rightarrow> fst ` set d | _ \<Rightarrow> {})"

interpretation pnpm: worklist "Inr :: string \<Rightarrow> exn + string" "pnpm_expand snapshots" UNIV "snapshot_keys snapshots" for snapshots
proof
  show "finite (snapshot_keys snapshots)" by (auto simp: snapshot_keys_def split: json.splits)
  fix q k :: string and x :: "string list \<times> (string \<times> string) list"
  assume "(Inr q :: exn + string) = Inr k" "pnpm_expand snapshots q = Inr x"
  then obtain d where "snapshots = JObj d" "get_default d k JNull \<noteq> JNull"
    by (cases x) (auto simp: pnpm_expand_Inr)
  then show "k \<in> snapshot_keys snapshots"
    by (auto simp: snapshot_keys_def get_default_def image_iff split: option.splits dest!: map_of_SomeD) force
qed simp

text \<open>What production needs, said without the loop: a reference of an importer, or of the snapshot of something needed.\<close>

definition requires :: "json \<Rightarrow> string \<Rightarrow> bool" where
  "requires package ref \<longleftrightarrow> (\<exists>d section items name dependency. package = JObj d \<and> section \<in> {''dependencies'', ''optionalDependencies''} \<and>
     get_default d section (JObj []) = JObj items \<and> (name, dependency) \<in> set items \<and> pnpm_reference name dependency = Inr (Some ref))"

inductive needed :: "dict \<Rightarrow> string \<Rightarrow> bool" for data where
  importer: "get_default data ''importers'' (JObj []) = JObj importers \<Longrightarrow> (k, package) \<in> set importers \<Longrightarrow> requires package ref \<Longrightarrow> needed data ref"
| dependency: "needed data key \<Longrightarrow> get_default data ''snapshots'' (JObj []) = JObj snapshots \<Longrightarrow>
     requires (get_default snapshots key JNull) ref \<Longrightarrow> needed data ref"

lemma references_requires: "pnpm_references package = Inr refs \<Longrightarrow> ref \<in> set refs \<longleftrightarrow> requires package ref"
proof -
  assume run: "pnpm_references package = Inr refs"
  then obtain d where d: "package = JObj d" by (auto simp: pnpm_references_def as_dict_def split: json.splits)
  let ?pick = "\<lambda>(name, dependency). map_sum id (case_option [] (\<lambda>r. [r])) (pnpm_reference name dependency)"
  let ?f = "\<lambda>section. case as_dict (get_default d section (JObj [])) of Inl e \<Rightarrow> Inl e | Inr items \<Rightarrow> concat_sum ?pick items"
  have sections: "concat_sum ?f DEPENDENCY_SECTIONS = Inr refs" using run by (simp add: pnpm_references_def as_dict_def d)
  have pick: "(\<exists>zs. ?pick x = Inr zs \<and> ref \<in> set zs) \<longleftrightarrow> pnpm_reference (fst x) (snd x) = Inr (Some ref)" for x
    by (cases "pnpm_reference (fst x) (snd x)") (auto simp: case_prod_unfold split: option.splits)
  have "ref \<in> set refs \<longleftrightarrow> (\<exists>section \<in> set DEPENDENCY_SECTIONS. \<exists>items x. get_default d section (JObj []) = JObj items \<and> x \<in> set items \<and> pnpm_reference (fst x) (snd x) = Inr (Some ref))"
    (is "_ \<longleftrightarrow> (\<exists>section \<in> _. ?P section)")
  proof -
    have one: "(\<exists>zs. ?f sec = Inr zs \<and> ref \<in> set zs) \<longleftrightarrow> ?P sec" if "sec \<in> set DEPENDENCY_SECTIONS" for sec
    proof -
      from concat_sum_set[OF sections] that obtain zs where zs: "?f sec = Inr zs" by blast
      then obtain items where items: "get_default d sec (JObj []) = JObj items" "concat_sum ?pick items = Inr zs"
        by (auto simp: as_dict_def split: json.splits)
      from concat_sum_set[OF items(2), of ref] zs items(1) pick show ?thesis by simp
    qed
    from concat_sum_set[OF sections, of ref] one show ?thesis by blast
  qed
  then show ?thesis by (simp add: requires_def d DEPENDENCY_SECTIONS_def) blast
qed

lemma pnpm_load_Inr:
  assumes "pnpm_load ge lock = Inr (snapshots, queue)"
  obtains data importers where "yaml_text ge lock = Inr (JObj data)" "get_default data ''importers'' (JObj []) = JObj importers"
    "snapshots = get_default data ''snapshots'' (JObj [])"
    "\<And>ref. ref \<in> set queue \<longleftrightarrow> (\<exists>k package. (k, package) \<in> set importers \<and> requires package ref)"
proof -
  from assms obtain data importers where 1: "yaml_text ge lock = Inr (JObj data)" "get_default data ''importers'' (JObj []) = JObj importers"
    "snapshots = get_default data ''snapshots'' (JObj [])" and q: "concat_sum (\<lambda>(k, importer). pnpm_references importer) importers = Inr queue"
    by (auto simp: pnpm_load_def as_dict_def map_sum_Inr split: sum.splits json.splits)
  have "ref \<in> set queue \<longleftrightarrow> (\<exists>k package. (k, package) \<in> set importers \<and> requires package ref)" for ref
    using concat_sum_set[OF q, of ref] references_requires by fastforce
  with 1 show ?thesis by (rule that)
qed

lemma reached_needed:
  assumes "get_default data ''importers'' (JObj []) = JObj importers" "snapshots = get_default data ''snapshots'' (JObj [])"
    and "\<And>ref. ref \<in> set queue \<longleftrightarrow> (\<exists>k package. (k, package) \<in> set importers \<and> requires package ref)"
  shows "reached (pnpm_expand snapshots) (set queue) key \<Longrightarrow> needed data key"
proof (induction rule: reached.induct)
  case (root q)
  with assms(1,3) show ?case by (auto intro: needed.importer)
next
  case (succ q nxt new q')
  from succ.hyps(2) obtain d where "snapshots = JObj d" "pnpm_references (get_default d q JNull) = Inr nxt"
    by (auto simp: pnpm_expand_Inr)
  with references_requires[OF this(2), of q'] succ.IH succ.hyps(3) assms(2) show ?case
    by (intro needed.dependency[of data q d q']) simp_all
qed

text \<open>C20: The Provides of a pnpm lock file are the closure of its production dependencies. For a lock file whose importers can be
  read the loop ends. When it succeeds, everything needed is recorded, and nothing else; when it fails, something needed is
  malformed, or has no snapshot that can be read.\<close>

theorem pnpm_closure:
  assumes "pnpm_load ge lock = Inr (snapshots, queue)" "yaml_text ge lock = Inr (JObj data)"
  shows "\<exists>r. pnpm_packages ge lock = Some r \<and> (case r of
      Inr provides \<Rightarrow> (\<forall>key. needed data key \<longrightarrow> (\<exists>p \<in> set provides. pnpm_package key = Inr p)) \<and>
        (\<forall>p \<in> set provides. \<exists>key. needed data key \<and> pnpm_package key = Inr p)
    | Inl e \<Rightarrow> \<exists>key. needed data key \<and> pnpm_expand snapshots key = Inl e)"
proof -
  from assms(1) obtain importers where im: "get_default data ''importers'' (JObj []) = JObj importers"
    and sn: "snapshots = get_default data ''snapshots'' (JObj [])"
    and qu: "\<And>ref. ref \<in> set queue \<longleftrightarrow> (\<exists>k package. (k, package) \<in> set importers \<and> requires package ref)"
    using assms(2) by (elim pnpm_load_Inr) auto
  note to_needed = reached_needed[OF im sn qu]
  obtain r where r: "drain Inr (pnpm_expand snapshots) (rev queue) [] [] = Some r"
    using pnpm.drain_ends[where queue = "rev queue"] by fastforce
  show ?thesis
  proof (cases r)
    case (Inr provides)
    with r have run: "drain Inr (pnpm_expand snapshots) (rev queue) [] [] = Some (Inr provides)" by simp
    note exact = drain_exact[OF run, simplified]
    have from_needed: "reached (pnpm_expand snapshots) (set queue) key" if "needed data key" for key
      using that
    proof (induction rule: needed.induct)
      case (importer ims k package ref)
      with im qu show ?case by (auto intro: root)
    next
      case (dependency key d ref)
      from exact(1)[OF dependency.IH] obtain nxt new where x: "pnpm_expand snapshots key = Inr (nxt, new)" by blast
      with dependency.hyps(2) sn have "pnpm_references (get_default d key JNull) = Inr nxt" by (auto simp: pnpm_expand_Inr)
      with references_requires dependency.hyps(3) have "ref \<in> set nxt" by blast
      with succ[OF dependency.IH x] show ?case by blast
    qed
    have "\<exists>p \<in> set provides. pnpm_package key = Inr p" if "needed data key" for key
      using exact(1)[OF from_needed[OF that]] by (auto simp: pnpm_expand_Inr)
    moreover have "\<exists>key. needed data key \<and> pnpm_package key = Inr p" if "p \<in> set provides" for p
    proof -
      from that obtain key nxt new where "reached (pnpm_expand snapshots) (set queue) key" "pnpm_expand snapshots key = Inr (nxt, new)" "p \<in> set new"
        unfolding exact(2) by blast
      with to_needed[of key] show ?thesis by (auto simp: pnpm_expand_Inr)
    qed
    ultimately show ?thesis using assms run by (simp add: pnpm_packages_def)
  next
    case (Inl e)
    with r have run: "drain Inr (pnpm_expand snapshots) (rev queue) [] [] = Some (Inl e)" by simp
    from drain_error[OF this, of "set queue"] have "\<exists>key. reached (pnpm_expand snapshots) (set queue) key \<and> pnpm_expand snapshots key = Inl e"
      by (auto intro: root)
    with assms run to_needed show ?thesis by (auto simp: pnpm_packages_def)
  qed
qed

subsection \<open>The closure of a Yarn lock file\<close>

definition yarn_values :: "yarn_lock \<Rightarrow> json set" where
  \<comment> \<open>every package and workspace of the lock file\<close>
  "yarn_values yl = snd ` set (y_descriptors yl) \<union> (\<Union>(n, ps) \<in> set (y_by_name yl). set ps) \<union> snd ` set (y_workspaces yl)"

definition yarn_pairs :: "yarn_lock \<Rightarrow> yarn_entry list \<Rightarrow> (string \<times> json) set" where
  \<comment> \<open>every name and reference that can come onto the stack\<close>
  "yarn_pairs yl queue = snd ` set queue \<union> (\<Union>p \<in> yarn_values yl. case dependencies p of Inr ds \<Rightarrow> set ds | Inl _ \<Rightarrow> {})"

definition override_values :: "yarn_lock \<Rightarrow> json set" where
  "override_values yl = (case y_resolutions yl of JObj d \<Rightarrow> snd ` set d | _ \<Rightarrow> {})"

definition tags_of :: "yarn_lock \<Rightarrow> string \<times> json \<Rightarrow> yarn_tag set" where
  "tags_of yl = (\<lambda>(name, ref). insert (Workspace name)
     ((\<lambda>v. Descriptor (name @ ''@'' @ py_text v)) ` insert ref (override_values yl) \<union>
      (\<lambda>v. Descriptor (name @ ''@npm:'' @ py_text v)) ` insert ref (override_values yl)))"

lemma finite_yarn: "finite (yarn_pairs yl queue)" "finite (tags_of yl p)"
  by (auto simp: yarn_pairs_def yarn_values_def tags_of_def override_values_def split: sum.splits json.splits prod.splits)

lemma yarn_reference_in: "yarn_reference yl parent name reference = Inr v \<Longrightarrow> v \<in> insert (JStr reference) (override_values yl)"
proof -
  assume "yarn_reference yl parent name reference = Inr v"
  then obtain d x where d: "y_resolutions yl = JObj d"
    and x: "single (map snd (filter (\<lambda>(pattern, v). pattern \<in> set (y_patterns yl name reference) \<or> pattern = parent @ ''/'' @ name) d)) = Inr x"
    and v: "v = case_option (JStr reference) id x"
    by (auto simp: yarn_reference_def as_dict_def map_sum_Inr split: json.splits sum.splits)
  have "y \<in> set xs" if "single xs = Inr (Some y)" for xs y
  proof -
    from that have "remdups xs = [y]" by (auto simp: single_def split: if_splits list.splits)
    then show ?thesis by (metis list.set_intros(1) set_remdups)
  qed
  from this[of _ "the x"] x v d show ?thesis
    by (cases x) (force simp: override_values_def)+
qed

lemma present_Some: "present x = Some p \<longleftrightarrow> x = Some p \<and> p \<noteq> JNull"
  by (auto simp: present_def)

lemma yarn_fallback_in: "yarn_fallback yl name descriptor = Inr (d, p) \<Longrightarrow> d = descriptor \<and> p \<in> yarn_values yl"
proof -
  assume run: "yarn_fallback yl name descriptor = Inr (d, p)"
  show ?thesis
  proof (cases "by_locator yl descriptor")
    case (Some q)
    then obtain k where "filter (\<lambda>(k, p). startswith k (descriptor @ ''::'')) (y_descriptors yl) = [(k, q)]"
      by (auto simp: by_locator_def present_Some split: list.splits)
    then have "(k, q) \<in> set (y_descriptors yl)" by (metis filter_is_subset list.set_intros(1) subset_code(1))
    with run Some show ?thesis by (force simp: yarn_fallback_def yarn_values_def)
  next
    case None
    let ?cs = "case dget (y_by_name yl) name of Some ps \<Rightarrow> ps | None \<Rightarrow> []"
    from None run obtain rs x where "concat_sum (\<lambda>c. map_sum id (\<lambda>d. [get_default d ''resolution'' JNull]) (as_dict c)) ?cs = Inr rs"
      "single rs = Inr (Some x)" "present (Some (hd ?cs)) = Some p" "d = descriptor"
      by (auto simp: yarn_fallback_def by_only_name_def Let_def map_sum_Inr split: sum.splits option.splits)
    moreover from this(1,2) have "?cs \<noteq> []" by (cases ?cs) (auto simp: single_def)
    ultimately have "p \<in> set ?cs" "d = descriptor" by (metis hd_in_set option.inject present_Some)+
    then obtain ps where "dget (y_by_name yl) name = Some ps" "p \<in> set ps" by (cases "dget (y_by_name yl) name") auto
    with \<open>d = descriptor\<close> show ?thesis by (force simp: yarn_values_def dest: map_of_SomeD)
  qed
qed

lemma yarn_find_in:
  assumes "yarn_find yl name reference = Inr (d, p)"
  shows "d \<in> {name @ ''@'' @ py_text reference, name @ ''@npm:'' @ py_text reference} \<and> p \<in> yarn_values yl \<and>
    (present (dget (y_descriptors yl) d) = Some p \<or> present (dget (y_descriptors yl) d) = None \<and> yarn_fallback yl name d = Inr (d, p))"
proof -
  have val: "present (dget (y_descriptors yl) d) = Some p \<Longrightarrow> p \<in> yarn_values yl" for d
    by (force simp: present_Some yarn_values_def dest: map_of_SomeD)
  have same: "as_str reference = Inr r \<Longrightarrow> py_text reference = r" for r
    by (auto simp: as_str_def py_text_def split: json.splits)
  show ?thesis
    using assms by (auto simp: yarn_find_def Let_def dest: val yarn_fallback_in same split: option.splits sum.splits if_splits)
qed

lemma yarn_key_expand: "yarn_key yl q = Inl e \<Longrightarrow> yarn_expand yl q = Inl e"
  by (auto simp: yarn_key_def yarn_expand_def map_sum_Inl split: prod.splits sum.splits if_splits)

lemma children_in: "children parent p = Inr next \<Longrightarrow> p \<in> yarn_values yl \<Longrightarrow> q \<in> set next \<Longrightarrow> snd q \<in> yarn_pairs yl queue"
  by (fastforce simp: children_def map_sum_Inr yarn_pairs_def)

lemma expand_children:
  assumes "yarn_expand yl q = Inr (next, new)"
  obtains parent p where "children parent p = Inr next" "p \<in> yarn_values yl"
proof -
  obtain par name ref where q: "q = (par, name, ref)" by (cases q)
  with assms obtain reference where r: "as_str ref = Inr reference"
    by (auto simp: yarn_expand_def split: sum.splits)
  show thesis
  proof (cases "startswith reference ''workspace:''")
    case True
    with assms q r obtain p where "dget (y_workspaces yl) name = Some p" "children name p = Inr next"
      by (auto simp: yarn_expand_def expand_workspace_def map_sum_Inr present_Some split: option.splits)
    then show thesis by (intro that[of name p]) (force simp: yarn_values_def dest: map_of_SomeD)+
  next
    case False
    with assms q r obtain chosen d p where find: "yarn_find yl name chosen = Inr (d, p)" and "expand_package name p = Inr (next, new)"
      by (auto simp: yarn_expand_def split: sum.splits)
    then obtain par' where "children par' p = Inr next"
      by (auto simp: expand_package_def map_sum_Inr Let_def split: sum.splits)
    moreover have "p \<in> yarn_values yl" using yarn_find_in[OF find] by blast
    ultimately show thesis by (rule that)
  qed
qed

lemma yarn_key_in:
  assumes "yarn_key yl (par, name, ref) = Inr k"
  shows "k \<in> tags_of yl (name, ref)"
proof -
  from assms obtain reference where r: "ref = JStr reference"
    by (auto simp: yarn_key_def as_str_def split: sum.splits json.splits)
  show ?thesis
  proof (cases "startswith reference ''workspace:''")
    case True
    with assms r show ?thesis by (simp add: yarn_key_def as_str_def tags_of_def)
  next
    case False
    with assms r obtain chosen d p where c: "yarn_reference yl par name reference = Inr chosen" "yarn_find yl name chosen = Inr (d, p)" "k = Descriptor d"
      by (auto simp: yarn_key_def as_str_def map_sum_Inr split: sum.splits)
    with yarn_reference_in[OF c(1)] yarn_find_in[OF c(2)] r show ?thesis by (auto simp: tags_of_def)
  qed
qed

interpretation yarn: worklist "yarn_key yl" "yarn_expand yl" "{q. snd q \<in> yarn_pairs yl queue}" "\<Union>(tags_of yl ` yarn_pairs yl queue)" for yl queue
proof
  show "finite (\<Union>(tags_of yl ` yarn_pairs yl queue))" by (simp add: finite_yarn)
  show "k \<in> \<Union>(tags_of yl ` yarn_pairs yl queue)" if "q \<in> {q. snd q \<in> yarn_pairs yl queue}" "yarn_key yl q = Inr k" for q k
    using that yarn_key_in[of yl "fst q" "fst (snd q)" "snd (snd q)" k] by auto
  show "set next \<subseteq> {q. snd q \<in> yarn_pairs yl queue}" if "yarn_expand yl q = Inr (next, new)" for q "next" new
    using expand_children[OF that] children_in by (metis mem_Collect_eq subsetI)
qed

definition plain_name :: "string \<Rightarrow> bool" where
  \<comment> \<open>an at sign only in front, for a scope\<close>
  "plain_name name \<longleftrightarrow> name \<noteq> [] \<and> CHR ''@'' \<notin> set (tl name)"

lemma plain_split:
  assumes "plain_name m" "plain_name n" "m @ CHR ''@'' # x = n @ CHR ''@'' # y"
  shows "m = n"
proof -
  obtain c m' d n' where names: "m = c # m'" "n = d # n'" "CHR ''@'' \<notin> set m'" "CHR ''@'' \<notin> set n'"
    using assms(1,2) by (auto simp: plain_name_def neq_Nil_conv)
  have "takeWhile (\<lambda>z. z \<noteq> CHR ''@'') (m' @ CHR ''@'' # x) = m'" "takeWhile (\<lambda>z. z \<noteq> CHR ''@'') (n' @ CHR ''@'' # y) = n'"
    using names(3,4) by (auto simp: takeWhile_append)
  with assms(3) names(1,2) show ?thesis by (metis append_Cons list.inject)
qed

lemma yarn_key_determines:
  assumes "yarn_key yl (p1, n1, r1) = Inr k" "yarn_key yl (p2, n2, r2) = Inr k" "plain_name n1" "plain_name n2"
  shows "yarn_expand yl (p1, n1, r1) = yarn_expand yl (p2, n2, r2)"
proof (cases k)
  case (Workspace name)
  with assms(1,2) show ?thesis
    by (auto simp: yarn_key_def yarn_expand_def map_sum_Inr split: sum.splits if_splits)
next
  case (Descriptor d)
  have found: "\<exists>c q. yarn_find yl n c = Inr (d, q) \<and> yarn_expand yl (p, n, r) = expand_package n q" if "yarn_key yl (p, n, r) = Inr k" for p n r
    using that Descriptor by (fastforce simp: yarn_key_def yarn_expand_def map_sum_Inr split: sum.splits if_splits)
  from found[OF assms(1)] obtain c1 q1 where f1: "yarn_find yl n1 c1 = Inr (d, q1)" "yarn_expand yl (p1, n1, r1) = expand_package n1 q1" by blast
  from found[OF assms(2)] obtain c2 q2 where f2: "yarn_find yl n2 c2 = Inr (d, q2)" "yarn_expand yl (p2, n2, r2) = expand_package n2 q2" by blast
  have at: "\<exists>x. d = n @ CHR ''@'' # x" if "yarn_find yl n c = Inr (d, q)" for n c q
    using yarn_find_in[OF that] by auto
  from at[OF f1(1)] at[OF f2(1)] have same: "n1 = n2" using plain_split[OF assms(3,4)] by blast
  have "q1 = q2"
    using yarn_find_in[OF f1(1), THEN conjunct2, THEN conjunct2] yarn_find_in[OF f2(1), THEN conjunct2, THEN conjunct2] same by auto
  with same f1 f2 show ?thesis by simp
qed

text \<open>C21: The Provides of a Yarn lock file are the closure of its production dependencies. When the lock file and the package
  file can be read the loop ends. If the names met have an at sign only in front, then on success exactly the packages that can
  be reached (through workspaces, overrides and the fall-backs for descriptors) are recorded, and on failure an entry that can be
  reached cannot be resolved.\<close>

theorem yarn_closure:
  assumes "yarn_load ge patterns lock root_package workspaces = Inr (yl, queue)"
  shows "\<exists>r. yarn_packages ge patterns lock root_package workspaces = Some r \<and> (case r of
      Inr provides \<Rightarrow> (\<forall>parent name ref. reached (yarn_expand yl) (set queue) (parent, name, ref) \<longrightarrow> plain_name name) \<longrightarrow>
        set provides = {x. \<exists>q next new. reached (yarn_expand yl) (set queue) q \<and> yarn_expand yl q = Inr (next, new) \<and> x \<in> set new}
    | Inl e \<Rightarrow> \<exists>q. reached (yarn_expand yl) (set queue) q \<and> yarn_expand yl q = Inl e)"
proof -
  obtain r where r: "drain (yarn_key yl) (yarn_expand yl) (rev queue) [] [] = Some r"
    using yarn.drain_ends[where queue = "rev queue", of yl queue] by (fastforce simp: yarn_pairs_def)
  show ?thesis
  proof (cases r)
    case (Inr provides)
    with r have run: "drain (yarn_key yl) (yarn_expand yl) (rev queue) [] [] = Some (Inr provides)" by simp
    have "set provides = {x. \<exists>q next new. reached (yarn_expand yl) (set queue) q \<and> yarn_expand yl q = Inr (next, new) \<and> x \<in> set new}"
      if names: "\<forall>parent name ref. reached (yarn_expand yl) (set queue) (parent, name, ref) \<longrightarrow> plain_name name"
    proof -
      have det: "yarn_expand yl q = yarn_expand yl q'"
        if "reached (yarn_expand yl) (set (rev queue)) q" "reached (yarn_expand yl) (set (rev queue)) q'"
        "yarn_key yl q = Inr k" "yarn_key yl q' = Inr k" for q q' k
      proof -
        obtain p1 n1 r1 where q: "q = (p1, n1, r1)" by (cases q)
        obtain p2 n2 r2 where q': "q' = (p2, n2, r2)" by (cases q')
        show ?thesis unfolding q q'
          by (rule yarn_key_determines) (use that names in \<open>(simp only: q q' set_rev, blast?)+\<close>)
      qed
      from drain_exact(2)[OF run det] show ?thesis by (simp only: set_rev)
    qed
    with assms run show ?thesis by (simp add: yarn_packages_def)
  next
    case (Inl e)
    with r have run: "drain (yarn_key yl) (yarn_expand yl) (rev queue) [] [] = Some (Inl e)" by simp
    from drain_error[OF this, of "set queue"] have "\<exists>q. reached (yarn_expand yl) (set queue) q \<and> yarn_expand yl q = Inl e"
      by (auto intro: root dest: yarn_key_expand)
    with assms run show ?thesis by (simp add: yarn_packages_def)
  qed
qed

definition web_lock :: json where
  \<comment> \<open>a lock file with two packages, one of them reached by an override\<close>
  "web_lock = JObj [(''__metadata'', JObj []), (''a@npm:^1'', JObj [(''version'', JStr ''1.2''), (''resolution'', JStr ''a@npm:1.2''),
     (''dependencies'', JObj [(''b'', JStr ''^2'')])]), (''b@npm:3'', JObj [(''version'', JStr ''3.0-rc1''), (''resolution'', JStr ''b@npm:3'')])]"

definition web_root :: json where
  "web_root = JObj [(''name'', JStr ''root''), (''dependencies'', JObj [(''a'', JStr ''^1'')]), (''resolutions'', JObj [(''a/b'', JStr ''npm:3'')])]"

definition web_env :: gen_env where
  "web_env = npm_env\<lparr>yaml_text := \<lambda>_. Inr web_lock\<rparr>"

definition web_yarn :: yarn_lock where
  "web_yarn = (let (ds, ns) = (case web_lock of JObj d \<Rightarrow> yarn_index d | _ \<Rightarrow> ([], [])) in
     \<lparr>y_descriptors = ds, y_by_name = ns, y_resolutions = JObj [(''a/b'', JStr ''npm:3'')], y_workspaces = [], y_patterns = override_patterns\<rparr>)"

lemma web_load: "yarn_load web_env override_patterns [] web_root [] = Inr (web_yarn, [(''root'', ''a'', JStr ''^1'')])"
  by (simp add: yarn_load_def web_env_def web_yarn_def web_lock_def web_root_def children_def dependencies_def get_default_def
    DEPENDENCY_SECTIONS_def as_dict_def py_text_def split: prod.split)

lemma web_provides: "yarn_packages web_env override_patterns [] web_root [] = Some (Inr [(''a'', ''1.2''), (''b'', ''3.0-rc1'')])"
  by code_simp

lemma web_expand:
  "yarn_expand web_yarn (''root'', ''a'', JStr ''^1'') = Inr ([(''a'', ''b'', JStr ''^2'')], [(''a'', ''1.2'')])"
  "yarn_expand web_yarn (''a'', ''b'', JStr ''^2'') = Inr ([], [(''b'', ''3.0-rc1'')])"
  by code_simp+

lemma web_reached: "reached (yarn_expand web_yarn) {(''root'', ''a'', JStr ''^1'')} q \<Longrightarrow> q \<in> {(''root'', ''a'', JStr ''^1''), (''a'', ''b'', JStr ''^2'')}"
  by (induction rule: reached.induct) (auto simp: web_expand)

theorem yarn_closure_witness:
  "{(''a'', ''1.2''), (''b'', ''3.0-rc1'')} = {x. \<exists>q next new. reached (yarn_expand web_yarn) {(''root'', ''a'', JStr ''^1'')} q \<and>
     yarn_expand web_yarn q = Inr (next, new) \<and> x \<in> set new}"
proof -
  have "\<forall>parent name ref. reached (yarn_expand web_yarn) {(''root'', ''a'', JStr ''^1'')} (parent, name, ref) \<longrightarrow> plain_name name"
    using web_reached by (fastforce simp: plain_name_def)
  with yarn_closure[OF web_load] show ?thesis by (simp add: web_provides)
qed

definition pnpm_lock :: json where
  "pnpm_lock = JObj [(''importers'', JObj [(''.'', JObj [(''dependencies'', JObj [(''react'', JObj [(''version'', JStr ''18.2.0'')])])])]),
     (''snapshots'', JObj [(''react@18.2.0'', JObj [(''dependencies'', JObj [(''loose'', JStr ''1.4.0'')])]), (''loose@1.4.0'', JObj [])])]"

theorem pnpm_closure_witness:
  "\<exists>p \<in> {(''react'', ''18.2.0''), (''loose'', ''1.4.0'')}. pnpm_package ''loose@1.4.0'' = Inr p"
proof -
  let ?ge = "npm_env\<lparr>yaml_text := \<lambda>_. Inr pnpm_lock\<rparr>"
  let ?d = "case pnpm_lock of JObj d \<Rightarrow> d"
  let ?s = "get_default ?d ''snapshots'' JNull"
  have load: "pnpm_load ?ge [] = Inr (?s, [''react@18.2.0''])" by code_simp
  have data: "yaml_text ?ge [] = Inr (JObj ?d)" by (simp add: pnpm_lock_def)
  have "pnpm_packages ?ge [] = Some (Inr [(''react'', ''18.2.0''), (''loose'', ''1.4.0'')])" by code_simp
  moreover have "needed ?d ''react@18.2.0''"
    by (rule needed.importer) (auto simp: pnpm_lock_def get_default_def requires_def pnpm_reference_def startswith_def)
  then have "needed ?d ''loose@1.4.0''"
    by (rule needed.dependency) (auto simp: pnpm_lock_def get_default_def requires_def pnpm_reference_def startswith_def)
  ultimately show ?thesis using pnpm_closure[OF load data] by simp
qed

end
