(* ===== verification/Py_Paths.thy ===== *)
theory Py_Paths
  imports Py_Regex
begin

section \<open>Pure paths and shell patterns\<close>

text \<open>
  \<open>pathlib.PurePosixPath\<close> as the list of its \<open>parts\<close>, the root \<open>/\<close> being a part of its own, and \<open>fnmatch.fnmatchcase\<close>
  with stars, question marks and brackets. Of identifiers only the ASCII ones are known.
\<close>

subsection \<open>Shell patterns\<close>

fun bracket_items :: "string \<Rightarrow> char \<Rightarrow> bool" where
  \<comment> \<open>what is between the brackets, without a leading \<open>!\<close>\<close>
  "bracket_items (a # b # c # s) x = (if b = CHR ''-'' then (of_char a :: nat) \<le> of_char x \<and> (of_char x :: nat) \<le> of_char c \<or> bracket_items s x
     else a = x \<or> bracket_items (b # c # s) x)"
| "bracket_items [a, b] x = (a = x \<or> b = x)"
| "bracket_items [a] x = (a = x)"
| "bracket_items [] x = False"

definition bracket :: "string \<Rightarrow> (string \<times> string) option" where
  \<comment> \<open>the items and the rest of the pattern, for the text after an opening bracket; \<open>None\<close> when it is not closed\<close>
  "bracket p = (let lead = (case p of c # s \<Rightarrow> if c = CHR ''!'' then [c] else [] | [] \<Rightarrow> []); s = drop (length lead) p;
     close = (case s of c # t \<Rightarrow> if c = CHR '']'' then [c] else [] | [] \<Rightarrow> []); t = drop (length close) s;
     items = takeWhile (\<lambda>c. c \<noteq> CHR '']'') t
   in if length items = length t then None else Some (lead @ close @ items, drop (Suc (length items)) t))"

definition bracket_has :: "string \<Rightarrow> char \<Rightarrow> bool" where
  "bracket_has items x = (case items of c # s \<Rightarrow> if c = CHR ''!'' then \<not> bracket_items s x else bracket_items items x | [] \<Rightarrow> False)"

lemma bracket_shorter: "bracket p = Some (items, rest) \<Longrightarrow> length rest \<le> length p"
  by (auto simp: bracket_def Let_def split: if_splits)

function fnmatch :: "string \<Rightarrow> string \<Rightarrow> bool" where
  \<comment> \<open>pattern and name\<close>
  "fnmatch p s = (case p of [] \<Rightarrow> s = []
   | c # q \<Rightarrow> (if c = CHR ''*'' then fnmatch q s \<or> (case s of [] \<Rightarrow> False | _ # r \<Rightarrow> fnmatch p r)
       else (case s of [] \<Rightarrow> False
         | d # r \<Rightarrow> (if c = CHR ''?'' then fnmatch q r
             else (case (if c = CHR ''['' then bracket q else None) of
                 Some (items, rest) \<Rightarrow> bracket_has items d \<and> fnmatch rest r
               | None \<Rightarrow> c = d \<and> fnmatch q r)))))"
  by pat_completeness auto
termination
  by (relation "measure (\<lambda>(p, s). length p + length s)") (auto dest!: bracket_shorter split: if_splits)

declare fnmatch.simps [simp del]

lemma fnmatch_Nil [simp]: "fnmatch [] s \<longleftrightarrow> s = []"
  by (simp add: fnmatch.simps[of "[]"])

lemma fnmatch_star: "fnmatch ''*'' s"
proof (induction s)
  case (Cons c s)
  then show ?case by (subst fnmatch.simps) simp
qed (subst fnmatch.simps, simp)

lemma fnmatch_literal:
  "set p \<inter> set ''*?['' = {} \<Longrightarrow> fnmatch p s \<longleftrightarrow> s = p"
proof (induction p arbitrary: s)
  case (Cons c p)
  then show ?case by (subst fnmatch.simps) (auto split: list.splits)
qed simp

subsection \<open>Parts of a path\<close>

type_synonym parts = "string list"

definition parse_path :: "string \<Rightarrow> parts" where
  \<comment> \<open>\<open>PurePosixPath(s).parts\<close>; exactly two leading slashes are a root of their own\<close>
  "parse_path s = (if startswith s ''//'' \<and> \<not> startswith s ''///'' then [''//''] else if startswith s ''/'' then [''/''] else []) @
     filter (\<lambda>c. c \<noteq> [] \<and> c \<noteq> ''.'') (split_on CHR ''/'' s)"

definition is_anchor :: "string \<Rightarrow> bool" where
  "is_anchor c = (c = ''/'' \<or> c = ''//'')"

definition absolute :: "parts \<Rightarrow> bool" where
  "absolute p = (p \<noteq> [] \<and> is_anchor (hd p))"

definition path_string :: "parts \<Rightarrow> string" where
  \<comment> \<open>\<open>str(path)\<close>\<close>
  "path_string p = (if p = [] then ''.'' else if absolute p then hd p @ join ''/'' (tl p) else join ''/'' p)"

definition pname :: "parts \<Rightarrow> string" where
  "pname p = (if p = [] \<or> absolute p \<and> length p = 1 then [] else last p)"

definition pparent :: "parts \<Rightarrow> parts" where
  "pparent p = (if absolute p \<and> length p = 1 then p else butlast p)"

definition pparents :: "parts \<Rightarrow> parts list" where
  \<comment> \<open>from the parent up to the root\<close>
  "pparents p = map (\<lambda>n. take n p) (rev [(if absolute p then 1 else 0)..<length p])"

definition split_suffix :: "string \<Rightarrow> string \<times> string" where
  \<comment> \<open>stem and suffix of a name: the last dot, unless it is the first or the last character\<close>
  "split_suffix name = (let ext = rev (takeWhile (\<lambda>c. c \<noteq> CHR ''.'') (rev name)); n = length name - Suc (length ext) in
     if CHR ''.'' \<in> set name \<and> 0 < n \<and> ext \<noteq> [] then (take n name, drop n name) else (name, []))"

definition psuffix :: "parts \<Rightarrow> string" where "psuffix p = snd (split_suffix (pname p))"
definition pstem :: "parts \<Rightarrow> string" where "pstem p = fst (split_suffix (pname p))"

definition under_path :: "parts \<Rightarrow> parts \<Rightarrow> bool" where
  \<comment> \<open>\<open>path.is_relative_to(d)\<close>\<close>
  "under_path d p = (take (length d) p = d)"

definition relative_path :: "parts \<Rightarrow> parts \<Rightarrow> parts" where
  "relative_path d p = drop (length d) p"

definition index_of :: "'a \<Rightarrow> 'a list \<Rightarrow> nat" where
  "index_of x xs = length (takeWhile (\<lambda>y. y \<noteq> x) xs)"

lemma pparents_iff: "q \<in> set (pparents p) \<longleftrightarrow> (\<exists>n. (if absolute p then 1 else 0) \<le> n \<and> n < length p \<and> q = take n p)"
  by (auto simp: pparents_def)

lemma pparents_longer:
  \<comment> \<open>the parents before \<open>q\<close> are those that are strictly inside \<open>q\<close>\<close>
  assumes "q \<in> set (pparents p)"
  shows "set (take (index_of q (pparents p)) (pparents p)) = {r \<in> set (pparents p). length q < length r}"
proof -
  let ?a = "if absolute p then 1 else (0::nat)"
  from assms obtain n where n: "?a \<le> n" "n < length p" "q = take n p" by (auto simp: pparents_iff)
  have "rev [?a..<length p] = rev [Suc n..<length p] @ n # rev [?a..<n]"
  proof -
    have "[?a..<length p] = [?a..<n] @ n # [Suc n..<length p]"
      using n by (metis le_trans less_imp_le_nat upt_add_eq_append upt_conv_Cons le_add_diff_inverse)
    then show ?thesis by simp
  qed
  then have pp: "pparents p = map (\<lambda>k. take k p) (rev [Suc n..<length p]) @ q # map (\<lambda>k. take k p) (rev [?a..<n])"
    by (simp add: pparents_def n(3))
  have no: "r \<noteq> q" if "r \<in> set (map (\<lambda>k. take k p) (rev [Suc n..<length p]))" for r
  proof -
    from that obtain k where "Suc n \<le> k" "k < length p" "r = take k p" by auto
    then have "length r = k" "length q = n" using n by auto
    with \<open>Suc n \<le> k\<close> show ?thesis by auto
  qed
  have "index_of q (pparents p) = length (map (\<lambda>k. take k p) (rev [Suc n..<length p]))"
  proof -
    have "takeWhile (\<lambda>y. y \<noteq> q) (pparents p) = map (\<lambda>k. take k p) (rev [Suc n..<length p])"
      unfolding pp by (rule takeWhile_append_stop) (use no in auto)
    then show ?thesis by (simp add: index_of_def)
  qed
  then have "take (index_of q (pparents p)) (pparents p) = map (\<lambda>k. take k p) (rev [Suc n..<length p])"
    by (simp add: pp)
  moreover have "{r \<in> set (pparents p). length q < length r} = set (map (\<lambda>k. take k p) (rev [Suc n..<length p]))"
  proof (intro equalityI subsetI)
    fix r assume "r \<in> set (map (\<lambda>k. take k p) (rev [Suc n..<length p]))"
    then obtain k where k: "Suc n \<le> k" "k < length p" "r = take k p" by auto
    then have "r \<in> set (pparents p)" using n(1) unfolding pparents_iff by (intro exI[of _ k]) auto
    with k n show "r \<in> {r \<in> set (pparents p). length q < length r}" by simp
  qed (use n in \<open>auto simp: pparents_iff\<close>)
  ultimately show ?thesis by simp
qed

subsection \<open>Names of modules\<close>

definition is_identifier :: "string \<Rightarrow> bool" where
  "is_identifier s = (case s of [] \<Rightarrow> False | c # cs \<Rightarrow> (is_alpha c \<or> c = CHR ''_'') \<and> list_all is_word cs)"

definition KEYWORDS :: "string list" where
  "KEYWORDS = [''False'', ''None'', ''True'', ''and'', ''as'', ''assert'', ''async'', ''await'', ''break'', ''class'', ''continue'', ''def'',
     ''del'', ''elif'', ''else'', ''except'', ''finally'', ''for'', ''from'', ''global'', ''if'', ''import'', ''in'', ''is'', ''lambda'',
     ''nonlocal'', ''not'', ''or'', ''pass'', ''raise'', ''return'', ''try'', ''while'', ''with'', ''yield'']"

end
