(* ===== verification/Bundled_Scripts.thy ===== *)
theory Bundled_Scripts
  imports Bundled_Npm Py_Paths
begin

section \<open>Bundled Provides: the scripts\<close>

text \<open>
  The \<open>main\<close> functions of the npm generators for Grafana, Jaeger and Prometheus. \<open>package_dir\<close> is the directory of
  the script.
\<close>

subsection \<open>Grafana\<close>

definition path_parts :: "string \<Rightarrow> string list" where
  "path_parts s = (if startswith s ''/'' then [''/''] else []) @ filter (\<lambda>c. c \<noteq> [] \<and> c \<noteq> ''.'') (split_on CHR ''/'' s)"

definition path_match :: "string \<Rightarrow> string \<Rightarrow> bool" where
  \<comment> \<open>\<open>Path(s).match(pattern)\<close>\<close>
  "path_match s pattern = (let p = path_parts s; q = path_parts pattern in length q \<le> length p \<and>
     (startswith pattern ''/'' \<longrightarrow> length q = length p) \<and> list_all2 fnmatch (rev q) (take (length q) (rev p)))"

definition add_workspace :: "gen_env \<Rightarrow> string \<Rightarrow> string list \<Rightarrow> dict \<Rightarrow> string \<times> json \<Rightarrow> exn + dict" where
  "add_workspace ge prefix patterns workspaces member =
     (if \<not> list_ex (\<lambda>pattern. path_match (removeprefix (fst member) prefix) (pattern @ ''/package.json'')) patterns then Inr workspaces
      else (case read_member member of Inl e \<Rightarrow> Inl e
        | Inr t \<Rightarrow> (case json_text ge t of Inl e \<Rightarrow> Inl e
            | Inr package \<Rightarrow> (case as_dict package of Inl e \<Rightarrow> Inl e
                | Inr d \<Rightarrow> (case get_default d ''name'' JNull of
                    JStr name \<Rightarrow> Inr (if name = [] then workspaces else dset name package workspaces)
                  | v \<Rightarrow> if truthy v \<and> \<not> hashable v then Inl (TypeError ''unhashable type'') else Inr workspaces)))))"

definition only_spec :: "path \<Rightarrow> string \<Rightarrow> string \<Rightarrow> string prog" where
  \<comment> \<open>the one spec file with the prefix\<close>
  "only_spec package_dir prefix message = (bind (spec_between package_dir prefix) (\<lambda>specs.
    (case specs of [s] \<Rightarrow> ret s | _ \<Rightarrow> sys_exit message)))"

definition write_provides :: "gen_env \<Rightarrow> path \<Rightarrow> (string \<times> string) list \<Rightarrow> unit prog" where
  "write_provides ge spec provides =
     refresh_block ge spec BEGIN_NPM END_NPM (map npm_line (sort (remdups provides))) (length (remdups provides)) ''npm''"

definition grafana_main :: "host \<Rightarrow> gen_env \<Rightarrow> (string \<Rightarrow> string \<Rightarrow> string list) \<Rightarrow> path \<Rightarrow> string list \<Rightarrow> unit prog" where
  "grafana_main h ge patterns package_dir argv = (bind (version_arg ''generate-bundled-npm-provides.py'' argv) (\<lambda>version.
    bind (only_spec package_dir ''grafana'' ''expected exactly one grafana*.spec'') (\<lambda>spec.
    bind (open_archive h (package_dir @ [''grafana-'' @ version @ ''.tar.gz''])) (\<lambda>members.
    let prefix = ''grafana-'' @ version @ ''/'' in
    bind (from_sum (get_member members (prefix @ ''yarn.lock''))) (\<lambda>lock_member.
    bind (from_sum (read_member lock_member)) (\<lambda>lock.
    bind (from_sum (get_member members (prefix @ ''package.json''))) (\<lambda>root_member.
    bind (from_sum (read_member root_member)) (\<lambda>root_text.
    bind (from_sum (json_text ge root_text)) (\<lambda>root_package.
    bind (from_sum (as_dict root_package)) (\<lambda>rp.
    bind (from_sum (as_dict (get_default rp ''workspaces'' (JObj [])))) (\<lambda>ws.
    bind (from_sum (as_list (get_default ws ''packages'' (JList [])))) (\<lambda>globs.
    bind (from_sum (fold_sum (add_workspace ge prefix (map py_text globs)) [] members)) (\<lambda>workspaces.
    bind (ended (yarn_packages ge patterns lock root_package workspaces)) (\<lambda>provides.
    write_provides ge (package_dir @ [spec]) provides))))))))))))))"

subsection \<open>Jaeger\<close>

definition PACKAGE_KEY_RE :: rx where
  \<comment> \<open>\<open>^  (\S.*):$\<close>\<close>
  "PACKAGE_KEY_RE = Seq [Lit ''  '', Grp 1 (Seq [Cls (\<lambda>c. \<not> is_ws c), Star True Dot]), Chr CHR '':'']"

definition unquote_key :: "gen_env \<Rightarrow> string \<Rightarrow> exn + string" where
  "unquote_key ge value = (if startswith value [CHR 0x27] \<or> startswith value [CHR 0x22]
     then (case literal_text ge value of Inl e \<Rightarrow> Inl e
       | Inr (JStr s) \<Rightarrow> Inr s
       | Inr _ \<Rightarrow> Inl (ValueError (''invalid pnpm package key: '' @ value)))
     else Inr value)"

fun importer_paths :: "gen_env \<Rightarrow> bool \<Rightarrow> string list \<Rightarrow> exn + string list" where
  \<comment> \<open>the loop of \<open>lockfile_importers\<close> with its flag\<close>
  "importer_paths ge importers [] = Inr []"
| "importer_paths ge importers (line # rest) = (if line = ''importers:'' then importer_paths ge True rest
     else if importers \<and> line \<noteq> [] \<and> \<not> startswith line '' '' then Inr []
     else if \<not> importers then importer_paths ge importers rest
     else (case re_fullmatch PACKAGE_KEY_RE line of None \<Rightarrow> importer_paths ge importers rest
       | Some m \<Rightarrow> (case unquote_key ge (group m 1) of Inl e \<Rightarrow> Inl e
           | Inr p \<Rightarrow> map_sum id (\<lambda>ps. if p \<noteq> ''.'' then p # ps else ps) (importer_paths ge importers rest))))"

definition lockfile_importers :: "gen_env \<Rightarrow> string \<Rightarrow> exn + string list" where
  "lockfile_importers ge lock = importer_paths ge False (splitlines lock)"

definition lockfile_provides :: "gen_env \<Rightarrow> string \<Rightarrow> (string \<times> string) list prog" where
  "lockfile_provides ge lock = (bind (ended (pnpm_packages ge lock)) (\<lambda>provides.
    if provides = [] then (raise (ValueError ''pnpm production dependency closure is empty'')) else
    ret provides))"

definition archive_member :: "dict \<Rightarrow> string \<Rightarrow> exn + string \<times> json" where
  "archive_member members suffix = (case filter (\<lambda>m. endswith (fst m) suffix) members of
     [m] \<Rightarrow> Inr m | _ \<Rightarrow> Inl (ValueError (''expected exactly one archive member ending in '' @ suffix)))"

definition workspace_package :: "gen_env \<Rightarrow> dict \<Rightarrow> string \<Rightarrow> exn + (string \<times> string) list" where
  "workspace_package ge members importer = (case archive_member members (''/'' @ importer @ ''/package.json'') of Inl e \<Rightarrow> Inl e
     | Inr m \<Rightarrow> (case read_member m of Inl e \<Rightarrow> Inl e
     | Inr t \<Rightarrow> (case json_text ge t of Inl e \<Rightarrow> Inl e
     | Inr package \<Rightarrow> (case as_dict package of Inl e \<Rightarrow> Inl e
     | Inr d \<Rightarrow> (let name = get_default d ''name'' JNull; version = get_default d ''version'' JNull in
         if \<not> truthy name \<or> \<not> truthy version then Inr []
         else (case as_str name of Inl e \<Rightarrow> Inl e | Inr n \<Rightarrow> map_sum id (\<lambda>v. [(n, v)]) (as_str version)))))))"

definition jaeger_main :: "host \<Rightarrow> gen_env \<Rightarrow> path \<Rightarrow> string list \<Rightarrow> unit prog" where
  "jaeger_main h ge package_dir argv = (bind (version_arg ''generate-bundled-npm-provides.py'' argv) (\<lambda>version.
    bind (open_archive h (package_dir @ [''jaeger-ui-'' @ version @ ''.tar.gz''])) (\<lambda>members.
    bind (from_sum (archive_member members ''/pnpm-lock.yaml'')) (\<lambda>m.
    bind (from_sum (read_member m)) (\<lambda>lock.
    bind (lockfile_provides ge lock) (\<lambda>provides.
    bind (from_sum (lockfile_importers ge lock)) (\<lambda>importers.
    bind (from_sum (concat_sum (workspace_package ge members) (sort (remdups importers)))) (\<lambda>workspace_packages.
    let generated = map npm_line (sort (remdups provides)) @ map npm_line (sort workspace_packages) in
    refresh_block ge (package_dir @ [''jaeger.spec'']) BEGIN_NPM END_NPM generated (length generated) ''npm''))))))))"

subsection \<open>Prometheus\<close>

definition is_lockfile :: "string \<Rightarrow> bool" where
  "is_lockfile name = (contains name ''/web/ui/'' \<and> (endswith name ''package-lock.json'' \<or> endswith name ''pnpm-lock.yaml''))"

definition add_lockfile :: "gen_env \<Rightarrow> (string \<times> string) list \<Rightarrow> string \<times> json \<Rightarrow> (string \<times> string) list prog" where
  "add_lockfile ge provides member = (bind (from_sum (read_member member)) (\<lambda>lock.
    bind (if endswith (fst member) ''package-lock.json'' then from_sum (npm_packages ge lock) else ended (pnpm_packages ge lock)) (\<lambda>more.
    ret (provides @ more))))"

definition prometheus_main :: "host \<Rightarrow> gen_env \<Rightarrow> path \<Rightarrow> string list \<Rightarrow> unit prog" where
  "prometheus_main h ge package_dir argv = (bind (version_arg ''generate-bundled-npm-provides.py'' argv) (\<lambda>version.
    bind (only_spec package_dir ''prometheus'' ''expected exactly one prometheus*.spec'') (\<lambda>spec.
    let archive = package_dir @ [''prometheus-'' @ version @ ''.tar.gz''] in
    bind (open_archive h archive) (\<lambda>members.
    bind (foldM (add_lockfile ge) [] (filter (\<lambda>m. is_lockfile (fst m)) members)) (\<lambda>provides.
    if provides = [] then (sys_exit (path_str archive @ '': no frontend dependencies found'')) else
    write_provides ge (package_dir @ [spec]) provides)))))"

end
