(* ===== verification/Bundled_Maven.thy ===== *)
theory Bundled_Maven
  imports Bundled_Scripts
begin

section \<open>Bundled Provides: Maven, and what every generator promises\<close>

text \<open>
  The generator for Maven: each jar of the binary distribution is known by its digest in a Maven repository, or else by its
  \<open>pom.properties\<close>. The entries of a jar are the answer to a question \<open>Lib ''zipfile.ZipFile''\<close>, a name with its text.
  Then the promise of all four generators: a run that fails leaves every file as it was.
\<close>

subsection \<open>Coordinates\<close>

type_synonym coordinate = "string \<times> string \<times> string"

definition PROPERTY_RE :: rx where
  \<comment> \<open>\<open>^\s*([^#!:=\s]+)\s*[:=]\s*(.*?)\s*$\<close>\<close>
  "PROPERTY_RE = Seq [Bol False, Star True Space, Grp 1 (Plus True (Cls (\<lambda>c. c \<notin> set ''#!:='' \<and> \<not> is_ws c))),
     Star True Space, Cls (\<lambda>c. c \<in> set '':=''), Star True Space, Grp 2 (Star False Dot), Star True Space, Eol False]"

definition add_property :: "string \<Rightarrow> (string \<times> string) list \<Rightarrow> (string \<times> string) list" where
  "add_property line values = (case re_match PROPERTY_RE line of None \<Rightarrow> values
     | Some m \<Rightarrow> dset (group m 1) (group m 2) values)"

definition coordinate_of :: "string \<Rightarrow> coordinate option" where
  \<comment> \<open>the three required keys of a properties file\<close>
  "coordinate_of properties = (let values = fold add_property (splitlines properties) [];
     get = (\<lambda>k. case dget values k of Some v \<Rightarrow> v | None \<Rightarrow> []);
     g = get ''groupId''; a = get ''artifactId''; v = get ''version''
   in if g \<noteq> [] \<and> a \<noteq> [] \<and> v \<noteq> [] then Some (g, a, v) else None)"

definition is_pom_properties :: "string \<Rightarrow> bool" where
  "is_pom_properties name = (startswith name ''META-INF/maven/'' \<and> endswith name ''/pom.properties'')"

definition entry_coordinates :: "dict \<Rightarrow> string \<Rightarrow> exn + coordinate list" where
  "entry_coordinates entries name = (case get_member entries name of Inl e \<Rightarrow> Inl e
     | Inr (_, JStr s) \<Rightarrow> Inr (case coordinate_of s of None \<Rightarrow> [] | Some c \<Rightarrow> [c])
     | Inr _ \<Rightarrow> Inl UnicodeDecodeError)"

definition pom_properties :: "host \<Rightarrow> string \<Rightarrow> coordinate list prog" where
  \<comment> \<open>\<open>zipfile.BadZipFile\<close>, which no caller catches, is a \<open>RuntimeError\<close> here\<close>
  "pom_properties h jar = (bind (ask_host h (Lib ''zipfile.ZipFile'' [jar])) (\<lambda>r.
    (case r of Answer (JObj entries) \<Rightarrow> from_sum (concat_sum (entry_coordinates entries) (filter is_pom_properties (map fst entries)))
     | _ \<Rightarrow> raise (RuntimeError ''File is not a zip file''))))"

subsection \<open>The repository\<close>

definition read_raw :: "path \<Rightarrow> string prog" where
  \<comment> \<open>\<open>jar.read_bytes()\<close>\<close>
  "read_raw p = (\<lambda>w. case map_of (files w) p of
      None \<Rightarrow> (Inl (FileNotFoundError (path_str p)), w)
    | Some (FileN s) \<Rightarrow> (Inr s, w)
    | Some (BinN s) \<Rightarrow> (Inr s, w)
    | Some _ \<Rightarrow> (Inl (OSError (path_str p)), w))"

definition rglob_jars :: "path \<Rightarrow> path list prog" where
  \<comment> \<open>\<open>repository.rglob("*.jar")\<close>, relative to the repository\<close>
  "rglob_jars repository = gets (\<lambda>w. filter (\<lambda>p. p \<noteq> [] \<and> endswith (last p) ''.jar'')
     (map (drop (length repository)) (filter (under repository) (map fst (files w)))))"

definition add_jar :: "gen_env \<Rightarrow> path \<Rightarrow> (string \<times> coordinate list) list \<Rightarrow> path \<Rightarrow> (string \<times> coordinate list) list prog" where
  "add_jar ge repository jars relative =
     (if length relative < 4 then ret jars
      else let parts = rev relative; artifact = parts ! 2; version = parts ! 1; grp = join ''.'' (rev (drop 3 parts)) in
        if \<not> startswith (hd parts) (artifact @ ''-'' @ version) then ret jars
        else (bind (read_raw (repository @ relative)) (\<lambda>raw.
          let digest = sha256 ge raw in
          ret (dset digest (List.insert (grp, artifact, version) (case dget jars digest of Some cs \<Rightarrow> cs | None \<Rightarrow> [])) jars))))"

definition repository_jars :: "gen_env \<Rightarrow> path \<Rightarrow> (string \<times> coordinate list) list prog" where
  "repository_jars ge repository = (bind (rglob_jars repository) (\<lambda>jars.
    foldM (add_jar ge repository) [] jars))"

subsection \<open>The script\<close>

definition BEGIN_MAVEN :: string where "BEGIN_MAVEN = ''# BEGIN generated bundled Maven Provides''"
definition END_MAVEN :: string where "END_MAVEN = ''# END generated bundled Maven Provides''"

definition jar_member_re :: rx where
  \<comment> \<open>\<open>/(?:boot|lib)/[^/]+\.jar$\<close>\<close>
  "jar_member_re = Seq [Chr CHR ''/'', Alt (Lit ''boot'') (Lit ''lib''), Chr CHR ''/'',
     Plus True (Cls (\<lambda>c. c \<noteq> CHR ''/'')), Lit ''.jar'', Eol False]"

definition is_jar_member :: "string \<times> json \<Rightarrow> bool" where
  "is_jar_member m = (snd m \<noteq> JNull \<and> re_search jar_member_re (fst m) \<noteq> None)"

definition maven_line :: "coordinate \<Rightarrow> string" where
  "maven_line c = (case c of (g, a, v) \<Rightarrow> ''Provides: bundled(mvn('' @ g @ '':'' @ a @ '')) = '' @ v)"

definition jar_coordinates :: "host \<Rightarrow> gen_env \<Rightarrow> (string \<times> coordinate list) list \<Rightarrow> string \<Rightarrow> coordinate list prog" where
  "jar_coordinates h ge known jar = (case dget known (sha256 ge jar) of
      Some (c # cs) \<Rightarrow> ret (c # cs) | _ \<Rightarrow> pom_properties h jar)"

definition add_jar_member :: "host \<Rightarrow> gen_env \<Rightarrow> (string \<times> coordinate list) list \<Rightarrow> coordinate list \<Rightarrow> string \<times> json \<Rightarrow> coordinate list prog" where
  "add_jar_member h ge known provides member = (bind (from_sum (read_member member)) (\<lambda>jar.
    bind (jar_coordinates h ge known jar) (\<lambda>coordinates.
    if coordinates = [] then (raise (ValueError (''no Maven coordinates in '' @ fst member))) else
    ret (provides @ filter (\<lambda>c. fst c \<noteq> ''org.apache.maven'') coordinates))))"

definition path_text :: "path \<Rightarrow> string" where
  \<comment> \<open>\<open>str(path)\<close> of \<open>path_parts\<close>\<close>
  "path_text p = (if p = [] then ''.'' else if hd p = ''/'' then CHR ''/'' # path_str (tl p) else path_str p)"

definition maven_main :: "host \<Rightarrow> gen_env \<Rightarrow> path \<Rightarrow> string list \<Rightarrow> unit prog" where
  "maven_main h ge package_dir argv = (bind (case argv of [b, r] \<Rightarrow> ret (b, r)
      | _ \<Rightarrow> sys_exit ''usage: generate-bundled-maven-provides.py BINARY_TARBALL MAVEN_REPOSITORY'') (\<lambda>(tarball, maven_repo).
    let binary = path_parts tarball in
    let repository = path_parts maven_repo in
    bind (is_file binary) (\<lambda>b.
    if \<not> b then (sys_exit (path_text binary @ '': binary tarball not found'')) else
    bind (is_dir repository) (\<lambda>d.
    if \<not> d then (sys_exit (path_text repository @ '': Maven repository not found'')) else
    bind (repository_jars ge repository) (\<lambda>known.
    bind (open_archive h binary) (\<lambda>members.
    bind (foldM (add_jar_member h ge known) [] (filter is_jar_member members)) (\<lambda>provides.
    if provides = [] then (sys_exit (path_text binary @ '': no bundled Maven dependencies found'')) else
    let distinct_provides = remdups provides in
    bind (only_spec package_dir [] ''expected exactly one spec file'') (\<lambda>spec.
    refresh_block ge (package_dir @ [spec]) BEGIN_MAVEN END_MAVEN (map maven_line (sort distinct_provides)) (length distinct_provides) ''Maven''))))))))"

subsection \<open>All or nothing\<close>

text \<open>\<open>F\<close> is the checkout before: a run that fails leaves it, a run that returns has replaced the text of one spec file.\<close>

definition all_or_spec :: "path \<Rightarrow> fs \<Rightarrow> unit prog \<Rightarrow> bool" where
  "all_or_spec package_dir F m \<longleftrightarrow> triple (\<lambda>w. files w = F) m
     (\<lambda>_ w. \<exists>name t. endswith name ''.spec'' \<and> files w = fs_write (package_dir @ [name]) (FileN t) F) (\<lambda>_ w. files w = F)"

lemma all_or_spec_bind:
  assumes "keeps (\<lambda>w. files w = F) m" "\<And>x w w'. m w = (Inr x, w') \<Longrightarrow> all_or_spec package_dir F (k x)"
  shows "all_or_spec package_dir F (bind m k)"
  unfolding all_or_spec_def triple_def
proof (intro allI impI)
  fix w :: world assume w: "files w = F"
  obtain r w1 where m: "m w = (r, w1)" by (cases "m w")
  have F: "files w1 = F" by (rule keepsD[OF assms(1) m]) (use w in simp)
  show "case bind m k w of (Inl e, w') \<Rightarrow> files w' = F
      | (Inr x, w') \<Rightarrow> \<exists>name t. endswith name ''.spec'' \<and> files w' = fs_write (package_dir @ [name]) (FileN t) F"
  proof (cases r)
    case (Inl e)
    with m F show ?thesis by (simp add: bind_def)
  next
    case (Inr x)
    with m have "all_or_spec package_dir F (k x)" by (intro assms(2)) simp
    from this[unfolded all_or_spec_def triple_def, rule_format, OF F] m Inr show ?thesis by (simp add: bind_def)
  qed
qed

lemma all_or_spec_fail: "all_or_spec package_dir F (sys_exit msg)"
  by (simp add: all_or_spec_def triple_def sys_exit_def raise_def)

lemma all_or_spec_if:
  "(b \<Longrightarrow> all_or_spec package_dir F m) \<Longrightarrow> (\<not> b \<Longrightarrow> all_or_spec package_dir F k) \<Longrightarrow> all_or_spec package_dir F (if b then m else k)"
  by simp

lemma all_or_spec_refresh: "endswith name ''.spec'' \<Longrightarrow> all_or_spec package_dir F (refresh_block ge (package_dir @ [name]) b e generated n kind)"
  unfolding all_or_spec_def
  by (rule tripleI, (rule exI[of _ name], (erule conjI)?)?)
    (auto simp: refresh_block_def bind_run from_sum_def read_text_def write_text_def write_node_def emit_def sys_exit_def
      prog_simps split: prod.splits sum.splits option.splits node.splits if_splits)

definition only_reads_archives :: "host \<Rightarrow> bool" where
  \<comment> \<open>opening an archive changes no file\<close>
  "only_reads_archives h \<longleftrightarrow> (\<forall>ts ev f. snd (h ts ev f) = f)"

lemma only_reads_ask: "only_reads_archives h \<Longrightarrow> keeps (\<lambda>w. files w = F) (ask_host h ev)"
  by (rule keeps_ask_host) (simp add: only_reads_archives_def)

lemma only_reads_archive:
  "only_reads_archives h \<Longrightarrow> keeps (\<lambda>w. files w = F) (open_archive h p)" "only_reads_archives h \<Longrightarrow> keeps (\<lambda>w. files w = F) (pom_properties h jar)"
  unfolding open_archive_def pom_properties_def
  by (rule keeps_bind[OF only_reads_ask], assumption, simp split: reply.split json.split add: prog_rules)+

lemma keeps_ended: "keeps I (ended r)"
  by (simp add: ended_def prog_rules split: option.split)

lemma keeps_read_raw: "keeps I (read_raw p)"
  by (auto simp: keeps_def read_raw_def split: option.splits node.splits)

lemma keeps_version_arg: "keeps I (version_arg script argv)"
  by (simp add: version_arg_def prog_rules split: list.split)

lemma keeps_only_spec: "keeps I (only_spec package_dir prefix message)"
  by (auto simp: only_spec_def spec_between_def split: list.split intro!: prog_rules)

lemma only_spec_name: "only_spec package_dir prefix message w = (Inr s, w') \<Longrightarrow> endswith s ''.spec''"
proof -
  assume "only_spec package_dir prefix message w = (Inr s, w')"
  then have "filter (\<lambda>n. startswith n prefix \<and> endswith (removeprefix n prefix) ''.spec'') (fs_children (files w) package_dir) = [s]"
    by (auto simp: only_spec_def spec_between_def prog_inr split: list.splits)
  from arg_cong[OF this, of set] have "startswith s prefix" "endswith (removeprefix s prefix) ''.spec''" by auto
  then show ?thesis by (auto simp: endswith_iff removeprefix_def split: if_splits) (metis append.assoc append_take_drop_id)
qed

lemmas generator_steps = only_reads_archive keeps_ended keeps_version_arg keeps_only_spec keeps_from_sum keeps_read_raw

lemma keeps_lockfile_provides: "keeps I (lockfile_provides ge lock)"
  unfolding lockfile_provides_def by (intro prog_rules generator_steps)

lemma keeps_add_lockfile: "keeps I (add_lockfile ge provides member)"
  unfolding add_lockfile_def by (intro prog_rules generator_steps)

lemma keeps_repository_jars: "keeps I (repository_jars ge repository)"
  unfolding repository_jars_def rglob_jars_def add_jar_def Let_def by (intro prog_rules generator_steps)

lemma keeps_add_jar_member: "only_reads_archives h \<Longrightarrow> keeps (\<lambda>w. files w = F) (add_jar_member h ge known provides member)"
  unfolding add_jar_member_def jar_coordinates_def by (intro prog_rules generator_steps)

lemma grafana_all_or_spec: "only_reads_archives h \<Longrightarrow> all_or_spec package_dir F (grafana_main h ge patterns package_dir argv)"
  unfolding grafana_main_def write_provides_def Let_def
  by (intro all_or_spec_bind all_or_spec_refresh generator_steps only_spec_name)

lemma jaeger_spec: "endswith ''jaeger.spec'' ''.spec''"
  by code_simp

lemma jaeger_all_or_spec: "only_reads_archives h \<Longrightarrow> all_or_spec package_dir F (jaeger_main h ge package_dir argv)"
  unfolding jaeger_main_def Let_def
  by (intro all_or_spec_bind all_or_spec_refresh generator_steps keeps_lockfile_provides jaeger_spec)

lemma prometheus_all_or_spec: "only_reads_archives h \<Longrightarrow> all_or_spec package_dir F (prometheus_main h ge package_dir argv)"
  unfolding prometheus_main_def write_provides_def Let_def
  by (intro all_or_spec_bind all_or_spec_if all_or_spec_fail all_or_spec_refresh generator_steps keeps_foldM keeps_add_lockfile only_spec_name)

lemma maven_all_or_spec: "only_reads_archives h \<Longrightarrow> all_or_spec package_dir F (maven_main h ge package_dir argv)"
proof -
  assume h: "only_reads_archives h"
  have "keeps (\<lambda>w. files w = F) (case argv of [b, r] \<Rightarrow> ret (b, r)
      | _ \<Rightarrow> sys_exit ''usage: generate-bundled-maven-provides.py BINARY_TARBALL MAVEN_REPOSITORY'')"
    by (simp add: prog_rules split: list.split)
  then show ?thesis
    unfolding maven_main_def Let_def case_prod_unfold
    by (intro all_or_spec_bind all_or_spec_if all_or_spec_fail all_or_spec_refresh generator_steps keeps_foldM keeps_look
        keeps_add_jar_member keeps_repository_jars only_spec_name h)
qed

text \<open>C19: The generators of bundled Provides work all or nothing. When opening an archive changes no file, a run that fails, for
  whatever reason (a wrong argument, a lock file or a jar that is not understood, an empty closure, a spec file without its one
  block), leaves the whole checkout as it was; and a run that returns has replaced the text of one spec file of the package
  and nothing else.\<close>

theorem generators_all_or_nothing:
  assumes "\<forall>ts ev f. snd (h ts ev f) = f"
    and "script \<in> {grafana_main h ge patterns, jaeger_main h ge, prometheus_main h ge, maven_main h ge}"
    and "script package_dir argv w = (r, w')"
  shows "case r of Inl e \<Rightarrow> files w' = files w
    | Inr x \<Rightarrow> \<exists>name t. endswith name ''.spec'' \<and> files w' = fs_write (package_dir @ [name]) (FileN t) (files w)"
proof -
  have h: "only_reads_archives h" using assms(1) by (simp add: only_reads_archives_def)
  have "all_or_spec package_dir (files w) (script package_dir argv)"
    using assms(2) grafana_all_or_spec[OF h] jaeger_all_or_spec[OF h] prometheus_all_or_spec[OF h] maven_all_or_spec[OF h] by blast
  from this[unfolded all_or_spec_def triple_def, rule_format, of w] assms(3) show ?thesis by simp
qed

definition shop_host :: host where
  \<comment> \<open>a distribution with one jar, whose entries are one properties file\<close>
  "shop_host ts ev f = ((case ev of
      Lib fn args \<Rightarrow> if fn = ''tarfile.open'' then Answer (JObj [(''m'', JNull), (''m/lib/a.jar'', JStr ''PK'')])
        else Answer (JObj [(''META-INF/maven/g/a/pom.properties'', JStr (''groupId=g'' @ [nl] @ ''artifactId: a'' @ [nl] @ ''version = 1''))])
    | _ \<Rightarrow> NoProgram), f)"

definition shop_env :: gen_env where
  "shop_env = \<lparr>yaml_text = (\<lambda>_. Inr JNull), json_text = (\<lambda>_. Inr JNull), literal_text = (\<lambda>_. Inr JNull), escaped_text = Inr, sha256 = id\<rparr>"

definition shop_world :: world where
  "shop_world = blank\<lparr>files := [([''m.tar.gz''], BinN []), ([''repo''], DirN),
     ([''p'', ''m.spec''], FileN (BEGIN_MAVEN @ [nl] @ ''old'' @ [nl] @ END_MAVEN))]\<rparr>"

theorem generators_all_or_nothing_witness:
  "(\<exists>name t. files (snd (maven_main shop_host shop_env [''p''] [''m.tar.gz'', ''repo''] shop_world)) =
      fs_write ([''p''] @ [name]) (FileN t) (files shop_world)) \<and>
   files (snd (jaeger_main shop_host shop_env [''p''] [] shop_world)) = files shop_world"
proof -
  have h: "\<forall>ts ev f. snd (shop_host ts ev f) = f" by (simp add: shop_host_def)
  let ?m = "maven_main shop_host shop_env [''p''] [''m.tar.gz'', ''repo''] shop_world"
  have "fst ?m = Inr ()" by code_simp
  then have m: "?m = (Inr (), snd ?m)" by (simp add: prod_eq_iff)
  let ?j = "jaeger_main shop_host shop_env [''p''] [] shop_world"
  have "fst ?j = Inl (SysExit 1 ''usage: generate-bundled-npm-provides.py VERSION'')" by code_simp
  then have j: "?j = (Inl (SysExit 1 ''usage: generate-bundled-npm-provides.py VERSION''), snd ?j)" by (simp add: prod_eq_iff)
  note run = generators_all_or_nothing[OF h, where ge = shop_env and patterns = "\<lambda>_ _. []"]
  from run[where script = "maven_main shop_host shop_env", OF _ m] run[where script = "jaeger_main shop_host shop_env", OF _ j]
  show ?thesis by simp blast
qed

end
