(* ===== verification/Import_Split.thy ===== *)
theory Import_Split
  imports Host_Calls
begin

section \<open>Splitting import.json\<close>

text \<open>
  \<open>ci/split_import_json.py\<close> writes one \<open>metadata/<package>.json\<close> for each package of \<open>import.json\<close>. What exists is never
  overwritten, and a package without a directory under \<open>rpms/\<close> gets no file.
\<close>

definition IMPORT_JSON :: path where "IMPORT_JSON = ROOT_DIR @ [''import.json'']"

record split_counts =
  created :: nat
  skipped :: nat
  missing_dir :: nat

definition split_package :: "split_counts \<Rightarrow> string \<times> json \<Rightarrow> split_counts prog" where
  "split_package n entry = (let package_name = fst entry in
    let package_dir = RPMS_DIR @ [package_name] in
    let target = METADATA_DIR @ [package_name @ ''.json''] in
    bind (exists package_dir) (\<lambda>d.
    if \<not> d then ((seq (emit (Print (''WARNING: Package directory '' @ path_str package_dir @ '' does not exist, skipping '' @ package_name))) (
      ret (n\<lparr>missing_dir := missing_dir n + 1\<rparr>)))) else
    bind (exists target) (\<lambda>m.
    if m then ((seq (emit (Print (''WARNING: '' @ path_str target @ '' already exists, skipping '' @ package_name))) (
      ret (n\<lparr>skipped := skipped n + 1\<rparr>)))) else
    seq (write_node target (JsonN (sort_json (snd entry)))) (
    ret (n\<lparr>created := created n + 1\<rparr>)))))"

definition print_counts :: "split_counts \<Rightarrow> unit prog" where
  "print_counts n = (seq (emit (Print ([nl] @ ''Summary:''))) (
    seq (emit (Print (''  Created: '' @ show_nat (created n) @ '' metadata files''))) (
    seq (emit (Print (''  Skipped (already exists): '' @ show_nat (skipped n)))) (
    emit (Print (''  Skipped (missing directory): '' @ show_nat (missing_dir n)))))))"

definition split_all :: "dict \<Rightarrow> unit prog" where
  "split_all imports_of = (seq (emit (Print (''Found '' @ show_nat (length imports_of) @ '' packages in import.json''))) (
    seq (mkdir METADATA_DIR) (
    bind (foldM split_package \<lparr>created = 0, skipped = 0, missing_dir = 0\<rparr> (sort_keys imports_of)) (\<lambda>n.
    print_counts n))))"

definition split_main :: "unit prog" where
  "split_main = (bind (exists IMPORT_JSON) (\<lambda>e.
    if \<not> e then (sys_exit (''ERROR: '' @ path_str IMPORT_JSON @ '' not found'')) else
    bind (json_load IMPORT_JSON) (\<lambda>j.
    bind (from_sum (as_dict j)) (\<lambda>imports_of.
    split_all imports_of))))"

text \<open>One package: the file that is missing is written when there is a package directory, and nothing else changes.\<close>

lemma split_package_run:
  "\<exists>k w'. split_package n (p, metadata) w = (Inr k, w') \<and> created k + skipped k + missing_dir k = Suc (created n + skipped n + missing_dir n) \<and>
    files w' = (if fs_exists (files w) (RPMS_DIR @ [p]) \<and> \<not> fs_exists (files w) (METADATA_DIR @ [p @ ''.json''])
      then fs_write (METADATA_DIR @ [p @ ''.json'']) (JsonN (sort_json metadata)) (files w) else files w)"
  by (simp add: split_package_def exists_def emit_def write_node_def prog_simps Let_def)

lemma split_packages_run:
  "\<exists>k w'. foldM split_package n entries w = (Inr k, w') \<and>
    created k + skipped k + missing_dir k = length entries + (created n + skipped n + missing_dir n) \<and>
    (\<forall>q x. map_of (files w) q = Some x \<longrightarrow> map_of (files w') q = Some x) \<and>
    (\<forall>q. map_of (files w) q = None \<longrightarrow> map_of (files w') q \<noteq> None \<longrightarrow> (\<exists>(p, metadata) \<in> set entries.
       q = METADATA_DIR @ [p @ ''.json''] \<and> map_of (files w') q = Some (JsonN (sort_json metadata))))"
proof (induction entries arbitrary: n w)
  case (Cons e entries)
  obtain p metadata where e: "e = (p, metadata)" by (cases e)
  from split_package_run[of n p metadata w] obtain k w' where 1: "split_package n e w = (Inr k, w')"
      "created k + skipped k + missing_dir k = Suc (created n + skipped n + missing_dir n)"
    and f: "files w' = (if fs_exists (files w) (RPMS_DIR @ [p]) \<and> \<not> fs_exists (files w) (METADATA_DIR @ [p @ ''.json''])
      then fs_write (METADATA_DIR @ [p @ ''.json'']) (JsonN (sort_json metadata)) (files w) else files w)"
    unfolding e by blast
  have keep: "map_of (files w) q = Some x \<Longrightarrow> map_of (files w') q = Some x" for q x
    using f by (auto simp: fs_exists_def)
  have fresh: "map_of (files w) q = None \<Longrightarrow> map_of (files w') q \<noteq> None \<Longrightarrow>
      q = METADATA_DIR @ [p @ ''.json''] \<and> map_of (files w') q = Some (JsonN (sort_json metadata))" for q
    using f by (auto split: if_splits)
  from Cons.IH[of k w'] obtain k2 w2 where 2: "foldM split_package k entries w' = (Inr k2, w2)"
    "created k2 + skipped k2 + missing_dir k2 = length entries + (created k + skipped k + missing_dir k)"
    and keep2: "\<And>q x. map_of (files w') q = Some x \<Longrightarrow> map_of (files w2) q = Some x"
    and fresh2: "\<And>q. map_of (files w') q = None \<Longrightarrow> map_of (files w2) q \<noteq> None \<Longrightarrow> \<exists>(p, metadata) \<in> set entries.
       q = METADATA_DIR @ [p @ ''.json''] \<and> map_of (files w2) q = Some (JsonN (sort_json metadata))"
    by blast
  have "\<exists>(p, metadata) \<in> set (e # entries). q = METADATA_DIR @ [p @ ''.json''] \<and> map_of (files w2) q = Some (JsonN (sort_json metadata))"
    if "map_of (files w) q = None" "map_of (files w2) q \<noteq> None" for q
  proof (cases "map_of (files w') q")
    case None
    with fresh2[of q] that(2) obtain e2 where "e2 \<in> set entries" "case e2 of (p, metadata) \<Rightarrow>
      q = METADATA_DIR @ [p @ ''.json''] \<and> map_of (files w2) q = Some (JsonN (sort_json metadata))" by blast
    then show ?thesis by (intro bexI[of _ e2]) simp_all
  next
    case (Some x)
    with fresh[OF that(1)] keep2[OF Some] e show ?thesis by auto
  qed
  with 1 2 keep keep2 show ?case by (simp add: bind_run)
qed (simp add: ret_def)

lemma print_counts_run: "\<exists>w'. print_counts n w = (Inr (), w') \<and> files w' = files w"
  by (simp add: print_counts_def emit_def prog_simps)

lemma split_all_files:
  assumes "split_all d w = (r, w')"
  obtains "files w' = files w"
  | w1 k w2 where "files w1 = files w \<or> map_of (files w) METADATA_DIR = None \<and> files w1 = fs_write METADATA_DIR DirN (files w)"
      "foldM split_package \<lparr>created = 0, skipped = 0, missing_dir = 0\<rparr> (sort_keys d) w1 = (Inr k, w2)" "files w' = files w2"
proof -
  let ?w0 = "snd (emit (Print (''Found '' @ show_nat (length d) @ '' packages in import.json'')) w)"
  have f0: "files ?w0 = files w" by (simp add: emit_def prog_simps)
  have run: "split_all d w = seq (mkdir METADATA_DIR) (bind (foldM split_package \<lparr>created = 0, skipped = 0, missing_dir = 0\<rparr> (sort_keys d)) print_counts) ?w0"
    by (simp add: split_all_def seq_run emit_def modify_run)
  obtain m w1 where m: "mkdir METADATA_DIR ?w0 = (m, w1)" by (cases "mkdir METADATA_DIR ?w0")
  show ?thesis
  proof (cases m)
    case (Inl e)
    with m f0 have "files w1 = files w" by (auto simp: mkdir_def split: option.splits node.splits)
    with run m Inl assms show ?thesis by (intro that(1)) (simp add: seq_run)
  next
    case (Inr u)
    with m f0 have f1: "files w1 = files w \<or> map_of (files w) METADATA_DIR = None \<and> files w1 = fs_write METADATA_DIR DirN (files w)"
      by (auto simp: mkdir_def split: option.splits node.splits)
    from split_packages_run[of "\<lparr>created = 0, skipped = 0, missing_dir = 0\<rparr>" "sort_keys d" w1]
    obtain k w2 where k: "foldM split_package \<lparr>created = 0, skipped = 0, missing_dir = 0\<rparr> (sort_keys d) w1 = (Inr k, w2)" by blast
    from print_counts_run[of k w2] run m Inr k assms have "files w' = files w2" by (auto simp: seq_run bind_run)
    with f1 k show ?thesis by (rule that(2))
  qed
qed

text \<open>The script only adds: whatever happens, a file that exists keeps its content, and a new file is the metadata of a package
  of \<open>import.json\<close>.\<close>

lemma split_adds_only:
  assumes "split_main w = (r, w')"
  shows "map_of (files w) q = Some x \<Longrightarrow> map_of (files w') q = Some x"
    and "map_of (files w) q = None \<Longrightarrow> map_of (files w') q \<noteq> None \<Longrightarrow> q \<noteq> METADATA_DIR \<Longrightarrow>
       \<exists>d p metadata. map_of (files w) IMPORT_JSON = Some (JsonN (JObj d)) \<and> (p, metadata) \<in> set d \<and>
         q = METADATA_DIR @ [p @ ''.json''] \<and> map_of (files w') q = Some (JsonN (sort_json metadata))"
proof -
  consider "files w' = files w" | d where "map_of (files w) IMPORT_JSON = Some (JsonN (JObj d))" "split_all d w = (r, w')"
  proof (cases "map_of (files w) IMPORT_JSON")
    case None
    with assms that(1) show ?thesis by (simp add: split_main_def exists_def fs_exists_def sys_exit_def prog_simps)
  next
    case (Some n)
    with assms that show ?thesis
      by (cases n) (auto simp: split_main_def exists_def fs_exists_def json_load_def from_sum_def as_dict_def prog_simps split: json.splits)
  qed
  then have "(map_of (files w) q = Some x \<longrightarrow> map_of (files w') q = Some x) \<and>
    (map_of (files w) q = None \<longrightarrow> map_of (files w') q \<noteq> None \<longrightarrow> q \<noteq> METADATA_DIR \<longrightarrow>
       (\<exists>d p metadata. map_of (files w) IMPORT_JSON = Some (JsonN (JObj d)) \<and> (p, metadata) \<in> set d \<and>
         q = METADATA_DIR @ [p @ ''.json''] \<and> map_of (files w') q = Some (JsonN (sort_json metadata))))"
  proof cases
    case d: 2
    from d(2) show ?thesis
    proof (rule split_all_files)
      fix w1 k w2
      assume f1: "files w1 = files w \<or> map_of (files w) METADATA_DIR = None \<and> files w1 = fs_write METADATA_DIR DirN (files w)"
        and k: "foldM split_package \<lparr>created = 0, skipped = 0, missing_dir = 0\<rparr> (sort_keys d) w1 = (Inr k, w2)" and f2: "files w' = files w2"
      from split_packages_run[of "\<lparr>created = 0, skipped = 0, missing_dir = 0\<rparr>" "sort_keys d" w1] k f2
      have old: "map_of (files w1) q = Some x \<Longrightarrow> map_of (files w') q = Some x"
        and new: "map_of (files w1) q = None \<Longrightarrow> map_of (files w') q \<noteq> None \<Longrightarrow>
          \<exists>(p, metadata) \<in> set d. q = METADATA_DIR @ [p @ ''.json''] \<and> map_of (files w') q = Some (JsonN (sort_json metadata))"
        by auto
      show ?thesis
      proof (intro conjI impI)
        assume "map_of (files w) q = Some x"
        with f1 show "map_of (files w') q = Some x" by (intro old) auto
      next
        assume "map_of (files w) q = None" "map_of (files w') q \<noteq> None" "q \<noteq> METADATA_DIR"
        with f1 new d(1) show "\<exists>d p metadata. map_of (files w) IMPORT_JSON = Some (JsonN (JObj d)) \<and> (p, metadata) \<in> set d \<and>
         q = METADATA_DIR @ [p @ ''.json''] \<and> map_of (files w') q = Some (JsonN (sort_json metadata))" by (auto; blast)
      qed
    qed simp
  qed simp
  then show "map_of (files w) q = Some x \<Longrightarrow> map_of (files w') q = Some x"
    and "map_of (files w) q = None \<Longrightarrow> map_of (files w') q \<noteq> None \<Longrightarrow> q \<noteq> METADATA_DIR \<Longrightarrow>
       \<exists>d p metadata. map_of (files w) IMPORT_JSON = Some (JsonN (JObj d)) \<and> (p, metadata) \<in> set d \<and>
         q = METADATA_DIR @ [p @ ''.json''] \<and> map_of (files w') q = Some (JsonN (sort_json metadata))" by blast+
qed

end
