(* ===== verification/Pyproject_Files.thy ===== *)
theory Pyproject_Files
  imports Host_Calls Py_Paths "HOL-Library.Product_Lexorder"
begin

section \<open>The file list of a Python package\<close>

text \<open>
  \<open>rpms/pyproject-rpm-macros/pyproject_save_files.py\<close>, the script behind \<open>%pyproject_save_files\<close>: it sorts the files that an
  installation recorded into metadata, modules, translations and the rest, and writes the lines of the \<open>%files\<close> section
  and the module names to import. A \<open>BuildrootPath\<close> is a record of its parts and of the attribute \<open>glob_suffix_len\<close>; sets
  of paths are lists in which a path occurs once. What \<open>importlib.metadata\<close> reads and \<open>canonicalize_name\<close> are parameters.
\<close>

record bpath =
  bp_parts :: parts
  bp_glob :: nat \<comment> \<open>\<open>glob_suffix_len\<close>\<close>

definition plain_path :: "parts \<Rightarrow> bpath" where "plain_path p = \<lparr>bp_parts = p, bp_glob = 0\<rparr>"

definition add_path :: "bpath \<Rightarrow> bpath list \<Rightarrow> bpath list" where
  "add_path q ps = (if bp_parts q \<in> bp_parts ` set ps then ps else ps @ [q])"

record dist_env =
  canonical :: "string \<Rightarrow> string" \<comment> \<open>\<open>packaging.utils.canonicalize_name\<close>\<close>
  license_entries :: "fs \<Rightarrow> parts \<Rightarrow> string list option" \<comment> \<open>\<open>Distribution.at(path).metadata.get_all('License-File')\<close>\<close>

subsection \<open>Helpers\<close>

definition RPM_FILES_DELIMETERS :: string where "RPM_FILES_DELIMETERS = [CHR '' '', nl, tab]"
definition RPM_GLOB_SYMBOLS :: string where "RPM_GLOB_SYMBOLS = ''[]{}*?!''"
definition RPM_SPECIAL_SYMBOLS :: string where
  "RPM_SPECIAL_SYMBOLS = RPM_FILES_DELIMETERS @ RPM_GLOB_SYMBOLS @ [CHR 0x22, CHR 0x5C]"

definition PYCACHED_SUFFIX :: string where "PYCACHED_SUFFIX = ''{,.opt-?}.pyc''"

definition MANPAGE_EXTENSIONS :: "string list" where
  "MANPAGE_EXTENSIONS = [''gz'', ''Z'', ''bz2'', ''xz'', ''lzma'', ''zst'', ''zstd'']"

definition MANDIRS :: "string list" where
  "MANDIRS = [''/man/man*'', ''/man/*/man*'', ''/info'', ''/share/man/man*'', ''/share/man/*/man*'', ''/share/info'', ''/kerberos/man'',
     ''/X11R6/man/man*'', ''/lib/perl5/man/man*'', ''/share/doc/*/man/man*'', ''/lib/*/man/man*'', ''/share/fish/man/man*'']"

definition canonical_name_from_distinfo :: "dist_env \<Rightarrow> string \<Rightarrow> string" where
  "canonical_name_from_distinfo de name = (let s = removesuffix name ''.dist-info'' in
     canonical de (if CHR ''-'' \<in> set s then rev (tl (dropWhile (\<lambda>c. c \<noteq> CHR ''-'') (rev s))) else s))"

definition pycache_dir :: "parts \<Rightarrow> parts" where
  "pycache_dir script = pparent script @ [''__pycache__'']"

definition pycached :: "parts \<Rightarrow> string \<Rightarrow> bpath list" where
  \<comment> \<open>for a path with the suffix \<open>.py\<close>, as every caller has\<close>
  "pycached script python_version = (let pyver = concat (take 2 (split_on CHR ''.'' python_version)) in
     [plain_path script, \<lparr>bp_parts = pycache_dir script @ [pstem script @ ''.cpython-'' @ pyver @ PYCACHED_SUFFIX],
        bp_glob = length PYCACHED_SUFFIX\<rparr>])"

record pmodule =
  m_type :: string
  m_files :: "bpath list"
  m_dirs :: "bpath list"

record pdict =
  md_files :: "bpath list"
  md_dirs :: "bpath list"
  md_docs :: "bpath list"
  md_licenses :: "bpath list"
  langs :: "(string option \<times> (string \<times> bpath list) list) list"
  modules :: "(string \<times> pmodule list) list"
  module_names :: "string list"
  other_files :: "bpath list"

fun update_module :: "string \<Rightarrow> bool \<Rightarrow> bpath list \<Rightarrow> pmodule list \<Rightarrow> pmodule list" where
  "update_module type dirs fs [] = [if dirs then \<lparr>m_type = type, m_files = [], m_dirs = fold add_path fs []\<rparr>
     else \<lparr>m_type = type, m_files = fold add_path fs [], m_dirs = []\<rparr>]"
| "update_module type dirs fs (m # ms) = (if m_type m = type
     then (if dirs then m\<lparr>m_dirs := fold add_path fs (m_dirs m)\<rparr> else m\<lparr>m_files := fold add_path fs (m_files m)\<rparr>) # ms
     else m # update_module type dirs fs ms)"

definition add_file_to_module :: "string \<Rightarrow> string \<Rightarrow> bool \<Rightarrow> bpath list \<Rightarrow> pdict \<Rightarrow> pdict" where
  \<comment> \<open>\<open>dirs\<close> for \<open>files_dirs == "dirs"\<close>\<close>
  "add_file_to_module name type dirs fs d =
     d\<lparr>modules := dset name (update_module type dirs fs (case dget (modules d) name of Some ms \<Rightarrow> ms | None \<Rightarrow> [])) (modules d)\<rparr>"

definition add_py_file_to_module :: "string \<Rightarrow> string \<Rightarrow> parts \<Rightarrow> string \<Rightarrow> bool \<Rightarrow> pdict \<Rightarrow> pdict" where
  "add_py_file_to_module name type path python_version include_pycache_dir d =
     (let d = add_file_to_module name type False (pycached path python_version) d in
      if include_pycache_dir then add_file_to_module name type True [plain_path (pycache_dir path)] d else d)"

definition lang_code_of :: "parts \<Rightarrow> string option" where
  "lang_code_of path = (let ps = pparents path; i = length (takeWhile (\<lambda>q. pname q \<noteq> ''LC_MESSAGES'') ps) in
     if i = length ps then None else Some (takeWhile (\<lambda>c. c \<noteq> CHR ''_'') (pname (ps ! Suc i))))"

definition add_lang_to_module :: "string option \<Rightarrow> parts \<Rightarrow> pdict \<Rightarrow> pdict option" where
  \<comment> \<open>\<open>None\<close> for \<open>False\<close>\<close>
  "add_lang_to_module name path d = (case lang_code_of path of None \<Rightarrow> None
     | Some code \<Rightarrow> (let known = (case dget (langs d) name of Some ls \<Rightarrow> ls | None \<Rightarrow> []);
           paths = (case dget known code of Some ps \<Rightarrow> ps | None \<Rightarrow> []) in
         Some (d\<lparr>langs := dset name (dset code (paths @ [plain_path path]) known) (langs d)\<rparr>)))"

definition prepend_mandirs :: "string \<Rightarrow> string list" where
  "prepend_mandirs prefix = map (\<lambda>mandir. prefix @ mandir) MANDIRS"

definition normalize_manpage_filename :: "string \<Rightarrow> parts \<Rightarrow> bpath" where
  "normalize_manpage_filename prefix path =
     (if list_ex (\<lambda>mandir. fnmatch mandir (path_string (pparent path)) \<and> pname path \<noteq> ''dir'') (prepend_mandirs prefix)
      then \<lparr>bp_parts = pparent path @ [(if drop 1 (psuffix path) \<in> set MANPAGE_EXTENSIONS then pstem path else pname path) @ ''*''], bp_glob = 1\<rparr>
      else plain_path path)"

definition is_valid_module_name :: "string \<Rightarrow> bool" where
  "is_valid_module_name s \<longleftrightarrow> is_identifier s \<and> s \<notin> set KEYWORDS \<and> \<not> startswith s ''_''"

definition module_names_from_path :: "parts \<Rightarrow> string list" where
  "module_names_from_path path = (if psuffix path \<notin> {''.py'', ''.so''} then []
     else (let file = (if psuffix path = ''.py'' then pstem path else pstem (parse_path (pstem path)));
         names = butlast path @ (if file = ''__init__'' then [] else [file]) in
       if list_all is_valid_module_name names then map (\<lambda>n. join ''.'' (take (Suc n) names)) [0..<length names] else []))"

definition is_license_file :: "parts \<Rightarrow> string list option \<Rightarrow> parts list \<Rightarrow> bool" where
  "is_license_file path license_files license_directories = (case license_files of None \<Rightarrow> False
     | Some names \<Rightarrow> list_ex (\<lambda>d. under_path d path \<and> path_string (relative_path d path) \<in> set names) license_directories)"

subsection \<open>Classification\<close>

definition add_dirs :: "parts list \<Rightarrow> bpath list \<Rightarrow> bpath list" where
  "add_dirs ps dirs = fold (\<lambda>q. add_path (plain_path q)) ps dirs"

definition classify_metadata :: "parts \<Rightarrow> string list option \<Rightarrow> parts \<Rightarrow> pdict \<Rightarrow> pdict" where
  "classify_metadata distinfo license_files path d =
     (if pparent path = distinfo \<and> pname path \<in> {''RECORD'', ''REQUESTED''} then d
      else (let d = (if is_license_file path license_files [distinfo @ [''licenses''], distinfo]
              then d\<lparr>md_licenses := md_licenses d @ [plain_path path]\<rparr> else d\<lparr>md_files := md_files d @ [plain_path path]\<rparr>) in
        d\<lparr>md_dirs := add_dirs (take (index_of distinfo (pparents path)) (pparents path)) (md_dirs d)\<rparr>))"

definition classify_top :: "string \<Rightarrow> parts \<Rightarrow> pdict \<Rightarrow> pdict" where
  \<comment> \<open>a file directly in a site directory\<close>
  "classify_top python_version path d =
     (if psuffix path = ''.so'' then add_file_to_module (pstem (parse_path (pstem path))) ''extension'' False [plain_path path] d
      else if psuffix path = ''.pyi'' then add_file_to_module (pstem path) ''stub'' False [plain_path path] d
      else if psuffix path = ''.py'' then add_py_file_to_module (pstem path) ''script'' path python_version False d
      else d\<lparr>other_files := other_files d @ [plain_path path]\<rparr>)"

definition is_translation :: "parts \<Rightarrow> bool" where
  "is_translation path = (psuffix path = ''.mo'' \<or> psuffix path = ''.qm'')"

definition classify_nested :: "parts \<Rightarrow> string \<Rightarrow> parts \<Rightarrow> pdict \<Rightarrow> pdict" where
  \<comment> \<open>a file deeper in a site directory\<close>
  "classify_nested sitedir python_version path d =
     (let index = index_of sitedir (pparents path); name = pname (pparents path ! (index - 1));
          d = fold (\<lambda>q. add_file_to_module name ''package'' True [plain_path q]) (take index (pparents path)) d in
      case (if is_translation path then add_lang_to_module (Some name) path d else None) of
        Some d' \<Rightarrow> d'
      | None \<Rightarrow> (if psuffix path = ''.py'' then add_py_file_to_module name ''package'' path python_version True d
          else add_file_to_module name ''package'' False [plain_path path] d))"

definition classify_site :: "parts \<Rightarrow> string \<Rightarrow> parts \<Rightarrow> pdict \<Rightarrow> pdict" where
  "classify_site sitedir python_version path d =
     (let d = d\<lparr>module_names := fold List.insert (module_names_from_path (relative_path sitedir path)) (module_names d)\<rparr> in
      if pparent path = sitedir then classify_top python_version path d else classify_nested sitedir python_version path d)"

definition classify_other :: "string \<Rightarrow> parts \<Rightarrow> pdict \<Rightarrow> pdict" where
  "classify_other prefix path d = (if is_translation path
     then (case add_lang_to_module None path d of Some d' \<Rightarrow> d' | None \<Rightarrow> d\<lparr>other_files := other_files d @ [plain_path path]\<rparr>)
     else d\<lparr>other_files := other_files d @ [normalize_manpage_filename prefix path]\<rparr>)"

definition classify_path :: "parts \<Rightarrow> string list option \<Rightarrow> parts list \<Rightarrow> string \<Rightarrow> string \<Rightarrow> parts \<Rightarrow> pdict \<Rightarrow> pdict" where
  "classify_path distinfo license_files sitedirs python_version prefix path d =
     (if psuffix path = ''.pyc'' then d
      else if distinfo \<in> set (pparents path) then classify_metadata distinfo license_files path d
      else (case List.find (\<lambda>sitedir. sitedir \<in> set (pparents path)) sitedirs of
          Some sitedir \<Rightarrow> classify_site sitedir python_version path d
        | None \<Rightarrow> classify_other prefix path d))"

definition no_paths :: "parts \<Rightarrow> pdict" where
  "no_paths distinfo = \<lparr>md_files = [], md_dirs = [plain_path distinfo], md_docs = [], md_licenses = [], langs = [], modules = [],
     module_names = [], other_files = []\<rparr>"

definition classify_paths :: "parts \<Rightarrow> parts list \<Rightarrow> string list option \<Rightarrow> parts list \<Rightarrow> string \<Rightarrow> string \<Rightarrow> pdict" where
  "classify_paths record_path content license_files sitedirs python_version prefix = (let distinfo = pparent record_path in
     fold (classify_path distinfo license_files sitedirs python_version prefix) content (no_paths distinfo))"

subsection \<open>Escaping\<close>

definition double_percents :: "nat \<Rightarrow> string \<Rightarrow> string" where
  \<comment> \<open>\<open>s.replace('%', n * '%')\<close>\<close>
  "double_percents n s = concat (map (\<lambda>c. if c = CHR ''%'' then replicate n c else [c]) s)"

definition backslash :: "string \<Rightarrow> string" where
  \<comment> \<open>\<open>RPM_ESCAPE_REGEX.sub(r'\\\1', s)\<close>\<close>
  "backslash s = concat (map (\<lambda>c. if c \<in> set RPM_SPECIAL_SYMBOLS then [CHR 0x5C, c] else [c]) s)"

definition escape_rpm_path_4_19 :: "bpath \<Rightarrow> string" where
  "escape_rpm_path_4_19 p = (let s = path_string (bp_parts p); n = length s - bp_glob p in
     backslash (double_percents 2 (take n s)) @ drop n s)"

definition escape_rpm_path_4_18 :: "bpath \<Rightarrow> exn + string" where
  "escape_rpm_path_4_18 p = (let orig = path_string (bp_parts p); s = double_percents 8 orig in
     if list_ex (\<lambda>c. c \<in> set s) RPM_FILES_DELIMETERS then
       (if CHR 0x22 \<in> set s then Inl (NotImplementedError ([CHR 0x22] @ '' symbol in path with spaces is not supported by %pyproject_save_files on RPM < 4.19: '' @ orig))
        else if CHR ''['' \<in> set s \<or> CHR '']'' \<in> set s
        then Inl (NotImplementedError (''[ or ] symbol in path with spaces is not supported by %pyproject_save_files on RPM < 4.19: '' @ orig))
        else Inr ([CHR 0x22] @ s @ [CHR 0x22]))
     else Inr s)"

definition escape_rpm_path :: "string \<Rightarrow> exn + (bpath \<Rightarrow> exn + string)" where
  \<comment> \<open>the choice by \<open>RPM_FILES_ESCAPE\<close>\<close>
  "escape_rpm_path version = (if version = ''4.19'' then Inr (\<lambda>p. Inr (escape_rpm_path_4_19 p))
     else if version = ''4.18'' then Inr escape_rpm_path_4_18 else Inl (RuntimeError ''RPM_FILES_ESCAPE must be 4.18 or 4.19''))"

subsection \<open>The lines of the file list\<close>

definition marked_lines :: "(bpath \<Rightarrow> exn + string) \<Rightarrow> string \<Rightarrow> bpath list \<Rightarrow> exn + string list" where
  "marked_lines esc mark ps = concat_sum (\<lambda>p. map_sum id (\<lambda>s. [mark @ s]) (esc p)) ps"

definition lang_lines :: "(bpath \<Rightarrow> exn + string) \<Rightarrow> pdict \<Rightarrow> string option \<Rightarrow> exn + string list" where
  "lang_lines esc d name = (case dget (langs d) name of None \<Rightarrow> Inr []
     | Some codes \<Rightarrow> concat_sum (\<lambda>(code, ps). marked_lines esc (''%lang('' @ code @ '') '') ps) codes)"

definition both :: "exn + 'a list \<Rightarrow> exn + 'a list \<Rightarrow> exn + 'a list" where
  "both a b = (case a of Inl e \<Rightarrow> Inl e | Inr xs \<Rightarrow> map_sum id (\<lambda>ys. xs @ ys) b)"

definition module_lines :: "(bpath \<Rightarrow> exn + string) \<Rightarrow> pdict \<Rightarrow> string \<Rightarrow> exn + string list" where
  "module_lines esc d name = both (lang_lines esc d (Some name))
     (concat_sum (\<lambda>m. both (marked_lines esc ''%dir '' (m_dirs m)) (marked_lines esc [] (m_files m)))
       (case dget (modules d) name of Some ms \<Rightarrow> ms | None \<Rightarrow> []))"

definition glob_step :: "(bpath \<Rightarrow> exn + string) \<Rightarrow> pdict \<Rightarrow> string list \<times> string list \<times> string list \<Rightarrow> string \<times> string \<Rightarrow>
    exn + string list \<times> string list \<times> string list" where
  \<comment> \<open>one round of the two loops; the state is the lines, \<open>done_modules\<close> and \<open>done_globs\<close>\<close>
  "glob_step esc d st gn = (case (st, gn) of ((lines, mods, globs), (g, name)) \<Rightarrow>
     if \<not> fnmatch g name then Inr st
     else if name \<in> set mods then Inr (lines, mods, List.insert g globs)
     else map_sum id (\<lambda>new. (lines @ new, name # mods, List.insert g globs)) (module_lines esc d name))"

definition fixed_lines :: "(bpath \<Rightarrow> exn + string) \<Rightarrow> pdict \<Rightarrow> bool \<Rightarrow> exn + string list" where
  \<comment> \<open>what does not depend on the globs\<close>
  "fixed_lines esc d include_others =
     both (if include_others then both (marked_lines esc [] (other_files d)) (lang_lines esc d None) else Inr [])
     (both (marked_lines esc [] (md_files d))
     (both (marked_lines esc ''%dir '' (md_dirs d))
     (both (marked_lines esc ''%doc '' (md_docs d)) (marked_lines esc ''%license '' (md_licenses d)))))"

definition generate_file_list :: "(bpath \<Rightarrow> exn + string) \<Rightarrow> pdict \<Rightarrow> string list \<Rightarrow> bool \<Rightarrow> exn + string list" where
  "generate_file_list esc d module_globs include_others = (case fixed_lines esc d include_others of Inl e \<Rightarrow> Inl e
     | Inr fixed \<Rightarrow> (case fold_sum (glob_step esc d) (fixed, [], []) (concat (map (\<lambda>g. map (\<lambda>n. (g, n)) (map fst (modules d))) module_globs)) of
         Inl e \<Rightarrow> Inl e
       | Inr (lines, _, done_globs) \<Rightarrow> (let found = done_globs @ (if modules d = [] then filter (\<lambda>g. fnmatch g []) module_globs else []);
             missed = filter (\<lambda>g. g \<notin> set found) module_globs in
           if missed \<noteq> [] then Inl (ValueError (''Globs did not match any module: '' @ join '', '' (sort missed)))
           else Inr (sort (remdups lines)))))"

definition generate_module_list :: "pdict \<Rightarrow> string list \<Rightarrow> string list" where
  "generate_module_list d module_globs =
     sort (remdups (filter (\<lambda>name. list_ex (\<lambda>g. fnmatch g (hd (split_on CHR ''.'' name))) module_globs) (module_names d)))"

end
