(* ===== verification/Pyproject_Save.thy ===== *)
theory Pyproject_Save
  imports Pyproject_Files
begin

section \<open>The command behind %pyproject_save_files\<close>

text \<open>
  The arguments of the macro, the record of what was installed, and \<open>main\<close>, which writes the file list and the module list;
  then what the file list promises. The parsed command line is the record \<open>files_args\<close>.
\<close>

subsection \<open>Arguments\<close>

definition namespace_error :: "string \<Rightarrow> char \<Rightarrow> exn" where
  "namespace_error arg symbol = ValueError (''Attempted to use a namespaced package with '' @ [symbol] @ '' in the glob: '' @ arg @
     ''. That is not (yet) supported. Use '' @ takeWhile (\<lambda>c. c \<noteq> symbol) arg @
     '' instead and see https://bugzilla.redhat.com/1935266 for details.'')"

definition parse_vararg :: "string list \<times> bool \<Rightarrow> string \<Rightarrow> exn + string list \<times> bool" where
  "parse_vararg st arg = (case st of (globs, include_auto) \<Rightarrow>
     if startswith arg ''+'' then (if arg = ''+auto'' then Inr (globs, True) else Inl (ValueError (''Invalid argument: '' @ arg)))
     else if CHR ''.'' \<in> set arg then Inl (namespace_error arg CHR ''.'')
     else if CHR ''/'' \<in> set arg then Inl (namespace_error arg CHR ''/'')
     else Inr (List.insert arg globs, include_auto))"

definition parse_varargs :: "string list \<Rightarrow> exn + string list \<times> bool" where
  "parse_varargs varargs = fold_sum parse_vararg ([], False) varargs"

record files_args =
  sa_buildroot :: parts
  sa_sitelib :: parts
  sa_sitearch :: parts
  sa_python_version :: string
  sa_record :: path
  sa_prefix :: string
  sa_assert_license :: bool
  sa_allow_no_modules :: bool
  sa_auto :: bool
  sa_varargs :: "string list"
  sa_dist_name :: "string option"
  sa_output_files :: path
  sa_output_modules :: path

subsection \<open>The installed record\<close>

definition dist_of :: "dist_env \<Rightarrow> string \<Rightarrow> string" where
  "dist_of de record_path = canonical_name_from_distinfo de (pname (pparent (parse_path record_path)))"

definition record_files :: "string \<times> json \<Rightarrow> exn + (parts \<times> parts list) list" where
  "record_files entry = (case as_list (snd entry) of Inl e \<Rightarrow> Inl e
     | Inr fs \<Rightarrow> map_sum id (\<lambda>ps. [(parse_path (fst entry), ps)]) (concat_sum (\<lambda>j. map_sum id (\<lambda>s. [parse_path s]) (as_str j)) fs))"

definition select_records :: "dist_env \<Rightarrow> dict \<Rightarrow> string option \<Rightarrow> exn + dict" where
  "select_records de content dist_name = (let available = join '', '' (sort (map (dist_of de \<circ> fst) content)) in
     case dist_name of
       Some name \<Rightarrow> if name \<noteq> [] then
           (let chosen = filter (\<lambda>(rp, _). dist_of de rp = canonical de name) content in
            if chosen = [] then Inl (ValueError (''No dist-info found matching dist name '' @ [CHR 0x27] @ name @ [CHR 0x27] @ ''. Available: '' @ available))
            else Inr chosen)
         else if length content > 1 then Inl (ValueError (''%pyproject_install has found more than one *.dist-info/RECORD file. '' @
           ''Use %pyproject_save_files -D <name> to select a package. Available: '' @ available)) else Inr content
     | None \<Rightarrow> if length content > 1 then Inl (ValueError (''%pyproject_install has found more than one *.dist-info/RECORD file. '' @
           ''Use %pyproject_save_files -D <name> to select a package. Available: '' @ available)) else Inr content)"

definition load_parsed_record :: "dist_env \<Rightarrow> path \<Rightarrow> string option \<Rightarrow> (parts \<times> parts list) list prog" where
  "load_parsed_record de pyproject_record dist_name = (bind (json_load pyproject_record) (\<lambda>j.
    bind (from_sum (as_dict j)) (\<lambda>content.
    bind (from_sum (select_records de content dist_name)) (\<lambda>chosen.
    bind (from_sum (concat_sum record_files chosen)) (\<lambda>records.
    ret (fold (\<lambda>(k, v). dset k v) records []))))))"

definition dist_metadata :: "dist_env \<Rightarrow> parts \<Rightarrow> parts \<Rightarrow> string list option prog" where
  \<comment> \<open>the License-File entries\<close>
  "dist_metadata de buildroot record_path = (let d = pparent record_path in
     if d = [] \<or> hd d \<noteq> ''/'' then raise (ValueError (path_string d @ '' is not in the subpath of /''))
     else gets (\<lambda>w. license_entries de (files w) (buildroot @ tl d)))"

subsection \<open>The script\<close>

type_synonym save_state = "string list \<times> string list \<times> bool"

definition save_record :: "dist_env \<Rightarrow> (bpath \<Rightarrow> exn + string) \<Rightarrow> files_args \<Rightarrow> string list \<Rightarrow> bool \<Rightarrow> save_state \<Rightarrow>
    parts \<times> parts list \<Rightarrow> save_state prog" where
  "save_record de esc a globs include_auto st entry = (let (file_list, module_list, license_ok) = st in
    let (record_path, fs) = entry in
    bind (dist_metadata de (sa_buildroot a) record_path) (\<lambda>metadata.
    let d = classify_paths record_path fs metadata (sort (remdups [sa_sitelib a, sa_sitearch a])) (sa_python_version a) (sa_prefix a) in
    bind (from_sum (generate_file_list esc d globs include_auto)) (\<lambda>new.
    ret (file_list @ new, module_list @ generate_module_list d globs, license_ok \<or> md_licenses d \<noteq> []))))"

definition no_license :: exn where
  "no_license = ValueError (''No License-File (PEP 639) in upstream metadata found. Adjust the upstream metadata if the project'' @ [CHR 0x27] @
     ''s build backend supports PEP 639 or use `%pyproject_save_files -L` and include the %license file in %files manually.'')"

definition pyproject_save_files_and_modules :: "dist_env \<Rightarrow> (bpath \<Rightarrow> exn + string) \<Rightarrow> files_args \<Rightarrow> (string list \<times> string list \<times> parts list) prog" where
  "pyproject_save_files_and_modules de esc a = (bind (from_sum (parse_varargs (sa_varargs a))) (\<lambda>(globs, auto).
    let include_auto = auto \<or> sa_auto a in
    if globs = [] \<and> \<not> sa_allow_no_modules a then (raise (ValueError (''At least one module glob needs to be provided to %pyproject_save_files. '' @
      ''Alternatively, use -M to indicate no Python modules should be saved.''))) else
    if globs \<noteq> [] \<and> sa_allow_no_modules a then (raise (ValueError ''%pyproject_save_files -M cannot be used together with module globs.'')) else
    bind (load_parsed_record de (sa_record a) (sa_dist_name a)) (\<lambda>records.
    bind (foldM (save_record de esc a globs include_auto) ([], [], \<not> sa_assert_license a) records) (\<lambda>(file_list, module_list, license_ok).
    if \<not> license_ok then (raise no_license) else
    ret (file_list, module_list, map fst records)))))"

definition suffixed :: "path \<Rightarrow> string \<Rightarrow> path" where
  \<comment> \<open>\<open>PosixPath(f"{p}-{s}")\<close>\<close>
  "suffixed p s = butlast p @ [last p @ ''-'' @ s]"

definition save_main :: "dist_env \<Rightarrow> string \<Rightarrow> files_args \<Rightarrow> unit prog" where
  \<comment> \<open>the second argument is \<open>RPM_FILES_ESCAPE\<close>\<close>
  "save_main de version a = (bind (from_sum (escape_rpm_path version)) (\<lambda>esc.
    bind (pyproject_save_files_and_modules de esc a) (\<lambda>(file_section, names, record_paths).
    let files_text = join [nl] file_section @ [nl] in
    let modules_text = join [nl] names @ [nl] in
    seq (write_text (sa_output_files a) files_text) (
    seq (write_text (sa_output_modules a) modules_text) (
    whenM (case sa_dist_name a of None \<Rightarrow> True | Some s \<Rightarrow> s = [])
      (case record_paths of [] \<Rightarrow> raise IndexError
       | record_path # _ \<Rightarrow> (let normalized = canonical_name_from_distinfo de (pname (pparent record_path)) in (seq (write_text (suffixed (sa_output_files a) normalized) files_text) (
         write_text (suffixed (sa_output_modules a) normalized) modules_text)))))))))"

subsection \<open>Reading the lines as RPM does\<close>

text \<open>How RPM 4.19 reads one path of a \<open>%files\<close> line: a double percent is a percent, a backslash takes the next character as it is; a blank
  that is not escaped ends the path, and a quote or a pattern character that is not escaped is no plain character.\<close>

fun rpm_word :: "string \<Rightarrow> string option" where
  "rpm_word [] = Some []"
| "rpm_word (c # s) = (if c = CHR 0x5C then (case s of [] \<Rightarrow> None
       | d # t \<Rightarrow> map_option (Cons d) (rpm_word t))
     else if c = CHR ''%'' then (case s of d # t \<Rightarrow> (if d = CHR ''%'' then map_option (Cons c) (rpm_word t) else None) | [] \<Rightarrow> None)
     else if c \<in> set RPM_SPECIAL_SYMBOLS then None
     else map_option (Cons c) (rpm_word s))"

lemma rpm_word_escaped: "rpm_word (backslash (double_percents 2 s)) = Some s"
proof (induction s)
  case (Cons c s)
  let ?t = "backslash (double_percents 2 s)"
  have percent: "CHR ''%'' \<notin> set RPM_SPECIAL_SYMBOLS" by code_simp
  have bs: "CHR 0x5C \<in> set RPM_SPECIAL_SYMBOLS" by code_simp
  consider "c = CHR ''%''" | "c \<noteq> CHR ''%''" "c \<in> set RPM_SPECIAL_SYMBOLS" | "c \<noteq> CHR ''%''" "c \<notin> set RPM_SPECIAL_SYMBOLS" by blast
  then show ?case
  proof cases
    case 1
    with percent have "backslash (double_percents 2 (c # s)) = c # c # ?t"
      by (simp add: backslash_def double_percents_def numeral_2_eq_2)
    with Cons 1 show ?thesis by simp
  next
    case 2
    then have "backslash (double_percents 2 (c # s)) = CHR 0x5C # c # ?t" by (simp add: backslash_def double_percents_def)
    with Cons show ?thesis by simp
  next
    case 3
    then have "backslash (double_percents 2 (c # s)) = c # ?t" by (simp add: backslash_def double_percents_def)
    with Cons 3 bs show ?thesis by auto
  qed
qed (simp add: backslash_def double_percents_def)

text \<open>RPM reads back the path that was escaped. For a path without a glob of the script's own, the escaped text is one word for RPM
  4.19, no macro and no pattern, and it stands for exactly this path; for a path with such a glob that holds for the text before the glob,
  which is appended as it is.\<close>

lemma escape_reads_back:
  "\<exists>s. escape_rpm_path_4_19 p = s @ drop (length (path_string (bp_parts p)) - bp_glob p) (path_string (bp_parts p)) \<and>
     rpm_word s = Some (take (length (path_string (bp_parts p)) - bp_glob p) (path_string (bp_parts p)))"
  by (simp add: escape_rpm_path_4_19_def Let_def rpm_word_escaped)

end
