(* ===== verification/Pyproject_Listing.thy ===== *)
theory Pyproject_Listing
  imports Pyproject_Save
begin

section \<open>What the file list of a Python package contains\<close>

text \<open>
  Every file that was installed is in the list when the globs cover its module, and the package takes no directory that is
  not its own. \<open>grown\<close> is the order in which the classification only moves up.
\<close>

subsection \<open>Folds that cover what they go over\<close>

text \<open>The contract of a step that only moves up in an order and covers its own element, where what is covered stays covered.\<close>

locale covering =
  fixes le :: "'d \<Rightarrow> 'd \<Rightarrow> bool" and step :: "'x \<Rightarrow> 'd \<Rightarrow> 'd" and covered :: "'x \<Rightarrow> 'd \<Rightarrow> bool"
  assumes le_refl: "le d d"
    and le_trans: "le a b \<Longrightarrow> le b c \<Longrightarrow> le a c"
    and step_le: "le d (step x d)"
    and step_covers: "covered x (step x d)"
    and covered_le: "le d d' \<Longrightarrow> covered x d \<Longrightarrow> covered x d'"
begin

lemma fold_le: "le d (fold step xs d)"
  by (induction xs arbitrary: d) (auto intro: le_refl le_trans step_le)

lemma fold_covers: "x \<in> set xs \<Longrightarrow> covered x (fold step xs d)"
proof (induction xs arbitrary: d)
  case (Cons y ys)
  show ?case
  proof (cases "x = y")
    case True
    have "covered x (step y d)" unfolding True by (rule step_covers)
    then show ?thesis using covered_le[OF fold_le] by simp
  next
    case False
    with Cons show ?thesis by simp
  qed
qed simp

end

subsection \<open>What a classification holds\<close>

definition files_in :: "pmodule list \<Rightarrow> parts set" where
  "files_in ms = (\<Union>m \<in> set ms. bp_parts ` set (m_files m))"

definition module_of :: "pdict \<Rightarrow> string \<Rightarrow> pmodule list" where
  "module_of d name = (case dget (modules d) name of Some ms \<Rightarrow> ms | None \<Rightarrow> [])"

definition lang_paths :: "pdict \<Rightarrow> string option \<Rightarrow> parts set" where
  "lang_paths d name = {p. \<exists>codes code ps. dget (langs d) name = Some codes \<and> dget codes code = Some ps \<and> plain_path p \<in> set ps}"

definition grown :: "pdict \<Rightarrow> pdict \<Rightarrow> bool" where
  "grown d d' \<longleftrightarrow> set (md_files d) \<subseteq> set (md_files d') \<and> set (md_licenses d) \<subseteq> set (md_licenses d') \<and> set (other_files d) \<subseteq> set (other_files d') \<and>
     (\<forall>n. lang_paths d n \<subseteq> lang_paths d' n) \<and> (\<forall>n. files_in (module_of d n) \<subseteq> files_in (module_of d' n)) \<and>
     fst ` set (modules d) \<subseteq> fst ` set (modules d')"

lemma grown_refl [simp, intro]: "grown d d"
  by (simp add: grown_def)

lemma grown_trans: "grown a b \<Longrightarrow> grown b c \<Longrightarrow> grown a c"
  by (simp add: grown_def subset_iff)

lemma grown_fold: "(\<And>x d. grown d (f x d)) \<Longrightarrow> grown d (fold f xs d)"
  by (induction xs arbitrary: d) (auto intro: grown_trans)

lemma add_path_parts [simp]: "bp_parts ` set (add_path q ps) = insert (bp_parts q) (bp_parts ` set ps)"
  by (auto simp: add_path_def)

lemma fold_add_path_parts [simp]: "bp_parts ` set (fold add_path qs ps) = bp_parts ` set qs \<union> bp_parts ` set ps"
  by (induction qs arbitrary: ps) auto

lemma files_in_simps [simp]:
  "files_in [] = {}" "files_in (m # ms) = bp_parts ` set (m_files m) \<union> files_in ms"
  by (simp_all add: files_in_def)

lemma update_module_files:
  "files_in (update_module type dirs fs ms) = files_in ms \<union> (if dirs then {} else bp_parts ` set fs)"
  by (induction type dirs fs ms rule: update_module.induct) auto

lemma module_of_add: "module_of (add_file_to_module name type dirs fs d) n =
    (if n = name then update_module type dirs fs (module_of d name) else module_of d n)"
  by (auto simp: add_file_to_module_def module_of_def update_conv)

lemma add_file_fields [simp]:
  "md_files (add_file_to_module name type dirs fs d) = md_files d" "md_licenses (add_file_to_module name type dirs fs d) = md_licenses d"
  "md_dirs (add_file_to_module name type dirs fs d) = md_dirs d" "other_files (add_file_to_module name type dirs fs d) = other_files d"
  "langs (add_file_to_module name type dirs fs d) = langs d" "fst ` set (modules (add_file_to_module name type dirs fs d)) = insert name (fst ` set (modules d))"
  by (simp_all add: add_file_to_module_def dom_update)

lemma lang_paths_add [simp]: "lang_paths (add_file_to_module name type dirs fs d) n = lang_paths d n"
  by (simp add: lang_paths_def)

lemma add_file_grown: "grown d (add_file_to_module name type dirs fs d)"
  by (simp add: grown_def module_of_add update_module_files subset_insertI)

lemma add_file_in: "bp_parts ` set fs \<subseteq> files_in (module_of (add_file_to_module name type False fs d) name)"
  by (simp add: module_of_add update_module_files)

lemma add_py_grown: "grown d (add_py_file_to_module name type path v b d)"
proof (cases b)
  case True
  show ?thesis unfolding add_py_file_to_module_def Let_def
    using True grown_trans[OF add_file_grown add_file_grown] by presburger
next
  case False
  show ?thesis unfolding add_py_file_to_module_def Let_def using False add_file_grown by presburger
qed

lemma add_py_in: "path \<in> files_in (module_of (add_py_file_to_module name type path v b d) name)"
  by (simp add: add_py_file_to_module_def Let_def module_of_add update_module_files pycached_def plain_path_def)

lemma add_py_key: "name \<in> fst ` set (modules (add_py_file_to_module name type path v b d))"
  by (simp add: add_py_file_to_module_def Let_def)

lemma add_lang_grown:
  assumes "add_lang_to_module name path d = Some d'"
  shows "grown d d'" "path \<in> lang_paths d' name" "modules d' = modules d"
proof -
  let ?known = "case dget (langs d) name of Some ls \<Rightarrow> ls | None \<Rightarrow> []"
  let ?paths = "\<lambda>code. case dget ?known code of Some ps \<Rightarrow> ps | None \<Rightarrow> []"
  from assms have "\<exists>code. d' = d\<lparr>langs := dset name (dset code (?paths code @ [plain_path path]) ?known) (langs d)\<rparr>"
    by (cases "lang_code_of path") (auto simp: add_lang_to_module_def Let_def)
  then obtain code where d': "d' = d\<lparr>langs := dset name (dset code (?paths code @ [plain_path path]) ?known) (langs d)\<rparr>" by blast
  show "path \<in> lang_paths d' name"
    unfolding lang_paths_def d' mem_Collect_eq
    by (intro exI[of _ "dset code (?paths code @ [plain_path path]) ?known"] exI[of _ code]
      exI[of _ "?paths code @ [plain_path path]"]) (simp add: plain_path_def)
  have "lang_paths d n \<subseteq> lang_paths d' n" for n
  proof (cases "n = name")
    case True
    show ?thesis
    proof
      fix p assume "p \<in> lang_paths d n"
      then obtain codes c ps where c: "dget (langs d) name = Some codes" "dget codes c = Some ps" "plain_path p \<in> set ps"
        using True by (auto simp: lang_paths_def)
      show "p \<in> lang_paths d' n"
      proof (cases "c = code")
        case True
        with c \<open>n = name\<close> show ?thesis by (auto simp: d' lang_paths_def intro!: exI[of _ code])
      next
        case False
        with c \<open>n = name\<close> show ?thesis by (auto simp: d' lang_paths_def intro!: exI[of _ c])
      qed
    qed
  qed (simp add: d' lang_paths_def)
  then show "grown d d'" by (simp add: grown_def d' module_of_def)
  show "modules d' = modules d" by (simp add: d')
qed

subsection \<open>Every path is classified\<close>

definition held :: "string \<Rightarrow> parts \<Rightarrow> pdict \<Rightarrow> bool" where
  "held prefix p d \<longleftrightarrow> plain_path p \<in> set (md_files d) \<or> plain_path p \<in> set (md_licenses d) \<or>
     plain_path p \<in> set (other_files d) \<or> normalize_manpage_filename prefix p \<in> set (other_files d) \<or>
     p \<in> lang_paths d None \<or> (\<exists>n \<in> fst ` set (modules d). p \<in> lang_paths d (Some n) \<or> p \<in> files_in (module_of d n))"

lemma held_grown: "grown d d' \<Longrightarrow> held prefix p d \<Longrightarrow> held prefix p d'"
  unfolding grown_def held_def
  by (elim conjE disjE bexE) (simp_all add: subset_iff, (metis image_iff)+)

lemma held_module: "n \<in> fst ` set (modules d) \<Longrightarrow> p \<in> lang_paths d (Some n) \<or> p \<in> files_in (module_of d n) \<Longrightarrow> held prefix p d"
  unfolding held_def by blast

lemma add_py_held: "held prefix p (add_py_file_to_module n type p v b d)"
  by (intro held_module[of n] add_py_key disjI2 add_py_in)

lemma add_file_held: "held prefix p (add_file_to_module n type False [plain_path p] d)"
  using add_file_in[of "[plain_path p]" n type d] by (intro held_module[of n]) (simp_all add: plain_path_def)

lemma first_parent:
  assumes "q \<in> set (pparents p)" "pparent p \<noteq> q"
  shows "index_of q (pparents p) > 0"
proof -
  from assms(1) obtain n where n: "(if absolute p then 1 else 0) \<le> n" "n < length p" by (auto simp: pparents_iff)
  then have "pparents p = take (length p - 1) p # map (\<lambda>n. take n p) (rev [(if absolute p then 1 else 0)..<length p - 1])"
    unfolding pparents_def by (cases "length p") auto
  moreover have "pparent p = take (length p - 1) p"
    using n by (auto simp: pparent_def butlast_conv_take split: if_splits)
  ultimately show ?thesis using assms(2) by (simp add: index_of_def)
qed

lemma classify_metadata_grown: "grown d (classify_metadata distinfo lf p d)"
  by (simp add: classify_metadata_def Let_def grown_def lang_paths_def module_of_def subset_insertI)

lemma classify_metadata_held:
  "\<not> (pparent p = distinfo \<and> pname p \<in> {''RECORD'', ''REQUESTED''}) \<Longrightarrow> held prefix p (classify_metadata distinfo lf p d)"
  by (auto simp: classify_metadata_def Let_def held_def)

lemma other_grown: "grown d (d\<lparr>other_files := other_files d @ qs\<rparr>)"
  by (simp add: grown_def lang_paths_def module_of_def)

lemma classify_top_grown: "grown d (classify_top v p d)"
  by (simp add: classify_top_def add_file_grown add_py_grown other_grown)

lemma classify_top_held: "held prefix p (classify_top v p d)"
proof -
  have "held prefix p (d\<lparr>other_files := other_files d @ [plain_path p]\<rparr>)" by (simp add: held_def)
  then show ?thesis unfolding classify_top_def using add_py_held add_file_held by presburger
qed

lemma package_dirs:
  defines "step name \<equiv> (\<lambda>q. add_file_to_module name ''package'' True [plain_path q])"
  shows "grown d (fold (step name) qs d)" "qs \<noteq> [] \<Longrightarrow> name \<in> fst ` set (modules (fold (step name) qs d))"
proof -
  have step: "grown d (step name q d)" for q d by (simp add: step_def add_file_grown)
  show "grown d (fold (step name) qs d)" for d by (rule grown_fold) (rule step)
  assume "qs \<noteq> []"
  then obtain q rs where qs: "qs = q # rs" by (cases qs) auto
  have "grown (step name q d) (fold (step name) qs d)" unfolding qs by (simp, rule grown_fold, rule step)
  moreover have "name \<in> fst ` set (modules (step name q d))" by (simp add: step_def)
  ultimately show "name \<in> fst ` set (modules (fold (step name) qs d))" unfolding grown_def by blast
qed

lemma classify_nested_grown:
  assumes "sitedir \<in> set (pparents p)" "pparent p \<noteq> sitedir"
  shows "grown d (classify_nested sitedir v p d)" "held prefix p (classify_nested sitedir v p d)"
proof -
  let ?index = "index_of sitedir (pparents p)"
  let ?name = "pname (pparents p ! (?index - 1))"
  let ?d = "fold (\<lambda>q. add_file_to_module ?name ''package'' True [plain_path q]) (take ?index (pparents p)) d"
  have "take ?index (pparents p) \<noteq> []" using first_parent[OF assms] assms(1) by auto
  with package_dirs have d: "grown d ?d" "?name \<in> fst ` set (modules ?d)" by blast+
  let ?step = "\<lambda>e. grown ?d e \<and> held prefix p e"
  have "?step (add_py_file_to_module ?name ''package'' p v True ?d)"
    by (simp add: add_py_held add_py_grown)
  moreover have "?step (add_file_to_module ?name ''package'' False [plain_path p] ?d)"
    by (simp add: add_file_held add_file_grown)
  moreover have "?step e" if "add_lang_to_module (Some ?name) p ?d = Some e" for e
    using add_lang_grown[OF that] d(2) held_module[of ?name e p] by (simp)
  ultimately have "?step (classify_nested sitedir v p d)"
    unfolding classify_nested_def Let_def by (simp split: option.split)
  then show "grown d (classify_nested sitedir v p d)" "held prefix p (classify_nested sitedir v p d)"
    using d(1) grown_trans by blast+
qed

lemma classify_site_grown:
  assumes "sitedir \<in> set (pparents p)"
  shows "grown d (classify_site sitedir v p d)" "held prefix p (classify_site sitedir v p d)"
proof -
  define e where "e = d\<lparr>module_names := fold List.insert (module_names_from_path (relative_path sitedir p)) (module_names d)\<rparr>"
  have "grown d e" by (simp add: e_def grown_def lang_paths_def module_of_def)
  moreover have "grown e (classify_site sitedir v p d) \<and> held prefix p (classify_site sitedir v p d)"
    using classify_top_grown classify_top_held classify_nested_grown[OF assms]
    by (simp add: classify_site_def Let_def flip: e_def)
  ultimately show "grown d (classify_site sitedir v p d)" "held prefix p (classify_site sitedir v p d)"
    using grown_trans by blast+
qed

lemma classify_other_grown: "grown d (classify_other prefix p d)" "held prefix p (classify_other prefix p d)"
proof -
  have "held prefix p (d\<lparr>other_files := other_files d @ [q]\<rparr>)" if "q \<in> {plain_path p, normalize_manpage_filename prefix p}" for q
    using that by (auto simp: held_def)
  moreover have "held prefix p e" if "add_lang_to_module None p d = Some e" for e
    using add_lang_grown[OF that] by (simp add: held_def)
  ultimately show "grown d (classify_other prefix p d)" "held prefix p (classify_other prefix p d)"
    using add_lang_grown(1) other_grown by (simp_all add: classify_other_def split: option.split)
qed

definition skipped :: "parts \<Rightarrow> parts \<Rightarrow> bool" where
  \<comment> \<open>what the list leaves out on purpose\<close>
  "skipped distinfo p \<longleftrightarrow> psuffix p = ''.pyc'' \<or>
     distinfo \<in> set (pparents p) \<and> pparent p = distinfo \<and> pname p \<in> {''RECORD'', ''REQUESTED''}"

lemma classify_path_grown:
  "grown d (classify_path distinfo lf sitedirs v prefix p d)"
  "\<not> skipped distinfo p \<Longrightarrow> held prefix p (classify_path distinfo lf sitedirs v prefix p d)"
proof -
  have "grown d (classify_path distinfo lf sitedirs v prefix p d) \<and>
    (\<not> skipped distinfo p \<longrightarrow> held prefix p (classify_path distinfo lf sitedirs v prefix p d))"
  proof (cases "psuffix p = ''.pyc'' \<or> distinfo \<in> set (pparents p)")
    case True
    then show ?thesis using classify_metadata_grown classify_metadata_held
      by (auto simp: classify_path_def skipped_def)
  next
    case False
    then have eq: "classify_path distinfo lf sitedirs v prefix p d = (case List.find (\<lambda>sitedir. sitedir \<in> set (pparents p)) sitedirs of
          Some sitedir \<Rightarrow> classify_site sitedir v p d | None \<Rightarrow> classify_other prefix p d)"
      by (simp add: classify_path_def)
    show ?thesis
    proof (cases "List.find (\<lambda>sitedir. sitedir \<in> set (pparents p)) sitedirs")
      case None
      with eq classify_other_grown show ?thesis by simp
    next
      case (Some sitedir)
      then have "sitedir \<in> set (pparents p)" by (auto dest: find_Some_mem)
      with eq Some classify_site_grown show ?thesis by simp
    qed
  qed
  then show "grown d (classify_path distinfo lf sitedirs v prefix p d)"
    "\<not> skipped distinfo p \<Longrightarrow> held prefix p (classify_path distinfo lf sitedirs v prefix p d)" by blast+
qed

interpretation classification: covering grown "classify_path distinfo lf sitedirs v prefix" "\<lambda>p d. skipped distinfo p \<or> held prefix p d"
  for distinfo lf sitedirs v prefix
proof (unfold_locales, goal_cases)
  case (2 a b c)
  then show ?case by (rule grown_trans)
next
  case (3 d p)
  show ?case by (rule classify_path_grown(1))
next
  case (4 p d)
  show ?case using classify_path_grown(2)[of distinfo p prefix] by blast
next
  case (5 d d' p)
  then show ?case using held_grown[of d d' prefix p] by blast
qed simp

lemma classify_paths_held:
  "p \<in> set content \<Longrightarrow> \<not> skipped (pparent rp) p \<Longrightarrow> held prefix p (classify_paths rp content lf sitedirs v prefix)"
  using classification.fold_covers[of p content "pparent rp" prefix] by (simp add: classify_paths_def Let_def)

subsection \<open>Nothing else is classified\<close>

fun file_set :: "pmodule list \<Rightarrow> bpath set" where
  "file_set [] = {}"
| "file_set (m # ms) = set (m_files m) \<union> file_set ms"

fun dir_set :: "pmodule list \<Rightarrow> bpath set" where
  "dir_set [] = {}"
| "dir_set (m # ms) = set (m_dirs m) \<union> dir_set ms"

definition in_modules :: "pdict \<Rightarrow> bpath set" where
  "in_modules d = (\<Union>(n, ms) \<in> set (modules d). file_set ms)"

definition in_dirs :: "pdict \<Rightarrow> bpath set" where
  "in_dirs d = set (md_dirs d) \<union> (\<Union>(n, ms) \<in> set (modules d). dir_set ms)"

definition in_rest :: "pdict \<Rightarrow> bpath set" where
  "in_rest d = set (md_files d) \<union> set (md_licenses d) \<union> set (other_files d) \<union>
     (\<Union>(n, codes) \<in> set (langs d). \<Union>(code, ps) \<in> set codes. set ps)"

definition held_within :: "bpath set \<Rightarrow> bpath set \<Rightarrow> parts set \<Rightarrow> pdict \<Rightarrow> bool" where
  "held_within F M D d \<longleftrightarrow> in_rest d \<subseteq> F \<and> in_modules d \<subseteq> M \<and> in_dirs d \<subseteq> plain_path ` D \<and> md_docs d = []"

lemma set_add_path: "set (fold add_path qs ps) \<subseteq> set qs \<union> set ps"
proof (induction qs arbitrary: ps)
  case (Cons q qs)
  have "set (add_path q ps) \<subseteq> insert q (set ps)" by (auto simp: add_path_def)
  with Cons[of "add_path q ps"] show ?case by auto
qed simp

lemma set_update_module:
  "file_set (update_module type dirs fs ms) \<subseteq> file_set ms \<union> (if dirs then {} else set fs)"
  "dir_set (update_module type dirs fs ms) \<subseteq> dir_set ms \<union> (if dirs then set fs else {})"
proof (induction type dirs fs ms rule: update_module.induct)
  case (1 type dirs fs)
  show "file_set (update_module type dirs fs []) \<subseteq> file_set [] \<union> (if dirs then {} else set fs)"
    "dir_set (update_module type dirs fs []) \<subseteq> dir_set [] \<union> (if dirs then set fs else {})"
    using set_add_path[of fs "[]"] by auto
next
  case (2 type dirs fs m ms)
  show "file_set (update_module type dirs fs (m # ms)) \<subseteq> file_set (m # ms) \<union> (if dirs then {} else set fs)"
    using 2(1) set_add_path[of fs "m_files m"] by (cases "m_type m = type"; cases dirs) auto
  show "dir_set (update_module type dirs fs (m # ms)) \<subseteq> dir_set (m # ms) \<union> (if dirs then set fs else {})"
    using 2(2) set_add_path[of fs "m_dirs m"] by (cases "m_type m = type"; cases dirs) auto
qed

lemma within_add_file:
  assumes "held_within F M D d" "dirs \<Longrightarrow> set fs \<subseteq> plain_path ` D" "\<not> dirs \<Longrightarrow> set fs \<subseteq> M"
  shows "held_within F M D (add_file_to_module name type dirs fs d)"
proof -
  let ?old = "case dget (modules d) name of Some ms \<Rightarrow> ms | None \<Rightarrow> []"
  have "(name, ?old) \<in> set (modules d) \<or> ?old = []" by (cases "dget (modules d) name") (auto dest: map_of_SomeD)
  then have "file_set ?old \<subseteq> in_modules d" "dir_set ?old \<subseteq> in_dirs d"
    unfolding in_modules_def in_dirs_def by (elim disjE; force)+
  then have "file_set ?old \<subseteq> M" "dir_set ?old \<subseteq> plain_path ` D" using assms(1) unfolding held_within_def by (meson order_trans)+
  then have new: "file_set (update_module type dirs fs ?old) \<subseteq> M" "dir_set (update_module type dirs fs ?old) \<subseteq> plain_path ` D"
    using assms(2,3) order_trans[OF set_update_module(1)[of type dirs fs ?old], of M]
      order_trans[OF set_update_module(2)[of type dirs fs ?old], of "plain_path ` D"] by (cases dirs; simp)+
  have "in_modules (add_file_to_module name type dirs fs d) \<subseteq> M" "in_dirs (add_file_to_module name type dirs fs d) \<subseteq> plain_path ` D"
    using assms(1) new unfolding held_within_def in_modules_def in_dirs_def add_file_to_module_def
    by (auto dest!: set_dset)
  then show ?thesis using assms(1) by (simp add: held_within_def in_rest_def add_file_to_module_def)
qed

lemma within_add_py:
  assumes "held_within F M D d" "set (pycached p v) \<subseteq> M" "b \<Longrightarrow> pycache_dir p \<in> D"
  shows "held_within F M D (add_py_file_to_module name type p v b d)"
proof -
  have 1: "held_within F M D (add_file_to_module name type False (pycached p v) d)" by (rule within_add_file) (use assms in auto)
  moreover have "b \<Longrightarrow> held_within F M D (add_file_to_module name type True [plain_path (pycache_dir p)] (add_file_to_module name type False (pycached p v) d))"
    by (rule within_add_file[OF 1]) (use assms in auto)
  ultimately show ?thesis unfolding add_py_file_to_module_def Let_def by presburger
qed

lemma within_add_lang:
  assumes "held_within F M D d" "plain_path p \<in> F" "add_lang_to_module name p d = Some d'"
  shows "held_within F M D d'"
proof -
  let ?known = "case dget (langs d) name of Some ls \<Rightarrow> ls | None \<Rightarrow> []"
  let ?paths = "\<lambda>code. case dget ?known code of Some ps \<Rightarrow> ps | None \<Rightarrow> []"
  from assms(3) obtain code where d': "d' = d\<lparr>langs := dset name (dset code (?paths code @ [plain_path p]) ?known) (langs d)\<rparr>"
    by (cases "lang_code_of p") (auto simp: add_lang_to_module_def Let_def)
  have F: "(n, codes) \<in> set (langs d) \<Longrightarrow> (c, ps) \<in> set codes \<Longrightarrow> set ps \<subseteq> F" for n codes c ps
  proof -
    assume "(n, codes) \<in> set (langs d)" "(c, ps) \<in> set codes"
    then have "set ps \<subseteq> in_rest d" unfolding in_rest_def by blast
    then show "set ps \<subseteq> F" using assms(1) unfolding held_within_def by (meson order_trans)
  qed
  have known: "set ps \<subseteq> F" if "(c, ps) \<in> set ?known" for c ps
    using that F[of name ?known] by (cases "dget (langs d) name") (auto dest: map_of_SomeD)
  have paths: "set (?paths code) \<subseteq> F"
  proof (cases "dget ?known code")
    case (Some ps)
    then show ?thesis using known[OF map_of_SomeD[OF Some]] by simp
  qed simp
  have "set ps \<subseteq> F" if "(n, codes) \<in> set (langs d')" "(c, ps) \<in> set codes" for n codes c ps
  proof -
    from that(1) consider "codes = dset code (?paths code @ [plain_path p]) ?known" | "(n, codes) \<in> set (langs d)"
      unfolding d' by (auto dest!: set_dset)
    then show ?thesis
    proof cases
      case 1
      with that(2) have "ps = ?paths code @ [plain_path p] \<or> (c, ps) \<in> set ?known" using set_dset by fast
      with known paths assms(2) show ?thesis by (elim disjE) simp_all
    qed (use F that(2) in blast)
  qed
  then have "(\<Union>(n, codes) \<in> set (langs d'). \<Union>(c, ps) \<in> set codes. set ps) \<subseteq> F" by blast
  then show ?thesis using assms(1) by (simp add: held_within_def in_rest_def in_modules_def in_dirs_def d')
qed

lemma within_add_dirs: "set qs \<subseteq> D \<Longrightarrow> set ds \<subseteq> plain_path ` D \<Longrightarrow> set (add_dirs qs ds) \<subseteq> plain_path ` D"
proof (induction qs arbitrary: ds)
  case (Cons q qs)
  then have "set (add_path (plain_path q) ds) \<subseteq> plain_path ` D" by (auto simp: add_path_def)
  with Cons show ?case by (simp add: add_dirs_def)
qed (simp add: add_dirs_def)

lemma within_other: "held_within F M D d \<Longrightarrow> q \<in> F \<Longrightarrow> held_within F M D (d\<lparr>other_files := other_files d @ [q]\<rparr>)"
  by (simp add: held_within_def in_rest_def in_modules_def in_dirs_def)

definition home_of :: "parts \<Rightarrow> parts list \<Rightarrow> parts \<Rightarrow> parts option" where
  \<comment> \<open>the metadata directory if the path is in it, else the first site directory it is in\<close>
  "home_of distinfo sitedirs p = (if distinfo \<in> set (pparents p) then Some distinfo else List.find (\<lambda>s. s \<in> set (pparents p)) sitedirs)"

definition own_dirs :: "parts \<Rightarrow> parts list \<Rightarrow> parts \<Rightarrow> parts set" where
  \<comment> \<open>the directories that come into the list with one path: those between it and its home, and for a module that is not directly in
    its site directory the one of its byte code\<close>
  "own_dirs distinfo sitedirs p = {q. \<exists>s. home_of distinfo sitedirs p = Some s \<and> psuffix p \<noteq> ''.pyc'' \<and>
     (q \<in> set (pparents p) \<and> length s < length q \<or>
      q = pycache_dir p \<and> psuffix p = ''.py'' \<and> distinfo \<notin> set (pparents p) \<and> pparent p \<noteq> s)}"

lemma home_parent: "home_of distinfo sitedirs p = Some s \<Longrightarrow> s \<in> insert distinfo (set sitedirs) \<and> s \<in> set (pparents p)"
  by (auto simp: home_of_def dest!: find_Some_mem split: if_splits)

lemma within_classify_path:
  assumes d: "held_within F M D d" and F: "plain_path p \<in> F" "normalize_manpage_filename prefix p \<in> F"
    and M: "plain_path p \<in> M" "psuffix p = ''.py'' \<Longrightarrow> set (pycached p v) \<subseteq> M" and D: "own_dirs distinfo sitedirs p \<subseteq> D"
  shows "held_within F M D (classify_path distinfo lf sitedirs v prefix p d)"
proof -
  have meta: "held_within F M D (classify_metadata distinfo lf p d)" if "distinfo \<in> set (pparents p)" "psuffix p \<noteq> ''.pyc''"
  proof -
    have "set (take (index_of distinfo (pparents p)) (pparents p)) \<subseteq> D"
      using D that unfolding pparents_longer[OF that(1)] own_dirs_def home_of_def by auto
    then show ?thesis using d F
      by (simp add: classify_metadata_def Let_def held_within_def in_rest_def in_modules_def in_dirs_def within_add_dirs)
  qed
  have other: "held_within F M D (classify_other prefix p d)"
    using within_add_lang[OF d F(1)] within_other[OF d] F by (simp add: classify_other_def split: option.split)
  have site: "held_within F M D (classify_site s v p d)" if s: "home_of distinfo sitedirs p = Some s" "s \<in> set (pparents p)" "psuffix p \<noteq> ''.pyc''" "distinfo \<notin> set (pparents p)" for s
  proof -
    define e where "e = d\<lparr>module_names := fold List.insert (module_names_from_path (relative_path s p)) (module_names d)\<rparr>"
    have e: "held_within F M D e" using d by (simp add: e_def held_within_def in_rest_def in_modules_def in_dirs_def)
    have plain: "held_within F M D e' \<Longrightarrow> held_within F M D (add_file_to_module n t False [plain_path p] e')" for e' n t
      by (rule within_add_file) (use M in simp_all)
    have top: "held_within F M D (classify_top v p e)"
      unfolding classify_top_def using plain[OF e] within_other[OF e F(1)] within_add_py[OF e M(2), where b = False] by presburger
    have nested: "held_within F M D (classify_nested s v p e)" if "pparent p \<noteq> s"
    proof -
      let ?ds = "take (index_of s (pparents p)) (pparents p)"
      have ds: "set ?ds \<subseteq> D" using D s unfolding pparents_longer[OF s(2)] own_dirs_def by auto
      have fold: "held_within F M D e' \<Longrightarrow> set qs \<subseteq> D \<Longrightarrow> held_within F M D (fold (\<lambda>q. add_file_to_module n ''package'' True [plain_path q]) qs e')" for n qs e'
      proof (induction qs arbitrary: e')
        case (Cons q qs)
        then have "held_within F M D (add_file_to_module n ''package'' True [plain_path q] e')"
          by (intro within_add_file) auto
        with Cons show ?case by simp
      qed simp
      note all = fold[OF e ds]
      have "psuffix p = ''.py'' \<Longrightarrow> pycache_dir p \<in> D" using D s \<open>pparent p \<noteq> s\<close> unfolding own_dirs_def by auto
      then have "psuffix p = ''.py'' \<Longrightarrow> held_within F M D (add_py_file_to_module n ''package'' p v True (fold (\<lambda>q. add_file_to_module n ''package'' True [plain_path q]) ?ds e))" for n
        by (intro within_add_py[OF all] M(2)) simp_all
      then show ?thesis unfolding classify_nested_def Let_def using plain[OF all] within_add_lang[OF all F(1)]
        by (simp split: option.split)
    qed
    show ?thesis unfolding classify_site_def Let_def e_def[symmetric] using top nested by presburger
  qed
  show ?thesis
  proof (cases "psuffix p = ''.pyc'' \<or> distinfo \<in> set (pparents p)")
    case True
    with d meta show ?thesis by (auto simp: classify_path_def)
  next
    case False
    show ?thesis
    proof (cases "List.find (\<lambda>sitedir. sitedir \<in> set (pparents p)) sitedirs")
      case None
      with other False show ?thesis by (simp add: classify_path_def)
    next
      case (Some s)
      with False have home: "home_of distinfo sitedirs p = Some s" by (simp add: home_of_def)
      with site[OF home] home_parent[OF home] False Some show ?thesis by (simp add: classify_path_def)
    qed
  qed
qed

definition origins :: "parts list \<Rightarrow> parts \<Rightarrow> parts set" where
  "origins content distinfo = {p \<in> set content. \<not> skipped distinfo p}"

definition taken_dirs :: "parts list \<Rightarrow> parts \<Rightarrow> parts list \<Rightarrow> parts set" where
  "taken_dirs content distinfo sitedirs = insert distinfo (\<Union>p \<in> origins content distinfo. own_dirs distinfo sitedirs p)"

lemma classify_skipped: "skipped distinfo p \<Longrightarrow> classify_path distinfo lf sitedirs v prefix p d = d"
  by (auto simp: skipped_def classify_path_def classify_metadata_def)

lemma classify_paths_within:
  defines "F \<equiv> \<lambda>prefix content rp. \<Union>p \<in> origins content (pparent rp). {plain_path p, normalize_manpage_filename prefix p}"
    and "M \<equiv> \<lambda>v content rp. \<Union>p \<in> origins content (pparent rp). insert (plain_path p) (if psuffix p = ''.py'' then set (pycached p v) else {})"
  shows "held_within (F prefix content rp) (M v content rp) (taken_dirs content (pparent rp) sitedirs)
    (classify_paths rp content lf sitedirs v prefix)"
proof -
  let ?D = "taken_dirs content (pparent rp) sitedirs"
  have step: "set ps \<subseteq> set content \<Longrightarrow> held_within (F prefix content rp) (M v content rp) ?D d \<Longrightarrow>
    held_within (F prefix content rp) (M v content rp) ?D (fold (classify_path (pparent rp) lf sitedirs v prefix) ps d)" for ps d
  proof (induction ps arbitrary: d)
    case (Cons p ps)
    have "held_within (F prefix content rp) (M v content rp) ?D (classify_path (pparent rp) lf sitedirs v prefix p d)"
    proof (cases "skipped (pparent rp) p")
      case True
      with Cons.prems(2) show ?thesis by (simp add: classify_skipped)
    next
      case False
      with Cons.prems(1) have p: "p \<in> origins content (pparent rp)" by (simp add: origins_def)
      show ?thesis
        by (rule within_classify_path[OF Cons.prems(2)]) (use p in \<open>auto simp: F_def M_def taken_dirs_def\<close>)
    qed
    with Cons show ?case by simp
  qed simp
  have "held_within (F prefix content rp) (M v content rp) ?D (no_paths (pparent rp))"
    by (simp add: held_within_def no_paths_def in_rest_def in_modules_def in_dirs_def taken_dirs_def)
  with step[of content] show ?thesis by (simp add: classify_paths_def Let_def)
qed

subsection \<open>The lines\<close>

lemma concat_sum_total: "concat_sum (\<lambda>x. Inr (g x)) xs = Inr (concat (map g xs))"
  by (induction xs) simp_all

definition lang_text :: "(bpath \<Rightarrow> string) \<Rightarrow> pdict \<Rightarrow> string option \<Rightarrow> string list" where
  "lang_text e d n = (case dget (langs d) n of None \<Rightarrow> []
     | Some codes \<Rightarrow> concat (map (\<lambda>(code, ps). map (\<lambda>p. ''%lang('' @ code @ '') '' @ e p) ps) codes))"

definition module_text :: "(bpath \<Rightarrow> string) \<Rightarrow> pdict \<Rightarrow> string \<Rightarrow> string list" where
  "module_text e d n = lang_text e d (Some n) @
     concat (map (\<lambda>m. map (\<lambda>p. ''%dir '' @ e p) (m_dirs m) @ map e (m_files m)) (module_of d n))"

definition fixed_text :: "(bpath \<Rightarrow> string) \<Rightarrow> pdict \<Rightarrow> bool \<Rightarrow> string list" where
  "fixed_text e d others = (if others then map e (other_files d) @ lang_text e d None else []) @ map e (md_files d) @
     map (\<lambda>p. ''%dir '' @ e p) (md_dirs d) @ map (\<lambda>p. ''%doc '' @ e p) (md_docs d) @ map (\<lambda>p. ''%license '' @ e p) (md_licenses d)"

lemma marked_total: "marked_lines (\<lambda>p. Inr (e p)) mark ps = Inr (map (\<lambda>p. mark @ e p) ps)"
  unfolding marked_lines_def by (simp add: concat_sum_total)

lemma lang_total: "lang_lines (\<lambda>p. Inr (e p)) d n = Inr (lang_text e d n)"
  by (simp add: lang_lines_def lang_text_def marked_total concat_sum_total case_prod_unfold split: option.split)

lemma both_total: "both (Inr xs) (Inr ys) = Inr (xs @ ys)"
  by (simp add: both_def)

lemma module_total: "module_lines (\<lambda>p. Inr (e p)) d n = Inr (module_text e d n)"
  unfolding module_lines_def module_text_def module_of_def lang_total marked_total both_total concat_sum_total by simp

lemma fixed_total: "fixed_lines (\<lambda>p. Inr (e p)) d others = Inr (fixed_text e d others)"
  by (simp add: fixed_lines_def fixed_text_def lang_total marked_total both_total)

definition hit_names :: "(string \<times> string) list \<Rightarrow> string set" where
  "hit_names gns = {n. \<exists>g. (g, n) \<in> set gns \<and> fnmatch g n}"

definition hit_globs :: "(string \<times> string) list \<Rightarrow> string set" where
  "hit_globs gns = {g. \<exists>n. (g, n) \<in> set gns \<and> fnmatch g n}"

lemma hits_Cons:
  "hit_names ((g, n) # gns) = (if fnmatch g n then insert n (hit_names gns) else hit_names gns)"
  "hit_globs ((g, n) # gns) = (if fnmatch g n then insert g (hit_globs gns) else hit_globs gns)"
  by (auto simp: hit_names_def hit_globs_def)

lemma glob_fold: "\<exists>lines' mods' globs'. fold_sum (glob_step (\<lambda>p. Inr (e p)) d) (lines, mods, globs) gns = Inr (lines', mods', globs') \<and>
   set lines' = set lines \<union> (\<Union>n \<in> hit_names gns - set mods. set (module_text e d n)) \<and> set globs' = set globs \<union> hit_globs gns"
proof (induction gns arbitrary: lines mods globs)
  case Nil
  show ?case by (simp add: hit_names_def hit_globs_def)
next
  case (Cons gn gns)
  obtain g n where gn: "gn = (g, n)" by (cases gn)
  consider "\<not> fnmatch g n" | "fnmatch g n" "n \<in> set mods" | "fnmatch g n" "n \<notin> set mods" by blast
  then show ?case
  proof cases
    case 1
    with Cons[of lines mods globs] show ?thesis by (simp add: gn glob_step_def hits_Cons)
  next
    case 2
    then have "insert n (hit_names gns) - set mods = hit_names gns - set mods" by auto
    with 2 Cons[of lines mods "List.insert g globs"] show ?thesis by (simp add: gn glob_step_def hits_Cons)
  next
    case 3
    then have "insert n (hit_names gns) - set mods = insert n (hit_names gns - set (n # mods))" by auto
    with 3 Cons[of "lines @ module_text e d n" "n # mods" "List.insert g globs"] show ?thesis
      by (simp add: gn glob_step_def module_total hits_Cons Un_assoc)
  qed
qed

definition missed_globs :: "pdict \<Rightarrow> string list \<Rightarrow> string list" where
  "missed_globs d globs = filter (\<lambda>g. (\<forall>n \<in> fst ` set (modules d). \<not> fnmatch g n) \<and> (modules d = [] \<longrightarrow> \<not> fnmatch g [])) globs"

lemma file_list_total:
  "missed_globs d globs \<noteq> [] \<Longrightarrow> generate_file_list (\<lambda>p. Inr (e p)) d globs others =
     Inl (ValueError (''Globs did not match any module: '' @ join '', '' (sort (missed_globs d globs))))"
  "missed_globs d globs = [] \<Longrightarrow> \<exists>lines. generate_file_list (\<lambda>p. Inr (e p)) d globs others = Inr lines \<and>
     set lines = set (fixed_text e d others) \<union> (\<Union>n \<in> {n \<in> fst ` set (modules d). \<exists>g \<in> set globs. fnmatch g n}. set (module_text e d n))"
proof -
  define gns where "gns = concat (map (\<lambda>g. map (\<lambda>n. (g, n)) (map fst (modules d))) globs)"
  have in_gns: "(g, n) \<in> set gns \<longleftrightarrow> g \<in> set globs \<and> n \<in> fst ` set (modules d)" for g n by (auto simp: gns_def)
  obtain lines mods done_globs where fold:
    "fold_sum (glob_step (\<lambda>p. Inr (e p)) d) (fixed_text e d others, [], []) gns = Inr (lines, mods, done_globs)"
    "set lines = set (fixed_text e d others) \<union> (\<Union>n \<in> hit_names gns. set (module_text e d n))" "set done_globs = hit_globs gns"
    using glob_fold[of e d "fixed_text e d others" "[]" "[]" gns] by auto
  have names: "hit_names gns = {n \<in> fst ` set (modules d). \<exists>g \<in> set globs. fnmatch g n}" by (auto simp: hit_names_def in_gns)
  have missed: "filter (\<lambda>g. g \<notin> set (done_globs @ (if modules d = [] then filter (\<lambda>g. fnmatch g []) globs else []))) globs = missed_globs d globs"
    unfolding missed_globs_def set_append fold(3) hit_globs_def in_gns by (rule filter_cong) auto
  have eq: "generate_file_list (\<lambda>p. Inr (e p)) d globs others = (if missed_globs d globs \<noteq> []
      then Inl (ValueError (''Globs did not match any module: '' @ join '', '' (sort (missed_globs d globs)))) else Inr (sort (remdups lines)))"
    unfolding generate_file_list_def fixed_total sum.case gns_def[symmetric] fold(1) prod.case Let_def missed by (rule refl)
  show "missed_globs d globs \<noteq> [] \<Longrightarrow> generate_file_list (\<lambda>p. Inr (e p)) d globs others =
     Inl (ValueError (''Globs did not match any module: '' @ join '', '' (sort (missed_globs d globs))))" by (simp add: eq)
  show "missed_globs d globs = [] \<Longrightarrow> \<exists>lines. generate_file_list (\<lambda>p. Inr (e p)) d globs others = Inr lines \<and>
     set lines = set (fixed_text e d others) \<union> (\<Union>n \<in> {n \<in> fst ` set (modules d). \<exists>g \<in> set globs. fnmatch g n}. set (module_text e d n))"
    using fold(2) by (simp add: eq names exI[of _ "sort (remdups lines)"])
qed

lemma in_module_of:
  assumes "m \<in> set (module_of d n)"
  shows "set (m_files m) \<subseteq> in_modules d" "set (m_dirs m) \<subseteq> in_dirs d"
proof -
  from assms obtain ms where ms: "(n, ms) \<in> set (modules d)" "m \<in> set ms"
    by (cases "dget (modules d) n") (auto simp: module_of_def dest: map_of_SomeD)
  have "set (m_files m) \<subseteq> file_set ms" "set (m_dirs m) \<subseteq> dir_set ms" if "m \<in> set ms" for ms
    using that by (induction ms) auto
  with ms show "set (m_files m) \<subseteq> in_modules d" "set (m_dirs m) \<subseteq> in_dirs d"
    unfolding in_modules_def in_dirs_def by blast+
qed

lemma held_listed:
  \<comment> \<open>a path that is held is in the lines of the list for all modules\<close>
  assumes "held prefix p d" "held_within F M D d" "psuffix p \<noteq> ''.pyc''"
    and plain: "\<And>q. q \<in> M \<Longrightarrow> bp_parts q = p \<Longrightarrow> q = plain_path p"
    and "set lines = set (fixed_text e d True) \<union> (\<Union>n \<in> fst ` set (modules d). set (module_text e d n))"
  shows "e (plain_path p) \<in> set lines \<or> ''%license '' @ e (plain_path p) \<in> set lines \<or>
     e (normalize_manpage_filename prefix p) \<in> set lines \<or> (\<exists>code. ''%lang('' @ code @ '') '' @ e (plain_path p) \<in> set lines)"
proof -
  have lang: "\<exists>code. ''%lang('' @ code @ '') '' @ e (plain_path p) \<in> set (lang_text e d n)" if "p \<in> lang_paths d n" for n
  proof -
    from that obtain codes code ps where c: "dget (langs d) n = Some codes" "(code, ps) \<in> set codes" "plain_path p \<in> set ps"
      by (auto simp: lang_paths_def dest: map_of_SomeD)
    then show ?thesis unfolding lang_text_def by (intro exI[of _ code]) force
  qed
  have modl: "e (plain_path p) \<in> set (module_text e d n)" if "p \<in> files_in (module_of d n)" for n
  proof -
    from that obtain m q where m: "m \<in> set (module_of d n)" "q \<in> set (m_files m)" "bp_parts q = p"
      unfolding files_in_def by blast
    then have "q \<in> in_modules d" using in_module_of(1) by blast
    then have "q = plain_path p" using assms(2) m(3) plain unfolding held_within_def by blast
    with m show ?thesis unfolding module_text_def by auto
  qed
  from assms(1) consider "plain_path p \<in> set (md_files d) \<union> set (other_files d)" | "plain_path p \<in> set (md_licenses d)"
    | "normalize_manpage_filename prefix p \<in> set (other_files d)" | "p \<in> lang_paths d None"
    | n where "n \<in> fst ` set (modules d)" "p \<in> lang_paths d (Some n) \<or> p \<in> files_in (module_of d n)"
    unfolding held_def by blast
  moreover have fixed: "set (fixed_text e d True) \<subseteq> set lines" using assms(5) by simp
  ultimately show ?thesis
  proof cases
    case 1
    then have "e (plain_path p) \<in> set (fixed_text e d True)" by (auto simp: fixed_text_def)
    with fixed show ?thesis by blast
  next
    case 2
    then have "''%license '' @ e (plain_path p) \<in> set (fixed_text e d True)" by (simp add: fixed_text_def)
    with fixed show ?thesis by blast
  next
    case 3
    then have "e (normalize_manpage_filename prefix p) \<in> set (fixed_text e d True)" by (simp add: fixed_text_def)
    with fixed show ?thesis by blast
  next
    case 4
    have "set (lang_text e d None) \<subseteq> set lines" using assms(5) by (auto simp: fixed_text_def)
    with lang[OF 4] show ?thesis by blast
  next
    case 5
    then have sub: "set (module_text e d n) \<subseteq> set lines" using assms(5) by blast
    then have "set (lang_text e d (Some n)) \<subseteq> set lines" by (simp add: module_text_def)
    with sub 5(2) lang[of "Some n"] modl[of n] show ?thesis by blast
  qed
qed

lemma own_dirs_inside:
  assumes "q \<in> own_dirs distinfo sitedirs p"
  shows "\<exists>s. home_of distinfo sitedirs p = Some s \<and> under_path s q \<and> length s < length q \<and>
    (q \<in> set (pparents p) \<or> q = pycache_dir p \<and> psuffix p = ''.py'' \<and> distinfo \<notin> set (pparents p) \<and> pparent p \<noteq> s)"
proof -
  from assms obtain s where home: "home_of distinfo sitedirs p = Some s"
    and s: "(q \<in> set (pparents p) \<and> length s < length q) \<or> (q = pycache_dir p \<and> psuffix p = ''.py'' \<and> distinfo \<notin> set (pparents p) \<and> pparent p \<noteq> s)"
    unfolding own_dirs_def by blast
  from home_parent[OF home] have "s \<in> set (pparents p)" by blast
  then obtain n where n: "n < length p" "s = take n p" by (auto simp: pparents_iff)
  have "under_path s q \<and> length s < length q"
  proof (cases "q \<in> set (pparents p) \<and> length s < length q")
    case True
    then obtain m where "m < length p" "q = take m p" by (auto simp: pparents_iff)
    with True n show ?thesis by (simp add: under_path_def min_def)
  next
    case False
    with s have q: "q = pycache_dir p" by blast
    have "pparent p = take (length (pparent p)) p" "length p - 1 \<le> length (pparent p)"
      by (auto simp: pparent_def butlast_conv_take)
    then have "take n (pparent p) = s" "n \<le> length (pparent p)" using n by (metis min.absorb1 take_take le_trans less_le_not_le nat_le_linear Suc_diff_1 Suc_leI le_less_Suc_eq less_Suc_eq_le gr_implies_not0 length_greater_0_conv list.size(3))+
    with n show ?thesis by (simp add: q pycache_dir_def under_path_def)
  qed
  with home s show ?thesis by blast
qed

definition file_mark :: "string \<Rightarrow> bool" where
  "file_mark mark \<longleftrightarrow> mark = [] \<or> mark = ''%license '' \<or> (\<exists>code. mark = ''%lang('' @ code @ '') '')"

lemma lang_text_from: "l \<in> set (lang_text e d n) \<Longrightarrow> \<exists>mark q. file_mark mark \<and> l = mark @ e q \<and> q \<in> in_rest d"
proof -
  assume "l \<in> set (lang_text e d n)"
  then obtain codes code ps q where c: "dget (langs d) n = Some codes" "(code, ps) \<in> set codes" "q \<in> set ps" "l = ''%lang('' @ code @ '') '' @ e q"
    by (cases "dget (langs d) n") (auto simp: lang_text_def)
  from map_of_SomeD[OF c(1)] c(2,3) have "q \<in> in_rest d" unfolding in_rest_def by blast
  moreover have "file_mark (''%lang('' @ code @ '') '')" unfolding file_mark_def by blast
  ultimately show ?thesis using c(4) by (intro exI[of _ "''%lang('' @ code @ '') ''"] exI[of _ q]) simp
qed

lemma text_from:
  assumes "l \<in> set (fixed_text e d others) \<or> l \<in> set (module_text e d n)" "md_docs d = []"
  shows "(\<exists>mark q. file_mark mark \<and> l = mark @ e q \<and> q \<in> in_rest d \<union> in_modules d) \<or> (\<exists>q \<in> in_dirs d. l = ''%dir '' @ e q)"
proof -
  have plain: "file_mark []" "file_mark ''%license ''" by (simp_all add: file_mark_def)
  consider k where "l \<in> set (lang_text e d k)" | q where "l = [] @ e q" "q \<in> set (other_files d) \<union> set (md_files d)"
    | q where "l = ''%license '' @ e q" "q \<in> set (md_licenses d)" | q where "l = ''%dir '' @ e q" "q \<in> set (md_dirs d)"
    | m q where "m \<in> set (module_of d n)" "l = [] @ e q" "q \<in> set (m_files m)" | m q where "m \<in> set (module_of d n)" "l = ''%dir '' @ e q" "q \<in> set (m_dirs m)"
    using assms by (auto simp: fixed_text_def module_text_def split: if_splits)
  then show ?thesis
  proof cases
    case 1
    from lang_text_from[OF this] show ?thesis by blast
  next
    case 2
    then have "q \<in> in_rest d" unfolding in_rest_def by blast
    with 2 plain show ?thesis by blast
  next
    case 3
    then have "q \<in> in_rest d" unfolding in_rest_def by blast
    with 3 plain show ?thesis by blast
  next
    case 4
    then have "q \<in> in_dirs d" unfolding in_dirs_def by blast
    with 4 show ?thesis by blast
  next
    case 5
    then have "q \<in> in_modules d" using in_module_of(1) by blast
    with 5 plain show ?thesis by blast
  next
    case 6
    then have "q \<in> in_dirs d" using in_module_of(2) by blast
    with 6 show ?thesis by blast
  qed
qed

subsection \<open>Properties\<close>

lemma split_suffix_append: "CHR ''.'' \<notin> set ext \<Longrightarrow> ext \<noteq> [] \<Longrightarrow> s \<noteq> [] \<Longrightarrow> split_suffix (s @ CHR ''.'' # ext) = (s, CHR ''.'' # ext)"
proof -
  assume a: "CHR ''.'' \<notin> set ext" "ext \<noteq> []" "s \<noteq> []"
  then have "takeWhile (\<lambda>c. c \<noteq> CHR ''.'') (rev ext @ CHR ''.'' # rev s) = rev ext" by (intro takeWhile_append_stop) auto
  with a show ?thesis by (simp add: split_suffix_def Let_def)
qed

lemma pycached_plain:
  assumes "q \<in> set (pycached p v)" "psuffix (bp_parts q) \<noteq> ''.pyc''"
  shows "q = plain_path p"
proof (rule ccontr)
  assume "q \<noteq> plain_path p"
  then obtain s where s: "bp_parts q = pycache_dir p @ [s @ ''.pyc'']" "s \<noteq> []"
    using assms(1) by (auto simp: pycached_def Let_def PYCACHED_SUFFIX_def intro!: that[of "_ @ ''{,.opt-?}''"])
  then have "pname (bp_parts q) = s @ ''.pyc''" by (simp add: pname_def pycache_dir_def)
  then have "psuffix (bp_parts q) = ''.pyc''" using split_suffix_append[of "''pyc''" s] s(2) by (simp add: psuffix_def)
  with assms(2) show False by simp
qed

text \<open>C23: Nothing that was installed is lost. With the globs \<open>*\<close> and \<open>+auto\<close> the list is always made, and each recorded file has a line:
  the escaped path itself, alone or behind \<open>%license\<close> or \<open>%lang\<close>, or the path of a manual page up to its compression suffix. The exceptions
  are byte code, which comes with its source, and \<open>RECORD\<close> and \<open>REQUESTED\<close> of the package.\<close>

theorem nothing_lost:
  "\<exists>lines. generate_file_list (\<lambda>q. Inr (escape_rpm_path_4_19 q)) (classify_paths rp content lf sitedirs v prefix) [''*''] True = Inr lines \<and>
     (\<forall>p \<in> set content. \<not> skipped (pparent rp) p \<longrightarrow> (let line = escape_rpm_path_4_19 (plain_path p) in
        line \<in> set lines \<or> ''%license '' @ line \<in> set lines \<or> (\<exists>code. ''%lang('' @ code @ '') '' @ line \<in> set lines) \<or>
        escape_rpm_path_4_19 (normalize_manpage_filename prefix p) \<in> set lines))"
proof -
  let ?d = "classify_paths rp content lf sitedirs v prefix"
  have "missed_globs ?d [''*''] = []" unfolding missed_globs_def by (cases "modules ?d") (simp_all add: fnmatch_star)
  from file_list_total(2)[OF this, of escape_rpm_path_4_19 True] obtain lines where
    lines: "generate_file_list (\<lambda>q. Inr (escape_rpm_path_4_19 q)) ?d [''*''] True = Inr lines"
      "set lines = set (fixed_text escape_rpm_path_4_19 ?d True) \<union> (\<Union>n \<in> fst ` set (modules ?d). set (module_text escape_rpm_path_4_19 ?d n))"
    by (auto simp: fnmatch_star)
  note held_within = classify_paths_within[of prefix content rp v sitedirs lf]
  show ?thesis
  proof (intro exI[of _ lines] conjI ballI impI)
    fix p assume p: "p \<in> set content" "\<not> skipped (pparent rp) p"
    then have "psuffix p \<noteq> ''.pyc''" by (simp add: skipped_def)
    then have "q = plain_path p" if "q \<in> (\<Union>p \<in> origins content (pparent rp). insert (plain_path p) (if psuffix p = ''.py'' then set (pycached p v) else {}))"
        "bp_parts q = p" for q
      using that pycached_plain by (fastforce simp: plain_path_def split: if_splits)
    from held_listed[OF classify_paths_held[OF p] held_within \<open>psuffix p \<noteq> ''.pyc''\<close> this lines(2)]
    show "let line = escape_rpm_path_4_19 (plain_path p) in
        line \<in> set lines \<or> ''%license '' @ line \<in> set lines \<or> (\<exists>code. ''%lang('' @ code @ '') '' @ line \<in> set lines) \<or>
        escape_rpm_path_4_19 (normalize_manpage_filename prefix p) \<in> set lines" by (auto simp: Let_def)
  qed (rule lines(1))
qed

theorem nothing_lost_witness:
  "\<exists>lines. generate_file_list (\<lambda>q. Inr (escape_rpm_path_4_19 q)) (classify_paths [''/'', ''s'', ''foo-1.dist-info'', ''RECORD'']
        [[''/'', ''s'', ''foo'', ''a b.txt''], [''/'', ''s'', ''foo-1.dist-info'', ''RECORD'']] None [[''/'', ''s'']] ''3.13'' ''/usr'') [''*''] True = Inr lines \<and>
     (let line = escape_rpm_path_4_19 (plain_path [''/'', ''s'', ''foo'', ''a b.txt'']) in
        line \<in> set lines \<or> ''%license '' @ line \<in> set lines \<or> (\<exists>code. ''%lang('' @ code @ '') '' @ line \<in> set lines) \<or>
        escape_rpm_path_4_19 (normalize_manpage_filename ''/usr'' [''/'', ''s'', ''foo'', ''a b.txt'']) \<in> set lines)"
proof -
  have "\<not> skipped (pparent [''/'', ''s'', ''foo-1.dist-info'', ''RECORD'']) [''/'', ''s'', ''foo'', ''a b.txt'']" by code_simp
  then show ?thesis
    using nothing_lost[of "[''/'', ''s'', ''foo-1.dist-info'', ''RECORD'']" "[[''/'', ''s'', ''foo'', ''a b.txt''], [''/'', ''s'', ''foo-1.dist-info'', ''RECORD'']]"
      None "[[''/'', ''s'']]" "''3.13''" "''/usr''"] by (elim exE conjE) (intro exI conjI, assumption, simp)
qed

definition file_of :: "string \<Rightarrow> string \<Rightarrow> parts \<Rightarrow> bpath \<Rightarrow> bool" where
  \<comment> \<open>an installed file, its byte code or its manual page\<close>
  "file_of v prefix p q \<longleftrightarrow> q = plain_path p \<or> q = normalize_manpage_filename prefix p \<or> psuffix p = ''.py'' \<and> q \<in> set (pycached p v)"

definition dir_of :: "parts list \<Rightarrow> parts \<Rightarrow> parts list \<Rightarrow> parts \<Rightarrow> bool" where
  \<comment> \<open>a directory of the package\<close>
  "dir_of content distinfo sitedirs q \<longleftrightarrow> q = distinfo \<or> (\<exists>p \<in> origins content distinfo. \<exists>s. home_of distinfo sitedirs p = Some s \<and>
     under_path s q \<and> length s < length q \<and>
     (q \<in> set (pparents p) \<or> q = pycache_dir p \<and> psuffix p = ''.py'' \<and> distinfo \<notin> set (pparents p) \<and> pparent p \<noteq> s))"

lemma classify_paths_from:
  "\<forall>q \<in> in_rest (classify_paths rp content lf sitedirs v prefix) \<union> in_modules (classify_paths rp content lf sitedirs v prefix).
     \<exists>p \<in> origins content (pparent rp). file_of v prefix p q"
  "\<forall>q \<in> in_dirs (classify_paths rp content lf sitedirs v prefix). \<exists>r. q = plain_path r \<and> dir_of content (pparent rp) sitedirs r"
proof -
  let ?d = "classify_paths rp content lf sitedirs v prefix"
  note held_within = classify_paths_within[of prefix content rp v sitedirs lf, unfolded held_within_def]
  show "\<forall>q \<in> in_rest ?d \<union> in_modules ?d. \<exists>p \<in> origins content (pparent rp). file_of v prefix p q"
  proof
    fix q assume "q \<in> in_rest ?d \<union> in_modules ?d"
    then have "q \<in> (\<Union>p \<in> origins content (pparent rp). {plain_path p, normalize_manpage_filename prefix p}) \<union>
      (\<Union>p \<in> origins content (pparent rp). insert (plain_path p) (if psuffix p = ''.py'' then set (pycached p v) else {}))"
      using held_within by blast
    then show "\<exists>p \<in> origins content (pparent rp). file_of v prefix p q"
      unfolding file_of_def by (elim UnE UN_E insertE) (auto split: if_splits)
  qed
  show "\<forall>q \<in> in_dirs ?d. \<exists>r. q = plain_path r \<and> dir_of content (pparent rp) sitedirs r"
  proof
    fix q assume "q \<in> in_dirs ?d"
    then obtain r where r: "q = plain_path r" "r \<in> taken_dirs content (pparent rp) sitedirs" using held_within by blast
    then have "dir_of content (pparent rp) sitedirs r"
      unfolding taken_dirs_def dir_of_def using own_dirs_inside by blast
    with r(1) show "\<exists>r. q = plain_path r \<and> dir_of content (pparent rp) sitedirs r" by blast
  qed
qed

text \<open>C24: Nothing foreign is taken. Whatever the globs are, each line of the list is a file or a directory. A file is an installed file,
  its byte code or its manual page. A directory is the package's metadata directory, or comes from an installed file and lies strictly
  inside that file's home (the metadata directory, else the first site directory that holds the file): a parent of the file, or the byte
  code directory of a module that is not directly in the site directory. So a site directory itself is never taken, and a module
  directly in one does not bring the byte code directory next to it.\<close>

theorem nothing_foreign:
  assumes "generate_file_list (\<lambda>q. Inr (e q)) (classify_paths rp content lf sitedirs v prefix) globs others = Inr lines" "l \<in> set lines"
  shows "(\<exists>q. l = ''%dir '' @ e (plain_path q) \<and> dir_of content (pparent rp) sitedirs q) \<or>
     (\<exists>mark q. \<exists>p \<in> origins content (pparent rp). file_mark mark \<and> l = mark @ e q \<and> file_of v prefix p q)"
proof -
  let ?d = "classify_paths rp content lf sitedirs v prefix"
  have docs: "md_docs ?d = []" using classify_paths_within[of prefix content rp v sitedirs lf] by (simp add: held_within_def)
  have "missed_globs ?d globs = []" using file_list_total(1)[of ?d globs e others] assms(1) by fastforce
  from file_list_total(2)[OF this, of e others] assms
  have "l \<in> set (fixed_text e ?d others) \<or> (\<exists>n. l \<in> set (module_text e ?d n))" by auto
  then obtain n where "l \<in> set (fixed_text e ?d others) \<or> l \<in> set (module_text e ?d n)" by blast
  from text_from[OF this docs]
  consider mark q where "file_mark mark" "l = mark @ e q" "q \<in> in_rest ?d \<union> in_modules ?d" | q where "q \<in> in_dirs ?d" "l = ''%dir '' @ e q" by blast
  then show ?thesis
  proof cases
    case 1
    with classify_paths_from(1) show ?thesis by blast
  next
    case 2
    from bspec[OF classify_paths_from(2) 2(1)] 2(2) show ?thesis by blast
  qed
qed

theorem nothing_foreign_witness:
  "\<exists>q. ''%dir /s/foo/__pycache__'' = ''%dir '' @ escape_rpm_path_4_19 (plain_path q) \<and>
     dir_of [[''/'', ''s'', ''foo'', ''a.py'']] [''/'', ''s'', ''foo-1.dist-info''] [[''/'', ''s'']] q \<or>
     (\<exists>mark r. \<exists>p \<in> origins [[''/'', ''s'', ''foo'', ''a.py'']] [''/'', ''s'', ''foo-1.dist-info''].
        file_mark mark \<and> ''%dir /s/foo/__pycache__'' = mark @ escape_rpm_path_4_19 r \<and> file_of ''3.13'' ''/usr'' p r)"
proof -
  let ?lines = "[''%dir /s/foo'', ''%dir /s/foo-1.dist-info'', ''%dir /s/foo/__pycache__'', ''/s/foo/__pycache__/a.cpython-313{,.opt-?}.pyc'', ''/s/foo/a.py'']"
  have "generate_file_list (\<lambda>q. Inr (escape_rpm_path_4_19 q)) (classify_paths [''/'', ''s'', ''foo-1.dist-info'', ''RECORD'']
        [[''/'', ''s'', ''foo'', ''a.py'']] None [[''/'', ''s'']] ''3.13'' ''/usr'') [''foo''] False = Inr ?lines" by code_simp
  from nothing_foreign[OF this, of "''%dir /s/foo/__pycache__''"] show ?thesis by (simp add: pparent_def absolute_def is_anchor_def)
qed

end
