(* ===== verification/Pyproject_Specs.thy ===== *)
theory Pyproject_Specs
  imports Host_Calls Py_Paths "HOL-Library.Product_Lexorder"
begin

section \<open>Version specifiers of Python packages\<close>

text \<open>
  \<open>rpms/pyproject-rpm-macros/pyproject_dependency_overrides.py\<close>, which relaxes or bounds the specifiers of a dependency, and
  \<open>pyproject_convert.py\<close>, which writes a specifier as an RPM dependency. A \<open>Specifier\<close> of \<open>packaging\<close> is the pair of its operator and its
  version; parsing one, parsing a version and \<open>canonicalize_name\<close> are parameters. Log messages are left out.
\<close>

type_synonym specifier = "string \<times> string"

datatype pyversion =
    LegacyVersion string \<comment> \<open>of old versions of \<open>packaging\<close>\<close>
  | Version (v_epoch: nat) (v_release: "nat list") (v_pre: "(string \<times> nat) option") (v_post: "nat option") (v_dev: "nat option")

record packaging =
  canonicalize_name :: "string \<Rightarrow> string"
  Specifier :: "string \<Rightarrow> exn + specifier"
  parse_pyversion :: "string \<Rightarrow> exn + pyversion" \<comment> \<open>\<open>packaging.version.parse\<close>\<close>

definition quoted :: "string \<Rightarrow> string" where
  \<comment> \<open>\<open>repr(s)\<close> of a text without quotes, backslashes and control characters\<close>
  "quoted s = [CHR 0x27] @ s @ [CHR 0x27]"

definition quoted_list :: "string list \<Rightarrow> string" where
  "quoted_list xs = ''['' @ join '', '' (map quoted xs) @ '']''"

subsection \<open>Overrides\<close>

definition VALID_ACTIONS :: "string list" where
  "VALID_ACTIONS = [''drop_upper'', ''drop_lower'', ''set_upper'', ''set_lower'', ''drop_constraints'', ''ignore'']"

definition UPPER_OPS :: "string list" where "UPPER_OPS = [''<'', ''<='', ''=='', ''==='', ''~='']"
definition LOWER_OPS :: "string list" where "LOWER_OPS = [''>'', ''>='', ''=='', ''==='', ''~='']"

definition parse_override_string :: "packaging \<Rightarrow> string \<Rightarrow> exn + string \<times> string \<times> string option" where
  \<comment> \<open>every exception of \<open>Specifier\<close> is an \<open>Exception\<close>\<close>
  "parse_override_string pk override_str = (let parts = split_on CHR '':'' override_str in
     if length parts < 2 then Inl (ValueError (''Invalid dependency override format: '' @ quoted override_str @
       ''. Expected format: package:action[:value][:br_only]''))
     else (let package = canonicalize_name pk (strip (parts ! 0)); action = strip (parts ! 1);
         value = (if length parts > 2 then Some (strip (parts ! 2)) else None);
         truth = (case value of None \<Rightarrow> False | Some v \<Rightarrow> v \<noteq> []) in
       if action \<notin> set VALID_ACTIONS
       then Inl (ValueError (''Invalid dependency override action: '' @ quoted action @ ''. Valid actions: '' @ quoted_list VALID_ACTIONS))
       else if startswith action ''set_'' \<and> \<not> truth
       then Inl (ValueError (''Action '' @ quoted action @ '' requires a value: '' @ quoted override_str))
       else if action \<in> {''drop_upper'', ''drop_lower'', ''drop_constraints'', ''ignore''} \<and> truth
       then Inl (ValueError (''Action '' @ quoted action @ '' does not accept a value: '' @ quoted override_str))
       else (case value of Some v \<Rightarrow> (case if truth then map_sum id (\<lambda>_. ()) (Specifier pk (''<'' @ v)) else Inr () of
             Inl _ \<Rightarrow> Inl (ValueError (''Invalid version in dependency override: '' @ quoted v @ '' from '' @ quoted override_str))
           | Inr _ \<Rightarrow> Inr (package, action, value))
         | None \<Rightarrow> Inr (package, action, value))))"

definition lower_half :: "packaging \<Rightarrow> specifier \<Rightarrow> exn + specifier list" where
  \<comment> \<open>the body of the loop of \<open>_remove_upper_bounds\<close>\<close>
  "lower_half pk s = (if fst s \<notin> set UPPER_OPS then Inr [s]
     else if fst s = ''~='' then map_sum id (\<lambda>t. [t]) (Specifier pk (''>='' @ snd s))
     else if fst s = ''=='' \<and> \<not> endswith (snd s) ''.*'' then map_sum id (\<lambda>t. [t]) (Specifier pk (''>='' @ snd s))
     else Inr [])"

definition remove_upper_bounds :: "packaging \<Rightarrow> specifier list \<Rightarrow> exn + specifier list" where
  "remove_upper_bounds pk specifiers = concat_sum (lower_half pk) specifiers"

definition upper_half :: "packaging \<Rightarrow> specifier \<Rightarrow> exn + specifier list" where
  "upper_half pk s = (if fst s \<notin> set LOWER_OPS then Inr [s]
     else if fst s = ''=='' \<and> \<not> endswith (snd s) ''.*'' then map_sum id (\<lambda>t. [t]) (Specifier pk (''<='' @ snd s))
     else Inr [])"

definition remove_lower_bounds :: "packaging \<Rightarrow> specifier list \<Rightarrow> exn + specifier list" where
  "remove_lower_bounds pk specifiers = concat_sum (upper_half pk) specifiers"

definition bounded :: "packaging \<Rightarrow> exn + specifier list \<Rightarrow> string \<Rightarrow> exn + specifier list" where
  \<comment> \<open>\<open>new_specifiers.append(Specifier(...))\<close>\<close>
  "bounded pk specs bound = (case specs of Inl e \<Rightarrow> Inl e | Inr ss \<Rightarrow> map_sum id (\<lambda>t. ss @ [t]) (Specifier pk bound))"

definition apply_override :: "packaging \<Rightarrow> specifier list \<Rightarrow> string \<times> string option \<Rightarrow> exn + specifier list" where
  \<comment> \<open>\<open>None\<close> in a bound reads \<open>None\<close>, as an f-string does\<close>
  "apply_override pk specs override = (case override of (action, value) \<Rightarrow>
     let bound = (case value of Some v \<Rightarrow> v | None \<Rightarrow> ''None'') in
     if action = ''ignore'' then Inr specs
     else if action = ''drop_constraints'' then Inr []
     else if action = ''drop_upper'' then remove_upper_bounds pk specs
     else if action = ''drop_lower'' then remove_lower_bounds pk specs
     else if action = ''set_upper'' then bounded pk (remove_upper_bounds pk specs) (''<'' @ bound)
     else if action = ''set_lower'' then bounded pk (remove_lower_bounds pk specs) (''>='' @ bound)
     else Inr specs)"

definition apply_overrides_to_specifiers :: "packaging \<Rightarrow> specifier list \<Rightarrow> (string \<times> string option) list \<Rightarrow> exn + specifier list" where
  "apply_overrides_to_specifiers pk specifiers overrides = fold_sum (apply_override pk) specifiers overrides"

subsection \<open>RPM versions\<close>

definition strip_zeros :: "nat list \<Rightarrow> nat list" where
  \<comment> \<open>\<open>while len(self.version) > 1 and self.version[-1] == 0: self.version.pop()\<close>\<close>
  "strip_zeros v = take 1 v @ rev (dropWhile (\<lambda>n. n = 0) (rev (drop 1 v)))"

definition nonzero :: "nat option \<Rightarrow> bool" where
  \<comment> \<open>the truth value of a number or \<open>None\<close>\<close>
  "nonzero x = (case x of Some n \<Rightarrow> n \<noteq> 0 | None \<Rightarrow> False)"

definition rpm_suffix :: "pyversion \<Rightarrow> string" where
  "rpm_suffix v = (case v_pre v of Some (l, n) \<Rightarrow> ''~'' @ l @ show_nat n
     | None \<Rightarrow> if nonzero (v_dev v) then ''~~dev'' @ show_nat (the (v_dev v))
         else if nonzero (v_post v) then ''^post'' @ show_nat (the (v_post v)) else [])"

fun rpm_str :: "pyversion \<Rightarrow> string" where
  \<comment> \<open>\<open>RpmVersion.__str__\<close>\<close>
  "rpm_str (LegacyVersion s) = s"
| "rpm_str (Version epoch rel pre post dev) = (if epoch \<noteq> 0 then show_nat epoch @ '':'' else []) @ join ''.'' (map show_nat (strip_zeros rel)) @
     rpm_suffix (Version epoch rel pre post dev)"

fun is_legacy :: "pyversion \<Rightarrow> bool" where
  "is_legacy (LegacyVersion s) = True"
| "is_legacy (Version epoch rel pre post dev) = False"

fun increment :: "pyversion \<Rightarrow> exn + pyversion" where
  \<comment> \<open>a legacy version has a text, which does not support item assignment\<close>
  "increment (LegacyVersion s) = Inl (TypeError ''str object does not support item assignment'')"
| "increment (Version epoch rel pre post dev) = (if rel = [] then Inl IndexError
     else Inr (Version epoch (butlast rel @ [Suc (last rel)]) None None None))"

fun pop_release :: "pyversion \<Rightarrow> pyversion" where
  "pop_release (LegacyVersion s) = LegacyVersion s"
| "pop_release (Version epoch rel pre post dev) = Version epoch (butlast rel) pre post dev"

definition invalid_version :: string where "invalid_version = ''Invalid version''"

subsection \<open>Conversion\<close>

definition convert_compatible :: "packaging \<Rightarrow> string \<Rightarrow> string \<Rightarrow> exn + string" where
  "convert_compatible pk name version_id = (if endswith version_id ''.*'' then Inr invalid_version
     else (case parse_pyversion pk version_id of Inl e \<Rightarrow> Inl e | Inr version \<Rightarrow>
       if is_legacy version then Inr invalid_version
       else if length (v_release version) = 1 then Inr invalid_version
       else (case increment (pop_release version) of Inl e \<Rightarrow> Inl e | Inr bound \<Rightarrow>
         Inr (''('' @ name @ '' >= '' @ rpm_str version @ '' with '' @ name @ '' < '' @ rpm_str bound @ '')''))))"

definition convert_equal :: "packaging \<Rightarrow> string \<Rightarrow> string \<Rightarrow> exn + string" where
  "convert_equal pk name version_id = (if endswith version_id ''.*''
     then convert_compatible pk name (take (length version_id - 2) version_id @ ''.0'')
     else map_sum id (\<lambda>version. name @ '' = '' @ rpm_str version) (parse_pyversion pk version_id))"

definition convert_arbitrary_equal :: "packaging \<Rightarrow> string \<Rightarrow> string \<Rightarrow> exn + string" where
  "convert_arbitrary_equal pk name version_id = (if endswith version_id ''.*'' then Inr invalid_version
     else map_sum id (\<lambda>version. name @ '' = '' @ rpm_str version) (parse_pyversion pk version_id))"

definition neither :: "string \<Rightarrow> string \<Rightarrow> string \<Rightarrow> string \<Rightarrow> string" where
  "neither name version op gt = ''('' @ name @ '' < '' @ version @ '' or '' @ name @ '' '' @ op @ '' '' @ gt @ '')''"

definition convert_not_equal :: "packaging \<Rightarrow> string \<Rightarrow> string \<Rightarrow> exn + string" where
  "convert_not_equal pk name version_id = (if endswith version_id ''.*''
     then (case parse_pyversion pk (take (length version_id - 2) version_id) of Inl e \<Rightarrow> Inl e | Inr version \<Rightarrow>
       if is_legacy version then Inr invalid_version
       else map_sum id (\<lambda>gt. neither name (rpm_str version @ ''~~'') ''>='' (rpm_str gt)) (increment version))
     else map_sum id (\<lambda>version. neither name (rpm_str version) ''>'' (rpm_str version)) (parse_pyversion pk version_id))"

definition plain_version :: "pyversion \<Rightarrow> bool" where
  \<comment> \<open>\<open>not version.pre and not version.dev and not version.post\<close>\<close>
  "plain_version v = (v_pre v = None \<and> \<not> nonzero (v_dev v) \<and> \<not> nonzero (v_post v))"

definition convert_ordered :: "packaging \<Rightarrow> string \<Rightarrow> string \<Rightarrow> string \<Rightarrow> exn + string" where
  "convert_ordered pk name operator version_id = (let star = endswith version_id ''.*'';
       operator = (if star \<and> operator = ''>'' then ''>='' else if star \<and> operator = ''<='' then ''<'' else operator) in
     map_sum id (\<lambda>version. name @ '' '' @ operator @ '' '' @ rpm_str version @
         (if is_legacy version \<or> \<not> plain_version version then [] else if operator = ''<'' then ''~~'' else if operator = ''>'' then ''.0'' else []))
       (parse_pyversion pk (if star then take (length version_id - 2) version_id else version_id)))"

definition convert :: "packaging \<Rightarrow> string \<Rightarrow> string \<Rightarrow> string \<Rightarrow> exn + string" where
  \<comment> \<open>the table \<open>OPERATORS\<close>\<close>
  "convert pk name operator version_id = (if operator = ''~='' then convert_compatible pk name version_id
     else if operator = ''=='' then convert_equal pk name version_id
     else if operator = ''==='' then convert_arbitrary_equal pk name version_id
     else if operator = ''!='' then convert_not_equal pk name version_id
     else if operator \<in> {''<='', ''<'', ''>='', ''>''} then convert_ordered pk name operator version_id
     else Inl (KeyError operator))"

subsection \<open>What the overrides do\<close>

definition bound_of :: "packaging \<Rightarrow> string \<times> string option \<Rightarrow> specifier list" where
  \<comment> \<open>what an override adds of its own\<close>
  "bound_of pk override = (case override of (action, value) \<Rightarrow> let v = (case value of Some v \<Rightarrow> v | None \<Rightarrow> ''None'') in
     if action = ''set_upper'' then (case Specifier pk (''<'' @ v) of Inr t \<Rightarrow> [t] | Inl _ \<Rightarrow> [])
     else if action = ''set_lower'' then (case Specifier pk (''>='' @ v) of Inr t \<Rightarrow> [t] | Inl _ \<Rightarrow> []) else [])"

definition halves_hold :: "packaging \<Rightarrow> (specifier \<Rightarrow> 'v \<Rightarrow> bool) \<Rightarrow> bool" where
  \<comment> \<open>PEP 440: \<open>~=\<close> and \<open>==\<close> imply their lower half, \<open>==\<close> its upper half\<close>
  "halves_hold pk sat \<longleftrightarrow> (\<forall>v t x. Specifier pk (''>='' @ v) = Inr t \<longrightarrow> sat (''~='', v) x \<or> (sat (''=='', v) x \<and> \<not> endswith v ''.*'') \<longrightarrow> sat t x) \<and>
     (\<forall>v t x. Specifier pk (''<='' @ v) = Inr t \<longrightarrow> sat (''=='', v) x \<and> \<not> endswith v ''.*'' \<longrightarrow> sat t x)"

lemma halves_relax:
  assumes "halves_hold pk sat"
  shows "remove_upper_bounds pk ss = Inr ts \<Longrightarrow> \<forall>s \<in> set ss. sat s x \<Longrightarrow> t \<in> set ts \<Longrightarrow> sat t x"
    and "remove_lower_bounds pk ss = Inr ts \<Longrightarrow> \<forall>s \<in> set ss. sat s x \<Longrightarrow> t \<in> set ts \<Longrightarrow> sat t x"
proof -
  have up: "lower_half pk s = Inr ts \<Longrightarrow> sat s x \<Longrightarrow> t \<in> set ts \<Longrightarrow> sat t x" for s ts t
    using assms unfolding halves_hold_def by (cases s) (auto simp: lower_half_def map_sum_Inr split: if_splits)
  show "remove_upper_bounds pk ss = Inr ts \<Longrightarrow> \<forall>s \<in> set ss. sat s x \<Longrightarrow> t \<in> set ts \<Longrightarrow> sat t x"
    unfolding remove_upper_bounds_def using concat_sum_set[of "lower_half pk" ss ts t] up by blast
  have low: "upper_half pk s = Inr ts \<Longrightarrow> sat s x \<Longrightarrow> t \<in> set ts \<Longrightarrow> sat t x" for s ts t
    using assms unfolding halves_hold_def by (cases s) (auto simp: upper_half_def map_sum_Inr split: if_splits)
  show "remove_lower_bounds pk ss = Inr ts \<Longrightarrow> \<forall>s \<in> set ss. sat s x \<Longrightarrow> t \<in> set ts \<Longrightarrow> sat t x"
    unfolding remove_lower_bounds_def using concat_sum_set[of "upper_half pk" ss ts t] low by blast
qed

lemma apply_override_cases:
  assumes "apply_override pk ss ov = Inr ts"
  obtains "ts = ss" | "ts = []" "fst ov = ''drop_constraints''" | "remove_upper_bounds pk ss = Inr ts" | "remove_lower_bounds pk ss = Inr ts"
    | us b where "remove_upper_bounds pk ss = Inr us" "ts = us @ [b]" "b \<in> set (bound_of pk ov)"
    | us b where "remove_lower_bounds pk ss = Inr us" "ts = us @ [b]" "b \<in> set (bound_of pk ov)"
proof -
  obtain action w where ov: "ov = (action, w)" by (cases ov)
  let ?v = "case w of Some v \<Rightarrow> v | None \<Rightarrow> ''None''"
  consider "action \<notin> {''drop_constraints'', ''drop_upper'', ''drop_lower'', ''set_upper'', ''set_lower''}" | "action = ''drop_constraints''"
    | "action = ''drop_upper''" | "action = ''drop_lower''" | "action = ''set_upper''" | "action = ''set_lower''"
    unfolding insert_iff empty_iff by metis
  then show ?thesis
  proof cases
    case 1
    with assms have "ts = ss" by (cases "action = ''ignore''") (simp_all add: ov apply_override_def)
    then show ?thesis by (rule that(1))
  next
    case 2
    with assms show ?thesis using that(2) by (simp add: ov apply_override_def)
  next
    case 3
    with assms show ?thesis using that(3) by (simp add: ov apply_override_def)
  next
    case 4
    with assms show ?thesis using that(4) by (simp add: ov apply_override_def)
  next
    case 5
    with assms obtain us b where "remove_upper_bounds pk ss = Inr us" "Specifier pk (''<'' @ ?v) = Inr b" "ts = us @ [b]"
      by (cases "remove_upper_bounds pk ss") (auto simp: ov apply_override_def bounded_def map_sum_Inr)
    with 5 show ?thesis using that(5)[of us b] by (simp add: ov bound_of_def)
  next
    case 6
    with assms obtain us b where "remove_lower_bounds pk ss = Inr us" "Specifier pk (''>='' @ ?v) = Inr b" "ts = us @ [b]"
      by (cases "remove_lower_bounds pk ss") (auto simp: ov apply_override_def bounded_def map_sum_Inr)
    with 6 show ?thesis using that(6)[of us b] by (simp add: ov bound_of_def)
  qed
qed

lemma apply_override_relaxes:
  assumes "halves_hold pk sat" "apply_override pk ss ov = Inr ts" "\<forall>s \<in> set ss. sat s x" "\<forall>s \<in> set (bound_of pk ov). sat s x" "t \<in> set ts"
  shows "sat t x"
proof -
  from assms(2) consider "t \<in> set ss" | "t \<in> set (bound_of pk ov)"
    | us where "remove_upper_bounds pk ss = Inr us" "t \<in> set us" | us where "remove_lower_bounds pk ss = Inr us" "t \<in> set us"
    by (cases rule: apply_override_cases) (use assms(5) in auto)
  then show ?thesis using assms(3,4) halves_relax[OF assms(1)] by cases blast+
qed

lemma exclusions_stay:
  assumes "apply_override pk ss ov = Inr ts" "fst ov \<noteq> ''drop_constraints''" "(''!='', v) \<in> set ss"
  shows "(''!='', v) \<in> set ts"
proof -
  have no: "''!='' \<notin> set UPPER_OPS" "''!='' \<notin> set LOWER_OPS" by code_simp+
  then have "lower_half pk (''!='', v) = Inr [(''!='', v)]" "upper_half pk (''!='', v) = Inr [(''!='', v)]"
    by (simp_all add: lower_half_def upper_half_def)
  then have "remove_upper_bounds pk ss = Inr us \<Longrightarrow> (''!='', v) \<in> set us" "remove_lower_bounds pk ss = Inr us \<Longrightarrow> (''!='', v) \<in> set us" for us
    using concat_sum_set[of "lower_half pk" ss us "(''!='', v)"] concat_sum_set[of "upper_half pk" ss us "(''!='', v)"] assms(3)
    unfolding remove_upper_bounds_def remove_lower_bounds_def by (metis list.set_intros(1))+
  with assms(1) show ?thesis by (cases rule: apply_override_cases) (use assms(2,3) in auto)
qed

text \<open>C28: Overrides only relax, and keep exclusions. A version that satisfied the specifiers of a dependency, and satisfies the bounds that
  overrides set, satisfies what the overrides made of the specifiers: dropping a bound never adds a constraint, also when it takes \<open>==\<close>
  or \<open>~=\<close> apart. An exclusion \<open>!=\<close> is lost by \<open>drop_constraints\<close> only. What PEP 440 says of the two halves of \<open>==\<close> and \<open>~=\<close> is a hypothesis.\<close>

theorem overrides_relax:
  assumes "halves_hold pk sat" "apply_overrides_to_specifiers pk specs overrides = Inr result"
  shows "((\<forall>s \<in> set specs. sat s x) \<and> (\<forall>ov \<in> set overrides. \<forall>s \<in> set (bound_of pk ov). sat s x) \<longrightarrow> (\<forall>t \<in> set result. sat t x)) \<and>
    (''drop_constraints'' \<notin> fst ` set overrides \<and> (''!='', v) \<in> set specs \<longrightarrow> (''!='', v) \<in> set result)"
proof (rule conjI)
  show "(\<forall>s \<in> set specs. sat s x) \<and> (\<forall>ov \<in> set overrides. \<forall>s \<in> set (bound_of pk ov). sat s x) \<longrightarrow> (\<forall>t \<in> set result. sat t x)"
    using assms(2) unfolding apply_overrides_to_specifiers_def
  proof (induction overrides arbitrary: specs)
    case (Cons ov overrides)
    then obtain ts where ts: "apply_override pk specs ov = Inr ts" "fold_sum (apply_override pk) ts overrides = Inr result"
      by (auto split: sum.splits)
    have "\<forall>s \<in> set ts. sat s x" if "\<forall>s \<in> set specs. sat s x" "\<forall>s \<in> set (bound_of pk ov). sat s x"
      using apply_override_relaxes[OF assms(1) ts(1) that] by blast
    with Cons.IH[OF ts(2)] show ?case by (metis list.set_intros)
  qed simp
  show "''drop_constraints'' \<notin> fst ` set overrides \<and> (''!='', v) \<in> set specs \<longrightarrow> (''!='', v) \<in> set result"
    using assms(2) unfolding apply_overrides_to_specifiers_def
  proof (induction overrides arbitrary: specs)
    case (Cons ov overrides)
    then obtain ts where ts: "apply_override pk specs ov = Inr ts" "fold_sum (apply_override pk) ts overrides = Inr result"
      by (auto split: sum.splits)
    show ?case
    proof (intro impI, elim conjE)
      assume "''drop_constraints'' \<notin> fst ` set (ov # overrides)" and v: "(''!='', v) \<in> set specs"
      then have no: "fst ov \<noteq> ''drop_constraints''" "''drop_constraints'' \<notin> fst ` set overrides" by force+
      from exclusions_stay[OF ts(1) no(1) v] no(2) Cons.IH[OF ts(2)] show "(''!='', v) \<in> set result" by blast
    qed
  qed simp
qed

definition number_tool :: packaging where
  \<comment> \<open>a tool whose versions are numbers\<close>
  "number_tool = \<lparr>canonicalize_name = lower,
     Specifier = (\<lambda>s. if startswith s ''>='' then Inr (''>='', drop 2 s) else if startswith s ''<='' then Inr (''<='', drop 2 s)
       else if startswith s ''<'' then Inr (''<'', drop 1 s) else Inl (ValueError s)),
     parse_pyversion = (\<lambda>s. Inr (Version 0 (map parse_nat (split_on CHR ''.'' s)) None None None))\<rparr>"

definition number_sat :: "specifier \<Rightarrow> nat \<Rightarrow> bool" where
  "number_sat s n = (if fst s = ''>='' then parse_nat (snd s) \<le> n else if fst s = ''<='' then n \<le> parse_nat (snd s)
     else if fst s = ''<'' then n < parse_nat (snd s) else if fst s = ''!='' then n \<noteq> parse_nat (snd s) else n = parse_nat (snd s))"

lemma number_tool_halves: "halves_hold number_tool number_sat"
proof -
  have "Specifier number_tool (''>='' @ v) = Inr (''>='', v)" "Specifier number_tool (''<='' @ v) = Inr (''<='', v)" for v
    by (simp_all add: number_tool_def startswith_def)
  then show ?thesis unfolding halves_hold_def by (simp add: number_sat_def)
qed

theorem overrides_relax_witness:
  "number_sat (''>='', ''3'') 3 \<and> number_sat (''!='', ''4'') 3"
proof -
  have eq: "apply_overrides_to_specifiers number_tool [(''~='', ''3''), (''!='', ''4'')] [(''drop_upper'', None)] = Inr [(''>='', ''3''), (''!='', ''4'')]"
    by code_simp
  have "number_sat (''~='', ''3'') 3" "number_sat (''!='', ''4'') 3" by code_simp+
  then have "(\<forall>s \<in> set [(''~='', ''3''), (''!='', ''4'')]. number_sat s 3) \<and>
      (\<forall>ov \<in> set [(''drop_upper'', None)]. \<forall>s \<in> set (bound_of number_tool ov). number_sat s 3)"
    by (simp add: bound_of_def)
  from mp[OF conjunct1[OF overrides_relax[OF number_tool_halves eq]] this] show ?thesis by simp
qed

subsection \<open>What a conversion means\<close>

text \<open>RPM compares dotted numbers piece by piece, and a version that continues another one is newer; PEP 440 takes missing pieces for zeros.\<close>

fun rpm_older :: "nat list \<Rightarrow> nat list \<Rightarrow> bool" where
  "rpm_older xs [] = False"
| "rpm_older [] (y # ys) = True"
| "rpm_older (x # xs) (y # ys) = (x < y \<or> x = y \<and> rpm_older xs ys)"

fun pep_le :: "nat list \<Rightarrow> nat list \<Rightarrow> bool" where
  "pep_le [] ys = True"
| "pep_le (x # xs) [] = (x = 0 \<and> pep_le xs [])"
| "pep_le (x # xs) (y # ys) = (x < y \<or> x = y \<and> pep_le xs ys)"

fun pep_prefix :: "nat list \<Rightarrow> nat list \<Rightarrow> bool" where
  "pep_prefix [] xs = True"
| "pep_prefix (p # ps) [] = (p = 0 \<and> pep_prefix ps [])"
| "pep_prefix (p # ps) (x # xs) = (p = x \<and> pep_prefix ps xs)"

definition trimmed :: "nat list \<Rightarrow> nat list" where
  "trimmed v = rev (dropWhile (\<lambda>n. n = 0) (rev v))"

lemma trimmed_simps [simp]: "trimmed [] = []" "trimmed (x # xs) = (if x = 0 \<and> trimmed xs = [] then [] else x # trimmed xs)"
proof -
  show "trimmed [] = []" by (simp add: trimmed_def)
  have "dropWhile (\<lambda>n. n = 0) (rev xs @ [x]) = (if dropWhile (\<lambda>n. n = 0) (rev xs) = [] then dropWhile (\<lambda>n. n = 0) [x]
      else dropWhile (\<lambda>n. n = 0) (rev xs) @ [x])" by (induction "rev xs" arbitrary: xs) (auto simp: dropWhile_append dropWhile_eq_Nil_conv)
  then show "trimmed (x # xs) = (if x = 0 \<and> trimmed xs = [] then [] else x # trimmed xs)" by (auto simp: trimmed_def)
qed

lemma trimmed_older: "rpm_older (trimmed xs) (trimmed ys) \<longleftrightarrow> \<not> pep_le ys xs"
proof (induction ys xs rule: pep_le.induct)
  case (2 y ys)
  then show ?case by (cases "trimmed ys") auto
next
  case (3 y ys x xs)
  then show ?case by (cases "trimmed xs"; cases "trimmed ys") auto
qed simp

lemma strip_zeros_Cons: "strip_zeros (x # xs) = x # trimmed xs"
  by (simp add: strip_zeros_def trimmed_def)

lemma strip_zeros_older: "xs \<noteq> [] \<Longrightarrow> ys \<noteq> [] \<Longrightarrow> rpm_older (strip_zeros xs) (strip_zeros ys) \<longleftrightarrow> \<not> pep_le ys xs"
  by (cases xs; cases ys) (auto simp: strip_zeros_Cons trimmed_older)

lemma prefix_range: "p \<noteq> [] \<Longrightarrow> pep_le (p @ [n]) x \<Longrightarrow> \<not> pep_le (butlast p @ [Suc (last p)]) x \<longleftrightarrow> pep_prefix p x"
proof (induction p arbitrary: x)
  case (Cons a p)
  then show ?case by (cases x; cases "p = []") auto
qed simp

text \<open>C29: A compatible release is the range that RPM is given. For a release with at least two numbers \<open>~=\<close> becomes a range from the release
  to the release without its last number, incremented; a release lies in that range as RPM compares the numbers that are printed exactly when
  PEP 440 says that it is not older and has the same numbers but for the last one. The trailing zeros, which mean nothing to PEP 440, are not
  printed, so RPM, to which they mean something, comes to the same end.\<close>

theorem compatible_range:
  assumes "parse_pyversion pk vid = Inr (Version e (p @ [n]) None None None)" "p \<noteq> []" "\<not> endswith vid ''.*''" "x \<noteq> []"
  shows "\<exists>ceil. convert pk name ''~='' vid = Inr (''('' @ name @ '' >= '' @ rpm_str (Version e (p @ [n]) None None None) @
       '' with '' @ name @ '' < '' @ rpm_str (Version e ceil None None None) @ '')'') \<and>
     (\<not> rpm_older (strip_zeros x) (strip_zeros (p @ [n])) \<and> rpm_older (strip_zeros x) (strip_zeros ceil) \<longleftrightarrow>
       pep_le (p @ [n]) x \<and> pep_prefix p x)"
proof (intro exI[of _ "butlast p @ [Suc (last p)]"] conjI)
  show "convert pk name ''~='' vid = Inr (''('' @ name @ '' >= '' @ rpm_str (Version e (p @ [n]) None None None) @
       '' with '' @ name @ '' < '' @ rpm_str (Version e (butlast p @ [Suc (last p)]) None None None) @ '')'')"
    using assms(1-3) by (cases p) (simp_all add: convert_def convert_compatible_def)
  show "\<not> rpm_older (strip_zeros x) (strip_zeros (p @ [n])) \<and> rpm_older (strip_zeros x) (strip_zeros (butlast p @ [Suc (last p)])) \<longleftrightarrow>
       pep_le (p @ [n]) x \<and> pep_prefix p x"
    using prefix_range[OF assms(2)] assms(4) by (auto simp: strip_zeros_older)
qed

theorem compatible_range_witness:
  "convert number_tool ''python3dist(foo)'' ''~='' ''1.4.0'' = Inr ''(python3dist(foo) >= 1.4 with python3dist(foo) < 1.5)'' \<and>
   (\<exists>ceil. \<not> rpm_older (strip_zeros [1, 4, 7]) (strip_zeros ([1, 4] @ [0])) \<and> rpm_older (strip_zeros [1, 4, 7]) (strip_zeros ceil))"
proof
  show "convert number_tool ''python3dist(foo)'' ''~='' ''1.4.0'' = Inr ''(python3dist(foo) >= 1.4 with python3dist(foo) < 1.5)''" by code_simp
  have "parse_pyversion number_tool ''1.4.0'' = Inr (Version 0 ([1, 4] @ [0]) None None None)" by code_simp
  from compatible_range[OF this, of "[1, 4, 7]" "''python3dist(foo)''"]
  show "\<exists>ceil. \<not> rpm_older (strip_zeros [1, 4, 7]) (strip_zeros ([1, 4] @ [0])) \<and> rpm_older (strip_zeros [1, 4, 7]) (strip_zeros ceil)"
    by (auto simp: endswith_def startswith_def)
qed

lemma zero_dev_post_dropped:
  \<comment> \<open>a zero is no number to \<open>__str__\<close>\<close>
  "rpm_str (Version e r None None (Some 0)) = rpm_str (Version e r None None None)"
  "rpm_str (Version e r None (Some 0) None) = rpm_str (Version e r None None None)"
  by (simp_all add: rpm_suffix_def nonzero_def)

end
