(* ===== verification/Pyproject_Requirements.thy ===== *)
theory Pyproject_Requirements
  imports Pyproject_Specs
begin

section \<open>Gathering the requirements of a Python project\<close>

text \<open>
  The class \<open>Requirements\<close> of \<open>rpms/pyproject-rpm-macros/pyproject_buildrequires.py\<close>. What changes is the record \<open>reqs\<close>, what does not,
  and what \<open>packaging\<close> and \<open>importlib.metadata\<close> answer, is \<open>req_env\<close>; a marker is its text. \<open>add\<close> may add requirements that it put aside
  before: here it returns them and \<open>add_all\<close> puts them in front of those that are left, the order in which the calls of
  \<open>readd_ignored_alien_requirements\<close> happen. Sets are lists without repetition; log messages are left out.
\<close>

record requirement =
  rq_name :: string
  rq_url :: "string option"
  rq_extras :: "string list"
  rq_spec :: "specifier list"
  rq_marker :: "string option"

datatype req_item = Text string | Parsed requirement

type_synonym overrides = "(string \<times> (string \<times> string option) list) list"

record req_env =
  pk :: packaging
  Requirement :: "string \<Rightarrow> requirement option" \<comment> \<open>\<open>None\<close> for \<open>InvalidRequirement\<close>\<close>
  Marker :: "string \<Rightarrow> exn + string"
  marker_holds :: "string \<Rightarrow> string \<Rightarrow> bool" \<comment> \<open>\<open>marker.evaluate(environment={'extra': e})\<close>\<close>
  SpecifierSet :: "string \<Rightarrow> exn + specifier list"
  admits :: "specifier list \<Rightarrow> string \<Rightarrow> bool" \<comment> \<open>\<open>version in specifier\<close>, pre-releases accepted\<close>
  installed_version :: "string \<Rightarrow> string option" \<comment> \<open>\<open>None\<close> for \<open>PackageNotFoundError\<close>\<close>
  reject_invalid :: bool \<comment> \<open>\<open>REJECT_INVALID_EXTRAS\<close>\<close>
  with_extras :: bool \<comment> \<open>\<open>generate_extras\<close>\<close>
  pkgversion :: string \<comment> \<open>\<open>python3_pkgversion\<close>\<close>
  dep_overrides :: overrides

record reqs =
  output_lines :: "string list"
  req_extras :: "string list" \<comment> \<open>\<open>extras\<close>\<close>
  extras_ok :: "string list" \<comment> \<open>\<open>extras_ok_nonexisting\<close>\<close>
  missing_requirements :: bool
  aliens :: "requirement list" \<comment> \<open>\<open>ignored_alien_requirements\<close>\<close>
  metadata_extras :: "string list"
  package_name :: "string option"
  pyproject :: "dict option" \<comment> \<open>the cache of \<open>load_pyproject\<close>\<close>

definition VERSION_RE :: rx where
  "VERSION_RE = Sq (Plus True (Cls (\<lambda>c. is_alpha c \<or> is_digit c \<or> c = CHR ''.'' \<or> c = CHR ''-''))) (Opt (Lit ''.*''))"

definition reject_invalid_extras :: "(string \<times> string) list \<Rightarrow> exn + bool" where
  \<comment> \<open>from the environment: \<open>FEDORA >= 45 or RHEL >= 11\<close>\<close>
  "reject_invalid_extras env = (let number = (\<lambda>k. case map_of env k of None \<Rightarrow> Some 0 | Some s \<Rightarrow> if s = [] then Some 0 else py_int s) in
     case (number ''FEDORA'', number ''RHEL'') of (Some f, Some r) \<Rightarrow> Inr (f \<ge> 45 \<or> r \<ge> 11)
       | _ \<Rightarrow> Inl (ValueError ''invalid literal for int() with base 10''))"

definition guess_reason_for_invalid_requirement :: "string \<Rightarrow> string option" where
  "guess_reason_for_invalid_requirement s = (if CHR '':'' \<in> set s
     then Some (''It might be an URL. %pyproject_buildrequires cannot handle all URL-based requirements. '' @
       ''Add PackageName@ (see PEP 508) to the URL to at least require any version of PackageName.'' @
       (if CHR ''@'' \<in> set s then '' (but note that URLs might not work well with other features)'' else []))
     else if CHR ''/'' \<in> set s
     then Some (''It might be a local path. %pyproject_buildrequires cannot handle local paths as requirements. '' @
       ''Use an URL with PackageName@ (see PEP 508) to at least require any version of PackageName.'')
     else None)"

subsection \<open>Extras and overrides\<close>

definition add_extras :: "req_env \<Rightarrow> string list \<Rightarrow> bool option \<Rightarrow> reqs \<Rightarrow> reqs" where
  "add_extras e es error_nonexisting s =
     (let fresh = map (\<lambda>x. canonicalize_name (pk e) (strip x)) (filter (\<lambda>x. strip x \<noteq> []) es);
          err = (case error_nonexisting of None \<Rightarrow> reject_invalid e | Some b \<Rightarrow> b);
          s = s\<lparr>req_extras := fold List.insert fresh (req_extras s)\<rparr> in
      if err then s else s\<lparr>extras_ok := fold List.insert fresh (extras_ok s)\<rparr>)"

definition without_scope :: "string \<Rightarrow> string" where
  "without_scope override = (let parts = split_on CHR '':'' override in
     if strip (last parts) = ''br_only'' then join '':'' (butlast parts) else override)"

definition parse_dependency_overrides :: "packaging \<Rightarrow> string list \<Rightarrow> exn + overrides" where
  "parse_dependency_overrides p overrides = fold_sum (\<lambda>d override. map_sum id (\<lambda>(package, action, value).
     dset package ((case dget d package of Some os \<Rightarrow> os | None \<Rightarrow> []) @ [(action, value)]) d)
       (parse_override_string p (without_scope override))) [] overrides"

definition should_ignore_dependency :: "req_env \<Rightarrow> string \<Rightarrow> bool" where
  "should_ignore_dependency e name = (case dget (dep_overrides e) name of None \<Rightarrow> False
     | Some os \<Rightarrow> list_ex (\<lambda>(action, _). action = ''ignore'') os)"

definition apply_dependency_overrides :: "req_env \<Rightarrow> requirement \<Rightarrow> exn + requirement" where
  "apply_dependency_overrides e r = (case dget (dep_overrides e) (canonicalize_name (pk e) (rq_name r)) of None \<Rightarrow> Inr r
     | Some os \<Rightarrow> (case apply_overrides_to_specifiers (pk e) (rq_spec r) os of Inl x \<Rightarrow> Inl x
         | Inr specs \<Rightarrow> map_sum id (\<lambda>ss. r\<lparr>rq_spec := ss\<rparr>) (SpecifierSet e (join '','' (map (\<lambda>(op, v). op @ v) specs)))))"

definition marker_envs :: "reqs \<Rightarrow> string list" where
  "marker_envs s = (if req_extras s \<noteq> [] then sort (req_extras s) else [[]])"

definition evaluate_all_environments :: "req_env \<Rightarrow> reqs \<Rightarrow> string \<Rightarrow> bool" where
  "evaluate_all_environments e s marker = list_ex (\<lambda>x. marker_holds e marker x) (marker_envs s)"

definition set_package_name :: "req_env \<Rightarrow> string \<Rightarrow> reqs \<Rightarrow> exn + reqs" where
  "set_package_name e name s = (let c = canonicalize_name (pk e) name in case package_name s of
       None \<Rightarrow> Inr (s\<lparr>package_name := Some c\<rparr>)
     | Some p \<Rightarrow> if c \<noteq> p then Inl (ValueError (''Package name mismatch: '' @ c @ '' != '' @ p)) else Inr s)"

subsection \<open>Adding a requirement\<close>

definition python3dist :: "string \<Rightarrow> string \<Rightarrow> string" where
  \<comment> \<open>without \<open>op\<close> and \<open>version\<close>, as it is called\<close>
  "python3dist name version = ''python'' @ version @ ''dist('' @ name @ '')''"

definition parse_item :: "req_env \<Rightarrow> string \<Rightarrow> req_item \<Rightarrow> exn + requirement" where
  "parse_item e source i = (case i of Parsed r \<Rightarrow> Inr r | Text s \<Rightarrow> (case Requirement e s of Some r \<Rightarrow> Inr r
     | None \<Rightarrow> Inl (ValueError (''Requirement '' @ quoted s @ '' from '' @ source @ '' is invalid.'' @
         (case guess_reason_for_invalid_requirement s of Some hint \<Rightarrow> '' Hint: '' @ hint | None \<Rightarrow> [])))))"

definition with_extra :: "req_env \<Rightarrow> string option \<Rightarrow> requirement \<Rightarrow> exn + requirement" where
  "with_extra e extra r = (case extra of None \<Rightarrow> Inr r
     | Some x \<Rightarrow> (let extra_str = ''extra == '' @ [CHR 0x22] @ x @ [CHR 0x22] in
         map_sum id (\<lambda>m. r\<lparr>rq_marker := Some m\<rparr>)
           (Marker e (case rq_marker r of None \<Rightarrow> extra_str | Some m \<Rightarrow> ''('' @ m @ '') and '' @ extra_str))))"

definition is_alien :: "req_env \<Rightarrow> reqs \<Rightarrow> requirement \<Rightarrow> bool" where
  "is_alien e s r = (case rq_marker r of None \<Rightarrow> False | Some m \<Rightarrow> \<not> evaluate_all_environments e s m)"

definition is_self :: "req_env \<Rightarrow> reqs \<Rightarrow> requirement \<Rightarrow> bool" where
  "is_self e s r = (package_name s = Some (canonicalize_name (pk e) (rq_name r)) \<and> package_name s \<noteq> Some [])"

definition satisfied :: "req_env \<Rightarrow> requirement \<Rightarrow> bool" where
  "satisfied e r = (case installed_version e (rq_name r) of None \<Rightarrow> False | Some v \<Rightarrow> v \<noteq> [] \<and> admits e (rq_spec r) v)"

definition together :: "req_env \<Rightarrow> string \<Rightarrow> specifier \<Rightarrow> exn + string list" where
  "together e name sp = (if re_fullmatch VERSION_RE (snd sp) = None
     then Inl (ValueError (''Unknown character in version: '' @ snd sp @ ''. (This might be a bug in pyproject-rpm-macros.)''))
     else map_sum id (\<lambda>t. [t]) (convert (pk e) (python3dist name (pkgversion e)) (fst sp) (snd sp)))"

definition dep_line :: "req_env \<Rightarrow> requirement \<Rightarrow> string \<Rightarrow> exn + string" where
  "dep_line e r name = map_sum id (\<lambda>ts. case ts of [] \<Rightarrow> python3dist name (pkgversion e) | [t] \<Rightarrow> t
     | _ \<Rightarrow> ''('' @ join '' with '' ts @ '')'') (concat_sum (together e name) (sort (rq_spec r)))"

definition dep_names :: "req_env \<Rightarrow> requirement \<Rightarrow> string list" where
  "dep_names e r = (let name = canonicalize_name (pk e) (rq_name r) in
     name # (if with_extras e then map (\<lambda>x. name @ ''['' @ lower x @ '']'') (sort (rq_extras r)) else []))"

fun output_names :: "req_env \<Rightarrow> requirement \<Rightarrow> string list \<Rightarrow> reqs \<Rightarrow> (exn + unit) \<times> reqs" where
  "output_names e r [] s = (Inr (), s)"
| "output_names e r (n # ns) s = (case dep_line e r n of Inl x \<Rightarrow> (Inl x, s)
     | Inr l \<Rightarrow> output_names e r ns (s\<lparr>output_lines := output_lines s @ [l]\<rparr>))"

definition add_wanted :: "req_env \<Rightarrow> requirement \<Rightarrow> reqs \<Rightarrow> (exn + requirement list) \<times> reqs" where
  \<comment> \<open>the part of \<open>add\<close> for a requirement that is not put aside: what is to be added again\<close>
  "add_wanted e r s = (if is_self e s r
     then (if rq_extras r \<noteq> [] \<and> \<not> set (rq_extras r) \<subseteq> set (req_extras s)
       then (Inr (aliens s), (add_extras e (rq_extras r) None s)\<lparr>aliens := []\<rparr>) else (Inr [], s))
     else (case apply_dependency_overrides e r of Inl x \<Rightarrow> (Inl x, s)
       | Inr r \<Rightarrow> (case output_names e r (dep_names e r) (if satisfied e r then s else s\<lparr>missing_requirements := True\<rparr>) of
           (Inl x, s) \<Rightarrow> (Inl x, s) | (Inr _, s) \<Rightarrow> (Inr [], s))))"

definition add_item :: "req_env \<Rightarrow> string \<Rightarrow> req_item \<times> string option \<Rightarrow> reqs \<Rightarrow> (exn + requirement list) \<times> reqs" where
  "add_item e source i s = (case parse_item e source (fst i) of Inl x \<Rightarrow> (Inl x, s)
     | Inr r \<Rightarrow> if should_ignore_dependency e (canonicalize_name (pk e) (rq_name r)) then (Inr [], s)
         else (case with_extra e (snd i) r of Inl x \<Rightarrow> (Inl x, s)
           | Inr r \<Rightarrow> if is_alien e s r then (Inr [], s\<lparr>aliens := aliens s @ [r]\<rparr>) else add_wanted e r s))"

definition again :: "requirement list \<Rightarrow> (req_item \<times> string option) list" where
  "again rs = map (\<lambda>r. (Parsed r, None)) rs"

lemma output_names_rest: "output_names e r ns s = (x, s') \<Longrightarrow> \<exists>ls. s' = s\<lparr>output_lines := output_lines s @ ls\<rparr>"
proof (induction ns arbitrary: s)
  case (Cons n ns)
  show ?case
  proof (cases "dep_line e r n")
    case (Inr l)
    with Cons.prems have "output_names e r ns (s\<lparr>output_lines := output_lines s @ [l]\<rparr>) = (x, s')" by simp
    from Cons.IH[OF this] show ?thesis by (metis append.assoc reqs.surjective reqs.update_convs(1) reqs.select_convs(1))
  qed (use Cons.prems in \<open>auto intro: exI[of _ "[]"]\<close>)
qed (auto intro: exI[of _ "[]"])

lemma add_wanted_shape:
  assumes "add_wanted e r s = (Inr rs, s')"
  shows "(is_self e s r \<and> rs = [] \<and> s' = s) \<or>
     (is_self e s r \<and> rs = aliens s \<and> s' = (add_extras e (rq_extras r) None s)\<lparr>aliens := []\<rparr>) \<or>
     (\<not> is_self e s r \<and> rs = [] \<and> aliens s' = aliens s \<and> req_extras s' = req_extras s \<and> package_name s' = package_name s)"
proof (cases "is_self e s r")
  case True
  with assms show ?thesis by (auto simp: add_wanted_def split: if_splits)
next
  case False
  with assms obtain t u where "output_names e t (dep_names e t) (if satisfied e t then s else s\<lparr>missing_requirements := True\<rparr>) = (u, s')" "rs = []"
    by (auto simp: add_wanted_def split: sum.splits prod.splits)
  from output_names_rest[OF this(1)] this(2) False show ?thesis by (auto split: if_splits)
qed

lemma add_item_cases:
  assumes "add_item e source i s = (Inr rs, s')"
  obtains "rs = []" "s' = s"
    | r t where "parse_item e source (fst i) = Inr t" "with_extra e (snd i) t = Inr r" "is_alien e s r" "rs = []" "s' = s\<lparr>aliens := aliens s @ [r]\<rparr>"
    | r t where "parse_item e source (fst i) = Inr t" "with_extra e (snd i) t = Inr r" "\<not> is_alien e s r" "add_wanted e r s = (Inr rs, s')"
proof -
  from assms obtain t where t: "parse_item e source (fst i) = Inr t" by (cases "parse_item e source (fst i)") (simp_all add: add_item_def)
  show ?thesis
  proof (cases "should_ignore_dependency e (canonicalize_name (pk e) (rq_name t))")
    case True
    with assms t have "rs = []" "s' = s" by (simp_all add: add_item_def)
    then show ?thesis by (rule that(1))
  next
    case False
    with assms t obtain r where r: "with_extra e (snd i) t = Inr r" by (cases "with_extra e (snd i) t") (simp_all add: add_item_def)
    show ?thesis
    proof (cases "is_alien e s r")
      case True
      with assms t r False have "rs = []" "s' = s\<lparr>aliens := aliens s @ [r]\<rparr>" by (simp_all add: add_item_def)
      with that(2)[OF t r True] show ?thesis .
    next
      case not_alien: False
      with assms t r False have "add_wanted e r s = (Inr rs, s')" by (simp add: add_item_def)
      with that(3)[OF t r not_alien] show ?thesis .
    qed
  qed
qed

lemma add_extras_aliens [simp]: "aliens (add_extras e es b s) = aliens s" "package_name (add_extras e es b s) = package_name s"
  "output_lines (add_extras e es b s) = output_lines s"
  by (simp_all add: add_extras_def Let_def)

lemma add_item_aliens:
  "add_item e source i s = (Inr rs, s') \<Longrightarrow>
     rs = [] \<and> (aliens s' = aliens s \<or> (\<exists>r. aliens s' = aliens s @ [r])) \<or> rs = aliens s \<and> aliens s' = []"
  by (erule add_item_cases) (auto dest: add_wanted_shape)

function add_all :: "req_env \<Rightarrow> string \<Rightarrow> (req_item \<times> string option) list \<Rightarrow> reqs \<Rightarrow> (exn + unit) \<times> reqs" where
  \<comment> \<open>\<open>extend\<close>, with the calls that \<open>add\<close> makes\<close>
  "add_all e source [] s = (Inr (), s)"
| "add_all e source (i # rest) s = (case add_item e source i s of (Inl x, s') \<Rightarrow> (Inl x, s')
     | (Inr rs, s') \<Rightarrow> add_all e source (again rs @ rest) s')"
  by pat_completeness auto
termination
proof (relation "measures [\<lambda>(e, source, items, s). length items + length (aliens s), \<lambda>(e, source, items, s). length items]", goal_cases)
  case (2 e source i rest s r s' rs)
  from 2(1)[symmetric] 2(2) have "add_item e source i s = (Inr rs, s')" by simp
  from add_item_aliens[OF this] show ?case by (auto simp: again_def)
qed simp

definition extend_reqs :: "req_env \<Rightarrow> string \<Rightarrow> string option \<Rightarrow> string list \<Rightarrow> reqs \<Rightarrow> (exn + unit) \<times> reqs" where
  "extend_reqs e source extra strs s = add_all e source (map (\<lambda>t. (Text t, extra)) strs) s"

definition readd_ignored_alien_requirements :: "req_env \<Rightarrow> string \<Rightarrow> reqs \<Rightarrow> (exn + unit) \<times> reqs" where
  "readd_ignored_alien_requirements e source s = add_all e source (again (aliens s)) (s\<lparr>aliens := []\<rparr>)"

definition check_requirements :: "reqs \<Rightarrow> exn + unit" where
  "check_requirements s = (if missing_requirements s then Inl EndPass else Inr ())"

definition new_requirements :: "req_env \<Rightarrow> string list \<Rightarrow> reqs" where
  \<comment> \<open>\<open>__init__\<close>\<close>
  "new_requirements e extras = fold (\<lambda>x. add_extras e (split_on CHR '','' x) None) extras
     \<lparr>output_lines = [], req_extras = [], extras_ok = [], missing_requirements = False, aliens = [], metadata_extras = [],
       package_name = None, pyproject = None\<rparr>"

subsection \<open>No requirement is forgotten\<close>

definition settled_req :: "req_env \<Rightarrow> requirement \<Rightarrow> reqs \<Rightarrow> bool" where
  \<comment> \<open>ignored by an override, the project itself, or written out\<close>
  "settled_req e r s \<longleftrightarrow> should_ignore_dependency e (canonicalize_name (pk e) (rq_name r)) \<or> is_self e s r \<or>
     (\<exists>r' ls. apply_dependency_overrides e r = Inr r' \<and> concat_sum (\<lambda>n. map_sum id (\<lambda>l. [l]) (dep_line e r' n)) (dep_names e r') = Inr ls \<and>
        set ls \<subseteq> set (output_lines s))"

definition true_aliens :: "req_env \<Rightarrow> reqs \<Rightarrow> bool" where
  "true_aliens e s \<longleftrightarrow> (\<forall>r \<in> set (aliens s). is_alien e s r)"

definition item_is :: "req_env \<Rightarrow> req_item \<times> string option \<Rightarrow> requirement \<Rightarrow> bool" where
  "item_is e i r \<longleftrightarrow> (\<exists>source t. parse_item e source (fst i) = Inr t \<and> with_extra e (snd i) t = Inr r)"

lemma output_names_lines: "output_names e r ns s = (Inr (), s') \<Longrightarrow>
    \<exists>ls. concat_sum (\<lambda>n. map_sum id (\<lambda>l. [l]) (dep_line e r n)) ns = Inr ls \<and> s' = s\<lparr>output_lines := output_lines s @ ls\<rparr>"
proof (induction ns arbitrary: s)
  case (Cons n ns)
  then obtain l where l: "dep_line e r n = Inr l" by (cases "dep_line e r n") auto
  with Cons.prems have "output_names e r ns (s\<lparr>output_lines := output_lines s @ [l]\<rparr>) = (Inr (), s')" by simp
  from Cons.IH[OF this] l show ?case by auto
qed simp

lemma alien_same: "req_extras s' = req_extras s \<Longrightarrow> is_alien e s' r = is_alien e s r"
  by (simp add: is_alien_def evaluate_all_environments_def marker_envs_def split: option.split)

lemma add_wanted_effect:
  assumes "add_wanted e r s = (Inr rs, s')" "true_aliens e s"
  shows "true_aliens e s'" "settled_req e r s'" "set (output_lines s) \<subseteq> set (output_lines s')" "package_name s' = package_name s"
    "set (aliens s) \<subseteq> set rs \<union> set (aliens s')"
proof -
  have all: "true_aliens e s' \<and> settled_req e r s' \<and> set (output_lines s) \<subseteq> set (output_lines s') \<and> package_name s' = package_name s \<and>
    set (aliens s) \<subseteq> set rs \<union> set (aliens s')"
  proof (cases "is_self e s r")
    case True
    with add_wanted_shape[OF assms(1)] assms(2) show ?thesis
      by (auto simp: true_aliens_def settled_req_def is_self_def)
  next
    case False
    let ?s = "\<lambda>t. if satisfied e t then s else s\<lparr>missing_requirements := True\<rparr>"
    from False assms(1) obtain t where t: "apply_dependency_overrides e r = Inr t" "rs = []"
      "output_names e t (dep_names e t) (?s t) = (Inr (), s')"
      by (auto simp: add_wanted_def split: sum.splits prod.splits)
    from output_names_lines[OF t(3)] obtain ls where
      "concat_sum (\<lambda>n. map_sum id (\<lambda>l. [l]) (dep_line e t n)) (dep_names e t) = Inr ls" "s' = ?s t\<lparr>output_lines := output_lines (?s t) @ ls\<rparr>" by blast
    note ls = this
    then have s': "aliens s' = aliens s" "req_extras s' = req_extras s" "package_name s' = package_name s" "output_lines s' = output_lines s @ ls"
      by simp_all
    have "settled_req e r s'" unfolding settled_req_def using t(1) ls(1) s'(4) by fastforce
    moreover have "true_aliens e s'" using assms(2) unfolding true_aliens_def s'(1) alien_same[OF s'(2)] .
    ultimately show ?thesis using s' by simp
  qed
  then show "true_aliens e s'" "settled_req e r s'" "set (output_lines s) \<subseteq> set (output_lines s')" "package_name s' = package_name s"
    "set (aliens s) \<subseteq> set rs \<union> set (aliens s')" by blast+
qed

lemma settled_req_mono:
  "settled_req e r s \<Longrightarrow> set (output_lines s) \<subseteq> set (output_lines s') \<Longrightarrow> package_name s' = package_name s \<Longrightarrow> settled_req e r s'"
  unfolding settled_req_def is_self_def by auto

lemma item_is_unique:
  assumes "parse_item e source (fst i) = Inr t" "with_extra e (snd i) t = Inr r" "item_is e i r'"
  shows "r' = r"
proof -
  from assms(3) obtain source' t' where t': "parse_item e source' (fst i) = Inr t'" "with_extra e (snd i) t' = Inr r'"
    unfolding item_is_def by blast
  with assms(1) have "t' = t" by (auto simp: parse_item_def split: req_item.splits option.splits)
  with t'(2) assms(2) show ?thesis by simp
qed

lemma ignored_settled:
  assumes "parse_item e source (fst i) = Inr t" "should_ignore_dependency e (canonicalize_name (pk e) (rq_name t))" "item_is e i r"
  shows "settled_req e r s"
proof -
  from assms(3) obtain source' t' where t': "parse_item e source' (fst i) = Inr t'" "with_extra e (snd i) t' = Inr r"
    unfolding item_is_def by blast
  with assms(1) have "t' = t" by (auto simp: parse_item_def split: req_item.splits option.splits)
  with t'(2) have "rq_name r = rq_name t" by (auto simp: with_extra_def map_sum_Inr Let_def split: option.splits)
  with assms(2) show ?thesis by (simp add: settled_req_def)
qed

lemma add_item_effect:
  assumes "add_item e source i s = (Inr rs, s')" "true_aliens e s"
  shows "true_aliens e s'" "set (output_lines s) \<subseteq> set (output_lines s')" "package_name s' = package_name s"
    "set (aliens s) \<subseteq> set rs \<union> set (aliens s')" "item_is e i r \<Longrightarrow> settled_req e r s' \<or> r \<in> set (aliens s')"
proof -
  obtain t where t: "parse_item e source (fst i) = Inr t" using assms(1) by (cases "parse_item e source (fst i)") (simp_all add: add_item_def)
  have "true_aliens e s' \<and> set (output_lines s) \<subseteq> set (output_lines s') \<and> package_name s' = package_name s \<and>
    set (aliens s) \<subseteq> set rs \<union> set (aliens s') \<and> (item_is e i r \<longrightarrow> settled_req e r s' \<or> r \<in> set (aliens s'))"
  proof (cases "should_ignore_dependency e (canonicalize_name (pk e) (rq_name t))")
    case True
    with assms(1) t have "rs = []" "s' = s" by (simp_all add: add_item_def)
    with assms(2) ignored_settled[OF t True] show ?thesis by blast
  next
    case False
    with assms(1) t obtain q where q: "with_extra e (snd i) t = Inr q" by (cases "with_extra e (snd i) t") (simp_all add: add_item_def)
    show ?thesis
    proof (cases "is_alien e s q")
      case True
      with assms(1) t q False have "rs = []" "s' = s\<lparr>aliens := aliens s @ [q]\<rparr>" by (simp_all add: add_item_def)
      moreover from this(2) have "is_alien e s' x = is_alien e s x" for x by (intro alien_same) simp
      ultimately show ?thesis using True assms(2) item_is_unique[OF t q] by (auto simp: true_aliens_def)
    next
      case not_alien: False
      with assms(1) t q False have "add_wanted e q s = (Inr rs, s')" by (simp add: add_item_def)
      from add_wanted_effect[OF this assms(2)] item_is_unique[OF t q] show ?thesis by blast
    qed
  qed
  then show "true_aliens e s'" "set (output_lines s) \<subseteq> set (output_lines s')" "package_name s' = package_name s"
    "set (aliens s) \<subseteq> set rs \<union> set (aliens s')" "item_is e i r \<Longrightarrow> settled_req e r s' \<or> r \<in> set (aliens s')" by blast+
qed

lemma again_is: "r \<in> set rs \<Longrightarrow> \<exists>i \<in> set (again rs). item_is e i r"
  by (auto simp: again_def item_is_def parse_item_def with_extra_def)

lemma add_all_complete:
  assumes "add_all e source items s = (Inr u, s')" "true_aliens e s"
  shows "true_aliens e s' \<and> (\<forall>r. (\<exists>i \<in> set items. item_is e i r) \<or> r \<in> set (aliens s) \<or> settled_req e r s \<longrightarrow> settled_req e r s' \<or> r \<in> set (aliens s'))"
  using assms
proof (induction e source items s rule: add_all.induct)
  case (1 e source s)
  then show ?case by auto
next
  case (2 e source i rest s)
  then obtain rs s1 where step: "add_item e source i s = (Inr rs, s1)"
    by (cases "add_item e source i s"; cases "fst (add_item e source i s)") auto
  with 2(2) have tail: "add_all e source (again rs @ rest) s1 = (Inr u, s')" by simp
  note effect = add_item_effect[OF step 2(3)]
  from 2(1)[OF step[symmetric] refl tail effect(1)]
  have IH: "true_aliens e s'" "\<And>r. (\<exists>j \<in> set (again rs @ rest). item_is e j r) \<or> r \<in> set (aliens s1) \<or> settled_req e r s1 \<Longrightarrow> settled_req e r s' \<or> r \<in> set (aliens s')"
    by blast+
  show ?case
  proof (intro conjI allI impI)
    fix r assume r: "(\<exists>j \<in> set (i # rest). item_is e j r) \<or> r \<in> set (aliens s) \<or> settled_req e r s"
    then consider "item_is e i r" | "\<exists>j \<in> set rest. item_is e j r" | "r \<in> set (aliens s)" | "settled_req e r s" by auto
    then have "(\<exists>j \<in> set (again rs @ rest). item_is e j r) \<or> r \<in> set (aliens s1) \<or> settled_req e r s1"
    proof cases
      case 1
      with effect(5) show ?thesis by blast
    next
      case 3
      with effect(4) again_is[of r rs e] show ?thesis by auto
    next
      case 4
      with settled_req_mono effect(2,3) show ?thesis by blast
    qed auto
    then show "settled_req e r s' \<or> r \<in> set (aliens s')" by (rule IH(2))
  qed (rule IH(1))
qed

text \<open>C26: No requirement is forgotten. Adding requirements always comes to an end, although handling one can call for all that were put aside
  to be added again. When it raises nothing, each requirement that was added, or was aside before, is written out with all its lines, ignored by
  an override, or the project itself; or it is aside, and what is aside has a marker that is false under every extra that was asked for by then,
  also those that a later requirement on the project itself brought in.\<close>

theorem requirements_complete:
  assumes "add_all e source items s = (Inr u, s')" "\<forall>r \<in> set (aliens s). is_alien e s r"
    and "(i \<in> set items \<and> item_is e i r) \<or> r \<in> set (aliens s)"
  shows "settled_req e r s' \<or> (r \<in> set (aliens s') \<and> (\<exists>m. rq_marker r = Some m \<and>
    (\<forall>x \<in> (if req_extras s' = [] then {[]} else set (req_extras s')). \<not> marker_holds e m x)))"
proof -
  from add_all_complete[OF assms(1)] assms(2) have t: "true_aliens e s'"
    and c: "(\<exists>i \<in> set items. item_is e i r) \<or> r \<in> set (aliens s) \<or> settled_req e r s \<longrightarrow> settled_req e r s' \<or> r \<in> set (aliens s')"
    by (simp_all add: true_aliens_def)
  from c assms(3) have "settled_req e r s' \<or> r \<in> set (aliens s')" by blast
  moreover have "\<exists>m. rq_marker r = Some m \<and> (\<forall>x \<in> (if req_extras s' = [] then {[]} else set (req_extras s')). \<not> marker_holds e m x)"
    if "r \<in> set (aliens s')"
    using t that by (auto simp: true_aliens_def is_alien_def evaluate_all_environments_def marker_envs_def list_ex_iff split: option.splits)
  ultimately show ?thesis by blast
qed

definition small_env :: req_env where
  \<comment> \<open>a project \<open>me\<close> whose extra \<open>x\<close> needs \<open>b\<close>\<close>
  "small_env = \<lparr>pk = number_tool,
     Requirement = (\<lambda>t. if t = ''b'' then Some \<lparr>rq_name = ''b'', rq_url = None, rq_extras = [], rq_spec = [(''>='', ''2'')], rq_marker = Some ''x''\<rparr>
       else if t = ''me[x]'' then Some \<lparr>rq_name = ''me'', rq_url = None, rq_extras = [''x''], rq_spec = [], rq_marker = None\<rparr> else None),
     Marker = Inr, marker_holds = (\<lambda>m x. m = x), SpecifierSet = (\<lambda>_. Inr []), admits = (\<lambda>_ _. True), installed_version = (\<lambda>_. None),
     reject_invalid = True, with_extras = False, pkgversion = ''3'', dep_overrides = []\<rparr>"

theorem requirements_complete_witness:
  "let s = (new_requirements small_env [])\<lparr>package_name := Some ''me''\<rparr>;
       r = \<lparr>rq_name = ''b'', rq_url = None, rq_extras = [], rq_spec = [(''>='', ''2'')], rq_marker = Some ''x''\<rparr>;
       s' = s\<lparr>output_lines := [''python3dist(b) >= 2''], req_extras := [''x''], missing_requirements := True\<rparr> in
   settled_req small_env r s' \<or> (r \<in> set (aliens s') \<and> (\<exists>m. rq_marker r = Some m \<and>
    (\<forall>x \<in> (if req_extras s' = [] then {[]} else set (req_extras s')). \<not> marker_holds small_env m x)))"
proof -
  let ?s = "(new_requirements small_env [])\<lparr>package_name := Some ''me''\<rparr>"
  let ?r = "\<lparr>rq_name = ''b'', rq_url = None, rq_extras = [], rq_spec = [(''>='', ''2'')], rq_marker = Some ''x''\<rparr>"
  let ?s' = "?s\<lparr>output_lines := [''python3dist(b) >= 2''], req_extras := [''x''], missing_requirements := True\<rparr>"
  have run: "add_all small_env ''test'' [(Text ''b'', None), (Text ''me[x]'', None)] ?s = (Inr (), ?s')" by code_simp
  have item: "item_is small_env (Text ''b'', None) ?r"
    unfolding item_is_def by (rule exI[of _ "''test''"]) (simp add: parse_item_def small_env_def with_extra_def)
  show ?thesis unfolding Let_def
    by (rule requirements_complete[OF run, of "(Text ''b'', None)"]) (use item in \<open>simp_all add: new_requirements_def\<close>)
qed

end
