(* ===== verification/Pyproject_Txt.thy ===== *)
theory Pyproject_Txt
  imports Host_Calls Py_Paths
begin

section \<open>Requirements files\<close>

text \<open>
  \<open>rpms/pyproject-rpm-macros/pyproject_requirements_txt.py\<close>, which reads a \<open>requirements.txt\<close>, and what \<open>pyproject_wheel.py\<close> does with
  configuration settings. The generators are run to their end. Files that include each other for ever end in a \<open>RecursionError\<close>:
  one level for each file of the checkout is enough for any other.
\<close>

definition COMMENT_RE :: rx where
  "COMMENT_RE = Sq (Alt (Bol False) (Plus True Space)) (Sq (Chr CHR ''#'') (Sq (Star True Dot) (Eol False)))"

definition URL_START_RE :: rx where
  "URL_START_RE = Sq (Bol False) (Sq (Plus True (Cls (\<lambda>c. c \<in> set ''-_+'' \<or> is_alpha c \<or> is_digit c))) (Lit ''://''))"

definition ENV_VAR_RE :: rx where
  "ENV_VAR_RE = Sq (Lit ''${'') (Sq (Grp 1 (Plus True (Cls (\<lambda>c. is_upper c \<or> is_digit c \<or> c = CHR ''_'')))) (Lit ''}''))"

definition PKGNAME_RE :: rx where
  "PKGNAME_RE = Sq (Bol False) (Plus True (Cls (\<lambda>c. c \<in> set ''-_'' \<or> is_alpha c \<or> is_digit c)))"

subsection \<open>Lines\<close>

fun combine_logical_lines :: "string list \<Rightarrow> string list \<Rightarrow> string list" where
  \<comment> \<open>with the \<open>pieces\<close> so far\<close>
  "combine_logical_lines pieces [] = [concat pieces]"
| "combine_logical_lines pieces (l # ls) = (if re_match COMMENT_RE l \<noteq> None then combine_logical_lines pieces ls
     else if endswith l [CHR 0x5C] then combine_logical_lines (pieces @ [butlast l]) ls
     else concat (pieces @ [rstrip l]) # combine_logical_lines [] ls)"

definition strip_comments :: "string list \<Rightarrow> string list" where
  "strip_comments lines = filter (\<lambda>l. l \<noteq> []) (map (\<lambda>l. strip (case re_search_pos COMMENT_RE l of Some n \<Rightarrow> take n l | None \<Rightarrow> l)) lines)"

definition expand_env_vars :: "(string \<times> string) list \<Rightarrow> string list \<Rightarrow> string list" where
  "expand_env_vars env lines = map (re_sub ENV_VAR_RE (\<lambda>m. case map_of env (group m 1) of Some v \<Rightarrow> v | None \<Rightarrow> group m 0)) lines"

subsection \<open>URLs\<close>

fun unquote_plus :: "string \<Rightarrow> string" where
  "unquote_plus [] = []"
| "unquote_plus (c # s) = (if c = CHR ''+'' then CHR '' '' # unquote_plus s
     else if c = CHR ''%'' then (case s of a # b # t \<Rightarrow> (case (hex_digit_val a, hex_digit_val b) of
           (Some x, Some y) \<Rightarrow> char_of (16 * x + y) # unquote_plus t | _ \<Rightarrow> c # unquote_plus s) | _ \<Rightarrow> c # unquote_plus s)
     else c # unquote_plus s)"

definition url_egg :: "string \<Rightarrow> string option" where
  \<comment> \<open>\<open>parse_qs(urlparse(line).fragment)['egg'][0]\<close>; a pair without a value is left out\<close>
  "url_egg line = (let fragment = drop 1 (dropWhile (\<lambda>c. c \<noteq> CHR ''#'') line);
     pairs = map (\<lambda>p. (unquote_plus (takeWhile (\<lambda>c. c \<noteq> CHR ''='') p), unquote_plus (drop 1 (dropWhile (\<lambda>c. c \<noteq> CHR ''='') p)))) (split_on CHR ''&'' fragment)
   in map_of (filter (\<lambda>(k, v). v \<noteq> []) pairs) ''egg'')"

definition url_line :: "string \<Rightarrow> string" where
  "url_line line = (case url_egg line of None \<Rightarrow> line
     | Some egg \<Rightarrow> (case re_match PKGNAME_RE egg of Some m \<Rightarrow> group m 0 @ ''@'' @ line | None \<Rightarrow> line))"

subsection \<open>The file\<close>

definition convert_line :: "(path option \<Rightarrow> string list \<Rightarrow> string list prog) \<Rightarrow> path option \<Rightarrow> string \<Rightarrow> string list prog" where
  "convert_line convert p line = (if re_match URL_START_RE line \<noteq> None then ret [url_line line]
     else if startswith line ''-r'' then (let rel = parse_path (strip (drop 2 line));
         q = (case p of Some d \<Rightarrow> if absolute rel then rel else pparent d @ rel | None \<Rightarrow> rel) in (bind (read_text q) (\<lambda>s.
           convert (Some q) (text_lines s))))
     else if startswith line ''-'' then raise (ValueError ((case p of Some d \<Rightarrow> pname d | None \<Rightarrow> ''<requirements file>'') @
       '': unsupported requirements file option: '' @ line))
     else ret [line])"

primrec convert_txt :: "nat \<Rightarrow> path option \<Rightarrow> string list \<Rightarrow> string list prog" where
  "convert_txt 0 = (\<lambda>p lines. raise (RuntimeError ''maximum recursion depth exceeded''))"
| "convert_txt (Suc n) = (\<lambda>p lines. (bind (gets environ) (\<lambda>env.
  bind (mapM (convert_line (convert_txt n) p) (expand_env_vars env (strip_comments (combine_logical_lines [] lines)))) (\<lambda>rs.
  ret (concat rs)))))"

definition convert_requirements_txt :: "string list \<Rightarrow> path option \<Rightarrow> string list prog" where
  "convert_requirements_txt lines p = (bind (gets (\<lambda>w. length (files w))) (\<lambda>n.
    convert_txt (Suc n) p lines))"

text \<open>The lines of an included file still end in their line feed, so a continuation there is not recognised.\<close>

lemma continuation_lost:
  "combine_logical_lines [] (splitlines (''foo '' @ [CHR 0x5C, nl] @ ''>= 2'' @ [nl])) = [''foo >= 2'', []]"
  "combine_logical_lines [] (text_lines (''foo '' @ [CHR 0x5C, nl] @ ''>= 2'' @ [nl])) = [''foo '' @ [CHR 0x5C], ''>= 2'', []]"
  by code_simp+

subsection \<open>Configuration settings\<close>

definition parse_config_settings_args :: "string list \<Rightarrow> dict" where
  "parse_config_settings_args config_settings = fold (\<lambda>arg d. let key = takeWhile (\<lambda>c. c \<noteq> CHR ''='') arg;
       v = JStr (drop (Suc (length key)) arg) in
     case dget d key of None \<Rightarrow> dset key v d
       | Some (JList xs) \<Rightarrow> dset key (JList (xs @ [v])) d
       | Some j \<Rightarrow> dset key (JList [j, v]) d) config_settings []"

definition get_config_settings_args :: "dict \<Rightarrow> string list" where
  "get_config_settings_args settings = concat (map (\<lambda>(key, values).
     map (\<lambda>v. if v = JStr [] then ''--config-settings='' @ key else ''--config-settings='' @ key @ ''='' @ py_text v)
       (case values of JList xs \<Rightarrow> xs | j \<Rightarrow> [j])) settings)"

definition build_wheel :: "host \<Rightarrow> string \<Rightarrow> string \<Rightarrow> dict \<Rightarrow> int prog" where
  \<comment> \<open>the first text is \<open>sys.executable\<close>\<close>
  "build_wheel h python wheeldir settings = (bind (gets environ) (\<lambda>env.
    bind (run_proc_env h (fold (\<lambda>(k, v). dset k v) env [(''PIP_CONFIG_FILE'', ''/dev/null'')])
      ([python, ''-m'', ''pip'', ''wheel'', ''--wheel-dir'', wheeldir, ''--no-deps'', ''--use-pep517'', ''--no-build-isolation'',
        ''--disable-pip-version-check'', ''--no-clean'', ''--progress-bar'', ''off'', ''--verbose''] @ get_config_settings_args settings @ [''.'']) ROOT_DIR) (\<lambda>cp.
    ret (returncode cp))))"

end
