(* ===== verification/Pyproject_Groups.thy ===== *)
theory Pyproject_Groups
  imports Pyproject_Txt
begin

section \<open>Dependency groups\<close>

text \<open>
  The resolution of dependency groups (PEP 735) in \<open>generate_dependency_groups\<close> of
  \<open>rpms/pyproject-rpm-macros/pyproject_buildrequires.py\<close>. The table comes from \<open>pyproject.toml\<close> as a JSON value. An inductive relation
  says what a group stands for; the code finds exactly that.
\<close>

lemma concat_sum_cong [fundef_cong]: "xs = ys \<Longrightarrow> (\<And>x. x \<in> set ys \<Longrightarrow> f x = g x) \<Longrightarrow> concat_sum f xs = concat_sum g ys"
proof (induction xs arbitrary: ys)
  case (Cons x xs)
  then show ?case by (auto split: sum.splits)
qed simp

definition normalize_name :: "string \<Rightarrow> string" where
  "normalize_name name = lower (re_sub (Plus True (Cls (\<lambda>c. c \<in> set ''-_.''))) (\<lambda>_. ''-'') name)"

definition normalize_group_names :: "dict \<Rightarrow> exn + dict" where
  "normalize_group_names groups = (let
     names = fold (\<lambda>(n, _) d. dset (normalize_name n) ((case dget d (normalize_name n) of Some ns \<Rightarrow> ns | None \<Rightarrow> []) @ [n]) d) groups [];
     normalized = fold (\<lambda>(n, v) d. dset (normalize_name n) v d) groups [];
     errors = map (\<lambda>(n, ns). n @ '' ('' @ join '', '' ns @ '')'') (filter (\<lambda>(n, ns). length ns > 1) names) in
   if errors \<noteq> [] then Inl (ValueError (''Duplicate dependency group names: '' @ join '', '' errors)) else Inr normalized)"

definition tuple_text :: "string list \<Rightarrow> string" where
  "tuple_text xs = (case xs of [x] \<Rightarrow> ''('' @ [CHR 0x27] @ x @ [CHR 0x27] @ '',)''
     | _ \<Rightarrow> ''('' @ join '', '' (map (\<lambda>x. [CHR 0x27] @ x @ [CHR 0x27]) xs) @ '')'')"

definition group_item :: "json \<Rightarrow> exn + string + string" where
  \<comment> \<open>a requirement (left) or the name of a group to include (right)\<close>
  "group_item j = (case j of JStr s \<Rightarrow> Inr (Inl s)
     | JObj [(k, v)] \<Rightarrow> if k = ''include-group'' then map_sum id (\<lambda>n. Inr (normalize_name n)) (as_str v)
         else Inl (ValueError (''Invalid dependency group item: '' @ py_text j))
     | _ \<Rightarrow> Inl (ValueError (''Invalid dependency group item: '' @ py_text j)))"

function resolve_group :: "dict \<Rightarrow> string \<Rightarrow> string list \<Rightarrow> exn + string list" where
  \<comment> \<open>\<open>_resolve_dependency_group\<close>\<close>
  "resolve_group groups g past =
     (if g \<in> set past then Inl (ValueError (''Cyclic dependency group include: '' @ g @ '' -> '' @ tuple_text past))
      else (case dget groups g of None \<Rightarrow> Inl (LookupError (''Dependency group '' @ [CHR 0x27] @ g @ [CHR 0x27] @ '' not found''))
        | Some (JList items) \<Rightarrow> concat_sum (\<lambda>item. case group_item item of Inl e \<Rightarrow> Inl e | Inr (Inl s) \<Rightarrow> Inr [s]
            | Inr (Inr included) \<Rightarrow> resolve_group groups included (past @ [g])) items
        | Some _ \<Rightarrow> Inl (ValueError (''Dependency group '' @ [CHR 0x27] @ g @ [CHR 0x27] @ '' is not a list''))))"
  by pat_completeness auto
termination
proof (relation "measure (\<lambda>(groups, g, past). card (fst ` set groups - set past))", goal_cases)
  case (2 groups g past items item included)
  then have "g \<in> fst ` set groups" by (force dest: map_of_SomeD)
  with 2 have "fst ` set groups - set (past @ [g]) \<subset> fst ` set groups - set past" by auto
  then show ?case by (simp add: psubset_card_mono)
qed simp

declare resolve_group.simps [simp del]

definition resolve_dependency_group :: "dict \<Rightarrow> string \<Rightarrow> exn + string list" where
  "resolve_dependency_group groups g = resolve_group groups (normalize_name g) []"

subsection \<open>What a group stands for\<close>

inductive group_gives :: "dict \<Rightarrow> string \<Rightarrow> string list \<Rightarrow> bool" and items_give :: "dict \<Rightarrow> json list \<Rightarrow> string list \<Rightarrow> bool" for groups where
  gives_group: "dget groups g = Some (JList items) \<Longrightarrow> items_give groups items xs \<Longrightarrow> group_gives groups g xs"
| gives_nil: "items_give groups [] []"
| gives_requirement: "items_give groups js xs \<Longrightarrow> items_give groups (JStr s # js) (s # xs)"
| gives_included: "group_gives groups (normalize_name n) ys \<Longrightarrow> items_give groups js xs \<Longrightarrow>
    items_give groups (JObj [(''include-group'', JStr n)] # js) (ys @ xs)"

lemma group_item_cases:
  "group_item j = Inr (Inl s) \<longleftrightarrow> j = JStr s"
  "group_item j = Inr (Inr m) \<longleftrightarrow> (\<exists>n. j = JObj [(''include-group'', JStr n)] \<and> m = normalize_name n)"
  by (auto simp: group_item_def map_sum_Inr as_str_def split: json.splits list.splits if_splits)

lemma resolve_sound: "resolve_group groups g past = Inr xs \<Longrightarrow> group_gives groups g xs"
proof (induction groups g past arbitrary: xs rule: resolve_group.induct)
  case (1 groups g past)
  from 1(2) obtain items where i: "g \<notin> set past" "dget groups g = Some (JList items)"
    "concat_sum (\<lambda>item. case group_item item of Inl e \<Rightarrow> Inl e | Inr (Inl s) \<Rightarrow> Inr [s]
       | Inr (Inr included) \<Rightarrow> resolve_group groups included (past @ [g])) items = Inr xs"
    by (subst (asm) resolve_group.simps[of groups g past]) (auto split: if_splits option.splits json.splits)
  note IH = 1(1)[OF i(1,2) refl]
  have "items_give groups js ys" if "set js \<subseteq> set items" "concat_sum (\<lambda>item. case group_item item of Inl e \<Rightarrow> Inl e | Inr (Inl s) \<Rightarrow> Inr [s]
       | Inr (Inr included) \<Rightarrow> resolve_group groups included (past @ [g])) js = Inr ys" for js ys
    using that
  proof (induction js arbitrary: ys)
    case Nil
    then show ?case by (simp add: gives_nil)
  next
    case (Cons j js)
    then obtain us vs where uv: "(case group_item j of Inl e \<Rightarrow> Inl e | Inr (Inl s) \<Rightarrow> Inr [s]
       | Inr (Inr included) \<Rightarrow> resolve_group groups included (past @ [g])) = Inr us" "ys = us @ vs" "items_give groups js vs"
      by (auto simp: map_sum_Inr split: sum.splits)
    show ?case
    proof (cases "group_item j")
      case (Inr k)
      show ?thesis
      proof (cases k)
        case (Inl s)
        with Inr have "j = JStr s" by (simp add: group_item_cases)
        with uv Inr Inl gives_requirement[OF uv(3), of s] show ?thesis by auto
      next
        case (Inr m)
        with \<open>group_item j = Inr k\<close> obtain n where n: "j = JObj [(''include-group'', JStr n)]" "m = normalize_name n"
          by (auto simp: group_item_cases)
        have "j \<in> set items" using Cons.prems(1) by simp
        from IH[OF this \<open>group_item j = Inr k\<close> Inr] uv(1) \<open>group_item j = Inr k\<close> Inr have "group_gives groups m us" by simp
        with n uv show ?thesis by (simp add: gives_included)
      qed
    qed (use uv in simp)
  qed
  from this[OF subset_refl i(3)] show ?case by (rule gives_group[OF i(2)])
qed

text \<open>A group that stands for something includes nothing for ever, so the check for cycles never refuses it.\<close>

definition inclusion :: "dict \<Rightarrow> (string \<times> string) set" where
  "inclusion groups = {(h, g). \<exists>items item. dget groups g = Some (JList items) \<and> item \<in> set items \<and> group_item item = Inr (Inr h)}"

lemma gives_items:
  "items_give groups js xs \<Longrightarrow> j \<in> set js \<Longrightarrow> (\<exists>s. group_item j = Inr (Inl s)) \<or> (\<exists>h ys. group_item j = Inr (Inr h) \<and> group_gives groups h ys)"
proof (induction js arbitrary: xs)
  case (Cons j' js)
  from Cons.prems(1) show ?case
  proof cases
    case (gives_requirement us s)
    with Cons show ?thesis by (auto simp: group_item_cases)
  next
    case (gives_included n ys us)
    with Cons show ?thesis using group_item_cases(2) by fastforce
  qed
qed simp

lemma gives_accessible: "group_gives groups g xs \<Longrightarrow> g \<in> Wellfounded.acc (inclusion groups)"
  and gives_items_accessible: "items_give groups js xs \<Longrightarrow> \<forall>j \<in> set js. \<forall>h. group_item j = Inr (Inr h) \<longrightarrow> h \<in> Wellfounded.acc (inclusion groups)"
proof (induction rule: group_gives_items_give.inducts)
  case (gives_group g items xs)
  show ?case by (rule accI) (use gives_group in \<open>auto simp: inclusion_def\<close>)
qed (auto simp: group_item_cases)

lemma accessible_acyclic: "g \<in> Wellfounded.acc r \<Longrightarrow> (g, g) \<notin> r\<^sup>+"
proof (induction rule: acc.induct)
  case (accI g)
  show ?case
  proof
    assume "(g, g) \<in> r\<^sup>+"
    then obtain h where "(h, g) \<in> r" "(g, h) \<in> r\<^sup>*" by (meson tranclD2)
    then have "(h, h) \<in> r\<^sup>+" by (meson rtrancl_into_trancl2)
    with accI(2)[OF \<open>(h, g) \<in> r\<close>] show False by blast
  qed
qed

lemma resolve_complete:
  assumes "g \<in> Wellfounded.acc (inclusion groups)"
  shows "group_gives groups g xs \<Longrightarrow> \<forall>h \<in> set past. (g, h) \<in> (inclusion groups)\<^sup>+ \<Longrightarrow> resolve_group groups g past = Inr xs"
  using assms
proof (induction g arbitrary: xs past rule: acc.induct)
  case (accI g)
  from accI.prems(1) obtain items where items: "dget groups g = Some (JList items)" "items_give groups items xs"
    by (cases rule: group_gives.cases) auto
  have "g \<in> Wellfounded.acc (inclusion groups)" using accI(1) by (rule acc.accI)
  from accessible_acyclic[OF this] accI.prems(2) have new: "g \<notin> set past" by blast
  let ?f = "\<lambda>item. case group_item item of Inl e \<Rightarrow> Inl e | Inr (Inl s) \<Rightarrow> Inr [s]
       | Inr (Inr included) \<Rightarrow> resolve_group groups included (past @ [g])"
  have "set js \<subseteq> set items \<Longrightarrow> items_give groups js ys \<Longrightarrow> concat_sum ?f js = Inr ys" for js ys
  proof (induction js arbitrary: ys)
    case Nil
    then show ?case by (auto elim: items_give.cases)
  next
    case (Cons j js)
    from Cons.prems(2) show ?case
    proof cases
      case (gives_requirement us s)
      then show ?thesis using Cons by (simp add: group_item_def)
    next
      case (gives_included n ws us)
      have gi: "group_item j = Inr (Inr (normalize_name n))" using gives_included(1) by (simp add: group_item_cases)
      with Cons.prems(1) items(1) have inc: "(normalize_name n, g) \<in> inclusion groups" by (auto simp: inclusion_def)
      have "resolve_group groups (normalize_name n) (past @ [g]) = Inr ws"
        by (rule accI.IH[OF inc gives_included(3)]) (use inc accI.prems(2) in \<open>auto intro: trancl_into_trancl2\<close>)
      with gi gives_included Cons show ?thesis by simp
    qed
  qed
  from this[OF subset_refl items(2)] new items(1) show ?case by (subst resolve_group.simps) simp
qed

text \<open>C27: A dependency group is resolved exactly when it stands for something. The requirements that come out are those of the group with the
  groups it includes in their places; a group is refused only when it, or a group it includes, is missing, is no list or has an item that
  is neither a requirement nor an inclusion, or when groups include each other for ever. The resolution always ends.\<close>

theorem resolve_exact: "resolve_dependency_group groups g = Inr xs \<longleftrightarrow> group_gives groups (normalize_name g) xs"
proof
  show "resolve_dependency_group groups g = Inr xs \<Longrightarrow> group_gives groups (normalize_name g) xs" by (simp add: resolve_dependency_group_def resolve_sound)
  assume gives: "group_gives groups (normalize_name g) xs"
  from resolve_complete[OF gives_accessible[OF gives] gives, of "[]"] show "resolve_dependency_group groups g = Inr xs" by (simp add: resolve_dependency_group_def)
qed

end
