(* ===== verification/Pyproject_Requires.thy ===== *)
theory Pyproject_Requires
  imports Pyproject_Requirements Pyproject_Groups Run_Rules
begin

section \<open>The build requirements of a Python project\<close>

text \<open>
  The rest of \<open>rpms/pyproject-rpm-macros/pyproject_buildrequires.py\<close>, the script behind \<open>%pyproject_buildrequires\<close>: where requirements
  come from, and \<open>generate_requires\<close>, which writes what was gathered whatever happened. Programs here carry the record \<open>reqs\<close> beside the
  world, so that what was gathered before an exception is there afterwards. Calls into a build backend and reading a wheel are
  questions \<open>Lib\<close> to the host; paths are relative to the project. Log messages are left out.
\<close>

type_synonym 'a rprog = "reqs \<times> world \<Rightarrow> (exn + 'a) \<times> (reqs \<times> world)"

definition rret :: "'a \<Rightarrow> 'a rprog" where "rret x = (\<lambda>sw. (Inr x, sw))"
definition rraise :: "exn \<Rightarrow> 'a rprog" where "rraise e = (\<lambda>sw. (Inl e, sw))"

definition rbind :: "'a rprog \<Rightarrow> ('a \<Rightarrow> 'b rprog) \<Rightarrow> 'b rprog" where
  "rbind m k = (\<lambda>sw. case m sw of (Inl e, sw') \<Rightarrow> (Inl e, sw') | (Inr x, sw') \<Rightarrow> k x sw')"

definition rseq :: "'a rprog \<Rightarrow> 'b rprog \<Rightarrow> 'b rprog" where "rseq m k = rbind m (\<lambda>_. k)"

definition rfinally :: "'a rprog \<Rightarrow> (reqs \<Rightarrow> unit prog) \<Rightarrow> 'a rprog" where
  "rfinally m c = (\<lambda>sw. case m sw of (r, s, w) \<Rightarrow> (r, s, snd (c s w)))"

definition lift_prog :: "'a prog \<Rightarrow> 'a rprog" where "lift_prog m = (\<lambda>(s, w). case m w of (r, w') \<Rightarrow> (r, s, w'))"
definition on_reqs :: "(reqs \<Rightarrow> (exn + 'a) \<times> reqs) \<Rightarrow> 'a rprog" where "on_reqs f = (\<lambda>(s, w). case f s of (r, s') \<Rightarrow> (r, s', w))"
definition rsum :: "exn + 'a \<Rightarrow> 'a rprog" where "rsum r = (\<lambda>sw. (r, sw))"
definition rgets :: "(reqs \<Rightarrow> 'a) \<Rightarrow> 'a rprog" where "rgets f = (\<lambda>(s, w). (Inr (f s), s, w))"
definition rmodify :: "(reqs \<Rightarrow> reqs) \<Rightarrow> unit rprog" where "rmodify f = (\<lambda>(s, w). (Inr (), f s, w))"
definition rwhen :: "bool \<Rightarrow> unit rprog \<Rightarrow> unit rprog" where "rwhen b m = (if b then m else rret ())"

fun rforM :: "('a \<Rightarrow> unit rprog) \<Rightarrow> 'a list \<Rightarrow> unit rprog" where
  "rforM f [] = rret ()"
| "rforM f (x # xs) = rseq (f x) (rforM f xs)"

record build_env =
  rq :: req_env
  toml_loads :: "string \<Rightarrow> exn + dict" \<comment> \<open>\<open>tomllib\<close>\<close>
  sys_executable :: string
  config_settings :: dict

subsection \<open>Adding and checking\<close>

definition elements :: "json \<Rightarrow> exn + json list" where
  \<comment> \<open>iterating over a value\<close>
  "elements j = (case j of JList xs \<Rightarrow> Inr xs | JStr s \<Rightarrow> Inr (map (\<lambda>c. JStr [c]) s) | JObj d \<Rightarrow> Inr (map (\<lambda>(k, v). JStr k) d)
     | _ \<Rightarrow> Inl (TypeError ''object is not iterable''))"

definition extend_json :: "build_env \<Rightarrow> string \<Rightarrow> string option \<Rightarrow> json \<Rightarrow> unit rprog" where
  \<comment> \<open>\<open>extend\<close> over a value of a document: what is no text raises when its turn comes\<close>
  "extend_json b source extra j = (rbind (rsum (elements j)) (\<lambda>js.
    let strs = takeWhile (\<lambda>x. case x of JStr _ \<Rightarrow> True | _ \<Rightarrow> False) js in
    rseq (on_reqs (extend_reqs (rq b) source extra (map py_text strs))) (
    if length strs < length js then (rraise (TypeError ''expected string'')) else
    rret ())))"

definition add_text :: "build_env \<Rightarrow> string \<Rightarrow> string \<Rightarrow> unit rprog" where
  "add_text b source s = on_reqs (extend_reqs (rq b) source None [s])"

definition check :: "unit rprog" where
  "check = rbind (rgets check_requirements) rsum"

definition getd :: "dict \<Rightarrow> string \<Rightarrow> json \<Rightarrow> json" where
  \<comment> \<open>\<open>d.get(k, default)\<close>\<close>
  "getd d k dflt = (case dget d k of Some j \<Rightarrow> j | None \<Rightarrow> dflt)"

definition load_pyproject :: "build_env \<Rightarrow> dict rprog" where
  "load_pyproject b = (rbind (rgets pyproject) (\<lambda>cached.
    (case cached of Some d \<Rightarrow> rret d
     | None \<Rightarrow> (rbind (lift_prog (exists [''pyproject.toml''])) (\<lambda>there.
       rbind (if there then lift_prog (bind (read_text [''pyproject.toml'']) (\<lambda>t. from_sum (toml_loads b t))) else rret []) (\<lambda>d.
       rseq (rmodify (\<lambda>s. s\<lparr>pyproject := Some d\<rparr>)) (
       rret d)))))))"

subsection \<open>The build backend\<close>

type_synonym backend = "string \<times> string" \<comment> \<open>module and object\<close>

definition ask_lib :: "host \<Rightarrow> string \<Rightarrow> string list \<Rightarrow> json rprog" where
  \<comment> \<open>any exception of the library is a \<open>RuntimeError\<close>\<close>
  "ask_lib h f args = lift_prog (bind (ask_host h (Lib f args)) (\<lambda>r. case r of Answer j \<Rightarrow> ret j | Fault m \<Rightarrow> raise (RuntimeError m)
     | _ \<Rightarrow> raise (RuntimeError [])))"

definition hook_there :: "host \<Rightarrow> backend \<Rightarrow> string \<Rightarrow> bool rprog" where
  \<comment> \<open>\<open>getattr(backend, name, None)\<close>\<close>
  "hook_there h backend name = rbind (ask_lib h ''hasattr'' [fst backend, snd backend, name]) (\<lambda>j. rret (truthy j))"

definition call_hook :: "build_env \<Rightarrow> host \<Rightarrow> backend \<Rightarrow> string \<Rightarrow> string list \<Rightarrow> json rprog" where
  "call_hook b h backend name args = ask_lib h name ([fst backend, snd backend] @ args @ get_config_settings_args (config_settings b))"

definition backend_paths :: "json option \<Rightarrow> exn + string list" where
  "backend_paths j = (case j of None \<Rightarrow> Inr []
     | Some (JStr s) \<Rightarrow> Inr (if s = [] then [] else [s])
     | Some v \<Rightarrow> if truthy v then (case as_list v of Inl e \<Rightarrow> Inl e | Inr xs \<Rightarrow> Inr (map py_text xs)) else Inr [])"

definition get_backend :: "build_env \<Rightarrow> host \<Rightarrow> backend rprog" where
  "get_backend b h = (rbind (load_pyproject b) (\<lambda>data.
    rbind (rsum (as_dict (getd data ''build-system'' (JObj [])))) (\<lambda>system.
    rseq (extend_json b ''build-system.requires'' None (getd system ''requires'' (JList []))) (
    rbind (if opt_truthy (dget system ''build-backend'') then rsum (as_str (getd system ''build-backend'' JNull))
       else (rbind (lift_prog (exists [''setup.py''])) (\<lambda>legacy.
         if \<not> legacy then (rraise (FileNotFoundError (''File '' @ [CHR 0x22] @ ''setup.py'' @ [CHR 0x22] @ '' not found for legacy project.''))) else
         rseq (add_text b ''default build backend'' ''setuptools >= 40.8'') (
         rret ''setuptools.build_meta:__legacy__'')))) (\<lambda>name.
    rseq check (
    rbind (rsum (backend_paths (dget system ''backend-path''))) (\<lambda>paths.
    let modul = takeWhile (\<lambda>c. c \<noteq> CHR '':'') name in
    let object = drop (Suc (length modul)) name in
    rseq (ask_lib h ''importlib.import_module'' (modul # paths)) (
    rseq (rwhen (object \<noteq> []) (rseq (ask_lib h ''getattr'' [modul, object]) (rret ()))) (
    rret (modul, object))))))))))"

definition generate_build_requirements :: "build_env \<Rightarrow> host \<Rightarrow> backend \<Rightarrow> unit rprog" where
  "generate_build_requirements b h backend = (rbind (hook_there h backend ''get_requires_for_build_wheel'') (\<lambda>there.
    if \<not> there then (rret ()) else
    rbind (call_hook b h backend ''get_requires_for_build_wheel'' []) (\<lambda>new_reqs.
    rseq (extend_json b ''get_requires_for_build_wheel'' None new_reqs) (
    check))))"

subsection \<open>Metadata\<close>

definition is_header :: "string \<Rightarrow> bool" where
  \<comment> \<open>a line of \<open>email.parser\<close> that is a header or continues one\<close>
  "is_header l = (case l of [] \<Rightarrow> False | c # _ \<Rightarrow> c = CHR '' '' \<or> c = tab \<or>
     (CHR '':'' \<in> set l \<and> list_all (\<lambda>x. 33 \<le> (of_char x :: nat) \<and> (of_char x :: nat) \<le> 126) (takeWhile (\<lambda>x. x \<noteq> CHR '':'') l)))"

fun headers :: "string list \<Rightarrow> (string \<times> string) list \<Rightarrow> (string \<times> string) list" where
  "headers [] acc = acc"
| "headers (l # ls) acc = (if \<not> is_header l then acc
     else if l \<noteq> [] \<and> (hd l = CHR '' '' \<or> hd l = tab)
     then headers ls (if acc = [] then [] else butlast acc @ [(fst (last acc), snd (last acc) @ [nl] @ l)])
     else headers ls (acc @ [(takeWhile (\<lambda>x. x \<noteq> CHR '':'') l,
       dropWhile (\<lambda>x. x = CHR '' '' \<or> x = tab) (drop 1 (dropWhile (\<lambda>x. x \<noteq> CHR '':'') l)))]))"

definition parse_metadata_file :: "string \<Rightarrow> (string \<times> string) list" where
  "parse_metadata_file s = headers (split_on nl s) []"

definition get_all :: "(string \<times> string) list \<Rightarrow> string \<Rightarrow> string list" where
  "get_all message k = map snd (filter (\<lambda>(n, _). lower n = lower k) message)"

definition extras_from_parsed_metadata_file :: "build_env \<Rightarrow> (string \<times> string) list \<Rightarrow> string list" where
  "extras_from_parsed_metadata_file b message =
     map (canonicalize_name (pk (rq b))) (filter (\<lambda>x. x \<noteq> []) (get_all message ''provides-extra''))"

definition add_metadata :: "build_env \<Rightarrow> string \<Rightarrow> string \<Rightarrow> unit rprog" where
  \<comment> \<open>what both ways of reading metadata do; a missing name is a \<open>TypeError\<close> of \<open>canonicalize_name\<close>\<close>
  "add_metadata b what content = (let message = parse_metadata_file content in
    rbind (case get_all message ''name'' of [] \<Rightarrow> rraise (TypeError ''expected string or bytes-like object, got NoneType'') | n # _ \<Rightarrow> rret n) (\<lambda>name.
    rseq (on_reqs (\<lambda>s. case set_package_name (rq b) name s of Inl e \<Rightarrow> (Inl e, s) | Inr s' \<Rightarrow> (Inr (), s'))) (
    rseq (rmodify (\<lambda>s. s\<lparr>metadata_extras := metadata_extras s @ extras_from_parsed_metadata_file b message\<rparr>)) (
    on_reqs (extend_reqs (rq b) (what @ ''Requires-Dist ('' @ name @ '')'') None (get_all message ''Requires-Dist''))))))"

definition generate_run_requirements_hook :: "build_env \<Rightarrow> host \<Rightarrow> backend \<Rightarrow> unit rprog" where
  "generate_run_requirements_hook b h backend = (rbind (hook_there h backend ''prepare_metadata_for_build_wheel'') (\<lambda>there.
    if \<not> there then (rraise (ValueError (''The build backend cannot provide build metadata '' @
      ''(incl. runtime requirements) before build. If the dependencies are specified in the pyproject.toml [project] '' @
      ''table, you can use the -p flag to read them. Alternatively, use the -R flag not to generate runtime dependencies.''))) else
    rbind (call_hook b h backend ''prepare_metadata_for_build_wheel'' [''.'']) (\<lambda>j.
    rbind (rsum (as_str j)) (\<lambda>dir.
    rbind (lift_prog (read_text (parse_path dir @ [''METADATA'']))) (\<lambda>content.
    add_metadata b ''hook generated metadata: '' content)))))"

definition find_built_wheel :: "string \<Rightarrow> string option rprog" where
  "find_built_wheel wheeldir = (rbind (lift_prog (gets (\<lambda>w. filter (\<lambda>n. \<not> startswith n ''.'') (fs_glob (files w) (parse_path wheeldir) ''.whl'')))) (\<lambda>wheels.
    (case wheels of [] \<Rightarrow> rret None
     | [n] \<Rightarrow> rret (Some (wheeldir @ ''/'' @ n))
     | _ \<Rightarrow> rraise (RuntimeError (''Found multiple wheels in %{_pyproject_wheeldir}, '' @
         ''this is not supported with %pyproject_buildrequires -w.'')))))"

definition is_metadata_name :: "string \<Rightarrow> bool" where
  "is_metadata_name name = (length (filter (\<lambda>c. c = CHR ''/'') name) = 1 \<and> endswith name ''.dist-info/METADATA'')"

definition generate_run_requirements_wheel :: "build_env \<Rightarrow> host \<Rightarrow> string \<Rightarrow> unit rprog" where
  "generate_run_requirements_wheel b h wheeldir = (rbind (find_built_wheel wheeldir) (\<lambda>first.
    rbind (case first of Some wh \<Rightarrow> rret (Some wh)
       | None \<Rightarrow> (rseq (add_text b ''%pyproject_buildrequires -w'' ''pip >= 19'') (
         rseq check (
         rbind (lift_prog (build_wheel h (sys_executable b) wheeldir (config_settings b))) (\<lambda>code.
         if code \<noteq> 0 then (rraise (RuntimeError ''Failed to build the wheel for %pyproject_buildrequires -w.'')) else
         find_built_wheel wheeldir))))) (\<lambda>wheel.
    rbind (case wheel of Some wh \<Rightarrow> rret wh
       | None \<Rightarrow> rraise (RuntimeError ''Cannot locate the built wheel for %pyproject_buildrequires -w.'')) (\<lambda>path.
    rbind (ask_lib h ''zipfile.ZipFile'' [path]) (\<lambda>j.
    rbind (rsum (as_dict j)) (\<lambda>entries.
    (case List.find (\<lambda>(n, _). is_metadata_name n) entries of
       Some (_, JStr content) \<Rightarrow> add_metadata b ''built wheel metadata: '' content
     | Some _ \<Rightarrow> rraise UnicodeDecodeError
     | None \<Rightarrow> rraise (RuntimeError ''Could not find *.dist-info/METADATA in built wheel.''))))))))"

definition json_member :: "string \<Rightarrow> json \<Rightarrow> exn + bool" where
  \<comment> \<open>\<open>x in v\<close>\<close>
  "json_member x j = (case j of JList xs \<Rightarrow> Inr (JStr x \<in> set xs) | JStr s \<Rightarrow> Inr (contains s x) | JObj d \<Rightarrow> Inr (has_key d x)
     | _ \<Rightarrow> Inl (TypeError ''argument is not iterable''))"

definition generate_run_requirements_pyproject :: "build_env \<Rightarrow> unit rprog" where
  "generate_run_requirements_pyproject b = (rbind (load_pyproject b) (\<lambda>data.
    let table = getd data ''project'' (JObj []) in
    if \<not> truthy table then (rraise (ValueError ''Could not find the [project] table in pyproject.toml.'')) else
    rbind (rsum (as_dict table)) (\<lambda>project.
    let dynamic = getd project ''dynamic'' (JList []) in
    rbind (rsum (json_member ''dependencies'' dynamic)) (\<lambda>first.
    rbind (if first then rret True else rsum (json_member ''optional-dependencies'' dynamic)) (\<lambda>second.
    if second then (rraise (ValueError (''Could not read the dependencies or optional-dependencies '' @
      ''from the [project] table in pyproject.toml, as the field is dynamic.''))) else
    rbind (rsum (as_str (getd project ''name'' JNull))) (\<lambda>name.
    rseq (on_reqs (\<lambda>s. case set_package_name (rq b) name s of Inl e \<Rightarrow> (Inl e, s) | Inr s' \<Rightarrow> (Inr (), s'))) (
    rseq (extend_json b (''pyproject.toml generated metadata: [dependencies] ('' @ name @ '')'') None (getd project ''dependencies'' (JList []))) (
    rbind (rsum (as_dict (getd project ''optional-dependencies'' (JObj [])))) (\<lambda>optional.
    rforM (\<lambda>(extra, deps). (rseq (extend_json b (''pyproject.toml generated metadata: [optional-dependencies] '' @ extra @ '' ('' @ name @ '')'') (Some extra) deps) (
      rmodify (\<lambda>s. s\<lparr>metadata_extras := metadata_extras s @ [canonicalize_name (pk (rq b)) extra]\<rparr>)))) optional)))))))))"

definition generate_run_requirements :: "build_env \<Rightarrow> host \<Rightarrow> backend option \<Rightarrow> bool \<Rightarrow> bool \<Rightarrow> string \<Rightarrow> unit rprog" where
  \<comment> \<open>without a backend there is a \<open>NameError\<close>; \<open>generate_requires\<close> has one whenever it comes here\<close>
  "generate_run_requirements b h backend by_wheel pyproject_dependencies wheeldir =
     (if pyproject_dependencies then generate_run_requirements_pyproject b
      else if by_wheel then generate_run_requirements_wheel b h wheeldir
      else (case backend of Some k \<Rightarrow> generate_run_requirements_hook b h k | None \<Rightarrow> rraise (RuntimeError ''backend'')))"

subsection \<open>Tox\<close>

definition with_tempfile :: "string \<Rightarrow> (path \<Rightarrow> 'a rprog) \<Rightarrow> 'a rprog" where
  \<comment> \<open>\<open>with tempfile.NamedTemporaryFile('r')\<close>\<close>
  "with_tempfile name body = (let p = [''<tmp>'', name] in
     rfinally (rseq (lift_prog (write_text p [])) (body p)) (\<lambda>s. modify (\<lambda>w. w\<lparr>files := fs_unlink p (files w)\<rparr>)))"

definition provision_of :: "path \<Rightarrow> (exn + dict) option prog" where
  \<comment> \<open>what \<open>json.loads\<close> makes of the file, \<open>None\<close> when it is empty\<close>
  "provision_of p = (\<lambda>w. case map_of (files w) p of Some (JsonN j) \<Rightarrow> (Inr (Some (as_dict j)), w)
     | Some (FileN s) \<Rightarrow> (Inr (if s = [] then None else Some (Inl JSONDecodeError)), w)
     | Some _ \<Rightarrow> (Inl UnicodeDecodeError, w) | None \<Rightarrow> (Inr None, w))"

definition tox_argv :: "build_env \<Rightarrow> string list \<Rightarrow> string list" where
  "tox_argv b args = [sys_executable b, ''-m'', ''tox''] @ args"

definition tox_provision :: "build_env \<Rightarrow> completed \<Rightarrow> (exn + dict) option \<Rightarrow> unit rprog" where
  "tox_provision b r provision = (case provision of
       Some parsed \<Rightarrow> if returncode r \<noteq> 0 then (rbind (rsum parsed) (\<lambda>d.
         rseq (rwhen (getd d ''minversion'' JNull \<noteq> JNull) (add_text b ''tox provision (minversion)'' (''tox >= '' @ py_text (getd d ''minversion'' JNull)))) (
         rseq (rwhen (has_key d ''requires'') (extend_json b ''tox provision (requires)'' None (getd d ''requires'' JNull))) (
         rseq check (
         rraise (RuntimeError ''Dependencies requested by tox provisioning appear installed, but tox disagreed.''))))))
         else rret ()
     | None \<Rightarrow> if returncode r \<noteq> 0 then rraise (CalledProcessError (returncode r) (stderr r)) else rret ())"

definition tox_extras :: "build_env \<Rightarrow> string \<Rightarrow> string list \<Rightarrow> unit rprog" where
  "tox_extras b toxenv es = (rbind (rgets req_extras) (\<lambda>known.
    rwhen (\<not> set es \<subseteq> set known) ((rseq (rmodify (add_extras (rq b) es (Some False))) (
      on_reqs (readd_ignored_alien_requirements (rq b) (''tox added extras: '' @ toxenv)))))))"

definition generate_tox_requirements :: "build_env \<Rightarrow> host \<Rightarrow> string list \<Rightarrow> unit rprog" where
  "generate_tox_requirements b h toxenvs = (let toxenv = join '','' toxenvs in
    rseq (add_text b ''tox itself'' ''tox-current-env >= 0.0.16'') (
    rseq check (
    with_tempfile ''deps'' (\<lambda>deps. with_tempfile ''extras'' (\<lambda>extras. with_tempfile ''provision'' (\<lambda>provision. (rbind (lift_prog (run_proc h (tox_argv b [''--print-deps-to'', path_str deps, ''--print-extras-to'', path_str extras, ''--no-provision'',
        path_str provision, ''--assert-config'', ''-q'', ''-r'', ''-e'', toxenv]) ROOT_DIR False)) (\<lambda>r.
      rbind (lift_prog (provision_of provision)) (\<lambda>content.
      rseq (tox_provision b r content) (
      rbind (lift_prog (read_text extras)) (\<lambda>extra_lines.
      rseq (tox_extras b toxenv (remdups (filter (\<lambda>l. l \<noteq> []) (splitlines extra_lines)))) (
      rbind (lift_prog (read_text deps)) (\<lambda>dep_lines.
      rbind (lift_prog (convert_requirements_txt (splitlines dep_lines) None)) (\<lambda>packages.
      on_reqs (extend_reqs (rq b) (''tox --print-deps-only: '' @ toxenv) None packages)))))))))))))))"

definition tox_dependency_groups :: "build_env \<Rightarrow> host \<Rightarrow> string list \<Rightarrow> string list rprog" where
  "tox_dependency_groups b h toxenvs = with_tempfile ''groups'' (\<lambda>groups. (rbind (lift_prog (run_proc h (tox_argv b [''--print-dependency-groups-to'', path_str groups, ''-q'', ''-e'', join '','' toxenvs]) ROOT_DIR False)) (\<lambda>r.
    if returncode r \<noteq> 0 then (rret []) else
    rbind (lift_prog (read_text groups)) (\<lambda>out.
    rret (splitlines (strip out))))))"

subsection \<open>The script\<close>

definition generate_dependency_groups :: "build_env \<Rightarrow> string list \<Rightarrow> unit rprog" where
  "generate_dependency_groups b requested = (rbind (load_pyproject b) (\<lambda>data.
    rbind (rsum (as_dict (getd data ''dependency-groups'' (JObj [])))) (\<lambda>raw.
    rbind (rsum (normalize_group_names raw)) (\<lambda>groups.
    rforM (\<lambda>g. (rbind (rsum (resolve_dependency_group groups g)) (\<lambda>reqs.
      on_reqs (extend_reqs (rq b) (''Dependency group '' @ g) None reqs)))) (concat (map (split_on CHR '','') requested))))))"

definition check_extras :: "reqs \<Rightarrow> exn + unit" where
  \<comment> \<open>a set is in no order of its own: here the first unknown extra of the list\<close>
  "check_extras s = (case List.find (\<lambda>x. x \<notin> set (metadata_extras s) \<and> x \<notin> set (extras_ok s)) (req_extras s) of
       Some x \<Rightarrow> Inl (ValueError (''Extra '' @ x @ '' does not exist in upstream metadata. Available extras: '' @ quoted_list (metadata_extras s) @ ''.''))
     | None \<Rightarrow> Inr ())"

record br_args =
  include_runtime :: bool
  use_wheel :: bool \<comment> \<open>\<open>build_wheel\<close>\<close>
  wheel_dir :: string
  tox_envs :: "string list" \<comment> \<open>empty for \<open>None\<close>\<close>
  br_extras :: "string list"
  dep_groups :: "string list"
  requirement_files :: "path list"
  use_build_system :: bool
  pyproject_deps :: bool
  output_file :: path

definition requirements_file :: "build_env \<Rightarrow> path \<Rightarrow> unit rprog" where
  "requirements_file b p = (rbind (lift_prog (read_text p)) (\<lambda>s.
    rbind (lift_prog (convert_requirements_txt (splitlines s) (Some p))) (\<lambda>rs.
    on_reqs (extend_reqs (rq b) (''requirements file '' @ path_string p) None rs))))"

definition gather_requirements :: "build_env \<Rightarrow> host \<Rightarrow> br_args \<Rightarrow> unit rprog" where
  \<comment> \<open>the body of the \<open>try\<close>\<close>
  "gather_requirements b h a = (if (include_runtime a \<or> tox_envs a \<noteq> [] \<or> pyproject_deps a) \<and> \<not> use_build_system a
      then (rraise (ValueError ''-N option cannot be used in combination with -r, -e, -t, -x, -p options'')) else
    rseq (rwhen (requirement_files a \<noteq> []) (rseq (rforM (requirements_file b) (requirement_files a)) check)) (
    rbind (if use_build_system a then (rbind (get_backend b h) (\<lambda>k.
      rseq (generate_build_requirements b h k) (
      rret (Some k)))) else rret None) (\<lambda>backend.
    rseq (rwhen (include_runtime a \<or> tox_envs a \<noteq> []) (generate_run_requirements b h backend (use_wheel a) (pyproject_deps a) (wheel_dir a))) (
    rbind (if tox_envs a \<noteq> [] then (rseq (generate_tox_requirements b h (tox_envs a)) (
      rbind (tox_dependency_groups b h (tox_envs a)) (\<lambda>more.
      rret (dep_groups a @ more)))) else rret (dep_groups a)) (\<lambda>groups.
    rseq (rwhen (groups \<noteq> []) (generate_dependency_groups b groups)) (
    rwhen (include_runtime a) (rbind (rgets check_extras) rsum)))))))"

definition output_text :: "reqs \<Rightarrow> string" where
  "output_text s = join [nl] (output_lines s) @ [nl]"

definition generate_requires :: "build_env \<Rightarrow> host \<Rightarrow> br_args \<Rightarrow> unit prog" where
  "generate_requires b h a = (\<lambda>w. case rfinally (gather_requirements b h a) (\<lambda>s. write_text (output_file a) (output_text s))
       (new_requirements (rq b) (br_extras a), w) of
     (Inl EndPass, s, w') \<Rightarrow> (Inr (), w')
   | (r, s, w') \<Rightarrow> (r, w'))"

record br_cli = br_args +
  cli_tox :: bool
  cli_config :: "string list"
  cli_overrides :: "path option"

definition br_main :: "build_env \<Rightarrow> host \<Rightarrow> string \<Rightarrow> br_cli \<Rightarrow> unit prog" where
  \<comment> \<open>on a parsed command line; the text is the name of the running Python's tox environment\<close>
  "br_main b h default_env c = (bind (gets (\<lambda>w. List.find (\<lambda>p. \<not> fs_exists (files w) p) (requirement_files c))) (\<lambda>missing.
    seq (case missing of Some p \<Rightarrow> raise (SysExit 2 (''can't open '' @ path_string p @ '': No such file or directory'')) | None \<Rightarrow> ret ()) (
    if use_wheel c \<and> wheel_dir c = [] then (raise (ValueError ''--wheeldir must be set when -w.'')) else
    bind (gets environ) (\<lambda>env.
    let tox = cli_tox c \<or> tox_envs c \<noteq> [] in
    let runtime = (include_runtime c \<and> use_build_system c) \<or> tox \<or> br_extras c \<noteq> [] in
    let toxenvs = (if tox \<and> tox_envs c = [] then [case map_of env ''RPM_TOXENV'' of Some v \<Rightarrow> v | None \<Rightarrow> default_env] else tox_envs c) in
    bind (case cli_overrides c of None \<Rightarrow> ret []
       | Some p \<Rightarrow> bind (is_file p) (\<lambda>there. if there then bind (read_text p) (\<lambda>t. ret (words t)) else ret [])) (\<lambda>overrides.
    catch ((bind (from_sum (parse_dependency_overrides (pk (rq b)) overrides)) (\<lambda>parsed.
      generate_requires (b\<lparr>rq := (rq b)\<lparr>dep_overrides := parsed\<rparr>, config_settings := parse_config_settings_args (cli_config c)\<rparr>) h
        (br_args.truncate c\<lparr>include_runtime := runtime, tox_envs := toxenvs\<rparr>))))
      (\<lambda>e. case e of SysExit _ _ \<Rightarrow> False | _ \<Rightarrow> True) (\<lambda>_. raise (SysExit 1 [])))))))"

subsection \<open>What runs before the requirements are there\<close>

definition quiet :: "'a rprog \<Rightarrow> bool" where
  "quiet m \<longleftrightarrow> (\<forall>s w. trace (snd (snd (m (s, w)))) = trace w)"

definition same_reqs :: "'a rprog \<Rightarrow> bool" where
  "same_reqs m \<longleftrightarrow> (\<forall>s w. fst (snd (m (s, w))) = s)"

named_theorems rprog_rules

lemma quiet_basic [rprog_rules]:
  "quiet (rret x)" "quiet (rraise e)" "quiet (rsum v)" "quiet (rgets f)" "quiet (rmodify g)" "quiet (on_reqs k)"
  by (simp_all add: quiet_def rret_def rraise_def rsum_def rgets_def rmodify_def on_reqs_def split: prod.splits)

lemma quiet_bind [rprog_rules]: "quiet m \<Longrightarrow> (\<And>x. quiet (k x)) \<Longrightarrow> quiet (rbind m k)"
  by (simp add: quiet_def rbind_def split: prod.splits sum.splits) (metis snd_conv)

lemma quiet_seq [rprog_rules]: "quiet m \<Longrightarrow> quiet k \<Longrightarrow> quiet (rseq m k)"
  unfolding rseq_def by (rule quiet_bind)

lemma quiet_if [rprog_rules]: "(c \<Longrightarrow> quiet m) \<Longrightarrow> (\<not> c \<Longrightarrow> quiet k) \<Longrightarrow> quiet (if c then m else k)"
  by simp

lemma quiet_lift [rprog_rules]: "quiet (lift_prog (exists p))" "quiet (lift_prog (bind (read_text p) (\<lambda>t. from_sum (f t))))"
  by (auto simp: quiet_def lift_prog_def exists_def prog_simps read_text_def from_sum_def split: prod.splits sum.splits option.splits node.splits)

lemma same_basic [rprog_rules]: "same_reqs (rret x)" "same_reqs (rraise e)" "same_reqs (rsum v)" "same_reqs (lift_prog p)"
  by (simp_all add: same_reqs_def rret_def rraise_def rsum_def lift_prog_def split: prod.splits)

lemma same_bind [rprog_rules]: "same_reqs m \<Longrightarrow> (\<And>x. same_reqs (k x)) \<Longrightarrow> same_reqs (rbind m k)"
  by (simp add: same_reqs_def rbind_def split: prod.splits sum.splits) (metis fst_conv snd_conv)

lemma same_seq [rprog_rules]: "same_reqs m \<Longrightarrow> same_reqs k \<Longrightarrow> same_reqs (rseq m k)"
  unfolding rseq_def by (rule same_bind)

lemma same_when [rprog_rules]: "same_reqs m \<Longrightarrow> same_reqs (rwhen c m)"
  by (simp add: rwhen_def same_basic)

lemma quiet_option [rprog_rules]: "quiet n \<Longrightarrow> (\<And>x. quiet (f x)) \<Longrightarrow> quiet (case v of None \<Rightarrow> n | Some x \<Rightarrow> f x)"
  by (cases v) auto

lemma quiet_load [rprog_rules]: "quiet (load_pyproject b)"
  unfolding load_pyproject_def by (intro rprog_rules)

lemma quiet_extend [rprog_rules]: "quiet (extend_json b source extra j)"
  unfolding extend_json_def Let_def by (intro rprog_rules)

lemma checked:
  \<comment> \<open>after a check that nothing follows but what leaves the requirements alone\<close>
  assumes "rseq check k (s, w) = (r, s', w')" "same_reqs k" "missing_requirements s'"
  shows "r = Inl EndPass \<and> w' = w"
proof (cases "missing_requirements s")
  case True
  with assms(1) show ?thesis by (simp add: rseq_def rbind_def check_def rgets_def rsum_def check_requirements_def)
next
  case False
  with assms(1) have "k (s, w) = (r, s', w')" by (simp add: rseq_def rbind_def check_def rgets_def rsum_def check_requirements_def)
  with assms(2) have "s' = s" unfolding same_reqs_def by (metis fst_conv snd_conv)
  with False assms(3) show ?thesis by simp
qed

definition waits :: "'a rprog \<Rightarrow> bool" where
  \<comment> \<open>whatever ends with a missing requirement has raised and asked nothing\<close>
  "waits m \<longleftrightarrow> (\<forall>s w r s' w'. m (s, w) = (r, s', w') \<and> missing_requirements s' \<longrightarrow> trace w' = trace w \<and> (\<exists>e. r = Inl e))"

lemma waits_check: "same_reqs k \<Longrightarrow> waits (rseq check k)"
  unfolding waits_def by (metis checked)

lemma waits_bind:
  assumes "quiet m" "\<And>x. waits (k x)"
  shows "waits (rbind m k)"
  unfolding waits_def
proof (intro allI impI, elim conjE)
  fix s w r s' w' assume run: "rbind m k (s, w) = (r, s', w')" and missing: "missing_requirements s'"
  obtain r1 s1 w1 where m: "m (s, w) = (r1, s1, w1)" by (metis prod_cases3)
  with assms(1) have t: "trace w1 = trace w" unfolding quiet_def by (metis snd_conv)
  show "trace w' = trace w \<and> (\<exists>e. r = Inl e)"
  proof (cases r1)
    case (Inl e)
    with m run t show ?thesis by (auto simp: rbind_def)
  next
    case (Inr x)
    with m run have "k x (s1, w1) = (r, s', w')" by (simp add: rbind_def)
    with assms(2)[of x] missing t show ?thesis unfolding waits_def by metis
  qed
qed

lemma waits_seq: "quiet m \<Longrightarrow> waits k \<Longrightarrow> waits (rseq m k)"
  unfolding rseq_def by (rule waits_bind)

text \<open>Which questions a program asks only.\<close>

definition asks_only :: "(event \<Rightarrow> bool) \<Rightarrow> 'a rprog \<Rightarrow> bool" where
  "asks_only S m \<longleftrightarrow> (\<forall>s w. \<exists>es. trace (snd (snd (m (s, w)))) = trace w @ es \<and> (\<forall>e \<in> set es. S e))"

named_theorems ask_rules

lemma asksE:
  assumes "asks_only S m" "m (s, w) = (r, s', w')"
  obtains es where "trace w' = trace w @ es" "\<forall>e \<in> set es. S e"
  using assms unfolding asks_only_def by (metis snd_conv)

lemma asks_run: "asks_only S m \<Longrightarrow> m (s, w) = (r, s', w') \<Longrightarrow> \<exists>es. trace w' = trace w @ es \<and> (\<forall>e \<in> set es. S e)"
  by (erule asksE) blast+

lemma asks_quiet: "quiet m \<Longrightarrow> asks_only S m"
  unfolding asks_only_def quiet_def by (metis append_Nil2 empty_iff list.set(1))

lemma asks_basic [ask_rules]:
  "asks_only S (rret x)" "asks_only S (rraise e)" "asks_only S (rsum v)" "asks_only S (rgets f)" "asks_only S (rmodify g)" "asks_only S (on_reqs k)"
  by (rule asks_quiet, rule quiet_basic)+

lemma rbind_cases:
  assumes "rbind m k (s, w) = (r, s', w')"
  obtains (stop) e where "m (s, w) = (Inl e, s', w')" "r = Inl e" | (go) x s1 w1 where "m (s, w) = (Inr x, s1, w1)" "k x (s1, w1) = (r, s', w')"
proof -
  obtain q s1 w1 where "m (s, w) = (q, s1, w1)" by (metis prod_cases3)
  with assms that show thesis by (cases q) (auto simp: rbind_def)
qed

lemma asks_bind [ask_rules]:
  assumes "asks_only S m" "\<And>x. asks_only S (k x)"
  shows "asks_only S (rbind m k)"
  unfolding asks_only_def
proof (intro allI)
  fix s w
  obtain r s' w' where run: "rbind m k (s, w) = (r, s', w')" by (metis prod_cases3)
  then have "\<exists>es. trace w' = trace w @ es \<and> (\<forall>e \<in> set es. S e)"
  proof (cases rule: rbind_cases)
    case (stop e)
    from assms(1) stop(1) show ?thesis by (rule asksE) blast
  next
    case (go x s1 w1)
    from assms(1) go(1) obtain es where "trace w1 = trace w @ es" "\<forall>e \<in> set es. S e" by (rule asksE)
    moreover from assms(2) go(2) obtain fs where "trace w' = trace w1 @ fs" "\<forall>e \<in> set fs. S e" by (rule asksE)
    ultimately show ?thesis by (intro exI[of _ "es @ fs"]) auto
  qed
  with run show "\<exists>es. trace (snd (snd (rbind m k (s, w)))) = trace w @ es \<and> (\<forall>e \<in> set es. S e)" by simp
qed

lemma asks_seq [ask_rules]: "asks_only S m \<Longrightarrow> asks_only S k \<Longrightarrow> asks_only S (rseq m k)"
  unfolding rseq_def by (rule asks_bind)

lemma asks_if [ask_rules]: "(c \<Longrightarrow> asks_only S m) \<Longrightarrow> (\<not> c \<Longrightarrow> asks_only S k) \<Longrightarrow> asks_only S (if c then m else k)"
  by simp

lemma asks_when [ask_rules]: "(c \<Longrightarrow> asks_only S m) \<Longrightarrow> asks_only S (rwhen c m)"
  by (simp add: rwhen_def asks_basic)

lemma asks_option [ask_rules]: "asks_only S n \<Longrightarrow> (\<And>x. asks_only S (f x)) \<Longrightarrow> asks_only S (case v of None \<Rightarrow> n | Some x \<Rightarrow> f x)"
  by (cases v) auto

lemma asks_list [ask_rules]: "asks_only S n \<Longrightarrow> (\<And>x xs. asks_only S (f x xs)) \<Longrightarrow> asks_only S (case v of [] \<Rightarrow> n | x # xs \<Rightarrow> f x xs)"
  by (cases v) auto

lemma asks_prod [ask_rules]: "(\<And>x y. asks_only S (f x y)) \<Longrightarrow> asks_only S (case v of (x, y) \<Rightarrow> f x y)"
  by (cases v) auto

lemma asks_forM [ask_rules]: "(\<And>x. asks_only S (f x)) \<Longrightarrow> asks_only S (rforM f xs)"
  by (induction xs) (simp_all add: asks_basic asks_seq)

lemma asks_lift [ask_rules]: "runs_in S (\<lambda>_. True) m \<Longrightarrow> asks_only S (lift_prog m)"
  unfolding asks_only_def lift_prog_def runs_in_def by (simp add: case_prod_unfold)

lemma asks_lib [ask_rules]: "S (Lib f args) \<Longrightarrow> asks_only S (ask_lib h f args)"
  unfolding ask_lib_def by (intro ask_rules run_rules) (auto split: reply.splits intro!: run_rules)

lemma asks_add [ask_rules]: "asks_only S (add_text b source t)" "asks_only S (extend_json b source extra j)" "asks_only S check" "asks_only S (load_pyproject b)"
  unfolding check_def add_text_def by (intro ask_rules asks_quiet[OF quiet_extend] asks_quiet[OF quiet_load])+

lemma files_text [run_rules]: "runs_in S (\<lambda>_. True) (convert_requirements_txt ls p)"
proof -
  have any [simp]: "file_errors (\<lambda>_. True)" by (simp add: file_errors_def)
  have "runs_in S (\<lambda>_. True) (convert_txt n p ls)" for n p ls
  proof (induction n arbitrary: p ls)
    case (Suc n)
    have "runs_in S (\<lambda>_. True) (convert_line (convert_txt n) p l)" for l
      unfolding convert_line_def Let_def by (intro run_rules Suc) simp_all
    then show ?case by (simp del: bind_ret) (intro run_rules)
  qed (simp add: run_raise)
  then show ?thesis unfolding convert_requirements_txt_def by (intro run_rules)
qed

definition files_stage :: "build_env \<Rightarrow> br_args \<Rightarrow> unit rprog" where
  \<comment> \<open>the requirements files, which come first\<close>
  "files_stage b a = rwhen (requirement_files a \<noteq> []) (rseq (rforM (requirements_file b) (requirement_files a)) check)"

definition late_stage :: "build_env \<Rightarrow> host \<Rightarrow> br_args \<Rightarrow> backend option \<Rightarrow> unit rprog" where
  \<comment> \<open>what follows the requirements of the backend\<close>
  "late_stage b h a backend = rseq (rwhen (include_runtime a \<or> tox_envs a \<noteq> [])
       (generate_run_requirements b h backend (use_wheel a) (pyproject_deps a) (wheel_dir a)))
     (rbind (if tox_envs a \<noteq> [] then rseq (generate_tox_requirements b h (tox_envs a))
           (rbind (tox_dependency_groups b h (tox_envs a)) (\<lambda>more. rret (dep_groups a @ more))) else rret (dep_groups a)) (\<lambda>groups.
       rseq (rwhen (groups \<noteq> []) (generate_dependency_groups b groups)) (rwhen (include_runtime a) (rbind (rgets check_extras) rsum))))"

lemma quiet_files: "asks_only S (files_stage b a)"
  unfolding files_stage_def requirements_file_def by (intro ask_rules run_rules) (simp_all add: file_errors_def)

definition early :: "event \<Rightarrow> bool" where
  \<comment> \<open>finding the backend and asking it what a wheel needs\<close>
  "early e \<longleftrightarrow> (\<exists>args. e = Lib ''importlib.import_module'' args \<or> e = Lib ''getattr'' args \<or> e = Lib ''get_requires_for_build_wheel'' args \<or>
     (\<exists>m x. e = Lib ''hasattr'' [m, x, ''get_requires_for_build_wheel'']))"

lemma early_questions: "asks_only early (get_backend b h)" "asks_only early (generate_build_requirements b h k)"
  unfolding get_backend_def generate_build_requirements_def hook_there_def call_hook_def Let_def
  by (intro ask_rules run_rules; simp add: early_def)+

abbreviation no_wheel :: "event \<Rightarrow> bool" where
  \<comment> \<open>anything but a program with an environment of its own, as which pip is started\<close>
  "no_wheel e \<equiv> \<forall>env argv cwd. e \<noteq> ProcEnv env argv cwd"

lemma any_error [simp]: "proc_errors (\<lambda>_. True)" "file_errors (\<lambda>_. True)"
  by (simp_all add: proc_errors_def file_errors_def)

lemma asks_temp [ask_rules]:
  fixes body :: "path \<Rightarrow> 'b rprog"
  assumes "\<And>p. asks_only S (body p)"
  shows "asks_only S (with_tempfile n body)"
proof -
  have clean: "asks_only S (rfinally m (\<lambda>s. modify (\<lambda>w. w\<lparr>files := g w\<rparr>)))" if "asks_only S m" for m :: "'b rprog" and g
    using that unfolding asks_only_def rfinally_def by (simp add: case_prod_unfold modify_run)
  show ?thesis unfolding with_tempfile_def Let_def by (intro clean ask_rules run_rules assms)
qed

lemma asks_metadata [ask_rules]: "asks_only S (add_metadata b what content)"
  unfolding add_metadata_def Let_def by (intro ask_rules)

lemma asks_provision [ask_rules]: "asks_only S (lift_prog (provision_of p))" "asks_only S (lift_prog (gets g))"
  unfolding provision_of_def by (auto intro!: ask_rules run_rules runs_in_quiet split: option.splits node.splits)

lemma asks_wheels [ask_rules]: "asks_only S (find_built_wheel d)"
  unfolding find_built_wheel_def by (auto intro!: ask_rules split: list.split)

lemma late_no_wheel: "asks_only no_wheel (generate_run_requirements_hook b h k)" "asks_only no_wheel (generate_run_requirements_pyproject b)"
  "asks_only no_wheel (generate_tox_requirements b h es)" "asks_only no_wheel (tox_dependency_groups b h es)" "asks_only no_wheel (generate_dependency_groups b gs)"
  unfolding generate_run_requirements_hook_def hook_there_def call_hook_def generate_run_requirements_pyproject_def generate_tox_requirements_def
    tox_provision_def tox_extras_def tox_dependency_groups_def generate_dependency_groups_def Let_def
  by (intro ask_rules run_rules; simp)+

definition pip_there :: "build_env \<Rightarrow> reqs \<Rightarrow> world \<Rightarrow> bool" where
  \<comment> \<open>with the requirement on pip added, nothing is missing\<close>
  "pip_there b s w \<longleftrightarrow> (\<exists>s'. add_text b ''%pyproject_buildrequires -w'' ''pip >= 19'' (s, w) = (Inr (), s', w) \<and> \<not> missing_requirements s')"

lemma add_text_world: "add_text b source t (s, w) = (r, s', w') \<Longrightarrow> w' = w"
  by (auto simp: add_text_def on_reqs_def split: prod.splits)

lemma check_run: "check (s, w) = (if missing_requirements s then Inl EndPass else Inr (), s, w)"
  by (simp add: check_def rbind_def rgets_def rsum_def check_requirements_def)

lemma built_wheel_state: "find_built_wheel d (s, w) = (r, s', w') \<Longrightarrow> s' = s \<and> w' = w"
  by (auto simp: find_built_wheel_def rbind_def lift_prog_def gets_def rret_def rraise_def split: prod.splits sum.splits list.splits)

lemma wheel_needs_pip:
  assumes run: "generate_run_requirements_wheel b h d (s, w) = (r, s', w')" and pip: "\<not> pip_there b s w"
  shows "\<exists>es. trace w' = trace w @ es \<and> (\<forall>e \<in> set es. no_wheel e)"
proof -
  let ?read = "\<lambda>path. rbind (ask_lib h ''zipfile.ZipFile'' [path]) (\<lambda>j. rbind (rsum (as_dict j)) (\<lambda>entries.
    case List.find (\<lambda>(n, _). is_metadata_name n) entries of
       Some (_, JStr content) \<Rightarrow> add_metadata b ''built wheel metadata: '' content
     | Some _ \<Rightarrow> rraise UnicodeDecodeError
     | None \<Rightarrow> rraise (RuntimeError ''Could not find *.dist-info/METADATA in built wheel.'')))"
  have read: "asks_only no_wheel (?read path)" for path
    by (intro ask_rules) (auto intro!: ask_rules split: json.split)
  let ?take = "\<lambda>wheel. rbind (case wheel of Some wh \<Rightarrow> rret wh
       | None \<Rightarrow> rraise (RuntimeError ''Cannot locate the built wheel for %pyproject_buildrequires -w.'')) ?read"
  have take: "asks_only no_wheel (?take wheel)" for wheel by (intro ask_rules read)
  let ?build = "rseq (add_text b ''%pyproject_buildrequires -w'' ''pip >= 19'') (rseq check (
      rbind (lift_prog (build_wheel h (sys_executable b) d (config_settings b))) (\<lambda>code.
      if code \<noteq> 0 then rraise (RuntimeError ''Failed to build the wheel for %pyproject_buildrequires -w.'') else find_built_wheel d)))"
  have "rbind (find_built_wheel d) (\<lambda>first. rbind (case first of Some wh \<Rightarrow> rret (Some wh) | None \<Rightarrow> ?build) ?take) (s, w) = (r, s', w')"
    using run unfolding generate_run_requirements_wheel_def .
  then show ?thesis
  proof (cases rule: rbind_cases)
    case (stop e)
    then show ?thesis using built_wheel_state by fastforce
  next
    case (go first s1 w1)
    have s1: "s1 = s" "w1 = w" using built_wheel_state[OF go(1)] by simp_all
    show ?thesis
    proof (cases first)
      case (Some wh)
      with go(2) have go2: "rbind (rret (Some wh)) ?take (s, w) = (r, s', w')" by (simp add: s1)
      have "asks_only no_wheel (rbind (rret (Some wh)) ?take)" by (intro ask_rules take)
      from this go2 show ?thesis by (rule asks_run)
    next
      case None
      obtain q s2 where add: "add_text b ''%pyproject_buildrequires -w'' ''pip >= 19'' (s, w) = (q, s2, w)"
        by (metis add_text_world prod_cases3)
      have "\<exists>e. ?build (s, w) = (Inl e, s2, w)"
        using add pip by (cases q) (auto simp: rseq_def rbind_def check_run pip_there_def)
      with go(2) None have "w' = w" by (auto simp: s1 rbind_def)
      then show ?thesis by simp
    qed
  qed
qed

lemma late_needs_pip:
  assumes run: "late_stage b h a backend (s, w) = (r, s', w')" and pip: "\<not> pip_there b s w"
  shows "\<exists>es. trace w' = trace w @ es \<and> (\<forall>e \<in> set es. no_wheel e)"
proof -
  let ?gather = "rwhen (include_runtime a \<or> tox_envs a \<noteq> []) (generate_run_requirements b h backend (use_wheel a) (pyproject_deps a) (wheel_dir a))"
  have gather: "\<exists>es. trace w1 = trace w @ es \<and> (\<forall>e \<in> set es. no_wheel e)" if g: "?gather (s, w) = (q, s1, w1)" for q s1 w1
  proof (cases "(include_runtime a \<or> tox_envs a \<noteq> []) \<and> \<not> pyproject_deps a \<and> use_wheel a")
    case True
    with g wheel_needs_pip[OF _ pip] show ?thesis by (auto simp: rwhen_def generate_run_requirements_def)
  next
    case False
    then have "asks_only no_wheel ?gather"
      unfolding generate_run_requirements_def by (intro ask_rules late_no_wheel) auto
    from this g show ?thesis by (rule asks_run)
  qed
  from run show ?thesis unfolding late_stage_def rseq_def
  proof (cases rule: rbind_cases)
    case (stop e)
    then show ?thesis using gather by blast
  next
    case (go x s1 w1)
    from gather[OF go(1)] obtain es where es: "trace w1 = trace w @ es" "\<forall>e \<in> set es. no_wheel e" by blast
    have "asks_only no_wheel (rbind (if tox_envs a \<noteq> [] then rbind (generate_tox_requirements b h (tox_envs a)) (\<lambda>_.
           (rbind (tox_dependency_groups b h (tox_envs a)) (\<lambda>more. rret (dep_groups a @ more)))) else rret (dep_groups a)) (\<lambda>groups.
       rbind (rwhen (groups \<noteq> []) (generate_dependency_groups b groups)) (\<lambda>_. (rwhen (include_runtime a) (rbind (rgets check_extras) rsum)))))"
      by (intro ask_rules late_no_wheel)
    from this go(2) obtain fs where "trace w' = trace w1 @ fs" "\<forall>e \<in> set fs. no_wheel e" by (rule asksE)
    with es show ?thesis by (intro exI[of _ "es @ fs"]) auto
  qed
qed

lemma build_checked:
  assumes "generate_build_requirements b h k (s, w) = (Inr (), s', w')" "\<not> missing_requirements s"
  shows "\<not> missing_requirements s'"
proof -
  have lib: "s1 = s" if "ask_lib h f args (s, w) = (r, s1, w1)" for f args r s w s1 w1
    using that by (auto simp: ask_lib_def lift_prog_def split: prod.splits)
  from assms(1)[unfolded generate_build_requirements_def] show ?thesis
  proof (cases rule: rbind_cases)
    case (go there s1 w1)
    have s1: "s1 = s" using go(1) lib by (auto simp: hook_there_def rret_def elim!: rbind_cases)
    show ?thesis
    proof (cases there)
      case True
      with go(2) have "rbind (call_hook b h k ''get_requires_for_build_wheel'' []) (\<lambda>new_reqs.
        rseq (extend_json b ''get_requires_for_build_wheel'' None new_reqs) check) (s1, w1) = (Inr (), s', w')" by simp
      then obtain s2 w2 where "check (s2, w2) = (Inr (), s', w')" unfolding rseq_def by (elim rbind_cases) auto
      then show ?thesis by (simp add: check_run split: if_splits)
    qed (use go(2) s1 assms(2) in \<open>simp add: rret_def\<close>)
  qed simp
qed

lemma late_asks: "asks_only (\<lambda>_. True) (late_stage b h a backend)"
proof -
  have weak: "asks_only (\<lambda>_. True) m" if "asks_only no_wheel m" for m :: "'c rprog"
    using that unfolding asks_only_def by blast
  have "asks_only (\<lambda>_. True) (generate_run_requirements_wheel b h d)" for d
    unfolding generate_run_requirements_wheel_def build_wheel_def by (intro ask_rules run_rules) (auto intro!: ask_rules split: json.split)
  then show ?thesis
    unfolding late_stage_def generate_run_requirements_def by (intro ask_rules late_no_wheel[THEN weak])
qed

lemma gather_stages:
  "gather_requirements b h a = (if (include_runtime a \<or> tox_envs a \<noteq> [] \<or> pyproject_deps a) \<and> \<not> use_build_system a
     then rraise (ValueError ''-N option cannot be used in combination with -r, -e, -t, -x, -p options'')
     else rbind (files_stage b a) (\<lambda>_. rbind (if use_build_system a then rbind (get_backend b h) (\<lambda>k. rbind (generate_build_requirements b h k) (\<lambda>_. rret (Some k)))
       else rret None) (late_stage b h a)))"
  unfolding gather_requirements_def files_stage_def late_stage_def [abs_def] rseq_def by (rule refl)

definition after_files :: "build_env \<Rightarrow> host \<Rightarrow> br_args \<Rightarrow> reqs \<Rightarrow> world \<Rightarrow> (exn + backend) \<Rightarrow> reqs \<Rightarrow> world \<Rightarrow> bool" where
  \<comment> \<open>how \<open>get_backend\<close> ended, which runs after the requirements files\<close>
  "after_files b h a s w r s' w' \<longleftrightarrow> (\<exists>s0 w0. files_stage b a (s, w) = (Inr (), s0, w0) \<and> get_backend b h (s0, w0) = (r, s', w'))"

definition after_hook :: "build_env \<Rightarrow> host \<Rightarrow> br_args \<Rightarrow> reqs \<Rightarrow> world \<Rightarrow> reqs \<Rightarrow> world \<Rightarrow> bool" where
  \<comment> \<open>where the run is when the backend has said what a wheel needs\<close>
  "after_hook b h a s w s' w' \<longleftrightarrow> (\<exists>k s1 w1. after_files b h a s w (Inr k) s1 w1 \<and> generate_build_requirements b h k (s1, w1) = (Inr (), s', w'))"

lemma backend_found:
  assumes "get_backend b h (s, w) = (r, s', w')"
  shows "\<exists>es. trace w' = trace w @ es \<and> (\<forall>e \<in> set es. early e) \<and> (es \<noteq> [] \<or> \<not> isl r \<longrightarrow> \<not> missing_requirements s')"
proof -
  have "waits (get_backend b h)"
    unfolding get_backend_def Let_def add_text_def ask_lib_def
    by (intro waits_bind waits_seq waits_check rprog_rules)
  with assms have "missing_requirements s' \<longrightarrow> trace w' = trace w \<and> isl r" unfolding waits_def by (metis sum.disc(1))
  moreover from early_questions(1) assms obtain es where "trace w' = trace w @ es" "\<forall>e \<in> set es. early e" by (rule asksE)
  ultimately show ?thesis by auto
qed

lemma no_late: "late_stage b h a backend (s, w) = (r, s', w') \<Longrightarrow> include_runtime a = False \<Longrightarrow> tox_envs a = [] \<Longrightarrow> trace w' = trace w"
proof -
  have "asks_only (\<lambda>_. False) (generate_dependency_groups b gs)" for gs
    unfolding generate_dependency_groups_def by (intro ask_rules)
  then have "asks_only (\<lambda>_. False) (late_stage b h a backend)" if "include_runtime a = False" "tox_envs a = []"
    unfolding late_stage_def using that by (auto intro!: ask_rules)
  then show "late_stage b h a backend (s, w) = (r, s', w') \<Longrightarrow> include_runtime a = False \<Longrightarrow> tox_envs a = [] \<Longrightarrow> trace w' = trace w"
    by (fastforce dest!: asks_run)
qed

definition late_ok :: "build_env \<Rightarrow> host \<Rightarrow> br_args \<Rightarrow> reqs \<Rightarrow> world \<Rightarrow> event \<Rightarrow> bool" where
  \<comment> \<open>the question is an early one, or nothing was missing after the backend was asked, nor pip when it is started\<close>
  "late_ok b h a s w e \<longleftrightarrow> (\<not> early e \<longrightarrow> (\<exists>s2 w2. after_hook b h a s w s2 w2 \<and> \<not> missing_requirements s2)) \<and>
     (\<not> no_wheel e \<longrightarrow> (\<exists>s2 w2. after_hook b h a s w s2 w2 \<and> pip_there b s2 w2))"

lemma early_late_ok: "early e \<Longrightarrow> late_ok b h a s w e"
  by (auto simp: early_def late_ok_def)

lemma backend_used:
  assumes files: "after_files b h a s w (Inr k) s1 w1" and there: "\<not> missing_requirements s1"
    and run: "rbind (rbind (generate_build_requirements b h k) (\<lambda>_. rret (Some k))) (late_stage b h a) (s1, w1) = (r, s', w')"
  shows "\<exists>es. trace w' = trace w1 @ es \<and> (\<forall>e \<in> set es. late_ok b h a s w e)"
proof -
  obtain q s2 w2 where asked: "generate_build_requirements b h k (s1, w1) = (q, s2, w2)" by (metis prod_cases3)
  from early_questions(2) asked obtain es where es: "trace w2 = trace w1 @ es" "\<forall>e \<in> set es. early e" by (rule asksE)
  then have early_ok: "\<forall>e \<in> set es. late_ok b h a s w e" using early_late_ok by blast
  show ?thesis
  proof (cases q)
    case (Inl e)
    with run asked have "w' = w2" by (simp add: rbind_def)
    with early_ok es(1) show ?thesis by blast
  next
    case (Inr u)
    have late: "late_stage b h a (Some k) (s2, w2) = (r, s', w')" using run asked Inr by (simp add: rbind_def rret_def)
    have hook: "after_hook b h a s w s2 w2" unfolding after_hook_def using files asked Inr by (intro exI[of _ k] exI[of _ s1] exI[of _ w1]) simp
    have "\<not> missing_requirements s2" using build_checked[OF _ there] asked Inr by simp
    moreover obtain fs where fs: "trace w' = trace w2 @ fs" "\<forall>e \<in> set fs. \<not> no_wheel e \<longrightarrow> pip_there b s2 w2"
      using late_needs_pip[OF late] asks_run[OF late_asks late] by (cases "pip_there b s2 w2") blast+
    ultimately have "\<forall>e \<in> set fs. late_ok b h a s w e" using hook unfolding late_ok_def by blast
    with early_ok es(1) fs(1) show ?thesis by (intro exI[of _ "es @ fs"]) auto
  qed
qed

text \<open>C25: No code of a build backend runs while a build requirement is missing. In a run of the gathering, the first question of any kind is only
  asked when the requirements of the files and of \<open>build-system.requires\<close> were all there: \<open>get_backend\<close> ended with none missing. A question
  other than importing the backend and asking it what a wheel needs (so its metadata hook, a wheel build, a tox run) is only asked when
  in addition nothing is missing of what the backend named. And pip is only started to build a wheel when pip itself is there too.
  Otherwise the run ends before.\<close>

theorem backend_waits:
  assumes "gather_requirements b h a (s, w) = (r, s', w')"
  shows "\<exists>es. trace w' = trace w @ es \<and> (\<forall>e \<in> set es. late_ok b h a s w e) \<and>
    (es \<noteq> [] \<longrightarrow> (\<exists>q s1 w1. after_files b h a s w q s1 w1 \<and> \<not> missing_requirements s1))"
proof (cases "(include_runtime a \<or> tox_envs a \<noteq> [] \<or> pyproject_deps a) \<and> \<not> use_build_system a")
  case True
  with assms show ?thesis by (simp add: gather_stages rraise_def)
next
  case False
  with assms have "rbind (files_stage b a) (\<lambda>_. rbind (if use_build_system a then rbind (get_backend b h) (\<lambda>k. rbind (generate_build_requirements b h k) (\<lambda>_. rret (Some k)))
     else rret None) (late_stage b h a)) (s, w) = (r, s', w')" by (simp only: gather_stages if_False)
  then show ?thesis
  proof (cases rule: rbind_cases)
    case (stop e)
    with asks_run[OF quiet_files[where S = "\<lambda>_. False"] stop(1)] show ?thesis by simp
  next
    case (go x s0 w0)
    have w0: "trace w0 = trace w" using asks_run[OF quiet_files[where S = "\<lambda>_. False"] go(1)] by simp
    show ?thesis
    proof (cases "use_build_system a")
      case off: False
      then have "late_stage b h a None (s0, w0) = (r, s', w')" using go(2) by (simp add: rbind_def rret_def)
      with no_late[OF this] off False w0 show ?thesis by simp
    next
      case True
      obtain q s1 w1 where got: "get_backend b h (s0, w0) = (q, s1, w1)" by (metis prod_cases3)
      then have files: "after_files b h a s w q s1 w1" using go(1) by (auto simp: after_files_def)
      from backend_found[OF got] w0 obtain es where es: "trace w1 = trace w @ es" "\<forall>e \<in> set es. late_ok b h a s w e"
        "es \<noteq> [] \<or> \<not> isl q \<longrightarrow> \<not> missing_requirements s1" using early_late_ok by fastforce
      show ?thesis
      proof (cases q)
        case (Inl e)
        with go(2) got True have "w' = w1" by (simp add: rbind_def)
        with es files show ?thesis by blast
      next
        case (Inr k)
        with es(3) have there: "\<not> missing_requirements s1" by simp
        have "rbind (rbind (generate_build_requirements b h k) (\<lambda>_. rret (Some k))) (late_stage b h a) (s1, w1) = (r, s', w')"
          using go(2) got Inr True by (simp add: rbind_def)
        from backend_used[OF files[unfolded Inr] there this] obtain fs where "trace w' = trace w1 @ fs" "\<forall>e \<in> set fs. late_ok b h a s w e" by blast
        with es files there show ?thesis by (intro exI[of _ "es @ fs"]) auto
      qed
    qed
  qed
qed

definition small_build :: build_env where
  "small_build = \<lparr>rq = small_env, toml_loads = (\<lambda>_. Inr [(''build-system'', JObj [(''requires'', JList [JStr ''me[x]'']), (''build-backend'', JStr ''odd'')])]),
     sys_executable = ''python3'', config_settings = []\<rparr>"

definition small_args :: br_args where
  "small_args = \<lparr>include_runtime = True, use_wheel = False, wheel_dir = [], tox_envs = [], br_extras = [], dep_groups = [],
     requirement_files = [], use_build_system = True, pyproject_deps = False, output_file = [''out'']\<rparr>"

theorem backend_waits_witness:
  "let w = blank\<lparr>files := [([''pyproject.toml''], FileN [])]\<rparr>;
       out = gather_requirements small_build (\<lambda>_ _ f. (Answer JNull, f)) small_args (new_requirements small_env [], w) in
   missing_requirements (fst (snd out)) \<and> trace (snd (snd out)) = []"
proof -
  let ?w = "blank\<lparr>files := [([''pyproject.toml''], FileN [])]\<rparr>"
  let ?h = "\<lambda>_ _ f. (Answer JNull, f)"
  let ?s = "new_requirements small_env []"
  let ?out = "gather_requirements small_build ?h small_args (?s, ?w)"
  obtain r s' w' where out: "?out = (r, s', w')" by (metis prod_cases3)
  have missing: "missing_requirements (fst (snd ?out))" "missing_requirements (fst (snd (get_backend small_build ?h (?s, ?w))))" by code_simp+
  have "after_files small_build ?h small_args ?s ?w q s1 w1 \<Longrightarrow> get_backend small_build ?h (?s, ?w) = (q, s1, w1)" for q s1 w1
    by (simp add: after_files_def files_stage_def rwhen_def rret_def small_args_def)
  with missing(2) have "\<not> missing_requirements s1 \<Longrightarrow> \<not> after_files small_build ?h small_args ?s ?w q s1 w1" for q s1 w1 by fastforce
  with backend_waits[OF out] have "trace w' = trace ?w" by auto
  with missing(1) out show ?thesis by (simp add: Let_def)
qed

text \<open>The output is written however gathering ends, and only the early end of a pass is no error.\<close>

lemma output_written:
  assumes "gather_requirements b h a (new_requirements (rq b) (br_extras a), w) = (r, s, w')"
  shows "map_of (files (snd (generate_requires b h a w))) (output_file a) = Some (FileN (output_text s))"
    "fst (generate_requires b h a w) = (if r = Inl EndPass then Inr () else r)"
proof -
  have run: "rfinally (gather_requirements b h a) (\<lambda>s. write_text (output_file a) (output_text s)) (new_requirements (rq b) (br_extras a), w) =
    (r, s, w'\<lparr>files := fs_write (output_file a) (FileN (output_text s)) (files w')\<rparr>)"
    using assms by (simp add: rfinally_def write_text_def write_node_def modify_def)
  show "map_of (files (snd (generate_requires b h a w))) (output_file a) = Some (FileN (output_text s))"
    "fst (generate_requires b h a w) = (if r = Inl EndPass then Inr () else r)"
    unfolding generate_requires_def run by (cases r; auto split: exn.split)+
qed

end
