(* ===== verification/Pyproject_Patch.thy ===== *)
theory Pyproject_Patch
  imports Pyproject_Requirements Pyproject_Txt
begin

section \<open>Before and after an installation\<close>

text \<open>
  Two more scripts of \<open>rpms/pyproject-rpm-macros\<close>: \<open>pyproject_preprocess_record.py\<close>, which turns the \<open>RECORD\<close> of an installation into
  the document that \<open>pyproject_save_files.py\<close> reads, and \<open>pyproject_patch_metadata.py\<close>, which applies dependency overrides to the
  metadata of a wheel. How \<open>packaging\<close> prints a requirement is a parameter.
\<close>

subsection \<open>Reading a record\<close>

datatype csv_state = Start_Record | Start_Field | In_Field | In_Quoted | Quote_In_Quoted

record csv =
  csv_st :: csv_state
  csv_field :: string
  csv_row :: "string list"
  csv_rows :: "string list list"

definition end_field :: "csv \<Rightarrow> csv" where
  "end_field c = c\<lparr>csv_field := [], csv_row := csv_row c @ [csv_field c]\<rparr>"

definition end_row :: "csv \<Rightarrow> csv" where
  "end_row c = c\<lparr>csv_st := Start_Record, csv_row := [], csv_rows := csv_rows c @ [csv_row c]\<rparr>"

definition csv_step :: "char \<Rightarrow> csv \<Rightarrow> csv" where
  \<comment> \<open>\<open>csv.reader\<close> with a comma and double quotes\<close>
  "csv_step x c = (case csv_st c of
       In_Quoted \<Rightarrow> if x = CHR 0x22 then c\<lparr>csv_st := Quote_In_Quoted\<rparr> else c\<lparr>csv_field := csv_field c @ [x]\<rparr>
     | st \<Rightarrow> if x = CHR 0x22 \<and> st = Quote_In_Quoted then c\<lparr>csv_st := In_Quoted, csv_field := csv_field c @ [x]\<rparr>
         else if x = CHR 0x22 \<and> st \<noteq> In_Field then c\<lparr>csv_st := In_Quoted\<rparr>
         else if x = nl then (if st = Start_Record then end_row c else end_row (end_field c))
         else if x = CHR '','' then (end_field c)\<lparr>csv_st := Start_Field\<rparr>
         else c\<lparr>csv_st := In_Field, csv_field := csv_field c @ [x]\<rparr>)"

definition read_record :: "string \<Rightarrow> string list list" where
  \<comment> \<open>of a text whose lines end in line feeds\<close>
  "read_record s = (let c = fold csv_step s \<lparr>csv_st = Start_Record, csv_field = [], csv_row = [], csv_rows = []\<rparr> in
     csv_rows (if csv_st c = Start_Record then c else end_row (end_field c)))"

definition norm_step :: "string \<Rightarrow> parts \<Rightarrow> parts" where
  "norm_step p acc = (if p \<noteq> ''..'' then acc @ [p]
     else if acc = [] \<or> last acc = ''..'' then acc @ [p] else if length acc = 1 \<and> is_anchor (hd acc) then acc else butlast acc)"

definition normpath :: "parts \<Rightarrow> parts" where
  "normpath p = fold norm_step p []"

definition join_path :: "parts \<Rightarrow> parts \<Rightarrow> parts" where
  \<comment> \<open>\<open>d / p\<close>\<close>
  "join_path d p = (if absolute p then p else d @ p)"

definition parse_record :: "parts \<Rightarrow> string list list \<Rightarrow> exn + string list" where
  "parse_record record_path content = (let sitedir = pparent (pparent record_path) in
     concat_sum (\<lambda>row. case row of [] \<Rightarrow> Inl IndexError | p # _ \<Rightarrow> Inr [path_string (normpath (join_path sitedir (parse_path p)))]) content)"

definition save_parsed_record :: "parts \<Rightarrow> string list \<Rightarrow> path \<Rightarrow> unit prog" where
  "save_parsed_record record_path parsed out = (bind (is_file out) (\<lambda>there.
    bind (if there then bind (json_load out) (\<lambda>j. from_sum (as_dict j)) else ret []) (\<lambda>content.
    write_node out (JsonN (JObj (dset (path_string record_path) (JList (map JStr parsed)) content))))))"

definition preprocess_main :: "parts \<Rightarrow> parts \<Rightarrow> path \<Rightarrow> unit prog" where
  \<comment> \<open>the build root, the record and the output\<close>
  "preprocess_main buildroot real_record out = (if \<not> under_path buildroot real_record then (raise (ValueError (path_string real_record @ '' is not in the subpath of '' @ path_string buildroot))) else
    let record_path = ''/'' # relative_path buildroot real_record in
    bind (read_text real_record) (\<lambda>s.
    bind (from_sum (parse_record record_path (read_record s))) (\<lambda>parsed.
    save_parsed_record record_path parsed out)))"

subsection \<open>Patching metadata\<close>

definition parse_overrides :: "packaging \<Rightarrow> string list \<Rightarrow> exn + overrides" where
  "parse_overrides p lines = fold_sum (\<lambda>d line. if strip (last (split_on CHR '':'' line)) = ''br_only'' then Inr d
     else map_sum id (\<lambda>(package, action, value).
       dset package ((case dget d package of Some os \<Rightarrow> os | None \<Rightarrow> []) @ [(action, value)]) d) (parse_override_string p line)) [] lines"

definition apply_overrides_to_requirement :: "req_env \<Rightarrow> requirement \<Rightarrow> (string \<times> string option) list \<Rightarrow> exn + requirement option" where
  "apply_overrides_to_requirement e req os = (if list_ex (\<lambda>(action, _). action = ''ignore'') os then Inr None
     else (case apply_overrides_to_specifiers (pk e) (rq_spec req) os of Inl x \<Rightarrow> Inl x
       | Inr specs \<Rightarrow> if specs = [] then Inr (Some (req\<lparr>rq_spec := []\<rparr>))
           else map_sum id (\<lambda>ss. Some (req\<lparr>rq_spec := ss\<rparr>)) (SpecifierSet e (join '','' (map (\<lambda>(op, v). op @ v) specs)))))"

definition patch_line :: "req_env \<Rightarrow> (requirement \<Rightarrow> string) \<Rightarrow> overrides \<Rightarrow> string list \<times> bool \<Rightarrow> string \<Rightarrow> exn + string list \<times> bool" where
  \<comment> \<open>the state is \<open>new_lines\<close> and \<open>patched\<close>\<close>
  "patch_line e show_req os st line = (case st of (new_lines, patched) \<Rightarrow>
     if \<not> startswith line ''Requires-Dist:'' then Inr (new_lines @ [line], patched)
     else (case Requirement e (strip (drop 14 line)) of None \<Rightarrow> Inr (new_lines @ [line], patched)
       | Some req \<Rightarrow> (case dget os (canonicalize_name (pk e) (rq_name req)) of None \<Rightarrow> Inr (new_lines @ [line], patched)
           | Some pkg \<Rightarrow> map_sum id (\<lambda>result. case result of None \<Rightarrow> (new_lines, True)
               | Some r \<Rightarrow> (let new_line = ''Requires-Dist: '' @ show_req r @ [nl] in (new_lines @ [new_line], patched \<or> new_line \<noteq> line)))
               (apply_overrides_to_requirement e req pkg))))"

definition patch_metadata :: "req_env \<Rightarrow> (requirement \<Rightarrow> string) \<Rightarrow> path \<Rightarrow> overrides \<Rightarrow> unit prog" where
  "patch_metadata e show_req p os = (if os = [] then ret () else (bind (read_text p) (\<lambda>s.
    bind (from_sum (fold_sum (patch_line e show_req os) ([], False) (text_lines s))) (\<lambda>(new_lines, patched).
    whenM patched (write_text p (concat new_lines))))))"

definition patch_main :: "req_env \<Rightarrow> (requirement \<Rightarrow> string) \<Rightarrow> path \<Rightarrow> path \<Rightarrow> unit prog" where
  \<comment> \<open>the files of the overrides and of the metadata\<close>
  "patch_main e show_req overrides_file metadata = (bind (catch (bind (read_text overrides_file) (\<lambda>s. ret (Some (words s)))) is_FileNotFoundError (\<lambda>_. ret None)) (\<lambda>lines.
    (case lines of None \<Rightarrow> ret ()
     | Some ls \<Rightarrow> (bind (catch (from_sum (parse_overrides (pk e) ls)) is_ValueError (\<lambda>_. raise (SysExit 1 []))) (\<lambda>os.
       whenM (os \<noteq> []) (patch_metadata e show_req metadata os))))))"

text \<open>Only lines that name an overridden dependency are touched; without such a line the file is not written.\<close>

lemma patch_line_other:
  assumes "patch_line e show_req os (new_lines, patched) line = Inr (new_lines', patched')"
    and "\<And>req. startswith line ''Requires-Dist:'' \<Longrightarrow> Requirement e (strip (drop 14 line)) = Some req \<Longrightarrow>
      dget os (canonicalize_name (pk e) (rq_name req)) = None"
  shows "new_lines' = new_lines @ [line] \<and> patched' = patched"
  using assms by (auto simp: patch_line_def split: if_splits option.splits)

lemma untouched_metadata:
  assumes "\<And>line req. line \<in> set (text_lines s) \<Longrightarrow> startswith line ''Requires-Dist:'' \<Longrightarrow> Requirement e (strip (drop 14 line)) = Some req \<Longrightarrow>
      dget os (canonicalize_name (pk e) (rq_name req)) = None"
    and "map_of (files w) p = Some (FileN s)"
  shows "patch_metadata e show_req p os w = (Inr (), w)"
proof -
  have "fold_sum (patch_line e show_req os) (acc, False) ls = Inr (acc @ ls, False)" if "set ls \<subseteq> set (text_lines s)" for acc ls
    using that
  proof (induction ls arbitrary: acc)
    case (Cons l ls)
    have "patch_line e show_req os (acc, False) l = Inr (acc @ [l], False)"
      using Cons.prems assms(1)[of l] by (auto simp: patch_line_def split: option.splits)
    with Cons show ?case by simp
  qed simp
  from this[of "text_lines s" "[]"] assms(2) show ?thesis
    by (simp add: patch_metadata_def prog_simps read_text_def from_sum_def whenM_def ret_def)
qed

end
