(* ===== verification/Certdata.thy ===== *)
theory Certdata
  imports Py_World
begin

section \<open>The file certdata.txt\<close>

text \<open>
  The package \<open>rpms/ca-certificates\<close> makes the trust store of the distribution: \<open>mergepem2certdata.py\<close> merges certificates into
  Mozilla's \<open>certdata.txt\<close>, \<open>certdata2pem.py\<close> splits the result into files for p11-kit. This theory has the objects of the file and
  how each script reads it. An object is a dictionary; a value is a text, the bytes of an octal block or \<open>None\<close>. The fields of the parser
  are the variables of the scripts; \<open>cd_shared\<close> says that the object appended last holds the very \<open>bytearray\<close> that is still being
  filled, which happens when an empty line stands inside a block. Text is a list of bytes. A label that is no text is a \<open>TypeError\<close> throughout.
\<close>

subsection \<open>Objects\<close>

datatype nss_value = Txt string | Oct string | NoVal

type_synonym nss_object = "(string \<times> nss_value) list"

definition sbind :: "exn + 'a \<Rightarrow> ('a \<Rightarrow> exn + 'b) \<Rightarrow> exn + 'b" where
  "sbind r k = (case r of Inl e \<Rightarrow> Inl e | Inr x \<Rightarrow> k x)"

lemma sbind_simps [simp]: "sbind (Inl e) k = Inl e" "sbind (Inr x) k = k x"
  by (simp_all add: sbind_def)

lemma sbind_Inr: "sbind r k = Inr y \<longleftrightarrow> (\<exists>x. r = Inr x \<and> k x = Inr y)"
  by (simp add: sbind_def split: sum.splits)

lemma fold_sum_append: "fold_sum f s (xs @ ys) = sbind (fold_sum f s xs) (\<lambda>t. fold_sum f t ys)"
  by (induction xs arbitrary: s) (auto split: sum.splits)

definition nss_item :: "nss_object \<Rightarrow> string \<Rightarrow> exn + nss_value" where
  \<comment> \<open>\<open>obj[k]\<close>\<close>
  "nss_item ob k = (case dget ob k of Some v \<Rightarrow> Inr v | None \<Rightarrow> Inl (KeyError k))"

definition text_of :: "nss_value \<Rightarrow> exn + string" where
  "text_of v = (case v of Txt s \<Rightarrow> Inr s | Oct _ \<Rightarrow> Inl (TypeError ''bytes'') | NoVal \<Rightarrow> Inl (TypeError ''NoneType''))"

fun find_sum :: "('a \<Rightarrow> exn + bool) \<Rightarrow> 'a list \<Rightarrow> exn + nat option" where
  \<comment> \<open>a loop that stops at the first element with a property, by its index\<close>
  "find_sum p [] = Inr None"
| "find_sum p (x # xs) = (sbind (p x) (\<lambda>b.
  if b then Inr (Some 0) else map_sum id (map_option Suc) (find_sum p xs)))"

definition class_is :: "string \<Rightarrow> nss_object \<Rightarrow> exn + bool" where
  "class_is c ob = map_sum id (\<lambda>v. v = Txt c) (nss_item ob ''CKA_CLASS'')"

abbreviation (input) TRUST :: string where "TRUST \<equiv> ''CKO_NSS_TRUST''"
abbreviation (input) CERTIFICATE :: string where "CERTIFICATE \<equiv> ''CKO_CERTIFICATE''"
abbreviation (input) DELEGATOR :: nss_value where "DELEGATOR \<equiv> Txt ''CKT_NSS_TRUSTED_DELEGATOR''"
abbreviation (input) NOT_TRUSTED :: nss_value where "NOT_TRUSTED \<equiv> Txt ''CKT_NSS_NOT_TRUSTED''"

lemma strip_line: "x \<noteq> [] \<Longrightarrow> \<not> is_ws (hd x) \<Longrightarrow> \<not> is_ws (last x) \<Longrightarrow> strip (x @ [nl]) = x"
proof -
  assume a: "x \<noteq> []" "\<not> is_ws (hd x)" "\<not> is_ws (last x)"
  then have "dropWhile is_ws (x @ [nl]) = x @ [nl]" by (cases x) auto
  moreover have "dropWhile is_ws (rev x) = rev x" using a by (cases "rev x") (auto simp: hd_rev[symmetric])
  ultimately show ?thesis by (simp add: strip_def lstrip_def rstrip_def is_ws_def)
qed

subsection \<open>Output\<close>

fun pieces :: "(exn + string) list \<Rightarrow> string \<times> exn option" where
  \<comment> \<open>what a sequence of writes leaves in the file, and the error that ended it\<close>
  "pieces [] = ([], None)"
| "pieces (Inl x # ps) = ([], Some x)"
| "pieces (Inr s # ps) = (case pieces ps of (t, x) \<Rightarrow> (s @ t, x))"

definition write_pieces :: "path \<Rightarrow> (exn + string) list \<Rightarrow> unit prog" where
  "write_pieces p ps = (case pieces ps of (s, x) \<Rightarrow> (seq (write_text p s) (
    (case x of None \<Rightarrow> ret () | Some err \<Rightarrow> raise err))))"

subsection \<open>Lines\<close>

record certdata =
  cd_data :: bool
  cd_multi :: bool
  cd_inobj :: bool
  cd_field :: string
  cd_type :: string
  cd_value :: nss_value
  cd_bin :: string
  cd_obj :: nss_object
  cd_objects :: "nss_object list"
  cd_shared :: bool

definition octal_digit :: "char \<Rightarrow> bool" where
  "octal_digit c = (let n = (of_char c :: nat) in 48 \<le> n \<and> n \<le> 55)"

fun octals :: "string \<Rightarrow> string" where
  \<comment> \<open>the bytes of \<open>re.finditer(r'\\([0-3][0-7][0-7])', line)\<close>\<close>
  "octals (x # a # b # c # s) = (if x = CHR 0x5C \<and> octal_digit a \<and> digit_val a \<le> 3 \<and> octal_digit b \<and> octal_digit c
     then char_of (digit_val a * 64 + digit_val b * 8 + digit_val c) # octals s else octals (a # b # c # s))"
| "octals _ = []"

definition split2 :: "string \<Rightarrow> string list" where
  \<comment> \<open>\<open>s.split(' ', 2)\<close>\<close>
  "split2 s = (case split_on CHR '' '' s of a # b # c # r \<Rightarrow> [a, b, join '' '' (c # r)] | ps \<Rightarrow> ps)"

definition value_line :: "string \<Rightarrow> 'm certdata_scheme \<Rightarrow> exn + 'm certdata_scheme" where
  \<comment> \<open>a line of a block\<close>
  "value_line l st = (if startswith l ''END'' then Inr (st\<lparr>cd_multi := False, cd_shared := False\<rparr>)
     else if cd_type st = ''MULTILINE_OCTAL'' then
       (let b = cd_bin st @ octals (strip l); objs = cd_objects st in
        Inr (st\<lparr>cd_bin := b, cd_obj := dset (cd_field st) (Oct b) (cd_obj st),
          cd_objects := (if cd_shared st then butlast objs @ [dset (cd_field st) (Oct b) (last objs)] else objs)\<rparr>))
     else (sbind (text_of (cd_value st)) (\<lambda>v.
       Inr (st\<lparr>cd_value := Txt (v @ l), cd_obj := dset (cd_field st) (Txt (v @ l)) (cd_obj st)\<rparr>))))"

definition attribute_line :: "string \<Rightarrow> 'm certdata_scheme \<Rightarrow> exn + 'm certdata_scheme" where
  \<comment> \<open>name, type and value\<close>
  "attribute_line l st = (let assign = (\<lambda>f t v. if t = ''MULTILINE_OCTAL''
       then st\<lparr>cd_field := f, cd_type := t, cd_multi := True, cd_value := Txt [], cd_bin := []\<rparr>
       else st\<lparr>cd_field := f, cd_type := t, cd_value := v, cd_obj := dset f v (cd_obj st)\<rparr>) in
     (case split2 (strip l) of [f, t, v] \<Rightarrow> Inr (assign f t (Txt v)) | [f, t] \<Rightarrow> Inr (assign f t NoVal)
      | _ \<Rightarrow> Inl (NotImplementedError (''line_parts < 2 not supported.'' @ [nl] @ l))))"

definition holds_value :: "'m certdata_scheme \<Rightarrow> bool" where
  \<comment> \<open>the object under construction has the block being read as a value\<close>
  "holds_value st = (cd_multi st \<and> dget (cd_obj st) (cd_field st) = Some (Oct (cd_bin st)))"

subsection \<open>How certdata2pem.py reads it\<close>

definition certdata_start :: certdata where
  "certdata_start = \<lparr>cd_data = False, cd_multi = False, cd_inobj = False, cd_field = [], cd_type = [], cd_value = NoVal, cd_bin = [],
     cd_obj = [], cd_objects = [], cd_shared = False\<rparr>"

definition certdata_line :: "certdata \<Rightarrow> string \<Rightarrow> exn + certdata" where
  "certdata_line st l = (if \<not> cd_data st then Inr (if startswith l ''BEGINDATA'' then st\<lparr>cd_data := True\<rparr> else st)
     else if startswith l ''#'' then Inr st
     else if strip l = [] then Inr (if cd_inobj st
       then st\<lparr>cd_objects := cd_objects st @ [cd_obj st], cd_obj := [], cd_inobj := False, cd_shared := holds_value st\<rparr> else st)
     else if cd_multi st then value_line l st
     else attribute_line l (if startswith l ''CKA_CLASS'' then st\<lparr>cd_inobj := True\<rparr> else st))"

definition parse_certdata :: "string \<Rightarrow> exn + nss_object list" where
  "parse_certdata s = (sbind (fold_sum certdata_line certdata_start (text_lines s)) (\<lambda>st.
    Inr (if cd_obj st \<noteq> [] then cd_objects st @ [cd_obj st] else cd_objects st)))"

subsection \<open>How mergepem2certdata.py reads it\<close>

text \<open>It also keeps the header and the comments, and makes the labels of each class distinct (\<open>addObj\<close>).\<close>

record merge_input = certdata +
  mi_header :: string
  mi_comment :: string

definition stripQuotes :: "string \<Rightarrow> exn + string" where
  "stripQuotes label = (let l = (if take 1 label = [CHR 0x22] then tl label else label) in
     if l = [] then Inl IndexError else Inr (if last l = CHR 0x22 then butlast l else l))"

definition same_label :: "nss_object \<Rightarrow> nss_object \<Rightarrow> exn + bool" where
  "same_label ob iob = (sbind (nss_item ob ''CKA_CLASS'') (\<lambda>c.
    sbind (nss_item iob ''CKA_CLASS'') (\<lambda>ic.
    if c \<noteq> ic then Inr False else (sbind (nss_item ob ''CKA_LABEL'') (\<lambda>l.
      map_sum id (\<lambda>il. l = il) (nss_item iob ''CKA_LABEL''))))))"

definition labelExists :: "nss_object list \<Rightarrow> nss_object \<Rightarrow> exn + bool" where
  "labelExists objs ob = map_sum id (\<lambda>i. i \<noteq> None) (find_sum (same_label ob) objs)"

definition numbered :: "string \<Rightarrow> nat \<Rightarrow> string" where
  "numbered label n = [CHR 0x22] @ label @ (if n \<noteq> 0 then '' '' @ show_nat n else []) @ [CHR 0x22]"

text \<open>The loop for a fresh label ends, because the candidates differ and only finitely many are taken.\<close>

definition taken :: "nss_object list \<Rightarrow> nss_object \<Rightarrow> string \<Rightarrow> nat \<Rightarrow> nat set" where
  "taken objs ob label n = {k. n \<le> k \<and> labelExists objs (dset ''CKA_LABEL'' (Txt (numbered label k)) ob) = Inr True}"

lemma numbered_inject [simp]: "numbered label m = numbered label n \<longleftrightarrow> m = n"
  by (auto simp: numbered_def)

lemma find_sum_Some: "find_sum p xs = Inr (Some i) \<Longrightarrow> i < length xs \<and> p (xs ! i) = Inr True"
proof (induction xs arbitrary: i)
  case (Cons x xs)
  then show ?case by (cases i) (auto simp: sbind_Inr map_sum_Inr split: if_splits dest: sym[of "Some _"])
qed simp

lemma find_sum_None: "find_sum p xs = Inr None \<longleftrightarrow> (\<forall>x \<in> set xs. p x = Inr False)"
  by (induction xs) (auto simp: sbind_Inr map_sum_Inr split: if_splits)

lemma nss_item_Inr: "nss_item ob k = Inr v \<longleftrightarrow> dget ob k = Some v"
  by (simp add: nss_item_def split: option.splits)

lemma labelExists_True: "labelExists objs ob = Inr True \<Longrightarrow> \<exists>i \<in> set objs. dget i ''CKA_LABEL'' = dget ob ''CKA_LABEL'' \<and> dget i ''CKA_CLASS'' = dget ob ''CKA_CLASS''"
  unfolding labelExists_def map_sum_Inr
  by (fastforce dest!: find_sum_Some simp: same_label_def sbind_Inr map_sum_Inr nss_item_Inr split: if_splits)

lemma labelExists_False:
  "labelExists objs ob = Inr False \<longleftrightarrow> (\<forall>i \<in> set objs. same_label ob i = Inr False)"
  by (auto simp: labelExists_def map_sum_Inr find_sum_None)

lemma finite_taken [simp]: "finite (taken objs ob label n)"
proof -
  have "(\<lambda>k. Some (Txt (numbered label k))) ` taken objs ob label n \<subseteq> (\<lambda>i. dget i ''CKA_LABEL'') ` set objs"
    by (auto simp: taken_def update_conv dest!: labelExists_True intro!: rev_image_eqI)
  moreover have "inj (\<lambda>k. Some (Txt (numbered label k)))" by (auto intro: injI)
  ultimately show ?thesis by (meson finite_imageD finite_imageI finite_set finite_subset inj_on_subset subset_UNIV)
qed

function (sequential) fresh_label :: "nss_object list \<Rightarrow> nss_object \<Rightarrow> string \<Rightarrow> nat \<Rightarrow> exn + nss_object" where
  "fresh_label objs ob label n = (case labelExists objs ob of Inl e \<Rightarrow> Inl e | Inr b \<Rightarrow>
     if b then fresh_label objs (dset ''CKA_LABEL'' (Txt (numbered label n)) ob) label (n + 1) else Inr ob)"
  by pat_completeness auto
termination
proof (relation "measure (\<lambda>(objs, ob, label, n). card (taken objs ob label n) + (if labelExists objs ob = Inr True then 1 else 0))", goal_cases)
  case (2 objs ob label n b)
  let ?ob = "dset ''CKA_LABEL'' (Txt (numbered label n)) ob"
  have less: "taken objs ?ob label (Suc n) = taken objs ob label n - {n}"
    by (auto simp: taken_def update_last)
  have mem: "n \<in> taken objs ob label n \<longleftrightarrow> labelExists objs ?ob = Inr True" by (simp add: taken_def)
  have "card (taken objs ob label n - {n}) + (if n \<in> taken objs ob label n then 1 else 0) = card (taken objs ob label n)"
    using card.remove[of "taken objs ob label n" n] by simp
  with less mem 2 show ?case by simp
qed simp

declare fresh_label.simps [simp del]

definition addObj :: "nss_object list \<Rightarrow> nss_object \<Rightarrow> string option \<Rightarrow> bool \<Rightarrow> exn + nss_object list \<times> string" where
  \<comment> \<open>the list afterwards and the label\<close>
  "addObj objs ob special drops = (sbind (nss_item ob ''CKA_LABEL'') (\<lambda>v.
    sbind (text_of v) (\<lambda>s.
    sbind (stripQuotes s) (\<lambda>label.
    sbind (labelExists objs ob) (\<lambda>there.
    if there \<and> drops then Inr (objs, ''DROPPED'') else (sbind (case special of None \<Rightarrow> fresh_label objs ob label 1 | Some x \<Rightarrow> fresh_label objs ob (label @ '' '' @ x) 0) (\<lambda>ob'.
      sbind (nss_item ob' ''CKA_LABEL'') (\<lambda>v'.
      sbind (text_of v') (\<lambda>s'.
      sbind (stripQuotes s') (\<lambda>l.
      Inr (objs @ [ob'], l)))))))))))"

text \<open>What is added without a drop has a label that no other object of its class has, and is the object otherwise.\<close>

lemma fresh_label_free: "fresh_label objs ob label n = Inr ob' \<Longrightarrow> labelExists objs ob' = Inr False \<and> (\<forall>k. k \<noteq> ''CKA_LABEL'' \<longrightarrow> dget ob' k = dget ob k)"
proof (induction objs ob label n rule: fresh_label.induct)
  case (1 objs ob label n)
  from "1.prems" obtain b where b: "labelExists objs ob = Inr b" by (auto simp: fresh_label.simps[of objs ob] split: sum.splits)
  show ?case
  proof (cases b)
    case True
    then show ?thesis using "1.IH"[OF b] "1.prems" b by (simp add: fresh_label.simps[of objs ob] update_conv)
  qed (use "1.prems" b in \<open>simp add: fresh_label.simps[of objs ob]\<close>)
qed

lemma addObj_distinct: "addObj objs ob None False = Inr (objs', l) \<Longrightarrow> \<exists>ob'. objs' = objs @ [ob'] \<and> labelExists objs ob' = Inr False"
  by (auto simp: addObj_def sbind_Inr dest: fresh_label_free)

definition merge_line :: "merge_input \<Rightarrow> string \<Rightarrow> exn + merge_input" where
  "merge_line st l = (if \<not> cd_data st then Inr (st\<lparr>mi_header := mi_header st @ l, cd_data := startswith l ''BEGINDATA''\<rparr>)
     else if startswith l ''#'' then Inr (st\<lparr>mi_comment := mi_comment st @ l\<rparr>)
     else if strip l = [] then (if \<not> cd_inobj st then Inr st else (sbind (nss_item (cd_obj st) ''Comment'') (\<lambda>v.
       sbind (text_of v) (\<lambda>c.
       sbind (addObj (cd_objects st) (dset ''Comment'' (Txt (c @ mi_comment st)) (cd_obj st)) None False) (\<lambda>(objs, _).
       Inr (st\<lparr>cd_objects := objs, cd_obj := [], cd_inobj := False, cd_shared := holds_value st, mi_comment := []\<rparr>))))))
     else if cd_multi st then value_line l st
     else attribute_line l (if startswith l ''CKA_CLASS''
       then st\<lparr>cd_inobj := True, cd_obj := dset ''Comment'' (Txt (mi_comment st)) (cd_obj st), mi_comment := []\<rparr> else st))"

definition merge_start :: merge_input where
  "merge_start = certdata.extend certdata_start \<lparr>mi_header = [], mi_comment = []\<rparr>"

definition read_certdata :: "string \<Rightarrow> exn + string \<times> nss_object list" where
  \<comment> \<open>the header and the objects\<close>
  "read_certdata s = (sbind (fold_sum merge_line merge_start (text_lines s)) (\<lambda>st.
    sbind (if cd_obj st \<noteq> [] then addObj (cd_objects st) (cd_obj st) None False else Inr (cd_objects st, [])) (\<lambda>(objs, _).
    Inr (mi_header st, objs))))"

end
