(* ===== verification/Py_Base64.thy ===== *)
theory Py_Base64
  imports Py_Prelude
begin

section \<open>Base 64\<close>

text \<open>
  \<open>base64.b64encode\<close>, \<open>base64.b64decode\<close> as \<open>binascii\<close> reads it outside strict mode (other characters are skipped, padding ends the
  text), and \<open>textwrap.wrap\<close> of a text without spaces and hyphens. \<open>b64_reads_back\<close> is the law the certificate files rest on.
\<close>

definition b64_char :: "nat \<Rightarrow> char" where
  "b64_char n = (if n < 26 then char_of (n + 65) else if n < 52 then char_of (n + 71) else if n < 62 then char_of (n - 4)
     else if n = 62 then CHR ''+'' else CHR ''/'')"

definition b64_val :: "char \<Rightarrow> nat option" where
  "b64_val c = (let n = of_char c in if is_upper c then Some (n - 65) else if is_lower c then Some (n - 71) else if is_digit c then Some (n + 4)
     else if c = CHR ''+'' then Some 62 else if c = CHR ''/'' then Some 63 else None)"

abbreviation byte_of :: "char \<Rightarrow> nat" where "byte_of \<equiv> of_char"

fun b64encode :: "string \<Rightarrow> string" where
  "b64encode (a # b # c # s) = [b64_char (byte_of a div 4), b64_char (byte_of a mod 4 * 16 + byte_of b div 16),
     b64_char (byte_of b mod 16 * 4 + byte_of c div 64), b64_char (byte_of c mod 64)] @ b64encode s"
| "b64encode [a, b] = [b64_char (byte_of a div 4), b64_char (byte_of a mod 4 * 16 + byte_of b div 16), b64_char (byte_of b mod 16 * 4), CHR ''='']"
| "b64encode [a] = [b64_char (byte_of a div 4), b64_char (byte_of a mod 4 * 16), CHR ''='', CHR ''='']"
| "b64encode [] = []"

fun b64_go :: "nat \<Rightarrow> nat \<Rightarrow> nat \<Rightarrow> string \<Rightarrow> string + string" where
  \<comment> \<open>position in the group of four, bits left over, padding seen\<close>
  "b64_go q l p [] = (if q = 0 then Inr [] else Inl (if q = 1 then ''Invalid base64-encoded string'' else ''Incorrect padding''))"
| "b64_go q l p (c # s) = (if c = CHR ''='' then (if 2 \<le> q then (if 4 \<le> q + (p + 1) then Inr [] else b64_go q l (p + 1) s) else b64_go q l p s)
     else (case b64_val c of None \<Rightarrow> b64_go q l p s
       | Some v \<Rightarrow> if q = 0 then b64_go 1 v 0 s
           else if q = 1 then map_sum id ((#) (char_of (l * 4 + v div 16))) (b64_go 2 (v mod 16) 0 s)
           else if q = 2 then map_sum id ((#) (char_of (l * 16 + v div 4))) (b64_go 3 (v mod 4) 0 s)
           else map_sum id ((#) (char_of (l * 64 + v))) (b64_go 0 0 0 s)))"

definition b64decode :: "string \<Rightarrow> string + string" where
  \<comment> \<open>\<open>Inl\<close> is the message of a \<open>binascii.Error\<close>\<close>
  "b64decode s = (if list_ex (\<lambda>c. 128 \<le> byte_of c) s then Inl ''string argument should contain only ASCII characters'' else b64_go 0 0 0 s)"

function wrap64 :: "string \<Rightarrow> string list" where
  "wrap64 s = (if s = [] then [] else take 64 s # wrap64 (drop 64 s))"
  by auto
termination by (relation "measure length") auto

declare wrap64.simps [simp del]

lemma b64_val_char [simp]: "n < 64 \<Longrightarrow> b64_val (b64_char n) = Some n"
by (auto simp: b64_char_def b64_val_def is_upper_def is_lower_def is_digit_def Let_def)

lemma b64_val_pad [simp]: "b64_val CHR ''='' = None"
  by code_simp

lemma b64_char_no_pad [simp]: "n < 64 \<Longrightarrow> b64_char n \<noteq> CHR ''=''"
  by (metis b64_val_char b64_val_pad option.distinct(1))

lemma byte_less [simp]: "byte_of c < 256" "byte_of c div 4 < 64" "byte_of c div 16 < 16" "byte_of c div 64 < 4"
  using nat_of_char_less_256[of c] by (auto simp: div_less_iff_less_mult)

lemma byte_sextets [simp]:
  "byte_of a mod 4 * 16 + byte_of b div 16 < 64" "byte_of b mod 16 * 4 + byte_of c div 64 < 64" "byte_of a mod 4 * 16 < 64" "byte_of b mod 16 * 4 < 64"
  "byte_of c mod 64 < 64"
proof -
  have *: "x mod 4 * 16 + y < 64" if "y < 16" for x y :: nat
  proof -
    have "x mod 4 \<le> 3" using mod_less_divisor[of 4 x] by simp
    with that show ?thesis by simp
  qed
  have **: "x mod 16 * 4 + y < 64" if "y < 4" for x y :: nat
  proof -
    have "x mod 16 \<le> 15" using mod_less_divisor[of 16 x] by simp
    with that show ?thesis by simp
  qed
  show "byte_of a mod 4 * 16 + byte_of b div 16 < 64" "byte_of a mod 4 * 16 < 64" using *[of "byte_of b div 16"] *[of 0] by simp_all
  show "byte_of b mod 16 * 4 + byte_of c div 64 < 64" "byte_of b mod 16 * 4 < 64" using **[of "byte_of c div 64"] **[of 0] by simp_all
qed simp

lemma byte_joined [simp]:
  "byte_of a div 4 * 4 + (byte_of a mod 4 * 16 + byte_of b div 16) div 16 = byte_of a"
  "(byte_of a mod 4 * 16 + byte_of b div 16) mod 16 * 16 + (byte_of b mod 16 * 4 + byte_of c div 64) div 4 = byte_of b"
  "(byte_of b mod 16 * 4 + byte_of c div 64) mod 4 * 64 + byte_of c mod 64 = byte_of c"
  "byte_of a div 4 * 4 + byte_of a mod 4 * 16 div 16 = byte_of a"
  "(byte_of a mod 4 * 16 + byte_of b div 16) mod 16 * 16 + byte_of b mod 16 * 4 div 4 = byte_of b"
proof -
  have 4: "x div 4 * 4 + (x mod 4 * 16 + y) div 16 = x" "(x mod 4 * 16 + y) mod 16 = y" if "y < 16" for x y :: nat using that by simp_all
  have 16: "x div 16 * 16 + (x mod 16 * 4 + y) div 4 = x" "(x mod 16 * 4 + y) mod 4 = y" if "y < 4" for x y :: nat using that by simp_all
  show "byte_of a div 4 * 4 + (byte_of a mod 4 * 16 + byte_of b div 16) div 16 = byte_of a" "byte_of a div 4 * 4 + byte_of a mod 4 * 16 div 16 = byte_of a"
    using 4(1)[of "byte_of b div 16" "byte_of a"] 4(1)[of 0 "byte_of a"] by simp_all
  show "(byte_of a mod 4 * 16 + byte_of b div 16) mod 16 * 16 + (byte_of b mod 16 * 4 + byte_of c div 64) div 4 = byte_of b"
    "(byte_of a mod 4 * 16 + byte_of b div 16) mod 16 * 16 + byte_of b mod 16 * 4 div 4 = byte_of b"
    using 4(2)[of "byte_of b div 16"] 16(1)[of "byte_of c div 64" "byte_of b"] 16(1)[of 0 "byte_of b"] by simp_all
  show "(byte_of b mod 16 * 4 + byte_of c div 64) mod 4 * 64 + byte_of c mod 64 = byte_of c"
    using 16(2)[of "byte_of c div 64"] by (simp add: div_mult_mod_eq)
qed

text \<open>Decoding undoes encoding, also of a text with line feeds in it.\<close>

lemma b64decode_encode: "b64_go 0 l p (b64encode s) = Inr s"
  by (induction s arbitrary: l p rule: b64encode.induct) (simp_all add: b64_go.simps(2) One_nat_def[symmetric] del: One_nat_def)

definition b64_alphabet :: "char \<Rightarrow> bool" where
  "b64_alphabet c = (c = CHR ''='' \<or> b64_val c \<noteq> None)"

lemma b64_alphabet_ASCII: "b64_alphabet c \<Longrightarrow> byte_of c < 128"
  by (auto simp: b64_alphabet_def b64_val_def is_upper_def is_lower_def is_digit_def Let_def split: if_splits)

lemma b64_go_filter: "b64_go q l p (filter b64_alphabet s) = b64_go q l p s"
  by (induction s arbitrary: q l p) (auto simp: b64_alphabet_def split: option.splits)

lemma b64encode_alphabet: "c \<in> set (b64encode s) \<Longrightarrow> b64_alphabet c"
  by (induction s rule: b64encode.induct) (auto simp: b64_alphabet_def)

lemma concat_wrap64 [simp]: "concat (wrap64 s) = s"
proof (induction s rule: wrap64.induct)
  case (1 s)
  then show ?case by (subst wrap64.simps) simp
qed

lemma wrap64_lines: "l \<in> set (wrap64 s) \<Longrightarrow> l \<noteq> [] \<and> length l \<le> 64 \<and> set l \<subseteq> set s"
proof (induction s rule: wrap64.induct)
  case (1 s)
  show ?case
  proof (cases "s = []")
    case False
    then have "l = take 64 s \<or> l \<in> set (wrap64 (drop 64 s))" using "1.prems" by (subst (asm) wrap64.simps) simp
    then show ?thesis using "1.IH"[OF False] False by (auto dest: in_set_takeD in_set_dropD)
  qed (use "1.prems" in \<open>simp add: wrap64.simps\<close>)
qed

lemma b64_reads_back:
  assumes "filter b64_alphabet t = b64encode s" and "\<And>c. c \<in> set t \<Longrightarrow> byte_of c < 128"
  shows "b64decode t = Inr s"
proof -
  have "\<not> list_ex (\<lambda>c. 128 \<le> byte_of c) t" using assms(2) by (fastforce simp: list_ex_iff)
  then show ?thesis using b64_go_filter[of 0 0 0 t] assms(1) b64decode_encode[of 0 0 s] by (simp add: b64decode_def)
qed

end
