(* ===== verification/Certdata_Merge.thy ===== *)
theory Certdata_Merge
  imports Certdata Py_Calendar Py_Base64
begin

section \<open>Merging certificates into certdata.txt\<close>

text \<open>
  The rest of \<open>mergepem2certdata.py\<close>: the removal of expired certificates, the merge of the PEM file and the output. Trust objects are
  reached by their index, where the code holds references to the same dictionaries. What \<open>cryptography\<close> reads from a certificate, what \<open>asn1\<close>
  encodes and what \<open>dateutil\<close> parses is the parameter \<open>merge_env\<close>, with today's date, the \<open>repr\<close> of bytes and the conversions of \<open>%\<close>
  other than \<open>%s\<close> and \<open>%%\<close>.
\<close>

subsection \<open>Certificates and dates\<close>

record x509 =
  x_subject :: string \<comment> \<open>\<open>subject.public_bytes()\<close>\<close>
  x_issuer :: string
  x_key :: string \<comment> \<open>the subject's public key in DER\<close>
  x_cn :: "string list"
  x_ou :: "string list"
  x_o :: "string list"
  x_serial :: int
  x_before :: moment
  x_after :: moment
  x_sha1 :: string
  x_md5 :: string
  x_subject_text :: string \<comment> \<open>\<open>rfc4514_string()\<close>\<close>
  x_issuer_text :: string

record merge_env =
  me_load :: "string \<Rightarrow> exn + x509"
  me_asn1 :: "int \<Rightarrow> string"
  me_date :: "string \<Rightarrow> exn + moment"
  me_today :: moment
  me_repr :: "string \<Rightarrow> string"
  me_percent :: "string \<Rightarrow> string option \<Rightarrow> exn + string"

definition merge_trust_types :: "string list" where
  "merge_trust_types = [''CKA_TRUST_SERVER_AUTH'', ''CKA_TRUST_EMAIL_PROTECTION'', ''CKA_TRUST_CODE_SIGNING'']"

definition attribute_types :: "(string \<times> string) list" where
  "attribute_types = [(''CKA_CLASS'', ''CK_OBJECT_CLASS''), (''CKA_TOKEN'', ''CK_BBOOL''), (''CKA_PRIVATE'', ''CK_BBOOL''), (''CKA_MODIFIABLE'', ''CK_BBOOL''),
     (''CKA_LABEL'', ''UTF8''), (''CKA_CERTIFICATE_TYPE'', ''CK_CERTIFICATE_TYPE''), (''CKA_SUBJECT'', ''MULTILINE_OCTAL''), (''CKA_ID'', ''UTF8''),
     (''CKA_CERT_SHA1_HASH'', ''MULTILINE_OCTAL''), (''CKA_CERT_MD5_HASH'', ''MULTILINE_OCTAL''), (''CKA_ISSUER'', ''MULTILINE_OCTAL''),
     (''CKA_SERIAL_NUMBER'', ''MULTILINE_OCTAL''), (''CKA_VALUE'', ''MULTILINE_OCTAL''), (''CKA_NSS_MOZILLA_CA_POLICY'', ''CK_BBOOL''),
     (''CKA_NSS_SERVER_DISTRUST_AFTER'', ''Distrust''), (''CKA_NSS_EMAIL_DISTRUST_AFTER'', ''Distrust''), (''CKA_TRUST_SERVER_AUTH'', ''CK_TRUST''),
     (''CKA_TRUST_EMAIL_PROTECTION'', ''CK_TRUST''), (''CKA_TRUST_CODE_SIGNING'', ''CK_TRUST''), (''CKA_TRUST_STEP_UP_APPROVED'', ''CK_BBOOL'')]"

definition getdate :: "merge_env \<Rightarrow> string \<Rightarrow> exn + moment" where
  "getdate e s = (if upper s = ''THISYEAR'' then Inr \<lparr>m_year = m_year (me_today e), m_month = 12, m_day = 31, m_hour = 11, m_minute = 59,
       m_second = 59, m_micro = 9999, m_offset = None\<rparr>
     else if upper s = ''TODAY'' then Inr (me_today e) else me_date e s)"

definition moment_le :: "moment \<Rightarrow> moment \<Rightarrow> exn + bool" where
  \<comment> \<open>naive and aware moments do not compare\<close>
  "moment_le a b = (if (m_offset a = None) \<noteq> (m_offset b = None) then Inl (TypeError ''can't compare offset-naive and offset-aware datetimes'')
     else Inr (instant a \<le> instant b))"

subsection \<open>Trust objects\<close>

definition is_trust_of :: "nss_value \<Rightarrow> nss_value \<Rightarrow> nss_object \<Rightarrow> exn + bool" where
  "is_trust_of serial issuer ob = (sbind (class_is TRUST ob) (\<lambda>t.
    if \<not> t then Inr False else (sbind (nss_item ob ''CKA_SERIAL_NUMBER'') (\<lambda>s.
      if s \<noteq> serial then Inr False else map_sum id (\<lambda>i. i = issuer) (nss_item ob ''CKA_ISSUER'')))))"

definition getTrust :: "nss_object list \<Rightarrow> nss_value \<Rightarrow> nss_value \<Rightarrow> exn + nat option" where
  "getTrust objs serial issuer = find_sum (is_trust_of serial issuer) objs"

fun all_distrusted :: "nss_object \<Rightarrow> string list \<Rightarrow> exn + bool" where
  "all_distrusted ob [] = Inr True"
| "all_distrusted ob (t # ts) = (sbind (nss_item ob t) (\<lambda>v.
  if v = NOT_TRUSTED then all_distrusted ob ts else Inr False))"

definition isDistrusted :: "nss_object option \<Rightarrow> exn + bool" where
  "isDistrusted ob = (case ob of None \<Rightarrow> Inr False | Some ob \<Rightarrow> all_distrusted ob merge_trust_types)"

definition load_value :: "merge_env \<Rightarrow> nss_object \<Rightarrow> exn + x509" where
  \<comment> \<open>\<open>x509.load_der_x509_certificate(bytes(obj['CKA_VALUE']))\<close>\<close>
  "load_value e ob = (sbind (nss_item ob ''CKA_VALUE'') (\<lambda>v.
    (case v of Oct b \<Rightarrow> me_load e b | _ \<Rightarrow> Inl (TypeError ''bytes''))))"

definition expire :: "merge_env \<Rightarrow> moment \<Rightarrow> nss_object list \<Rightarrow> nat \<Rightarrow> exn + nss_object list" where
  "expire e date objs i = (let ob = objs ! i in (sbind (class_is CERTIFICATE ob) (\<lambda>c.
    if \<not> c then Inr objs else (sbind (load_value e ob) (\<lambda>cert.
      sbind (moment_le (x_after cert) date) (\<lambda>old.
      if \<not> old then Inr objs else (sbind (nss_item ob ''CKA_SERIAL_NUMBER'') (\<lambda>serial.
        sbind (nss_item ob ''CKA_ISSUER'') (\<lambda>issuer.
        sbind (getTrust objs serial issuer) (\<lambda>t.
        sbind (isDistrusted (map_option (\<lambda>j. objs ! j) t)) (\<lambda>distrusted.
        if distrusted then Inr objs else (sbind (nss_item ob ''CKA_LABEL'') (\<lambda>_.
          let objs' = objs[i := dset ''Comment'' NoVal ob] in
          Inr (case t of None \<Rightarrow> objs' | Some j \<Rightarrow> objs'[j := dset ''Comment'' NoVal (objs' ! j)]))))))))))))))"

definition remove_expired :: "merge_env \<Rightarrow> moment option \<Rightarrow> nss_object list \<Rightarrow> exn + nss_object list" where
  "remove_expired e verify objs = (case verify of None \<Rightarrow> Inr objs | Some date \<Rightarrow> fold_sum (expire e date) objs [0..<length objs])"

subsection \<open>The PEM file\<close>

definition pem_line :: "bool \<times> string \<times> string list \<Rightarrow> string \<Rightarrow> bool \<times> string \<times> string list" where
  "pem_line st l = (case st of (in_cert, certvalue, certs) \<Rightarrow>
     if \<not> in_cert then (contains l ''BEGIN CERTIFICATE'', certvalue, certs)
     else if startswith l ''#'' \<or> strip l = [] then st
     else if contains l ''END CERTIFICATE'' then (False, [], certs @ [certvalue])
     else (True, certvalue @ l, certs))"

definition read_pem :: "string \<Rightarrow> string list" where
  "read_pem s = snd (snd (foldl pem_line (False, [], []) (text_lines s)))"

subsection \<open>A certificate that is new\<close>

fun percent :: "merge_env \<Rightarrow> string \<Rightarrow> string option \<Rightarrow> exn + string" where
  \<comment> \<open>\<open>s % arg\<close>; the argument is gone once it was used\<close>
  "percent e [] arg = (if arg = None then Inr [] else Inl (TypeError ''not all arguments converted during string formatting''))"
| "percent e [c] arg = (if c = CHR ''%'' then me_percent e [] arg else map_sum id ((#) c) (percent e [] arg))"
| "percent e (c # d # s) arg = (if c \<noteq> CHR ''%'' then map_sum id ((#) c) (percent e (d # s) arg)
     else if d = CHR ''%'' then map_sum id ((#) c) (percent e s arg)
     else if d = CHR ''s'' then (case arg of None \<Rightarrow> Inl (TypeError ''not enough arguments for format string'') | Some a \<Rightarrow> map_sum id ((@) a) (percent e s None))
     else me_percent e (d # s) arg)"

definition formatHex :: "string \<Rightarrow> string" where
  "formatHex b = join '':'' (map (\<lambda>c. let n = of_char c in [hex_char (n div 16), hex_char n]) b)"

fun show_hex :: "nat \<Rightarrow> string" where
  "show_hex n = (if n < 16 then [hex_char n] else show_hex (n div 16) @ [hex_char n])"

declare show_hex.simps [simp del]

fun big_endian :: "nat \<Rightarrow> string" where
  "big_endian n = (if n = 0 then [] else big_endian (n div 256) @ [char_of (n mod 256)])"

declare big_endian.simps [simp del]

definition strftime_text :: "moment \<Rightarrow> string" where
  \<comment> \<open>\<open>strftime('%a %b %d %H:%M:%S %Y')\<close>\<close>
  "strftime_text t = [''Mon'', ''Tue'', ''Wed'', ''Thu'', ''Fri'', ''Sat'', ''Sun''] ! ((ordinal (m_year t) (m_month t) (m_day t) + 6) mod 7) @ '' '' @
     [''Jan'', ''Feb'', ''Mar'', ''Apr'', ''May'', ''Jun'', ''Jul'', ''Aug'', ''Sep'', ''Oct'', ''Nov'', ''Dec''] ! (m_month t - 1) @ '' '' @
     padded 2 (m_day t) @ '' '' @ padded 2 (m_hour t) @ '':'' @ padded 2 (m_minute t) @ '':'' @ padded 2 (m_second t) @ '' '' @ show_nat (m_year t)"

definition label_of :: "x509 \<Rightarrow> string" where
  "label_of c = (case x_cn c of n # _ \<Rightarrow> n | [] \<Rightarrow> (case x_ou c of n # _ \<Rightarrow> n | [] \<Rightarrow> (case x_o c of n # _ \<Rightarrow> n | [] \<Rightarrow> ''Unknown Certificate'')))"

definition merge_comment :: "string \<Rightarrow> x509 \<Rightarrow> string" where
  "merge_comment merge_label c = (let sn = x_serial c in
     ''# '' @ merge_label @ [nl] @ ''# %s '' @ [CHR 0x22] @ label_of c @ [CHR 0x22, nl] @
     ''# Issuer: '' @ x_issuer_text c @ [nl] @
     ''# Serial Number:'' @ (if sn < 0x100000
        then '' '' @ show_int sn @ '' (0x'' @ (if sn < 0 then ''-'' else []) @ show_hex (nat \<bar>sn\<bar>) @ '')'' else formatHex (big_endian (nat sn))) @ [nl] @
     ''# Subject: '' @ x_subject_text c @ [nl] @
     ''# Not Valid Before: '' @ strftime_text (x_before c) @ [nl] @
     ''# Not Valid After: '' @ strftime_text (x_after c) @ [nl] @
     ''# Fingerprint (MD5): '' @ formatHex (x_md5 c) @ [nl] @
     ''# Fingerprint (SHA1): '' @ formatHex (x_sha1 c) @ [nl])"

definition in_quotes :: "string \<Rightarrow> nss_value" where
  "in_quotes label = Txt ([CHR 0x22] @ label @ [CHR 0x22])"

definition new_certificate :: "merge_env \<Rightarrow> x509 \<Rightarrow> string \<Rightarrow> string \<Rightarrow> nss_object" where
  \<comment> \<open>with the comment and the DER bytes\<close>
  "new_certificate e c comment certder = [(''Comment'', Txt comment), (''CKA_CLASS'', Txt CERTIFICATE), (''CKA_TOKEN'', Txt ''CK_TRUE''), (''CKA_PRIVATE'', Txt ''CK_FALSE''),
     (''CKA_MODIFIABLE'', Txt ''CK_FALSE''), (''CKA_LABEL'', in_quotes (label_of c)), (''CKA_CERTIFICATE_TYPE'', Txt ''CKC_X_509''),
     (''CKA_SUBJECT'', Oct (x_subject c)), (''CKA_ID'', Txt [CHR 0x22, CHR ''0'', CHR 0x22]), (''CKA_ISSUER'', Oct (x_issuer c)), (''CKA_SERIAL_NUMBER'', Oct (me_asn1 e (x_serial c))),
     (''CKA_VALUE'', Oct certder), (''CKA_NSS_MOZILLA_CA_POLICY'', Txt ''CK_FALSE''), (''CKA_NSS_SERVER_DISTRUST_AFTER'', Txt ''CK_FALSE''), (''CKA_NSS_EMAIL_DISTRUST_AFTER'', Txt ''CK_FALSE'')]"

definition new_trust :: "merge_env \<Rightarrow> string \<Rightarrow> x509 \<Rightarrow> string \<Rightarrow> string \<Rightarrow> nss_object" where
  \<comment> \<open>for the trust attribute, with comment and label; the order in which the set of trust types is walked shows nowhere\<close>
  "new_trust e trust c comment label = [(''Comment'', Txt comment), (''CKA_CLASS'', Txt TRUST), (''CKA_TOKEN'', Txt ''CK_TRUE''), (''CKA_PRIVATE'', Txt ''CK_FALSE''),
     (''CKA_MODIFIABLE'', Txt ''CK_FALSE''), (''CKA_LABEL'', in_quotes label), (''CKA_CERT_SHA1_HASH'', Oct (x_sha1 c)), (''CKA_CERT_MD5_HASH'', Oct (x_md5 c)),
     (''CKA_ISSUER'', Oct (x_issuer c)), (''CKA_SERIAL_NUMBER'', Oct (me_asn1 e (x_serial c)))] @
     map (\<lambda>t. (t, if t = trust then DELEGATOR else Txt ''CKT_NSS_MUST_VERIFY_TRUST'')) merge_trust_types @ [(''CKA_TRUST_STEP_UP_APPROVED'', Txt ''CK_FALSE'')]"

definition append_certificate :: "merge_env \<Rightarrow> string \<Rightarrow> string \<Rightarrow> x509 \<Rightarrow> string \<Rightarrow> nss_object list \<Rightarrow> exn + nss_object list" where
  "append_certificate e trust merge_label c certder objs = (sbind (percent e (merge_comment merge_label c) (Some ''Certificate'')) (\<lambda>comment.
    sbind (addObj objs (new_certificate e c comment certder) (Some ''CodeSigning'') True) (\<lambda>(objs1, label).
    if label = ''DROPPED'' then Inr objs1 else (sbind (percent e (merge_comment merge_label c) (Some ''Trust for'')) (\<lambda>comment'.
      map_sum id fst (addObj objs1 (new_trust e trust c comment' label) (Some ''CodeSigning'') True))))))"

subsection \<open>The merge\<close>

definition grant :: "string \<Rightarrow> nat \<Rightarrow> nss_object list \<Rightarrow> nss_object list" where
  \<comment> \<open>\<open>obj[trust] = 'CKT_NSS_TRUSTED_DELEGATOR'\<close>\<close>
  "grant trust i objs = objs[i := dset trust DELEGATOR (objs ! i)]"

definition has_hash :: "x509 \<Rightarrow> nss_object \<Rightarrow> exn + bool" where
  "has_hash c ob = (sbind (class_is TRUST ob) (\<lambda>t.
    Inr (t \<and> dget ob ''CKA_CERT_SHA1_HASH'' = Some (Oct (x_sha1 c)))))"

definition is_sister :: "merge_env \<Rightarrow> x509 \<Rightarrow> nss_object \<Rightarrow> exn + bool" where
  "is_sister e c ob = (sbind (class_is CERTIFICATE ob) (\<lambda>t.
    if \<not> t then Inr False else (sbind (nss_item ob ''CKA_SUBJECT'') (\<lambda>s.
      if s \<noteq> Oct (x_subject c) then Inr False else map_sum id (\<lambda>c2. x_key c2 = x_key c) (load_value e ob)))))"

definition grant_sister :: "string \<Rightarrow> nss_object list \<Rightarrow> nat \<Rightarrow> exn + nss_object list" where
  "grant_sister trust objs i = (let ob = objs ! i in (sbind (nss_item ob ''CKA_SERIAL_NUMBER'') (\<lambda>serial.
    sbind (nss_item ob ''CKA_ISSUER'') (\<lambda>issuer.
    sbind (getTrust objs serial issuer) (\<lambda>t.
    sbind (nss_item ob ''CKA_LABEL'') (\<lambda>v.
    sbind (text_of v) (\<lambda>_.
    (case t of None \<Rightarrow> Inl (TypeError ''NoneType'') | Some j \<Rightarrow> Inr (grant trust j objs)))))))))"

definition merge_cert :: "merge_env \<Rightarrow> moment option \<Rightarrow> string \<Rightarrow> string \<Rightarrow> nss_object list \<Rightarrow> string \<Rightarrow> exn + nss_object list" where
  "merge_cert e verify trust merge_label objs certval = (sbind (map_sum ValueError id (b64decode certval)) (\<lambda>certder.
    sbind (me_load e certder) (\<lambda>c.
    sbind (case verify of None \<Rightarrow> Inr False | Some date \<Rightarrow> moment_le (x_after c) date) (\<lambda>old.
    if old then Inr objs else (sbind (find_sum (has_hash c) objs) (\<lambda>known.
      (case known of Some i \<Rightarrow> Inr (grant trust i objs)
       | None \<Rightarrow> (sbind (find_sum (is_sister e c) objs) (\<lambda>sister.
         (case sister of Some i \<Rightarrow> grant_sister trust objs i | None \<Rightarrow> append_certificate e trust merge_label c certder objs))))))))))"

subsection \<open>The output\<close>

definition octal :: "char \<Rightarrow> string" where
  "octal c = (let n = of_char c in [CHR 0x5C, digit_char (n div 64), digit_char (n div 8 mod 8), digit_char (n mod 8)])"

fun octal_lines :: "nat \<Rightarrow> string \<Rightarrow> string" where
  "octal_lines i [] = []"
| "octal_lines i (c # s) = (if i mod 16 = 0 then [nl] else []) @ octal c @ octal_lines (i + 1) s"

definition dumpOctal :: "nss_value \<Rightarrow> (exn + string) list" where
  "dumpOctal v = (case v of Oct b \<Rightarrow> [Inr (octal_lines 0 b @ [nl] @ ''END'' @ [nl])]
     | Txt s \<Rightarrow> if s = [] then [Inr ([nl] @ ''END'' @ [nl])] else [Inr [nl], Inl (TypeError ''cannot convert str object to bytes'')]
     | NoVal \<Rightarrow> [Inl (TypeError ''NoneType'')])"

definition dump_field :: "merge_env \<Rightarrow> nss_object \<Rightarrow> string \<times> string \<Rightarrow> (exn + string) list" where
  "dump_field e ob ft = (case ft of (field, ftype) \<Rightarrow> (case dget ob field of None \<Rightarrow> []
     | Some v \<Rightarrow> (let ty = (if ftype = ''Distrust'' then (if v = Txt ''CK_FALSE'' then ''CK_BBOOL'' else ''MULTILINE_OCTAL'') else ftype) in
         Inr (field @ '' '' @ ty) # (if ty = ''MULTILINE_OCTAL'' then dumpOctal v
           else [Inr ('' '' @ (case v of Txt s \<Rightarrow> s | NoVal \<Rightarrow> ''None'' | Oct b \<Rightarrow> me_repr e b) @ [nl])]))))"

definition dump_object :: "merge_env \<Rightarrow> nss_object \<Rightarrow> (exn + string) list" where
  "dump_object e ob = (let body = concat (map (dump_field e ob) attribute_types) @ [Inr [nl]] in
     (case dget ob ''Comment'' of Some NoVal \<Rightarrow> [] | Some (Txt c) \<Rightarrow> Inr c # body | Some (Oct _) \<Rightarrow> [Inl (TypeError ''write() argument must be str'')] | None \<Rightarrow> body))"

definition dump_file :: "merge_env \<Rightarrow> string \<Rightarrow> nss_object list \<Rightarrow> (exn + string) list" where
  "dump_file e header objs = Inr header # concat (map (dump_object e) objs)"

record merge_options =
  mo_certdata :: path
  mo_pem :: path
  mo_output :: path
  mo_trust :: string
  mo_label :: string
  mo_date :: string

definition merged :: "merge_env \<Rightarrow> merge_options \<Rightarrow> moment option \<Rightarrow> string list \<Rightarrow> nss_object list \<Rightarrow> exn + nss_object list" where
  "merged e opts verify pemcerts objs = (sbind (remove_expired e verify objs) (\<lambda>kept.
    fold_sum (merge_cert e verify (mo_trust opts) (mo_label opts)) kept pemcerts))"

definition mergepem :: "merge_env \<Rightarrow> merge_options \<Rightarrow> unit prog" where
  "mergepem e opts = (bind (if upper (mo_date opts) = ''NEVER'' then ret None else from_sum (map_sum id Some (getdate e (mo_date opts)))) (\<lambda>verify.
    bind (read_text (mo_pem opts)) (\<lambda>pem.
    bind (read_text (mo_certdata opts)) (\<lambda>s.
    bind (from_sum (read_certdata s)) (\<lambda>(header, objs).
    bind (from_sum (merged e opts verify (read_pem pem) objs)) (\<lambda>objs'.
    write_pieces (mo_output opts) (dump_file e header objs')))))))"

end
