(* ===== verification/Certdata_Roundtrip.thy ===== *)
theory Certdata_Roundtrip
  imports Certdata_Merge
begin

section \<open>What the merge writes is what the split reads\<close>

text \<open>
  The output of \<open>mergepem2certdata.py\<close>, read by the parser of \<open>certdata2pem.py\<close>: the objects that were not removed, with the attributes
  of the table \<open>attribute_types\<close> in its order.
\<close>

subsection \<open>Well-formed objects\<close>

definition one_line :: "string \<Rightarrow> bool" where
  \<comment> \<open>a value that stays on its line when the file is read again; text mode also ends a line at a carriage return\<close>
  "one_line s = (s \<noteq> [] \<and> nl \<notin> set s \<and> cr \<notin> set s \<and> \<not> is_ws (last s))"

definition value_ok :: "string \<Rightarrow> nss_value \<Rightarrow> bool" where
  \<comment> \<open>the value fits the type under which it is written\<close>
  "value_ok ftype v = (case v of Txt s \<Rightarrow> ftype \<noteq> ''MULTILINE_OCTAL'' \<and> one_line s \<and> (ftype = ''Distrust'' \<longrightarrow> s = ''CK_FALSE'')
     | Oct b \<Rightarrow> (ftype = ''MULTILINE_OCTAL'' \<or> ftype = ''Distrust'') \<and> b \<noteq> [] | NoVal \<Rightarrow> False)"

definition comment_ok :: "string \<Rightarrow> bool" where
  "comment_ok c = ((c = [] \<or> last c = nl) \<and> list_all (\<lambda>l. startswith l ''#'') (text_lines c))"

definition writable :: "nss_object \<Rightarrow> bool" where
  "writable ob = (has_key ob ''CKA_CLASS'' \<and> list_all (\<lambda>(f, ty). case dget ob f of None \<Rightarrow> True | Some v \<Rightarrow> value_ok ty v) attribute_types \<and>
     (case dget ob ''Comment'' of Some (Txt c) \<Rightarrow> comment_ok c | Some (Oct _) \<Rightarrow> False | _ \<Rightarrow> True))"

definition removed :: "nss_object \<Rightarrow> bool" where
  "removed ob = (dget ob ''Comment'' = Some NoVal)"

definition visible :: "nss_object \<Rightarrow> nss_object" where
  "visible ob = concat (map (\<lambda>(f, _). case dget ob f of None \<Rightarrow> [] | Some v \<Rightarrow> [(f, v)]) attribute_types)"

definition header_ok :: "string \<Rightarrow> bool" where
  \<comment> \<open>its last line is the first that begins with \<open>BEGINDATA\<close>\<close>
  "header_ok h = (h \<noteq> [] \<and> last h = nl \<and> startswith (last (text_lines h)) ''BEGINDATA'' \<and> list_all (\<lambda>l. \<not> startswith l ''BEGINDATA'') (butlast (text_lines h)))"

subsection \<open>Texts\<close>

lemma update_fresh: "f \<notin> fst ` set ob \<Longrightarrow> dset f v ob = ob @ [(f, v)]"
  by (induction ob) auto

lemma update_last_item: "f \<notin> fst ` set ob \<Longrightarrow> dset f v (ob @ [(f, w)]) = ob @ [(f, v)]"
  by (induction ob) auto

lemma octal_digits: "n < 8 \<Longrightarrow> octal_digit (digit_char n) \<and> digit_val (digit_char n) = n \<and> \<not> is_ws (digit_char n) \<and> digit_char n \<noteq> nl \<and> digit_char n \<noteq> cr"
proof -
  assume "n < 8"
  then have "octal_digit (digit_char n) \<and> digit_val (digit_char n) = n \<and> \<not> is_ws (digit_char n)"
    by (auto simp: octal_digit_def digit_val_def is_ws_def Let_def)
  moreover have "is_ws nl" "is_ws cr" by (simp_all add: is_ws_def)
  ultimately show ?thesis by metis
qed

lemma octals_octal [simp]: "octals (octal c @ s) = c # octals s"
proof -
  have d: "of_char c div 64 < (8::nat)" "of_char c div 64 \<le> (3::nat)" using byte_less(4)[of c] by linarith+
  have "(of_char c div 64 * 64 + of_char c div 8 mod 8 * 8 + of_char c mod 8 :: nat) = of_char c"
  proof -
    have "byte_of c div 8 div 8 = byte_of c div 64" by (simp add: div_mult2_eq[symmetric])
    then show ?thesis using div_mult_mod_eq[of "byte_of c" 8] div_mult_mod_eq[of "byte_of c div 8" 8] by linarith
  qed
  then show ?thesis using octal_digits[OF d(1)] octal_digits[of "of_char c div 8 mod 8"] octal_digits[of "of_char c mod 8"] d(2)
    by (simp add: octal_def Let_def del: digit_char.simps)
qed

lemma octals_concat: "octals (concat (map octal s)) = s"
proof (induction s)
  case (Cons c s)
  then show ?case by simp
qed simp

subsection \<open>Reading what was written\<close>

definition at :: "bool \<Rightarrow> nss_object \<Rightarrow> nss_object list \<Rightarrow> certdata \<Rightarrow> bool" where
  \<comment> \<open>between two attributes\<close>
  "at b ob objs st = (cd_data st \<and> \<not> cd_multi st \<and> \<not> cd_shared st \<and> cd_inobj st = b \<and> cd_obj st = ob \<and> cd_objects st = objs)"

definition parses_to :: "string \<Rightarrow> (certdata \<Rightarrow> bool) \<Rightarrow> (certdata \<Rightarrow> bool) \<Rightarrow> bool" where
  \<comment> \<open>reading the lines of a text leads from one set of states to another\<close>
  "parses_to t P Q = ((t = [] \<or> last t = nl) \<and> (\<forall>st. P st \<longrightarrow> (\<exists>st'. fold_sum certdata_line st (text_lines t) = Inr st' \<and> Q st')))"

lemma parses_Nil: "parses_to [] P P"
  by (simp add: parses_to_def)

lemma parses_append: "parses_to a P Q \<Longrightarrow> parses_to b Q R \<Longrightarrow> parses_to (a @ b) P R"
  unfolding parses_to_def
proof (intro conjI allI impI, goal_cases)
  case (2 st)
  from 2 obtain st1 where 1: "fold_sum certdata_line st (text_lines a) = Inr st1" "Q st1" by blast
  with 2 obtain st2 where "fold_sum certdata_line st1 (text_lines b) = Inr st2" "R st2" by blast
  with 1 2 show ?case by (auto simp: text_lines_append fold_sum_append)
qed (auto simp: last_append)

lemma parses_line:
  assumes "nl \<notin> set l \<and> cr \<notin> set l" and "\<And>st. P st \<Longrightarrow> \<exists>st'. certdata_line st (l @ [nl]) = Inr st' \<and> Q st'"
  shows "parses_to (l @ [nl]) P Q"
  using assms(2) text_lines_line[OF conjunct1[OF assms(1)] conjunct2[OF assms(1)], of "[]"] by (fastforce simp: parses_to_def)

lemma parses_comment:
  assumes "comment_ok c"
  shows "parses_to c (at b ob objs) (at b ob objs)"
proof -
  have "fold_sum certdata_line st ls = Inr st" if "cd_data st" "list_all (\<lambda>l. startswith l ''#'') ls" for st ls
    using that by (induction ls) (auto simp: certdata_line_def)
  then show ?thesis using assms by (auto simp: parses_to_def comment_ok_def at_def)
qed

text \<open>The octal block of a value.\<close>

lemma octal_lines_end: "octal_lines i [] = []"
  by simp

lemma octal_lines_mid: "i mod 16 + length a \<le> 16 \<Longrightarrow> 0 < i mod 16 \<Longrightarrow> octal_lines i (a @ r) = concat (map octal a) @ octal_lines (i + length a) r"
proof (induction a arbitrary: i)
  case (Cons c a)
  show ?case
  proof (cases "a = []")
    case False
    then have "i mod 16 < 15" using Cons.prems by (cases a) auto
    then have "(i + 1) mod 16 = i mod 16 + 1" by (simp add: mod_Suc)
    then show ?thesis using Cons.IH[of "i + 1"] Cons.prems by simp
  qed (use Cons.prems in simp)
qed simp

lemma octal_lines_row:
  assumes "i mod 16 = 0" "s \<noteq> []"
  shows "octal_lines i s = nl # concat (map octal (take 16 s)) @ octal_lines (i + length (take 16 s)) (drop 16 s)"
proof -
  obtain c r where s: "s = c # r" using assms(2) by (cases s) auto
  have "octal_lines (i + 1) (take 15 r @ drop 15 r) = concat (map octal (take 15 r)) @ octal_lines (i + 1 + length (take 15 r)) (drop 15 r)"
    using assms(1) by (intro octal_lines_mid) (auto simp: mod_Suc)
  then show ?thesis using assms(1) by (simp add: s take_Cons' drop_Cons')
qed

definition in_block :: "string \<Rightarrow> string \<Rightarrow> nss_object \<Rightarrow> nss_object list \<Rightarrow> certdata \<Rightarrow> bool" where
  "in_block f bin ob objs st = (cd_data st \<and> cd_multi st \<and> \<not> cd_shared st \<and> cd_inobj st \<and> cd_field st = f \<and> cd_type st = ''MULTILINE_OCTAL'' \<and>
     cd_bin st = bin \<and> cd_obj st = ob @ (if bin = [] then [] else [(f, Oct bin)]) \<and> cd_objects st = objs)"

lemma octal_row: 
  assumes "s \<noteq> []"
  defines "t \<equiv> concat (map octal s)"
  shows "nl \<notin> set t \<and> cr \<notin> set t \<and> strip (t @ [nl]) = t \<and> t \<noteq> [] \<and> hd t = CHR 0x5C"
proof -
  have oct: "nl \<notin> set (octal c) \<and> cr \<notin> set (octal c) \<and> octal c \<noteq> [] \<and> hd (octal c) = CHR 0x5C \<and> \<not> is_ws (last (octal c))" for c
  proof -
    have "byte_of c div 64 < 8" using byte_less(4)[of c] by linarith
    then show ?thesis using octal_digits[of "byte_of c div 64"] octal_digits[of "byte_of c div 8 mod 8"] octal_digits[of "byte_of c mod 8"]
      by (auto simp: octal_def Let_def simp del: digit_char.simps)
  qed
  have "t \<noteq> [] \<and> hd t = CHR 0x5C" using assms oct by (cases s) auto
  moreover have "nl \<notin> set t \<and> cr \<notin> set t" using oct by (auto simp: t_def)
  moreover have "\<not> is_ws (last t)"
  proof -
    obtain u c where "s = u @ [c]" using assms(1) by (metis rev_exhaust)
    then show ?thesis using oct[of c] by (simp add: t_def)
  qed
  ultimately show ?thesis using strip_line[of t] by (simp add: is_ws_def)
qed

lemma parses_row:
  assumes "s \<noteq> []" "f \<notin> fst ` set ob"
  shows "parses_to (concat (map octal s) @ [nl]) (in_block f bin ob objs) (in_block f (bin @ s) ob objs)"
proof -
  obtain t where t: "concat (map octal s) = t" "nl \<notin> set t \<and> cr \<notin> set t" "strip (t @ [nl]) = t" "t \<noteq> []" "hd t = CHR 0x5C" "octals t = s"
    using octal_row[OF assms(1)] octals_concat[of s] by blast
  have ends: "\<not> startswith (t @ [nl]) ''#''" "\<not> startswith (t @ [nl]) ''END''" using t(4,5) by (cases t; simp add: startswith_def)+
  have "\<exists>st'. certdata_line st (t @ [nl]) = Inr st' \<and> in_block f (bin @ s) ob objs st'" if st: "in_block f bin ob objs st" for st
  proof -
    have "certdata_line st (t @ [nl]) = Inr (st\<lparr>cd_bin := bin @ s, cd_obj := dset f (Oct (bin @ s)) (cd_obj st)\<rparr>)"
      using t(2-6) ends st by (simp add: certdata_line_def value_line_def in_block_def Let_def)
    then show ?thesis using st assms by (auto simp: in_block_def update_fresh update_last_item)
  qed
  then show ?thesis unfolding t(1) using t(2) by (rule_tac parses_line)
qed

lemma parses_rows:
  assumes "i mod 16 = 0" "s \<noteq> []" "f \<notin> fst ` set ob"
  shows "parses_to (tl (octal_lines i s) @ [nl]) (in_block f bin ob objs) (in_block f (bin @ s) ob objs)"
  using assms(1,2)
proof (induction "length s" arbitrary: i s bin rule: less_induct)
  case less
  let ?a = "take 16 s" and ?b = "drop 16 s"
  have row: "parses_to (concat (map octal ?a) @ [nl]) (in_block f bin ob objs) (in_block f (bin @ ?a) ob objs)"
    using parses_row[of ?a f ob bin objs] less.prems assms(3) by simp
  show ?case
  proof (cases "?b = []")
    case True
    then show ?thesis using row octal_lines_row[OF less.prems] by simp
  next
    case False
    then have len: "length ?a = 16" by simp
    have i: "(i + 16) mod 16 = 0" using less.prems by simp
    have eq: "octal_lines i s = nl # concat (map octal ?a) @ octal_lines (i + 16) ?b" using octal_lines_row[OF less.prems] len by simp
    have hd: "octal_lines (i + 16) ?b = nl # tl (octal_lines (i + 16) ?b)" using octal_lines_row[OF i False] by simp
    have "parses_to (tl (octal_lines (i + 16) ?b) @ [nl]) (in_block f (bin @ ?a) ob objs) (in_block f (bin @ s) ob objs)"
    proof -
      have "(bin @ ?a) @ ?b = bin @ s" by simp
      then show ?thesis using less.hyps[of ?b "i + 16" "bin @ ?a"] False i by auto
    qed
    with row have "parses_to ((concat (map octal ?a) @ [nl]) @ tl (octal_lines (i + 16) ?b) @ [nl]) (in_block f bin ob objs) (in_block f (bin @ s) ob objs)"
      by (rule parses_append)
    then show ?thesis by (subst eq, subst hd) simp
  qed
qed

text \<open>One attribute.\<close>

definition name_ok :: "string \<Rightarrow> bool" where
  "name_ok f = (f \<noteq> [] \<and> hd f = CHR ''C'' \<and> nl \<notin> set f \<and> cr \<notin> set f \<and> CHR '' '' \<notin> set f)"

definition type_ok :: "string \<Rightarrow> bool" where
  "type_ok t = (t \<noteq> [] \<and> nl \<notin> set t \<and> cr \<notin> set t \<and> CHR '' '' \<notin> set t \<and> \<not> is_ws (last t))"

lemma attribute_table: "(f, t) \<in> set attribute_types \<Longrightarrow> name_ok f \<and> type_ok t"
proof -
  have "list_all (\<lambda>(f, t). name_ok f \<and> type_ok t) attribute_types" by code_simp
  then show "(f, t) \<in> set attribute_types \<Longrightarrow> ?thesis" by (auto simp: list_all_iff)
qed

lemma split2_value: "CHR '' '' \<notin> set f \<Longrightarrow> CHR '' '' \<notin> set t \<Longrightarrow> split2 (f @ '' '' @ t @ '' '' @ v) = [f, t, v]"
proof -
  obtain c r where c: "split_on (CHR '' '') v = c # r" by (cases "split_on (CHR '' '') v") auto
  assume "CHR '' '' \<notin> set f" "CHR '' '' \<notin> set t"
  then show ?thesis using join_split_on[of "CHR '' ''" v] c by (simp add: split2_def split_on_append)
qed

lemma split2_type: "CHR '' '' \<notin> set f \<Longrightarrow> CHR '' '' \<notin> set t \<Longrightarrow> split2 (f @ '' '' @ t) = [f, t]"
  by (simp add: split2_def split_on_append split_on_no_sep)

lemma name_line:
  assumes "name_ok f"
  shows "\<not> startswith (f @ x) ''#''" "\<not> is_ws (hd (f @ x))"
  using assms by (cases f; simp add: name_ok_def startswith_def is_ws_def)+

lemma in_object_line:
  assumes "at b ob objs st" "name_ok f" "b \<or> startswith f ''CKA_CLASS''" "\<not> is_ws (last (f @ x))"
  shows "certdata_line st ((f @ x) @ [nl]) = attribute_line ((f @ x) @ [nl]) (st\<lparr>cd_inobj := True\<rparr>) \<and> strip ((f @ x) @ [nl]) = f @ x"
proof -
  have strip: "strip ((f @ x) @ [nl]) = f @ x" using assms name_line(2)[of f x] by (intro strip_line) (auto simp: name_ok_def)
  have hash: "\<not> startswith ((f @ x) @ [nl]) ''#''" using name_line(1)[OF assms(2), of "x @ [nl]"] by simp
  have cls: "startswith f ''CKA_CLASS'' \<Longrightarrow> startswith ((f @ x) @ [nl]) ''CKA_CLASS''"
    by (auto simp: startswith_iff)
  have "f @ x \<noteq> []" using assms by (simp add: name_ok_def)
  moreover have "cd_inobj st \<Longrightarrow> st\<lparr>cd_inobj := True\<rparr> = st" by (cases st) simp
  then have "(if startswith ((f @ x) @ [nl]) ''CKA_CLASS'' then st\<lparr>cd_inobj := True\<rparr> else st) = st\<lparr>cd_inobj := True\<rparr>"
    using cls assms(1,3) unfolding at_def by presburger
  ultimately show ?thesis using strip hash assms(1) by (simp add: certdata_line_def at_def del: append_assoc append_is_Nil_conv)
qed

lemma parses_text_field:
  assumes "name_ok f" "type_ok t" "one_line v" "t \<noteq> ''MULTILINE_OCTAL''" "f \<notin> fst ` set ob" "b \<or> startswith f ''CKA_CLASS''"
  shows "parses_to (f @ '' '' @ t @ '' '' @ v @ [nl]) (at b ob objs) (at True (ob @ [(f, Txt v)]) objs)"
proof -
  let ?x = "'' '' @ t @ '' '' @ v"
  have l: "nl \<notin> set (f @ ?x) \<and> cr \<notin> set (f @ ?x)" "\<not> is_ws (last (f @ ?x))" using assms by (auto simp: name_ok_def type_ok_def one_line_def)
  have split: "split2 (f @ ?x) = [f, t, v]" using assms split2_value[of f t v] by (auto simp: name_ok_def type_ok_def)
  have "\<exists>st'. certdata_line st ((f @ ?x) @ [nl]) = Inr st' \<and> at True (ob @ [(f, Txt v)]) objs st'" if st: "at b ob objs st" for st
    using in_object_line[OF st assms(1,6) l(2)] split st assms(4,5) by (auto simp: attribute_line_def at_def update_fresh Let_def simp del: append_assoc)
  then show ?thesis using parses_line[OF l(1), of "at b ob objs" "at True (ob @ [(f, Txt v)]) objs"] by simp
qed

lemma parses_octal_field:
  assumes "name_ok f" "v \<noteq> []" "f \<notin> fst ` set ob" "b \<or> startswith f ''CKA_CLASS''"
  shows "parses_to (f @ '' MULTILINE_OCTAL'' @ octal_lines 0 v @ [nl] @ ''END'' @ [nl]) (at b ob objs) (at True (ob @ [(f, Oct v)]) objs)"
proof -
  let ?x = "'' '' @ ''MULTILINE_OCTAL''"
  have l: "nl \<notin> set (f @ ?x) \<and> cr \<notin> set (f @ ?x)" "\<not> is_ws (last (f @ ?x))" using assms by (auto simp: name_ok_def is_ws_def)
  have split: "split2 (f @ ?x) = [f, ''MULTILINE_OCTAL'']" using assms by (intro split2_type) (auto simp: name_ok_def)
  have "\<exists>st'. certdata_line st ((f @ ?x) @ [nl]) = Inr st' \<and> in_block f [] ob objs st'" if st: "at b ob objs st" for st
    using in_object_line[OF st assms(1,4) l(2)] split st by (auto simp: attribute_line_def at_def in_block_def Let_def simp del: append_assoc)
  then have 1: "parses_to ((f @ ?x) @ [nl]) (at b ob objs) (in_block f [] ob objs)" using l(1) by (rule_tac parses_line)
  have "certdata_line st (''END'' @ [nl]) = Inr (st\<lparr>cd_multi := False, cd_shared := False\<rparr>)" if "in_block f v ob objs st" for st
    using that by (simp add: certdata_line_def value_line_def in_block_def startswith_def strip_def lstrip_def rstrip_def is_ws_def)
  then have 2: "parses_to (''END'' @ [nl]) (in_block f v ob objs) (at True (ob @ [(f, Oct v)]) objs)"
    using assms(2) by (intro parses_line) (auto simp: in_block_def at_def)
  have hd: "octal_lines 0 v = nl # tl (octal_lines 0 v)" using octal_lines_row[of 0 v] assms(2) by simp
  have "parses_to (((f @ ?x) @ [nl]) @ (tl (octal_lines 0 v) @ [nl]) @ ''END'' @ [nl]) (at b ob objs) (at True (ob @ [(f, Oct v)]) objs)"
    using parses_rows[of 0 v f ob "[]" objs] assms(2,3) by (intro parses_append[OF 1] parses_append[OF _ 2]) simp_all
  then show ?thesis by (subst hd) simp
qed

text \<open>Objects and the whole file. What is written has no error among its pieces.\<close>

definition written :: "(exn + string) list \<Rightarrow> string \<Rightarrow> bool" where
  "written ps t = (pieces ps = (t, None))"

lemma written_append: "written ps s \<Longrightarrow> written qs t \<Longrightarrow> written (ps @ qs) (s @ t)"
  unfolding written_def by (induction ps arbitrary: s rule: pieces.induct) (auto split: prod.splits)

lemma written_simps [simp]: "written [] t \<longleftrightarrow> t = []" "written [Inr s] t \<longleftrightarrow> t = s"
  by (auto simp: written_def)

lemma dump_field_reads:
  assumes "(f, ty) \<in> set attribute_types" "dget o1 f = Some v" "value_ok ty v" "f \<notin> fst ` set ob" "b \<or> startswith f ''CKA_CLASS''"
  shows "\<exists>t. written (dump_field e o1 (f, ty)) t \<and> parses_to t (at b ob objs) (at True (ob @ [(f, v)]) objs)"
proof -
  note ok = attribute_table[OF assms(1)]
  have fixed: "type_ok ''CK_BBOOL''" "one_line ''CK_FALSE''" by code_simp+
  consider (plain) s where "v = Txt s" "ty \<noteq> ''MULTILINE_OCTAL''" "ty \<noteq> ''Distrust''" "one_line s" | (dated) "v = Txt ''CK_FALSE''" "ty = ''Distrust''"
    | (octets) x where "v = Oct x" "x \<noteq> []" "ty = ''MULTILINE_OCTAL'' \<or> ty = ''Distrust''"
    using assms(3) by (auto simp: value_ok_def split: nss_value.splits)
  then show ?thesis
  proof cases
    case plain
    then have "pieces (dump_field e o1 (f, ty)) = (f @ '' '' @ ty @ '' '' @ s @ [nl], None)" using assms(2) by (simp add: dump_field_def Let_def)
    then show ?thesis using parses_text_field[of f ty s ob b objs] ok plain assms(4,5) by (auto simp: written_def)
  next
    case dated
    then have "pieces (dump_field e o1 (f, ty)) = (f @ '' '' @ ''CK_BBOOL'' @ '' '' @ ''CK_FALSE'' @ [nl], None)" using assms(2) by (simp add: dump_field_def Let_def)
    then show ?thesis using parses_text_field[of f "''CK_BBOOL''" "''CK_FALSE''" ob b objs] ok dated fixed assms(4,5) by (auto simp: written_def)
  next
    case octets
    then have "pieces (dump_field e o1 (f, ty)) = (f @ '' MULTILINE_OCTAL'' @ octal_lines 0 x @ [nl] @ ''END'' @ [nl], None)"
      using assms(2) by (auto simp: dump_field_def dumpOctal_def Let_def)
    then show ?thesis using parses_octal_field[of f x ob b objs] ok octets assms(4,5) by (auto simp: written_def)
  qed
qed

definition shown :: "nss_object \<Rightarrow> (string \<times> string) list \<Rightarrow> nss_object" where
  "shown o1 fts = concat (map (\<lambda>(f, _). case dget o1 f of None \<Rightarrow> [] | Some v \<Rightarrow> [(f, v)]) fts)"

lemma shown_names: "fst ` set (shown o1 fts) \<subseteq> fst ` set fts"
  by (force simp: shown_def split: option.splits)

lemma dump_fields_reads:
  assumes "set fts \<subseteq> set attribute_types" "distinct (map fst fts)" "\<forall>(f, ty) \<in> set fts. \<forall>v. dget o1 f = Some v \<longrightarrow> value_ok ty v" "fst ` set fts \<inter> fst ` set ob = {}"
  shows "\<exists>t. written (concat (map (dump_field e o1) fts)) t \<and> parses_to t (at True ob objs) (at True (ob @ shown o1 fts) objs)"
  using assms
proof (induction fts arbitrary: ob)
  case Nil
  then show ?case using parses_Nil by (auto simp: shown_def)
next
  case (Cons ft fts)
  obtain f ty where ft: "ft = (f, ty)" by (cases ft)
  show ?case
  proof (cases "dget o1 f")
    case None
    then have "dump_field e o1 ft = []" "shown o1 (ft # fts) = shown o1 fts" by (simp_all add: dump_field_def shown_def ft)
    then show ?thesis using Cons.IH[of ob] Cons.prems by auto
  next
    case (Some v)
    then obtain t where t: "written (dump_field e o1 ft) t" "parses_to t (at True ob objs) (at True (ob @ [(f, v)]) objs)"
      using dump_field_reads[of f ty o1 v ob True e objs] Cons.prems ft by auto
    have "fst ` set fts \<inter> fst ` set (ob @ [(f, v)]) = {}" using Cons.prems(2,4) ft by auto
    then obtain u where u: "written (concat (map (dump_field e o1) fts)) u"
        "parses_to u (at True (ob @ [(f, v)]) objs) (at True ((ob @ [(f, v)]) @ shown o1 fts) objs)"
      using Cons.IH[of "ob @ [(f, v)]"] Cons.prems(1-3) by auto
    have "shown o1 (ft # fts) = (f, v) # shown o1 fts" using Some by (simp add: shown_def ft)
    then show ?thesis using written_append[OF t(1) u(1)] parses_append[OF t(2) u(2)] by auto
  qed
qed

lemma writable_fields:
  assumes "writable ob"
  shows "\<forall>(f, ty) \<in> set attribute_types. \<forall>v. dget ob f = Some v \<longrightarrow> value_ok ty v"
  using assms by (fastforce simp: writable_def list_all_iff split: option.splits)

lemma visible_shown: "visible ob = shown ob attribute_types"
  by (simp add: visible_def shown_def)

lemma dump_object_reads:
  assumes "writable ob"
  shows "\<exists>t. written (dump_object e ob) t \<and> parses_to t (at False [] objs) (at False [] (objs @ (if removed ob then [] else [visible ob])))"
proof (cases "removed ob")
  case True
  then show ?thesis using parses_Nil by (auto simp: dump_object_def removed_def)
next
  case False
  obtain ty rest where table: "attribute_types = (''CKA_CLASS'', ty) # rest" by (simp add: attribute_types_def)
  have names: "distinct (map fst attribute_types)" by code_simp
  obtain v where v: "dget ob ''CKA_CLASS'' = Some v" using assms by (auto simp: writable_def)
  have ok: "value_ok ty v" using writable_fields[OF assms] v by (auto simp: table)
  obtain t1 where t1: "written (dump_field e ob (''CKA_CLASS'', ty)) t1" "parses_to t1 (at False [] objs) (at True [(''CKA_CLASS'', v)] objs)"
    using dump_field_reads[of "''CKA_CLASS''" ty ob v "[]" False e objs] v ok by (auto simp: table startswith_def)
  have "fst ` set rest \<inter> fst ` set [(''CKA_CLASS'', v)] = {}" using names by (auto simp: table)
  then obtain t2 where t2: "written (concat (map (dump_field e ob) rest)) t2" "parses_to t2 (at True [(''CKA_CLASS'', v)] objs) (at True (visible ob) objs)"
    using dump_fields_reads[of rest ob "[(''CKA_CLASS'', v)]" e objs] writable_fields[OF assms] names v by (auto simp: table visible_shown shown_def)
  have "\<exists>st'. certdata_line st ([] @ [nl]) = Inr st' \<and> at False [] (objs @ [visible ob]) st'" if "at True (visible ob) objs st" for st
    using that by (auto simp: certdata_line_def at_def holds_value_def startswith_def strip_def lstrip_def rstrip_def is_ws_def)
  then have t3: "parses_to ([] @ [nl]) (at True (visible ob) objs) (at False [] (objs @ [visible ob]))" by (intro parses_line) auto
  have body: "written (concat (map (dump_field e ob) attribute_types) @ [Inr [nl]]) ((t1 @ t2) @ [nl])"
    "parses_to ((t1 @ t2) @ [nl]) (at False [] objs) (at False [] (objs @ [visible ob]))"
    using written_append[OF written_append[OF t1(1) t2(1)], of "[Inr [nl]]" "[nl]"] parses_append[OF parses_append[OF t1(2) t2(2)] t3] by (simp_all add: table)
  show ?thesis
  proof (cases "dget ob ''Comment''")
    case None
    then show ?thesis using body False by (auto simp: dump_object_def Let_def)
  next
    case (Some c)
    then obtain x where x: "c = Txt x" "comment_ok x" using assms False by (auto simp: writable_def removed_def split: nss_value.splits)
    have "written ([Inr x] @ (concat (map (dump_field e ob) attribute_types) @ [Inr [nl]])) (x @ ((t1 @ t2) @ [nl]))"
      using written_append[OF _ body(1), of "[Inr x]" x] by simp
    then show ?thesis using parses_append[OF parses_comment[OF x(2), of False "[]" objs] body(2)] Some x False
      by (auto simp: dump_object_def Let_def)
  qed
qed

lemma dump_objects_reads:
  assumes "list_all writable obs"
  shows "\<exists>t. written (concat (map (dump_object e) obs)) t \<and> parses_to t (at False [] objs) (at False [] (objs @ map visible (filter (\<lambda>ob. \<not> removed ob) obs)))"
  using assms
proof (induction obs arbitrary: objs)
  case Nil
  then show ?case using parses_Nil by auto
next
  case (Cons ob obs)
  obtain t where t: "written (dump_object e ob) t" "parses_to t (at False [] objs) (at False [] (objs @ (if removed ob then [] else [visible ob])))"
    using dump_object_reads[of ob e objs] Cons.prems by auto
  obtain u where u: "written (concat (map (dump_object e) obs)) u" "parses_to u (at False [] (objs @ (if removed ob then [] else [visible ob])))
      (at False [] ((objs @ (if removed ob then [] else [visible ob])) @ map visible (filter (\<lambda>ob. \<not> removed ob) obs)))"
    using Cons.IH[of "objs @ (if removed ob then [] else [visible ob])"] Cons.prems by auto
  show ?case using written_append[OF t(1) u(1)] parses_append[OF t(2) u(2)] by (cases "removed ob") auto
qed

lemma parses_header:
  assumes "header_ok h"
  shows "parses_to h (\<lambda>st. st = certdata_start) (at False [] [])"
proof -
  obtain ls l where ls: "text_lines h = ls @ [l]" "startswith l ''BEGINDATA''" "list_all (\<lambda>l. \<not> startswith l ''BEGINDATA'') ls"
  proof (cases "text_lines h" rule: rev_cases)
    case Nil
    from assms have "nl \<in> set (universal_newlines h)" using universal_last[of h] last_in_set by (fastforce simp: header_ok_def)
    then obtain a b where "universal_newlines h = a @ nl # b" "nl \<notin> set a" by (meson split_list_first)
    with Nil show ?thesis by (simp add: text_lines_def lf_lines_line)
  next
    case (snoc ls l)
    then show ?thesis using assms that by (auto simp: header_ok_def)
  qed
  have "fold_sum certdata_line st ls = Inr st" if "\<not> cd_data st" for st
    using ls(3) that by (induction ls) (auto simp: certdata_line_def)
  then show ?thesis using assms ls by (auto simp: parses_to_def header_ok_def fold_sum_append certdata_line_def certdata_start_def at_def)
qed

text \<open>C32: The file that \<open>mergepem2certdata.py\<close> writes for well-formed objects is written without an error, and \<open>certdata2pem.py\<close> reads from it
  exactly the objects that were not removed, each with its attributes in the order of the table, octal blocks as the same bytes.
\<close>

theorem merged_reads_back:
  assumes "header_ok header" "list_all writable objs"
  shows "\<exists>t. pieces (dump_file e header objs) = (t, None) \<and> parse_certdata t = Inr (map visible (filter (\<lambda>ob. \<not> removed ob) objs))"
proof -
  obtain t where t: "written (concat (map (dump_object e) objs)) t" "parses_to t (at False [] []) (at False [] (map visible (filter (\<lambda>ob. \<not> removed ob) objs)))"
    using dump_objects_reads[OF assms(2), of e "[]"] by auto
  have "written (dump_file e header objs) (header @ t)"
    using written_append[OF _ t(1), of "[Inr header]" header] by (simp add: dump_file_def)
  moreover have "parse_certdata (header @ t) = Inr (map visible (filter (\<lambda>ob. \<not> removed ob) objs))"
  proof -
    obtain st where "fold_sum certdata_line certdata_start (text_lines (header @ t)) = Inr st" "at False [] (map visible (filter (\<lambda>ob. \<not> removed ob) objs)) st"
      using parses_append[OF parses_header[OF assms(1)] t(2)] by (auto simp: parses_to_def)
    then show ?thesis by (simp add: parse_certdata_def at_def)
  qed
  ultimately show ?thesis by (auto simp: written_def)
qed

definition sample_env :: merge_env where
  "sample_env = \<lparr>me_load = (\<lambda>b. Inl (ValueError ''error parsing asn1 value'')), me_asn1 = (\<lambda>i. [CHR 0x02, CHR 0x01, char_of (nat i)]),
     me_date = (\<lambda>s. Inl (ValueError s)), me_today = \<lparr>m_year = 2025, m_month = 6, m_day = 1, m_hour = 12, m_minute = 0, m_second = 0, m_micro = 0, m_offset = None\<rparr>,
     me_repr = (\<lambda>b. b), me_percent = (\<lambda>s a. Inl (ValueError ''unsupported format character''))\<rparr>"

lemma merged_reads_back_witness:
  "let ob = [(''CKA_CLASS'', Txt CERTIFICATE), (''Comment'', Txt (''# a'' @ [nl])), (''CKA_LABEL'', in_quotes ''Root''), (''CKA_VALUE'', Oct [CHR 0x30, CHR 0x00])] in
   \<exists>t. pieces (dump_file sample_env (''# list'' @ [nl] @ ''BEGINDATA'' @ [nl]) [ob, dset ''Comment'' NoVal ob]) = (t, None) \<and>
     parse_certdata t = Inr [[(''CKA_CLASS'', Txt CERTIFICATE), (''CKA_LABEL'', in_quotes ''Root''), (''CKA_VALUE'', Oct [CHR 0x30, CHR 0x00])]]"
proof -
  let ?ob = "[(''CKA_CLASS'', Txt CERTIFICATE), (''Comment'', Txt (''# a'' @ [nl])), (''CKA_LABEL'', in_quotes ''Root''), (''CKA_VALUE'', Oct [CHR 0x30, CHR 0x00])]"
  have "header_ok (''# list'' @ [nl] @ ''BEGINDATA'' @ [nl])" "list_all writable [?ob, dset ''Comment'' NoVal ?ob]" by code_simp+
  moreover have "map visible (filter (\<lambda>ob. \<not> removed ob) [?ob, dset ''Comment'' NoVal ?ob]) =
    [[(''CKA_CLASS'', Txt CERTIFICATE), (''CKA_LABEL'', in_quotes ''Root''), (''CKA_VALUE'', Oct [CHR 0x30, CHR 0x00])]]" by code_simp
  ultimately show ?thesis using merged_reads_back[of _ "[?ob, dset ''Comment'' NoVal ?ob]" sample_env] unfolding Let_def by metis
qed

end
