(* ===== verification/Certdata_Grants.thy ===== *)
theory Certdata_Grants
  imports Certdata_Merge
begin

section \<open>What a merge can change\<close>

text \<open>
  A merge grants one purpose and nothing else: no other attribute of an object that was there changes, apart from the mark of a
  removed object, and new objects are trusted for that purpose only. Conversely every certificate of the PEM file ends up trusted, unless
  it has expired or its name is taken.
\<close>

subsection \<open>Adding objects\<close>

lemma addObj_drop:
  assumes "addObj objs ob sp True = Inr (objs', l)"
  shows "objs' = objs \<and> l = ''DROPPED'' \<and> labelExists objs ob = Inr True \<or> objs' = objs @ [ob] \<and> labelExists objs ob = Inr False"
  using assms by (auto simp: addObj_def sbind_Inr fresh_label.simps split: if_splits option.splits)

lemma addObj_label:
  assumes "addObj objs ob sp True = Inr (objs', l)" "dget ob ''CKA_LABEL'' = Some (in_quotes x)"
  shows "l = ''DROPPED'' \<or> l = x"
  using assms by (auto simp: addObj_def sbind_Inr nss_item_Inr fresh_label.simps in_quotes_def text_of_def stripQuotes_def Let_def split: if_splits option.splits)

subsection \<open>One purpose only\<close>

definition grants_only :: "string \<Rightarrow> nss_object list \<Rightarrow> nss_object list \<Rightarrow> bool" where
  "grants_only t objs objs' = (length objs \<le> length objs' \<and>
     (\<forall>i < length objs. \<forall>k. dget (objs' ! i) k \<noteq> dget (objs ! i) k \<longrightarrow>
        k = t \<and> dget (objs' ! i) k = Some DELEGATOR \<and> dget (objs ! i) ''CKA_CLASS'' = Some (Txt TRUST)) \<and>
     (\<forall>i < length objs'. length objs \<le> i \<longrightarrow> (\<forall>k \<in> set merge_trust_types. dget (objs' ! i) k = Some DELEGATOR \<longrightarrow> k = t)))"

lemma grants_only_refl: "grants_only t objs objs"
  by (simp add: grants_only_def)

lemma trust_type_other: "t \<in> set merge_trust_types \<Longrightarrow> t \<noteq> ''CKA_CLASS'' \<and> t \<noteq> ''Comment'' \<and> t \<noteq> ''CKA_LABEL'' \<and> t \<noteq> ''CKA_SUBJECT'' \<and> t \<noteq> ''CKA_VALUE'' \<and>
    t \<noteq> ''CKA_SERIAL_NUMBER'' \<and> t \<noteq> ''CKA_ISSUER'' \<and> t \<noteq> ''CKA_CERT_SHA1_HASH''"
  by (auto simp: merge_trust_types_def)

lemma grants_only_trans:
  assumes "grants_only t a b" "grants_only t b c" "t \<in> set merge_trust_types"
  shows "grants_only t a c"
  unfolding grants_only_def
proof (intro conjI allI impI ballI)
  show "length a \<le> length c" using assms by (auto simp: grants_only_def)
next
  fix i k assume i: "i < length a" and k: "dget (c ! i) k \<noteq> dget (a ! i) k"
  have ib: "i < length b" using i assms(1) by (auto simp: grants_only_def)
  have cls: "dget (b ! i) ''CKA_CLASS'' = dget (a ! i) ''CKA_CLASS''" using assms(1) i trust_type_other[OF assms(3)] unfolding grants_only_def by metis
  show "k = t" "dget (c ! i) k = Some DELEGATOR" "dget (a ! i) ''CKA_CLASS'' = Some (Txt TRUST)"
    using k assms(1,2) i ib cls unfolding grants_only_def by metis+
next
  fix i k assume "i < length c" "length a \<le> i" "k \<in> set merge_trust_types" "dget (c ! i) k = Some DELEGATOR"
  then show "k = t" using assms(1,2) unfolding grants_only_def by (metis not_less)
qed

lemma grant_grants:
  assumes "i < length objs" "dget (objs ! i) ''CKA_CLASS'' = Some (Txt TRUST)"
  shows "grants_only t objs (grant t i objs)"
  using assms by (auto simp: grants_only_def grant_def nth_list_update update_conv split: if_splits)

lemma class_is_True: "class_is c ob = Inr True \<longleftrightarrow> dget ob ''CKA_CLASS'' = Some (Txt c)"
  by (auto simp: class_is_def map_sum_Inr nss_item_Inr)

lemma getTrust_Some:
  assumes "getTrust objs serial issuer = Inr (Some j)"
  shows "j < length objs \<and> dget (objs ! j) ''CKA_CLASS'' = Some (Txt TRUST) \<and> dget (objs ! j) ''CKA_SERIAL_NUMBER'' = Some serial \<and> dget (objs ! j) ''CKA_ISSUER'' = Some issuer"
  using find_sum_Some[OF assms[unfolded getTrust_def]]
  by (auto simp: is_trust_of_def sbind_Inr map_sum_Inr nss_item_Inr class_is_True split: if_splits)

lemma grant_sister_Inr:
  assumes "grant_sister t objs i = Inr objs'"
  shows "\<exists>j < length objs. objs' = grant t j objs \<and> dget (objs ! j) ''CKA_CLASS'' = Some (Txt TRUST) \<and>
    dget (objs ! j) ''CKA_SERIAL_NUMBER'' = dget (objs ! i) ''CKA_SERIAL_NUMBER'' \<and> dget (objs ! j) ''CKA_ISSUER'' = dget (objs ! i) ''CKA_ISSUER''"
  using assms by (auto simp: grant_sister_def sbind_Inr nss_item_Inr Let_def split: option.splits dest!: getTrust_Some)

lemma append_grants: "(\<And>k. k \<in> set merge_trust_types \<Longrightarrow> dget ob k = Some DELEGATOR \<Longrightarrow> k = t) \<Longrightarrow> grants_only t objs (objs @ [ob])"
  by (auto simp: grants_only_def nth_append)

lemma new_certificate_no_trust: "k \<in> set merge_trust_types \<Longrightarrow> dget (new_certificate e c comment der) k = None"
proof -
  assume "k \<in> set merge_trust_types"
  then have "k = ''CKA_TRUST_SERVER_AUTH'' \<or> k = ''CKA_TRUST_EMAIL_PROTECTION'' \<or> k = ''CKA_TRUST_CODE_SIGNING''" by (simp add: merge_trust_types_def)
  then show ?thesis by (elim disjE) (simp_all add: new_certificate_def)
qed

lemma new_trust_types: "k \<in> set merge_trust_types \<Longrightarrow> dget (new_trust e t c comment l) k = Some (if k = t then DELEGATOR else Txt ''CKT_NSS_MUST_VERIFY_TRUST'')"
proof -
  assume "k \<in> set merge_trust_types"
  then have "k = ''CKA_TRUST_SERVER_AUTH'' \<or> k = ''CKA_TRUST_EMAIL_PROTECTION'' \<or> k = ''CKA_TRUST_CODE_SIGNING''" by (simp add: merge_trust_types_def)
  then show ?thesis by (elim disjE) (simp_all add: new_trust_def merge_trust_types_def)
qed

lemma append_certificate_cases:
  assumes "append_certificate e t ml c der objs = Inr objs'"
  obtains (clash) comment where "objs' = objs" "labelExists objs (new_certificate e c comment der) = Inr True"
  | (lone) comment comment' where "objs' = objs @ [new_certificate e c comment der]"
      "label_of c = ''DROPPED'' \<or> labelExists objs' (new_trust e t c comment' (label_of c)) = Inr True"
  | (both) comment comment' where "objs' = objs @ [new_certificate e c comment der, new_trust e t c comment' (label_of c)]"
proof -
  from assms obtain comment r where 1: "addObj objs (new_certificate e c comment der) (Some ''CodeSigning'') True = Inr r"
    and 2: "(case r of (objs1, label) \<Rightarrow> if label = ''DROPPED'' then Inr objs1 else sbind (percent e (merge_comment ml c) (Some ''Trust for''))
       (\<lambda>comment'. map_sum id fst (addObj objs1 (new_trust e t c comment' label) (Some ''CodeSigning'') True))) = Inr objs'"
    unfolding append_certificate_def sbind_Inr by blast
  obtain objs1 l where r: "r = (objs1, l)" by (cases r)
  note 1 = 1[unfolded r]
  have rest: "l = ''DROPPED'' \<and> objs' = objs1 \<or> (\<exists>comment' l'. l \<noteq> ''DROPPED'' \<and> addObj objs1 (new_trust e t c comment' l) (Some ''CodeSigning'') True = Inr (objs', l'))"
    using 2 by (auto simp: r sbind_Inr map_sum_Inr split: if_splits)
  have l: "l = ''DROPPED'' \<or> l = label_of c" using addObj_label[OF 1] by (simp add: new_certificate_def)
  show thesis
  proof (cases "objs1 = objs \<and> labelExists objs (new_certificate e c comment der) = Inr True")
    case True
    then have "l = ''DROPPED''" using addObj_drop[OF 1] by auto
    then show thesis using True rest clash by auto
  next
    case False
    then have new: "objs1 = objs @ [new_certificate e c comment der]" using addObj_drop[OF 1] by auto
    show thesis
    proof (cases "l = ''DROPPED''")
      case True
      then have "label_of c = ''DROPPED''"
        using 1 new by (auto simp: addObj_def sbind_Inr nss_item_Inr fresh_label.simps new_certificate_def in_quotes_def text_of_def stripQuotes_def Let_def split: if_splits)
      then show thesis using True rest new lone by auto
    next
      case False
      then obtain comment' l' where 2: "addObj objs1 (new_trust e t c comment' (label_of c)) (Some ''CodeSigning'') True = Inr (objs', l')" using rest l by auto
      then show thesis using addObj_drop[OF 2] new lone both by auto
    qed
  qed
qed

lemma merge_cert_cases:
  assumes "merge_cert e verify t ml objs pem = Inr objs'"
  shows "\<exists>der c. b64decode pem = Inr der \<and> me_load e der = Inr c \<and>
    (objs' = objs \<and> (\<exists>date. verify = Some date \<and> moment_le (x_after c) date = Inr True) \<or>
     (\<exists>i. find_sum (has_hash c) objs = Inr (Some i) \<and> objs' = grant t i objs) \<or>
     (\<exists>i. find_sum (is_sister e c) objs = Inr (Some i) \<and> grant_sister t objs i = Inr objs') \<or>
     find_sum (has_hash c) objs = Inr None \<and> find_sum (is_sister e c) objs = Inr None \<and> append_certificate e t ml c der objs = Inr objs')"
proof -
  from assms obtain der c old where 1: "map_sum ValueError id (b64decode pem) = Inr der" "me_load e der = Inr c"
      "(case verify of None \<Rightarrow> Inr False | Some date \<Rightarrow> moment_le (x_after c) date) = Inr old"
    and 2: "(if old then Inr objs else sbind (find_sum (has_hash c) objs) (\<lambda>known. case known of Some i \<Rightarrow> Inr (grant t i objs)
       | None \<Rightarrow> sbind (find_sum (is_sister e c) objs) (\<lambda>sister. case sister of Some i \<Rightarrow> grant_sister t objs i | None \<Rightarrow> append_certificate e t ml c der objs))) = Inr objs'"
    unfolding merge_cert_def sbind_Inr by blast
  have der: "b64decode pem = Inr der" using 1(1) by (simp add: map_sum_Inr)
  show ?thesis
  proof (cases old)
    case True
    then show ?thesis using der 1(2,3) 2 by (auto split: option.splits)
  next
    case False
    with 2 obtain known where k: "find_sum (has_hash c) objs = Inr known" "(case known of Some i \<Rightarrow> Inr (grant t i objs)
       | None \<Rightarrow> sbind (find_sum (is_sister e c) objs) (\<lambda>sister. case sister of Some i \<Rightarrow> grant_sister t objs i | None \<Rightarrow> append_certificate e t ml c der objs)) = Inr objs'"
      by (auto simp: sbind_Inr)
    show ?thesis
    proof (cases known)
      case None
      with k(2) obtain sister where "find_sum (is_sister e c) objs = Inr sister"
          "(case sister of Some i \<Rightarrow> grant_sister t objs i | None \<Rightarrow> append_certificate e t ml c der objs) = Inr objs'" by (auto simp: sbind_Inr)
      with None k(1) der 1(2) show ?thesis by (cases sister) auto
    qed (use k der 1(2) in auto)
  qed
qed

lemma merge_cert_grants:
  assumes "merge_cert e verify t ml objs pem = Inr objs'" "t \<in> set merge_trust_types"
  shows "grants_only t objs objs'"
proof -
  from merge_cert_cases[OF assms(1)] obtain der c where c: "objs' = objs \<or> (\<exists>i. find_sum (has_hash c) objs = Inr (Some i) \<and> objs' = grant t i objs) \<or>
      (\<exists>i. grant_sister t objs i = Inr objs') \<or> append_certificate e t ml c der objs = Inr objs'"
    by blast
  have cert: "grants_only t objs (objs @ [new_certificate e c comment der])" for comment
    using new_certificate_no_trust by (intro append_grants) auto
  have both: "grants_only t objs (objs @ [new_certificate e c comment der, new_trust e t c comment' l])" for comment comment' l
  proof -
    have "grants_only t (objs @ [new_certificate e c comment der]) ((objs @ [new_certificate e c comment der]) @ [new_trust e t c comment' l])"
      using new_trust_types[of _ e t c comment' l] by (intro append_grants) (auto split: if_splits)
    then show ?thesis using grants_only_trans[OF cert _ assms(2)] by simp
  qed
  show ?thesis using c
  proof (elim disjE exE conjE)
    fix i assume "find_sum (has_hash c) objs = Inr (Some i)" "objs' = grant t i objs"
    then show ?thesis using find_sum_Some[of "has_hash c" objs i] by (auto simp: has_hash_def sbind_Inr class_is_True intro: grant_grants)
  next
    fix i assume "grant_sister t objs i = Inr objs'"
    then show ?thesis using grant_sister_Inr[of t objs i objs'] by (auto intro: grant_grants)
  next
    assume "append_certificate e t ml c der objs = Inr objs'"
    then show ?thesis by (cases rule: append_certificate_cases) (use cert both in \<open>auto intro: grants_only_refl\<close>)
  qed (use grants_only_refl in auto)
qed

lemma merge_certs_grants:
  assumes "fold_sum (merge_cert e verify t ml) objs pems = Inr objs'" "t \<in> set merge_trust_types"
  shows "grants_only t objs objs'"
  using assms(1)
proof (induction pems arbitrary: objs)
  case Nil
  then show ?case by (simp add: grants_only_refl)
next
  case (Cons p pems)
  then obtain mid where "merge_cert e verify t ml objs p = Inr mid" "fold_sum (merge_cert e verify t ml) mid pems = Inr objs'" by (auto split: sum.splits)
  then show ?case using Cons.IH merge_cert_grants[OF _ assms(2)] grants_only_trans[OF _ _ assms(2)] by blast
qed

subsection \<open>Removal\<close>

definition distrusted :: "nss_object \<Rightarrow> bool" where
  \<comment> \<open>a trust object that distrusts for every purpose\<close>
  "distrusted ob = (dget ob ''CKA_CLASS'' = Some (Txt TRUST) \<and> (\<forall>t \<in> set merge_trust_types. dget ob t = Some NOT_TRUSTED))"

definition removes :: "nss_object list \<Rightarrow> nss_object list \<Rightarrow> bool" where
  "removes objs objs' = (length objs' = length objs \<and> (\<forall>i < length objs. \<forall>k. dget (objs' ! i) k \<noteq> dget (objs ! i) k \<longrightarrow>
     k = ''Comment'' \<and> dget (objs' ! i) k = Some NoVal \<and> \<not> distrusted (objs ! i)))"

lemma removes_refl: "removes objs objs"
  by (simp add: removes_def)

lemma distrusted_cong: "\<forall>k. k \<noteq> ''Comment'' \<longrightarrow> dget a k = dget b k \<Longrightarrow> distrusted a = distrusted b"
  using trust_type_other by (auto simp: distrusted_def)

lemma removes_trans:
  assumes "removes a b" "removes b c"
  shows "removes a c"
  unfolding removes_def
proof (intro conjI allI impI)
  show "length c = length a" using assms by (simp add: removes_def)
next
  fix i k assume i: "i < length a" and k: "dget (c ! i) k \<noteq> dget (a ! i) k"
  have same: "distrusted (b ! i) = distrusted (a ! i)" using assms(1) i by (intro distrusted_cong) (auto simp: removes_def)
  show "k = ''Comment''" "dget (c ! i) k = Some NoVal" "\<not> distrusted (a ! i)"
    using k assms i same unfolding removes_def by metis+
qed

lemma removes_mark:
  assumes "i < length objs" "\<not> distrusted (objs ! i)"
  shows "removes objs (objs[i := dset ''Comment'' NoVal (objs ! i)])"
  using assms by (auto simp: removes_def nth_list_update update_conv split: if_splits)

lemma isDistrusted_False:
  assumes "isDistrusted (Some ob) = Inr False"
  shows "\<not> distrusted ob"
proof
  assume "distrusted ob"
  then have "all_distrusted ob ts = Inr True" if "set ts \<subseteq> set merge_trust_types" for ts
    using that by (induction ts) (auto simp: distrusted_def nss_item_def)
  then show False using assms by (simp add: isDistrusted_def)
qed

lemma expire_removes:
  assumes "expire e date objs i = Inr objs'" "i < length objs"
  shows "removes objs objs'"
proof (cases "objs' = objs")
  case False
  let ?ob = "objs ! i" and ?mark = "\<lambda>t. case t of None \<Rightarrow> objs[i := dset ''Comment'' NoVal (objs ! i)]
     | Some j \<Rightarrow> (objs[i := dset ''Comment'' NoVal (objs ! i)])[j := dset ''Comment'' NoVal (objs[i := dset ''Comment'' NoVal (objs ! i)] ! j)]"
  let ?rest = "sbind (nss_item ?ob ''CKA_SERIAL_NUMBER'') (\<lambda>serial. sbind (nss_item ?ob ''CKA_ISSUER'') (\<lambda>issuer. sbind (getTrust objs serial issuer) (\<lambda>t.
      sbind (isDistrusted (map_option (\<lambda>j. objs ! j) t)) (\<lambda>d. if d then Inr objs else sbind (nss_item ?ob ''CKA_LABEL'') (\<lambda>_. Inr (?mark t))))))"
  from assms(1) obtain c where 1: "class_is CERTIFICATE ?ob = Inr c"
    and 2: "(if \<not> c then Inr objs else sbind (load_value e ?ob) (\<lambda>cert. sbind (moment_le (x_after cert) date) (\<lambda>old. if \<not> old then Inr objs else ?rest))) = Inr objs'"
    unfolding expire_def Let_def sbind_Inr[of "class_is CERTIFICATE ?ob"] by blast
  have c: c using 2 False by (cases c) auto
  then have "sbind (load_value e ?ob) (\<lambda>cert. sbind (moment_le (x_after cert) date) (\<lambda>old. if \<not> old then Inr objs else ?rest)) = Inr objs'"
    using 2 by (simp only: if_False not_True_eq_False)
  then obtain old where 3: "(if \<not> old then Inr objs else ?rest) = Inr objs'" by (simp only: sbind_Inr[of "load_value e ?ob"] sbind_Inr[of "moment_le _ _"]) blast
  have old using 3 False by (cases old) auto
  then have 3: "?rest = Inr objs'" using 3 by (simp only: not_True_eq_False if_False)
  from 3 obtain serial issuer t d where t: "getTrust objs serial issuer = Inr t" and d: "isDistrusted (map_option (\<lambda>j. objs ! j) t) = Inr d"
    and 4: "(if d then Inr objs else sbind (nss_item ?ob ''CKA_LABEL'') (\<lambda>_. Inr (?mark t))) = Inr objs'" unfolding sbind_Inr by blast
  have d: "isDistrusted (map_option (\<lambda>j. objs ! j) t) = Inr False" using d 4 False by (cases d) auto
  have o': "objs' = ?mark t" using 4 False by (auto simp only: sbind_Inr split: if_splits)
  have cls: "dget ?ob ''CKA_CLASS'' = Some (Txt CERTIFICATE)" using 1 c by (simp add: class_is_True)
  note t = t d
  let ?o1 = "objs[i := dset ''Comment'' NoVal (objs ! i)]"
  have 1: "removes objs ?o1" using cls assms(2) by (intro removes_mark) (auto simp: distrusted_def)
  show ?thesis
  proof (cases t)
    case (Some j)
    have j: "j < length objs" using getTrust_Some t(1) Some by blast
    have "\<not> distrusted (objs ! j)" using isDistrusted_False[of "objs ! j"] t(2) Some by simp
    moreover have "distrusted (?o1 ! j) = distrusted (objs ! j)" using 1 j by (intro distrusted_cong) (auto simp: removes_def)
    ultimately have "removes ?o1 (?o1[j := dset ''Comment'' NoVal (?o1 ! j)])" using j by (intro removes_mark) simp_all
    with 1 show ?thesis using removes_trans o' Some by (simp add: Let_def)
  qed (use 1 o' in simp)
qed (simp add: removes_refl)

lemma remove_expired_removes:
  assumes "remove_expired e verify objs = Inr objs'"
  shows "removes objs objs'"
proof (cases verify)
  case (Some date)
  have "removes o1 o2" if "fold_sum (expire e date) o1 ids = Inr o2" "\<forall>i \<in> set ids. i < length o1" for ids o1 o2
    using that
  proof (induction ids arbitrary: o1)
    case (Cons i ids)
    then obtain mid where mid: "expire e date o1 i = Inr mid" "fold_sum (expire e date) mid ids = Inr o2" by (auto split: sum.splits)
    have 1: "removes o1 mid" using expire_removes[OF mid(1)] Cons.prems(2) by simp
    then have "removes mid o2" using Cons.IH[OF mid(2)] Cons.prems(2) by (simp add: removes_def)
    with 1 show ?case by (rule removes_trans)
  qed (simp add: removes_refl)
  then show ?thesis using assms Some by (auto simp: remove_expired_def)
qed (use assms in \<open>simp add: remove_expired_def removes_refl\<close>)

text \<open>C30: A run that returns changes an object of the file in two ways only: it marks it as removed, which it never does to a trust object that
  distrusts for every purpose, and it trusts it for the chosen purpose, which it does to trust objects only. An object that it adds
  is trusted for no other purpose.
\<close>

theorem merge_grants_only:
  assumes "merged e opts verify pemcerts objs = Inr objs'" and "mo_trust opts \<in> set merge_trust_types"
  shows "length objs \<le> length objs' \<and> (\<forall>i < length objs. \<forall>k. dget (objs' ! i) k \<noteq> dget (objs ! i) k \<longrightarrow>
      k = ''Comment'' \<and> dget (objs' ! i) k = Some NoVal \<and> \<not> distrusted (objs ! i) \<or>
      k = mo_trust opts \<and> dget (objs' ! i) k = Some DELEGATOR \<and> dget (objs ! i) ''CKA_CLASS'' = Some (Txt TRUST)) \<and>
    (\<forall>i < length objs'. length objs \<le> i \<longrightarrow> (\<forall>k \<in> set merge_trust_types. dget (objs' ! i) k = Some DELEGATOR \<longrightarrow> k = mo_trust opts))"
proof -
  from assms(1) obtain kept where kept: "remove_expired e verify objs = Inr kept" "fold_sum (merge_cert e verify (mo_trust opts) (mo_label opts)) kept pemcerts = Inr objs'"
    by (auto simp: merged_def sbind_Inr)
  note r = remove_expired_removes[OF kept(1)] and g = merge_certs_grants[OF kept(2) assms(2)]
  have 1: "length objs \<le> length objs'" using r g by (simp add: removes_def grants_only_def)
  have 2: "\<forall>i < length objs'. length objs \<le> i \<longrightarrow> (\<forall>k \<in> set merge_trust_types. dget (objs' ! i) k = Some DELEGATOR \<longrightarrow> k = mo_trust opts)"
    using r g by (simp add: removes_def grants_only_def)
  have 3: "\<forall>i < length objs. \<forall>k. dget (objs' ! i) k \<noteq> dget (objs ! i) k \<longrightarrow>
      k = ''Comment'' \<and> dget (objs' ! i) k = Some NoVal \<and> \<not> distrusted (objs ! i) \<or>
      k = mo_trust opts \<and> dget (objs' ! i) k = Some DELEGATOR \<and> dget (objs ! i) ''CKA_CLASS'' = Some (Txt TRUST)"
  proof (intro allI impI)
    fix i k assume i: "i < length objs" and k: "dget (objs' ! i) k \<noteq> dget (objs ! i) k"
    have ik: "i < length kept" using r i by (simp add: removes_def)
    have cls: "dget (kept ! i) ''CKA_CLASS'' = dget (objs ! i) ''CKA_CLASS''" using r i by (auto simp: removes_def)
    show "k = ''Comment'' \<and> dget (objs' ! i) k = Some NoVal \<and> \<not> distrusted (objs ! i) \<or>
      k = mo_trust opts \<and> dget (objs' ! i) k = Some DELEGATOR \<and> dget (objs ! i) ''CKA_CLASS'' = Some (Txt TRUST)"
      using k r g i ik cls unfolding removes_def grants_only_def by metis
  qed
  from 1 2 3 show ?thesis by blast
qed

subsection \<open>No certificate is lost silently\<close>

definition granted :: "merge_env \<Rightarrow> string \<Rightarrow> nss_object list \<Rightarrow> x509 \<Rightarrow> nss_object \<Rightarrow> bool" where
  \<comment> \<open>a trust object with the hash of the certificate, or of a certificate with the same subject and key, delegates for the purpose\<close>
  "granted e t objs c ob = (dget ob ''CKA_CLASS'' = Some (Txt TRUST) \<and> dget ob t = Some DELEGATOR \<and>
     (dget ob ''CKA_CERT_SHA1_HASH'' = Some (Oct (x_sha1 c)) \<or>
      (\<exists>o2 \<in> set objs. is_sister e c o2 = Inr True \<and> dget o2 ''CKA_SERIAL_NUMBER'' = dget ob ''CKA_SERIAL_NUMBER'' \<and> dget o2 ''CKA_ISSUER'' = dget ob ''CKA_ISSUER'')))"

definition trusted_for :: "merge_env \<Rightarrow> string \<Rightarrow> nss_object list \<Rightarrow> x509 \<Rightarrow> bool" where
  \<comment> \<open>in a trust object that is written\<close>
  "trusted_for e t objs c = (\<exists>ob \<in> set objs. granted e t objs c ob \<and> dget ob ''Comment'' \<noteq> Some NoVal)"

definition granted_in_vain :: "merge_env \<Rightarrow> string \<Rightarrow> nss_object list \<Rightarrow> x509 \<Rightarrow> bool" where
  \<comment> \<open>in a trust object that was removed as expired, which is not written\<close>
  "granted_in_vain e t objs c = (\<exists>ob \<in> set objs. granted e t objs c ob \<and> dget ob ''Comment'' = Some NoVal)"

lemma granted_either: "ob \<in> set objs \<Longrightarrow> granted e t objs c ob \<Longrightarrow> trusted_for e t objs c \<or> granted_in_vain e t objs c"
  by (auto simp: trusted_for_def granted_in_vain_def)

definition name_taken :: "merge_env \<Rightarrow> nss_object list \<Rightarrow> x509 \<Rightarrow> bool" where
  \<comment> \<open>another certificate or the trust object of another has the label of the certificate\<close>
  "name_taken e objs c = (label_of c = ''DROPPED'' \<or> (\<exists>ob \<in> set objs. dget ob ''CKA_LABEL'' = Some (in_quotes (label_of c)) \<and>
     (dget ob ''CKA_CLASS'' = Some (Txt CERTIFICATE) \<and> is_sister e c ob = Inr False \<or>
      dget ob ''CKA_CLASS'' = Some (Txt TRUST) \<and> dget ob ''CKA_CERT_SHA1_HASH'' \<noteq> Some (Oct (x_sha1 c)))))"

lemma is_sister_cong:
  assumes "\<forall>k \<in> {''CKA_CLASS'', ''CKA_SUBJECT'', ''CKA_VALUE''}. dget a k = dget b k"
  shows "is_sister e c a = is_sister e c b"
proof -
  have nss_item: "nss_item a ''CKA_CLASS'' = nss_item b ''CKA_CLASS''" "nss_item a ''CKA_SUBJECT'' = nss_item b ''CKA_SUBJECT''" "nss_item a ''CKA_VALUE'' = nss_item b ''CKA_VALUE''"
    using assms by (simp_all add: nss_item_def)
  then have "load_value e a = load_value e b" by (simp only: load_value_def)
  with nss_item show ?thesis by (simp only: is_sister_def class_is_def)
qed

lemma grants_only_keeps:
  assumes "grants_only t objs objs'" "t \<in> set merge_trust_types" "ob \<in> set objs"
  shows "\<exists>ob' \<in> set objs'. (\<forall>k. k \<noteq> t \<longrightarrow> dget ob' k = dget ob k) \<and> (dget ob t = Some DELEGATOR \<longrightarrow> dget ob' t = Some DELEGATOR) \<and> is_sister e c ob' = is_sister e c ob"
proof -
  obtain i where i: "i < length objs" "objs ! i = ob" using assms(3) by (auto simp: in_set_conv_nth)
  then have o': "objs' ! i \<in> set objs'" using assms(1) by (auto simp: grants_only_def)
  have eq: "\<forall>k. k \<noteq> t \<longrightarrow> dget (objs' ! i) k = dget ob k" using assms(1) i unfolding grants_only_def by metis
  moreover have "dget ob t = Some DELEGATOR \<longrightarrow> dget (objs' ! i) t = Some DELEGATOR" using assms(1) i unfolding grants_only_def by metis
  moreover have "is_sister e c (objs' ! i) = is_sister e c ob" using eq trust_type_other[OF assms(2)] by (intro is_sister_cong) auto
  ultimately show ?thesis using o' by blast
qed

lemma granted_stays:
  assumes "granted e t objs c ob" "ob \<in> set objs" "grants_only t objs objs'" "t \<in> set merge_trust_types"
  shows "\<exists>ob' \<in> set objs'. granted e t objs' c ob' \<and> dget ob' ''Comment'' = dget ob ''Comment''"
proof -
  note other = trust_type_other[OF assms(4)] and keeps = grants_only_keeps[OF assms(3,4), of _ e c]
  from assms(1) have ob: "dget ob ''CKA_CLASS'' = Some (Txt TRUST)" "dget ob t = Some DELEGATOR"
    and why: "dget ob ''CKA_CERT_SHA1_HASH'' = Some (Oct (x_sha1 c)) \<or>
      (\<exists>o2 \<in> set objs. is_sister e c o2 = Inr True \<and> dget o2 ''CKA_SERIAL_NUMBER'' = dget ob ''CKA_SERIAL_NUMBER'' \<and> dget o2 ''CKA_ISSUER'' = dget ob ''CKA_ISSUER'')"
    unfolding granted_def by blast+
  obtain ob' where ob': "ob' \<in> set objs'" "\<forall>k. k \<noteq> t \<longrightarrow> dget ob' k = dget ob k" "dget ob' t = Some DELEGATOR" using keeps[OF assms(2)] ob(2) by blast
  have "dget ob' ''CKA_CERT_SHA1_HASH'' = Some (Oct (x_sha1 c)) \<or>
      (\<exists>o2 \<in> set objs'. is_sister e c o2 = Inr True \<and> dget o2 ''CKA_SERIAL_NUMBER'' = dget ob' ''CKA_SERIAL_NUMBER'' \<and> dget o2 ''CKA_ISSUER'' = dget ob' ''CKA_ISSUER'')"
    using why
  proof
    assume "\<exists>o2 \<in> set objs. is_sister e c o2 = Inr True \<and> dget o2 ''CKA_SERIAL_NUMBER'' = dget ob ''CKA_SERIAL_NUMBER'' \<and> dget o2 ''CKA_ISSUER'' = dget ob ''CKA_ISSUER''"
    then obtain o2 where o2: "o2 \<in> set objs" "is_sister e c o2 = Inr True" "dget o2 ''CKA_SERIAL_NUMBER'' = dget ob ''CKA_SERIAL_NUMBER''" "dget o2 ''CKA_ISSUER'' = dget ob ''CKA_ISSUER''" by blast
    then obtain o3 where "o3 \<in> set objs'" "\<forall>k. k \<noteq> t \<longrightarrow> dget o3 k = dget o2 k" "is_sister e c o3 = Inr True" using keeps[OF o2(1)] by auto
    then show ?thesis using o2 ob'(2) other by metis
  qed (use ob'(2) other in metis)
  then have "granted e t objs' c ob'" using ob' ob(1) other unfolding granted_def by metis
  then show ?thesis using ob'(1,2) other by metis
qed

lemma name_taken_stays:
  assumes "name_taken e objs c" "grants_only t objs objs'" "t \<in> set merge_trust_types"
  shows "name_taken e objs' c"
proof (cases "label_of c = ''DROPPED''")
  case False
  note other = trust_type_other[OF assms(3)]
  from assms(1) False obtain ob where ob: "ob \<in> set objs" "dget ob ''CKA_LABEL'' = Some (in_quotes (label_of c))"
     "dget ob ''CKA_CLASS'' = Some (Txt CERTIFICATE) \<and> is_sister e c ob = Inr False \<or> dget ob ''CKA_CLASS'' = Some (Txt TRUST) \<and> dget ob ''CKA_CERT_SHA1_HASH'' \<noteq> Some (Oct (x_sha1 c))"
    unfolding name_taken_def by blast
  obtain ob' where "ob' \<in> set objs'" "\<forall>k. k \<noteq> t \<longrightarrow> dget ob' k = dget ob k" "is_sister e c ob' = is_sister e c ob" using grants_only_keeps[OF assms(2,3) ob(1), of e c] by blast
  then show ?thesis using ob other unfolding name_taken_def by metis
qed (simp add: name_taken_def)

lemma merge_cert_settles:
  assumes "merge_cert e verify t ml objs pem = Inr objs'" "t \<in> set merge_trust_types"
  shows "\<exists>der c. b64decode pem = Inr der \<and> me_load e der = Inr c \<and>
    ((\<exists>date. verify = Some date \<and> moment_le (x_after c) date = Inr True) \<or>
      trusted_for e t objs' c \<or> granted_in_vain e t objs' c \<or> name_taken e objs' c)"
proof -
  obtain der c where c: "b64decode pem = Inr der" "me_load e der = Inr c" and how:
    "objs' = objs \<and> (\<exists>date. verify = Some date \<and> moment_le (x_after c) date = Inr True) \<or>
     (\<exists>i. find_sum (has_hash c) objs = Inr (Some i) \<and> objs' = grant t i objs) \<or>
     (\<exists>i. find_sum (is_sister e c) objs = Inr (Some i) \<and> grant_sister t objs i = Inr objs') \<or>
     find_sum (has_hash c) objs = Inr None \<and> find_sum (is_sister e c) objs = Inr None \<and> append_certificate e t ml c der objs = Inr objs'"
    using merge_cert_cases[OF assms(1)] by blast
  note other = trust_type_other[OF assms(2)] and g = merge_cert_grants[OF assms]
  have "(\<exists>date. verify = Some date \<and> moment_le (x_after c) date = Inr True) \<or>
      trusted_for e t objs' c \<or> granted_in_vain e t objs' c \<or> name_taken e objs' c" using how
  proof (elim disjE exE conjE)
    fix i assume i: "find_sum (has_hash c) objs = Inr (Some i)" "objs' = grant t i objs"
    then have "i < length objs" "dget (objs ! i) ''CKA_CLASS'' = Some (Txt TRUST)" "dget (objs ! i) ''CKA_CERT_SHA1_HASH'' = Some (Oct (x_sha1 c))"
      using find_sum_Some[OF i(1)] by (auto simp: has_hash_def sbind_Inr class_is_True)
    then have "dset t DELEGATOR (objs ! i) \<in> set objs'" "granted e t objs' c (dset t DELEGATOR (objs ! i))"
      using i(2) other by (auto simp: granted_def grant_def update_conv set_update_memI)
    then show ?thesis using granted_either by blast
  next
    fix i assume i: "find_sum (is_sister e c) objs = Inr (Some i)" "grant_sister t objs i = Inr objs'"
    then have s: "i < length objs" "is_sister e c (objs ! i) = Inr True" using find_sum_Some[OF i(1)] by auto
    obtain j where j: "j < length objs" "objs' = grant t j objs" "dget (objs ! j) ''CKA_CLASS'' = Some (Txt TRUST)"
      "dget (objs ! j) ''CKA_SERIAL_NUMBER'' = dget (objs ! i) ''CKA_SERIAL_NUMBER''" "dget (objs ! j) ''CKA_ISSUER'' = dget (objs ! i) ''CKA_ISSUER''"
      using grant_sister_Inr[OF i(2)] by blast
    have cls: "dget (objs ! i) ''CKA_CLASS'' = Some (Txt CERTIFICATE)" using s(2) by (auto simp: is_sister_def sbind_Inr class_is_True split: if_splits)
    then have "i \<noteq> j" using j(3) by auto
    then have "objs ! i \<in> set objs'" using s(1) j(2) by (metis grant_def length_list_update nth_list_update_neq nth_mem)
    moreover have "dset t DELEGATOR (objs ! j) \<in> set objs'" using j(1,2) by (simp add: grant_def set_update_memI)
    ultimately have "granted e t objs' c (dset t DELEGATOR (objs ! j))" "dset t DELEGATOR (objs ! j) \<in> set objs'"
      using j s(2) other by (auto simp: granted_def update_conv)
    then show ?thesis using granted_either by blast
  next
    assume none: "find_sum (has_hash c) objs = Inr None" "find_sum (is_sister e c) objs = Inr None" and app: "append_certificate e t ml c der objs = Inr objs'"
    from app show ?thesis
    proof (cases rule: append_certificate_cases)
      case (clash comment)
      then have "\<exists>i \<in> set objs. dget i ''CKA_LABEL'' = Some (in_quotes (label_of c)) \<and> dget i ''CKA_CLASS'' = Some (Txt CERTIFICATE)"
        using labelExists_True[OF clash(2)] by (simp add: new_certificate_def)
      then have "name_taken e objs' c" using none(2) clash(1) unfolding name_taken_def find_sum_None by blast
      then show ?thesis by blast
    next
      case (lone comment comment')
      have "name_taken e objs' c"
      proof (cases "label_of c = ''DROPPED''")
        case False
        then obtain i where i: "i \<in> set objs'" "dget i ''CKA_LABEL'' = Some (in_quotes (label_of c))" "dget i ''CKA_CLASS'' = Some (Txt TRUST)"
          using lone(2) labelExists_True[of objs' "new_trust e t c comment' (label_of c)"] by (auto simp: new_trust_def)
        then have "i \<in> set objs" using lone(1) by (auto simp: new_certificate_def)
        then have "has_hash c i = Inr False" using none(1) by (auto simp: find_sum_None)
        then have "dget i ''CKA_CERT_SHA1_HASH'' \<noteq> Some (Oct (x_sha1 c))" using i(3) by (auto simp: has_hash_def sbind_Inr class_is_def nss_item_def)
        then show ?thesis using i unfolding name_taken_def by blast
      qed (simp add: name_taken_def)
      then show ?thesis by blast
    next
      case (both comment comment')
      have "dget (new_trust e t c comment' (label_of c)) ''CKA_CLASS'' = Some (Txt TRUST)"
        "dget (new_trust e t c comment' (label_of c)) ''CKA_CERT_SHA1_HASH'' = Some (Oct (x_sha1 c))" by (simp_all add: new_trust_def)
      moreover have "dget (new_trust e t c comment' (label_of c)) ''Comment'' = Some (Txt comment')" by (simp add: new_trust_def)
      ultimately have "trusted_for e t objs' c"
        using both new_trust_types[OF assms(2), of e t c comment' "label_of c"] unfolding trusted_for_def granted_def by auto
      then show ?thesis by blast
    qed
  qed blast
  then show ?thesis using c by blast
qed

text \<open>C31: After a run that returns, each certificate of the PEM file can be read and either has expired at the given date, or is trusted for the
  chosen purpose in a trust object that is written, by its hash or through a certificate with the same subject and key, or was left out
  because another certificate has its name, or is lost: it was granted the purpose in a trust object that was removed before and is not
  written. There is no other way out.\<close>

theorem pem_certificates_settled:
  assumes "merged e opts verify pemcerts objs = Inr objs'" and "mo_trust opts \<in> set merge_trust_types" and "pem \<in> set pemcerts"
  shows "\<exists>der c. b64decode pem = Inr der \<and> me_load e der = Inr c \<and>
    ((\<exists>date. verify = Some date \<and> moment_le (x_after c) date = Inr True) \<or>
     trusted_for e (mo_trust opts) objs' c \<or> granted_in_vain e (mo_trust opts) objs' c \<or> name_taken e objs' c)"
proof -
  let ?m = "merge_cert e verify (mo_trust opts) (mo_label opts)"
  obtain us vs where p: "pemcerts = us @ pem # vs" using assms(3) by (meson split_list)
  from assms(1) obtain o1 where "fold_sum ?m o1 (pem # vs) = Inr objs'" by (auto simp: merged_def sbind_Inr p fold_sum_append simp del: fold_sum.simps)
  then obtain o2 where o: "?m o1 pem = Inr o2" "fold_sum ?m o2 vs = Inr objs'" by (auto split: sum.splits)
  have g: "grants_only (mo_trust opts) o2 objs'" using merge_certs_grants[OF o(2) assms(2)] .
  have "trusted_for e (mo_trust opts) objs' c" if "trusted_for e (mo_trust opts) o2 c" for c
    using that granted_stays[OF _ _ g assms(2)] unfolding trusted_for_def by metis
  moreover have "granted_in_vain e (mo_trust opts) objs' c" if "granted_in_vain e (mo_trust opts) o2 c" for c
    using that granted_stays[OF _ _ g assms(2)] unfolding granted_in_vain_def by metis
  ultimately show ?thesis using merge_cert_settles[OF o(1) assms(2)] name_taken_stays[OF _ g assms(2)] by blast
qed

subsection \<open>Witnesses\<close>

definition sample_day :: "nat \<Rightarrow> moment" where
  "sample_day y = \<lparr>m_year = y, m_month = 1, m_day = 1, m_hour = 12, m_minute = 0, m_second = 0, m_micro = 0, m_offset = None\<rparr>"

definition sample_x509 :: "string \<Rightarrow> x509" where
  \<comment> \<open>certificates that differ in their single byte\<close>
  "sample_x509 b = \<lparr>x_subject = b, x_issuer = ''i'', x_key = b, x_cn = [b], x_ou = [], x_o = [], x_serial = 7, x_before = sample_day 2020,
     x_after = sample_day (if b = ''0'' then 2021 else 2040), x_sha1 = b, x_md5 = b, x_subject_text = ''CN='' @ b, x_issuer_text = ''CN=i''\<rparr>"

definition sample_merge :: merge_env where
  "sample_merge = \<lparr>me_load = (\<lambda>b. if length b = 1 then Inr (sample_x509 b) else Inl (ValueError ''error parsing asn1 value'')), me_asn1 = (\<lambda>i. [CHR 0x02, CHR 0x01, char_of (nat i)]),
     me_date = (\<lambda>s. Inl (ValueError s)), me_today = sample_day 2025, me_repr = (\<lambda>b. b), me_percent = (\<lambda>s a. Inl (ValueError ''unsupported format character''))\<rparr>"

definition sample_trust :: "string \<Rightarrow> string \<Rightarrow> nss_object" where
  "sample_trust b v = [(''CKA_CLASS'', Txt TRUST), (''CKA_LABEL'', in_quotes b), (''CKA_CERT_SHA1_HASH'', Oct b), (''CKA_ISSUER'', Oct ''i''), (''CKA_SERIAL_NUMBER'', Oct b),
     (''CKA_TRUST_SERVER_AUTH'', Txt v), (''CKA_TRUST_EMAIL_PROTECTION'', Txt v), (''CKA_TRUST_CODE_SIGNING'', Txt v)]"

definition sample_root :: "string \<Rightarrow> nss_object" where
  "sample_root b = [(''CKA_CLASS'', Txt CERTIFICATE), (''CKA_LABEL'', in_quotes b), (''CKA_SUBJECT'', Oct b), (''CKA_ISSUER'', Oct ''i''), (''CKA_SERIAL_NUMBER'', Oct b), (''CKA_VALUE'', Oct b)]"

definition sample_options :: merge_options where
  "sample_options = \<lparr>mo_certdata = [''certdata.txt''], mo_pem = [''cert.pem''], mo_output = [''out''], mo_trust = ''CKA_TRUST_CODE_SIGNING'', mo_label = ''Extra'', mo_date = ''TODAY''\<rparr>"

text \<open>An expired root is removed and a known one is trusted for code signing.\<close>

definition sample_objects :: "nss_object list" where
  "sample_objects = [sample_root ''0'', sample_trust ''0'' ''CKT_NSS_MUST_VERIFY_TRUST'', sample_trust ''1'' ''CKT_NSS_MUST_VERIFY_TRUST'']"

definition sample_result :: "nss_object list" where
  "sample_result = [dset ''Comment'' NoVal (sample_root ''0''), dset ''Comment'' NoVal (sample_trust ''0'' ''CKT_NSS_MUST_VERIFY_TRUST''),
     dset ''CKA_TRUST_CODE_SIGNING'' DELEGATOR (sample_trust ''1'' ''CKT_NSS_MUST_VERIFY_TRUST'')]"

lemma sample_loads [simp]:
  "me_load sample_merge ''0'' = Inr (sample_x509 ''0'')" "me_load sample_merge ''1'' = Inr (sample_x509 ''1'')" "x_sha1 (sample_x509 ''1'') = ''1''"
  by (simp_all add: sample_merge_def sample_x509_def)

lemma sample_decoded [simp]: "b64decode ''MQ=='' = Inr ''1''"
  by code_simp

lemma sample_days [simp]: "moment_le (x_after (sample_x509 ''0'')) (sample_day 2025) = Inr True" "moment_le (x_after (sample_x509 ''1'')) (sample_day 2025) = Inr False"
  by (simp_all add: sample_x509_def sample_day_def moment_le_def instant_def ordinal_def seconds_of_day_def days_before_month_def)

lemma sample_removed: "remove_expired sample_merge (Some (sample_day 2025)) sample_objects = Inr [dset ''Comment'' NoVal (sample_root ''0''),
    dset ''Comment'' NoVal (sample_trust ''0'' ''CKT_NSS_MUST_VERIFY_TRUST''), sample_trust ''1'' ''CKT_NSS_MUST_VERIFY_TRUST'']"
  by (simp add: remove_expired_def sample_objects_def sample_root_def sample_trust_def upt_rec[of 0] upt_rec[of "Suc _"] expire_def class_is_def nss_item_def load_value_def
      getTrust_def is_trust_of_def isDistrusted_def merge_trust_types_def Let_def)

lemma sample_run: "merged sample_merge sample_options (Some (sample_day 2025)) [''MQ==''] sample_objects = Inr sample_result"
  by (simp add: merged_def sample_removed merge_cert_def has_hash_def sample_root_def sample_trust_def class_is_def nss_item_def grant_def sample_result_def sample_options_def)

lemma merge_grants_only_witness:
  "dget (sample_result ! 0) ''Comment'' \<noteq> dget (sample_objects ! 0) ''Comment'' \<and> \<not> distrusted (sample_objects ! 0)"
proof -
  have "dget (sample_result ! 0) ''Comment'' \<noteq> dget (sample_objects ! 0) ''Comment''" "0 < length sample_objects" by code_simp+
  then show ?thesis using merge_grants_only[OF sample_run] by (auto simp: sample_options_def merge_trust_types_def)
qed

lemma pem_certificates_settled_witness: "trusted_for sample_merge ''CKA_TRUST_CODE_SIGNING'' sample_result (sample_x509 ''1'')"
proof -
  have "\<not> name_taken sample_merge sample_result (sample_x509 ''1'')" "\<not> granted_in_vain sample_merge ''CKA_TRUST_CODE_SIGNING'' sample_result (sample_x509 ''1'')"
    by code_simp+
  then show ?thesis using pem_certificates_settled[OF sample_run, of "''MQ==''"] by (simp add: sample_options_def merge_trust_types_def)
qed

end
