(* ===== verification/Certdata_Pem.thy ===== *)
theory Certdata_Pem
  imports Certdata Py_Base64
begin

section \<open>Splitting certdata.txt into files\<close>

text \<open>
  The rest of \<open>certdata2pem.py\<close>: for every trust object a file for p11-kit with the certificate of the same label and serial number.
  \<open>openssl\<close> and \<open>sed\<close> are questions to the host. \<open>subst\<close> reads bytes that are no UTF-8 with \<open>errors='replace'\<close>. A file name is relative to the
  working directory, and may hold slashes, because escapes of a label are decoded after its slashes were replaced.
\<close>

subsection \<open>Tables\<close>

definition trust_types :: "(string \<times> string) list" where
  "trust_types = [(''CKA_TRUST_DIGITAL_SIGNATURE'', ''digital-signature''), (''CKA_TRUST_NON_REPUDIATION'', ''non-repudiation''),
     (''CKA_TRUST_KEY_ENCIPHERMENT'', ''key-encipherment''), (''CKA_TRUST_DATA_ENCIPHERMENT'', ''data-encipherment''), (''CKA_TRUST_KEY_AGREEMENT'', ''key-agreement''),
     (''CKA_TRUST_KEY_CERT_SIGN'', ''cert-sign''), (''CKA_TRUST_CRL_SIGN'', ''crl-sign''), (''CKA_TRUST_SERVER_AUTH'', ''server-auth''),
     (''CKA_TRUST_CLIENT_AUTH'', ''client-auth''), (''CKA_TRUST_CODE_SIGNING'', ''code-signing''), (''CKA_TRUST_EMAIL_PROTECTION'', ''email-protection''),
     (''CKA_TRUST_IPSEC_END_SYSTEM'', ''ipsec-end-system''), (''CKA_TRUST_IPSEC_TUNNEL'', ''ipsec-tunnel''), (''CKA_TRUST_IPSEC_USER'', ''ipsec-user''),
     (''CKA_TRUST_TIME_STAMPING'', ''time-stamping''), (''CKA_TRUST_STEP_UP_APPROVED'', ''step-up-approved'')]"

definition legacy_to_real_trust_types :: "(string \<times> string) list" where
  "legacy_to_real_trust_types = [(''LEGACY_CKA_TRUST_SERVER_AUTH'', ''CKA_TRUST_SERVER_AUTH''), (''LEGACY_CKA_TRUST_CODE_SIGNING'', ''CKA_TRUST_CODE_SIGNING''),
     (''LEGACY_CKA_TRUST_EMAIL_PROTECTION'', ''CKA_TRUST_EMAIL_PROTECTION'')]"

definition openssl_trust :: "(string \<times> string) list" where
  "openssl_trust = [(''CKA_TRUST_SERVER_AUTH'', ''serverAuth''), (''CKA_TRUST_CLIENT_AUTH'', ''clientAuth''), (''CKA_TRUST_CODE_SIGNING'', ''codeSigning''),
     (''CKA_TRUST_EMAIL_PROTECTION'', ''emailProtection'')]"

definition cert_distrust_types :: "(string \<times> string) list" where
  "cert_distrust_types = [(''CKA_NSS_SERVER_DISTRUST_AFTER'', ''nss-server-distrust-after''), (''CKA_NSS_EMAIL_DISTRUST_AFTER'', ''nss-email-distrust-after'')]"

subsection \<open>Keys and names\<close>

definition printable_serial :: "nss_object \<Rightarrow> exn + string" where
  "printable_serial ob = (sbind (nss_item ob ''CKA_SERIAL_NUMBER'') (\<lambda>v.
    (case v of Oct b \<Rightarrow> Inr (join ''.'' (map (\<lambda>c. show_nat (of_char c)) b)) | Txt s \<Rightarrow> Inr (join ''.'' (map (\<lambda>c. [c]) s)) | NoVal \<Rightarrow> Inl (TypeError ''NoneType''))))"

definition object_key :: "nss_object \<Rightarrow> exn + string" where
  "object_key ob = (sbind (nss_item ob ''CKA_LABEL'') (\<lambda>v.
    sbind (printable_serial ob) (\<lambda>serial.
    sbind (text_of v) (\<lambda>label.
    Inr (label @ serial)))))"

definition build_map :: "string \<Rightarrow> nss_object list \<Rightarrow> exn + (string \<times> nss_object) list" where
  "build_map c objs = fold_sum (\<lambda>m ob. (sbind (class_is c ob) (\<lambda>b.
    if \<not> b then Inr m else map_sum id (\<lambda>key. dset key ob m) (object_key ob)))) [] objs"

definition unhex :: "char \<Rightarrow> char \<Rightarrow> exn + string" where
  \<comment> \<open>\<open>bytes.fromhex\<close> of two characters; it skips white space\<close>
  "unhex a b = (case (hex_digit_val a, hex_digit_val b) of (Some x, Some y) \<Rightarrow> Inr [char_of (x * 16 + y)]
     | _ \<Rightarrow> if is_ws a \<and> is_ws b then Inr [] else Inl (ValueError ''non-hexadecimal number found in fromhex() arg''))"

fun unescape_label :: "string \<Rightarrow> exn + string" where
  "unescape_label (x # y # a # b # s) = (if x = CHR 0x5C \<and> y = CHR ''x'' then (sbind (unhex a b) (\<lambda>h.
    map_sum id ((@) h) (unescape_label s)))
     else map_sum id ((#) x) (unescape_label (y # a # b # s)))"
| "unescape_label s = Inr s"

definition between :: "nat \<Rightarrow> nat \<Rightarrow> char \<Rightarrow> bool" where
  "between a b c = (a \<le> of_char c \<and> of_char c \<le> b)"

fun utf8_ok :: "string \<Rightarrow> bool" where
  "utf8_ok [] = True"
| "utf8_ok (a # s) = (if between 0 127 a then utf8_ok s else (case s of [] \<Rightarrow> False | b # s2 \<Rightarrow>
     if between 194 223 a then between 128 191 b \<and> utf8_ok s2 else (case s2 of [] \<Rightarrow> False | c # s3 \<Rightarrow>
       if between 224 239 a then between (if of_char a = (224 :: nat) then 160 else 128) (if of_char a = (237 :: nat) then 159 else 191) b \<and> between 128 191 c \<and> utf8_ok s3
       else (case s3 of [] \<Rightarrow> False | d # s4 \<Rightarrow> between 240 244 a \<and> between (if of_char a = (240 :: nat) then 144 else 128) (if of_char a = (244 :: nat) then 143 else 191) b \<and>
         between 128 191 c \<and> between 128 191 d \<and> utf8_ok s4))))"

definition safe_char :: "char \<Rightarrow> char" where
  "safe_char c = (if c \<in> set ''/ ,'' then CHR ''_'' else if c \<in> set ''()'' then CHR ''='' else c)"

definition obj_to_filename :: "nss_object \<Rightarrow> exn + string" where
  "obj_to_filename ob = (sbind (nss_item ob ''CKA_LABEL'') (\<lambda>v.
    sbind (text_of v) (\<lambda>s.
    sbind (unescape_label (map safe_char (butlast (tl s)))) (\<lambda>label.
    if \<not> utf8_ok label then Inl UnicodeDecodeError else (sbind (printable_serial ob) (\<lambda>serial.
      Inr (label @ '':'' @ serial)))))))"

definition open_w :: "string \<Rightarrow> path prog" where
  \<comment> \<open>\<open>open(name, 'w')\<close>\<close>
  "open_w name = (let p = split_on CHR ''/'' name in (bind (is_dir (butlast p)) (\<lambda>parent.
    if butlast p \<noteq> [] \<and> \<not> parent then (raise (FileNotFoundError name)) else
    bind (is_dir p) (\<lambda>there.
    if there then (raise (OSError name)) else
    seq (write_text p []) (
    ret p)))))"

subsection \<open>Trust\<close>

definition says :: "nss_object \<Rightarrow> nss_value \<Rightarrow> string \<Rightarrow> bool" where
  \<comment> \<open>\<open>t in tobj and tobj[t] == v\<close>\<close>
  "says tobj v t = (dget tobj t = Some v)"

definition trustbits :: "nss_object \<Rightarrow> string list" where
  "trustbits tobj = filter (says tobj DELEGATOR) (map fst trust_types)"

definition openssl_flags :: "string list \<Rightarrow> string list" where
  "openssl_flags ts = List.map_filter (dget openssl_trust) ts"

definition legacy_trustbits :: "string \<Rightarrow> nss_object \<Rightarrow> exn + string list" where
  \<comment> \<open>with the last line of the file for the message\<close>
  "legacy_trustbits line tobj = concat_sum (\<lambda>(t, real_t). if says tobj NOT_TRUSTED t then Inl (NotImplementedError (''legacy distrust not supported.'' @ [nl] @ line))
     else Inr (if says tobj DELEGATOR t then [real_t] else [])) legacy_to_real_trust_types"

definition BEGIN_CERT :: string where "BEGIN_CERT = ''-----BEGIN CERTIFICATE-----'' @ [nl]"
definition END_CERT :: string where "END_CERT = [nl] @ ''-----END CERTIFICATE-----'' @ [nl]"

definition cert_base64 :: "nss_object \<Rightarrow> exn + string" where
  "cert_base64 ob = (sbind (nss_item ob ''CKA_VALUE'') (\<lambda>v.
    (case v of Oct b \<Rightarrow> Inr (b64encode b) | _ \<Rightarrow> Inl (TypeError ''a bytes-like object is required''))))"

definition pem_pieces :: "nss_object \<Rightarrow> (exn + string) list" where
  "pem_pieces ob = [Inr BEGIN_CERT, map_sum id (\<lambda>s. join [nl] (wrap64 s)) (cert_base64 ob), Inr END_CERT]"

subsection \<open>Legacy trust\<close>

definition is_legacy_trust :: "nss_object \<Rightarrow> bool" where
  "is_legacy_trust tobj = list_ex (has_key tobj) [''LEGACY_CKA_TRUST_SERVER_AUTH'', ''LEGACY_CKA_TRUST_EMAIL_PROTECTION'', ''LEGACY_CKA_TRUST_CODE_SIGNING'']"

definition alias_pieces :: "nss_object \<Rightarrow> string list \<Rightarrow> (exn + string) list" where
  "alias_pieces tobj bits = [(sbind (nss_item tobj ''CKA_LABEL'') (\<lambda>v.
    sbind (text_of v) (\<lambda>s.
    Inr (''# alias='' @ s @ [nl])))), Inr (''# trust='' @ join '' '' bits @ [nl])] @
     (if openssl_flags bits \<noteq> [] then [Inr (''# openssl-trust='' @ join '' '' (openssl_flags bits) @ [nl])] else [])"

definition legacy_files :: "string \<Rightarrow> nss_object \<Rightarrow> nss_object option \<Rightarrow> string list \<Rightarrow> string \<Rightarrow> unit prog" where
  \<comment> \<open>the second file is never finished: \<open>textwrap.wrap\<close> is given bytes\<close>
  "legacy_files line tobj certobj bits fname = (case certobj of
       None \<Rightarrow> raise (NotImplementedError (''found legacy trust without certificate.'' @ [nl] @ line))
     | Some ob \<Rightarrow> (bind (open_w (''legacy-default/'' @ fname @ ''.crt'')) (\<lambda>p.
       seq (write_pieces p (alias_pieces tobj bits @ pem_pieces ob)) (
       if \<not> list_ex (has_key tobj) [''CKA_TRUST_SERVER_AUTH'', ''CKA_TRUST_EMAIL_PROTECTION'', ''CKA_TRUST_CODE_SIGNING''] then (ret ()) else
       bind (open_w (''legacy-disable/'' @ fname @ ''.crt'')) (\<lambda>q.
       write_pieces q (alias_pieces tobj (trustbits tobj) @ [Inr BEGIN_CERT, (sbind (cert_base64 ob) (\<lambda>_.
         Inl (TypeError ''a bytes-like object is required'')))]))))))"

subsection \<open>OpenSSL\<close>

definition call_into :: "host \<Rightarrow> string list \<Rightarrow> path \<Rightarrow> unit prog" where
  \<comment> \<open>\<open>subprocess.call(args, stdout=f)\<close>; the exit status is not looked at\<close>
  "call_into h args p = (bind (ask_host h (Proc args [])) (\<lambda>r.
    (case r of Exit _ out _ \<Rightarrow> write_text p out | NoProgram \<Rightarrow> raise (FileNotFoundError (hd args)) | _ \<Rightarrow> ret ())))"

definition read_replacing :: "(string \<Rightarrow> string) \<Rightarrow> path \<Rightarrow> string prog" where
  "read_replacing subst p = (\<lambda>w. case map_of (files w) p of Some (BinN b) \<Rightarrow> (Inr (subst b), w) | _ \<Rightarrow> read_text p w)"

definition openssl_info :: "host \<Rightarrow> (string \<Rightarrow> string) \<Rightarrow> string \<Rightarrow> nss_object \<Rightarrow> (string \<times> string) prog" where
  \<comment> \<open>the public key and the comment\<close>
  "openssl_info h subst fname ob = (let cert_fname = ''cert-'' @ fname in (bind (open_w cert_fname) (\<lambda>p.
    seq (write_pieces p (pem_pieces ob)) (
    bind (open_w (''pubkey-'' @ fname)) (\<lambda>q.
    seq (call_into h [''openssl'', ''x509'', ''-in'', cert_fname, ''-noout'', ''-pubkey''] q) (
    bind (read_text q) (\<lambda>pk.
    bind (open_w (''comment-'' @ fname)) (\<lambda>c.
    seq (call_into h [''openssl'', ''x509'', ''-in'', cert_fname, ''-noout'', ''-text''] c) (
    bind (ask_host h (Proc [''sed'', ''--in-place'', ''s/^/#/'', ''comment-'' @ fname] [])) (\<lambda>r.
    if r = NoProgram then (raise (FileNotFoundError ''sed'')) else
    bind (read_replacing subst c) (\<lambda>cert_comment.
    ret (pk, cert_comment))))))))))))"

subsection \<open>The file for p11-kit\<close>

definition ext_pieces :: "nss_object \<Rightarrow> string \<Rightarrow> string \<Rightarrow> string \<Rightarrow> (exn + string) list" where
  "ext_pieces tobj oid val public_key = [Inr (''[p11-kit-object-v1]'' @ [nl]), Inr ''label: '', (sbind (nss_item tobj ''CKA_LABEL'') (\<lambda>v.
    text_of v)),
     Inr ([nl] @ ''class: x-certificate-extension'' @ [nl]), Inr (''object-id: '' @ oid @ [nl]), Inr (''value: '' @ [CHR 0x22] @ val @ [CHR 0x22, nl]),
     Inr (''modifiable: false'' @ [nl]), Inr public_key]"

definition DISTRUST_VALUE :: string where
  "DISTRUST_VALUE = ''0.%06%0a%2b%06%01%04%01%99w%06%0a%01%04 0%1e%06%08%2b%06%01%05%05%07%03%04%06%08%2b%06%01%05%05%07%03%01%06%08%2b%06%01%05%05%07%03%03''"

definition usage_value :: "bool \<Rightarrow> bool \<Rightarrow> bool \<Rightarrow> string" where
  \<comment> \<open>\<open>trust_ext_value\<close> for server, email and code trust\<close>
  "usage_value server email code = (if server
     then (if email
       then (if code then ''0%2a%06%03U%1d%25%01%01%ff%04 0%1e%06%08%2b%06%01%05%05%07%03%04%06%08%2b%06%01%05%05%07%03%01%06%08%2b%06%01%05%05%07%03%03''
         else ''0 %06%03U%1d%25%01%01%ff%04%160%14%06%08%2b%06%01%05%05%07%03%04%06%08%2b%06%01%05%05%07%03%01'')
       else (if code then ''0 %06%03U%1d%25%01%01%ff%04%160%14%06%08%2b%06%01%05%05%07%03%01%06%08%2b%06%01%05%05%07%03%03''
         else ''0%16%06%03U%1d%25%01%01%ff%04%0c0%0a%06%08%2b%06%01%05%05%07%03%01''))
     else (if email
       then (if code then ''0 %06%03U%1d%25%01%01%ff%04%160%14%06%08%2b%06%01%05%05%07%03%04%06%08%2b%06%01%05%05%07%03%03''
         else ''0%16%06%03U%1d%25%01%01%ff%04%0c0%0a%06%08%2b%06%01%05%05%07%03%04'')
       else (if code then ''0%16%06%03U%1d%25%01%01%ff%04%0c0%0a%06%08%2b%06%01%05%05%07%03%03''
         else ''0%18%06%03U%1d%25%01%01%ff%04%0e0%0c%06%0a%2b%06%01%04%01%99w%06%0a%10'')))"

definition is_distrusted :: "nss_object \<Rightarrow> bool" where
  "is_distrusted tobj = list_ex (says tobj NOT_TRUSTED) [''CKA_TRUST_SERVER_AUTH'', ''CKA_TRUST_EMAIL_PROTECTION'', ''CKA_TRUST_CODE_SIGNING'']"

definition has_trust :: "nss_object \<Rightarrow> bool" where
  "has_trust tobj = list_ex (says tobj DELEGATOR) [''CKA_TRUST_SERVER_AUTH'', ''CKA_TRUST_EMAIL_PROTECTION'', ''CKA_TRUST_CODE_SIGNING'']"

definition usage_of :: "nss_object \<Rightarrow> string" where
  "usage_of tobj = usage_value (says tobj DELEGATOR ''CKA_TRUST_SERVER_AUTH'') (says tobj DELEGATOR ''CKA_TRUST_EMAIL_PROTECTION'') (says tobj DELEGATOR ''CKA_TRUST_CODE_SIGNING'')"

definition quote_value :: "nss_value \<Rightarrow> exn + string" where
  \<comment> \<open>\<open>urllib.parse.quote\<close>\<close>
  "quote_value v = (case v of Oct b \<Rightarrow> Inr (url_quote ''/'' b) | Txt s \<Rightarrow> Inr (url_quote ''/'' s) | NoVal \<Rightarrow> Inl (TypeError ''quote_from_bytes() expected bytes''))"

definition distrust_after_pieces :: "nss_object \<Rightarrow> string \<times> string \<Rightarrow> (exn + string) list" where
  "distrust_after_pieces ob ft = (case ft of (t, name) \<Rightarrow> (case dget ob t of None \<Rightarrow> []
     | Some v \<Rightarrow> [Inr (name @ '': '' @ [CHR 0x22]), quote_value (if v = Txt ''CK_FALSE'' then Oct [CHR 0x00] else v), Inr [CHR 0x22, nl]]))"

definition cert_pieces :: "nss_object \<Rightarrow> nss_object \<Rightarrow> string \<Rightarrow> string \<Rightarrow> (exn + string) list" where
  "cert_pieces tobj ob pk cert_comment =
     (if is_distrusted tobj then ext_pieces tobj ''1.3.6.1.4.1.3319.6.10.1'' DISTRUST_VALUE pk else []) @
     (if is_distrusted tobj \<or> has_trust tobj then ext_pieces tobj ''2.5.29.37'' (usage_of tobj) pk else []) @
     [Inr [nl], Inr (''[p11-kit-object-v1]'' @ [nl]), Inr ''label: '', (sbind (nss_item tobj ''CKA_LABEL'') (\<lambda>v.
       text_of v)), Inr [nl],
      Inr ((if is_distrusted tobj then ''x-distrusted: true'' else if has_trust tobj then ''trusted: true'' else ''trusted: false'') @ [nl]),
      Inr (''nss-mozilla-ca-policy: true'' @ [nl]), Inr (''modifiable: false'' @ [nl])] @
     concat (map (distrust_after_pieces ob) cert_distrust_types) @ pem_pieces ob @ [Inr cert_comment, Inr [nl]]"

fun some_distrusted :: "nss_object \<Rightarrow> string list \<Rightarrow> exn + bool" where
  "some_distrusted tobj [] = Inr False"
| "some_distrusted tobj (t # ts) = (sbind (nss_item tobj t) (\<lambda>v.
  if v = NOT_TRUSTED then Inr True else some_distrusted tobj ts))"

definition lone_pieces :: "nss_object \<Rightarrow> (exn + string) list" where
  \<comment> \<open>a trust object without certificate\<close>
  "lone_pieces tobj = [Inr (''[p11-kit-object-v1]'' @ [nl]), Inr ''label: '', (sbind (nss_item tobj ''CKA_LABEL'') (\<lambda>v.
    text_of v)),
     Inr ([nl] @ ''class: certificate'' @ [nl] @ ''certificate-type: x-509'' @ [nl] @ ''modifiable: false'' @ [nl] @ ''issuer: '' @ [CHR 0x22]),
     (sbind (nss_item tobj ''CKA_ISSUER'') (\<lambda>v.
       quote_value v)), Inr ([CHR 0x22, nl] @ ''serial-number: '' @ [CHR 0x22]),
     (sbind (nss_item tobj ''CKA_SERIAL_NUMBER'') (\<lambda>v.
       quote_value v)), Inr [CHR 0x22, nl],
     map_sum id (\<lambda>b. if b then ''x-distrusted: true'' @ [nl] else []) (some_distrusted tobj [''CKA_TRUST_SERVER_AUTH'', ''CKA_TRUST_EMAIL_PROTECTION'', ''CKA_TRUST_CODE_SIGNING'']),
     Inr [nl, nl]]"

definition produce_trust :: "host \<Rightarrow> (string \<Rightarrow> string) \<Rightarrow> string \<Rightarrow> (string \<times> nss_object) list \<Rightarrow> nss_object \<Rightarrow> unit prog" where
  "produce_trust h subst line certmap tobj = (bind (from_sum (class_is TRUST tobj)) (\<lambda>c.
    if \<not> c then (ret ()) else
    bind (from_sum (object_key tobj)) (\<lambda>key.
    bind (from_sum (legacy_trustbits line tobj)) (\<lambda>legacy.
    bind (from_sum (obj_to_filename tobj)) (\<lambda>fname.
    let certobj = dget certmap key in
    if is_legacy_trust tobj then (legacy_files line tobj certobj legacy fname) else
    (case certobj of
       Some ob \<Rightarrow> (bind (openssl_info h subst fname ob) (\<lambda>(pk, cert_comment).
         bind (open_w (fname @ ''.tmp-p11-kit'')) (\<lambda>p.
         write_pieces p (cert_pieces tobj ob pk cert_comment))))
     | None \<Rightarrow> (bind (open_w (fname @ ''.tmp-p11-kit'')) (\<lambda>p.
       write_pieces p (lone_pieces tobj)))))))))"

definition certdata2pem :: "host \<Rightarrow> (string \<Rightarrow> string) \<Rightarrow> unit prog" where
  "certdata2pem h subst = (bind (read_text [''certdata.txt'']) (\<lambda>s.
    bind (from_sum (parse_certdata s)) (\<lambda>objs.
    bind (from_sum (build_map TRUST objs)) (\<lambda>_.
    bind (from_sum (build_map CERTIFICATE objs)) (\<lambda>certmap.
    forM (produce_trust h subst (last (text_lines s)) certmap) objs)))))"

end
