(* ===== verification/Certdata_Files.thy ===== *)
theory Certdata_Files
  imports Certdata_Pem Certdata_Merge
begin

section \<open>What the split writes\<close>

text \<open>
  The certificates in the files of \<open>certdata2pem.py\<close> are read back by the PEM reader of \<open>mergepem2certdata.py\<close>, and the extension for
  p11-kit denotes exactly the purposes a trust object delegates, under a small reader for DER.
\<close>

subsection \<open>Certificates\<close>

definition pem_block_lines :: "string \<Rightarrow> string list" where
  "pem_block_lines der = (let ws = wrap64 (b64encode der) in if ws = [] then [[nl]] else map (\<lambda>l. l @ [nl]) ws)"

definition pem_block :: "string \<Rightarrow> string list" where
  "pem_block der = [BEGIN_CERT] @ pem_block_lines der @ [''-----END CERTIFICATE-----'' @ [nl]]"

lemma join_nl: "ws \<noteq> [] \<Longrightarrow> join [nl] ws @ [nl] = concat (map (\<lambda>l. l @ [nl]) ws)"
proof (induction ws)
  case (Cons w ws)
  then show ?case by (cases "ws = []") (simp_all add: join_Cons)
qed simp

lemma pem_pieces_text:
  assumes "dget ob ''CKA_VALUE'' = Some (Oct der)"
  shows "pieces (pem_pieces ob) = (concat (pem_block der), None)"
proof -
  let ?ws = "wrap64 (b64encode der)"
  have "join [nl] ?ws @ [nl] = concat (pem_block_lines der)" using join_nl[of ?ws] by (auto simp: pem_block_lines_def Let_def)
  then have "join [nl] ?ws @ nl # t = concat (pem_block_lines der) @ t" for t by (metis append.assoc append_Cons append_Nil)
  then show ?thesis using assms by (simp add: pem_pieces_def cert_base64_def nss_item_def END_CERT_def pem_block_def)
qed

lemma text_lines_concat: "\<forall>l \<in> set ls. \<exists>k. l = k @ [nl] \<and> nl \<notin> set k \<and> cr \<notin> set k \<Longrightarrow> text_lines (concat ls @ t) = ls @ text_lines t"
  by (induction ls) (auto simp: text_lines_line)

lemma contains_set: "contains s p \<Longrightarrow> set p \<subseteq> set s"
by (auto simp: contains_iff)

lemma wrapped_line:
  assumes "l \<in> set (wrap64 (b64encode der))"
  shows "l \<noteq> []" "c \<in> set l \<Longrightarrow> b64_alphabet c"
  using wrap64_lines[OF assms] b64encode_alphabet by blast+

lemma alphabet_not: "b64_alphabet c \<Longrightarrow> c \<noteq> nl \<and> c \<noteq> CHR '' '' \<and> c \<noteq> CHR ''#'' \<and> \<not> is_ws c \<and> c \<noteq> cr"
  by (auto simp: b64_alphabet_def b64_val_def is_upper_def is_lower_def is_digit_def is_ws_def Let_def split: if_splits)

lemma pem_line_wrapped:
  assumes "l \<in> set (wrap64 (b64encode der))"
  shows "pem_line (True, v, certs) (l @ [nl]) = (True, v @ l @ [nl], certs)"
proof -
  note l = wrapped_line[OF assms]
  obtain c k where c: "l = c # k" using l(1) by (cases l) auto
  have "\<not> startswith (l @ [nl]) ''#''" using alphabet_not[of c] l(2)[of c] by (simp add: c startswith_def)
  moreover have "strip (l @ [nl]) = l" using alphabet_not l by (intro strip_line) auto
  moreover have "\<not> contains (l @ [nl]) ''END CERTIFICATE''"
    using contains_set[of "l @ [nl]" "''END CERTIFICATE''"] l(2) alphabet_not[of "CHR '' ''"] by auto
  ultimately show ?thesis using l(1) by (simp add: pem_line_def)
qed

lemma fold_block: "set ws \<subseteq> set (wrap64 (b64encode der)) \<Longrightarrow> foldl pem_line (True, v, certs) (map (\<lambda>l. l @ [nl]) ws) = (True, v @ concat (map (\<lambda>l. l @ [nl]) ws), certs)"
proof (induction ws arbitrary: v)
  case (Cons w ws)
  then show ?case using pem_line_wrapped[of w der v certs] by simp
qed simp

lemma fold_pem:
  "\<exists>v. foldl pem_line (False, [], certs) (pem_block der) = (False, [], certs @ [v]) \<and> b64decode v = Inr der"
proof -
  let ?ws = "wrap64 (b64encode der)"
  let ?v = "concat (map (\<lambda>l. l @ [nl]) ?ws)"
  have first: "pem_line (False, [], certs) BEGIN_CERT = (True, [], certs)" by (simp add: pem_line_def BEGIN_CERT_def) code_simp
  have body: "foldl pem_line (True, [], certs) (pem_block_lines der) = (True, ?v, certs)"
  proof (cases "?ws = []")
    case True
    then show ?thesis by (simp add: pem_block_lines_def pem_line_def strip_def lstrip_def rstrip_def is_ws_def)
  next
    case False
    then show ?thesis using fold_block[of ?ws der "[]" certs] by (simp add: pem_block_lines_def Let_def)
  qed
  have end_cert: "contains (''-----END CERTIFICATE-----'' @ [nl]) ''END CERTIFICATE''" "\<not> startswith (''-----END CERTIFICATE-----'' @ [nl]) ''#''"
    "strip (''-----END CERTIFICATE-----'' @ [nl]) \<noteq> []" by code_simp+
  have "pem_line (True, ?v, certs) (''-----END CERTIFICATE-----'' @ [nl]) = (False, [], certs @ [?v])" using end_cert by (simp only: pem_line_def prod.case) simp
  then have "foldl pem_line (False, [], certs) (pem_block der) = (False, [], certs @ [?v])"
    by (simp only: pem_block_def foldl_append foldl_Cons foldl_Nil first body)
  note run = this
  have "filter b64_alphabet (concat (map (\<lambda>l. l @ [nl]) ws)) = concat ws" if "\<forall>l \<in> set ws. \<forall>c \<in> set l. b64_alphabet c" for ws
    using that alphabet_not[of nl] by (induction ws) auto
  then have "filter b64_alphabet ?v = b64encode der" using wrapped_line(2) by (metis concat_wrap64)
  moreover have "byte_of c < 128" if "c \<in> set ?v" for c
  proof (cases "c = nl")
    case False
    with that obtain l where "l \<in> set ?ws" "c \<in> set l" by (auto split: if_splits)
    then show ?thesis using wrapped_line(2) b64_alphabet_ASCII by blast
  qed simp
  ultimately have "b64decode ?v = Inr der" by (rule b64_reads_back)
  with run show ?thesis by blast
qed

text \<open>C34: What the split writes for certificates, one block after the other, the reader of the merge takes apart into the same bytes.\<close>

theorem pem_reads_back:
  assumes "\<forall>ob \<in> set obs. dget ob ''CKA_VALUE'' = Some (Oct (der ob))"
  shows "map b64decode (read_pem (concat (map (\<lambda>ob. fst (pieces (pem_pieces ob))) obs))) = map (\<lambda>ob. Inr (der ob)) obs"
proof -
  have joined: "concat (map (\<lambda>ob. fst (pieces (pem_pieces ob))) obs) = concat (concat (map (\<lambda>ob. pem_block (der ob)) obs))"
    using assms by (induction obs) (auto simp: pem_pieces_text)
  have "\<exists>k. l = k @ [nl] \<and> nl \<notin> set k \<and> cr \<notin> set k" if "l \<in> set (pem_block (der ob))" for l ob
    using that wrapped_line(2) alphabet_not by (fastforce simp: pem_block_def pem_block_lines_def BEGIN_CERT_def Let_def split: if_splits)
  then have lines: "text_lines (concat (concat (map (\<lambda>ob. pem_block (der ob)) obs))) = concat (map (\<lambda>ob. pem_block (der ob)) obs)"
    using text_lines_concat[of "concat (map (\<lambda>ob. pem_block (der ob)) obs)" "[]"] by simp
  have "\<exists>vs. foldl pem_line (False, [], certs) (concat (map (\<lambda>ob. pem_block (der ob)) os)) = (False, [], certs @ vs) \<and> map b64decode vs = map (\<lambda>ob. Inr (der ob)) os" for certs os
  proof (induction os arbitrary: certs)
    case (Cons ob os)
    obtain v where v: "foldl pem_line (False, [], certs) (pem_block (der ob)) = (False, [], certs @ [v])" "b64decode v = Inr (der ob)"
      using fold_pem[of certs "der ob"] by blast
    obtain vs where "foldl pem_line (False, [], certs @ [v]) (concat (map (\<lambda>ob. pem_block (der ob)) os)) = (False, [], (certs @ [v]) @ vs)" "map b64decode vs = map (\<lambda>ob. Inr (der ob)) os"
      using Cons.IH by blast
    then show ?case using v by (intro exI[of _ "v # vs"]) simp
  qed simp
  then obtain vs where "foldl pem_line (False, [], []) (concat (map (\<lambda>ob. pem_block (der ob)) obs)) = (False, [], [] @ vs)" "map b64decode vs = map (\<lambda>ob. Inr (der ob)) obs" by blast
  then show ?thesis by (simp add: read_pem_def joined lines)
qed

lemma pem_reads_back_witness:
  "map b64decode (read_pem (fst (pieces (pem_pieces [(''CKA_VALUE'', Oct [CHR 0x30, CHR 0x00])])))) = [Inr [CHR 0x30, CHR 0x00]]"
  using pem_reads_back[of "[[(''CKA_VALUE'', Oct [CHR 0x30, CHR 0x00])]]" "\<lambda>_. [CHR 0x30, CHR 0x00]"] by simp

subsection \<open>The extended key usage\<close>

fun unescape :: "string \<Rightarrow> string" where
  \<comment> \<open>as p11-kit reads a value: a percent sign and two hexadecimal digits are a byte\<close>
  "unescape (x # a # b # s) = (if x = CHR ''%'' then (case (hex_digit_val a, hex_digit_val b) of (Some m, Some n) \<Rightarrow> char_of (m * 16 + n) # unescape s
     | _ \<Rightarrow> x # unescape (a # b # s)) else x # unescape (a # b # s))"
| "unescape s = s"

definition tlv :: "string \<Rightarrow> (nat \<times> string \<times> string) option" where
  \<comment> \<open>tag, content and rest of a DER value with a length below 128\<close>
  "tlv s = (case s of t # n # r \<Rightarrow> if of_char n < (128 :: nat) \<and> of_char n \<le> length r then Some (of_char t, take (of_char n) r, drop (of_char n) r) else None | _ \<Rightarrow> None)"

fun tlvs :: "nat \<Rightarrow> string \<Rightarrow> (nat \<times> string) list option" where
  \<comment> \<open>the elements of a sequence; their number bounds the depth\<close>
  "tlvs 0 s = (if s = [] then Some [] else None)"
| "tlvs (Suc n) s = (if s = [] then Some [] else (case tlv s of None \<Rightarrow> None | Some (t, c, r) \<Rightarrow> map_option ((#) (t, c)) (tlvs n r)))"

definition sequence_of :: "string \<Rightarrow> (nat \<times> string) list option" where
  "sequence_of s = (case tlv s of Some (t, c, []) \<Rightarrow> if t = 0x30 then tlvs (length c) c else None | _ \<Rightarrow> None)"

definition usages :: "string \<Rightarrow> (string \<times> string list) option" where
  \<comment> \<open>the object identifier of an extension and those in its value, all as their DER content\<close>
  "usages s = (case sequence_of s of Some ((t, oid) # es) \<Rightarrow> (case last ((0, []) # es) of (t', v) \<Rightarrow>
       (case sequence_of v of Some us \<Rightarrow> if t = 6 \<and> t' = 4 \<and> list_all (\<lambda>(t, _). t = 6) us then Some (oid, map snd us) else None | None \<Rightarrow> None)) | _ \<Rightarrow> None)"

definition oid_bytes :: "nat list \<Rightarrow> string" where "oid_bytes ns = map char_of ns"

definition purpose_oids :: "(string \<times> string) list" where
  \<comment> \<open>\<open>serverAuth\<close>, \<open>emailProtection\<close>, \<open>codeSigning\<close>: 1.3.6.1.5.5.7.3.1, .4 and .3\<close>
  "purpose_oids = [(''CKA_TRUST_SERVER_AUTH'', oid_bytes [0x2B, 6, 1, 5, 5, 7, 3, 1]), (''CKA_TRUST_EMAIL_PROTECTION'', oid_bytes [0x2B, 6, 1, 5, 5, 7, 3, 4]),
     (''CKA_TRUST_CODE_SIGNING'', oid_bytes [0x2B, 6, 1, 5, 5, 7, 3, 3])]"

definition EKU_OID :: string where "EKU_OID = oid_bytes [0x55, 0x1D, 0x25]" \<comment> \<open>2.5.29.37\<close>
definition REJECT_OID :: string where "REJECT_OID = oid_bytes [0x2B, 6, 1, 4, 1, 0x99, 0x77, 6, 10, 1]" \<comment> \<open>1.3.6.1.4.1.3319.6.10.1\<close>
definition NO_USAGE_OID :: string where "NO_USAGE_OID = oid_bytes [0x2B, 6, 1, 4, 1, 0x99, 0x77, 6, 10, 0x10]" \<comment> \<open>1.3.6.1.4.1.3319.6.10.16\<close>

lemma usage_values:
  "usages (unescape (usage_value True True True)) = Some (EKU_OID, map (oid_bytes \<circ> (@) [0x2B, 6, 1, 5, 5, 7, 3]) [[4], [1], [3]])"
  "usages (unescape (usage_value True True False)) = Some (EKU_OID, map (oid_bytes \<circ> (@) [0x2B, 6, 1, 5, 5, 7, 3]) [[4], [1]])"
  "usages (unescape (usage_value True False True)) = Some (EKU_OID, map (oid_bytes \<circ> (@) [0x2B, 6, 1, 5, 5, 7, 3]) [[1], [3]])"
  "usages (unescape (usage_value True False False)) = Some (EKU_OID, map (oid_bytes \<circ> (@) [0x2B, 6, 1, 5, 5, 7, 3]) [[1]])"
  "usages (unescape (usage_value False True True)) = Some (EKU_OID, map (oid_bytes \<circ> (@) [0x2B, 6, 1, 5, 5, 7, 3]) [[4], [3]])"
  "usages (unescape (usage_value False True False)) = Some (EKU_OID, map (oid_bytes \<circ> (@) [0x2B, 6, 1, 5, 5, 7, 3]) [[4]])"
  "usages (unescape (usage_value False False True)) = Some (EKU_OID, map (oid_bytes \<circ> (@) [0x2B, 6, 1, 5, 5, 7, 3]) [[3]])"
  "usages (unescape (usage_value False False False)) = Some (EKU_OID, [NO_USAGE_OID])"
  by code_simp+

lemma reject_value: "usages (unescape DISTRUST_VALUE) = Some (REJECT_OID, map (oid_bytes \<circ> (@) [0x2B, 6, 1, 5, 5, 7, 3]) [[4], [1], [3]])"
  by code_simp

text \<open>C33: The extended key usage that is written for a trust object denotes exactly the purposes the object delegates, or the reserved identifier when
  it delegates none; the extension of a distrusted object rejects all three purposes.
\<close>

theorem usage_exact:
  "(\<exists>oids. usages (unescape (usage_of tobj)) = Some (EKU_OID, oids) \<and>
      set oids = (if has_trust tobj then snd ` set (filter (\<lambda>(t, _). says tobj DELEGATOR t) purpose_oids) else {NO_USAGE_OID})) \<and>
   (\<exists>oids. usages (unescape DISTRUST_VALUE) = Some (REJECT_OID, oids) \<and> set oids = snd ` set purpose_oids)"
proof
  show "\<exists>oids. usages (unescape (usage_of tobj)) = Some (EKU_OID, oids) \<and>
      set oids = (if has_trust tobj then snd ` set (filter (\<lambda>(t, _). says tobj DELEGATOR t) purpose_oids) else {NO_USAGE_OID})"
    by (cases "says tobj DELEGATOR ''CKA_TRUST_SERVER_AUTH''"; cases "says tobj DELEGATOR ''CKA_TRUST_EMAIL_PROTECTION''"; cases "says tobj DELEGATOR ''CKA_TRUST_CODE_SIGNING''")
      (auto simp: usage_of_def usage_values has_trust_def purpose_oids_def)
  show "\<exists>oids. usages (unescape DISTRUST_VALUE) = Some (REJECT_OID, oids) \<and> set oids = snd ` set purpose_oids"
    by (auto simp: reject_value purpose_oids_def)
qed

end
