(* ===== verification/Spec2Isabelle.thy ===== *)
theory Spec2Isabelle
  imports Dist_Git_Main Nevr_Check Version_Check Modification_Check Resources Konflux_Gate Upstream_Diff Cve_Writes Bundled_Maven Import_Split Pyproject_Listing Pyproject_Requires Pyproject_Patch Certdata_Roundtrip Certdata_Grants Certdata_Files
begin

text \<open>
  Verification of the Python tooling of the RPM monorepo: the scripts under \<open>ci/\<close> that import packages from
  upstream dist-git, keep them up to date, decide whether a build may be released and gate merge requests.

  \<^bold>\<open>The program.\<close> The repository holds one directory per package under \<open>rpms/\<close>, one record per package
  under \<open>metadata/\<close> and a few configuration files (\<open>package-overrides.yaml\<close>, \<open>upstream-releases.json\<close>,
  \<open>konflux_rpa_config.yml\<close>). \<open>dist_git.py\<close> is the command line that imports, updates (with a merge of local
  modifications), rebuilds, renames and lists packages; \<open>check_upstream_versions.py\<close> asks
  release-monitoring.org and GitLab for newer versions and applies them; \<open>check_nevr_conflicts.py\<close> predicts
  what a merge request would build and compares it with what is published; \<open>validate_package_modifications.py\<close>
  compares the recorded modification status with the git history; \<open>generate_resources.py\<close> writes the pipeline
  and release configuration; \<open>check_konflux_statuses.py\<close> and \<open>delete_konflux_comments.py\<close> talk to GitLab about
  one commit; \<open>upstream_diff.py\<close> keeps the cache of classified differences. They share the checkout and the
  helpers of \<open>dist_git.py\<close>, and talk to each other through files and through git commits. The tools under
  \<open>.cursor/skills/cve\<close> help with security tickets: they read Jira issues, compare versions with affected ranges and
  write comments, the build that fixes an issue, or a bumped release. Some packages bring a generator,
  \<open>generate-bundled-npm-provides.py\<close> or \<open>generate-bundled-maven-provides.py\<close>, that rewrites the list of bundled
  libraries in their spec file from the lock files of a release. The package \<open>pyproject-rpm-macros\<close> holds the scripts behind
  the macros that build Python packages: \<open>pyproject_buildrequires.py\<close> gathers what a project needs and writes it as RPM
  dependencies, \<open>pyproject_save_files.py\<close> turns the record of an installation into a file list. The package
  \<open>ca-certificates\<close> makes the trust store: \<open>mergepem2certdata.py\<close> merges certificates into Mozilla's list, \<open>certdata2pem.py\<close> splits it.

  \<^bold>\<open>The model.\<close> \<open>Py_Prelude\<close> has the parts of Python's built-in types that are used, \<open>Py_Regex\<close> a backtracking
  matcher for its regular expressions, \<open>Py_World\<close> the state: a record of the files, the trace of every question
  asked of the outside, the environment and the globals of \<open>dist_git.py\<close>. A script is a function of that state
  that returns a value or an exception and the state as it left it; exceptions are the datatype \<open>exn\<close>, each
  \<open>except\<close> clause a predicate on it. Programs, web services, Koji, the clock and the terminal are one parameter,
  the host, which may answer anything that the trace so far, the question and the files determine, and may change
  the files; theorems quantify over all hosts unless a hypothesis says otherwise. The libraries the scripts call
  (\<open>specfile\<close>, \<open>yaml\<close>, \<open>packaging.Version\<close>, \<open>rpm\<close>, \<open>hashlib\<close>, Jinja2) are the fields of \<open>pylib\<close> or arguments.
  \<open>Run_Rules\<close> has the proof rules for what a run may do and how it may fail.

  \<^bold>\<open>Theories and code.\<close> Definitions keep the name of the function they translate; a long function is split into
  definitions named after its steps, and the definition with the function's name composes them in its order.

    \<^item> \<open>Sources_File\<close>: the \<open>sources\<close> file (\<open>_parse_sources_file\<close>, \<open>_write_sources_file\<close>).

    \<^item> \<open>Versions\<close>: \<open>is_prerelease\<close>, \<open>compare_versions\<close>, \<open>_matches_track_version\<close>, version transforms.

    \<^item> \<open>Host_Calls\<close>: \<open>run_git\<close>, \<open>call_koji_with_retry\<close>, MDAPI and Anitya look-ups, the paths of the checkout.

    \<^item> \<open>Release_Bump\<close>, \<open>Dist_Tags\<close>, \<open>Yaml_Blocks\<close>, \<open>Package_Metadata\<close>: spec file releases, branches and Koji builds,
      line-wise YAML edits and \<open>rename\<close>, package records with import, mark, list and diff, all of \<open>dist_git.py\<close>.

    \<^item> \<open>Source_Update\<close>, \<open>Upstream_Query\<close>, \<open>Version_Check\<close>: \<open>check_upstream_versions.py\<close>, from uploads and gorget
      to queries and the command.

    \<^item> \<open>Dist_Git_Update\<close>: merge, gorget re-run, \<open>update\<close> and \<open>continue_update\<close>.

    \<^item> \<open>Rebuild\<close>, \<open>Private_Product\<close>, \<open>Dist_Git_Main\<close>: the remaining commands of \<open>dist_git.py\<close> and its \<open>main\<close>.

    \<^item> \<open>Nevr_Check\<close>, \<open>Modification_Check\<close>, \<open>Resources\<close>, \<open>Konflux_Gate\<close>, \<open>Upstream_Diff\<close>: the scripts
      \<open>check_nevr_conflicts.py\<close>, \<open>validate_package_modifications.py\<close>, \<open>generate_resources.py\<close>,
      \<open>check_konflux_statuses.py\<close> with \<open>delete_konflux_comments.py\<close>, and \<open>upstream_diff.py\<close>.

    \<^item> \<open>Cve_Spec\<close>, \<open>Cve_Tickets\<close>: \<open>lib/spec.py\<close> and \<open>lib/models.py\<close> with the parsing functions of \<open>lib/jira.py\<close> and
      \<open>lib/utils.py\<close>, all of the CVE tools under \<open>.cursor/skills/cve\<close>.

    \<^item> \<open>Cve_Jira\<close>, \<open>Cve_Comments\<close>, \<open>Cve_Vcs\<close>, \<open>Cve_Sbom\<close>: credentials (\<open>cve_analysis_bridge.py\<close>) and \<open>lib/jira.py\<close>
      with its calls of \<open>rhjira\<close> and writes, \<open>lib/comments.py\<close>, \<open>lib/vcs.py\<close>, \<open>lib/sbom.py\<close>.

    \<^item> \<open>Cve_Dates\<close>, \<open>Cve_Log\<close>: the dates of \<open>lib/vcs.py\<close> with the command \<open>upstream-fix-age\<close>, and \<open>lib/log.py\<close>,
      the export of agent sessions.

    \<^item> \<open>Cve_Helper\<close>: \<open>lib/investigate.py\<close>, \<open>lib/output.py\<close> and the commands of \<open>cve_helper.py\<close>; \<open>Cve_Safety\<close> and
      \<open>Cve_Writes\<close> hold the rules the commands keep.

    \<^item> \<open>Worklist\<close>, \<open>Bundled_Block\<close>, \<open>Bundled_Npm\<close>, \<open>Bundled_Scripts\<close>, \<open>Bundled_Maven\<close>: the generators of bundled
      Provides, from the closure loop and the generated block to their \<open>main\<close> functions.

    \<^item> \<open>Import_Split\<close>: \<open>split_import_json.py\<close>.

    \<^item> \<open>Py_Paths\<close>, \<open>Pyproject_Files\<close>, \<open>Pyproject_Save\<close>, \<open>Pyproject_Listing\<close>: paths and shell patterns, then
      \<open>pyproject_save_files.py\<close>: the classification and the lines, the command, and what the list holds.

    \<^item> \<open>Pyproject_Specs\<close>, \<open>Pyproject_Requirements\<close>, \<open>Pyproject_Txt\<close>, \<open>Pyproject_Groups\<close>, \<open>Pyproject_Requires\<close>, \<open>Pyproject_Patch\<close>:
      \<open>pyproject_dependency_overrides.py\<close> with \<open>pyproject_convert.py\<close>, the class \<open>Requirements\<close>, requirements files with the
      settings of \<open>pyproject_wheel.py\<close>, dependency groups, and the rest of \<open>pyproject_buildrequires.py\<close>, whose programs carry the record
      \<open>reqs\<close> of what was gathered; then \<open>pyproject_preprocess_record.py\<close> and \<open>pyproject_patch_metadata.py\<close>.

    \<^item> \<open>Certdata\<close>, \<open>Certdata_Merge\<close>, \<open>Certdata_Pem\<close>: the objects of \<open>certdata.txt\<close> (dictionaries of texts and bytes) with the parsers of both
      scripts of \<open>ca-certificates\<close>, then the rest of \<open>mergepem2certdata.py\<close> and of \<open>certdata2pem.py\<close>; \<open>Certdata_Roundtrip\<close>, \<open>Certdata_Grants\<close>,
      \<open>Certdata_Files\<close>: what they keep. \<open>Py_Base64\<close> and \<open>Py_Calendar\<close> hold base 64 and moments.

  \<^bold>\<open>What is shown.\<close> Safety of what leaves the checkout: an update that needs a human is never committed and leaves
  its state for \<open>--continue\<close>, no command commits in a dry run, sources of a private package never reach the public
  bucket, the \<open>sources\<close> file after a gorget run is the one gorget left, a release-check is positive only on answers of every repository, an update goes ahead only on a complete Koji build
  of that very name, version and release under an admissible tag, made from the imported commit, a package that passes the validation is marked as its git history says, packages are released by exactly the admissions of their product. Outcome of loops over
  packages: a multi-package rebuild refines its step relation and reports exactly the failures, updates end
  committed or undone with their error recorded, and what ends their loop early is characterised, the approval gate ends within its time-out. Round trips and invariants of the files: the
  sources file, sorted YAML keys, the diff cache, gitignore and release numbering. Writes to Jira: reading
  commands and previews call no writing function, a ticket is commented on before its state changes by every command
  except \<open>set-fib\<close>, which writes one field of its ticket and no comment, a build is named
  only when Pulp lists it. Export of sessions: a locked database ends it, against its own comment. Dates of fixes: what is printed reads back, a date without an offset as UTC, and the verdict is the order of the
  calendar. Generated Provides: the closure of a lock file ends and holds exactly what can be reached, a generator
  changes one spec file between its markers or nothing. Python packages: the file list of an installation loses no file and
  takes no directory of others, nor the byte code next to a module in a site directory, RPM reads an escaped path back, no requirement is forgotten and no code of a build backend runs before
  what it needs, also what it names itself, is there, overrides only relax, \<open>~=\<close> and dependency groups mean what the standards say. Certificates: a merge grants one purpose and
  nothing else; each certificate that is merged has expired, is trusted in what is written, or is one of the two kinds that are lost (granted in a
  trust object that was removed, name taken by another); what is written is read back unchanged; the usages that are written are those that were granted. Errors: which failures escape a
  handler that means to catch them, and which are mistaken for empty answers. The interfaces are locales:
  \<open>line_codec\<close> (a line printer and its parser), \<open>three_way\<close> (comparison), \<open>bounded_retry\<close> (a retry loop),
  \<open>evr_source\<close> (a repository query that says when it failed), \<open>trace_discipline\<close> (a rule on
  lists of events that runs in sequence keep), \<open>worklist\<close> (a stack whose entries expand within a finite set),
  \<open>covering\<close> (a fold whose steps only add and cover their element); each is interpreted on the code's own definitions.

  \<^bold>\<open>Bounds.\<close> Two loops follow answers of a server and carry fuel. The tag query of \<open>Upstream_Query\<close> needs 6 when the
  pages the server names only go forward, and no bound suffices when they do not; the poll loop of \<open>Konflux_Gate\<close>
  needs \<open>timeout div interval + 2\<close> when the clock advances by the interval. Running out of fuel is an
  exception of its own, \<open>OutOfFuel\<close>, which no handler of the code catches. The closure loop \<open>drain\<close> of \<open>Worklist\<close>
  may run for ever on an unbounded graph and is a partial function; on lock files it returns, by the locale \<open>worklist\<close>.
  Requirements files that include each other are followed for one level more than there are files, which any that do not
  repeat stay below; beyond that the code ends in a \<open>RecursionError\<close>. Adding requirements recurs on those left and those put aside
  together. The search for a free label of \<open>addObj\<close> ends, because
  the candidates differ and finitely many are taken. All other loops are recursion with a measure on their input.

  \<^bold>\<open>Not modelled.\<close> Argument parsing (\<open>argparse\<close>, whose reading of optional positional arguments depends on the
  version of Python: the parsed arguments are records or datatypes), log messages, file
  modes and symbolic links, text encodings (text is a list of bytes; reading a text file line by line ends lines at LF, CR and CR LF, as
  Python's universal newlines do), the transport of Koji calls
  (\<open>KojiTransport\<close>, proxies and certificates), the thread pool (validations run one after the other, the order in
  which they complete is a parameter). Shell scripts, templates, CI
  configuration and the tests are not Python code of the tools; Python files under \<open>rpms/\<close> other than
  the generators and the scripts of \<open>pyproject-rpm-macros\<close> and \<open>ca-certificates\<close> named above belong to the packaged software. What \<open>packaging\<close>,
  \<open>importlib.metadata\<close>, \<open>tomllib\<close>, \<open>cryptography\<close>, \<open>dateutil\<close>, a build backend and pip answer is a parameter or the host's. YAML, JSON, Python literals, tar and zip archives and SHA-256 are
  parameters of the generators. Of the CVE tools, what the package \<open>hummingbird_cve_analysis\<close>, SQLite and the file times answer is the
  host's; \<open>datetime.fromisoformat\<close> outside the extended form, \<open>json.loads\<close> of stored texts and the order of Python sets
  are parameters.
\<close>

end
